(* ===== verification/Prelude.thy ===== *)
theory Prelude
  imports Main "HOL-Library.Char_ord" "HOL-Library.List_Lexorder" "HOL-Library.Sublist"
begin

text \<open>
  Shared vocabulary of the development.

  Rust strings are modelled by their UTF-8 bytes (\<^typ>\<open>string\<close> is a list of 8-bit characters), so
  \<open>str::len\<close> is \<^const>\<open>length\<close> and byte-level patterns are list operations; \<open>str::chars\<close> decodes.
  \<open>Check<T>\<close>, that is \<open>Result<T, &'static str>\<close>, is \<open>string + 'a\<close> with the error code on the
  left. A Rust block of statements \<open>f(x)?;\<close> is a list of checks of which the first error wins.
  \<open>i64\<close> values are integers and their subtraction wraps at 64 bits, as the release profile does.
\<close>

section \<open>Results and the question mark operator\<close>

named_theorems check_simps \<open>characterisations of successful checks\<close>

type_synonym 'a check = "string + 'a"

definition reject :: "bool \<Rightarrow> string \<Rightarrow> unit check" where
  "reject b e = (if b then Inl e else Inr ())"

fun checks :: "unit check list \<Rightarrow> unit check" where
  "checks [] = Inr ()"
| "checks (c # cs) = (case c of Inl e \<Rightarrow> Inl e | Inr _ \<Rightarrow> checks cs)"

definition check_opt :: "('a \<Rightarrow> unit check) \<Rightarrow> 'a option \<Rightarrow> unit check" where
  "check_opt f x = (case x of None \<Rightarrow> Inr () | Some v \<Rightarrow> f v)"

definition check_all :: "('a \<Rightarrow> unit check) \<Rightarrow> 'a list \<Rightarrow> unit check" where
  "check_all f xs = checks (map f xs)"

definition bind_check :: "'e + 'a \<Rightarrow> ('a \<Rightarrow> 'e + 'b) \<Rightarrow> 'e + 'b" where
  "bind_check m f = (case m of Inl e \<Rightarrow> Inl e | Inr x \<Rightarrow> f x)"

definition ok_or :: "'a option \<Rightarrow> string \<Rightarrow> 'a check" where
  "ok_or x e = (case x of None \<Rightarrow> Inl e | Some v \<Rightarrow> Inr v)"

lemma checks_step [simp]: "checks (Inl e # cs) = Inl e" "checks (Inr u # cs) = checks cs"
  by simp_all

declare checks.simps(2) [simp del]

lemma reject_ok [check_simps, simp]: "reject b e = Inr u \<longleftrightarrow> \<not> b"
  by (simp add: reject_def)

lemma reject_err [check_simps, simp]: "reject b e = Inl d \<longleftrightarrow> b \<and> d = e"
  by (auto simp: reject_def)

lemma reject_simps [simp]: "reject False e = Inr ()" "reject True e = Inl e"
  by (simp_all add: reject_def)

lemma checks_Cons_ok [check_simps]: "checks (c # cs) = Inr u \<longleftrightarrow> c = Inr () \<and> checks cs = Inr ()"
  by (cases c) auto

lemma checks_Cons_err:
  "checks (c # cs) = Inl e \<longleftrightarrow> c = Inl e \<or> (c = Inr () \<and> checks cs = Inl e)"
  by (cases c) auto

lemma checks_Nil_ok [check_simps]: "checks [] = Inr u"
  by simp

lemma checks_append:
  "checks (xs @ ys) = (case checks xs of Inl e \<Rightarrow> Inl e | Inr _ \<Rightarrow> checks ys)"
  by (induction xs) (auto simp: checks.simps(2) split: sum.splits)

lemma checks_append_ok [check_simps]:
  "checks (xs @ ys) = Inr u \<longleftrightarrow> checks xs = Inr () \<and> checks ys = Inr ()"
  by (auto simp: checks_append split: sum.splits)

lemma checks_ok_iff: "checks cs = Inr u \<longleftrightarrow> (\<forall>c \<in> set cs. c = Inr ())"
  by (induction cs) (auto simp: checks_Cons_ok)

lemma checks_error_member: "checks cs = Inl e \<Longrightarrow> Inl e \<in> set cs"
  by (induction cs) (auto simp: checks_Cons_err)

text \<open>The error of a statement list is the error of its first failing statement.\<close>

lemma checks_first_error:
  "checks cs = Inl e \<longleftrightarrow> (\<exists>pre post. cs = pre @ Inl e # post \<and> checks pre = Inr ())"
proof
  show "checks cs = Inl e \<Longrightarrow> \<exists>pre post. cs = pre @ Inl e # post \<and> checks pre = Inr ()"
  proof (induction cs)
    case (Cons c cs)
    show ?case
    proof (cases c)
      case (Inl d)
      with Cons.prems show ?thesis by (intro exI[of _ "[]"] exI[of _ cs]) simp
    next
      case (Inr u)
      with Cons.prems Cons.IH obtain pre post
        where "cs = pre @ Inl e # post" "checks pre = Inr ()" by auto
      with Inr show ?thesis by (intro exI[of _ "c # pre"] exI[of _ post]) simp
    qed
  qed simp
qed (auto simp: checks_append)

lemma check_opt_ok [check_simps]:
  "check_opt f x = Inr u \<longleftrightarrow> (\<forall>v. x = Some v \<longrightarrow> f v = Inr ())"
  by (cases x) (auto simp: check_opt_def)

lemma check_opt_simps [simp]: "check_opt f None = Inr ()" "check_opt f (Some v) = f v"
  by (simp_all add: check_opt_def)

lemma check_all_ok [check_simps]: "check_all f xs = Inr u \<longleftrightarrow> (\<forall>x \<in> set xs. f x = Inr ())"
  by (auto simp: check_all_def checks_ok_iff)

lemma check_all_simps [simp]:
  "check_all f [] = Inr ()"
  "check_all f (x # xs) = (case f x of Inl e \<Rightarrow> Inl e | Inr _ \<Rightarrow> check_all f xs)"
  by (simp_all add: check_all_def checks.simps(2) split: sum.split)

lemma bind_check_ok [check_simps]:
  "bind_check m f = Inr y \<longleftrightarrow> (\<exists>x. m = Inr x \<and> f x = Inr y)"
  by (cases m) (auto simp: bind_check_def)

lemma bind_check_err:
  "bind_check m f = Inl e \<longleftrightarrow> m = Inl e \<or> (\<exists>x. m = Inr x \<and> f x = Inl e)"
  by (cases m) (auto simp: bind_check_def)

lemma bind_check_simps [simp]:
  "bind_check (Inl e) f = Inl e" "bind_check (Inr x) f = f x"
  by (simp_all add: bind_check_def)

lemma ok_or_ok [check_simps]: "ok_or x e = Inr v \<longleftrightarrow> x = Some v"
  by (cases x) (auto simp: ok_or_def)

lemma ok_or_simps [simp]: "ok_or None e = Inl e" "ok_or (Some v) e = Inr v"
  by (simp_all add: ok_or_def)

text \<open>A loop that collects the results of a fallible step and stops at the first error.\<close>

fun each :: "('a \<Rightarrow> 'b check) \<Rightarrow> 'a list \<Rightarrow> 'b list check" where
  "each f [] = Inr []"
| "each f (x # xs) = bind_check (f x) (\<lambda>y. bind_check (each f xs) (\<lambda>ys. Inr (y # ys)))"

lemma each_list_all2: "each f xs = Inr ys \<longleftrightarrow> list_all2 (\<lambda>x y. f x = Inr y) xs ys"
  by (induction xs arbitrary: ys) (auto simp: bind_check_ok list_all2_Cons1)

section \<open>Machine integers\<close>

text \<open>Two's complement wrap-around of a 64-bit signed result (release profile, no overflow checks).\<close>

definition wrap_i64 :: "int \<Rightarrow> int" where
  "wrap_i64 x = (x + 2 ^ 63) mod 2 ^ 64 - 2 ^ 63"

definition sub_i64 :: "int \<Rightarrow> int \<Rightarrow> int" where
  "sub_i64 a b = wrap_i64 (a - b)"

definition in_i64 :: "int \<Rightarrow> bool" where
  "in_i64 x \<longleftrightarrow> - (2 ^ 63) \<le> x \<and> x < 2 ^ 63"

lemma wrap_i64_range: "in_i64 (wrap_i64 x)"
proof -
  have "0 \<le> (x + 2 ^ 63) mod 2 ^ 64" "(x + 2 ^ 63) mod 2 ^ 64 < (2 :: int) ^ 64"
    by simp_all
  then show ?thesis by (simp add: in_i64_def wrap_i64_def)
qed

lemma wrap_i64_exact [simp]: "in_i64 x \<Longrightarrow> wrap_i64 x = x"
  by (simp add: in_i64_def wrap_i64_def)

lemma sub_i64_exact: "in_i64 (a - b) \<Longrightarrow> sub_i64 a b = a - b"
  by (simp add: sub_i64_def)

section \<open>Bytes of Rust strings\<close>

abbreviation byte :: "char \<Rightarrow> nat" where
  "byte c \<equiv> of_char c"

definition is_ascii_digit :: "char \<Rightarrow> bool" where
  "is_ascii_digit c \<longleftrightarrow> 48 \<le> byte c \<and> byte c \<le> 57"

definition is_ascii_uppercase :: "char \<Rightarrow> bool" where
  "is_ascii_uppercase c \<longleftrightarrow> 65 \<le> byte c \<and> byte c \<le> 90"

definition is_ascii_lowercase :: "char \<Rightarrow> bool" where
  "is_ascii_lowercase c \<longleftrightarrow> 97 \<le> byte c \<and> byte c \<le> 122"

definition is_ascii_alphanumeric :: "char \<Rightarrow> bool" where
  "is_ascii_alphanumeric c \<longleftrightarrow> is_ascii_uppercase c \<or> is_ascii_lowercase c \<or> is_ascii_digit c"

definition is_ascii_hexdigit :: "char \<Rightarrow> bool" where
  "is_ascii_hexdigit c \<longleftrightarrow> is_ascii_digit c \<or> (65 \<le> byte c \<and> byte c \<le> 70) \<or> (97 \<le> byte c \<and> byte c \<le> 102)"

definition ascii_lower :: "char \<Rightarrow> char" where
  "ascii_lower c = (if is_ascii_uppercase c then char_of (byte c + 32) else c)"

definition to_ascii_lowercase :: "string \<Rightarrow> string" where
  "to_ascii_lowercase s = map ascii_lower s"

definition eq_ignore_ascii_case :: "string \<Rightarrow> string \<Rightarrow> bool" where
  "eq_ignore_ascii_case a b \<longleftrightarrow> to_ascii_lowercase a = to_ascii_lowercase b"

lemmas ascii_class_defs = is_ascii_digit_def is_ascii_uppercase_def is_ascii_lowercase_def
  is_ascii_alphanumeric_def is_ascii_hexdigit_def

lemma ascii_lower_idem [simp]: "ascii_lower (ascii_lower c) = ascii_lower c"
  by (auto simp: ascii_lower_def is_ascii_uppercase_def)

lemma to_ascii_lowercase_idem [simp]:
  "to_ascii_lowercase (to_ascii_lowercase s) = to_ascii_lowercase s"
  by (simp add: to_ascii_lowercase_def comp_def)

lemma length_to_ascii_lowercase [simp]: "length (to_ascii_lowercase s) = length s"
  by (simp add: to_ascii_lowercase_def)

lemma eq_ignore_ascii_case_refl [simp]: "eq_ignore_ascii_case a a"
  by (simp add: eq_ignore_ascii_case_def)

section \<open>Searching and splitting\<close>

fun str_contains :: "string \<Rightarrow> string \<Rightarrow> bool" where
  "str_contains [] p \<longleftrightarrow> p = []"
| "str_contains (c # s) p \<longleftrightarrow> prefix p (c # s) \<or> str_contains s p"

fun split_on :: "(char \<Rightarrow> bool) \<Rightarrow> string \<Rightarrow> string list" where
  "split_on P [] = [[]]"
| "split_on P (c # cs) =
     (if P c then [] # split_on P cs
      else (case split_on P cs of [] \<Rightarrow> [[c]] | x # xs \<Rightarrow> (c # x) # xs))"

definition split_char :: "char \<Rightarrow> string \<Rightarrow> string list" where
  "split_char c s = split_on (\<lambda>x. x = c) s"

text \<open>\<open>str::split_once\<close>: the text before and after the first occurrence of the separator.\<close>

fun split_once :: "string \<Rightarrow> string \<Rightarrow> (string \<times> string) option" where
  "split_once p [] = (if p = [] then Some ([], []) else None)"
| "split_once p (c # s) =
     (if prefix p (c # s) then Some ([], drop (length p) (c # s))
      else map_option (\<lambda>(a, b). (c # a, b)) (split_once p s))"

lemma str_contains_sublist: "str_contains s p \<longleftrightarrow> sublist p s"
  by (induction s) (auto simp: sublist_Cons_right)

lemma str_contains_append: "str_contains s p \<Longrightarrow> str_contains (a @ s @ b) p"
  by (auto simp: str_contains_sublist sublist_def) (metis append.assoc)

lemma split_on_not_Nil [simp]: "split_on P s \<noteq> []"
  by (induction s) (auto split: list.splits)

lemma split_on_pieces: "x \<in> set (split_on P s) \<Longrightarrow> c \<in> set x \<Longrightarrow> c \<in> set s \<and> \<not> P c"
  by (induction s arbitrary: x) (auto split: list.splits if_splits, fastforce+)

lemma split_on_no_sep: "(\<forall>c \<in> set s. \<not> P c) \<Longrightarrow> split_on P s = [s]"
  by (induction s) auto

lemma split_on_append_sep:
  "P c \<Longrightarrow> split_on P (a @ c # b) = split_on P a @ split_on P b"
proof (induction a)
  case (Cons x a)
  then show ?case
    by (cases "split_on P a") auto
qed simp

text \<open>Joining the pieces of a split with the separator gives the text back.\<close>

lemma split_char_join: "concat (map (\<lambda>x. c # x) (split_char c s)) = c # s"
proof (induction s)
  case (Cons x s)
  then show ?case
    by (cases "split_on (\<lambda>x. x = c) s") (auto simp: split_char_def)
qed (simp add: split_char_def)

lemma split_once_Some:
  "split_once p s = Some (a, b) \<Longrightarrow> s = a @ p @ b"
proof (induction s arbitrary: a b)
  case (Cons c s)
  then show ?case
    by (auto split: if_splits simp: prefix_def)
qed (auto split: if_splits)

lemma split_once_None: "split_once p s = None \<longleftrightarrow> \<not> str_contains s p"
  by (induction s) auto

section \<open>Characters of a UTF-8 string\<close>

definition is_continuation :: "char \<Rightarrow> bool" where
  "is_continuation c \<longleftrightarrow> 128 \<le> byte c \<and> byte c < 192"

function utf8_split :: "string \<Rightarrow> string list" where
  "utf8_split [] = []"
| "utf8_split (c # cs) = (c # takeWhile is_continuation cs) # utf8_split (dropWhile is_continuation cs)"
  by pat_completeness auto
termination
  by (relation "measure length") (auto simp: le_imp_less_Suc length_dropWhile_le)

fun scalar :: "string \<Rightarrow> nat" where
  "scalar [a] = byte a"
| "scalar [a, b] = (byte a mod 32) * 64 + byte b mod 64"
| "scalar [a, b, c] = (byte a mod 16) * 4096 + (byte b mod 64) * 64 + byte c mod 64"
| "scalar [a, b, c, d] =
     (byte a mod 8) * 262144 + (byte b mod 64) * 4096 + (byte c mod 64) * 64 + byte d mod 64"
| "scalar _ = 65533"

definition chars :: "string \<Rightarrow> nat list" where
  "chars s = map scalar (utf8_split s)"

definition is_control :: "nat \<Rightarrow> bool" where
  "is_control u \<longleftrightarrow> u < 32 \<or> (127 \<le> u \<and> u < 160)"

definition is_whitespace :: "nat \<Rightarrow> bool" where
  "is_whitespace u \<longleftrightarrow> (9 \<le> u \<and> u \<le> 13) \<or> (8192 \<le> u \<and> u \<le> 8202)
     \<or> u \<in> set [32, 133, 160, 5760, 8232, 8233, 8239, 8287, 12288]"

definition trim :: "string \<Rightarrow> string" where
  "trim s = concat (rev (dropWhile (\<lambda>k. is_whitespace (scalar k))
     (rev (dropWhile (\<lambda>k. is_whitespace (scalar k)) (utf8_split s)))))"

definition is_ascii :: "char \<Rightarrow> bool" where
  "is_ascii c \<longleftrightarrow> byte c < 128"

lemma utf8_split_concat [simp]: "concat (utf8_split s) = s"
  by (induction s rule: utf8_split.induct) auto

lemma utf8_split_ascii: "list_all is_ascii s \<Longrightarrow> utf8_split s = map (\<lambda>c. [c]) s"
proof (induction s)
  case (Cons c s)
  then have "takeWhile is_continuation s = []" "dropWhile is_continuation s = s"
    by (cases s; simp add: is_continuation_def is_ascii_def)+
  with Cons show ?case by simp
qed simp

lemma chars_ascii: "list_all is_ascii s \<Longrightarrow> chars s = map byte s"
  by (simp add: chars_def utf8_split_ascii comp_def)

lemma trim_Nil [simp]: "trim [] = []"
  by (simp add: trim_def)

lemma trim_empty_iff: "trim s = [] \<longleftrightarrow> list_all is_whitespace (chars s)"
proof -
  define w where "w = (\<lambda>k. is_whitespace (scalar k))"
  define ks where "ks = dropWhile w (utf8_split s)"
  have ne: "[] \<notin> set (utf8_split s)"
    by (induction s rule: utf8_split.induct) auto
  have "[] \<notin> set ks"
    unfolding ks_def using ne by (metis set_dropWhileD)
  then have r: "[] \<notin> set (rev (dropWhile w (rev ks)))"
    by (metis set_dropWhileD set_rev)
  have concat_empty: "[] \<notin> set xss \<Longrightarrow> concat xss = [] \<longleftrightarrow> xss = []" for xss :: "string list"
    by (cases xss) auto
  have "trim s = [] \<longleftrightarrow> rev (dropWhile w (rev ks)) = []"
    using concat_empty[OF r] by (simp only: trim_def w_def ks_def)
  also have "\<dots> \<longleftrightarrow> (\<forall>k \<in> set ks. w k)"
    by (simp add: dropWhile_eq_Nil_conv)
  also have "\<dots> \<longleftrightarrow> ks = []"
  proof -
    have "ks \<noteq> [] \<Longrightarrow> \<not> w (hd ks)" unfolding ks_def by (rule hd_dropWhile)
    then show ?thesis by (cases ks) auto
  qed
  finally show ?thesis
    by (simp add: ks_def w_def chars_def list_all_iff dropWhile_eq_Nil_conv)
qed

section \<open>Ordered collections\<close>

text \<open>
  A \<open>BTreeSet\<close> that is filled by insertions and then iterated: the elements in ascending order,
  each once. \<open>String\<close> is ordered by its bytes, lexicographically.
\<close>

definition btree_set :: "'a::linorder list \<Rightarrow> 'a list" where
  "btree_set xs = sort (remdups xs)"

lemma btree_set_simps [simp]:
  "set (btree_set xs) = set xs" "sorted (btree_set xs)" "distinct (btree_set xs)"
  by (simp_all add: btree_set_def)

lemma btree_set_Nil [simp]: "btree_set xs = [] \<longleftrightarrow> xs = []"
  by (metis btree_set_simps(1) set_empty2)

lemma btree_set_unique: "set xs = set ys \<Longrightarrow> btree_set xs = btree_set ys"
  by (metis btree_set_simps sorted_distinct_set_unique)

section \<open>Decimal numbers\<close>

definition digits_value :: "string \<Rightarrow> nat" where
  "digits_value s = foldl (\<lambda>a c. 10 * a + (byte c - 48)) 0 s"

definition parse_digits :: "string \<Rightarrow> nat option" where
  "parse_digits s = (if s \<noteq> [] \<and> list_all is_ascii_digit s then Some (digits_value s) else None)"

fun show_nat :: "nat \<Rightarrow> string" where
  "show_nat n = (if n < 10 then [char_of (48 + n)] else show_nat (n div 10) @ [char_of (48 + n mod 10)])"

declare show_nat.simps [simp del]

definition show_int :: "int \<Rightarrow> string" where
  "show_int i = (if i < 0 then CHR ''-'' # show_nat (nat (- i)) else show_nat (nat i))"

text \<open>\<open>str::parse\<close> at a signed type with the given range: an optional sign, then digits.\<close>

definition parse_signed :: "int \<Rightarrow> int \<Rightarrow> string \<Rightarrow> int option" where
  "parse_signed lo hi s =
     (let (neg, t) = (case s of [] \<Rightarrow> (False, [])
                      | c # t \<Rightarrow> if c = CHR ''-'' then (True, t)
                                else if c = CHR ''+'' then (False, t) else (False, s))
      in case parse_digits t of None \<Rightarrow> None
         | Some n \<Rightarrow> (let v = (if neg then - int n else int n)
                     in if lo \<le> v \<and> v \<le> hi then Some v else None))"

definition parse_i64 :: "string \<Rightarrow> int option" where
  "parse_i64 = parse_signed (- (2 ^ 63)) (2 ^ 63 - 1)"

lemma digits_value_snoc [simp]: "digits_value (s @ [c]) = 10 * digits_value s + (byte c - 48)"
  by (simp add: digits_value_def)

lemma digits_value_Nil [simp]: "digits_value [] = 0"
  by (simp add: digits_value_def)

lemma byte_digit [simp]: "(n :: nat) < 10 \<Longrightarrow> byte (char_of (48 + n)) = 48 + n"
  by simp

lemma is_ascii_digit_char_of [simp]: "(n :: nat) < 10 \<Longrightarrow> is_ascii_digit (char_of (48 + n))"
  by (simp add: is_ascii_digit_def)

lemma show_nat_digits: "list_all is_ascii_digit (show_nat n) \<and> show_nat n \<noteq> []"
proof (induction n rule: show_nat.induct)
  case (1 n)
  then show ?case by (subst (1 2) show_nat.simps) auto
qed

lemma digits_value_show_nat [simp]: "digits_value (show_nat n) = n"
proof (induction n rule: show_nat.induct)
  case (1 n)
  show ?case
  proof (cases "n < 10")
    case True
    then show ?thesis by (subst show_nat.simps) (simp add: digits_value_def)
  next
    case False
    with "1.IH" show ?thesis by (subst show_nat.simps) simp
  qed
qed

text \<open>Round trip of decimal printing and parsing.\<close>

text \<open>Searching a longer list.\<close>

lemma find_append: "find P (xs @ ys) = (case find P xs of None \<Rightarrow> find P ys | Some x \<Rightarrow> Some x)"
  by (induction xs) auto

lemma find_absent: "\<not> list_ex P xs \<Longrightarrow> find P xs = None"
  by (induction xs) auto

lemma find_distinct:
  assumes "distinct (map f xs)" "x \<in> set xs"
  shows "find (\<lambda>y. f y = f x) xs = Some x"
  using assms by (induction xs) (auto simp: image_iff)

lemma find_holds: "find P xs = Some x \<Longrightarrow> P x"
  by (induction xs) (auto split: if_splits)

lemma parse_digits_show_nat [simp]: "parse_digits (show_nat n) = Some n"
  using show_nat_digits[of n] by (simp add: parse_digits_def)

end
