(* ===== verification/Json.thy ===== *)
theory Json
  imports Prelude
begin

text \<open>
  JSON values as \<open>serde_json::Value\<close> presents them to the code. The number type is the library's
  (a parameter \<open>'n\<close>; the functions that read a number out of it are arguments of the definitions
  that do so). An object lists its members in key order.
\<close>

datatype 'n json =
    JNull
  | JBool bool
  | JNum 'n
  | JStr string
  | JArr "'n json list"
  | JObj "(string \<times> 'n json) list"

fun json_get :: "'n json \<Rightarrow> string \<Rightarrow> 'n json option" where
  "json_get (JObj m) k = map_of m k"
| "json_get _ k = None"

fun json_as_str :: "'n json \<Rightarrow> string option" where
  "json_as_str (JStr s) = Some s"
| "json_as_str _ = None"

fun json_as_bool :: "'n json \<Rightarrow> bool option" where
  "json_as_bool (JBool b) = Some b"
| "json_as_bool _ = None"

fun json_as_array :: "'n json \<Rightarrow> 'n json list option" where
  "json_as_array (JArr xs) = Some xs"
| "json_as_array _ = None"

fun json_as_object :: "'n json \<Rightarrow> (string \<times> 'n json) list option" where
  "json_as_object (JObj m) = Some m"
| "json_as_object _ = None"

fun json_as_num :: "('n \<Rightarrow> 'a option) \<Rightarrow> 'n json \<Rightarrow> 'a option" where
  "json_as_num rd (JNum n) = rd n"
| "json_as_num rd _ = None"

fun json_is_object :: "'n json \<Rightarrow> bool" where
  "json_is_object (JObj m) = True"
| "json_is_object _ = False"

text \<open>\<open>Value::pointer\<close> at a path of member names.\<close>

fun json_pointer :: "'n json \<Rightarrow> string list \<Rightarrow> 'n json option" where
  "json_pointer v [] = Some v"
| "json_pointer v (k # ks) = Option.bind (json_get v k) (\<lambda>w. json_pointer w ks)"

definition json_str_at :: "'n json \<Rightarrow> string \<Rightarrow> string option" where
  "json_str_at v k = Option.bind (json_get v k) json_as_str"

definition json_str_ptr :: "'n json \<Rightarrow> string list \<Rightarrow> string option" where
  "json_str_ptr v ks = Option.bind (json_pointer v ks) json_as_str"

lemma json_as_str_Some [simp]: "json_as_str v = Some s \<longleftrightarrow> v = JStr s"
  by (cases v) auto

lemma json_as_array_Some [simp]: "json_as_array v = Some xs \<longleftrightarrow> v = JArr xs"
  by (cases v) auto

lemma json_as_object_Some [simp]: "json_as_object v = Some m \<longleftrightarrow> v = JObj m"
  by (cases v) auto

lemma json_is_object_iff: "json_is_object v \<longleftrightarrow> (\<exists>m. v = JObj m)"
  by (cases v) auto

lemma json_get_Some: "json_get v k = Some w \<longleftrightarrow> (\<exists>m. v = JObj m \<and> map_of m k = Some w)"
  by (cases v) auto

end
