(* ===== verification/Model_Policy.thy ===== *)
theory Model_Policy
  imports Prelude
begin

text \<open>
  The observation data model (\<open>workstation-core/src/model.rs\<close>) and the conservative policy over it
  (\<open>policy.rs\<close>): coverage summaries, storage growth between two complete observations, the default
  findings of a snapshot, and the process exit code. A \<open>PathBuf\<close> is the list of its components,
  which is what its equality compares.
\<close>

section \<open>Data model\<close>

datatype coverage = Complete | Partial | Denied | Unsupported | TimedOut

definition is_complete :: "coverage \<Rightarrow> bool" where
  "is_complete c \<longleftrightarrow> c = Complete"

datatype severity = Info | Warning | Critical

datatype root_kind = RootCodex | RootClaude | RootCursor | RootVscode | RootDocker | RootWorkspace | RootOther

type_synonym path_buf = "string list"

record root =
  root_id :: string
  root_path :: path_buf
  root_kind :: root_kind

record scan_budget =
  deadline_ms :: nat
  max_entries :: nat
  max_depth :: nat

definition scan_budget_normal :: scan_budget where
  "scan_budget_normal = \<lparr>deadline_ms = 700, max_entries = 20000, max_depth = 32\<rparr>"

definition scan_budget_deep :: scan_budget where
  "scan_budget_deep = \<lparr>deadline_ms = 4000, max_entries = 100000, max_depth = 64\<rparr>"

record storage_observation =
  so_root :: root
  so_observed_at :: string
  so_coverage :: coverage
  so_logical_entry_bytes :: "nat option"
  so_allocated_bytes :: "nat option"
  so_files :: nat
  so_directories :: nat
  so_visited_entries :: nat
  so_skipped_links_or_placeholders :: nat
  so_io_errors :: nat
  so_notes :: "string list"
  so_delta_since_previous_complete_bytes :: "int option"

record disk_observation =
  disk_target :: string
  disk_coverage :: coverage
  disk_available_bytes :: "nat option"
  disk_total_bytes :: "nat option"

record finding =
  fi_code :: string
  fi_severity :: severity
  fi_target_id :: "string option"
  fi_explanation :: string
  fi_next_action :: string
  fi_repair_available :: bool

record process_observation =
  po_pid :: nat
  po_parent_pid :: nat
  po_birth :: "nat option"
  po_executable_name :: string
  po_working_set_bytes :: "nat option"
  po_private_commit_bytes :: "nat option"
  po_coverage :: coverage
  po_ownership :: string
  po_disposition :: string

record process_snapshot =
  ps_observed_at :: string
  ps_coverage :: coverage
  ps_enumerated_count :: nat
  ps_selected :: "process_observation list"
  ps_notes :: "string list"

record worktree =
  wt_path :: string
  wt_head :: "string option"
  wt_branch :: "string option"
  wt_detached :: bool
  wt_bare :: bool
  wt_locked :: bool
  wt_prunable :: bool
  wt_disposition :: string
  wt_content_coverage :: coverage

record workspace_observation =
  wo_project_id :: string
  wo_observed_at :: string
  wo_coverage :: coverage
  wo_worktrees :: "worktree list"
  wo_notes :: "string list"

record snapshot =
  snap_schema_version :: string
  snap_run_id :: string
  snap_observed_at :: string
  snap_installation_id :: string
  snap_platform :: string
  snap_coverage :: coverage
  snap_storage :: "storage_observation list"
  snap_disks :: "disk_observation list"
  snap_processes :: process_snapshot
  snap_workspaces :: "workspace_observation list"
  snap_findings :: "finding list"
  snap_not_inspected :: "string list"
  snap_saved :: bool

datatype incident_family = DockerSocket | CodexAttachments | OldWorkspace

record incident_input =
  inc_id :: string
  inc_family :: incident_family
  inc_fresh_error :: bool
  inc_active_owner :: "bool option"
  inc_correct_registry_checked :: "bool option"
  inc_contents_inspected :: bool

section \<open>Policy\<close>

definition valid_id :: "string \<Rightarrow> bool" where
  "valid_id s \<longleftrightarrow> s \<noteq> [] \<and> length s \<le> 64
     \<and> list_all (\<lambda>b. is_ascii_lowercase b \<or> is_ascii_digit b \<or> b = CHR ''-'' \<or> b = CHR ''_'') s"

definition summarize_coverage :: "coverage list \<Rightarrow> coverage" where
  "summarize_coverage items = (if list_all is_complete items then Complete else Partial)"

definition storage_delta :: "storage_observation \<Rightarrow> storage_observation \<Rightarrow> int option" where
  "storage_delta current previous =
     (if root_path (so_root current) \<noteq> root_path (so_root previous)
       \<or> root_id (so_root current) \<noteq> root_id (so_root previous)
       \<or> \<not> is_complete (so_coverage current)
       \<or> \<not> is_complete (so_coverage previous)
       \<or> so_observed_at current \<le> so_observed_at previous
      then None
      else (case (so_logical_entry_bytes current, so_logical_entry_bytes previous) of
              (Some c, Some p) \<Rightarrow> (let delta = int c - int p in if in_i64 delta then Some delta else None)
            | _ \<Rightarrow> None))"

definition low_space_finding :: "disk_observation \<Rightarrow> finding list" where
  "low_space_finding disk =
     (if is_complete (disk_coverage disk) then
        (case disk_available_bytes disk of
           None \<Rightarrow> []
         | Some free \<Rightarrow>
             if free < 25 * 1024 ^ 3 then
               [\<lparr>fi_code = ''disk.low_available_space'',
                 fi_severity = (if free < 10 * 1024 ^ 3 then Critical else Warning),
                 fi_target_id = Some (disk_target disk),
                 fi_explanation = ''Available space is below R0's default warning threshold (25 GiB). This is not proof of an agent fault.'',
                 fi_next_action = ''Review registered storage roots; do not delete unknown work.'',
                 fi_repair_available = False\<rparr>]
             else [])
      else [])"

definition storage_findings :: "storage_observation \<Rightarrow> finding list" where
  "storage_findings s =
     (if \<not> is_complete (so_coverage s) then
        [\<lparr>fi_code = ''storage.incomplete_coverage'', fi_severity = Warning,
          fi_target_id = Some (root_id (so_root s)),
          fi_explanation = ''The root was not completely measured. Available byte counts are not complete totals.'',
          fi_next_action = ''Inspect coverage notes; an explicit deep scan may help.'',
          fi_repair_available = False\<rparr>]
      else [])
     @ (case so_delta_since_previous_complete_bytes s of
          None \<Rightarrow> []
        | Some d \<Rightarrow>
            if d > 1024 ^ 3 then
              [\<lparr>fi_code = ''storage.observed_growth'', fi_severity = Warning,
                fi_target_id = Some (root_id (so_root s)),
                fi_explanation = ''Two complete observations show more than 1 GiB of entry-logical growth. Cause and reclaimability are unknown.'',
                fi_next_action = ''Review this root and its owning application; no automatic cleanup is offered.'',
                fi_repair_available = False\<rparr>]
            else [])"

definition diagnose :: "snapshot \<Rightarrow> finding list" where
  "diagnose snapshot = concat (map low_space_finding (snap_disks snapshot))
     @ concat (map storage_findings (snap_storage snapshot))"

definition exit_code :: "coverage \<Rightarrow> finding list \<Rightarrow> severity option \<Rightarrow> nat" where
  "exit_code coverage findings fail_on =
     (if list_ex (\<lambda>f. case fail_on of
            Some Critical \<Rightarrow> fi_severity f = Critical
          | Some Warning \<Rightarrow> fi_severity f \<noteq> Info
          | Some Info \<Rightarrow> True
          | None \<Rightarrow> False) findings
      then 2 else if \<not> is_complete coverage then 3 else 0)"

definition classify_incident :: "incident_input \<Rightarrow> finding" where
  "classify_incident i =
     (let (code, explanation, action) =
        (if inc_family i = DockerSocket \<and> \<not> inc_fresh_error i then
           (''incident.stale_evidence'',
            ''An old socket error cannot establish a current failure.'',
            ''Collect a fresh current-startup error and local engine evidence.'')
         else if inc_family i = DockerSocket then
           (''incident.docker_socket_reported'',
            ''The report describes a runtime socket failure, not corrupted Docker data.'',
            ''No R0 repair: preserve Docker data and validate stopped owners before a later reviewed recipe.'')
         else if inc_family i = CodexAttachments \<and> inc_correct_registry_checked i \<noteq> Some True then
           (''incident.attachment_path_unverified'',
            ''A registry created at the wrong path does not prove the real attachment registry was repaired.'',
            ''Verify the active home and supported registry layout; preserve attachment files.'')
         else if inc_family i = CodexAttachments then
           (''incident.attachment_runtime_test_needed'',
            ''A filesystem change is not proof that the large-paste workflow succeeds.'',
            ''Keep active sessions running; perform an explicit UI test when practical.'')
         else
           (''incident.workspace_protected'',
            ''Age, a missing PR, or a missing process is insufficient proof that a workspace is disposable.'',
            ''Preserve the workspace. Content and active-dependency checks are required before any later cleanup plan.''))
      in \<lparr>fi_code = code, fi_severity = Warning, fi_target_id = None, fi_explanation = explanation,
          fi_next_action = action, fi_repair_available = False\<rparr>)"

section \<open>Lemmas\<close>

lemma is_complete_Complete [simp]: "is_complete c \<longleftrightarrow> c = Complete"
  by (simp add: is_complete_def)

lemma low_space_no_repair: "list_all (\<lambda>f. \<not> fi_repair_available f) (low_space_finding d)"
  by (simp add: low_space_finding_def split: option.split)

lemma storage_no_repair: "list_all (\<lambda>f. \<not> fi_repair_available f) (storage_findings s)"
  by (simp add: storage_findings_def split: option.split)

lemma storage_delta_Some:
  "storage_delta c p = Some d \<longleftrightarrow>
     so_root c = so_root c \<and> root_path (so_root c) = root_path (so_root p)
     \<and> root_id (so_root c) = root_id (so_root p)
     \<and> so_coverage c = Complete \<and> so_coverage p = Complete
     \<and> so_observed_at p < so_observed_at c
     \<and> (\<exists>m n. so_logical_entry_bytes c = Some m \<and> so_logical_entry_bytes p = Some n
          \<and> d = int m - int n \<and> in_i64 d)"
  by (auto simp: storage_delta_def Let_def not_le split: option.splits)

text \<open>
  Whatever a snapshot shows, no finding of the diagnosis offers a repair, and the exit code is a
  clean 0 only for a completely covered observation with no finding at or above the failure level.
\<close>

theorem diagnosis_never_offers_repair:
  "list_all (\<lambda>f. \<not> fi_repair_available f) (diagnose s)
   \<and> (exit_code c fs None = 0 \<longleftrightarrow> c = Complete)
   \<and> (exit_code c fs (Some Warning) = 0 \<longleftrightarrow> c = Complete \<and> list_all (\<lambda>f. fi_severity f = Info) fs)
   \<and> (exit_code c fs (Some Critical) = 0 \<longleftrightarrow> c = Complete \<and> list_all (\<lambda>f. fi_severity f \<noteq> Critical) fs)"
proof -
  have "list_all (\<lambda>f. \<not> fi_repair_available f) (diagnose s)"
    using low_space_no_repair storage_no_repair by (auto simp: diagnose_def list_all_iff)
  then show ?thesis
    by (auto simp: list_all_iff list_ex_iff exit_code_def)
qed

end
