(* ===== verification/Control.thy ===== *)
theory Control
  imports Model_Policy
begin

text \<open>
  The control-plane domain (\<open>workstation-core/src/control.rs\<close>): evidence, Work Items and their state
  machine, sessions, workspace stamps, checkpoints, decisions with bitemporal selection, resources,
  and the input validators every other component calls.
\<close>

section \<open>Data\<close>

datatype evidence_kind =
  Observed | AgentReported | Inferred | UserApproved | ProviderVerified | EvidenceUnknown

record evidence =
  ev_kind :: evidence_kind
  ev_source :: string
  ev_at :: int
  ev_coverage :: coverage

datatype work_state = Planned | Active | Paused | Blocked | Review | Done | Cancelled

record work_item =
  wi_id :: string
  wi_project_id :: string
  wi_objective :: string
  wi_state :: work_state
  wi_priority :: nat
  wi_version :: nat
  wi_workspace_id :: "string option"
  wi_completed :: "string list"
  wi_remaining :: "string list"
  wi_blockers :: "string list"
  wi_evidence :: evidence

record session =
  ses_id :: string
  ses_project_id :: string
  ses_agent :: string
  ses_external_id :: string
  ses_adapter_version :: string
  ses_role :: string
  ses_workspace_id :: "string option"
  ses_last_observed :: int
  ses_ended_at :: "int option"
  ses_coverage :: coverage

record workspace_stamp =
  st_project_id :: string
  st_workspace_id :: string
  st_path :: string
  st_directory_identity :: string
  st_head :: string
  st_branch :: "string option"
  st_status_digest :: string
  st_dirty :: "bool option"
  st_untracked :: "nat option"
  st_ignored :: "nat option"
  st_local_only_commits :: "nat option"
  st_blockers :: "string list"
  st_observed_at :: int
  st_coverage :: coverage

record test_observation =
  to_name :: string
  to_result :: string
  to_evidence :: evidence

record checkpoint =
  cp_id :: string
  cp_work :: work_item
  cp_session_id :: "string option"
  cp_workspace :: workspace_stamp
  cp_completed :: "string list"
  cp_remaining :: "string list"
  cp_blockers :: "string list"
  cp_tests :: "test_observation list"
  cp_decision_ids :: "string list"
  cp_resource_ids :: "string list"
  cp_recorded_at :: int
  cp_source :: evidence

record decision =
  dec_id :: string
  dec_project_id :: string
  dec_topic :: string
  dec_scope :: string
  dec_statement :: string
  dec_rationale :: string
  dec_alternatives :: "string list"
  dec_consequences :: "string list"
  dec_predecessor :: "string option"
  dec_effective_at :: int
  dec_recorded_at :: int
  dec_source :: evidence

record decision_acceptance =
  acc_decision_id :: string
  acc_accepted_at :: int
  acc_approval_ref :: string

datatype resource_kind =
  Service | Endpoint | Deployment | Database | Runbook | SecretReference | Reference

record resource =
  res_id :: string
  res_project_id :: string
  res_environment :: string
  res_kind :: resource_kind
  res_name :: string
  res_locator :: string
  res_provider :: "string option"
  res_evidence :: evidence
  res_fresh_for_secs :: nat

record focus =
  foc_needs :: "string list"
  foc_free_only :: bool
  foc_local_only :: bool
  foc_platform :: string
  foc_existing :: "string list"
  foc_blocked :: "string list"
  foc_evidence_ref :: string

section \<open>Work state machine\<close>

definition work_state_as_str :: "work_state \<Rightarrow> string" where
  "work_state_as_str s = (case s of
      Planned \<Rightarrow> ''planned'' | Active \<Rightarrow> ''active'' | Paused \<Rightarrow> ''paused'' | Blocked \<Rightarrow> ''blocked''
    | Review \<Rightarrow> ''review'' | Done \<Rightarrow> ''done'' | Cancelled \<Rightarrow> ''cancelled'')"

definition can_transition :: "work_state \<Rightarrow> work_state \<Rightarrow> bool" where
  "can_transition self nxt =
     (if self = nxt then True
      else case self of
        Planned \<Rightarrow> nxt \<in> {Active, Blocked, Cancelled}
      | Active \<Rightarrow> nxt \<in> {Paused, Blocked, Review, Cancelled}
      | Paused \<Rightarrow> nxt \<in> {Active, Cancelled}
      | Blocked \<Rightarrow> nxt \<in> {Active, Cancelled}
      | Review \<Rightarrow> nxt \<in> {Active, Done, Blocked, Cancelled}
      | Done \<Rightarrow> False
      | Cancelled \<Rightarrow> False)"

section \<open>Bitemporal decision selection\<close>

definition decision_eligible ::
    "decision_acceptance list \<Rightarrow> int \<Rightarrow> int \<Rightarrow> decision \<Rightarrow> bool" where
  "decision_eligible acceptances valid_at known_at d \<longleftrightarrow>
     dec_recorded_at d \<le> known_at \<and> dec_effective_at d \<le> valid_at
     \<and> list_ex (\<lambda>a. acc_decision_id a = dec_id d \<and> acc_accepted_at a \<le> known_at) acceptances"

fun scopes_distinct :: "(string \<times> string \<times> string) set \<Rightarrow> decision list \<Rightarrow> bool" where
  "scopes_distinct seen [] = True"
| "scopes_distinct seen (d # ds) =
     (let k = (dec_project_id d, dec_topic d, dec_scope d)
      in if k \<in> seen then False else scopes_distinct (insert k seen) ds)"

definition applicable_decisions ::
    "decision list \<Rightarrow> decision_acceptance list \<Rightarrow> int \<Rightarrow> int \<Rightarrow> decision list check" where
  "applicable_decisions all acceptances valid_at known_at =
     (let eligible = filter (decision_eligible acceptances valid_at known_at) all;
          current = filter (\<lambda>d. \<not> list_ex (\<lambda>n. dec_predecessor n = Some (dec_id d)) eligible) eligible
      in if scopes_distinct {} current then Inr current else Inl ''DECISION_CONFLICT'')"

section \<open>Input validation\<close>

definition control_id :: "string \<Rightarrow> unit check" where
  "control_id value =
     (if value = [] \<or> length value > 64
        \<or> \<not> list_all (\<lambda>b. is_ascii_alphanumeric b \<or> b \<in> set ''-_.'') value
      then Inl ''INVALID_ID'' else Inr ())"

definition is_bidi_control :: "nat \<Rightarrow> bool" where
  "is_bidi_control u \<longleftrightarrow> (0x202a \<le> u \<and> u \<le> 0x202e) \<or> (0x2066 \<le> u \<and> u \<le> 0x2069)"

definition sensitive_markers :: "string list" where
  "sensitive_markers =
     [''-----begin private key'', ''-----begin rsa private key'', ''secret_canary'',
      ''authorization: bearer '', ''sk-proj-'', ''ghp_'', ''gho_'']"

definition control_text :: "string \<Rightarrow> nat \<Rightarrow> unit check" where
  "control_text value max_len =
     (if length value > max_len
        \<or> list_ex (\<lambda>c. c = 0 \<or> (is_control c \<and> c \<noteq> 10 \<and> c \<noteq> 9) \<or> is_bidi_control c) (chars value)
      then Inl ''TEXT_LIMIT_OR_CONTROL''
      else let lower = to_ascii_lowercase value
           in if list_ex (\<lambda>p. str_contains lower p) sensitive_markers
              then Inl ''SENSITIVE_TEXT_REJECTED'' else Inr ())"

definition control_lines :: "string list \<Rightarrow> unit check" where
  "control_lines values =
     (if length values > 32 then Inl ''LIST_LIMIT''
      else check_all (\<lambda>s. control_text s 1024) values)"

definition control_timestamp :: "int \<Rightarrow> unit check" where
  "control_timestamp t =
     (if \<not> (0 \<le> t \<and> t \<le> 253402300799) then Inl ''INVALID_TIME'' else Inr ())"

definition control_evidence :: "evidence \<Rightarrow> unit check" where
  "control_evidence e = checks [control_text (ev_source e) 256, control_timestamp (ev_at e)]"

definition validate_work :: "work_item \<Rightarrow> unit check" where
  "validate_work w = checks
     [control_id (wi_id w),
      control_id (wi_project_id w),
      control_text (wi_objective w) 2048,
      reject (trim (wi_objective w) = [] \<or> wi_priority w > 4) ''INVALID_WORK'',
      check_opt control_id (wi_workspace_id w),
      control_lines (wi_completed w),
      control_lines (wi_remaining w),
      control_lines (wi_blockers w),
      control_evidence (wi_evidence w)]"

definition validate_session :: "session \<Rightarrow> unit check" where
  "validate_session s = checks
     [control_id (ses_id s),
      control_id (ses_project_id s),
      control_id (ses_agent s),
      control_text (ses_external_id s) 256,
      control_text (ses_adapter_version s) 64,
      reject (ses_role s \<notin> set [''worker'', ''reviewer'', ''observer'']) ''INVALID_ROLE'',
      control_timestamp (ses_last_observed s),
      check_opt control_id (ses_workspace_id s),
      check_opt control_timestamp (ses_ended_at s),
      reject (ses_external_id s = []) ''EMPTY_VENDOR_SESSION_ID'',
      reject (case ses_ended_at s of None \<Rightarrow> False | Some t \<Rightarrow> t < ses_last_observed s)
        ''SESSION_TIME_ORDER'']"

definition validate_decision :: "decision \<Rightarrow> unit check" where
  "validate_decision d = checks
     [control_id (dec_id d),
      control_id (dec_project_id d),
      control_id (dec_topic d),
      control_id (dec_scope d),
      control_text (dec_statement d) 4096,
      control_text (dec_rationale d) 4096,
      reject (trim (dec_statement d) = []) ''EMPTY_DECISION'',
      reject (dec_predecessor d = Some (dec_id d)) ''DECISION_SELF_CYCLE'',
      control_lines (dec_alternatives d),
      control_lines (dec_consequences d),
      control_timestamp (dec_effective_at d),
      control_timestamp (dec_recorded_at d),
      control_evidence (dec_source d)]"

definition safe_locator :: "string \<Rightarrow> bool \<Rightarrow> unit check" where
  "safe_locator value secret =
     (let rest = (case split_once ''://'' value of None \<Rightarrow> [] | Some (_, t) \<Rightarrow> t);
          authority = hd (split_char CHR ''/'' rest)
      in checks
       [control_text value 2048,
        reject (trim value \<noteq> value
          \<or> list_ex (\<lambda>c. c \<in> {CHR 0x0A, CHR 0x0D, CHR 0x09, CHR 0x5C, CHR ''%'', CHR ''?'', CHR ''#'', CHR ''@''}) value)
          ''LOCATOR_UNSAFE'',
        (if secret then checks
          [reject (\<not> list_ex (\<lambda>p. prefix p value)
              [''local://'', ''doppler://'', ''op://'', ''infisical://'', ''bitwarden://''])
             ''SECRET_REFERENCE_SCHEME'',
           reject (rest = [] \<or> list_ex (\<lambda>c. c = [] \<or> c = ''.'' \<or> c = ''..'') (split_char CHR ''/'' rest))
             ''SECRET_REFERENCE_INVALID'']
         else checks
          [reject (\<not> (prefix ''https://'' value \<or> prefix ''http://localhost:'' value \<or> prefix ''reference://'' value))
             ''LOCATOR_SCHEME_UNSUPPORTED'',
           reject (authority = [] \<or> list_ex is_whitespace (chars authority))
             ''LOCATOR_AUTHORITY_INVALID''])])"

definition validate_resource :: "resource \<Rightarrow> unit check" where
  "validate_resource r = checks
     [control_id (res_id r),
      control_id (res_project_id r),
      control_id (res_environment r),
      control_text (res_name r) 128,
      check_opt (\<lambda>p. control_text p 128) (res_provider r),
      safe_locator (res_locator r) (res_kind r = SecretReference),
      reject (res_fresh_for_secs r = 0 \<or> res_fresh_for_secs r > 31536000) ''RESOURCE_FRESHNESS_INVALID'',
      control_evidence (res_evidence r)]"

section \<open>Lemmas on the validators\<close>

lemma control_id_ok [check_simps]:
  "control_id s = Inr u \<longleftrightarrow> s \<noteq> [] \<and> length s \<le> 64
     \<and> list_all (\<lambda>b. is_ascii_alphanumeric b \<or> b \<in> set ''-_.'') s"
  by (auto simp: control_id_def not_less)

lemma control_timestamp_ok [check_simps]: "control_timestamp t = Inr u \<longleftrightarrow> 0 \<le> t \<and> t \<le> 253402300799"
  by (auto simp: control_timestamp_def)

lemma timestamps_sub_exact:
  assumes "control_timestamp a = Inr ()" "control_timestamp b = Inr ()"
  shows "sub_i64 a b = a - b"
  using assms by (intro sub_i64_exact) (auto simp: check_simps in_i64_def)

lemma control_text_ok:
  "control_text s n = Inr u \<longleftrightarrow> length s \<le> n
     \<and> (\<forall>c \<in> set (chars s). c \<noteq> 0 \<and> (is_control c \<longrightarrow> c = 10 \<or> c = 9) \<and> \<not> is_bidi_control c)
     \<and> (\<forall>p \<in> set sensitive_markers. \<not> sublist p (to_ascii_lowercase s))"
  by (auto simp: control_text_def Let_def list_ex_iff str_contains_sublist not_less)

lemma control_text_length: "control_text s n = Inr u \<Longrightarrow> length s \<le> n"
  by (simp add: control_text_ok)

lemma control_text_mono: "control_text s n = Inr u \<Longrightarrow> n \<le> m \<Longrightarrow> control_text s m = Inr ()"
  by (auto simp: control_text_ok)

lemma control_lines_ok [check_simps]:
  "control_lines xs = Inr u \<longleftrightarrow> length xs \<le> 32 \<and> (\<forall>s \<in> set xs. control_text s 1024 = Inr ())"
  by (auto simp: control_lines_def check_all_ok not_less)

lemma control_evidence_ok [check_simps]:
  "control_evidence e = Inr u \<longleftrightarrow>
     control_text (ev_source e) 256 = Inr () \<and> control_timestamp (ev_at e) = Inr ()"
  by (simp add: control_evidence_def checks_Cons_ok)

text \<open>A marker hidden in a longer text, in any letter case, is found.\<close>

lemma control_text_no_marker:
  assumes "control_text s n = Inr u" "p \<in> set sensitive_markers" "to_ascii_lowercase t = p"
  shows "\<not> sublist t s"
proof
  assume "sublist t s"
  then have "sublist (to_ascii_lowercase t) (to_ascii_lowercase s)"
    unfolding to_ascii_lowercase_def sublist_def by (metis map_append)
  with assms show False by (auto simp: control_text_ok)
qed

text \<open>Unfolding a text or identifier check on a literal.\<close>

lemmas text_eval = control_text_def sensitive_markers_def to_ascii_lowercase_def ascii_lower_def
  is_ascii_uppercase_def trim_def is_whitespace_def is_continuation_def chars_def is_control_def
  is_bidi_control_def

lemmas id_eval = control_id_def ascii_class_defs

section \<open>Lemmas on the work state machine\<close>

lemma can_transition_refl [simp]: "can_transition s s"
  by (simp add: can_transition_def)

lemma can_transition_terminal: "s \<in> {Done, Cancelled} \<Longrightarrow> can_transition s t \<longleftrightarrow> t = s"
  by (auto simp: can_transition_def)

lemma can_transition_to_Done: "can_transition s Done \<longleftrightarrow> s = Review \<or> s = Done"
  by (cases s) (auto simp: can_transition_def)

lemma path_from_terminal:
  "successively can_transition (s # ws) \<Longrightarrow> s \<in> {Done, Cancelled} \<Longrightarrow> w \<in> set ws \<Longrightarrow> w = s"
proof (induction ws arbitrary: s)
  case (Cons v ws)
  from Cons.prems(1,2) have "v = s" "successively can_transition (v # ws)"
    by (auto simp: can_transition_terminal)
  with Cons show ?case by auto
qed simp

lemma path_to_Done_reviewed:
  "successively can_transition (s # ws) \<Longrightarrow> s \<noteq> Done \<Longrightarrow> last (s # ws) = Done
    \<Longrightarrow> Review \<in> set (s # ws)"
proof (induction ws arbitrary: s)
  case (Cons v ws)
  show ?case
  proof (cases "v = Done")
    case True
    with Cons.prems show ?thesis by (auto simp: can_transition_to_Done)
  next
    case False
    with Cons.prems have "Review \<in> set (v # ws)" by (intro Cons.IH) auto
    then show ?thesis by auto
  qed
qed auto

section \<open>Lemmas on decisions\<close>

definition decision_scope :: "decision \<Rightarrow> string \<times> string \<times> string" where
  "decision_scope d = (dec_project_id d, dec_topic d, dec_scope d)"

lemma scopes_distinct_iff:
  "scopes_distinct seen ds \<longleftrightarrow> distinct (map decision_scope ds) \<and> seen \<inter> decision_scope ` set ds = {}"
  by (induction ds arbitrary: seen) (auto simp: Let_def decision_scope_def)

definition current_decision ::
    "decision list \<Rightarrow> decision_acceptance list \<Rightarrow> int \<Rightarrow> int \<Rightarrow> decision \<Rightarrow> bool" where
  "current_decision all acceptances valid_at known_at d \<longleftrightarrow>
     d \<in> set all \<and> decision_eligible acceptances valid_at known_at d
     \<and> (\<forall>n \<in> set all. decision_eligible acceptances valid_at known_at n
          \<longrightarrow> dec_predecessor n \<noteq> Some (dec_id d))"

lemma applicable_decisions_ok:
  "applicable_decisions all acc v k = Inr ds \<Longrightarrow>
     set ds = {d. current_decision all acc v k d} \<and> distinct (map decision_scope ds)"
  by (auto simp: applicable_decisions_def Let_def scopes_distinct_iff current_decision_def list_ex_iff
      split: if_splits)

lemma applicable_decisions_filter:
  "filter (\<lambda>d. \<not> list_ex (\<lambda>n. dec_predecessor n = Some (dec_id d)) (filter (decision_eligible acc v k) all))
     (filter (decision_eligible acc v k) all) = filter (current_decision all acc v k) all"
  unfolding filter_filter by (rule filter_cong) (auto simp: current_decision_def list_ex_iff)

section \<open>Properties\<close>

text \<open>
  The Work Item state machine. Along any sequence of permitted updates a done or cancelled item
  never leaves its state, and an item that becomes done has been in review first.
\<close>

theorem work_done_only_through_review:
  assumes "successively can_transition (s # ws)"
  shows "(s \<in> {Done, Cancelled} \<longrightarrow> set ws \<subseteq> {s})
    \<and> (s \<noteq> Done \<and> last (s # ws) = Done \<longrightarrow> Review \<in> set (s # ws))"
  using path_from_terminal[OF assms] path_to_Done_reviewed[OF assms] by auto

theorem work_done_only_through_review_witness:
  "Review \<in> set [Planned, Active, Review, Done]"
proof -
  have "successively can_transition (Planned # [Active, Review, Done])"
    by (simp add: can_transition_def)
  from work_done_only_through_review[OF this] show ?thesis by simp
qed

text \<open>
  Text that passes the input check fits its byte limit, has no control or bidirectional-override
  character besides newline and tab, and holds none of the credential markers in any letter case,
  wherever it is embedded.
\<close>

theorem accepted_text_is_clean:
  assumes "control_text s n = Inr ()"
  shows "length s \<le> n
    \<and> (\<forall>c \<in> set (chars s). c \<noteq> 0 \<and> \<not> is_bidi_control c \<and> (is_control c \<longrightarrow> c \<in> {9, 10}))
    \<and> (\<forall>t. to_ascii_lowercase t \<in> set sensitive_markers \<longrightarrow> \<not> sublist t s)"
  using assms control_text_no_marker[OF assms] by (auto simp: control_text_ok)

theorem accepted_text_is_clean_witness: "\<not> sublist ''GhP_'' ''ok''"
proof -
  have "control_text ''ok'' 10 = Inr ()" by (simp add: text_eval)
  moreover have "to_ascii_lowercase ''GhP_'' \<in> set sensitive_markers"
    by (simp add: text_eval char_of_def bit_0)
  ultimately show ?thesis using accepted_text_is_clean by blast
qed

text \<open>
  Bitemporal selection is exact. The applicable decisions are precisely those recorded and
  accepted by the knowledge time and effective by the validity time that no other such decision
  supersedes (so a successor that is not yet effective or known does not erase its parent), and a
  conflict is reported exactly when two of them claim the same project, topic and scope.
\<close>

theorem applicable_decisions_exact:
  "applicable_decisions all acc v k =
     (let ds = filter (current_decision all acc v k) all
      in if distinct (map decision_scope ds) then Inr ds else Inl ''DECISION_CONFLICT'')"
  unfolding applicable_decisions_def Let_def applicable_decisions_filter
  by (simp add: scopes_distinct_iff)

end
