(* ===== verification/Durable.thy ===== *)
theory Durable
  imports Control Json "HOL-Library.Word"
begin

text \<open>
  The durable run record (\<open>workstation-core/src/durable.rs\<close>): deadline policies, the run record with
  its derived state, the event alphabet and \<open>apply_event\<close>, the exact-turn reconciliation rule, and the
  content manifests and verification contracts. \<open>revision\<close> and \<open>sequence\<close> are 64-bit words, so the
  checked additions of the code can fail. \<open>apply_event\<close> mutates its argument in place; every caller
  drops the record when it returns an error, so the model returns the record only on success.
\<close>

section \<open>Data\<close>

type_synonym u64 = "64 word"

definition MAX_EVENTS :: u64 where "MAX_EVENTS = 2048"
definition MAX_RUNS :: nat where "MAX_RUNS = 512"

datatype deadline_kind = HandshakeDeadline | SessionDeadline | IdleDeadline | AbsoluteDeadline

record deadline_policy =
  handshake_seconds :: nat
  session_seconds :: nat
  idle_seconds :: nat
  absolute_seconds :: nat
  cancellation_grace_seconds :: nat
  reconciliation_seconds :: nat

definition default_deadlines :: deadline_policy where
  "default_deadlines = \<lparr>handshake_seconds = 30, session_seconds = 60, idle_seconds = 180,
     absolute_seconds = 1800, cancellation_grace_seconds = 5, reconciliation_seconds = 30\<rparr>"

definition deadlines_validate :: "deadline_policy \<Rightarrow> unit check" where
  "deadlines_validate p =
     (if \<not> (1 \<le> handshake_seconds p \<and> handshake_seconds p \<le> 120)
       \<or> \<not> (1 \<le> session_seconds p \<and> session_seconds p \<le> 300)
       \<or> \<not> (1 \<le> idle_seconds p \<and> idle_seconds p \<le> 1800)
       \<or> \<not> (1 \<le> absolute_seconds p \<and> absolute_seconds p \<le> 3600)
       \<or> \<not> (1 \<le> cancellation_grace_seconds p \<and> cancellation_grace_seconds p \<le> 30)
       \<or> \<not> (1 \<le> reconciliation_seconds p \<and> reconciliation_seconds p \<le> 120)
       \<or> handshake_seconds p > absolute_seconds p
       \<or> session_seconds p > absolute_seconds p
       \<or> idle_seconds p > absolute_seconds p
      then Inl ''DURABLE_DEADLINE_INVALID'' else Inr ())"

definition from_legacy :: "nat \<Rightarrow> deadline_policy" where
  "from_legacy total_secs =
     (let t = min 3600 (max 1 total_secs)
      in default_deadlines\<lparr>handshake_seconds := min t 30, session_seconds := min t 60,
           idle_seconds := min t 180, absolute_seconds := t\<rparr>)"

datatype transport_state = NotStarted | TStarting | Connected | Exited | TTimedOut | Lost | TCancelled

datatype provider_state =
  PUnknown | PStarting | PRunning | PCompleted | PFailed | PInterrupted | AuthenticationRequired

datatype workspace_state = NotObserved | Unchanged | Changed | Unexpected | Unavailable

datatype verification_state = NotRequested | VPending | VPassed | VFailed | VStale | VUnavailable

datatype run_state =
  RPlanned | RStarting | RRunning | RCancelRequested | ReconciliationRequired | AwaitingVerification
| ProgressConfirmed | Verified | VerificationFailed | RFailed | RCancelled

record process_identity =
  pi_pid :: nat
  pi_birth :: string
  pi_host :: string

text \<open>The fields of a run that are fixed when it is prepared.\<close>

record run_scope =
  rs_id :: string
  rs_plan_id :: string
  rs_project_id :: string
  rs_environment :: string
  rs_integration_id :: string
  rs_integration_digest :: string
  rs_executable_sha256 :: string
  rs_declared_version :: string
  rs_adapter :: string
  rs_work_id :: string
  rs_workspace_id :: string
  rs_checkpoint_id :: string
  rs_work_version :: nat
  rs_workspace_digest :: string
  rs_deadlines :: deadline_policy
  rs_created_at :: int

text \<open>\<open>RunRecord\<close>: the fixed fields, then the fields that events and heartbeats write.\<close>

record run_record =
  scope :: run_scope
  execution_id :: "string option"
  supervisor :: "process_identity option"
  child :: "process_identity option"
  session_id :: "string option"
  turn_id :: "string option"
  transport :: transport_state
  provider :: provider_state
  workspace :: workspace_state
  verification :: verification_state
  updated_at :: int
  last_heartbeat_at :: "int option"
  last_progress_at :: "int option"
  finished_at :: "int option"
  cancellation_requested :: bool
  owner_released :: bool
  revision :: u64
  sequence :: u64
  error_code :: "string option"
  deadline_expired :: "deadline_kind option"

datatype run_event =
    DeadlineExceeded deadline_kind
  | Claimed process_identity string
  | ChildStarted process_identity
  | SessionBound string
  | TurnBound string
  | Progress
  | ProviderTerminal provider_state
  | TransportEnded transport_state "string option"
  | CancelRequested
  | Recovered bool
  | WorkspaceObserved workspace_state
  | VerificationRecorded verification_state
  | Reconciled provider_state

section \<open>Derived state\<close>

definition run_record_state :: "run_record \<Rightarrow> run_state" where
  "run_record_state r =
     (if cancellation_requested r \<and> execution_id r = None then RCancelled
      else if verification r = VPassed then
        (if provider r = PCompleted then Verified else ProgressConfirmed)
      else if verification r = VFailed then VerificationFailed
      else if cancellation_requested r \<and> \<not> owner_released r then RCancelRequested
      else if provider r = PCompleted then AwaitingVerification
      else if provider r = PFailed \<or> provider r = AuthenticationRequired then RFailed
      else if provider r = PInterrupted \<and> transport r = TCancelled then RCancelled
      else if workspace r = Changed \<and> owner_released r then ProgressConfirmed
      else if owner_released r \<or> transport r \<in> {TTimedOut, Lost, TCancelled} then ReconciliationRequired
      else (case transport r of NotStarted \<Rightarrow> RPlanned | TStarting \<Rightarrow> RStarting | _ \<Rightarrow> RRunning))"

section \<open>Events\<close>

definition bounded_code :: "string \<Rightarrow> bool" where
  "bounded_code s \<longleftrightarrow> s \<noteq> [] \<and> length s \<le> 96
     \<and> list_all (\<lambda>b. is_ascii_uppercase b \<or> is_ascii_digit b \<or> b = CHR ''_'') s"

definition opaque :: "string \<Rightarrow> unit check" where
  "opaque s = checks
     [control_text s 256,
      reject (trim s = [] \<or> prefix ''-'' s) ''DURABLE_ID_INVALID'']"

definition provider_terminal :: "provider_state \<Rightarrow> bool" where
  "provider_terminal p \<longleftrightarrow> p \<in> {PCompleted, PFailed, PInterrupted, AuthenticationRequired}"

definition terminal_status :: "run_record \<Rightarrow> provider_state \<Rightarrow> run_record check" where
  "terminal_status r status =
     (if \<not> provider_terminal status then Inl ''DURABLE_TERMINAL_REQUIRED''
      else if provider_terminal (provider r) \<and> provider r \<noteq> status then Inl ''DURABLE_TERMINAL_CONFLICT''
      else Inr (r\<lparr>provider := status\<rparr>))"

fun event_effect :: "run_record \<Rightarrow> run_event \<Rightarrow> int \<Rightarrow> run_record check" where
  "event_effect r (DeadlineExceeded d) at = Inr (r\<lparr>deadline_expired := Some d\<rparr>)"
| "event_effect r (Claimed sv ex) at =
     (if execution_id r \<noteq> None then Inl ''DURABLE_ALREADY_CLAIMED''
      else Inr (r\<lparr>supervisor := Some sv, execution_id := Some ex,
                  transport := TStarting, provider := PStarting\<rparr>))"
| "event_effect r (ChildStarted ident) at = Inr (r\<lparr>child := Some ident, transport := Connected\<rparr>)"
| "event_effect r (SessionBound s) at = bind_check (opaque s) (\<lambda>_.
     if session_id r \<noteq> None \<and> session_id r \<noteq> Some s then Inl ''DURABLE_SESSION_CHANGED''
     else Inr (r\<lparr>session_id := Some s\<rparr>))"
| "event_effect r (TurnBound t) at = bind_check (opaque t) (\<lambda>_.
     if session_id r = None then Inl ''DURABLE_SESSION_REQUIRED''
     else if turn_id r \<noteq> None \<and> turn_id r \<noteq> Some t then Inl ''DURABLE_TURN_CHANGED''
     else Inr (r\<lparr>turn_id := Some t,
                 provider := (if \<not> provider_terminal (provider r) then PRunning else provider r)\<rparr>))"
| "event_effect r Progress at =
     (if \<not> provider_terminal (provider r)
      then Inr (r\<lparr>provider := PRunning, last_progress_at := Some at\<rparr>) else Inr r)"
| "event_effect r (ProviderTerminal status) at = terminal_status r status"
| "event_effect r (Reconciled status) at = terminal_status r status"
| "event_effect r (TransportEnded st err) at =
     (if st \<notin> {Exited, Lost, TTimedOut, TCancelled} then Inl ''DURABLE_TRANSPORT_END_REQUIRED''
      else if (case err of None \<Rightarrow> False | Some s \<Rightarrow> \<not> bounded_code s) then Inl ''DURABLE_ERROR_CODE_INVALID''
      else Inr (r\<lparr>transport := st, error_code := err, owner_released := True, finished_at := Some at\<rparr>))"
| "event_effect r CancelRequested at =
     (if \<not> owner_released r then Inr (r\<lparr>cancellation_requested := True\<rparr>) else Inr r)"
| "event_effect r (Recovered gone) at =
     (if gone then Inr (r\<lparr>owner_released := True, transport := Lost, finished_at := Some at\<rparr>) else Inr r)"
| "event_effect r (WorkspaceObserved st) at = Inr (r\<lparr>workspace := st\<rparr>)"
| "event_effect r (VerificationRecorded st) at = Inr (r\<lparr>verification := st\<rparr>)"

definition checked_inc :: "u64 \<Rightarrow> string \<Rightarrow> u64 check" where
  "checked_inc x e = (if x = - 1 then Inl e else Inr (x + 1))"

definition apply_event :: "run_record \<Rightarrow> run_event \<Rightarrow> int \<Rightarrow> run_record check" where
  "apply_event r e at = bind_check (control_timestamp at) (\<lambda>_.
     if at < updated_at r then Inl ''DURABLE_CLOCK_REGRESSION''
     else bind_check (event_effect r e at) (\<lambda>r1.
          bind_check (checked_inc (revision r1) ''DURABLE_REVISION_OVERFLOW'') (\<lambda>rev.
          bind_check (checked_inc (sequence r1) ''DURABLE_SEQUENCE_OVERFLOW'') (\<lambda>sq.
            Inr (r1\<lparr>updated_at := at, revision := rev, sequence := sq\<rparr>)))))"

section \<open>Exact-turn reconciliation\<close>

definition turn_status :: "'n json \<Rightarrow> provider_state option" where
  "turn_status item =
     (case json_str_at item ''status'' of
        Some s \<Rightarrow>
          if s = ''completed'' then Some PCompleted
          else if s = ''failed'' then Some PFailed
          else if s = ''interrupted'' then Some PInterrupted
          else None
      | None \<Rightarrow> None)"

fun scan_turns ::
    "string \<Rightarrow> provider_state option option \<Rightarrow> 'n json list \<Rightarrow> provider_state option option check" where
  "scan_turns turn found [] = Inr found"
| "scan_turns turn found (item # items) =
     (if json_str_at item ''id'' \<noteq> Some turn then scan_turns turn found items
      else if found \<noteq> None then Inl ''RECONCILE_DUPLICATE_TURN''
      else scan_turns turn (Some (turn_status item)) items)"

definition codex_turn_status :: "'n json \<Rightarrow> string \<Rightarrow> string \<Rightarrow> provider_state option check" where
  "codex_turn_status value sess turn =
     bind_check (ok_or (json_get value ''thread'') ''RECONCILE_THREAD_MISSING'') (\<lambda>t.
       if json_str_at t ''id'' \<noteq> Some sess then Inl ''RECONCILE_THREAD_MISMATCH''
       else (case Option.bind (json_get t ''turns'') json_as_array of
               None \<Rightarrow> Inr None
             | Some turns \<Rightarrow>
                 if length turns > 4096 then Inl ''RECONCILE_TURN_LIMIT''
                 else bind_check (scan_turns turn None turns) (\<lambda>found. Inr (Option.bind found (\<lambda>x. x)))))"

section \<open>Content manifests and verification contracts\<close>

record content_manifest =
  cm_directory_identity :: string
  cm_files :: "(string \<times> string) list"
  cm_bytes :: nat

record verification_contract =
  vc_allowed_paths :: "string list"
  vc_forbidden_paths :: "string list"
  vc_task_ids :: "string list"

definition relative :: "string \<Rightarrow> unit check" where
  "relative p = checks
     [control_text p 1024,
      reject (p = [] \<or> prefix ''/'' p
        \<or> list_ex (\<lambda>c. c \<in> {CHR 0x5C, CHR '':'', CHR ''*'', CHR ''?''}) p
        \<or> list_ex (\<lambda>s. s = [] \<or> s = ''.'' \<or> s = ''..'' \<or> eq_ignore_ascii_case s ''.git'')
             (split_char CHR ''/'' p))
        ''VERIFICATION_PATH_INVALID'']"

definition contract_validate :: "verification_contract \<Rightarrow> unit check" where
  "contract_validate v = checks
     [reject (length (vc_allowed_paths v) > 128 \<or> length (vc_forbidden_paths v) > 128
        \<or> length (vc_task_ids v) > 8) ''VERIFICATION_BUDGET'',
      reject (vc_task_ids v = []) ''VERIFICATION_TASK_REQUIRED'',
      check_all relative (vc_allowed_paths v @ vc_forbidden_paths v),
      check_all control_id (vc_task_ids v)]"

definition changed_paths :: "content_manifest \<Rightarrow> content_manifest \<Rightarrow> string list check" where
  "changed_paths a b =
     (if cm_directory_identity a \<noteq> cm_directory_identity b then Inl ''VERIFICATION_DIRECTORY_REPLACED''
      else Inr (filter (\<lambda>k. map_of (cm_files a) k \<noteq> map_of (cm_files b) k)
             (btree_set (map fst (cm_files a) @ map fst (cm_files b)))))"

definition permitted_changes :: "string list \<Rightarrow> verification_contract \<Rightarrow> bool" where
  "permitted_changes paths v = list_all (\<lambda>p.
     list_ex (\<lambda>a. eq_ignore_ascii_case a p) (vc_allowed_paths v)
     \<and> \<not> list_ex (\<lambda>f. eq_ignore_ascii_case f p) (vc_forbidden_paths v)) paths"

section \<open>Journals\<close>

text \<open>
  A journal is a projection that is only changed by applying stamped events to it. The laws below are
  what the store relies on: each applied event advances the sequence by one, moves the clock to the
  event's time, never back, and keeps the projection's invariant.
\<close>

fun replay :: "('r \<Rightarrow> 'e \<Rightarrow> int \<Rightarrow> 'r check) \<Rightarrow> 'r \<Rightarrow> ('e \<times> int) list \<Rightarrow> 'r check" where
  "replay app r [] = Inr r"
| "replay app r ((e, at) # es) = bind_check (app r e at) (\<lambda>r'. replay app r' es)"

lemma replay_append:
  "replay app r (es @ fs) = bind_check (replay app r es) (\<lambda>r'. replay app r' fs)"
proof (induction es arbitrary: r)
  case (Cons x es)
  obtain e at where x: "x = (e, at)" by (cases x)
  show ?case by (cases "app r e at") (simp_all add: x Cons.IH)
qed simp

lemma replay_snoc:
  "replay app r es = Inr r' \<Longrightarrow> replay app r (es @ [(e, at)]) = app r' e at"
  by (cases "app r' e at") (simp_all add: replay_append)

lemma replay_preserves:
  assumes "\<And>r e at r'. P r \<Longrightarrow> app r e at = Inr r' \<Longrightarrow> P r'"
    and "replay app r es = Inr r'" and "P r"
  shows "P r'"
  using assms(2,3)
proof (induction es arbitrary: r)
  case (Cons x es)
  then show ?case by (cases x) (auto simp: bind_check_ok dest: assms(1))
qed simp

locale journal =
  fixes app :: "'r \<Rightarrow> 'e \<Rightarrow> int \<Rightarrow> 'r check"
    and seq_no :: "'r \<Rightarrow> nat"
    and clock :: "'r \<Rightarrow> int"
    and inv :: "'r \<Rightarrow> bool"
  assumes app_seq: "app r e at = Inr r' \<Longrightarrow> seq_no r' = Suc (seq_no r)"
    and app_clock: "app r e at = Inr r' \<Longrightarrow> clock r \<le> at \<and> clock r' = at"
    and app_inv: "inv r \<Longrightarrow> app r e at = Inr r' \<Longrightarrow> inv r'"
begin

lemma replay_seq: "replay app r es = Inr r' \<Longrightarrow> seq_no r' = seq_no r + length es"
proof (induction es arbitrary: r)
  case (Cons x es)
  then show ?case by (cases x) (auto simp: bind_check_ok dest!: app_seq)
qed simp

lemma replay_inv: "inv r \<Longrightarrow> replay app r es = Inr r' \<Longrightarrow> inv r'"
  by (rule replay_preserves[of inv app r es]) (auto dest: app_inv)

lemma replay_clock: "replay app r es = Inr r' \<Longrightarrow> clock r \<le> clock r'"
proof (induction es arbitrary: r)
  case (Cons x es)
  then show ?case by (cases x) (fastforce simp: bind_check_ok dest: app_clock)
qed simp

lemma replay_sorted: "replay app r es = Inr r' \<Longrightarrow> sorted (clock r # map snd es)"
proof (induction es arbitrary: r)
  case (Cons x es)
  obtain e at where x: "x = (e, at)" by (cases x)
  with Cons.prems obtain r1 where r1: "app r e at = Inr r1" "replay app r1 es = Inr r'"
    by (auto simp: bind_check_ok)
  from Cons.IH[OF r1(2)] app_clock[OF r1(1)] show ?case by (simp add: x) (meson order_trans)
qed simp

end

section \<open>Facts about events\<close>

lemma checked_inc_ok [check_simps]:
  "checked_inc x e = Inr y \<longleftrightarrow> x \<noteq> - 1 \<and> y = x + 1"
  by (auto simp: checked_inc_def)

lemma checked_inc_unat: "checked_inc x e = Inr y \<Longrightarrow> unat y = Suc (unat x)"
proof -
  assume "checked_inc x e = Inr y"
  then have "x \<noteq> - 1" "y = x + 1" by (auto simp: checked_inc_ok)
  then have "1 + x \<noteq> 0" by (simp add: add_eq_0_iff)
  with \<open>y = x + 1\<close> show ?thesis by (metis add.commute unatSuc)
qed

lemma apply_event_ok:
  "apply_event r e at = Inr r' \<longleftrightarrow>
     control_timestamp at = Inr () \<and> updated_at r \<le> at
     \<and> (\<exists>r1 rev sq. event_effect r e at = Inr r1
          \<and> checked_inc (revision r1) ''DURABLE_REVISION_OVERFLOW'' = Inr rev
          \<and> checked_inc (sequence r1) ''DURABLE_SEQUENCE_OVERFLOW'' = Inr sq
          \<and> r' = r1\<lparr>updated_at := at, revision := rev, sequence := sq\<rparr>)"
  unfolding apply_event_def bind_check_ok
  by (auto simp: bind_check_ok not_less split: if_splits)

lemma event_effect_frame:
  "event_effect r e at = Inr r1 \<Longrightarrow>
     scope r1 = scope r \<and> updated_at r1 = updated_at r \<and> revision r1 = revision r
     \<and> sequence r1 = sequence r \<and> last_heartbeat_at r1 = last_heartbeat_at r"
  by (cases e) (auto simp: bind_check_ok terminal_status_def split: if_splits)

lemma event_effect_once:
  "event_effect r e at = Inr r1 \<Longrightarrow>
     (execution_id r = Some x \<longrightarrow> execution_id r1 = Some x)
     \<and> (session_id r = Some s \<longrightarrow> session_id r1 = Some s)
     \<and> (turn_id r = Some t \<longrightarrow> turn_id r1 = Some t)
     \<and> (owner_released r \<longrightarrow> owner_released r1)
     \<and> (cancellation_requested r \<longrightarrow> cancellation_requested r1)
     \<and> (provider_terminal (provider r) \<longrightarrow> execution_id r \<noteq> None \<longrightarrow> provider r1 = provider r)"
  by (cases e) (auto simp: bind_check_ok terminal_status_def split: if_splits)

section \<open>The run invariant and its journal\<close>

definition run_inv :: "run_record \<Rightarrow> bool" where
  "run_inv r \<longleftrightarrow>
     (turn_id r \<noteq> None \<longrightarrow> session_id r \<noteq> None)
     \<and> (execution_id r \<noteq> None \<longleftrightarrow> supervisor r \<noteq> None)
     \<and> (owner_released r \<longleftrightarrow> finished_at r \<noteq> None)
     \<and> (case finished_at r of None \<Rightarrow> True | Some t \<Rightarrow> t \<le> updated_at r)
     \<and> (case last_progress_at r of None \<Rightarrow> True | Some t \<Rightarrow> t \<le> updated_at r)
     \<and> revision r = sequence r"

lemma event_effect_inv:
  "run_inv r \<Longrightarrow> event_effect r e at = Inr r1 \<Longrightarrow> updated_at r \<le> at \<Longrightarrow>
     run_inv (r1\<lparr>updated_at := at, revision := x, sequence := x\<rparr>)"
  by (cases e) (clarsimp simp: run_inv_def bind_check_ok terminal_status_def
      split: option.splits if_splits)+

lemma apply_event_inv:
  assumes "run_inv r" "apply_event r e at = Inr r'"
  shows "run_inv r'"
proof -
  from assms(2) obtain r1 rev sq where e: "event_effect r e at = Inr r1" "updated_at r \<le> at"
    and c: "checked_inc (revision r1) ''DURABLE_REVISION_OVERFLOW'' = Inr rev"
      "checked_inc (sequence r1) ''DURABLE_SEQUENCE_OVERFLOW'' = Inr sq"
    and r': "r' = r1\<lparr>updated_at := at, revision := rev, sequence := sq\<rparr>"
    by (auto simp: apply_event_ok)
  from event_effect_frame[OF e(1)] assms(1) have "revision r1 = sequence r1"
    by (simp add: run_inv_def)
  with c have "rev = sq" by (simp add: checked_inc_ok)
  with event_effect_inv[OF assms(1) e] r' show ?thesis by simp
qed

lemma apply_event_step:
  assumes "apply_event r e at = Inr r'"
  shows "unat (sequence r') = Suc (unat (sequence r))" "unat (revision r') = Suc (unat (revision r))"
    and "updated_at r' = at" "updated_at r \<le> at" "scope r' = scope r"
    and "last_heartbeat_at r' = last_heartbeat_at r" "0 \<le> at"
  using assms by (auto simp: apply_event_ok control_timestamp_ok
      dest!: event_effect_frame checked_inc_unat)

lemma apply_event_once:
  assumes "apply_event r e at = Inr r'"
  shows "execution_id r = Some x \<Longrightarrow> execution_id r' = Some x"
    and "session_id r = Some y \<Longrightarrow> session_id r' = Some y"
    and "turn_id r = Some z \<Longrightarrow> turn_id r' = Some z"
    and "owner_released r \<Longrightarrow> owner_released r'"
    and "cancellation_requested r \<Longrightarrow> cancellation_requested r'"
    and "provider_terminal (provider r) \<Longrightarrow> execution_id r \<noteq> None \<Longrightarrow> provider r' = provider r"
  using assms by (auto simp: apply_event_ok dest: event_effect_once)

interpretation run_journal: journal apply_event "\<lambda>r. unat (sequence r)" updated_at run_inv
  by unfold_locales (auto dest: apply_event_step apply_event_inv)

lemma replay_once:
  assumes "replay apply_event r es = Inr r'"
  shows "scope r' = scope r"
    and "execution_id r = Some x \<Longrightarrow> execution_id r' = Some x"
    and "session_id r = Some y \<Longrightarrow> session_id r' = Some y"
    and "turn_id r = Some z \<Longrightarrow> turn_id r' = Some z"
    and "owner_released r \<Longrightarrow> owner_released r'"
    and "cancellation_requested r \<Longrightarrow> cancellation_requested r'"
proof -
  show "scope r' = scope r"
    by (rule replay_preserves[where P = "\<lambda>q. scope q = scope r", OF _ assms])
      (auto dest: apply_event_step(5))
  show "execution_id r = Some x \<Longrightarrow> execution_id r' = Some x"
    by (rule replay_preserves[where P = "\<lambda>q. execution_id q = Some x", OF _ assms])
      (auto dest: apply_event_once(1))
  show "session_id r = Some y \<Longrightarrow> session_id r' = Some y"
    by (rule replay_preserves[where P = "\<lambda>q. session_id q = Some y", OF _ assms])
      (auto dest: apply_event_once(2))
  show "turn_id r = Some z \<Longrightarrow> turn_id r' = Some z"
    by (rule replay_preserves[where P = "\<lambda>q. turn_id q = Some z", OF _ assms])
      (auto dest: apply_event_once(3))
  show "owner_released r \<Longrightarrow> owner_released r'"
    by (rule replay_preserves[where P = owner_released, OF _ assms])
      (auto dest: apply_event_once(4))
  show "cancellation_requested r \<Longrightarrow> cancellation_requested r'"
    by (rule replay_preserves[where P = cancellation_requested, OF _ assms])
      (auto dest: apply_event_once(5))
qed

section \<open>Facts about the derived state\<close>

lemma run_record_state_Verified:
  "run_record_state r = Verified \<longleftrightarrow> verification r = VPassed \<and> provider r = PCompleted
     \<and> (cancellation_requested r \<longrightarrow> execution_id r \<noteq> None)"
  by (auto simp: run_record_state_def split: transport_state.splits)

lemma run_record_state_AwaitingVerification:
  "run_record_state r = AwaitingVerification \<Longrightarrow> provider r = PCompleted"
  by (auto simp: run_record_state_def split: transport_state.splits if_splits)

lemma apply_event_verification:
  "apply_event r e at = Inr r' \<Longrightarrow> e \<noteq> VerificationRecorded VPassed \<Longrightarrow> verification r \<noteq> VPassed
    \<Longrightarrow> verification r' \<noteq> VPassed"
  by (cases e) (auto simp: apply_event_ok bind_check_ok terminal_status_def split: if_splits)

lemma apply_event_completed:
  "apply_event r e at = Inr r' \<Longrightarrow> e \<noteq> ProviderTerminal PCompleted \<Longrightarrow> e \<noteq> Reconciled PCompleted
    \<Longrightarrow> provider r \<noteq> PCompleted \<Longrightarrow> provider r' \<noteq> PCompleted"
  by (cases e) (auto simp: apply_event_ok bind_check_ok terminal_status_def split: if_splits)

section \<open>Facts about reconciliation, manifests and contracts\<close>

lemma scan_turns_ok:
  "scan_turns turn found items = Inr res \<longleftrightarrow>
     (let hits = filter (\<lambda>i. json_str_at i ''id'' = Some turn) items
      in (case found of
            Some x \<Rightarrow> hits = [] \<and> res = found
          | None \<Rightarrow> (hits = [] \<and> res = None) \<or> (\<exists>i. hits = [i] \<and> res = Some (turn_status i))))"
  by (induction turn found items rule: scan_turns.induct) (auto simp: Let_def split: option.splits)

lemma set_changed_paths:
  "changed_paths a b = Inr ps \<Longrightarrow>
     set ps = {k. map_of (cm_files a) k \<noteq> map_of (cm_files b) k} \<and> sorted ps \<and> distinct ps"
  by (auto simp: changed_paths_def sorted_wrt_filter split: if_splits)
    (metis (no_types) image_eqI fst_conv map_of_SomeD not_Some_eq)+

lemma permitted_changes_iff:
  "permitted_changes ps v \<longleftrightarrow> (\<forall>p \<in> set ps.
     (\<exists>a \<in> set (vc_allowed_paths v). eq_ignore_ascii_case a p)
     \<and> \<not> (\<exists>f \<in> set (vc_forbidden_paths v). eq_ignore_ascii_case f p))"
  by (auto simp: permitted_changes_def list_all_iff list_ex_iff)

section \<open>Properties\<close>

text \<open>A prepared run, for the witnesses.\<close>

definition sample_scope :: run_scope where
  "sample_scope = \<lparr>rs_id = ''run-1'', rs_plan_id = ''run-1'', rs_project_id = ''p'', rs_environment = ''dev'',
     rs_integration_id = ''i'', rs_integration_digest = ''d'', rs_executable_sha256 = ''e'',
     rs_declared_version = ''v'', rs_adapter = ''codex'', rs_work_id = ''w'', rs_workspace_id = ''ws'',
     rs_checkpoint_id = ''c'', rs_work_version = 1, rs_workspace_digest = ''g'',
     rs_deadlines = default_deadlines, rs_created_at = 100\<rparr>"

definition prepared_run :: "run_scope \<Rightarrow> int \<Rightarrow> run_record" where
  "prepared_run sc at = \<lparr>scope = sc, execution_id = None, supervisor = None, child = None,
     session_id = None, turn_id = None, transport = NotStarted, provider = PUnknown,
     workspace = NotObserved, verification = NotRequested, updated_at = at, last_heartbeat_at = None,
     last_progress_at = None, finished_at = None, cancellation_requested = False,
     owner_released = False, revision = 0, sequence = 0, error_code = None, deadline_expired = None\<rparr>"

definition sample_identity :: process_identity where
  "sample_identity = \<lparr>pi_pid = 7, pi_birth = ''1'', pi_host = ''h''\<rparr>"

definition sample_events :: "(run_event \<times> int) list" where
  "sample_events = [(Claimed sample_identity ''x'', 101), (SessionBound ''s'', 102), (TurnBound ''t'', 103),
     (ProviderTerminal PCompleted, 104), (TransportEnded Exited None, 105),
     (VerificationRecorded VPassed, 106)]"

definition sample_final :: run_record where
  "sample_final = (prepared_run sample_scope 100)\<lparr>execution_id := Some ''x'', supervisor := Some sample_identity,
     session_id := Some ''s'', turn_id := Some ''t'', transport := Exited, provider := PCompleted,
     verification := VPassed, updated_at := 106, finished_at := Some 105, owner_released := True,
     revision := 6, sequence := 6\<rparr>"

lemma opaque_samples: "opaque ''s'' = Inr ()" "opaque ''t'' = Inr ()"
  by (simp_all add: opaque_def text_eval)

lemma sample_replay: "replay apply_event (prepared_run sample_scope 100) sample_events = Inr sample_final"
  by (simp add: sample_events_def apply_event_def control_timestamp_def prepared_run_def
      opaque_samples checked_inc_def provider_terminal_def terminal_status_def sample_final_def)

text \<open>
  C27: replaying any journal from a well-formed run keeps the run well-formed, advances the sequence
  and the revision by exactly one per event, keeps the event times ascending, and never touches the
  fields that were fixed when the run was prepared.
\<close>

theorem replay_keeps_run_invariant:
  assumes "run_inv r" and "replay apply_event r es = Inr r'"
  shows "run_inv r' \<and> unat (sequence r') = unat (sequence r) + length es
    \<and> revision r' = sequence r' \<and> sorted (updated_at r # map snd es) \<and> scope r' = scope r"
  using run_journal.replay_inv[OF assms] run_journal.replay_seq[OF assms(2)]
    run_journal.replay_sorted[OF assms(2)] replay_once(1)[OF assms(2)]
  by (simp add: run_inv_def)

theorem replay_keeps_run_invariant_witness:
  "run_inv sample_final \<and> unat (sequence sample_final) = 6"
proof -
  have "run_inv (prepared_run sample_scope 100)" by (simp add: run_inv_def prepared_run_def)
  from replay_keeps_run_invariant[OF this sample_replay] show ?thesis
    by (simp add: prepared_run_def sample_events_def)
qed

text \<open>
  C26: what a run has bound stays bound. Over any journal the execution, session and turn identities
  are write-once, a release of ownership and a cancellation request are never undone, and once a
  claimed run has a terminal provider outcome no event replaces it by another one.
\<close>

theorem run_facts_are_write_once:
  assumes "replay apply_event r es = Inr r'"
  shows "(execution_id r \<noteq> None \<longrightarrow> execution_id r' = execution_id r)
    \<and> (session_id r \<noteq> None \<longrightarrow> session_id r' = session_id r)
    \<and> (turn_id r \<noteq> None \<longrightarrow> turn_id r' = turn_id r)
    \<and> (owner_released r \<longrightarrow> owner_released r')
    \<and> (cancellation_requested r \<longrightarrow> cancellation_requested r')
    \<and> (execution_id r \<noteq> None \<and> provider_terminal (provider r) \<longrightarrow> provider r' = provider r)"
proof -
  have "execution_id r' \<noteq> None \<and> provider_terminal (provider r') \<and> provider r' = provider r"
    if "execution_id r \<noteq> None" "provider_terminal (provider r)"
    by (rule replay_preserves[where P = "\<lambda>q. execution_id q \<noteq> None \<and> provider_terminal (provider q)
          \<and> provider q = provider r", OF _ assms])
      (use that in \<open>auto dest: apply_event_once(1,6)\<close>)
  then show ?thesis
    using replay_once[OF assms] by auto
qed

theorem run_facts_are_write_once_witness:
  "provider sample_final = PCompleted \<and>
   (\<exists>r'. replay apply_event sample_final [(CancelRequested, 107)] = Inr r' \<and> provider r' = PCompleted)"
proof -
  obtain r' where r': "replay apply_event sample_final [(CancelRequested, 107)] = Inr r'"
    by (simp add: apply_event_def control_timestamp_def sample_final_def prepared_run_def checked_inc_def)
  from run_facts_are_write_once[OF r'] have "provider r' = PCompleted"
    by (simp add: sample_final_def provider_terminal_def)
  with r' show ?thesis by (auto simp: sample_final_def)
qed

text \<open>
  Completion is separate from verification. A run that starts unverified and uncompleted is
  reported as verified only if its journal holds both a passing verification and an exact completed
  outcome (from the provider or from reconciliation), and it awaits verification only if it holds the
  completed outcome; idle sessions, progress and exits never count.
\<close>

theorem verified_needs_both_facts:
  assumes "replay apply_event r es = Inr r'" and "verification r \<noteq> VPassed" and "provider r \<noteq> PCompleted"
  shows "(run_record_state r' = Verified \<longrightarrow>
      VerificationRecorded VPassed \<in> fst ` set es
      \<and> (ProviderTerminal PCompleted \<in> fst ` set es \<or> Reconciled PCompleted \<in> fst ` set es))
    \<and> (run_record_state r' = AwaitingVerification \<longrightarrow>
      ProviderTerminal PCompleted \<in> fst ` set es \<or> Reconciled PCompleted \<in> fst ` set es)"
proof -
  have v: "VerificationRecorded VPassed \<notin> fst ` set es \<Longrightarrow> verification r' \<noteq> VPassed"
    using assms(1,2)
  proof (induction es arbitrary: r)
    case (Cons p es)
    then show ?case by (cases p) (auto simp: bind_check_ok dest: apply_event_verification)
  qed simp
  have c: "ProviderTerminal PCompleted \<notin> fst ` set es \<Longrightarrow> Reconciled PCompleted \<notin> fst ` set es
      \<Longrightarrow> provider r' \<noteq> PCompleted"
    using assms(1,3)
  proof (induction es arbitrary: r)
    case (Cons p es)
    then show ?case by (cases p) (auto simp: bind_check_ok dest: apply_event_completed)
  qed simp
  from v c show ?thesis
    by (auto simp: run_record_state_Verified dest: run_record_state_AwaitingVerification)
qed

theorem verified_needs_both_facts_witness:
  "run_record_state sample_final = Verified \<and> VerificationRecorded VPassed \<in> fst ` set sample_events"
proof -
  have "run_record_state sample_final = Verified"
    by (simp add: run_record_state_Verified sample_final_def prepared_run_def)
  moreover have "verification (prepared_run sample_scope 100) \<noteq> VPassed"
    "provider (prepared_run sample_scope 100) \<noteq> PCompleted"
    by (simp_all add: prepared_run_def)
  ultimately show ?thesis using verified_needs_both_facts[OF sample_replay] by blast
qed

text \<open>
  Only an exact, unique, terminal turn fact is admissible. Reconciliation yields an outcome just when
  the thread is the bound one, its bounded turn list holds exactly one entry with the bound turn's id,
  and that entry itself carries a terminal status; an idle thread or a newer turn never counts.
\<close>

theorem codex_turn_status_exact:
  "codex_turn_status v s t = Inr (Some p) \<longleftrightarrow>
     (\<exists>th turns i. json_get v ''thread'' = Some th \<and> json_str_at th ''id'' = Some s
        \<and> json_get th ''turns'' = Some (JArr turns) \<and> length turns \<le> 4096
        \<and> filter (\<lambda>i. json_str_at i ''id'' = Some t) turns = [i] \<and> turn_status i = Some p)"
proof (cases "json_get v ''thread''")
  case (Some th)
  show ?thesis
  proof (cases "Option.bind (json_get th ''turns'') json_as_array")
    case None
    then show ?thesis
      by (auto simp: codex_turn_status_def Some)
  next
    case turns: (Some turns)
    then have "json_get th ''turns'' = Some (JArr turns)"
      by (auto simp: bind_eq_Some_conv)
    with turns show ?thesis
      by (auto simp: codex_turn_status_def Some bind_check_ok scan_turns_ok Let_def not_less)
  qed
qed (simp add: codex_turn_status_def)

text \<open>
  A verification passes its path check exactly when every path whose content differs between the
  baseline and the observed manifest (added, removed or rewritten) is allowed and not forbidden, up to
  ASCII case; a forbidden entry wins over an allowed one.
\<close>

theorem changed_paths_permitted_iff:
  assumes "changed_paths a b = Inr ps"
  shows "permitted_changes ps v \<longleftrightarrow> (\<forall>k. map_of (cm_files a) k \<noteq> map_of (cm_files b) k \<longrightarrow>
     (\<exists>x \<in> set (vc_allowed_paths v). eq_ignore_ascii_case x k)
     \<and> \<not> (\<exists>x \<in> set (vc_forbidden_paths v). eq_ignore_ascii_case x k))"
  using set_changed_paths[OF assms] by (auto simp: permitted_changes_iff)

definition sample_manifest :: "(string \<times> string) list \<Rightarrow> content_manifest" where
  "sample_manifest fs = \<lparr>cm_directory_identity = ''d'', cm_files = fs, cm_bytes = 1\<rparr>"

theorem changed_paths_permitted_iff_witness:
  "\<not> permitted_changes [''b'']
     \<lparr>vc_allowed_paths = [''b''], vc_forbidden_paths = [''B''], vc_task_ids = [''t'']\<rparr>"
proof -
  have c: "changed_paths (sample_manifest [(''a'', ''1''), (''b'', ''1'')])
      (sample_manifest [(''a'', ''1''), (''b'', ''2'')]) = Inr [''b'']"
    by (simp add: changed_paths_def sample_manifest_def btree_set_def)
  show ?thesis
    unfolding changed_paths_permitted_iff[OF c]
    by (auto simp: sample_manifest_def eq_ignore_ascii_case_def to_ascii_lowercase_def ascii_lower_def
        is_ascii_uppercase_def char_of_def bit_0 intro!: exI[of _ "''b''"])
qed

text \<open>
  A legacy timeout never expands authority. The policy derived from it always validates, and its
  absolute deadline is at most the legacy timeout (or one second) and at most an hour.
\<close>

theorem from_legacy_within_ceiling:
  "deadlines_validate (from_legacy t) = Inr ()
   \<and> absolute_seconds (from_legacy t) \<le> max 1 t \<and> absolute_seconds (from_legacy t) \<le> 3600
   \<and> idle_seconds (from_legacy t) \<le> absolute_seconds (from_legacy t)"
  by (simp add: deadlines_validate_def from_legacy_def default_deadlines_def Let_def min_def max_def)

end
