(* ===== verification/Integrations.thy ===== *)
theory Integrations
  imports Control
begin

text \<open>
  Integration registrations, digests and paths, and approved tasks
  (\<open>workstation-core/src/integrations.rs\<close>). A \<open>BTreeMap\<close> is an association list in key order.
\<close>

section \<open>Adapters\<close>

datatype adapter =
  Codex | Claude | CursorAcp | GrokAcp | GeminiAcp | Copilot | OpenCode | Cline | Roo | Windsurf
| Doppler | OnePassword | Docker | Worktrunk | Entire

definition adapter_id :: "adapter \<Rightarrow> string" where
  "adapter_id a = (case a of
      Codex \<Rightarrow> ''codex'' | Claude \<Rightarrow> ''claude'' | CursorAcp \<Rightarrow> ''cursor_acp'' | GrokAcp \<Rightarrow> ''grok_acp''
    | GeminiAcp \<Rightarrow> ''gemini_acp'' | Copilot \<Rightarrow> ''copilot'' | OpenCode \<Rightarrow> ''opencode'' | Cline \<Rightarrow> ''cline''
    | Roo \<Rightarrow> ''roo'' | Windsurf \<Rightarrow> ''windsurf'' | Doppler \<Rightarrow> ''doppler'' | OnePassword \<Rightarrow> ''onepassword''
    | Docker \<Rightarrow> ''docker'' | Worktrunk \<Rightarrow> ''worktrunk'' | Entire \<Rightarrow> ''entire'')"

record integration =
  int_id :: string
  int_project_id :: string
  int_environment :: string
  int_adapter :: adapter
  int_executable :: string
  int_executable_sha256 :: string
  int_version_text :: string
  int_inherit_env :: "string list"
  int_configuration :: "(string \<times> string) list"
  int_authentication :: "(string \<times> string) list"
  int_protocol_revision :: "nat option"
  int_auth_method :: "string option"
  int_observed_at :: int

section \<open>Digests and absolute paths\<close>

definition digest :: "string \<Rightarrow> unit check" where
  "digest s = (if length s = 64 \<and> list_all is_ascii_hexdigit s then Inr () else Inl ''SHA256_REQUIRED'')"

definition is_path_sep :: "char \<Rightarrow> bool" where
  "is_path_sep c \<longleftrightarrow> c = CHR ''/'' \<or> c = CHR 0x5C"

definition has_drive :: "string \<Rightarrow> bool" where
  "has_drive s \<longleftrightarrow> (case s of (_ # b # c # _) \<Rightarrow> b = CHR '':'' \<and> is_path_sep c | _ \<Rightarrow> False)"

definition absolute_path :: "string \<Rightarrow> unit check" where
  "absolute_path s = checks
     [control_text s 32700,
      reject (\<not> (prefix ''/'' s \<or> has_drive s) \<or> prefix ''//'' s \<or> prefix [CHR 0x5C, CHR 0x5C] s)
        ''ABSOLUTE_LOCAL_PATH_REQUIRED'',
      reject (list_ex (\<lambda>x. x = ''..'' \<or> x = ''.'') (split_on is_path_sep s)) ''DOT_PATH_REJECTED'']"

section \<open>Registrations\<close>

definition auth_variable :: "adapter \<Rightarrow> string \<Rightarrow> bool" where
  "auth_variable a key = (case a of
      Doppler \<Rightarrow> key = ''DOPPLER_TOKEN''
    | OnePassword \<Rightarrow> key = ''OP_SERVICE_ACCOUNT_TOKEN''
    | Claude \<Rightarrow> key = ''ANTHROPIC_API_KEY''
    | Codex \<Rightarrow> key = ''OPENAI_API_KEY''
    | CursorAcp \<Rightarrow> key \<in> set [''CURSOR_API_KEY'', ''CURSOR_AUTH_TOKEN'']
    | GrokAcp \<Rightarrow> key = ''XAI_API_KEY''
    | GeminiAcp \<Rightarrow> key = ''GEMINI_API_KEY''
    | Copilot \<Rightarrow> key \<in> set [''GH_TOKEN'', ''GITHUB_TOKEN'']
    | Cline \<Rightarrow> key = ''CLINE_API_KEY''
    | _ \<Rightarrow> False)"

definition config_env_allowlist :: "string list" where
  "config_env_allowlist =
     [''CODEX_HOME'', ''CLAUDE_CONFIG_DIR'', ''DOCKER_CONFIG'', ''OP_CONFIG_DIR'', ''DOPPLER_CONFIG_DIR'',
      ''APPDATA'', ''LOCALAPPDATA'', ''COPILOT_HOME'', ''GEMINI_CLI_HOME'', ''XDG_DATA_HOME'',
      ''XDG_CONFIG_HOME'']"

definition inherit_env_allowlist :: "string list" where
  "inherit_env_allowlist =
     [''PATH'', ''USERPROFILE'', ''HOME'', ''APPDATA'', ''LOCALAPPDATA'', ''CODEX_HOME'',
      ''CLAUDE_CONFIG_DIR'', ''DOCKER_CONFIG'', ''OP_CONFIG_DIR'', ''DOPPLER_CONFIG_DIR'', ''COPILOT_HOME'',
      ''GEMINI_CLI_HOME'', ''XDG_DATA_HOME'', ''XDG_CONFIG_HOME'']"

definition integration_validate :: "integration \<Rightarrow> unit check" where
  "integration_validate i = checks
     [reject (case int_protocol_revision i of None \<Rightarrow> False | Some v \<Rightarrow> v = 0 \<or> v > 32)
        ''PROTOCOL_REVISION_INVALID'',
      check_opt control_id (int_auth_method i),
      control_id (int_id i),
      control_id (int_project_id i),
      control_id (int_environment i),
      absolute_path (int_executable i),
      digest (int_executable_sha256 i),
      control_text (int_version_text i) 512,
      control_timestamp (int_observed_at i),
      reject (trim (int_version_text i) = []) ''EXACT_VERSION_REQUIRED'',
      reject (length (int_inherit_env i) > 20 \<or> length (int_configuration i) > 16
        \<or> length (int_authentication i) > 4) ''INTEGRATION_LIMIT'',
      check_all (\<lambda>key. reject (key \<notin> set inherit_env_allowlist) ''INHERITED_ENV_NOT_ALLOWLISTED'')
        (int_inherit_env i),
      check_all (\<lambda>(key, value). checks
          [reject (key \<notin> set config_env_allowlist) ''CONFIG_ENV_NOT_ALLOWLISTED'', absolute_path value])
        (int_configuration i),
      reject (int_adapter i = Copilot \<and> length (int_authentication i) > 1)
        ''ONE_COPILOT_AUTH_SOURCE_REQUIRED'',
      check_all (\<lambda>(key, resource). checks
          [reject (\<not> auth_variable (int_adapter i) key) ''PROVIDER_AUTH_ENV_MISMATCH'', control_id resource])
        (int_authentication i)]"

section \<open>Capabilities\<close>

record adapter_capabilities =
  ac_adapter :: adapter
  ac_implementation_revision :: string
  ac_operations :: "string list"
  ac_unsupported :: "string list"
  ac_certification :: string
  ac_tested_versions :: "string list"
  ac_coverage :: coverage
  ac_sources :: "string list"

definition capability_table :: "adapter \<Rightarrow> string list \<times> string list \<times> string list" where
  "capability_table a = (case a of
      Codex \<Rightarrow> ([''version_probe'', ''thread_list'', ''quota_read'', ''new_turn'', ''native_resume''],
        [''private_desktop_db_repair_certification''],
        [''https://developers.openai.com/codex/app-server/''])
    | Claude \<Rightarrow> ([''version_probe'', ''json_print_continuation'', ''native_resume'', ''lifecycle_import'',
         ''statusline_import'', ''configured_statusline_hook''],
        [''exact_independent_subscription_poll''],
        [''https://code.claude.com/docs/en/cli-reference'', ''https://code.claude.com/docs/en/hooks''])
    | CursorAcp \<Rightarrow> ([''version_probe'', ''acp_new'', ''acp_load_if_advertised'', ''acp_prompt''],
        [''individual_quota_api''], [''https://cursor.com/docs/cli/acp''])
    | GrokAcp \<Rightarrow> ([''version_probe'', ''acp_new'', ''acp_load_if_advertised'', ''acp_prompt''],
        [''subscription_quota_api''], [''https://docs.x.ai/build/cli/headless-scripting''])
    | GeminiAcp \<Rightarrow> ([''version_probe'', ''acp_initialize'', ''acp_new'', ''acp_resume_if_advertised'',
         ''acp_list_if_advertised'', ''acp_prompt'', ''lifecycle_hook'', ''session_metrics_import''],
        [''read_only_plan_guarantee'', ''consumer_quota_api''],
        [''https://geminicli.com/docs/cli/acp-mode/'', ''https://geminicli.com/docs/hooks/'',
         ''https://geminicli.com/docs/cli/headless/''])
    | OpenCode \<Rightarrow> ([''version_probe'', ''acp_initialize'', ''acp_new'', ''acp_resume_if_advertised'',
         ''acp_list_if_advertised'', ''acp_prompt''],
        [''consumer_quota_api'', ''unregistered_native_session_resume''],
        [''https://opencode.ai/docs/acp/''])
    | Cline \<Rightarrow> ([''version_probe'', ''acp_initialize'', ''acp_new'', ''acp_resume_if_advertised'',
         ''acp_list_if_advertised'', ''acp_prompt''],
        [''consumer_quota_api'', ''automatic_doctor_fix''],
        [''https://github.com/cline/cline/blob/main/docs/usage/acp.mdx''])
    | Copilot \<Rightarrow> ([''version_probe'', ''pinned_stdio_sdk_wire_v3'', ''account_quota_read'',
         ''model_prices_read'', ''session_list'', ''new_turn'', ''native_resume'', ''lifecycle_event_import''],
        [''protocol_versions_other_than_3'', ''telemetry_identity_verification'', ''all_vscode_extension_state''],
        [''https://github.com/github/copilot-sdk'',
         ''https://docs.github.com/en/copilot/how-tos/copilot-sdk/features/usage-and-billing''])
    | Worktrunk \<Rightarrow> ([''version_probe'', ''schema2_local_list'', ''exact_approved_worktree_create_no_hooks''],
        [''merge_rebase'', ''branch_deleting_remove'', ''project_hook_automation''],
        [''https://worktrunk.dev/list/'', ''https://worktrunk.dev/switch/''])
    | Doppler \<Rightarrow> ([''version_probe'', ''one_secret_resolution''],
        [''secret_mutations'', ''account_creation''],
        [''https://docs.doppler.com/docs/accessing-secrets''])
    | OnePassword \<Rightarrow> ([''version_probe'', ''one_secret_resolution''], [''vault_administration''],
        [''https://developer.1password.com/docs/cli/reference/commands/read/''])
    | Docker \<Rightarrow> ([''version_probe'', ''local_engine_probe'', ''scoped_offline_runtime_quarantine''],
        [''global_wsl_shutdown'', ''data_reset''],
        [''https://docs.docker.com/engine/manage-resources/contexts/''])
    | _ \<Rightarrow> ([''version_probe'', ''explicit_installation_inventory''],
        [''native_continuation'', ''live_quota''], []))"

definition capabilities :: "adapter \<Rightarrow> adapter_capabilities" where
  "capabilities a = (let (ops, unsupported, sources) = capability_table a in
     \<lparr>ac_adapter = a, ac_implementation_revision = ''workstation.adapters.v4'', ac_operations = ops,
      ac_unsupported = unsupported, ac_certification = ''declaration_not_runtime_certification'',
      ac_tested_versions = [], ac_coverage = Partial, ac_sources = sources\<rparr>)"

section \<open>Approved tasks\<close>

record file_pin =
  fp_path :: string
  fp_sha256 :: string

record approved_task =
  task_id :: string
  task_project_id :: string
  task_environment :: string
  task_executable :: string
  task_executable_sha256 :: string
  task_cwd :: string
  task_directory_identity :: string
  task_args :: "string list"
  task_script_pins :: "file_pin list"
  task_secret_bindings :: "(string \<times> string) list"
  task_timeout_seconds :: nat
  task_output_policy :: string

definition behaviour_env :: "string list" where
  "behaviour_env =
     [''PATH'', ''PATHEXT'', ''HOME'', ''USERPROFILE'', ''TEMP'', ''TMP'', ''SYSTEMROOT'', ''WINDIR'',
      ''COMSPEC'', ''BASH_ENV'', ''ENV'', ''NODE_OPTIONS'', ''NODE_PATH'', ''PYTHONPATH'', ''PYTHONHOME'',
      ''PYTHONSTARTUP'', ''RUBYOPT'', ''PERL5OPT'', ''LD_PRELOAD'', ''LD_LIBRARY_PATH'']"

definition safe_secret_env :: "string \<Rightarrow> unit check" where
  "safe_secret_env k = checks
     [reject (k = [] \<or> length k > 128
        \<or> \<not> list_all (\<lambda>b. is_ascii_uppercase b \<or> is_ascii_digit b \<or> b = CHR ''_'') k)
        ''ENVIRONMENT_KEY_INVALID'',
      reject (k \<in> set behaviour_env \<or> prefix ''DYLD_'' k \<or> prefix ''GIT_'' k)
        ''BEHAVIOR_CHANGING_SECRET_ENV_REJECTED'']"

text \<open>
  The last component of the executable path in lower case. \<open>to_lowercase\<close> also maps letters outside
  ASCII; none of those maps onto a name of the lists below, which are all it is compared with.
\<close>

definition executable_name :: "string \<Rightarrow> string" where
  "executable_name s = to_ascii_lowercase (last (split_on is_path_sep s))"

definition shell_names :: "string list" where
  "shell_names =
     [''cmd.exe'', ''powershell.exe'', ''pwsh.exe'', ''bash.exe'', ''sh.exe'', ''cmd'', ''powershell'',
      ''pwsh'', ''bash'', ''sh'']"

definition interpreter_names :: "string list" where
  "interpreter_names = [''node.exe'', ''node'', ''python.exe'', ''python'', ''python3'']"

definition inline_code_args :: "string list" where
  "inline_code_args = [''-e'', ''--eval'', ''-c'', ''--command'', ''-Command'', ''-EncodedCommand'']"

definition approved_task_validate :: "approved_task \<Rightarrow> unit check" where
  "approved_task_validate t = checks
     [control_id (task_id t),
      control_id (task_project_id t),
      control_id (task_environment t),
      absolute_path (task_executable t),
      absolute_path (task_cwd t),
      digest (task_executable_sha256 t),
      control_text (task_directory_identity t) 256,
      reject (length (task_args t) > 64 \<or> length (task_script_pins t) > 32
        \<or> length (task_secret_bindings t) > 32
        \<or> \<not> (1 \<le> task_timeout_seconds t \<and> task_timeout_seconds t \<le> 3600)) ''TASK_BUDGET'',
      reject (task_output_policy t \<noteq> ''discard'') ''TASK_OUTPUT_MUST_BE_DISCARDED'',
      check_all (\<lambda>a. control_text a 2048) (task_args t),
      reject (sum_list (map length (task_args t)) > 12000) ''TASK_ARGUMENT_BUDGET'',
      check_all (\<lambda>p. checks [absolute_path (fp_path p), digest (fp_sha256 p)]) (task_script_pins t),
      check_all (\<lambda>(k, v). checks [safe_secret_env k, control_id v]) (task_secret_bindings t),
      reject (executable_name (task_executable t) \<in> set shell_names)
        ''SHELL_TASK_NOT_SUPPORTED_USE_PINNED_EXECUTABLE'',
      reject (executable_name (task_executable t) \<in> set interpreter_names \<and> task_script_pins t = [])
        ''INTERPRETER_SCRIPT_PIN_REQUIRED'',
      reject (list_ex (\<lambda>a. a \<in> set inline_code_args) (task_args t)) ''INLINE_CODE_ARGUMENT_REJECTED'']"

section \<open>Lemmas\<close>

lemma digest_ok [check_simps]: "digest s = Inr u \<longleftrightarrow> length s = 64 \<and> list_all is_ascii_hexdigit s"
  by (auto simp: digest_def)

lemma absolute_path_ok [check_simps]:
  "absolute_path s = Inr u \<longleftrightarrow> control_text s 32700 = Inr () \<and> (prefix ''/'' s \<or> has_drive s)
     \<and> \<not> prefix ''//'' s \<and> \<not> prefix [CHR 0x5C, CHR 0x5C] s
     \<and> (\<forall>x \<in> set (split_on is_path_sep s). x \<noteq> ''..'' \<and> x \<noteq> ''.'')"
  by (auto simp: absolute_path_def checks_Cons_ok list_ex_iff)

lemma safe_secret_env_ok [check_simps]:
  "safe_secret_env k = Inr u \<Longrightarrow> k \<notin> set behaviour_env \<and> \<not> prefix ''DYLD_'' k \<and> \<not> prefix ''GIT_'' k"
  by (simp add: safe_secret_env_def checks_Cons_ok)

text \<open>
  A task that passes validation cannot smuggle code past its pins. It is not a shell, an
  interpreter comes with at least one pinned script, no argument is an inline-code switch, every pin
  is an absolute path with a digest, no secret is bound to a behaviour-changing variable, and the
  executable path contains no dot segment.
\<close>

theorem approved_task_is_pinned:
  assumes "approved_task_validate t = Inr ()"
  shows "executable_name (task_executable t) \<notin> set shell_names
    \<and> (executable_name (task_executable t) \<in> set interpreter_names \<longrightarrow> task_script_pins t \<noteq> [])
    \<and> (\<forall>a \<in> set (task_args t). a \<notin> set inline_code_args)
    \<and> (\<forall>p \<in> set (task_script_pins t). absolute_path (fp_path p) = Inr () \<and> digest (fp_sha256 p) = Inr ())
    \<and> (\<forall>(k, v) \<in> set (task_secret_bindings t). k \<notin> set behaviour_env)
    \<and> ''..'' \<notin> set (split_on is_path_sep (task_executable t))
    \<and> task_output_policy t = ''discard''"
proof -
  note c = assms[unfolded approved_task_validate_def checks_Cons_ok, simplified reject_ok]
  have "\<forall>(k, v) \<in> set (task_secret_bindings t). k \<notin> set behaviour_env"
    using c by (auto simp: check_all_ok checks_Cons_ok dest!: bspec dest: safe_secret_env_ok)
  moreover have "''..'' \<notin> set (split_on is_path_sep (task_executable t))"
    using c by (auto simp: absolute_path_ok)
  ultimately show ?thesis
    using c by (auto simp: check_all_ok checks_Cons_ok list_ex_iff)
qed

definition sample_digest :: string where
  "sample_digest = replicate 64 CHR ''a''"

definition sample_task :: approved_task where
  "sample_task = \<lparr>task_id = ''t'', task_project_id = ''p'', task_environment = ''dev'',
     task_executable = ''/bin/node'', task_executable_sha256 = sample_digest, task_cwd = ''/w'',
     task_directory_identity = ''d'', task_args = [''x''],
     task_script_pins = [\<lparr>fp_path = ''/w/x'', fp_sha256 = sample_digest\<rparr>],
     task_secret_bindings = [(''DATABASE_URL'', ''r'')], task_timeout_seconds = 60,
     task_output_policy = ''discard''\<rparr>"

lemma sample_digest_ok: "digest sample_digest = Inr ()"
  by (simp add: digest_def sample_digest_def list_all_iff ascii_class_defs)

lemmas path_eval = absolute_path_def has_drive_def is_path_sep_def

lemma sample_task_ok: "approved_task_validate sample_task = Inr ()"
  unfolding approved_task_validate_def sample_task_def
  by (simp add: sample_digest_ok id_eval text_eval path_eval safe_secret_env_def behaviour_env_def
      executable_name_def shell_names_def interpreter_names_def inline_code_args_def)

theorem approved_task_is_pinned_witness:
  "executable_name (task_executable sample_task) \<notin> set shell_names
   \<and> length (task_script_pins sample_task) = 1 \<and> ''x'' \<notin> set inline_code_args
   \<and> task_output_policy sample_task = ''discard''"
  using approved_task_is_pinned[OF sample_task_ok] by (simp add: sample_task_def)

text \<open>
  The inline-code check compares whole arguments, so a switch that carries its code after an equals
  sign is accepted next to an unrelated pinned script.
\<close>

theorem attached_inline_code_is_accepted:
  "approved_task_validate (sample_task\<lparr>task_args := [''--eval=x'']\<rparr>) = Inr ()"
  unfolding approved_task_validate_def sample_task_def
  by (simp add: sample_digest_ok id_eval text_eval path_eval safe_secret_env_def behaviour_env_def
      executable_name_def shell_names_def interpreter_names_def inline_code_args_def)

end
