(* ===== verification/Workspace_Policy.thy ===== *)
theory Workspace_Policy
  imports Control
begin

text \<open>
  Workspace relationships and cleanup eligibility (\<open>workstation-core/src/workspace_policy.rs\<close>): path
  normalisation, the ordered-index overlap test and its pairwise reference, actor conflicts, and the
  conjunction of conditions under which a worktree may enter a reviewed cleanup plan. A
  \<open>BTreeSet<String>\<close> is the ascending list of its elements.
\<close>

section \<open>Data\<close>

record workspace_detail =
  wd_stamp :: workspace_stamp
  wd_repository_identity :: string
  wd_main_worktree :: bool
  wd_bare :: bool
  wd_locked :: bool
  wd_changed_paths :: "string list"
  wd_ignored_paths :: "string list"
  wd_path_coverage :: coverage
  wd_branch_exists :: "bool option"
  wd_checkout_filters_present :: "bool option"

record workspace_actor =
  ac_session_id :: string
  ac_work_id :: "string option"
  ac_project_id :: string
  ac_workspace_id :: "string option"
  ac_repository_identity :: "string option"
  ac_branch :: "string option"
  ac_paths :: "string list"
  ac_paths_complete :: bool
  ac_role :: string
  ac_ended :: bool
  ac_lease_until :: "int option"
  ac_last_observed :: int

datatype conflict_kind = SameWorkItem | SameWorkspace | SameBranch | OverlappingPaths | UnknownScope

record workspace_conflict =
  wc_first :: string
  wc_second :: string
  wc_kind :: conflict_kind
  wc_risk :: string
  wc_paths :: "string list"
  wc_ownership_uncertain :: bool
  wc_action :: string

section \<open>Paths\<close>

definition unbackslash :: "string \<Rightarrow> string" where
  "unbackslash s = map (\<lambda>c. if c = CHR 0x5C then CHR ''/'' else c) s"

definition relative_path :: "string \<Rightarrow> string check" where
  "relative_path s = bind_check (control_text s 4096) (\<lambda>_.
     let s' = unbackslash s
     in if s' = [] \<or> prefix ''/'' s' \<or> CHR '':'' \<in> set s'
          \<or> list_ex (\<lambda>x. x = ''..'' \<or> x = ''.'' \<or> x = []) (split_char CHR ''/'' s')
        then Inl ''WORKSPACE_PATH_NOT_RELATIVE'' else Inr s')"

definition path_key :: "string \<Rightarrow> string" where
  "path_key s = to_ascii_lowercase (unbackslash s)"

text \<open>The pairwise reference of the overlap test.\<close>

definition overlap :: "string \<Rightarrow> string \<Rightarrow> bool" where
  "overlap a b \<longleftrightarrow> (let a = path_key a; b = path_key b
     in a = b \<or> prefix (b @ ''/'') a \<or> prefix (a @ ''/'') b)"

definition range_first :: "string list \<Rightarrow> string \<Rightarrow> string option" where
  "range_first others p = List.find (\<lambda>x. p \<le> x) others"

definition indexed_overlap :: "string \<Rightarrow> string list \<Rightarrow> bool" where
  "indexed_overlap path others \<longleftrightarrow>
     path \<in> set others
     \<or> list_ex (\<lambda>i. path ! i = CHR ''/'' \<and> take i path \<in> set others) [0..<length path]
     \<or> (case range_first others (path @ ''/'') of None \<Rightarrow> False | Some x \<Rightarrow> prefix (path @ ''/'') x)"

section \<open>Conflicts\<close>

fun index_paths :: "nat \<Rightarrow> string list \<Rightarrow> string list \<Rightarrow> (nat \<times> string list) check" where
  "index_paths bytes acc [] = Inr (bytes, btree_set acc)"
| "index_paths bytes acc (p # ps) = bind_check (relative_path p) (\<lambda>_.
     if bytes + length p > 4 * 1024 * 1024 then Inl ''PATH_OVERLAP_BUDGET''
     else index_paths (bytes + length p) (path_key p # acc) ps)"

definition actor_check :: "workspace_actor \<Rightarrow> unit check" where
  "actor_check a = checks
     [control_id (ac_session_id a),
      control_id (ac_project_id a),
      control_timestamp (ac_last_observed a),
      check_opt control_timestamp (ac_lease_until a),
      reject (ac_role a \<notin> set [''primary'', ''reviewer'', ''observer'']) ''ACTOR_ROLE_INVALID'']"

fun index_actors ::
    "(string \<times> string option \<times> string option) set \<Rightarrow> nat \<Rightarrow> workspace_actor list \<Rightarrow> string list list check" where
  "index_actors ids bytes [] = Inr []"
| "index_actors ids bytes (a # as) = bind_check (actor_check a) (\<lambda>_.
     let k = (ac_session_id a, ac_work_id a, ac_workspace_id a)
     in if k \<in> ids then Inl ''DUPLICATE_ACTOR''
        else if length (ac_paths a) > 512 then Inl ''PATH_OVERLAP_BUDGET''
        else bind_check (index_paths bytes [] (ac_paths a)) (\<lambda>(bytes', normalized).
             bind_check (index_actors (insert k ids) bytes' as) (\<lambda>rest. Inr (normalized # rest))))"

fun overlap_paths :: "string list \<Rightarrow> string list \<Rightarrow> string list \<Rightarrow> string list" where
  "overlap_paths index acc [] = acc"
| "overlap_paths index acc (p # ps) =
     (if indexed_overlap (path_key p) index then
        (let acc' = List.insert p acc in if length acc' = 32 then acc' else overlap_paths index acc' ps)
      else overlap_paths index acc ps)"

definition lease_uncertain :: "int \<Rightarrow> workspace_actor \<Rightarrow> bool" where
  "lease_uncertain now x \<longleftrightarrow> ac_last_observed x > now \<or> sub_i64 now (ac_last_observed x) > 300
     \<or> (case ac_lease_until x of None \<Rightarrow> True | Some t \<Rightarrow> t < now)"

definition same_repo :: "workspace_actor \<Rightarrow> workspace_actor \<Rightarrow> bool" where
  "same_repo a b \<longleftrightarrow> ac_repository_identity a \<noteq> None \<and> ac_repository_identity a = ac_repository_identity b"

definition same_workspace :: "workspace_actor \<Rightarrow> workspace_actor \<Rightarrow> bool" where
  "same_workspace a b \<longleftrightarrow> ac_project_id a = ac_project_id b \<and> ac_workspace_id a \<noteq> None
     \<and> ac_workspace_id a = ac_workspace_id b"

definition same_work :: "workspace_actor \<Rightarrow> workspace_actor \<Rightarrow> bool" where
  "same_work a b \<longleftrightarrow> ac_project_id a = ac_project_id b \<and> ac_work_id a \<noteq> None
     \<and> ac_work_id a = ac_work_id b \<and> ac_role a = ''primary'' \<and> ac_role b = ''primary''"

definition same_branch :: "workspace_actor \<Rightarrow> workspace_actor \<Rightarrow> bool" where
  "same_branch a b \<longleftrightarrow> same_repo a b \<and> ac_branch a \<noteq> None \<and> ac_branch a = ac_branch b"

definition conflict_class ::
    "workspace_actor \<Rightarrow> workspace_actor \<Rightarrow> string list \<Rightarrow> (conflict_kind \<times> string) option" where
  "conflict_class a b paths =
     (if same_work a b then Some (SameWorkItem, ''high'')
      else if same_workspace a b then Some (SameWorkspace, ''high'')
      else if paths \<noteq> [] then Some (OverlappingPaths, ''medium'')
      else if same_branch a b then Some (SameBranch, ''medium'')
      else if same_repo a b \<and> (\<not> ac_paths_complete a \<or> \<not> ac_paths_complete b)
        then Some (UnknownScope, ''unknown'')
      else None)"

definition pair_conflict ::
    "int \<Rightarrow> workspace_actor \<Rightarrow> workspace_actor \<times> string list \<Rightarrow> workspace_conflict list" where
  "pair_conflict now a bi =
     (let (b, index) = bi in
      if ac_ended b \<or> ac_role b = ''observer'' \<or> ac_session_id a = ac_session_id b then []
      else
        let paths = (if same_repo a b \<or> same_workspace a b then overlap_paths index [] (ac_paths a) else [])
        in case conflict_class a b paths of
             None \<Rightarrow> []
           | Some (kind, risk) \<Rightarrow>
               [\<lparr>wc_first = ac_session_id a, wc_second = ac_session_id b, wc_kind = kind, wc_risk = risk,
                 wc_paths = take 32 (btree_set paths),
                 wc_ownership_uncertain = lease_uncertain now a \<or> lease_uncertain now b,
                 wc_action = ''coordinate_or_use_separate_workspace_no_termination''\<rparr>])"

fun all_pairs :: "int \<Rightarrow> (workspace_actor \<times> string list) list \<Rightarrow> workspace_conflict list" where
  "all_pairs now [] = []"
| "all_pairs now ((a, i) # rest) =
     (if ac_ended a \<or> ac_role a = ''observer'' then []
      else concat (map (pair_conflict now a) rest)) @ all_pairs now rest"

text \<open>Results are pushed one by one; pushing the 1025th one is an error.\<close>

fun push_limited :: "nat \<Rightarrow> 'a list \<Rightarrow> 'a list check" where
  "push_limited n [] = Inr []"
| "push_limited n (c # cs) =
     (if Suc n > 1024 then Inl ''COLLISION_RESULT_LIMIT''
      else bind_check (push_limited (Suc n) cs) (\<lambda>rest. Inr (c # rest)))"

definition conflicts :: "workspace_actor list \<Rightarrow> int \<Rightarrow> workspace_conflict list check" where
  "conflicts actors now =
     bind_check (control_timestamp now) (\<lambda>_.
     if length actors > 256 then Inl ''ROSTER_LIMIT''
     else bind_check (index_actors {} 0 actors) (\<lambda>indexed.
          push_limited 0 (all_pairs now (zip actors indexed))))"

section \<open>Cleanup eligibility\<close>

record cleanup_context =
  cc_detail :: workspace_detail
  cc_work_states :: "(string \<times> work_state) list"
  cc_unresolved_sessions :: "string list"
  cc_protection_reasons :: "string list"
  cc_observations_complete :: bool
  cc_quiescence_acknowledged :: bool
  cc_preserve_head_ref :: bool

record cleanup_eligibility_result =
  ce_disposition :: string
  ce_blockers :: "string list"
  ce_required_preservation :: "string list"
  ce_automatic_delete_authorized :: bool

definition cleanup_blockers :: "cleanup_context \<Rightarrow> int \<Rightarrow> string list" where
  "cleanup_blockers c now =
     (let d = cc_detail c; s = wd_stamp d; on = (\<lambda>p e. if p then [e] else []) in
      concat
       [on (wd_main_worktree d \<or> wd_bare d) ''main_or_bare_checkout'',
        on (wd_locked d) ''git_worktree_locked'',
        on (\<not> cc_observations_complete c \<or> wd_path_coverage d \<noteq> Complete \<or> st_coverage s \<noteq> Complete)
          ''incomplete_evidence'',
        on (now < st_observed_at s \<or> sub_i64 now (st_observed_at s) > 30) ''stale_workspace_evidence'',
        on (st_dirty s \<noteq> Some False) ''dirty_or_unknown_tracked_state'',
        on (st_untracked s \<noteq> Some 0) ''untracked_or_unknown_content'',
        on (st_ignored s \<noteq> Some 0 \<or> wd_ignored_paths d \<noteq> []) ''ignored_or_unknown_local_data'',
        on (wd_changed_paths d \<noteq> []) ''changed_paths'',
        on (st_blockers s \<noteq> []) ''git_operation_or_inspection_blocker'',
        on (cc_unresolved_sessions c \<noteq> []) ''possibly_active_session'',
        on (list_ex (\<lambda>(k, x). \<not> (x = Done \<or> x = Cancelled)) (cc_work_states c)) ''unfinished_work_item'',
        on (cc_protection_reasons c \<noteq> []) ''explicit_protection'',
        on (\<not> cc_quiescence_acknowledged c) ''external_writers_not_coordinated'',
        on (\<not> cc_preserve_head_ref c) ''head_preservation_required''])"

definition cleanup_eligibility :: "cleanup_context \<Rightarrow> int \<Rightarrow> cleanup_eligibility_result check" where
  "cleanup_eligibility c now =
     bind_check (checks [control_timestamp now, control_timestamp (st_observed_at (wd_stamp (cc_detail c)))]) (\<lambda>_.
       let b = btree_set (cleanup_blockers c now)
       in Inr \<lparr>ce_disposition = (if b = [] then ''eligible_for_exact_reviewed_plan'' else ''protected''),
               ce_blockers = b,
               ce_required_preservation =
                 [''Retain exact HEAD under a Workstation-owned Git ref; never delete the branch.'',
                  ''Capture metadata receipt before non-force Git operation; no broad prune.''],
               ce_automatic_delete_authorized = False\<rparr>)"

section \<open>The ordered index\<close>

text \<open>Between a prefix and one of its extensions, in byte order, everything extends the prefix.\<close>

lemma prefix_between: "prefix p y \<Longrightarrow> p \<le> x \<Longrightarrow> x \<le> y \<Longrightarrow> prefix p (x :: string)"
proof (induction p arbitrary: x y)
  case (Cons c p)
  from Cons.prems(1) obtain y' where y: "y = c # y'" "prefix p y'" by (cases y) auto
  from Cons.prems(2) obtain d x' where x: "x = d # x'" by (cases x) auto
  from Cons.prems(2,3) x y have "d = c" "p \<le> x'" "x' \<le> y'" by auto
  with Cons.IH[OF y(2)] x show ?case by simp
qed simp

lemma prefix_imp_le: "prefix p x \<Longrightarrow> p \<le> (x :: string)"
proof -
  have "p \<le> p @ zs" for zs :: string
    by (induction p) auto
  then show "prefix p x \<Longrightarrow> p \<le> x" by (auto elim: prefixE)
qed

lemma prefix_snoc_iff:
  "prefix (y @ [c]) p \<longleftrightarrow> length y < length p \<and> take (length y) p = y \<and> p ! length y = c"
proof
  assume "length y < length p \<and> take (length y) p = y \<and> p ! length y = c"
  then have "take (Suc (length y)) p = y @ [c]" by (simp add: take_Suc_conv_app_nth)
  then show "prefix (y @ [c]) p" by (metis take_is_prefix)
qed (auto simp: prefix_def nth_append)

text \<open>
  What the overlap test needs of an ordered set of strings: membership, and the least element at or
  above a bound (\<open>BTreeSet::range\<close>).
\<close>

locale ordered_index =
  fixes member :: "'s \<Rightarrow> string \<Rightarrow> bool"
    and first_from :: "'s \<Rightarrow> string \<Rightarrow> string option"
    and elems :: "'s \<Rightarrow> string set"
    and inv :: "'s \<Rightarrow> bool"
  assumes member_elems: "inv s \<Longrightarrow> member s x \<longleftrightarrow> x \<in> elems s"
    and first_from_Some: "inv s \<Longrightarrow> first_from s p = Some x \<Longrightarrow>
      x \<in> elems s \<and> p \<le> x \<and> (\<forall>y \<in> elems s. p \<le> y \<longrightarrow> x \<le> y)"
    and first_from_None: "inv s \<Longrightarrow> first_from s p = None \<Longrightarrow> y \<in> elems s \<Longrightarrow> \<not> p \<le> y"
begin

lemma first_from_prefix:
  assumes "inv s"
  shows "(case first_from s p of None \<Rightarrow> False | Some x \<Rightarrow> prefix p x) \<longleftrightarrow> (\<exists>y \<in> elems s. prefix p y)"
proof (cases "first_from s p")
  case None
  with first_from_None[OF assms None] show ?thesis by (auto dest: prefix_imp_le)
next
  case (Some x)
  with first_from_Some[OF assms Some] show ?thesis
    by (auto dest: prefix_imp_le intro: prefix_between)
qed

lemma lookup_prefix: "inv s \<Longrightarrow> (\<exists>i < length p. p ! i = c \<and> member s (take i p))
    \<longleftrightarrow> (\<exists>y \<in> elems s. prefix (y @ [c]) p)"
proof -
  assume inv: "inv s"
  show ?thesis
  proof
    assume "\<exists>i < length p. p ! i = c \<and> member s (take i p)"
    then obtain i where i: "i < length p" "p ! i = c" "take i p \<in> elems s"
      using member_elems[OF inv] by blast
    then have "prefix (take i p @ [c]) p" by (simp add: prefix_snoc_iff)
    with i(3) show "\<exists>y \<in> elems s. prefix (y @ [c]) p" by blast
  next
    assume "\<exists>y \<in> elems s. prefix (y @ [c]) p"
    then obtain y where "y \<in> elems s" "prefix (y @ [c]) p" by blast
    then show "\<exists>i < length p. p ! i = c \<and> member s (take i p)"
      using member_elems[OF inv] by (intro exI[of _ "length y"]) (simp add: prefix_snoc_iff)
  qed
qed

end

lemma find_sorted_first:
  "sorted xs \<Longrightarrow> List.find P xs = Some x \<Longrightarrow> P y \<Longrightarrow> y \<in> set xs \<Longrightarrow> x \<le> (y :: 'a :: linorder)"
  by (induction xs) (auto split: if_splits)

interpretation btree_index: ordered_index "\<lambda>s x. x \<in> set s" range_first set sorted
proof (unfold_locales, goal_cases)
  case (2 s p x)
  then have "x \<in> set s" "p \<le> x" by (auto simp: range_first_def find_Some_iff)
  with 2 find_sorted_first[of s "\<lambda>x. p \<le> x" x] show ?case by (simp add: range_first_def)
next
  case (3 s p y)
  then show ?case by (simp add: range_first_def find_None_iff)
qed simp

lemma indexed_overlap_iff:
  assumes "sorted others"
  shows "indexed_overlap p others \<longleftrightarrow>
    (\<exists>y \<in> set others. p = y \<or> prefix (y @ ''/'') p \<or> prefix (p @ ''/'') y)"
proof -
  have "list_ex (\<lambda>i. p ! i = CHR ''/'' \<and> take i p \<in> set others) [0..<length p]
      \<longleftrightarrow> (\<exists>y \<in> set others. prefix (y @ ''/'') p)"
    unfolding list_ex_iff using btree_index.lookup_prefix[OF assms, of p "CHR ''/''"]
    by (simp add: Bex_def conj_commute)
  then show ?thesis
    using btree_index.first_from_prefix[OF assms, of "p @ ''/''"]
    by (auto simp: indexed_overlap_def)
qed

lemma overlap_iff:
  "overlap p q \<longleftrightarrow> path_key p = path_key q
     \<or> prefix (path_key q @ ''/'') (path_key p) \<or> prefix (path_key p @ ''/'') (path_key q)"
  by (simp add: overlap_def Let_def)

section \<open>Facts about conflicts\<close>

definition path_index :: "workspace_actor \<Rightarrow> string list" where
  "path_index a = btree_set (map path_key (ac_paths a))"

lemma index_paths_ok:
  "index_paths n acc ps = Inr (m, idx) \<Longrightarrow> idx = btree_set (map path_key ps @ acc)"
proof (induction n acc ps rule: index_paths.induct)
  case (2 n acc p ps)
  then have "idx = btree_set (map path_key ps @ path_key p # acc)"
    by (auto simp: bind_check_ok split: if_splits)
  also have "\<dots> = btree_set (map path_key (p # ps) @ acc)"
    by (rule btree_set_unique) auto
  finally show ?case .
qed auto

lemma index_actors_ok: "index_actors ids n as = Inr idxs \<Longrightarrow> idxs = map path_index as"
  by (induction ids n as arbitrary: idxs rule: index_actors.induct)
    (auto simp: bind_check_ok Let_def path_index_def dest!: index_paths_ok split: if_splits)

lemma index_actors_checked: "index_actors ids n as = Inr idxs \<Longrightarrow> a \<in> set as \<Longrightarrow> actor_check a = Inr ()"
  by (induction ids n as arbitrary: idxs rule: index_actors.induct)
    (auto simp: bind_check_ok Let_def split: if_splits)

lemma overlap_paths_Nil:
  "overlap_paths idx acc ps = [] \<longleftrightarrow> acc = [] \<and> (\<forall>p \<in> set ps. \<not> indexed_overlap (path_key p) idx)"
  by (induction idx acc ps rule: overlap_paths.induct) (auto simp: Let_def List.insert_def)

lemma push_limited_ok: "push_limited n cs = Inr rs \<longleftrightarrow> rs = cs \<and> (cs = [] \<or> n + length cs \<le> 1024)"
proof (induction n cs arbitrary: rs rule: push_limited.induct)
  case (2 n c cs)
  show ?case
  proof (cases "Suc n > 1024")
    case True
    then show ?thesis by simp
  next
    case False
    with 2 have "push_limited (Suc n) cs = Inr xs \<longleftrightarrow> xs = cs \<and> (cs = [] \<or> Suc n + length cs \<le> 1024)" for xs
      by blast
    with False show ?thesis by (cases cs) (auto simp: bind_check_ok)
  qed
qed auto

definition is_writer :: "workspace_actor \<Rightarrow> bool" where
  "is_writer a \<longleftrightarrow> \<not> ac_ended a \<and> ac_role a \<noteq> ''observer''"

text \<open>When two actors conflict, as a relation between the actors that no clock enters.\<close>

definition actors_conflict :: "workspace_actor \<Rightarrow> workspace_actor \<Rightarrow> bool" where
  "actors_conflict a b \<longleftrightarrow> is_writer a \<and> is_writer b \<and> ac_session_id a \<noteq> ac_session_id b
     \<and> (same_work a b \<or> same_workspace a b
        \<or> (same_repo a b \<and> ((\<exists>p \<in> set (ac_paths a). \<exists>q \<in> set (ac_paths b). overlap p q)
             \<or> (ac_branch a \<noteq> None \<and> ac_branch a = ac_branch b)
             \<or> \<not> ac_paths_complete a \<or> \<not> ac_paths_complete b)))"

fun ordered_pairs :: "'a list \<Rightarrow> ('a \<times> 'a) list" where
  "ordered_pairs [] = []"
| "ordered_pairs (x # xs) = map (Pair x) xs @ ordered_pairs xs"

lemma indexed_path_index:
  "indexed_overlap (path_key p) (path_index b) \<longleftrightarrow> (\<exists>q \<in> set (ac_paths b). overlap p q)"
  by (auto simp: path_index_def indexed_overlap_iff overlap_iff)

lemma conflict_class_None:
  "conflict_class a b ps = None \<longleftrightarrow> \<not> same_work a b \<and> \<not> same_workspace a b \<and> ps = []
     \<and> \<not> same_branch a b \<and> \<not> (same_repo a b \<and> (\<not> ac_paths_complete a \<or> \<not> ac_paths_complete b))"
  by (simp add: conflict_class_def)

definition shared_paths :: "workspace_actor \<Rightarrow> workspace_actor \<Rightarrow> string list" where
  "shared_paths a b = (if same_repo a b \<or> same_workspace a b
     then overlap_paths (path_index b) [] (ac_paths a) else [])"

lemma shared_paths_Nil:
  "shared_paths a b = [] \<longleftrightarrow> \<not> ((same_repo a b \<or> same_workspace a b)
     \<and> (\<exists>p \<in> set (ac_paths a). \<exists>q \<in> set (ac_paths b). overlap p q))"
  by (simp add: shared_paths_def overlap_paths_Nil indexed_path_index)

lemma class_exact:
  "conflict_class a b (shared_paths a b) \<noteq> None \<longleftrightarrow>
     (same_work a b \<or> same_workspace a b
        \<or> (same_repo a b \<and> ((\<exists>p \<in> set (ac_paths a). \<exists>q \<in> set (ac_paths b). overlap p q)
             \<or> (ac_branch a \<noteq> None \<and> ac_branch a = ac_branch b)
             \<or> \<not> ac_paths_complete a \<or> \<not> ac_paths_complete b)))"
  unfolding conflict_class_None shared_paths_Nil same_branch_def by blast

lemma pair_conflict_sessions:
  assumes "is_writer a"
  shows "map (\<lambda>c. (wc_first c, wc_second c)) (pair_conflict now a (b, path_index b))
     = (if actors_conflict a b then [(ac_session_id a, ac_session_id b)] else [])"
proof (cases "is_writer b \<and> ac_session_id a \<noteq> ac_session_id b")
  case False
  then show ?thesis by (auto simp: pair_conflict_def actors_conflict_def is_writer_def)
next
  case True
  then have "actors_conflict a b \<longleftrightarrow> conflict_class a b (shared_paths a b) \<noteq> None"
    using assms unfolding actors_conflict_def class_exact by simp
  moreover have "map (\<lambda>c. (wc_first c, wc_second c)) (pair_conflict now a (b, path_index b))
      = (case conflict_class a b (shared_paths a b) of None \<Rightarrow> [] | Some _ \<Rightarrow> [(ac_session_id a, ac_session_id b)])"
    using True by (simp add: pair_conflict_def is_writer_def Let_def flip: shared_paths_def split: option.split)
  ultimately show ?thesis by (simp split: option.split)
qed

lemma concat_map_filter: "concat (map (\<lambda>b. if P b then [f b] else []) xs) = map f (filter P xs)"
  by (induction xs) auto

lemma all_pairs_sessions:
  "map (\<lambda>c. (wc_first c, wc_second c)) (all_pairs now (map (\<lambda>a. (a, path_index a)) as))
     = map (\<lambda>(a, b). (ac_session_id a, ac_session_id b))
         (filter (\<lambda>(a, b). actors_conflict a b) (ordered_pairs as))"
proof (induction as)
  case (Cons a as)
  show ?case
  proof (cases "is_writer a")
    case True
    have "map (\<lambda>c. (wc_first c, wc_second c)) (concat (map (pair_conflict now a) (map (\<lambda>b. (b, path_index b)) as)))
        = map (\<lambda>b. (ac_session_id a, ac_session_id b)) (filter (actors_conflict a) as)"
      by (simp add: map_concat comp_def pair_conflict_sessions[OF True] concat_map_filter)
    with Cons.IH True show ?thesis
      by (simp add: is_writer_def filter_map comp_def)
  next
    case False
    then have "filter (\<lambda>b. actors_conflict a b) as = []" by (simp add: actors_conflict_def)
    with Cons.IH False show ?thesis by (simp add: is_writer_def filter_map comp_def)
  qed
qed simp

section \<open>Properties\<close>

text \<open>
  C34: the ordered-index overlap test is equivalent to the pairwise reference: a path overlaps an
  indexed set exactly when it equals, contains or lies under one of its paths, up to separators and
  ASCII case. The one lookup of the least element at or above "path/" is enough in byte order.
\<close>

theorem indexed_overlap_matches_reference:
  "indexed_overlap (path_key p) (btree_set (map path_key qs)) = list_ex (overlap p) qs"
  by (auto simp: indexed_overlap_iff overlap_iff list_ex_iff)

text \<open>
  C33: the conflict report is exact and no clock removes an actor from it. Whenever it succeeds it lists,
  in roster order and once each, precisely the pairs of writers of different sessions that share a
  Work Item, a workspace, or a repository with overlapping paths, a common branch or an unknown
  scope; expired leases and old observations only mark ownership as uncertain.
\<close>

theorem conflicts_report_is_exact:
  assumes "conflicts actors now = Inr rs"
  shows "map (\<lambda>c. (wc_first c, wc_second c)) rs
    = map (\<lambda>(a, b). (ac_session_id a, ac_session_id b))
        (filter (\<lambda>(a, b). actors_conflict a b) (ordered_pairs actors))"
proof -
  from assms obtain idxs where "index_actors {} 0 actors = Inr idxs"
    and rs: "push_limited 0 (all_pairs now (zip actors idxs)) = Inr rs"
    by (auto simp: conflicts_def bind_check_ok split: if_splits)
  from index_actors_ok[OF this(1)] have "zip actors idxs = map (\<lambda>a. (a, path_index a)) actors"
    by (simp add: zip_map2 zip_same_conv_map)
  with rs all_pairs_sessions show ?thesis by (simp add: push_limited_ok)
qed

definition sample_actor :: "string \<Rightarrow> string \<Rightarrow> workspace_actor" where
  "sample_actor s p = \<lparr>ac_session_id = s, ac_work_id = None, ac_project_id = ''p'', ac_workspace_id = None,
     ac_repository_identity = Some ''r'', ac_branch = None, ac_paths = [p], ac_paths_complete = True,
     ac_role = ''primary'', ac_ended = False, ac_lease_until = Some 99, ac_last_observed = 1\<rparr>"

lemma sample_conflicts:
  "\<exists>rs. conflicts [sample_actor ''a'' ''x'', sample_actor ''b'' ''X/y''] 5000 = Inr rs"
  by (simp add: conflicts_def control_timestamp_def sample_actor_def actor_check_def id_eval text_eval
      relative_path_def unbackslash_def split_char_def push_limited_ok pair_conflict_def conflict_class_def
      same_work_def same_workspace_def same_repo_def same_branch_def Let_def split: option.splits)

theorem conflicts_report_is_exact_witness:
  "\<exists>rs. conflicts [sample_actor ''a'' ''x'', sample_actor ''b'' ''X/y''] 5000 = Inr rs
     \<and> map (\<lambda>c. (wc_first c, wc_second c)) rs = [(''a'', ''b'')]"
proof -
  obtain rs where rs: "conflicts [sample_actor ''a'' ''x'', sample_actor ''b'' ''X/y''] 5000 = Inr rs"
    using sample_conflicts by blast
  have "actors_conflict (sample_actor ''a'' ''x'') (sample_actor ''b'' ''X/y'')"
    by (simp add: actors_conflict_def is_writer_def sample_actor_def same_work_def same_workspace_def
        same_repo_def overlap_iff path_key_def unbackslash_def to_ascii_lowercase_def ascii_lower_def
        is_ascii_uppercase_def char_of_def bit_0)
  with conflicts_report_is_exact[OF rs] rs show ?thesis by (auto simp: sample_actor_def)
qed

definition cleanup_clear :: "cleanup_context \<Rightarrow> int \<Rightarrow> bool" where
  "cleanup_clear c now \<longleftrightarrow> (let d = cc_detail c; s = wd_stamp d in
       \<not> wd_main_worktree d \<and> \<not> wd_bare d \<and> \<not> wd_locked d
       \<and> cc_observations_complete c \<and> wd_path_coverage d = Complete \<and> st_coverage s = Complete
       \<and> st_observed_at s \<le> now \<and> now \<le> st_observed_at s + 30
       \<and> st_dirty s = Some False \<and> st_untracked s = Some 0 \<and> st_ignored s = Some 0
       \<and> wd_ignored_paths d = [] \<and> wd_changed_paths d = [] \<and> st_blockers s = []
       \<and> cc_unresolved_sessions c = [] \<and> cc_protection_reasons c = []
       \<and> list_all (\<lambda>(k, x). x = Done \<or> x = Cancelled) (cc_work_states c)
       \<and> cc_quiescence_acknowledged c \<and> cc_preserve_head_ref c)"

lemma eligible_iff_clear:
  assumes "cleanup_eligibility c now = Inr r"
  shows "ce_disposition r = (if cleanup_clear c now then ''eligible_for_exact_reviewed_plan'' else ''protected'')"
    "ce_blockers r = [] \<longleftrightarrow> cleanup_clear c now" "\<not> ce_automatic_delete_authorized r"
proof -
  have t: "control_timestamp now = Inr ()" "control_timestamp (st_observed_at (wd_stamp (cc_detail c))) = Inr ()"
    and r: "ce_disposition r = (if cleanup_blockers c now = [] then ''eligible_for_exact_reviewed_plan'' else ''protected'')"
      "ce_blockers r = btree_set (cleanup_blockers c now)" "\<not> ce_automatic_delete_authorized r"
    using assms by (auto simp: cleanup_eligibility_def bind_check_ok checks_Cons_ok Let_def)
  have "list_ex (\<lambda>(k, x). \<not> (x = Done \<or> x = Cancelled)) xs
      = (\<not> list_all (\<lambda>(k, x). x = Done \<or> x = Cancelled) xs)" for xs :: "(string \<times> work_state) list"
    by (induction xs) auto
  then have "cleanup_blockers c now = [] \<longleftrightarrow> cleanup_clear c now"
    using timestamps_sub_exact[OF t] by (auto simp: cleanup_blockers_def cleanup_clear_def Let_def)
  with r show "ce_disposition r = (if cleanup_clear c now then ''eligible_for_exact_reviewed_plan'' else ''protected'')"
    "ce_blockers r = [] \<longleftrightarrow> cleanup_clear c now" "\<not> ce_automatic_delete_authorized r" by simp_all
qed

text \<open>
  C32: a worktree is eligible for a cleanup plan exactly when every protection is absent in complete
  evidence at most 30 seconds old (clean and fully known content, no lock, blocker, session or
  unfinished work, acknowledged quiescence, preserved head); otherwise it is protected. No result
  authorises an automatic delete.
\<close>

theorem cleanup_eligible_iff_all_evidence:
  assumes "cleanup_eligibility c now = Inr r"
  shows "(ce_disposition r = ''eligible_for_exact_reviewed_plan'' \<longleftrightarrow>
      (let d = cc_detail c; s = wd_stamp d in
       \<not> wd_main_worktree d \<and> \<not> wd_bare d \<and> \<not> wd_locked d
       \<and> cc_observations_complete c \<and> wd_path_coverage d = Complete \<and> st_coverage s = Complete
       \<and> st_observed_at s \<le> now \<and> now \<le> st_observed_at s + 30
       \<and> st_dirty s = Some False \<and> st_untracked s = Some 0 \<and> st_ignored s = Some 0
       \<and> wd_ignored_paths d = [] \<and> wd_changed_paths d = [] \<and> st_blockers s = []
       \<and> cc_unresolved_sessions c = [] \<and> cc_protection_reasons c = []
       \<and> list_all (\<lambda>(k, x). x = Done \<or> x = Cancelled) (cc_work_states c)
       \<and> cc_quiescence_acknowledged c \<and> cc_preserve_head_ref c))
    \<and> (ce_blockers r = [] \<longleftrightarrow> ce_disposition r = ''eligible_for_exact_reviewed_plan'')
    \<and> \<not> ce_automatic_delete_authorized r"
  using eligible_iff_clear[OF assms] by (simp add: cleanup_clear_def)

definition sample_stamp :: workspace_stamp where
  "sample_stamp = \<lparr>st_project_id = ''p'', st_workspace_id = ''w'', st_path = ''/w'',
     st_directory_identity = ''i'', st_head = replicate 40 CHR ''a'', st_branch = None,
     st_status_digest = replicate 64 CHR ''b'', st_dirty = Some False, st_untracked = Some 0,
     st_ignored = Some 0, st_local_only_commits = None, st_blockers = [], st_observed_at = 100,
     st_coverage = Complete\<rparr>"

definition sample_evidence :: evidence where
  "sample_evidence = \<lparr>ev_kind = Observed, ev_source = ''s'', ev_at = 900, ev_coverage = Complete\<rparr>"

definition sample_checkpoint :: checkpoint where
  "sample_checkpoint = \<lparr>cp_id = ''c'', cp_work = \<lparr>wi_id = ''w'', wi_project_id = ''p'', wi_objective = ''o'',
       wi_state = Active, wi_priority = 1, wi_version = 1, wi_workspace_id = Some ''w'', wi_completed = [],
       wi_remaining = [], wi_blockers = [], wi_evidence = sample_evidence\<rparr>,
     cp_session_id = None, cp_workspace = sample_stamp, cp_completed = [], cp_remaining = [], cp_blockers = [],
     cp_tests = [], cp_decision_ids = [], cp_resource_ids = [], cp_recorded_at = 900,
     cp_source = sample_evidence\<rparr>"

definition sample_cleanup :: cleanup_context where
  "sample_cleanup = \<lparr>cc_detail = \<lparr>wd_stamp = sample_stamp, wd_repository_identity = ''r'',
       wd_main_worktree = False, wd_bare = False, wd_locked = False, wd_changed_paths = [],
       wd_ignored_paths = [], wd_path_coverage = Complete, wd_branch_exists = None,
       wd_checkout_filters_present = None\<rparr>,
     cc_work_states = [(''w'', Done)], cc_unresolved_sessions = [], cc_protection_reasons = [],
     cc_observations_complete = True, cc_quiescence_acknowledged = True, cc_preserve_head_ref = True\<rparr>"

theorem cleanup_eligible_iff_all_evidence_witness:
  "\<exists>r. cleanup_eligibility sample_cleanup 110 = Inr r
     \<and> ce_disposition r = ''eligible_for_exact_reviewed_plan''"
proof -
  obtain r where r: "cleanup_eligibility sample_cleanup 110 = Inr r"
    by (simp add: cleanup_eligibility_def control_timestamp_def sample_cleanup_def sample_stamp_def Let_def)
  from cleanup_eligible_iff_all_evidence[OF r] r show ?thesis
    by (simp add: sample_cleanup_def sample_stamp_def Let_def)
qed

end
