(* ===== verification/Operations.thy ===== *)
theory Operations
  imports Integrations Workspace_Policy Json
begin

text \<open>
  Typed operations (\<open>workstation-core/src/operations.rs\<close>): the cleanup target, the closed operation
  alphabet and its validation, the branch-name filter, and the projection of a workspace whose digest
  pins the state a cleanup plan was prepared for. Numbers of the projection are integers.
\<close>

section \<open>Data\<close>

record cleanup_target =
  ct_project_id :: string
  ct_workspace_id :: string
  ct_path :: string
  ct_directory_identity :: string
  ct_git_sha256 :: string
  ct_head :: string
  ct_branch :: "string option"
  ct_repository_identity :: string
  ct_state_digest :: string
  ct_preservation_ref :: string
  ct_quiescence_acknowledged :: bool

record worktree_create =
  wt_integration_id :: "string option"
  wt_integration_digest :: "string option"
  wt_destination :: string
  wt_branch_name :: string
  wt_base_commit :: string
  wt_repository_identity :: string
  wt_source_workspace_id :: string
  wt_git_sha256 :: string
  wt_destination_parent_identity :: string

datatype operation =
    WorkspaceCleanup cleanup_target
  | WorktreeCreate worktree_create
  | SecretRotate string "string option"
  | SecretRevoke string string
  | JournalArchive int nat string

section \<open>Validation\<close>

definition strip_prefix :: "string \<Rightarrow> string \<Rightarrow> string option" where
  "strip_prefix p s = (if prefix p s then Some (drop (length p) s) else None)"

definition preservation_namespace :: string where
  "preservation_namespace = ''refs/workstation/retired/''"

definition object_id_hex :: "string \<Rightarrow> bool" where
  "object_id_hex s \<longleftrightarrow> (length s = 40 \<or> length s = 64) \<and> list_all is_ascii_hexdigit s"

definition cleanup_target_validate :: "cleanup_target \<Rightarrow> unit check" where
  "cleanup_target_validate t = checks
     [control_id (ct_project_id t),
      control_id (ct_workspace_id t),
      absolute_path (ct_path t),
      digest (ct_state_digest t),
      digest (ct_git_sha256 t),
      reject (\<not> ct_quiescence_acknowledged t) ''QUIESCENCE_ACK_REQUIRED'',
      bind_check (ok_or (strip_prefix preservation_namespace (ct_preservation_ref t)) ''PRESERVATION_REF_INVALID'')
        (\<lambda>suffix. reject (suffix = [] \<or> length suffix > 64
           \<or> \<not> list_all (\<lambda>c. is_ascii_alphanumeric c \<or> c = CHR ''-'') suffix) ''PRESERVATION_REF_INVALID''),
      reject (\<not> object_id_hex (ct_head t)) ''HEAD_INVALID'']"

definition branch_name :: "string \<Rightarrow> unit check" where
  "branch_name s = checks
     [control_text s 128,
      reject (s = [] \<or> prefix ''-'' s \<or> prefix ''/'' s \<or> suffix ''/'' s \<or> suffix ''.'' s
        \<or> suffix ''.lock'' s \<or> str_contains s ''..'' \<or> str_contains s [CHR ''@'', CHR 0x7B] \<or> str_contains s ''//''
        \<or> \<not> list_all (\<lambda>x. is_ascii_alphanumeric x \<or> x \<in> set ''-_/'') s) ''BRANCH_NAME_INVALID'']"

definition worktree_create_validate :: "worktree_create \<Rightarrow> unit check" where
  "worktree_create_validate w = checks
     [absolute_path (wt_destination w),
      branch_name (wt_branch_name w),
      control_text (wt_repository_identity w) 128,
      control_id (wt_source_workspace_id w),
      digest (wt_git_sha256 w),
      control_text (wt_destination_parent_identity w) 128,
      reject (\<not> object_id_hex (wt_base_commit w)) ''EXACT_BASE_COMMIT_REQUIRED'',
      (case (wt_integration_id w, wt_integration_digest w) of
         (Some i, Some d) \<Rightarrow> checks [control_id i, digest d]
       | (None, None) \<Rightarrow> Inr ()
       | _ \<Rightarrow> Inl ''INTEGRATION_PIN_INCOMPLETE'')]"

fun operation_validate :: "operation \<Rightarrow> unit check" where
  "operation_validate (WorkspaceCleanup target) = cleanup_target_validate target"
| "operation_validate (WorktreeCreate w) = worktree_create_validate w"
| "operation_validate (SecretRotate resource_id previous) =
     checks [control_id resource_id, check_opt control_id previous]"
| "operation_validate (SecretRevoke resource_id expected) =
     checks [control_id resource_id, control_id expected]"
| "operation_validate (JournalArchive before limit selection) =
     checks [digest selection, control_timestamp before,
             reject (\<not> (1 \<le> limit \<and> limit \<le> 100)) ''ARCHIVE_LIMIT'']"

section \<open>State projection\<close>

definition json_opt :: "('a \<Rightarrow> 'n json) \<Rightarrow> 'a option \<Rightarrow> 'n json" where
  "json_opt f x = (case x of None \<Rightarrow> JNull | Some v \<Rightarrow> f v)"

definition json_count :: "nat \<Rightarrow> int json" where
  "json_count n = JNum (int n)"

definition coverage_json :: "coverage \<Rightarrow> 'n json" where
  "coverage_json c = JStr (case c of
     Complete \<Rightarrow> ''complete'' | Partial \<Rightarrow> ''partial'' | Denied \<Rightarrow> ''denied''
   | Unsupported \<Rightarrow> ''unsupported'' | TimedOut \<Rightarrow> ''timed_out'')"

definition state_projection :: "workspace_detail \<Rightarrow> int json" where
  "state_projection d = (let s = wd_stamp d in JObj
     [(''blockers'', JArr (map JStr (st_blockers s))),
      (''branch'', json_opt JStr (st_branch s)),
      (''checkout_filters_present'', json_opt JBool (wd_checkout_filters_present d)),
      (''coverage'', coverage_json (wd_path_coverage d)),
      (''dirty'', json_opt JBool (st_dirty s)),
      (''head'', JStr (st_head s)),
      (''identity'', JStr (st_directory_identity s)),
      (''ignored'', json_opt json_count (st_ignored s)),
      (''local_only_commits'', json_opt json_count (st_local_only_commits s)),
      (''locked'', JBool (wd_locked d)),
      (''main'', JBool (wd_main_worktree d)),
      (''path'', JStr (st_path s)),
      (''repository_identity'', JStr (wd_repository_identity d)),
      (''status_digest'', JStr (st_status_digest s)),
      (''untracked'', json_opt json_count (st_untracked s))])"

section \<open>Lemmas\<close>

lemma strip_prefix_Some: "strip_prefix p s = Some t \<longleftrightarrow> s = p @ t"
  by (auto simp: strip_prefix_def prefix_def)

lemma cleanup_target_ok:
  "cleanup_target_validate t = Inr u \<longleftrightarrow>
     control_id (ct_project_id t) = Inr () \<and> control_id (ct_workspace_id t) = Inr ()
     \<and> absolute_path (ct_path t) = Inr () \<and> digest (ct_state_digest t) = Inr ()
     \<and> digest (ct_git_sha256 t) = Inr () \<and> ct_quiescence_acknowledged t
     \<and> (\<exists>name. ct_preservation_ref t = preservation_namespace @ name \<and> name \<noteq> [] \<and> length name \<le> 64
          \<and> list_all (\<lambda>c. is_ascii_alphanumeric c \<or> c = CHR ''-'') name)
     \<and> object_id_hex (ct_head t)"
  unfolding cleanup_target_validate_def checks_Cons_ok checks_Nil_ok bind_check_ok ok_or_ok reject_ok strip_prefix_Some
  by (auto simp: not_less)

lemma branch_name_ok:
  "branch_name s = Inr u \<longleftrightarrow> control_text s 128 = Inr () \<and> s \<noteq> [] \<and> \<not> prefix ''-'' s \<and> \<not> prefix ''/'' s
     \<and> \<not> suffix ''/'' s \<and> \<not> suffix ''.'' s \<and> \<not> suffix ''.lock'' s \<and> \<not> sublist ''..'' s \<and> \<not> sublist [CHR ''@'', CHR 0x7B] s
     \<and> \<not> sublist ''//'' s \<and> list_all (\<lambda>x. is_ascii_alphanumeric x \<or> x \<in> set ''-_/'') s"
  unfolding branch_name_def checks_Cons_ok checks_Nil_ok reject_ok str_contains_sublist by auto

text \<open>A text splits into an empty component only at its ends or at two adjacent separators.\<close>

lemma split_on_hd_Nil: "hd (split_on P s) = [] \<longleftrightarrow> s = [] \<or> P (hd s)"
  by (cases s) (auto split: list.splits)

lemma split_char_tl_Nil:
  "[] \<in> set (tl (split_char c s)) \<Longrightarrow> suffix [c] s \<or> sublist [c, c] s"
proof (induction s)
  case (Cons x s)
  obtain y ys where sp: "split_char c s = y # ys"
    by (cases "split_char c s") (auto simp: split_char_def)
  have up: "suffix [c] s \<or> sublist [c, c] s \<Longrightarrow> suffix [c] (x # s) \<or> sublist [c, c] (x # s)"
    by (auto simp: suffix_Cons sublist_Cons_right)
  show ?case
  proof (cases "x = c \<and> y = []")
    case True
    with split_on_hd_Nil[of "\<lambda>x. x = c" s] sp have "s = [] \<or> hd s = c"
      by (simp add: split_char_def)
    with True show ?thesis by (cases s) (auto simp: sublist_Cons_right)
  next
    case False
    with Cons.prems sp have "[] \<in> set (tl (split_char c s))"
      by (auto simp: split_char_def split: if_splits)
    with Cons.IH up show ?thesis by blast
  qed
qed (simp add: split_char_def)

lemma split_char_Nil_member:
  "[] \<in> set (split_char c s) \<Longrightarrow> s = [] \<or> prefix [c] s \<or> suffix [c] s \<or> sublist [c, c] s"
proof -
  assume a: "[] \<in> set (split_char c s)"
  obtain y ys where sp: "split_char c s = y # ys"
    by (cases "split_char c s") (auto simp: split_char_def)
  show ?thesis
  proof (cases "y = []")
    case True
    with split_on_hd_Nil[of "\<lambda>x. x = c" s] sp have "s = [] \<or> hd s = c" by (simp add: split_char_def)
    then show ?thesis by (cases s) auto
  next
    case False
    with a sp have "[] \<in> set (tl (split_char c s))" by simp
    then show ?thesis using split_char_tl_Nil by blast
  qed
qed

text \<open>
  What Git documents of a branch name (\<open>git check-ref-format --branch\<close>): every component is non-empty,
  does not begin with a dot or end in ".lock"; no two dots, no control character, space or any of
  \<open>~^:?*[\<close> and backslash, no at-sign before a brace, not a lone at-sign, no final dot, no leading dash.
\<close>

definition git_branch_format :: "string \<Rightarrow> bool" where
  "git_branch_format s \<longleftrightarrow>
     list_all (\<lambda>x. x \<noteq> [] \<and> \<not> prefix ''.'' x \<and> \<not> suffix ''.lock'' x) (split_char CHR ''/'' s)
     \<and> \<not> sublist ''..'' s \<and> \<not> sublist [CHR ''@'', CHR 0x7B] s \<and> s \<noteq> ''@'' \<and> \<not> suffix ''.'' s \<and> \<not> prefix ''-'' s
     \<and> list_all (\<lambda>x. 33 \<le> byte x \<and> byte x < 127 \<and> x \<notin> set ''~^:?*['' \<and> x \<noteq> CHR 0x5C) s"

lemma branch_char_safe:
  "is_ascii_alphanumeric x \<or> x \<in> set ''-_/'' \<Longrightarrow>
     33 \<le> byte x \<and> byte x < 127 \<and> x \<notin> set ''~^:?*[.@'' \<and> x \<noteq> CHR 0x5C"
  by (auto simp: ascii_class_defs)

section \<open>Properties\<close>

text \<open>
  Every branch name the filter accepts is one Git accepts as a branch name and never an option:
  the character filter and the explicit exclusions imply Git's documented rules, component by
  component, and the text is at most 128 bytes.
\<close>

theorem accepted_branch_is_git_safe:
  assumes "branch_name s = Inr ()"
  shows "git_branch_format s \<and> length s \<le> 128"
proof -
  note b = assms[unfolded branch_name_ok]
  have c: "33 \<le> byte x \<and> byte x < 127 \<and> x \<notin> set ''~^:?*[.@'' \<and> x \<noteq> CHR 0x5C" if "x \<in> set s" for x
    using b that branch_char_safe by (auto simp: list_all_iff)
  have dot: "CHR ''.'' \<notin> set x" if "x \<in> set (split_char CHR ''/'' s)" for x
    using split_on_pieces[OF that[unfolded split_char_def]] c by fastforce
  have "list_all (\<lambda>x. x \<noteq> [] \<and> \<not> prefix ''.'' x \<and> \<not> suffix ''.lock'' x) (split_char CHR ''/'' s)"
    unfolding list_all_iff
  proof (intro ballI conjI)
    fix x assume x: "x \<in> set (split_char CHR ''/'' s)"
    show "x \<noteq> []" using x b split_char_Nil_member[of "CHR ''/''" s] by auto
    show "\<not> prefix ''.'' x" using dot[OF x] by (auto simp: prefix_def)
    show "\<not> suffix ''.lock'' x" using dot[OF x] by (auto simp: suffix_def)
  qed
  moreover have "s \<noteq> ''@''" using c by auto
  ultimately show ?thesis using b c control_text_length[of s 128]
    by (auto simp: git_branch_format_def list_all_iff)
qed

theorem accepted_branch_is_git_safe_witness: "git_branch_format ''feat/auth''"
proof -
  have "branch_name ''feat/auth'' = Inr ()"
    by (simp add: branch_name_def text_eval ascii_class_defs suffix_def)
  from accepted_branch_is_git_safe[OF this] show ?thesis by simp
qed

text \<open>
  The state projection pins the workspace. Two observations have the same projection exactly when
  they agree on directory identity, path, head, branch, status digest, dirtiness, untracked, ignored
  and local-only counts, blockers, repository, main and lock flags, coverage and filter presence; so a
  plan revalidated by the projection's digest cannot run on a workspace that changed in any of them.
\<close>

theorem state_projection_pins_workspace:
  "state_projection d = state_projection e \<longleftrightarrow>
     (let s = wd_stamp d; t = wd_stamp e in
      st_directory_identity s = st_directory_identity t \<and> st_path s = st_path t \<and> st_head s = st_head t
      \<and> st_branch s = st_branch t \<and> st_status_digest s = st_status_digest t \<and> st_dirty s = st_dirty t
      \<and> st_untracked s = st_untracked t \<and> st_ignored s = st_ignored t
      \<and> st_local_only_commits s = st_local_only_commits t \<and> st_blockers s = st_blockers t
      \<and> wd_repository_identity d = wd_repository_identity e \<and> wd_main_worktree d = wd_main_worktree e
      \<and> wd_locked d = wd_locked e \<and> wd_path_coverage d = wd_path_coverage e
      \<and> wd_checkout_filters_present d = wd_checkout_filters_present e)"
proof -
  have o: "json_opt f x = json_opt f y \<longleftrightarrow> x = y" if "inj f" "\<And>v. f v \<noteq> JNull" for f :: "'a \<Rightarrow> int json" and x y
    using that(2) that(2)[symmetric] by (cases x; cases y) (auto simp: json_opt_def inj_eq[OF that(1)])
  have inj: "inj (JStr :: string \<Rightarrow> int json)" "inj (JBool :: bool \<Rightarrow> int json)" "inj json_count"
    by (auto simp: inj_def json_count_def)
  have cov: "coverage_json a = (coverage_json b :: int json) \<longleftrightarrow> a = b" for a b
    by (cases a; cases b) (simp_all add: coverage_json_def)
  have map: "map (JStr :: string \<Rightarrow> int json) xs = map JStr ys \<longleftrightarrow> xs = ys" for xs ys
    using inj(1) by (simp add: inj_map_eq_map)
  show ?thesis
    unfolding state_projection_def Let_def
    by (simp add: o[OF inj(1)] o[OF inj(2)] o[OF inj(3)] json_count_def cov map) blast
qed

text \<open>
  A cleanup operation that validates preserves the head under the Workstation namespace and
  nowhere else: its preservation reference is one component below refs/workstation/retired/ made of
  letters, digits and dashes (no slash, dot or option), the head is a full object id, the paths and
  digests are exact and quiescence was acknowledged.
\<close>

theorem cleanup_operation_preserves_head:
  assumes "operation_validate (WorkspaceCleanup t) = Inr ()"
  shows "(\<exists>name. ct_preservation_ref t = preservation_namespace @ name \<and> name \<noteq> [] \<and> length name \<le> 64
       \<and> CHR ''/'' \<notin> set name \<and> CHR ''.'' \<notin> set name)
    \<and> (length (ct_head t) = 40 \<or> length (ct_head t) = 64)
    \<and> ct_quiescence_acknowledged t \<and> digest (ct_state_digest t) = Inr () \<and> absolute_path (ct_path t) = Inr ()"
proof -
  note t = assms[unfolded operation_validate.simps cleanup_target_ok]
  then obtain name where n: "ct_preservation_ref t = preservation_namespace @ name" "name \<noteq> []"
    "length name \<le> 64" and l: "list_all (\<lambda>c. is_ascii_alphanumeric c \<or> c = CHR ''-'') name" by blast
  have "CHR ''/'' \<notin> set name" "CHR ''.'' \<notin> set name"
    using l by (auto simp: list_all_iff ascii_class_defs dest!: bspec)
  with n t show ?thesis by (auto simp: object_id_hex_def)
qed

definition sample_cleanup_target :: cleanup_target where
  "sample_cleanup_target = \<lparr>ct_project_id = ''p'', ct_workspace_id = ''w'', ct_path = ''/w'',
     ct_directory_identity = ''d'', ct_git_sha256 = sample_digest, ct_head = sample_digest, ct_branch = None,
     ct_repository_identity = ''r'', ct_state_digest = sample_digest,
     ct_preservation_ref = ''refs/workstation/retired/x1'', ct_quiescence_acknowledged = True\<rparr>"

theorem cleanup_operation_preserves_head_witness:
  "operation_validate (WorkspaceCleanup sample_cleanup_target) = Inr ()
   \<and> digest (ct_state_digest sample_cleanup_target) = Inr ()"
proof -
  have "object_id_hex sample_digest"
    using sample_digest_ok by (simp add: object_id_hex_def digest_ok)
  then have "operation_validate (WorkspaceCleanup sample_cleanup_target) = Inr ()"
    by (simp add: cleanup_target_validate_def sample_cleanup_target_def sample_digest_ok id_eval text_eval
        path_eval strip_prefix_def preservation_namespace_def ascii_class_defs)
  from this cleanup_operation_preserves_head[OF this] show ?thesis by blast
qed

end
