(* ===== verification/Effects.thy ===== *)
theory Effects
  imports Operations Durable
begin

text \<open>
  Effect plans (\<open>workstation-core/src/effects.rs\<close>) and repair plans (\<open>workstation-core/src/plans.rs\<close>):
  the closed effect alphabet, what a plan must satisfy, and the approval that binds an execution to
  the exact plan within its window. The \<open>warnings\<close> of a plan and the operands that no check reads
  (\<open>query\<close>, \<open>provider\<close>) are carried unchanged.
\<close>

section \<open>Data\<close>

datatype repair_kind = CodexAttachmentRegistry | DockerRuntime | DockerSecretsRuntime

record quarantine_target =
  qt_kind :: repair_kind
  qt_root :: string
  qt_target :: string
  qt_identity :: string
  qt_content_digest :: string
  qt_source_version :: string
  qt_source_error_path :: string
  qt_source_error_sha256 :: string
  qt_error_observed_at :: int
  qt_original_exists :: bool

datatype query_kind =
    CodexQuota | CodexThreads | CopilotQuota | CopilotModels | VendorSessions | ProtocolHealth
  | WorktrunkList | DockerLocalEngine | Version

datatype billing_provider = OpenAiCosts | AnthropicCosts

record continuation =
  co_integration_id :: string
  co_integration_digest :: string
  co_checkpoint_id :: string
  co_workspace_digest :: string
  co_work_id :: string
  co_work_version :: nat
  co_resume_external_id :: "string option"
  co_permission_mode :: string
  co_timeout_seconds :: nat
  co_deadlines :: "deadline_policy option"
  co_packet_digest :: string
  co_authority_digest :: string

datatype effect =
    EOperation operation
  | IntegrationQuery string string query_kind
  | CredentialedTask approved_task
  | Continue continuation
  | BillingRead billing_provider string string int int
  | EndpointCheck string string
  | Repair quarantine_target
  | RepairUndo string string
  | DockerStart string string string string

record effect_plan =
  ep_id :: string
  ep_project_id :: string
  ep_environment :: string
  ep_policy :: string
  ep_created_at :: int
  ep_expires_at :: int
  ep_effect :: effect
  ep_secret_generation_digest :: string
  ep_inherited_paths_digest :: string
  ep_warnings :: "string list"

datatype execution_state = XPrepared | XRunning | XSucceeded | XFailed | XIndeterminate | XCancelled

section \<open>Effect plans\<close>

definition EFFECT_POLICY :: string where
  "EFFECT_POLICY = ''workstation.effects.v5.durable1''"

definition repair_target_validate :: "int \<Rightarrow> quarantine_target \<Rightarrow> unit check" where
  "repair_target_validate created t = checks
     [absolute_path (qt_root t),
      absolute_path (qt_target t),
      absolute_path (qt_source_error_path t),
      digest (qt_content_digest t),
      digest (qt_source_error_sha256 t),
      control_text (qt_identity t) 256,
      control_text (qt_source_version t) 128,
      reject (created < qt_error_observed_at t \<or> sub_i64 created (qt_error_observed_at t) > 300)
        ''STALE_REPAIR_EVIDENCE'']"

definition continuation_validate :: "continuation \<Rightarrow> unit check" where
  "continuation_validate c = checks
     [check_all control_id [co_integration_id c, co_checkpoint_id c, co_work_id c],
      check_all digest [co_integration_digest c, co_workspace_digest c, co_packet_digest c, co_authority_digest c],
      reject (co_permission_mode c \<notin> set [''read_only'', ''allow_once'']
        \<or> \<not> (1 \<le> co_timeout_seconds c \<and> co_timeout_seconds c \<le> 3600)) ''CONTINUATION_LIMIT'',
      check_opt deadlines_validate (co_deadlines c),
      check_opt (\<lambda>s. checks [control_text s 256, reject (prefix ''-'' s \<or> trim s = []) ''RESUME_ID_INVALID''])
        (co_resume_external_id c)]"

fun effect_validate :: "effect_plan \<Rightarrow> effect \<Rightarrow> unit check" where
  "effect_validate p (EOperation request) = operation_validate request"
| "effect_validate p (IntegrationQuery i d q) = checks [control_id i, digest d]"
| "effect_validate p (DockerStart i d exe sha) =
     checks [control_id i, digest d, absolute_path exe, digest sha]"
| "effect_validate p (CredentialedTask task) = checks
     [approved_task_validate task,
      reject (task_project_id task \<noteq> ep_project_id p \<or> task_environment task \<noteq> ep_environment p)
        ''TASK_SCOPE_MISMATCH'']"
| "effect_validate p (Continue c) = continuation_validate c"
| "effect_validate p (BillingRead pr cred account t0 t1) = checks
     [control_id cred, control_id account, control_timestamp t0, control_timestamp t1,
      reject (t1 \<le> t0 \<or> sub_i64 t1 t0 > 32 * 86400) ''BILLING_RANGE_LIMIT'']"
| "effect_validate p (EndpointCheck r d) = checks [control_id r, digest d]"
| "effect_validate p (RepairUndo x d) = checks [control_id x, digest d]"
| "effect_validate p (Repair target) = repair_target_validate (ep_created_at p) target"

definition effect_plan_validate :: "effect_plan \<Rightarrow> unit check" where
  "effect_plan_validate p = checks
     [control_id (ep_id p),
      control_id (ep_project_id p),
      control_id (ep_environment p),
      reject (ep_policy p \<noteq> EFFECT_POLICY) ''EFFECT_POLICY_MISMATCH'',
      control_timestamp (ep_created_at p),
      control_timestamp (ep_expires_at p),
      digest (ep_inherited_paths_digest p),
      digest (ep_secret_generation_digest p),
      reject (ep_expires_at p \<le> ep_created_at p \<or> sub_i64 (ep_expires_at p) (ep_created_at p) > 900)
        ''EFFECT_PLAN_EXPIRY'',
      effect_validate p (ep_effect p)]"

definition approve :: "effect_plan \<Rightarrow> string \<Rightarrow> string \<Rightarrow> int \<Rightarrow> unit check" where
  "approve p digest_actual approved now = checks
     [effect_plan_validate p,
      digest digest_actual,
      reject (approved \<noteq> digest_actual) ''EFFECT_APPROVAL_MISMATCH'',
      reject (now < ep_created_at p \<or> ep_expires_at p \<le> now) ''EFFECT_PLAN_EXPIRED'']"

section \<open>Repair plans\<close>

record target_identity =
  ti_object_id :: string
  ti_identity_digest :: string
  ti_coverage :: coverage
  ti_active_dependencies :: bool

datatype typed_action = DockerRuntimeQuarantine | CodexAttachmentRegistryReset

record repair_plan =
  rp_id :: string
  rp_project_id :: string
  rp_policy_version :: string
  rp_action :: typed_action
  rp_created_at :: int
  rp_expires_at :: int
  rp_target :: target_identity
  rp_evidence_refs :: "string list"
  rp_backup_required :: bool

record approval =
  ap_plan_id :: string
  ap_digest :: string
  ap_approved_at :: int

definition repair_plan_validate :: "repair_plan \<Rightarrow> unit check" where
  "repair_plan_validate p = checks
     [control_id (rp_id p),
      control_id (rp_project_id p),
      control_timestamp (rp_created_at p),
      control_timestamp (rp_expires_at p),
      control_id (ti_object_id (rp_target p)),
      control_text (rp_policy_version p) 128,
      control_text (ti_identity_digest (rp_target p)) 256,
      reject (ti_identity_digest (rp_target p) = []) ''TARGET_IDENTITY_REQUIRED'',
      control_lines (rp_evidence_refs p),
      reject (rp_expires_at p \<le> rp_created_at p \<or> sub_i64 (rp_expires_at p) (rp_created_at p) > 900)
        ''PLAN_EXPIRY_INVALID'',
      reject (\<not> rp_backup_required p \<or> rp_evidence_refs p = []) ''PRESERVATION_AND_EVIDENCE_REQUIRED'']"

definition revalidate ::
    "repair_plan \<Rightarrow> approval \<Rightarrow> string \<Rightarrow> target_identity \<Rightarrow> int \<Rightarrow> string \<Rightarrow> unit check" where
  "revalidate p a dig live now policy = checks
     [repair_plan_validate p,
      reject (ap_plan_id a \<noteq> rp_id p \<or> ap_digest a \<noteq> dig) ''APPROVAL_DIGEST_MISMATCH'',
      reject (now < rp_created_at p \<or> rp_expires_at p \<le> now
        \<or> ap_approved_at a < rp_created_at p \<or> now < ap_approved_at a) ''PLAN_EXPIRED_OR_TIME_INVALID'',
      reject (rp_policy_version p \<noteq> policy) ''PLAN_POLICY_CHANGED'',
      reject (live \<noteq> rp_target p) ''PLAN_TARGET_CHANGED'',
      reject (ti_coverage live \<noteq> Complete \<or> ti_active_dependencies live) ''PROTECTED_TARGET'']"

definition execution_status :: "repair_plan \<Rightarrow> string" where
  "execution_status p = ''blocked_pending_native_recipe_certification''"

section \<open>Time-boxed plans\<close>

text \<open>
  The contract both kinds of plan share: a valid plan has a window of at most 900 seconds, and an
  approval is admitted only for a valid plan inside its window.
\<close>

locale timed_plan =
  fixes valid :: "'p \<Rightarrow> unit check"
    and admit :: "'p \<Rightarrow> 'a \<Rightarrow> int \<Rightarrow> unit check"
    and created :: "'p \<Rightarrow> int"
    and expires :: "'p \<Rightarrow> int"
  assumes valid_window: "valid p = Inr () \<Longrightarrow>
      0 \<le> created p \<and> created p < expires p \<and> expires p \<le> created p + 900"
    and admit_window: "admit p a now = Inr () \<Longrightarrow>
      valid p = Inr () \<and> created p \<le> now \<and> now < expires p"
begin

lemma admit_bounded: "admit p a now = Inr () \<Longrightarrow> now < created p + 900"
  using admit_window valid_window by fastforce

lemma admissions_close:
  assumes "admit p a s = Inr ()" "admit p b t = Inr ()"
  shows "\<bar>s - t\<bar> < 900"
  using admit_window[OF assms(1)] admit_window[OF assms(2)] valid_window[of p] by auto

lemma expired_for_good: "expires p \<le> s \<Longrightarrow> s \<le> t \<Longrightarrow> admit p a t \<noteq> Inr ()"
  using admit_window by fastforce

end

lemma effect_plan_window:
  "effect_plan_validate p = Inr () \<Longrightarrow>
     0 \<le> ep_created_at p \<and> ep_created_at p < ep_expires_at p \<and> ep_expires_at p \<le> ep_created_at p + 900"
  using timestamps_sub_exact[of "ep_expires_at p" "ep_created_at p"]
  by (auto simp: effect_plan_validate_def checks_Cons_ok control_timestamp_ok)

lemma repair_plan_window:
  "repair_plan_validate p = Inr () \<Longrightarrow>
     0 \<le> rp_created_at p \<and> rp_created_at p < rp_expires_at p \<and> rp_expires_at p \<le> rp_created_at p + 900"
  using timestamps_sub_exact[of "rp_expires_at p" "rp_created_at p"]
  by (auto simp: repair_plan_validate_def checks_Cons_ok control_timestamp_ok)

interpretation effect_window: timed_plan effect_plan_validate "\<lambda>p (d, a) now. approve p d a now"
  ep_created_at ep_expires_at
proof (unfold_locales, goal_cases)
  case (1 p)
  then show ?case by (rule effect_plan_window)
next
  case (2 p a now)
  then show ?case by (auto simp: approve_def checks_Cons_ok split: prod.splits)
qed

interpretation repair_window: timed_plan repair_plan_validate
  "\<lambda>p (a, d, live, policy) now. revalidate p a d live now policy" rp_created_at rp_expires_at
proof (unfold_locales, goal_cases)
  case (1 p)
  then show ?case by (rule repair_plan_window)
next
  case (2 p a now)
  then show ?case by (auto simp: revalidate_def checks_Cons_ok split: prod.splits)
qed

section \<open>Properties\<close>

definition sample_plan :: "effect \<Rightarrow> effect_plan" where
  "sample_plan e = \<lparr>ep_id = ''e'', ep_project_id = ''p'', ep_environment = ''dev'', ep_policy = EFFECT_POLICY,
     ep_created_at = 1000, ep_expires_at = 1900, ep_effect = e, ep_secret_generation_digest = sample_digest,
     ep_inherited_paths_digest = sample_digest, ep_warnings = []\<rparr>"

lemma sample_plan_ok: "effect_plan_validate (sample_plan e) = effect_validate (sample_plan e) e"
  by (cases "effect_validate (sample_plan e) e")
    (simp_all add: effect_plan_validate_def sample_plan_def id_eval sample_digest_ok control_timestamp_def
      sub_i64_exact in_i64_def)

text \<open>
  An approval binds an execution to the exact digest and to one window: any two approvals of a
  plan are less than 900 seconds apart, each carries the plan's actual digest and lies within 900
  seconds of the plan's creation.
\<close>

theorem effect_approvals_share_one_window:
  assumes "approve p d a s = Inr ()" "approve p d' a' t = Inr ()"
  shows "\<bar>s - t\<bar> < 900 \<and> a = d \<and> a' = d' \<and> ep_created_at p \<le> s \<and> s < ep_created_at p + 900
    \<and> effect_plan_validate p = Inr ()"
proof -
  from effect_window.admissions_close[of p "(d, a)" s "(d', a')" t] assms have "\<bar>s - t\<bar> < 900" by simp
  moreover from effect_window.admit_bounded[of p "(d, a)" s] effect_window.admit_window[of p "(d, a)" s] assms(1)
  have "ep_created_at p \<le> s \<and> s < ep_created_at p + 900 \<and> effect_plan_validate p = Inr ()" by auto
  ultimately show ?thesis using assms by (auto simp: approve_def checks_Cons_ok)
qed

theorem effect_approvals_share_one_window_witness:
  "effect_plan_validate (sample_plan (EndpointCheck ''r'' sample_digest)) = Inr ()
   \<and> \<bar>1000 - 1899 :: int\<bar> < 900"
proof -
  have v: "effect_plan_validate (sample_plan (EndpointCheck ''r'' sample_digest)) = Inr ()"
    unfolding sample_plan_ok by (simp add: id_eval sample_digest_ok)
  have "approve (sample_plan (EndpointCheck ''r'' sample_digest)) sample_digest sample_digest 1000 = Inr ()"
    "approve (sample_plan (EndpointCheck ''r'' sample_digest)) sample_digest sample_digest 1899 = Inr ()"
    unfolding approve_def v by (simp_all add: sample_digest_ok sample_plan_def)
  from effect_approvals_share_one_window[OF this] show ?thesis by blast
qed

text \<open>
  A validated effect stays inside its bounds: a credentialed task belongs to the plan's project and
  environment and is itself valid, a continuation has a known permission mode, a timeout of at most an
  hour, valid deadlines and no option as a resume id, a billing range is positive and at most 32 days,
  and repair evidence with a time on the calendar is at most 300 seconds old.
\<close>

theorem validated_effect_is_bounded:
  assumes "effect_plan_validate p = Inr ()"
  shows "case ep_effect p of
      CredentialedTask t \<Rightarrow> task_project_id t = ep_project_id p \<and> task_environment t = ep_environment p
        \<and> approved_task_validate t = Inr ()
    | Continue c \<Rightarrow> co_permission_mode c \<in> {''read_only'', ''allow_once''} \<and> co_timeout_seconds c \<le> 3600
        \<and> co_deadlines c \<in> {None} \<union> Some ` {d. deadlines_validate d = Inr ()}
        \<and> co_resume_external_id c \<in> {None} \<union> Some ` {s. \<not> prefix ''-'' s \<and> length s \<le> 256}
    | BillingRead pr cred acc t0 t1 \<Rightarrow> 0 \<le> t0 \<and> t0 < t1 \<and> t1 \<le> t0 + 32 * 86400
    | Repair t \<Rightarrow> qt_error_observed_at t < 0 \<or>
        ep_created_at p - 300 \<le> qt_error_observed_at t \<and> qt_error_observed_at t \<le> ep_created_at p
    | _ \<Rightarrow> True"
proof -
  have e: "effect_validate p (ep_effect p) = Inr ()" and t: "control_timestamp (ep_created_at p) = Inr ()"
    using assms by (auto simp: effect_plan_validate_def checks_Cons_ok)
  show ?thesis
  proof (cases "ep_effect p")
    case (CredentialedTask x)
    with e show ?thesis by (simp add: checks_Cons_ok)
  next
    case (Continue c)
    with e show ?thesis
      by (cases "co_deadlines c"; cases "co_resume_external_id c")
        (auto simp: continuation_validate_def checks_Cons_ok check_opt_ok dest: control_text_length)
  next
    case (BillingRead pr cred acc t0 t1)
    with e timestamps_sub_exact[of t1 t0] show ?thesis
      by (simp add: checks_Cons_ok control_timestamp_ok)
  next
    case (Repair x)
    show ?thesis
    proof (cases "qt_error_observed_at x < 0")
      case False
      with t e Repair have "in_i64 (ep_created_at p - qt_error_observed_at x)"
        by (auto simp: repair_target_validate_def checks_Cons_ok control_timestamp_ok in_i64_def)
      from sub_i64_exact[OF this] e Repair show ?thesis
        by (simp add: repair_target_validate_def checks_Cons_ok)
    qed (simp add: Repair)
  qed simp_all
qed

theorem validated_effect_is_bounded_witness:
  "task_project_id sample_task = ep_project_id (sample_plan (CredentialedTask sample_task))
   \<and> approved_task_validate sample_task = Inr ()"
proof -
  have "effect_plan_validate (sample_plan (CredentialedTask sample_task)) = Inr ()"
    unfolding sample_plan_ok by (simp add: sample_task_ok) (simp add: sample_plan_def sample_task_def)
  from validated_effect_is_bounded[OF this] show ?thesis by (simp add: sample_plan_def)
qed

definition ancient_repair :: quarantine_target where
  "ancient_repair = \<lparr>qt_kind = DockerRuntime, qt_root = ''/r'', qt_target = ''/r/t'', qt_identity = ''i'',
     qt_content_digest = sample_digest, qt_source_version = ''1'', qt_source_error_path = ''/e'',
     qt_source_error_sha256 = sample_digest, qt_error_observed_at = - (2 ^ 63), qt_original_exists = True\<rparr>"

text \<open>
  The observation time of repair evidence is not itself checked, and the subtraction wraps: evidence
  dated at the least 64-bit time passes the 300-second freshness test.
\<close>

theorem ancient_evidence_passes_freshness:
  "effect_plan_validate (sample_plan (Repair ancient_repair)) = Inr ()"
  unfolding sample_plan_ok
  by (simp add: repair_target_validate_def ancient_repair_def path_eval text_eval sample_digest_ok)
    (simp add: sample_plan_def sub_i64_def wrap_i64_def)

text \<open>
  A repair plan is revalidated against the live target. Admission implies that the approval is for
  this plan and digest and was given between the plan's creation and now, less than 900 seconds after
  creation, that the policy is unchanged, that the live target is exactly the planned one with complete
  coverage and no active dependency, and that a backup and evidence are required; and it still yields
  no execution status but the blocked one.
\<close>

theorem repair_revalidation_protects_target:
  assumes "revalidate p a d live now policy = Inr ()"
  shows "live = rp_target p \<and> ti_coverage live = Complete \<and> \<not> ti_active_dependencies live
    \<and> ap_plan_id a = rp_id p \<and> ap_digest a = d \<and> policy = rp_policy_version p
    \<and> rp_created_at p \<le> ap_approved_at a \<and> ap_approved_at a \<le> now \<and> now < rp_created_at p + 900
    \<and> rp_backup_required p \<and> rp_evidence_refs p \<noteq> [] \<and> ti_identity_digest live \<noteq> []
    \<and> execution_status p = ''blocked_pending_native_recipe_certification''"
proof -
  have "now < rp_created_at p + 900"
    using repair_window.admit_bounded[of p "(a, d, live, policy)" now] assms by simp
  with assms show ?thesis
    by (auto simp: revalidate_def repair_plan_validate_def checks_Cons_ok execution_status_def)
qed

definition sample_target :: target_identity where
  "sample_target = \<lparr>ti_object_id = ''o'', ti_identity_digest = ''d'', ti_coverage = Complete,
     ti_active_dependencies = False\<rparr>"

definition sample_repair_plan :: repair_plan where
  "sample_repair_plan = \<lparr>rp_id = ''r'', rp_project_id = ''p'', rp_policy_version = ''v1'',
     rp_action = DockerRuntimeQuarantine, rp_created_at = 1000, rp_expires_at = 1900,
     rp_target = sample_target, rp_evidence_refs = [''e''], rp_backup_required = True\<rparr>"

theorem repair_revalidation_protects_target_witness:
  "rp_backup_required sample_repair_plan \<and> \<not> ti_active_dependencies sample_target
   \<and> (1600 :: int) < rp_created_at sample_repair_plan + 900"
proof -
  have "revalidate sample_repair_plan \<lparr>ap_plan_id = ''r'', ap_digest = ''x'', ap_approved_at = 1500\<rparr>
      ''x'' sample_target 1600 ''v1'' = Inr ()"
    by (simp add: revalidate_def repair_plan_validate_def sample_repair_plan_def sample_target_def
        id_eval text_eval control_timestamp_def control_lines_def sub_i64_exact in_i64_def)
  from repair_revalidation_protects_target[OF this] show ?thesis by blast
qed

end
