(* ===== verification/Durable_Store.thy ===== *)
theory Durable_Store
  imports Durable Effects "HOL-Library.AList" "HOL-Library.Product_Lexorder"
begin

text \<open>
  The durable run store (\<open>workstation-platform/src/durable_store.rs\<close>, with the effect journal
  operations of \<open>integration_store.rs\<close> and the tables of \<open>schema/005_durable_runtime.sql\<close> and
  \<open>schema/003_integrations.sql\<close>). A table is the list of its rows; a payload column holds the record
  whose JSON text the code stores, and the lengths of those texts, which the schema bounds, are given by
  a \<open>codec\<close>. Each operation is one transaction: an error leaves the database as it was, so it is
  returned without one. The clock readings of an operation, fresh identifiers, the caller's process
  identity and the profile and checkpoint lookups are arguments.
\<close>

section \<open>Tables\<close>

record codec =
  run_text_len :: "run_record \<Rightarrow> nat"
  event_text_len :: "run_event \<Rightarrow> nat"
  manifest_text_len :: "content_manifest \<Rightarrow> nat"
  manifest_sha :: "content_manifest \<Rightarrow> string"

record run_row =
  row_plan :: string
  row_project :: string
  row_environment :: string
  row_revision :: int
  row_seq :: int
  row_cancel :: bool
  row_updated :: int
  row_payload :: run_record

type_synonym event_row = "string \<times> int \<times> int \<times> run_event"

record effect_run =
  er_id :: string
  er_plan :: string
  er_state :: string
  er_started :: int
  er_finished :: "int option"
  er_error :: "string option"

record durable_db =
  db_version :: int
  db_environments :: "(string \<times> string) list"
  db_plans :: "string list"
  db_runs :: "(string \<times> run_row) list"
  db_events :: "event_row list"
  db_effect_runs :: "effect_run list"
  db_baselines :: "(string \<times> string \<times> content_manifest) list"

definition db_conflict :: string where "db_conflict = ''DURABLE_DATABASE_CONFLICT''"

definition sqlint :: "u64 \<Rightarrow> int check" where
  "sqlint v = (if unat v < 2 ^ 63 then Inr (int (unat v)) else Inl ''DURABLE_INTEGER_RANGE'')"

definition require_v5 :: "durable_db \<Rightarrow> unit check" where
  "require_v5 db = reject (db_version db \<noteq> 5) ''DURABLE_UPGRADE_REQUIRED''"

definition read_run :: "durable_db \<Rightarrow> string \<Rightarrow> run_record check" where
  "read_run db i = (case map_of (db_runs db) i of
     None \<Rightarrow> Inl db_conflict
   | Some row \<Rightarrow> (let r = row_payload row
       in Inr (r\<lparr>cancellation_requested := cancellation_requested r \<or> row_cancel row\<rparr>)))"

definition insert_event :: "codec \<Rightarrow> durable_db \<Rightarrow> event_row \<Rightarrow> durable_db check" where
  "insert_event J db ev = (case ev of (i, sq, at, e) \<Rightarrow>
     if list_ex (\<lambda>(i', sq', _). i' = i \<and> sq' = sq) (db_events db) \<or> event_text_len J e > 4096
     then Inl db_conflict
     else Inr (db\<lparr>db_events := db_events db @ [ev]\<rparr>))"

definition update_run ::
    "codec \<Rightarrow> int \<Rightarrow> durable_db \<Rightarrow> run_record \<Rightarrow> run_event \<Rightarrow> (durable_db \<times> run_record) check" where
  "update_run J now db r e =
     (if MAX_EVENTS \<le> sequence r then Inl ''DURABLE_EVENT_BUDGET''
      else bind_check (apply_event r e now) (\<lambda>r'.
           bind_check (sqlint (revision r')) (\<lambda>rev.
           bind_check (sqlint (sequence r')) (\<lambda>sq.
           bind_check (sqlint (revision r)) (\<lambda>prior.
           let i = rs_id (scope r') in
           case map_of (db_runs db) i of
             None \<Rightarrow> Inl ''DURABLE_REVISION_CONFLICT''
           | Some row \<Rightarrow>
               if row_revision row \<noteq> prior then Inl ''DURABLE_REVISION_CONFLICT''
               else if run_text_len J r' > 32768 then Inl db_conflict
               else bind_check (insert_event J (db\<lparr>db_runs := AList.update i
                         (row\<lparr>row_revision := rev, row_seq := sq, row_updated := updated_at r',
                              row_payload := r'\<rparr>) (db_runs db)\<rparr>) (i, sq, updated_at r', e))
                    (\<lambda>db'. Inr (db', r')))))))"

section \<open>Preparing and claiming\<close>

definition prepare_record ::
    "effect_plan \<Rightarrow> continuation \<Rightarrow> integration \<Rightarrow> checkpoint \<Rightarrow> deadline_policy \<Rightarrow> int \<Rightarrow> int \<Rightarrow> run_record" where
  "prepare_record p c i cp policy created updated = prepared_run
     \<lparr>rs_id = ep_id p, rs_plan_id = ep_id p, rs_project_id = ep_project_id p,
      rs_environment = ep_environment p, rs_integration_id = co_integration_id c,
      rs_integration_digest = co_integration_digest c, rs_executable_sha256 = int_executable_sha256 i,
      rs_declared_version = int_version_text i, rs_adapter = adapter_id (int_adapter i),
      rs_work_id = co_work_id c, rs_workspace_id = st_workspace_id (cp_workspace cp),
      rs_checkpoint_id = co_checkpoint_id c, rs_work_version = co_work_version c,
      rs_workspace_digest = co_workspace_digest c, rs_deadlines = policy, rs_created_at = created\<rparr> updated"

definition insert_run :: "codec \<Rightarrow> durable_db \<Rightarrow> run_record \<Rightarrow> durable_db check" where
  "insert_run J db r =
     (let i = rs_id (scope r) in
      if map_of (db_runs db) i \<noteq> None \<or> list_ex (\<lambda>(_, row). row_plan row = i) (db_runs db)
        \<or> i \<notin> set (db_plans db)
        \<or> (rs_project_id (scope r), rs_environment (scope r)) \<notin> set (db_environments db)
        \<or> run_text_len J r > 32768
      then Inl db_conflict
      else Inr (db\<lparr>db_runs := db_runs db @ [(i, \<lparr>row_plan = i, row_project = rs_project_id (scope r),
             row_environment = rs_environment (scope r), row_revision = 0, row_seq = 0, row_cancel = False,
             row_updated = updated_at r, row_payload = r\<rparr>)]\<rparr>))"

definition durable_prepare ::
    "codec \<Rightarrow> (string \<Rightarrow> integration check) \<Rightarrow> (string \<Rightarrow> checkpoint check) \<Rightarrow> int \<Rightarrow> int \<Rightarrow>
     effect_plan \<Rightarrow> durable_db \<Rightarrow> durable_db check" where
  "durable_prepare J integrations checkpoints created updated p db =
     bind_check (require_v5 db) (\<lambda>_.
     case ep_effect p of
       Continue c \<Rightarrow>
         bind_check (integrations (co_integration_id c)) (\<lambda>i.
         bind_check (checkpoints (co_checkpoint_id c)) (\<lambda>cp.
         let policy = (case co_deadlines c of None \<Rightarrow> from_legacy (co_timeout_seconds c) | Some d \<Rightarrow> d) in
         bind_check (deadlines_validate policy) (\<lambda>_.
         if length (db_runs db) \<ge> MAX_RUNS then Inl ''DURABLE_RUN_BUDGET_ARCHIVE_REVIEW_REQUIRED''
         else insert_run J db (prepare_record p c i cp policy created updated))))
     | _ \<Rightarrow> Inr db)"

definition insert_effect_run :: "durable_db \<Rightarrow> string \<Rightarrow> string \<Rightarrow> int \<Rightarrow> string \<Rightarrow> durable_db check" where
  "insert_effect_run db i plan at code =
     (if list_ex (\<lambda>x. er_id x = i \<or> er_plan x = plan) (db_effect_runs db) \<or> plan \<notin> set (db_plans db)
      then Inl code
      else Inr (db\<lparr>db_effect_runs := db_effect_runs db @ [\<lparr>er_id = i, er_plan = plan, er_state = ''running'',
             er_started = at, er_finished = None, er_error = None\<rparr>]\<rparr>))"

definition durable_begin ::
    "codec \<Rightarrow> process_identity check \<Rightarrow> string \<Rightarrow> int \<Rightarrow> int \<Rightarrow> int \<Rightarrow>
     effect_plan \<Rightarrow> string \<Rightarrow> string \<Rightarrow> durable_db \<Rightarrow> (durable_db \<times> string) check" where
  "durable_begin J me execution t_approve t_insert t_update p dig app db =
     bind_check (approve p dig app t_approve) (\<lambda>_.
     bind_check (require_v5 db) (\<lambda>_.
     bind_check me (\<lambda>sv.
     bind_check (read_run db (ep_id p)) (\<lambda>r.
     if cancellation_requested r then Inl ''DURABLE_CANCELLED_BEFORE_START''
     else if execution_id r \<noteq> None then Inl ''DURABLE_ALREADY_STARTED_NO_REPLAY''
     else bind_check (insert_effect_run db execution (ep_id p) t_insert db_conflict) (\<lambda>db1.
          bind_check (update_run J t_update db1 r (Claimed sv execution)) (\<lambda>(db2, _).
          Inr (db2, execution)))))))"

section \<open>Reading\<close>

definition durable_run :: "durable_db \<Rightarrow> string \<Rightarrow> run_record check" where
  "durable_run db i =
     bind_check (require_v5 db) (\<lambda>_. bind_check (control_id i) (\<lambda>_. read_run db i))"

fun collect_checks :: "('e + 'a) list \<Rightarrow> 'e + 'a list" where
  "collect_checks [] = Inr []"
| "collect_checks (c # cs) = bind_check c (\<lambda>x. bind_check (collect_checks cs) (\<lambda>xs. Inr (x # xs)))"

definition durable_runs :: "durable_db \<Rightarrow> string \<Rightarrow> run_record list check" where
  "durable_runs db project =
     bind_check (require_v5 db) (\<lambda>_. bind_check (control_id project) (\<lambda>_.
       let rows = filter (\<lambda>(_, row). row_project row = project) (db_runs db);
           ids = map fst (take 100 (sort_key (\<lambda>(i, row). (- row_updated row, i)) rows))
       in collect_checks (map (durable_run db) ids)))"

definition durable_events ::
    "durable_db \<Rightarrow> string \<Rightarrow> u64 \<Rightarrow> nat \<Rightarrow> ((int \<times> int \<times> run_event) list \<times> int) check" where
  "durable_events db i after lim =
     bind_check (durable_run db i) (\<lambda>_.
     if lim = 0 \<or> lim > 200 then Inl ''DURABLE_EVENT_PAGE_LIMIT''
     else bind_check (sqlint after) (\<lambda>a.
       let rows = filter (\<lambda>(j, sq, _). j = i \<and> a < sq) (db_events db);
           page = map snd (take lim (sort_key (\<lambda>(_, sq, _). sq) rows))
       in Inr (page, if page = [] then a else fst (last page))))"

section \<open>Events, heartbeats, cancellation, baselines\<close>

definition durable_event ::
    "codec \<Rightarrow> int \<Rightarrow> durable_db \<Rightarrow> string \<Rightarrow> run_event \<Rightarrow> (durable_db \<times> run_record) check" where
  "durable_event J now db i event =
     bind_check (read_run db i) (\<lambda>r.
       if (case event of DeadlineExceeded d \<Rightarrow> True | _ \<Rightarrow> False) \<and> cancellation_requested r then Inr (db, r)
       else if event = ProviderTerminal (provider r) \<or> event = Reconciled (provider r) then Inr (db, r)
       else if event = Progress \<and> (MAX_EVENTS - 64 \<le> sequence r \<or> provider_terminal (provider r)) then Inr (db, r)
       else update_run J now db r event)"

definition durable_heartbeat ::
    "codec \<Rightarrow> int \<Rightarrow> durable_db \<Rightarrow> string \<Rightarrow> process_identity \<Rightarrow> (durable_db \<times> run_record) check" where
  "durable_heartbeat J at db i owner =
     bind_check (read_run db i) (\<lambda>r.
       if supervisor r \<noteq> Some owner \<or> owner_released r then Inl ''DURABLE_SUPERVISOR_CHANGED''
       else if at < updated_at r then Inl ''DURABLE_CLOCK_REGRESSION''
       else let r' = r\<lparr>last_heartbeat_at := Some at\<rparr> in
         if run_text_len J r' > 32768 then Inl db_conflict
         else Inr (db\<lparr>db_runs := map (\<lambda>(j, row). (j, if j = i then row\<lparr>row_payload := r'\<rparr> else row))
                (db_runs db)\<rparr>, r'))"

datatype cancel_outcome = CancelUnchanged | CancelPersisted run_record

definition durable_cancel ::
    "codec \<Rightarrow> int \<Rightarrow> durable_db \<Rightarrow> string \<Rightarrow> u64 \<Rightarrow> (durable_db \<times> cancel_outcome) check" where
  "durable_cancel J now db i expected =
     bind_check (read_run db i) (\<lambda>r.
       if revision r \<noteq> expected then Inl ''DURABLE_REVISION_CONFLICT''
       else if owner_released r \<or> cancellation_requested r then Inr (db, CancelUnchanged)
       else bind_check (update_run J now db r CancelRequested) (\<lambda>(db', r').
         Inr (db'\<lparr>db_runs := map (\<lambda>(j, row). (j, if j = i then row\<lparr>row_cancel := True\<rparr> else row))
                (db_runs db')\<rparr>, CancelPersisted r')))"

definition durable_baseline :: "codec \<Rightarrow> durable_db \<Rightarrow> string \<Rightarrow> content_manifest option check" where
  "durable_baseline J db i = (case map_of (db_baselines db) i of
     None \<Rightarrow> Inr None
   | Some (d, m) \<Rightarrow> if manifest_sha J m \<noteq> d then Inl ''BASELINE_DIGEST_MISMATCH'' else Inr (Some m))"

definition save_durable_baseline ::
    "codec \<Rightarrow> durable_db \<Rightarrow> string \<Rightarrow> content_manifest \<Rightarrow> (durable_db \<times> string) check" where
  "save_durable_baseline J db i mf =
     bind_check (read_run db i) (\<lambda>r.
       if execution_id r \<noteq> None then Inl ''BASELINE_MUST_PRECEDE_RUN''
       else if map_of (db_baselines db) i \<noteq> None \<or> manifest_text_len J mf > 1048576 then Inl db_conflict
       else Inr (db\<lparr>db_baselines := db_baselines db @ [(i, manifest_sha J mf, mf)]\<rparr>, manifest_sha J mf))"

section \<open>The effect journal\<close>

definition begin_effect ::
    "string \<Rightarrow> int \<Rightarrow> int \<Rightarrow> effect_plan \<Rightarrow> string \<Rightarrow> string \<Rightarrow> durable_db \<Rightarrow> (durable_db \<times> string) check" where
  "begin_effect run t_approve t_insert p dig app db =
     bind_check (approve p dig app t_approve) (\<lambda>_.
     bind_check (insert_effect_run db run (ep_id p) t_insert ''INTEGRATION_DATABASE_REJECTED'') (\<lambda>db'.
     Inr (db', run)))"

record receipt =
  rc_execution_id :: string
  rc_plan_id :: string
  rc_state :: execution_state
  rc_started_at :: int
  rc_finished_at :: "int option"
  rc_error_code :: "string option"
  rc_root_cause_fixed :: bool

definition execution_state_str :: "execution_state \<Rightarrow> string" where
  "execution_state_str s = (case s of
     XPrepared \<Rightarrow> ''prepared'' | XRunning \<Rightarrow> ''running'' | XSucceeded \<Rightarrow> ''succeeded''
   | XFailed \<Rightarrow> ''failed'' | XIndeterminate \<Rightarrow> ''indeterminate'' | XCancelled \<Rightarrow> ''cancelled'')"

definition finish_effect :: "nat \<Rightarrow> receipt \<Rightarrow> durable_db \<Rightarrow> durable_db check" where
  "finish_effect receipt_len r db =
     (let hit = (\<lambda>x. er_id x = rc_execution_id r \<and> er_plan x = rc_plan_id r \<and> er_state x = ''running'');
          s = execution_state_str (rc_state r)
      in if \<not> list_ex hit (db_effect_runs db) then Inl ''EXECUTION_STATE_CONFLICT''
         else if s \<notin> set [''running'', ''succeeded'', ''failed'', ''indeterminate'', ''cancelled'']
           \<or> receipt_len > 262144 then Inl ''INTEGRATION_DATABASE_REJECTED''
         else Inr (db\<lparr>db_effect_runs := map (\<lambda>x. if hit x
                then x\<lparr>er_state := s, er_finished := rc_finished_at r, er_error := rc_error_code r\<rparr> else x)
                (db_effect_runs db)\<rparr>))"

section \<open>Reachable databases\<close>

text \<open>
  Any sequence of the store's operations, with any arguments, from an empty database. Plans and
  environments are registered by other components; they only grow.
\<close>

definition empty_db :: durable_db where
  "empty_db = \<lparr>db_version = 5, db_environments = [], db_plans = [], db_runs = [], db_events = [],
     db_effect_runs = [], db_baselines = []\<rparr>"

text \<open>
  Claims and cancellation requests are appended only by \<open>durable_begin\<close> and \<open>durable_cancel\<close>; every
  other component passes the remaining events to \<open>durable_event\<close>.
\<close>

definition observed_event :: "run_event \<Rightarrow> bool" where
  "observed_event e \<longleftrightarrow> (case e of Claimed _ _ \<Rightarrow> False | CancelRequested \<Rightarrow> False | _ \<Rightarrow> True)"

inductive store_step :: "codec \<Rightarrow> durable_db \<Rightarrow> durable_db \<Rightarrow> bool" for J where
  step_register: "store_step J db (db\<lparr>db_plans := db_plans db @ ps, db_environments := db_environments db @ es\<rparr>)"
| step_prepare: "durable_prepare J ints cps t1 t2 p db = Inr db' \<Longrightarrow> store_step J db db'"
| step_begin: "durable_begin J me x t1 t2 t3 p d a db = Inr (db', y) \<Longrightarrow> store_step J db db'"
| step_event: "durable_event J t db i e = Inr (db', r) \<Longrightarrow> observed_event e \<Longrightarrow> store_step J db db'"
| step_heartbeat: "durable_heartbeat J t db i owner = Inr (db', r) \<Longrightarrow> store_step J db db'"
| step_cancel: "durable_cancel J t db i n = Inr (db', c) \<Longrightarrow> store_step J db db'"
| step_baseline: "save_durable_baseline J db i m = Inr (db', h) \<Longrightarrow> store_step J db db'"
| step_begin_effect: "begin_effect x t1 t2 p d a db = Inr (db', y) \<Longrightarrow> store_step J db db'"
| step_finish_effect: "finish_effect n r db = Inr db' \<Longrightarrow> store_step J db db'"

definition reachable :: "codec \<Rightarrow> durable_db \<Rightarrow> bool" where
  "reachable J = (store_step J)\<^sup>*\<^sup>* empty_db"

section \<open>The store invariant\<close>

definition journal_rows :: "durable_db \<Rightarrow> string \<Rightarrow> event_row list" where
  "journal_rows db i = filter (\<lambda>(j, _). j = i) (db_events db)"

definition journal_of :: "durable_db \<Rightarrow> string \<Rightarrow> (run_event \<times> int) list" where
  "journal_of db i = map (\<lambda>(_, _, at, e). (e, at)) (journal_rows db i)"

definition has_effect_run :: "durable_db \<Rightarrow> string \<Rightarrow> string \<Rightarrow> bool" where
  "has_effect_run db x i \<longleftrightarrow> (x, i) \<in> set (map (\<lambda>w. (er_id w, er_plan w)) (db_effect_runs db))"

definition row_ok :: "durable_db \<Rightarrow> string \<Rightarrow> run_row \<Rightarrow> bool" where
  "row_ok db i row \<longleftrightarrow> (let r = row_payload row in
     rs_id (scope r) = i \<and> row_plan row = i
     \<and> row_revision row = int (unat (revision r)) \<and> row_seq row = int (unat (sequence r))
     \<and> row_updated row = updated_at r \<and> (row_cancel row \<longrightarrow> cancellation_requested r)
     \<and> run_inv r \<and> sequence r \<le> MAX_EVENTS
     \<and> map (\<lambda>(_, sq, _). sq) (journal_rows db i) = map int [1..<Suc (unat (sequence r))]
     \<and> (\<exists>t. replay apply_event (prepared_run (scope r) t) (journal_of db i)
            = Inr (r\<lparr>last_heartbeat_at := None\<rparr>))
     \<and> (\<forall>x. execution_id r = Some x \<longrightarrow> has_effect_run db x i))"

definition db_inv :: "durable_db \<Rightarrow> bool" where
  "db_inv db \<longleftrightarrow> (\<forall>i row. map_of (db_runs db) i = Some row \<longrightarrow> row_ok db i row)
     \<and> (\<forall>ev \<in> set (db_events db). map_of (db_runs db) (fst ev) \<noteq> None)
     \<and> distinct (map er_plan (db_effect_runs db))"

lemma row_ok_frame:
  assumes "row_ok db i row" and "journal_rows db' i = journal_rows db i"
    and "\<And>x. has_effect_run db x i \<Longrightarrow> has_effect_run db' x i"
  shows "row_ok db' i row"
  using assms by (simp add: row_ok_def Let_def journal_of_def)

lemma db_invD:
  assumes "db_inv db" "map_of (db_runs db) i = Some row"
  shows "row_ok db i row"
  using assms by (simp add: db_inv_def)

lemma event_effect_heartbeat:
  "event_effect (r\<lparr>last_heartbeat_at := h\<rparr>) e at = map_sum (\<lambda>x. x) (\<lambda>q. q\<lparr>last_heartbeat_at := h\<rparr>) (event_effect r e at)"
  by (cases e) (auto simp: bind_check_def terminal_status_def split: sum.split)

lemma apply_event_heartbeat:
  "apply_event (r\<lparr>last_heartbeat_at := h\<rparr>) e at = map_sum (\<lambda>x. x) (\<lambda>q. q\<lparr>last_heartbeat_at := h\<rparr>) (apply_event r e at)"
  by (auto simp: apply_event_def event_effect_heartbeat bind_check_def checked_inc_def split: sum.split)

text \<open>Reading a run of a consistent database yields its stored payload.\<close>

lemma read_run_ok:
  assumes "db_inv db"
  shows "read_run db i = Inr r \<longleftrightarrow> (\<exists>row. map_of (db_runs db) i = Some row \<and> row_payload row = r)"
proof (cases "map_of (db_runs db) i")
  case (Some row)
  have "row_ok db i row" using assms Some by (rule db_invD)
  then have "(row_payload row)\<lparr>cancellation_requested := cancellation_requested (row_payload row) \<or> row_cancel row\<rparr>
      = row_payload row"
    by (cases "row_payload row") (auto simp: row_ok_def Let_def)
  with Some show ?thesis by (simp add: read_run_def Let_def)
qed (simp add: read_run_def)

lemma sqlint_ok: "sqlint v = Inr n \<longleftrightarrow> unat v < 2 ^ 63 \<and> n = int (unat v)"
  by (auto simp: sqlint_def)

lemma insert_event_ok:
  "insert_event J db (i, sq, at, e) = Inr db' \<longleftrightarrow>
     (i, sq) \<notin> set (map (\<lambda>(j, s, _). (j, s)) (db_events db)) \<and> event_text_len J e \<le> 4096
     \<and> db' = db\<lparr>db_events := db_events db @ [(i, sq, at, e)]\<rparr>"
  by (auto simp: insert_event_def list_ex_iff not_less) force

text \<open>What a committed event does to the database.\<close>

definition event_committed :: "durable_db \<Rightarrow> string \<Rightarrow> run_event \<Rightarrow> int \<Rightarrow> run_record \<Rightarrow> durable_db" where
  "event_committed db i e at r' = db\<lparr>
     db_runs := AList.update i ((the (map_of (db_runs db) i))\<lparr>row_revision := int (unat (revision r')),
        row_seq := int (unat (sequence r')), row_updated := at, row_payload := r'\<rparr>) (db_runs db),
     db_events := db_events db @ [(i, int (unat (sequence r')), at, e)]\<rparr>"

lemma update_run_committed:
  assumes "db_inv db" "map_of (db_runs db) i = Some row" "update_run J now db (row_payload row) e = Inr (db', r')"
  shows "apply_event (row_payload row) e now = Inr r' \<and> db' = event_committed db i e now r'
    \<and> sequence (row_payload row) < MAX_EVENTS"
proof -
  from assms(3) have a: "apply_event (row_payload row) e now = Inr r'" and l: "sequence (row_payload row) < MAX_EVENTS"
    by (auto simp: update_run_def bind_check_ok Let_def not_le split: if_splits option.splits)
  from db_invD[OF assms(1,2)] apply_event_step(5)[OF a] have i: "rs_id (scope r') = i"
    by (simp add: row_ok_def Let_def)
  from apply_event_step(3)[OF a] have u: "updated_at r' = now" .
  from assms(3) a l i u assms(2) have "db' = event_committed db i e now r'"
    by (auto simp: update_run_def bind_check_ok Let_def insert_event_ok sqlint_ok event_committed_def
        split: if_splits)
  with a l show ?thesis by blast
qed

lemma journal_rows_committed:
  "journal_rows (event_committed db i e at r') j
     = journal_rows db j @ (if j = i then [(i, int (unat (sequence r')), at, e)] else [])"
  by (simp add: journal_rows_def event_committed_def)

lemma event_committed_inv:
  assumes inv: "db_inv db" and row: "map_of (db_runs db) i = Some row"
    and app: "apply_event (row_payload row) e now = Inr r'" and less: "sequence (row_payload row) < MAX_EVENTS"
    and claim: "\<And>x. execution_id r' = Some x \<Longrightarrow> has_effect_run db x i"
  shows "db_inv (event_committed db i e now r')"
proof -
  let ?r = "row_payload row" and ?db = "event_committed db i e now r'"
  note ok = db_invD[OF inv row, unfolded row_ok_def Let_def]
  note st = apply_event_step[OF app]
  have hr: "has_effect_run ?db x j = has_effect_run db x j" for x j
    by (simp add: has_effect_run_def event_committed_def)
  have seq: "sequence r' \<le> MAX_EVENTS"
    using st(1) less by (simp add: word_le_nat_alt word_less_nat_alt)
  from ok obtain t where rp: "replay apply_event (prepared_run (scope ?r) t) (journal_of db i)
      = Inr (?r\<lparr>last_heartbeat_at := None\<rparr>)" by blast
  have "apply_event (?r\<lparr>last_heartbeat_at := None\<rparr>) e now = Inr (r'\<lparr>last_heartbeat_at := None\<rparr>)"
    by (simp add: apply_event_heartbeat app)
  with replay_snoc[OF rp, of e now] st(5)
  have rp': "replay apply_event (prepared_run (scope r') t) (journal_of ?db i) = Inr (r'\<lparr>last_heartbeat_at := None\<rparr>)"
    by (simp add: journal_of_def journal_rows_committed)
  have seqs: "map (\<lambda>(_, sq, _). sq) (journal_rows ?db i) = map int [1..<Suc (unat (sequence r'))]"
    using ok st(1) by (simp add: journal_rows_committed)
  have canc: "cancellation_requested ?r \<Longrightarrow> cancellation_requested r'"
    using apply_event_once(5)[OF app] .
  have new: "row_ok ?db i (row\<lparr>row_revision := int (unat (revision r')), row_seq := int (unat (sequence r')),
      row_updated := now, row_payload := r'\<rparr>)"
    unfolding row_ok_def Let_def
    using ok rp' seqs seq canc st(3,5) apply_event_inv[OF _ app] claim hr by auto
  have "row_ok ?db j w" if "map_of (db_runs ?db) j = Some w" for j w
  proof (cases "j = i")
    case True
    with that new row show ?thesis by (simp add: event_committed_def update_conv')
  next
    case False
    with that have "map_of (db_runs db) j = Some w" by (simp add: event_committed_def update_conv')
    from row_ok_frame[OF db_invD[OF inv this]] False hr show ?thesis
      by (simp add: journal_rows_committed)
  qed
  moreover have "\<forall>ev \<in> set (db_events ?db). map_of (db_runs ?db) (fst ev) \<noteq> None"
    using inv row by (auto simp: db_inv_def event_committed_def update_conv')
  moreover have "distinct (map er_plan (db_effect_runs ?db))"
    using inv by (simp add: db_inv_def event_committed_def)
  ultimately show ?thesis by (simp add: db_inv_def)
qed

lemma update_run_inv:
  assumes "db_inv db" "map_of (db_runs db) i = Some row" "update_run J now db (row_payload row) e = Inr (db', r')"
    and "\<And>x. execution_id r' = Some x \<Longrightarrow> execution_id (row_payload row) = Some x \<or> has_effect_run db x i"
  shows "db_inv db'"
proof -
  note c = update_run_committed[OF assms(1-3)]
  have "has_effect_run db x i" if "execution_id r' = Some x" for x
    using assms(4)[OF that] db_invD[OF assms(1,2)] by (auto simp: row_ok_def Let_def)
  with event_committed_inv[OF assms(1,2)] c show ?thesis by blast
qed

lemma apply_event_execution:
  "apply_event r e at = Inr r' \<Longrightarrow> execution_id r' = Some x \<Longrightarrow>
     execution_id r = Some x \<or> (\<exists>sv. e = Claimed sv x)"
  by (cases e) (auto simp: apply_event_ok bind_check_ok terminal_status_def split: if_splits)

section \<open>Preservation by each operation\<close>

lemma map_of_map_row:
  "map_of (map (\<lambda>(j, row). (j, if j = i then f row else row)) xs) k
     = map_option (if k = i then f else (\<lambda>x. x)) (map_of xs k)"
  by (induction xs) auto

lemma step_register_inv:
  "db_inv db \<Longrightarrow> db_inv (db\<lparr>db_plans := ps, db_environments := es\<rparr>)"
  by (simp add: db_inv_def row_ok_def Let_def journal_of_def journal_rows_def has_effect_run_def)

lemma insert_run_inv:
  assumes inv: "db_inv db" and ins: "insert_run J db (prepared_run sc t) = Inr db'"
  shows "db_inv db'"
proof -
  let ?r = "prepared_run sc t" and ?i = "rs_id sc"
  from ins have new: "map_of (db_runs db) ?i = None" and sc: "scope ?r = sc"
    by (auto simp: insert_run_def Let_def prepared_run_def split: if_splits)
  then have none: "journal_rows db ?i = []"
    using inv by (force simp: db_inv_def journal_rows_def filter_empty_conv)
  from ins new sc obtain row where db': "db' = db\<lparr>db_runs := db_runs db @ [(?i, row)]\<rparr>"
    and row: "row_plan row = ?i" "row_payload row = ?r" "row_revision row = 0" "row_seq row = 0"
      "\<not> row_cancel row" "row_updated row = updated_at ?r"
    by (auto simp: insert_run_def Let_def split: if_splits)
  have jr: "journal_rows db' j = journal_rows db j" and hr: "has_effect_run db' x j = has_effect_run db x j" for j x
    by (simp_all add: db' journal_rows_def has_effect_run_def)
  have "replay apply_event (prepared_run (scope ?r) t) [] = Inr (?r\<lparr>last_heartbeat_at := None\<rparr>)"
    by (simp add: prepared_run_def)
  then have "row_ok db' ?i row"
    unfolding row_ok_def Let_def journal_of_def jr none row using row(5)
    by (auto simp: prepared_run_def run_inv_def MAX_EVENTS_def word_le_nat_alt)
  then have "row_ok db' j w" if "map_of (db_runs db') j = Some w" for j w
    using that new row_ok_frame[OF db_invD[OF inv], of j w db'] jr hr
    by (auto simp: db' map_add_Some_iff split: if_splits)
  moreover have "\<forall>ev \<in> set (db_events db'). map_of (db_runs db') (fst ev) \<noteq> None"
    using inv by (auto simp: db_inv_def db' map_add_Some_iff)
  ultimately show ?thesis using inv by (simp add: db_inv_def db')
qed

lemma durable_prepare_inv:
  assumes "db_inv db" "durable_prepare J ints cps t1 t2 p db = Inr db'"
  shows "db_inv db'"
  using assms insert_run_inv
  by (auto simp: durable_prepare_def bind_check_ok Let_def prepare_record_def split: effect.splits if_splits)

lemma insert_effect_run_ok:
  "insert_effect_run db x plan at code = Inr db' \<longleftrightarrow>
     (\<forall>w \<in> set (db_effect_runs db). er_id w \<noteq> x \<and> er_plan w \<noteq> plan) \<and> plan \<in> set (db_plans db)
     \<and> db' = db\<lparr>db_effect_runs := db_effect_runs db @ [\<lparr>er_id = x, er_plan = plan, er_state = ''running'',
             er_started = at, er_finished = None, er_error = None\<rparr>]\<rparr>"
  by (auto simp: insert_effect_run_def list_ex_iff)

lemma insert_effect_run_inv:
  assumes "db_inv db" "insert_effect_run db x plan at code = Inr db'"
  shows "db_inv db'" "has_effect_run db' x plan" "db_runs db' = db_runs db" "db_events db' = db_events db"
proof -
  from assms(2) have db': "db_runs db' = db_runs db" "db_events db' = db_events db"
    and e: "map er_plan (db_effect_runs db') = map er_plan (db_effect_runs db) @ [plan]"
      "plan \<notin> set (map er_plan (db_effect_runs db))"
    and h: "has_effect_run db y j \<Longrightarrow> has_effect_run db' y j" "has_effect_run db' x plan" for y j
    by (auto simp: insert_effect_run_ok has_effect_run_def)
  have "row_ok db' j w" if "map_of (db_runs db) j = Some w" for j w
    using row_ok_frame[OF db_invD[OF assms(1) that], of db'] h db' by (simp add: journal_rows_def)
  then show "db_inv db'" using assms(1) db' e by (auto simp: db_inv_def)
  show "has_effect_run db' x plan" "db_runs db' = db_runs db" "db_events db' = db_events db"
    by (fact h db')+
qed

lemma durable_begin_step:
  assumes inv: "db_inv db" and b: "durable_begin J me x t1 t2 t3 p d a db = Inr (db', y)"
  obtains row db1 r' sv where "map_of (db_runs db) (ep_id p) = Some row" "y = x"
    "insert_effect_run db x (ep_id p) t2 db_conflict = Inr db1" "db_inv db1"
    "execution_id (row_payload row) = None" "\<not> cancellation_requested (row_payload row)"
    "update_run J t3 db1 (row_payload row) (Claimed sv x) = Inr (db', r')" "approve p d a t1 = Inr ()"
proof -
  from b obtain sv r db1 r' where "read_run db (ep_id p) = Inr r"
    "insert_effect_run db x (ep_id p) t2 db_conflict = Inr db1"
    "update_run J t3 db1 r (Claimed sv x) = Inr (db', r')" "y = x" "execution_id r = None"
    "\<not> cancellation_requested r" "approve p d a t1 = Inr ()"
    by (auto simp: durable_begin_def bind_check_ok split: if_splits)
  with that insert_effect_run_inv(1)[OF inv] inv show ?thesis by (auto simp: read_run_ok)
qed

lemma durable_begin_inv:
  assumes "db_inv db" "durable_begin J me x t1 t2 t3 p d a db = Inr (db', y)"
  shows "db_inv db'"
proof -
  obtain row db1 r' sv where h: "map_of (db_runs db) (ep_id p) = Some row"
    "insert_effect_run db x (ep_id p) t2 db_conflict = Inr db1" "db_inv db1"
    "execution_id (row_payload row) = None"
    "update_run J t3 db1 (row_payload row) (Claimed sv x) = Inr (db', r')"
    using durable_begin_step[OF assms] by metis
  note i = insert_effect_run_inv[OF assms(1) h(2)]
  have row: "map_of (db_runs db1) (ep_id p) = Some row" using h(1) i(3) by simp
  from update_run_committed[OF h(3) row h(5)]
  have "apply_event (row_payload row) (Claimed sv x) t3 = Inr r'" by blast
  from apply_event_execution[OF this] h(4) have "execution_id r' = Some z \<Longrightarrow> z = x" for z by auto
  with update_run_inv[OF h(3) row h(5)] i(2) show ?thesis by blast
qed

lemma durable_event_step:
  assumes "db_inv db" "durable_event J now db i e = Inr (db', r')"
  obtains row where "map_of (db_runs db) i = Some row"
    "(db' = db \<and> r' = row_payload row) \<or> update_run J now db (row_payload row) e = Inr (db', r')"
  using assms by (auto simp: durable_event_def bind_check_ok read_run_ok split: if_splits)

lemma durable_event_inv:
  assumes "db_inv db" "durable_event J now db i e = Inr (db', r')" "observed_event e"
  shows "db_inv db'"
proof -
  obtain row where row: "map_of (db_runs db) i = Some row"
    and c: "(db' = db \<and> r' = row_payload row) \<or> update_run J now db (row_payload row) e = Inr (db', r')"
    using durable_event_step[OF assms(1,2)] .
  from c show ?thesis
  proof
    assume u: "update_run J now db (row_payload row) e = Inr (db', r')"
    from update_run_committed[OF assms(1) row u] have "apply_event (row_payload row) e now = Inr r'" by blast
    with apply_event_execution assms(3) have "execution_id r' = Some x \<Longrightarrow> execution_id (row_payload row) = Some x" for x
      by (fastforce simp: observed_event_def)
    with update_run_inv[OF assms(1) row u] show ?thesis by blast
  qed (use assms(1) in simp)
qed

text \<open>Rewriting a row without touching what the journal determines.\<close>

lemma rewrite_row_inv:
  assumes inv: "db_inv db" and row: "map_of (db_runs db) i = Some row"
    and ok: "\<And>w. row_ok db i w \<Longrightarrow> w = row \<Longrightarrow> row_ok db i (f w)"
  shows "db_inv (db\<lparr>db_runs := map (\<lambda>(j, w). (j, if j = i then f w else w)) (db_runs db)\<rparr>)"
    (is "db_inv ?db")
proof -
  have fr: "row_ok ?db j w = row_ok db j w" for j w
    by (simp add: row_ok_def Let_def journal_of_def journal_rows_def has_effect_run_def)
  have "row_ok ?db j w" if "map_of (db_runs ?db) j = Some w" for j w
    using that row ok[OF db_invD[OF inv row]] db_invD[OF inv, of j]
    by (auto simp: map_of_map_row fr split: if_splits)
  with inv show ?thesis by (auto simp: db_inv_def map_of_map_row)
qed

lemma run_inv_heartbeat: "run_inv (r\<lparr>last_heartbeat_at := h\<rparr>) = run_inv r"
  by (simp add: run_inv_def split: option.split)

lemma durable_heartbeat_inv:
  assumes "db_inv db" "durable_heartbeat J at db i owner = Inr (db', r')"
  shows "db_inv db'"
proof -
  from assms obtain row where row: "map_of (db_runs db) i = Some row"
    and db': "db' = db\<lparr>db_runs := map (\<lambda>(j, w). (j, if j = i then w\<lparr>row_payload := (row_payload row)\<lparr>last_heartbeat_at := Some at\<rparr>\<rparr>
      else w)) (db_runs db)\<rparr>"
    by (auto simp: durable_heartbeat_def bind_check_ok read_run_ok Let_def split: if_splits)
  show ?thesis unfolding db'
    by (rule rewrite_row_inv[OF assms(1) row]) (simp add: row_ok_def Let_def run_inv_heartbeat)
qed

lemma durable_cancel_step:
  assumes "db_inv db" "durable_cancel J now db i n = Inr (db', out)"
  obtains row where "map_of (db_runs db) i = Some row" "revision (row_payload row) = n"
    "(db' = db \<and> out = CancelUnchanged \<and> (owner_released (row_payload row) \<or> cancellation_requested (row_payload row)))
     \<or> (\<exists>db1 r'. update_run J now db (row_payload row) CancelRequested = Inr (db1, r') \<and> out = CancelPersisted r'
          \<and> \<not> owner_released (row_payload row) \<and> cancellation_requested r'
          \<and> db' = db1\<lparr>db_runs := map (\<lambda>(j, w). (j, if j = i then w\<lparr>row_cancel := True\<rparr> else w)) (db_runs db1)\<rparr>)"
proof -
  from assms(2) obtain r where r: "read_run db i = Inr r"
    and rest: "(if revision r \<noteq> n then Inl ''DURABLE_REVISION_CONFLICT''
       else if owner_released r \<or> cancellation_requested r then Inr (db, CancelUnchanged)
       else bind_check (update_run J now db r CancelRequested) (\<lambda>(db', r').
         Inr (db'\<lparr>db_runs := map (\<lambda>(j, row). (j, if j = i then row\<lparr>row_cancel := True\<rparr> else row))
                (db_runs db')\<rparr>, CancelPersisted r'))) = Inr (db', out)"
    unfolding durable_cancel_def bind_check_ok by blast
  from r assms(1) obtain row where row: "map_of (db_runs db) i = Some row" and pr: "row_payload row = r"
    by (auto simp: read_run_ok)
  from rest have n: "revision (row_payload row) = n" by (auto simp: pr split: if_splits)
  have c: "(db' = db \<and> out = CancelUnchanged \<and> (owner_released (row_payload row) \<or> cancellation_requested (row_payload row)))
     \<or> (\<exists>db1 r'. update_run J now db (row_payload row) CancelRequested = Inr (db1, r') \<and> out = CancelPersisted r'
          \<and> \<not> owner_released (row_payload row)
          \<and> db' = db1\<lparr>db_runs := map (\<lambda>(j, w). (j, if j = i then w\<lparr>row_cancel := True\<rparr> else w)) (db_runs db1)\<rparr>)"
  proof (cases "owner_released r \<or> cancellation_requested r")
    case True
    with rest n show ?thesis by (simp add: pr)
  next
    case False
    with rest n obtain db1 r1 where "update_run J now db r CancelRequested = Inr (db1, r1)"
      "out = CancelPersisted r1"
      "db' = db1\<lparr>db_runs := map (\<lambda>(j, w). (j, if j = i then w\<lparr>row_cancel := True\<rparr> else w)) (db_runs db1)\<rparr>"
      by (auto simp: pr bind_check_ok simp del: split_paired_Ex)
    with False show ?thesis by (auto simp: pr)
  qed
  have "cancellation_requested r'" if "update_run J now db (row_payload row) CancelRequested = Inr (db1, r')"
    "\<not> owner_released (row_payload row)" for db1 r'
  proof -
    have "apply_event (row_payload row) CancelRequested now = Inr r'"
      using update_run_committed[OF assms(1) row(1) that(1)] by blast
    with that(2) show ?thesis by (auto simp: apply_event_ok)
  qed
  with c that[OF row n] show ?thesis by blast
qed

lemma durable_cancel_inv:
  assumes "db_inv db" "durable_cancel J now db i n = Inr (db', out)"
  shows "db_inv db'"
proof -
  from assms obtain row where row: "map_of (db_runs db) i = Some row" and "revision (row_payload row) = n"
    and c: "(db' = db \<and> out = CancelUnchanged \<and> (owner_released (row_payload row) \<or> cancellation_requested (row_payload row)))
     \<or> (\<exists>db1 r'. update_run J now db (row_payload row) CancelRequested = Inr (db1, r') \<and> out = CancelPersisted r'
          \<and> \<not> owner_released (row_payload row) \<and> cancellation_requested r'
          \<and> db' = db1\<lparr>db_runs := map (\<lambda>(j, w). (j, if j = i then w\<lparr>row_cancel := True\<rparr> else w)) (db_runs db1)\<rparr>)"
    by (rule durable_cancel_step)
  from c show ?thesis
  proof
    assume "\<exists>db1 r'. update_run J now db (row_payload row) CancelRequested = Inr (db1, r') \<and> out = CancelPersisted r'
          \<and> \<not> owner_released (row_payload row) \<and> cancellation_requested r'
          \<and> db' = db1\<lparr>db_runs := map (\<lambda>(j, w). (j, if j = i then w\<lparr>row_cancel := True\<rparr> else w)) (db_runs db1)\<rparr>"
    then obtain db1 r' where u: "update_run J now db (row_payload row) CancelRequested = Inr (db1, r')"
      and k: "cancellation_requested r'"
      and db': "db' = db1\<lparr>db_runs := map (\<lambda>(j, w). (j, if j = i then w\<lparr>row_cancel := True\<rparr> else w)) (db_runs db1)\<rparr>"
      by blast
    note cm = update_run_committed[OF assms(1) row u]
    then have "execution_id r' = Some x \<Longrightarrow> execution_id (row_payload row) = Some x" for x
      using apply_event_execution[of "row_payload row" CancelRequested now r' x] by auto
    with update_run_inv[OF assms(1) row u] have inv1: "db_inv db1" by blast
    have row1: "map_of (db_runs db1) i = Some (row\<lparr>row_revision := int (unat (revision r')),
        row_seq := int (unat (sequence r')), row_updated := now, row_payload := r'\<rparr>)"
      using cm row by (simp add: event_committed_def update_conv')
    show ?thesis unfolding db'
      by (rule rewrite_row_inv[OF inv1 row1]) (use k in \<open>auto simp: row_ok_def Let_def\<close>)
  qed (use assms(1) in simp)
qed

lemma db_inv_frame:
  assumes "db_inv db" "db_runs db' = db_runs db" "db_events db' = db_events db"
    and "map (\<lambda>w. (er_id w, er_plan w)) (db_effect_runs db') = map (\<lambda>w. (er_id w, er_plan w)) (db_effect_runs db)"
  shows "db_inv db'"
proof -
  have ok: "row_ok db' i row = row_ok db i row" for i row
    using assms by (simp add: row_ok_def Let_def journal_of_def journal_rows_def has_effect_run_def)
  have "map er_plan (db_effect_runs db') = map er_plan (db_effect_runs db)"
    using arg_cong[OF assms(4), of "map snd"] by (simp add: comp_def)
  then show ?thesis using assms(1-3) ok by (simp add: db_inv_def)
qed

lemma save_durable_baseline_inv:
  assumes "db_inv db" "save_durable_baseline J db i m = Inr (db', h)"
  shows "db_inv db'"
  by (rule db_inv_frame[OF assms(1)])
    (use assms(2) in \<open>auto simp: save_durable_baseline_def bind_check_ok split: if_splits\<close>)

lemma finish_effect_runs:
  assumes "finish_effect n r db = Inr db'"
  shows "map (\<lambda>w. (er_id w, er_plan w)) (db_effect_runs db') = map (\<lambda>w. (er_id w, er_plan w)) (db_effect_runs db)"
    "map er_plan (db_effect_runs db') = map er_plan (db_effect_runs db)"
    "db_runs db' = db_runs db" "db_events db' = db_events db"
  using assms by (auto simp: finish_effect_def Let_def split: if_splits)

lemma finish_effect_inv:
  assumes "db_inv db" "finish_effect n r db = Inr db'"
  shows "db_inv db'"
  by (rule db_inv_frame[OF assms(1)]) (use finish_effect_runs[OF assms(2)] in simp_all)

lemma begin_effect_inv:
  "db_inv db \<Longrightarrow> begin_effect x t1 t2 p d a db = Inr (db', y) \<Longrightarrow> db_inv db'"
  by (auto simp: begin_effect_def bind_check_ok dest: insert_effect_run_inv(1))

lemma store_step_inv: "store_step J db db' \<Longrightarrow> db_inv db \<Longrightarrow> db_inv db'"
  by (induction rule: store_step.induct)
    (auto intro: step_register_inv durable_prepare_inv durable_begin_inv durable_event_inv
      durable_heartbeat_inv durable_cancel_inv save_durable_baseline_inv begin_effect_inv finish_effect_inv)

lemma store_steps_inv: "(store_step J)\<^sup>*\<^sup>* db db' \<Longrightarrow> db_inv db \<Longrightarrow> db_inv db'"
  by (induction rule: rtranclp_induct) (auto intro: store_step_inv)

lemma reachable_inv: "reachable J db \<Longrightarrow> db_inv db"
  unfolding reachable_def by (rule store_steps_inv) (auto simp: db_inv_def empty_db_def)

section \<open>What steps preserve\<close>

definition run_grows :: "run_record \<Rightarrow> run_record \<Rightarrow> bool" where
  "run_grows r r' \<longleftrightarrow> scope r' = scope r
     \<and> (execution_id r \<noteq> None \<longrightarrow> execution_id r' = execution_id r)
     \<and> (session_id r \<noteq> None \<longrightarrow> session_id r' = session_id r)
     \<and> (owner_released r \<longrightarrow> owner_released r')
     \<and> (cancellation_requested r \<longrightarrow> cancellation_requested r' \<and> deadline_expired r' = deadline_expired r)
     \<and> (cancellation_requested r \<and> execution_id r = None \<longrightarrow> execution_id r' = None)"

lemma run_grows_refl [simp]: "run_grows r r"
  by (simp add: run_grows_def)

lemma run_grows_trans: "run_grows a b \<Longrightarrow> run_grows b c \<Longrightarrow> run_grows a c"
  by (auto simp: run_grows_def)

lemma run_grows_heartbeat: "run_grows r (r\<lparr>last_heartbeat_at := h\<rparr>)"
  by (simp add: run_grows_def)

lemma apply_event_deadline:
  "apply_event r e at = Inr r' \<Longrightarrow> deadline_expired r' = deadline_expired r \<or> (\<exists>d. e = DeadlineExceeded d)"
  by (cases e) (auto simp: apply_event_ok bind_check_ok terminal_status_def split: if_splits)

lemma apply_event_grows:
  assumes "apply_event r e at = Inr r'"
    and "cancellation_requested r \<Longrightarrow> (\<forall>d. e \<noteq> DeadlineExceeded d) \<and> (\<forall>sv x. e \<noteq> Claimed sv x)"
  shows "run_grows r r'"
proof -
  have "execution_id r' = None" if "cancellation_requested r" "execution_id r = None"
    using that assms apply_event_execution[OF assms(1)] by (cases "execution_id r'") auto
  with assms apply_event_step(5)[OF assms(1)] apply_event_once[OF assms(1)] apply_event_deadline[OF assms(1)]
  show ?thesis by (auto simp: run_grows_def)
qed

lemma committed_row:
  "map_of (db_runs (event_committed db i e at r')) j = (if j = i
     then Some ((the (map_of (db_runs db) i))\<lparr>row_revision := int (unat (revision r')),
        row_seq := int (unat (sequence r')), row_updated := at, row_payload := r'\<rparr>)
     else map_of (db_runs db) j)"
  by (simp add: event_committed_def update_conv')

lemma journal_of_committed:
  "journal_of (event_committed db i e at r') j = journal_of db j @ (if j = i then [(e, at)] else [])"
  by (simp add: journal_of_def journal_rows_committed)

text \<open>Along a step a run grows and its journal is extended at the end.\<close>

definition run_extends :: "durable_db \<Rightarrow> durable_db \<Rightarrow> string \<Rightarrow> bool" where
  "run_extends db db' i \<longleftrightarrow> (\<forall>row. map_of (db_runs db) i = Some row \<longrightarrow>
     (\<exists>row'. map_of (db_runs db') i = Some row' \<and> run_grows (row_payload row) (row_payload row'))
     \<and> prefix (journal_of db i) (journal_of db' i))"

lemma run_extends_same:
  "db_runs db' = db_runs db \<Longrightarrow> db_events db' = db_events db \<Longrightarrow> run_extends db db' i"
  by (simp add: run_extends_def journal_of_def journal_rows_def)

lemma run_extends_trans: "run_extends a b i \<Longrightarrow> run_extends b c i \<Longrightarrow> run_extends a c i"
  unfolding run_extends_def by (meson run_grows_trans prefix_order.trans)

lemma committed_extends:
  assumes "map_of (db_runs db) i = Some row" "run_grows (row_payload row) r'"
  shows "run_extends db (event_committed db i e at r') j"
  using assms by (auto simp: run_extends_def committed_row journal_of_committed)

lemma update_run_extends:
  assumes "db_inv db" "map_of (db_runs db) i = Some row" "update_run J now db (row_payload row) e = Inr (db', r')"
    and "cancellation_requested (row_payload row) \<Longrightarrow> (\<forall>d. e \<noteq> DeadlineExceeded d) \<and> (\<forall>sv x. e \<noteq> Claimed sv x)"
  shows "run_extends db db' j"
  using update_run_committed[OF assms(1-3)] committed_extends[OF assms(2)] apply_event_grows assms(4) by blast

lemma rewrite_row_extends:
  assumes "\<And>row. map_of (db_runs db) i = Some row \<Longrightarrow> run_grows (row_payload row) (row_payload (f row))"
  shows "run_extends db (db\<lparr>db_runs := map (\<lambda>(j, w). (j, if j = i then f w else w)) (db_runs db)\<rparr>) k"
  using assms by (auto simp: run_extends_def map_of_map_row journal_of_def journal_rows_def)

lemma durable_event_extends:
  assumes inv: "db_inv db" and e: "durable_event J t db i e = Inr (db', r')" "observed_event e"
  shows "run_extends db db' j"
proof -
  from e obtain r where r: "read_run db i = Inr r" by (auto simp: durable_event_def bind_check_ok)
  then obtain row where row: "map_of (db_runs db) i = Some row" and pr: "row_payload row = r"
    using inv by (auto simp: read_run_ok)
  show ?thesis
  proof (cases "db' = db")
    case False
    with e(1) r have "update_run J t db (row_payload row) e = Inr (db', r')"
      and "\<not> ((case e of DeadlineExceeded d \<Rightarrow> True | _ \<Rightarrow> False) \<and> cancellation_requested r)"
      by (auto simp: durable_event_def pr split: if_splits)
    with update_run_extends[OF inv row] e(2) pr show ?thesis
      by (cases e) (auto simp: observed_event_def)
  qed (simp add: run_extends_same)
qed

lemma durable_begin_extends:
  assumes inv: "db_inv db" and b: "durable_begin J me x t1 t2 t3 p d a db = Inr (db', y)"
  shows "run_extends db db' j"
proof -
  obtain row db1 r' sv where h: "map_of (db_runs db) (ep_id p) = Some row"
    "insert_effect_run db x (ep_id p) t2 db_conflict = Inr db1" "db_inv db1"
    "\<not> cancellation_requested (row_payload row)"
    "update_run J t3 db1 (row_payload row) (Claimed sv x) = Inr (db', r')"
    using durable_begin_step[OF assms] by metis
  note i = insert_effect_run_inv[OF inv h(2)]
  have "run_extends db1 db' j"
    using update_run_extends[OF h(3) _ h(5)] h(1,4) i(3) by simp
  moreover have "run_extends db db1 j" using i by (simp add: run_extends_same)
  ultimately show ?thesis by (rule run_extends_trans[rotated])
qed

lemma durable_cancel_extends:
  assumes inv: "db_inv db" and c: "durable_cancel J t db i n = Inr (db', out)"
  shows "run_extends db db' j"
proof -
  from inv c obtain row where row: "map_of (db_runs db) i = Some row" and "revision (row_payload row) = n"
    and d: "(db' = db \<and> out = CancelUnchanged \<and> (owner_released (row_payload row) \<or> cancellation_requested (row_payload row)))
     \<or> (\<exists>db1 r'. update_run J t db (row_payload row) CancelRequested = Inr (db1, r') \<and> out = CancelPersisted r'
          \<and> \<not> owner_released (row_payload row) \<and> cancellation_requested r'
          \<and> db' = db1\<lparr>db_runs := map (\<lambda>(j, w). (j, if j = i then w\<lparr>row_cancel := True\<rparr> else w)) (db_runs db1)\<rparr>)"
    by (rule durable_cancel_step)
  from d show ?thesis
  proof (elim disjE exE conjE)
    fix db1 r'
    assume "update_run J t db (row_payload row) CancelRequested = Inr (db1, r')"
      and db': "db' = db1\<lparr>db_runs := map (\<lambda>(j, w). (j, if j = i then w\<lparr>row_cancel := True\<rparr> else w)) (db_runs db1)\<rparr>"
    then have "run_extends db db1 j" using update_run_extends[OF inv row] by blast
    moreover have "run_extends db1 db' j" unfolding db' by (rule rewrite_row_extends) simp
    ultimately show ?thesis by (rule run_extends_trans)
  qed (simp_all add: run_extends_same)
qed

lemma store_step_extends: "store_step J db db' \<Longrightarrow> db_inv db \<Longrightarrow> run_extends db db' j"
proof (induction rule: store_step.induct)
  case (step_prepare ints cps t1 t2 p db db')
  then have "db' = db \<or> (\<exists>x. db' = db\<lparr>db_runs := db_runs db @ [x]\<rparr>)"
    by (auto simp: durable_prepare_def insert_run_def bind_check_ok Let_def split: effect.splits if_splits)
  then show ?case
    by (auto simp: run_extends_def journal_of_def journal_rows_def map_add_Some_iff)
next
  case (step_heartbeat t db i owner db' r)
  then obtain row where row: "map_of (db_runs db) i = Some row"
    and db': "db' = db\<lparr>db_runs := map (\<lambda>(j, w). (j, if j = i then w\<lparr>row_payload := (row_payload row)\<lparr>last_heartbeat_at := Some t\<rparr>\<rparr>
      else w)) (db_runs db)\<rparr>"
    by (auto simp: durable_heartbeat_def bind_check_ok read_run_ok Let_def split: if_splits)
  show ?case unfolding db' by (rule rewrite_row_extends) (simp add: row run_grows_heartbeat)
next
  case (step_begin_effect x t1 t2 p d a db db' y)
  then show ?case
    by (auto simp: begin_effect_def bind_check_ok intro!: run_extends_same dest: insert_effect_run_inv(3,4))
next
  case (step_finish_effect n r db db')
  then show ?case by (intro run_extends_same) (auto dest: finish_effect_runs)
next
  case (step_baseline db i m db' h)
  then show ?case
    by (intro run_extends_same) (auto simp: save_durable_baseline_def bind_check_ok split: if_splits)
next
  case (step_register db ps es)
  show ?case by (rule run_extends_same) simp_all
qed (rule durable_begin_extends durable_event_extends durable_cancel_extends; assumption)+

lemma store_steps_extends: "(store_step J)\<^sup>*\<^sup>* db db' \<Longrightarrow> db_inv db \<Longrightarrow> run_extends db db' j"
proof (induction rule: rtranclp_induct)
  case (step a b)
  then show ?case using store_step_extends store_steps_inv run_extends_trans by metis
qed (simp add: run_extends_same)

lemma journal_length:
  assumes "db_inv db" "map_of (db_runs db) i = Some row"
  shows "length (journal_of db i) = unat (sequence (row_payload row))"
proof -
  have "map (\<lambda>(_, sq, _). sq) (journal_rows db i) = map int [1..<Suc (unat (sequence (row_payload row)))]"
    using db_invD[OF assms] by (simp add: row_ok_def Let_def)
  from arg_cong[OF this, of length] show ?thesis by (simp add: journal_of_def del: upt_Suc)
qed

text \<open>The journal of a run claims it at most once.\<close>

definition is_claim :: "run_event \<Rightarrow> bool" where
  "is_claim e \<longleftrightarrow> (case e of Claimed _ _ \<Rightarrow> True | _ \<Rightarrow> False)"

lemma apply_event_claim:
  "apply_event r e at = Inr r' \<Longrightarrow>
     (if is_claim e then execution_id r = None \<and> execution_id r' \<noteq> None
      else execution_id r' = execution_id r)"
  by (cases e) (auto simp: apply_event_ok bind_check_ok terminal_status_def is_claim_def split: if_splits)

lemma replay_claims:
  "replay apply_event r es = Inr r' \<Longrightarrow>
     length (filter (\<lambda>(e, _). is_claim e) es) + (if execution_id r \<noteq> None then 1 else 0)
       = (if execution_id r' \<noteq> None then 1 else 0)"
proof (induction es arbitrary: r)
  case (Cons x es)
  obtain e at where x: "x = (e, at)" by (cases x)
  with Cons.prems obtain r1 where r1: "apply_event r e at = Inr r1" "replay apply_event r1 es = Inr r'"
    by (auto simp: bind_check_ok)
  from Cons.IH[OF r1(2)] apply_event_claim[OF r1(1)] show ?case
    by (cases "is_claim e") (auto simp: x)
qed simp

lemma reachable_steps: "reachable J db \<Longrightarrow> (store_step J)\<^sup>*\<^sup>* db db' \<Longrightarrow> reachable J db'"
  by (simp add: reachable_def)

lemma reachable_read:
  "reachable J db \<Longrightarrow> read_run db i = Inr r \<longleftrightarrow> (\<exists>row. map_of (db_runs db) i = Some row \<and> row_payload row = r)"
  by (rule read_run_ok) (rule reachable_inv)

lemma read_later:
  assumes "reachable J db" "read_run db i = Inr r" "(store_step J)\<^sup>*\<^sup>* db db'"
  obtains r' where "read_run db' i = Inr r'" "run_grows r r'" "prefix (journal_of db i) (journal_of db' i)"
  using assms store_steps_extends[OF assms(3) reachable_inv[OF assms(1)], of i]
    reachable_read[OF assms(1)] reachable_read[OF reachable_steps[OF assms(1,3)]]
  unfolding run_extends_def by metis

lemma read_row:
  assumes "reachable J db" "read_run db i = Inr r"
  obtains row where "map_of (db_runs db) i = Some row" "row_payload row = r" "row_ok db i row"
  using assms reachable_read db_invD reachable_inv by metis

text \<open>A prepared, a claimed and a cancelled run, for the witnesses.\<close>

definition sample_codec :: codec where
  "sample_codec = \<lparr>run_text_len = \<lambda>_. 0, event_text_len = \<lambda>_. 0, manifest_text_len = \<lambda>_. 0,
     manifest_sha = \<lambda>_. sample_digest\<rparr>"

definition sample_continuation :: continuation where
  "sample_continuation = \<lparr>co_integration_id = ''i'', co_integration_digest = sample_digest,
     co_checkpoint_id = ''c'', co_workspace_digest = sample_digest, co_work_id = ''w'', co_work_version = 1,
     co_resume_external_id = None, co_permission_mode = ''read_only'', co_timeout_seconds = 60,
     co_deadlines = Some default_deadlines, co_packet_digest = sample_digest,
     co_authority_digest = sample_digest\<rparr>"

definition sample_effect_plan :: effect_plan where
  "sample_effect_plan = sample_plan (Continue sample_continuation)"

definition sample_integration :: integration where
  "sample_integration = \<lparr>int_id = ''i'', int_project_id = ''p'', int_environment = ''dev'', int_adapter = Codex,
     int_executable = ''/bin/codex'', int_executable_sha256 = sample_digest, int_version_text = ''1'',
     int_inherit_env = [], int_configuration = [], int_authentication = [], int_protocol_revision = None,
     int_auth_method = None, int_observed_at = 900\<rparr>"

definition sample_run :: run_record where
  "sample_run = prepare_record sample_effect_plan sample_continuation sample_integration sample_checkpoint
     default_deadlines 1000 1000"

definition sample_row :: run_row where
  "sample_row = \<lparr>row_plan = ''e'', row_project = ''p'', row_environment = ''dev'', row_revision = 0, row_seq = 0,
     row_cancel = False, row_updated = 1000, row_payload = sample_run\<rparr>"

definition sample_db :: durable_db where
  "sample_db = empty_db\<lparr>db_plans := [''e''], db_environments := [(''p'', ''dev'')], db_runs := [(''e'', sample_row)]\<rparr>"

lemma sample_run_simps [simp]:
  "rs_id (scope sample_run) = ''e''" "execution_id sample_run = None" "cancellation_requested sample_run = False"
  "owner_released sample_run = False" "revision sample_run = 0" "sequence sample_run = 0"
  "updated_at sample_run = 1000" "deadline_expired sample_run = None" "verification sample_run = NotRequested"
  "provider sample_run = PUnknown" "rs_project_id (scope sample_run) = ''p''" "rs_environment (scope sample_run) = ''dev''"
  by (simp_all add: sample_run_def prepare_record_def prepared_run_def sample_effect_plan_def sample_plan_def)

lemma sample_prepare:
  "durable_prepare sample_codec (\<lambda>_. Inr sample_integration) (\<lambda>_. Inr sample_checkpoint) 1000 1000
     sample_effect_plan (empty_db\<lparr>db_plans := [''e''], db_environments := [(''p'', ''dev'')]\<rparr>) = Inr sample_db"
proof -
  have e: "ep_effect sample_effect_plan = Continue sample_continuation"
    by (simp add: sample_effect_plan_def sample_plan_def)
  have d: "co_deadlines sample_continuation = Some default_deadlines"
    by (simp add: sample_continuation_def)
  show ?thesis
    unfolding durable_prepare_def
    by (simp add: e d require_v5_def empty_db_def deadlines_validate_def default_deadlines_def MAX_RUNS_def
        flip: sample_run_def[unfolded default_deadlines_def])
      (simp add: insert_run_def sample_db_def sample_row_def empty_db_def sample_codec_def Let_def)
qed

lemma sample_db_reachable: "reachable sample_codec sample_db"
proof -
  have "store_step sample_codec empty_db (empty_db\<lparr>db_plans := [''e''], db_environments := [(''p'', ''dev'')]\<rparr>)"
    using step_register[where J = sample_codec and db = empty_db and ps = "[''e'']" and es = "[(''p'', ''dev'')]"] by (simp add: empty_db_def)
  with step_prepare[OF sample_prepare] show ?thesis
    by (auto simp: reachable_def intro: converse_rtranclp_into_rtranclp)
qed

lemma sample_read: "read_run sample_db ''e'' = Inr sample_run"
  by (simp add: read_run_def sample_db_def sample_row_def Let_def)

lemma sample_approve: "approve sample_effect_plan sample_digest sample_digest 1001 = Inr ()"
proof -
  have "effect_plan_validate sample_effect_plan = Inr ()"
    unfolding sample_effect_plan_def sample_plan_ok
    by (simp add: continuation_validate_def sample_continuation_def id_eval sample_digest_ok
        deadlines_validate_def default_deadlines_def)
  then show ?thesis
    by (simp add: approve_def sample_digest_ok) (simp add: sample_effect_plan_def sample_plan_def)
qed

lemma sample_begin:
  "\<exists>db. durable_begin sample_codec (Inr sample_identity) ''x'' 1001 1001 1001 sample_effect_plan
     sample_digest sample_digest sample_db = Inr (db, ''x'')"
proof -
  have i: "ep_id sample_effect_plan = ''e''" by (simp add: sample_effect_plan_def sample_plan_def)
  have v: "require_v5 sample_db = Inr ()" by (simp add: require_v5_def sample_db_def empty_db_def)
  obtain r' where a: "apply_event sample_run (Claimed sample_identity ''x'') 1001 = Inr r'"
    and r': "revision r' = 1" "sequence r' = 1" "scope r' = scope sample_run" "updated_at r' = 1001"
    by (simp add: apply_event_def control_timestamp_def checked_inc_def)
  obtain db1 where e: "insert_effect_run sample_db ''x'' ''e'' 1001 db_conflict = Inr db1"
    and db1: "db_runs db1 = db_runs sample_db" "db_events db1 = []"
    by (simp add: insert_effect_run_def sample_db_def empty_db_def)
  have "\<exists>db2 r2. update_run sample_codec 1001 db1 sample_run (Claimed sample_identity ''x'') = Inr (db2, r2)"
    using r' by (simp add: update_run_def a sqlint_def insert_event_def db1 sample_codec_def MAX_EVENTS_def
        sample_db_def sample_row_def Let_def)
  then show ?thesis
    by (auto simp: durable_begin_def sample_approve v i sample_read e)
qed

lemma sample_cancel:
  "\<exists>db r. durable_cancel sample_codec 1001 sample_db ''e'' 0 = Inr (db, CancelPersisted r) \<and> execution_id r = None"
proof -
  obtain r' where a: "apply_event sample_run CancelRequested 1001 = Inr r'"
    and r': "revision r' = 1" "sequence r' = 1" "scope r' = scope sample_run" "updated_at r' = 1001" "execution_id r' = None"
    by (simp add: apply_event_def control_timestamp_def checked_inc_def)
  then have "\<exists>db2. update_run sample_codec 1001 sample_db sample_run CancelRequested = Inr (db2, r')"
    by (simp add: update_run_def a sqlint_def insert_event_def sample_codec_def MAX_EVENTS_def
        sample_db_def sample_row_def empty_db_def Let_def)
  with r' show ?thesis by (auto simp: durable_cancel_def sample_read)
qed

lemma distinct_map_count_one:
  "distinct (map f ws) \<Longrightarrow> v \<in> set (map f ws) \<Longrightarrow> length (filter (\<lambda>w. f w = v) ws) = 1"
proof (induction ws)
  case (Cons a ws)
  show ?case
  proof (cases "f a = v")
    case True
    with Cons.prems(1) have "f x \<noteq> v" if "x \<in> set ws" for x using that by auto (metis imageI)
    then have "filter (\<lambda>w. f w = v) ws = []" by (simp add: filter_empty_conv)
    with True show ?thesis by simp
  qed (use Cons in auto)
qed simp

lemma durable_cancel_read:
  assumes "reachable J db" "durable_cancel J t db i n = Inr (db1, CancelPersisted r)"
  shows "reachable J db1" "read_run db1 i = Inr r" "cancellation_requested r"
proof -
  show r1: "reachable J db1" using reachable_steps[OF assms(1)] step_cancel[OF assms(2)] by blast
  from reachable_inv[OF assms(1)] assms(2) obtain row where row: "map_of (db_runs db) i = Some row"
      "revision (row_payload row) = n"
    and c: "(db1 = db \<and> CancelPersisted r = CancelUnchanged \<and> (owner_released (row_payload row) \<or> cancellation_requested (row_payload row)))
     \<or> (\<exists>db0 r'. update_run J t db (row_payload row) CancelRequested = Inr (db0, r') \<and> CancelPersisted r = CancelPersisted r'
          \<and> \<not> owner_released (row_payload row) \<and> cancellation_requested r'
          \<and> db1 = db0\<lparr>db_runs := map (\<lambda>(j, w). (j, if j = i then w\<lparr>row_cancel := True\<rparr> else w)) (db_runs db0)\<rparr>)"
    by (rule durable_cancel_step)
  then obtain db0 where u: "update_run J t db (row_payload row) CancelRequested = Inr (db0, r)"
    and k: "cancellation_requested r"
    and db1: "db1 = db0\<lparr>db_runs := map (\<lambda>(j, w). (j, if j = i then w\<lparr>row_cancel := True\<rparr> else w)) (db_runs db0)\<rparr>"
    by blast
  show "cancellation_requested r" by (fact k)
  show "read_run db1 i = Inr r"
    unfolding reachable_read[OF r1]
    using update_run_committed[OF reachable_inv[OF assms(1)] row(1) u] by (simp add: db1 map_of_map_row committed_row)
qed

text \<open>Sequence numbers of a journal, and the slice behind a cursor.\<close>

lemma filter_after:
  assumes "map f xs = map int [1..<Suc n]"
  shows "filter (\<lambda>x. int a < f x) xs = drop a xs"
  using assms
proof (induction n arbitrary: xs)
  case (Suc n)
  have "xs \<noteq> []" using Suc.prems by auto
  then obtain ys y where xs: "xs = ys @ [y]" by (metis rev_exhaust)
  with Suc.prems have ys: "map f ys = map int [1..<Suc n]" and y: "f y = int (Suc n)" by simp_all
  from arg_cong[OF ys, of length] have "length ys = n" by (simp del: upt_Suc)
  with Suc.IH[OF ys] y show ?case by (auto simp: xs)
qed simp

lemma take_upt_min: "take m [i..<j] = [i..<min (i + m) j]"
  by (cases "i + m \<le> j") (simp_all add: min_def)

lemma upt_from_length:
  assumes "map fst xs = map int [a..<min c d]"
  shows "map fst xs = map int [a..<a + length xs]"
proof -
  from arg_cong[OF assms, of length] have "length xs = min c d - a" by simp
  then show ?thesis using assms by (cases "a \<le> min c d") simp_all
qed

lemma stored_rows:
  "reachable J db \<Longrightarrow> read_run db i = Inr r \<Longrightarrow>
     \<exists>n. map (\<lambda>(_, sq, _). sq) (journal_rows db i) = map int [1..<Suc n]"
  by (elim read_row) (auto simp: row_ok_def Let_def simp del: upt_Suc)

lemma update_run_events:
  assumes "update_run J t db r e = Inr (db', r')"
  shows "\<exists>i at. db_events db' = db_events db @ [(i, int (unat (sequence r)) + 1, at, e)]"
proof -
  from assms have "apply_event r e t = Inr r'"
    and "\<exists>i at. db_events db' = db_events db @ [(i, int (unat (sequence r')), at, e)]"
    by (auto simp: update_run_def bind_check_ok Let_def sqlint_ok insert_event_ok split: if_splits option.splits)
  with apply_event_step(1) show ?thesis by fastforce
qed

lemma step_progress:
  assumes "db_inv a" "store_step J a b"
    and "list_all (\<lambda>(i, sq, at, e). e \<noteq> Progress \<or> sq \<le> 2048 - 64) (db_events a)"
  shows "list_all (\<lambda>(i, sq, at, e). e \<noteq> Progress \<or> sq \<le> 2048 - 64) (db_events b)"
  using assms(2,1,3)
proof (induction rule: store_step.induct)
  case (step_event t db i e db' r)
  show ?case
  proof (cases "db' = db")
    case False
    with step_event.hyps(1) obtain r0 where u: "update_run J t db r0 e = Inr (db', r)"
      and p: "e = Progress \<Longrightarrow> sequence r0 < MAX_EVENTS - 64"
      by (auto simp: durable_event_def bind_check_ok not_le split: if_splits)
    have m: "unat (MAX_EVENTS - 64) = 1984" by (simp add: MAX_EVENTS_def)
    have "int (unat (sequence r0)) + 1 \<le> 2048 - 64" if "e = Progress"
      using p[OF that, unfolded word_less_nat_alt m] by linarith
    with update_run_events[OF u] step_event.prems(2) show ?thesis by auto
  qed (use step_event.prems in simp)
next
  case (step_begin me x t1 t2 t3 p d a db db' y)
  obtain row :: run_row and db1 r' sv where "insert_effect_run db x (ep_id p) t2 db_conflict = Inr db1"
    "update_run J t3 db1 (row_payload row) (Claimed sv x) = Inr (db', r')"
    using durable_begin_step[OF step_begin.prems(1) step_begin.hyps] by metis
  with update_run_events insert_effect_run_inv(4)[OF step_begin.prems(1)] step_begin.prems(2)
  show ?case by fastforce
next
  case (step_cancel t db i n db' c)
  then have "db' = db \<or> (\<exists>r db1 r'. update_run J t db r CancelRequested = Inr (db1, r') \<and> db_events db' = db_events db1)"
    by (fastforce simp: durable_cancel_def bind_check_ok split: if_splits)
  with update_run_events step_cancel.prems(2) show ?case by fastforce
qed (auto simp: durable_prepare_def insert_run_def durable_heartbeat_def save_durable_baseline_def begin_effect_def
    bind_check_ok Let_def insert_effect_run_ok dest: finish_effect_runs(4) split: effect.splits if_splits)

section \<open>Properties\<close>

text \<open>
  C2: a stored run is the replay of its own append-only journal. In every reachable database, the run
  that is read under an identifier carries that identifier, and replaying its journal, of contiguous
  sequence numbers from one, from the prepared run yields it (up to the last heartbeat, which is not an
  event); the journal's times ascend and it has at most 2048 events.
\<close>

theorem stored_run_is_its_journal:
  assumes "reachable J db" "read_run db i = Inr r"
  shows "rs_id (scope r) = i \<and> run_inv r
    \<and> (\<exists>t. replay apply_event (prepared_run (scope r) t) (journal_of db i) = Inr (r\<lparr>last_heartbeat_at := None\<rparr>))
    \<and> map (\<lambda>(_, sq, _). sq) (journal_rows db i) = map int [1..<Suc (unat (sequence r))]
    \<and> sorted (map snd (journal_of db i)) \<and> length (journal_of db i) \<le> 2048"
proof -
  obtain row where row: "map_of (db_runs db) i = Some row" "row_payload row = r" "row_ok db i row"
    using read_row[OF assms] .
  note ok = row(3)[unfolded row_ok_def Let_def row(2)]
  then obtain t where t: "replay apply_event (prepared_run (scope r) t) (journal_of db i) = Inr (r\<lparr>last_heartbeat_at := None\<rparr>)"
    by blast
  from run_journal.replay_sorted[OF t] have "sorted (map snd (journal_of db i))" by simp
  moreover have "length (journal_of db i) \<le> 2048"
    using journal_length[OF reachable_inv[OF assms(1)] row(1)] ok by (simp add: row(2) word_le_nat_alt MAX_EVENTS_def)
  ultimately show ?thesis using ok by blast
qed

theorem stored_run_is_its_journal_witness: "journal_rows sample_db ''e'' = [] \<and> run_inv sample_run"
  using stored_run_is_its_journal[OF sample_db_reachable sample_read] by simp

text \<open>
  C17: an effect is started at most once and never replayed. After a successful claim of a plan's run,
  in every database reachable from there, a second claim is refused whatever the approval, time or
  caller, the journal holds exactly one claim, and exactly one execution is recorded for the plan.
\<close>

theorem effect_starts_at_most_once:
  assumes "reachable J db" "durable_begin J me x t1 t2 t3 p d a db = Inr (db1, y)"
    and "(store_step J)\<^sup>*\<^sup>* db1 db2" "ep_id q = ep_id p"
  shows "(\<exists>e. durable_begin J me' x' u1 u2 u3 q d' a' db2 = Inl e)
    \<and> length (filter (\<lambda>(e, _). is_claim e) (journal_of db2 (ep_id p))) = 1
    \<and> length (filter (\<lambda>w. er_plan w = ep_id p) (db_effect_runs db2)) = 1"
proof -
  let ?i = "ep_id p"
  note inv = reachable_inv[OF assms(1)]
  have r1: "reachable J db1" using reachable_steps[OF assms(1)] step_begin[OF assms(2)] by blast
  have r2: "reachable J db2" using reachable_steps[OF r1 assms(3)] .
  obtain row0 db0 r' sv where h: "map_of (db_runs db) ?i = Some row0" "y = x"
    "insert_effect_run db x ?i t2 db_conflict = Inr db0" "db_inv db0"
    "execution_id (row_payload row0) = None" "\<not> cancellation_requested (row_payload row0)"
    "update_run J t3 db0 (row_payload row0) (Claimed sv x) = Inr (db1, r')" "approve p d a t1 = Inr ()"
    by (rule durable_begin_step[OF inv assms(2)])
  have row0: "map_of (db_runs db0) ?i = Some row0"
    using h(1) insert_effect_run_inv(3)[OF inv h(3)] by simp
  note c = update_run_committed[OF h(4) row0 h(7)]
  then have ex1: "execution_id r' \<noteq> None" using apply_event_claim[of _ "Claimed sv x"] by (auto simp: is_claim_def)
  have rd1: "read_run db1 ?i = Inr r'"
    unfolding reachable_read[OF r1] using c by (simp add: committed_row)
  obtain r2' where rd: "read_run db2 ?i = Inr r2'" and g: "run_grows r' r2'"
    by (rule read_later[OF r1 rd1 assms(3)])
  from g ex1 have ex: "execution_id r2' \<noteq> None" by (simp add: run_grows_def)
  obtain row2 where row2: "map_of (db_runs db2) ?i = Some row2" "row_payload row2 = r2'" "row_ok db2 ?i row2"
    using read_row[OF r2 rd] .
  from row2 obtain t where "replay apply_event (prepared_run (scope r2') t) (journal_of db2 ?i)
      = Inr (r2'\<lparr>last_heartbeat_at := None\<rparr>)" by (auto simp: row_ok_def Let_def)
  from replay_claims[OF this] ex have one: "length (filter (\<lambda>(e, _). is_claim e) (journal_of db2 ?i)) = 1"
    by (simp add: prepared_run_def)
  from row2 ex have "\<exists>z. has_effect_run db2 z ?i" by (auto simp: row_ok_def Let_def)
  then have "?i \<in> set (map er_plan (db_effect_runs db2))" by (auto simp: has_effect_run_def)
  moreover have "distinct (map er_plan (db_effect_runs db2))"
    using reachable_inv[OF r2] by (simp add: db_inv_def)
  ultimately have "length (filter (\<lambda>w. er_plan w = ?i) (db_effect_runs db2)) = 1"
    by (rule distinct_map_count_one[rotated])
  moreover have "\<exists>e. durable_begin J me' x' u1 u2 u3 q d' a' db2 = Inl e"
  proof (cases "durable_begin J me' x' u1 u2 u3 q d' a' db2")
    case (Inr z)
    with rd ex assms(4) show ?thesis by (cases z) (auto simp: durable_begin_def bind_check_ok split: if_splits)
  qed simp
  ultimately show ?thesis using one by blast
qed

theorem effect_starts_at_most_once_witness:
  "\<exists>db. durable_begin sample_codec (Inr sample_identity) ''x'' 1001 1001 1001 sample_effect_plan
      sample_digest sample_digest sample_db = Inr (db, ''x'')
    \<and> length (filter (\<lambda>w. er_plan w = ep_id sample_effect_plan) (db_effect_runs db)) = 1"
proof -
  obtain db where db: "durable_begin sample_codec (Inr sample_identity) ''x'' 1001 1001 1001 sample_effect_plan
      sample_digest sample_digest sample_db = Inr (db, ''x'')"
    using sample_begin by blast
  from effect_starts_at_most_once[OF sample_db_reachable this rtranclp.rtrancl_refl refl,
      of "Inr sample_identity" "''x''" 0 0 0 "[]" "[]"] db
  show ?thesis by blast
qed

text \<open>
  C18: a persisted cancellation wins. After it commits, in every later database the run stays cancelled,
  a deadline is never recorded over it, and a run that had not started never starts: it is reported as
  cancelled and every claim is refused.
\<close>

theorem persisted_cancellation_wins:
  assumes "reachable J db" "durable_cancel J t db i n = Inr (db1, CancelPersisted r)"
    and "(store_step J)\<^sup>*\<^sup>* db1 db2"
  shows "\<exists>r2. read_run db2 i = Inr r2 \<and> cancellation_requested r2 \<and> deadline_expired r2 = deadline_expired r
    \<and> (execution_id r \<noteq> None \<or> run_record_state r2 = RCancelled
         \<and> (ep_id p = i \<longrightarrow> (\<exists>e. durable_begin J me x t1 t2 t3 p d a db2 = Inl e)))"
proof -
  note c = durable_cancel_read[OF assms(1,2)]
  obtain r2 where r2: "read_run db2 i = Inr r2" "run_grows r r2"
    by (rule read_later[OF c(1,2) assms(3)])
  then have g: "cancellation_requested r2" "deadline_expired r2 = deadline_expired r"
    "execution_id r = None \<Longrightarrow> execution_id r2 = None"
    using c(3) by (auto simp: run_grows_def)
  have "\<exists>e. durable_begin J me x t1 t2 t3 p d a db2 = Inl e" if "ep_id p = i"
  proof (cases "durable_begin J me x t1 t2 t3 p d a db2")
    case (Inr z)
    with r2 g that show ?thesis by (cases z) (auto simp: durable_begin_def bind_check_ok split: if_splits)
  qed simp
  moreover have "execution_id r \<noteq> None \<or> run_record_state r2 = RCancelled"
    using g by (cases "execution_id r = None") (simp_all add: run_record_state_def)
  ultimately show ?thesis using r2(1) g by blast
qed

theorem persisted_cancellation_wins_witness:
  "\<exists>db r2. read_run db ''e'' = Inr r2 \<and> run_record_state r2 = RCancelled"
proof -
  obtain db r where c: "durable_cancel sample_codec 1001 sample_db ''e'' 0 = Inr (db, CancelPersisted r)"
    and n: "execution_id r = None" using sample_cancel by blast
  from persisted_cancellation_wins[OF sample_db_reachable c rtranclp.rtrancl_refl,
      of sample_effect_plan "Inl []" "[]" 0 0 0 "[]" "[]"] n
  show ?thesis by blast
qed

text \<open>
  C19: the optimistic check is sound. A cancellation that is accepted with the revision a caller read
  earlier proves that nothing was appended in between: the journal of the run is the one the caller
  saw, and the record differs at most in its last heartbeat.
\<close>

theorem accepted_revision_means_unchanged:
  assumes "reachable J db" "read_run db i = Inr r" "(store_step J)\<^sup>*\<^sup>* db db1"
    and "durable_cancel J t db1 i (revision r) = Inr (db2, out)"
  shows "journal_of db1 i = journal_of db i
    \<and> (\<exists>r1. read_run db1 i = Inr r1 \<and> revision r1 = revision r \<and> sequence r1 = sequence r \<and> scope r1 = scope r)"
proof -
  have R1: "reachable J db1" using reachable_steps[OF assms(1,3)] .
  obtain r1 where r1: "read_run db1 i = Inr r1" "run_grows r r1" and pre: "prefix (journal_of db i) (journal_of db1 i)"
    using read_later[OF assms(1-3)] .
  obtain row where row: "map_of (db_runs db) i = Some row" "row_payload row = r" "row_ok db i row"
    using read_row[OF assms(1,2)] .
  obtain row1 where row1: "map_of (db_runs db1) i = Some row1" "row_payload row1 = r1" "row_ok db1 i row1"
    using read_row[OF R1 r1(1)] .
  from assms(4) r1(1) have rev: "revision r1 = revision r"
    by (auto simp: durable_cancel_def split: if_splits)
  then have sq: "sequence r1 = sequence r"
    using row(2,3) row1(2,3) by (simp add: row_ok_def Let_def run_inv_def)
  then have "length (journal_of db1 i) = length (journal_of db i)"
    using journal_length[OF reachable_inv[OF assms(1)] row(1)] journal_length[OF reachable_inv[OF R1] row1(1)]
    by (simp add: row(2) row1(2))
  with pre have "journal_of db1 i = journal_of db i" by (auto simp: prefix_def)
  with r1 rev sq show ?thesis by (auto simp: run_grows_def)
qed

theorem accepted_revision_means_unchanged_witness:
  "\<exists>db. durable_cancel sample_codec 1001 sample_db ''e'' 0 = Inr db \<and> journal_of sample_db ''e'' = []"
proof -
  obtain db r where c: "durable_cancel sample_codec 1001 sample_db ''e'' 0 = Inr (db, CancelPersisted r)"
    using sample_cancel by blast
  then have "durable_cancel sample_codec 1001 sample_db ''e'' (revision sample_run) = Inr (db, CancelPersisted r)"
    by simp
  from accepted_revision_means_unchanged[OF sample_db_reachable sample_read rtranclp.rtrancl_refl this] c
  show ?thesis by (auto simp: journal_of_def journal_rows_def sample_db_def empty_db_def)
qed

text \<open>
  Progress never consumes the reserved slots. In every reachable database a progress event has a
  sequence number of at most 1984, so at least 64 of a run's 2048 slots remain for the claim, the
  identities, the terminal facts and the verification.
\<close>

theorem progress_keeps_reserved_slots:
  assumes "reachable J db"
  shows "filter (\<lambda>(i, sq, at, e). e = Progress \<and> 2048 - 64 < sq) (db_events db) = []"
proof -
  from assms have "list_all (\<lambda>(i, sq, at, e). e \<noteq> Progress \<or> sq \<le> 2048 - 64) (db_events db)"
    unfolding reachable_def
  proof (induction rule: rtranclp_induct)
    case (step a b)
    from step.hyps(1) have "db_inv a" by (intro reachable_inv) (simp add: reachable_def)
    from step_progress[OF this step.hyps(2) step.IH] show ?case .
  qed (simp add: empty_db_def)
  then show ?thesis by (auto simp: list_all_iff filter_empty_conv)
qed

theorem progress_keeps_reserved_slots_witness:
  "db_plans sample_db = [''e''] \<and>
   filter (\<lambda>(i, sq, at, e). e = Progress \<and> 2048 - 64 < sq) (db_events sample_db) = []"
  using progress_keeps_reserved_slots[OF sample_db_reachable] by (simp add: sample_db_def)

text \<open>
  Event pages are slices of the journal. In a reachable database a page requested after sequence
  number n holds exactly the next events of the run's journal in order, with their sequence numbers
  n + 1, n + 2, ..., and its cursor is the number of the last event it holds, so repeated requests
  with the returned cursor enumerate the whole journal without gap or repetition.
\<close>

theorem event_pages_are_journal_slices:
  assumes "reachable J db" "durable_events db i after lim = Inr (page, nxt)"
  shows "map (\<lambda>(sq, at, e). (e, at)) page = take lim (drop (unat after) (journal_of db i))
    \<and> map fst page = map int [unat after + 1 ..< unat after + 1 + length page]
    \<and> nxt = int (unat after + length page) \<and> 0 < lim \<and> lim \<le> 200"
proof -
  let ?a = "unat after" and ?f = "\<lambda>(_, sq, _). sq :: int"
  from assms(2) obtain r where "durable_run db i = Inr r" and lim: "0 < lim" "lim \<le> 200"
    and pg: "page = map snd (take lim (sort_key ?f (filter (\<lambda>(j, sq, _). j = i \<and> int ?a < sq) (db_events db))))"
    and nx: "nxt = (if page = [] then int ?a else fst (last page))"
    by (auto simp: durable_events_def bind_check_ok sqlint_ok Let_def split: if_splits)
  then have "read_run db i = Inr r" by (auto simp: durable_run_def bind_check_ok)
  from stored_rows[OF assms(1) this] obtain n
    where seqs: "map ?f (journal_rows db i) = map int [1..<Suc n]" by blast
  have "filter (\<lambda>(j, sq, _). j = i \<and> int ?a < sq) (db_events db) = filter (\<lambda>x. int ?a < ?f x) (journal_rows db i)"
    by (simp add: journal_rows_def split_def)
  also have "\<dots> = drop ?a (journal_rows db i)" by (rule filter_after[OF seqs])
  finally have fl: "filter (\<lambda>(j, sq, _). j = i \<and> int ?a < sq) (db_events db) = drop ?a (journal_rows db i)" .
  have dseq: "map ?f (drop ?a (journal_rows db i)) = map int [?a + 1..<Suc n]"
    unfolding drop_map[symmetric] seqs by (simp add: drop_map drop_upt add.commute del: upt_Suc)
  have "sorted (map int [u..<v])" for u v by (induction v) (auto simp: sorted_append)
  with dseq have "sorted (map ?f (drop ?a (journal_rows db i)))" by (simp del: upt_Suc)
  then have pg': "page = map snd (take lim (drop ?a (journal_rows db i)))"
    unfolding pg fl by (simp add: sort_key_id_if_sorted)
  have "map (\<lambda>(sq, at, e). (e, at)) page = take lim (drop ?a (journal_of db i))"
    unfolding pg' journal_of_def by (simp add: take_map drop_map split_def)
  moreover have "map fst page = take lim (map ?f (drop ?a (journal_rows db i)))"
    unfolding pg' by (simp add: take_map split_def)
  then have "map fst page = map int [?a + 1..<min (?a + 1 + lim) (Suc n)]"
    unfolding dseq by (simp add: take_map take_upt_min del: upt_Suc)
  then have ms: "map fst page = map int [?a + 1..<?a + 1 + length page]"
    by (rule upt_from_length)
  moreover have "nxt = int (?a + length page)"
  proof (cases page rule: rev_cases)
    case (snoc ys y)
    from ms have "map fst (ys @ [y]) = map int ([?a + 1..<?a + 1 + length ys] @ [?a + 1 + length ys])"
      by (simp add: snoc)
    then show ?thesis by (simp add: nx snoc)
  qed (simp add: nx)
  ultimately show ?thesis using lim by blast
qed

theorem event_pages_are_journal_slices_witness:
  "\<exists>page nxt. durable_events sample_db ''e'' 0 10 = Inr (page, nxt) \<and> page = [] \<and> nxt = 0"
proof -
  have "durable_run sample_db ''e'' = Inr sample_run"
    by (simp add: durable_run_def sample_read id_eval require_v5_def)
      (simp add: sample_db_def empty_db_def)
  then have "\<exists>page nxt. durable_events sample_db ''e'' 0 10 = Inr (page, nxt)"
    by (simp add: durable_events_def sqlint_def Let_def)
  then obtain page nxt where e: "durable_events sample_db ''e'' 0 10 = Inr (page, nxt)" by blast
  from event_pages_are_journal_slices[OF sample_db_reachable e] e show ?thesis
    by (auto simp: journal_of_def journal_rows_def sample_db_def empty_db_def)
qed

end
