(* ===== verification/Ownership.thy ===== *)
theory Ownership
  imports Control "HOL-Library.Product_Lexorder"
begin

text \<open>
  Process ownership evidence (\<open>workstation-core/src/ownership.rs\<close> and \<open>host_graph.rs\<close>): process
  identities with a birth time, the bounded walk along observed parents, the association of processes
  with sessions, and the search of a configured hook's caller chain. A \<open>BTreeMap\<close> that is filled by
  insertions is the map of its last insertions.
\<close>

section \<open>Data\<close>

datatype process_key = ProcessKey (pk_host: string) (pk_boot: string) (pk_pid: nat) (pk_created: nat)

definition key_tuple :: "process_key \<Rightarrow> string \<times> string \<times> nat \<times> nat" where
  "key_tuple k = (pk_host k, pk_boot k, pk_pid k, pk_created k)"

lemma key_tuple_inject [simp]: "key_tuple a = key_tuple b \<longleftrightarrow> a = b"
  by (cases a; cases b) (simp add: key_tuple_def)

text \<open>The derived order of the key: field by field.\<close>

instantiation process_key :: linorder
begin

definition less_eq_process_key :: "process_key \<Rightarrow> process_key \<Rightarrow> bool" where
  "a \<le> b \<longleftrightarrow> key_tuple a \<le> key_tuple b"

definition less_process_key :: "process_key \<Rightarrow> process_key \<Rightarrow> bool" where
  "a < b \<longleftrightarrow> key_tuple a < key_tuple b"

instance
  by standard (auto simp: less_eq_process_key_def less_process_key_def order.strict_iff_order)

end

record process_fact =
  pf_key :: process_key
  pf_parent :: "process_key option"
  pf_executable_digest :: "string option"
  pf_private_bytes :: "nat option"
  pf_cpu_ticks :: "nat option"
  pf_io_bytes :: "nat option"
  pf_coverage :: coverage

record binding =
  bd_process :: process_key
  bd_session_id :: string
  bd_source :: string
  bd_shared :: bool
  bd_seen_at :: int
  bd_expires_at :: int

record ownership_input =
  oi_observed_at :: int
  oi_process_coverage :: coverage
  oi_processes :: "process_fact list"
  oi_bindings :: "binding list"
  oi_ended_sessions :: "(string \<times> int) list"
  oi_previous :: "process_fact list"

record ownership_row =
  or_process :: process_key
  or_sessions :: "string list"
  or_relation :: string
  or_retained_candidate :: bool
  or_protected :: bool
  or_reasons :: "string list"

record executable_observation =
  eo_process :: process_key
  eo_path :: string
  eo_disk_digest :: "string option"
  eo_matching_integrations :: "string list"
  eo_loaded_image_identity_verified :: bool

record host_graph =
  hg_observed_at :: int
  hg_uptime_ms :: "nat option"
  hg_coverage :: coverage
  hg_processes :: "process_fact list"
  hg_executables :: "executable_observation list"
  hg_denied :: nat
  hg_notices :: "string list"

section \<open>Indexes\<close>

definition process_index :: "process_fact list \<Rightarrow> process_key \<Rightarrow> process_fact option" where
  "process_index ps = map_of (rev (map (\<lambda>p. (pf_key p, p)) ps))"

fun index_processes :: "process_key set \<Rightarrow> process_fact list \<Rightarrow> unit check" where
  "index_processes seen [] = Inr ()"
| "index_processes seen (p # ps) =
     (let k = pf_key p in
      if pk_created k = 0 \<or> pk_host k = [] \<or> pk_boot k = [] then Inl ''PROCESS_BIRTH_ID_REQUIRED''
      else if (case pf_parent p of None \<Rightarrow> False
               | Some a \<Rightarrow> pk_host a \<noteq> pk_host k \<or> pk_boot a \<noteq> pk_boot k \<or> pk_created a > pk_created k \<or> a = k)
        then Inl ''INVALID_PARENT_BIRTH_IDENTITY''
      else if k \<in> seen then Inl ''DUPLICATE_PROCESS_IDENTITY''
      else index_processes (insert k seen) ps)"

fun index_previous :: "process_key set \<Rightarrow> process_fact list \<Rightarrow> unit check" where
  "index_previous seen [] = Inr ()"
| "index_previous seen (p # ps) =
     (if pf_key p \<in> seen then Inl ''DUPLICATE_PREVIOUS_PROCESS_IDENTITY''
      else index_previous (insert (pf_key p) seen) ps)"

definition binding_check :: "binding \<Rightarrow> unit check" where
  "binding_check b = checks
     [control_id (bd_session_id b),
      control_timestamp (bd_seen_at b),
      control_timestamp (bd_expires_at b),
      control_text (bd_source b) 128,
      reject (bd_expires_at b < bd_seen_at b) ''BINDING_TIME_INVALID'']"

definition active_bindings :: "ownership_input \<Rightarrow> process_key \<Rightarrow> binding list" where
  "active_bindings inp k = filter (\<lambda>b. bd_process b = k
     \<and> bd_seen_at b \<le> oi_observed_at inp \<and> oi_observed_at inp \<le> bd_expires_at b) (oi_bindings inp)"

section \<open>The bounded walk along parents\<close>

record walk =
  wk_sessions :: "string list"
  wk_shared :: bool
  wk_supported :: bool
  wk_reasons :: "string list"

function lineage ::
    "(process_key \<Rightarrow> process_fact option) \<Rightarrow> (process_key \<Rightarrow> binding list) \<Rightarrow>
     process_key list \<Rightarrow> walk \<Rightarrow> process_key option \<Rightarrow> walk check" where
  "lineage idx bs visited w None = Inr w"
| "lineage idx bs visited w (Some k) =
     (if k \<in> set visited \<or> Suc (length visited) > 64
      then Inr (w\<lparr>wk_supported := False, wk_reasons := wk_reasons w @ [''lineage_cycle_or_depth'']\<rparr>)
      else bind_check (check_all (\<lambda>b. control_id (bd_session_id b)) (bs k)) (\<lambda>_.
        let w1 = w\<lparr>wk_sessions := wk_sessions w @ map bd_session_id (bs k),
                   wk_shared := wk_shared w \<or> list_ex bd_shared (bs k)\<rparr>
        in case idx k of
             Some f \<Rightarrow> lineage idx bs (k # visited)
               (if pf_coverage f \<noteq> Complete then w1\<lparr>wk_supported := False\<rparr> else w1) (pf_parent f)
           | None \<Rightarrow> Inr (w1\<lparr>wk_supported := False\<rparr>)))"
  by pat_completeness auto
termination
  by (relation "measure (\<lambda>(_, _, visited, _, _). 65 - length visited)") auto

section \<open>Correlation\<close>

definition explicitly_bound :: "binding list \<Rightarrow> process_fact \<Rightarrow> bool" where
  "explicitly_bound bs p \<longleftrightarrow> list_ex (\<lambda>b. bd_source b = ''observed_owned_child_and_protocol_session'') bs
     \<and> pf_executable_digest p \<noteq> None"

definition sessions_ended :: "ownership_input \<Rightarrow> string list \<Rightarrow> bool" where
  "sessions_ended inp ss \<longleftrightarrow> ss \<noteq> [] \<and> list_all (\<lambda>s. case map_of (oi_ended_sessions inp) s of
     None \<Rightarrow> False | Some t \<Rightarrow> t \<le> oi_observed_at inp - 60) ss"

definition retained_candidate :: "ownership_input \<Rightarrow> walk \<Rightarrow> process_fact \<Rightarrow> bool" where
  "retained_candidate inp w p \<longleftrightarrow>
     oi_process_coverage inp = Complete \<and> pf_coverage p = Complete
     \<and> explicitly_bound (active_bindings inp (pf_key p)) p
     \<and> sessions_ended inp (wk_sessions w) \<and> \<not> wk_shared w
     \<and> (case process_index (oi_previous inp) (pf_key p) of None \<Rightarrow> False
        | Some old \<Rightarrow> pf_executable_digest old \<noteq> None
            \<and> pf_executable_digest old = pf_executable_digest p \<and> pf_coverage old = Complete)"

definition ownership_row_of :: "ownership_input \<Rightarrow> process_fact \<Rightarrow> walk \<Rightarrow> ownership_row" where
  "ownership_row_of inp p w =
     (let sessions = btree_set (wk_sessions w);
          retained = retained_candidate inp w p;
          on = (\<lambda>b s. if b then [s] else [])
      in \<lparr>or_process = pf_key p, or_sessions = sessions,
          or_relation =
            (if sessions = [] then ''unknown''
             else if wk_shared w \<or> length sessions > 1 then ''shared''
             else if explicitly_bound (active_bindings inp (pf_key p)) p then ''explicit_binding''
             else if wk_supported w then ''observed_ancestry''
             else ''partial_ancestry''),
          or_retained_candidate = retained, or_protected = True,
          or_reasons = wk_reasons w
            @ on retained ''same_process_observed_after_explicit_session_end_review_required''
            @ on (wk_shared w) ''shared_service_protected''
            @ on (sessions = []) ''no_supported_session_binding''\<rparr>)"

definition start_walk :: walk where
  "start_walk = \<lparr>wk_sessions = [], wk_shared = False, wk_supported = True, wk_reasons = []\<rparr>"

definition correlate_one :: "ownership_input \<Rightarrow> process_fact \<Rightarrow> ownership_row check" where
  "correlate_one inp p =
     bind_check (lineage (process_index (oi_processes inp)) (active_bindings inp) [] start_walk (Some (pf_key p)))
       (\<lambda>w. Inr (ownership_row_of inp p w))"

definition correlate :: "ownership_input \<Rightarrow> ownership_row list check" where
  "correlate inp = bind_check (checks
     [reject (length (oi_processes inp) > 4096 \<or> length (oi_previous inp) > 4096
        \<or> length (oi_bindings inp) > 8192 \<or> length (oi_ended_sessions inp) > 8192) ''OWNERSHIP_BUDGET'',
      control_timestamp (oi_observed_at inp),
      index_processes {} (oi_processes inp),
      index_previous {} (oi_previous inp),
      check_all binding_check (oi_bindings inp),
      check_all (\<lambda>(s, t). checks [control_id s, control_timestamp t]) (oi_ended_sessions inp)])
     (\<lambda>_. each (correlate_one inp) (oi_processes inp))"

section \<open>Hook callers\<close>

definition executable_matches :: "host_graph \<Rightarrow> string \<Rightarrow> process_key \<Rightarrow> bool" where
  "executable_matches g i k \<longleftrightarrow>
     list_ex (\<lambda>e. eo_process e = k \<and> i \<in> set (eo_matching_integrations e)) (hg_executables g)"

text \<open>The walk of \<open>hook_ancestor\<close>: no result, or the matching keys it met.\<close>

function hook_walk ::
    "(process_key \<Rightarrow> process_fact option) \<Rightarrow> (process_key \<Rightarrow> bool) \<Rightarrow>
     process_key list \<Rightarrow> process_key list \<Rightarrow> process_key option \<Rightarrow> process_key list option" where
  "hook_walk idx hit visited found None = Some found"
| "hook_walk idx hit visited found (Some k) =
     (if k \<in> set visited \<or> Suc (length visited) > 64 then None
      else case idx k of
        None \<Rightarrow> None
      | Some p \<Rightarrow>
          if pf_coverage p \<noteq> Complete then None
          else hook_walk idx hit (k # visited) (if hit k then found @ [k] else found) (pf_parent p))"
  by pat_completeness auto
termination
  by (relation "measure (\<lambda>(_, _, visited, _, _). 65 - length visited)") auto

definition hook_ancestor :: "host_graph \<Rightarrow> nat \<Rightarrow> string \<Rightarrow> process_key option check" where
  "hook_ancestor g caller_pid i =
     (if length (hg_processes g) > 4096 then Inl ''OWNERSHIP_BUDGET''
      else case filter (\<lambda>p. pk_pid (pf_key p) = caller_pid) (hg_processes g) of
        [row] \<Rightarrow>
          (case hook_walk (process_index (hg_processes g)) (executable_matches g i) [] [] (pf_parent row) of
             None \<Rightarrow> Inr None
           | Some found \<Rightarrow> (case btree_set found of [k] \<Rightarrow> Inr (Some k) | _ \<Rightarrow> Inr None))
      | _ \<Rightarrow> Inr None)"

section \<open>What the walks visit\<close>

text \<open>The keys a walk visits: the cursor, its observed parent, and so on, each once, at most 64.\<close>

function lineage_keys :: "(process_key \<Rightarrow> process_fact option) \<Rightarrow> process_key list \<Rightarrow> process_key option \<Rightarrow> process_key list" where
  "lineage_keys idx visited None = []"
| "lineage_keys idx visited (Some k) =
     (if k \<in> set visited \<or> Suc (length visited) > 64 then []
      else k # (case idx k of None \<Rightarrow> [] | Some f \<Rightarrow> lineage_keys idx (k # visited) (pf_parent f)))"
  by pat_completeness auto
termination
  by (relation "measure (\<lambda>(_, visited, _). 65 - length visited)") auto

lemma lineage_keys_bounded:
  "length visited \<le> 64 \<Longrightarrow> distinct (lineage_keys idx visited c)
     \<and> set (lineage_keys idx visited c) \<inter> set visited = {}
     \<and> length (lineage_keys idx visited c) + length visited \<le> 64"
proof (induction idx visited c rule: lineage_keys.induct)
  case (2 idx visited k)
  show ?case
  proof (cases "k \<in> set visited \<or> Suc (length visited) > 64")
    case True
    with 2 show ?thesis by auto
  next
    case False
    with 2 show ?thesis by (cases "idx k") auto
  qed
qed simp

lemma lineage_ok:
  "lineage idx bs visited w c = Inr w' \<Longrightarrow>
     wk_sessions w' = wk_sessions w @ concat (map (\<lambda>k. map bd_session_id (bs k)) (lineage_keys idx visited c))
     \<and> wk_shared w' = (wk_shared w \<or> list_ex (\<lambda>k. list_ex bd_shared (bs k)) (lineage_keys idx visited c))"
proof (induction idx bs visited w c rule: lineage.induct)
  case (2 idx bs visited w k)
  show ?case
  proof (cases "k \<in> set visited \<or> Suc (length visited) > 64")
    case True
    with 2 show ?thesis by auto
  next
    case False
    then show ?thesis
    proof (cases "idx k")
      case None
      with False 2 show ?thesis by (auto simp: bind_check_ok)
    next
      case (Some f)
      from False 2(2) Some have a: "check_all (\<lambda>b. control_id (bd_session_id b)) (bs k) = Inr ()"
        by (auto simp: bind_check_ok)
      define w1 where "w1 = w\<lparr>wk_sessions := wk_sessions w @ map bd_session_id (bs k),
        wk_shared := wk_shared w \<or> list_ex bd_shared (bs k)\<rparr>"
      have "lineage idx bs (k # visited) (if pf_coverage f \<noteq> Complete then w1\<lparr>wk_supported := False\<rparr> else w1)
          (pf_parent f) = Inr w'"
        using 2(2) False Some a by (auto simp: w1_def)
      with 2(1)[OF False w1_def Some] a Some False show ?thesis
        by (auto simp: w1_def)
    qed
  qed
qed simp

definition lineage_of :: "ownership_input \<Rightarrow> process_fact \<Rightarrow> process_key list" where
  "lineage_of inp p = lineage_keys (process_index (oi_processes inp)) [] (Some (pf_key p))"

definition lineage_bindings :: "ownership_input \<Rightarrow> process_fact \<Rightarrow> binding list" where
  "lineage_bindings inp p = concat (map (active_bindings inp) (lineage_of inp p))"

lemma list_ex_concat_map: "list_ex P (concat (map f xs)) = list_ex (\<lambda>x. list_ex P (f x)) xs"
  by (induction xs) auto

lemma correlate_one_ok:
  assumes "correlate_one inp p = Inr r"
  shows "\<exists>w. r = ownership_row_of inp p w \<and> wk_sessions w = map bd_session_id (lineage_bindings inp p)
    \<and> wk_shared w = list_ex bd_shared (lineage_bindings inp p)"
proof -
  from assms obtain w where "lineage (process_index (oi_processes inp)) (active_bindings inp) [] start_walk (Some (pf_key p)) = Inr w"
    and r: "r = ownership_row_of inp p w"
    by (auto simp: correlate_one_def bind_check_ok)
  from lineage_ok[OF this(1)] have
    "wk_sessions w = concat (map (\<lambda>k. map bd_session_id (active_bindings inp k)) (lineage_of inp p))"
    "wk_shared w = list_ex (\<lambda>k. list_ex bd_shared (active_bindings inp k)) (lineage_of inp p)"
    by (simp_all add: lineage_of_def start_walk_def del: lineage_keys.simps)
  with r show ?thesis
    by (auto simp: lineage_bindings_def map_concat comp_def list_ex_concat_map)
qed

lemma correlate_ok:
  "correlate inp = Inr rows \<Longrightarrow> list_all2 (\<lambda>p r. correlate_one inp p = Inr r) (oi_processes inp) rows"
  by (auto simp: correlate_def bind_check_ok each_list_all2)

text \<open>The parent chain of a cursor, when every link is known.\<close>

fun ancestor_chain :: "(process_key \<Rightarrow> process_fact option) \<Rightarrow> process_key option \<Rightarrow> process_key list \<Rightarrow> bool" where
  "ancestor_chain idx c [] \<longleftrightarrow> c = None"
| "ancestor_chain idx c (k # ks) \<longleftrightarrow> c = Some k
     \<and> (case idx k of None \<Rightarrow> False | Some p \<Rightarrow> pf_coverage p = Complete \<and> ancestor_chain idx (pf_parent p) ks)"

lemma hook_walk_Some:
  "length visited \<le> 64 \<Longrightarrow> hook_walk idx hit visited found c = Some res \<longleftrightarrow>
     (\<exists>ks. ancestor_chain idx c ks \<and> distinct ks \<and> set ks \<inter> set visited = {}
        \<and> length ks + length visited \<le> 64 \<and> res = found @ filter hit ks)"
proof (induction idx hit visited found c rule: hook_walk.induct)
  case (1 idx hit visited found)
  have "ancestor_chain idx None ks \<longleftrightarrow> ks = []" for ks by (cases ks) auto
  with 1 show ?case by auto
next
  case (2 idx hit visited found k)
  have split: "(\<exists>ks. ancestor_chain idx (Some k) ks \<and> Q ks) \<longleftrightarrow>
      (\<exists>p ks. idx k = Some p \<and> pf_coverage p = Complete \<and> ancestor_chain idx (pf_parent p) ks \<and> Q (k # ks))" for Q
  proof
    assume "\<exists>ks. ancestor_chain idx (Some k) ks \<and> Q ks"
    then obtain ks where "ancestor_chain idx (Some k) ks" "Q ks" by blast
    then show "\<exists>p ks. idx k = Some p \<and> pf_coverage p = Complete \<and> ancestor_chain idx (pf_parent p) ks \<and> Q (k # ks)"
      by (cases ks) (auto split: option.splits)
  next
    assume "\<exists>p ks. idx k = Some p \<and> pf_coverage p = Complete \<and> ancestor_chain idx (pf_parent p) ks \<and> Q (k # ks)"
    then obtain p ks where "idx k = Some p" "pf_coverage p = Complete" "ancestor_chain idx (pf_parent p) ks" "Q (k # ks)"
      by blast
    then show "\<exists>ks. ancestor_chain idx (Some k) ks \<and> Q ks" by (intro exI[of _ "k # ks"]) simp
  qed
  show ?case
  proof (cases "k \<in> set visited \<or> Suc (length visited) > 64")
    case True
    then show ?thesis unfolding split by auto
  next
    case False
    show ?thesis
    proof (cases "idx k")
      case None
      with False show ?thesis unfolding split by simp
    next
      case (Some p)
      show ?thesis
      proof (cases "pf_coverage p = Complete")
        case True
        with False Some have "hook_walk idx hit visited found (Some k)
            = hook_walk idx hit (k # visited) (if hit k then found @ [k] else found) (pf_parent p)" by simp
        also have "\<dots> = Some res \<longleftrightarrow> (\<exists>ks. ancestor_chain idx (pf_parent p) ks \<and> distinct ks
            \<and> set ks \<inter> set (k # visited) = {} \<and> length ks + length (k # visited) \<le> 64
            \<and> res = (if hit k then found @ [k] else found) @ filter hit ks)"
          using 2(1)[OF False Some] True False by simp
        finally show ?thesis unfolding split using Some True False by auto
      qed (use False Some in \<open>simp add: split\<close>)
    qed
  qed
qed

definition sample_key :: process_key where
  "sample_key = ProcessKey ''h'' ''b'' 7 5"

definition sample_process :: process_fact where
  "sample_process = \<lparr>pf_key = sample_key, pf_parent = None, pf_executable_digest = Some ''d'',
     pf_private_bytes = None, pf_cpu_ticks = None, pf_io_bytes = None, pf_coverage = Complete\<rparr>"

definition sample_binding :: binding where
  "sample_binding = \<lparr>bd_process = sample_key, bd_session_id = ''s'',
     bd_source = ''observed_owned_child_and_protocol_session'', bd_shared = False, bd_seen_at = 90,
     bd_expires_at = 300\<rparr>"

definition sample_ownership :: ownership_input where
  "sample_ownership = \<lparr>oi_observed_at = 200, oi_process_coverage = Complete, oi_processes = [sample_process],
     oi_bindings = [sample_binding], oi_ended_sessions = [(''s'', 100)], oi_previous = [sample_process]\<rparr>"

lemma sample_ownership_facts:
  "oi_processes sample_ownership = [sample_process]"
  "active_bindings sample_ownership (pf_key sample_process) = [sample_binding]"
  "lineage_of sample_ownership sample_process = [sample_key]"
  "lineage_bindings sample_ownership sample_process = [sample_binding]"
  "process_index (oi_previous sample_ownership) (pf_key sample_process) = Some sample_process"
  by (simp_all add: lineage_bindings_def lineage_of_def active_bindings_def process_index_def
      sample_ownership_def sample_process_def sample_binding_def)

lemma sample_correlate: "\<exists>rows. correlate sample_ownership = Inr rows"
proof -
  have "binding_check sample_binding = Inr ()"
    by (simp add: binding_check_def sample_binding_def id_eval text_eval control_timestamp_def)
  moreover have "\<exists>r. correlate_one sample_ownership sample_process = Inr r"
    using sample_ownership_facts(2)
    by (simp add: correlate_one_def process_index_def sample_ownership_def sample_process_def sample_binding_def
        start_walk_def id_eval)
  ultimately show ?thesis
    by (auto simp: correlate_def sample_ownership_facts) (simp add: sample_ownership_def sample_process_def sample_key_def
        id_eval control_timestamp_def)
qed

section \<open>Properties\<close>

text \<open>
  C35: a retained candidate needs every piece of evidence, and even then stays protected. A row marks
  one exactly when the snapshot and the process are completely covered, the process is identified by a
  digest and by its own active binding from an owned child, the sessions bound along its lineage are
  non-empty and all ended at least 60 seconds ago, none of those bindings is shared, and the same birth
  identity was previously observed with the same digest. Rows follow the processes one to one.
\<close>

theorem retained_candidate_needs_full_evidence:
  assumes "correlate inp = Inr rows"
  shows "list_all2 (\<lambda>p r. or_process r = pf_key p \<and> or_protected r
    \<and> or_retained_candidate r =
       (oi_process_coverage inp = Complete \<and> pf_coverage p = Complete \<and> pf_executable_digest p \<noteq> None
        \<and> ''observed_owned_child_and_protocol_session'' \<in> bd_source ` set (active_bindings inp (pf_key p))
        \<and> lineage_bindings inp p \<noteq> []
        \<and> (\<forall>b \<in> set (lineage_bindings inp p). \<not> bd_shared b
             \<and> (\<exists>t. map_of (oi_ended_sessions inp) (bd_session_id b) = Some t \<and> t \<le> oi_observed_at inp - 60))
        \<and> (\<exists>old. process_index (oi_previous inp) (pf_key p) = Some old \<and> pf_coverage old = Complete
             \<and> pf_executable_digest old = pf_executable_digest p))) (oi_processes inp) rows"
proof -
  have "P p r" if "correlate_one inp p = Inr r" "\<And>w. wk_sessions w = map bd_session_id (lineage_bindings inp p)
      \<Longrightarrow> wk_shared w = list_ex bd_shared (lineage_bindings inp p) \<Longrightarrow> P p (ownership_row_of inp p w)" for p r P
    using correlate_one_ok[OF that(1)] that(2) by blast
  note rule = this
  from correlate_ok[OF assms] show ?thesis
  proof (rule list_all2_mono, goal_cases)
    case (1 p r)
    show ?case
    proof (rule rule[OF 1])
      fix w :: walk assume w: "wk_sessions w = map bd_session_id (lineage_bindings inp p)"
        "wk_shared w = list_ex bd_shared (lineage_bindings inp p)"
      have e: "sessions_ended inp (wk_sessions w) \<longleftrightarrow> lineage_bindings inp p \<noteq> []
          \<and> (\<forall>b \<in> set (lineage_bindings inp p). \<exists>t. map_of (oi_ended_sessions inp) (bd_session_id b) = Some t
               \<and> t \<le> oi_observed_at inp - 60)"
        by (auto simp: sessions_ended_def w list_all_iff split: option.splits)
      have s: "wk_shared w \<longleftrightarrow> (\<exists>b \<in> set (lineage_bindings inp p). bd_shared b)"
        by (simp add: w list_ex_iff)
      have b: "explicitly_bound (active_bindings inp (pf_key p)) p \<longleftrightarrow> pf_executable_digest p \<noteq> None
          \<and> ''observed_owned_child_and_protocol_session'' \<in> bd_source ` set (active_bindings inp (pf_key p))"
        unfolding explicitly_bound_def list_ex_iff image_iff by metis
      have o: "(case process_index (oi_previous inp) (pf_key p) of None \<Rightarrow> False
        | Some old \<Rightarrow> pf_executable_digest old \<noteq> None
            \<and> pf_executable_digest old = pf_executable_digest p \<and> pf_coverage old = Complete)
        \<longleftrightarrow> (\<exists>old. process_index (oi_previous inp) (pf_key p) = Some old \<and> pf_coverage old = Complete
             \<and> pf_executable_digest old = pf_executable_digest p \<and> pf_executable_digest old \<noteq> None)"
        by (auto split: option.splits)
      show "or_process (ownership_row_of inp p w) = pf_key p \<and> or_protected (ownership_row_of inp p w)
    \<and> or_retained_candidate (ownership_row_of inp p w) =
       (oi_process_coverage inp = Complete \<and> pf_coverage p = Complete \<and> pf_executable_digest p \<noteq> None
        \<and> ''observed_owned_child_and_protocol_session'' \<in> bd_source ` set (active_bindings inp (pf_key p))
        \<and> lineage_bindings inp p \<noteq> []
        \<and> (\<forall>b \<in> set (lineage_bindings inp p). \<not> bd_shared b
             \<and> (\<exists>t. map_of (oi_ended_sessions inp) (bd_session_id b) = Some t \<and> t \<le> oi_observed_at inp - 60))
        \<and> (\<exists>old. process_index (oi_previous inp) (pf_key p) = Some old \<and> pf_coverage old = Complete
             \<and> pf_executable_digest old = pf_executable_digest p))"
        unfolding ownership_row_of_def Let_def ownership_row.simps retained_candidate_def e s b o by auto
    qed
  qed
qed

theorem retained_candidate_needs_full_evidence_witness:
  "\<exists>r. correlate sample_ownership = Inr [r] \<and> or_retained_candidate r \<and> or_protected r"
proof -
  obtain rows where rows: "correlate sample_ownership = Inr rows" using sample_correlate by blast
  have "oi_process_coverage sample_ownership = Complete" "pf_coverage sample_process = Complete"
    "pf_executable_digest sample_process = Some ''d''" "\<not> bd_shared sample_binding"
    "bd_source sample_binding = ''observed_owned_child_and_protocol_session''"
    "map_of (oi_ended_sessions sample_ownership) (bd_session_id sample_binding) = Some 100"
    "oi_observed_at sample_ownership = 200"
    by (simp_all add: sample_ownership_def sample_process_def sample_binding_def)
  with retained_candidate_needs_full_evidence[OF rows] have "\<exists>r. rows = [r] \<and> or_retained_candidate r \<and> or_protected r"
    by (simp add: sample_ownership_facts list_all2_Cons1) blast
  with rows show ?thesis by blast
qed

text \<open>
  A row names exactly the sessions with an active binding to a process in the observed lineage,
  each once in order; the lineage starts at the process itself and never holds more than 64 distinct
  processes; and the relation is unknown exactly when there is no such session.
\<close>

theorem row_sessions_are_lineage_bindings:
  assumes "correlate inp = Inr rows"
  shows "list_all2 (\<lambda>p r. set (or_sessions r) = bd_session_id ` set (lineage_bindings inp p)
    \<and> sorted (or_sessions r) \<and> distinct (or_sessions r)
    \<and> hd (lineage_of inp p) = pf_key p \<and> distinct (lineage_of inp p) \<and> length (lineage_of inp p) \<le> 64
    \<and> (or_relation r = ''unknown'') = (lineage_bindings inp p = [])) (oi_processes inp) rows"
  using correlate_ok[OF assms]
proof (rule list_all2_mono, goal_cases)
  case (1 p r)
  from correlate_one_ok[OF 1] obtain w where r: "r = ownership_row_of inp p w"
    and w: "wk_sessions w = map bd_session_id (lineage_bindings inp p)" by blast
  have "or_sessions r = btree_set (map bd_session_id (lineage_bindings inp p))"
    "(or_relation r = ''unknown'') = (lineage_bindings inp p = [])"
    unfolding r ownership_row_of_def Let_def w by simp_all
  moreover have "hd (lineage_of inp p) = pf_key p" by (simp add: lineage_of_def)
  moreover have "distinct (lineage_of inp p)" "length (lineage_of inp p) \<le> 64"
    using lineage_keys_bounded[of "[]" "process_index (oi_processes inp)" "Some (pf_key p)"]
    by (simp_all add: lineage_of_def del: lineage_keys.simps)
  ultimately show ?case by simp
qed

theorem row_sessions_are_lineage_bindings_witness:
  "\<exists>r. correlate sample_ownership = Inr [r] \<and> set (or_sessions r) = {''s''}"
proof -
  obtain rows where rows: "correlate sample_ownership = Inr rows" using sample_correlate by blast
  with row_sessions_are_lineage_bindings[OF this] show ?thesis
    by (simp add: sample_ownership_facts list_all2_Cons1 sample_binding_def) blast
qed

text \<open>
  A hook caller is attributed exactly to the single matching executable of a completely observed
  parent chain. The result is a process key just when the caller's process id is unique and its chain of
  parents is known with complete coverage up to a root, without repetition, within 64 links, and exactly
  one process of the chain has an executable registered for the integration.
\<close>

theorem hook_ancestor_exact:
  "hook_ancestor g pid i = Inr (Some k) \<longleftrightarrow>
     length (hg_processes g) \<le> 4096
     \<and> (\<exists>row ks. filter (\<lambda>p. pk_pid (pf_key p) = pid) (hg_processes g) = [row]
          \<and> ancestor_chain (process_index (hg_processes g)) (pf_parent row) ks \<and> distinct ks \<and> length ks \<le> 64
          \<and> {x \<in> set ks. executable_matches g i x} = {k})"
proof -
  have one: "(case btree_set xs of [x] \<Rightarrow> Inr (Some x) | _ \<Rightarrow> Inr None) = (Inr (Some k) :: process_key option check)
      \<longleftrightarrow> set xs = {k}" for xs
  proof -
    have "btree_set xs = [k] \<longleftrightarrow> set xs = {k}"
    proof
      show "set xs = {k} \<Longrightarrow> btree_set xs = [k]"
        using btree_set_unique[of xs "[k]"] by (simp add: btree_set_def)
      show "btree_set xs = [k] \<Longrightarrow> set xs = {k}"
        using btree_set_simps(1)[of xs] by simp
    qed
    moreover have "(case ys of [x] \<Rightarrow> Inr (Some x) | _ \<Rightarrow> Inr None) = (Inr (Some k) :: process_key option check)
        \<longleftrightarrow> ys = [k]" for ys
      by (cases ys rule: remdups_adj.cases) auto
    ultimately show ?thesis by (simp only:)
  qed
  show ?thesis
  proof (cases "\<exists>row. filter (\<lambda>p. pk_pid (pf_key p) = pid) (hg_processes g) = [row]")
    case True
    then obtain row where row: "filter (\<lambda>p. pk_pid (pf_key p) = pid) (hg_processes g) = [row]" by blast
    define res where "res = hook_walk (process_index (hg_processes g)) (executable_matches g i) [] [] (pf_parent row)"
    have h: "hook_ancestor g pid i = (if length (hg_processes g) > 4096 then Inl ''OWNERSHIP_BUDGET''
        else case res of None \<Rightarrow> Inr None
             | Some found \<Rightarrow> (case btree_set found of [k] \<Rightarrow> Inr (Some k) | _ \<Rightarrow> Inr None))"
      unfolding hook_ancestor_def row res_def list.case ..
    have "hook_ancestor g pid i = Inr (Some k) \<longleftrightarrow> length (hg_processes g) \<le> 4096
        \<and> (\<exists>found. res = Some found \<and> set found = {k})"
    proof (cases res)
      case (Some found)
      with one[of found] show ?thesis unfolding h by (cases "length (hg_processes g) > 4096") auto
    qed (simp add: h)
    then have "hook_ancestor g pid i = Inr (Some k) \<longleftrightarrow> length (hg_processes g) \<le> 4096
        \<and> (\<exists>found. hook_walk (process_index (hg_processes g)) (executable_matches g i) [] [] (pf_parent row) = Some found
             \<and> set found = {k})" unfolding res_def .
    then show ?thesis by (auto simp: hook_walk_Some row)
  next
    case False
    then show ?thesis by (auto simp: hook_ancestor_def split: list.splits)
  qed
qed

end
