(* ===== verification/Continuity.thy ===== *)
theory Continuity
  imports Operations
begin

text \<open>
  Cross-agent continuity (\<open>workstation-core/src/continuity.rs\<close>): the roster and its collisions, the
  state of a lease, the revalidation of a checkpoint against a live observation, and the bounded
  handoff packet. The byte length of a packet's JSON text is an argument of \<open>handoff\<close>.
\<close>

section \<open>Roster\<close>

record roster_entry =
  re_session :: session
  re_work_id :: "string option"
  re_role :: string
  re_lease_until :: "int option"

record collision =
  col_first :: string
  col_second :: string
  col_reason :: string
  col_disposition :: string

definition collide :: "roster_entry \<Rightarrow> roster_entry \<Rightarrow> collision list" where
  "collide a b =
     (if ses_ended_at (re_session b) \<noteq> None \<or> ses_id (re_session a) = ses_id (re_session b)
        \<or> ses_project_id (re_session a) \<noteq> ses_project_id (re_session b) then []
      else
        let same_work = (re_work_id a \<noteq> None \<and> re_work_id a = re_work_id b);
            same_workspace = (ses_workspace_id (re_session a) \<noteq> None
              \<and> ses_workspace_id (re_session a) = ses_workspace_id (re_session b))
        in if (same_work \<or> same_workspace) \<and> re_role a = ''primary'' \<and> re_role b = ''primary''
           then [\<lparr>col_first = ses_id (re_session a), col_second = ses_id (re_session b),
                  col_reason = (if same_workspace then ''same_worktree'' else ''same_work_item''),
                  col_disposition = ''coordinate_no_automatic_termination''\<rparr>]
           else [])"

fun collisions :: "roster_entry list \<Rightarrow> collision list" where
  "collisions [] = []"
| "collisions (a # rest) =
     (if ses_ended_at (re_session a) \<noteq> None then [] else concat (map (collide a) rest)) @ collisions rest"

definition is_err :: "'a check \<Rightarrow> bool" where
  "is_err c = (case c of Inl _ \<Rightarrow> True | Inr _ \<Rightarrow> False)"

definition lease_state :: "roster_entry \<Rightarrow> int \<Rightarrow> string" where
  "lease_state entry now =
     (let s = re_session entry in
      if is_err (control_timestamp now) \<or> is_err (control_timestamp (ses_last_observed s))
        \<or> ses_last_observed s > now
        \<or> (case re_lease_until entry of None \<Rightarrow> False | Some t \<Rightarrow> is_err (control_timestamp t))
        \<or> (case ses_ended_at s of None \<Rightarrow> False | Some t \<Rightarrow> is_err (control_timestamp t) \<or> t > now)
      then ''ownership_uncertain''
      else if ses_ended_at s \<noteq> None then ''reported_ended''
      else if (case re_lease_until entry of None \<Rightarrow> False | Some t \<Rightarrow> t \<le> now)
        \<or> sub_i64 now (ses_last_observed s) > 900
      then ''ownership_uncertain''
      else ''recently_reported_not_exclusive_lock'')"

section \<open>Checkpoints\<close>

definition validate_stamp :: "workspace_stamp \<Rightarrow> unit check" where
  "validate_stamp s = checks
     [control_id (st_project_id s),
      control_id (st_workspace_id s),
      control_text (st_path s) 32700,
      reject (\<not> object_id_hex (st_head s)) ''HEAD_INVALID'',
      reject (st_directory_identity s = [] \<or> length (st_status_digest s) \<noteq> 64
        \<or> \<not> list_all is_ascii_hexdigit (st_status_digest s)) ''STAMP_IDENTITY_INVALID'',
      control_timestamp (st_observed_at s),
      control_lines (st_blockers s)]"

definition revalidate_checkpoint :: "checkpoint \<Rightarrow> workspace_stamp \<Rightarrow> int \<Rightarrow> unit check" where
  "revalidate_checkpoint cp live now =
     (let w = cp_workspace cp in checks
     [control_timestamp now,
      control_timestamp (cp_recorded_at cp),
      validate_stamp w,
      validate_stamp live,
      reject (now < cp_recorded_at cp \<or> sub_i64 now (st_observed_at live) > 60 \<or> st_observed_at live > now)
        ''LIVE_OBSERVATION_REQUIRED'',
      reject (st_coverage w \<noteq> Complete \<or> st_coverage live \<noteq> Complete) ''HANDOFF_COVERAGE_INCOMPLETE'',
      reject (st_project_id w \<noteq> st_project_id live \<or> st_workspace_id w \<noteq> st_workspace_id live
        \<or> st_directory_identity w \<noteq> st_directory_identity live \<or> st_path w \<noteq> st_path live
        \<or> st_head w \<noteq> st_head live \<or> st_branch w \<noteq> st_branch live
        \<or> st_status_digest w \<noteq> st_status_digest live) ''HANDOFF_STALE'',
      reject (st_blockers live \<noteq> []) ''WORKSPACE_OPERATION_BLOCKED''])"

record handoff_packet =
  hp_schema_version :: string
  hp_checkpoint_id :: string
  hp_work_id :: string
  hp_project_id :: string
  hp_target_agent :: string
  hp_mode :: string
  hp_goal :: string
  hp_state :: work_state
  hp_workspace :: workspace_stamp
  hp_completed :: "string list"
  hp_remaining :: "string list"
  hp_blockers :: "string list"
  hp_tests :: "test_observation list"
  hp_decision_ids :: "string list"
  hp_resource_ids :: "string list"
  hp_roster :: "roster_entry list"
  hp_collisions :: "collision list"
  hp_content_revalidation_required :: bool
  hp_freshness_basis :: string
  hp_created_at :: int
  hp_next_action :: string
  hp_privacy_notice :: string
  hp_authority :: string

definition HANDOFF_LIMIT :: nat where "HANDOFF_LIMIT = 64 * 1024"

definition packet_of :: "checkpoint \<Rightarrow> workspace_stamp \<Rightarrow> string \<Rightarrow> roster_entry list \<Rightarrow> int \<Rightarrow> handoff_packet" where
  "packet_of cp live target roster now =
     \<lparr>hp_schema_version = ''workstation.control.v2'', hp_checkpoint_id = cp_id cp,
      hp_work_id = wi_id (cp_work cp), hp_project_id = wi_project_id (cp_work cp), hp_target_agent = target,
      hp_mode = ''packet_only'', hp_goal = wi_objective (cp_work cp), hp_state = wi_state (cp_work cp),
      hp_workspace = live, hp_completed = cp_completed cp, hp_remaining = cp_remaining cp,
      hp_blockers = cp_blockers cp, hp_tests = cp_tests cp, hp_decision_ids = cp_decision_ids cp,
      hp_resource_ids = cp_resource_ids cp, hp_roster = roster, hp_collisions = collisions roster,
      hp_content_revalidation_required = True,
      hp_freshness_basis = ''Git HEAD, status and changed-path metadata; not byte-identical file contents'',
      hp_created_at = now,
      hp_next_action = ''Verify repository identity, HEAD, working changes and the reported test state before continuing. Coordinate overlapping work.'',
      hp_privacy_notice = ''Private operator-reviewed continuation packet; no transcripts or credential values resolved. User-entered text still requires disclosure review.'',
      hp_authority = ''context_only_no_session_launch_no_primary_transfer_no_plan_approval''\<rparr>"

definition handoff ::
    "(handoff_packet \<Rightarrow> nat) \<Rightarrow> checkpoint \<Rightarrow> workspace_stamp \<Rightarrow> string \<Rightarrow> roster_entry list \<Rightarrow> int
     \<Rightarrow> handoff_packet check" where
  "handoff packet_bytes cp live target roster now = bind_check (checks
     [control_id target,
      revalidate_checkpoint cp live now,
      validate_work (cp_work cp),
      reject (length roster > 50 \<or> length (cp_tests cp) > 16 \<or> length (cp_decision_ids cp) > 32
        \<or> length (cp_resource_ids cp) > 32) ''HANDOFF_COUNT_LIMIT'',
      check_all control_lines [cp_completed cp, cp_remaining cp, cp_blockers cp],
      check_all (\<lambda>t. checks [control_text (to_name t) 256, control_text (to_result t) 256,
        control_evidence (to_evidence t)]) (cp_tests cp)])
     (\<lambda>_. let p = packet_of cp live target roster now in
       if packet_bytes p > HANDOFF_LIMIT then Inl ''HANDOFF_TOO_LARGE'' else Inr p)"

section \<open>Lemmas\<close>

lemma is_err_timestamp: "is_err (control_timestamp t) \<longleftrightarrow> \<not> (0 \<le> t \<and> t \<le> 253402300799)"
  by (simp add: is_err_def control_timestamp_def)

lemma revalidate_checkpoint_ok:
  "revalidate_checkpoint cp live now = Inr u \<Longrightarrow>
     (let w = cp_workspace cp in
      0 \<le> now \<and> cp_recorded_at cp \<le> now \<and> st_observed_at live \<le> now \<and> now \<le> st_observed_at live + 60
      \<and> st_coverage w = Complete \<and> st_coverage live = Complete
      \<and> st_project_id w = st_project_id live \<and> st_workspace_id w = st_workspace_id live
      \<and> st_directory_identity w = st_directory_identity live \<and> st_path w = st_path live
      \<and> st_head w = st_head live \<and> st_branch w = st_branch live \<and> st_status_digest w = st_status_digest live
      \<and> st_blockers live = [] \<and> validate_stamp live = Inr ())"
  using timestamps_sub_exact[of now "st_observed_at live"]
  by (auto simp: revalidate_checkpoint_def Let_def checks_Cons_ok validate_stamp_def control_timestamp_ok)

text \<open>When two entries collide, as a relation that no lease enters.\<close>

definition both_primary :: "roster_entry \<Rightarrow> roster_entry \<Rightarrow> bool" where
  "both_primary a b \<longleftrightarrow>
     ses_ended_at (re_session a) = None \<and> ses_ended_at (re_session b) = None
     \<and> ses_id (re_session a) \<noteq> ses_id (re_session b) \<and> ses_project_id (re_session a) = ses_project_id (re_session b)
     \<and> re_role a = ''primary'' \<and> re_role b = ''primary''
     \<and> ((re_work_id a \<noteq> None \<and> re_work_id a = re_work_id b)
        \<or> (ses_workspace_id (re_session a) \<noteq> None \<and> ses_workspace_id (re_session a) = ses_workspace_id (re_session b)))"

lemma collide_pairs:
  "ses_ended_at (re_session a) = None \<Longrightarrow>
     map (\<lambda>c. (col_first c, col_second c)) (collide a b)
       = (if both_primary a b then [(ses_id (re_session a), ses_id (re_session b))] else [])"
  unfolding collide_def both_primary_def Let_def by simp

section \<open>Properties\<close>

text \<open>
  Collisions are exact and independent of leases: in roster order and once each, precisely the
  pairs of different, not ended sessions of one project that are both primary on the same Work Item or
  the same workspace. An expired lease never removes a warning.
\<close>

theorem collisions_exact:
  "map (\<lambda>c. (col_first c, col_second c)) (collisions roster)
     = map (\<lambda>(a, b). (ses_id (re_session a), ses_id (re_session b)))
         (filter (\<lambda>(a, b). both_primary a b) (ordered_pairs roster))"
proof (induction roster)
  case (Cons a roster)
  show ?case
  proof (cases "ses_ended_at (re_session a)")
    case None
    have "map (\<lambda>c. (col_first c, col_second c)) (concat (map (collide a) roster))
        = map (\<lambda>b. (ses_id (re_session a), ses_id (re_session b))) (filter (both_primary a) roster)"
      by (simp add: map_concat comp_def collide_pairs[OF None] concat_map_filter)
    with Cons.IH None show ?thesis by (simp add: filter_map comp_def)
  next
    case (Some t)
    then have "filter (\<lambda>b. both_primary a b) roster = []" by (simp add: both_primary_def)
    with Cons.IH Some show ?thesis by (simp add: filter_map comp_def)
  qed
qed simp

text \<open>
  Ownership is reported as recent exactly on positive evidence: all times are calendar times, the
  session was observed in the last 900 seconds and not in the future, has not ended, and its lease, if
  any, is still running. The subtraction cannot overflow on any 64-bit input, and nothing is ever
  reported as an exclusive lock.
\<close>

theorem lease_recent_iff:
  "lease_state e now = ''recently_reported_not_exclusive_lock'' \<longleftrightarrow>
     0 \<le> ses_last_observed (re_session e) \<and> ses_last_observed (re_session e) \<le> now
     \<and> now \<le> ses_last_observed (re_session e) + 900 \<and> now \<le> 253402300799
     \<and> ses_ended_at (re_session e) = None
     \<and> (case re_lease_until e of None \<Rightarrow> True | Some t \<Rightarrow> now < t \<and> t \<le> 253402300799)"
proof (cases "0 \<le> ses_last_observed (re_session e) \<and> ses_last_observed (re_session e) \<le> now \<and> now \<le> 253402300799")
  case True
  then have "sub_i64 now (ses_last_observed (re_session e)) = now - ses_last_observed (re_session e)"
    by (intro timestamps_sub_exact) (auto simp: control_timestamp_ok)
  with True show ?thesis
    by (cases "re_lease_until e"; cases "ses_ended_at (re_session e)")
      (auto simp: lease_state_def Let_def is_err_timestamp)
next
  case False
  then show ?thesis by (auto simp: lease_state_def Let_def is_err_timestamp)
qed

text \<open>
  A handoff packet is only built on a live, completely covered, unblocked observation at most 60
  seconds old that agrees with the checkpoint on project, workspace, directory, path, head, branch and
  status; it carries that observation, the exact collisions of the roster and context-only authority,
  and fits the byte limit.
\<close>

theorem handoff_is_fresh_and_bounded:
  assumes "handoff bytes cp live target roster now = Inr p"
  shows "hp_workspace p = live \<and> hp_collisions p = collisions roster \<and> bytes p \<le> 65536
    \<and> length (hp_roster p) \<le> 50
    \<and> st_observed_at live \<le> now \<and> now \<le> st_observed_at live + 60 \<and> st_coverage live = Complete
    \<and> st_blockers live = [] \<and> st_head live = st_head (cp_workspace cp)
    \<and> st_status_digest live = st_status_digest (cp_workspace cp) \<and> st_path live = st_path (cp_workspace cp)
    \<and> st_directory_identity live = st_directory_identity (cp_workspace cp)
    \<and> st_branch live = st_branch (cp_workspace cp) \<and> hp_mode p = ''packet_only''
    \<and> hp_content_revalidation_required p"
proof -
  from assms have r: "revalidate_checkpoint cp live now = Inr ()" and l: "length roster \<le> 50"
    and p: "p = packet_of cp live target roster now" "bytes p \<le> HANDOFF_LIMIT"
    by (auto simp: handoff_def bind_check_ok checks_Cons_ok Let_def not_less split: if_splits)
  from revalidate_checkpoint_ok[OF r] l p show ?thesis
    by (simp add: packet_of_def HANDOFF_LIMIT_def Let_def)
qed

theorem handoff_is_fresh_and_bounded_witness:
  "\<exists>p. handoff (\<lambda>_. 100) sample_checkpoint (sample_stamp\<lparr>st_observed_at := 930\<rparr>) ''codex'' [] 940 = Inr p
     \<and> hp_mode p = ''packet_only'' \<and> hp_collisions p = []"
proof -
  have "validate_stamp (sample_stamp\<lparr>st_observed_at := t\<rparr>) = Inr ()" if "t \<in> {100, 930}" for t
    using that by (auto simp: validate_stamp_def sample_stamp_def object_id_hex_def ascii_class_defs id_eval text_eval
        control_timestamp_def control_lines_def list_all_iff)
  from this[of 100] this[of 930] have s: "validate_stamp sample_stamp = Inr ()"
    "validate_stamp (sample_stamp\<lparr>st_observed_at := 930\<rparr>) = Inr ()"
    by (simp_all add: sample_stamp_def)
  have "revalidate_checkpoint sample_checkpoint (sample_stamp\<lparr>st_observed_at := 930\<rparr>) 940 = Inr ()"
    unfolding revalidate_checkpoint_def Let_def
    by (simp add: s sample_checkpoint_def control_timestamp_def sub_i64_exact in_i64_def)
      (simp add: sample_stamp_def)
  moreover have "validate_work (cp_work sample_checkpoint) = Inr ()"
    by (simp add: validate_work_def sample_checkpoint_def sample_evidence_def id_eval text_eval control_lines_def
        control_evidence_def control_timestamp_def)
  ultimately have "\<exists>p. handoff (\<lambda>_. 100) sample_checkpoint (sample_stamp\<lparr>st_observed_at := 930\<rparr>) ''codex'' [] 940 = Inr p"
    unfolding handoff_def by (simp add: id_eval Let_def HANDOFF_LIMIT_def)
      (simp add: sample_checkpoint_def control_lines_def)
  then obtain p where p: "handoff (\<lambda>_. 100) sample_checkpoint (sample_stamp\<lparr>st_observed_at := 930\<rparr>) ''codex'' [] 940 = Inr p"
    by blast
  from handoff_is_fresh_and_bounded[OF p] p show ?thesis by simp
qed

end
