(* ===== verification/Durable_Runtime.thy ===== *)
theory Durable_Runtime
  imports Durable_Store
begin

text \<open>
  The owner supervisor (\<open>workstation-platform/src/durable_runtime.rs\<close>): the monitor of one running
  continuation with its stage deadlines, cancellation and protocol observations, and the completion and
  recovery operations. A handler threads a state and may fail after it has already committed something,
  so it returns its result together with the state. Monotonic instants are milliseconds; the instants
  read inside one handler are one reading, and so are the wall-clock readings. The process table, the
  workspace capture and the provider's answer are arguments.
\<close>

section \<open>Handlers that keep the state of a failure\<close>

type_synonym ('s, 'a) handler = "'s \<Rightarrow> 'a check \<times> 's"

definition pass :: "'a \<Rightarrow> ('s, 'a) handler" where
  "pass x s = (Inr x, s)"

definition fail :: "string \<Rightarrow> ('s, 'a) handler" where
  "fail e s = (Inl e, s)"

definition andthen :: "('s, 'a) handler \<Rightarrow> ('a \<Rightarrow> ('s, 'b) handler) \<Rightarrow> ('s, 'b) handler" where
  "andthen m f s = (case m s of (Inl e, s') \<Rightarrow> (Inl e, s') | (Inr x, s') \<Rightarrow> f x s')"

definition look :: "('s \<Rightarrow> ('s, 'a) handler) \<Rightarrow> ('s, 'a) handler" where
  "look h s = h s s"

definition liftc :: "('s \<Rightarrow> 'a check) \<Rightarrow> ('s, 'a) handler" where
  "liftc f s = (f s, s)"

text \<open>One transaction: on an error the database is as before.\<close>

definition transact :: "(durable_db \<Rightarrow> (durable_db \<times> 'a) check) \<Rightarrow> (durable_db, 'a) handler" where
  "transact f db = (case f db of Inl e \<Rightarrow> (Inl e, db) | Inr (db', x) \<Rightarrow> (Inr x, db'))"

section \<open>The monitor\<close>

datatype stage = Handshake | SessionStage | Turn

record monitor =
  mo_id :: string
  mo_owner :: process_identity
  mo_start :: nat
  mo_stage_at :: nat
  mo_stage :: stage
  mo_last_progress :: nat
  mo_last_flush :: nat
  mo_last_heartbeat :: nat
  mo_policy :: deadline_policy
  mo_record :: run_record
  mo_cancel_at :: "nat option"
  mo_stop_code :: "string option"
  mo_cancel_sent :: bool
  mo_pending_terminal :: "(string \<times> string \<times> provider_state) option"
  mo_progress_keys :: "string list"

type_synonym 'a monitored = "(durable_db \<times> monitor, 'a) handler"

definition elapsed :: "nat \<Rightarrow> nat \<Rightarrow> nat" where
  "elapsed now since = now - since"

definition secs :: "nat \<Rightarrow> nat" where
  "secs n = n * 1000"

definition install ::
    "process_identity check \<Rightarrow> nat \<Rightarrow> monitor option \<Rightarrow> string \<Rightarrow> durable_db \<Rightarrow> monitor check" where
  "install me ms current i db =
     bind_check (durable_run db i) (\<lambda>r.
     bind_check me (\<lambda>owner.
     if supervisor r \<noteq> Some owner then Inl ''DURABLE_OWNER_MISMATCH''
     else if current \<noteq> None then Inl ''DURABLE_NESTED_MONITOR''
     else Inr \<lparr>mo_id = i, mo_owner = owner, mo_start = ms, mo_stage_at = ms, mo_stage = Handshake,
       mo_last_progress = ms, mo_last_flush = ms, mo_last_heartbeat = ms, mo_policy = rs_deadlines (scope r),
       mo_record = r, mo_cancel_at = None, mo_stop_code = None, mo_cancel_sent = False,
       mo_pending_terminal = None, mo_progress_keys = []\<rparr>))"

definition update_mo :: "(monitor \<Rightarrow> monitor) \<Rightarrow> unit monitored" where
  "update_mo f st = (Inr (), (fst st, f (snd st)))"

definition record_of :: "durable_db \<times> monitor \<Rightarrow> run_record" where
  "record_of st = mo_record (snd st)"

definition mo_event :: "codec \<Rightarrow> int \<Rightarrow> run_event \<Rightarrow> unit monitored" where
  "mo_event J at e st = (case st of (db, mo) \<Rightarrow>
     (case durable_event J at db (mo_id mo) e of
        Inl err \<Rightarrow> (Inl err, st)
      | Inr (db', r) \<Rightarrow> (Inr (), (db', mo\<lparr>mo_record := r\<rparr>))))"

definition only_if :: "bool \<Rightarrow> unit monitored \<Rightarrow> unit monitored" where
  "only_if b act = (if b then act else pass ())"

definition bind_session :: "codec \<Rightarrow> int \<Rightarrow> nat \<Rightarrow> string \<Rightarrow> unit monitored" where
  "bind_session J at ms s = andthen
     (look (\<lambda>st. only_if (session_id (record_of st) \<noteq> Some s) (mo_event J at (SessionBound s))))
     (\<lambda>_. update_mo (\<lambda>mo. mo\<lparr>mo_stage := Turn, mo_stage_at := ms, mo_last_progress := ms\<rparr>))"

definition terminal :: "codec \<Rightarrow> int \<Rightarrow> string \<Rightarrow> string option \<Rightarrow> provider_state \<Rightarrow> unit monitored" where
  "terminal J at sess turn status = look (\<lambda>st.
     let r = record_of st in
      if session_id r \<noteq> Some sess then pass ()
      else if turn \<noteq> None \<and> turn_id r \<noteq> turn then pass ()
      else only_if (provider r \<noteq> status) (mo_event J at (ProviderTerminal status)))"

definition child_started :: "codec \<Rightarrow> int \<Rightarrow> process_identity check \<Rightarrow> unit monitored" where
  "child_started J at ident = andthen (liftc (\<lambda>_. ident)) (\<lambda>i. mo_event J at (ChildStarted i))"

definition request_started :: "nat \<Rightarrow> string \<Rightarrow> unit monitored" where
  "request_started ms meth =
     (if meth = ''initialize'' then update_mo (\<lambda>mo. mo\<lparr>mo_stage := Handshake, mo_stage_at := ms\<rparr>)
      else if meth \<in> set [''thread/start'', ''thread/resume'', ''session/new'', ''session/load'', ''authenticate'']
        then update_mo (\<lambda>mo. mo\<lparr>mo_stage := SessionStage, mo_stage_at := ms\<rparr>)
      else if meth \<in> set [''turn/start'', ''session/prompt'']
        then update_mo (\<lambda>mo. mo\<lparr>mo_stage := Turn, mo_stage_at := ms, mo_last_progress := ms\<rparr>)
      else pass ())"

definition take_pending :: "(string \<times> string \<times> provider_state) option monitored" where
  "take_pending st = (Inr (mo_pending_terminal (snd st)), (fst st, (snd st)\<lparr>mo_pending_terminal := None\<rparr>))"

definition prompt_status :: "'n json \<Rightarrow> provider_state option" where
  "prompt_status v = (case json_str_at v ''stopReason'' of
     Some s \<Rightarrow> if s = ''end_turn'' then Some PCompleted else if s = ''cancelled'' then Some PInterrupted else None
   | None \<Rightarrow> None)"

definition response_received :: "codec \<Rightarrow> int \<Rightarrow> nat \<Rightarrow> string \<Rightarrow> 'n json \<Rightarrow> unit monitored" where
  "response_received J at ms meth v =
     andthen (if meth \<in> set [''thread/start'', ''thread/resume'']
              then (case json_str_ptr v [''thread'', ''id''] of None \<Rightarrow> pass () | Some s \<Rightarrow> bind_session J at ms s)
              else pass ()) (\<lambda>_.
     andthen (if meth = ''session/new''
              then (case json_str_at v ''sessionId'' of None \<Rightarrow> pass () | Some s \<Rightarrow> bind_session J at ms s)
              else pass ()) (\<lambda>_.
     andthen (if meth = ''turn/start''
              then (case json_str_ptr v [''turn'', ''id''] of None \<Rightarrow> pass ()
                    | Some t \<Rightarrow> andthen (look (\<lambda>st. only_if (turn_id (record_of st) \<noteq> Some t) (mo_event J at (TurnBound t)))) (\<lambda>_.
                        andthen take_pending (\<lambda>p. case p of None \<Rightarrow> pass ()
                          | Some (s, pt, status) \<Rightarrow> terminal J at s (Some pt) status)))
              else pass ()) (\<lambda>_.
     (if meth = ''session/prompt''
      then look (\<lambda>st. case (prompt_status v, session_id (record_of st)) of
              (Some status, Some s) \<Rightarrow> terminal J at s None status
            | _ \<Rightarrow> pass ())
      else pass ()))))"

section \<open>Observed notifications\<close>

definition completed_turn :: "'n json \<Rightarrow> (string \<times> string \<times> string) option" where
  "completed_turn v = (case (json_str_ptr v [''params'', ''threadId''], json_str_ptr v [''params'', ''turn'', ''id''],
       json_str_ptr v [''params'', ''turn'', ''status'']) of
     (Some s, Some t, Some status) \<Rightarrow> Some (s, t, status) | _ \<Rightarrow> None)"

definition completed_status :: "string \<Rightarrow> provider_state option" where
  "completed_status s = (if s = ''completed'' then Some PCompleted else if s = ''failed'' then Some PFailed
     else if s = ''interrupted'' then Some PInterrupted else None)"

definition observe_completed :: "codec \<Rightarrow> int \<Rightarrow> 'n json \<Rightarrow> unit monitored" where
  "observe_completed J at v = (case completed_turn v of None \<Rightarrow> pass ()
     | Some (s, t, status) \<Rightarrow> (case completed_status status of None \<Rightarrow> pass ()
         | Some p \<Rightarrow> andthen (liftc (\<lambda>_. checks [opaque s, opaque t])) (\<lambda>_. look (\<lambda>st.
             if turn_id (record_of st) = None
             then update_mo (\<lambda>mo. mo\<lparr>mo_pending_terminal := Some (s, t, p)\<rparr>)
             else terminal J at s (Some t) p))))"

definition scoped_to :: "string option \<Rightarrow> string \<Rightarrow> 'n json \<Rightarrow> bool" where
  "scoped_to sess meth v =
     (let codex = meth \<in> set [''item/started'', ''item/completed'', ''turn/diff/updated'', ''turn/plan/updated''];
          acp = meth = ''session/update'' \<and> (case json_str_ptr v [''params'', ''update'', ''sessionUpdate''] of
            None \<Rightarrow> False | Some k \<Rightarrow> k \<in> set [''tool_call'', ''tool_call_update'', ''plan''])
      in if codex then json_str_ptr v [''params'', ''threadId''] = sess \<and> sess \<noteq> None
         else if acp then json_str_ptr v [''params'', ''sessionId''] = sess \<and> sess \<noteq> None
         else False)"

definition progress_key :: "string \<Rightarrow> 'n json \<Rightarrow> string option" where
  "progress_key meth v =
     (let event_id = Option.bind (case json_pointer v [''params'', ''item'', ''id''] of
            Some x \<Rightarrow> Some x | None \<Rightarrow> json_pointer v [''params'', ''update'', ''toolCallId'']) json_as_str
      in case event_id of None \<Rightarrow> None
         | Some i \<Rightarrow> if length i \<le> 256 \<and> \<not> list_ex is_control (chars i)
             then Some (meth @ '':'' @ i @ '':'' @ (case json_str_ptr v [''params'', ''update'', ''status''] of
               None \<Rightarrow> [] | Some s \<Rightarrow> s))
             else None)"

definition observe_progress :: "codec \<Rightarrow> int \<Rightarrow> nat \<Rightarrow> string \<Rightarrow> 'n json \<Rightarrow> unit monitored" where
  "observe_progress J at ms meth v = look (\<lambda>st.
     let mo = snd st in
      case (if scoped_to (session_id (mo_record mo)) meth v then progress_key meth v else None) of
        None \<Rightarrow> pass ()
      | Some k \<Rightarrow>
          if length (mo_progress_keys mo) < 4096 \<and> k \<notin> set (mo_progress_keys mo)
          then andthen (update_mo (\<lambda>mo. mo\<lparr>mo_progress_keys := k # mo_progress_keys mo, mo_last_progress := ms\<rparr>)) (\<lambda>_.
               if elapsed ms (mo_last_flush mo) \<ge> secs 1
               then andthen (mo_event J at Progress) (\<lambda>_. update_mo (\<lambda>mo. mo\<lparr>mo_last_flush := ms\<rparr>))
               else pass ())
          else pass ())"

definition observe :: "codec \<Rightarrow> int \<Rightarrow> nat \<Rightarrow> 'n json \<Rightarrow> unit monitored" where
  "observe J at ms v =
     (let meth = (case json_str_at v ''method'' of None \<Rightarrow> [] | Some s \<Rightarrow> s)
      in if meth = ''turn/completed'' then observe_completed J at v else observe_progress J at ms meth v)"

section \<open>Deadlines and cancellation\<close>

definition stop_reason :: "nat \<Rightarrow> monitor \<Rightarrow> (string \<times> deadline_kind option) option" where
  "stop_reason ms mo =
     (let p = mo_policy mo in
      if cancellation_requested (mo_record mo) then Some (''DURABLE_CANCEL_REQUESTED'', None)
      else if elapsed ms (mo_start mo) \<ge> secs (absolute_seconds p)
        then Some (''DURABLE_ABSOLUTE_TIMEOUT'', Some AbsoluteDeadline)
      else if mo_stage mo = Handshake \<and> elapsed ms (mo_stage_at mo) \<ge> secs (handshake_seconds p)
        then Some (''DURABLE_HANDSHAKE_TIMEOUT'', Some HandshakeDeadline)
      else if mo_stage mo = SessionStage \<and> elapsed ms (mo_stage_at mo) \<ge> secs (session_seconds p)
        then Some (''DURABLE_SESSION_TIMEOUT'', Some SessionDeadline)
      else if mo_stage mo = Turn \<and> \<not> provider_terminal (provider (mo_record mo))
          \<and> elapsed ms (mo_last_progress mo) \<ge> secs (idle_seconds p)
        then Some (''DURABLE_IDLE_TIMEOUT'', Some IdleDeadline)
      else None)"

definition heartbeat :: "codec \<Rightarrow> int \<Rightarrow> nat \<Rightarrow> unit monitored" where
  "heartbeat J at ms st = (case st of (db, mo) \<Rightarrow>
     if elapsed ms (mo_last_heartbeat mo) \<ge> 250
     then (case durable_heartbeat J at db (mo_id mo) (mo_owner mo) of
             Inl e \<Rightarrow> (Inl e, st)
           | Inr (db', r) \<Rightarrow> (Inr (), (db', mo\<lparr>mo_record := r, mo_last_heartbeat := ms\<rparr>)))
     else (Inr (), st))"

definition check_deadlines :: "codec \<Rightarrow> int \<Rightarrow> nat \<Rightarrow> unit monitored" where
  "check_deadlines J at ms = look (\<lambda>st.
     let mo = snd st in
      if mo_cancel_at mo \<noteq> None then pass ()
      else case stop_reason ms mo of
        None \<Rightarrow> pass ()
      | Some (code, dl) \<Rightarrow>
          andthen (case dl of None \<Rightarrow> pass () | Some d \<Rightarrow> mo_event J at (DeadlineExceeded d)) (\<lambda>_. look (\<lambda>st'.
            let r = record_of st';
                eff = (if dl \<noteq> None \<and> cancellation_requested r \<and> deadline_expired r = None
                       then ''DURABLE_CANCEL_REQUESTED'' else code)
            in update_mo (\<lambda>mo. mo\<lparr>mo_stop_code := Some eff, mo_cancel_at := Some ms\<rparr>))))"

definition interrupt_message :: "run_record \<Rightarrow> 'n json option" where
  "interrupt_message r =
     (let a = rs_adapter (scope r) in
      case (if a = ''codex'' then (case (session_id r, turn_id r) of (Some s, Some t) \<Rightarrow> Some (s, t) | _ \<Rightarrow> None) else None) of
        Some (s, t) \<Rightarrow> Some (JObj [(''id'', JStr ''workstation-cancel''), (''jsonrpc'', JStr ''2.0''),
           (''method'', JStr ''turn/interrupt''),
           (''params'', JObj [(''threadId'', JStr s), (''turnId'', JStr t)])])
      | None \<Rightarrow>
          if suffix ''acp'' a \<or> a = ''opencode'' \<or> a = ''cline''
          then (case session_id r of None \<Rightarrow> None
                | Some s \<Rightarrow> Some (JObj [(''jsonrpc'', JStr ''2.0''), (''method'', JStr ''session/cancel''),
                    (''params'', JObj [(''sessionId'', JStr s)])]))
          else None)"

definition cancel_phase :: "nat \<Rightarrow> ('n json option) monitored" where
  "cancel_phase ms = look (\<lambda>st.
     let mo = snd st in
      case mo_cancel_at mo of
        None \<Rightarrow> pass None
      | Some at \<Rightarrow>
          if elapsed ms at \<ge> secs (cancellation_grace_seconds (mo_policy mo))
          then fail (case mo_stop_code mo of None \<Rightarrow> ''DURABLE_CANCEL_REQUESTED'' | Some c \<Rightarrow> c)
          else if \<not> mo_cancel_sent mo
          then andthen (update_mo (\<lambda>mo. mo\<lparr>mo_cancel_sent := True\<rparr>)) (\<lambda>_. pass (interrupt_message (mo_record mo)))
          else pass None)"

definition tick :: "codec \<Rightarrow> int \<Rightarrow> nat \<Rightarrow> ('n json option) monitored" where
  "tick J at ms = andthen (heartbeat J at ms) (\<lambda>_. andthen (check_deadlines J at ms) (\<lambda>_. cancel_phase ms))"

section \<open>Completion and recovery\<close>

definition completed_output :: "'n json \<Rightarrow> bool" where
  "completed_output v \<longleftrightarrow>
     Option.bind (json_pointer v [''continuation'', ''completed'']) json_as_bool = Some True
     \<or> json_str_ptr v [''continuation'', ''turn_status''] = Some ''completed''"

definition end_transport :: "run_record \<Rightarrow> 'n json check \<Rightarrow> transport_state \<times> string option" where
  "end_transport r result =
     (let (st, err) = (case result of
          Inr _ \<Rightarrow> (Exited, None)
        | Inl e \<Rightarrow> if e = ''DURABLE_CANCEL_REQUESTED'' then (TCancelled, Some e)
                  else if str_contains e ''TIMEOUT'' then (TTimedOut, Some e)
                  else (Lost, Some e))
      in (if deadline_expired r \<noteq> None then TTimedOut
          else if cancellation_requested r \<and> provider r \<noteq> PCompleted then TCancelled
          else st, err))"

definition finish :: "codec \<Rightarrow> int \<Rightarrow> string \<Rightarrow> 'n json check \<Rightarrow> (durable_db, unit) handler" where
  "finish J at i result =
     andthen (liftc (\<lambda>db. durable_run db i)) (\<lambda>r.
     andthen (case result of
         Inr v \<Rightarrow> if completed_output v \<and> \<not> provider_terminal (provider r)
           then andthen (transact (\<lambda>db. durable_event J at db i (ProviderTerminal PCompleted))) (\<lambda>_. pass ())
           else pass ()
       | Inl e \<Rightarrow> pass ()) (\<lambda>_.
     let (st, err) = end_transport r result
     in andthen (transact (\<lambda>db. durable_event J at db i (TransportEnded st err))) (\<lambda>_. pass ())))"

definition supervisor_alive :: "string \<Rightarrow> (nat \<Rightarrow> string option check) \<Rightarrow> run_record \<Rightarrow> bool check" where
  "supervisor_alive host birth r = (case supervisor r of None \<Rightarrow> Inr False
     | Some p \<Rightarrow> if pi_host p \<noteq> host then Inl ''RUN_HOST_IDENTITY_CHANGED''
               else bind_check (birth (pi_pid p)) (\<lambda>b. Inr (b = Some (pi_birth p))))"

definition observed_workspace :: "workspace_stamp check \<Rightarrow> checkpoint check \<Rightarrow> workspace_state check" where
  "observed_workspace live cp = (case live of
     Inl _ \<Rightarrow> Inr Unavailable
   | Inr l \<Rightarrow> bind_check cp (\<lambda>c. let w = cp_workspace c in Inr (
       if st_directory_identity l \<noteq> st_directory_identity w \<or> st_path l \<noteq> st_path w then Unexpected
       else if st_coverage l \<noteq> Complete then Unavailable
       else if st_status_digest l \<noteq> st_status_digest w \<or> st_head l \<noteq> st_head w then Changed
       else Unchanged)))"

definition reconcile_local ::
    "codec \<Rightarrow> int \<Rightarrow> string \<Rightarrow> (nat \<Rightarrow> string option check) \<Rightarrow> (string \<Rightarrow> string \<Rightarrow> workspace_stamp check) \<Rightarrow>
     (string \<Rightarrow> checkpoint check) \<Rightarrow> string \<Rightarrow> u64 \<Rightarrow> (durable_db, run_record \<times> bool) handler" where
  "reconcile_local J at host birth capture checkpoints i expected =
     andthen (liftc (\<lambda>db. durable_run db i)) (\<lambda>r.
     if revision r \<noteq> expected then fail ''DURABLE_REVISION_CONFLICT''
     else andthen (liftc (\<lambda>_. supervisor_alive host birth r)) (\<lambda>alive.
     andthen (if \<not> owner_released r \<and> execution_id r \<noteq> None \<and> \<not> alive
              then transact (\<lambda>db. durable_event J at db i (Recovered True)) else pass r) (\<lambda>r1.
     if alive \<and> \<not> owner_released r1 then pass (r1, True)
     else andthen (liftc (\<lambda>_. observed_workspace (capture (rs_project_id (scope r1)) (rs_workspace_id (scope r1)))
                         (checkpoints (rs_checkpoint_id (scope r1))))) (\<lambda>ws.
     andthen (if workspace r1 \<noteq> ws then transact (\<lambda>db. durable_event J at db i (WorkspaceObserved ws)) else pass r1)
       (\<lambda>r2. pass (r2, False))))))"

datatype scan_result = SupervisorGone string run_state | SupervisorAlive string | SupervisorUnknown string

fun scan_runs ::
    "codec \<Rightarrow> int \<Rightarrow> string \<Rightarrow> (nat \<Rightarrow> string option check) \<Rightarrow> run_record list \<Rightarrow> (durable_db, scan_result list) handler" where
  "scan_runs J at host birth [] = pass []"
| "scan_runs J at host birth (r # rs) =
     andthen (case supervisor_alive host birth r of
         Inr False \<Rightarrow> andthen (transact (\<lambda>db. durable_event J at db (rs_id (scope r)) (Recovered True)))
           (\<lambda>u. pass (SupervisorGone (rs_id (scope r)) (run_record_state u)))
       | Inr True \<Rightarrow> pass (SupervisorAlive (rs_id (scope r)))
       | Inl _ \<Rightarrow> pass (SupervisorUnknown (rs_id (scope r)))) (\<lambda>x.
     andthen (scan_runs J at host birth rs) (\<lambda>xs. pass (x # xs)))"

definition recovery_scan ::
    "codec \<Rightarrow> int \<Rightarrow> string \<Rightarrow> (nat \<Rightarrow> string option check) \<Rightarrow> string \<Rightarrow> (durable_db, scan_result list) handler" where
  "recovery_scan J at host birth project =
     andthen (liftc (\<lambda>db. durable_runs db project)) (\<lambda>runs.
     scan_runs J at host birth (filter (\<lambda>r. execution_id r \<noteq> None \<and> \<not> owner_released r) runs))"

definition reconcile_provider ::
    "codec \<Rightarrow> int \<Rightarrow> string \<Rightarrow> (nat \<Rightarrow> string option check) \<Rightarrow> (string \<Rightarrow> integration check) \<Rightarrow>
     (run_record \<Rightarrow> integration \<Rightarrow> string) \<Rightarrow> (integration \<Rightarrow> string \<Rightarrow> nat \<Rightarrow> 'n json check) \<Rightarrow>
     string \<Rightarrow> string \<Rightarrow> (durable_db, run_record \<times> provider_state option) handler" where
  "reconcile_provider J at host birth integrations approval_digest thread_read i app =
     andthen (liftc (\<lambda>db. bind_check (durable_run db i) (\<lambda>r.
        bind_check (integrations (rs_integration_id (scope r))) (\<lambda>g. Inr (approval_digest r g))))) (\<lambda>d.
     if d \<noteq> app then fail ''RECONCILE_APPROVAL_CHANGED''
     else andthen (liftc (\<lambda>db. durable_run db i)) (\<lambda>r.
     andthen (liftc (\<lambda>_. supervisor_alive host birth r)) (\<lambda>alive.
     if alive \<and> \<not> owner_released r then fail ''RUN_SUPERVISOR_STILL_ACTIVE''
     else andthen (liftc (\<lambda>_. integrations (rs_integration_id (scope r)))) (\<lambda>g.
     if int_project_id g \<noteq> rs_project_id (scope r) \<or> int_environment g \<noteq> rs_environment (scope r)
       \<or> int_executable_sha256 g \<noteq> rs_executable_sha256 (scope r) \<or> int_version_text g \<noteq> rs_declared_version (scope r)
     then fail ''RECONCILE_INTEGRATION_CHANGED''
     else if int_adapter g \<noteq> Codex then fail ''ADAPTER_RECONCILE_UNSUPPORTED_NO_REPLAY''
     else andthen (liftc (\<lambda>_. ok_or (session_id r) ''RECONCILE_SESSION_UNKNOWN'')) (\<lambda>s.
     andthen (liftc (\<lambda>_. ok_or (turn_id r) ''RECONCILE_TURN_UNKNOWN'')) (\<lambda>t.
     andthen (liftc (\<lambda>_. thread_read g s (reconciliation_seconds (rs_deadlines (scope r))))) (\<lambda>raw.
     andthen (liftc (\<lambda>_. codex_turn_status raw s t)) (\<lambda>status.
     andthen (case status of None \<Rightarrow> pass ()
         | Some p \<Rightarrow> if provider r \<noteq> p
             then andthen (transact (\<lambda>db. durable_event J at db i (Reconciled p))) (\<lambda>_. pass ())
             else pass ()) (\<lambda>_.
     andthen (liftc (\<lambda>db. durable_run db i)) (\<lambda>u. pass (u, status)))))))))))"

section \<open>Every handler is a sequence of store steps\<close>

lemma pass_simp [simp]: "pass x s = (Inr x, s)"
  by (simp add: pass_def)

lemma fail_simp [simp]: "fail e s = (Inl e, s)"
  by (simp add: fail_def)

lemma liftc_simp [simp]: "liftc f s = (f s, s)"
  by (simp add: liftc_def)

lemma andthen_Inr:
  "andthen m f s = (Inr y, s') \<longleftrightarrow> (\<exists>x s1. m s = (Inr x, s1) \<and> f x s1 = (Inr y, s'))"
  by (auto simp: andthen_def split: prod.splits sum.splits)

definition stays :: "codec \<Rightarrow> ('s \<Rightarrow> durable_db) \<Rightarrow> ('s, 'a) handler \<Rightarrow> bool" where
  "stays J prj h \<longleftrightarrow> (\<forall>s. (store_step J)\<^sup>*\<^sup>* (prj s) (prj (snd (h s))))"

named_theorems stays_intros \<open>handlers that only take store steps\<close>

lemma stays_trivial [stays_intros]:
  "stays J prj (pass x)" "stays J prj (fail e)" "stays J prj (liftc f)"
  by (simp_all add: stays_def)

lemma stays_andthen [stays_intros]:
  assumes "stays J prj m" "\<And>x. stays J prj (f x)"
  shows "stays J prj (andthen m f)"
  unfolding stays_def
proof
  fix s
  obtain c s1 where m: "m s = (c, s1)" by (cases "m s")
  from assms(1) m have a: "(store_step J)\<^sup>*\<^sup>* (prj s) (prj s1)" by (auto simp: stays_def dest: spec[of _ s])
  show "(store_step J)\<^sup>*\<^sup>* (prj s) (prj (snd (andthen m f s)))"
  proof (cases c)
    case (Inr x)
    with assms(2)[of x] have "(store_step J)\<^sup>*\<^sup>* (prj s1) (prj (snd (f x s1)))" by (simp add: stays_def)
    with a m Inr show ?thesis by (simp add: andthen_def)
  qed (use a m in \<open>simp add: andthen_def\<close>)
qed

lemma stays_look [stays_intros]: "(\<And>s. stays J prj (h s)) \<Longrightarrow> stays J prj (look h)"
  by (simp add: stays_def look_def)

lemma stays_case [stays_intros]:
  "stays J prj n \<Longrightarrow> (\<And>x. stays J prj (f x)) \<Longrightarrow> stays J prj (case_option n f o1)"
  "(\<And>e. stays J prj (g e)) \<Longrightarrow> (\<And>x. stays J prj (f' x)) \<Longrightarrow> stays J prj (case_sum g f' o2)"
  "(\<And>a b. stays J prj (h a b)) \<Longrightarrow> stays J prj (case_prod h o3)"
  "stays J prj t \<Longrightarrow> stays J prj e \<Longrightarrow> stays J prj (case_bool t e o4)"
  "(\<And>x. stays J prj (k x)) \<Longrightarrow> stays J prj (Let y k)"
  by (auto split: option.split sum.split prod.split bool.split)

lemma stays_event [stays_intros]:
  assumes "observed_event e"
  shows "stays J (\<lambda>db. db) (transact (\<lambda>db. durable_event J at db i e))"
  unfolding stays_def transact_def
  using step_event[OF _ assms] by (auto split: sum.split)

lemma stays_mo_event [stays_intros]:
  assumes "observed_event e"
  shows "stays J fst (mo_event J at e)"
  unfolding stays_def mo_event_def
  using step_event[OF _ assms] by (auto split: sum.split)

lemma stays_update_mo [stays_intros]: "stays J fst (update_mo f)" "stays J fst take_pending"
  by (simp_all add: stays_def update_mo_def take_pending_def)

lemma stays_if [stays_intros]: "stays J prj a \<Longrightarrow> stays J prj b \<Longrightarrow> stays J prj (if c then a else b)"
  by simp

lemma stays_only_if [stays_intros]: "stays J fst a \<Longrightarrow> stays J fst (only_if b a)"
  by (simp add: only_if_def stays_intros)

lemma observed_events [stays_intros]:
  "observed_event (DeadlineExceeded d)" "observed_event (ChildStarted p)" "observed_event (SessionBound s)"
  "observed_event (TurnBound s)" "observed_event Progress" "observed_event (ProviderTerminal st)"
  "observed_event (TransportEnded ts er)" "observed_event (Recovered b)" "observed_event (WorkspaceObserved w)"
  "observed_event (VerificationRecorded v)" "observed_event (Reconciled st)"
  by (simp_all add: observed_event_def)

lemma stays_heartbeat [stays_intros]: "stays J fst (heartbeat J at ms)"
  unfolding stays_def heartbeat_def using step_heartbeat by (auto split: sum.split)

lemma stays_terminal [stays_intros]: "stays J fst (terminal J at s t p)"
  unfolding terminal_def by (intro stays_intros)

lemma stays_bind_session [stays_intros]: "stays J fst (bind_session J at ms s)"
  unfolding bind_session_def by (intro stays_intros)

lemma stays_monitor:
  "stays J fst (child_started J at ident)" "stays J fst (request_started ms meth)"
  "stays J fst (response_received J at ms meth v)" "stays J fst (observe J at ms v)" "stays J fst (tick J at ms)"
  unfolding child_started_def request_started_def response_received_def observe_def observe_completed_def
    observe_progress_def tick_def check_deadlines_def cancel_phase_def
  by (intro stays_intros)+

lemma stays_scan_runs [stays_intros]: "stays J (\<lambda>db. db) (scan_runs J at host birth rs)"
proof (induction rs)
  case (Cons r rs)
  show ?case unfolding scan_runs.simps by (intro stays_intros Cons.IH)
qed (unfold scan_runs.simps, intro stays_intros)

lemma stays_store:
  "stays J (\<lambda>db. db) (finish J at i res)"
  "stays J (\<lambda>db. db) (reconcile_local J at host birth capture cps i n)"
  "stays J (\<lambda>db. db) (recovery_scan J at host birth project)"
  "stays J (\<lambda>db. db) (reconcile_provider J at host birth ints dig rd i app)"
  unfolding finish_def reconcile_local_def recovery_scan_def reconcile_provider_def
  by (intro stays_intros)+

section \<open>What the handlers do to the monitor\<close>

definition keeps :: "(monitor \<Rightarrow> monitor \<Rightarrow> bool) \<Rightarrow> 'a monitored \<Rightarrow> bool" where
  "keeps R h \<longleftrightarrow> (\<forall>st. R (snd st) (snd (snd (h st))))"

named_theorems keeps_intros \<open>handlers whose effect on the monitor stays in a preorder\<close>

text \<open>A monitor never gives up its run, its deadlines, a cancellation it has begun or one it has sent.\<close>

definition mo_le :: "monitor \<Rightarrow> monitor \<Rightarrow> bool" where
  "mo_le a b \<longleftrightarrow> mo_id b = mo_id a \<and> mo_owner b = mo_owner a \<and> mo_start b = mo_start a \<and> mo_policy b = mo_policy a
     \<and> (mo_cancel_at a \<noteq> None \<longrightarrow> mo_cancel_at b = mo_cancel_at a \<and> mo_stop_code b = mo_stop_code a)
     \<and> (mo_cancel_sent a \<longrightarrow> mo_cancel_sent b)"

lemma mo_le_refl [simp]: "mo_le a a"
  by (simp add: mo_le_def)

lemma mo_le_trans: "mo_le a b \<Longrightarrow> mo_le b c \<Longrightarrow> mo_le a c"
  by (simp add: mo_le_def)

lemma keeps_trivial [keeps_intros]:
  "keeps mo_le (pass x)" "keeps mo_le (fail e)" "keeps mo_le (liftc f)"
  by (simp_all add: keeps_def)

lemma keeps_andthen [keeps_intros]:
  assumes "keeps mo_le m" "\<And>x. keeps mo_le (f x)"
  shows "keeps mo_le (andthen m f)"
  unfolding keeps_def
proof
  fix s
  obtain c s1 where m: "m s = (c, s1)" by (cases "m s")
  from assms(1)[unfolded keeps_def, rule_format, of s] m have a: "mo_le (snd s) (snd s1)" by simp
  show "mo_le (snd s) (snd (snd (andthen m f s)))"
  proof (cases c)
    case (Inr x)
    from assms(2)[of x, unfolded keeps_def, rule_format, of s1] have "mo_le (snd s1) (snd (snd (f x s1)))" .
    with a m Inr show ?thesis by (simp add: andthen_def) (rule mo_le_trans)
  qed (use a m in \<open>simp add: andthen_def\<close>)
qed

lemma keeps_look [keeps_intros]: "(\<And>s. keeps mo_le (h s)) \<Longrightarrow> keeps mo_le (look h)"
  by (simp add: keeps_def look_def)

lemma keeps_case [keeps_intros]:
  "keeps mo_le n \<Longrightarrow> (\<And>x. keeps mo_le (f x)) \<Longrightarrow> keeps mo_le (case_option n f o1)"
  "(\<And>a b. keeps mo_le (h a b)) \<Longrightarrow> keeps mo_le (case_prod h o3)"
  "(\<And>x. keeps mo_le (k x)) \<Longrightarrow> keeps mo_le (Let y k)"
  "keeps mo_le a \<Longrightarrow> keeps mo_le b \<Longrightarrow> keeps mo_le (if c then a else b)"
  "keeps mo_le a' \<Longrightarrow> keeps mo_le (only_if b' a')"
  by (auto simp: only_if_def keeps_trivial split: option.split prod.split)

lemma keeps_event [keeps_intros]: "keeps mo_le (mo_event J at e)" "keeps mo_le (heartbeat J at ms)" "keeps mo_le take_pending"
  by (auto simp: keeps_def mo_event_def heartbeat_def take_pending_def mo_le_def split: sum.split)

lemma keeps_update [keeps_intros]: "(\<And>mo. mo_le mo (f mo)) \<Longrightarrow> keeps mo_le (update_mo f)"
  by (simp add: keeps_def update_mo_def)

lemma mo_le_updates [keeps_intros]:
  "mo_le mo (mo\<lparr>mo_stage := a\<rparr>\<lparr>mo_stage_at := t\<rparr>)" "mo_le mo (mo\<lparr>mo_pending_terminal := p\<rparr>)"
  "mo_le mo (mo\<lparr>mo_stage := a, mo_stage_at := t, mo_last_progress := u\<rparr>)" "mo_le mo (mo\<lparr>mo_last_flush := t\<rparr>)"
  "mo_le mo (mo\<lparr>mo_progress_keys := ks, mo_last_progress := t\<rparr>)" "mo_le mo (mo\<lparr>mo_cancel_sent := True\<rparr>)"
  by (simp_all add: mo_le_def)

lemma keeps_terminal [keeps_intros]: "keeps mo_le (terminal J at s t p)"
  unfolding terminal_def by (intro keeps_intros)

lemma keeps_bind_session [keeps_intros]: "keeps mo_le (bind_session J at ms s)"
  unfolding bind_session_def by (intro keeps_intros)

lemma keeps_check_deadlines [keeps_intros]: "keeps mo_le (check_deadlines J at ms)"
  unfolding keeps_def
proof
  fix st :: "durable_db \<times> monitor"
  show "mo_le (snd st) (snd (snd (check_deadlines J at ms st)))"
    by (cases st) (auto simp: check_deadlines_def look_def Let_def andthen_def mo_event_def update_mo_def mo_le_def
        split: option.split sum.split prod.split)
qed

lemma keeps_monitor:
  "keeps mo_le (child_started J at ident)" "keeps mo_le (request_started ms meth)"
  "keeps mo_le (response_received J at ms meth v)" "keeps mo_le (observe J at ms v)" "keeps mo_le (tick J at ms)"
  unfolding child_started_def request_started_def response_received_def observe_def observe_completed_def
    observe_progress_def tick_def cancel_phase_def
  by (intro keeps_intros)+

section \<open>Runs of the monitor\<close>

text \<open>Any handlers of the monitor in any order, interleaved with the store steps of other processes.\<close>

inductive monitor_step :: "codec \<Rightarrow> durable_db \<times> monitor \<Rightarrow> durable_db \<times> monitor \<Rightarrow> bool" for J where
  ms_child: "monitor_step J st (snd (child_started J at ident st))"
| ms_bound: "monitor_step J st (snd (bind_session J at ms s st))"
| ms_request: "monitor_step J st (snd (request_started ms meth st))"
| ms_response: "monitor_step J st (snd (response_received J at ms meth (v :: nat json) st))"
| ms_observe: "monitor_step J st (snd (observe J at ms (v :: nat json) st))"
| ms_tick: "monitor_step J st (snd ((tick J at ms :: (nat json option) monitored) st))"
| ms_other: "store_step J db db' \<Longrightarrow> monitor_step J (db, mo) (db', mo)"

inductive_cases monitor_stepE: "monitor_step J st st'"

lemma keepsD: "keeps mo_le h \<Longrightarrow> mo_le (snd st) (snd (snd (h st)))"
  by (cases st) (simp add: keeps_def)

lemma staysD: "stays J prj h \<Longrightarrow> (store_step J)\<^sup>*\<^sup>* (prj st) (prj (snd (h st)))"
  by (simp add: stays_def)

lemma monitor_step_le: "monitor_step J st st' \<Longrightarrow> mo_le (snd st) (snd st')"
  by (induction rule: monitor_step.induct) (rule keepsD, rule keeps_monitor keeps_bind_session | simp)+

lemma monitor_steps_le: "(monitor_step J)\<^sup>*\<^sup>* st st' \<Longrightarrow> mo_le (snd st) (snd st')"
  by (induction rule: rtranclp_induct) (auto dest: monitor_step_le intro: mo_le_trans)

lemma monitor_step_store: "monitor_step J st st' \<Longrightarrow> (store_step J)\<^sup>*\<^sup>* (fst st) (fst st')"
  by (induction rule: monitor_step.induct) (rule staysD, rule stays_monitor stays_bind_session | simp)+

lemma monitor_steps_store: "(monitor_step J)\<^sup>*\<^sup>* st st' \<Longrightarrow> (store_step J)\<^sup>*\<^sup>* (fst st) (fst st')"
  by (induction rule: rtranclp_induct) (auto dest: monitor_step_store)

lemma check_deadlines_stops:
  assumes "check_deadlines J at ms st = (Inr (), st')" "secs (absolute_seconds (mo_policy (snd st))) \<le> elapsed ms (mo_start (snd st))"
    and "\<forall>x. mo_cancel_at (snd st) = Some x \<longrightarrow> x \<le> ms"
  shows "\<exists>x. mo_cancel_at (snd st') = Some x \<and> x \<le> ms"
proof (cases "mo_cancel_at (snd st)")
  case (Some x)
  with assms(1,3) show ?thesis by (auto simp: check_deadlines_def look_def Let_def)
next
  case None
  have "stop_reason ms (snd st) \<noteq> None"
    using assms(2) by (simp add: stop_reason_def Let_def)
  then obtain code dl where "stop_reason ms (snd st) = Some (code, dl)" by auto
  with assms(1) None show ?thesis
    by (auto simp: check_deadlines_def look_def Let_def andthen_Inr update_mo_def)
qed

lemma heartbeat_monitor:
  "heartbeat J at ms st = (c, st') \<Longrightarrow> mo_cancel_at (snd st') = mo_cancel_at (snd st) \<and> mo_policy (snd st') = mo_policy (snd st)
     \<and> mo_start (snd st') = mo_start (snd st) \<and> mo_cancel_sent (snd st') = mo_cancel_sent (snd st)"
  by (cases st) (auto simp: heartbeat_def split: if_splits sum.splits)

lemma tick_Inr:
  assumes "tick J at ms st = (Inr out, st')"
  obtains st1 st2 where "heartbeat J at ms st = (Inr (), st1)" "check_deadlines J at ms st1 = (Inr (), st2)"
    "cancel_phase ms st2 = (Inr out, st')"
  using assms unfolding tick_def andthen_Inr by auto

lemma cancel_phase_Inr:
  "cancel_phase ms st = (Inr out, st') \<Longrightarrow>
     (out = None \<or> \<not> mo_cancel_sent (snd st) \<and> mo_cancel_sent (snd st') \<and> out = interrupt_message (mo_record (snd st)))
     \<and> mo_cancel_at (snd st') = mo_cancel_at (snd st)
     \<and> (\<forall>x. mo_cancel_at (snd st) = Some x \<longrightarrow> elapsed ms x < secs (cancellation_grace_seconds (mo_policy (snd st))))"
  by (auto simp: cancel_phase_def look_def Let_def andthen_Inr update_mo_def not_le split: option.splits if_splits)

section \<open>Facts about single events\<close>

lemma transact_Inr: "transact f db = (Inr x, db') \<longleftrightarrow> f db = Inr (db', x)"
  by (auto simp: transact_def split: sum.split)

lemma event_cases:
  assumes "reachable J db" "durable_event J at db i e = Inr (db', r')" "observed_event e"
  obtains row where "map_of (db_runs db) i = Some row" "read_run db i = Inr (row_payload row)"
    "(db' = db \<and> r' = row_payload row) \<or>
     (apply_event (row_payload row) e at = Inr r' \<and> db' = event_committed db i e at r')"
proof -
  obtain row where row: "map_of (db_runs db) i = Some row"
    and c: "(db' = db \<and> r' = row_payload row) \<or> update_run J at db (row_payload row) e = Inr (db', r')"
    using durable_event_step[OF reachable_inv[OF assms(1)] assms(2)] .
  moreover have "read_run db i = Inr (row_payload row)"
    unfolding reachable_read[OF assms(1)] using row by blast
  moreover from c have "(db' = db \<and> r' = row_payload row) \<or>
     (apply_event (row_payload row) e at = Inr r' \<and> db' = event_committed db i e at r')"
    using update_run_committed[OF reachable_inv[OF assms(1)] row] by blast
  ultimately show ?thesis using that by blast
qed

lemma event_reachable:
  assumes "reachable J db" "durable_event J at db i e = Inr (db', r')" "observed_event e"
  shows "reachable J db'"
  using reachable_steps[OF assms(1)] step_event[OF assms(2,3)] by blast

lemma event_read:
  assumes "reachable J db" "durable_event J at db i e = Inr (db', r')" "observed_event e"
  shows "read_run db' i = Inr r'"
proof -
  obtain row where row: "map_of (db_runs db) i = Some row" "read_run db i = Inr (row_payload row)"
    "(db' = db \<and> r' = row_payload row) \<or>
     (apply_event (row_payload row) e at = Inr r' \<and> db' = event_committed db i e at r')"
    by (rule event_cases[OF assms])
  then show ?thesis
    unfolding reachable_read[OF event_reachable[OF assms]] by (auto simp: committed_row)
qed

lemma event_elsewhere:
  assumes "reachable J db" "durable_event J at db j e = Inr (db', r')" "observed_event e" "i \<noteq> j"
  shows "read_run db' i = read_run db i" "journal_of db' i = journal_of db i"
proof -
  obtain row :: run_row where c: "(db' = db \<and> r' = row_payload row) \<or>
     (apply_event (row_payload row) e at = Inr r' \<and> db' = event_committed db j e at r')"
    by (rule event_cases[OF assms(1-3)])
  then show "read_run db' i = read_run db i" "journal_of db' i = journal_of db i"
    using assms(4) by (auto simp: read_run_def committed_row journal_of_committed)
qed

lemma scan_runs_spares:
  "reachable J db \<Longrightarrow> \<forall>r \<in> set rs. rs_id (scope r) = i \<longrightarrow> supervisor_alive host birth r \<noteq> Inr False \<Longrightarrow>
     scan_runs J at host birth rs db = (c, db') \<Longrightarrow>
     read_run db' i = read_run db i \<and> journal_of db' i = journal_of db i"
proof (induction rs arbitrary: db c)
  case (Cons r rs)
  let ?j = "rs_id (scope r)"
  show ?case
  proof (cases "supervisor_alive host birth r = Inr False")
    case True
    with Cons.prems(2) have ne: "i \<noteq> ?j" by auto
    show ?thesis
    proof (cases "durable_event J at db ?j (Recovered True)")
      case (Inl e)
      with Cons.prems(3) True show ?thesis by (simp add: andthen_def transact_def)
    next
      case (Inr y)
      obtain db1 u where y: "y = (db1, u)" by (cases y)
      have o: "observed_event (Recovered True)" by (intro stays_intros)
      have R: "reachable J db1" using event_reachable[OF Cons.prems(1) Inr[unfolded y] o] .
      obtain c1 where "scan_runs J at host birth rs db1 = (c1, db')"
        using Cons.prems(3) True Inr y by (cases "scan_runs J at host birth rs db1") (auto simp: andthen_def transact_def split: sum.splits)
      with Cons.IH[OF R] Cons.prems(2) event_elsewhere[OF Cons.prems(1) Inr[unfolded y] o ne] show ?thesis by simp
    qed
  next
    case False
    obtain c1 where "scan_runs J at host birth rs db = (c1, db')"
      using Cons.prems(3) False
      by (cases "scan_runs J at host birth rs db") (auto simp: andthen_def split: sum.splits bool.splits)
    with Cons.IH[OF Cons.prems(1)] Cons.prems(2) show ?thesis by simp
  qed
qed simp

lemma collect_checks_ok: "collect_checks cs = Inr xs \<longleftrightarrow> cs = map Inr xs"
proof (induction cs arbitrary: xs)
  case (Cons c cs)
  then show ?case by (cases xs) (auto simp: bind_check_ok)
qed auto

lemma durable_runs_read:
  assumes "durable_runs db project = Inr rs" "r \<in> set rs"
  shows "\<exists>j. read_run db j = Inr r"
proof -
  from assms(1) obtain ids where "collect_checks (map (durable_run db) ids) = Inr rs"
    unfolding durable_runs_def bind_check_ok Let_def by blast
  then have "map (durable_run db) ids = map Inr rs" by (simp add: collect_checks_ok)
  then have "Inr r \<in> set (map (durable_run db) ids)" using assms(2) by auto
  then show ?thesis by (auto simp: durable_run_def bind_check_ok dest!: sym[of "Inr r"])
qed

text \<open>A claimed run, for the witnesses.\<close>

lemma sample_claimed:
  "\<exists>db r. reachable sample_codec db \<and> read_run db ''e'' = Inr r \<and> supervisor r = Some sample_identity
     \<and> \<not> owner_released r"
proof -
  obtain db where b: "durable_begin sample_codec (Inr sample_identity) ''x'' 1001 1001 1001 sample_effect_plan
     sample_digest sample_digest sample_db = Inr (db, ''x'')" using sample_begin by blast
  have i: "ep_id sample_effect_plan = ''e''" by (simp add: sample_effect_plan_def sample_plan_def)
  have R: "reachable sample_codec db" using reachable_steps[OF sample_db_reachable] step_begin[OF b] by blast
  from b obtain db1 r where e: "insert_effect_run sample_db ''x'' ''e'' 1001 db_conflict = Inr db1"
    and u: "update_run sample_codec 1001 db1 sample_run (Claimed sample_identity ''x'') = Inr (db, r)"
    by (auto simp: durable_begin_def bind_check_ok i sample_read)
  note d = insert_effect_run_inv[OF reachable_inv[OF sample_db_reachable] e]
  have row: "map_of (db_runs db1) ''e'' = Some sample_row" by (simp add: d(3) sample_db_def)
  have p: "row_payload sample_row = sample_run" by (simp add: sample_row_def)
  from update_run_committed[OF d(1) row] u p have a: "apply_event sample_run (Claimed sample_identity ''x'') 1001 = Inr r"
    and db: "db = event_committed db1 ''e'' (Claimed sample_identity ''x'') 1001 r" by simp_all
  from a have "supervisor r = Some sample_identity" "\<not> owner_released r"
    by (auto simp: apply_event_ok)
  moreover have "read_run db ''e'' = Inr r" unfolding reachable_read[OF R] by (simp add: db committed_row)
  ultimately show ?thesis using R by blast
qed

text \<open>A monitor of a claimed, completed and cancelled run, for the witnesses.\<close>

definition sample_monitor :: monitor where
  "sample_monitor = \<lparr>mo_id = ''e'', mo_owner = sample_identity, mo_start = 0, mo_stage_at = 0, mo_stage = Turn,
     mo_last_progress = 0, mo_last_flush = 0, mo_last_heartbeat = 1800000, mo_policy = default_deadlines,
     mo_record = sample_final\<lparr>cancellation_requested := True\<rparr>, mo_cancel_at = None, mo_stop_code = None,
     mo_cancel_sent = False, mo_pending_terminal = None, mo_progress_keys = []\<rparr>"

lemma sample_tick:
  "\<exists>msg st. (tick sample_codec 2000 1800000 :: (nat json option) monitored) (sample_db, sample_monitor) = (Inr (Some msg), st)"
proof -
  have a: "rs_adapter (scope sample_final) = ''codex''" "session_id sample_final = Some ''s''" "turn_id sample_final = Some ''t''"
    by (simp_all add: sample_final_def prepared_run_def sample_scope_def)
  have "heartbeat sample_codec 2000 1800000 (sample_db, sample_monitor) = (Inr (), (sample_db, sample_monitor))"
    by (simp add: heartbeat_def elapsed_def sample_monitor_def)
  moreover have "stop_reason 1800000 sample_monitor = Some (''DURABLE_CANCEL_REQUESTED'', None)"
    by (simp add: stop_reason_def sample_monitor_def Let_def)
  ultimately show ?thesis
    by (simp add: tick_def andthen_def check_deadlines_def cancel_phase_def look_def Let_def update_mo_def
        sample_monitor_def elapsed_def secs_def default_deadlines_def interrupt_message_def a)
qed

section \<open>Properties\<close>

text \<open>
  C24: an overdue run is stopped. If a tick runs at or after the absolute deadline, then either it fails
  at once, or every tick that runs at least the cancellation grace later fails, whatever handlers and
  other processes ran in between; a failing tick is what ends the owned transport.
\<close>

theorem overdue_run_is_stopped:
  fixes out out' :: "nat json option check"
  assumes "tick J at1 t1 st = (out, st1)" "secs (absolute_seconds (mo_policy (snd st))) \<le> elapsed t1 (mo_start (snd st))"
    and "\<forall>x. mo_cancel_at (snd st) = Some x \<longrightarrow> x \<le> t1"
    and "(monitor_step J)\<^sup>*\<^sup>* st1 st2" "t1 + secs (cancellation_grace_seconds (mo_policy (snd st))) \<le> t2"
    and "tick J at2 t2 st2 = (out', st3)"
  shows "(\<exists>e. out = Inl e) \<or> (\<exists>e. out' = Inl e)"
proof (rule ccontr)
  assume "\<not> ?thesis"
  then obtain m m' where o: "out = Inr m" "out' = Inr m'" by (cases out; cases out') auto
  obtain a b where a: "heartbeat J at1 t1 st = (Inr (), a)" "check_deadlines J at1 t1 a = (Inr (), b)"
    "cancel_phase t1 b = (Inr m, st1)"
    by (rule tick_Inr[OF assms(1)[unfolded o]])
  note hb = heartbeat_monitor[OF a(1)]
  obtain x where x: "mo_cancel_at (snd b) = Some x" "x \<le> t1"
    using check_deadlines_stops[OF a(2)] assms(2,3) hb by auto
  have "mo_policy (snd b) = mo_policy (snd a)"
    using keeps_check_deadlines[of J at1 t1] a(2) by (metis keeps_def mo_le_def snd_conv)
  with hb have pol: "mo_policy (snd b) = mo_policy (snd st)" by simp
  from cancel_phase_Inr[OF a(3)] x have c1: "mo_cancel_at (snd st1) = Some x" by simp
  have p1: "mo_policy (snd st1) = mo_policy (snd st)"
    using keeps_monitor(5)[of J at1 t1] assms(1) by (metis keeps_def mo_le_def snd_conv)
  from monitor_steps_le[OF assms(4)] c1 p1 have c2: "mo_cancel_at (snd st2) = Some x" "mo_policy (snd st2) = mo_policy (snd st)"
    by (simp_all add: mo_le_def)
  obtain a' b' where a': "heartbeat J at2 t2 st2 = (Inr (), a')" "check_deadlines J at2 t2 a' = (Inr (), b')"
    "cancel_phase t2 b' = (Inr m', st3)"
    by (rule tick_Inr[OF assms(6)[unfolded o]])
  note hb' = heartbeat_monitor[OF a'(1)]
  have "mo_cancel_at (snd b') = Some x" "mo_policy (snd b') = mo_policy (snd st)"
    using keeps_check_deadlines[of J at2 t2] a'(2) hb' c2 by (metis keeps_def mo_le_def option.distinct(1) snd_conv)+
  with cancel_phase_Inr[OF a'(3)] have "elapsed t2 x < secs (cancellation_grace_seconds (mo_policy (snd st)))" by simp
  with x(2) assms(5) show False by (simp add: elapsed_def)
qed

theorem overdue_run_is_stopped_witness:
  "\<exists>msg st1 e. (tick sample_codec 2000 1800000 :: (nat json option) monitored) (sample_db, sample_monitor) = (Inr (Some msg), st1)
     \<and> fst ((tick sample_codec 2010 1805000 :: (nat json option) monitored) st1) = Inl e"
proof -
  obtain msg :: "nat json" and st1 where t: "tick sample_codec 2000 1800000 (sample_db, sample_monitor) = (Inr (Some msg), st1)"
    using sample_tick by blast
  obtain out st3 where u: "(tick sample_codec 2010 1805000 :: (nat json option) monitored) st1 = (out, st3)"
    by (cases "(tick sample_codec 2010 1805000 :: (nat json option) monitored) st1")
  from overdue_run_is_stopped[OF t _ _ rtranclp.rtrancl_refl _ u] have "\<exists>e. out = Inl e"
    by (simp add: sample_monitor_def default_deadlines_def secs_def elapsed_def)
  with t u show ?thesis by auto
qed

text \<open>
  An interrupt is sent at most once. If a tick returns an interrupt message, no tick after it, in
  any run of the monitor, returns another one; and the message names only the bound session and turn.
\<close>

theorem interrupt_is_sent_once:
  fixes msg msg' :: "nat json"
  assumes "tick J at1 t1 st = (Inr (Some msg), st1)" "(monitor_step J)\<^sup>*\<^sup>* st1 st2"
  shows "fst (tick J at2 t2 st2) \<noteq> Inr (Some msg') \<and> (\<exists>r. interrupt_message r = Some msg)"
proof -
  obtain a b where b: "cancel_phase t1 b = (Inr (Some msg), st1)"
    by (rule tick_Inr[OF assms(1)])
  from cancel_phase_Inr[OF b] have s1: "mo_cancel_sent (snd st1)" and m: "interrupt_message (mo_record (snd b)) = Some msg"
    by auto
  from monitor_steps_le[OF assms(2)] s1 have s2: "mo_cancel_sent (snd st2)" by (simp add: mo_le_def)
  have "tick J at2 t2 st2 \<noteq> (Inr (Some msg'), st3)" for st3
  proof
    assume t: "tick J at2 t2 st2 = (Inr (Some msg'), st3)"
    obtain a' b' where a': "heartbeat J at2 t2 st2 = (Inr (), a')" "check_deadlines J at2 t2 a' = (Inr (), b')"
      "cancel_phase t2 b' = (Inr (Some msg'), st3)" by (rule tick_Inr[OF t])
    have "mo_cancel_sent (snd b')"
      using keeps_check_deadlines[of J at2 t2] a'(2) heartbeat_monitor[OF a'(1)] s2 by (metis keeps_def mo_le_def snd_conv)
    with cancel_phase_Inr[OF a'(3)] show False by auto
  qed
  then have "fst (tick J at2 t2 st2) \<noteq> Inr (Some msg')" by (metis prod.collapse)
  with m show ?thesis by blast
qed

theorem interrupt_is_sent_once_witness:
  "\<exists>(msg :: nat json) st1. tick sample_codec 2000 1800000 (sample_db, sample_monitor) = (Inr (Some msg), st1)
     \<and> fst (tick sample_codec 2001 1801000 st1) \<noteq> Inr (Some msg)"
proof -
  obtain msg :: "nat json" and st1 where t: "tick sample_codec 2000 1800000 (sample_db, sample_monitor) = (Inr (Some msg), st1)"
    using sample_tick by blast
  with interrupt_is_sent_once[OF t rtranclp.rtrancl_refl] show ?thesis by blast
qed

text \<open>
  C28: recovery never touches a run that may still be supervised. A recovery scan leaves the record and
  the journal of every run whose supervisor is alive, or whose state cannot be determined, exactly as
  they were.
\<close>

theorem recovery_spares_live_runs:
  assumes "reachable J db" "read_run db i = Inr r" "supervisor_alive host birth r \<noteq> Inr False"
  shows "read_run (snd (recovery_scan J at host birth project db)) i = Inr r
    \<and> journal_of (snd (recovery_scan J at host birth project db)) i = journal_of db i"
proof (cases "durable_runs db project")
  case (Inl e)
  then show ?thesis using assms(2) by (simp add: recovery_scan_def andthen_def)
next
  case (Inr rs)
  let ?rs = "filter (\<lambda>r. execution_id r \<noteq> None \<and> \<not> owner_released r) rs"
  obtain c db' where s: "scan_runs J at host birth ?rs db = (c, db')" by (cases "scan_runs J at host birth ?rs db")
  have "q = r" if "q \<in> set rs" "rs_id (scope q) = i" for q
  proof -
    obtain j where "read_run db j = Inr q" using durable_runs_read[OF Inr \<open>q \<in> set rs\<close>] by blast
    moreover from this have "j = rs_id (scope q)"
      by (elim read_row[OF assms(1)]) (auto simp: row_ok_def Let_def)
    ultimately show ?thesis using that(2) assms(2) by simp
  qed
  then have "\<forall>q \<in> set ?rs. rs_id (scope q) = i \<longrightarrow> supervisor_alive host birth q \<noteq> Inr False"
    using assms(3) by auto
  from scan_runs_spares[OF assms(1) this s] s Inr assms(2) show ?thesis
    by (simp add: recovery_scan_def andthen_def)
qed

theorem recovery_spares_live_runs_witness:
  "\<exists>db r. read_run db ''e'' = Inr r \<and> supervisor r = Some sample_identity
     \<and> read_run (snd (recovery_scan sample_codec 2000 ''h'' (\<lambda>_. Inr (Some ''1'')) ''p'' db)) ''e'' = Inr r"
proof -
  obtain db r where c: "reachable sample_codec db" "read_run db ''e'' = Inr r" "supervisor r = Some sample_identity"
    using sample_claimed by blast
  then have "supervisor_alive ''h'' (\<lambda>_. Inr (Some ''1'')) r \<noteq> Inr False"
    by (simp add: supervisor_alive_def sample_identity_def)
  from recovery_spares_live_runs[OF c(1,2) this] c(2,3) show ?thesis by blast
qed

text \<open>
  Finishing always releases the run with the right transport end. When it succeeds, the stored run
  is released and finished at the given time, and its transport is timed out if a deadline was recorded,
  otherwise cancelled if a cancellation was requested before completion, otherwise what the result says;
  it is never left connected.
\<close>

theorem finish_releases_the_run:
  assumes "reachable J db" "finish J at i result db = (Inr (), db')"
  shows "\<exists>r0 r'. read_run db i = Inr r0 \<and> read_run db' i = Inr r' \<and> owner_released r' \<and> finished_at r' = Some at
    \<and> transport r' = (if deadline_expired r0 \<noteq> None then TTimedOut
        else if cancellation_requested r0 \<and> provider r0 \<noteq> PCompleted then TCancelled
        else case result of Inr _ \<Rightarrow> Exited
          | Inl e \<Rightarrow> if e = ''DURABLE_CANCEL_REQUESTED'' then TCancelled
                    else if str_contains e ''TIMEOUT'' then TTimedOut else Lost)"
proof -
  from assms(2)[unfolded finish_def andthen_Inr] obtain r0 db0 where "liftc (\<lambda>db. durable_run db i) db = (Inr r0, db0)"
    and f: "\<exists>x s1. (case result of
         Inr v \<Rightarrow> if completed_output v \<and> \<not> provider_terminal (provider r0)
           then andthen (transact (\<lambda>db. durable_event J at db i (ProviderTerminal PCompleted))) (\<lambda>_. pass ())
           else pass ()
       | Inl e \<Rightarrow> pass ()) db0 = (Inr x, s1) \<and>
     (let (st, err) = end_transport r0 result
      in andthen (transact (\<lambda>db. durable_event J at db i (TransportEnded st err))) (\<lambda>_. pass ())) s1 = (Inr (), db')"
    by blast
  then have r0: "durable_run db i = Inr r0" and db0: "db0 = db" by auto
  from f[unfolded db0] obtain u db1 where mid: "(case result of
         Inr v \<Rightarrow> if completed_output v \<and> \<not> provider_terminal (provider r0)
           then andthen (transact (\<lambda>db. durable_event J at db i (ProviderTerminal PCompleted))) (\<lambda>_. pass ())
           else pass ()
       | Inl e \<Rightarrow> pass ()) db = (Inr u, db1)"
    and last: "(let (st, err) = end_transport r0 result
      in andthen (transact (\<lambda>db. durable_event J at db i (TransportEnded st err))) (\<lambda>_. pass ())) db1 = (Inr (), db')"
    by blast
  from mid have d1: "db1 = db \<or> (\<exists>u. durable_event J at db i (ProviderTerminal PCompleted) = Inr (db1, u))"
    by (cases result) (auto simp: andthen_Inr transact_Inr split: if_splits)
  from last obtain r' where e: "durable_event J at db1 i (TransportEnded (fst (end_transport r0 result)) (snd (end_transport r0 result))) = Inr (db', r')"
    by (cases "end_transport r0 result") (auto simp: andthen_Inr transact_Inr)
  have o: "observed_event (ProviderTerminal PCompleted)" "observed_event (TransportEnded a b)" for a b
    by (intro stays_intros)+
  have R1: "reachable J db1" using d1 assms(1) event_reachable[OF assms(1) _ o(1)] by blast
  obtain row where row: "map_of (db_runs db1) i = Some row"
    and c: "(db' = db1 \<and> r' = row_payload row) \<or>
     (apply_event (row_payload row) (TransportEnded (fst (end_transport r0 result)) (snd (end_transport r0 result))) at = Inr r'
      \<and> db' = event_committed db1 i (TransportEnded (fst (end_transport r0 result)) (snd (end_transport r0 result))) at r')"
    and rd: "read_run db1 i = Inr (row_payload row)"
    by (rule event_cases[OF R1 e o(2)])
  from e rd have "update_run J at db1 (row_payload row)
      (TransportEnded (fst (end_transport r0 result)) (snd (end_transport r0 result))) = Inr (db', r')"
    by (simp add: durable_event_def)
  from update_run_committed[OF reachable_inv[OF R1] row this]
  have A: "owner_released r'" "finished_at r' = Some at" "transport r' = fst (end_transport r0 result)"
    by (auto simp: apply_event_ok split: if_splits option.splits)
  have B: "read_run db' i = Inr r'" using event_read[OF R1 e o(2)] .
  have C: "read_run db i = Inr r0" using r0 by (auto simp: durable_run_def bind_check_ok)
  have D: "fst (end_transport r0 result) = (if deadline_expired r0 \<noteq> None then TTimedOut
        else if cancellation_requested r0 \<and> provider r0 \<noteq> PCompleted then TCancelled
        else case result of Inr _ \<Rightarrow> Exited
          | Inl e \<Rightarrow> if e = ''DURABLE_CANCEL_REQUESTED'' then TCancelled
                    else if str_contains e ''TIMEOUT'' then TTimedOut else Lost)"
    by (simp add: end_transport_def Let_def split: sum.split prod.split)
  show ?thesis using A(1,2) B C A(3)[unfolded D] by (intro exI conjI)
qed

theorem finish_releases_the_run_witness:
  "\<exists>db db' r'. reachable sample_codec db
     \<and> finish sample_codec 2000 ''e'' (Inl ''DURABLE_IDLE_TIMEOUT'' :: nat json check) db = (Inr (), db')
     \<and> read_run db' ''e'' = Inr r' \<and> owner_released r'"
proof -
  obtain u where u: "durable_event sample_codec 2000 sample_db ''e'' (TransportEnded TTimedOut (Some ''DURABLE_IDLE_TIMEOUT'')) = Inr u"
  proof -
    have b: "bounded_code ''DURABLE_IDLE_TIMEOUT''" by (simp add: bounded_code_def ascii_class_defs)
    obtain r' where a: "apply_event sample_run (TransportEnded TTimedOut (Some ''DURABLE_IDLE_TIMEOUT'')) 2000 = Inr r'"
      and r': "revision r' = 1" "sequence r' = 1" "scope r' = scope sample_run" "updated_at r' = 2000"
      by (simp add: apply_event_def control_timestamp_def checked_inc_def b)
    have "\<exists>db2. update_run sample_codec 2000 sample_db sample_run (TransportEnded TTimedOut (Some ''DURABLE_IDLE_TIMEOUT'')) = Inr (db2, r')"
      using r' by (simp add: update_run_def a sqlint_def insert_event_def sample_codec_def MAX_EVENTS_def
        sample_db_def sample_row_def empty_db_def Let_def)
    then show ?thesis using that by (auto simp: durable_event_def sample_read)
  qed
  have d: "durable_run sample_db ''e'' = Inr sample_run"
    by (simp add: durable_run_def sample_read id_eval require_v5_def) (simp add: sample_db_def empty_db_def)
  have "end_transport sample_run (Inl ''DURABLE_IDLE_TIMEOUT'' :: nat json check) = (TTimedOut, Some ''DURABLE_IDLE_TIMEOUT'')"
    by (simp add: end_transport_def)
  with u d obtain db' where f: "finish sample_codec 2000 ''e'' (Inl ''DURABLE_IDLE_TIMEOUT'' :: nat json check) sample_db = (Inr (), db')"
    by (cases u) (simp add: finish_def andthen_def transact_def)
  from finish_releases_the_run[OF sample_db_reachable f] f sample_db_reachable show ?thesis by blast
qed

text \<open>
  The runtime only takes store steps. From a reachable database, completion, local and provider
  reconciliation, the recovery scan and every handler of the monitor, whether they succeed or fail
  half-way, lead to a reachable database again; so what holds of every reachable database (a run is its
  journal, an effect starts once, a cancellation wins) holds throughout.
\<close>

theorem runtime_keeps_the_store_reachable:
  assumes "reachable J db"
  shows "reachable J (snd (finish J at i (res :: nat json check) db))
    \<and> reachable J (snd (reconcile_local J at host birth capture cps i n db))
    \<and> reachable J (snd (recovery_scan J at host birth project db))
    \<and> reachable J (snd (reconcile_provider J at host birth ints dig (rd :: integration \<Rightarrow> string \<Rightarrow> nat \<Rightarrow> nat json check) i app db))
    \<and> (\<forall>st. (monitor_step J)\<^sup>*\<^sup>* (db, mo) st \<longrightarrow> reachable J (fst st))"
proof -
  have "reachable J (fst st)" if "(monitor_step J)\<^sup>*\<^sup>* (db, mo) st" for st
    using monitor_steps_store[OF that] reachable_steps[OF assms] by simp
  then show ?thesis
    using reachable_steps[OF assms] staysD[OF stays_store(1)[of J at i res], of db]
      staysD[OF stays_store(2)[of J at host birth capture cps i n], of db]
      staysD[OF stays_store(3)[of J at host birth project], of db]
      staysD[OF stays_store(4)[of J at host birth ints dig rd i app], of db] by blast
qed

theorem runtime_keeps_the_store_reachable_witness:
  "reachable sample_codec (snd (recovery_scan sample_codec 2000 ''h'' (\<lambda>_. Inr None) ''p'' sample_db))"
  using runtime_keeps_the_store_reachable[OF sample_db_reachable] by blast

text \<open>
  C25: an observed completion is exact. If observing a notification turns a run without outcome into one
  with a terminal outcome, the notification is a turn completion whose thread and turn are the bound
  ones and whose status is that outcome; progress, other threads and other turns never complete a run.
\<close>

theorem observed_completion_is_exact:
  assumes "observe J at ms v st = (res, st')" "read_run (fst st) (mo_id (snd st)) = Inr (record_of st)"
    and "\<not> provider_terminal (provider (record_of st))" "provider_terminal (provider (record_of st'))"
  shows "json_str_at v ''method'' = Some ''turn/completed''
    \<and> (\<exists>s t status. completed_turn v = Some (s, t, status) \<and> session_id (record_of st) = Some s
         \<and> turn_id (record_of st) = Some t \<and> completed_status status = Some (provider (record_of st')))"
proof -
  have ev: "provider (record_of s') = p \<and> record_of s' = record_of s'"
    if "mo_event J at (ProviderTerminal p) st = (c, s')" "provider_terminal (provider (record_of s'))" for p c s'
    using that assms(2,3)
    by (cases st) (auto simp: mo_event_def record_of_def durable_event_def update_run_def bind_check_ok Let_def
        apply_event_ok terminal_status_def split: sum.splits if_splits option.splits)
  show ?thesis
  proof (cases "json_str_at v ''method'' = Some ''turn/completed''")
    case True
    with assms(1) have o: "observe_completed J at v st = (res, st')" by (simp add: observe_def)
    have ne: "record_of st' \<noteq> record_of st" using assms(3,4) by auto
    from o ne obtain s t status p where c: "completed_turn v = Some (s, t, status)" "completed_status status = Some p"
      and l: "look (\<lambda>st. if turn_id (record_of st) = None
             then update_mo (\<lambda>mo. mo\<lparr>mo_pending_terminal := Some (s, t, p)\<rparr>)
             else terminal J at s (Some t) p) st = (res, st')"
      by (auto simp: observe_completed_def andthen_def split: option.splits sum.splits)
    from l ne have k: "session_id (record_of st) = Some s" "turn_id (record_of st) = Some t"
      and m: "mo_event J at (ProviderTerminal p) st = (res, st')"
      by (auto simp: look_def terminal_def Let_def only_if_def update_mo_def record_of_def split: if_splits)
    from ev[OF m assms(4)] c k True show ?thesis by auto
  next
    case False
    then have o: "observe_progress J at ms (case json_str_at v ''method'' of None \<Rightarrow> [] | Some s \<Rightarrow> s) v st = (res, st')"
      using assms(1) by (auto simp: observe_def Let_def split: option.splits if_splits)
    have "\<not> provider_terminal (provider (record_of st'))"
      using o assms(2,3)
      by (cases st) (auto simp: observe_progress_def look_def Let_def andthen_def update_mo_def mo_event_def record_of_def
          durable_event_def update_run_def bind_check_ok apply_event_ok provider_terminal_def
          split: option.splits if_splits sum.splits prod.splits)
    with assms(4) show ?thesis by simp
  qed
qed

text \<open>An observed completion of a bound turn, for the witness.\<close>

definition sample_bound :: "durable_db \<times> monitor" where
  "sample_bound =
     (let r = sample_run\<lparr>session_id := Some ''s'', turn_id := Some ''t''\<rparr>
      in (empty_db\<lparr>db_runs := [(''e'', sample_row\<lparr>row_payload := r\<rparr>)]\<rparr>, sample_monitor\<lparr>mo_record := r\<rparr>))"

definition sample_completion :: "nat json" where
  "sample_completion = JObj [(''method'', JStr ''turn/completed''), (''params'', JObj [(''threadId'', JStr ''s''),
     (''turn'', JObj [(''id'', JStr ''t''), (''status'', JStr ''completed'')])])]"

theorem observed_completion_is_exact_witness:
  "\<exists>st'. observe sample_codec 2000 0 sample_completion sample_bound = (Inr (), st')
     \<and> provider (record_of st') = PCompleted \<and> completed_turn sample_completion = Some (''s'', ''t'', ''completed'')"
proof -
  let ?r = "sample_run\<lparr>session_id := Some ''s'', turn_id := Some ''t''\<rparr>"
  let ?db = "fst sample_bound"
  have rec: "record_of sample_bound = ?r" "mo_id (snd sample_bound) = ''e''"
    by (simp_all add: sample_bound_def record_of_def sample_monitor_def Let_def)
  have rd: "read_run ?db ''e'' = Inr ?r"
    by (simp add: sample_bound_def read_run_def sample_row_def Let_def)
  have m: "json_str_at sample_completion ''method'' = Some ''turn/completed''"
    and c: "completed_turn sample_completion = Some (''s'', ''t'', ''completed'')"
    by (simp_all add: sample_completion_def completed_turn_def json_str_at_def json_str_ptr_def)
  obtain r' where a: "apply_event ?r (ProviderTerminal PCompleted) 2000 = Inr r'"
    and r': "revision r' = 1" "sequence r' = 1" "scope r' = scope sample_run" "updated_at r' = 2000" "provider r' = PCompleted"
    by (simp add: apply_event_def control_timestamp_def checked_inc_def terminal_status_def provider_terminal_def)
  have "\<exists>db2. update_run sample_codec 2000 ?db ?r (ProviderTerminal PCompleted) = Inr (db2, r')"
    using r' by (simp add: update_run_def a sqlint_def insert_event_def sample_codec_def MAX_EVENTS_def
        sample_bound_def sample_row_def empty_db_def Let_def)
  then obtain db2 where u: "durable_event sample_codec 2000 ?db ''e'' (ProviderTerminal PCompleted) = Inr (db2, r')"
    by (auto simp: durable_event_def rd)
  have q: "checks [opaque ''s'', opaque ''t''] = Inr ()" by (simp add: opaque_def text_eval)
  have o: "observe sample_codec 2000 0 sample_completion sample_bound
      = (Inr (), (db2, (snd sample_bound)\<lparr>mo_record := r'\<rparr>))" (is "_ = (_, ?st)")
    unfolding observe_def m
    by (simp add: u split_beta observe_completed_def c completed_status_def q andthen_def look_def terminal_def
        mo_event_def only_if_def rec)
  have p: "provider (record_of ?st) = PCompleted" using r'(5) by (simp add: record_of_def)
  from observed_completion_is_exact[OF o] rd rec p have "\<exists>s t. completed_turn sample_completion = Some (s, t, ''completed'')"
    by (simp add: provider_terminal_def c)
  with o p c show ?thesis by blast
qed

end
