(* ===== verification/Health_Rules.thy ===== *)
theory Health_Rules
  imports Control Json
begin

text \<open>
  Symptom classification and lifecycle imports: \<open>workstation-core/src/health_rules.rs\<close> (fingerprints
  matched against reported signals), \<open>diagnostics.rs\<close> (typed facts) and \<open>lifecycle.rs\<close> (vendor
  lifecycle notifications projected to metadata). A match is a report: it authorises nothing.
\<close>

section \<open>Fingerprints\<close>

record signal =
  sg_id :: string
  sg_value :: bool
  sg_source :: string
  sg_observed_at :: int
  sg_coverage :: coverage

record fingerprint =
  fp_id :: string
  fp_product :: string
  fp_platforms :: "string list"
  fp_applicable_versions :: "string list"
  fp_requires :: "string list"
  fp_contradicts :: "string list"
  fp_freshness_seconds :: int
  fp_severity :: string
  fp_classification :: string
  fp_sources :: "string list"
  fp_repair_recipe :: "string option"

record rule_match =
  rm_id :: string
  rm_status :: string
  rm_classification :: string
  rm_missing :: "string list"
  rm_contradictions :: "string list"
  rm_repair_authorized :: bool
  rm_root_cause_fixed :: bool

fun index_signals :: "(string \<rightharpoonup> signal) \<Rightarrow> signal list \<Rightarrow> (string \<rightharpoonup> signal) check" where
  "index_signals index [] = Inr index"
| "index_signals index (s # ss) = bind_check
     (checks [control_id (sg_id s), control_text (sg_source s) 200, control_timestamp (sg_observed_at s)])
     (\<lambda>_. if index (sg_id s) \<noteq> None then Inl ''CONFLICTING_SIGNAL_IDENTITY''
           else index_signals (index(sg_id s \<mapsto> s)) ss)"

definition fingerprint_check :: "string set \<Rightarrow> fingerprint \<Rightarrow> unit check" where
  "fingerprint_check ids r = checks
     [control_id (fp_id r),
      reject (fp_id r \<in> ids \<or> fp_requires r = [] \<or> length (fp_requires r) > 32 \<or> length (fp_contradicts r) > 32
        \<or> \<not> (1 \<le> fp_freshness_seconds r \<and> fp_freshness_seconds r \<le> 3600)) ''INVALID_FINGERPRINT'',
      control_text (fp_product r) 100,
      control_text (fp_classification r) 256,
      reject (length (fp_platforms r) > 8 \<or> length (fp_applicable_versions r) > 100 \<or> length (fp_sources r) > 16)
        ''FINGERPRINT_METADATA_BUDGET'',
      check_all (\<lambda>v. control_text v 128) (fp_platforms r @ fp_applicable_versions r),
      check_all control_id (fp_requires r @ fp_contradicts r)]"

definition trusted :: "(string \<rightharpoonup> signal) \<Rightarrow> fingerprint \<Rightarrow> int \<Rightarrow> string \<Rightarrow> signal option" where
  "trusted index r now i = (case index i of None \<Rightarrow> None
     | Some s \<Rightarrow> if sg_coverage s = Complete \<and> sg_observed_at s \<le> now
           \<and> sub_i64 now (sg_observed_at s) \<le> fp_freshness_seconds r then Some s else None)"

definition holds_at :: "(string \<rightharpoonup> signal) \<Rightarrow> fingerprint \<Rightarrow> int \<Rightarrow> string \<Rightarrow> bool" where
  "holds_at index r now i = (case trusted index r now i of None \<Rightarrow> False | Some s \<Rightarrow> sg_value s)"

definition match_rule :: "(string \<rightharpoonup> signal) \<Rightarrow> string \<Rightarrow> int \<Rightarrow> fingerprint \<Rightarrow> rule_match" where
  "match_rule index version now r =
     (let applicable = (fp_applicable_versions r = [] \<or> version \<in> set (fp_applicable_versions r));
          missing = filter (\<lambda>i. \<not> holds_at index r now i) (fp_requires r)
            @ map (\<lambda>i. ''contradiction_unknown:'' @ i)
                (filter (\<lambda>i. trusted index r now i = None) (fp_contradicts r));
          contradictions = filter (holds_at index r now) (fp_contradicts r)
      in \<lparr>rm_id = fp_id r,
          rm_status = (if \<not> applicable then ''version_not_supported''
            else if contradictions \<noteq> [] then ''contradicted''
            else if missing \<noteq> [] then ''insufficient_evidence'' else ''matched_symptom''),
          rm_classification = fp_classification r, rm_missing = missing, rm_contradictions = contradictions,
          rm_repair_authorized = False, rm_root_cause_fixed = False\<rparr>)"

definition selected :: "string \<Rightarrow> string \<Rightarrow> fingerprint \<Rightarrow> bool" where
  "selected product platform r \<longleftrightarrow>
     (fp_product r = product \<or> fp_product r = ''any'') \<and> platform \<in> set (fp_platforms r)"

fun evaluate_rules ::
    "(string \<rightharpoonup> signal) \<Rightarrow> string \<Rightarrow> string \<Rightarrow> string \<Rightarrow> int \<Rightarrow> string set \<Rightarrow> fingerprint list \<Rightarrow> rule_match list check" where
  "evaluate_rules index product platform version now ids [] = Inr []"
| "evaluate_rules index product platform version now ids (r # rs) =
     bind_check (fingerprint_check ids r) (\<lambda>_.
     bind_check (evaluate_rules index product platform version now (insert (fp_id r) ids) rs) (\<lambda>out.
     Inr (if selected product platform r then match_rule index version now r # out else out)))"

definition evaluate ::
    "fingerprint list \<Rightarrow> string \<Rightarrow> string \<Rightarrow> string \<Rightarrow> signal list \<Rightarrow> int \<Rightarrow> rule_match list check" where
  "evaluate rules product platform version signals now =
     bind_check (control_timestamp now) (\<lambda>_.
     if length rules > 100 \<or> length signals > 256 then Inl ''FINGERPRINT_BUDGET''
     else bind_check (index_signals Map.empty signals) (\<lambda>index.
       evaluate_rules index product platform version now {} rules))"

section \<open>Typed facts\<close>

record facts =
  fa_matched_processes :: "nat option"
  fa_parent_exit_observed :: "bool option"
  fa_live_session_dependency :: "bool option"
  fa_intentionally_shared_daemon :: "bool option"
  fa_repeated_runtime_staging :: "nat option"
  fa_bootstrap_running :: "bool option"
  fa_local_docker_endpoint :: "bool option"
  fa_current_start_error_matches_socket :: "bool option"
  fa_current_registry_parse_failed :: "bool option"
  fa_registry_layout_verified :: "bool option"
  fa_application_stopped :: "bool option"

record diagnostic_evidence =
  de_product :: string
  de_reported_version :: string
  de_platform :: string
  de_observed_at :: int
  de_coverage :: coverage
  de_facts :: facts

record fingerprint_result =
  fr_id :: string
  fr_product :: string
  fr_platform :: string
  fr_reported_version :: string
  fr_tested_vendor_versions :: "string list"
  fr_source_kind :: evidence_kind
  fr_coverage :: coverage
  fr_classification :: string
  fr_evidence_conditions :: "string list"
  fr_contradictory_evidence :: "string list"
  fr_root_cause_status :: string
  fr_repair_status :: string
  fr_protected :: bool
  fr_sources :: "string list"

definition row ::
    "diagnostic_evidence \<Rightarrow> string \<Rightarrow> string list \<Rightarrow> string list \<Rightarrow> string list \<Rightarrow> fingerprint_result" where
  "row e i required contradictions sources =
     \<lparr>fr_id = i, fr_product = de_product e, fr_platform = de_platform e, fr_reported_version = de_reported_version e,
      fr_tested_vendor_versions = [], fr_source_kind = AgentReported, fr_coverage = Partial,
      fr_classification = ''reported_symptom_candidate_not_verified_vendor_bug'',
      fr_evidence_conditions = required, fr_contradictory_evidence = contradictions,
      fr_root_cause_status = ''unconfirmed'',
      fr_repair_status = ''blocked_native_recipe_certification_required'', fr_protected = True,
      fr_sources = sources\<rparr>"

definition is_some_and :: "('a \<Rightarrow> bool) \<Rightarrow> 'a option \<Rightarrow> bool" where
  "is_some_and P x = (case x of None \<Rightarrow> False | Some v \<Rightarrow> P v)"

definition symptom_rows :: "diagnostic_evidence \<Rightarrow> fingerprint_result list" where
  "symptom_rows e = (let f = de_facts e in
     (if fa_parent_exit_observed f = Some True \<and> is_some_and (\<lambda>n. n > 0) (fa_matched_processes f)
        \<and> fa_live_session_dependency f = Some False \<and> fa_intentionally_shared_daemon f = Some False
      then [row e ''lifecycle.reported_retained_children''
        [''parent exit reported'', ''matching descendants reported'', ''no known live session dependency reported'',
         ''not an intentional shared daemon reported'']
        [''live session dependency'', ''intentional shared daemon'', ''unknown ownership'']
        [''https://learn.microsoft.com/en-us/windows/win32/procthread/job-objects'']] else [])
     @ (if is_some_and (\<lambda>n. n \<ge> 3) (fa_repeated_runtime_staging f) \<and> fa_bootstrap_running f = Some False
      then [row e ''runtime.reported_repeated_staging''
        [''three or more staging directories reported'', ''bootstrap inactive reported'']
        [''bootstrap is running'', ''unknown directory ownership''] []] else [])
     @ (if de_product e = ''docker'' \<and> de_platform e = ''windows'' \<and> fa_local_docker_endpoint f = Some True
        \<and> fa_current_start_error_matches_socket f = Some True \<and> fa_application_stopped f = Some True
      then [row e ''docker.reported_stale_socket_candidate''
        [''local endpoint reported'', ''current startup socket error reported'', ''Docker stopped reported'']
        [''remote/unknown endpoint'', ''stale error file'', ''live application'']
        [''https://docs.docker.com/desktop/troubleshoot-and-support/troubleshoot/'']] else [])
     @ (if de_product e = ''codex'' \<and> fa_current_registry_parse_failed f = Some True
        \<and> fa_registry_layout_verified f = Some True \<and> fa_application_stopped f = Some True
      then [row e ''codex.reported_registry_parse_failure''
        [''layout checked reported'', ''current registry parse error reported'', ''application stopped reported'']
        [''unknown registry layout'', ''active state writer'', ''attachment payload dependency'']
        [''https://github.com/openai/codex'']] else []))"

definition classify :: "diagnostic_evidence \<Rightarrow> int \<Rightarrow> fingerprint_result list check" where
  "classify e now = bind_check (checks
     [control_id (de_product e),
      control_text (de_reported_version e) 64,
      control_timestamp (de_observed_at e),
      control_timestamp now,
      reject (de_platform e \<notin> set [''windows'', ''linux'', ''macos'']) ''DIAGNOSTIC_PLATFORM_INVALID'',
      reject (de_observed_at e > now \<or> sub_i64 now (de_observed_at e) > 300) ''DIAGNOSTIC_EVIDENCE_STALE'',
      reject (is_some_and (\<lambda>n. n > 100000) (fa_matched_processes (de_facts e))
        \<or> is_some_and (\<lambda>n. n > 100000) (fa_repeated_runtime_staging (de_facts e))) ''DIAGNOSTIC_COUNT_LIMIT''])
     (\<lambda>_. Inr (if de_coverage e \<noteq> Complete then [] else symptom_rows e))"

section \<open>Lifecycle imports\<close>

record lifecycle_event =
  le_source_id :: string
  le_project_id :: string
  le_workspace_id :: "string option"
  le_agent :: string
  le_external_session_id :: string
  le_event :: string
  le_observed_at :: int
  le_source_revision :: string
  le_evidence :: string

definition claude_event :: "string \<Rightarrow> string check" where
  "claude_event kind =
     (if kind = ''SessionStart'' then Inr ''started'' else if kind = ''SessionEnd'' then Inr ''ended''
      else if kind = ''Stop'' then Inr ''turn_completed'' else if kind = ''PreCompact'' then Inr ''compaction_boundary''
      else Inl ''HOOK_KIND_NOT_ALLOWLISTED'')"

definition gemini_event :: "string \<Rightarrow> string check" where
  "gemini_event kind =
     (if kind = ''SessionStart'' then Inr ''started'' else if kind = ''SessionEnd'' then Inr ''ended''
      else if kind \<in> set [''BeforeAgent'', ''BeforeTool'', ''AfterTool''] then Inr ''activity''
      else if kind = ''AfterAgent'' then Inr ''turn_completed'' else if kind = ''PreCompress'' then Inr ''compaction_boundary''
      else Inl ''HOOK_KIND_NOT_ALLOWLISTED'')"

definition copilot_event :: "string \<Rightarrow> string check" where
  "copilot_event kind =
     (if kind \<in> set [''session.start'', ''session.resume''] then Inr ''started''
      else if kind = ''session.idle'' then Inr ''turn_completed'' else if kind = ''session.error'' then Inr ''activity''
      else if kind \<in> set [''assistant.turn_start'', ''assistant.turn_end'', ''session.usage_info''] then Inr ''activity''
      else Inl ''HOOK_KIND_NOT_ALLOWLISTED'')"

definition codex_event :: "string \<Rightarrow> string check" where
  "codex_event meth =
     (if meth = ''thread/started'' then Inr ''started'' else if meth = ''thread/archived'' then Inr ''ended''
      else if meth = ''turn/completed'' then Inr ''turn_completed'' else Inl ''NOTIFICATION_NOT_ALLOWLISTED'')"

definition hook_event :: "(string \<Rightarrow> string check) \<Rightarrow> 'n json \<Rightarrow> (string \<times> string) check" where
  "hook_event events payload =
     bind_check (ok_or (json_str_at payload ''session_id'') ''HOOK_SESSION_ID_MISSING'') (\<lambda>i.
     bind_check (ok_or (json_str_at payload ''hook_event_name'') ''HOOK_KIND_MISSING'') (\<lambda>kind.
     bind_check (events kind) (\<lambda>ev. Inr (i, ev))))"

definition copilot_notification :: "'n json \<Rightarrow> (string \<times> string) check" where
  "copilot_notification payload =
     (if json_str_at payload ''method'' \<noteq> Some ''session.event'' then Inl ''NOTIFICATION_NOT_ALLOWLISTED''
      else bind_check (ok_or (json_get payload ''params'') ''RPC_PARAMS_MISSING'') (\<lambda>params.
        bind_check (ok_or (json_str_at params ''sessionId'') ''SESSION_ID_MISSING'') (\<lambda>i.
        bind_check (ok_or (json_str_ptr params [''event'', ''type'']) ''HOOK_KIND_MISSING'') (\<lambda>kind.
        bind_check (copilot_event kind) (\<lambda>ev. Inr (i, ev))))))"

definition codex_thread :: "'n json \<Rightarrow> string option" where
  "codex_thread params = Option.bind
     (case json_get params ''threadId'' of Some t \<Rightarrow> Some t | None \<Rightarrow> json_pointer params [''thread'', ''id'']) json_as_str"

definition codex_notification :: "'n json \<Rightarrow> (string \<times> string) check" where
  "codex_notification payload =
     bind_check (ok_or (json_str_at payload ''method'') ''RPC_METHOD_MISSING'') (\<lambda>meth.
     bind_check (ok_or (json_get payload ''params'') ''RPC_PARAMS_MISSING'') (\<lambda>params.
     bind_check (ok_or (codex_thread params) ''THREAD_ID_MISSING'') (\<lambda>i.
     bind_check (codex_event meth) (\<lambda>ev. Inr (i, ev)))))"

definition acp_notification :: "'n json \<Rightarrow> (string \<times> string) check" where
  "acp_notification payload =
     (if json_str_at payload ''method'' \<noteq> Some ''session/update'' then Inl ''NOTIFICATION_NOT_ALLOWLISTED''
      else bind_check (ok_or (json_str_ptr payload [''params'', ''sessionId'']) ''SESSION_ID_MISSING'')
        (\<lambda>i. Inr (i, ''activity'')))"

definition lifecycle_of :: "string \<Rightarrow> 'n json \<Rightarrow> (string \<times> string \<times> string) check" where
  "lifecycle_of format payload =
     (let tag = (\<lambda>agent c. bind_check c (\<lambda>(i, ev). Inr (agent, i, ev))) in
      if format = ''claude-hook'' then tag ''claude'' (hook_event claude_event payload)
      else if format = ''gemini-hook'' then tag ''gemini'' (hook_event gemini_event payload)
      else if format = ''copilot-session-event'' then tag ''copilot'' (copilot_notification payload)
      else if format = ''codex-notification'' then tag ''codex'' (codex_notification payload)
      else if format = ''acp-notification'' then tag ''acp'' (acp_notification payload)
      else Inl ''LIFECYCLE_FORMAT_UNSUPPORTED'')"

definition normalize ::
    "string \<Rightarrow> 'n json \<Rightarrow> string \<Rightarrow> string \<Rightarrow> string option \<Rightarrow> int \<Rightarrow> string \<Rightarrow> lifecycle_event check" where
  "normalize format payload source_id project workspace at version =
     bind_check (checks
       [control_id source_id, control_id project, control_timestamp at, control_text version 128,
        check_opt control_id workspace]) (\<lambda>_.
     bind_check (lifecycle_of format payload) (\<lambda>(agent, i, ev).
     bind_check (control_text i 256) (\<lambda>_.
     if i = [] then Inl ''EMPTY_VENDOR_SESSION_ID''
     else Inr \<lparr>le_source_id = source_id, le_project_id = project, le_workspace_id = workspace, le_agent = agent,
       le_external_session_id = i, le_event = ev, le_observed_at = at, le_source_revision = version,
       le_evidence = ''agent_reported_import_not_authenticated_hook''\<rparr>)))"

section \<open>Lemmas\<close>

lemma index_signals_ok:
  "index_signals index ss = Inr index' \<Longrightarrow>
     (\<forall>i s. index' i = Some s \<longleftrightarrow> index i = Some s \<or> (s \<in> set ss \<and> sg_id s = i))
     \<and> (\<forall>s \<in> set ss. control_timestamp (sg_observed_at s) = Inr ())"
proof (induction ss arbitrary: index)
  case (Cons s ss)
  from Cons.prems have new: "index (sg_id s) = None" and t: "control_timestamp (sg_observed_at s) = Inr ()"
    and rest: "index_signals (index(sg_id s \<mapsto> s)) ss = Inr index'"
    by (auto simp: bind_check_ok checks_Cons_ok split: if_splits)
  from Cons.IH[OF rest] t new show ?case by auto
qed simp

text \<open>A signal supports a value for a rule when it is complete, not from the future, and fresh.\<close>

definition supports :: "signal list \<Rightarrow> fingerprint \<Rightarrow> int \<Rightarrow> string \<Rightarrow> bool \<Rightarrow> bool" where
  "supports signals r now i b \<longleftrightarrow> (\<exists>s \<in> set signals. sg_id s = i \<and> sg_value s = b \<and> sg_coverage s = Complete
     \<and> sg_observed_at s \<le> now \<and> now \<le> sg_observed_at s + fp_freshness_seconds r)"

lemma trusted_iff:
  assumes "index_signals Map.empty signals = Inr index" "control_timestamp now = Inr ()"
  shows "trusted index r now i = Some s \<longleftrightarrow> s \<in> set signals \<and> sg_id s = i \<and> sg_coverage s = Complete
     \<and> sg_observed_at s \<le> now \<and> now \<le> sg_observed_at s + fp_freshness_seconds r"
proof -
  note ix = index_signals_ok[OF assms(1)]
  show ?thesis
  proof (cases "index i")
    case None
    with ix have "\<not> (s \<in> set signals \<and> sg_id s = i)" by (metis option.distinct(1))
    with None show ?thesis by (auto simp: trusted_def)
  next
    case (Some u)
    then have u: "u \<in> set signals" "sg_id u = i" using ix by auto
    then have "sub_i64 now (sg_observed_at u) = now - sg_observed_at u"
      using ix assms(2) by (intro timestamps_sub_exact) auto
    then have t: "trusted index r now i = (if sg_coverage u = Complete \<and> sg_observed_at u \<le> now
        \<and> now \<le> sg_observed_at u + fp_freshness_seconds r then Some u else None)"
      by (auto simp: trusted_def Some)
    from ix Some have "index i = Some s \<longleftrightarrow> s \<in> set signals \<and> sg_id s = i" by simp
    with Some have "s \<in> set signals \<and> sg_id s = i \<longleftrightarrow> s = u" by auto
    then show ?thesis unfolding t by (cases "s = u") auto
  qed
qed

lemma trusted_supports:
  assumes "index_signals Map.empty signals = Inr index" "control_timestamp now = Inr ()"
  shows "holds_at index r now i \<longleftrightarrow> supports signals r now i True"
    and "trusted index r now i \<noteq> None \<and> \<not> holds_at index r now i \<longleftrightarrow> supports signals r now i False"
proof -
  have "supports signals r now i b \<longleftrightarrow> (\<exists>s. trusted index r now i = Some s \<and> sg_value s = b)" for b
    unfolding trusted_iff[OF assms] supports_def by blast
  then show "holds_at index r now i \<longleftrightarrow> supports signals r now i True"
    "trusted index r now i \<noteq> None \<and> \<not> holds_at index r now i \<longleftrightarrow> supports signals r now i False"
    by (auto simp: holds_at_def split: option.splits)
qed

lemma evaluate_rules_ok:
  "evaluate_rules index product platform version now ids rs = Inr out \<Longrightarrow>
     out = map (match_rule index version now) (filter (selected product platform) rs)
     \<and> distinct (map fp_id rs) \<and> fp_id ` set rs \<inter> ids = {} \<and> (\<forall>r \<in> set rs. \<exists>ids. fingerprint_check ids r = Inr ())"
proof (induction rs arbitrary: ids out)
  case (Cons r rs)
  from Cons.prems obtain out' where c: "fingerprint_check ids r = Inr ()"
    and e: "evaluate_rules index product platform version now (insert (fp_id r) ids) rs = Inr out'"
    and o: "out = (if selected product platform r then match_rule index version now r # out' else out')"
    by (auto simp: bind_check_ok)
  from c have "fp_id r \<notin> ids" by (simp add: fingerprint_check_def checks_Cons_ok)
  with Cons.IH[OF e] c o show ?case by auto
qed simp

section \<open>Properties\<close>

text \<open>
  A symptom matches exactly on positive evidence. A successful evaluation reports a matched symptom
  for an id exactly when the rule of that id applies to the product, platform and version, every
  required signal is reported true and every contradicting signal reported false by complete, fresh,
  not future signals; the absence of a signal is never proof. No match authorises a repair or claims
  that a root cause is fixed.
\<close>

theorem symptom_match_exact:
  assumes "evaluate rules product platform version signals now = Inr out"
  shows "(\<forall>i. (\<exists>m \<in> set out. rm_id m = i \<and> rm_status m = ''matched_symptom'') \<longleftrightarrow>
       (\<exists>r \<in> set rules. fp_id r = i \<and> (fp_product r = product \<or> fp_product r = ''any'') \<and> platform \<in> set (fp_platforms r)
         \<and> (fp_applicable_versions r = [] \<or> version \<in> set (fp_applicable_versions r))
         \<and> (\<forall>q \<in> set (fp_requires r). supports signals r now q True)
         \<and> (\<forall>q \<in> set (fp_contradicts r). supports signals r now q False)))
    \<and> (\<forall>m \<in> set out. \<not> rm_repair_authorized m \<and> \<not> rm_root_cause_fixed m)
    \<and> distinct (map rm_id out)"
proof -
  from assms obtain index where now: "control_timestamp now = Inr ()" and ix: "index_signals Map.empty signals = Inr index"
    and ev: "evaluate_rules index product platform version now {} rules = Inr out"
    by (auto simp: evaluate_def bind_check_ok split: if_splits)
  note out = evaluate_rules_ok[OF ev] and sup = trusted_supports[OF ix now]
  have ids: "rm_id (match_rule index version now r) = fp_id r"
    and auth: "\<not> rm_repair_authorized (match_rule index version now r) \<and> \<not> rm_root_cause_fixed (match_rule index version now r)" for r
    by (simp_all add: match_rule_def Let_def)
  have status: "rm_status (match_rule index version now r) = ''matched_symptom'' \<longleftrightarrow>
      (fp_applicable_versions r = [] \<or> version \<in> set (fp_applicable_versions r))
      \<and> (\<forall>q \<in> set (fp_requires r). supports signals r now q True)
      \<and> (\<forall>q \<in> set (fp_contradicts r). supports signals r now q False)" for r
    by (auto simp: match_rule_def Let_def filter_empty_conv simp flip: sup)
  have "distinct (map rm_id out)"
    using out by (auto simp: ids comp_def distinct_map intro: inj_on_subset)
  moreover have "(\<exists>m \<in> set out. rm_id m = i \<and> rm_status m = ''matched_symptom'') \<longleftrightarrow>
      (\<exists>r \<in> set rules. selected product platform r \<and> fp_id r = i
        \<and> rm_status (match_rule index version now r) = ''matched_symptom'')" for i
    using out ids by auto
  ultimately show ?thesis using out auth unfolding selected_def status by auto
qed

theorem symptom_match_exact_witness:
  "\<exists>m. evaluate [\<lparr>fp_id = ''r'', fp_product = ''any'', fp_platforms = [''windows''], fp_applicable_versions = [],
       fp_requires = [''growth''], fp_contradicts = [''migration''], fp_freshness_seconds = 60, fp_severity = ''warning'',
       fp_classification = ''symptom'', fp_sources = [], fp_repair_recipe = None\<rparr>] ''codex'' ''windows'' ''1''
     [\<lparr>sg_id = ''growth'', sg_value = True, sg_source = ''o'', sg_observed_at = 10, sg_coverage = Complete\<rparr>,
      \<lparr>sg_id = ''migration'', sg_value = False, sg_source = ''o'', sg_observed_at = 9, sg_coverage = Complete\<rparr>] 10 = Inr [m]
     \<and> rm_status m = ''matched_symptom'' \<and> \<not> rm_repair_authorized m"
  (is "\<exists>m. evaluate [?r] _ _ _ ?ss 10 = Inr [m] \<and> _")
proof -
  have "evaluate [?r] ''codex'' ''windows'' ''1'' ?ss 10 = Inr [match_rule
      [''growth'' \<mapsto> hd ?ss, ''migration'' \<mapsto> ?ss ! 1] ''1'' 10 ?r]"
    by (simp add: evaluate_def fingerprint_check_def id_eval text_eval control_timestamp_def selected_def)
  then obtain m where m: "evaluate [?r] ''codex'' ''windows'' ''1'' ?ss 10 = Inr [m]" by blast
  from symptom_match_exact[OF m] m show ?thesis by (auto simp: supports_def)
qed

text \<open>Partial knowledge of a fact: unknown is below everything.\<close>

definition knows_less :: "facts \<Rightarrow> facts \<Rightarrow> bool" where
  "knows_less f g \<longleftrightarrow>
     fa_matched_processes f \<in> {None, fa_matched_processes g}
     \<and> fa_parent_exit_observed f \<in> {None, fa_parent_exit_observed g}
     \<and> fa_live_session_dependency f \<in> {None, fa_live_session_dependency g}
     \<and> fa_intentionally_shared_daemon f \<in> {None, fa_intentionally_shared_daemon g}
     \<and> fa_repeated_runtime_staging f \<in> {None, fa_repeated_runtime_staging g}
     \<and> fa_bootstrap_running f \<in> {None, fa_bootstrap_running g}
     \<and> fa_local_docker_endpoint f \<in> {None, fa_local_docker_endpoint g}
     \<and> fa_current_start_error_matches_socket f \<in> {None, fa_current_start_error_matches_socket g}
     \<and> fa_current_registry_parse_failed f \<in> {None, fa_current_registry_parse_failed g}
     \<and> fa_registry_layout_verified f \<in> {None, fa_registry_layout_verified g}
     \<and> fa_application_stopped f \<in> {None, fa_application_stopped g}"

lemma is_some_and_simps [simp]: "is_some_and P None = False" "is_some_and P (Some v) = P v"
  by (simp_all add: is_some_and_def)

lemma symptom_rows_mono:
  assumes "knows_less f g"
  shows "set (symptom_rows (e\<lparr>de_facts := f\<rparr>)) \<subseteq> set (symptom_rows (e\<lparr>de_facts := g\<rparr>))"
proof -
  have r: "row (e\<lparr>de_facts := f\<rparr>) = row (e\<lparr>de_facts := g\<rparr>)" by (intro ext) (simp add: row_def)
  have k: "x \<in> {None, y} \<Longrightarrow> x = Some b \<Longrightarrow> y = Some b" "x' \<in> {None, y'} \<Longrightarrow> is_some_and P x' \<Longrightarrow> is_some_and P y'"
    for x y :: "bool option" and b and x' y' :: "nat option" and P by auto
  have sub: "(P \<Longrightarrow> Q) \<Longrightarrow> set (if P then [a] else []) \<subseteq> set (if Q then [a] else [])" for P Q and a :: fingerprint_result
    by auto
  have f: "fa_parent_exit_observed f = Some b \<Longrightarrow> fa_parent_exit_observed g = Some b"
    "fa_live_session_dependency f = Some b \<Longrightarrow> fa_live_session_dependency g = Some b"
    "fa_intentionally_shared_daemon f = Some b \<Longrightarrow> fa_intentionally_shared_daemon g = Some b"
    "fa_bootstrap_running f = Some b \<Longrightarrow> fa_bootstrap_running g = Some b"
    "fa_local_docker_endpoint f = Some b \<Longrightarrow> fa_local_docker_endpoint g = Some b"
    "fa_current_start_error_matches_socket f = Some b \<Longrightarrow> fa_current_start_error_matches_socket g = Some b"
    "fa_current_registry_parse_failed f = Some b \<Longrightarrow> fa_current_registry_parse_failed g = Some b"
    "fa_registry_layout_verified f = Some b \<Longrightarrow> fa_registry_layout_verified g = Some b"
    "fa_application_stopped f = Some b \<Longrightarrow> fa_application_stopped g = Some b"
    "is_some_and P (fa_matched_processes f) \<Longrightarrow> is_some_and P (fa_matched_processes g)"
    "is_some_and P (fa_repeated_runtime_staging f) \<Longrightarrow> is_some_and P (fa_repeated_runtime_staging g)" for b P
    using assms unfolding knows_less_def by (blast intro: k)+
  show ?thesis
    unfolding symptom_rows_def Let_def r set_append
    by (intro Un_mono sub; (elim conjE)?; intro conjI; simp add: f)
qed

text \<open>
  Missing evidence is never proof. Every reported symptom is an unconfirmed, protected report whose
  repair is blocked; it needs complete coverage and evidence at most 300 seconds old; and knowing fewer
  facts never reports more, so no unknown fact contributes to a symptom.
\<close>

theorem diagnostics_need_positive_evidence:
  assumes "classify (e\<lparr>de_facts := f\<rparr>) now = Inr rows" "knows_less f g"
    and "classify (e\<lparr>de_facts := g\<rparr>) now = Inr rows'"
  shows "set rows \<subseteq> set rows'
    \<and> (\<forall>r \<in> set rows. fr_protected r \<and> fr_root_cause_status r = ''unconfirmed'' \<and> fr_source_kind r = AgentReported
         \<and> fr_repair_status r = ''blocked_native_recipe_certification_required'')
    \<and> (rows \<noteq> [] \<longrightarrow> de_coverage e = Complete \<and> de_observed_at e \<le> now \<and> now \<le> de_observed_at e + 300)"
proof -
  from assms(1,3) have r: "rows = (if de_coverage e \<noteq> Complete then [] else symptom_rows (e\<lparr>de_facts := f\<rparr>))"
      "rows' = (if de_coverage e \<noteq> Complete then [] else symptom_rows (e\<lparr>de_facts := g\<rparr>))"
    and t: "control_timestamp (de_observed_at e) = Inr ()" "control_timestamp now = Inr ()" "de_observed_at e \<le> now"
      "sub_i64 now (de_observed_at e) \<le> 300"
    by (auto simp: classify_def bind_check_ok checks_Cons_ok)
  have "fr_protected r \<and> fr_root_cause_status r = ''unconfirmed'' \<and> fr_source_kind r = AgentReported
      \<and> fr_repair_status r = ''blocked_native_recipe_certification_required''" if "r \<in> set (symptom_rows x)" for r x
    using that by (auto simp: symptom_rows_def Let_def row_def split: if_splits)
  moreover have "sub_i64 now (de_observed_at e) = now - de_observed_at e"
    using t by (intro timestamps_sub_exact) auto
  ultimately show ?thesis using r t symptom_rows_mono[OF assms(2), of e] by auto
qed

definition sample_facts :: facts where
  "sample_facts = \<lparr>fa_matched_processes = Some 3, fa_parent_exit_observed = Some True,
     fa_live_session_dependency = Some False, fa_intentionally_shared_daemon = Some False,
     fa_repeated_runtime_staging = None, fa_bootstrap_running = None, fa_local_docker_endpoint = None,
     fa_current_start_error_matches_socket = None, fa_current_registry_parse_failed = None,
     fa_registry_layout_verified = None, fa_application_stopped = None\<rparr>"

theorem diagnostics_need_positive_evidence_witness:
  "\<exists>e r. classify (e\<lparr>de_facts := sample_facts\<rparr>) 100 = Inr [r] \<and> fr_protected r
     \<and> classify (e\<lparr>de_facts := sample_facts\<lparr>fa_live_session_dependency := None\<rparr>\<rparr>) 100 = Inr []"
proof -
  let ?e = "\<lparr>de_product = ''codex'', de_reported_version = ''1'', de_platform = ''windows'', de_observed_at = 100,
    de_coverage = Complete, de_facts = sample_facts\<rparr>"
  let ?f = "sample_facts\<lparr>fa_live_session_dependency := None\<rparr>"
  have r: "\<exists>r. classify (?e\<lparr>de_facts := sample_facts\<rparr>) 100 = Inr [r]" "classify (?e\<lparr>de_facts := ?f\<rparr>) 100 = Inr []"
    by (simp_all add: classify_def symptom_rows_def sample_facts_def id_eval text_eval control_timestamp_def
        sub_i64_exact in_i64_def)
  then obtain r where r1: "classify (?e\<lparr>de_facts := sample_facts\<rparr>) 100 = Inr [r]" by blast
  have "knows_less sample_facts sample_facts" by (simp add: knows_less_def)
  from diagnostics_need_positive_evidence[OF r1 this r1] have "fr_protected r" by simp
  with r1 r(2) show ?thesis by blast
qed

text \<open>What an import may see of a payload.\<close>

definition lifecycle_view :: "'n json \<Rightarrow> string option list \<times> bool" where
  "lifecycle_view v =
     ([json_str_at v ''session_id'', json_str_at v ''hook_event_name'', json_str_at v ''method'',
       json_str_ptr v [''params'', ''sessionId''], json_str_ptr v [''params'', ''event'', ''type''],
       Option.bind (json_get v ''params'') codex_thread], json_get v ''params'' \<noteq> None)"

lemma params_pointer: "json_str_ptr v (''params'' # ks) = Option.bind (json_get v ''params'') (\<lambda>p. json_str_ptr p ks)"
  by (cases "json_get v ''params''") (simp_all add: json_str_ptr_def)

lemma json_str_ptr_one: "json_str_ptr p [k] = json_str_at p k"
  by (cases "json_get p k") (simp_all add: json_str_ptr_def json_str_at_def)

lemma lifecycle_of_view:
  assumes "lifecycle_view v = lifecycle_view w"
  shows "lifecycle_of format v = lifecycle_of format w"
proof -
  from assms have e: "json_str_at v ''session_id'' = json_str_at w ''session_id''"
    "json_str_at v ''hook_event_name'' = json_str_at w ''hook_event_name''"
    "json_str_at v ''method'' = json_str_at w ''method''"
    "json_str_ptr v [''params'', ''sessionId''] = json_str_ptr w [''params'', ''sessionId'']"
    "json_str_ptr v [''params'', ''event'', ''type''] = json_str_ptr w [''params'', ''event'', ''type'']"
    "Option.bind (json_get v ''params'') codex_thread = Option.bind (json_get w ''params'') codex_thread"
    "json_get v ''params'' = None \<longleftrightarrow> json_get w ''params'' = None"
    by (auto simp: lifecycle_view_def)
  have "hook_event ev v = hook_event ev w" for ev by (simp add: hook_event_def e)
  moreover have "acp_notification v = acp_notification w" by (simp add: acp_notification_def e)
  moreover have "copilot_notification v = copilot_notification w" "codex_notification v = codex_notification w"
    using e(4-7) unfolding params_pointer json_str_ptr_one copilot_notification_def codex_notification_def e(3)
    by (cases "json_get v ''params''"; cases "json_get w ''params''"; simp)+
  ultimately show ?thesis by (simp add: lifecycle_of_def)
qed

text \<open>
  An import is metadata only. The event an import yields depends on nothing in the payload but the
  allow-listed kind and session identifiers, so prompts, transcripts and paths cannot reach it; its kind
  is one of five, its session identifier is clean, bounded text, and it is marked unauthenticated.
\<close>

theorem lifecycle_import_is_metadata_only:
  assumes "normalize format v source project workspace at version = Inr ev" "lifecycle_view v = lifecycle_view w"
  shows "normalize format w source project workspace at version = Inr ev
    \<and> le_event ev \<in> {''started'', ''ended'', ''turn_completed'', ''compaction_boundary'', ''activity''}
    \<and> control_text (le_external_session_id ev) 256 = Inr () \<and> le_external_session_id ev \<noteq> []
    \<and> le_evidence ev = ''agent_reported_import_not_authenticated_hook''"
proof -
  from assms(1) obtain agent i k where l: "lifecycle_of format v = Inr (agent, i, k)" and t: "control_text i 256 = Inr ()" "i \<noteq> []"
    and ev: "le_event ev = k" "le_external_session_id ev = i" "le_evidence ev = ''agent_reported_import_not_authenticated_hook''"
    by (auto simp: normalize_def bind_check_ok split: if_splits)
  define E where "E = {''started'', ''ended'', ''turn_completed'', ''compaction_boundary'', ''activity''}"
  have s: "claude_event x = Inr y \<Longrightarrow> y \<in> E" "gemini_event x = Inr y \<Longrightarrow> y \<in> E" "copilot_event x = Inr y \<Longrightarrow> y \<in> E"
    "codex_event x = Inr y \<Longrightarrow> y \<in> E" "''activity'' \<in> E" for x y
    by (auto simp: E_def claude_event_def gemini_event_def copilot_event_def codex_event_def split: if_splits)
  have "k \<in> E"
    using l by (auto simp: lifecycle_of_def bind_check_ok hook_event_def copilot_notification_def codex_notification_def
        acp_notification_def s split: if_splits)
  moreover have "normalize format w source project workspace at version = Inr ev"
    using assms(1) by (simp add: normalize_def lifecycle_of_view[OF assms(2)])
  ultimately show ?thesis using t ev by (simp add: E_def)
qed

theorem lifecycle_import_is_metadata_only_witness:
  "\<exists>ev. normalize ''claude-hook'' (JObj [(''hook_event_name'', JStr ''Stop''), (''prompt'', JStr ''PRIVATE''), (''session_id'', JStr ''s'')] :: nat json)
       ''e'' ''p'' None 1 ''v1'' = Inr ev
     \<and> normalize ''claude-hook'' (JObj [(''hook_event_name'', JStr ''Stop''), (''session_id'', JStr ''s'')] :: nat json)
       ''e'' ''p'' None 1 ''v1'' = Inr ev \<and> le_event ev = ''turn_completed''"
proof -
  let ?v = "JObj [(''hook_event_name'', JStr ''Stop''), (''prompt'', JStr ''PRIVATE''), (''session_id'', JStr ''s'')] :: nat json"
  let ?w = "JObj [(''hook_event_name'', JStr ''Stop''), (''session_id'', JStr ''s'')] :: nat json"
  have vw: "lifecycle_view ?v = lifecycle_view ?w" by (simp add: lifecycle_view_def json_str_at_def json_str_ptr_def)
  have "hook_event claude_event ?v = Inr (''s'', ''turn_completed'')"
    by (simp add: hook_event_def json_str_at_def claude_event_def)
  then obtain ev where ev: "normalize ''claude-hook'' ?v ''e'' ''p'' None 1 ''v1'' = Inr ev" "le_event ev = ''turn_completed''"
    by (simp add: normalize_def lifecycle_of_def id_eval text_eval control_timestamp_def)
  from lifecycle_import_is_metadata_only[OF ev(1) vw] ev show ?thesis by blast
qed

end
