(* ===== verification/Wire.thy ===== *)
theory Wire
  imports Json
begin

text \<open>
  Content-Length framing (\<open>workstation-core/src/wire.rs\<close>): one frame is an ASCII header and a JSON
  body. The JSON printer and parser (serde_json) are arguments; bytes are the characters of a string.
\<close>

section \<open>Text of the standard library\<close>

text \<open>\<open>std::str::from_utf8\<close>: the well-formed byte sequences of the Unicode standard, table 3-7.\<close>

definition between :: "nat \<Rightarrow> nat \<Rightarrow> char \<Rightarrow> bool" where
  "between lo hi c \<longleftrightarrow> lo \<le> byte c \<and> byte c \<le> hi"

definition utf8_step :: "string \<Rightarrow> nat option" where
  "utf8_step s = (case s of [] \<Rightarrow> None | b # bs \<Rightarrow>
     (let c = (\<lambda>k lo hi. k < length bs \<and> between lo hi (bs ! k)) in
      if byte b < 128 then Some 1
      else if between 194 223 b \<and> c 0 128 191 then Some 2
      else if byte b = 224 \<and> c 0 160 191 \<and> c 1 128 191 then Some 3
      else if (between 225 236 b \<or> between 238 239 b) \<and> c 0 128 191 \<and> c 1 128 191 then Some 3
      else if byte b = 237 \<and> c 0 128 159 \<and> c 1 128 191 then Some 3
      else if byte b = 240 \<and> c 0 144 191 \<and> c 1 128 191 \<and> c 2 128 191 then Some 4
      else if between 241 243 b \<and> c 0 128 191 \<and> c 1 128 191 \<and> c 2 128 191 then Some 4
      else if byte b = 244 \<and> c 0 128 143 \<and> c 1 128 191 \<and> c 2 128 191 then Some 4
      else None))"

lemma utf8_step_pos: "utf8_step s = Some k \<Longrightarrow> 0 < k \<and> s \<noteq> []"
  by (auto simp: utf8_step_def Let_def split: list.splits if_splits)

function valid_utf8 :: "string \<Rightarrow> bool" where
  "valid_utf8 s = (if s = [] then True else case utf8_step s of None \<Rightarrow> False | Some k \<Rightarrow> valid_utf8 (drop k s))"
  by pat_completeness auto
termination
  by (relation "measure length") (auto dest: utf8_step_pos)

declare valid_utf8.simps [simp del]

text \<open>\<open>str::split\<close> at a non-empty separator.\<close>

function split_str :: "string \<Rightarrow> string \<Rightarrow> string list" where
  "split_str p s = (if p = [] then [s] else case split_once p s of None \<Rightarrow> [s] | Some (a, b) \<Rightarrow> a # split_str p b)"
  by pat_completeness auto
termination
  by (relation "measure (\<lambda>(p, s). length s)") (auto dest!: split_once_Some)

declare split_str.simps [simp del]

section \<open>Frames\<close>

definition HEADER_LIMIT :: nat where "HEADER_LIMIT = 4096"

definition FRAME_LIMIT :: nat where "FRAME_LIMIT = 256 * 1024"

definition USIZE :: nat where "USIZE = 2 ^ 64"

definition crlf :: string where "crlf = [CHR 0x0D, CHR 0x0A]"

definition encode :: "('n json \<Rightarrow> string option) \<Rightarrow> 'n json \<Rightarrow> string check" where
  "encode to_vec v =
     bind_check (ok_or (to_vec v) ''WIRE_JSON_ENCODING'') (\<lambda>b.
     if length b > FRAME_LIMIT then Inl ''WIRE_FRAME_LIMIT''
     else Inr (''Content-Length: '' @ show_nat (length b) @ crlf @ crlf @ b))"

definition parse_usize :: "string \<Rightarrow> nat option" where
  "parse_usize s = (case parse_digits s of None \<Rightarrow> None | Some n \<Rightarrow> if n < USIZE then Some n else None)"

definition header_line :: "nat option \<Rightarrow> string \<Rightarrow> nat option check" where
  "header_line len line =
     bind_check (ok_or (split_once '':'' line) ''WIRE_HEADER_INVALID'') (\<lambda>(k, v).
     if eq_ignore_ascii_case k ''Content-Length''
     then if len \<noteq> None \<or> trim v = [] \<or> \<not> list_all is_ascii_digit (trim v) then Inl ''WIRE_LENGTH_INVALID''
          else bind_check (ok_or (parse_usize (trim v)) ''WIRE_LENGTH_INVALID'') (\<lambda>n. Inr (Some n))
     else if \<not> eq_ignore_ascii_case k ''Content-Type'' then Inl ''WIRE_HEADER_UNSUPPORTED''
     else Inr len)"

fun header_lines :: "nat option \<Rightarrow> string list \<Rightarrow> nat option check" where
  "header_lines len [] = Inr len"
| "header_lines len (l # ls) = bind_check (header_line len l) (\<lambda>len'. header_lines len' ls)"

definition frame_body :: "(string \<Rightarrow> 'n json option) \<Rightarrow> string \<Rightarrow> 'n json check" where
  "frame_body from_slice b =
     bind_check (ok_or (from_slice b) ''WIRE_JSON_INVALID'') (\<lambda>v.
     if \<not> json_is_object v \<or> json_str_at v ''jsonrpc'' \<noteq> Some ''2.0'' then Inl ''WIRE_NOT_JSONRPC2'' else Inr v)"

definition decode :: "(string \<Rightarrow> 'n json option) \<Rightarrow> string \<Rightarrow> (nat \<times> 'n json) option check" where
  "decode from_slice bytes =
     (case split_once (crlf @ crlf) bytes of
        None \<Rightarrow> if length bytes > HEADER_LIMIT then Inl ''WIRE_HEADER_LIMIT'' else Inr None
      | Some (header, rest) \<Rightarrow>
          if length header > HEADER_LIMIT then Inl ''WIRE_HEADER_LIMIT''
          else if \<not> valid_utf8 header then Inl ''WIRE_HEADER_ENCODING''
          else bind_check (header_lines None (split_str crlf header)) (\<lambda>len.
            bind_check (ok_or len ''WIRE_LENGTH_MISSING'') (\<lambda>n.
            if n = 0 \<or> n > FRAME_LIMIT then Inl ''WIRE_FRAME_LIMIT''
            else let total = length header + 4 + n in
              if total \<ge> USIZE then Inl ''WIRE_LENGTH_INVALID''
              else if length bytes < total then Inr None
              else bind_check (frame_body from_slice (take n rest)) (\<lambda>v. Inr (Some (total, v))))))"

section \<open>Lemmas\<close>

lemma split_once_skip: "p \<noteq> [] \<Longrightarrow> hd p \<notin> set a \<Longrightarrow> split_once p (a @ s) = map_option (\<lambda>(x, y). (a @ x, y)) (split_once p s)"
proof (induction a)
  case (Cons c a)
  then have "\<not> prefix p (c # a @ s)" by (cases p) auto
  with Cons show ?case by (cases "split_once p s") auto
qed (auto simp: option.map_ident case_prod_beta' )

lemma split_once_here: "split_once p (p @ s) = Some ([], s)"
proof (cases "p @ s")
  case (Cons c t)
  then have "prefix p (c # t)" "drop (length p) (c # t) = s" by (metis prefixI, metis append_eq_conv_conj)
  with Cons show ?thesis by simp
qed simp

lemma split_once_first: "p \<noteq> [] \<Longrightarrow> hd p \<notin> set a \<Longrightarrow> split_once p (a @ p @ s) = Some (a, s)"
  by (simp add: split_once_skip split_once_here)

lemma split_once_short: "length s < length p \<Longrightarrow> split_once p s = None"
  by (induction s) (auto dest: prefix_length_le)

lemma valid_utf8_ascii: "list_all is_ascii s \<Longrightarrow> valid_utf8 s"
proof (induction s)
  case (Cons c s)
  then have "utf8_step (c # s) = Some 1" by (simp add: utf8_step_def is_ascii_def)
  with Cons show ?case by (subst valid_utf8.simps) simp
qed (subst valid_utf8.simps, simp)

lemma digit_ascii: "is_ascii_digit c \<Longrightarrow> is_ascii c"
  by (simp add: is_ascii_digit_def is_ascii_def)

lemma trim_digits:
  assumes "list_all is_ascii_digit s"
  shows "trim (CHR '' '' # s) = s"
proof -
  have nw: "\<not> is_whitespace (byte c)" if "c \<in> set s" for c
    using assms that by (auto simp: list_all_iff is_ascii_digit_def is_whitespace_def)
  have k: "utf8_split (CHR '' '' # s) = map (\<lambda>c. [c]) (CHR '' '' # s)"
    using assms by (intro utf8_split_ascii) (auto simp: list_all_iff is_ascii_def is_ascii_digit_def)
  have "dropWhile (\<lambda>k. is_whitespace (scalar k)) (map (\<lambda>c. [c]) s) = map (\<lambda>c. [c]) s"
    using nw by (cases s) auto
  moreover have "dropWhile (\<lambda>k. is_whitespace (scalar k)) (rev (map (\<lambda>c. [c]) s)) = rev (map (\<lambda>c. [c]) s)"
    using nw by (cases s rule: rev_cases) auto
  ultimately show ?thesis unfolding trim_def k by (simp add: is_whitespace_def concat_map_singleton)
qed

text \<open>The header that \<open>encode\<close> writes.\<close>

definition header_of :: "nat \<Rightarrow> string" where
  "header_of n = ''Content-Length: '' @ show_nat n"

lemma header_of_chars: "c \<in> set (header_of n) \<Longrightarrow> is_ascii c \<and> c \<noteq> CHR 0x0D"
  using show_nat_digits[of n]
  by (auto simp: header_of_def list_all_iff is_ascii_def is_ascii_digit_def)

lemma crlf_simps [simp]: "crlf @ crlf \<noteq> []" "hd (crlf @ crlf) = CHR 0x0D" "crlf \<noteq> []" "hd crlf = CHR 0x0D"
    "length (crlf @ crlf) = 4" "length crlf = 2"
  by (simp_all add: crlf_def)

lemma header_of_parses:
  assumes "n < USIZE"
  shows "valid_utf8 (header_of n)" "header_lines None (split_str crlf (header_of n)) = Inr (Some n)"
proof -
  show "valid_utf8 (header_of n)"
    using header_of_chars by (intro valid_utf8_ascii) (auto simp: list_all_iff)
  have "hd crlf \<notin> set (header_of n)" using header_of_chars by auto
  then have "split_once crlf (header_of n) = None"
    using split_once_skip[of crlf "header_of n" "[]"] by simp
  then have "split_str crlf (header_of n) = [header_of n]" by (subst split_str.simps) simp
  moreover have "split_once '':'' (header_of n) = Some (''Content-Length'', CHR '' '' # show_nat n)"
    by (simp add: header_of_def)
  ultimately show "header_lines None (split_str crlf (header_of n)) = Inr (Some n)"
    using show_nat_digits[of n] assms
    by (simp add: header_line_def trim_digits parse_usize_def)
qed

lemma length_show_nat: "n < 10 ^ k \<Longrightarrow> 0 < k \<Longrightarrow> length (show_nat n) \<le> k"
proof (induction k arbitrary: n)
  case (Suc k)
  show ?case
  proof (cases "n < 10")
    case False
    with Suc.prems have "n div 10 < 10 ^ k" "0 < k" by (auto intro!: gr0I)
    with Suc.IH[of "n div 10"] False show ?thesis by (subst show_nat.simps) simp
  qed (subst show_nat.simps, simp)
qed simp

lemma header_of_length: "n \<le> FRAME_LIMIT \<Longrightarrow> length (header_of n) \<le> 22"
  using length_show_nat[of n 6] by (simp add: header_of_def FRAME_LIMIT_def)

lemma frame_header_found:
  "split_once (crlf @ crlf) (header_of n @ crlf @ crlf @ b) = Some (header_of n, b)"
  using split_once_first[of "crlf @ crlf" "header_of n" b] header_of_chars by fastforce

lemma frame_header_cut:
  assumes "k < length (header_of n) + 4"
  shows "split_once (crlf @ crlf) (take k (header_of n @ crlf @ crlf @ b)) = None"
proof -
  have e: "take k (header_of n @ crlf @ crlf @ b)
      = take k (header_of n) @ take (k - length (header_of n)) (crlf @ crlf @ b)" by simp
  have "hd (crlf @ crlf) \<notin> set (take k (header_of n))" using header_of_chars by (auto dest!: in_set_takeD)
  moreover have "split_once (crlf @ crlf) (take (k - length (header_of n)) (crlf @ crlf @ b)) = None"
    using assms by (intro split_once_short) auto
  ultimately show ?thesis unfolding e by (simp add: split_once_skip del: take_append)
qed

lemma prefix_within: "length p \<le> length u \<Longrightarrow> prefix p (u @ x) \<longleftrightarrow> prefix p u"
  by (auto simp: prefix_append)

lemma split_once_stable: "split_once p s = Some (a, b) \<Longrightarrow> split_once p (a @ p @ c) = Some (a, c)"
proof (induction s arbitrary: a b)
  case Nil
  then show ?case by (cases c) (auto split: if_splits)
next
  case (Cons x s)
  show ?case
  proof (cases "prefix p (x # s)")
    case True
    with Cons.prems show ?thesis by (auto simp: split_once_here)
  next
    case False
    with Cons.prems obtain a' where a: "a = x # a'" "split_once p s = Some (a', b)" by auto
    have "s = a' @ p @ b" using split_once_Some[OF a(2)] .
    with False have "\<not> prefix p ((x # a' @ p) @ b)" by simp
    moreover have "length p \<le> length (x # a' @ p)" by simp
    ultimately have "\<not> prefix p ((x # a' @ p) @ c)" by (metis prefix_within)
    with a Cons.IH[OF a(2)] show ?thesis by simp
  qed
qed

section \<open>Properties\<close>

text \<open>
  C37: framing is a round trip and streams. If the JSON library reads back what it wrote, an encoded
  JSON-RPC 2.0 object decodes to itself whatever bytes follow, consuming exactly its own frame; and
  every proper prefix of the frame is an incomplete frame, never an error or another message.
\<close>

theorem frame_roundtrip:
  assumes "encode to_vec v = Inr frame" "to_vec v = Some b" "b \<noteq> []" "from_slice b = Some v"
    and "json_is_object v" "json_str_at v ''jsonrpc'' = Some ''2.0''"
  shows "decode from_slice (frame @ rest) = Inr (Some (length frame, v))
    \<and> (\<forall>k < length frame. decode from_slice (take k frame) = Inr None)"
proof -
  from assms(1,2) have f: "frame = header_of (length b) @ crlf @ crlf @ b" and n: "length b \<le> FRAME_LIMIT"
    by (auto simp: encode_def header_of_def split: if_splits)
  have u: "length b < USIZE" using n by (simp add: FRAME_LIMIT_def USIZE_def)
  note h = header_of_parses[OF u] and l = header_of_length[OF n]
  have total: "length (header_of (length b)) + 4 + length b < USIZE" "length (header_of (length b)) \<le> HEADER_LIMIT"
    using l n by (simp_all add: FRAME_LIMIT_def USIZE_def HEADER_LIMIT_def)
  have len: "length frame = length (header_of (length b)) + 4 + length b" unfolding f using crlf_simps by simp
  have body: "frame_body from_slice b = Inr v" using assms(4-6) by (simp add: frame_body_def)
  have d: "decode from_slice (header_of (length b) @ crlf @ crlf @ x) =
      (if length x < length b then Inr None
       else bind_check (frame_body from_slice (take (length b) x)) (\<lambda>v. Inr (Some (length frame, v))))" for x
    using total n h assms(3) unfolding decode_def frame_header_found len
    by (auto simp: Let_def not_le)
  have "decode from_slice (take k frame) = Inr None" if "k < length frame" for k
  proof (cases "k < length (header_of (length b)) + 4")
    case True
    then show ?thesis using l unfolding decode_def f frame_header_cut[OF True] by (simp add: HEADER_LIMIT_def)
  next
    case False
    then have "take k frame = header_of (length b) @ crlf @ crlf @ take (k - (length (header_of (length b)) + 4)) b"
      by (simp add: f eval_nat_numeral)
    moreover have "k - (length (header_of (length b)) + 4) < length b" using that False len by linarith
    ultimately show ?thesis using d by simp
  qed
  moreover have "decode from_slice (frame @ rest) = Inr (Some (length frame, v))"
    using d[of "b @ rest"] body by (simp add: f)
  ultimately show ?thesis by blast
qed

theorem frame_roundtrip_witness:
  "\<exists>frame. encode (\<lambda>_. Some ''{}'') (JObj [(''jsonrpc'', JStr ''2.0'')] :: nat json) = Inr frame
     \<and> decode (\<lambda>_. Some (JObj [(''jsonrpc'', JStr ''2.0'')] :: nat json)) (frame @ frame)
         = Inr (Some (length frame, JObj [(''jsonrpc'', JStr ''2.0'')]))"
proof -
  let ?v = "JObj [(''jsonrpc'', JStr ''2.0'')] :: nat json"
  obtain frame where f: "encode (\<lambda>_. Some ''{}'') ?v = Inr frame" by (simp add: encode_def FRAME_LIMIT_def)
  have "json_is_object ?v" "json_str_at ?v ''jsonrpc'' = Some ''2.0''" by (simp_all add: json_str_at_def)
  from frame_roundtrip[OF f refl _ refl this, of frame] f show ?thesis by blast
qed

text \<open>
  A decoded frame is bounded and self-contained. Its length is covered by the input and at most the
  header and frame limits together, it is a JSON-RPC 2.0 object, and the same bytes followed by anything
  else decode to the same frame, so no frame reads into the next one.
\<close>

theorem decoded_frame_is_self_contained:
  assumes "decode from_slice bytes = Inr (Some (t, v))"
  shows "t \<le> length bytes \<and> t \<le> 4096 + 4 + 262144 \<and> json_is_object v \<and> json_str_at v ''jsonrpc'' = Some ''2.0''
    \<and> decode from_slice (take t bytes @ rest) = Inr (Some (t, v))"
proof -
  from assms obtain header body n where s: "split_once (crlf @ crlf) bytes = Some (header, body)"
    and h: "length header \<le> HEADER_LIMIT" "valid_utf8 header" "header_lines None (split_str crlf header) = Inr (Some n)"
    and n: "n \<noteq> 0" "n \<le> FRAME_LIMIT" "t = length header + 4 + n" "t < USIZE" "t \<le> length bytes"
    and b: "frame_body from_slice (take n body) = Inr v"
    by (auto simp: decode_def bind_check_ok ok_or_ok Let_def not_le not_less split: option.splits if_splits)
  have bytes: "bytes = header @ (crlf @ crlf) @ body" using split_once_Some[OF s] .
  have l4: "length crlf = 2" by simp
  have body: "n \<le> length body" using n(3,5) unfolding bytes by simp
  have "take t bytes = header @ (crlf @ crlf) @ take n body" unfolding bytes n(3) by simp
  then have "split_once (crlf @ crlf) (take t bytes @ rest) = Some (header, take n body @ rest)"
    using split_once_stable[OF s, of "take n body @ rest"] by simp
  then have "decode from_slice (take t bytes @ rest) = Inr (Some (t, v))"
    unfolding decode_def using h n b body by (simp add: Let_def not_le)
  moreover from b have "json_is_object v" "json_str_at v ''jsonrpc'' = Some ''2.0''"
    by (auto simp: frame_body_def bind_check_ok split: if_splits)
  ultimately show ?thesis using n h(1) by (simp add: HEADER_LIMIT_def FRAME_LIMIT_def)
qed

theorem decoded_frame_is_self_contained_witness:
  "\<exists>t. decode (\<lambda>_. Some (JObj [(''jsonrpc'', JStr ''2.0'')] :: nat json)) (''Content-Length: 2'' @ crlf @ crlf @ ''{}'')
       = Inr (Some (t, JObj [(''jsonrpc'', JStr ''2.0'')])) \<and> t \<le> 266244"
proof -
  let ?v = "JObj [(''jsonrpc'', JStr ''2.0'')] :: nat json"
  have "show_nat 2 = ''2''" by (subst show_nat.simps) (simp add: char_of_def bit_0)
  then have f: "encode (\<lambda>_. Some ''{}'') ?v = Inr (''Content-Length: 2'' @ crlf @ crlf @ ''{}'')"
    by (simp add: encode_def FRAME_LIMIT_def numeral_2_eq_2)
  have "json_is_object ?v" "json_str_at ?v ''jsonrpc'' = Some ''2.0''" by (simp_all add: json_str_at_def)
  from frame_roundtrip[OF f refl _ refl this, of "[]"]
  obtain t where t: "decode (\<lambda>_. Some ?v) (''Content-Length: 2'' @ crlf @ crlf @ ''{}'') = Inr (Some (t, ?v))" by auto
  from decoded_frame_is_self_contained[OF t] t show ?thesis by auto
qed

end
