(* ===== verification/Discovery.thy ===== *)
theory Discovery
  imports Control Json "HOL-Library.Product_Lexorder"
begin

text \<open>
  Local, reference-only resource discovery (\<open>workstation-core/src/discovery.rs\<close>): the catalog and its
  validation, feedback, the bounded recommendation, and the research brief that may leave the machine.
\<close>

section \<open>Catalog and feedback\<close>

record capability =
  ca_id :: string
  ca_title :: string
  ca_kind :: string
  ca_source :: string
  ca_needs :: "string list"
  ca_platforms :: "string list"
  ca_cost :: string
  ca_privacy :: string
  ca_equivalence :: "string option"
  ca_purpose :: string
  ca_limitations :: "string list"
  ca_review_status :: string
  ca_review_revision :: string
  ca_reviewed_at :: int
  ca_fresh_for_seconds :: nat
  ca_license_scope :: string
  ca_adoption_mode :: string

record feedback =
  fb_id :: string
  fb_project_id :: string
  fb_resource_id :: string
  fb_need :: string
  fb_disposition :: string
  fb_until :: "int option"
  fb_outcome :: string
  fb_evidence_ref :: "string option"
  fb_revision :: "string option"
  fb_recorded_at :: int

record discovery_card =
  dc_resource_id :: string
  dc_title :: string
  dc_source :: string
  dc_kind :: string
  dc_why_now :: string
  dc_potential_benefit :: string
  dc_limitations :: "string list"
  dc_already_available :: "bool option"
  dc_compatibility :: string
  dc_freshness :: string
  dc_benefit_status :: string
  dc_next_step :: string
  dc_changes_authorized :: bool

definition capability_validate :: "capability \<Rightarrow> unit check" where
  "capability_validate c = checks
     [control_id (ca_id c),
      control_text (ca_title c) 128,
      safe_locator (ca_source c) False,
      control_text (ca_purpose c) 600,
      reject (ca_kind c \<notin> set [''existing_capability'', ''tool'', ''integration'', ''mcp_server'', ''skill'', ''workflow'',
        ''documentation'', ''reference_implementation'', ''dataset'', ''benchmark'']) ''RESOURCE_KIND_INVALID'',
      control_text (ca_review_revision c) 128,
      control_text (ca_license_scope c) 400,
      reject (trim (ca_title c) = [] \<or> trim (ca_purpose c) = [] \<or> trim (ca_license_scope c) = []
        \<or> trim (ca_review_revision c) = []) ''CATALOG_MEANINGFUL_METADATA_REQUIRED'',
      check_opt control_id (ca_equivalence c),
      reject (length (ca_platforms c) > 4
        \<or> list_ex (\<lambda>p. p \<notin> set [''windows'', ''linux'', ''macos'', ''platform_neutral'']) (ca_platforms c))
        ''PLATFORM_METADATA_INVALID'',
      control_lines (ca_needs c),
      control_lines (ca_limitations c),
      control_timestamp (ca_reviewed_at c),
      reject (ca_adoption_mode c \<noteq> ''reference_only'') ''NO_EXECUTABLE_CATALOG_ACTION'',
      reject (ca_review_status c \<notin> set [''reviewed'', ''unverified'', ''rejected'']
        \<or> ca_cost c \<notin> set [''free'', ''paid'', ''unknown'', ''not_applicable'']
        \<or> ca_privacy c \<notin> set [''local'', ''external'', ''unknown'']) ''CATALOG_STATUS_INVALID'',
      reject (ca_needs c = [] \<or> ca_limitations c = [] \<or> ca_fresh_for_seconds c = 0
        \<or> ca_fresh_for_seconds c > 31536000) ''CATALOG_METADATA_REQUIRED'']"

definition trial_text :: "string \<Rightarrow> unit check" where
  "trial_text v = checks [control_text v 512, reject (trim v = []) ''TRIAL_EVIDENCE_REQUIRED'']"

definition validate_feedback :: "feedback \<Rightarrow> unit check" where
  "validate_feedback f = checks
     [check_all control_id [fb_id f, fb_project_id f, fb_resource_id f, fb_need f],
      control_timestamp (fb_recorded_at f),
      check_opt control_timestamp (fb_until f),
      check_opt trial_text (fb_evidence_ref f),
      check_opt trial_text (fb_revision f),
      reject (fb_disposition f \<notin> set [''saved'', ''dismissed'', ''snoozed'', ''evaluated'', ''adopted'']) ''FEEDBACK_STATE'',
      reject (fb_disposition f = ''snoozed''
        \<and> \<not> (case fb_until f of None \<Rightarrow> False | Some t \<Rightarrow> t > fb_recorded_at f)) ''SNOOZE_TIME_REQUIRED'',
      reject (fb_outcome f \<noteq> ''not_recorded''
        \<and> (fb_disposition f \<noteq> ''evaluated'' \<or> fb_evidence_ref f = None \<or> fb_revision f = None)) ''TRIAL_EVIDENCE_REQUIRED'',
      reject (fb_outcome f \<notin> set [''not_recorded'', ''useful'', ''not_useful'', ''inconclusive'']) ''FEEDBACK_OUTCOME'']"

definition trim_end_matches :: "char \<Rightarrow> string \<Rightarrow> string" where
  "trim_end_matches c s = rev (dropWhile (\<lambda>x. x = c) (rev s))"

definition canonical_source :: "string \<Rightarrow> string" where
  "canonical_source source = (case split_once ''://'' source of
     None \<Rightarrow> source
   | Some (scheme, rest) \<Rightarrow>
       (case (case split_once ''/'' rest of None \<Rightarrow> (rest, []) | Some p \<Rightarrow> p) of (host, path) \<Rightarrow>
          to_ascii_lowercase scheme @ ''://'' @ to_ascii_lowercase host @ ''/'' @ trim_end_matches CHR ''/'' path))"

section \<open>Recommendation\<close>

fun catalog_check :: "string set \<Rightarrow> capability list \<Rightarrow> unit check" where
  "catalog_check ids [] = Inr ()"
| "catalog_check ids (c # cs) = bind_check (capability_validate c) (\<lambda>_.
     if ca_id c \<in> ids then Inl ''CATALOG_DUPLICATE'' else catalog_check (insert (ca_id c) ids) cs)"

definition excluded :: "focus \<Rightarrow> capability list \<Rightarrow> int \<Rightarrow> capability \<Rightarrow> bool" where
  "excluded focus catalog now c \<longleftrightarrow>
     ca_review_status c \<noteq> ''reviewed'' \<or> ca_reviewed_at c > now \<or> ca_id c \<in> set (foc_blocked focus)
     \<or> list_ex (\<lambda>a. ca_id a \<in> set (foc_blocked focus) \<and> canonical_source (ca_source a) = canonical_source (ca_source c)) catalog
     \<or> (foc_free_only focus \<and> ca_cost c = ''paid'') \<or> (foc_local_only focus \<and> ca_privacy c = ''external'')
     \<or> (ca_platforms c \<noteq> [] \<and> foc_platform focus \<notin> set (ca_platforms c) \<and> ''platform_neutral'' \<notin> set (ca_platforms c))"

text \<open>\<open>Iterator::max_by_key\<close> at the recording time and the identifier: the last of the greatest.\<close>

definition fb_le :: "feedback \<Rightarrow> feedback \<Rightarrow> bool" where
  "fb_le g f \<longleftrightarrow> (fb_recorded_at g, fb_id g) \<le> (fb_recorded_at f, fb_id f)"

definition latest_feedback :: "feedback list \<Rightarrow> feedback option" where
  "latest_feedback fs = foldl (\<lambda>best f. case best of None \<Rightarrow> Some f | Some g \<Rightarrow> if fb_le g f then Some f else best) None fs"

definition need_feedback :: "string \<Rightarrow> capability list \<Rightarrow> feedback list \<Rightarrow> int \<Rightarrow> capability \<Rightarrow> string \<Rightarrow> feedback option" where
  "need_feedback project catalog feedback now c need = latest_feedback (filter (\<lambda>f.
     fb_project_id f = project \<and> fb_need f = need \<and> fb_recorded_at f \<le> now
     \<and> list_ex (\<lambda>alias. ca_id alias = fb_resource_id f
          \<and> canonical_source (ca_source alias) = canonical_source (ca_source c)) catalog) feedback)"

definition declined :: "int \<Rightarrow> feedback option \<Rightarrow> bool" where
  "declined now f = (case f of None \<Rightarrow> False
     | Some f \<Rightarrow> fb_disposition f = ''dismissed''
         \<or> (fb_disposition f = ''snoozed'' \<and> (case fb_until f of None \<Rightarrow> False | Some t \<Rightarrow> t > now)))"

definition open_needs :: "string \<Rightarrow> focus \<Rightarrow> capability list \<Rightarrow> feedback list \<Rightarrow> int \<Rightarrow> capability \<Rightarrow> string list" where
  "open_needs project focus catalog feedback now c =
     filter (\<lambda>need. \<not> declined now (need_feedback project catalog feedback now c need))
       (sort (filter (\<lambda>n. n \<in> set (foc_needs focus)) (ca_needs c)))"

definition stale :: "int \<Rightarrow> capability \<Rightarrow> bool" where
  "stale now c \<longleftrightarrow> sub_i64 now (ca_reviewed_at c) > int (ca_fresh_for_seconds c)"

definition uncertain :: "focus \<Rightarrow> int \<Rightarrow> capability \<Rightarrow> bool" where
  "uncertain focus now c \<longleftrightarrow> (foc_free_only focus \<and> ca_cost c = ''unknown'')
     \<or> (foc_local_only focus \<and> ca_privacy c = ''unknown'') \<or> ca_platforms c = [] \<or> stale now c"

definition benefit :: "string \<Rightarrow> feedback list \<Rightarrow> int \<Rightarrow> capability \<Rightarrow> string \<Rightarrow> string" where
  "benefit project feedback now c need =
     (case latest_feedback (filter (\<lambda>f. fb_project_id f = project \<and> fb_resource_id f = ca_id c
          \<and> fb_need f = need \<and> fb_recorded_at f \<le> now) feedback) of
        None \<Rightarrow> ''potential_only''
      | Some f \<Rightarrow> if fb_disposition f = ''evaluated'' \<and> fb_revision f = Some (ca_review_revision c)
          then (if fb_outcome f = ''useful'' then ''observed_useful_here''
                else if fb_outcome f = ''not_useful'' then ''evaluated_not_useful_here'' else ''inconclusive_here'')
          else ''potential_only'')"

definition card_of :: "string \<Rightarrow> focus \<Rightarrow> feedback list \<Rightarrow> int \<Rightarrow> capability \<Rightarrow> string \<Rightarrow> discovery_card" where
  "card_of project focus feedback now c need =
     (let existing = ca_id c \<in> set (foc_existing focus); unknown = uncertain focus now c in
      \<lparr>dc_resource_id = ca_id c, dc_title = ca_title c, dc_source = ca_source c, dc_kind = ca_kind c,
       dc_why_now = ''Matches approved focus need '' @ need @ ''; evidence '' @ foc_evidence_ref focus,
       dc_potential_benefit = ca_purpose c, dc_limitations = ca_limitations c,
       dc_already_available = (if existing then Some True else None),
       dc_compatibility = (if unknown then ''needs_review'' else ''purpose_reviewed_runtime_not_certified''),
       dc_freshness = (if stale now c then ''stale'' else ''current_source_review''),
       dc_benefit_status = benefit project feedback now c need,
       dc_next_step = (if existing \<and> \<not> unknown then ''use_existing_reference'' else ''read_and_evaluate_without_activation''),
       dc_changes_authorized = False\<rparr>)"

type_synonym candidate = "(bool \<times> bool \<times> bool \<times> string) \<times> string \<times> string option \<times> discovery_card"

definition candidate_of :: "string \<Rightarrow> focus \<Rightarrow> capability list \<Rightarrow> feedback list \<Rightarrow> int \<Rightarrow> capability \<Rightarrow> candidate option" where
  "candidate_of project focus catalog feedback now c =
     (if excluded focus catalog now c then None
      else case open_needs project focus catalog feedback now c of
        [] \<Rightarrow> None
      | need # _ \<Rightarrow> Some ((uncertain focus now c, ca_id c \<notin> set (foc_existing focus), stale now c, ca_id c),
          canonical_source (ca_source c), ca_equivalence c, card_of project focus feedback now c need))"

fun pick_cards :: "string set \<Rightarrow> string set \<Rightarrow> nat \<Rightarrow> candidate list \<Rightarrow> discovery_card list" where
  "pick_cards seen equivalents k [] = []"
| "pick_cards seen equivalents k ((key, source, equivalent, shown) # cs) =
     (if source \<in> seen \<or> (case equivalent of None \<Rightarrow> False | Some e \<Rightarrow> e \<in> equivalents)
      then pick_cards seen equivalents k cs
      else shown # (if Suc k = 3 then []
        else pick_cards (insert source seen) (case equivalent of None \<Rightarrow> equivalents | Some e \<Rightarrow> insert e equivalents) (Suc k) cs))"

definition recommend ::
    "string \<Rightarrow> focus \<Rightarrow> capability list \<Rightarrow> feedback list \<Rightarrow> int \<Rightarrow> discovery_card list check" where
  "recommend project focus catalog feedback now =
     bind_check (checks
       [control_id project, control_timestamp now, control_lines (foc_needs focus),
        control_text (foc_evidence_ref focus) 256,
        reject (length catalog > 100 \<or> length feedback > 1000) ''DISCOVERY_LIMIT'']) (\<lambda>_.
     if foc_evidence_ref focus = [] \<or> foc_needs focus = [] then Inr []
     else bind_check (checks [catalog_check {} catalog, check_all validate_feedback feedback]) (\<lambda>_.
       Inr (pick_cards {} {} 0
         (sort_key fst (List.map_filter (candidate_of project focus catalog feedback now) catalog)))))"

section \<open>Candidates and the research brief\<close>

record candidate_input =
  ci_title :: string
  ci_kind :: string
  ci_source :: string
  ci_needs :: "string list"
  ci_purpose :: string
  ci_limitations :: "string list"

definition into_unverified :: "candidate_input \<Rightarrow> string \<Rightarrow> int \<Rightarrow> capability check" where
  "into_unverified self i now =
     (let c = \<lparr>ca_id = i, ca_title = ci_title self, ca_kind = ci_kind self, ca_source = ci_source self,
        ca_needs = ci_needs self, ca_platforms = [], ca_cost = ''unknown'', ca_privacy = ''unknown'',
        ca_equivalence = None, ca_purpose = ci_purpose self, ca_limitations = ci_limitations self,
        ca_review_status = ''unverified'', ca_review_revision = ''unreviewed'', ca_reviewed_at = now,
        ca_fresh_for_seconds = 30 * 86400, ca_license_scope = ''Unknown; must be reviewed per resource'',
        ca_adoption_mode = ''reference_only''\<rparr>
      in bind_check (capability_validate c) (\<lambda>_. Inr c))"

definition PUBLIC_NEEDS :: "string list" where
  "PUBLIC_NEEDS =
     [''accessibility_review'', ''context_runway'', ''continuity'', ''credential_hygiene'', ''credential_location'',
      ''current_documentation'', ''decision_context'', ''integration_debugging'', ''interface_review'',
      ''model_selection'', ''parallel_work'', ''quota_visibility'', ''reproducible_evaluation'', ''runtime_recovery'',
      ''session_navigation'', ''skill_discovery'', ''storage_attribution'']"

definition research_brief :: "focus \<Rightarrow> int json" where
  "research_brief focus = JObj
     [(''constraints'', JObj [(''free_only'', JBool (foc_free_only focus)), (''local_only'', JBool (foc_local_only focus))]),
      (''custom_needs_omitted'', JBool (list_ex (\<lambda>n. n \<notin> set PUBLIC_NEEDS) (foc_needs focus))),
      (''disclosure_status'', JStr ''review_required_no_export_or_agent_launch_performed''),
      (''max_candidates'', JNum 5),
      (''needs'', JArr (map JStr (filter (\<lambda>n. n \<in> set PUBLIC_NEEDS) (foc_needs focus)))),
      (''platform'', JStr (if foc_platform focus \<in> set [''windows'', ''linux'', ''macos''] then foc_platform focus else ''unknown'')),
      (''purpose'', JStr ''find_relevant_resources''),
      (''schema_version'', JNum 1)]"

section \<open>Lemmas\<close>

definition cand_source :: "candidate \<Rightarrow> string" where
  "cand_source x = fst (snd x)"

definition cand_classes :: "candidate \<Rightarrow> string list" where
  "cand_classes x = (case fst (snd (snd x)) of None \<Rightarrow> [] | Some e \<Rightarrow> [e])"

definition cand_card :: "candidate \<Rightarrow> discovery_card" where
  "cand_card x = snd (snd (snd x))"

lemma pick_cards_greedy:
  assumes "k < 3"
  shows "\<exists>ys. subseq ys cs \<and> pick_cards seen eqs k cs = map cand_card ys
     \<and> distinct (map cand_source ys) \<and> cand_source ` set ys \<inter> seen = {}
     \<and> distinct (concat (map cand_classes ys)) \<and> set (concat (map cand_classes ys)) \<inter> eqs = {}
     \<and> length ys + k \<le> 3
     \<and> (length ys + k < 3 \<longrightarrow> (\<forall>x \<in> set cs. cand_source x \<in> seen \<union> cand_source ` set ys
          \<or> set (cand_classes x) \<inter> (eqs \<union> set (concat (map cand_classes ys))) \<noteq> {}))"
  using assms
proof (induction cs arbitrary: seen eqs k)
  case Nil
  then show ?case by (intro exI[of _ "[]"]) simp
next
  case (Cons x cs)
  obtain key src eqv shown where x: "x = (key, src, eqv, shown)" by (cases x) auto
  show ?case
  proof (cases "src \<in> seen \<or> (case eqv of None \<Rightarrow> False | Some e \<Rightarrow> e \<in> eqs)")
    case True
    from Cons.IH[OF Cons.prems, of seen eqs] obtain ys where ys: "subseq ys cs" "pick_cards seen eqs k cs = map cand_card ys"
      "distinct (map cand_source ys)" "cand_source ` set ys \<inter> seen = {}" "distinct (concat (map cand_classes ys))"
      "set (concat (map cand_classes ys)) \<inter> eqs = {}" "length ys + k \<le> 3"
      "length ys + k < 3 \<longrightarrow> (\<forall>x \<in> set cs. cand_source x \<in> seen \<union> cand_source ` set ys
          \<or> set (cand_classes x) \<inter> (eqs \<union> set (concat (map cand_classes ys))) \<noteq> {})" by blast
    have "cand_source x \<in> seen \<or> set (cand_classes x) \<inter> eqs \<noteq> {}"
      using True by (auto simp: x cand_source_def cand_classes_def split: option.splits)
    with ys True show ?thesis by (intro exI[of _ ys]) (auto simp: x)
  next
    case new: False
    let ?eqs = "case eqv of None \<Rightarrow> eqs | Some e \<Rightarrow> insert e eqs"
    show ?thesis
    proof (cases "Suc k = 3")
      case True
      with new show ?thesis
        by (intro exI[of _ "[x]"]) (auto simp: x cand_source_def cand_classes_def cand_card_def split: option.splits)
    next
      case False
      with Cons.prems have "Suc k < 3" by simp
      from Cons.IH[OF this, of "insert src seen" ?eqs] obtain ys where ys: "subseq ys cs"
        "pick_cards (insert src seen) ?eqs (Suc k) cs = map cand_card ys"
        "distinct (map cand_source ys)" "cand_source ` set ys \<inter> insert src seen = {}" "distinct (concat (map cand_classes ys))"
        "set (concat (map cand_classes ys)) \<inter> ?eqs = {}" "length ys + Suc k \<le> 3"
        "length ys + Suc k < 3 \<longrightarrow> (\<forall>x \<in> set cs. cand_source x \<in> insert src seen \<union> cand_source ` set ys
            \<or> set (cand_classes x) \<inter> (?eqs \<union> set (concat (map cand_classes ys))) \<noteq> {})" by blast
      have c: "set (cand_classes x) \<union> eqs = ?eqs" "distinct (cand_classes x)" "set (cand_classes x) \<inter> eqs = {}"
        using new by (auto simp: x cand_classes_def split: option.splits)
      have s: "cand_source x = src" by (simp add: x cand_source_def)
      have e: "eqs \<union> set (concat (map cand_classes (x # ys))) = ?eqs \<union> set (concat (map cand_classes ys))"
        using c(1) by auto
      have p: "pick_cards seen eqs k (x # cs) = map cand_card (x # ys)"
        using new False ys(2) by (simp add: x cand_card_def)
      have d: "distinct (concat (map cand_classes (x # ys)))" "set (concat (map cand_classes (x # ys))) \<inter> eqs = {}"
        using ys(5,6) c by auto
      have cover: "\<forall>y \<in> set (x # cs). cand_source y \<in> seen \<union> cand_source ` set (x # ys)
          \<or> set (cand_classes y) \<inter> (eqs \<union> set (concat (map cand_classes (x # ys)))) \<noteq> {}" if "length (x # ys) + k < 3"
        unfolding e using ys(8) that s by auto
      show ?thesis
        by (intro exI[of _ "x # ys"] conjI p d) (use ys new s cover in \<open>auto simp: x\<close>)
    qed
  qed
qed

lemma catalog_check_ok: "catalog_check ids cs = Inr u \<Longrightarrow> distinct (map ca_id cs) \<and> (\<forall>c \<in> set cs. capability_validate c = Inr ())"
proof -
  have "catalog_check ids cs = Inr u \<Longrightarrow> distinct (map ca_id cs) \<and> ca_id ` set cs \<inter> ids = {} \<and> (\<forall>c \<in> set cs. capability_validate c = Inr ())"
    by (induction cs arbitrary: ids) (auto simp: bind_check_ok split: if_splits)
  then show "catalog_check ids cs = Inr u \<Longrightarrow> ?thesis" by blast
qed

lemma candidate_of_Some:
  "candidate_of project focus catalog feedback now c = Some x \<longleftrightarrow> \<not> excluded focus catalog now c
     \<and> (\<exists>need rest. open_needs project focus catalog feedback now c = need # rest
          \<and> x = ((uncertain focus now c, ca_id c \<notin> set (foc_existing focus), stale now c, ca_id c),
             canonical_source (ca_source c), ca_equivalence c, card_of project focus feedback now c need))"
  by (auto simp: candidate_of_def split: list.splits)

lemma candidate_fields:
  assumes "candidate_of project focus catalog feedback now c = Some x"
  shows "cand_source x = canonical_source (ca_source c)" "dc_resource_id (cand_card x) = ca_id c"
    "dc_source (cand_card x) = ca_source c" "set (cand_classes x) = set_option (ca_equivalence c)"
    "\<not> dc_changes_authorized (cand_card x)"
  using assms by (auto simp: candidate_of_Some cand_source_def cand_card_def cand_classes_def card_of_def Let_def split: option.splits)

section \<open>Properties\<close>

text \<open>A resource that may be recommended: reviewed, permitted by the focus, and wanted for an open need.\<close>

definition admissible :: "string \<Rightarrow> focus \<Rightarrow> capability list \<Rightarrow> feedback list \<Rightarrow> int \<Rightarrow> capability \<Rightarrow> bool" where
  "admissible project focus catalog feedback now c \<longleftrightarrow> c \<in> set catalog
     \<and> ca_review_status c = ''reviewed'' \<and> ca_reviewed_at c \<le> now
     \<and> (\<forall>a \<in> set catalog. canonical_source (ca_source a) = canonical_source (ca_source c) \<longrightarrow> ca_id a \<notin> set (foc_blocked focus))
     \<and> (foc_free_only focus \<longrightarrow> ca_cost c \<noteq> ''paid'') \<and> (foc_local_only focus \<longrightarrow> ca_privacy c \<noteq> ''external'')
     \<and> (ca_platforms c = [] \<or> foc_platform focus \<in> set (ca_platforms c) \<or> ''platform_neutral'' \<in> set (ca_platforms c))
     \<and> (\<exists>need \<in> set (ca_needs c) \<inter> set (foc_needs focus).
          \<not> declined now (need_feedback project catalog feedback now c need))"

lemma distinct_concat_disjoint:
  "distinct (concat (map g ys)) \<Longrightarrow> x \<in> set ys \<Longrightarrow> y \<in> set ys \<Longrightarrow> x \<noteq> y \<Longrightarrow> set (g x) \<inter> set (g y) = {}"
  by (induction ys) auto

lemma admissible_candidate:
  assumes "c \<in> set catalog"
  shows "admissible project focus catalog feedback now c \<longleftrightarrow> candidate_of project focus catalog feedback now c \<noteq> None"
proof -
  have "candidate_of project focus catalog feedback now c \<noteq> None \<longleftrightarrow>
      \<not> excluded focus catalog now c \<and> open_needs project focus catalog feedback now c \<noteq> []"
    by (simp add: candidate_of_def split: list.split)
  moreover have "open_needs project focus catalog feedback now c \<noteq> [] \<longleftrightarrow> (\<exists>need \<in> set (ca_needs c) \<inter> set (foc_needs focus).
          \<not> declined now (need_feedback project catalog feedback now c need))"
    by (auto simp: open_needs_def filter_empty_conv)
  moreover have "\<not> excluded focus catalog now c \<longleftrightarrow> ca_review_status c = ''reviewed'' \<and> ca_reviewed_at c \<le> now
     \<and> (\<forall>a \<in> set catalog. canonical_source (ca_source a) = canonical_source (ca_source c) \<longrightarrow> ca_id a \<notin> set (foc_blocked focus))
     \<and> (foc_free_only focus \<longrightarrow> ca_cost c \<noteq> ''paid'') \<and> (foc_local_only focus \<longrightarrow> ca_privacy c \<noteq> ''external'')
     \<and> (ca_platforms c = [] \<or> foc_platform focus \<in> set (ca_platforms c) \<or> ''platform_neutral'' \<in> set (ca_platforms c))"
    using assms by (auto simp: excluded_def list_ex_iff)
  ultimately show ?thesis using assms unfolding admissible_def by blast
qed

text \<open>
  A recommendation is admissible, bounded and exhaustive. At most three cards are shown, each for an
  admissible resource of the catalog, from different sources and different equivalence classes, and none
  authorises a change; and when fewer than three are shown, every admissible resource shares its source
  or its class with a shown one.
\<close>

theorem recommendation_is_admissible_and_exhaustive:
  assumes "recommend project focus catalog feedback now = Inr cards" "foc_evidence_ref focus \<noteq> []" "foc_needs focus \<noteq> []"
  shows "\<exists>shown. length shown \<le> 3 \<and> map dc_resource_id cards = map ca_id shown \<and> map dc_source cards = map ca_source shown
    \<and> (\<forall>c \<in> set shown. admissible project focus catalog feedback now c)
    \<and> (\<forall>card \<in> set cards. \<not> dc_changes_authorized card)
    \<and> distinct (map (\<lambda>c. canonical_source (ca_source c)) shown)
    \<and> (\<forall>c \<in> set shown. \<forall>d \<in> set shown. c \<noteq> d \<longrightarrow> set_option (ca_equivalence c) \<inter> set_option (ca_equivalence d) = {})
    \<and> (length shown < 3 \<longrightarrow> (\<forall>c. admissible project focus catalog feedback now c \<longrightarrow>
         (\<exists>d \<in> set shown. canonical_source (ca_source c) = canonical_source (ca_source d)
            \<or> set_option (ca_equivalence c) \<inter> set_option (ca_equivalence d) \<noteq> {})))"
proof -
  let ?cand = "candidate_of project focus catalog feedback now"
  let ?cs = "sort_key fst (List.map_filter ?cand catalog)"
  from assms have cards: "cards = pick_cards {} {} 0 ?cs"
    by (auto simp: recommend_def bind_check_ok split: if_splits)
  obtain ys where sub: "subseq ys ?cs" and ys: "cards = map cand_card ys" "distinct (map cand_source ys)"
      "distinct (concat (map cand_classes ys))" "length ys \<le> 3"
    and cover: "length ys < 3 \<longrightarrow> (\<forall>x \<in> set ?cs. cand_source x \<in> cand_source ` set ys
          \<or> set (cand_classes x) \<inter> set (concat (map cand_classes ys)) \<noteq> {})"
    using pick_cards_greedy[of 0 ?cs "{}" "{}"] unfolding cards[symmetric] by auto
  have cs: "set ?cs = {x. \<exists>c \<in> set catalog. ?cand c = Some x}"
    by (auto simp: map_filter_def image_iff) force+
  have "set ys \<subseteq> set ?cs" by (auto elim: list_emb_set[OF sub])
  then have "\<forall>y \<in> set ys. \<exists>c. c \<in> set catalog \<and> ?cand c = Some y" unfolding cs by blast
  then obtain f where f: "\<And>y. y \<in> set ys \<Longrightarrow> f y \<in> set catalog \<and> ?cand (f y) = Some y" by metis
  let ?shown = "map f ys"
  have fields: "cand_source y = canonical_source (ca_source (f y))" "dc_resource_id (cand_card y) = ca_id (f y)"
    "dc_source (cand_card y) = ca_source (f y)" "set (cand_classes y) = set_option (ca_equivalence (f y))"
    "\<not> dc_changes_authorized (cand_card y)" if "y \<in> set ys" for y
    using candidate_fields[OF conjunct2[OF f[OF that]]] by simp_all
  have maps: "map dc_resource_id cards = map ca_id ?shown" "map dc_source cards = map ca_source ?shown"
    "map (\<lambda>c. canonical_source (ca_source c)) ?shown = map cand_source ys"
    using fields by (auto simp: ys(1))
  have adm: "admissible project focus catalog feedback now c" if "c \<in> set ?shown" for c
    using that f admissible_candidate by fastforce
  have classes: "set_option (ca_equivalence (f x)) \<inter> set_option (ca_equivalence (f y)) = {}"
    if "x \<in> set ys" "y \<in> set ys" "f x \<noteq> f y" for x y
  proof -
    have "x \<noteq> y" using that(3) by blast
    then have "set (cand_classes x) \<inter> set (cand_classes y) = {}"
      by (rule distinct_concat_disjoint[OF ys(3) that(1,2)])
    with that fields show ?thesis by simp
  qed
  have shared: "\<exists>d \<in> set ?shown. canonical_source (ca_source c) = canonical_source (ca_source d)
            \<or> set_option (ca_equivalence c) \<inter> set_option (ca_equivalence d) \<noteq> {}"
    if few: "length ?shown < 3" and a: "admissible project focus catalog feedback now c" for c
  proof -
    have c: "c \<in> set catalog" using a by (simp add: admissible_def)
    then obtain x where x: "?cand c = Some x" using a admissible_candidate by blast
    note fx = candidate_fields[OF x]
    from x c have "x \<in> set ?cs" unfolding cs by blast
    with cover few have "cand_source x \<in> cand_source ` set ys \<or> (\<exists>y \<in> set ys. set (cand_classes x) \<inter> set (cand_classes y) \<noteq> {})"
      by auto
    with fx fields show ?thesis by fastforce
  qed
  show ?thesis
  proof (intro exI[of _ ?shown] conjI)
    show "\<forall>c \<in> set ?shown. \<forall>d \<in> set ?shown. c \<noteq> d \<longrightarrow> set_option (ca_equivalence c) \<inter> set_option (ca_equivalence d) = {}"
      using classes by auto
    show "\<forall>card \<in> set cards. \<not> dc_changes_authorized card" using fields ys(1) by auto
    show "distinct (map (\<lambda>c. canonical_source (ca_source c)) ?shown)" unfolding maps(3) by (rule ys(2))
  qed (use ys(4) maps adm shared in simp_all)
qed

definition sample_capability :: capability where
  "sample_capability = \<lparr>ca_id = ''c'', ca_title = ''t'', ca_kind = ''tool'', ca_source = ''https://example.org/a'',
     ca_needs = [''n''], ca_platforms = [''linux''], ca_cost = ''free'', ca_privacy = ''local'', ca_equivalence = None,
     ca_purpose = ''p'', ca_limitations = [''l''], ca_review_status = ''reviewed'', ca_review_revision = ''1'',
     ca_reviewed_at = 10, ca_fresh_for_seconds = 100, ca_license_scope = ''x'', ca_adoption_mode = ''reference_only''\<rparr>"

definition sample_focus :: focus where
  "sample_focus = \<lparr>foc_needs = [''n''], foc_free_only = True, foc_local_only = True, foc_platform = ''linux'',
     foc_existing = [], foc_blocked = [], foc_evidence_ref = ''e''\<rparr>"

lemma sample_capability_ok: "capability_validate sample_capability = Inr ()"
  by (simp add: capability_validate_def sample_capability_def id_eval text_eval safe_locator_def split_char_def
      control_lines_def control_timestamp_def)

theorem recommendation_is_admissible_and_exhaustive_witness:
  "\<exists>card. recommend ''p'' sample_focus [sample_capability] [] 20 = Inr [card] \<and> dc_resource_id card = ''c''
     \<and> \<not> dc_changes_authorized card"
proof -
  have n: "candidate_of ''p'' sample_focus [sample_capability] [] 20 sample_capability \<noteq> None"
    unfolding candidate_of_def open_needs_def excluded_def need_feedback_def
    by (simp add: sample_capability_def sample_focus_def latest_feedback_def declined_def)
  then obtain x where x: "candidate_of ''p'' sample_focus [sample_capability] [] 20 sample_capability = Some x" by blast
  obtain k1 k2 k3 k4 src eqv shown where d: "x = ((k1, k2, k3, k4), src, eqv, shown)" by (cases x) auto
  have c: "checks [control_id ''p'', control_timestamp 20, control_lines (foc_needs sample_focus),
      control_text (foc_evidence_ref sample_focus) 256, reject False ''DISCOVERY_LIMIT''] = Inr ()"
    by (simp add: sample_focus_def id_eval text_eval control_lines_def control_timestamp_def)
  have "foc_evidence_ref sample_focus \<noteq> []" "foc_needs sample_focus \<noteq> []" by (simp_all add: sample_focus_def)
  then have "recommend ''p'' sample_focus [sample_capability] [] 20 = Inr [shown]"
    using c by (cases eqv; simp add: recommend_def sample_capability_ok x[unfolded d] map_filter_def)
  moreover have "foc_evidence_ref sample_focus \<noteq> []" "foc_needs sample_focus \<noteq> []" by (simp_all add: sample_focus_def)
  ultimately obtain sh where "map dc_resource_id [shown] = map ca_id sh"
      "\<forall>c \<in> set sh. admissible ''p'' sample_focus [sample_capability] [] 20 c" "\<not> dc_changes_authorized shown"
    and r: "recommend ''p'' sample_focus [sample_capability] [] 20 = Inr [shown]"
    using recommendation_is_admissible_and_exhaustive[of "''p''" sample_focus "[sample_capability]" "[]" 20 "[shown]"]
    by (metis list.set_intros(1))
  then have "dc_resource_id shown = ''c''" "\<not> dc_changes_authorized shown"
    by (auto simp: admissible_def sample_capability_def)
  with r show ?thesis by blast
qed

text \<open>
  The research brief discloses only public facts. Two focuses with the same public needs, the same
  constraints, the same recognised platform, and that both do or both do not have a custom need, have
  the same brief: custom needs, evidence, inventory and blocks never leave with it. And a candidate
  enters the catalog unverified and reference-only, whatever its input says.
\<close>

theorem brief_discloses_only_public_facts:
  assumes "filter (\<lambda>n. n \<in> set PUBLIC_NEEDS) (foc_needs f) = filter (\<lambda>n. n \<in> set PUBLIC_NEEDS) (foc_needs g)"
    and "(\<exists>n \<in> set (foc_needs f). n \<notin> set PUBLIC_NEEDS) \<longleftrightarrow> (\<exists>n \<in> set (foc_needs g). n \<notin> set PUBLIC_NEEDS)"
    and "foc_free_only f = foc_free_only g" "foc_local_only f = foc_local_only g"
    and "foc_platform f = foc_platform g \<or> foc_platform f \<notin> {''windows'', ''linux'', ''macos''}
           \<and> foc_platform g \<notin> {''windows'', ''linux'', ''macos''}"
  shows "research_brief f = research_brief g
    \<and> (into_unverified c i now = Inr cap \<longrightarrow> ca_review_status cap = ''unverified'' \<and> ca_adoption_mode cap = ''reference_only''
         \<and> ca_id cap = i \<and> capability_validate cap = Inr ())"
proof -
  have "research_brief f = research_brief g"
    using assms unfolding research_brief_def list_ex_iff by (simp del: set_simps) auto
  then show ?thesis by (auto simp: into_unverified_def Let_def bind_check_ok)
qed

theorem brief_discloses_only_public_facts_witness:
  "research_brief (sample_focus\<lparr>foc_needs := [''private'', ''continuity''], foc_evidence_ref := ''secret''\<rparr>)
     = research_brief (sample_focus\<lparr>foc_needs := [''continuity'', ''other''], foc_blocked := [''x'']\<rparr>)"
proof -
  have p: "''continuity'' \<in> set PUBLIC_NEEDS" "''private'' \<notin> set PUBLIC_NEEDS" "''other'' \<notin> set PUBLIC_NEEDS"
    by (simp_all add: PUBLIC_NEEDS_def)
  show ?thesis
    by (rule brief_discloses_only_public_facts[THEN conjunct1]) (simp_all add: p)
qed

end
