(* ===== verification/F64.thy ===== *)
theory F64
  imports Complex_Main "HOL-Library.Log_Nat"
begin

text \<open>
  Rust's \<open>f64\<close>: IEEE 754 binary64 with round to nearest, ties to even. A finite value is an exact
  rational with the sign its zero would have; every arithmetic operation computes exactly and rounds
  once. Library functions beyond the standard arithmetic (\<open>powf\<close>) stay arguments.
\<close>

datatype f64 = NaN | Infinite bool | Finite bool rat

section \<open>Rounding\<close>

definition log2_floor :: "rat \<Rightarrow> int" where
  "log2_floor x = (if x \<ge> 1 then int (floorlog 2 (nat \<lfloor>x\<rfloor>)) - 1 else - int (floorlog 2 (nat (\<lceil>1 / x\<rceil> - 1))))"

definition round_even :: "rat \<Rightarrow> int" where
  "round_even q = (let f = \<lfloor>q\<rfloor>; d = q - of_int f in
     if d < 1 / 2 then f else if d > 1 / 2 then f + 1 else if even f then f else f + 1)"

definition round_abs :: "rat \<Rightarrow> rat" where
  "round_abs x = (let u = 2 powi (max (log2_floor x) (-1022) - 52) in of_int (round_even (x / u)) * u)"

definition round64 :: "bool \<Rightarrow> rat \<Rightarrow> f64" where
  "round64 s r =
     (if r = 0 then Finite s 0
      else let v = round_abs \<bar>r\<bar> in
        if v \<ge> 2 ^ 1024 then Infinite (r < 0) else Finite (r < 0) (if r < 0 then - v else v))"

definition f_lit :: "rat \<Rightarrow> f64" where
  "f_lit r = round64 False r"

definition f_of_int :: "int \<Rightarrow> f64" where
  "f_of_int i = round64 False (of_int i)"

section \<open>Comparison\<close>

definition f_is_finite :: "f64 \<Rightarrow> bool" where
  "f_is_finite x = (case x of Finite _ _ \<Rightarrow> True | _ \<Rightarrow> False)"

fun f_lt :: "f64 \<Rightarrow> f64 \<Rightarrow> bool" where
  "f_lt NaN _ = False"
| "f_lt _ NaN = False"
| "f_lt (Infinite a) (Infinite b) = (a \<and> \<not> b)"
| "f_lt (Infinite a) (Finite _ _) = a"
| "f_lt (Finite _ _) (Infinite b) = (\<not> b)"
| "f_lt (Finite _ v) (Finite _ w) = (v < w)"

fun f_eq :: "f64 \<Rightarrow> f64 \<Rightarrow> bool" where
  "f_eq (Infinite a) (Infinite b) = (a = b)"
| "f_eq (Finite _ v) (Finite _ w) = (v = w)"
| "f_eq _ _ = False"

definition f_le :: "f64 \<Rightarrow> f64 \<Rightarrow> bool" where
  "f_le x y \<longleftrightarrow> f_lt x y \<or> f_eq x y"

text \<open>\<open>f64::total_cmp\<close> on values that are not NaN: the numeric order, with \<open>-0.0\<close> before \<open>0.0\<close>.\<close>

definition f_rank :: "f64 \<Rightarrow> int \<times> rat \<times> int" where
  "f_rank x = (case x of NaN \<Rightarrow> (2, 0, 0) | Infinite neg \<Rightarrow> (if neg then (-1, 0, 0) else (1, 0, 0))
     | Finite s v \<Rightarrow> (0, v, if v = 0 \<and> s then 0 else 1))"

section \<open>Arithmetic\<close>

fun f_neg_bit :: "f64 \<Rightarrow> bool" where
  "f_neg_bit NaN = False"
| "f_neg_bit (Infinite a) = a"
| "f_neg_bit (Finite s v) = (if v = 0 then s else v < 0)"

fun f_neg :: "f64 \<Rightarrow> f64" where
  "f_neg NaN = NaN"
| "f_neg (Infinite a) = Infinite (\<not> a)"
| "f_neg (Finite s v) = Finite (\<not> s) (- v)"

fun f_add :: "f64 \<Rightarrow> f64 \<Rightarrow> f64" where
  "f_add NaN _ = NaN"
| "f_add _ NaN = NaN"
| "f_add (Infinite a) (Infinite b) = (if a = b then Infinite a else NaN)"
| "f_add (Infinite a) (Finite _ _) = Infinite a"
| "f_add (Finite _ _) (Infinite b) = Infinite b"
| "f_add (Finite s v) (Finite t w) = round64 (f_neg_bit (Finite s v) \<and> f_neg_bit (Finite t w)) (v + w)"

definition f_sub :: "f64 \<Rightarrow> f64 \<Rightarrow> f64" where
  "f_sub x y = f_add x (f_neg y)"

fun f_mul :: "f64 \<Rightarrow> f64 \<Rightarrow> f64" where
  "f_mul NaN _ = NaN"
| "f_mul _ NaN = NaN"
| "f_mul (Infinite a) (Infinite b) = Infinite (a \<noteq> b)"
| "f_mul (Infinite a) (Finite t w) = (if w = 0 then NaN else Infinite (a \<noteq> (w < 0)))"
| "f_mul (Finite s v) (Infinite b) = (if v = 0 then NaN else Infinite ((v < 0) \<noteq> b))"
| "f_mul (Finite s v) (Finite t w) = round64 (f_neg_bit (Finite s v) \<noteq> f_neg_bit (Finite t w)) (v * w)"

fun f_div :: "f64 \<Rightarrow> f64 \<Rightarrow> f64" where
  "f_div NaN _ = NaN"
| "f_div _ NaN = NaN"
| "f_div (Infinite a) (Infinite b) = NaN"
| "f_div (Infinite a) (Finite t w) = Infinite (a \<noteq> f_neg_bit (Finite t w))"
| "f_div (Finite s v) (Infinite b) = Finite (f_neg_bit (Finite s v) \<noteq> b) 0"
| "f_div (Finite s v) (Finite t w) =
     (if w = 0 then if v = 0 then NaN else Infinite (f_neg_bit (Finite s v) \<noteq> f_neg_bit (Finite t w))
      else round64 (f_neg_bit (Finite s v) \<noteq> f_neg_bit (Finite t w)) (v / w))"

text \<open>\<open>f64::max\<close>: a NaN operand is ignored.\<close>

definition f_max :: "f64 \<Rightarrow> f64 \<Rightarrow> f64" where
  "f_max x y = (if x = NaN then y else if y = NaN then x else if f_lt x y then y else x)"

section \<open>Lemmas\<close>

lemma round_even_bounds: "\<lfloor>q\<rfloor> \<le> round_even q \<and> round_even q \<le> \<lfloor>q\<rfloor> + 1"
  by (simp add: round_even_def Let_def)

lemma round_even_nonneg: "0 \<le> q \<Longrightarrow> 0 \<le> round_even q"
  using round_even_bounds[of q] by (smt (verit) zero_le_floor)

lemma round_even_close: "\<bar>of_int (round_even q) - q\<bar> \<le> (1 / 2 :: rat)"
proof -
  have "of_int \<lfloor>q\<rfloor> \<le> q" "q < of_int \<lfloor>q\<rfloor> + 1" by linarith+
  then show ?thesis unfolding round_even_def Let_def abs_if by (simp; linarith)
qed

lemma round_even_mono: "p \<le> q \<Longrightarrow> round_even p \<le> round_even q"
proof -
  assume le: "p \<le> q"
  have f: "\<lfloor>p\<rfloor> \<le> \<lfloor>q\<rfloor>" using le by (rule floor_mono)
  show ?thesis
  proof (cases "\<lfloor>p\<rfloor> = \<lfloor>q\<rfloor>")
    case True
    with le show ?thesis by (auto simp: round_even_def Let_def)
  next
    case False
    with f round_even_bounds[of p] round_even_bounds[of q] show ?thesis by linarith
  qed
qed

lemma round_even_of_int [simp]: "round_even (of_int i) = i"
  by (simp add: round_even_def)

lemma round_abs_nonneg: "0 \<le> x \<Longrightarrow> 0 \<le> round_abs x"
  unfolding round_abs_def Let_def
  by (intro mult_nonneg_nonneg) (simp_all add: round_even_nonneg zero_le_power_int)

text \<open>Rounding never changes a sign.\<close>

lemma round64_sign:
  "0 \<le> r \<Longrightarrow> \<not> f_lt (round64 s r) (Finite t 0)"
  "r \<le> 0 \<Longrightarrow> \<not> f_lt (Finite t 0) (round64 s r)"
  using round_abs_nonneg[of "\<bar>r\<bar>"] by (auto simp: round64_def Let_def)

lemma round64_not_NaN [simp]: "round64 s r \<noteq> NaN"
  by (simp add: round64_def Let_def)

lemma f_lt_irrefl [simp]: "\<not> f_lt x x"
  by (cases x) auto

lemma f_lt_trans: "f_lt x y \<Longrightarrow> f_lt y z \<Longrightarrow> f_lt x z"
  by (cases x; cases y; cases z) auto

lemma f_le_refl: "f_is_finite x \<Longrightarrow> f_le x x"
  by (cases x) (auto simp: f_is_finite_def f_le_def)

lemma f_le_trans: "f_le x y \<Longrightarrow> f_le y z \<Longrightarrow> f_le x z"
  by (cases x; cases y; cases z) (auto simp: f_le_def)

lemma f_lt_le_trans: "f_lt x y \<Longrightarrow> f_le y z \<Longrightarrow> f_lt x z"
  by (cases x; cases y; cases z) (auto simp: f_le_def)

lemma f_le_lt_trans: "f_le x y \<Longrightarrow> f_lt y z \<Longrightarrow> f_lt x z"
  by (cases x; cases y; cases z) (auto simp: f_le_def)

lemma f_finite_cases: "f_is_finite x \<longleftrightarrow> (\<exists>s v. x = Finite s v)"
  by (cases x) (auto simp: f_is_finite_def)

lemma f_le_not_lt: "f_is_finite x \<Longrightarrow> f_is_finite y \<Longrightarrow> f_le x y \<longleftrightarrow> \<not> f_lt y x"
  by (auto simp: f_finite_cases f_le_def)

end
