(* ===== verification/Economics.thy ===== *)
theory Economics
  imports Control Json F64 "HOL-Library.Product_Lexorder" "HOL-Library.Sublist"
begin

text \<open>
  Advisory calculations (\<open>workstation-core/src/economics.rs\<close>): quota samples and the runway forecast,
  plan fit, the Pareto frontier and model selection, counterfactual scenarios, and the import of vendor
  payloads. Numbers are \<open>f64\<close>; the power function and the reading of a JSON number are arguments.
\<close>

section \<open>Quota samples\<close>

datatype meter = Context | Subscription | Dollars

record quota_sample =
  qs_id :: string
  qs_provider :: string
  qs_account_alias :: string
  qs_bucket :: string
  qs_meter :: meter
  qs_unit :: string
  qs_window_id :: string
  qs_used :: f64
  qs_limit :: "f64 option"
  qs_reset_at :: "int option"
  qs_observed_at :: int
  qs_precision :: string
  qs_evidence :: evidence

definition f_zero :: f64 where "f_zero = Finite False 0"

definition quota_ceiling :: f64 where "quota_ceiling = Finite False (10 ^ 15)"

definition unit_ok :: "meter \<Rightarrow> string \<Rightarrow> bool" where
  "unit_ok m u = (case m of Dollars \<Rightarrow> u = ''usd'' | Context \<Rightarrow> u \<in> set [''tokens'', ''percent'']
     | Subscription \<Rightarrow> u \<in> set [''percent'', ''credits'', ''requests'', ''tokens''])"

definition quota_validate :: "quota_sample \<Rightarrow> unit check" where
  "quota_validate s = checks
     [check_all control_id [qs_id s, qs_provider s, qs_account_alias s, qs_bucket s],
      control_text (qs_window_id s) 128,
      control_timestamp (qs_observed_at s),
      control_evidence (qs_evidence s),
      reject (\<not> f_is_finite (qs_used s) \<or> f_lt (qs_used s) f_zero \<or> f_lt quota_ceiling (qs_used s)) ''INVALID_USAGE'',
      reject (case qs_limit s of None \<Rightarrow> False
        | Some x \<Rightarrow> \<not> f_is_finite x \<or> f_le x f_zero \<or> f_lt quota_ceiling x) ''INVALID_QUOTA'',
      reject (qs_precision s \<notin> set [''exact'', ''estimated'', ''provider_reported'']) ''PRECISION_REQUIRED'',
      reject (\<not> unit_ok (qs_meter s) (qs_unit s)) ''INCOMPATIBLE_METER_UNIT'',
      check_opt control_timestamp (qs_reset_at s)]"

definition f_eq_opt :: "f64 option \<Rightarrow> f64 option \<Rightarrow> bool" where
  "f_eq_opt a b = (case (a, b) of (None, None) \<Rightarrow> True | (Some x, Some y) \<Rightarrow> f_eq x y | _ \<Rightarrow> False)"

definition same_stream :: "quota_sample \<Rightarrow> quota_sample \<Rightarrow> bool" where
  "same_stream a b \<longleftrightarrow> qs_provider a = qs_provider b \<and> qs_account_alias a = qs_account_alias b
     \<and> qs_bucket a = qs_bucket b \<and> qs_meter a = qs_meter b \<and> qs_unit a = qs_unit b
     \<and> qs_window_id a = qs_window_id b \<and> qs_reset_at a = qs_reset_at b \<and> f_eq_opt (qs_limit a) (qs_limit b)"

section \<open>Runway\<close>

record horizon =
  hz_label :: string
  hz_observed_span_seconds :: int
  hz_rate_per_second :: "f64 option"
  hz_exhaustion_after_seconds :: "f64 option"
  hz_exhaustion_before_reset :: "bool option"
  hz_capacity_at_current_pace_seconds :: "f64 option"
  hz_headroom_to_reset_seconds :: "f64 option"
  hz_shortfall_seconds :: "f64 option"

record runway =
  rw_provider :: string
  rw_bucket :: string
  rw_meter :: meter
  rw_unit :: string
  rw_window_id :: string
  rw_remaining :: "f64 option"
  rw_used :: f64
  rw_reset_at :: "int option"
  rw_observed_at :: int
  rw_as_of :: int
  rw_coverage :: coverage
  rw_estimate_label :: string
  rw_confidence :: string
  rw_horizons :: "horizon list"
  rw_notes :: "string list"

definition finite_ratio :: "f64 \<Rightarrow> f64 \<Rightarrow> f64 option" where
  "finite_ratio numerator denominator =
     (if \<not> f_is_finite numerator \<or> \<not> f_is_finite denominator \<or> f_le denominator f_zero then None
      else let ratio = f_div numerator denominator in if f_is_finite ratio then Some ratio else None)"

definition eta_of :: "f64 option \<Rightarrow> f64 option \<Rightarrow> f64 option" where
  "eta_of rate remaining = (case remaining of None \<Rightarrow> None
     | Some r \<Rightarrow> if f_le r f_zero then Some f_zero
         else (case rate of None \<Rightarrow> None | Some b \<Rightarrow> if f_lt f_zero b then finite_ratio r b else None))"

definition zip_opt :: "('a \<Rightarrow> 'b \<Rightarrow> 'c) \<Rightarrow> 'a option \<Rightarrow> 'b option \<Rightarrow> 'c option" where
  "zip_opt f a b = (case (a, b) of (Some x, Some y) \<Rightarrow> Some (f x y) | _ \<Rightarrow> None)"

definition make_horizon :: "string \<Rightarrow> f64 option \<Rightarrow> f64 option \<Rightarrow> int option \<Rightarrow> int \<Rightarrow> horizon" where
  "make_horizon label rate remaining reset_in width =
     (let eta = eta_of rate remaining;
          rate' = (case rate of None \<Rightarrow> None | Some v \<Rightarrow> if f_is_finite v then Some v else None)
      in \<lparr>hz_label = label, hz_observed_span_seconds = width, hz_rate_per_second = rate',
          hz_exhaustion_after_seconds =
            (if zip_opt (\<lambda>e r. f_le (f_of_int r) e) eta reset_in = Some True then None else eta),
          hz_exhaustion_before_reset = zip_opt (\<lambda>e r. f_lt e (f_of_int (max r 0))) eta reset_in,
          hz_capacity_at_current_pace_seconds = eta,
          hz_headroom_to_reset_seconds = zip_opt (\<lambda>e r. f_max (f_sub e (f_of_int r)) f_zero) eta reset_in,
          hz_shortfall_seconds = zip_opt (\<lambda>e r. f_max (f_sub (f_of_int r) e) f_zero) eta reset_in\<rparr>)"

text \<open>The samples before the latest one, newest first, up to the first that breaks the baseline.\<close>

fun grow_segment :: "quota_sample \<Rightarrow> quota_sample \<Rightarrow> quota_sample list \<Rightarrow> quota_sample list \<times> bool" where
  "grow_segment latest newer [] = ([], False)"
| "grow_segment latest newer (older # rest) =
     (if \<not> same_stream older latest \<or> f_lt (qs_used newer) (qs_used older)
        \<or> sub_i64 (qs_observed_at newer) (qs_observed_at older) > 21600
      then ([], True)
      else (case grow_segment latest older rest of (seg, broken) \<Rightarrow> (older # seg, broken)))"

definition windows2 :: "'a list \<Rightarrow> ('a \<times> 'a) list" where
  "windows2 xs = zip xs (tl xs)"

definition window_burn :: "int \<Rightarrow> f64 \<times> int \<Rightarrow> quota_sample \<times> quota_sample \<Rightarrow> f64 \<times> int" where
  "window_burn start acc w = (case (acc, w) of ((burned, elapsed), (a, b)) \<Rightarrow>
     let overlap = max (sub_i64 (qs_observed_at b) (max (qs_observed_at a) start)) 0;
         dt = sub_i64 (qs_observed_at b) (qs_observed_at a)
     in if overlap > 0
        then (f_add burned (f_div (f_mul (f_sub (qs_used b) (qs_used a)) (f_of_int overlap)) (f_of_int dt)), elapsed + overlap)
        else (burned, elapsed))"

definition window_horizon :: "quota_sample \<Rightarrow> quota_sample list \<Rightarrow> f64 option \<Rightarrow> int option \<Rightarrow> string \<times> int \<Rightarrow> horizon" where
  "window_horizon latest segment remaining reset_in w = (case w of (label, seconds) \<Rightarrow>
     (case foldl (window_burn (sub_i64 (qs_observed_at latest) seconds)) (f_zero, 0) (windows2 segment) of (burned, elapsed) \<Rightarrow>
        make_horizon label (if elapsed \<ge> 60 then Some (f_div burned (f_of_int elapsed)) else None) remaining reset_in elapsed))"

definition ewma_rate :: "(f64 \<Rightarrow> f64 \<Rightarrow> f64) \<Rightarrow> quota_sample \<Rightarrow> quota_sample list \<Rightarrow> f64" where
  "ewma_rate powf latest segment =
     (case foldl (\<lambda>(weights, weighted) (a, b).
         let dt = f_of_int (sub_i64 (qs_observed_at b) (qs_observed_at a));
             weight = f_mul dt (powf (f_of_int 2)
               (f_div (f_neg (f_of_int (sub_i64 (qs_observed_at latest) (qs_observed_at b)))) (f_of_int 3600)))
         in (f_add weights weight, f_add weighted (f_mul (f_div (f_sub (qs_used b) (qs_used a)) dt) weight)))
         (f_zero, f_zero) (windows2 segment) of (weights, weighted) \<Rightarrow> f_div weighted weights)"

definition base_runway :: "quota_sample \<Rightarrow> int \<Rightarrow> runway" where
  "base_runway latest now =
     \<lparr>rw_provider = qs_provider latest, rw_bucket = qs_bucket latest, rw_meter = qs_meter latest,
      rw_unit = qs_unit latest, rw_window_id = qs_window_id latest,
      rw_remaining = map_option (\<lambda>l. f_max (f_sub l (qs_used latest)) f_zero) (qs_limit latest),
      rw_used = qs_used latest, rw_reset_at = qs_reset_at latest, rw_observed_at = qs_observed_at latest,
      rw_as_of = now, rw_coverage = Partial, rw_estimate_label = ''conditional_estimate_not_entitlement'',
      rw_confidence = ''insufficient'', rw_horizons = [],
      rw_notes = [''Estimates assume comparable recent activity; quotas from different providers are not added. Capacity-at-pace is conditional; no exhaustion ETA is predicted after a reset.'']\<rparr>"

definition add_note :: "string \<Rightarrow> runway \<Rightarrow> runway" where
  "add_note n r = r\<lparr>rw_notes := rw_notes r @ [n]\<rparr>"

definition segment_horizons ::
    "(f64 \<Rightarrow> f64 \<Rightarrow> f64) \<Rightarrow> quota_sample \<Rightarrow> quota_sample list \<Rightarrow> int \<Rightarrow> f64 option \<Rightarrow> int option \<Rightarrow> f64 \<Rightarrow> horizon list" where
  "segment_horizons powf latest segment width remaining reset_in baseline =
     (let ewma = ewma_rate powf latest segment in
      map (window_horizon latest segment remaining reset_in) [(''10m'', 600), (''1h'', 3600), (''6h'', 21600)]
      @ [make_horizon ''observed_window_baseline'' (Some baseline) remaining reset_in width,
         make_horizon ''ewma_1h_half_life'' (Some ewma) remaining reset_in width,
         make_horizon ''blended'' (Some (f_add (f_mul (f_lit (65 / 100)) ewma) (f_mul (f_lit (35 / 100)) baseline)))
           remaining reset_in width])"

definition project_segment ::
    "(f64 \<Rightarrow> f64 \<Rightarrow> f64) \<Rightarrow> quota_sample \<Rightarrow> quota_sample list \<Rightarrow> int \<Rightarrow> runway \<Rightarrow> runway" where
  "project_segment powf latest segment now r =
     (let width = sub_i64 (qs_observed_at latest) (qs_observed_at (hd segment)) in
      if length segment < 2 \<or> width < 60
      then add_note ''At least two comparable samples spanning one minute are required.'' r
      else
        let reset_in = map_option (\<lambda>t. sub_i64 t now) (qs_reset_at latest);
            baseline = f_div (f_sub (qs_used latest) (qs_used (hd segment))) (f_of_int width);
            r1 = r\<lparr>rw_horizons := segment_horizons powf latest segment width (rw_remaining r) reset_in baseline,
                   rw_confidence := (if length segment \<ge> 6 \<and> width \<ge> 3600 then ''moderate'' else ''low'')\<rparr>;
            r2 = (if f_eq baseline f_zero
                  then add_note ''No observed burn; no finite exhaustion time is justified.'' r1 else r1)
        in if qs_observed_at latest < now
           then add_note ''Remaining is the last observed allowance, not an unobserved consumption adjustment.'' r2 else r2)"

definition forecast :: "(f64 \<Rightarrow> f64 \<Rightarrow> f64) \<Rightarrow> quota_sample list \<Rightarrow> int \<Rightarrow> runway check" where
  "forecast powf samples now =
     bind_check (checks [control_timestamp now, reject (samples = [] \<or> length samples > 10000) ''SAMPLE_COUNT'',
       check_all quota_validate samples]) (\<lambda>_.
     let rows = sort_key qs_observed_at (filter (\<lambda>s. qs_observed_at s \<le> now) samples) in
     if rows = [] then Inl ''NO_NONFUTURE_SAMPLE''
     else let latest = last rows in
       if list_ex (\<lambda>s. qs_provider s \<noteq> qs_provider latest \<or> qs_account_alias s \<noteq> qs_account_alias latest
            \<or> qs_bucket s \<noteq> qs_bucket latest \<or> qs_meter s \<noteq> qs_meter latest \<or> qs_unit s \<noteq> qs_unit latest) rows
       then Inl ''MIXED_STREAMS''
       else let r = base_runway latest now in
         if qs_meter latest \<noteq> Subscription
         then Inr (add_note ''Context compaction and dollar billing are not subscription runway.'' r)
         else if (case qs_reset_at latest of None \<Rightarrow> False | Some t \<Rightarrow> t \<le> now)
         then Inr (add_note ''Reset passed; fetch a new observation. Previous allowance is not treated as current.'' r)
         else if sub_i64 now (qs_observed_at latest) > 900
         then Inr (add_note ''Latest sample is older than 15 minutes; forecast withheld.'' r)
         else if qs_limit latest = None
         then Inr (add_note ''Quota capacity is unknown; burn can be observed but remaining time cannot be inferred.'' r)
         else if list_ex (\<lambda>(a, b). qs_observed_at a = qs_observed_at b) (windows2 rows)
         then Inl ''DUPLICATE_SAMPLE_TIME''
         else (case grow_segment latest latest (tl (rev rows)) of (older, broken) \<Rightarrow>
           let r' = (if broken then add_note ''A reset, changed capacity, correction or observation gap ends the forecast baseline.'' r else r)
           in Inr (project_segment powf latest (rev (latest # older)) now r')))"

section \<open>Plan fit\<close>

text \<open>The numbers of a JSON result. A value that is not finite is written as null.\<close>

datatype number = NInt int | NFloat f64

definition json_f64 :: "f64 \<Rightarrow> number json" where
  "json_f64 x = (if f_is_finite x then JNum (NFloat x) else JNull)"

definition json_opt :: "('a \<Rightarrow> number json) \<Rightarrow> 'a option \<Rightarrow> number json" where
  "json_opt f x = (case x of None \<Rightarrow> JNull | Some v \<Rightarrow> f v)"

record cycle =
  cy_provider :: string
  cy_account_alias :: "string option"
  cy_bucket :: string
  cy_window_id :: string
  cy_utilization :: f64
  cy_complete :: bool
  cy_evidence_ref :: string

definition cycle_check :: "cycle \<Rightarrow> unit check" where
  "cycle_check c = checks
     [reject (\<not> f_is_finite (cy_utilization c) \<or> f_lt (cy_utilization c) f_zero \<or> cy_evidence_ref c = []) ''CYCLE_INVALID'',
      control_id (cy_provider c), control_id (cy_bucket c), control_text (cy_window_id c) 128,
      control_text (cy_evidence_ref c) 512, reject (cy_window_id c = []) ''CYCLE_IDENTITY_REQUIRED'']"

record fit_state =
  ft_values :: "f64 list"
  ft_ids :: "string list"
  ft_stream :: "(string \<times> string \<times> string) option"
  ft_unknown_account :: bool

definition fit_cycle :: "fit_state \<Rightarrow> cycle \<Rightarrow> fit_state check" where
  "fit_cycle st c = bind_check (cycle_check c) (\<lambda>_.
     if \<not> cy_complete c then Inr st
     else case cy_account_alias c of
       None \<Rightarrow> Inr (st\<lparr>ft_unknown_account := True\<rparr>)
     | Some account \<Rightarrow> bind_check (control_id account) (\<lambda>_.
         let key = (cy_provider c, account, cy_bucket c) in
         if ft_stream st \<noteq> None \<and> ft_stream st \<noteq> Some key then Inl ''MIXED_CYCLES''
         else if cy_window_id c \<in> set (ft_ids st) then Inl ''DUPLICATE_CYCLE''
         else Inr (st\<lparr>ft_stream := Some key, ft_ids := cy_window_id c # ft_ids st,
                      ft_values := ft_values st @ [cy_utilization c]\<rparr>)))"

fun fit_cycles :: "fit_state \<Rightarrow> cycle list \<Rightarrow> fit_state check" where
  "fit_cycles st [] = Inr st"
| "fit_cycles st (c # cs) = bind_check (fit_cycle st c) (\<lambda>st'. fit_cycles st' cs)"

definition median_of :: "f64 list \<Rightarrow> f64" where
  "median_of values = (let n = length values; two = f_of_int 2 in
     if n mod 2 = 1 then values ! (n div 2)
     else f_add (f_div (values ! (n div 2 - 1)) two) (f_div (values ! (n div 2)) two))"

definition fit_status :: "f64 list \<Rightarrow> string" where
  "fit_status values =
     (if length (filter (\<lambda>x. f_le (f_of_int 1) x) values) \<ge> 2 then ''repeatedly_exceeded''
      else if f_lt (median_of values) (f_lit (3 / 10)) then ''underutilized''
      else if f_lt (median_of values) (f_lit (8 / 10)) then ''comfortable'' else ''tight'')"

definition unknown_fit :: "string \<Rightarrow> number json" where
  "unknown_fit reason = JObj [(''reason'', JStr reason), (''status'', JStr ''unknown'')]"

definition plan_fit :: "cycle list \<Rightarrow> number json check" where
  "plan_fit cycles =
     (if length cycles > 128 then Inl ''CYCLE_LIMIT''
      else bind_check (fit_cycles \<lparr>ft_values = [], ft_ids = [], ft_stream = None, ft_unknown_account = False\<rparr> cycles) (\<lambda>st.
        if ft_unknown_account st then Inr (unknown_fit ''explicit_account_identity_required'')
        else if length (ft_values st) < 3 then Inr (unknown_fit ''three_complete_cycles_required'')
        else let values = sort_key f_rank (ft_values st) in Inr (JObj
          [(''advisory_only'', JBool True), (''complete_cycles'', JNum (NInt (int (length values)))),
           (''does_not_recommend_extra_spending'', JBool True), (''median_utilization'', json_f64 (median_of values)),
           (''status'', JStr (fit_status values))])))"

section \<open>Models\<close>

record model_metric =
  mm_model :: string
  mm_benchmark :: string
  mm_revision :: string
  mm_quality :: f64
  mm_task_cost_usd :: f64
  mm_latency_ms :: "f64 option"
  mm_available :: bool
  mm_license_state :: string
  mm_source :: string

definition model_check :: "string set \<Rightarrow> model_metric \<Rightarrow> unit check" where
  "model_check names m = checks
     [control_text (mm_model m) 128, control_text (mm_source m) 512, control_text (mm_benchmark m) 256,
      control_text (mm_revision m) 256,
      reject (mm_model m = [] \<or> mm_source m = [] \<or> mm_benchmark m = [] \<or> mm_revision m = [] \<or> mm_model m \<in> names)
        ''MODEL_IDENTITY_INVALID'',
      reject (\<not> f_is_finite (mm_quality m) \<or> \<not> f_is_finite (mm_task_cost_usd m) \<or> f_lt (mm_task_cost_usd m) f_zero
        \<or> (case mm_latency_ms m of None \<Rightarrow> False | Some x \<Rightarrow> \<not> f_is_finite x \<or> f_lt x f_zero)) ''MODEL_METRIC_INVALID'',
      reject (mm_license_state m \<noteq> ''permitted_local_use'') ''BENCHMARK_LICENSE_NOT_PERMITTED'']"

fun models_check :: "string set \<Rightarrow> model_metric list \<Rightarrow> unit check" where
  "models_check names [] = Inr ()"
| "models_check names (m # ms) = bind_check (model_check names m) (\<lambda>_. models_check (insert (mm_model m) names) ms)"

definition dominates :: "model_metric \<Rightarrow> model_metric \<Rightarrow> bool" where
  "dominates b a \<longleftrightarrow> f_le (mm_quality a) (mm_quality b) \<and> f_le (mm_task_cost_usd b) (mm_task_cost_usd a)
     \<and> (f_lt (mm_quality a) (mm_quality b) \<or> f_lt (mm_task_cost_usd b) (mm_task_cost_usd a))"

definition frontier :: "model_metric list \<Rightarrow> model_metric list" where
  "frontier eligible = filter (\<lambda>a. \<not> list_ex (\<lambda>b. dominates b a) eligible) eligible"

definition density :: "model_metric \<Rightarrow> number json" where
  "density m = JObj
     [(''index_points_per_usd'', json_opt json_f64
         (if f_lt f_zero (mm_task_cost_usd m) \<and> f_le f_zero (mm_quality m)
          then finite_ratio (mm_quality m) (mm_task_cost_usd m) else None)),
      (''model'', JStr (mm_model m))]"

definition pareto :: "model_metric list \<Rightarrow> number json check" where
  "pareto models =
     bind_check (checks [reject (length models > 500) ''MODEL_LIMIT'', models_check {} models]) (\<lambda>_.
     let eligible = filter mm_available models in
     if (case eligible of [] \<Rightarrow> False
         | first # _ \<Rightarrow> list_ex (\<lambda>m. mm_benchmark m \<noteq> mm_benchmark first \<or> mm_revision m \<noteq> mm_revision first) eligible)
     then Inl ''INCOMPARABLE_BENCHMARKS''
     else Inr (JObj
       [(''dimensions'', JArr [JStr ''higher_quality'', JStr ''lower_task_cost_usd'']),
        (''frontier'', JArr (map (\<lambda>m. JStr (mm_model m)) (frontier eligible))),
        (''note'', JStr ''Benchmark quality is an index, not ratio-scale intelligence. No subscription quota conversion performed.''),
        (''value_density_heuristic'', JArr (map density eligible))]))"

record selection_request =
  sr_models :: "model_metric list"
  sr_criterion :: string
  sr_quality_threshold :: f64

definition down :: "int \<times> rat \<times> int \<Rightarrow> int \<times> rat \<times> int" where
  "down k = (case k of (a, b, c) \<Rightarrow> (- a, - b, - c))"

definition ranked :: "string \<Rightarrow> model_metric list \<Rightarrow> model_metric list" where
  "ranked criterion candidates =
     (if criterion = ''best_quality''
      then sort_key (\<lambda>m. (down (f_rank (mm_quality m)), f_rank (mm_task_cost_usd m), mm_model m)) candidates
      else if criterion = ''cheapest_above_threshold''
      then sort_key (\<lambda>m. (f_rank (mm_task_cost_usd m), down (f_rank (mm_quality m)), mm_model m)) candidates
      else sort_key (\<lambda>m. (f_rank (the (mm_latency_ms m)), mm_model m))
        (filter (\<lambda>m. mm_latency_ms m \<noteq> None) candidates))"

definition select_models :: "selection_request \<Rightarrow> number json check" where
  "select_models request =
     (if \<not> f_is_finite (sr_quality_threshold request) then Inl ''INVALID_QUALITY_THRESHOLD''
      else bind_check (pareto (sr_models request)) (\<lambda>front.
        if sr_criterion request \<notin> set [''best_quality'', ''cheapest_above_threshold'', ''fastest_above_threshold'']
        then Inl ''MODEL_CRITERION_UNSUPPORTED''
        else Inr (JObj
          [(''automatic_switching'', JBool False),
           (''candidates'', JArr (map (\<lambda>m. JStr (mm_model m)) (ranked (sr_criterion request)
              (filter (\<lambda>m. mm_available m \<and> f_le (sr_quality_threshold request) (mm_quality m)) (sr_models request))))),
           (''criterion'', JStr (sr_criterion request)), (''data_source'', JStr ''explicit_licensed_import''),
           (''pareto'', front), (''threshold'', json_f64 (sr_quality_threshold request))])))"

section \<open>Scenarios\<close>

record scenario_bucket =
  sb_id :: string
  sb_unit :: string
  sb_remaining :: f64
  sb_current_rate_per_second :: f64
  sb_proposed_rate_multiplier :: f64
  sb_resets_in_seconds :: "f64 option"

definition scenario_eta :: "scenario_bucket \<Rightarrow> f64 \<Rightarrow> f64 option" where
  "scenario_eta b rate =
     (if f_eq (sb_remaining b) f_zero then Some f_zero
      else if f_lt f_zero rate then finite_ratio (sb_remaining b) rate else None)"

definition scenario_row :: "string set \<Rightarrow> scenario_bucket \<Rightarrow> number json check" where
  "scenario_row seen b = bind_check (checks
     [control_id (sb_id b), control_text (sb_unit b) 32, reject (sb_unit b = []) ''SCENARIO_UNIT_REQUIRED'',
      reject (sb_id b \<in> seen
        \<or> list_ex (\<lambda>v. \<not> f_is_finite v \<or> f_lt v f_zero)
            [sb_remaining b, sb_current_rate_per_second b, sb_proposed_rate_multiplier b]
        \<or> f_lt (f_of_int 10) (sb_proposed_rate_multiplier b)
        \<or> (case sb_resets_in_seconds b of None \<Rightarrow> False | Some x \<Rightarrow> \<not> f_is_finite x \<or> f_lt x f_zero)) ''SCENARIO_INVALID'',
      (let proposed_rate = f_mul (sb_current_rate_per_second b) (sb_proposed_rate_multiplier b) in
       reject (\<not> f_is_finite proposed_rate
         \<or> (f_lt f_zero (sb_current_rate_per_second b) \<and> f_lt f_zero (sb_proposed_rate_multiplier b)
            \<and> f_eq proposed_rate f_zero)) ''SCENARIO_RATE_OUT_OF_RANGE'')]) (\<lambda>_.
     let current = scenario_eta b (sb_current_rate_per_second b);
         proposed = scenario_eta b (f_mul (sb_current_rate_per_second b) (sb_proposed_rate_multiplier b))
     in Inr (JObj
       [(''beyond_reset_unsupported'', JBool (zip_opt (\<lambda>a r. f_le r a) proposed (sb_resets_in_seconds b) = Some True)),
        (''bucket'', JStr (sb_id b)),
        (''current_seconds'', json_opt json_f64 current),
        (''estimated_extension_seconds'', json_opt json_f64 (zip_opt (\<lambda>a c. f_sub c a) current proposed)),
        (''exhausts_before_reset'', json_opt JBool (zip_opt f_lt proposed (sb_resets_in_seconds b))),
        (''proposed_seconds'', json_opt json_f64 proposed),
        (''unit'', JStr (sb_unit b))]))"

fun scenario_rows :: "string set \<Rightarrow> scenario_bucket list \<Rightarrow> number json list check" where
  "scenario_rows seen [] = Inr []"
| "scenario_rows seen (b # bs) = bind_check (scenario_row seen b) (\<lambda>r.
     bind_check (scenario_rows (insert (sb_id b) seen) bs) (\<lambda>rs. Inr (r # rs)))"

definition counterfactual :: "scenario_bucket list \<Rightarrow> string list \<Rightarrow> number json check" where
  "counterfactual buckets assumptions = bind_check (checks
     [reject (buckets = [] \<or> length buckets > 20 \<or> assumptions = []) ''SCENARIO_ASSUMPTIONS_REQUIRED'',
      control_lines assumptions]) (\<lambda>_.
     bind_check (scenario_rows {} buckets) (\<lambda>rows. Inr (JObj
       [(''assumptions'', JArr (map JStr assumptions)), (''automatic_switching'', JBool False), (''buckets'', JArr rows),
        (''simulation_only'', JBool True),
        (''warning'', JStr ''No additive combined-quota claim. Multipliers are explicit assumptions, not measured routing conversions; no forecast after a reset.'')])))"

section \<open>Vendor payloads\<close>

text \<open>
  One call of the closure \<open>add\<close>: the sample is built from its provider, bucket, use, reset, meter, unit and
  limit, validated and appended. The import's evidence is fixed, whatever the payload claims.
\<close>

type_synonym vendor_entry = "string \<times> string \<times> f64 \<times> int option \<times> meter \<times> string \<times> f64 option"

definition import_evidence :: "string \<Rightarrow> string \<Rightarrow> int \<Rightarrow> evidence" where
  "import_evidence format version stamp = \<lparr>ev_kind = AgentReported,
     ev_source = ''explicit-import:'' @ format @ '':'' @ version, ev_at = stamp, ev_coverage = Partial\<rparr>"

definition vendor_sample :: "evidence \<Rightarrow> string \<Rightarrow> int \<Rightarrow> nat \<Rightarrow> vendor_entry \<Rightarrow> quota_sample" where
  "vendor_sample ev account stamp n e = (case e of (provider, bucket, used, reset, meter, unit, limit) \<Rightarrow>
     \<lparr>qs_id = ''sample-'' @ show_nat n, qs_provider = provider, qs_account_alias = account, qs_bucket = bucket,
      qs_meter = meter, qs_unit = unit,
      qs_window_id = (case reset of Some r \<Rightarrow> ''reset-'' @ show_int r | None \<Rightarrow> ''session-'' @ show_int stamp),
      qs_used = used, qs_limit = limit, qs_reset_at = reset, qs_observed_at = stamp,
      qs_precision = ''provider_reported'', qs_evidence = ev\<rparr>)"

type_synonym adder = "quota_sample list \<Rightarrow> quota_sample list check"

definition vendor_add :: "evidence \<Rightarrow> string \<Rightarrow> int \<Rightarrow> vendor_entry \<Rightarrow> adder" where
  "vendor_add ev account stamp e out = (let s = vendor_sample ev account stamp (length out) e in
     bind_check (quota_validate s) (\<lambda>_. Inr (out @ [s])))"

fun run_adds :: "adder list \<Rightarrow> adder" where
  "run_adds [] out = Inr out"
| "run_adds (a # as) out = bind_check (a out) (run_adds as)"

definition present :: "'n json option \<Rightarrow> 'n json option" where
  "present v = (if v = Some JNull then None else v)"

definition window_add ::
    "('n \<Rightarrow> f64 option) \<Rightarrow> ('n \<Rightarrow> int option) \<Rightarrow> (vendor_entry \<Rightarrow> adder) \<Rightarrow> string \<Rightarrow> string \<Rightarrow> string \<Rightarrow> string \<Rightarrow> 'n json option \<Rightarrow> adder" where
  "window_add num_f64 num_i64 add provider bucket used_key reset_key v out = (case present v of
     None \<Rightarrow> Inr out
   | Some w \<Rightarrow> bind_check (ok_or (Option.bind (json_get w used_key) (json_as_num num_f64)) ''VENDOR_USED_UNKNOWN'') (\<lambda>used.
       add (provider, bucket, used, Option.bind (json_get w reset_key) (json_as_num num_i64), Subscription,
            ''percent'', Some (f_of_int 100)) out))"

definition codex_entries :: "'n json \<Rightarrow> (string \<times> 'n json) list check" where
  "codex_entries payload =
     (let root = (case json_get payload ''result'' of Some r \<Rightarrow> r | None \<Rightarrow> payload) in
      case Option.bind (json_get root ''rateLimitsByLimitId'') json_as_object of
        Some m \<Rightarrow> Inr m
      | None \<Rightarrow> (case json_get root ''rateLimits'' of
          Some v \<Rightarrow> Inr [(case json_str_at v ''limitId'' of Some i \<Rightarrow> i | None \<Rightarrow> ''codex'', v)]
        | None \<Rightarrow> Inl ''VENDOR_QUOTA_ABSENT''))"

definition codex_adds ::
    "('n \<Rightarrow> f64 option) \<Rightarrow> ('n \<Rightarrow> int option) \<Rightarrow> (vendor_entry \<Rightarrow> adder) \<Rightarrow> 'n json \<Rightarrow> adder list check" where
  "codex_adds num_f64 num_i64 add payload = bind_check (codex_entries payload) (\<lambda>entries.
     if length entries > 32 then Inl ''BUCKET_LIMIT''
     else Inr (concat (map (\<lambda>(i, v). map (\<lambda>window.
       window_add num_f64 num_i64 add ''codex'' (i @ ''-'' @ window) ''usedPercent'' ''resetsAt'' (json_get v window))
       [''primary'', ''secondary'']) entries)))"

definition reading_add ::
    "('n \<Rightarrow> f64 option) \<Rightarrow> (vendor_entry \<Rightarrow> adder) \<Rightarrow> 'n json \<Rightarrow> string list \<Rightarrow> string \<Rightarrow> meter \<Rightarrow> string \<Rightarrow> f64 option \<Rightarrow> adder" where
  "reading_add num_f64 add payload path bucket meter unit limit out =
     (case Option.bind (json_pointer payload path) (json_as_num num_f64) of
        None \<Rightarrow> Inr out
      | Some u \<Rightarrow> add (''claude'', bucket, u, None, meter, unit, limit) out)"

definition mark_estimated :: "quota_sample list \<Rightarrow> quota_sample list" where
  "mark_estimated out = (if out = [] then [] else butlast out @ [(last out)\<lparr>qs_precision := ''estimated''\<rparr>])"

definition cost_add :: "('n \<Rightarrow> f64 option) \<Rightarrow> (vendor_entry \<Rightarrow> adder) \<Rightarrow> 'n json \<Rightarrow> adder" where
  "cost_add num_f64 add payload out =
     (case Option.bind (json_pointer payload [''cost'', ''total_cost_usd'']) (json_as_num num_f64) of
        None \<Rightarrow> Inr out
      | Some u \<Rightarrow> bind_check (add (''claude'', ''session-estimated-cost'', u, None, Dollars, ''usd'', None) out)
          (\<lambda>out'. Inr (mark_estimated out')))"

definition claude_adds ::
    "('n \<Rightarrow> f64 option) \<Rightarrow> ('n \<Rightarrow> int option) \<Rightarrow> (vendor_entry \<Rightarrow> adder) \<Rightarrow> 'n json \<Rightarrow> adder list" where
  "claude_adds num_f64 num_i64 add payload =
     map (\<lambda>window. window_add num_f64 num_i64 add ''claude'' window ''used_percentage'' ''resets_at''
       (json_pointer payload [''rate_limits'', window])) [''five_hour'', ''seven_day'', ''spend_limit'']
     @ [reading_add num_f64 add payload [''context_window'', ''used_percentage''] ''context'' Context ''percent''
          (Some (f_of_int 100)),
        cost_add num_f64 add payload]"

definition name_session :: "'n json \<Rightarrow> quota_sample list \<Rightarrow> quota_sample list check" where
  "name_session payload out = (case json_str_at payload ''session_id'' of
     None \<Rightarrow> Inr out
   | Some session \<Rightarrow> bind_check (control_text session 256) (\<lambda>_.
       Inr (map (\<lambda>s. if qs_reset_at s = None then s\<lparr>qs_window_id := ''session-'' @ session\<rparr> else s) out)))"

definition vendor_adds ::
    "('n \<Rightarrow> f64 option) \<Rightarrow> ('n \<Rightarrow> int option) \<Rightarrow> (vendor_entry \<Rightarrow> adder) \<Rightarrow> string \<Rightarrow> 'n json \<Rightarrow> adder list check" where
  "vendor_adds num_f64 num_i64 add format payload =
     (if format = ''codex-rate-limits-2026-09'' then codex_adds num_f64 num_i64 add payload
      else if format = ''claude-statusline-2026-09'' then Inr (claude_adds num_f64 num_i64 add payload)
      else Inl ''VENDOR_FORMAT_UNSUPPORTED'')"

definition normalize_vendor ::
    "('n \<Rightarrow> f64 option) \<Rightarrow> ('n \<Rightarrow> int option) \<Rightarrow> string \<Rightarrow> 'n json \<Rightarrow> string \<Rightarrow> string \<Rightarrow> int \<Rightarrow> quota_sample list check" where
  "normalize_vendor num_f64 num_i64 format payload version account stamp =
     bind_check (checks [control_id account, control_text version 80, control_timestamp stamp]) (\<lambda>_.
     bind_check (vendor_adds num_f64 num_i64 (vendor_add (import_evidence format version stamp) account stamp) format payload) (\<lambda>adds.
     bind_check (run_adds adds []) (\<lambda>out.
     bind_check (name_session payload out) (\<lambda>named.
       if named = [] then Inl ''VENDOR_QUOTA_ABSENT'' else Inr named))))"

section \<open>Preferences\<close>

datatype preference_profile = MaximumIntelligence | Balanced | Stretch | Economy

definition advice :: "preference_profile \<Rightarrow> string \<times> string" where
  "advice p = (case p of
     MaximumIntelligence \<Rightarrow> (''maximum_intelligence'',
       ''Prefer highest measured task-relevant quality; disclose quota and latency trade-offs.'')
   | Balanced \<Rightarrow> (''balanced'', ''Consider the task-relevant Pareto frontier without silently switching providers.'')
   | Stretch \<Rightarrow> (''stretch'', ''Preserve scarce subscription windows; simulate explicitly assumed routing changes only.'')
   | Economy \<Rightarrow> (''economy'',
       ''Prefer lower task cost above an explicit quality threshold; do not equate subscription quota with dollars.''))"

definition advisory :: "preference_profile \<Rightarrow> 'n json" where
  "advisory p = (case advice p of (mode, policy) \<Rightarrow> JObj
     [(''advice'', JStr policy), (''automatic_switching'', JBool False), (''mode'', JStr mode),
      (''subscription_changes'', JBool False)])"

section \<open>Forecasts\<close>

definition comparable :: "quota_sample \<Rightarrow> quota_sample \<Rightarrow> quota_sample \<Rightarrow> bool" where
  "comparable latest older newer \<longleftrightarrow> same_stream older latest \<and> \<not> f_lt (qs_used newer) (qs_used older)
     \<and> sub_i64 (qs_observed_at newer) (qs_observed_at older) \<le> 21600"

lemma grow_segment_chain:
  "successively (\<lambda>newer older. comparable latest older newer) (newer # fst (grow_segment latest newer rest))"
  by (induction latest newer rest rule: grow_segment.induct) (auto simp: comparable_def split: prod.split)

lemma grow_segment_prefix: "prefix (fst (grow_segment latest newer rest)) rest"
  by (induction latest newer rest rule: grow_segment.induct) (auto split: prod.split)

lemma no_equal_neighbours:
  fixes rows :: "quota_sample list"
  assumes "sorted (map qs_observed_at rows)" "\<not> list_ex (\<lambda>(a, b). qs_observed_at a = qs_observed_at b) (windows2 rows)"
  shows "sorted_wrt (\<lambda>a b. qs_observed_at a < qs_observed_at b) rows"
  using assms
proof (induction rows)
  case (Cons a rows)
  show ?case
  proof (cases rows)
    case Nil
    then show ?thesis by simp
  next
    case (Cons b rest)
    have ne: "qs_observed_at a \<noteq> qs_observed_at b" and tl: "sorted_wrt (\<lambda>a b. qs_observed_at a < qs_observed_at b) rows"
      using Cons.prems Cons.IH local.Cons by (auto simp: windows2_def)
    have "qs_observed_at a < qs_observed_at b" using ne Cons.prems(1) local.Cons by simp
    then show ?thesis using tl local.Cons by fastforce
  qed
qed simp

lemma add_note_simps [simp]:
  "rw_horizons (add_note n r) = rw_horizons r" "rw_coverage (add_note n r) = rw_coverage r"
  "rw_remaining (add_note n r) = rw_remaining r" "rw_reset_at (add_note n r) = rw_reset_at r"
  "rw_estimate_label (add_note n r) = rw_estimate_label r" "rw_provider (add_note n r) = rw_provider r"
  "rw_used (add_note n r) = rw_used r" "rw_as_of (add_note n r) = rw_as_of r"
  by (simp_all add: add_note_def)

lemma project_segment_frame:
  "rw_coverage (project_segment powf latest seg now r) = rw_coverage r"
  "rw_estimate_label (project_segment powf latest seg now r) = rw_estimate_label r"
  "rw_remaining (project_segment powf latest seg now r) = rw_remaining r"
  by (simp_all add: project_segment_def Let_def)

lemma project_segment_horizons:
  "rw_horizons r = [] \<Longrightarrow> rw_horizons (project_segment powf latest seg now r) =
     (let width = sub_i64 (qs_observed_at latest) (qs_observed_at (hd seg)) in
      if length seg < 2 \<or> width < 60 then []
      else segment_horizons powf latest seg width (rw_remaining r) (map_option (\<lambda>t. sub_i64 t now) (qs_reset_at latest))
        (f_div (f_sub (qs_used latest) (qs_used (hd seg))) (f_of_int width)))"
  by (simp add: project_segment_def Let_def)

text \<open>No horizon predicts an exhaustion at or after the reset, and none predicts one that is not finite.\<close>

definition bounded_by_reset :: "int option \<Rightarrow> horizon \<Rightarrow> bool" where
  "bounded_by_reset reset_in h = (case hz_exhaustion_after_seconds h of None \<Rightarrow> True
     | Some e \<Rightarrow> f_is_finite e \<and> (case reset_in of None \<Rightarrow> True | Some r \<Rightarrow> \<not> f_le (f_of_int r) e))"

lemma eta_of_finite: "eta_of rate remaining = Some e \<Longrightarrow> f_is_finite e"
  by (auto simp: eta_of_def finite_ratio_def Let_def f_zero_def f_is_finite_def split: option.splits if_splits f64.splits)

lemma make_horizon_bounded: "bounded_by_reset reset_in (make_horizon label rate remaining reset_in width)"
  using eta_of_finite[of rate remaining]
  by (cases "eta_of rate remaining"; cases reset_in) (simp_all add: make_horizon_def bounded_by_reset_def Let_def zip_opt_def)

lemma segment_horizons_bounded:
  "list_all (bounded_by_reset reset_in) (segment_horizons powf latest seg width remaining reset_in baseline)"
  by (simp add: segment_horizons_def Let_def window_horizon_def make_horizon_bounded split: prod.split)

lemma segment_horizons_labels:
  "map hz_label (segment_horizons powf latest seg width remaining reset_in baseline) =
     [''10m'', ''1h'', ''6h'', ''observed_window_baseline'', ''ewma_1h_half_life'', ''blended'']"
  by (simp add: segment_horizons_def Let_def window_horizon_def make_horizon_def split: prod.split)

lemma base_runway_horizons: "(rw_horizons (base_runway latest now) = []) = True"
  by (simp add: base_runway_def)

lemma quota_validate_times:
  assumes "quota_validate s = Inr ()"
  shows "control_timestamp (qs_observed_at s) = Inr ()" "check_opt control_timestamp (qs_reset_at s) = Inr ()"
  using assms by (auto simp: quota_validate_def check_simps)

lemma forecast_rows:
  assumes "forecast powf samples now = Inr r" and "rw_horizons r \<noteq> []"
  obtains rows latest older broken where
    "rows = sort_key qs_observed_at (filter (\<lambda>s. qs_observed_at s \<le> now) samples)" "rows \<noteq> []" "latest = last rows"
    "control_timestamp now = Inr ()" "\<forall>s\<in>set samples. quota_validate s = Inr ()"
    "qs_meter latest = Subscription" "\<forall>t. qs_reset_at latest = Some t \<longrightarrow> now < t" "sub_i64 now (qs_observed_at latest) \<le> 900"
    "qs_limit latest \<noteq> None" "\<not> list_ex (\<lambda>(a, b). qs_observed_at a = qs_observed_at b) (windows2 rows)"
    "grow_segment latest latest (tl (rev rows)) = (older, broken)"
    "rw_horizons r = rw_horizons (project_segment powf latest (rev (latest # older)) now (base_runway latest now))"
proof -
  define rows where "rows = sort_key qs_observed_at (filter (\<lambda>s. qs_observed_at s \<le> now) samples)"
  define latest where "latest = last rows"
  obtain older broken where g: "grow_segment latest latest (tl (rev rows)) = (older, broken)" by fastforce
  have base: "rw_horizons (base_runway latest now) = []" by (simp add: base_runway_def)
  have noted: "rw_horizons (project_segment powf latest seg now (add_note n x)) = rw_horizons (project_segment powf latest seg now x)"
    if "rw_horizons x = []" for seg n x using that by (simp only: project_segment_horizons add_note_simps)
  have A: "control_timestamp now = Inr ()" "\<forall>s\<in>set samples. quota_validate s = Inr ()"
    using assms(1) by (auto simp: forecast_def check_simps)
  have B: "rows \<noteq> []" "qs_meter latest = Subscription" "\<forall>t. qs_reset_at latest = Some t \<longrightarrow> now < t"
    "sub_i64 now (qs_observed_at latest) \<le> 900" "qs_limit latest \<noteq> None"
    "\<not> list_ex (\<lambda>(a, b). qs_observed_at a = qs_observed_at b) (windows2 rows)"
    "r = project_segment powf latest (rev (latest # older)) now
       (if broken then add_note ''A reset, changed capacity, correction or observation gap ends the forecast baseline.''
          (base_runway latest now) else base_runway latest now)"
    using assms base unfolding forecast_def bind_check_ok Let_def rows_def[symmetric] latest_def[symmetric] g prod.case
    by (auto split: if_splits option.splits)
  have "rw_horizons r = rw_horizons (project_segment powf latest (rev (latest # older)) now (base_runway latest now))"
    using B(7) noted base by simp
  with A B g show thesis using that rows_def latest_def by blast
qed

lemma successively_conj: "successively P xs \<Longrightarrow> successively Q xs \<Longrightarrow> successively (\<lambda>a b. P a b \<and> Q a b) xs"
  by (induction P xs rule: successively.induct) auto

text \<open>
  C38: A runway forecast shows horizons only for the newest non-future sample, of a subscription with a known
  capacity, at most 15 minutes old and before its reset, over at least two samples of the same stream that span a
  minute, never decrease and leave no gap above six hours; and no horizon predicts an exhaustion at or after the reset.
\<close>

theorem forecast_needs_comparable_evidence:
  assumes "forecast powf samples now = Inr r" and "rw_horizons r \<noteq> []"
  shows "\<exists>seg. set seg \<subseteq> set samples \<and> 2 \<le> length seg
    \<and> qs_meter (last seg) = Subscription \<and> qs_limit (last seg) \<noteq> None
    \<and> now - qs_observed_at (last seg) \<in> {0..900} \<and> (\<forall>t. qs_reset_at (last seg) = Some t \<longrightarrow> now < t)
    \<and> (\<forall>s \<in> set samples. qs_observed_at s \<le> now \<longrightarrow> qs_observed_at s \<le> qs_observed_at (last seg))
    \<and> 60 \<le> qs_observed_at (last seg) - qs_observed_at (hd seg)
    \<and> successively (\<lambda>a b. same_stream a (last seg) \<and> \<not> f_lt (qs_used b) (qs_used a)
        \<and> qs_observed_at b - qs_observed_at a \<in> {1..21600}) seg
    \<and> list_all (bounded_by_reset (map_option (\<lambda>t. t - now) (qs_reset_at (last seg)))) (rw_horizons r)"
proof -
  obtain rows latest older broken where rows: "rows = sort_key qs_observed_at (filter (\<lambda>s. qs_observed_at s \<le> now) samples)"
    and ne: "rows \<noteq> []" and l: "latest = last rows" and now: "control_timestamp now = Inr ()"
    and valid: "\<forall>s\<in>set samples. quota_validate s = Inr ()"
    and sub: "qs_meter latest = Subscription" "\<forall>t. qs_reset_at latest = Some t \<longrightarrow> now < t" "qs_limit latest \<noteq> None"
    and age: "sub_i64 now (qs_observed_at latest) \<le> 900"
    and dup: "\<not> list_ex (\<lambda>(a, b). qs_observed_at a = qs_observed_at b) (windows2 rows)"
    and g: "grow_segment latest latest (tl (rev rows)) = (older, broken)"
    and h: "rw_horizons r = rw_horizons (project_segment powf latest (rev (latest # older)) now (base_runway latest now))"
    using forecast_rows[OF assms] .
  define seg where "seg = rev (latest # older)"
  have inrows: "set rows \<subseteq> set samples" by (auto simp: rows)
  have mem: "latest \<in> set rows" using ne l by simp
  have last: "last seg = latest" by (simp add: seg_def)
  have rr: "rev rows = latest # tl (rev rows)" using ne l by (metis hd_rev list.collapse rev_is_Nil_conv)
  have pre: "prefix (latest # older) (rev rows)" using grow_segment_prefix[of latest latest "tl (rev rows)"] g
    by (subst rr) simp
  have segrows: "set seg \<subseteq> set rows" using set_mono_prefix[OF pre] by (auto simp: seg_def)
  have exact: "sub_i64 (qs_observed_at a) (qs_observed_at b) = qs_observed_at a - qs_observed_at b"
    if "a \<in> set samples" "b \<in> set samples" for a b
    using that valid by (intro timestamps_sub_exact quota_validate_times) auto
  have inc: "sorted_wrt (\<lambda>a b. qs_observed_at a < qs_observed_at b) rows"
    by (rule no_equal_neighbours[OF _ dup]) (simp add: rows)
  then have "sorted_wrt (\<lambda>a b. qs_observed_at b < qs_observed_at a) (rev rows)" by (simp add: sorted_wrt_rev)
  then have inc2: "sorted_wrt (\<lambda>a b. qs_observed_at b < qs_observed_at a) (latest # older)"
    using pre by (metis prefixE sorted_wrt_append)
  have chain: "successively (\<lambda>b a. comparable latest a b) (latest # older)"
    using grow_segment_chain[of latest latest "tl (rev rows)"] g by simp
  have chain2: "successively (\<lambda>b a. same_stream a latest \<and> \<not> f_lt (qs_used b) (qs_used a)
        \<and> qs_observed_at b - qs_observed_at a \<in> {1..21600}) (latest # older)"
  proof (rule successively_mono[OF successively_conj[OF chain successively_if_sorted_wrt[OF inc2]]])
    fix b a
    assume m: "b \<in> set (latest # older)" "a \<in> set (latest # older)"
      and c: "comparable latest a b \<and> qs_observed_at a < qs_observed_at b"
    have "sub_i64 (qs_observed_at b) (qs_observed_at a) = qs_observed_at b - qs_observed_at a"
      using m segrows inrows by (intro exact) (auto simp: seg_def)
    then show "same_stream a latest \<and> \<not> f_lt (qs_used b) (qs_used a) \<and> qs_observed_at b - qs_observed_at a \<in> {1..21600}"
      using c by (simp add: comparable_def)
  qed
  then have chain3: "successively (\<lambda>a b. same_stream a latest \<and> \<not> f_lt (qs_used b) (qs_used a)
        \<and> qs_observed_at b - qs_observed_at a \<in> {1..21600}) seg"
    unfolding seg_def successively_rev by blast
  define width where "width = sub_i64 (qs_observed_at latest) (qs_observed_at (hd seg))"
  have hz: "rw_horizons r = (if length seg < 2 \<or> width < 60 then []
      else segment_horizons powf latest seg width (rw_remaining (base_runway latest now))
        (map_option (\<lambda>t. sub_i64 t now) (qs_reset_at latest)) (f_div (f_sub (qs_used latest) (qs_used (hd seg))) (f_of_int width)))"
    using h project_segment_horizons[of "base_runway latest now" powf latest seg now]
    unfolding seg_def[symmetric] width_def Let_def by (simp only: base_runway_horizons)
  have long: "2 \<le> length seg" "60 \<le> width" using hz assms(2) by (auto split: if_splits)
  have nonempty: "seg \<noteq> []" by (simp add: seg_def)
  have w: "width = qs_observed_at latest - qs_observed_at (hd seg)"
    unfolding width_def using mem segrows inrows hd_in_set[OF nonempty] by (intro exact) auto
  have "now - qs_observed_at latest \<in> {0..900}"
    using age mem valid inrows timestamps_sub_exact[OF now quota_validate_times(1), of latest] by (auto simp: rows)
  moreover have "qs_observed_at s \<le> qs_observed_at latest" if "s \<in> set samples" "qs_observed_at s \<le> now" for s
  proof -
    have "sorted_wrt (\<lambda>a b. qs_observed_at b < qs_observed_at a) (latest # tl (rev rows))"
      using inc unfolding rr[symmetric] by (simp add: sorted_wrt_rev)
    moreover have "s \<in> set (latest # tl (rev rows))"
      unfolding rr[symmetric] using that by (simp add: rows)
    ultimately show ?thesis by auto
  qed
  moreover have "map_option (\<lambda>t. sub_i64 t now) (qs_reset_at latest) = map_option (\<lambda>t. t - now) (qs_reset_at latest)"
    using mem inrows valid timestamps_sub_exact[OF _ now] quota_validate_times(2)[of latest]
    by (cases "qs_reset_at latest") auto
  ultimately show ?thesis
    using hz long w chain3 sub segrows inrows last segment_horizons_bounded by (intro exI[of _ seg]) auto
qed

definition sample_at :: "int \<Rightarrow> rat \<Rightarrow> quota_sample" where
  "sample_at t used = \<lparr>qs_id = ''s'', qs_provider = ''codex'', qs_account_alias = ''me'', qs_bucket = ''primary'',
     qs_meter = Subscription, qs_unit = ''percent'', qs_window_id = ''w'', qs_used = Finite False used,
     qs_limit = Some (Finite False 100), qs_reset_at = Some 9000, qs_observed_at = t, qs_precision = ''exact'',
     qs_evidence = \<lparr>ev_kind = AgentReported, ev_source = ''import'', ev_at = t, ev_coverage = Partial\<rparr>\<rparr>"

lemma sample_at_valid: "0 \<le> t \<Longrightarrow> t \<le> 9000 \<Longrightarrow> 0 \<le> u \<Longrightarrow> u \<le> 100 \<Longrightarrow> quota_validate (sample_at t u) = Inr ()"
  by (simp add: quota_validate_def sample_at_def control_timestamp_def text_eval id_eval control_evidence_def f_is_finite_def f_le_def f_zero_def
     quota_ceiling_def unit_ok_def)

lemma sample_at_sel [simp]:
  "qs_observed_at (sample_at t u) = t" "qs_used (sample_at t u) = Finite False u" "qs_meter (sample_at t u) = Subscription"
  "qs_limit (sample_at t u) = Some (Finite False 100)" "qs_reset_at (sample_at t u) = Some 9000"
  "qs_provider (sample_at t u) = ''codex''" "qs_account_alias (sample_at t u) = ''me''" "qs_bucket (sample_at t u) = ''primary''"
  "qs_unit (sample_at t u) = ''percent''" "qs_window_id (sample_at t u) = ''w''"
  by (simp_all add: sample_at_def)

theorem forecast_needs_comparable_evidence_witness:
  "\<exists>r seg. forecast (\<lambda>_ _. NaN) [sample_at 60 20, sample_at 0 10] 90 = Inr r \<and> rw_horizons r \<noteq> []
     \<and> 2 \<le> length seg \<and> set seg \<subseteq> {sample_at 60 20, sample_at 0 10} \<and> 60 \<le> qs_observed_at (last seg) - qs_observed_at (hd seg)"
proof -
  let ?a = "sample_at 60 20" and ?b = "sample_at 0 10"
  have rows: "sort_key qs_observed_at (filter (\<lambda>s. qs_observed_at s \<le> 90) [?a, ?b]) = [?b, ?a]" by simp
  have grown: "grow_segment ?a ?a [?b] = ([?b], False)"
    by (simp add: same_stream_def f_eq_opt_def sub_i64_exact in_i64_def)
  define r where "r = project_segment (\<lambda>_ _. NaN) ?a [?b, ?a] 90 (base_runway ?a 90)"
  have r: "forecast (\<lambda>_ _. NaN) [?a, ?b] 90 = Inr r"
    unfolding forecast_def Let_def rows r_def
    by (simp add: control_timestamp_def sample_at_valid grown same_stream_def f_eq_opt_def windows2_def sub_i64_exact in_i64_def)
  moreover have h: "rw_horizons r \<noteq> []"
    unfolding r_def by (subst project_segment_horizons)
      (simp_all add: base_runway_def sub_i64_exact in_i64_def segment_horizons_def Let_def)
  ultimately show ?thesis using forecast_needs_comparable_evidence[OF r h] by (auto simp del: sample_at_sel)
qed

section \<open>Model selection\<close>

lemma models_check_ok:
  "models_check names ms = Inr () \<Longrightarrow> (\<forall>m \<in> set ms. f_is_finite (mm_quality m) \<and> f_is_finite (mm_task_cost_usd m)
     \<and> (\<forall>x. mm_latency_ms m = Some x \<longrightarrow> f_is_finite x) \<and> mm_model m \<notin> names \<and> mm_license_state m = ''permitted_local_use'') \<and> distinct (map mm_model ms)"
  by (induction names ms rule: models_check.induct) (auto simp: check_simps model_check_def)

lemma dominates_irrefl: "\<not> dominates a a"
  by (simp add: dominates_def)

lemma dominates_trans: "dominates c b \<Longrightarrow> dominates b a \<Longrightarrow> dominates c a"
  unfolding dominates_def by (meson f_le_lt_trans f_le_trans f_lt_le_trans)

lemma frontier_covers:
  assumes "m \<in> set eligible"
  shows "m \<in> set (frontier eligible) \<or> (\<exists>b \<in> set (frontier eligible). dominates b m)"
proof -
  define R where "R = {(b, a). dominates b a \<and> a \<in> set eligible \<and> b \<in> set eligible}"
  have "finite R" by (rule finite_subset[of _ "set eligible \<times> set eligible"]) (auto simp: R_def)
  moreover have "acyclic R"
  proof -
    have "trans R" by (auto simp: trans_def R_def intro: dominates_trans)
    then show ?thesis by (simp add: acyclic_irrefl irrefl_def R_def dominates_irrefl)
  qed
  ultimately have wf: "wf R" by (rule finite_acyclic_wf)
  show ?thesis using assms
  proof (induction m rule: wf_induct_rule[OF wf])
    case (1 m)
    show ?case
    proof (cases "m \<in> set (frontier eligible)")
      case False
      then obtain b where b: "b \<in> set eligible" "dominates b m" using 1(2) by (auto simp: frontier_def list_ex_iff)
      then show ?thesis using 1 by (auto simp: R_def intro: dominates_trans)
    qed simp
  qed
qed

lemma pareto_ok:
  assumes "pareto models = Inr j"
  shows "json_get j ''frontier'' = Some (JArr (map (\<lambda>m. JStr (mm_model m)) (frontier (filter mm_available models))))"
    and "models_check {} models = Inr ()"
    and "\<forall>a \<in> set models. \<forall>b \<in> set models. mm_available a \<and> mm_available b \<longrightarrow> mm_benchmark a = mm_benchmark b \<and> mm_revision a = mm_revision b"
proof -
  define eligible where "eligible = filter mm_available models"
  show "models_check {} models = Inr ()" using assms by (auto simp: pareto_def check_simps)
  have j: "json_get j ''frontier'' = Some (JArr (map (\<lambda>m. JStr (mm_model m)) (frontier eligible)))"
    using assms unfolding pareto_def eligible_def[symmetric] Let_def by (auto simp: check_simps split: if_splits)
  then show "json_get j ''frontier'' = Some (JArr (map (\<lambda>m. JStr (mm_model m)) (frontier (filter mm_available models))))"
    by (simp add: eligible_def)
  have "\<not> (case eligible of [] \<Rightarrow> False
         | first # _ \<Rightarrow> list_ex (\<lambda>m. mm_benchmark m \<noteq> mm_benchmark first \<or> mm_revision m \<noteq> mm_revision first) eligible)"
    using assms unfolding pareto_def eligible_def[symmetric] Let_def by (simp add: check_simps split: if_splits)
  then have "mm_benchmark a = mm_benchmark b \<and> mm_revision a = mm_revision b" if "a \<in> set eligible" "b \<in> set eligible" for a b
    using that by (cases eligible) (auto simp: list_ex_iff)
  then show "\<forall>a \<in> set models. \<forall>b \<in> set models. mm_available a \<and> mm_available b \<longrightarrow> mm_benchmark a = mm_benchmark b \<and> mm_revision a = mm_revision b"
    by (simp add: eligible_def)
qed

definition outranks :: "string \<Rightarrow> model_metric \<Rightarrow> model_metric \<Rightarrow> bool" where
  "outranks criterion b a \<longleftrightarrow>
     (if criterion = ''best_quality'' then f_lt (mm_quality a) (mm_quality b)
      else if criterion = ''cheapest_above_threshold'' then f_lt (mm_task_cost_usd b) (mm_task_cost_usd a)
      else f_lt (the (mm_latency_ms b)) (the (mm_latency_ms a)))"

lemma f_rank_mono:
  "f_is_finite x \<Longrightarrow> f_is_finite y \<Longrightarrow> f_rank x \<le> f_rank y \<Longrightarrow> \<not> f_lt y x"
  by (auto simp: f_finite_cases f_rank_def)

lemma down_rank_mono:
  "f_is_finite x \<Longrightarrow> f_is_finite y \<Longrightarrow> down (f_rank x) \<le> down (f_rank y) \<Longrightarrow> \<not> f_lt x y"
  by (auto simp: f_finite_cases f_rank_def down_def)

lemma sort_by_primary:
  fixes f :: "'a \<Rightarrow> 'b::linorder" and g :: "'a \<Rightarrow> 'c::linorder"
  shows "sorted_wrt (\<lambda>a b. f a \<le> f b) (sort_key (\<lambda>m. (f m, g m)) xs)"
proof -
  have "sorted_wrt (\<lambda>a b. (f a, g a) \<le> (f b, g b)) (sort_key (\<lambda>m. (f m, g m)) xs)"
    using sorted_sort_key[of "\<lambda>m. (f m, g m)" xs] by (simp add: sorted_map)
  then show ?thesis by (rule sorted_wrt_mono_rel[rotated]) auto
qed

lemma ranked_sorted:
  assumes ok: "\<forall>m \<in> set ms. f_is_finite (mm_quality m) \<and> f_is_finite (mm_task_cost_usd m) \<and> (\<forall>x. mm_latency_ms m = Some x \<longrightarrow> f_is_finite x)"
  shows "sorted_wrt (\<lambda>a b. \<not> outranks criterion b a) (ranked criterion ms)"
proof -
  consider (q) "criterion = ''best_quality''" | (c) "criterion \<noteq> ''best_quality''" "criterion = ''cheapest_above_threshold''"
    | (l) "criterion \<noteq> ''best_quality''" "criterion \<noteq> ''cheapest_above_threshold''" by blast
  then show ?thesis
  proof cases
    case q
    show ?thesis unfolding ranked_def if_P[OF q]
      by (rule sorted_wrt_mono_rel[OF _ sort_by_primary])
        (use ok in \<open>auto simp: outranks_def q dest: down_rank_mono[rotated 2]\<close>)
  next
    case c
    show ?thesis unfolding ranked_def if_not_P[OF c(1)] if_P[OF c(2)]
      by (rule sorted_wrt_mono_rel[OF _ sort_by_primary])
        (use ok in \<open>auto simp: outranks_def c(2) dest: f_rank_mono[rotated 2]\<close>)
  next
    case l
    show ?thesis unfolding ranked_def if_not_P[OF l(1)] if_not_P[OF l(2)]
      by (rule sorted_wrt_mono_rel[OF _ sort_by_primary])
        (use ok in \<open>auto simp: outranks_def l dest: f_rank_mono[rotated 2]\<close>)
  qed
qed

definition candidate :: "selection_request \<Rightarrow> model_metric \<Rightarrow> bool" where
  "candidate request m \<longleftrightarrow> mm_available m \<and> f_le (sr_quality_threshold request) (mm_quality m)
     \<and> (sr_criterion request = ''fastest_above_threshold'' \<longrightarrow> mm_latency_ms m \<noteq> None)"

lemma ranked_set:
  assumes "sr_criterion request \<in> set [''best_quality'', ''cheapest_above_threshold'', ''fastest_above_threshold'']"
  shows "set (ranked (sr_criterion request) (filter (\<lambda>m. mm_available m \<and> f_le (sr_quality_threshold request) (mm_quality m)) ms))
    = {m \<in> set ms. candidate request m}"
  using assms by (auto simp: ranked_def candidate_def)

lemma set_frontier: "set (frontier ms) = {m \<in> set ms. \<forall>b \<in> set ms. \<not> dominates b m}"
  by (auto simp: frontier_def list_ex_iff)

lemma select_models_ok:
  assumes "select_models request = Inr j"
  obtains front where "pareto (sr_models request) = Inr front"
    "sr_criterion request \<in> set [''best_quality'', ''cheapest_above_threshold'', ''fastest_above_threshold'']"
    "json_get j ''pareto'' = Some front" "json_get j ''automatic_switching'' = Some (JBool False)"
    "json_get j ''candidates'' = Some (JArr (map (\<lambda>m. JStr (mm_model m)) (ranked (sr_criterion request)
       (filter (\<lambda>m. mm_available m \<and> f_le (sr_quality_threshold request) (mm_quality m)) (sr_models request)))))"
  using assms unfolding select_models_def bind_check_def
  by (cases "pareto (sr_models request)") (auto split: if_splits)

text \<open>
  A selection compares only models licensed for local use. Its frontier holds exactly the available models that no
  available model dominates, and every other available model is dominated by a member; its candidates are exactly the
  available models above the threshold (with a known latency where latency decides), and none is listed before one that
  outranks it; it never switches models by itself.
\<close>

theorem selection_is_exact:
  assumes "select_models request = Inr j"
  shows "\<exists>members candidates.
    json_get j ''candidates'' = Some (JArr (map (\<lambda>m. JStr (mm_model m)) candidates))
    \<and> json_pointer j [''pareto'', ''frontier''] = Some (JArr (map (\<lambda>m. JStr (mm_model m)) members))
    \<and> json_get j ''automatic_switching'' = Some (JBool False)
    \<and> set members = {m \<in> set (sr_models request). mm_available m \<and> (\<forall>b \<in> set (sr_models request). mm_available b \<longrightarrow> \<not> dominates b m)}
    \<and> (\<forall>m \<in> set (sr_models request). mm_available m \<longrightarrow> m \<in> set members \<or> (\<exists>b \<in> set members. dominates b m))
    \<and> set candidates = {m \<in> set (sr_models request). candidate request m}
    \<and> sorted_wrt (\<lambda>a b. \<not> outranks (sr_criterion request) b a) candidates
    \<and> (\<forall>a \<in> set (sr_models request). mm_license_state a = ''permitted_local_use'')"
proof -
  obtain front where f: "pareto (sr_models request) = Inr front"
    and crit: "sr_criterion request \<in> set [''best_quality'', ''cheapest_above_threshold'', ''fastest_above_threshold'']"
    and j: "json_get j ''pareto'' = Some front" "json_get j ''automatic_switching'' = Some (JBool False)"
    "json_get j ''candidates'' = Some (JArr (map (\<lambda>m. JStr (mm_model m)) (ranked (sr_criterion request)
       (filter (\<lambda>m. mm_available m \<and> f_le (sr_quality_threshold request) (mm_quality m)) (sr_models request)))))"
    using select_models_ok[OF assms] .
  note ok = models_check_ok[OF pareto_ok(2)[OF f]]
  have sorted: "sorted_wrt (\<lambda>a b. \<not> outranks (sr_criterion request) b a) (ranked (sr_criterion request)
       (filter (\<lambda>m. mm_available m \<and> f_le (sr_quality_threshold request) (mm_quality m)) (sr_models request)))"
    using ok by (intro ranked_sorted) auto
  show ?thesis
    using pareto_ok(1)[OF f] j ok sorted ranked_set[OF crit] frontier_covers[of _ "filter mm_available (sr_models request)"]
    by (intro exI[of _ "frontier (filter mm_available (sr_models request))"] exI conjI)
      (auto simp: set_frontier)
qed

definition model_at :: "string \<Rightarrow> rat \<Rightarrow> rat \<Rightarrow> model_metric" where
  "model_at name quality cost = \<lparr>mm_model = name, mm_benchmark = ''bench'', mm_revision = ''r1'', mm_quality = Finite False quality,
     mm_task_cost_usd = Finite False cost, mm_latency_ms = None, mm_available = True, mm_license_state = ''permitted_local_use'',
     mm_source = ''import''\<rparr>"

theorem selection_is_exact_witness:
  "\<exists>j candidates. select_models \<lparr>sr_models = [model_at ''b'' 3 2, model_at ''a'' 5 1], sr_criterion = ''best_quality'',
       sr_quality_threshold = Finite False 1\<rparr> = Inr j
     \<and> json_get j ''candidates'' = Some (JArr (map (\<lambda>m. JStr (mm_model m)) candidates))
     \<and> set candidates = {model_at ''b'' 3 2, model_at ''a'' 5 1}"
proof -
  let ?r = "\<lparr>sr_models = [model_at ''b'' 3 2, model_at ''a'' 5 1], sr_criterion = ''best_quality'', sr_quality_threshold = Finite False 1\<rparr>"
  have chk: "checks [reject (length (sr_models ?r) > 500) ''MODEL_LIMIT'', models_check {} (sr_models ?r)] = Inr ()"
    by (simp add: model_check_def model_at_def f_is_finite_def f_le_def f_zero_def text_eval)
  have one: "(case filter mm_available (sr_models ?r) of [] \<Rightarrow> False
         | first # _ \<Rightarrow> list_ex (\<lambda>m. mm_benchmark m \<noteq> mm_benchmark first \<or> mm_revision m \<noteq> mm_revision first)
             (filter mm_available (sr_models ?r))) = False"
    by (simp add: model_at_def)
  obtain front where front: "pareto (sr_models ?r) = Inr front"
    by (rule that[OF pareto_def[of "sr_models ?r", unfolded chk bind_check_simps Let_def one if_False]])
  have fin: "(\<not> f_is_finite (sr_quality_threshold ?r)) = False" by (simp add: f_is_finite_def)
  have crit: "(sr_criterion ?r \<notin> set [''best_quality'', ''cheapest_above_threshold'', ''fastest_above_threshold'']) = False" by simp
  obtain j where j: "select_models ?r = Inr j"
    by (rule that[OF select_models_def[of ?r, unfolded front bind_check_simps fin crit if_False]])
  have "{m \<in> set (sr_models ?r). candidate ?r m} = {model_at ''b'' 3 2, model_at ''a'' 5 1}"
    by (auto simp: candidate_def model_at_def f_le_def)
  moreover obtain cs where "json_get j ''candidates'' = Some (JArr (map (\<lambda>m. JStr (mm_model m)) cs))"
    "set cs = {m \<in> set (sr_models ?r). candidate ?r m}"
    using selection_is_exact[OF j] by (elim exE conjE) (rule that)
  ultimately show ?thesis using j by (intro exI[of _ j] exI[of _ cs] conjI) (simp_all only:)
qed

section \<open>Imports\<close>

definition imported :: "evidence \<Rightarrow> string \<Rightarrow> int \<Rightarrow> nat \<Rightarrow> quota_sample \<Rightarrow> bool" where
  "imported ev account stamp n s \<longleftrightarrow> qs_id s = ''sample-'' @ show_nat n \<and> qs_evidence s = ev
     \<and> qs_account_alias s = account \<and> qs_observed_at s = stamp \<and> quota_validate s = Inr ()
     \<and> (qs_meter s = Dollars \<longrightarrow> qs_precision s = ''estimated'')"

definition all_imported :: "evidence \<Rightarrow> string \<Rightarrow> int \<Rightarrow> quota_sample list \<Rightarrow> bool" where
  "all_imported ev account stamp out \<longleftrightarrow> (\<forall>n < length out. imported ev account stamp n (out ! n))"

definition keeps_imports :: "evidence \<Rightarrow> string \<Rightarrow> int \<Rightarrow> adder \<Rightarrow> bool" where
  "keeps_imports ev account stamp a \<longleftrightarrow>
     (\<forall>out out'. all_imported ev account stamp out \<longrightarrow> a out = Inr out' \<longrightarrow> all_imported ev account stamp out')"

lemma quota_validate_estimated: "quota_validate s = Inr () \<Longrightarrow> quota_validate (s\<lparr>qs_precision := ''estimated''\<rparr>) = Inr ()"
  by (simp add: quota_validate_def checks_Cons_ok checks_Nil_ok)

lemma vendor_add_ok:
  "vendor_add ev account stamp e out = Inr out' \<longleftrightarrow>
     quota_validate (vendor_sample ev account stamp (length out) e) = Inr () \<and> out' = out @ [vendor_sample ev account stamp (length out) e]"
  by (auto simp: vendor_add_def Let_def bind_check_ok)

lemma vendor_sample_imported:
  assumes "quota_validate (vendor_sample ev account stamp n (p, b, u, r, m, un, l)) = Inr ()"
  shows "m \<noteq> Dollars \<Longrightarrow> imported ev account stamp n (vendor_sample ev account stamp n (p, b, u, r, m, un, l))"
    and "imported ev account stamp n (vendor_sample ev account stamp n (p, b, u, r, m, un, l)\<lparr>qs_precision := ''estimated''\<rparr>)"
  using assms quota_validate_estimated[OF assms] by (simp_all add: imported_def) (simp_all add: vendor_sample_def)

lemma all_imported_snoc:
  "all_imported ev account stamp (out @ [s]) \<longleftrightarrow> all_imported ev account stamp out \<and> imported ev account stamp (length out) s"
  by (auto simp: all_imported_def nth_append less_Suc_eq)

lemma vendor_add_keeps:
  assumes "m \<noteq> Dollars"
  shows "keeps_imports ev account stamp (\<lambda>out. vendor_add ev account stamp (p, b, u, r, m, un, l) out)"
  using assms by (simp add: keeps_imports_def vendor_add_ok all_imported_snoc vendor_sample_imported)

lemma run_adds_keeps:
  "list_all (keeps_imports ev account stamp) as \<Longrightarrow> keeps_imports ev account stamp (run_adds as)"
proof (induction as)
  case Nil
  show ?case by (simp add: keeps_imports_def)
next
  case (Cons a as)
  then have a: "keeps_imports ev account stamp a" and as: "keeps_imports ev account stamp (run_adds as)" by simp_all
  show ?case unfolding keeps_imports_def run_adds.simps bind_check_ok
  proof (intro allI impI)
    fix out out' assume "all_imported ev account stamp out" "\<exists>x. a out = Inr x \<and> run_adds as x = Inr out'"
    then show "all_imported ev account stamp out'" using a as unfolding keeps_imports_def by blast
  qed
qed

lemma window_add_keeps:
  "keeps_imports ev account stamp (window_add nf ni (vendor_add ev account stamp) provider bucket uk rk v)"
  unfolding keeps_imports_def window_add_def
  by (cases "present v") (auto simp: bind_check_ok vendor_add_ok all_imported_snoc vendor_sample_imported)

lemma reading_add_keeps:
  "m \<noteq> Dollars \<Longrightarrow> keeps_imports ev account stamp (reading_add nf (vendor_add ev account stamp) payload path bucket m un l)"
  unfolding keeps_imports_def reading_add_def
  by (cases "Option.bind (json_pointer payload path) (json_as_num nf)")
    (simp_all add: vendor_add_ok all_imported_snoc vendor_sample_imported)

lemma cost_add_keeps: "keeps_imports ev account stamp (cost_add nf (vendor_add ev account stamp) payload)"
  unfolding keeps_imports_def cost_add_def
  by (cases "Option.bind (json_pointer payload [''cost'', ''total_cost_usd'']) (json_as_num nf)")
    (simp_all add: bind_check_ok vendor_add_ok mark_estimated_def all_imported_snoc vendor_sample_imported)

lemma vendor_adds_keep:
  "vendor_adds nf ni (vendor_add ev account stamp) format payload = Inr as \<Longrightarrow> list_all (keeps_imports ev account stamp) as"
  by (auto simp: vendor_adds_def codex_adds_def claude_adds_def bind_check_ok list_all_iff window_add_keeps reading_add_keeps
      cost_add_keeps split: if_splits prod.splits)

text \<open>
  Whatever a vendor payload contains, an import yields samples numbered in order that carry the import's own
  evidence (agent-reported, partial), account and time; each passes the validator up to the session name given to
  samples without a reset, and a cost in dollars is never reported as exact.
\<close>

theorem vendor_import_keeps_provenance:
  assumes "normalize_vendor nf ni format payload version account stamp = Inr out"
  shows "out \<noteq> [] \<and> (\<forall>n < length out. let s = out ! n in
      qs_id s = ''sample-'' @ show_nat n \<and> qs_account_alias s = account \<and> qs_observed_at s = stamp
      \<and> ev_kind (qs_evidence s) = AgentReported \<and> ev_coverage (qs_evidence s) = Partial
      \<and> ev_source (qs_evidence s) = ''explicit-import:'' @ format @ '':'' @ version
      \<and> (qs_meter s = Dollars \<longrightarrow> qs_precision s = ''estimated'')
      \<and> (\<exists>w. quota_validate (s\<lparr>qs_window_id := w\<rparr>) = Inr ())
      \<and> (qs_reset_at s \<noteq> None \<longrightarrow> quota_validate s = Inr ()))"
proof -
  let ?ev = "import_evidence format version stamp"
  obtain as plain where as: "vendor_adds nf ni (vendor_add ?ev account stamp) format payload = Inr as"
    and plain: "run_adds as [] = Inr plain" and named: "name_session payload plain = Inr out" and ne: "out \<noteq> []"
    using assms by (auto simp: normalize_vendor_def bind_check_ok split: if_splits)
  have ok: "all_imported ?ev account stamp plain"
    using run_adds_keeps[OF vendor_adds_keep[OF as], unfolded keeps_imports_def, rule_format, OF _ plain]
    by (simp add: all_imported_def)
  obtain f where f: "out = map f plain" and shape: "\<And>s. f s = s \<or> qs_reset_at s = None \<and> (\<exists>w. f s = s\<lparr>qs_window_id := w\<rparr>)"
  proof (cases "json_str_at payload ''session_id''")
    case None
    then show thesis using that[of id] named by (simp add: name_session_def)
  next
    case (Some session)
    then show thesis using named
      by (intro that[of "\<lambda>s. if qs_reset_at s = None then s\<lparr>qs_window_id := ''session-'' @ session\<rparr> else s"])
        (auto simp: name_session_def bind_check_ok simp del: append_Cons append_Nil)
  qed
  show ?thesis
  proof (intro conjI allI impI)
    fix n assume n: "n < length out"
    have i: "imported ?ev account stamp n (plain ! n)" and o: "out ! n = f (plain ! n)" using ok n f by (auto simp: all_imported_def)
    have same: "plain ! n = (plain ! n)\<lparr>qs_window_id := qs_window_id (plain ! n)\<rparr>" by simp
    show "let s = out ! n in
      qs_id s = ''sample-'' @ show_nat n \<and> qs_account_alias s = account \<and> qs_observed_at s = stamp
      \<and> ev_kind (qs_evidence s) = AgentReported \<and> ev_coverage (qs_evidence s) = Partial
      \<and> ev_source (qs_evidence s) = ''explicit-import:'' @ format @ '':'' @ version
      \<and> (qs_meter s = Dollars \<longrightarrow> qs_precision s = ''estimated'')
      \<and> (\<exists>w. quota_validate (s\<lparr>qs_window_id := w\<rparr>) = Inr ())
      \<and> (qs_reset_at s \<noteq> None \<longrightarrow> quota_validate s = Inr ())"
      using i shape[of "plain ! n"] unfolding o Let_def imported_def import_evidence_def
      by (elim disjE conjE exE) (use same in \<open>auto intro: exI[of _ "qs_window_id (plain ! n)"]\<close>)
  qed (rule ne)
qed

theorem vendor_import_keeps_provenance_witness:
  "\<exists>out. normalize_vendor (\<lambda>n :: int. Some (Finite False (of_int n))) Some ''claude-statusline-2026-09''
      (JObj [(''cost'', JObj [(''total_cost_usd'', JNum 4)])]) ''1.0'' ''me'' 100 = Inr out \<and> ev_kind (qs_evidence (out ! 0)) = AgentReported
      \<and> qs_precision (out ! 0) = ''estimated''"
proof -
  obtain out where out: "normalize_vendor (\<lambda>n :: int. Some (Finite False (of_int n))) Some ''claude-statusline-2026-09''
      (JObj [(''cost'', JObj [(''total_cost_usd'', JNum 4)])]) ''1.0'' ''me'' 100 = Inr out" and d: "qs_meter (out ! 0) = Dollars"
    by (simp add: normalize_vendor_def vendor_adds_def claude_adds_def window_add_def present_def reading_add_def cost_add_def
      vendor_add_def vendor_sample_def Let_def quota_validate_def import_evidence_def text_eval id_eval control_timestamp_def control_evidence_def
      f_is_finite_def f_zero_def quota_ceiling_def unit_ok_def mark_estimated_def name_session_def json_str_at_def show_nat.simps show_int_def)
  show ?thesis using vendor_import_keeps_provenance[OF out] out d by (fastforce simp: Let_def)
qed

end
