(* ===== verification/Control_Db.thy ===== *)
theory Control_Db
  imports Continuity Discovery Economics Effects
begin

text \<open>
  The tables of the control database (\<open>schema/001_r0.sql\<close>, \<open>schema/002_control_plane.sql\<close>) and the statements
  \<open>control_store.rs\<close> executes on them. A table is the list of its rows in insertion order; a payload column holds
  the record whose JSON text the code stores, and a column that repeats a field of the payload is read from it. The
  number of characters and the digest of a text come from a \<open>control_codec\<close>. A statement that a key, a foreign key,
  a CHECK or a trigger refuses fails with the one code the store reports for all of them.
\<close>

section \<open>Rows\<close>

record control_codec =
  cc_work :: "work_item \<Rightarrow> nat"
  cc_session :: "session \<Rightarrow> nat"
  cc_decision :: "decision \<Rightarrow> nat"
  cc_resource :: "resource \<Rightarrow> nat"
  cc_verification :: "string \<Rightarrow> int \<Rightarrow> evidence \<Rightarrow> nat"
  cc_checkpoint :: "checkpoint \<Rightarrow> nat"
  cc_checkpoint_bytes :: "checkpoint \<Rightarrow> nat"
  cc_stamp :: "workspace_stamp \<Rightarrow> nat"
  cc_focus :: "focus \<Rightarrow> nat"
  cc_quota :: "quota_sample \<Rightarrow> nat"
  cc_capability :: "capability \<Rightarrow> nat"
  cc_plan :: "repair_plan \<Rightarrow> nat"
  cc_audit :: "int json \<Rightarrow> nat"
  cc_stamp_sha :: "workspace_stamp \<Rightarrow> string"
  cc_capability_sha :: "capability \<Rightarrow> string"
  cc_plan_sha :: "repair_plan \<Rightarrow> string"
  cc_packet_sha :: "handoff_packet \<Rightarrow> string"

record project_row =
  pr_id :: string
  pr_path :: string
  pr_git :: string

record profile_row =
  pf_project :: string
  pf_mode :: preference_profile
  pf_focus :: "focus option"
  pf_updated :: int

record workspace_row =
  wr_project :: string
  wr_id :: string
  wr_path :: string
  wr_identity :: string

record observation_row =
  ob_id :: string
  ob_stamp :: workspace_stamp

record work_row =
  wk_item :: work_item
  wk_updated :: int

record assignment_row =
  as_id :: string
  as_work :: string
  as_project :: string
  as_session :: string
  as_role :: string
  as_lease_until :: int
  as_created :: int
  as_released :: "int option"

record acceptance_row =
  ac_decision_id :: string
  ac_project_id :: string
  ac_topic :: string
  ac_scope :: string
  ac_predecessor :: "string option"
  ac_accepted_at :: int
  ac_approval_ref :: string

record disposition_row =
  di_decision_id :: string
  di_disposition :: string
  di_recorded_at :: int
  di_approval_ref :: string

record resource_row =
  rr_resource :: resource
  rr_recorded :: int

record verification_row =
  vr_id :: string
  vr_resource_id :: string
  vr_claim :: string
  vr_observed_at :: int
  vr_source :: evidence

record checkpoint_row =
  ck_checkpoint :: checkpoint
  ck_stamp_digest :: string

record handoff_row =
  ho_id :: string
  ho_checkpoint :: string
  ho_project :: string
  ho_target :: string
  ho_digest :: string
  ho_approval :: "string option"
  ho_created :: int
  ho_state :: string

record candidate_row =
  cr_id :: string
  cr_digest :: string
  cr_url :: string
  cr_status :: string
  cr_capability :: capability
  cr_recorded :: int

record plan_row =
  pn_plan :: repair_plan
  pn_digest :: string
  pn_state :: string

record approval_row =
  av_id :: string
  av_plan :: string
  av_digest :: string
  av_recorded :: int
  av_actor :: string

record audit_row =
  au_seq :: int
  au_event :: string
  au_project :: "string option"
  au_kind :: string
  au_recorded :: int
  au_source :: string
  au_payload :: "int json"

record control_db =
  cd_version :: int
  cd_projects :: "project_row list"
  cd_profiles :: "profile_row list"
  cd_environments :: "(string \<times> string) list"
  cd_sessions :: "session list"
  cd_work :: "work_row list"
  cd_assignments :: "assignment_row list"
  cd_workspaces :: "workspace_row list"
  cd_observations :: "observation_row list"
  cd_decisions :: "decision list"
  cd_acceptances :: "acceptance_row list"
  cd_dispositions :: "disposition_row list"
  cd_resources :: "resource_row list"
  cd_verifications :: "verification_row list"
  cd_checkpoints :: "checkpoint_row list"
  cd_handoffs :: "handoff_row list"
  cd_quota :: "(string \<times> quota_sample) list"
  cd_candidates :: "candidate_row list"
  cd_feedback :: "feedback list"
  cd_plans :: "plan_row list"
  cd_approvals :: "approval_row list"
  cd_audit :: "audit_row list"

section \<open>Statements\<close>

definition control_rejected :: string where "control_rejected = ''CONTROL_DATABASE_REJECTED''"

definition execute_when :: "bool \<Rightarrow> 'a \<Rightarrow> 'a check" where
  "execute_when ok db = (if ok then Inr db else Inl control_rejected)"

definition project_exists :: "control_db \<Rightarrow> string \<Rightarrow> bool" where
  "project_exists db p = list_ex (\<lambda>r. pr_id r = p) (cd_projects db)"

definition workspace_exists :: "control_db \<Rightarrow> string \<Rightarrow> string \<Rightarrow> bool" where
  "workspace_exists db p w = list_ex (\<lambda>r. wr_project r = p \<and> wr_id r = w) (cd_workspaces db)"

definition workspace_key :: "control_db \<Rightarrow> string \<Rightarrow> string option \<Rightarrow> bool" where
  "workspace_key db p w = (case w of None \<Rightarrow> True | Some i \<Rightarrow> workspace_exists db p i)"

text \<open>The trigger \<open>work_state_guard\<close>.\<close>

definition work_state_guard :: "work_state \<Rightarrow> work_state \<Rightarrow> bool" where
  "work_state_guard old nxt \<longleftrightarrow> old = nxt
     \<or> (old = Planned \<and> nxt \<in> {Active, Blocked, Cancelled})
     \<or> (old = Active \<and> nxt \<in> {Paused, Blocked, Review, Cancelled})
     \<or> (old \<in> {Paused, Blocked} \<and> nxt \<in> {Active, Cancelled})
     \<or> (old = Review \<and> nxt \<in> {Active, Blocked, Done, Cancelled})"

definition insert_work :: "control_codec \<Rightarrow> control_db \<Rightarrow> work_item \<Rightarrow> int \<Rightarrow> control_db check" where
  "insert_work J db w at_time = execute_when
     (\<not> list_ex (\<lambda>r. wi_id (wk_item r) = wi_id w) (cd_work db) \<and> project_exists db (wi_project_id w)
       \<and> workspace_key db (wi_project_id w) (wi_workspace_id w) \<and> cc_work J w \<le> 32768 \<and> 0 \<le> at_time)
     (db\<lparr>cd_work := cd_work db @ [\<lparr>wk_item = w, wk_updated = at_time\<rparr>]\<rparr>)"

definition update_work :: "control_codec \<Rightarrow> control_db \<Rightarrow> work_item \<Rightarrow> nat \<Rightarrow> int \<Rightarrow> control_db check" where
  "update_work J db w expected at_time =
     (let hit = (\<lambda>r. wi_id (wk_item r) = wi_id w \<and> wi_version (wk_item r) = expected) in
      if \<not> list_ex hit (cd_work db) then Inl ''WORK_VERSION_CONFLICT''
      else execute_when
        (list_all (\<lambda>r. hit r \<longrightarrow> work_state_guard (wi_state (wk_item r)) (wi_state w)) (cd_work db)
          \<and> workspace_key db (wi_project_id w) (wi_workspace_id w) \<and> cc_work J w \<le> 32768 \<and> 0 \<le> at_time)
        (db\<lparr>cd_work := map (\<lambda>r. if hit r then \<lparr>wk_item = w, wk_updated = at_time\<rparr> else r) (cd_work db)\<rparr>))"

definition bump_work ::
    "control_codec \<Rightarrow> control_db \<Rightarrow> work_item \<Rightarrow> nat \<Rightarrow> int \<Rightarrow> (control_db \<times> work_item) check" where
  "bump_work J db w expected at_time =
     (if expected + 1 \<ge> 2 ^ 64 then Inl ''VERSION_OVERFLOW''
      else if expected + 1 \<ge> 2 ^ 63 then Inl ''SQL_INTEGER_OVERFLOW''
      else let w' = w\<lparr>wi_version := expected + 1\<rparr> in
        bind_check (update_work J db w' expected at_time) (\<lambda>db'. Inr (db', w')))"

definition load_work :: "control_db \<Rightarrow> string \<Rightarrow> work_item check" where
  "load_work db i = (case find (\<lambda>r. wi_id (wk_item r) = i) (cd_work db) of
     None \<Rightarrow> Inl control_rejected | Some r \<Rightarrow> Inr (wk_item r))"

definition upsert_session :: "control_codec \<Rightarrow> control_db \<Rightarrow> session \<Rightarrow> control_db check" where
  "upsert_session J db s = execute_when
     (project_exists db (ses_project_id s) \<and> workspace_key db (ses_project_id s) (ses_workspace_id s)
       \<and> cc_session J s \<le> 16384
       \<and> \<not> list_ex (\<lambda>r. ses_id r \<noteq> ses_id s \<and> ses_project_id r = ses_project_id s \<and> ses_agent r = ses_agent s
            \<and> ses_external_id r = ses_external_id s) (cd_sessions db))
     (db\<lparr>cd_sessions := (if list_ex (\<lambda>r. ses_id r = ses_id s) (cd_sessions db)
        then map (\<lambda>r. if ses_id r = ses_id s then s else r) (cd_sessions db) else cd_sessions db @ [s])\<rparr>)"

definition live_assignment :: "assignment_row \<Rightarrow> bool" where
  "live_assignment a \<longleftrightarrow> as_released a = None"

text \<open>The indexes \<open>one_primary\<close> and \<open>one_live_assignment\<close> hold among the rows that are not released.\<close>

definition insert_assignment :: "control_db \<Rightarrow> assignment_row \<Rightarrow> control_db check" where
  "insert_assignment db a = execute_when
     (\<not> list_ex (\<lambda>r. as_id r = as_id a) (cd_assignments db)
       \<and> list_ex (\<lambda>r. wi_id (wk_item r) = as_work a \<and> wi_project_id (wk_item r) = as_project a) (cd_work db)
       \<and> list_ex (\<lambda>s. ses_id s = as_session a \<and> ses_project_id s = as_project a) (cd_sessions db)
       \<and> \<not> list_ex (\<lambda>r. live_assignment r \<and> as_role r = ''primary'' \<and> as_role a = ''primary'' \<and> as_work r = as_work a)
            (cd_assignments db)
       \<and> \<not> list_ex (\<lambda>r. live_assignment r \<and> as_work r = as_work a \<and> as_session r = as_session a \<and> as_role r = as_role a)
            (cd_assignments db)
       \<and> as_created a \<le> as_lease_until a)
     (db\<lparr>cd_assignments := cd_assignments db @ [a]\<rparr>)"

definition release_assignment :: "control_db \<Rightarrow> string \<Rightarrow> string \<Rightarrow> int \<Rightarrow> control_db check" where
  "release_assignment db i work at_time =
     (let hit = (\<lambda>r. as_id r = i \<and> as_work r = work \<and> live_assignment r) in
      if length (filter hit (cd_assignments db)) \<noteq> 1 then Inl ''ASSIGNMENT_RELEASE_CONFLICT''
      else execute_when (list_all (\<lambda>r. hit r \<longrightarrow> as_created r \<le> at_time) (cd_assignments db))
        (db\<lparr>cd_assignments := map (\<lambda>r. if hit r then r\<lparr>as_released := Some at_time\<rparr> else r) (cd_assignments db)\<rparr>))"

definition find_decision :: "control_db \<Rightarrow> string \<Rightarrow> decision option" where
  "find_decision db i = find (\<lambda>d. dec_id d = i) (cd_decisions db)"

definition insert_decision :: "control_codec \<Rightarrow> control_db \<Rightarrow> decision \<Rightarrow> control_db check" where
  "insert_decision J db d = execute_when
     (find_decision db (dec_id d) = None \<and> project_exists db (dec_project_id d) \<and> 0 \<le> dec_effective_at d \<and> 0 \<le> dec_recorded_at d
       \<and> cc_decision J d \<le> 32768 \<and> dec_predecessor d \<noteq> Some (dec_id d)
       \<and> (case dec_predecessor d of None \<Rightarrow> True
          | Some p \<Rightarrow> list_ex (\<lambda>r. dec_id r = p \<and> dec_project_id r = dec_project_id d \<and> dec_topic r = dec_topic d
              \<and> dec_scope r = dec_scope d) (cd_decisions db)))
     (db\<lparr>cd_decisions := cd_decisions db @ [d]\<rparr>)"

text \<open>The triggers \<open>accept_rejected\<close> and \<open>decision_accept_guard\<close>, in the latter's three parts.\<close>

definition accept_guard :: "control_db \<Rightarrow> acceptance_row \<Rightarrow> bool" where
  "accept_guard db a \<longleftrightarrow>
     \<not> list_ex (\<lambda>x. di_decision_id x = ac_decision_id a) (cd_dispositions db)
     \<and> list_ex (\<lambda>d. dec_id d = ac_decision_id a \<and> dec_predecessor d = ac_predecessor a
          \<and> dec_recorded_at d \<le> ac_accepted_at a) (cd_decisions db)
     \<and> (case ac_predecessor a of None \<Rightarrow> True | Some p \<Rightarrow>
          \<not> list_ex (\<lambda>x. ac_decision_id x = p \<and> ac_accepted_at x > ac_accepted_at a) (cd_acceptances db)
          \<and> \<not> list_ex (\<lambda>child. dec_id child = ac_decision_id a
               \<and> list_ex (\<lambda>parent. dec_id parent = p \<and> dec_effective_at child < dec_effective_at parent) (cd_decisions db))
             (cd_decisions db))"

definition insert_acceptance :: "control_db \<Rightarrow> acceptance_row \<Rightarrow> control_db check" where
  "insert_acceptance db a = execute_when
     (accept_guard db a
       \<and> \<not> list_ex (\<lambda>x. ac_decision_id x = ac_decision_id a) (cd_acceptances db)
       \<and> list_ex (\<lambda>d. dec_id d = ac_decision_id a \<and> dec_project_id d = ac_project_id a \<and> dec_topic d = ac_topic a
            \<and> dec_scope d = ac_scope a) (cd_decisions db)
       \<and> 0 \<le> ac_accepted_at a
       \<and> (case ac_predecessor a of
            None \<Rightarrow> \<not> list_ex (\<lambda>x. ac_project_id x = ac_project_id a \<and> ac_topic x = ac_topic a \<and> ac_scope x = ac_scope a
              \<and> ac_predecessor x = None) (cd_acceptances db)
          | Some p \<Rightarrow> (list_ex (\<lambda>x. ac_decision_id x = p) (cd_acceptances db) \<or> p = ac_decision_id a)
              \<and> \<not> list_ex (\<lambda>x. ac_predecessor x = Some p) (cd_acceptances db)))
     (db\<lparr>cd_acceptances := cd_acceptances db @ [a]\<rparr>)"

definition insert_disposition :: "control_db \<Rightarrow> disposition_row \<Rightarrow> control_db check" where
  "insert_disposition db x = execute_when
     (\<not> list_ex (\<lambda>a. ac_decision_id a = di_decision_id x) (cd_acceptances db)
       \<and> \<not> list_ex (\<lambda>y. di_decision_id y = di_decision_id x) (cd_dispositions db)
       \<and> find_decision db (di_decision_id x) \<noteq> None)
     (db\<lparr>cd_dispositions := cd_dispositions db @ [x]\<rparr>)"

definition environment_exists :: "control_db \<Rightarrow> string \<Rightarrow> string \<Rightarrow> bool" where
  "environment_exists db p e \<longleftrightarrow> (p, e) \<in> set (cd_environments db)"

definition insert_environment :: "control_db \<Rightarrow> string \<Rightarrow> string \<Rightarrow> control_db check" where
  "insert_environment db p e = execute_when
     (\<not> environment_exists db p e \<and> project_exists db p \<and> 1 \<le> length (chars e) \<and> length (chars e) \<le> 64)
     (db\<lparr>cd_environments := cd_environments db @ [(p, e)]\<rparr>)"

definition insert_resource :: "control_codec \<Rightarrow> control_db \<Rightarrow> resource \<Rightarrow> int \<Rightarrow> control_db check" where
  "insert_resource J db r at_time = execute_when
     (\<not> list_ex (\<lambda>x. res_id (rr_resource x) = res_id r) (cd_resources db)
       \<and> environment_exists db (res_project_id r) (res_environment r) \<and> cc_resource J r \<le> 8192)
     (db\<lparr>cd_resources := cd_resources db @ [\<lparr>rr_resource = r, rr_recorded = at_time\<rparr>]\<rparr>)"

definition insert_verification :: "control_codec \<Rightarrow> control_db \<Rightarrow> verification_row \<Rightarrow> control_db check" where
  "insert_verification J db v = execute_when
     (\<not> list_ex (\<lambda>x. vr_id x = vr_id v) (cd_verifications db)
       \<and> list_ex (\<lambda>x. res_id (rr_resource x) = vr_resource_id v) (cd_resources db)
       \<and> cc_verification J (vr_resource_id v) (vr_observed_at v) (vr_source v) \<le> 8192)
     (db\<lparr>cd_verifications := cd_verifications db @ [v]\<rparr>)"

definition insert_checkpoint :: "control_codec \<Rightarrow> control_db \<Rightarrow> checkpoint \<Rightarrow> control_db check" where
  "insert_checkpoint J db cp = execute_when
     (\<not> list_ex (\<lambda>x. cp_id (ck_checkpoint x) = cp_id cp) (cd_checkpoints db)
       \<and> list_ex (\<lambda>r. wi_id (wk_item r) = wi_id (cp_work cp) \<and> wi_project_id (wk_item r) = wi_project_id (cp_work cp)) (cd_work db)
       \<and> (case cp_session_id cp of None \<Rightarrow> True
          | Some s \<Rightarrow> list_ex (\<lambda>x. ses_id x = s \<and> ses_project_id x = wi_project_id (cp_work cp)) (cd_sessions db))
       \<and> cc_checkpoint J cp \<le> 65536)
     (db\<lparr>cd_checkpoints := cd_checkpoints db @ [\<lparr>ck_checkpoint = cp, ck_stamp_digest = cc_stamp_sha J (cp_workspace cp)\<rparr>]\<rparr>)"

definition insert_handoff :: "control_db \<Rightarrow> handoff_row \<Rightarrow> control_db check" where
  "insert_handoff db h = execute_when
     (\<not> list_ex (\<lambda>x. ho_id x = ho_id h) (cd_handoffs db)
       \<and> list_ex (\<lambda>x. cp_id (ck_checkpoint x) = ho_checkpoint h
            \<and> wi_project_id (cp_work (ck_checkpoint x)) = ho_project h) (cd_checkpoints db))
     (db\<lparr>cd_handoffs := cd_handoffs db @ [h]\<rparr>)"

definition quota_key :: "string \<times> quota_sample \<Rightarrow> string \<times> string \<times> string \<times> string \<times> meter \<times> string \<times> string \<times> int" where
  "quota_key r = (case r of (p, s) \<Rightarrow>
     (p, qs_provider s, qs_account_alias s, qs_bucket s, qs_meter s, qs_unit s, qs_window_id s, qs_observed_at s))"

definition insert_quota :: "control_codec \<Rightarrow> control_db \<Rightarrow> string \<Rightarrow> quota_sample \<Rightarrow> control_db check" where
  "insert_quota J db p s = execute_when
     (\<not> list_ex (\<lambda>(_, x). qs_id x = qs_id s) (cd_quota db) \<and> project_exists db p
       \<and> \<not> list_ex (\<lambda>x. quota_key x = quota_key (p, s)) (cd_quota db) \<and> cc_quota J s \<le> 8192)
     (db\<lparr>cd_quota := cd_quota db @ [(p, s)]\<rparr>)"

text \<open>A row stays when it is among the first \<open>n\<close> of its project by \<open>observed_at DESC, id DESC\<close>.\<close>

definition newer_first :: "int \<times> string \<Rightarrow> int \<times> string \<Rightarrow> bool" where
  "newer_first a b \<longleftrightarrow> fst b < fst a \<or> (fst a = fst b \<and> snd b < snd a)"

definition prune :: "('r \<Rightarrow> string) \<Rightarrow> ('r \<Rightarrow> int \<times> string) \<Rightarrow> nat \<Rightarrow> string \<Rightarrow> 'r list \<Rightarrow> 'r list" where
  "prune project key n p rows = filter (\<lambda>r. project r = p \<longrightarrow>
     length (filter (\<lambda>x. project x = p \<and> newer_first (key x) (key r)) rows) < n) rows"

definition insert_observation :: "control_codec \<Rightarrow> control_db \<Rightarrow> observation_row \<Rightarrow> control_db check" where
  "insert_observation J db x = execute_when
     (\<not> list_ex (\<lambda>y. ob_id y = ob_id x) (cd_observations db) \<and> project_exists db (st_project_id (ob_stamp x))
       \<and> workspace_exists db (st_project_id (ob_stamp x)) (st_workspace_id (ob_stamp x)) \<and> cc_stamp J (ob_stamp x) \<le> 32768)
     (db\<lparr>cd_observations := cd_observations db @ [x]\<rparr>)"

definition insert_feedback :: "control_db \<Rightarrow> feedback \<Rightarrow> control_db check" where
  "insert_feedback db f = execute_when
     (\<not> list_ex (\<lambda>x. fb_id x = fb_id f) (cd_feedback db) \<and> project_exists db (fb_project_id f))
     (db\<lparr>cd_feedback := cd_feedback db @ [f]\<rparr>)"

definition insert_candidate :: "control_codec \<Rightarrow> control_db \<Rightarrow> candidate_row \<Rightarrow> control_db check" where
  "insert_candidate J db c = execute_when
     (\<not> list_ex (\<lambda>x. cr_id x = cr_id c \<or> cr_digest x = cr_digest c) (cd_candidates db) \<and> cc_capability J (cr_capability c) \<le> 16384)
     (db\<lparr>cd_candidates := cd_candidates db @ [c]\<rparr>)"

definition review_candidate :: "control_codec \<Rightarrow> control_db \<Rightarrow> string \<Rightarrow> string \<Rightarrow> capability \<Rightarrow> control_db check" where
  "review_candidate J db i expected c =
     (let hit = (\<lambda>x. cr_id x = i \<and> cr_digest x = expected) in execute_when
        (list_ex hit (cd_candidates db) \<longrightarrow> cc_capability J c \<le> 16384
           \<and> \<not> list_ex (\<lambda>x. cr_id x \<noteq> i \<and> cr_digest x = cc_capability_sha J c) (cd_candidates db))
        (db\<lparr>cd_candidates := map (\<lambda>x. if hit x then x\<lparr>cr_status := ''reviewed'', cr_capability := c,
             cr_digest := cc_capability_sha J c\<rparr> else x) (cd_candidates db)\<rparr>))"

definition insert_plan :: "control_codec \<Rightarrow> control_db \<Rightarrow> repair_plan \<Rightarrow> string \<Rightarrow> control_db check" where
  "insert_plan J db p dig = execute_when
     (\<not> list_ex (\<lambda>x. rp_id (pn_plan x) = rp_id p \<or> pn_digest x = dig) (cd_plans db) \<and> project_exists db (rp_project_id p)
       \<and> rp_created_at p < rp_expires_at p \<and> rp_expires_at p \<le> rp_created_at p + 900 \<and> cc_plan J p \<le> 32768)
     (db\<lparr>cd_plans := cd_plans db @ [\<lparr>pn_plan = p, pn_digest = dig, pn_state = ''proposed''\<rparr>]\<rparr>)"

definition insert_approval :: "control_db \<Rightarrow> approval_row \<Rightarrow> control_db check" where
  "insert_approval db a = execute_when
     (\<not> list_ex (\<lambda>x. av_id x = av_id a) (cd_approvals db) \<and> list_ex (\<lambda>x. rp_id (pn_plan x) = av_plan a) (cd_plans db))
     (db\<lparr>cd_approvals := cd_approvals db @ [a]\<rparr>)"

definition set_plan_state :: "control_db \<Rightarrow> string \<Rightarrow> string \<Rightarrow> control_db" where
  "set_plan_state db i state = db\<lparr>cd_plans := map (\<lambda>x. if rp_id (pn_plan x) = i then x\<lparr>pn_state := state\<rparr> else x) (cd_plans db)\<rparr>"

definition set_handoff_state :: "control_db \<Rightarrow> string \<Rightarrow> string \<Rightarrow> string \<Rightarrow> control_db check" where
  "set_handoff_state db i state approval =
     (let hit = (\<lambda>x. ho_id x = i \<and> ho_state x = ''prepared'') in
      if length (filter hit (cd_handoffs db)) \<noteq> 1 then Inl ''HANDOFF_CONCURRENT_CHANGE''
      else Inr (db\<lparr>cd_handoffs := map (\<lambda>x. if hit x then x\<lparr>ho_state := state, ho_approval := Some approval\<rparr> else x)
             (cd_handoffs db)\<rparr>))"

definition update_profile :: "control_db \<Rightarrow> string \<Rightarrow> (profile_row \<Rightarrow> profile_row) \<Rightarrow> control_db" where
  "update_profile db p f = db\<lparr>cd_profiles := map (\<lambda>x. if pf_project x = p then f x else x) (cd_profiles db)\<rparr>"

text \<open>\<open>AUTOINCREMENT\<close> on a table from which no row is ever deleted.\<close>

definition next_seq :: "control_db \<Rightarrow> int" where
  "next_seq db = (if cd_audit db = [] then 1 else au_seq (last (cd_audit db)) + 1)"

definition audit ::
    "control_codec \<Rightarrow> control_db \<Rightarrow> string \<Rightarrow> string option \<Rightarrow> string \<Rightarrow> int \<Rightarrow> string \<Rightarrow> int json \<Rightarrow> control_db check" where
  "audit J db event project kind at_time source data = execute_when
     (\<not> list_ex (\<lambda>x. au_event x = event) (cd_audit db) \<and> next_seq db < 2 ^ 63
       \<and> (case project of None \<Rightarrow> True | Some p \<Rightarrow> project_exists db p) \<and> cc_audit J data \<le> 16384)
     (db\<lparr>cd_audit := cd_audit db @ [\<lparr>au_seq = next_seq db, au_event = event, au_project = project, au_kind = kind,
          au_recorded = at_time, au_source = source, au_payload = data\<rparr>]\<rparr>)"

end
