(* ===== verification/Control_Record.thy ===== *)
theory Control_Record
  imports Control_Db
begin

text \<open>
  The record commands of the control store (\<open>Store::record\<close> of \<open>workstation-platform/src/control_store.rs\<close>): one
  definition per command, run inside one transaction with the audit event that reports it. An error leaves the
  database as it was. The clock reading, the digest of the caller's approval and the fresh identifiers are a \<open>call\<close>.
\<close>

section \<open>Commands\<close>

datatype record_command =
    EnvironmentAdd string string
  | EventRecord string string string string "string list"
  | FocusSet string focus
  | EconomicsPreference string preference_profile
  | WorkCreate string string string nat "string option"
  | WorkUpdate string nat work_state "string list" "string list" "string list"
  | SessionReport string string string string string string "string option" bool
  | Assign string string string nat nat
  | ReleaseAssignment string string nat
  | DecisionPropose string string string string string string "string list" "string list" "string option" int
  | DecisionAccept string
  | DecisionDispose string string
  | ResourceAdd string string string resource_kind string string "string option" nat
  | ResourceConfirm string
  | QuotaImport string "quota_sample list"
  | FeedbackRecord feedback
  | CandidateImport "candidate_input list"
  | CandidateReview string string capability
  | PlanPropose repair_plan
  | PlanApprove string string
  | HandoffResult string string

record call =
  cl_at :: int
  cl_approval :: string
  cl_ids :: "nat \<Rightarrow> string"

definition call_source :: "call \<Rightarrow> string" where
  "call_source c = ''local-record:'' @ take 16 (cl_approval c)"

definition report_evidence :: "string \<Rightarrow> int \<Rightarrow> evidence" where
  "report_evidence source at_time =
     \<lparr>ev_kind = AgentReported, ev_source = source, ev_at = at_time, ev_coverage = Partial\<rparr>"

definition require_project :: "control_db \<Rightarrow> string \<Rightarrow> unit check" where
  "require_project db p = checks [control_id p, reject (\<not> project_exists db p) ''PROJECT_NOT_REGISTERED'']"

definition require_workspace :: "control_db \<Rightarrow> string \<Rightarrow> string \<Rightarrow> unit check" where
  "require_workspace db p w = checks [control_id w, reject (\<not> workspace_exists db p w) ''WORKSPACE_NOT_REGISTERED'']"

text \<open>What a command leaves: the database, the project its audit event names and its outcome.\<close>

type_synonym outcome = "control_db \<times> string option \<times> int json"

section \<open>Projects\<close>

definition event_record ::
    "call \<Rightarrow> control_db \<Rightarrow> string \<Rightarrow> string \<Rightarrow> string \<Rightarrow> string \<Rightarrow> string list \<Rightarrow> outcome check" where
  "event_record c db project kind title details refs = bind_check (checks
     [require_project db project,
      reject (kind \<notin> set [''milestone'', ''experiment'', ''discovery'', ''incident'', ''proposal_note'', ''rejected_direction''])
        ''EVENT_KIND_UNSUPPORTED'',
      control_text title 256, control_text details 2048, control_lines refs])
     (\<lambda>_. Inr (db, Some project, JObj
       [(''decision_authority'', JBool False), (''details'', JStr details), (''evidence_refs'', JArr (map JStr refs)),
        (''kind'', JStr kind), (''semantic_evidence'', JStr ''agent_reported''), (''title'', JStr title)]))"

definition environment_add :: "call \<Rightarrow> control_db \<Rightarrow> string \<Rightarrow> string \<Rightarrow> outcome check" where
  "environment_add c db project name =
     bind_check (checks [control_id name, require_project db project]) (\<lambda>_.
     bind_check (insert_environment db project name) (\<lambda>db'.
       Inr (db', Some project, JObj [(''environment'', JStr name)])))"

definition economics_preference :: "call \<Rightarrow> control_db \<Rightarrow> string \<Rightarrow> preference_profile \<Rightarrow> outcome check" where
  "economics_preference c db project profile =
     bind_check (require_project db project) (\<lambda>_.
     bind_check (execute_when (list_ex (\<lambda>x. pf_project x = project) (cd_profiles db) \<longrightarrow> 0 \<le> cl_at c)
       (update_profile db project (\<lambda>x. x\<lparr>pf_mode := profile, pf_updated := cl_at c\<rparr>))) (\<lambda>db'.
       Inr (db', Some project, advisory profile)))"

definition focus_set :: "control_codec \<Rightarrow> call \<Rightarrow> control_db \<Rightarrow> string \<Rightarrow> focus \<Rightarrow> outcome check" where
  "focus_set J c db project f = bind_check (checks
     [require_project db project, control_lines (foc_needs f), control_lines (foc_existing f), control_lines (foc_blocked f),
      control_text (foc_evidence_ref f) 256,
      reject (foc_platform f \<notin> set [''windows'', ''linux'', ''macos'']) ''FOCUS_PLATFORM_INVALID'']) (\<lambda>_.
     bind_check (execute_when (list_ex (\<lambda>x. pf_project x = project) (cd_profiles db) \<longrightarrow> cc_focus J f \<le> 16384 \<and> 0 \<le> cl_at c)
       (update_profile db project (\<lambda>x. x\<lparr>pf_focus := Some f, pf_updated := cl_at c\<rparr>))) (\<lambda>db'.
       Inr (db', Some project, JObj [(''focus_set'', JBool True)])))"

section \<open>Work\<close>

definition work_create ::
    "control_codec \<Rightarrow> call \<Rightarrow> control_db \<Rightarrow> string \<Rightarrow> string \<Rightarrow> string \<Rightarrow> nat \<Rightarrow> string option \<Rightarrow> outcome check" where
  "work_create J c db i project objective priority ws =
     (let w = \<lparr>wi_id = i, wi_project_id = project, wi_objective = objective, wi_state = Planned, wi_priority = priority,
               wi_version = 0, wi_workspace_id = ws, wi_completed = [], wi_remaining = [], wi_blockers = [],
               wi_evidence = report_evidence (call_source c) (cl_at c)\<rparr> in
      bind_check (checks [require_project db project, check_opt (require_workspace db project) ws, validate_work w]) (\<lambda>_.
      bind_check (insert_work J db w (cl_at c)) (\<lambda>db'.
        Inr (db', Some project, JObj [(''version'', JNum 0), (''work_id'', JStr i)]))))"

definition work_update ::
    "control_codec \<Rightarrow> call \<Rightarrow> control_db \<Rightarrow> string \<Rightarrow> nat \<Rightarrow> work_state \<Rightarrow> string list \<Rightarrow> string list \<Rightarrow> string list
     \<Rightarrow> outcome check" where
  "work_update J c db i expected state completed remaining blockers =
     bind_check (load_work db i) (\<lambda>w.
     if wi_version w \<noteq> expected then Inl ''WORK_VERSION_CONFLICT''
     else if \<not> can_transition (wi_state w) state then Inl ''INVALID_WORK_TRANSITION''
     else let w1 = w\<lparr>wi_state := state, wi_completed := completed, wi_remaining := remaining, wi_blockers := blockers,
                     wi_evidence := report_evidence (call_source c) (cl_at c)\<rparr> in
       bind_check (validate_work w1) (\<lambda>_.
       bind_check (bump_work J db w1 expected (cl_at c)) (\<lambda>(db', w').
         Inr (db', Some (wi_project_id w'), JObj
           [(''state'', JStr (work_state_as_str state)), (''version'', JNum (int (wi_version w'))), (''work_id'', JStr i)]))))"

definition session_conflict :: "session \<Rightarrow> session \<Rightarrow> bool" where
  "session_conflict old s \<longleftrightarrow> ses_project_id old \<noteq> ses_project_id s \<or> ses_agent old \<noteq> ses_agent s
     \<or> ses_external_id old \<noteq> ses_external_id s \<or> ses_ended_at old \<noteq> None"

definition session_report ::
    "control_codec \<Rightarrow> call \<Rightarrow> control_db \<Rightarrow> string \<Rightarrow> string \<Rightarrow> string \<Rightarrow> string \<Rightarrow> string \<Rightarrow> string \<Rightarrow> string option \<Rightarrow> bool
     \<Rightarrow> outcome check" where
  "session_report J c db i project agent external version role ws ended =
     (let s = \<lparr>ses_id = i, ses_project_id = project, ses_agent = agent, ses_external_id = external,
               ses_adapter_version = version, ses_role = role, ses_workspace_id = ws, ses_last_observed = cl_at c,
               ses_ended_at = (if ended then Some (cl_at c) else None), ses_coverage = Partial\<rparr> in
      bind_check (checks [require_project db project, check_opt (require_workspace db project) ws, validate_session s,
        (case find (\<lambda>r. ses_id r = i) (cd_sessions db) of None \<Rightarrow> Inr ()
         | Some old \<Rightarrow> reject (session_conflict old s) ''SESSION_IDENTITY_OR_END_CONFLICT'')]) (\<lambda>_.
      bind_check (upsert_session J db s) (\<lambda>db'.
        Inr (db', Some project, JObj
          [(''coverage'', JStr ''partial''), (''evidence'', JStr ''agent_reported''), (''session_id'', JStr i)]))))"

definition assign ::
    "control_codec \<Rightarrow> call \<Rightarrow> control_db \<Rightarrow> string \<Rightarrow> string \<Rightarrow> string \<Rightarrow> nat \<Rightarrow> nat \<Rightarrow> outcome check" where
  "assign J c db work session role expected lease =
     bind_check (load_work db work) (\<lambda>w.
     if role \<notin> set [''primary'', ''reviewer'', ''observer''] \<or> \<not> (30 \<le> lease \<and> lease \<le> 3600) then Inl ''ASSIGNMENT_INVALID''
     else if wi_state w \<in> {Done, Cancelled} then Inl ''TERMINAL_WORK_NOT_ASSIGNABLE''
     else bind_check (ok_or (find (\<lambda>s. ses_id s = session \<and> ses_project_id s = wi_project_id w \<and> ses_ended_at s = None)
            (cd_sessions db)) control_rejected) (\<lambda>s.
       if wi_workspace_id w \<noteq> None \<and> ses_workspace_id s \<noteq> wi_workspace_id w then Inl ''ASSIGNMENT_WORKSPACE_MISMATCH''
       else bind_check (insert_assignment db \<lparr>as_id = cl_ids c 0, as_work = work, as_project = wi_project_id w,
              as_session = session, as_role = role, as_lease_until = cl_at c + int lease, as_created = cl_at c,
              as_released = None\<rparr>) (\<lambda>db1.
         bind_check (bump_work J db1 w expected (cl_at c)) (\<lambda>(db', w').
           Inr (db', Some (wi_project_id w'), JObj
             [(''assignment_id'', JStr (cl_ids c 0)), (''exclusivity'', JStr ''advisory_only''),
              (''work_version'', JNum (int (wi_version w')))])))))"

definition release ::
    "control_codec \<Rightarrow> call \<Rightarrow> control_db \<Rightarrow> string \<Rightarrow> string \<Rightarrow> nat \<Rightarrow> outcome check" where
  "release J c db i work expected =
     bind_check (load_work db work) (\<lambda>w.
     bind_check (release_assignment db i work (cl_at c)) (\<lambda>db1.
     bind_check (bump_work J db1 w expected (cl_at c)) (\<lambda>(db', w').
       Inr (db', Some (wi_project_id w'), JObj [(''released'', JStr i), (''work_version'', JNum (int (wi_version w')))]))))"

section \<open>Decisions\<close>

definition decision_propose :: "control_codec \<Rightarrow> call \<Rightarrow> control_db \<Rightarrow> decision \<Rightarrow> outcome check" where
  "decision_propose J c db d =
     bind_check (checks [require_project db (dec_project_id d), validate_decision d]) (\<lambda>_.
     bind_check (insert_decision J db d) (\<lambda>db'.
       Inr (db', Some (dec_project_id d), JObj [(''decision_id'', JStr (dec_id d)), (''status'', JStr ''proposed'')])))"

definition acceptance_row_of :: "decision \<Rightarrow> int \<Rightarrow> string \<Rightarrow> acceptance_row" where
  "acceptance_row_of d at_time approval = \<lparr>ac_decision_id = dec_id d, ac_project_id = dec_project_id d, ac_topic = dec_topic d,
     ac_scope = dec_scope d, ac_predecessor = dec_predecessor d, ac_accepted_at = at_time, ac_approval_ref = approval\<rparr>"

definition decision_accept :: "call \<Rightarrow> control_db \<Rightarrow> string \<Rightarrow> outcome check" where
  "decision_accept c db i =
     bind_check (ok_or (find_decision db i) control_rejected) (\<lambda>d.
     bind_check (insert_acceptance db (acceptance_row_of d (cl_at c) (cl_approval c))) (\<lambda>db'.
       Inr (db', Some (dec_project_id d), JObj
         [(''accepted_at'', JNum (cl_at c)), (''decision_id'', JStr (dec_id d)), (''effective_at'', JNum (dec_effective_at d))])))"

definition decision_dispose :: "call \<Rightarrow> control_db \<Rightarrow> string \<Rightarrow> string \<Rightarrow> outcome check" where
  "decision_dispose c db i disposition =
     (if disposition \<notin> set [''rejected'', ''withdrawn''] then Inl ''DISPOSITION_INVALID''
      else bind_check (ok_or (find_decision db i) control_rejected) (\<lambda>d.
        bind_check (insert_disposition db \<lparr>di_decision_id = i, di_disposition = disposition, di_recorded_at = cl_at c,
            di_approval_ref = cl_approval c\<rparr>) (\<lambda>db'.
          Inr (db', Some (dec_project_id d), JObj [(''decision_id'', JStr i), (''status'', JStr disposition)]))))"

section \<open>Resources and observations\<close>

definition resource_add :: "control_codec \<Rightarrow> call \<Rightarrow> control_db \<Rightarrow> resource \<Rightarrow> outcome check" where
  "resource_add J c db r =
     bind_check (validate_resource r) (\<lambda>_.
     bind_check (insert_resource J db r (cl_at c)) (\<lambda>db'.
       Inr (db', Some (res_project_id r), JObj
         [(''resource_id'', JStr (res_id r)), (''verification'', JStr ''unverified_registered_reference'')])))"

definition resource_confirm :: "control_codec \<Rightarrow> call \<Rightarrow> control_db \<Rightarrow> string \<Rightarrow> outcome check" where
  "resource_confirm J c db i =
     bind_check (ok_or (find (\<lambda>x. res_id (rr_resource x) = i) (cd_resources db)) control_rejected) (\<lambda>x.
     bind_check (insert_verification J db \<lparr>vr_id = cl_ids c 0, vr_resource_id = i, vr_claim = ''user_confirmed'',
         vr_observed_at = cl_at c, vr_source = \<lparr>ev_kind = UserApproved, ev_source = call_source c, ev_at = cl_at c,
         ev_coverage = Complete\<rparr>\<rparr>) (\<lambda>db'.
       Inr (db', Some (res_project_id (rr_resource x)), JObj
         [(''claim'', JStr ''user_confirmed''), (''http_and_provider_identity'', JStr ''not_checked''), (''resource_id'', JStr i)])))"

text \<open>The loop over the samples of a quota import; the n-th one is given the n-th fresh identifier.\<close>

definition own_sample :: "call \<Rightarrow> nat \<Rightarrow> quota_sample \<Rightarrow> quota_sample" where
  "own_sample c n s = s\<lparr>qs_id := cl_ids c n, qs_evidence := (qs_evidence s)\<lparr>ev_kind := AgentReported, ev_coverage := Partial,
     ev_source := call_source c\<rparr>\<rparr>"

fun import_samples :: "control_codec \<Rightarrow> call \<Rightarrow> string \<Rightarrow> nat \<Rightarrow> quota_sample list \<Rightarrow> control_db \<Rightarrow> control_db check" where
  "import_samples J c project n [] db = Inr db"
| "import_samples J c project n (s # ss) db =
     bind_check (quota_validate (s\<lparr>qs_id := cl_ids c n\<rparr>)) (\<lambda>_.
     if qs_observed_at s > cl_at c + 60 then Inl ''FUTURE_QUOTA_SAMPLE''
     else bind_check (insert_quota J db project (own_sample c n s)) (import_samples J c project (n + 1) ss))"

definition quota_import :: "control_codec \<Rightarrow> call \<Rightarrow> control_db \<Rightarrow> string \<Rightarrow> quota_sample list \<Rightarrow> outcome check" where
  "quota_import J c db project samples =
     bind_check (checks [require_project db project,
       reject (samples = [] \<or> length samples > 256) ''QUOTA_IMPORT_LIMIT'']) (\<lambda>_.
     bind_check (import_samples J c project 0 samples db) (\<lambda>db1.
       Inr (db1\<lparr>cd_quota := prune fst (\<lambda>(_, s). (qs_observed_at s, qs_id s)) 10000 project (cd_quota db1)\<rparr>, Some project,
         JObj [(''imported'', JNum (int (length samples))), (''provenance'', JStr ''explicit_import_not_provider_verified'')])))"

section \<open>Capabilities\<close>

definition feedback_record :: "call \<Rightarrow> control_db \<Rightarrow> feedback \<Rightarrow> outcome check" where
  "feedback_record c db f0 =
     (let f = f0\<lparr>fb_recorded_at := cl_at c\<rparr> in
      bind_check (checks [validate_feedback f, require_project db (fb_project_id f)]) (\<lambda>_.
      bind_check (insert_feedback db f) (\<lambda>db'.
        Inr (db', Some (fb_project_id f), JObj [(''changes_authorized'', JBool False), (''saved_feedback'', JStr (fb_id f))]))))"

fun import_candidates :: "control_codec \<Rightarrow> call \<Rightarrow> nat \<Rightarrow> candidate_input list \<Rightarrow> control_db \<Rightarrow> control_db check" where
  "import_candidates J c n [] db = Inr db"
| "import_candidates J c n (x # xs) db =
     bind_check (into_unverified x (cl_ids c n) (cl_at c)) (\<lambda>k.
     bind_check (insert_candidate J db \<lparr>cr_id = ca_id k, cr_digest = cc_capability_sha J k, cr_url = ca_source k,
         cr_status = ''unverified'', cr_capability = k, cr_recorded = cl_at c\<rparr>) (import_candidates J c (n + 1) xs))"

definition candidate_import :: "control_codec \<Rightarrow> call \<Rightarrow> control_db \<Rightarrow> candidate_input list \<Rightarrow> outcome check" where
  "candidate_import J c db candidates =
     (if candidates = [] \<or> length candidates > 50 then Inl ''CANDIDATE_IMPORT_LIMIT''
      else bind_check (import_candidates J c 0 candidates db) (\<lambda>db'.
        Inr (db', None, JObj [(''activated'', JBool False), (''imported'', JNum (int (length candidates))),
          (''review_status'', JStr ''unverified'')])))"

text \<open>The number of entries of \<open>catalog/resources.json\<close>.\<close>

definition BUILTIN_CAPABILITIES :: nat where "BUILTIN_CAPABILITIES = 27"

definition candidate_review ::
    "control_codec \<Rightarrow> call \<Rightarrow> control_db \<Rightarrow> string \<Rightarrow> string \<Rightarrow> capability \<Rightarrow> outcome check" where
  "candidate_review J c db i expected reviewed0 =
     bind_check (ok_or (find (\<lambda>x. cr_id x = i) (cd_candidates db)) control_rejected) (\<lambda>old.
     if cr_digest old \<noteq> expected \<or> ca_id reviewed0 \<noteq> i \<or> ca_source reviewed0 \<noteq> cr_url old then Inl ''CANDIDATE_REVIEW_CHANGED''
     else if BUILTIN_CAPABILITIES + length (filter (\<lambda>x. cr_status x = ''reviewed'' \<and> cr_id x \<noteq> i) (cd_candidates db)) \<ge> 100
     then Inl ''CATALOG_REVIEW_CAPACITY''
     else let k = reviewed0\<lparr>ca_review_status := ''reviewed'', ca_reviewed_at := cl_at c\<rparr> in
       bind_check (capability_validate k) (\<lambda>_.
       bind_check (review_candidate J db i expected k) (\<lambda>db'.
         Inr (db', None, JObj [(''adoption_mode'', JStr ''reference_only''), (''reviewed'', JStr i)]))))"

section \<open>Plans and handoffs\<close>

definition plan_propose :: "control_codec \<Rightarrow> call \<Rightarrow> control_db \<Rightarrow> repair_plan \<Rightarrow> outcome check" where
  "plan_propose J c db p =
     bind_check (checks [repair_plan_validate p, require_project db (rp_project_id p),
       reject (\<bar>rp_created_at p - cl_at c\<bar> > 60) ''PLAN_CREATION_STALE'']) (\<lambda>_.
     bind_check (insert_plan J db p (cc_plan_sha J p)) (\<lambda>db'.
       Inr (db', Some (rp_project_id p), JObj
         [(''digest'', JStr (cc_plan_sha J p)), (''execution'', JStr ''blocked_pending_native_recipe_certification''),
          (''plan_id'', JStr (rp_id p))])))"

definition plan_approve :: "call \<Rightarrow> control_db \<Rightarrow> string \<Rightarrow> string \<Rightarrow> outcome check" where
  "plan_approve c db i dig =
     bind_check (ok_or (find (\<lambda>x. rp_id (pn_plan x) = i \<and> pn_state x = ''proposed'') (cd_plans db)) control_rejected) (\<lambda>x.
     if pn_digest x \<noteq> dig \<or> rp_expires_at (pn_plan x) \<le> cl_at c then Inl ''PLAN_CHANGED_OR_EXPIRED''
     else bind_check (insert_approval db \<lparr>av_id = cl_ids c 0, av_plan = i, av_digest = dig, av_recorded = cl_at c,
            av_actor = call_source c\<rparr>) (\<lambda>db1.
       Inr (set_plan_state db1 i ''blocked'', Some (rp_project_id (pn_plan x)), JObj
         [(''external_changes'', JBool False), (''plan_id'', JStr i), (''reason'', JStr ''native_recipe_not_certified''),
          (''state'', JStr ''blocked'')])))"

definition handoff_result :: "call \<Rightarrow> control_db \<Rightarrow> string \<Rightarrow> string \<Rightarrow> outcome check" where
  "handoff_result c db i state =
     (if state \<notin> set [''delivered_reported'', ''failed_reported'', ''stale''] then Inl ''HANDOFF_STATE_INVALID''
      else bind_check (ok_or (find (\<lambda>x. ho_id x = i \<and> ho_state x = ''prepared'') (cd_handoffs db)) control_rejected) (\<lambda>x.
        bind_check (set_handoff_state db i state (cl_approval c)) (\<lambda>db'.
          Inr (db', Some (ho_project x), JObj
            [(''handoff_id'', JStr i), (''primary_worker_changed'', JBool False), (''state'', JStr state)]))))"

section \<open>The transaction\<close>

fun record_kind :: "record_command \<Rightarrow> string" where
  "record_kind (EventRecord _ _ _ _ _) = ''project_event_reported''"
| "record_kind (EnvironmentAdd _ _) = ''environment_registered''"
| "record_kind (EconomicsPreference _ _) = ''economics_preference_updated''"
| "record_kind (FocusSet _ _) = ''focus_updated''"
| "record_kind (WorkCreate _ _ _ _ _) = ''work_created''"
| "record_kind (WorkUpdate _ _ _ _ _ _) = ''work_updated''"
| "record_kind (SessionReport _ _ _ _ _ _ _ _) = ''session_reported''"
| "record_kind (Assign _ _ _ _ _) = ''worker_assigned''"
| "record_kind (ReleaseAssignment _ _ _) = ''assignment_released''"
| "record_kind (DecisionPropose _ _ _ _ _ _ _ _ _ _) = ''decision_proposed''"
| "record_kind (DecisionAccept _) = ''decision_accepted''"
| "record_kind (DecisionDispose _ _) = ''decision_disposition''"
| "record_kind (ResourceAdd _ _ _ _ _ _ _ _) = ''resource_registered''"
| "record_kind (ResourceConfirm _) = ''resource_confirmed''"
| "record_kind (QuotaImport _ _) = ''quota_imported''"
| "record_kind (FeedbackRecord _) = ''capability_feedback''"
| "record_kind (CandidateImport _) = ''capability_leads_imported''"
| "record_kind (CandidateReview _ _ _) = ''capability_reviewed''"
| "record_kind (PlanPropose _) = ''repair_plan_proposed''"
| "record_kind (PlanApprove _ _) = ''repair_plan_approved_but_blocked''"
| "record_kind (HandoffResult _ _) = ''handoff_result_reported''"

text \<open>How many fresh identifiers a successful command has drawn before its audit event draws the next.\<close>

fun ids_used :: "record_command \<Rightarrow> nat" where
  "ids_used (QuotaImport _ samples) = length samples"
| "ids_used (CandidateImport candidates) = length candidates"
| "ids_used (Assign _ _ _ _ _) = 1"
| "ids_used (ResourceConfirm _) = 1"
| "ids_used (PlanApprove _ _) = 1"
| "ids_used _ = 0"

fun run_command :: "control_codec \<Rightarrow> call \<Rightarrow> control_db \<Rightarrow> record_command \<Rightarrow> outcome check" where
  "run_command J c db (EventRecord p k t d refs) = event_record c db p k t d refs"
| "run_command J c db (EnvironmentAdd p n) = environment_add c db p n"
| "run_command J c db (EconomicsPreference p m) = economics_preference c db p m"
| "run_command J c db (FocusSet p f) = focus_set J c db p f"
| "run_command J c db (WorkCreate i p objective priority ws) = work_create J c db i p objective priority ws"
| "run_command J c db (WorkUpdate i v s completed remaining blockers) = work_update J c db i v s completed remaining blockers"
| "run_command J c db (SessionReport i p agent external version role ws ended) =
     session_report J c db i p agent external version role ws ended"
| "run_command J c db (Assign w s role v lease) = assign J c db w s role v lease"
| "run_command J c db (ReleaseAssignment i w v) = release J c db i w v"
| "run_command J c db (DecisionPropose i p topic scp statement rationale alternatives consequences predecessor effective) =
     decision_propose J c db \<lparr>dec_id = i, dec_project_id = p, dec_topic = topic, dec_scope = scp, dec_statement = statement,
       dec_rationale = rationale, dec_alternatives = alternatives, dec_consequences = consequences,
       dec_predecessor = predecessor, dec_effective_at = effective, dec_recorded_at = cl_at c,
       dec_source = report_evidence (call_source c) (cl_at c)\<rparr>"
| "run_command J c db (DecisionAccept i) = decision_accept c db i"
| "run_command J c db (DecisionDispose i d) = decision_dispose c db i d"
| "run_command J c db (ResourceAdd i p environment kind name locator prov fresh) =
     resource_add J c db \<lparr>res_id = i, res_project_id = p, res_environment = environment, res_kind = kind, res_name = name,
       res_locator = locator, res_provider = prov, res_evidence = report_evidence (call_source c) (cl_at c),
       res_fresh_for_secs = fresh\<rparr>"
| "run_command J c db (ResourceConfirm i) = resource_confirm J c db i"
| "run_command J c db (QuotaImport p samples) = quota_import J c db p samples"
| "run_command J c db (FeedbackRecord f) = feedback_record c db f"
| "run_command J c db (CandidateImport candidates) = candidate_import J c db candidates"
| "run_command J c db (CandidateReview i dig k) = candidate_review J c db i dig k"
| "run_command J c db (PlanPropose p) = plan_propose J c db p"
| "run_command J c db (PlanApprove i dig) = plan_approve c db i dig"
| "run_command J c db (HandoffResult i state) = handoff_result c db i state"

definition require_control :: "control_db \<Rightarrow> unit check" where
  "require_control db = reject (cd_version db \<notin> set [2, 3, 4, 5]) ''EXPLICIT_UPGRADE_REQUIRED''"

definition audit_payload :: "int json \<Rightarrow> string \<Rightarrow> int json" where
  "audit_payload result approval = JObj
     [(''approval_sha256'', JStr approval), (''authority_boundary'', JStr ''local_CLI_not_same_user_sandbox''), (''result'', result)]"

definition store_record :: "control_codec \<Rightarrow> call \<Rightarrow> record_command \<Rightarrow> control_db \<Rightarrow> (control_db \<times> int json) check" where
  "store_record J c cmd db = bind_check (checks [require_control db,
       reject (length (cl_approval c) \<noteq> 64 \<or> \<not> list_all is_ascii_hexdigit (cl_approval c)) ''APPROVAL_DIGEST_REQUIRED'']) (\<lambda>_.
     bind_check (run_command J c db cmd) (\<lambda>(db1, project, result).
     bind_check (audit J db1 (cl_ids c (ids_used cmd)) project (record_kind cmd) (cl_at c) ''user_approved''
       (audit_payload result (cl_approval c))) (\<lambda>db2. Inr (db2, result))))"

end
