(* ===== verification/Control_Ops.thy ===== *)
theory Control_Ops
  imports Control_Record Protocol
begin

text \<open>
  The operations of the control store beside the record commands (\<open>control_store.rs\<close>, and the registration of a
  project in \<open>storage.rs\<close>): registrations, observations, checkpoints, handoff packets, the upgrade of the schema, and
  the queries. The result of a query holds the records whose JSON the code returns. Path checks are arguments.
\<close>

section \<open>Projects and the schema\<close>

definition strip_slashes :: "string \<Rightarrow> string" where
  "strip_slashes s = rev (dropWhile (\<lambda>c. c = CHR ''/'') (rev (map (\<lambda>c. if c = CHR 0x5C then CHR ''/'' else c) s)))"

text \<open>\<open>paths::overlaps\<close>; \<open>lower\<close> is the lower-casing of the Windows build and the identity elsewhere.\<close>

definition paths_overlap :: "(string \<Rightarrow> string) \<Rightarrow> string \<Rightarrow> string \<Rightarrow> bool" where
  "paths_overlap lower a b = (let a' = lower (strip_slashes a); b' = lower (strip_slashes b) in
     a' = b' \<or> prefix (b' @ ''/'') a' \<or> prefix (a' @ ''/'') b')"

definition register_project ::
    "(string \<Rightarrow> string) \<Rightarrow> (string \<Rightarrow> unit check) \<Rightarrow> (string \<Rightarrow> unit check) \<Rightarrow> string \<Rightarrow> project_row \<Rightarrow> control_db \<Rightarrow> control_db check" where
  "register_project lower directory local_existing home p db = bind_check (checks
     [reject (\<not> valid_id (pr_id p)) ''INVALID_ID'', directory (pr_path p), local_existing (pr_git p),
      reject (paths_overlap lower home (pr_path p)) ''PROJECT_HOME_OVERLAP'',
      reject (length (cd_projects db) \<ge> 20) ''PROJECT_LIMIT'',
      reject (list_ex (\<lambda>r. pr_id r = pr_id p \<or> pr_path r = pr_path p) (cd_projects db)) ''DATABASE_OPERATION_FAILED''])
     (\<lambda>_. Inr (db\<lparr>cd_projects := cd_projects db @ [p],
        cd_profiles := (if cd_version db < 2 then cd_profiles db
          else cd_profiles db @ [\<lparr>pf_project = pr_id p, pf_mode = Balanced, pf_focus = None, pf_updated = 0\<rparr>])\<rparr>))"

text \<open>The tables the migration creates are empty but for one profile per project.\<close>

definition migrate_control :: "control_db \<Rightarrow> control_db" where
  "migrate_control db =
     \<lparr>cd_version = 2, cd_projects = cd_projects db,
      cd_profiles = map (\<lambda>p. \<lparr>pf_project = pr_id p, pf_mode = Balanced, pf_focus = None, pf_updated = 0\<rparr>) (cd_projects db),
      cd_environments = [], cd_sessions = [], cd_work = [], cd_assignments = [], cd_workspaces = [], cd_observations = [],
      cd_decisions = [], cd_acceptances = [], cd_dispositions = [], cd_resources = [], cd_verifications = [],
      cd_checkpoints = [], cd_handoffs = [], cd_quota = [], cd_candidates = [], cd_feedback = [], cd_plans = [],
      cd_approvals = [], cd_audit = []\<rparr>"

definition upgrade_control ::
    "control_codec \<Rightarrow> string check \<Rightarrow> int \<Rightarrow> string \<Rightarrow> control_db \<Rightarrow> (control_db \<times> (bool \<times> string option)) check" where
  "upgrade_control J backup at_time event db =
     (if cd_version db = 2 then Inr (db, (False, None))
      else if cd_version db \<noteq> 1 then Inl ''UNSUPPORTED_MIGRATION_SOURCE''
      else bind_check backup (\<lambda>b.
        bind_check (audit J (migrate_control db) event None ''schema_upgraded'' at_time ''observed''
          (JObj [(''from'', JNum 1), (''to'', JNum 2)])) (\<lambda>db'. Inr (db', (True, Some b)))))"

section \<open>Workspaces\<close>

definition register_workspace :: "string \<Rightarrow> string \<Rightarrow> string \<Rightarrow> string \<Rightarrow> control_db \<Rightarrow> control_db check" where
  "register_workspace project ws path identity db =
     bind_check (checks [require_control db, control_id ws, require_project db project]) (\<lambda>_. execute_when
       (\<not> list_ex (\<lambda>r. wr_project r = project \<and> (wr_id r = ws \<or> wr_path r = path)) (cd_workspaces db))
       (db\<lparr>cd_workspaces := cd_workspaces db @ [\<lparr>wr_project = project, wr_id = ws, wr_path = path, wr_identity = identity\<rparr>]\<rparr>))"

definition observation_key :: "observation_row \<Rightarrow> int \<times> string" where
  "observation_key x = (st_observed_at (ob_stamp x), ob_id x)"

definition record_workspace_observation ::
    "control_codec \<Rightarrow> string \<Rightarrow> workspace_stamp \<Rightarrow> control_db \<Rightarrow> control_db check" where
  "record_workspace_observation J i stamp db = bind_check (checks
     [require_control db, validate_stamp stamp, require_workspace db (st_project_id stamp) (st_workspace_id stamp)]) (\<lambda>_.
     bind_check (insert_observation J db \<lparr>ob_id = i, ob_stamp = stamp\<rparr>) (\<lambda>db'.
       Inr (db'\<lparr>cd_observations := prune (\<lambda>x. st_project_id (ob_stamp x)) observation_key 256 (st_project_id stamp)
              (cd_observations db')\<rparr>)))"

section \<open>Checkpoints and handoffs\<close>

definition checkpoint_check :: "control_codec \<Rightarrow> checkpoint \<Rightarrow> unit check" where
  "checkpoint_check J cp = checks
     [validate_stamp (cp_workspace cp), validate_work (cp_work cp),
      control_lines (cp_completed cp), control_lines (cp_remaining cp), control_lines (cp_blockers cp),
      reject (length (cp_tests cp) > 16 \<or> length (cp_decision_ids cp) > 32 \<or> length (cp_resource_ids cp) > 32)
        ''CHECKPOINT_COUNT_LIMIT'',
      check_all (\<lambda>t. checks [control_text (to_name t) 256, control_text (to_result t) 256]) (cp_tests cp),
      reject (st_project_id (cp_workspace cp) \<noteq> wi_project_id (cp_work cp)
        \<or> wi_workspace_id (cp_work cp) \<noteq> Some (st_workspace_id (cp_workspace cp))) ''CHECKPOINT_PROJECT_WORKSPACE_MISMATCH'',
      reject (cc_checkpoint_bytes J cp > HANDOFF_LIMIT) ''CHECKPOINT_SIZE_LIMIT'']"

definition resource_of_project :: "control_db \<Rightarrow> string \<Rightarrow> string \<Rightarrow> bool" where
  "resource_of_project db p r = list_ex (\<lambda>x. res_id (rr_resource x) = r \<and> res_project_id (rr_resource x) = p) (cd_resources db)"

definition decision_of_project :: "control_db \<Rightarrow> string \<Rightarrow> string \<Rightarrow> bool" where
  "decision_of_project db p i = list_ex (\<lambda>d. dec_id d = i \<and> dec_project_id d = p) (cd_decisions db)"

definition save_checkpoint :: "control_codec \<Rightarrow> string \<Rightarrow> checkpoint \<Rightarrow> control_db \<Rightarrow> control_db check" where
  "save_checkpoint J event cp db =
     (let project = wi_project_id (cp_work cp) in
      bind_check (checks [require_control db, checkpoint_check J cp]) (\<lambda>_.
      bind_check (load_work db (wi_id (cp_work cp))) (\<lambda>w.
      bind_check (checks
        [reject (wi_version w \<noteq> wi_version (cp_work cp)) ''WORK_CHANGED_DURING_CHECKPOINT'',
         check_all (\<lambda>r. reject (\<not> resource_of_project db project r) ''CROSS_PROJECT_RESOURCE'') (cp_resource_ids cp),
         check_all (\<lambda>d. reject (\<not> decision_of_project db project d) ''CROSS_PROJECT_DECISION'') (cp_decision_ids cp)]) (\<lambda>_.
      bind_check (insert_checkpoint J db cp) (\<lambda>db1.
        audit J db1 event (Some project) ''checkpoint_created'' (cp_recorded_at cp) ''observed'' (JObj
          [(''checkpoint_id'', JStr (cp_id cp)), (''progress_evidence'', JStr ''agent_reported''),
           (''workspace_evidence'', JStr ''observed'')]))))))"

definition save_handoff ::
    "control_codec \<Rightarrow> string \<Rightarrow> string \<Rightarrow> int \<Rightarrow> handoff_packet \<Rightarrow> control_db \<Rightarrow> (control_db \<times> string \<times> string) check" where
  "save_handoff J i event at_time packet db =
     (let dig = cc_packet_sha J packet in
      if cd_version db < 2 then Inl control_rejected
      else bind_check (insert_handoff db \<lparr>ho_id = i, ho_checkpoint = hp_checkpoint_id packet, ho_project = hp_project_id packet,
        ho_target = hp_target_agent packet, ho_digest = dig, ho_approval = None, ho_created = at_time, ho_state = ''prepared''\<rparr>) (\<lambda>db1.
      bind_check (audit J db1 event (Some (hp_project_id packet)) ''handoff_prepared'' at_time ''observed'' (JObj
        [(''handoff_id'', JStr i), (''mode'', JStr ''packet_only''), (''packet_digest'', JStr dig)])) (\<lambda>db2.
        Inr (db2, i, dig))))"

section \<open>Queries\<close>

definition bounded :: "nat \<Rightarrow> string \<Rightarrow> 'a list \<Rightarrow> 'a list check" where
  "bounded n code rows = (let page = take (n + 1) rows in if length page > n then Inl code else Inr page)"

definition scoped :: "control_db \<Rightarrow> string \<Rightarrow> unit check" where
  "scoped db p = checks [require_control db, require_project db p]"

definition work_get :: "control_db \<Rightarrow> string \<Rightarrow> work_item check" where
  "work_get db i = bind_check (require_control db) (\<lambda>_. load_work db i)"

definition work_items :: "control_db \<Rightarrow> string \<Rightarrow> work_item list check" where
  "work_items db p = bind_check (scoped db p) (\<lambda>_. bounded 100 ''CONTROL_QUERY_BUDGET'' (map wk_item
     (sort_key (\<lambda>r. (- wk_updated r, wi_id (wk_item r))) (filter (\<lambda>r. wi_project_id (wk_item r) = p) (cd_work db)))))"

definition roster_rows :: "assignment_row list \<Rightarrow> session \<Rightarrow> roster_entry list" where
  "roster_rows assignments s =
     (case filter (\<lambda>a. as_session a = ses_id s \<and> live_assignment a) assignments of
        [] \<Rightarrow> [\<lparr>re_session = s, re_work_id = None, re_role = ''observer'', re_lease_until = None\<rparr>]
      | live \<Rightarrow> map (\<lambda>a. \<lparr>re_session = s, re_work_id = Some (as_work a), re_role = as_role a,
                           re_lease_until = Some (as_lease_until a)\<rparr>) live)"

definition roster :: "control_db \<Rightarrow> string \<Rightarrow> roster_entry list check" where
  "roster db p = bind_check (scoped db p) (\<lambda>_. bounded 100 ''ROSTER_LIMIT_NARROW_SCOPE'' (concat (map (roster_rows (cd_assignments db))
     (sort_key (\<lambda>s. (- ses_last_observed s, ses_id s)) (filter (\<lambda>s. ses_project_id s = p) (cd_sessions db))))))"

text \<open>\<open>schema/current_decisions.sql\<close>.\<close>

definition superseded_by :: "control_db \<Rightarrow> int \<Rightarrow> int \<Rightarrow> decision \<Rightarrow> acceptance_row \<Rightarrow> bool" where
  "superseded_by db valid_at known_at d x \<longleftrightarrow> ac_predecessor x = Some (dec_id d) \<and> ac_accepted_at x \<le> known_at
     \<and> list_ex (\<lambda>child. dec_id child = ac_decision_id x \<and> dec_recorded_at child \<le> known_at \<and> dec_effective_at child \<le> valid_at)
         (cd_decisions db)"

definition current_rows :: "control_db \<Rightarrow> string \<Rightarrow> int \<Rightarrow> int \<Rightarrow> decision list" where
  "current_rows db p valid_at known_at =
     sort_key (\<lambda>d. (dec_topic d, dec_scope d, dec_id d)) (concat (map (\<lambda>d. map (\<lambda>_. d)
       (filter (\<lambda>a. ac_decision_id a = dec_id d \<and> dec_project_id d = p \<and> dec_effective_at d \<le> valid_at
          \<and> dec_recorded_at d \<le> known_at \<and> ac_accepted_at a \<le> known_at
          \<and> \<not> list_ex (superseded_by db valid_at known_at d) (cd_acceptances db)) (cd_acceptances db))) (cd_decisions db)))"

fun scopes_once :: "(string \<times> string) set \<Rightarrow> decision list \<Rightarrow> bool" where
  "scopes_once seen [] = True"
| "scopes_once seen (d # ds) =
     ((dec_topic d, dec_scope d) \<notin> seen \<and> scopes_once (insert (dec_topic d, dec_scope d) seen) ds)"

definition decisions :: "control_db \<Rightarrow> string \<Rightarrow> int \<Rightarrow> int \<Rightarrow> decision list check" where
  "decisions db p valid_at known_at =
     bind_check (checks [scoped db p, control_timestamp valid_at, control_timestamp known_at]) (\<lambda>_.
     let page = take 101 (current_rows db p valid_at known_at) in
     if \<not> scopes_once {} page then Inl ''DECISION_CONFLICT''
     else if length page > 100 then Inl ''DECISION_CONTEXT_LIMIT'' else Inr page)"

definition resources :: "control_db \<Rightarrow> string \<Rightarrow> string \<Rightarrow> resource list check" where
  "resources db p e = bind_check (checks [scoped db p, control_id e,
       reject (\<not> environment_exists db p e) ''ENVIRONMENT_NOT_REGISTERED_NO_FALLBACK'']) (\<lambda>_.
     bounded 100 ''RESOURCE_CONTEXT_LIMIT'' (sort_key res_id
       (filter (\<lambda>r. res_project_id r = p \<and> res_environment r = e) (map rr_resource (cd_resources db)))))"

definition timeline_rows :: "control_db \<Rightarrow> string \<Rightarrow> int \<Rightarrow> audit_row list" where
  "timeline_rows db p before =
     rev (sort_key au_seq (filter (\<lambda>x. au_project x = Some p \<and> au_seq x < before) (cd_audit db)))"

definition timeline :: "control_db \<Rightarrow> string \<Rightarrow> int option \<Rightarrow> (audit_row list \<times> int option) check" where
  "timeline db p before = bind_check (scoped db p) (\<lambda>_.
     let rows = take 51 (timeline_rows db p (case before of None \<Rightarrow> 2 ^ 63 - 1 | Some b \<Rightarrow> b)); page = take 50 rows in
     Inr (page, if length rows > 50 then Some (au_seq (last page)) else None))"

definition quota_rows :: "control_db \<Rightarrow> string \<Rightarrow> quota_sample list check" where
  "quota_rows db p = bind_check (scoped db p) (\<lambda>_. bounded 10000 ''CONTROL_QUERY_BUDGET'' (map snd
     (sort_key (\<lambda>(_, s). (- qs_observed_at s, qs_id s)) (filter (\<lambda>(q, _). q = p) (cd_quota db)))))"

definition feedback_rows :: "control_db \<Rightarrow> string \<Rightarrow> feedback list check" where
  "feedback_rows db p = bounded 1000 ''FEEDBACK_BUDGET_REVIEW_REQUIRED''
     (sort_key (\<lambda>f. (- fb_recorded_at f, fb_id f)) (filter (\<lambda>f. fb_project_id f = p) (cd_feedback db)))"

definition workspace_latest :: "control_db \<Rightarrow> string \<Rightarrow> (workspace_row \<times> workspace_stamp option) list check" where
  "workspace_latest db p = bind_check (scoped db p) (\<lambda>_. bounded 256 ''WORKSPACE_QUERY_BUDGET'' (map (\<lambda>w. (w,
       case sort_key observation_key (filter (\<lambda>x. st_project_id (ob_stamp x) = p \<and> st_workspace_id (ob_stamp x) = wr_id w)
         (cd_observations db)) of [] \<Rightarrow> None | xs \<Rightarrow> Some (ob_stamp (last xs))))
     (sort_key wr_id (filter (\<lambda>w. wr_project w = p) (cd_workspaces db)))))"

definition workspace_path :: "control_db \<Rightarrow> string \<Rightarrow> string \<Rightarrow> string check" where
  "workspace_path db p ws = bind_check (require_control db) (\<lambda>_.
     case find (\<lambda>w. wr_project w = p \<and> wr_id w = ws) (cd_workspaces db) of
       None \<Rightarrow> Inl control_rejected | Some w \<Rightarrow> Inr (wr_path w))"

definition checkpoint_get :: "control_db \<Rightarrow> string \<Rightarrow> checkpoint check" where
  "checkpoint_get db i = bind_check (require_control db) (\<lambda>_.
     case find (\<lambda>x. cp_id (ck_checkpoint x) = i) (cd_checkpoints db) of
       None \<Rightarrow> Inl control_rejected | Some x \<Rightarrow> Inr (ck_checkpoint x))"

definition latest_checkpoint :: "control_db \<Rightarrow> string \<Rightarrow> string \<Rightarrow> checkpoint option" where
  "latest_checkpoint db p work =
     (case sort_key (\<lambda>x. (cp_recorded_at (ck_checkpoint x), cp_id (ck_checkpoint x)))
        (filter (\<lambda>x. wi_id (cp_work (ck_checkpoint x)) = work \<and> wi_project_id (cp_work (ck_checkpoint x)) = p) (cd_checkpoints db))
      of [] \<Rightarrow> None | xs \<Rightarrow> Some (ck_checkpoint (last xs)))"

section \<open>Economics and suggestions\<close>

definition stream_key :: "quota_sample \<Rightarrow> string" where
  "stream_key s = qs_provider s @ '':'' @ qs_account_alias s @ '':'' @ qs_bucket s @ '':''
     @ (case qs_meter s of Context \<Rightarrow> ''Context'' | Subscription \<Rightarrow> ''Subscription'' | Dollars \<Rightarrow> ''Dollars'') @ '':'' @ qs_unit s"

definition quota_streams :: "quota_sample list \<Rightarrow> (string \<times> quota_sample list) list" where
  "quota_streams samples =
     map (\<lambda>k. (k, filter (\<lambda>s. stream_key s = k) samples)) (btree_set (map stream_key samples))"

definition stream_forecasts ::
    "(f64 \<Rightarrow> f64 \<Rightarrow> f64) \<Rightarrow> control_db \<Rightarrow> string \<Rightarrow> int \<Rightarrow> (string \<times> runway check) list check" where
  "stream_forecasts powf db p at_time = bind_check (quota_rows db p) (\<lambda>samples.
     Inr (map (\<lambda>(k, rows). (k, forecast powf rows at_time)) (quota_streams samples)))"

text \<open>The catalog a suggestion sees: the built-in entries and the reviewed candidates the capacity of 100 leaves room for.\<close>

definition suggestion_catalog :: "capability list \<Rightarrow> control_db \<Rightarrow> (capability list \<times> bool) check" where
  "suggestion_catalog builtins db =
     (if length builtins > 100 then Inl ''BUILTIN_CATALOG_LIMIT''
      else let capacity = 100 - length builtins;
               extra = take (capacity + 1) (map cr_capability (sort_key cr_id (filter (\<lambda>x. cr_status x = ''reviewed'') (cd_candidates db))))
        in Inr (builtins @ take capacity extra, length extra > capacity))"

definition suggestions ::
    "capability list \<Rightarrow> (string \<times> string) list check \<Rightarrow> control_db \<Rightarrow> string \<Rightarrow> int
     \<Rightarrow> (discovery_card list \<times> bool) option check" where
  "suggestions builtins available db p at_time = bind_check (scoped db p) (\<lambda>_.
     bind_check (ok_or (find (\<lambda>x. pf_project x = p) (cd_profiles db)) control_rejected) (\<lambda>profile.
     case pf_focus profile of
       None \<Rightarrow> Inr None
     | Some f \<Rightarrow> bind_check available (\<lambda>items.
         let found = map snd (filter (\<lambda>(state, _). state = ''available'') items);
             f' = f\<lparr>foc_existing := fold (\<lambda>i xs. if i \<in> set xs then xs else xs @ [i]) found (foc_existing f)\<rparr> in
         bind_check (suggestion_catalog builtins db) (\<lambda>(catalog, omitted).
         bind_check (feedback_rows db p) (\<lambda>fb.
         bind_check (recommend p f' catalog fb at_time) (\<lambda>cards. Inr (Some (cards, omitted))))))))"

section \<open>The context packet\<close>

text \<open>Optional sections are dropped in this order until the packet's text fits.\<close>

definition OPTIONAL_SECTIONS :: "string list" where
  "OPTIONAL_SECTIONS =
     [''useful_discoveries'', ''recent_events'', ''integrations'', ''health_profiles'', ''workspace_graph'', ''economics'']"

definition set_member :: "string \<Rightarrow> 'n json \<Rightarrow> (string \<times> 'n json) list \<Rightarrow> (string \<times> 'n json) list" where
  "set_member k v m = (if k \<in> fst ` set m then map (\<lambda>(k', v'). (k', if k' = k then v else v')) m
     else takeWhile (\<lambda>(k', _). k' < k) m @ (k, v) # dropWhile (\<lambda>(k', _). k' < k) m)"

definition omitted_section :: "string \<Rightarrow> 'n json" where
  "omitted_section section_name = (if section_name = ''useful_discoveries'' then JArr []
     else JObj [(''coverage'', JStr ''omitted_for_context_budget''), (''query_separately'', JBool True)])"

fun trim_sections ::
    "((string \<times> 'n json) list \<Rightarrow> nat) \<Rightarrow> string list \<Rightarrow> (string \<times> 'n json) list \<Rightarrow> string list
     \<Rightarrow> (string \<times> 'n json) list \<times> string list" where
  "trim_sections bytes [] packet omitted = (packet, omitted)"
| "trim_sections bytes (s # ss) packet omitted =
     (if bytes packet \<le> CONTEXT_LIMIT then (packet, omitted)
      else trim_sections bytes ss (set_member s (omitted_section s) packet) (omitted @ [s]))"

definition fit_context :: "((string \<times> 'n json) list \<Rightarrow> nat) \<Rightarrow> (string \<times> 'n json) list \<Rightarrow> (string \<times> 'n json) list check" where
  "fit_context bytes packet = (case trim_sections bytes OPTIONAL_SECTIONS packet [] of (fitted, omitted) \<Rightarrow>
     let final = set_member ''omitted_optional_sections'' (JArr (map JStr omitted)) fitted in
     if bytes final > CONTEXT_LIMIT then Inl ''CONTEXT_BUDGET_EXCEEDED_NARROW_SCOPE'' else Inr final)"

text \<open>
  \<open>optional_context\<close>: a section that cannot be computed is reported with its typed reason, in place and in the list of
  failures, and does not fail the packet.
\<close>

definition optional_context :: "string \<Rightarrow> 'n json check \<Rightarrow> 'n json list \<Rightarrow> 'n json \<times> 'n json list" where
  "optional_context name result failures = (case result of
     Inr v \<Rightarrow> (v, failures)
   | Inl code \<Rightarrow> (JObj [(''available'', JBool False), (''coverage'', JStr ''partial''), (''error_code'', JStr code),
         (''query_separately'', JBool True)],
       failures @ [JObj [(''coverage'', JStr ''partial''), (''error_code'', JStr code), (''section'', JStr name)]]))"

end
