(* ===== verification/Control_Store.thy ===== *)
theory Control_Store
  imports Control_Ops
begin

text \<open>
  What the control store keeps true over every sequence of its operations: which tables a command may touch, the
  chains of accepted decisions, the versions and assignments of work items, and the audit trail.
\<close>

section \<open>Frames\<close>
lemma execute_when_ok [check_simps]: "execute_when b x = Inr y \<longleftrightarrow> b \<and> y = x"
  by (auto simp: execute_when_def)

definition decision_view :: "control_db \<Rightarrow> decision list \<times> acceptance_row list \<times> disposition_row list" where
  "decision_view db = (cd_decisions db, cd_acceptances db, cd_dispositions db)"

definition work_view :: "control_db \<Rightarrow> work_row list \<times> assignment_row list" where
  "work_view db = (cd_work db, cd_assignments db)"

definition base_view :: "control_db \<Rightarrow> int \<times> project_row list \<times> audit_row list" where
  "base_view db = (cd_version db, cd_projects db, cd_audit db)"

lemmas view_defs = decision_view_def work_view_def base_view_def

lemma import_samples_frame:
  "import_samples J c p n ss db = Inr db' \<Longrightarrow>
     decision_view db' = decision_view db \<and> work_view db' = work_view db \<and> base_view db' = base_view db"
proof (induction ss arbitrary: n db)
  case (Cons s ss)
  from Cons.prems obtain db1 where "insert_quota J db p (own_sample c n s) = Inr db1" "import_samples J c p (n + 1) ss db1 = Inr db'"
    by (auto simp: bind_check_ok split: if_splits)
  then show ?case using Cons.IH[of "n + 1" db1] by (auto simp: insert_quota_def check_simps view_defs)
qed (simp add: view_defs)

lemma import_candidates_frame:
  "import_candidates J c n xs db = Inr db' \<Longrightarrow>
     decision_view db' = decision_view db \<and> work_view db' = work_view db \<and> base_view db' = base_view db"
proof (induction xs arbitrary: n db)
  case (Cons x xs)
  from Cons.prems obtain k db1 where "insert_candidate J db k = Inr db1" "import_candidates J c (n + 1) xs db1 = Inr db'"
    by (auto simp: bind_check_ok)
  then show ?case using Cons.IH[of "n + 1" db1] by (auto simp: insert_candidate_def check_simps view_defs)
qed (simp add: view_defs)

lemmas statement_defs = insert_work_def update_work_def bump_work_def upsert_session_def insert_assignment_def
  release_assignment_def insert_decision_def insert_acceptance_def insert_disposition_def insert_environment_def
  insert_resource_def insert_verification_def insert_checkpoint_def insert_handoff_def insert_quota_def insert_observation_def
  insert_feedback_def insert_candidate_def review_candidate_def insert_plan_def insert_approval_def set_plan_state_def
  set_handoff_state_def update_profile_def

lemma bump_work_frame:
  assumes "bump_work J db w v t = Inr (db', w')"
  shows "decision_view db' = decision_view db \<and> base_view db' = base_view db \<and> cd_assignments db' = cd_assignments db"
  using assms by (auto simp: bump_work_def update_work_def Let_def check_simps view_defs split: if_splits)

fun decision_command :: "record_command \<Rightarrow> bool" where
  "decision_command (DecisionPropose _ _ _ _ _ _ _ _ _ _) = True"
| "decision_command (DecisionAccept _) = True"
| "decision_command (DecisionDispose _ _) = True"
| "decision_command _ = False"

fun work_command :: "record_command \<Rightarrow> bool" where
  "work_command (WorkCreate _ _ _ _ _) = True"
| "work_command (WorkUpdate _ _ _ _ _ _) = True"
| "work_command (Assign _ _ _ _ _) = True"
| "work_command (ReleaseAssignment _ _ _) = True"
| "work_command _ = False"


lemma if_Inl_Inr [check_simps]: "(if b then Inl e else x) = Inr y \<longleftrightarrow> \<not> b \<and> x = Inr y"
  by simp

lemmas plain_command_defs = event_record_def environment_add_def economics_preference_def focus_set_def session_report_def
  resource_add_def resource_confirm_def feedback_record_def candidate_import_def candidate_review_def plan_propose_def
  plan_approve_def handoff_result_def quota_import_def

lemma plain_command_frame:
  assumes "run_command J c db cmd = Inr (db', p, out)" "\<not> decision_command cmd" "\<not> work_command cmd"
  shows "decision_view db' = decision_view db \<and> work_view db' = work_view db \<and> base_view db' = base_view db"
  using assms
  by (cases cmd; simp only: run_command.simps decision_command.simps work_command.simps plain_command_defs Let_def bind_check_ok if_Inl_Inr simp_thms)
    (auto simp: statement_defs Let_def view_defs execute_when_ok if_Inl_Inr dest: import_samples_frame import_candidates_frame)

lemma work_command_frame:
  assumes "run_command J c db cmd = Inr (db', p, out)" "work_command cmd"
  shows "decision_view db' = decision_view db \<and> base_view db' = base_view db"
  using assms
  by (cases cmd; simp only: run_command.simps work_command.simps work_create_def work_update_def assign_def release_def
        Let_def bind_check_ok if_Inl_Inr simp_thms)
    (auto simp: insert_work_def insert_assignment_def release_assignment_def Let_def view_defs execute_when_ok if_Inl_Inr
      dest!: bump_work_frame)

lemma decision_command_frame:
  assumes "run_command J c db cmd = Inr (db', p, out)" "decision_command cmd"
  shows "work_view db' = work_view db \<and> base_view db' = base_view db"
  using assms
  by (cases cmd; simp only: run_command.simps decision_command.simps decision_propose_def decision_accept_def decision_dispose_def
        Let_def bind_check_ok if_Inl_Inr simp_thms)
    (auto simp: insert_decision_def insert_acceptance_def insert_disposition_def view_defs execute_when_ok)

lemma command_classes: "\<not> (decision_command cmd \<and> work_command cmd)"
  by (cases cmd) auto

lemma command_frame:
  assumes "run_command J c db cmd = Inr (db', p, out)"
  shows "base_view db' = base_view db"
    and "\<not> decision_command cmd \<Longrightarrow> decision_view db' = decision_view db"
    and "\<not> work_command cmd \<Longrightarrow> work_view db' = work_view db"
  using plain_command_frame[OF assms] work_command_frame[OF assms] decision_command_frame[OF assms] by blast+

lemma audit_ok:
  "audit J db event project kind t source data = Inr db' \<Longrightarrow>
     db' = db\<lparr>cd_audit := cd_audit db @ [\<lparr>au_seq = next_seq db, au_event = event, au_project = project, au_kind = kind,
        au_recorded = t, au_source = source, au_payload = data\<rparr>]\<rparr>
     \<and> event \<notin> au_event ` set (cd_audit db)"
  by (auto simp: audit_def execute_when_ok list_ex_iff)

section \<open>Steps\<close>

text \<open>Every operation that changes the control database, as the code offers it; a failing one leaves it unchanged.\<close>

inductive control_step :: "control_codec \<Rightarrow> control_db \<Rightarrow> control_db \<Rightarrow> bool" for J where
  recorded: "store_record J c cmd db = Inr (db', out) \<Longrightarrow> control_step J db db'"
| project: "register_project lower directory local home p db = Inr db' \<Longrightarrow> control_step J db db'"
| upgraded: "upgrade_control J backup t event db = Inr (db', r) \<Longrightarrow> control_step J db db'"
| workspace: "register_workspace p ws path identity db = Inr db' \<Longrightarrow> control_step J db db'"
| observed: "record_workspace_observation J i stamp db = Inr db' \<Longrightarrow> control_step J db db'"
| checkpointed: "save_checkpoint J event cp db = Inr db' \<Longrightarrow> control_step J db db'"
| handed_off: "save_handoff J i event t packet db = Inr (db', r) \<Longrightarrow> control_step J db db'"

definition empty_control :: control_db where
  "empty_control = \<lparr>cd_version = 1, cd_projects = [], cd_profiles = [], cd_environments = [], cd_sessions = [], cd_work = [],
     cd_assignments = [], cd_workspaces = [], cd_observations = [], cd_decisions = [], cd_acceptances = [],
     cd_dispositions = [], cd_resources = [], cd_verifications = [], cd_checkpoints = [], cd_handoffs = [], cd_quota = [],
     cd_candidates = [], cd_feedback = [], cd_plans = [], cd_approvals = [], cd_audit = []\<rparr>"

definition control_reachable :: "control_codec \<Rightarrow> control_db \<Rightarrow> bool" where
  "control_reachable J = (control_step J)\<^sup>*\<^sup>* empty_control"

lemma reachable_invariant:
  assumes "control_reachable J db" "I empty_control" "\<And>db db'. control_step J db db' \<Longrightarrow> I db \<Longrightarrow> I db'"
  shows "I db"
  using assms(1) unfolding control_reachable_def by (induction rule: rtranclp_induct) (use assms(2,3) in blast)+

text \<open>The steps beside the record commands leave decisions and work alone, the upgrade apart, which finds no tables yet.\<close>

lemma stored_record:
  assumes "store_record J c cmd db = Inr (db', out)"
  obtains db1 p where "run_command J c db cmd = Inr (db1, p, out)"
    "audit J db1 (cl_ids c (ids_used cmd)) p (record_kind cmd) (cl_at c) ''user_approved'' (audit_payload out (cl_approval c)) = Inr db'"
    "require_control db = Inr ()"
  using assms unfolding store_record_def bind_check_ok by (auto simp: check_simps)

lemma register_project_frame:
  "register_project lower directory local home p db = Inr db' \<Longrightarrow>
     decision_view db' = decision_view db \<and> work_view db' = work_view db \<and> cd_audit db' = cd_audit db \<and> cd_version db' = cd_version db"
  by (auto simp: register_project_def bind_check_ok view_defs)

lemma register_workspace_frame:
  "register_workspace p ws path identity db = Inr db' \<Longrightarrow>
     decision_view db' = decision_view db \<and> work_view db' = work_view db \<and> base_view db' = base_view db"
  by (auto simp: register_workspace_def bind_check_ok execute_when_ok view_defs)

lemma observation_frame:
  "record_workspace_observation J i stamp db = Inr db' \<Longrightarrow>
     decision_view db' = decision_view db \<and> work_view db' = work_view db \<and> base_view db' = base_view db"
  by (auto simp: record_workspace_observation_def insert_observation_def bind_check_ok execute_when_ok view_defs)

lemma checkpoint_frame:
  assumes "save_checkpoint J event cp db = Inr db'"
  obtains db1 where "decision_view db1 = decision_view db" "work_view db1 = work_view db" "base_view db1 = base_view db"
    "audit J db1 event (Some (wi_project_id (cp_work cp))) ''checkpoint_created'' (cp_recorded_at cp) ''observed'' (JObj
          [(''checkpoint_id'', JStr (cp_id cp)), (''progress_evidence'', JStr ''agent_reported''),
           (''workspace_evidence'', JStr ''observed'')]) = Inr db'"
proof -
  obtain db1 where i: "insert_checkpoint J db cp = Inr db1"
    and a: "audit J db1 event (Some (wi_project_id (cp_work cp))) ''checkpoint_created'' (cp_recorded_at cp) ''observed'' (JObj
          [(''checkpoint_id'', JStr (cp_id cp)), (''progress_evidence'', JStr ''agent_reported''),
           (''workspace_evidence'', JStr ''observed'')]) = Inr db'"
    using assms unfolding save_checkpoint_def Let_def bind_check_ok by blast
  show thesis by (rule that[OF _ _ _ a]) (use i in \<open>auto simp: insert_checkpoint_def execute_when_ok view_defs\<close>)
qed

lemma handoff_frame:
  assumes "save_handoff J i event t packet db = Inr (db', r)"
  obtains db1 data where "decision_view db1 = decision_view db" "work_view db1 = work_view db" "base_view db1 = base_view db"
    "audit J db1 event (Some (hp_project_id packet)) ''handoff_prepared'' t ''observed'' data = Inr db'"
proof -
  obtain h db1 data where i: "insert_handoff db h = Inr db1"
    and a: "audit J db1 event (Some (hp_project_id packet)) ''handoff_prepared'' t ''observed'' data = Inr db'"
    using assms unfolding save_handoff_def Let_def bind_check_ok if_Inl_Inr by blast
  show thesis by (rule that[OF _ _ _ a]) (use i in \<open>auto simp: insert_handoff_def execute_when_ok view_defs\<close>)
qed

lemma audit_frame:
  "audit J db event project kind t source data = Inr db' \<Longrightarrow>
     decision_view db' = decision_view db \<and> work_view db' = work_view db \<and> cd_version db' = cd_version db \<and> cd_projects db' = cd_projects db"
  by (auto dest!: audit_ok simp: view_defs)

lemma upgrade_cases:
  assumes "upgrade_control J backup t event db = Inr (db', r)"
  shows "db' = db \<or> audit J (migrate_control db) event None ''schema_upgraded'' t ''observed''
          (JObj [(''from'', JNum 1), (''to'', JNum 2)]) = Inr db'"
  using assms unfolding upgrade_control_def by (auto simp: bind_check_ok split: if_splits)

section \<open>A small history\<close>

definition demo_codec :: control_codec where
  "demo_codec = \<lparr>cc_work = \<lambda>_. 0, cc_session = \<lambda>_. 0, cc_decision = \<lambda>_. 0, cc_resource = \<lambda>_. 0, cc_verification = \<lambda>_ _ _. 0,
     cc_checkpoint = \<lambda>_. 0, cc_checkpoint_bytes = \<lambda>_. 0, cc_stamp = \<lambda>_. 0, cc_focus = \<lambda>_. 0, cc_quota = \<lambda>_. 0,
     cc_capability = \<lambda>_. 0, cc_plan = \<lambda>_. 0, cc_audit = \<lambda>_. 0, cc_stamp_sha = \<lambda>_. [], cc_capability_sha = ca_id,
     cc_plan_sha = rp_id, cc_packet_sha = \<lambda>_. []\<rparr>"

definition demo_call :: "string \<Rightarrow> call" where
  "demo_call e = \<lparr>cl_at = 10, cl_approval = replicate 64 (CHR ''a''), cl_ids = (\<lambda>n. replicate n (CHR ''x'') @ e)\<rparr>"

definition demo_project :: project_row where
  "demo_project = \<lparr>pr_id = ''p'', pr_path = ''/p'', pr_git = ''/git''\<rparr>"

definition demo_start :: control_db where
  "demo_start = (migrate_control (empty_control\<lparr>cd_projects := [demo_project]\<rparr>))
     \<lparr>cd_audit := [\<lparr>au_seq = 1, au_event = ''e0'', au_project = None, au_kind = ''schema_upgraded'', au_recorded = 5,
        au_source = ''observed'', au_payload = JObj [(''from'', JNum 1), (''to'', JNum 2)]\<rparr>]\<rparr>"

lemma demo_start_reachable: "control_reachable demo_codec demo_start"
proof -
  have "register_project id (\<lambda>_. Inr ()) (\<lambda>_. Inr ()) ''/home'' demo_project empty_control =
      Inr (empty_control\<lparr>cd_projects := [demo_project]\<rparr>)"
    by (simp add: register_project_def demo_project_def empty_control_def valid_id_def ascii_class_defs paths_overlap_def strip_slashes_def)
  then have one: "control_step demo_codec empty_control (empty_control\<lparr>cd_projects := [demo_project]\<rparr>)" by (rule control_step.project)
  have "upgrade_control demo_codec (Inr ''b'') 5 ''e0'' (empty_control\<lparr>cd_projects := [demo_project]\<rparr>) = Inr (demo_start, (True, Some ''b''))"
    by (simp add: upgrade_control_def empty_control_def audit_def execute_when_def demo_codec_def migrate_control_def next_seq_def demo_start_def)
  then have "control_step demo_codec (empty_control\<lparr>cd_projects := [demo_project]\<rparr>) demo_start" by (rule control_step.upgraded)
  then show ?thesis using one unfolding control_reachable_def by auto
qed

lemma demo_reachable_step:
  "control_reachable J db \<Longrightarrow> store_record J c cmd db = Inr (db', out) \<Longrightarrow> control_reachable J db'"
  unfolding control_reachable_def by (meson control_step.recorded rtranclp.rtrancl_into_rtrancl)

lemma demo_source: "call_source (demo_call e) = ''local-record:aaaaaaaaaaaaaaaa''"
  by (simp add: call_source_def demo_call_def numeral_eq_Suc)

lemma demo_approval: "length (cl_approval (demo_call e)) = 64" "list_all is_ascii_hexdigit (cl_approval (demo_call e))"
  by (simp_all add: demo_call_def ascii_class_defs list_all_iff)

lemma demo_command:
  assumes "control_reachable demo_codec db" "cd_version db = 2"
    and run: "run_command demo_codec (demo_call e) db cmd = Inr (db1, Some p, out)"
    and fresh: "cl_ids (demo_call e) (ids_used cmd) \<notin> au_event ` set (cd_audit db1)" "next_seq db1 < 2 ^ 63" "project_exists db1 p"
  obtains row where "au_event row = cl_ids (demo_call e) (ids_used cmd)" "au_seq row = next_seq db1"
    "control_reachable demo_codec (db1\<lparr>cd_audit := cd_audit db1 @ [row]\<rparr>)"
    "store_record demo_codec (demo_call e) cmd db = Inr (db1\<lparr>cd_audit := cd_audit db1 @ [row]\<rparr>, out)"
proof -
  let ?row = "\<lparr>au_seq = next_seq db1, au_event = cl_ids (demo_call e) (ids_used cmd), au_project = Some p, au_kind = record_kind cmd,
    au_recorded = cl_at (demo_call e), au_source = ''user_approved'', au_payload = audit_payload out (cl_approval (demo_call e))\<rparr>"
  have "audit demo_codec db1 (cl_ids (demo_call e) (ids_used cmd)) (Some p) (record_kind cmd) (cl_at (demo_call e)) ''user_approved''
      (audit_payload out (cl_approval (demo_call e))) = Inr (db1\<lparr>cd_audit := cd_audit db1 @ [?row]\<rparr>)"
    using fresh by (auto simp: audit_def execute_when_def demo_codec_def list_ex_iff image_iff)
  then have "store_record demo_codec (demo_call e) cmd db = Inr (db1\<lparr>cd_audit := cd_audit db1 @ [?row]\<rparr>, out)"
    using run assms(2) demo_approval[of e] by (simp add: store_record_def require_control_def)
  note stored = this
  show thesis by (rule that[OF _ _ demo_reachable_step[OF assms(1) stored] stored]) simp_all
qed

lemma demo_start_facts:
  "cd_version demo_start = 2" "cd_projects demo_start = [demo_project]" "cd_decisions demo_start = []" "cd_acceptances demo_start = []"
  "cd_dispositions demo_start = []" "cd_work demo_start = []" "cd_sessions demo_start = []" "cd_assignments demo_start = []"
  "next_seq demo_start = 2" "au_event ` set (cd_audit demo_start) = {''e0''}"
  by (simp_all add: demo_start_def migrate_control_def empty_control_def next_seq_def)

lemma demo_project_exists: "cd_projects db = [demo_project] \<Longrightarrow> project_exists db ''p''"
  by (simp add: project_exists_def demo_project_def)

lemma demo_event: "cl_ids (demo_call e) n = replicate n (CHR ''x'') @ e" "cl_at (demo_call e) = 10"
  by (simp_all add: demo_call_def)

lemma next_seq_tables [simp]:
  "next_seq (db\<lparr>cd_decisions := a\<rparr>) = next_seq db" "next_seq (db\<lparr>cd_acceptances := b\<rparr>) = next_seq db"
  "next_seq (db\<lparr>cd_work := c\<rparr>) = next_seq db" "next_seq (db\<lparr>cd_sessions := d\<rparr>) = next_seq db"
  "next_seq (db\<lparr>cd_assignments := e\<rparr>) = next_seq db" "next_seq (db\<lparr>cd_audit := rows @ [row]\<rparr>) = au_seq row + 1"
  by (simp_all add: next_seq_def)

end
