(* ===== verification/Control_Decisions.thy ===== *)
theory Control_Decisions
  imports Control_Store
begin

text \<open>
  Decisions in the control store: the accepted decisions of a scope form one chain ordered by acceptance and effect, so
  the query for current decisions (\<open>schema/current_decisions.sql\<close>) agrees with the core's bitemporal selection.
\<close>

section \<open>Decisions\<close>

text \<open>The statements on decisions a step can execute.\<close>

inductive decision_statement :: "control_codec \<Rightarrow> control_db \<Rightarrow> control_db \<Rightarrow> bool" for J where
  propose: "insert_decision J db d = Inr db' \<Longrightarrow> decision_statement J db db'"
| accept: "find_decision db i = Some d \<Longrightarrow> insert_acceptance db (acceptance_row_of d t approval) = Inr db'
     \<Longrightarrow> decision_statement J db db'"
| dispose: "insert_disposition db x = Inr db' \<Longrightarrow> decision_statement J db db'"

lemma command_decisions:
  assumes "run_command J c db cmd = Inr (db', p, out)"
  shows "decision_view db' = decision_view db \<or> decision_statement J db db'"
proof (cases "decision_command cmd")
  case True
  then show ?thesis using assms
    by (cases cmd) (auto simp: decision_propose_def decision_accept_def decision_dispose_def bind_check_ok ok_or_ok
        intro: decision_statement.intros split: if_splits)
next
  case False
  then show ?thesis using command_frame(2)[OF assms] by simp
qed

lemma step_decisions:
  assumes "control_step J db db'"
  shows "decision_view db' = decision_view db \<or> decision_view db' = ([], [], [])
    \<or> (\<exists>db1. decision_statement J db db1 \<and> decision_view db' = decision_view db1)"
  using assms
proof cases
  case (recorded c cmd out)
  then obtain db1 p where r: "run_command J c db cmd = Inr (db1, p, out)" "decision_view db' = decision_view db1"
    using stored_record audit_frame by metis
  then show ?thesis using command_decisions[OF r(1)] by metis
next
  case (project lower directory local home p)
  then show ?thesis using register_project_frame by blast
next
  case (upgraded backup t event r)
  have "decision_view (migrate_control db) = ([], [], [])" by (simp add: decision_view_def migrate_control_def)
  then show ?thesis using upgrade_cases[OF upgraded] audit_frame by metis
next
  case (workspace p ws path identity)
  then show ?thesis using register_workspace_frame by blast
next
  case (observed i stamp)
  then show ?thesis using observation_frame by blast
next
  case (checkpointed event cp)
  then show ?thesis by (metis checkpoint_frame audit_frame)
next
  case (handed_off i event t packet r)
  then show ?thesis by (metis handoff_frame audit_frame)
qed

text \<open>
  A table of successors: every row but a root names an earlier row of its group that does not come after it, a group has
  one root and a row one successor. Then the rows of a group form a single chain.
\<close>

definition links :: "('r \<Rightarrow> 'k) \<Rightarrow> ('r \<Rightarrow> 'k option) \<Rightarrow> 'r list \<Rightarrow> (nat \<times> nat) set" where
  "links key parent rs = {(i, j). i < length rs \<and> j < length rs \<and> parent (rs ! j) = Some (key (rs ! i))}"

locale succession =
  fixes valid :: "'db \<Rightarrow> bool" and rows :: "'db \<Rightarrow> 'r list"
    and key :: "'r \<Rightarrow> 'k" and parent :: "'r \<Rightarrow> 'k option" and group_of :: "'r \<Rightarrow> 'g"
    and before :: "'db \<Rightarrow> 'r \<Rightarrow> 'r \<Rightarrow> bool"
  assumes keyed: "valid db \<Longrightarrow> distinct (map key (rows db))"
    and linked: "valid db \<Longrightarrow> j < length (rows db) \<Longrightarrow> parent (rows db ! j) = Some p \<Longrightarrow>
      \<exists>i<j. key (rows db ! i) = p \<and> group_of (rows db ! i) = group_of (rows db ! j) \<and> before db (rows db ! i) (rows db ! j)"
    and one_root: "valid db \<Longrightarrow> a \<in> set (rows db) \<Longrightarrow> b \<in> set (rows db) \<Longrightarrow> parent a = None \<Longrightarrow>
      parent b = None \<Longrightarrow> group_of a = group_of b \<Longrightarrow> a = b"
    and one_successor: "valid db \<Longrightarrow> a \<in> set (rows db) \<Longrightarrow> b \<in> set (rows db) \<Longrightarrow> parent a = Some p \<Longrightarrow>
      parent b = Some p \<Longrightarrow> a = b"
    and before_refl: "before db r r" and before_trans: "before db a b \<Longrightarrow> before db b c \<Longrightarrow> before db a c"
begin

lemma same_row:
  assumes "valid db" "i < length (rows db)" "j < length (rows db)" "key (rows db ! i) = key (rows db ! j)"
  shows "i = j"
  using nth_eq_iff_index_eq[OF keyed[OF assms(1)]] assms(2-) by simp

lemma link_facts:
  assumes v: "valid db" and l: "(i, j) \<in> links key parent (rows db)"
  shows "i < j \<and> group_of (rows db ! i) = group_of (rows db ! j) \<and> before db (rows db ! i) (rows db ! j)"
proof -
  have ij: "i < length (rows db)" "j < length (rows db)" "parent (rows db ! j) = Some (key (rows db ! i))"
    using l by (auto simp: links_def)
  obtain k where "k < j" "key (rows db ! k) = key (rows db ! i)" "group_of (rows db ! k) = group_of (rows db ! j)"
    "before db (rows db ! k) (rows db ! j)" using linked[OF v ij(2,3)] by blast
  moreover have "k = i" using same_row[OF v _ ij(1)] calculation ij by simp
  ultimately show ?thesis by simp
qed

lemma chain_before:
  assumes "valid db" "(i, j) \<in> (links key parent (rows db))\<^sup>*"
  shows "before db (rows db ! i) (rows db ! j)"
  using assms(2) by (induction rule: rtrancl_induct) (use link_facts[OF assms(1)] in \<open>auto intro: before_refl before_trans\<close>)

lemma parent_link:
  assumes "valid db" "j < length (rows db)" "parent (rows db ! j) = Some p"
  obtains k where "k < j" "(k, j) \<in> links key parent (rows db)" "group_of (rows db ! k) = group_of (rows db ! j)" "key (rows db ! k) = p"
  using linked[OF assms] assms(2,3) that unfolding links_def by fastforce

lemma has_root:
  assumes v: "valid db"
  shows "j < length (rows db) \<Longrightarrow> \<exists>i\<le>j. parent (rows db ! i) = None \<and> group_of (rows db ! i) = group_of (rows db ! j)"
proof (induction j rule: less_induct)
  case (less j)
  show ?case
  proof (cases "parent (rows db ! j)")
    case (Some p)
    obtain k where "k < j" "group_of (rows db ! k) = group_of (rows db ! j)"
      using parent_link[OF v less.prems Some] by metis
    then show ?thesis using less.IH[of k] less.prems by (metis less_or_eq_imp_le le_trans order_less_trans)
  qed auto
qed

lemma chain:
  assumes v: "valid db"
  shows "i \<le> j \<Longrightarrow> j < length (rows db) \<Longrightarrow> group_of (rows db ! i) = group_of (rows db ! j) \<Longrightarrow>
    (i, j) \<in> (links key parent (rows db))\<^sup>* \<or> (j, i) \<in> (links key parent (rows db))\<^sup>*"
proof (induction j arbitrary: i rule: less_induct)
  case (less j)
  let ?L = "links key parent (rows db)"
  have inj: "x = y" if "x < length (rows db)" "y < length (rows db)" "rows db ! x = rows db ! y" for x y
    using same_row[OF v that(1,2)] that(3) by simp
  show ?case
  proof (cases "parent (rows db ! j)")
    case None
    obtain r where r: "r \<le> i" "parent (rows db ! r) = None" "group_of (rows db ! r) = group_of (rows db ! i)"
      using has_root[OF v, of i] less.prems by auto
    have "r = j" by (rule inj[OF _ _ one_root[OF v]]) (use r None less.prems in auto)
    then have "i = j" using r(1) less.prems(1) by simp
    then show ?thesis by simp
  next
    case (Some p)
    obtain k where k: "k < j" "(k, j) \<in> ?L" "group_of (rows db ! k) = group_of (rows db ! j)"
      using parent_link[OF v less.prems(2) Some] by metis
    have gk: "group_of (rows db ! i) = group_of (rows db ! k)" using k(3) less.prems(3) by simp
    consider "i = j" | "i \<le> k" | "k \<le> i" "i < j" using less.prems(1) by linarith
    then have cmp: "i = j \<or> (i, k) \<in> ?L\<^sup>* \<or> (k, i) \<in> ?L\<^sup>*"
    proof cases
      case 2
      then show ?thesis using less.IH[of k i] k(1) less.prems(2) gk by auto
    next
      case 3
      then show ?thesis using less.IH[of i k] less.prems(2) gk by auto
    qed simp
    have up: "(j, i) \<in> ?L\<^sup>* \<or> k = i" if ki: "(k, i) \<in> ?L\<^sup>*"
      using ki
    proof (cases rule: converse_rtranclE)
      case (step s)
      then have "parent (rows db ! s) = Some (key (rows db ! k))" "s < length (rows db)"
        "parent (rows db ! j) = Some (key (rows db ! k))" using k(2) by (auto simp: links_def)
      then have "rows db ! s = rows db ! j" using one_successor[OF v] less.prems(2) nth_mem by metis
      then have "s = j" using inj step less.prems(2) by (auto simp: links_def)
      then show ?thesis using step by simp
    qed simp
    have down: "(i, k) \<in> ?L\<^sup>* \<Longrightarrow> (i, j) \<in> ?L\<^sup>*" "i = k \<Longrightarrow> (i, j) \<in> ?L\<^sup>*" "i = j \<Longrightarrow> (i, j) \<in> ?L\<^sup>*"
      using k(2) by (auto intro: rtrancl_into_rtrancl)
    show ?thesis using cmp up down by blast
  qed
qed

lemma unique_tip:
  assumes v: "valid db" and ab: "a \<in> set (rows db)" "b \<in> set (rows db)" "group_of a = group_of b"
    and E: "E a" "E b" "\<And>x y. before db x y \<Longrightarrow> E y \<Longrightarrow> E x"
    and tip: "\<And>x. x \<in> set (rows db) \<Longrightarrow> E x \<Longrightarrow> parent x \<noteq> Some (key a) \<and> parent x \<noteq> Some (key b)"
  shows "a = b"
proof -
  obtain i j where ij: "i < length (rows db)" "j < length (rows db)" "a = rows db ! i" "b = rows db ! j"
    using ab by (metis in_set_conv_nth)
  have final: "x = y" if xy: "(x, y) \<in> (links key parent (rows db))\<^sup>*" "E (rows db ! y)" "rows db ! x \<in> {a, b}" for x y
    using xy(1)
  proof (cases rule: converse_rtranclE)
    case (step s)
    have "E (rows db ! s)" using E(3)[OF chain_before[OF v step(2)]] xy(2) by simp
    moreover have "rows db ! s \<in> set (rows db)" "parent (rows db ! s) = Some (key (rows db ! x))"
      using step(1) by (auto simp: links_def)
    ultimately show ?thesis using tip xy(3) by auto
  qed simp
  have "(i, j) \<in> (links key parent (rows db))\<^sup>* \<or> (j, i) \<in> (links key parent (rows db))\<^sup>*"
    using chain[OF v, of i j] chain[OF v, of j i] ij ab(3) by (metis nat_le_linear)
  then show ?thesis using final[of i j] final[of j i] E ij by auto
qed

end

definition row_scope :: "acceptance_row \<Rightarrow> string \<times> string \<times> string" where
  "row_scope a = (ac_project_id a, ac_topic a, ac_scope a)"

definition effective_of :: "control_db \<Rightarrow> string \<Rightarrow> int" where
  "effective_of db i = (case find_decision db i of None \<Rightarrow> 0 | Some d \<Rightarrow> dec_effective_at d)"

definition precedes :: "control_db \<Rightarrow> acceptance_row \<Rightarrow> acceptance_row \<Rightarrow> bool" where
  "precedes db a b \<longleftrightarrow> ac_accepted_at a \<le> ac_accepted_at b
     \<and> effective_of db (ac_decision_id a) \<le> effective_of db (ac_decision_id b)"

text \<open>What the keys, foreign keys, indexes and triggers on the three tables establish together.\<close>

definition proposals_ok :: "decision list \<Rightarrow> bool" where
  "proposals_ok ds \<longleftrightarrow> distinct (map dec_id ds)
     \<and> (\<forall>d \<in> set ds. \<forall>p. dec_predecessor d = Some p \<longrightarrow> p \<noteq> dec_id d
          \<and> (\<exists>r \<in> set ds. dec_id r = p \<and> decision_scope r = decision_scope d))"

definition acceptances_ok :: "control_db \<Rightarrow> bool" where
  "acceptances_ok db \<longleftrightarrow> distinct (map ac_decision_id (cd_acceptances db))
     \<and> (\<forall>a \<in> set (cd_acceptances db). \<exists>d \<in> set (cd_decisions db).
          ac_decision_id a = dec_id d \<and> ac_predecessor a = dec_predecessor d \<and> row_scope a = decision_scope d
          \<and> dec_recorded_at d \<le> ac_accepted_at a)
     \<and> (\<forall>j < length (cd_acceptances db). \<forall>p. ac_predecessor (cd_acceptances db ! j) = Some p \<longrightarrow>
          (\<exists>i<j. ac_decision_id (cd_acceptances db ! i) = p
             \<and> row_scope (cd_acceptances db ! i) = row_scope (cd_acceptances db ! j)
             \<and> precedes db (cd_acceptances db ! i) (cd_acceptances db ! j)))"

definition chains_ok :: "acceptance_row list \<Rightarrow> bool" where
  "chains_ok as \<longleftrightarrow>
     (\<forall>a \<in> set as. \<forall>b \<in> set as. ac_predecessor a = None \<and> ac_predecessor b = None \<and> row_scope a = row_scope b \<longrightarrow> a = b)
     \<and> (\<forall>a \<in> set as. \<forall>b \<in> set as. \<forall>p. ac_predecessor a = Some p \<and> ac_predecessor b = Some p \<longrightarrow> a = b)"

definition decisions_ok :: "control_db \<Rightarrow> bool" where
  "decisions_ok db \<longleftrightarrow> proposals_ok (cd_decisions db) \<and> acceptances_ok db \<and> chains_ok (cd_acceptances db)"

lemma decisions_ok_view:
  assumes "decision_view db' = decision_view db"
  shows "decisions_ok db' = decisions_ok db"
  using assms by (simp add: decision_view_def decisions_ok_def acceptances_ok_def precedes_def effective_of_def find_decision_def)

lemma decisions_ok_empty: "decision_view db = ([], [], []) \<Longrightarrow> decisions_ok db"
  by (simp add: decision_view_def decisions_ok_def proposals_ok_def acceptances_ok_def chains_ok_def)

lemma find_decision_Some: "find_decision db i = Some d \<Longrightarrow> d \<in> set (cd_decisions db) \<and> dec_id d = i"
  by (auto simp: find_decision_def find_Some_iff)

lemma find_decision_unique:
  "proposals_ok (cd_decisions db) \<Longrightarrow> d \<in> set (cd_decisions db) \<Longrightarrow> find_decision db (dec_id d) = Some d"
proof -
  assume ok: "proposals_ok (cd_decisions db)" and d: "d \<in> set (cd_decisions db)"
  obtain e where e: "find_decision db (dec_id d) = Some e"
    using d by (cases "find_decision db (dec_id d)") (auto simp: find_decision_def find_None_iff)
  then show ?thesis using ok d find_decision_Some[OF e] by (metis proposals_ok_def distinct_map inj_onD)
qed

lemma effective_of_decision:
  "proposals_ok (cd_decisions db) \<Longrightarrow> d \<in> set (cd_decisions db) \<Longrightarrow> effective_of db (dec_id d) = dec_effective_at d"
  by (simp add: effective_of_def find_decision_unique)

lemma acceptance_linked:
  "acceptances_ok db \<Longrightarrow> j < length (cd_acceptances db) \<Longrightarrow> ac_predecessor (cd_acceptances db ! j) = Some p \<Longrightarrow>
     \<exists>i<j. ac_decision_id (cd_acceptances db ! i) = p \<and> row_scope (cd_acceptances db ! i) = row_scope (cd_acceptances db ! j)
       \<and> precedes db (cd_acceptances db ! i) (cd_acceptances db ! j)"
  by (simp add: acceptances_ok_def)

lemma acceptance_decision:
  "acceptances_ok db \<Longrightarrow> a \<in> set (cd_acceptances db) \<Longrightarrow>
     \<exists>d \<in> set (cd_decisions db). ac_decision_id a = dec_id d \<and> ac_predecessor a = dec_predecessor d
       \<and> row_scope a = decision_scope d \<and> dec_recorded_at d \<le> ac_accepted_at a"
  by (simp add: acceptances_ok_def)

lemma propose_ok:
  assumes ok: "decisions_ok db" and ins: "insert_decision J db d = Inr db'"
  shows "decisions_ok db'"
proof -
  have db': "cd_decisions db' = cd_decisions db @ [d]" "cd_acceptances db' = cd_acceptances db"
    and new: "find_decision db (dec_id d) = None" "dec_predecessor d \<noteq> Some (dec_id d)"
    and pred: "\<And>p. dec_predecessor d = Some p \<Longrightarrow> \<exists>r \<in> set (cd_decisions db). dec_id r = p \<and> decision_scope r = decision_scope d"
    using ins by (auto simp: insert_decision_def execute_when_ok list_ex_iff decision_scope_def)
  have fresh: "dec_id d \<notin> dec_id ` set (cd_decisions db)" using new(1) by (auto simp: find_decision_def find_None_iff)
  have p: "proposals_ok (cd_decisions db')"
    unfolding proposals_ok_def db'
  proof (intro conjI ballI allI impI)
    show "distinct (map dec_id (cd_decisions db @ [d]))" using ok fresh by (simp add: decisions_ok_def proposals_ok_def)
  next
    fix e q assume e: "e \<in> set (cd_decisions db @ [d])" "dec_predecessor e = Some q"
    show "q \<noteq> dec_id e" using e ok new(2) by (auto simp: decisions_ok_def proposals_ok_def)
    show "\<exists>r \<in> set (cd_decisions db @ [d]). dec_id r = q \<and> decision_scope r = decision_scope e"
      using e ok pred by (cases "e = d") (auto simp: decisions_ok_def proposals_ok_def)
  qed
  have "effective_of db' (ac_decision_id a) = effective_of db (ac_decision_id a)" if mem: "a \<in> set (cd_acceptances db)" for a
  proof -
    obtain e where e: "e \<in> set (cd_decisions db)" "ac_decision_id a = dec_id e"
      using ok acceptance_decision[OF _ mem] unfolding decisions_ok_def by blast
    show ?thesis using effective_of_decision[of db e] effective_of_decision[of db' e] ok p e by (simp add: decisions_ok_def db')
  qed
  then have prec: "precedes db' x y = precedes db x y" if "x \<in> set (cd_acceptances db)" "y \<in> set (cd_acceptances db)" for x y
    using that by (simp add: precedes_def)
  have "acceptances_ok db'" unfolding acceptances_ok_def db'
  proof (intro conjI ballI allI impI)
    show "distinct (map ac_decision_id (cd_acceptances db))" using ok by (simp add: decisions_ok_def acceptances_ok_def)
  next
    fix x assume "x \<in> set (cd_acceptances db)"
    then show "\<exists>e \<in> set (cd_decisions db @ [d]). ac_decision_id x = dec_id e
        \<and> ac_predecessor x = dec_predecessor e \<and> row_scope x = decision_scope e \<and> dec_recorded_at e \<le> ac_accepted_at x"
      using ok by (auto simp: decisions_ok_def acceptances_ok_def)
  next
    fix j q assume j: "j < length (cd_acceptances db)" "ac_predecessor (cd_acceptances db ! j) = Some q"
    then obtain i where i: "i < j" "ac_decision_id (cd_acceptances db ! i) = q"
      "row_scope (cd_acceptances db ! i) = row_scope (cd_acceptances db ! j)" "precedes db (cd_acceptances db ! i) (cd_acceptances db ! j)"
      using ok acceptance_linked unfolding decisions_ok_def by blast
    then show "\<exists>i<j. ac_decision_id (cd_acceptances db ! i) = q \<and> row_scope (cd_acceptances db ! i) = row_scope (cd_acceptances db ! j)
       \<and> precedes db' (cd_acceptances db ! i) (cd_acceptances db ! j)"
      using j(1) prec by (intro exI[of _ i]) simp
  qed
  then show ?thesis using p ok by (simp add: decisions_ok_def db')
qed

lemma accept_ok:
  assumes ok: "decisions_ok db" and d: "find_decision db i = Some d"
    and ins: "insert_acceptance db (acceptance_row_of d t approval) = Inr db'"
  shows "decisions_ok db'"
proof -
  let ?a = "acceptance_row_of d t approval" and ?as = "cd_acceptances db"
  have din: "d \<in> set (cd_decisions db)" using find_decision_Some[OF d] by simp
  have P: "proposals_ok (cd_decisions db)" and A: "acceptances_ok db" and C: "chains_ok ?as" using ok by (auto simp: decisions_ok_def)
  have uniq: "e = d" if "e \<in> set (cd_decisions db)" "dec_id e = dec_id d" for e
    using that din P by (metis proposals_ok_def distinct_map inj_onD)
  have db': "cd_decisions db' = cd_decisions db" "cd_acceptances db' = ?as @ [?a]"
    and guard: "accept_guard db ?a" and new: "dec_id d \<notin> ac_decision_id ` set ?as"
    and root: "dec_predecessor d = None \<Longrightarrow> \<forall>x \<in> set ?as. \<not> (row_scope x = row_scope ?a \<and> ac_predecessor x = None)"
    and succ: "\<And>p. dec_predecessor d = Some p \<Longrightarrow> (p \<in> ac_decision_id ` set ?as \<or> p = dec_id d) \<and> (\<forall>x \<in> set ?as. ac_predecessor x \<noteq> Some p)"
    using ins by (auto simp: insert_acceptance_def execute_when_ok list_ex_iff acceptance_row_of_def row_scope_def)
  have eff: "effective_of db' k = effective_of db k" for k by (simp add: effective_of_def find_decision_def db')
  have prec: "precedes db' x y = precedes db x y" for x y by (simp add: precedes_def eff)
  have recorded: "dec_recorded_at d \<le> t"
    using guard uniq by (auto simp: accept_guard_def acceptance_row_of_def list_ex_iff)
  have linked: "\<exists>i < length ?as. ac_decision_id (?as ! i) = p \<and> row_scope (?as ! i) = row_scope ?a \<and> precedes db (?as ! i) ?a"
    if p: "dec_predecessor d = Some p" for p
  proof -
    have "p \<noteq> dec_id d" and "\<exists>r \<in> set (cd_decisions db). dec_id r = p \<and> decision_scope r = decision_scope d"
      using P din p by (auto simp: proposals_ok_def)
    then obtain r where r: "r \<in> set (cd_decisions db)" "dec_id r = p" "decision_scope r = decision_scope d" by blast
    obtain i where i: "i < length ?as" "ac_decision_id (?as ! i) = p" using succ[OF p] \<open>p \<noteq> dec_id d\<close> by (auto simp: in_set_conv_nth)
    obtain e where e: "e \<in> set (cd_decisions db)" "ac_decision_id (?as ! i) = dec_id e" "row_scope (?as ! i) = decision_scope e"
      using acceptance_decision[OF A nth_mem[OF i(1)]] by blast
    have "e = r" using e(1,2) i(2) r P by (metis proposals_ok_def distinct_map inj_onD)
    then have "row_scope (?as ! i) = row_scope ?a"
      using e(3) r(3) by (simp add: acceptance_row_of_def decision_scope_def row_scope_def)
    moreover have "ac_accepted_at (?as ! i) \<le> t"
      using guard p i by (force simp: accept_guard_def acceptance_row_of_def list_ex_iff)
    moreover have "dec_effective_at r \<le> dec_effective_at d"
      using guard p r din by (force simp: accept_guard_def acceptance_row_of_def list_ex_iff)
    ultimately show ?thesis using i r P din effective_of_decision[of db r] effective_of_decision[of db d]
      by (intro exI[of _ i]) (simp add: precedes_def acceptance_row_of_def)
  qed
  have "acceptances_ok db'" unfolding acceptances_ok_def db'
  proof (intro conjI ballI allI impI)
    show "distinct (map ac_decision_id (?as @ [?a]))" using A new by (auto simp: acceptances_ok_def acceptance_row_of_def)
  next
    fix x assume "x \<in> set (?as @ [?a])"
    then consider "x \<in> set ?as" | "x = ?a" by auto
    then show "\<exists>e \<in> set (cd_decisions db). ac_decision_id x = dec_id e
        \<and> ac_predecessor x = dec_predecessor e \<and> row_scope x = decision_scope e \<and> dec_recorded_at e \<le> ac_accepted_at x"
    proof cases
      case 1
      then show ?thesis using acceptance_decision[OF A] by blast
    next
      case 2
      then show ?thesis using din recorded
        by (intro bexI[of _ d]) (simp_all add: acceptance_row_of_def row_scope_def decision_scope_def)
    qed
  next
    fix j q assume j: "j < length (?as @ [?a])" "ac_predecessor ((?as @ [?a]) ! j) = Some q"
    show "\<exists>i<j. ac_decision_id ((?as @ [?a]) ! i) = q \<and> row_scope ((?as @ [?a]) ! i) = row_scope ((?as @ [?a]) ! j)
       \<and> precedes db' ((?as @ [?a]) ! i) ((?as @ [?a]) ! j)"
    proof (cases "j < length ?as")
      case True
      then have "ac_predecessor (?as ! j) = Some q" using j(2) by (simp add: nth_append)
      then obtain i where "i < j" "ac_decision_id (?as ! i) = q" "row_scope (?as ! i) = row_scope (?as ! j)" "precedes db (?as ! i) (?as ! j)"
        using acceptance_linked[OF A True] by blast
      then show ?thesis using True by (intro exI[of _ i]) (simp add: nth_append prec)
    next
      case False
      then have "j = length ?as" "dec_predecessor d = Some q" using j by (auto simp: nth_append acceptance_row_of_def)
      then show ?thesis using linked by (auto simp: nth_append prec)
    qed
  qed
  moreover have "chains_ok (?as @ [?a])"
  proof -
    have pa: "ac_predecessor ?a = dec_predecessor d" by (simp add: acceptance_row_of_def)
    have r: "\<forall>x \<in> set ?as. ac_predecessor x = None \<and> ac_predecessor ?a = None \<longrightarrow> row_scope x \<noteq> row_scope ?a"
      using root pa by metis
    have u: "\<forall>x \<in> set ?as. \<forall>p. ac_predecessor ?a = Some p \<longrightarrow> ac_predecessor x \<noteq> Some p" using succ pa by metis
    show ?thesis unfolding chains_ok_def
    proof (intro conjI ballI allI impI)
      fix x y assume "x \<in> set (?as @ [?a])" "y \<in> set (?as @ [?a])"
        "ac_predecessor x = None \<and> ac_predecessor y = None \<and> row_scope x = row_scope y"
      then show "x = y" using C r unfolding chains_ok_def by (elim conjE) (fastforce simp del: not_None_eq)
    next
      fix x y p assume "x \<in> set (?as @ [?a])" "y \<in> set (?as @ [?a])" "ac_predecessor x = Some p \<and> ac_predecessor y = Some p"
      then show "x = y" using C u unfolding chains_ok_def by (elim conjE) fastforce
    qed
  qed
  ultimately show ?thesis using P by (simp add: decisions_ok_def db')
qed

lemma dispose_ok: "decisions_ok db \<Longrightarrow> insert_disposition db x = Inr db' \<Longrightarrow> decisions_ok db'"
  by (auto simp: insert_disposition_def execute_when_ok decisions_ok_def acceptances_ok_def precedes_def effective_of_def find_decision_def)

lemma decision_statement_ok: "decision_statement J db db' \<Longrightarrow> decisions_ok db \<Longrightarrow> decisions_ok db'"
  by (induction rule: decision_statement.induct) (blast intro: propose_ok accept_ok dispose_ok)+

lemma step_decisions_ok: "control_step J db db' \<Longrightarrow> decisions_ok db \<Longrightarrow> decisions_ok db'"
  using step_decisions decision_statement_ok decisions_ok_view decisions_ok_empty by metis

lemma reachable_decisions_ok: "control_reachable J db \<Longrightarrow> decisions_ok db"
proof -
  have "decisions_ok empty_control" by (rule decisions_ok_empty) (simp add: decision_view_def empty_control_def)
  then show "control_reachable J db \<Longrightarrow> decisions_ok db"
    using reachable_invariant[of J db decisions_ok] step_decisions_ok by blast
qed

interpretation accepted: succession decisions_ok cd_acceptances ac_decision_id ac_predecessor row_scope precedes
proof
  fix db :: control_db and j p
  assume "decisions_ok db" "j < length (cd_acceptances db)" "ac_predecessor (cd_acceptances db ! j) = Some p"
  then show "\<exists>i<j. ac_decision_id (cd_acceptances db ! i) = p \<and> row_scope (cd_acceptances db ! i) = row_scope (cd_acceptances db ! j)
      \<and> precedes db (cd_acceptances db ! i) (cd_acceptances db ! j)"
    by (simp add: decisions_ok_def acceptances_ok_def)
qed (auto simp: decisions_ok_def acceptances_ok_def chains_ok_def precedes_def)

section \<open>The query for current decisions\<close>

definition core_acceptance :: "acceptance_row \<Rightarrow> decision_acceptance" where
  "core_acceptance a = \<lparr>acc_decision_id = ac_decision_id a, acc_accepted_at = ac_accepted_at a, acc_approval_ref = ac_approval_ref a\<rparr>"

abbreviation project_decisions :: "control_db \<Rightarrow> string \<Rightarrow> decision list" where
  "project_decisions db p \<equiv> filter (\<lambda>d. dec_project_id d = p) (cd_decisions db)"

abbreviation current_in :: "control_db \<Rightarrow> string \<Rightarrow> int \<Rightarrow> int \<Rightarrow> decision \<Rightarrow> bool" where
  "current_in db p v k \<equiv> current_decision (project_decisions db p) (map core_acceptance (cd_acceptances db)) v k"

lemma unique_by_key:
  assumes "distinct (map key as)"
  shows "filter (\<lambda>a. key a = x \<and> R a) as = [] \<or> (\<exists>a. filter (\<lambda>a. key a = x \<and> R a) as = [a])"
proof -
  have "length (filter (\<lambda>a. key a = x \<and> R a) as) \<le> 1"
    using assms by (induction as) (auto simp: filter_empty_conv, metis imageI)
  then show ?thesis by (cases "filter (\<lambda>a. key a = x \<and> R a) as") auto
qed

lemma join_by_key:
  assumes "distinct (map key as)"
  shows "concat (map (\<lambda>d. map (\<lambda>_. d) (filter (\<lambda>a. key a = ident d \<and> R d a) as)) ds) =
    filter (\<lambda>d. \<exists>a \<in> set as. key a = ident d \<and> R d a) ds"
proof (induction ds)
  case (Cons d ds)
  show ?case using unique_by_key[OF assms, of "ident d" "R d"] Cons.IH by (auto simp: filter_empty_conv filter_eq_Cons_iff)
qed simp

lemma decision_of_id:
  assumes "decisions_ok db" "d \<in> set (cd_decisions db)" "e \<in> set (cd_decisions db)" "dec_id d = dec_id e"
  shows "d = e"
  using assms unfolding decisions_ok_def proposals_ok_def by (metis distinct_map inj_onD)

lemma eligible_iff:
  "decision_eligible (map core_acceptance as) v k d \<longleftrightarrow> dec_recorded_at d \<le> k \<and> dec_effective_at d \<le> v
     \<and> (\<exists>a \<in> set as. ac_decision_id a = dec_id d \<and> ac_accepted_at a \<le> k)"
  by (auto simp: decision_eligible_def core_acceptance_def list_ex_iff)

lemma superseded_iff:
  assumes ok: "decisions_ok db" and d: "d \<in> set (project_decisions db p)"
  shows "list_ex (superseded_by db v k d) (cd_acceptances db) \<longleftrightarrow>
    (\<exists>n \<in> set (project_decisions db p). decision_eligible (map core_acceptance (cd_acceptances db)) v k n
       \<and> dec_predecessor n = Some (dec_id d))"
proof
  assume "list_ex (superseded_by db v k d) (cd_acceptances db)"
  then obtain x n where x: "x \<in> set (cd_acceptances db)" "ac_predecessor x = Some (dec_id d)" "ac_accepted_at x \<le> k"
    and n: "n \<in> set (cd_decisions db)" "dec_id n = ac_decision_id x" "dec_recorded_at n \<le> k" "dec_effective_at n \<le> v"
    by (auto simp: list_ex_iff superseded_by_def)
  have A: "acceptances_ok db" and P: "proposals_ok (cd_decisions db)" using ok by (auto simp: decisions_ok_def)
  obtain m where m: "m \<in> set (cd_decisions db)" "ac_decision_id x = dec_id m" "ac_predecessor x = dec_predecessor m"
    using acceptance_decision[OF A x(1)] by blast
  have "m = n" using decision_of_id[OF ok m(1) n(1)] m(2) n(2) by simp
  then have pn: "dec_predecessor n = Some (dec_id d)" using m(3) x(2) by simp
  then obtain r where "r \<in> set (cd_decisions db)" "dec_id r = dec_id d" "decision_scope r = decision_scope n"
    using P n(1) unfolding proposals_ok_def by blast
  then have "dec_project_id n = p" using decision_of_id[OF ok, of r d] d by (simp add: decision_scope_def)
  then show "\<exists>n \<in> set (project_decisions db p). decision_eligible (map core_acceptance (cd_acceptances db)) v k n
       \<and> dec_predecessor n = Some (dec_id d)"
    using n x pn by (intro bexI[of _ n]) (auto simp: eligible_iff)
next
  assume "\<exists>n \<in> set (project_decisions db p). decision_eligible (map core_acceptance (cd_acceptances db)) v k n
       \<and> dec_predecessor n = Some (dec_id d)"
  then obtain n a where n: "n \<in> set (cd_decisions db)" "dec_recorded_at n \<le> k" "dec_effective_at n \<le> v" "dec_predecessor n = Some (dec_id d)"
    and a: "a \<in> set (cd_acceptances db)" "ac_decision_id a = dec_id n" "ac_accepted_at a \<le> k" by (auto simp: eligible_iff)
  have A: "acceptances_ok db" using ok by (auto simp: decisions_ok_def)
  obtain m where m: "m \<in> set (cd_decisions db)" "ac_decision_id a = dec_id m" "ac_predecessor a = dec_predecessor m"
    using acceptance_decision[OF A a(1)] by blast
  have "m = n" using decision_of_id[OF ok m(1) n(1)] m(2) a(2) by simp
  then show "list_ex (superseded_by db v k d) (cd_acceptances db)"
    using m a n unfolding list_ex_iff superseded_by_def by (intro bexI[of _ a]) auto
qed

definition row_order :: "decision \<Rightarrow> string \<times> string \<times> string" where
  "row_order d = (dec_topic d, dec_scope d, dec_id d)"

lemma current_rows_filter:
  assumes ok: "decisions_ok db"
  shows "current_rows db p v k = sort_key row_order (filter (current_in db p v k) (project_decisions db p))"
proof -
  let ?R = "\<lambda>d a. dec_project_id d = p \<and> dec_effective_at d \<le> v \<and> dec_recorded_at d \<le> k \<and> ac_accepted_at a \<le> k
     \<and> \<not> list_ex (superseded_by db v k d) (cd_acceptances db)"
  have dist: "distinct (map ac_decision_id (cd_acceptances db))" using ok by (simp add: decisions_ok_def acceptances_ok_def)
  have "filter (\<lambda>d. \<exists>a \<in> set (cd_acceptances db). ac_decision_id a = dec_id d \<and> ?R d a) (cd_decisions db) =
    filter (current_in db p v k) (project_decisions db p)"
    unfolding filter_filter
  proof (rule filter_cong[OF refl])
    fix d assume d: "d \<in> set (cd_decisions db)"
    show "(\<exists>a \<in> set (cd_acceptances db). ac_decision_id a = dec_id d \<and> ?R d a) = (dec_project_id d = p \<and> current_in db p v k d)"
      using superseded_iff[OF ok, of d p v k] d unfolding current_decision_def eligible_iff by auto
  qed
  then show ?thesis unfolding current_rows_def row_order_def using join_by_key[OF dist, of dec_id ?R "cd_decisions db"] by simp
qed

lemma current_scopes_distinct:
  assumes ok: "decisions_ok db"
  shows "distinct (map decision_scope (filter (current_in db p v k) (project_decisions db p)))"
proof -
  have A: "acceptances_ok db" and P: "proposals_ok (cd_decisions db)" using ok by (auto simp: decisions_ok_def)
  have "inj_on decision_scope (set (filter (current_in db p v k) (project_decisions db p)))"
  proof (rule inj_onI)
    fix d e assume m: "d \<in> set (filter (current_in db p v k) (project_decisions db p))"
      "e \<in> set (filter (current_in db p v k) (project_decisions db p))" and s: "decision_scope d = decision_scope e"
    have de: "d \<in> set (cd_decisions db)" "e \<in> set (cd_decisions db)" using m by auto
    obtain a where a: "a \<in> set (cd_acceptances db)" "ac_decision_id a = dec_id d" "ac_accepted_at a \<le> k"
      using m(1) by (auto simp: current_decision_def eligible_iff)
    obtain b where b: "b \<in> set (cd_acceptances db)" "ac_decision_id b = dec_id e" "ac_accepted_at b \<le> k"
      using m(2) by (auto simp: current_decision_def eligible_iff)
    have scopes: "row_scope x = decision_scope y" if "x \<in> set (cd_acceptances db)" "y \<in> set (cd_decisions db)" "ac_decision_id x = dec_id y" for x y
      using acceptance_decision[OF A that(1)] decision_of_id[OF ok that(2)] that(3) by metis
    let ?E = "\<lambda>x. ac_accepted_at x \<le> k \<and> effective_of db (ac_decision_id x) \<le> v"
    have "a = b"
    proof (rule accepted.unique_tip[OF ok a(1) b(1), of ?E])
      show "row_scope a = row_scope b" using scopes a b de s by simp
      show "?E a" "?E b" using a b m de effective_of_decision[OF P] by (auto simp: current_decision_def eligible_iff)
      show "\<And>x y. precedes db x y \<Longrightarrow> ?E y \<Longrightarrow> ?E x" by (auto simp: precedes_def)
    next
      fix x assume x: "x \<in> set (cd_acceptances db)" "?E x"
      obtain n where n: "n \<in> set (cd_decisions db)" "ac_decision_id x = dec_id n" "ac_predecessor x = dec_predecessor n"
        "dec_recorded_at n \<le> ac_accepted_at x" using acceptance_decision[OF A x(1)] by blast
      have sup: "superseded_by db v k y x" if "ac_predecessor x = Some (dec_id y)" for y
        unfolding superseded_by_def list_ex_iff
        using that n x effective_of_decision[OF P n(1)] by (intro conjI bexI[of _ n]) auto
      have "\<not> list_ex (superseded_by db v k y) (cd_acceptances db)" if "y \<in> {d, e}" for y
        using that m superseded_iff[OF ok, of y p v k] unfolding current_decision_def by auto
      then have "ac_predecessor x \<noteq> Some (dec_id y)" if "y \<in> {d, e}" for y
        using that sup[of y] x(1) unfolding list_ex_iff by blast
      then show "ac_predecessor x \<noteq> Some (ac_decision_id a) \<and> ac_predecessor x \<noteq> Some (ac_decision_id b)"
        unfolding a(2) b(2) by blast
    qed
    then have "dec_id d = dec_id e" using a(2) b(2) by metis
    then show "d = e" by (rule decision_of_id[OF ok de])
  qed
  moreover have "distinct (filter (current_in db p v k) (project_decisions db p))"
    using P unfolding proposals_ok_def distinct_map by (intro distinct_filter) blast
  ultimately show ?thesis by (simp add: distinct_map)
qed

lemma scopes_once_iff: "scopes_once seen ds \<longleftrightarrow> distinct (map (\<lambda>d. (dec_topic d, dec_scope d)) ds)
    \<and> seen \<inter> (\<lambda>d. (dec_topic d, dec_scope d)) ` set ds = {}"
  by (induction ds arbitrary: seen) auto

text \<open>
  C29: In every reachable database the query for a project's current decisions never finds a conflict: it answers with
  exactly the decisions the core's bitemporal selection picks from the project's proposals and acceptances, in order of
  topic and scope, or reports that there are more than a hundred.
\<close>

theorem current_decisions_refine_core:
  assumes "control_reachable J db" "scoped db p = Inr ()" "control_timestamp v = Inr ()" "control_timestamp k = Inr ()"
  shows "\<exists>ds. applicable_decisions (project_decisions db p) (map core_acceptance (cd_acceptances db)) v k = Inr ds
    \<and> decisions db p v k = (if length ds > 100 then Inl ''DECISION_CONTEXT_LIMIT'' else Inr (sort_key row_order ds))"
proof -
  have ok: "decisions_ok db" by (rule reachable_decisions_ok[OF assms(1)])
  let ?ds = "filter (current_in db p v k) (project_decisions db p)"
  have a: "applicable_decisions (project_decisions db p) (map core_acceptance (cd_acceptances db)) v k = Inr ?ds"
    unfolding applicable_decisions_def Let_def applicable_decisions_filter scopes_distinct_iff
    using current_scopes_distinct[OF ok, of p v k] by simp
  have "distinct (map decision_scope (sort_key row_order ?ds))"
    using current_scopes_distinct[OF ok, of p v k] by (metis distinct_map distinct_sort set_sort)
  moreover have "map decision_scope (sort_key row_order ?ds) = map (\<lambda>d. (p, dec_topic d, dec_scope d)) (sort_key row_order ?ds)"
    by (rule map_cong) (auto simp: decision_scope_def)
  ultimately have "distinct (map (\<lambda>d. (dec_topic d, dec_scope d)) (sort_key row_order ?ds))"
    by (auto simp: distinct_map inj_on_def)
  then have "scopes_once {} (take 101 (current_rows db p v k))"
    unfolding current_rows_filter[OF ok] scopes_once_iff by (simp add: take_map[symmetric] distinct_take)
  moreover have "length (current_rows db p v k) = length ?ds" by (simp add: current_rows_filter[OF ok])
  ultimately show ?thesis
    using a assms(2-4) current_rows_filter[OF ok, of p v k] by (intro exI[of _ ?ds]) (simp add: decisions_def Let_def min_def)
qed

definition demo_propose :: record_command where
  "demo_propose = DecisionPropose ''d'' ''p'' ''topic'' ''scope'' ''use it'' ''because'' [] [] None 3"

definition demo_decision :: decision where
  "demo_decision = \<lparr>dec_id = ''d'', dec_project_id = ''p'', dec_topic = ''topic'', dec_scope = ''scope'', dec_statement = ''use it'',
     dec_rationale = ''because'', dec_alternatives = [], dec_consequences = [], dec_predecessor = None, dec_effective_at = 3,
     dec_recorded_at = 10, dec_source = report_evidence (call_source (demo_call ''e1'')) 10\<rparr>"

lemma demo_decision_valid: "validate_decision demo_decision = Inr ()"
  by (simp add: validate_decision_def demo_decision_def id_eval text_eval control_timestamp_def control_evidence_def
      demo_source report_evidence_def check_all_def control_lines_def)

lemma demo_history:
  obtains db where "control_reachable demo_codec db" "cd_decisions db = [demo_decision]"
    "cd_acceptances db = [acceptance_row_of demo_decision 10 (cl_approval (demo_call ''e2''))]"
    "cd_version db = 2" "cd_projects db = [demo_project]"
proof -
  let ?db1 = "demo_start\<lparr>cd_decisions := [demo_decision]\<rparr>"
  have ids: "dec_project_id demo_decision = ''p''" "dec_id demo_decision = ''d''" by (simp_all add: demo_decision_def)
  have "run_command demo_codec (demo_call ''e1'') demo_start demo_propose = decision_propose demo_codec (demo_call ''e1'') demo_start demo_decision"
    by (simp add: demo_propose_def demo_decision_def demo_event)
  also have "\<dots> = Inr (?db1, Some ''p'', JObj [(''decision_id'', JStr ''d''), (''status'', JStr ''proposed'')])"
  proof -
    have "insert_decision demo_codec demo_start demo_decision = Inr ?db1"
      using demo_start_facts demo_project_exists[OF demo_start_facts(2)]
      by (simp add: insert_decision_def execute_when_def find_decision_def demo_codec_def demo_decision_def)
    moreover have "require_project demo_start ''p'' = Inr ()"
      using demo_project_exists[OF demo_start_facts(2)] by (simp add: require_project_def id_eval)
    ultimately show ?thesis using demo_decision_valid ids by (simp add: decision_propose_def)
  qed
  finally have run1: "run_command demo_codec (demo_call ''e1'') demo_start demo_propose =
      Inr (?db1, Some ''p'', JObj [(''decision_id'', JStr ''d''), (''status'', JStr ''proposed'')])" .
  have e1: "cl_ids (demo_call ''e1'') (ids_used demo_propose) = ''e1''" by (simp add: demo_event demo_propose_def)
  have fresh1: "cl_ids (demo_call ''e1'') (ids_used demo_propose) \<notin> au_event ` set (cd_audit ?db1)" "next_seq ?db1 < 2 ^ 63"
    "project_exists ?db1 ''p''" using demo_start_facts demo_project_exists[of ?db1] by (simp_all add: e1)
  obtain r1 where r1: "au_event r1 = cl_ids (demo_call ''e1'') (ids_used demo_propose)" "au_seq r1 = next_seq ?db1"
    "control_reachable demo_codec (?db1\<lparr>cd_audit := cd_audit ?db1 @ [r1]\<rparr>)"
    by (rule demo_command[OF demo_start_reachable demo_start_facts(1) run1 fresh1])
  let ?db2 = "?db1\<lparr>cd_audit := cd_audit ?db1 @ [r1]\<rparr>"
  let ?row = "acceptance_row_of demo_decision 10 (cl_approval (demo_call ''e2''))"
  let ?db3 = "?db2\<lparr>cd_acceptances := [?row]\<rparr>"
  have "run_command demo_codec (demo_call ''e2'') ?db2 (DecisionAccept ''d'') = Inr (?db3, Some ''p'', JObj
         [(''accepted_at'', JNum 10), (''decision_id'', JStr ''d''), (''effective_at'', JNum 3)])"
    using demo_start_facts by (simp add: decision_accept_def find_decision_def insert_acceptance_def execute_when_def accept_guard_def
        acceptance_row_of_def demo_decision_def demo_event)
  note run2 = this
  have e2: "cl_ids (demo_call ''e2'') (ids_used (DecisionAccept ''d'')) = ''e2''" by (simp add: demo_event)
  have fresh2: "cl_ids (demo_call ''e2'') (ids_used (DecisionAccept ''d'')) \<notin> au_event ` set (cd_audit ?db3)" "next_seq ?db3 < 2 ^ 63"
    "project_exists ?db3 ''p''" using demo_start_facts r1(1,2) e1 e2 demo_project_exists[of ?db3] by simp_all
  have v2: "cd_version ?db2 = 2" using demo_start_facts by simp
  obtain r2 where "control_reachable demo_codec (?db3\<lparr>cd_audit := cd_audit ?db3 @ [r2]\<rparr>)"
    by (rule demo_command[OF r1(3) v2 run2 fresh2])
  then show thesis by (rule that) (simp_all add: demo_start_facts)
qed

theorem current_decisions_refine_core_witness:
  "\<exists>db ds. control_reachable demo_codec db \<and> decisions db ''p'' 10 10 = Inr ds \<and> set ds = {demo_decision}"
proof -
  obtain db where db: "control_reachable demo_codec db" "cd_decisions db = [demo_decision]"
    "cd_acceptances db = [acceptance_row_of demo_decision 10 (cl_approval (demo_call ''e2''))]"
    "cd_version db = 2" "cd_projects db = [demo_project]" by (rule demo_history)
  have s: "scoped db ''p'' = Inr ()"
    using db(4,5) by (simp add: scoped_def require_control_def require_project_def project_exists_def demo_project_def id_eval)
  obtain ds where a: "applicable_decisions (project_decisions db ''p'') (map core_acceptance (cd_acceptances db)) 10 10 = Inr ds"
    and q: "decisions db ''p'' 10 10 = (if length ds > 100 then Inl ''DECISION_CONTEXT_LIMIT'' else Inr (sort_key row_order ds))"
    using current_decisions_refine_core[OF db(1) s, of 10 10] by (auto simp: control_timestamp_def)
  have "ds = [demo_decision]"
    using a db(2,3) by (simp add: applicable_decisions_def decision_eligible_def core_acceptance_def acceptance_row_of_def demo_decision_def Let_def)
  then show ?thesis using db(1) q by auto
qed

end
