(* ===== verification/Control_Work.thy ===== *)
theory Control_Work
  imports Control_Store
begin

text \<open>
  Work items, assignments and the audit trail of the control store: versions and permitted transitions, one primary
  worker, refused stale commands, and an append-only trail with one event per command.
\<close>

section \<open>Work items and assignments\<close>

lemma work_state_guard_core: "work_state_guard old nxt = can_transition old nxt"
  by (cases old; cases nxt) (simp_all add: work_state_guard_def can_transition_def)

text \<open>What an update of a work item never touches.\<close>

definition same_work :: "work_item \<Rightarrow> work_item \<Rightarrow> bool" where
  "same_work a b \<longleftrightarrow> wi_id a = wi_id b \<and> wi_project_id a = wi_project_id b \<and> wi_objective a = wi_objective b
     \<and> wi_priority a = wi_priority b \<and> wi_workspace_id a = wi_workspace_id b"

inductive work_statement :: "control_codec \<Rightarrow> control_db \<Rightarrow> control_db \<Rightarrow> bool" for J where
  created: "insert_work J db w t = Inr db' \<Longrightarrow> work_statement J db db'"
| changed: "load_work db i = Inr w0 \<Longrightarrow> same_work w0 w \<Longrightarrow> bump_work J db w v t = Inr (db', w') \<Longrightarrow> work_statement J db db'"
| assigned: "load_work db i = Inr w \<Longrightarrow> insert_assignment db a = Inr db1 \<Longrightarrow> bump_work J db1 w v t = Inr (db', w')
     \<Longrightarrow> work_statement J db db'"
| released: "load_work db i = Inr w \<Longrightarrow> release_assignment db k i t = Inr db1 \<Longrightarrow> bump_work J db1 w v t = Inr (db', w')
     \<Longrightarrow> work_statement J db db'"

lemma command_work:
  assumes "run_command J c db cmd = Inr (db', p, out)"
  shows "work_view db' = work_view db \<or> work_statement J db db'"
proof (cases "work_command cmd")
  case True
  then show ?thesis
  proof (cases cmd)
    case (WorkCreate i p objective priority ws)
    then show ?thesis using assms by (auto simp: work_create_def Let_def bind_check_ok intro: created)
  next
    case (WorkUpdate i v s completed remaining blockers)
    then show ?thesis using assms by (auto simp: work_update_def Let_def bind_check_ok same_work_def intro!: changed[rotated 2] split: if_splits)
  next
    case (Assign w s role v lease)
    then show ?thesis using assms by (auto simp: assign_def bind_check_ok intro: assigned split: if_splits)
  next
    case (ReleaseAssignment i w v)
    then show ?thesis using assms by (auto simp: release_def bind_check_ok intro: released)
  qed auto
next
  case False
  then show ?thesis using command_frame(3)[OF assms] by simp
qed

lemma step_work:
  assumes "control_step J db db'" "cd_version db = 1 \<longrightarrow> work_view db = ([], [])"
  shows "work_view db' = work_view db \<or> (\<exists>db1. work_statement J db db1 \<and> work_view db' = work_view db1)"
  using assms(1)
proof cases
  case (recorded c cmd out)
  then obtain db1 p where r: "run_command J c db cmd = Inr (db1, p, out)" "work_view db' = work_view db1"
    using stored_record audit_frame by metis
  then show ?thesis using command_work[OF r(1)] by metis
next
  case (project lower directory local home p)
  then show ?thesis using register_project_frame by blast
next
  case (upgraded backup t event r)
  have "work_view (migrate_control db) = ([], [])" by (simp add: work_view_def migrate_control_def)
  then have "cd_version db = 1 \<Longrightarrow> work_view db' = work_view db"
    using upgrade_cases[OF upgraded] audit_frame assms(2) by metis
  moreover have "cd_version db \<noteq> 1 \<Longrightarrow> db' = db" using upgraded by (auto simp: upgrade_control_def split: if_splits)
  ultimately show ?thesis by blast
next
  case (workspace p ws path identity)
  then show ?thesis using register_workspace_frame by blast
next
  case (observed i stamp)
  then show ?thesis using observation_frame by blast
next
  case (checkpointed event cp)
  then show ?thesis by (metis checkpoint_frame audit_frame)
next
  case (handed_off i event t packet r)
  then show ?thesis by (metis handoff_frame audit_frame)
qed

definition primary_of :: "string \<Rightarrow> assignment_row \<Rightarrow> bool" where
  "primary_of w a \<longleftrightarrow> as_work a = w \<and> as_role a = ''primary'' \<and> live_assignment a"

definition work_ok :: "control_db \<Rightarrow> bool" where
  "work_ok db \<longleftrightarrow> distinct (map (\<lambda>r. wi_id (wk_item r)) (cd_work db)) \<and> distinct (map as_id (cd_assignments db))
     \<and> (\<forall>w. length (filter (primary_of w) (cd_assignments db)) \<le> 1)"

lemma work_ok_view: "work_view db' = work_view db \<Longrightarrow> work_ok db' = work_ok db"
  by (simp add: work_ok_def work_view_def)

lemma bump_work_cases:
  assumes "bump_work J db w v t = Inr (db', w')"
  shows "w' = w\<lparr>wi_version := v + 1\<rparr>
    \<and> db' = db\<lparr>cd_work := map (\<lambda>r. if wi_id (wk_item r) = wi_id w \<and> wi_version (wk_item r) = v
         then \<lparr>wk_item = w', wk_updated = t\<rparr> else r) (cd_work db)\<rparr>
    \<and> (\<exists>r \<in> set (cd_work db). wi_id (wk_item r) = wi_id w \<and> wi_version (wk_item r) = v)
    \<and> (\<forall>r \<in> set (cd_work db). wi_id (wk_item r) = wi_id w \<and> wi_version (wk_item r) = v \<longrightarrow>
         can_transition (wi_state (wk_item r)) (wi_state w))"
  using assms
  by (auto simp: bump_work_def update_work_def Let_def bind_check_ok execute_when_ok work_state_guard_core list_ex_iff list_all_iff
      split: if_splits)

lemma bump_work_ids:
  assumes "bump_work J db w v t = Inr (db', w')"
  shows "map (\<lambda>r. wi_id (wk_item r)) (cd_work db') = map (\<lambda>r. wi_id (wk_item r)) (cd_work db)"
    and "cd_assignments db' = cd_assignments db"
  using bump_work_cases[OF assms] by (auto simp: comp_def)

lemma work_statement_ok:
  assumes "work_statement J db db'" "work_ok db"
  shows "work_ok db'"
  using assms
proof cases
  case (created w t)
  then show ?thesis using assms(2) by (auto simp: insert_work_def execute_when_ok work_ok_def list_ex_iff)
next
  case (changed i w0 w v t w')
  then show ?thesis using assms(2) bump_work_ids[OF changed(3)] by (simp add: work_ok_def)
next
  case (assigned i w a db1 v t w')
  have "length (filter (primary_of u) (cd_assignments db @ [a])) \<le> 1" for u
  proof (cases "primary_of u a")
    case True
    then have "filter (primary_of u) (cd_assignments db) = []"
      using assigned(2) by (auto simp: insert_assignment_def execute_when_ok list_ex_iff filter_empty_conv primary_of_def)
    then show ?thesis by simp
  qed (use assms(2) in \<open>simp add: work_ok_def\<close>)
  then show ?thesis using assms(2) assigned(2) bump_work_ids[OF assigned(3)]
    by (auto simp: work_ok_def insert_assignment_def execute_when_ok list_ex_iff)
next
  case (released i w k t db1 v w')
  let ?f = "\<lambda>r. if as_id r = k \<and> as_work r = i \<and> live_assignment r then r\<lparr>as_released := Some t\<rparr> else r"
  have as: "cd_assignments db1 = map ?f (cd_assignments db)" "cd_work db1 = cd_work db"
    using released(2) by (auto simp: release_assignment_def Let_def execute_when_ok split: if_splits)
  have "length (filter (primary_of u) (map ?f xs)) \<le> length (filter (primary_of u) xs)" for u xs
    by (induction xs) (auto simp: primary_of_def live_assignment_def)
  then have "length (filter (primary_of u) (cd_assignments db1)) \<le> 1" for u
    using assms(2) unfolding as work_ok_def by (meson le_trans)
  moreover have "map as_id (cd_assignments db1) = map as_id (cd_assignments db)" unfolding as by (auto simp: comp_def)
  ultimately show ?thesis using assms(2) bump_work_ids[OF released(3)] as(2) by (simp add: work_ok_def)
qed

lemma step_version:
  assumes "control_step J db db'" "cd_version db \<in> {1, 2}"
  shows "cd_version db' \<in> {1, 2} \<and> (cd_version db' = 1 \<longrightarrow> work_view db' = work_view db \<and> cd_version db = 1)"
  using assms(1)
proof cases
  case (recorded c cmd out)
  then obtain db1 p where r: "run_command J c db cmd = Inr (db1, p, out)" "require_control db = Inr ()" "cd_version db' = cd_version db1"
    using stored_record audit_frame by metis
  have "cd_version db1 = cd_version db" using command_frame(1)[OF r(1)] by (simp add: base_view_def)
  then show ?thesis using r assms(2) by (auto simp: require_control_def)
next
  case (project lower directory local home p)
  then show ?thesis using register_project_frame assms(2) by metis
next
  case (upgraded backup t event r)
  have "cd_version db' = 2"
  proof (cases "cd_version db = 2")
    case False
    then show ?thesis using upgraded audit_frame unfolding upgrade_control_def
      by (fastforce simp: bind_check_ok migrate_control_def split: if_splits)
  qed (use upgraded in \<open>simp add: upgrade_control_def\<close>)
  then show ?thesis by simp
next
  case (workspace p ws path identity)
  then show ?thesis using register_workspace_frame[OF workspace] assms(2) by (auto simp: base_view_def)
next
  case (observed i stamp)
  then show ?thesis using observation_frame[OF observed] assms(2) by (auto simp: base_view_def)
next
  case (checkpointed event cp)
  show ?thesis
  proof (rule checkpoint_frame[OF checkpointed])
    fix db1 assume "work_view db1 = work_view db" "base_view db1 = base_view db"
      and a: "audit J db1 event (Some (wi_project_id (cp_work cp))) ''checkpoint_created'' (cp_recorded_at cp) ''observed'' (JObj
          [(''checkpoint_id'', JStr (cp_id cp)), (''progress_evidence'', JStr ''agent_reported''),
           (''workspace_evidence'', JStr ''observed'')]) = Inr db'"
    then show ?thesis using audit_frame[OF a] assms(2) by (simp add: base_view_def)
  qed
next
  case (handed_off i event t packet r)
  show ?thesis
  proof (rule handoff_frame[OF handed_off])
    fix db1 data assume "work_view db1 = work_view db" "base_view db1 = base_view db"
      and a: "audit J db1 event (Some (hp_project_id packet)) ''handoff_prepared'' t ''observed'' data = Inr db'"
    then show ?thesis using audit_frame[OF a] assms(2) by (simp add: base_view_def)
  qed
qed

text \<open>The invariant of the work tables, with what version 1 of the schema still lacks.\<close>

definition control_work_ok :: "control_db \<Rightarrow> bool" where
  "control_work_ok db \<longleftrightarrow> work_ok db \<and> cd_version db \<in> {1, 2} \<and> (cd_version db = 1 \<longrightarrow> work_view db = ([], []))"

lemma step_work_ok:
  assumes "control_step J db db'" "control_work_ok db"
  shows "control_work_ok db'"
proof -
  have "work_ok db'"
    using step_work[OF assms(1)] assms(2) work_statement_ok work_ok_view unfolding control_work_ok_def by metis
  then show ?thesis using step_version[OF assms(1)] assms(2) unfolding control_work_ok_def by simp
qed

lemma control_work_ok_empty: "control_work_ok empty_control"
  by (simp add: control_work_ok_def work_ok_def work_view_def empty_control_def)

lemma reachable_work_ok: "control_reachable J db \<Longrightarrow> control_work_ok db"
  using reachable_invariant[of J db control_work_ok] control_work_ok_empty step_work_ok by blast

text \<open>How one step can change a work item.\<close>

definition evolves :: "work_row \<Rightarrow> work_row \<Rightarrow> bool" where
  "evolves r r' \<longleftrightarrow> r' = r \<or> (same_work (wk_item r) (wk_item r') \<and> wi_version (wk_item r') = wi_version (wk_item r) + 1
     \<and> can_transition (wi_state (wk_item r)) (wi_state (wk_item r')))"

lemma load_work_row:
  "load_work db i = Inr w \<Longrightarrow> \<exists>r \<in> set (cd_work db). wk_item r = w \<and> wi_id w = i"
  by (auto simp: load_work_def find_Some_iff split: option.splits)

lemma bump_evolves:
  assumes b: "bump_work J db1 w v t = Inr (db', w')" and w: "cd_work db1 = cd_work db" and ok: "work_ok db"
    and l: "load_work db i = Inr w0" "same_work w0 w" and r: "r \<in> set (cd_work db)"
  shows "\<exists>r' \<in> set (cd_work db'). evolves r r'"
proof -
  note c = bump_work_cases[OF b, unfolded w]
  obtain r0 where r0: "r0 \<in> set (cd_work db)" "wk_item r0 = w0" using load_work_row[OF l(1)] by blast
  let ?f = "\<lambda>r. if wi_id (wk_item r) = wi_id w \<and> wi_version (wk_item r) = v then \<lparr>wk_item = w', wk_updated = t\<rparr> else r"
  have "?f r \<in> set (cd_work db')" using c r by auto
  moreover have "evolves r (?f r)"
  proof (cases "wi_id (wk_item r) = wi_id w \<and> wi_version (wk_item r) = v")
    case True
    have "r = r0" using True r r0 l(2) ok by (metis same_work_def work_ok_def distinct_map inj_onD)
    moreover have "can_transition (wi_state (wk_item r)) (wi_state w)" using c r True by blast
    ultimately show ?thesis using True c l(2) r0(2) by (simp add: evolves_def same_work_def)
  qed (auto simp: evolves_def)
  ultimately show ?thesis by blast
qed

lemma work_statement_evolves:
  assumes "work_statement J db db'" "work_ok db" "r \<in> set (cd_work db)"
  shows "\<exists>r' \<in> set (cd_work db'). evolves r r'"
  using assms(1)
proof cases
  case (created w t)
  then show ?thesis using assms(3) by (auto simp: insert_work_def execute_when_ok evolves_def)
next
  case (changed i w0 w v t w')
  then show ?thesis by (intro bump_evolves[OF changed(3) refl assms(2) changed(1,2) assms(3)])
next
  case (assigned i w a db1 v t w')
  have "cd_work db1 = cd_work db" using assigned(2) by (auto simp: insert_assignment_def execute_when_ok)
  then show ?thesis by (rule bump_evolves[OF assigned(3) _ assms(2) assigned(1) _ assms(3)]) (simp add: same_work_def)
next
  case (released i w k t db1 v w')
  have "cd_work db1 = cd_work db" using released(2) by (auto simp: release_assignment_def Let_def execute_when_ok split: if_splits)
  then show ?thesis by (rule bump_evolves[OF released(3) _ assms(2) released(1) _ assms(3)]) (simp add: same_work_def)
qed

lemma step_evolves:
  assumes "control_step J db db'" "control_work_ok db" "r \<in> set (cd_work db)"
  shows "\<exists>r' \<in> set (cd_work db'). evolves r r'"
proof -
  have v: "cd_version db = 1 \<longrightarrow> work_view db = ([], [])" and ok: "work_ok db" using assms(2) by (auto simp: control_work_ok_def)
  from step_work[OF assms(1) v] show ?thesis
  proof (elim disjE exE conjE)
    assume "work_view db' = work_view db"
    then show ?thesis using assms(3) by (auto simp: work_view_def evolves_def)
  next
    fix db1 assume "work_statement J db db1" "work_view db' = work_view db1"
    then show ?thesis using work_statement_evolves[OF _ ok assms(3)] by (simp add: work_view_def)
  qed
qed

text \<open>
  C30: From any reachable database on, a work item keeps its identity, project, objective, priority and workspace; its
  version never falls, and while the version is the same nothing in its row has changed; its state only moves along
  permitted transitions, so a done or cancelled item stays so.
\<close>

theorem work_history_is_versioned:
  assumes "control_reachable J db" "(control_step J)\<^sup>*\<^sup>* db db'" "r \<in> set (cd_work db)"
  shows "\<exists>r' \<in> set (cd_work db'). same_work (wk_item r) (wk_item r')
    \<and> wi_version (wk_item r) \<le> wi_version (wk_item r') \<and> (wi_version (wk_item r') = wi_version (wk_item r) \<longrightarrow> r' = r)
    \<and> can_transition\<^sup>*\<^sup>* (wi_state (wk_item r)) (wi_state (wk_item r'))
    \<and> (wi_state (wk_item r) \<in> {Done, Cancelled} \<longrightarrow> wi_state (wk_item r') = wi_state (wk_item r))"
  using assms(2)
proof (induction rule: rtranclp_induct)
  case base
  show ?case using assms(3) by (intro bexI[of _ r]) (auto simp: same_work_def)
next
  case (step db1 db2)
  then obtain r1 where r1: "r1 \<in> set (cd_work db1)" "same_work (wk_item r) (wk_item r1)"
    "wi_version (wk_item r) \<le> wi_version (wk_item r1)" "wi_version (wk_item r1) = wi_version (wk_item r) \<longrightarrow> r1 = r"
    "can_transition\<^sup>*\<^sup>* (wi_state (wk_item r)) (wi_state (wk_item r1))"
    "wi_state (wk_item r) \<in> {Done, Cancelled} \<longrightarrow> wi_state (wk_item r1) = wi_state (wk_item r)" by blast
  have "control_reachable J db1" using assms(1) step(1) unfolding control_reachable_def by (rule rtranclp_trans)
  then obtain r2 where r2: "r2 \<in> set (cd_work db2)" "evolves r1 r2"
    using step_evolves[OF step(2) reachable_work_ok r1(1)] by blast
  show ?case
  proof (rule bexI[OF _ r2(1)])
    show "same_work (wk_item r) (wk_item r2)
      \<and> wi_version (wk_item r) \<le> wi_version (wk_item r2) \<and> (wi_version (wk_item r2) = wi_version (wk_item r) \<longrightarrow> r2 = r)
      \<and> can_transition\<^sup>*\<^sup>* (wi_state (wk_item r)) (wi_state (wk_item r2))
      \<and> (wi_state (wk_item r) \<in> {Done, Cancelled} \<longrightarrow> wi_state (wk_item r2) = wi_state (wk_item r))"
      using r1(2-) r2(2) can_transition_terminal[of "wi_state (wk_item r)" "wi_state (wk_item r2)"]
      by (auto simp: evolves_def same_work_def intro: rtranclp.rtrancl_into_rtrancl)
  qed
qed

text \<open>
  A work item never has two unreleased primary workers, whatever assignments, releases and lapsed leases came before.
\<close>

theorem at_most_one_primary:
  assumes "control_reachable J db"
  shows "length (filter (primary_of w) (cd_assignments db)) \<le> 1"
  using reachable_work_ok[OF assms] by (simp add: control_work_ok_def work_ok_def)

section \<open>Versions as expectations\<close>

text \<open>The item a command names together with the version it expects.\<close>

fun expected_version :: "record_command \<Rightarrow> (string \<times> nat) option" where
  "expected_version (WorkUpdate i v _ _ _ _) = Some (i, v)"
| "expected_version (Assign i _ _ v _) = Some (i, v)"
| "expected_version (ReleaseAssignment _ i v) = Some (i, v)"
| "expected_version _ = None"

lemma bump_expected:
  assumes b: "bump_work J db1 w v t = Inr (db', w')" and w: "cd_work db1 = cd_work db" and l: "load_work db i = Inr w0" "same_work w0 w"
  shows "(\<exists>r \<in> set (cd_work db). wi_id (wk_item r) = i \<and> wi_version (wk_item r) = v)
    \<and> (\<exists>r \<in> set (cd_work db'). wi_id (wk_item r) = i \<and> wi_version (wk_item r) = v + 1)"
proof -
  note c = bump_work_cases[OF b, unfolded w]
  have i: "wi_id w = i" using load_work_row[OF l(1)] l(2) by (auto simp: same_work_def)
  then obtain r where r: "r \<in> set (cd_work db)" "wi_id (wk_item r) = i" "wi_version (wk_item r) = v" using c by auto
  have "\<lparr>wk_item = w', wk_updated = t\<rparr> \<in> set (cd_work db')" using c r i by force
  moreover have "wi_id w' = i" "wi_version w' = v + 1" using c i by simp_all
  ultimately have "\<exists>r \<in> set (cd_work db'). wi_id (wk_item r) = i \<and> wi_version (wk_item r) = v + 1"
    by (intro bexI[of _ "\<lparr>wk_item = w', wk_updated = t\<rparr>"]) simp_all
  then show ?thesis using r by blast
qed

lemma expected_version_step:
  assumes "run_command J c db cmd = Inr (db', p, out)" "expected_version cmd = Some (i, v)"
  shows "(\<exists>r \<in> set (cd_work db). wi_id (wk_item r) = i \<and> wi_version (wk_item r) = v)
    \<and> (\<exists>r \<in> set (cd_work db'). wi_id (wk_item r) = i \<and> wi_version (wk_item r) = v + 1)"
proof (cases cmd)
  case (WorkUpdate k n s completed remaining blockers)
  then have kn: "k = i" "n = v" using assms(2) by simp_all
  then obtain w0 w' where "load_work db i = Inr w0" and b: "bump_work J db (w0\<lparr>wi_state := s, wi_completed := completed,
      wi_remaining := remaining, wi_blockers := blockers, wi_evidence := report_evidence (call_source c) (cl_at c)\<rparr>) v (cl_at c) = Inr (db', w')"
    using assms(1) WorkUpdate by (auto simp: work_update_def Let_def bind_check_ok split: if_splits)
  then show ?thesis by (intro bump_expected[OF b refl]) (auto simp: same_work_def)
next
  case (Assign k s role n lease)
  then have kn: "k = i" "n = v" using assms(2) by simp_all
  then obtain w a db1 w' where l: "load_work db i = Inr w" and a: "insert_assignment db a = Inr db1"
    and b: "bump_work J db1 w v (cl_at c) = Inr (db', w')"
    using assms(1) Assign by (auto simp: assign_def bind_check_ok split: if_splits)
  have "cd_work db1 = cd_work db" using a by (auto simp: insert_assignment_def execute_when_ok)
  then show ?thesis by (rule bump_expected[OF b _ l]) (simp add: same_work_def)
next
  case (ReleaseAssignment a k n)
  then have kn: "k = i" "n = v" using assms(2) by simp_all
  then obtain w db1 w' where l: "load_work db i = Inr w" and r: "release_assignment db a i (cl_at c) = Inr db1"
    and b: "bump_work J db1 w v (cl_at c) = Inr (db', w')"
    using assms(1) ReleaseAssignment by (auto simp: release_def bind_check_ok)
  have "cd_work db1 = cd_work db" using r by (auto simp: release_assignment_def Let_def execute_when_ok split: if_splits)
  then show ?thesis by (rule bump_expected[OF b _ l]) (simp add: same_work_def)
qed (use assms(2) in auto)

lemma stored_work:
  assumes "store_record J c cmd db = Inr (db', out)" "expected_version cmd = Some (i, v)"
  shows "(\<exists>r \<in> set (cd_work db). wi_id (wk_item r) = i \<and> wi_version (wk_item r) = v)
    \<and> (\<exists>r \<in> set (cd_work db'). wi_id (wk_item r) = i \<and> wi_version (wk_item r) = v + 1)"
proof -
  obtain db1 p where r: "run_command J c db cmd = Inr (db1, p, out)" "work_view db' = work_view db1"
    using stored_record[OF assms(1)] audit_frame by metis
  then show ?thesis using expected_version_step[OF r(1) assms(2)] by (simp add: work_view_def)
qed

lemma rows_evolve:
  assumes "control_reachable J db" "(control_step J)\<^sup>*\<^sup>* db db'" "r \<in> set (cd_work db)"
  shows "control_reachable J db' \<and> (\<exists>r' \<in> set (cd_work db'). wi_id (wk_item r') = wi_id (wk_item r)
    \<and> wi_version (wk_item r) \<le> wi_version (wk_item r'))"
  using assms(2)
proof (induction rule: rtranclp_induct)
  case base
  show ?case using assms(1,3) by auto
next
  case (step db1 db2)
  have "control_reachable J db2" using step(1,2) assms(1) unfolding control_reachable_def by (meson rtranclp.rtrancl_into_rtrancl rtranclp_trans)
  moreover obtain r1 r2 where "r1 \<in> set (cd_work db1)" "wi_id (wk_item r1) = wi_id (wk_item r)" "wi_version (wk_item r) \<le> wi_version (wk_item r1)"
    "r2 \<in> set (cd_work db2)" "evolves r1 r2"
    using step.IH step_evolves[OF step(2)] reachable_work_ok by blast
  ultimately show ?case by (intro conjI bexI[of _ r2]) (auto simp: evolves_def same_work_def)
qed

text \<open>
  No update is lost. Once a command that expected a version of a work item has succeeded, no later command that
  expects the same version of it can succeed, whatever operations ran in between.
\<close>

theorem stale_work_command_is_refused:
  assumes "control_reachable J db" "store_record J c cmd db = Inr (db1, out)" "expected_version cmd = Some (i, v)"
    and "(control_step J)\<^sup>*\<^sup>* db1 db2" "expected_version cmd' = Some (i, v)"
  shows "\<exists>e. store_record J c' cmd' db2 = Inl e"
proof (cases "store_record J c' cmd' db2")
  case (Inr x)
  have r1: "control_reachable J db1" using assms(1,2) control_step.recorded unfolding control_reachable_def
    by (meson rtranclp.rtrancl_into_rtrancl)
  obtain r where r: "r \<in> set (cd_work db1)" "wi_id (wk_item r) = i" "wi_version (wk_item r) = v + 1"
    using stored_work[OF assms(2,3)] by blast
  obtain s where s: "s \<in> set (cd_work db2)" "wi_id (wk_item s) = i" "v + 1 \<le> wi_version (wk_item s)" and r2: "control_reachable J db2"
    using rows_evolve[OF r1 assms(4) r(1)] r by auto
  obtain q where q: "q \<in> set (cd_work db2)" "wi_id (wk_item q) = i" "wi_version (wk_item q) = v"
    using stored_work[of J c' cmd' db2 "fst x" "snd x" i v] Inr assms(5) by auto
  have "q = s" using q s reachable_work_ok[OF r2] unfolding control_work_ok_def work_ok_def by (metis distinct_map inj_onD)
  then show ?thesis using q(3) s(3) by simp
qed blast

section \<open>The audit trail\<close>

definition audit_ordered :: "control_db \<Rightarrow> bool" where
  "audit_ordered db \<longleftrightarrow> sorted_wrt (\<lambda>a b. au_seq a < au_seq b) (cd_audit db) \<and> distinct (map au_event (cd_audit db))
     \<and> (\<forall>a \<in> set (cd_audit db). 1 \<le> au_seq a \<and> au_seq a < 2 ^ 63) \<and> (cd_version db = 1 \<longrightarrow> cd_audit db = []) \<and> cd_version db \<in> {1, 2}"

lemma ordered_below_next:
  assumes "audit_ordered db" "a \<in> set (cd_audit db)"
  shows "au_seq a < next_seq db"
proof -
  obtain ys y where split: "cd_audit db = ys @ [y]" using assms(2) by (cases "cd_audit db" rule: rev_cases) auto
  then show ?thesis using assms by (auto simp: audit_ordered_def next_seq_def sorted_wrt_append)
qed

lemma audit_keeps_order:
  assumes "audit J db event project kind t source data = Inr db'" "audit_ordered db" "cd_version db = 2"
  shows "audit_ordered db'"
proof -
  have f: "event \<notin> au_event ` set (cd_audit db)" "next_seq db < 2 ^ 63" using assms(1) by (auto simp: audit_def execute_when_ok list_ex_iff)
  have "1 \<le> next_seq db" using assms(2) by (auto simp: next_seq_def audit_ordered_def) (metis last_in_set order_trans zero_le_one add_increasing2 le_add_same_cancel1)
  then show ?thesis using audit_ok[OF assms(1)] f assms(2,3) ordered_below_next[OF assms(2)]
    by (auto simp: audit_ordered_def sorted_wrt_append)
qed

text \<open>What a step appends to the trail: nothing, or one event of a database that is otherwise the step's.\<close>

inductive audited :: "control_codec \<Rightarrow> control_db \<Rightarrow> control_db \<Rightarrow> bool" for J where
  silent: "cd_audit db' = cd_audit db \<Longrightarrow> cd_version db' = cd_version db \<Longrightarrow> audited J db db'"
| event: "cd_audit db1 = cd_audit db \<Longrightarrow> cd_version db1 = 2 \<Longrightarrow> cd_version db = 1 \<longrightarrow> cd_audit db = [] \<Longrightarrow>
     audit J db1 ev p k t s d = Inr db' \<Longrightarrow> audited J db db'"

lemma step_audited:
  assumes "control_step J db db'" "audit_ordered db"
  shows "audited J db db'"
  using assms(1)
proof cases
  case (recorded c cmd out)
  obtain db1 p where r: "run_command J c db cmd = Inr (db1, p, out)" "require_control db = Inr ()"
    and a: "audit J db1 (cl_ids c (ids_used cmd)) p (record_kind cmd) (cl_at c) ''user_approved'' (audit_payload out (cl_approval c)) = Inr db'"
    using stored_record[OF recorded] by metis
  have "cd_version db = 2" using r(2) assms(2) by (auto simp: require_control_def audit_ordered_def)
  then show ?thesis using command_frame(1)[OF r(1)] by (intro event[OF _ _ _ a]) (simp_all add: base_view_def)
next
  case (project lower directory local home p)
  then show ?thesis using register_project_frame by (intro silent) blast+
next
  case (upgraded backup t e r)
  show ?thesis
  proof (cases "cd_version db = 1")
    case True
    then have a: "audit J (migrate_control db) e None ''schema_upgraded'' t ''observed'' (JObj [(''from'', JNum 1), (''to'', JNum 2)]) = Inr db'"
      using upgraded by (auto simp: upgrade_control_def bind_check_ok)
    have "cd_audit db = []" using True assms(2) by (simp add: audit_ordered_def)
    then show ?thesis by (intro event[OF _ _ _ a]) (simp_all add: migrate_control_def)
  next
    case False
    then show ?thesis using upgraded by (intro silent) (auto simp: upgrade_control_def split: if_splits)
  qed
next
  case (workspace p ws path identity)
  then show ?thesis using register_workspace_frame[OF workspace] by (intro silent) (simp_all add: base_view_def)
next
  case (observed i stamp)
  then show ?thesis using observation_frame[OF observed] by (intro silent) (simp_all add: base_view_def)
next
  case (checkpointed e cp)
  have "cd_version db = 2" using checkpointed assms(2)
    by (auto simp: save_checkpoint_def Let_def bind_check_ok check_simps require_control_def audit_ordered_def)
  show ?thesis
  proof (rule checkpoint_frame[OF checkpointed])
    fix db1 assume b: "base_view db1 = base_view db"
      and a: "audit J db1 e (Some (wi_project_id (cp_work cp))) ''checkpoint_created'' (cp_recorded_at cp) ''observed'' (JObj
          [(''checkpoint_id'', JStr (cp_id cp)), (''progress_evidence'', JStr ''agent_reported''),
           (''workspace_evidence'', JStr ''observed'')]) = Inr db'"
    show ?thesis by (intro event[OF _ _ _ a]) (use b \<open>cd_version db = 2\<close> in \<open>simp_all add: base_view_def\<close>)
  qed
next
  case (handed_off i e t packet r)
  have "cd_version db = 2" using handed_off assms(2) by (auto simp: save_handoff_def Let_def audit_ordered_def split: if_splits)
  show ?thesis
  proof (rule handoff_frame[OF handed_off])
    fix db1 data assume b: "base_view db1 = base_view db"
      and a: "audit J db1 e (Some (hp_project_id packet)) ''handoff_prepared'' t ''observed'' data = Inr db'"
    show ?thesis by (intro event[OF _ _ _ a]) (use b \<open>cd_version db = 2\<close> in \<open>simp_all add: base_view_def\<close>)
  qed
qed

lemma audited_order: "audited J db db' \<Longrightarrow> audit_ordered db \<Longrightarrow> audit_ordered db' \<and> prefix (cd_audit db) (cd_audit db')"
proof (induction rule: audited.induct)
  case (event db1 db ev p k t s d db')
  have "audit_ordered db1" using event by (auto simp: audit_ordered_def)
  then show ?case using audit_keeps_order[OF event(4)] event(1,2) audit_ok[OF event(4)] by simp
qed (simp add: audit_ordered_def)

lemma reachable_audit_ordered: "control_reachable J db \<Longrightarrow> audit_ordered db"
proof -
  have "audit_ordered empty_control" by (simp add: audit_ordered_def empty_control_def)
  then show "control_reachable J db \<Longrightarrow> audit_ordered db"
    using reachable_invariant[of J db audit_ordered] step_audited audited_order by blast
qed

lemma control_reachable_steps:
  assumes "control_reachable J db" "(control_step J)\<^sup>*\<^sup>* db db'"
  shows "control_reachable J db' \<and> prefix (cd_audit db) (cd_audit db')"
  using assms(2)
proof (induction rule: rtranclp_induct)
  case (step db1 db2)
  have "control_reachable J db2" using step assms(1) unfolding control_reachable_def by (meson rtranclp.rtrancl_into_rtrancl)
  moreover have "prefix (cd_audit db1) (cd_audit db2)"
    using step audited_order step_audited reachable_audit_ordered by blast
  ultimately show ?case using step.IH prefix_order.trans by blast
qed (use assms(1) in simp)

text \<open>
  C31: Every command that succeeds leaves exactly one audit event, with its kind, its time, its outcome and the digest of
  the approval it ran under; whatever happens later, all events keep their place, their order and their numbers.
\<close>

theorem commands_are_audited_for_good:
  assumes "control_reachable J db" "store_record J c cmd db = Inr (db', out)" "(control_step J)\<^sup>*\<^sup>* db' db''"
  shows "\<exists>row rest. cd_audit db'' = cd_audit db @ row # rest \<and> cd_audit db' = cd_audit db @ [row]
    \<and> au_kind row = record_kind cmd \<and> au_recorded row = cl_at c \<and> au_source row = ''user_approved''
    \<and> au_payload row = audit_payload out (cl_approval c) \<and> length (cl_approval c) = 64
    \<and> sorted_wrt (\<lambda>a b. au_seq a < au_seq b) (cd_audit db'') \<and> distinct (map au_event (cd_audit db''))"
proof -
  obtain db1 p where r: "run_command J c db cmd = Inr (db1, p, out)"
    and a: "audit J db1 (cl_ids c (ids_used cmd)) p (record_kind cmd) (cl_at c) ''user_approved'' (audit_payload out (cl_approval c)) = Inr db'"
    using stored_record[OF assms(2)] by metis
  have same: "cd_audit db1 = cd_audit db" using command_frame(1)[OF r] by (simp add: base_view_def)
  have "length (cl_approval c) = 64" using assms(2) by (auto simp: store_record_def bind_check_ok check_simps)
  moreover have r1: "control_reachable J db'" using assms(1,2) control_step.recorded unfolding control_reachable_def
    by (meson rtranclp.rtrancl_into_rtrancl)
  moreover obtain rest where "cd_audit db'' = cd_audit db' @ rest" "control_reachable J db''"
    using control_reachable_steps[OF r1 assms(3)] by (auto simp: prefix_def)
  ultimately show ?thesis using audit_ok[OF a] same reachable_audit_ordered[of J db''] by (auto simp: audit_ordered_def)
qed

lemma timeline_rows_ordered:
  assumes "audit_ordered db"
  shows "timeline_rows db p b = filter (\<lambda>x. au_seq x < b) (rev (filter (\<lambda>x. au_project x = Some p) (cd_audit db)))"
    and "sorted_wrt (\<lambda>x y. au_seq y < au_seq x) (timeline_rows db p b)"
proof -
  have s: "sorted_wrt (\<lambda>x y. au_seq x < au_seq y) (filter (\<lambda>x. au_project x = Some p \<and> au_seq x < b) (cd_audit db))"
    using assms by (intro sorted_wrt_filter) (simp add: audit_ordered_def)
  then have "sorted (map au_seq (filter (\<lambda>x. au_project x = Some p \<and> au_seq x < b) (cd_audit db)))"
    unfolding sorted_map by (rule sorted_wrt_mono_rel[rotated]) simp
  then have e: "timeline_rows db p b = rev (filter (\<lambda>x. au_project x = Some p \<and> au_seq x < b) (cd_audit db))"
    by (simp add: timeline_rows_def sort_key_id_if_sorted)
  then show "timeline_rows db p b = filter (\<lambda>x. au_seq x < b) (rev (filter (\<lambda>x. au_project x = Some p) (cd_audit db)))"
    by (simp add: rev_filter conj_commute)
  show "sorted_wrt (\<lambda>x y. au_seq y < au_seq x) (timeline_rows db p b)" using s by (simp add: e sorted_wrt_rev)
qed

text \<open>
  The timeline shows a project's events newest first, at most fifty a page; the cursor it returns leads to exactly the
  events that follow, so reading page after page enumerates them all once, and no cursor means that nothing is left.
\<close>

theorem timeline_pages_are_exact:
  assumes "control_reachable J db" "timeline db p before = Inr (page, nxt)"
  shows "let all = rev (filter (\<lambda>x. au_project x = Some p) (cd_audit db));
             start = filter (\<lambda>x. au_seq x < (case before of None \<Rightarrow> 2 ^ 63 - 1 | Some b \<Rightarrow> b)) all
    in length page \<le> 50 \<and> (case nxt of None \<Rightarrow> page = start
         | Some s \<Rightarrow> length page = 50 \<and> start = page @ filter (\<lambda>x. au_seq x < s) all)"
proof -
  define b where "b = (case before of None \<Rightarrow> 2 ^ 63 - 1 | Some b \<Rightarrow> b)"
  define rows where "rows = timeline_rows db p b"
  note t = timeline_rows_ordered[OF reachable_audit_ordered[OF assms(1)], of p b, folded rows_def]
  have page: "page = take 50 rows" and nxt: "nxt = (if length rows > 50 then Some (au_seq (last (take 50 rows))) else None)"
    using assms(2) by (auto simp: timeline_def bind_check_ok Let_def b_def[symmetric] rows_def[symmetric] min_def)
  show ?thesis
  proof (cases "length rows > 50")
    case False
    then show ?thesis using page nxt t(1) by (simp add: b_def[symmetric])
  next
    case True
    let ?s = "au_seq (last (take 50 rows))"
    have ne: "take 50 rows \<noteq> []" using True by auto
    have cut: "sorted_wrt (\<lambda>x y. au_seq y < au_seq x) (take 50 rows @ drop 50 rows)" using t(2) by simp
    have low: "au_seq y < ?s" if "y \<in> set (drop 50 rows)" for y
      using cut[unfolded sorted_wrt_append] that last_in_set[OF ne] by blast
    have high: "\<not> au_seq x < ?s" if "x \<in> set (take 50 rows)" for x
    proof -
      obtain ys z where yz: "take 50 rows = ys @ [z]" using ne by (cases "take 50 rows" rule: rev_cases) auto
      then have "sorted_wrt (\<lambda>x y. au_seq y < au_seq x) (ys @ [z])" using cut[unfolded sorted_wrt_append] by simp
      then show ?thesis using that yz by (auto simp: sorted_wrt_append)
    qed
    have "?s < b" using ne t(1) by (metis (mono_tags, lifting) in_set_takeD last_in_set mem_Collect_eq set_filter)
    then have "filter (\<lambda>x. au_seq x < ?s) (rev (filter (\<lambda>x. au_project x = Some p) (cd_audit db))) = filter (\<lambda>x. au_seq x < ?s) rows"
      unfolding t(1) filter_filter by (intro filter_cong) auto
    also have "\<dots> = filter (\<lambda>x. au_seq x < ?s) (take 50 rows) @ filter (\<lambda>x. au_seq x < ?s) (drop 50 rows)"
      by (metis append_take_drop_id filter_append)
    also have "\<dots> = drop 50 rows" using low high by (simp add: filter_id_conv filter_empty_conv)
    finally show ?thesis using True page nxt t(1) by (simp add: b_def[symmetric])
  qed
qed

section \<open>A worked history\<close>

definition demo_item :: work_item where
  "demo_item = \<lparr>wi_id = ''w'', wi_project_id = ''p'', wi_objective = ''do it'', wi_state = Planned, wi_priority = 1,
     wi_version = 0, wi_workspace_id = None, wi_completed = [], wi_remaining = [], wi_blockers = [],
     wi_evidence = report_evidence ''local-record:aaaaaaaaaaaaaaaa'' 10\<rparr>"

definition demo_session :: session where
  "demo_session = \<lparr>ses_id = ''s'', ses_project_id = ''p'', ses_agent = ''codex'', ses_external_id = ''x1'', ses_adapter_version = ''1'',
     ses_role = ''worker'', ses_workspace_id = None, ses_last_observed = 10, ses_ended_at = None, ses_coverage = Partial\<rparr>"

definition demo_create :: record_command where "demo_create = WorkCreate ''w'' ''p'' ''do it'' 1 None"

definition demo_report :: record_command where "demo_report = SessionReport ''s'' ''p'' ''codex'' ''x1'' ''1'' ''worker'' None False"

definition demo_assign :: record_command where "demo_assign = Assign ''w'' ''s'' ''primary'' 0 60"

lemma demo_item_valid: "validate_work demo_item = Inr ()"
  by (simp add: validate_work_def demo_item_def id_eval text_eval control_lines_def check_all_def control_evidence_def
      report_evidence_def control_timestamp_def)

lemma demo_session_valid: "validate_session demo_session = Inr ()"
  by (simp add: validate_session_def demo_session_def id_eval text_eval control_timestamp_def)

lemma demo_created:
  obtains db out where "control_reachable demo_codec db" "store_record demo_codec (demo_call ''e1'') demo_create demo_start = Inr (db, out)"
    "cd_work db = [\<lparr>wk_item = demo_item, wk_updated = 10\<rparr>]" "cd_sessions db = []" "cd_assignments db = []" "cd_version db = 2"
    "cd_projects db = [demo_project]" "next_seq db = 3" "au_event ` set (cd_audit db) = {''e0'', ''e1''}"
proof -
  let ?db1 = "demo_start\<lparr>cd_work := [\<lparr>wk_item = demo_item, wk_updated = 10\<rparr>]\<rparr>"
  have "insert_work demo_codec demo_start demo_item 10 = Inr ?db1"
    using demo_start_facts demo_project_exists[OF demo_start_facts(2)]
    by (simp add: insert_work_def execute_when_def demo_codec_def demo_item_def workspace_key_def)
  moreover have "require_project demo_start ''p'' = Inr ()"
    using demo_project_exists[OF demo_start_facts(2)] by (simp add: require_project_def id_eval)
  moreover have "work_create demo_codec (demo_call ''e1'') demo_start ''w'' ''p'' ''do it'' 1 None =
      bind_check (checks [require_project demo_start ''p'', check_opt (require_workspace demo_start ''p'') None, validate_work demo_item])
        (\<lambda>_. bind_check (insert_work demo_codec demo_start demo_item 10) (\<lambda>db'.
          Inr (db', Some ''p'', JObj [(''version'', JNum 0), (''work_id'', JStr ''w'')])))"
    by (simp add: work_create_def Let_def demo_item_def demo_source demo_event)
  ultimately have run: "run_command demo_codec (demo_call ''e1'') demo_start demo_create =
      Inr (?db1, Some ''p'', JObj [(''version'', JNum 0), (''work_id'', JStr ''w'')])"
    using demo_item_valid by (simp add: demo_create_def)
  have e: "cl_ids (demo_call ''e1'') (ids_used demo_create) = ''e1''" by (simp add: demo_event demo_create_def)
  have fresh: "cl_ids (demo_call ''e1'') (ids_used demo_create) \<notin> au_event ` set (cd_audit ?db1)" "next_seq ?db1 < 2 ^ 63"
    "project_exists ?db1 ''p''" using demo_start_facts demo_project_exists[of ?db1] by (simp_all add: e)
  obtain r where r: "au_event r = cl_ids (demo_call ''e1'') (ids_used demo_create)" "au_seq r = next_seq ?db1"
    "control_reachable demo_codec (?db1\<lparr>cd_audit := cd_audit ?db1 @ [r]\<rparr>)"
    "store_record demo_codec (demo_call ''e1'') demo_create demo_start = Inr (?db1\<lparr>cd_audit := cd_audit ?db1 @ [r]\<rparr>,
       JObj [(''version'', JNum 0), (''work_id'', JStr ''w'')])"
    by (rule demo_command[OF demo_start_reachable demo_start_facts(1) run fresh])
  show thesis by (rule that[OF r(3,4)]) (use r(1,2) e demo_start_facts in auto)
qed

lemma demo_assigned:
  obtains db1 db2 db3 out1 out3 where "control_reachable demo_codec db1"
    "store_record demo_codec (demo_call ''e1'') demo_create demo_start = Inr (db1, out1)"
    "control_reachable demo_codec db2" "(control_step demo_codec)\<^sup>*\<^sup>* db1 db2"
    "cd_work db2 = [\<lparr>wk_item = demo_item, wk_updated = 10\<rparr>]" "cd_version db1 = 2" "cd_projects db1 = [demo_project]"
    "store_record demo_codec (demo_call ''e3'') demo_assign db2 = Inr (db3, out3)"
    "cd_assignments db3 = [\<lparr>as_id = ''e3'', as_work = ''w'', as_project = ''p'', as_session = ''s'', as_role = ''primary'',
        as_lease_until = 70, as_created = 10, as_released = None\<rparr>]"
    "control_reachable demo_codec db3"
proof -
  obtain db1 out1 where d1: "control_reachable demo_codec db1" "store_record demo_codec (demo_call ''e1'') demo_create demo_start = Inr (db1, out1)"
    "cd_work db1 = [\<lparr>wk_item = demo_item, wk_updated = 10\<rparr>]" "cd_sessions db1 = []" "cd_assignments db1 = []" "cd_version db1 = 2"
    "cd_projects db1 = [demo_project]" "next_seq db1 = 3" "au_event ` set (cd_audit db1) = {''e0'', ''e1''}"
    by (rule demo_created)
  let ?db2 = "db1\<lparr>cd_sessions := [demo_session]\<rparr>"
  have "upsert_session demo_codec db1 demo_session = Inr ?db2"
    using d1 demo_project_exists[OF d1(7)]
    by (simp add: upsert_session_def execute_when_def demo_codec_def demo_session_def workspace_key_def)
  moreover have "require_project db1 ''p'' = Inr ()" using demo_project_exists[OF d1(7)] by (simp add: require_project_def id_eval)
  moreover have "session_report demo_codec (demo_call ''e2'') db1 ''s'' ''p'' ''codex'' ''x1'' ''1'' ''worker'' None False =
      bind_check (checks [require_project db1 ''p'', Inr (), validate_session demo_session, Inr ()])
        (\<lambda>_. bind_check (upsert_session demo_codec db1 demo_session) (\<lambda>db'.
          Inr (db', Some ''p'', JObj [(''coverage'', JStr ''partial''), (''evidence'', JStr ''agent_reported''), (''session_id'', JStr ''s'')])))"
    using d1(4) by (simp add: session_report_def Let_def demo_session_def demo_event)
  ultimately have run2: "run_command demo_codec (demo_call ''e2'') db1 demo_report = Inr (?db2, Some ''p'',
      JObj [(''coverage'', JStr ''partial''), (''evidence'', JStr ''agent_reported''), (''session_id'', JStr ''s'')])"
    using demo_session_valid by (simp add: demo_report_def)
  have e2: "cl_ids (demo_call ''e2'') (ids_used demo_report) = ''e2''" by (simp add: demo_event demo_report_def)
  have fresh2: "cl_ids (demo_call ''e2'') (ids_used demo_report) \<notin> au_event ` set (cd_audit ?db2)" "next_seq ?db2 < 2 ^ 63"
    "project_exists ?db2 ''p''" using d1 demo_project_exists[of ?db2] by (simp_all add: e2)
  obtain r2 where r2: "au_event r2 = cl_ids (demo_call ''e2'') (ids_used demo_report)" "au_seq r2 = next_seq ?db2"
    "control_reachable demo_codec (?db2\<lparr>cd_audit := cd_audit ?db2 @ [r2]\<rparr>)"
    "store_record demo_codec (demo_call ''e2'') demo_report db1 = Inr (?db2\<lparr>cd_audit := cd_audit ?db2 @ [r2]\<rparr>,
       JObj [(''coverage'', JStr ''partial''), (''evidence'', JStr ''agent_reported''), (''session_id'', JStr ''s'')])"
    by (rule demo_command[OF d1(1) d1(6) run2 fresh2])
  let ?db3 = "?db2\<lparr>cd_audit := cd_audit ?db2 @ [r2]\<rparr>"
  let ?a = "\<lparr>as_id = ''e3'', as_work = ''w'', as_project = ''p'', as_session = ''s'', as_role = ''primary'',
        as_lease_until = 70, as_created = 10, as_released = None\<rparr>"
  let ?w = "demo_item\<lparr>wi_version := 0 + 1\<rparr>"
  let ?db4 = "?db3\<lparr>cd_assignments := [?a], cd_work := [\<lparr>wk_item = ?w, wk_updated = 10\<rparr>]\<rparr>"
  let ?out = "JObj [(''assignment_id'', JStr ''e3''), (''exclusivity'', JStr ''advisory_only''), (''work_version'', JNum 1)] :: int json"
  have item: "wi_id demo_item = ''w''" "wi_project_id demo_item = ''p''" "wi_workspace_id demo_item = None" "wi_state demo_item = Planned"
    "wi_version demo_item = 0" by (simp_all add: demo_item_def)
  have ses: "ses_id demo_session = ''s''" "ses_project_id demo_session = ''p''" "ses_ended_at demo_session = None"
    by (simp_all add: demo_session_def)
  have load: "load_work ?db3 ''w'' = Inr demo_item" using d1(3) item by (simp add: load_work_def)
  have ins: "insert_assignment ?db3 ?a = Inr (?db3\<lparr>cd_assignments := [?a]\<rparr>)"
    using d1(3,5) item ses by (simp add: insert_assignment_def execute_when_def)
  have bump: "bump_work demo_codec (?db3\<lparr>cd_assignments := [?a]\<rparr>) demo_item 0 10 = Inr (?db4, ?w)"
    using d1(3) item by (simp add: bump_work_def Let_def update_work_def execute_when_def workspace_key_def demo_codec_def work_state_guard_def)
  have run3: "run_command demo_codec (demo_call ''e3'') ?db3 demo_assign = Inr (?db4, Some ''p'', ?out)"
    using load ins bump item ses by (simp add: demo_assign_def assign_def demo_event)
  have e3: "cl_ids (demo_call ''e3'') (ids_used demo_assign) = ''xe3''" by (simp add: demo_event demo_assign_def)
  have fresh3: "cl_ids (demo_call ''e3'') (ids_used demo_assign) \<notin> au_event ` set (cd_audit ?db4)" "next_seq ?db4 < 2 ^ 63"
    "project_exists ?db4 ''p''" using d1 r2(1,2) e2 demo_project_exists[of ?db4] by (simp_all add: e3)
  have v3: "cd_version ?db3 = 2" using d1(6) by simp
  obtain r3 where r3: "control_reachable demo_codec (?db4\<lparr>cd_audit := cd_audit ?db4 @ [r3]\<rparr>)"
    "store_record demo_codec (demo_call ''e3'') demo_assign ?db3 = Inr (?db4\<lparr>cd_audit := cd_audit ?db4 @ [r3]\<rparr>, ?out)"
    by (rule demo_command[OF r2(3) v3 run3 fresh3])
  have "(control_step demo_codec)\<^sup>*\<^sup>* db1 ?db3" using control_step.recorded[OF r2(4)] by (rule r_into_rtranclp)
  then show thesis
    by (rule that[OF d1(1,2) r2(3) _ _ d1(6,7) r3(2) _ r3(1)]) (simp_all add: d1(3))
qed

lemma demo_rows:
  obtains db where "control_reachable demo_codec db" "filter (primary_of ''w'') (cd_assignments db) \<noteq> []"
proof -
  obtain db1 db2 db3 out1 out3 where "control_reachable demo_codec db1"
    "store_record demo_codec (demo_call ''e1'') demo_create demo_start = Inr (db1, out1)"
    "control_reachable demo_codec db2" "(control_step demo_codec)\<^sup>*\<^sup>* db1 db2"
    "cd_work db2 = [\<lparr>wk_item = demo_item, wk_updated = 10\<rparr>]" "cd_version db1 = 2" "cd_projects db1 = [demo_project]"
    "store_record demo_codec (demo_call ''e3'') demo_assign db2 = Inr (db3, out3)"
    and as: "cd_assignments db3 = [\<lparr>as_id = ''e3'', as_work = ''w'', as_project = ''p'', as_session = ''s'', as_role = ''primary'',
        as_lease_until = 70, as_created = 10, as_released = None\<rparr>]"
    and r: "control_reachable demo_codec db3" by (rule demo_assigned)
  show thesis by (rule that[OF r]) (simp add: as primary_of_def live_assignment_def)
qed

theorem at_most_one_primary_witness:
  "\<exists>db. control_reachable demo_codec db \<and> length (filter (primary_of ''w'') (cd_assignments db)) = 1"
proof -
  obtain db where db: "control_reachable demo_codec db" "filter (primary_of ''w'') (cd_assignments db) \<noteq> []" by (rule demo_rows)
  then have "0 < length (filter (primary_of ''w'') (cd_assignments db))" by blast
  then show ?thesis using at_most_one_primary[OF db(1), of "''w''"] db(1) by (intro exI[of _ db]) linarith
qed

theorem work_history_is_versioned_witness:
  "\<exists>db db' r'. (control_step demo_codec)\<^sup>*\<^sup>* db db' \<and> r' \<in> set (cd_work db') \<and> same_work demo_item (wk_item r')"
proof -
  obtain db1 db2 where d: "control_reachable demo_codec db2" "cd_work db2 = [\<lparr>wk_item = demo_item, wk_updated = 10\<rparr>]"
    and s: "\<exists>db3. control_step demo_codec db2 db3"
    using demo_assigned control_step.recorded by metis
  then obtain db3 where s3: "(control_step demo_codec)\<^sup>*\<^sup>* db2 db3" by blast
  have "\<lparr>wk_item = demo_item, wk_updated = 10\<rparr> \<in> set (cd_work db2)" using d(2) by simp
  from work_history_is_versioned[OF d(1) s3 this] show ?thesis using s3 by auto
qed

theorem stale_work_command_is_refused_witness:
  "\<exists>db e. store_record demo_codec (demo_call ''e4'') demo_assign db = Inl e"
proof -
  obtain db2 db3 out3 where d: "control_reachable demo_codec db2" "store_record demo_codec (demo_call ''e3'') demo_assign db2 = Inr (db3, out3)"
    using demo_assigned by metis
  have v: "expected_version demo_assign = Some (''w'', 0)" by (simp add: demo_assign_def)
  have "\<exists>e. store_record demo_codec (demo_call ''e4'') demo_assign db3 = Inl e"
    by (rule stale_work_command_is_refused[OF d v rtranclp.rtrancl_refl v])
  then show ?thesis by blast
qed

theorem commands_are_audited_for_good_witness:
  "\<exists>(db' :: control_db) (row :: audit_row). row \<in> set (cd_audit db') \<and> au_kind row = ''work_created''"
proof -
  obtain db1 db2 out1 where d: "store_record demo_codec (demo_call ''e1'') demo_create demo_start = Inr (db1, out1)"
    and s: "(control_step demo_codec)\<^sup>*\<^sup>* db1 db2" using demo_assigned by metis
  have "record_kind demo_create = ''work_created''" by (simp add: demo_create_def)
  moreover obtain row rest where "cd_audit db2 = cd_audit demo_start @ row # rest" "au_kind row = record_kind demo_create"
    using commands_are_audited_for_good[OF demo_start_reachable d s] by (elim exE conjE) (rule that)
  ultimately have "row \<in> set (cd_audit db2)" "au_kind row = ''work_created''" by simp_all
  then show ?thesis by blast
qed

theorem timeline_pages_are_exact_witness:
  "\<exists>db page nxt. control_reachable demo_codec db \<and> timeline db ''p'' None = Inr (page, nxt) \<and> length page \<le> 50"
proof -
  obtain db1 where d: "control_reachable demo_codec db1" "cd_version db1 = 2" "cd_projects db1 = [demo_project]" using demo_assigned by metis
  have "scoped db1 ''p'' = Inr ()" using d(2,3) demo_project_exists[OF d(3)]
    by (simp add: scoped_def require_control_def require_project_def id_eval)
  then obtain page nxt where t: "timeline db1 ''p'' None = Inr (page, nxt)" by (simp add: timeline_def Let_def)
  have "length page \<le> 50" using timeline_pages_are_exact[OF d(1) t] by (simp add: Let_def)
  then show ?thesis using t d(1) by blast
qed

end
