(* ===== verification/Control_Context.thy ===== *)
theory Control_Context
  imports Control_Ops
begin

text \<open>
  Bounds of what the control store hands out and keeps: the context packet fits its byte limit, and the pruned tables keep
  the newest rows of each project.
\<close>

section \<open>Bounds\<close>

lemma map_of_present_member:
  "map_of (map (\<lambda>(k', v'). (k', if k' = s then v else v')) m) k = (if k = s \<and> s \<in> fst ` set m then Some v else map_of m k)"
proof (induction m)
  case (Cons x m)
  then show ?case by (cases x) (simp only: list.map map_of.simps prod.case fst_conv snd_conv fun_upd_apply list.set image_insert insert_iff, auto)
qed simp

lemma map_of_split: "map_of (takeWhile P m @ (s, v) # dropWhile P m) k = (if k = s then map_of (takeWhile P m @ [(s, v)]) s else map_of m k)"
  by (induction m) auto

lemma set_member_other: "k \<noteq> s \<Longrightarrow> map_of (set_member s v m) k = map_of m k"
  unfolding set_member_def by (cases "s \<in> fst ` set m") (simp_all add: map_of_present_member map_of_split del: map_of_append)

lemma set_member_same: "map_of (set_member s v m) s = Some v"
proof (cases "s \<in> fst ` set m")
  case True
  then show ?thesis by (simp add: set_member_def map_of_present_member)
next
  case False
  then have "map_of (takeWhile (\<lambda>(k', _). k' < s) m) s = None"
    by (auto simp: map_of_eq_None_iff image_iff dest!: set_takeWhileD)
  then show ?thesis using False by (simp add: set_member_def map_add_def)
qed

lemma trim_sections_facts:
  assumes "trim_sections bytes ss packet omitted = (fitted, out)" "distinct ss"
  shows "\<exists>dropped. prefix dropped ss \<and> out = omitted @ dropped
    \<and> (\<forall>s \<in> set dropped. map_of fitted s = Some (omitted_section s))
    \<and> (\<forall>k. k \<notin> set dropped \<longrightarrow> map_of fitted k = map_of packet k)
    \<and> (dropped \<noteq> ss \<longrightarrow> bytes fitted \<le> CONTEXT_LIMIT) \<and> (dropped \<noteq> [] \<longrightarrow> CONTEXT_LIMIT < bytes packet)"
  using assms
proof (induction ss arbitrary: packet omitted)
  case Nil
  then show ?case by auto
next
  case (Cons s ss)
  show ?case
  proof (cases "bytes packet \<le> CONTEXT_LIMIT")
    case True
    then show ?thesis using Cons.prems by (intro exI[of _ "[]"]) auto
  next
    case False
    let ?p = "set_member s (omitted_section s) packet"
    obtain d where d: "prefix d ss" "out = (omitted @ [s]) @ d" "\<forall>k \<in> set d. map_of fitted k = Some (omitted_section k)"
      "\<forall>k. k \<notin> set d \<longrightarrow> map_of fitted k = map_of ?p k" "d \<noteq> ss \<longrightarrow> bytes fitted \<le> CONTEXT_LIMIT"
      using Cons.IH[of ?p "omitted @ [s]"] Cons.prems False by auto
    have "s \<notin> set d" using d(1) Cons.prems(2) set_mono_prefix by fastforce
    then have "map_of fitted s = Some (omitted_section s)" using d(4) by (simp add: set_member_same)
    then show ?thesis using d False by (intro exI[of _ "s # d"]) (auto simp: set_member_other)
  qed
qed

text \<open>
  A context packet that is returned fits the byte limit. It differs from the full packet only in an initial segment of
  the optional sections, each replaced by its placeholder and named in the list of omissions; a section is dropped only
  when the packet was too large, and everything else is as it was.
\<close>

theorem context_packet_is_bounded:
  assumes "fit_context bytes packet = Inr final"
  shows "bytes final \<le> CONTEXT_LIMIT \<and> (\<exists>dropped. prefix dropped OPTIONAL_SECTIONS
    \<and> map_of final ''omitted_optional_sections'' = Some (JArr (map JStr dropped))
    \<and> (\<forall>s \<in> set dropped. map_of final s = Some (omitted_section s))
    \<and> (\<forall>k. k \<notin> set dropped \<and> k \<noteq> ''omitted_optional_sections'' \<longrightarrow> map_of final k = map_of packet k)
    \<and> (dropped \<noteq> [] \<longrightarrow> CONTEXT_LIMIT < bytes packet))"
proof -
  obtain fitted out where t: "trim_sections bytes OPTIONAL_SECTIONS packet [] = (fitted, out)" by fastforce
  have dist: "distinct OPTIONAL_SECTIONS" by (simp add: OPTIONAL_SECTIONS_def)
  obtain d where d: "prefix d OPTIONAL_SECTIONS" "out = d" "\<forall>s \<in> set d. map_of fitted s = Some (omitted_section s)"
    "\<forall>k. k \<notin> set d \<longrightarrow> map_of fitted k = map_of packet k" "d \<noteq> [] \<longrightarrow> CONTEXT_LIMIT < bytes packet"
    using trim_sections_facts[OF t dist] by auto
  have f: "final = set_member ''omitted_optional_sections'' (JArr (map JStr d)) fitted" "bytes final \<le> CONTEXT_LIMIT"
    using assms t d(2) by (auto simp: fit_context_def Let_def split: if_splits)
  have "''omitted_optional_sections'' \<notin> set OPTIONAL_SECTIONS" by (simp add: OPTIONAL_SECTIONS_def)
  then have "s \<noteq> ''omitted_optional_sections''" if "s \<in> set d" for s using that d(1) set_mono_prefix by fastforce
  then show ?thesis using f d by (intro conjI exI[of _ d]) (auto simp: set_member_same set_member_other)
qed

theorem context_packet_is_bounded_witness:
  "\<exists>final :: (string \<times> int json) list.
     fit_context (\<lambda>m. if map_of m ''recent_events'' = Some (JBool True) then 70000 else 100)
      [(''economics'', JBool True), (''recent_events'', JBool True), (''useful_discoveries'', JBool True)] = Inr final
    \<and> map_of final ''economics'' = Some (JBool True) \<and> map_of final ''recent_events'' = Some (omitted_section ''recent_events'')"
proof -
  let ?b = "\<lambda>m :: (string \<times> int json) list. if map_of m ''recent_events'' = Some (JBool True) then 70000 else 100 :: nat"
  let ?p = "[(''economics'', JBool True), (''recent_events'', JBool True), (''useful_discoveries'', JBool True)] :: (string \<times> int json) list"
  have o: "omitted_section ''recent_events'' \<noteq> (JBool True :: int json)" by (simp add: omitted_section_def)
  let ?f = "set_member ''omitted_optional_sections'' (JArr [JStr ''useful_discoveries'', JStr ''recent_events''])
    (set_member ''recent_events'' (omitted_section ''recent_events'') (set_member ''useful_discoveries'' (omitted_section ''useful_discoveries'') ?p))"
  have f: "fit_context ?b ?p = Inr ?f"
    using o by (simp add: fit_context_def OPTIONAL_SECTIONS_def CONTEXT_LIMIT_def Let_def set_member_same set_member_other)
  have "map_of ?f ''economics'' = Some (JBool True)" "map_of ?f ''recent_events'' = Some (omitted_section ''recent_events'')"
    by (simp_all add: set_member_same set_member_other)
  moreover have "?b ?f \<le> CONTEXT_LIMIT" using context_packet_is_bounded[OF f] by (rule conjunct1)
  ultimately show ?thesis using f by blast
qed

lemma newer_first_total: "key a \<noteq> key b \<Longrightarrow> newer_first (key a) (key b) \<or> newer_first (key b) (key a)"
  by (auto simp: newer_first_def prod_eq_iff)

lemma newer_first_trans: "newer_first a b \<Longrightarrow> newer_first b c \<Longrightarrow> newer_first a c"
  by (auto simp: newer_first_def)

lemma newer_first_irrefl [simp]: "\<not> newer_first a a"
  by (simp add: newer_first_def)

definition newer_count :: "('r \<Rightarrow> int \<times> string) \<Rightarrow> 'r list \<Rightarrow> 'r \<Rightarrow> nat" where
  "newer_count key rows r = length (filter (\<lambda>x. newer_first (key x) (key r)) rows)"

lemma newer_count_mono:
  assumes "a \<in> set rows" "newer_first (key a) (key b)"
  shows "newer_count key rows a < newer_count key rows b"
proof -
  have "filter (\<lambda>x. newer_first (key x) (key a)) rows = filter (\<lambda>x. newer_first (key x) (key a)) (filter (\<lambda>x. newer_first (key x) (key b)) rows)"
    unfolding filter_filter by (rule filter_cong) (use newer_first_trans[OF _ assms(2)] in blast)+
  moreover have "length (filter (\<lambda>x. newer_first (key x) (key a)) (filter (\<lambda>x. newer_first (key x) (key b)) rows))
      < length (filter (\<lambda>x. newer_first (key x) (key b)) rows)"
    by (rule length_filter_less[of a]) (use assms in auto)
  ultimately show ?thesis by (simp add: newer_count_def)
qed

lemma pruned_bound:
  assumes "distinct (map key (filter (\<lambda>r. project r = p) rows))"
  shows "length (filter (\<lambda>r. project r = p) (prune project key n p rows)) \<le> n"
proof -
  let ?own = "filter (\<lambda>r. project r = p) rows" and ?c = "newer_count key (filter (\<lambda>r. project r = p) rows)"
  let ?kept = "filter (\<lambda>r. ?c r < n) ?own"
  have kept: "filter (\<lambda>r. project r = p) (prune project key n p rows) = ?kept"
    by (auto simp: prune_def newer_count_def filter_filter conj_commute intro: filter_cong)
  have inj: "inj_on ?c (set ?own)"
  proof (rule inj_onI, rule ccontr)
    fix a b assume ab: "a \<in> set ?own" "b \<in> set ?own" "?c a = ?c b" "a \<noteq> b"
    have "key a \<noteq> key b" using assms ab by (auto simp: distinct_map inj_on_def)
    then show False using newer_first_total[of key a b] newer_count_mono[of _ ?own key] ab by (metis less_irrefl)
  qed
  have "distinct ?own" using assms by (simp add: distinct_map)
  then have "distinct ?kept" by (rule distinct_filter)
  moreover have "inj_on ?c (set ?kept)" by (rule inj_on_subset[OF inj]) auto
  ultimately have "distinct (map ?c ?kept)" by (simp only: distinct_map)
  moreover have "set (map ?c ?kept) \<subseteq> {..<n}" by auto
  ultimately show ?thesis unfolding kept by (metis card_lessThan card_mono distinct_card finite_lessThan length_map)
qed
end
