(* ===== verification/Usage.thy ===== *)
theory Usage
  imports Economics Integrations
begin

text \<open>
  Imports of usage and cost (\<open>workstation-core/src/usage_import.rs\<close>) and metadata-only telemetry
  (\<open>telemetry.rs\<close>): exact decimal scaling, provider cost pages, quota snapshots, the CSV fallback, the cost summary and
  the projections of vendor payloads. The RFC 3339 parser, the printer of a JSON value and the readers of JSON numbers
  are arguments.
\<close>

section \<open>Parsing\<close>

text \<open>\<open>str::lines\<close>: a line ends at a newline, and a carriage return before it is dropped.\<close>

definition strip_cr :: "string \<Rightarrow> string" where
  "strip_cr s = (if s \<noteq> [] \<and> last s = CHR 0x0D then butlast s else s)"

definition rust_lines :: "string \<Rightarrow> string list" where
  "rust_lines s = (let ps = split_char (CHR 0x0A) s in
     map strip_cr (butlast ps) @ (if last ps = [] then [] else [last ps]))"

text \<open>\<open>str::parse::<f64>\<close>.\<close>

definition parse_exponent :: "string \<Rightarrow> int option" where
  "parse_exponent s = (case s of
     [] \<Rightarrow> None
   | c # t \<Rightarrow> if c = CHR ''-'' then map_option (\<lambda>n. - int n) (parse_digits t)
       else if c = CHR ''+'' then map_option int (parse_digits t) else map_option int (parse_digits s))"

definition parse_decimal :: "bool \<Rightarrow> string \<Rightarrow> int \<Rightarrow> f64 option" where
  "parse_decimal neg mantissa e = (case split_char (CHR ''.'') mantissa of
     whole # rest \<Rightarrow> let frac = concat rest in
       if length rest > 1 \<or> whole @ frac = [] \<or> \<not> list_all is_ascii_digit (whole @ frac) then None
       else Some (round64 neg ((if neg then -1 else 1) * of_nat (digits_value (whole @ frac)) * 10 powi (e - int (length frac))))
   | [] \<Rightarrow> None)"

definition parse_f64 :: "string \<Rightarrow> f64 option" where
  "parse_f64 s = (let (neg, t) = (case s of [] \<Rightarrow> (False, [])
       | c # t \<Rightarrow> if c = CHR ''-'' then (True, t) else if c = CHR ''+'' then (False, t) else (False, s));
       l = to_ascii_lowercase t in
     if l \<in> set [''inf'', ''infinity''] then Some (Infinite neg) else if l = ''nan'' then Some NaN
     else case split_on (\<lambda>c. c = CHR ''e'' \<or> c = CHR ''E'') t of
       [m] \<Rightarrow> parse_decimal neg m 0
     | [m, x] \<Rightarrow> Option.bind (parse_exponent x) (parse_decimal neg m)
     | _ \<Rightarrow> None)"

section \<open>Exact decimals\<close>

record cost_bucket =
  cb_start :: int
  cb_end :: int
  cb_nanos :: int

text \<open>The whole part, the fraction and the exponent of a decimal.\<close>

definition decimal_exponent :: "string list \<Rightarrow> int check" where
  "decimal_exponent pieces = (case pieces of
     [_, x] \<Rightarrow> ok_or (parse_signed (- (2 ^ 31)) (2 ^ 31 - 1) x) ''COST_DECIMAL_FORMAT''
   | _ \<Rightarrow> Inr 0)"

definition decimal_parts :: "string \<Rightarrow> (string \<times> string \<times> int) check" where
  "decimal_parts v = (let pieces = split_on (\<lambda>c. c = CHR ''e'' \<or> c = CHR ''E'') v in
     if length pieces > 2 then Inl ''COST_DECIMAL_FORMAT''
     else bind_check (decimal_exponent pieces) (\<lambda>e.
       if \<not> (-18 \<le> e \<and> e \<le> 18) then Inl ''COST_DECIMAL_RANGE''
       else let parts = split_char (CHR ''.'') (hd pieces); whole = hd parts;
                frac = (case tl parts of [] \<Rightarrow> [] | f # _ \<Rightarrow> f) in
         if length parts > 2 \<or> whole = [] \<or> \<not> list_all is_ascii_digit whole \<or> \<not> list_all is_ascii_digit frac
         then Inl ''COST_DECIMAL_FORMAT'' else Inr (whole, frac, e)))"

definition checked_i128 :: "nat \<Rightarrow> nat check" where
  "checked_i128 n = (if n < 2 ^ 127 then Inr n else Inl ''COST_DECIMAL_RANGE'')"

definition decimal_scaled :: "nat \<Rightarrow> int \<Rightarrow> nat check" where
  "decimal_scaled n shift =
     (if shift \<ge> 0 then bind_check (checked_i128 (10 ^ nat shift)) (\<lambda>m. checked_i128 (n * m))
      else bind_check (checked_i128 (10 ^ nat (- shift))) (\<lambda>divisor.
        if n mod divisor \<noteq> 0 then Inl ''COST_DECIMAL_PRECISION'' else Inr (n div divisor)))"

definition decimal_fixed :: "string \<Rightarrow> nat \<Rightarrow> int check" where
  "decimal_fixed v places =
     (if length v > 64 \<or> v = [] \<or> hd v = CHR ''-'' \<or> hd v = CHR ''+'' \<or> places > 12 then Inl ''COST_DECIMAL_FORMAT''
      else bind_check (decimal_parts v) (\<lambda>(whole, frac, e).
        bind_check (checked_i128 (digits_value (whole @ frac))) (\<lambda>n.
        bind_check (decimal_scaled n (int places + e - int (length frac))) (\<lambda>x.
          if int x \<le> 2 ^ 63 - 1 then Inr (int x) else Inl ''COST_DECIMAL_RANGE''))))"

section \<open>Cost pages\<close>

definition checked_cost :: "int \<Rightarrow> int \<Rightarrow> int check" where
  "checked_cost a b = (if in_i64 (a + b) then Inr (a + b) else Inl ''COST_SUM_RANGE'')"

definition cost_window ::
    "('n \<Rightarrow> int option) \<Rightarrow> (string \<Rightarrow> int option) \<Rightarrow> string \<Rightarrow> 'n json \<Rightarrow> (int \<times> int) check" where
  "cost_window num_i64 rfc3339 provider b =
     (if provider = ''openai'' then
        bind_check (ok_or (Option.bind (json_get b ''start_time'') (json_as_num num_i64)) ''COST_TIME_MISSING'') (\<lambda>s.
        bind_check (ok_or (Option.bind (json_get b ''end_time'') (json_as_num num_i64)) ''COST_TIME_MISSING'') (\<lambda>e. Inr (s, e)))
      else if provider = ''anthropic'' then
        bind_check (ok_or (json_str_at b ''starting_at'') ''COST_TIME_MISSING'') (\<lambda>s.
        bind_check (ok_or (rfc3339 s) ''TIMESTAMP_FORMAT'') (\<lambda>s'.
        bind_check (ok_or (json_str_at b ''ending_at'') ''COST_TIME_MISSING'') (\<lambda>e.
        bind_check (ok_or (rfc3339 e) ''TIMESTAMP_FORMAT'') (\<lambda>e'. Inr (s', e')))))
      else Inl ''COST_PROVIDER_UNSUPPORTED'')"

definition cost_amount :: "('n json \<Rightarrow> string) \<Rightarrow> string \<Rightarrow> 'n json \<Rightarrow> int check" where
  "cost_amount show_json provider r =
     (if provider = ''openai'' then
        bind_check (ok_or (json_get r ''amount'') ''COST_AMOUNT_MISSING'') (\<lambda>a.
          if json_str_at a ''currency'' \<noteq> Some ''usd'' then Inl ''CURRENCY_NOT_USD''
          else bind_check (ok_or (json_get a ''value'') ''COST_VALUE_MISSING'') (\<lambda>n. decimal_fixed (show_json n) 9))
      else if json_str_at r ''currency'' \<noteq> Some ''USD'' then Inl ''CURRENCY_NOT_USD''
      else bind_check (ok_or (json_str_at r ''amount'') ''COST_AMOUNT_MISSING'') (\<lambda>a. decimal_fixed a 7))"

fun cost_sum :: "('n json \<Rightarrow> string) \<Rightarrow> string \<Rightarrow> int \<Rightarrow> 'n json list \<Rightarrow> int check" where
  "cost_sum show_json provider acc [] = Inr acc"
| "cost_sum show_json provider acc (r # rs) =
     bind_check (cost_amount show_json provider r) (\<lambda>a.
     bind_check (checked_cost acc a) (\<lambda>acc'. cost_sum show_json provider acc' rs))"

definition cost_row ::
    "('n \<Rightarrow> int option) \<Rightarrow> (string \<Rightarrow> int option) \<Rightarrow> ('n json \<Rightarrow> string) \<Rightarrow> string \<Rightarrow> 'n json \<Rightarrow> cost_bucket check" where
  "cost_row num_i64 rfc3339 show_json provider b =
     bind_check (cost_window num_i64 rfc3339 provider b) (\<lambda>(start, stop).
       if start < 0 \<or> stop \<le> start then Inl ''COST_TIME_RANGE''
       else bind_check (ok_or (Option.bind (json_get b ''results'') json_as_array) ''COST_RESULTS_MISSING'') (\<lambda>results.
         if length results > 1000 then Inl ''COST_RESULT_LIMIT''
         else bind_check (cost_sum show_json provider 0 results) (\<lambda>t.
           Inr \<lparr>cb_start = start, cb_end = stop, cb_nanos = t\<rparr>)))"

definition cost_page ::
    "('n \<Rightarrow> int option) \<Rightarrow> (string \<Rightarrow> int option) \<Rightarrow> ('n json \<Rightarrow> string) \<Rightarrow> string \<Rightarrow> 'n json \<Rightarrow> cost_bucket list check" where
  "cost_page num_i64 rfc3339 show_json provider v =
     bind_check (ok_or (Option.bind (json_get v ''data'') json_as_array) ''COST_DATA_MISSING'') (\<lambda>data.
       if length data > 32 then Inl ''COST_BUCKET_LIMIT''
       else each (cost_row num_i64 rfc3339 show_json provider) data)"

section \<open>The cost summary\<close>

fun cost_total :: "(int \<times> int) set \<Rightarrow> int \<Rightarrow> cost_bucket list \<Rightarrow> int check" where
  "cost_total seen acc [] = Inr acc"
| "cost_total seen acc (r # rs) =
     (if cb_start r < 0 \<or> cb_end r \<le> cb_start r \<or> cb_nanos r < 0 then Inl ''INVALID_COST_BUCKET''
      else if (cb_start r, cb_end r) \<in> seen then Inl ''DUPLICATE_COST_BUCKET''
      else bind_check (checked_cost acc (cb_nanos r)) (\<lambda>t. cost_total (insert (cb_start r, cb_end r) seen) t rs))"

definition cost_bucket_json :: "cost_bucket \<Rightarrow> int json" where
  "cost_bucket_json r = JObj
     [(''start'', JNum (cb_start r)), (''end'', JNum (cb_end r)), (''amount_usd_nanos'', JNum (cb_nanos r))]"

definition cost_report :: "cost_bucket list \<Rightarrow> int \<Rightarrow> int json" where
  "cost_report rows amount = JObj
     [(''amount_usd_nanos'', JNum amount), (''buckets'', JArr (map cost_bucket_json rows)), (''currency'', JStr ''usd''),
      (''invoice_finality'', JStr ''provider_cost_report_not_final_invoice''), (''meter'', JStr ''dollars''),
      (''subscription_quota'', JNull)]"

definition cost_summary :: "cost_bucket list \<Rightarrow> int json check" where
  "cost_summary rows =
     (if \<not> successively (\<lambda>a b. cb_end a \<le> cb_start b) (sort_key cb_start rows) then Inl ''OVERLAPPING_COST_BUCKETS''
      else bind_check (cost_total {} 0 rows) (\<lambda>t. Inr (cost_report rows t)))"

section \<open>Quota imports\<close>

definition copilot_row ::
    "('n \<Rightarrow> f64 option) \<Rightarrow> (string \<Rightarrow> int option) \<Rightarrow> string \<Rightarrow> int \<Rightarrow> string \<Rightarrow> string \<times> 'n json \<Rightarrow> quota_sample check" where
  "copilot_row num_f64 rfc3339 account stamp version e = (case e of (bucket, q) \<Rightarrow>
     bind_check (control_id bucket) (\<lambda>_.
     bind_check (ok_or (Option.bind (json_get q ''usedRequests'') (json_as_num num_f64)) ''QUOTA_USED_MISSING'') (\<lambda>used.
     bind_check (case Option.bind (case json_get q ''resetDateISO'' of None \<Rightarrow> json_get q ''resetDate'' | Some v \<Rightarrow> Some v) json_as_str of
         None \<Rightarrow> Inr None
       | Some t \<Rightarrow> bind_check (ok_or (rfc3339 t) ''TIMESTAMP_FORMAT'') (\<lambda>x. Inr (Some x))) (\<lambda>reset.
     let limit = (case Option.bind (json_get q ''entitlementRequests'') (json_as_num num_f64) of
                    None \<Rightarrow> None | Some l \<Rightarrow> if f_lt f_zero l then Some l else None);
         s = \<lparr>qs_id = ''copilot-'' @ bucket @ ''-'' @ show_int stamp, qs_provider = ''copilot'', qs_account_alias = account,
              qs_bucket = bucket, qs_meter = Subscription, qs_unit = ''requests'',
              qs_window_id = (case reset of None \<Rightarrow> ''unknown-window'' | Some t \<Rightarrow> ''reset-'' @ show_int t),
              qs_used = used, qs_limit = limit, qs_reset_at = reset, qs_observed_at = stamp, qs_precision = ''provider_reported'',
              qs_evidence = \<lparr>ev_kind = AgentReported, ev_source = ''explicit_import:copilot_sdk:'' @ version, ev_at = stamp,
                             ev_coverage = Partial\<rparr>\<rparr> in
     bind_check (quota_validate s) (\<lambda>_. Inr s)))))"

definition copilot_quota ::
    "('n \<Rightarrow> f64 option) \<Rightarrow> (string \<Rightarrow> int option) \<Rightarrow> 'n json \<Rightarrow> string \<Rightarrow> int \<Rightarrow> string \<Rightarrow> quota_sample list check" where
  "copilot_quota num_f64 rfc3339 v account stamp version =
     bind_check (checks [control_id account, control_timestamp stamp, control_text version 128]) (\<lambda>_.
     bind_check (ok_or (Option.bind (json_get v ''quotaSnapshots'') json_as_object) ''COPILOT_QUOTA_SNAPSHOTS_REQUIRED'') (\<lambda>m.
       if length m > 16 then Inl ''QUOTA_BUCKET_LIMIT''
       else each (copilot_row num_f64 rfc3339 account stamp version) m))"

definition csv_meter :: "string \<Rightarrow> meter check" where
  "csv_meter s = (if s = ''context'' then Inr Context else if s = ''subscription'' then Inr Subscription
     else if s = ''dollars'' then Inr Dollars else Inl ''CSV_METER'')"

definition csv_optional :: "(string \<Rightarrow> 'b option) \<Rightarrow> string \<Rightarrow> string \<Rightarrow> 'b option check" where
  "csv_optional rd code s = (if s = [] then Inr None else bind_check (ok_or (rd s) code) (\<lambda>x. Inr (Some x)))"

definition csv_row :: "int \<Rightarrow> nat \<Rightarrow> string list \<Rightarrow> quota_sample check" where
  "csv_row stamp n f =
     bind_check (csv_meter (f ! 3)) (\<lambda>meter.
     bind_check (ok_or (parse_i64 (f ! 9)) ''CSV_TIME'') (\<lambda>observed.
       if observed > stamp + 60 then Inl ''FUTURE_USAGE_IMPORT''
       else bind_check (ok_or (parse_f64 (f ! 6)) ''CSV_NUMBER'') (\<lambda>used.
         bind_check (csv_optional parse_f64 ''CSV_NUMBER'' (f ! 7)) (\<lambda>limit.
         bind_check (csv_optional parse_i64 ''CSV_TIME'' (f ! 8)) (\<lambda>reset.
         let s = \<lparr>qs_id = ''csv-'' @ show_int stamp @ ''-'' @ show_nat n, qs_provider = f ! 0, qs_account_alias = f ! 1,
                  qs_bucket = f ! 2, qs_meter = meter, qs_unit = f ! 4, qs_window_id = f ! 5, qs_used = used,
                  qs_limit = limit, qs_reset_at = reset, qs_observed_at = observed, qs_precision = ''estimated'',
                  qs_evidence = \<lparr>ev_kind = AgentReported, ev_source = ''explicit_csv_import_not_authenticated_provider'',
                                 ev_at = stamp, ev_coverage = Partial\<rparr>\<rparr> in
         bind_check (quota_validate s) (\<lambda>_. Inr s))))))"

fun csv_rows :: "int \<Rightarrow> nat \<Rightarrow> string list \<Rightarrow> quota_sample list check" where
  "csv_rows stamp n [] = Inr []"
| "csv_rows stamp n (line # rest) =
     (if trim line = [] then csv_rows stamp (n + 1) rest
      else if n \<ge> 1000 \<or> CHR 0x22 \<in> set line then Inl ''CSV_ROW_LIMIT_OR_QUOTING''
      else let f = split_char (CHR '','') line in
        if length f \<noteq> 10 then Inl ''CSV_COLUMNS''
        else bind_check (csv_row stamp n f) (\<lambda>s. bind_check (csv_rows stamp (n + 1) rest) (\<lambda>out. Inr (s # out))))"

definition CSV_HEADER :: string where
  "CSV_HEADER = ''provider,account,bucket,meter,unit,window,used,limit,reset_at,observed_at''"

definition quota_csv :: "string \<Rightarrow> int \<Rightarrow> quota_sample list check" where
  "quota_csv csv stamp =
     (if length csv > 256 * 1024 then Inl ''CSV_LIMIT''
      else case rust_lines csv of
        header # rest \<Rightarrow> if header = CSV_HEADER then csv_rows stamp 0 rest else Inl ''CSV_HEADER''
      | [] \<Rightarrow> Inl ''CSV_HEADER'')"

section \<open>Telemetry\<close>

record telemetry =
  te_format :: string
  te_samples :: "quota_sample list"
  te_metrics :: "int json"
  te_provenance :: string

definition token_count :: "('n \<Rightarrow> nat option) \<Rightarrow> 'n json option \<Rightarrow> nat option check" where
  "token_count num_u64 v = (if v \<in> {None, Some JNull} then Inr None
     else bind_check (ok_or (Option.bind v (json_as_num num_u64)) ''TOKEN_COUNT_INVALID'') (\<lambda>n.
       if n > 10 ^ 12 then Inl ''TOKEN_COUNT_LIMIT'' else Inr (Some n)))"

definition json_count :: "nat option \<Rightarrow> int json" where
  "json_count c = (case c of None \<Rightarrow> JNull | Some n \<Rightarrow> JNum (int n))"

text \<open>The members read from a model's token object, under the names they are reported by.\<close>

definition TOKEN_FIELDS :: "(string \<times> string) list" where
  "TOKEN_FIELDS = [(''input_uncached'', ''input''), (''input_prompt'', ''prompt''), (''output_candidates'', ''candidates''),
     (''total'', ''total''), (''cached'', ''cached''), (''thoughts'', ''thoughts''), (''tool'', ''tool'')]"

definition gemini_row :: "('n \<Rightarrow> nat option) \<Rightarrow> string \<times> 'n json \<Rightarrow> int json check" where
  "gemini_row num_u64 e = (case e of (model, v) \<Rightarrow>
     bind_check (control_text model 256) (\<lambda>_.
     bind_check (ok_or (Option.bind (json_get v ''tokens'') json_as_object) ''GEMINI_TOKENS_MISSING'') (\<lambda>tokens.
     bind_check (each (\<lambda>(out, key). bind_check (token_count num_u64 (map_of tokens key)) (\<lambda>c. Inr (out, json_count c))) TOKEN_FIELDS)
       (\<lambda>fields. Inr (JObj ((''model'', JStr model) # fields))))))"

definition gemini_metrics :: "int \<Rightarrow> int json list \<Rightarrow> int json" where
  "gemini_metrics stamp rows = JObj
     [(''current_context_capacity'', JNull), (''meaning'', JStr ''reported_cumulative_session_tokens_not_current_context''),
      (''models'', JArr rows), (''observed_at'', JNum stamp), (''prices'', JNull), (''subscription_quota'', JNull)]"

definition copilot_metrics :: "int \<Rightarrow> nat option \<Rightarrow> nat option \<Rightarrow> int json" where
  "copilot_metrics stamp used limit = JObj
     [(''current_tokens'', json_count used), (''meaning'', JStr ''current_context_snapshot_not_subscription''),
      (''observed_at'', JNum stamp), (''quota_reset'', JNull), (''token_limit'', json_count limit)]"

definition telemetry_of :: "string \<Rightarrow> quota_sample list \<Rightarrow> int json \<Rightarrow> telemetry" where
  "telemetry_of format samples metrics = \<lparr>te_format = format, te_samples = samples, te_metrics = metrics,
     te_provenance = ''agent_reported_metadata_not_authenticated_provider''\<rparr>"

definition telemetry_normalize ::
    "('n \<Rightarrow> f64 option) \<Rightarrow> ('n \<Rightarrow> int option) \<Rightarrow> ('n \<Rightarrow> nat option) \<Rightarrow> string \<Rightarrow> 'n json \<Rightarrow> string \<Rightarrow> string \<Rightarrow> int
     \<Rightarrow> telemetry check" where
  "telemetry_normalize num_f64 num_i64 num_u64 format payload version account stamp =
     bind_check (checks [control_id account, control_timestamp stamp, control_text version 128]) (\<lambda>_.
       if format \<in> set [''claude-statusline-2026-09'', ''codex-rate-limits-2026-09''] then
         bind_check (normalize_vendor num_f64 num_i64 format payload version account stamp) (\<lambda>samples.
           Inr (telemetry_of format samples JNull))
       else if format = ''gemini-headless-json-2026-09'' then
         bind_check (ok_or (Option.bind (json_pointer payload [''stats'', ''models'']) json_as_object) ''GEMINI_STATS_MISSING'') (\<lambda>models.
           if length models > 32 then Inl ''MODEL_METRIC_LIMIT''
           else bind_check (each (gemini_row num_u64) models) (\<lambda>rows.
             Inr (telemetry_of format [] (gemini_metrics stamp rows))))
       else if format = ''copilot-context-event-2026-09'' then
         let data = (case json_get payload ''data'' of None \<Rightarrow> payload | Some d \<Rightarrow> d) in
         bind_check (token_count num_u64 (json_get data ''currentTokens'')) (\<lambda>used.
         bind_check (token_count num_u64 (json_get data ''tokenLimit'')) (\<lambda>limit.
           if used = None then Inl ''CONTEXT_USAGE_UNKNOWN''
           else Inr (telemetry_of format [] (copilot_metrics stamp used limit))))
       else Inl ''TELEMETRY_FORMAT_UNSUPPORTED'')"

definition profile_formats :: "adapter \<Rightarrow> string list" where
  "profile_formats a = (case a of
     Claude \<Rightarrow> [''claude-statusline-2026-09''] | Codex \<Rightarrow> [''codex-rate-limits-2026-09'']
   | GeminiAcp \<Rightarrow> [''gemini-headless-json-2026-09''] | Copilot \<Rightarrow> [''copilot-context-event-2026-09''] | _ \<Rightarrow> [])"

section \<open>Decimals are scaled exactly\<close>

text \<open>The grammar of an accepted decimal: whole part \<open>w\<close>, fraction \<open>f\<close> and exponent \<open>e\<close>.\<close>

definition decimal_literal :: "string \<Rightarrow> string \<Rightarrow> string \<Rightarrow> int \<Rightarrow> bool" where
  "decimal_literal v w f e \<longleftrightarrow> w \<noteq> [] \<and> list_all is_ascii_digit (w @ f) \<and> (\<exists>point ex. v = w @ point @ ex
     \<and> (point = CHR ''.'' # f \<or> point = [] \<and> f = [])
     \<and> (ex = [] \<and> e = 0 \<or> (\<exists>c \<in> {CHR ''e'', CHR ''E''}. \<exists>s. ex = c # s \<and> parse_signed (- (2 ^ 31)) (2 ^ 31 - 1) s = Some e)))"

lemma digit_no_sep: "is_ascii_digit c \<Longrightarrow> c \<noteq> CHR ''.'' \<and> c \<noteq> CHR ''e'' \<and> c \<noteq> CHR ''E''"
  by (auto simp: is_ascii_digit_def)

lemma parse_signed_no_sep: "parse_signed lo hi s = Some e \<Longrightarrow> \<forall>c \<in> set s. c \<noteq> CHR ''e'' \<and> c \<noteq> CHR ''E''"
  by (auto simp: parse_signed_def parse_digits_def Let_def is_ascii_digit_def list_all_iff split: list.splits if_splits option.splits)

lemma split_on_two: "split_on P s = [a, b] \<Longrightarrow> \<exists>c. P c \<and> s = a @ c # b"
proof (induction s arbitrary: a)
  case (Cons x s)
  show ?case
  proof (cases "P x")
    case True
    then have "a = []" "split_on P s = [b]" using Cons.prems by auto
    moreover from this(2) have "s = b" 
    proof (induction s arbitrary: b)
      case (Cons y s) then show ?case by (auto split: list.splits if_splits)
    qed simp
    ultimately show ?thesis using True by auto
  next
    case False
    then show ?thesis using Cons by (auto split: list.splits)
  qed
qed simp

lemma split_on_one: "split_on P s = [a] \<Longrightarrow> s = a"
  by (induction s arbitrary: a) (auto split: list.splits if_splits)

lemma decimal_parts_iff:
  "decimal_parts v = Inr (w, f, e) \<longleftrightarrow> decimal_literal v w f e \<and> \<bar>e\<bar> \<le> 18"
proof
  assume l: "decimal_literal v w f e \<and> \<bar>e\<bar> \<le> 18"
  then obtain point ex where v: "w \<noteq> []" "list_all is_ascii_digit (w @ f)" "v = (w @ point) @ ex"
      "point = CHR ''.'' # f \<or> point = [] \<and> f = []"
      "ex = [] \<and> e = 0 \<or> (\<exists>c \<in> {CHR ''e'', CHR ''E''}. \<exists>s. ex = c # s \<and> parse_signed (- (2 ^ 31)) (2 ^ 31 - 1) s = Some e)"
    unfolding decimal_literal_def by auto
  let ?P = "\<lambda>c. c = CHR ''e'' \<or> c = CHR ''E''"
  have digits: "\<forall>c \<in> set w. is_ascii_digit c" "\<forall>c \<in> set f. is_ascii_digit c" using v(2) by (simp_all add: list_all_iff)
  have m: "\<forall>c \<in> set (w @ point). \<not> ?P c"
  proof
    fix c assume "c \<in> set (w @ point)"
    then have "is_ascii_digit c \<or> c = CHR ''.''" using v(4) digits by (elim disjE) auto
    then show "\<not> ?P c" using digit_no_sep[of c] by (elim disjE) simp_all
  qed
  have parts: "split_char (CHR ''.'') (w @ point) = w # (if point = [] then [] else [f])"
  proof -
    have n: "\<forall>c \<in> set w. c \<noteq> CHR ''.''" "\<forall>c \<in> set f. c \<noteq> CHR ''.''" using v(2) digit_no_sep by (auto simp: list_all_iff)
    have "split_on (\<lambda>c. c = CHR ''.'') (w @ CHR ''.'' # f) = [w] @ [f]"
      by (subst split_on_append_sep) (use n split_on_no_sep[of w "\<lambda>c. c = CHR ''.''"] split_on_no_sep[of f "\<lambda>c. c = CHR ''.''"] in simp_all)
    then show ?thesis using v(4) split_on_no_sep[of w "\<lambda>c. c = CHR ''.''"] n by (elim disjE) (simp_all add: split_char_def)
  qed
  have "decimal_exponent (split_on ?P v) = Inr e \<and> hd (split_on ?P v) = w @ point \<and> length (split_on ?P v) \<le> 2"
    using v(5)
  proof
    assume "ex = [] \<and> e = 0"
    then show ?thesis using split_on_no_sep[OF m] v(3) by (simp add: decimal_exponent_def)
  next
    assume "\<exists>c \<in> {CHR ''e'', CHR ''E''}. \<exists>s. ex = c # s \<and> parse_signed (- (2 ^ 31)) (2 ^ 31 - 1) s = Some e"
    then obtain c s where c: "?P c" "ex = c # s" "parse_signed (- (2 ^ 31)) (2 ^ 31 - 1) s = Some e" by blast
    have "split_on ?P v = [w @ point, s]"
      unfolding v(3) c(2) split_on_append_sep[of ?P, OF c(1)] split_on_no_sep[OF m]
      using split_on_no_sep[of s ?P] parse_signed_no_sep[OF c(3)] by simp
    then show ?thesis using c(3) by (simp add: decimal_exponent_def)
  qed
  then show "decimal_parts v = Inr (w, f, e)"
    using l v(1,2,4) parts by (auto simp: decimal_parts_def Let_def)
next
  let ?P = "\<lambda>c. c = CHR ''e'' \<or> c = CHR ''E''"
  assume "decimal_parts v = Inr (w, f, e)"
  then obtain m where m: "length (split_on ?P v) \<le> 2" "decimal_exponent (split_on ?P v) = Inr e" "\<bar>e\<bar> \<le> 18"
      "m = hd (split_on ?P v)" "length (split_char (CHR ''.'') m) \<le> 2" "w = hd (split_char (CHR ''.'') m)"
      "f = (case tl (split_char (CHR ''.'') m) of [] \<Rightarrow> [] | f # _ \<Rightarrow> f)" "w \<noteq> []" "list_all is_ascii_digit (w @ f)"
    by (auto simp: decimal_parts_def Let_def bind_check_ok abs_le_iff split: if_splits)
  obtain point where point: "m = w @ point" "point = CHR ''.'' # f \<or> point = [] \<and> f = []"
  proof (cases "split_char (CHR ''.'') m")
    case (Cons a rest)
    show ?thesis
    proof (cases rest)
      case Nil
      then show ?thesis using that[of "[]"] Cons m(6,7) split_on_one[of _ m w] by (simp add: split_char_def)
    next
      case (Cons b rest')
      then have "split_char (CHR ''.'') m = [w, f]" using \<open>split_char (CHR ''.'') m = a # rest\<close> m(5-7) by auto
      then show ?thesis using that[of "CHR ''.'' # f"] split_on_two[of "\<lambda>c. c = CHR ''.''" m w f] by (auto simp: split_char_def)
    qed
  qed (simp add: split_char_def)
  obtain ex where ex: "v = m @ ex" "ex = [] \<and> e = 0 \<or> (\<exists>c \<in> {CHR ''e'', CHR ''E''}. \<exists>s. ex = c # s \<and> parse_signed (- (2 ^ 31)) (2 ^ 31 - 1) s = Some e)"
  proof (cases "split_on ?P v")
    case (Cons a rest)
    show ?thesis
    proof (cases rest)
      case Nil
      then show ?thesis using that[of "[]"] Cons m(2,4) split_on_one[of ?P v m] by (simp add: decimal_exponent_def)
    next
      case (Cons b rest')
      then have s: "split_on ?P v = [m, b]" using \<open>split_on ?P v = a # rest\<close> m(1,4) by auto
      then obtain c where "?P c" "v = m @ c # b" using split_on_two[of ?P v m b] by blast
      then show ?thesis using that[of "c # b"] m(2) s by (auto simp: decimal_exponent_def ok_or_ok)
    qed
  qed simp
  have "v = w @ point @ ex" using ex(1) point(1) by simp
  then show "decimal_literal v w f e \<and> \<bar>e\<bar> \<le> 18"
    unfolding decimal_literal_def using m(3,8,9) point(2) ex(2) by blast
qed


lemma checked_i128_ok: "checked_i128 n = Inr m \<longleftrightarrow> m = n \<and> n < 2 ^ 127"
  by (auto simp: checked_i128_def)

lemma decimal_scaled_ok:
  "decimal_scaled n shift = Inr x \<longleftrightarrow>
     rat_of_nat x = rat_of_nat n * 10 powi shift \<and> (10 :: nat) ^ nat \<bar>shift\<bar> < 2 ^ 127 \<and> (shift \<ge> 0 \<longrightarrow> x < 2 ^ 127)"
proof (cases "shift \<ge> 0")
  case True
  then have p: "rat_of_nat n * 10 powi shift = rat_of_nat (n * 10 ^ nat shift)" by (simp add: power_int_def)
  have "decimal_scaled n shift = Inr x \<longleftrightarrow> (10 :: nat) ^ nat shift < 2 ^ 127 \<and> x = n * 10 ^ nat shift \<and> n * 10 ^ nat shift < 2 ^ 127"
    by (simp only: decimal_scaled_def if_P[OF True] bind_check_ok checked_i128_ok) blast
  then show ?thesis unfolding p of_nat_eq_iff using True by (simp only: abs_of_nonneg) blast
next
  case False
  let ?d = "10 ^ nat (- shift) :: nat"
  have p: "rat_of_nat n * 10 powi shift = rat_of_nat n / rat_of_nat ?d"
  proof -
    define k where "k = nat (- shift)"
    have "shift = - int k" using False by (simp add: k_def)
    then show ?thesis by (simp only: power_int_minus power_int_of_nat divide_inverse k_def[symmetric] of_nat_power of_nat_numeral minus_minus nat_int)
  qed
  have "rat_of_nat x = rat_of_nat n / rat_of_nat ?d \<longleftrightarrow> rat_of_nat (x * ?d) = rat_of_nat n" by (simp add: field_simps)
  also have "\<dots> \<longleftrightarrow> x * ?d = n" by (rule of_nat_eq_iff)
  also have "\<dots> \<longleftrightarrow> n mod ?d = 0 \<and> x = n div ?d" by (auto simp: mod_eq_0_iff_dvd)
  finally have "rat_of_nat x = rat_of_nat n * 10 powi shift \<longleftrightarrow> n mod ?d = 0 \<and> x = n div ?d" unfolding p .
  moreover have "decimal_scaled n shift = Inr x \<longleftrightarrow> ?d < 2 ^ 127 \<and> n mod ?d = 0 \<and> x = n div ?d"
  proof -
    have "(if n mod d \<noteq> 0 then Inl ''COST_DECIMAL_PRECISION'' else Inr (n div d)) = Inr x \<longleftrightarrow> n mod d = 0 \<and> x = n div d" for d
      by (cases "n mod d = 0") auto
    then show ?thesis by (simp only: decimal_scaled_def if_not_P[OF False] bind_check_ok checked_i128_ok conj_assoc simp_thms)
  qed
  moreover have "nat \<bar>shift\<bar> = nat (- shift)" using False by simp
  ultimately show ?thesis using False by metis
qed

text \<open>
  Costs are scaled exactly or not at all. A decimal is accepted iff it is an unsigned literal of the grammar whose
  value times the power of ten of the scale is an integer that fits; the result is that integer, without rounding.
\<close>

theorem decimal_fixed_is_exact:
  "decimal_fixed v places = Inr n \<longleftrightarrow>
     length v \<le> 64 \<and> places \<le> 12 \<and> 0 \<le> n \<and> n \<le> 2 ^ 63 - 1 \<and> (\<exists>w f e. decimal_literal v w f e \<and> \<bar>e\<bar> \<le> 18
       \<and> digits_value (w @ f) < 2 ^ 127 \<and> (10 :: nat) ^ nat \<bar>int places + e - int (length f)\<bar> < 2 ^ 127
       \<and> rat_of_int n = rat_of_nat (digits_value (w @ f)) * 10 powi (int places + e - int (length f)))"
proof -
  have sign: "v \<noteq> [] \<and> hd v \<noteq> CHR ''-'' \<and> hd v \<noteq> CHR ''+''" if "decimal_literal v w f e" for w f e
    using that by (cases w) (auto simp: decimal_literal_def is_ascii_digit_def)
  have fits: "x < 2 ^ 127" if "int x \<le> 2 ^ 63 - 1" for x
    using that by (simp add: nat_less_real_le)
  have result: "(\<exists>x. S = Inr x \<and> int x \<le> 2 ^ 63 - 1 \<and> n = int x) \<longleftrightarrow> 0 \<le> n \<and> n \<le> 2 ^ 63 - 1 \<and> S = Inr (nat n)" for S :: "nat check"
    by (cases "0 \<le> n") auto
  have "decimal_fixed v places = Inr n \<longleftrightarrow> length v \<le> 64 \<and> places \<le> 12 \<and> (\<exists>w f e. decimal_literal v w f e \<and> \<bar>e\<bar> \<le> 18
       \<and> digits_value (w @ f) < 2 ^ 127 \<and> (\<exists>x. decimal_scaled (digits_value (w @ f)) (int places + e - int (length f)) = Inr x
         \<and> int x \<le> 2 ^ 63 - 1 \<and> n = int x))"
  proof (cases "length v > 64 \<or> v = [] \<or> hd v = CHR ''-'' \<or> hd v = CHR ''+'' \<or> places > 12")
    case True
    then have "\<not> (length v \<le> 64 \<and> places \<le> 12 \<and> (\<exists>w f e. decimal_literal v w f e))" using sign by auto
    then show ?thesis unfolding decimal_fixed_def if_P[OF True] by blast
  next
    case False
    have last: "(if int x \<le> 2 ^ 63 - 1 then Inr (int x) else Inl ''COST_DECIMAL_RANGE'') = Inr n \<longleftrightarrow> int x \<le> 2 ^ 63 - 1 \<and> n = int x" for x
      by (cases "int x \<le> 2 ^ 63 - 1") auto
    have "length v \<le> 64" "places \<le> 12" using False by auto
    then show ?thesis unfolding decimal_fixed_def if_not_P[OF False] bind_check_ok split_paired_Ex prod.case decimal_parts_iff checked_i128_ok last
      by blast
  qed
  also have "\<dots> \<longleftrightarrow> length v \<le> 64 \<and> places \<le> 12 \<and> 0 \<le> n \<and> n \<le> 2 ^ 63 - 1 \<and> (\<exists>w f e. decimal_literal v w f e \<and> \<bar>e\<bar> \<le> 18
       \<and> digits_value (w @ f) < 2 ^ 127 \<and> decimal_scaled (digits_value (w @ f)) (int places + e - int (length f)) = Inr (nat n))"
    unfolding result by blast
  finally have accepted: "decimal_fixed v places = Inr n \<longleftrightarrow> length v \<le> 64 \<and> places \<le> 12 \<and> 0 \<le> n \<and> n \<le> 2 ^ 63 - 1
     \<and> (\<exists>w f e. decimal_literal v w f e \<and> \<bar>e\<bar> \<le> 18
       \<and> digits_value (w @ f) < 2 ^ 127 \<and> decimal_scaled (digits_value (w @ f)) (int places + e - int (length f)) = Inr (nat n))" .
  show ?thesis
  proof (cases "0 \<le> n \<and> n \<le> 2 ^ 63 - 1")
    case True
    then have "nat n < 2 ^ 127" using fits[of "nat n"] by simp
    then have "decimal_scaled d s = Inr (nat n) \<longleftrightarrow> (10 :: nat) ^ nat \<bar>s\<bar> < 2 ^ 127 \<and> rat_of_int n = rat_of_nat d * 10 powi s" for d s
      unfolding decimal_scaled_ok using True by auto
    then show ?thesis unfolding accepted by blast
  qed (use accepted in blast)
qed


section \<open>Cost summaries count every bucket once\<close>

definition bucket_ok :: "cost_bucket \<Rightarrow> bool" where
  "bucket_ok r \<longleftrightarrow> 0 \<le> cb_start r \<and> cb_start r < cb_end r \<and> 0 \<le> cb_nanos r"

definition buckets_apart :: "cost_bucket \<Rightarrow> cost_bucket \<Rightarrow> bool" where
  "buckets_apart a b \<longleftrightarrow> cb_end a \<le> cb_start b \<or> cb_end b \<le> cb_start a"

lemma buckets_apart_sym: "buckets_apart a b = buckets_apart b a"
  by (auto simp: buckets_apart_def)

lemma sorted_wrt_insort_key:
  assumes "\<And>a b. R a b = R b a"
  shows "sorted_wrt R (insort_key f x xs) \<longleftrightarrow> sorted_wrt R (x # xs)"
  by (induction xs) (use assms in \<open>auto simp: set_insort_key\<close>)

lemma sorted_wrt_sort_key:
  assumes "\<And>a b. R a b = R b a"
  shows "sorted_wrt R (sort_key f xs) \<longleftrightarrow> sorted_wrt R xs"
  by (induction xs) (simp_all add: sorted_wrt_insort_key[OF assms] del: sorted_wrt.simps(2), simp)

text \<open>Among buckets ordered by their start, apart neighbours are apart altogether.\<close>

lemma successively_apart:
  assumes "list_all bucket_ok rows" "sorted (map cb_start rows)"
  shows "successively (\<lambda>a b. cb_end a \<le> cb_start b) rows \<longleftrightarrow> sorted_wrt buckets_apart rows"
  using assms
proof (induction rows)
  case (Cons r rows)
  show ?case
  proof (cases rows)
    case (Cons r' rest)
    have later: "cb_start r' \<le> cb_start x \<and> cb_start r \<le> cb_start x \<and> bucket_ok x" if "x \<in> set rows" for x
      using that Cons.prems Cons by (auto simp: list_all_iff)
    have "sorted_wrt buckets_apart (r # rows) \<longleftrightarrow> cb_end r \<le> cb_start r' \<and> sorted_wrt buckets_apart rows"
    proof
      assume "sorted_wrt buckets_apart (r # rows)"
      then show "cb_end r \<le> cb_start r' \<and> sorted_wrt buckets_apart rows"
        using later[of r'] Cons Cons.prems(1) by (auto simp: buckets_apart_def bucket_ok_def)
    next
      assume "cb_end r \<le> cb_start r' \<and> sorted_wrt buckets_apart rows"
      then show "sorted_wrt buckets_apart (r # rows)" using later by (fastforce simp: buckets_apart_def)
    qed
    then show ?thesis using Cons.IH Cons.prems Cons by simp
  qed simp
qed simp

lemma cost_total_ok:
  assumes "sorted_wrt buckets_apart rows" "0 \<le> acc" "\<forall>r \<in> set rows. (cb_start r, cb_end r) \<notin> seen"
  shows "cost_total seen acc rows = Inr t \<longleftrightarrow>
    list_all bucket_ok rows \<and> t = acc + sum_list (map cb_nanos rows) \<and> (rows = [] \<or> t \<le> 2 ^ 63 - 1)"
  using assms
proof (induction rows arbitrary: seen acc)
  case (Cons r rows)
  have fits: "in_i64 (acc + cb_nanos r) \<longleftrightarrow> acc + cb_nanos r \<le> 2 ^ 63 - 1" if "bucket_ok r"
    using that Cons.prems(2) by (auto simp: in_i64_def bucket_ok_def)
  have rest: "cost_total (insert (cb_start r, cb_end r) seen) (acc + cb_nanos r) rows = Inr t \<longleftrightarrow> list_all bucket_ok rows
      \<and> t = acc + cb_nanos r + sum_list (map cb_nanos rows) \<and> (rows = [] \<or> t \<le> 2 ^ 63 - 1)" if "bucket_ok r"
    using Cons.prems that by (intro Cons.IH) (auto simp: buckets_apart_def bucket_ok_def)
  have sum: "0 \<le> sum_list (map cb_nanos rows)" if "list_all bucket_ok rows"
    using that by (intro sum_list_nonneg) (auto simp: bucket_ok_def list_all_iff)
  show ?case
  proof (cases "bucket_ok r")
    case True
    then have "\<not> (cb_start r < 0 \<or> cb_end r \<le> cb_start r \<or> cb_nanos r < 0)" "(cb_start r, cb_end r) \<notin> seen"
      using Cons.prems(3) by (auto simp: bucket_ok_def)
    then have "cost_total seen acc (r # rows) = Inr t \<longleftrightarrow> acc + cb_nanos r \<le> 2 ^ 63 - 1 \<and> list_all bucket_ok rows
        \<and> t = acc + cb_nanos r + sum_list (map cb_nanos rows) \<and> (rows = [] \<or> t \<le> 2 ^ 63 - 1)"
      using fits[OF True] rest[OF True] by (auto simp: checked_cost_def)
    then show ?thesis using True sum by (auto simp: algebra_simps)
  next
    case False
    then show ?thesis by (auto simp: bucket_ok_def)
  qed
qed auto

text \<open>
  A cost summary is given iff the buckets are valid, no two of them overlap in time and the exact total fits; the
  total then is the sum of all amounts, so that no spending is counted twice or lost.
\<close>

theorem cost_summary_is_exact:
  "cost_summary rows = Inr v \<longleftrightarrow> list_all bucket_ok rows \<and> sorted_wrt buckets_apart rows
     \<and> sum_list (map cb_nanos rows) \<le> 2 ^ 63 - 1 \<and> v = cost_report rows (sum_list (map cb_nanos rows))"
proof (cases "list_all bucket_ok rows")
  case True
  then have "successively (\<lambda>a b. cb_end a \<le> cb_start b) (sort_key cb_start rows) \<longleftrightarrow> sorted_wrt buckets_apart rows"
    using successively_apart[of "sort_key cb_start rows"] sorted_wrt_sort_key[of buckets_apart cb_start rows] buckets_apart_sym
    by (auto simp: list_all_iff)
  then show ?thesis using True cost_total_ok[of rows 0 "{}"] by (auto simp: cost_summary_def bind_check_ok)
next
  case False
  have "cost_total {} 0 rows \<noteq> Inr t" for t
  proof -
    have "cost_total seen acc rows = Inr t \<Longrightarrow> list_all bucket_ok rows" for seen acc
      by (induction rows arbitrary: seen acc) (auto simp: bucket_ok_def bind_check_ok split: if_splits)
    then show ?thesis using False by blast
  qed
  then show ?thesis using False by (auto simp: cost_summary_def bind_check_ok)
qed

end
