(* ===== verification/Report.thy ===== *)
theory Report
  imports Model_Policy Control F64
begin

text \<open>
  The reports of a snapshot (\<open>workstation-core/src/render.rs\<close>): the share report, the terminal report and the HTML
  report. The rendering of a path as text is an argument.
\<close>

section \<open>The share report\<close>

record share_root =
  sr_kind :: root_kind
  sr_coverage :: coverage
  sr_logical_entry_bytes :: "nat option"
  sr_skipped_count :: nat

record share_report =
  sh_schema_version :: string
  sh_product :: string
  sh_observed_at :: string
  sh_coverage :: coverage
  sh_roots :: "share_root list"
  sh_selected_process_count :: nat
  sh_process_coverage :: coverage
  sh_worktree_count :: nat
  sh_finding_codes :: "string list"
  sh_omitted :: "string list"

definition SCHEMA_VERSION :: string where "SCHEMA_VERSION = ''workstation.r0.v1''"

definition ALLOWED_CODES :: "string list" where
  "ALLOWED_CODES = [''disk.low_available_space'', ''storage.incomplete_coverage'', ''storage.observed_growth'']"

definition share_report_of :: "snapshot \<Rightarrow> share_report" where
  "share_report_of s =
     \<lparr>sh_schema_version = SCHEMA_VERSION, sh_product = ''workstation-r0'', sh_observed_at = snap_observed_at s,
      sh_coverage = snap_coverage s,
      sh_roots = map (\<lambda>r. \<lparr>sr_kind = root_kind (so_root r), sr_coverage = so_coverage r,
        sr_logical_entry_bytes = so_logical_entry_bytes r, sr_skipped_count = so_skipped_links_or_placeholders r\<rparr>) (snap_storage s),
      sh_selected_process_count = length (ps_selected (snap_processes s)), sh_process_coverage = ps_coverage (snap_processes s),
      sh_worktree_count = sum_list (map (length \<circ> wo_worktrees) (snap_workspaces s)),
      sh_finding_codes = filter (\<lambda>c. c \<in> set ALLOWED_CODES) (map fi_code (snap_findings s)),
      sh_omitted = [''paths'', ''project_and_root_names'', ''installation_and_process_ids'', ''command_lines'', ''raw_errors'',
        ''file_contents'', ''branch_names'']\<rparr>"

section \<open>Escaping\<close>

fun show_hex :: "nat \<Rightarrow> string" where
  "show_hex n = (if n < 10 then [char_of (48 + n)] else if n < 16 then [char_of (87 + n)] else show_hex (n div 16) @ show_hex (n mod 16))"

declare show_hex.simps [simp del]

definition unsafe_scalar :: "nat \<Rightarrow> bool" where
  "unsafe_scalar u \<longleftrightarrow> is_control u \<or> is_bidi_control u"

definition terminal_safe :: "string \<Rightarrow> string" where
  "terminal_safe s = concat (map (\<lambda>k. if unsafe_scalar (scalar k)
     then [CHR 0x5C, CHR ''u'', CHR 0x7B] @ show_hex (scalar k) @ [CHR 0x7D] else k) (utf8_split s))"

definition replace_char :: "char \<Rightarrow> string \<Rightarrow> string \<Rightarrow> string" where
  "replace_char c w s = concat (map (\<lambda>x. if x = c then w else [x]) s)"

definition html_escape :: "string \<Rightarrow> string" where
  "html_escape s = replace_char (CHR 0x27) ''&#39;'' (replace_char (CHR 0x22) ''&quot;''
     (replace_char (CHR ''>'') ''&gt;'' (replace_char (CHR ''<'') ''&lt;'' (replace_char (CHR ''&'') ''&amp;'' (terminal_safe s)))))"

section \<open>The terminal report\<close>

text \<open>A fixed number of decimals, rounded to nearest, ties to even.\<close>

definition show_fixed :: "nat \<Rightarrow> rat \<Rightarrow> string" where
  "show_fixed d q = (let k = nat (round_even (q * 10 ^ d)); r = show_nat (k mod 10 ^ d) in
     show_nat (k div 10 ^ d) @ ''.'' @ replicate (d - length r) (CHR ''0'') @ r)"

definition gib :: "nat \<Rightarrow> nat \<Rightarrow> string" where
  "gib d n = (case f_div (f_of_int (int n)) (f_of_int (1024 ^ 3)) of Finite _ v \<Rightarrow> show_fixed d v | _ \<Rightarrow> [])"

definition debug_coverage :: "coverage \<Rightarrow> string" where
  "debug_coverage c = (case c of Complete \<Rightarrow> ''Complete'' | Partial \<Rightarrow> ''Partial'' | Denied \<Rightarrow> ''Denied''
     | Unsupported \<Rightarrow> ''Unsupported'' | TimedOut \<Rightarrow> ''TimedOut'')"

definition debug_severity :: "severity \<Rightarrow> string" where
  "debug_severity v = (case v of Info \<Rightarrow> ''Info'' | Warning \<Rightarrow> ''Warning'' | Critical \<Rightarrow> ''Critical'')"

definition debug_option :: "nat option \<Rightarrow> string" where
  "debug_option x = (case x of None \<Rightarrow> ''None'' | Some n \<Rightarrow> ''Some('' @ show_nat n @ '')'')"

definition line :: "string list \<Rightarrow> string" where
  "line parts = concat parts @ [CHR 0x0A]"

definition disk_line :: "disk_observation \<Rightarrow> string" where
  "disk_line d = line [''DISK '', terminal_safe (disk_target d), '': '',
     (case disk_available_bytes d of None \<Rightarrow> ''available space unknown'' | Some n \<Rightarrow> gib 2 n @ '' GiB available''),
     '' ['', debug_coverage (disk_coverage d), '']'']"

definition storage_lines :: "(path_buf \<Rightarrow> string) \<Rightarrow> storage_observation \<Rightarrow> string" where
  "storage_lines show_path r = line [''  '', terminal_safe (root_id (so_root r)), '': '',
     (case so_logical_entry_bytes r of None \<Rightarrow> ''unknown'' | Some n \<Rightarrow> gib 3 n @ '' GiB''),
     '' ['', debug_coverage (so_coverage r), ''] skipped='', show_nat (so_skipped_links_or_placeholders r),
     '' errors='', show_nat (so_io_errors r), [CHR 0x0A], ''    '', terminal_safe (show_path (root_path (so_root r)))]"

definition process_line :: "process_observation \<Rightarrow> string" where
  "process_line p = line [''  '', terminal_safe (po_executable_name p), '' pid='', show_nat (po_pid p),
     '' private_commit='', debug_option (po_private_commit_bytes p), '' working_set='', debug_option (po_working_set_bytes p)]"

definition workspace_lines :: "workspace_observation \<Rightarrow> string" where
  "workspace_lines w = line [''  '', terminal_safe (wo_project_id w), '' ['', debug_coverage (wo_coverage w), '']'']
     @ concat (map (\<lambda>t. line [''    '', terminal_safe (wt_path t), '' [PROTECTED]'']) (wo_worktrees w))"

definition finding_line :: "finding \<Rightarrow> string" where
  "finding_line f = line [''  '', debug_severity (fi_severity f), '' '', terminal_safe (fi_code f), '': '',
     terminal_safe (fi_explanation f)]"

fun joined :: "string \<Rightarrow> string list \<Rightarrow> string" where
  "joined sep [] = []"
| "joined sep [x] = x"
| "joined sep (x # y # xs) = x @ sep @ joined sep (y # xs)"

definition human_report :: "(path_buf \<Rightarrow> string) \<Rightarrow> snapshot \<Rightarrow> string" where
  "human_report show_path s =
     line [''WORKSTATION R0 | observed '', terminal_safe (snap_observed_at s), '' | '', debug_coverage (snap_coverage s)]
     @ line [''Read-only snapshot. No cleanup or repairs were performed by this assessment.'', [CHR 0x0A]]
     @ concat (map disk_line (snap_disks s))
     @ line [[CHR 0x0A], ''REGISTERED STORAGE (entry-logical bytes; not physical allocation)'']
     @ concat (map (storage_lines show_path) (snap_storage s))
     @ line [[CHR 0x0A], ''PROCESSES: '', show_nat (length (ps_selected (snap_processes s))), '' selected ['',
         debug_coverage (ps_coverage (snap_processes s)), ''] '', [CHR 0xE2, CHR 0x80, CHR 0x94], '' all protected, ownership unknown'']
     @ concat (map process_line (ps_selected (snap_processes s)))
     @ line [[CHR 0x0A], ''WORKSPACES (registration only; content not assessed)'']
     @ concat (map workspace_lines (snap_workspaces s))
     @ line [[CHR 0x0A], ''FINDINGS'']
     @ concat (map finding_line (snap_findings s))
     @ (if snap_findings s = []
        then line [''  No findings in inspected scope; this is not whole-machine certification.''] else [])
     @ line [[CHR 0x0A], ''NOT INSPECTED: '', terminal_safe (joined '', '' (snap_not_inspected s))]
     @ line [''Snapshot saved: '', if snap_saved s then ''true'' else ''false'']"

section \<open>The HTML report\<close>

definition quoted :: "string \<Rightarrow> string" where
  "quoted s = CHR 0x22 # s @ [CHR 0x22]"

definition html_head :: string where
  "html_head = ''<!doctype html><html lang='' @ quoted ''en'' @ ''><meta charset='' @ quoted ''utf-8'' @ ''><meta name=''
     @ quoted ''viewport'' @ '' content='' @ quoted ''width=device-width,initial-scale=1'' @ ''><meta http-equiv=''
     @ quoted ''Content-Security-Policy'' @ '' content=''
     @ quoted (''default-src '' @ [CHR 0x27] @ ''none'' @ [CHR 0x27] @ ''; style-src '' @ [CHR 0x27] @ ''unsafe-inline'' @ [CHR 0x27]
         @ ''; base-uri '' @ [CHR 0x27] @ ''none'' @ [CHR 0x27] @ ''; form-action '' @ [CHR 0x27] @ ''none'' @ [CHR 0x27])
     @ ''><title>Workstation R0 observation</title><style>body{font:16px/1.6 system-ui,sans-serif;max-width:1100px;margin:3rem auto;padding:0 1.5rem;background:#fafafa;color:#202020}pre{white-space:pre-wrap;overflow-wrap:anywhere;border:1px solid #ddd;padding:1.5rem;background:white}small{color:#555}</style><h1>Workstation R0</h1><p>Cached observation, not live monitoring. Local/private report; use <code>report --share</code> before sharing.</p><pre>''"

definition html_tail :: string where
  "html_tail = ''</pre><small>No external assets. No scripts. No repair actions.</small></html>''"

definition html_report :: "(path_buf \<Rightarrow> string) \<Rightarrow> snapshot \<Rightarrow> string" where
  "html_report show_path s = html_head @ html_escape (human_report show_path s) @ html_tail"

section \<open>What a share report discloses\<close>

text \<open>A snapshot with everything blanked that a share report may not depend on.\<close>

definition blank_root :: "root \<Rightarrow> root" where
  "blank_root r = r\<lparr>root_id := [], root_path := []\<rparr>"

definition blank_storage :: "storage_observation \<Rightarrow> storage_observation" where
  "blank_storage r = r\<lparr>so_root := blank_root (so_root r), so_observed_at := [], so_allocated_bytes := None, so_files := 0,
     so_directories := 0, so_visited_entries := 0, so_io_errors := 0, so_notes := [], so_delta_since_previous_complete_bytes := None\<rparr>"

definition blank_process :: process_observation where
  "blank_process = \<lparr>po_pid = 0, po_parent_pid = 0, po_birth = None, po_executable_name = [], po_working_set_bytes = None,
     po_private_commit_bytes = None, po_coverage = Partial, po_ownership = [], po_disposition = []\<rparr>"

definition blank_worktree :: worktree where
  "blank_worktree = \<lparr>wt_path = [], wt_head = None, wt_branch = None, wt_detached = False, wt_bare = False, wt_locked = False,
     wt_prunable = False, wt_disposition = [], wt_content_coverage = Partial\<rparr>"

definition blank_workspace :: "workspace_observation \<Rightarrow> workspace_observation" where
  "blank_workspace w = \<lparr>wo_project_id = [], wo_observed_at = [], wo_coverage = Partial,
     wo_worktrees = map (\<lambda>_. blank_worktree) (wo_worktrees w), wo_notes = []\<rparr>"

definition blank_finding :: "finding \<Rightarrow> finding" where
  "blank_finding f = \<lparr>fi_code = fi_code f, fi_severity = Info, fi_target_id = None, fi_explanation = [], fi_next_action = [],
     fi_repair_available = False\<rparr>"

definition anonymised :: "snapshot \<Rightarrow> snapshot" where
  "anonymised s = s\<lparr>snap_schema_version := [], snap_run_id := [], snap_installation_id := [], snap_platform := [],
     snap_storage := map blank_storage (snap_storage s), snap_disks := [],
     snap_processes := \<lparr>ps_observed_at = [], ps_coverage = ps_coverage (snap_processes s), ps_enumerated_count = 0,
       ps_selected = map (\<lambda>_. blank_process) (ps_selected (snap_processes s)), ps_notes = []\<rparr>,
     snap_workspaces := map blank_workspace (snap_workspaces s),
     snap_findings := map blank_finding (filter (\<lambda>f. fi_code f \<in> set ALLOWED_CODES) (snap_findings s)),
     snap_not_inspected := [], snap_saved := False\<rparr>"

text \<open>
  A share report is built from an allow-list: it is the same when every path, name, identifier, note, explanation,
  command and branch of the snapshot is blanked and all other findings are dropped, and it names no other finding code.
\<close>

theorem share_report_keeps_to_its_allowlist:
  "share_report_of (anonymised s) = share_report_of s \<and> list_all (\<lambda>c. c \<in> set ALLOWED_CODES) (sh_finding_codes (share_report_of s))"
proof
  have "map (length \<circ> wo_worktrees) (map blank_workspace ws) = map (length \<circ> wo_worktrees) ws" for ws
    by (simp add: blank_workspace_def)
  moreover have "filter (\<lambda>c. c \<in> set ALLOWED_CODES) (map fi_code (map blank_finding (filter (\<lambda>f. fi_code f \<in> set ALLOWED_CODES) fs)))
      = filter (\<lambda>c. c \<in> set ALLOWED_CODES) (map fi_code fs)" for fs
    by (induction fs) (simp_all add: blank_finding_def)
  ultimately show "share_report_of (anonymised s) = share_report_of s"
    unfolding share_report_of_def by (simp add: anonymised_def blank_storage_def blank_root_def comp_def blank_workspace_def)
  show "list_all (\<lambda>c. c \<in> set ALLOWED_CODES) (sh_finding_codes (share_report_of s))"
    by (simp add: share_report_of_def list_all_iff)
qed

section \<open>Escaped text is inert\<close>

definition starts :: "string \<Rightarrow> bool" where
  "starts k \<longleftrightarrow> k \<noteq> [] \<and> \<not> is_continuation (hd k)"

definition piece :: "string \<Rightarrow> bool" where
  "piece k \<longleftrightarrow> k \<noteq> [] \<and> list_all is_continuation (tl k)"

lemma takeWhile_pieces:
  "list_all is_continuation k \<Longrightarrow> list_all starts ks \<Longrightarrow>
   takeWhile is_continuation (k @ concat ks) = k \<and> dropWhile is_continuation (k @ concat ks) = concat ks"
proof (induction k)
  case Nil
  then show ?case
  proof (cases ks)
    case (Cons p ps)
    with Nil obtain c cs where "p = c # cs" "\<not> is_continuation c" by (cases p) (auto simp: starts_def)
    then show ?thesis using Cons by simp
  qed simp
qed simp

lemma utf8_split_pieces: "list_all piece ks \<Longrightarrow> list_all starts (tl ks) \<Longrightarrow> utf8_split (concat ks) = ks"
proof (induction ks)
  case (Cons p ps)
  obtain c k where p: "p = c # k" "list_all is_continuation k" using Cons.prems(1) by (cases p) (auto simp: piece_def)
  have "utf8_split (concat ps) = ps" using Cons by (cases ps) auto
  then show ?case using takeWhile_pieces[of k ps] Cons.prems(2) p by simp
qed simp

lemma utf8_split_shape: "list_all piece (utf8_split s) \<and> list_all starts (tl (utf8_split s))"
proof (induction s rule: utf8_split.induct)
  case (2 c cs)
  let ?r = "dropWhile is_continuation cs"
  have "list_all starts (utf8_split ?r)"
  proof (cases ?r)
    case (Cons d ds)
    then have "\<not> is_continuation d" by (simp add: dropWhile_eq_Cons_conv)
    then show ?thesis using 2 Cons by (simp add: starts_def[of "d # takeWhile is_continuation ds"])
  next
    case Nil
    show ?thesis unfolding Nil by simp
  qed
  then show ?case using 2 by (auto simp: piece_def list_all_iff dest: set_takeWhileD)
qed simp

definition plain_ascii :: "char \<Rightarrow> bool" where
  "plain_ascii c \<longleftrightarrow> 32 \<le> byte c \<and> byte c < 127"

lemma plain_ascii_safe: "plain_ascii c \<Longrightarrow> starts [c] \<and> piece [c] \<and> \<not> unsafe_scalar (scalar [c])"
  by (auto simp: plain_ascii_def starts_def piece_def unsafe_scalar_def is_continuation_def is_control_def is_bidi_control_def)

lemma show_hex_plain: "list_all plain_ascii (show_hex n)"
proof (induction n rule: show_hex.induct)
  case (1 n)
  have "plain_ascii (char_of (48 + n))" if "n < 10" using that by (simp add: plain_ascii_def)
  moreover have "plain_ascii (char_of (87 + n))" if "n < 16" using that by (simp add: plain_ascii_def)
  ultimately show ?case using 1 by (subst show_hex.simps) simp
qed

definition safe_pieces :: "string \<Rightarrow> string list" where
  "safe_pieces k = (if unsafe_scalar (scalar k)
     then map (\<lambda>c. [c]) ([CHR 0x5C, CHR ''u'', CHR 0x7B] @ show_hex (scalar k) @ [CHR 0x7D]) else [k])"

lemma safe_pieces_ok:
  assumes "piece k"
  shows "list_all piece (safe_pieces k)" "list_all starts (tl (safe_pieces k))" "starts k \<Longrightarrow> list_all starts (safe_pieces k)"
    "list_all (\<lambda>p. \<not> unsafe_scalar (scalar p)) (safe_pieces k)"
proof -
  have "list_all plain_ascii ([CHR 0x5C, CHR ''u'', CHR 0x7B] @ show_hex (scalar k) @ [CHR 0x7D])"
    using show_hex_plain by (simp add: plain_ascii_def)
  then show "list_all piece (safe_pieces k)" "list_all starts (tl (safe_pieces k))" "starts k \<Longrightarrow> list_all starts (safe_pieces k)"
    "list_all (\<lambda>p. \<not> unsafe_scalar (scalar p)) (safe_pieces k)"
    using assms plain_ascii_safe unfolding safe_pieces_def
    by (simp_all add: list_all_iff unsafe_scalar_def is_control_def is_bidi_control_def)
qed

lemma terminal_safe_pieces: "utf8_split (terminal_safe s) = concat (map safe_pieces (utf8_split s))"
proof -
  have "terminal_safe s = concat (concat (map safe_pieces (utf8_split s)))"
  proof -
    have "concat (safe_pieces k) = (if unsafe_scalar (scalar k) then [CHR 0x5C, CHR ''u'', CHR 0x7B] @ show_hex (scalar k) @ [CHR 0x7D] else k)" for k
      by (simp add: safe_pieces_def)
    then have "terminal_safe s = concat (map (\<lambda>k. concat (safe_pieces k)) (utf8_split s))" by (simp add: terminal_safe_def)
    also have "concat (map (\<lambda>k. concat (safe_pieces k)) ks) = concat (concat (map safe_pieces ks))" for ks
      by (induction ks) simp_all
    finally show ?thesis .
  qed
  moreover have "list_all piece (concat (map safe_pieces ks)) \<and> list_all starts (tl (concat (map safe_pieces ks)))
     \<and> (list_all starts ks \<longrightarrow> list_all starts (concat (map safe_pieces ks)))" if "list_all piece ks" "list_all starts (tl ks)" for ks
    using that
  proof (induction ks)
    case (Cons k ks)
    then have "list_all starts (concat (map safe_pieces ks))" by (cases ks) auto
    moreover have "safe_pieces k \<noteq> []" by (simp add: safe_pieces_def)
    ultimately show ?case using safe_pieces_ok[of k] Cons by (cases ks) (auto simp: list_all_append)
  qed simp
  ultimately show ?thesis using utf8_split_pieces utf8_split_shape by metis
qed

lemma terminal_safe_clean: "list_all (\<lambda>u. \<not> unsafe_scalar u) (chars (terminal_safe s))"
  using safe_pieces_ok(4) utf8_split_shape[of s] by (simp add: chars_def terminal_safe_pieces list_all_iff) blast

definition entity_of :: "char \<Rightarrow> string" where
  "entity_of c = (if c = CHR ''&'' then ''&amp;'' else if c = CHR ''<'' then ''&lt;'' else if c = CHR ''>'' then ''&gt;''
     else if c = CHR 0x22 then ''&quot;'' else if c = CHR 0x27 then ''&#39;'' else [c])"

lemma replace_char_concat: "replace_char c w (concat (map f s)) = concat (map (\<lambda>x. replace_char c w (f x)) s)"
  by (induction s) (simp_all add: replace_char_def)

lemma html_escape_chars: "html_escape s = concat (map entity_of (terminal_safe s))"
proof -
  have "replace_char (CHR 0x27) ''&#39;'' (replace_char (CHR 0x22) ''&quot;'' (replace_char (CHR ''>'') ''&gt;''
      (replace_char (CHR ''<'') ''&lt;'' (replace_char (CHR ''&'') ''&amp;'' [c])))) = entity_of c" for c
    by (simp add: replace_char_def entity_of_def)
  moreover have "t = concat (map (\<lambda>c. [c]) t)" for t :: string by simp
  ultimately show ?thesis unfolding html_escape_def by (metis (no_types, lifting) replace_char_concat map_cong)
qed

text \<open>Text in which a browser sees no tag, no attribute and no reference but the five escapes.\<close>

definition markup_free :: "string \<Rightarrow> bool" where
  "markup_free t \<longleftrightarrow> list_all (\<lambda>c. c \<notin> set [CHR ''<'', CHR ''>'', CHR 0x22, CHR 0x27]) t
     \<and> (\<forall>a b. t = a @ CHR ''&'' # b \<longrightarrow>
          list_ex (\<lambda>e. prefix e (CHR ''&'' # b)) [''&amp;'', ''&lt;'', ''&gt;'', ''&quot;'', ''&#39;''])"

lemma entities_markup_free: "markup_free (concat (map entity_of t))"
proof (induction t)
  case (Cons c t)
  have "list_all (\<lambda>c. c \<notin> set [CHR ''<'', CHR ''>'', CHR 0x22, CHR 0x27]) (entity_of c)" by (simp add: entity_of_def)
  moreover have "list_ex (\<lambda>e. prefix e (CHR ''&'' # b)) [''&amp;'', ''&lt;'', ''&gt;'', ''&quot;'', ''&#39;'']"
    if split: "entity_of c @ concat (map entity_of t) = a @ CHR ''&'' # b" for a b
  proof (cases "length (entity_of c) \<le> length a")
    case True
    then obtain a' where "concat (map entity_of t) = a' @ CHR ''&'' # b"
      using split by (metis append_eq_append_conv_if append_take_drop_id)
    then show ?thesis using Cons.IH by (simp add: markup_free_def)
  next
    case False
    then obtain a' where "entity_of c = a @ CHR ''&'' # a'" "b = a' @ concat (map entity_of t)"
      using split by (auto simp: append_eq_append_conv2 Cons_eq_append_conv append_eq_Cons_conv)
    moreover from this(1) have "a = []" by (auto simp: entity_of_def Cons_eq_append_conv split: if_splits)
    ultimately show ?thesis by (auto simp: entity_of_def split: if_splits)
  qed
  ultimately show ?case using Cons.IH by (simp add: markup_free_def)
qed (simp add: markup_free_def)

text \<open>
  C39: Nothing a snapshot contains reaches the HTML report as markup: between the fixed head and tail stands escaped text
  without a tag, a quote or a reference other than the five escapes; and text made safe for a terminal holds no control
  character and no bidirectional override.
\<close>

theorem html_report_is_inert:
  "(\<exists>body. html_report show_path s = html_head @ body @ html_tail \<and> markup_free body)
   \<and> list_all (\<lambda>u. \<not> is_control u \<and> \<not> is_bidi_control u) (chars (terminal_safe t))"
  using entities_markup_free terminal_safe_clean[of t] unfolding html_report_def html_escape_chars unsafe_scalar_def by auto

end
