(* ===== verification/Journal_Archive.thy ===== *)
theory Journal_Archive
  imports Control Json "HOL-Library.Product_Lexorder"
begin

text \<open>
  The effect journal and its archive: plans, runs and steps as \<open>integration_store.rs\<close> writes them, with the text of their
  payloads, and the archiving of finished journals into pack files (\<open>workstation-platform/src/journal_archive.rs\<close>):
  hydration, selection, archiving, backup and restore. The JSON texts of packs, markers and payloads, their parsers, the
  digest and the outcome of a file write are arguments.
\<close>

section \<open>State\<close>

record entry =
  en_kind :: string
  en_key :: string
  en_digest :: string
  en_value :: string

record pack =
  pk_schema :: nat
  pk_project :: string
  pk_created :: int
  pk_entries :: "entry list"

record archive_codec =
  ac_parse :: "string \<Rightarrow> int json option"
  ac_show :: "int json \<Rightarrow> string"
  ac_sha :: "string \<Rightarrow> string"
  ac_entries_text :: "entry list \<Rightarrow> string"
  ac_entry_len :: "entry \<Rightarrow> nat"
  ac_pack_text :: "pack \<Rightarrow> string"
  ac_read_pack :: "string \<Rightarrow> pack option"

record journal_plan =
  jp_id :: string
  jp_project :: string
  jp_environment :: string
  jp_policy :: string
  jp_digest :: string
  jp_created :: int
  jp_expires :: int
  jp_payload :: string

record journal_run =
  jr_id :: string
  jr_plan :: string
  jr_state :: string
  jr_started :: int
  jr_finished :: "int option"
  jr_error :: "string option"
  jr_receipt :: "string option"

record journal_step =
  js_run :: string
  js_seq :: int
  js_name :: string
  js_status :: string
  js_at :: int
  js_payload :: string

record archive_row =
  ja_id :: string
  ja_project :: string
  ja_file :: string
  ja_digest :: string
  ja_bytes :: int
  ja_records :: int
  ja_created :: int

record archive_ref =
  ar_kind :: string
  ar_key :: string
  ar_archive :: string
  ar_digest :: string

text \<open>The files are those of the archive directory, by name.\<close>

record journal =
  jo_version :: int
  jo_projects :: "string list"
  jo_environments :: "(string \<times> string) list"
  jo_plans :: "journal_plan list"
  jo_runs :: "journal_run list"
  jo_steps :: "journal_step list"
  jo_archives :: "archive_row list"
  jo_refs :: "archive_ref list"
  jo_files :: "(string \<times> string) list"

definition PACK_LIMIT :: nat where "PACK_LIMIT = 8 * 1024 * 1024"

definition ARCHIVE_LIMIT :: nat where "ARCHIVE_LIMIT = 64 * 1024 * 1024"

definition archive_rejected :: string where "archive_rejected = ''ARCHIVE_DATABASE_REJECTED''"

definition journal_rejected :: string where "journal_rejected = ''INTEGRATION_DATABASE_REJECTED''"

definition require_v3 :: "journal \<Rightarrow> unit check" where
  "require_v3 st = reject (jo_version st \<notin> {3, 4, 5}) ''INTEGRATION_UPGRADE_REQUIRED''"

definition require_v4 :: "journal \<Rightarrow> unit check" where
  "require_v4 st = reject (jo_version st \<notin> {4, 5}) ''OPERATIONS_UPGRADE_REQUIRED''"

section \<open>Hydration\<close>

text \<open>Reading a file of the archive directory; \<open>ok\<close> is the check of its path for redirections.\<close>

definition read_bytes :: "(string \<Rightarrow> unit check) \<Rightarrow> (string \<times> string) list \<Rightarrow> string \<Rightarrow> string check" where
  "read_bytes ok files name = bind_check (ok name) (\<lambda>_. bind_check (ok_or (map_of files name) ''PATH_UNAVAILABLE'') (\<lambda>bytes.
     if length bytes > PACK_LIMIT then Inl ''ARCHIVE_SIZE_OR_TYPE'' else Inr bytes))"

definition fixed_name :: "string \<Rightarrow> unit check" where
  "fixed_name s = reject (length s > 80 \<or> \<not> suffix ''.json'' s
     \<or> \<not> list_all (\<lambda>b. is_ascii_alphanumeric b \<or> b = CHR ''-'' \<or> b = CHR ''.'') s) ''ARCHIVE_FILENAME_UNSAFE''"

definition archive_of :: "journal \<Rightarrow> string \<Rightarrow> string \<Rightarrow> (archive_ref \<times> archive_row) option" where
  "archive_of st kind key = Option.bind (find (\<lambda>r. ar_kind r = kind \<and> ar_key r = key) (jo_refs st)) (\<lambda>r.
     map_option (Pair r) (find (\<lambda>a. ja_id a = ar_archive r) (jo_archives st)))"

definition pack_value :: "archive_codec \<Rightarrow> pack \<Rightarrow> string \<Rightarrow> string \<Rightarrow> string \<Rightarrow> string check" where
  "pack_value J p kind key digest = (case filter (\<lambda>e. en_kind e = kind \<and> en_key e = key) (pk_entries p) of
     [e] \<Rightarrow> if en_digest e \<noteq> digest \<or> ac_sha J (en_value e) \<noteq> digest then Inl ''ARCHIVE_ENTRY_CORRUPT'' else Inr (en_value e)
   | _ \<Rightarrow> Inl ''ARCHIVE_ENTRY_AMBIGUOUS'')"

definition hydrate_from ::
    "archive_codec \<Rightarrow> (string \<Rightarrow> unit check) \<Rightarrow> (string \<times> string) list \<Rightarrow> archive_row \<Rightarrow> string \<Rightarrow> string \<Rightarrow> string \<Rightarrow> string check" where
  "hydrate_from J ok files a kind key digest =
     bind_check (fixed_name (ja_file a)) (\<lambda>_.
     bind_check (read_bytes ok files (ja_file a)) (\<lambda>bytes.
       if int (length bytes) \<noteq> ja_bytes a \<or> ac_sha J bytes \<noteq> ja_digest a then Inl ''ARCHIVE_CHECKSUM_MISMATCH''
       else bind_check (ok_or (ac_read_pack J bytes) ''ARCHIVE_FORMAT_INVALID'') (\<lambda>p.
         if pk_schema p \<noteq> 1 \<or> pk_project p \<noteq> ja_project a \<or> length (pk_entries p) > 10000 then Inl ''ARCHIVE_FORMAT_LIMIT''
         else pack_value J p kind key digest)))"

definition hydrate_journal ::
    "archive_codec \<Rightarrow> (string \<Rightarrow> unit check) \<Rightarrow> journal \<Rightarrow> string \<Rightarrow> string \<Rightarrow> string \<Rightarrow> string check" where
  "hydrate_journal J ok st kind key current =
     bind_check (ok_or (ac_parse J current) ''JOURNAL_JSON_INVALID'') (\<lambda>v.
     case json_get v ''workstation_archive'' of
       None \<Rightarrow> Inr current
     | Some marker \<Rightarrow>
         bind_check (checks [require_v4 st, reject (kind \<notin> set [''plan'', ''receipt'', ''step'']) ''ARCHIVE_KIND_INVALID'']) (\<lambda>_.
         bind_check (ok_or (json_str_at marker ''id'') ''ARCHIVE_MARKER_INVALID'') (\<lambda>i.
         bind_check (ok_or (json_str_at marker ''sha256'') ''ARCHIVE_MARKER_INVALID'') (\<lambda>digest.
         bind_check (ok_or (archive_of st kind key) archive_rejected) (\<lambda>(r, a).
           if ja_bytes a < 0 then Inl ''ARCHIVE_BYTE_COUNT_INVALID''
           else if ja_id a \<noteq> i \<or> ar_digest r \<noteq> digest then Inl ''ARCHIVE_REFERENCE_MISMATCH''
           else hydrate_from J ok (jo_files st) a kind key digest)))))"

definition archive_inventory :: "journal \<Rightarrow> string \<Rightarrow> int json check" where
  "archive_inventory st project = bind_check (require_v4 st) (\<lambda>_.
     let rows = take 129 (sort_key (\<lambda>a. - ja_created a) (filter (\<lambda>a. ja_project a = project) (jo_archives st))) in
     if length rows > 128 then Inl ''ARCHIVE_QUERY_LIMIT''
     else bind_check (check_all (\<lambda>a. checks [reject (ja_bytes a < 0) ''ARCHIVE_BYTE_COUNT_INVALID'',
         reject (ja_records a < 0) ''ARCHIVE_RECORD_COUNT_INVALID'']) rows) (\<lambda>_.
       Inr (JObj [(''archives'', JArr (map (\<lambda>a. JObj [(''bytes'', JNum (ja_bytes a)), (''created_at'', JNum (ja_created a)),
             (''file'', JStr (ja_file a)), (''id'', JStr (ja_id a)), (''records'', JNum (ja_records a)), (''sha256'', JStr (ja_digest a))]) rows)),
           (''automatic_deletion'', JBool False), (''database_bytes_freed'', JStr ''reusable_pages_not_guaranteed_OS_reclamation''),
           (''max_archive_bytes'', JNum (int ARCHIVE_LIMIT))])))"

section \<open>The effect journal\<close>

text \<open>\<open>max_seq\<close> is SQL's \<open>COALESCE(MAX(seq),0)\<close>.\<close>

definition max_seq :: "journal \<Rightarrow> string \<Rightarrow> int" where
  "max_seq st run = (case map js_seq (filter (\<lambda>s. js_run s = run) (jo_steps st)) of [] \<Rightarrow> 0 | q # qs \<Rightarrow> fold max qs q)"

definition find_run :: "journal \<Rightarrow> string \<Rightarrow> journal_run option" where
  "find_run st i = find (\<lambda>r. jr_id r = i) (jo_runs st)"

definition effect_step :: "int \<Rightarrow> string \<Rightarrow> string \<Rightarrow> string \<Rightarrow> string \<Rightarrow> journal \<Rightarrow> journal check" where
  "effect_step at_time run name status payload st =
     bind_check (checks [control_text name 128, reject (length payload > 32768) ''STEP_SIZE_LIMIT'']) (\<lambda>_.
     bind_check (ok_or (find_run st run) journal_rejected) (\<lambda>r.
       if jr_state r \<noteq> ''running'' then Inl ''EXECUTION_NOT_RUNNING''
       else if status \<notin> set [''intent'', ''completed'', ''failed'', ''indeterminate''] then Inl journal_rejected
       else Inr (st\<lparr>jo_steps := jo_steps st @ [\<lparr>js_run = run, js_seq = max_seq st run + 1, js_name = name, js_status = status,
              js_at = at_time, js_payload = payload\<rparr>]\<rparr>)))"

section \<open>Selection\<close>

definition push_bounded :: "archive_codec \<Rightarrow> entry list \<times> nat \<Rightarrow> entry \<Rightarrow> (entry list \<times> nat) check" where
  "push_bounded J acc e = (case acc of (records, used) \<Rightarrow>
     if length records \<ge> 10000 then Inl ''ARCHIVE_RECORD_BUDGET''
     else let nxt = used + (ac_entry_len J e + 1) in
       if nxt > PACK_LIMIT - 4096 then Inl ''ARCHIVE_TOO_LARGE_REDUCE_LIMIT'' else Inr (records @ [e], nxt))"

definition entry_of :: "archive_codec \<Rightarrow> string \<Rightarrow> string \<Rightarrow> string \<Rightarrow> entry" where
  "entry_of J kind key value = \<lparr>en_kind = kind, en_key = key, en_digest = ac_sha J value, en_value = value\<rparr>"

text \<open>The finished runs of a project older than the cutoff whose plan is not archived, oldest first.\<close>

definition terminal_state :: "string \<Rightarrow> bool" where
  "terminal_state s \<longleftrightarrow> s \<in> set [''succeeded'', ''failed'', ''cancelled'']"

definition terminal_runs :: "journal \<Rightarrow> string \<Rightarrow> int \<Rightarrow> nat \<Rightarrow> (journal_plan \<times> journal_run) list" where
  "terminal_runs st project before limit = take limit (sort_key (\<lambda>(_, r). (case jr_finished r of None \<Rightarrow> 0 | Some t \<Rightarrow> t, jr_id r))
     (filter (\<lambda>(p, r). jp_project p = project \<and> terminal_state (jr_state r)
         \<and> (case jr_finished r of None \<Rightarrow> False | Some t \<Rightarrow> t < before)
         \<and> \<not> list_ex (\<lambda>x. ar_kind x = ''plan'' \<and> ar_key x = jp_id p) (jo_refs st))
       (concat (map (\<lambda>p. map (Pair p) (filter (\<lambda>r. jr_plan r = jp_id p) (jo_runs st))) (jo_plans st)))))"

fun push_runs :: "archive_codec \<Rightarrow> (journal_plan \<times> journal_run) list \<Rightarrow> entry list \<times> nat \<Rightarrow> (entry list \<times> nat) check" where
  "push_runs J [] acc = Inr acc"
| "push_runs J ((p, r) # rest) acc =
     bind_check (push_bounded J acc (entry_of J ''plan'' (jp_id p) (jp_payload p))) (\<lambda>acc1.
     bind_check (case jr_receipt r of None \<Rightarrow> Inr acc1 | Some t \<Rightarrow> push_bounded J acc1 (entry_of J ''receipt'' (jr_id r) t))
       (push_runs J rest))"

definition step_key :: "string \<Rightarrow> int \<Rightarrow> string" where
  "step_key run sq = run @ '':'' @ show_int sq"

fun push_steps :: "archive_codec \<Rightarrow> nat \<Rightarrow> journal_step list \<Rightarrow> entry list \<times> nat \<Rightarrow> (entry list \<times> nat) check" where
  "push_steps J n [] acc = Inr acc"
| "push_steps J n (s # rest) acc =
     (if n + 1 > 1000 then Inl ''ARCHIVE_RECORD_BUDGET''
      else bind_check (push_bounded J acc (entry_of J ''step'' (step_key (js_run s) (js_seq s)) (js_payload s)))
        (push_steps J (n + 1) rest))"

definition run_steps :: "journal \<Rightarrow> string \<Rightarrow> journal_step list" where
  "run_steps st run = sort_key js_seq (filter (\<lambda>s. js_run s = run) (jo_steps st))"

fun push_all_steps :: "archive_codec \<Rightarrow> journal \<Rightarrow> string list \<Rightarrow> entry list \<times> nat \<Rightarrow> (entry list \<times> nat) check" where
  "push_all_steps J st [] acc = Inr acc"
| "push_all_steps J st (run # runs) acc =
     bind_check (push_steps J 0 (take 1001 (run_steps st run)) acc) (push_all_steps J st runs)"

definition terminal_records :: "archive_codec \<Rightarrow> int \<Rightarrow> journal \<Rightarrow> string \<Rightarrow> int \<Rightarrow> nat \<Rightarrow> entry list check" where
  "terminal_records J now st project before limit =
     bind_check (checks [require_v4 st,
       reject (\<not> (1 \<le> limit \<and> limit \<le> 100) \<or> before < 0 \<or> before > now - 3600) ''ARCHIVE_CUTOFF_OR_LIMIT'']) (\<lambda>_.
     let runs = terminal_runs st project before limit in
     bind_check (push_runs J runs ([], 0)) (\<lambda>acc.
     bind_check (push_all_steps J st (map (jr_id \<circ> snd) runs) acc) (\<lambda>(records, _). Inr records)))"

definition journal_selection_digest :: "archive_codec \<Rightarrow> int \<Rightarrow> journal \<Rightarrow> string \<Rightarrow> int \<Rightarrow> nat \<Rightarrow> string check" where
  "journal_selection_digest J now st project before limit =
     bind_check (terminal_records J now st project before limit) (\<lambda>records. Inr (ac_sha J (ac_entries_text J records)))"

section \<open>Archiving\<close>

definition archive_marker :: "string \<Rightarrow> string \<Rightarrow> int json" where
  "archive_marker i digest = JObj [(''workstation_archive'', JObj [(''id'', JStr i), (''sha256'', JStr digest)])]"

text \<open>The condition under which the triggers of schema 4 let a payload be replaced: by a locator of its own entry.\<close>

definition locates :: "archive_codec \<Rightarrow> journal \<Rightarrow> string \<Rightarrow> string \<Rightarrow> string \<Rightarrow> string option \<Rightarrow> bool" where
  "locates J st kind key text digest \<longleftrightarrow> (case Option.bind (ac_parse J text) (\<lambda>v. json_get v ''workstation_archive'') of
     None \<Rightarrow> False
   | Some marker \<Rightarrow> list_ex (\<lambda>r. ar_kind r = kind \<and> ar_key r = key \<and> json_str_at marker ''id'' = Some (ar_archive r)
        \<and> json_str_at marker ''sha256'' = Some (ar_digest r) \<and> (digest = None \<or> digest = Some (ar_digest r))) (jo_refs st))"

definition rsplit_colon :: "string \<Rightarrow> (string \<times> string) option" where
  "rsplit_colon s = (if CHR '':'' \<in> set s
     then Some (rev (tl (dropWhile (\<lambda>c. c \<noteq> CHR '':'') (rev s))), rev (takeWhile (\<lambda>c. c \<noteq> CHR '':'') (rev s))) else None)"

text \<open>\<open>UPDATE\<close> of one row: the number of rows hit must be one.\<close>

definition replace_one :: "('r \<Rightarrow> bool) \<Rightarrow> ('r \<Rightarrow> bool) \<Rightarrow> ('r \<Rightarrow> 'r) \<Rightarrow> 'r list \<Rightarrow> 'r list check" where
  "replace_one hit permitted f rows =
     (if \<not> list_all (\<lambda>r. hit r \<longrightarrow> permitted r) rows then Inl archive_rejected
      else if length (filter hit rows) \<noteq> 1 then Inl ''ARCHIVE_SOURCE_CHANGED''
      else Inr (map (\<lambda>r. if hit r then f r else r) rows))"

definition replace_payload :: "archive_codec \<Rightarrow> string \<Rightarrow> entry \<Rightarrow> journal \<Rightarrow> journal check" where
  "replace_payload J marker e st =
     (if en_kind e = ''plan'' then bind_check (replace_one (\<lambda>p. jp_id p = en_key e \<and> jp_payload p = en_value e)
          (\<lambda>p. locates J st ''plan'' (jp_id p) marker (Some (jp_digest p)) \<and> length (chars marker) \<le> 131072)
          (\<lambda>p. p\<lparr>jp_payload := marker\<rparr>) (jo_plans st)) (\<lambda>rows. Inr (st\<lparr>jo_plans := rows\<rparr>))
      else if en_kind e = ''receipt'' then bind_check (replace_one
          (\<lambda>r. jr_id r = en_key e \<and> jr_receipt r = Some (en_value e) \<and> terminal_state (jr_state r))
          (\<lambda>r. locates J st ''receipt'' (jr_id r) marker None \<and> length (chars marker) \<le> 262144)
          (\<lambda>r. r\<lparr>jr_receipt := Some marker\<rparr>) (jo_runs st)) (\<lambda>rows. Inr (st\<lparr>jo_runs := rows\<rparr>))
      else if en_kind e = ''step'' then
        bind_check (ok_or (rsplit_colon (en_key e)) ''ARCHIVE_KEY_INVALID'') (\<lambda>(i, t).
        bind_check (ok_or (parse_i64 t) ''ARCHIVE_KEY_INVALID'') (\<lambda>sq.
        bind_check (replace_one (\<lambda>s. js_run s = i \<and> js_seq s = sq \<and> js_payload s = en_value e)
          (\<lambda>s. locates J st ''step'' (step_key (js_run s) (js_seq s)) marker None \<and> length (chars marker) \<le> 32768)
          (\<lambda>s. s\<lparr>js_payload := marker\<rparr>) (jo_steps st)) (\<lambda>rows. Inr (st\<lparr>jo_steps := rows\<rparr>))))
      else Inl ''ARCHIVE_KIND_INVALID'')"

definition insert_ref :: "archive_ref \<Rightarrow> journal \<Rightarrow> journal check" where
  "insert_ref x st =
     (if list_ex (\<lambda>r. ar_kind r = ar_kind x \<and> ar_key r = ar_key x) (jo_refs st) \<or> ar_kind x \<notin> set [''plan'', ''receipt'', ''step'']
        \<or> \<not> list_ex (\<lambda>a. ja_id a = ar_archive x) (jo_archives st) \<or> length (chars (ar_digest x)) \<noteq> 64
      then Inl archive_rejected else Inr (st\<lparr>jo_refs := jo_refs st @ [x]\<rparr>))"

fun commit_entries :: "archive_codec \<Rightarrow> string \<Rightarrow> entry list \<Rightarrow> journal \<Rightarrow> journal check" where
  "commit_entries J i [] st = Inr st"
| "commit_entries J i (e # es) st =
     bind_check (insert_ref \<lparr>ar_kind = en_kind e, ar_key = en_key e, ar_archive = i, ar_digest = en_digest e\<rparr> st) (\<lambda>st1.
     bind_check (replace_payload J (ac_show J (archive_marker i (en_digest e))) e st1) (commit_entries J i es))"

definition insert_archive :: "archive_row \<Rightarrow> journal \<Rightarrow> journal check" where
  "insert_archive a st =
     (if list_ex (\<lambda>x. ja_id x = ja_id a \<or> ja_file x = ja_file a) (jo_archives st) \<or> ja_project a \<notin> set (jo_projects st)
        \<or> length (chars (ja_digest a)) \<noteq> 64 \<or> \<not> (1 \<le> ja_bytes a \<and> ja_bytes a \<le> 8388608) \<or> ja_records a \<le> 0
      then Inl archive_rejected else Inr (st\<lparr>jo_archives := jo_archives st @ [a]\<rparr>))"

definition archive_row_of :: "archive_codec \<Rightarrow> string \<Rightarrow> pack \<Rightarrow> int \<Rightarrow> archive_row" where
  "archive_row_of J i p now = (let bytes = ac_pack_text J p in
     \<lparr>ja_id = i, ja_project = pk_project p, ja_file = i @ ''.json'', ja_digest = ac_sha J bytes, ja_bytes = int (length bytes),
      ja_records = int (length (pk_entries p)), ja_created = now\<rparr>)"

definition commit_archive :: "archive_codec \<Rightarrow> string \<Rightarrow> pack \<Rightarrow> int \<Rightarrow> journal \<Rightarrow> journal check" where
  "commit_archive J i p now st =
     bind_check (insert_archive (archive_row_of J i p now) st) (commit_entries J i (pk_entries p))"

definition archive_budget :: "(string \<Rightarrow> unit check) \<Rightarrow> (string \<times> string) list \<Rightarrow> nat \<Rightarrow> unit check" where
  "archive_budget ok files extra = checks
     [check_all (\<lambda>(name, _). ok name) (take 128 files), reject (length files \<ge> 128) ''ARCHIVE_FILE_BUDGET'',
      reject (min (2 ^ 64 - 1) (sum_list (map (length \<circ> snd) files) + extra) > ARCHIVE_LIMIT) ''ARCHIVE_STORAGE_BUDGET_EXPORT_REQUIRED'']"

definition archive_report :: "archive_codec \<Rightarrow> string \<Rightarrow> pack \<Rightarrow> int json" where
  "archive_report J i p = (let bytes = ac_pack_text J p in JObj
     [(''archive_id'', JStr i), (''bytes'', JNum (int (length bytes))), (''indeterminate_and_running_retained'', JBool True),
      (''logical_history_unchanged'', JBool True), (''physical_disk_shrink_claimed'', JBool False),
      (''records'', JNum (int (length (pk_entries p)))), (''sha256'', JStr (ac_sha J bytes)),
      (''succeeded_failed_cancelled_only'', JBool True)])"

definition archive_intent :: "archive_codec \<Rightarrow> string \<Rightarrow> pack \<Rightarrow> int json" where
  "archive_intent J i p = JObj
     [(''archive_id'', JStr i), (''records'', JNum (int (length (pk_entries p)))), (''sha256'', JStr (ac_sha J (ac_pack_text J p)))]"

text \<open>
  The writing part, which leaves its traces when it fails: \<open>disk\<close> yields the bytes that reach the file and whether the
  write was reported as complete. The transaction is rolled back as a whole.
\<close>

definition write_archive ::
    "archive_codec \<Rightarrow> (string \<Rightarrow> unit check) \<Rightarrow> (string \<Rightarrow> string \<times> bool) \<Rightarrow> int \<Rightarrow> string \<Rightarrow> string \<Rightarrow> pack \<Rightarrow> journal
     \<Rightarrow> journal \<times> int json check" where
  "write_archive J ok disk now run i p st =
     (let bytes = ac_pack_text J p; name = i @ ''.json'' in
      case effect_step now run ''journal_archive_write'' ''intent'' (ac_show J (archive_intent J i p)) st of
        Inl e \<Rightarrow> (st, Inl e)
      | Inr st1 \<Rightarrow>
          if map_of (jo_files st1) name \<noteq> None then (st1, Inl ''ARCHIVE_FILE_CREATE'')
          else let (stored, complete) = disk bytes; st2 = st1\<lparr>jo_files := jo_files st1 @ [(name, stored)]\<rparr> in
            if \<not> complete then (st2, Inl ''ARCHIVE_WRITE_INCOMPLETE_PRESERVED'')
            else case read_bytes ok (jo_files st2) name of
              Inl e \<Rightarrow> (st2, Inl e)
            | Inr back \<Rightarrow>
                if ac_sha J back \<noteq> ac_sha J bytes then (st2, Inl ''ARCHIVE_READBACK_MISMATCH'')
                else case commit_archive J i p now st2 of
                  Inl e \<Rightarrow> (st2, Inl e)
                | Inr st3 \<Rightarrow>
                    (case effect_step now run ''journal_archive_commit'' ''completed'' (ac_show J (archive_report J i p)) st3 of
                       Inl e \<Rightarrow> (st3, Inl e)
                     | Inr st4 \<Rightarrow> (st4, Inr (archive_report J i p))))"

definition archive_terminal_journals ::
    "archive_codec \<Rightarrow> (string \<Rightarrow> unit check) \<Rightarrow> unit check \<Rightarrow> (string \<Rightarrow> string \<times> bool) \<Rightarrow> int \<Rightarrow> string \<Rightarrow> string \<Rightarrow> string
     \<Rightarrow> int \<Rightarrow> nat \<Rightarrow> string \<Rightarrow> journal \<Rightarrow> journal \<times> int json check" where
  "archive_terminal_journals J ok dir disk now i run project before limit expected st =
     (case terminal_records J now st project before limit of
        Inl e \<Rightarrow> (st, Inl e)
      | Inr records \<Rightarrow>
          if ac_sha J (ac_entries_text J records) \<noteq> expected then (st, Inl ''ARCHIVE_SELECTION_CHANGED_REPLAN_REQUIRED'')
          else if records = [] then (st, Inr (JObj [(''archived'', JNum 0), (''changed'', JBool False)]))
          else let p = \<lparr>pk_schema = 1, pk_project = project, pk_created = now, pk_entries = records\<rparr>; extra = length (ac_pack_text J p) in
            if extra > PACK_LIMIT then (st, Inl ''ARCHIVE_TOO_LARGE_REDUCE_LIMIT'')
            else case checks [dir, archive_budget ok (jo_files st) extra] of
              Inl e \<Rightarrow> (st, Inl e)
            | Inr _ \<Rightarrow> write_archive J ok disk now run i p st)"

section \<open>Backup and restore\<close>

definition archives_in_order :: "journal \<Rightarrow> archive_row list" where
  "archives_in_order st = take 129 (sort_key ja_id (jo_archives st))"

text \<open>
  Copying the packs from one directory to another: both directions check names, sizes, digests and the total, and create
  each file anew. \<open>codes\<close> are the errors of a byte count, of the total, of a source file and of a new file.
\<close>

record copy_codes =
  cy_size :: string
  cy_total :: string
  cy_source :: string
  cy_create :: string

fun copy_packs ::
    "archive_codec \<Rightarrow> (string \<Rightarrow> unit check) \<Rightarrow> copy_codes \<Rightarrow> (string \<times> string) list \<Rightarrow> nat \<Rightarrow> archive_row list
     \<Rightarrow> (string \<times> string) list \<Rightarrow> (string \<times> string) list check" where
  "copy_packs J ok codes source used [] target = Inr target"
| "copy_packs J ok codes source used (a # rest) target =
     bind_check (fixed_name (ja_file a)) (\<lambda>_.
       if ja_bytes a < 0 then Inl (cy_size codes)
       else let used' = used + nat (ja_bytes a) in
         if used' > ARCHIVE_LIMIT then Inl (cy_total codes)
         else bind_check (read_bytes ok source (ja_file a)) (\<lambda>data.
           if int (length data) \<noteq> ja_bytes a \<or> ac_sha J data \<noteq> ja_digest a then Inl (cy_source codes)
           else if map_of target (ja_file a) \<noteq> None then Inl (cy_create codes)
           else copy_packs J ok codes source used' rest (target @ [(ja_file a, data)])))"

definition backup_codes :: copy_codes where
  "backup_codes = \<lparr>cy_size = ''BACKUP_ARCHIVE_BYTES_INVALID'', cy_total = ''BACKUP_ARCHIVE_BYTES_LIMIT'',
     cy_source = ''BACKUP_ARCHIVE_SOURCE_MISMATCH'', cy_create = ''BACKUP_ARCHIVE_CREATE''\<rparr>"

definition restore_codes :: copy_codes where
  "restore_codes = \<lparr>cy_size = ''RESTORE_ARCHIVE_BYTES_INVALID'', cy_total = ''RESTORE_ARCHIVE_BYTES_LIMIT'',
     cy_source = ''RESTORE_ARCHIVE_CORRUPT'', cy_create = ''RESTORE_ARCHIVE_DESTINATION''\<rparr>"

text \<open>The backup of a database: the files of its companion directory, which must not exist yet; none without archives.\<close>

definition copy_archive_dependencies ::
    "archive_codec \<Rightarrow> (string \<Rightarrow> unit check) \<Rightarrow> journal \<Rightarrow> (string \<times> string) list option \<Rightarrow> (string \<times> string) list option check" where
  "copy_archive_dependencies J ok st destination =
     (let rows = archives_in_order st in
      if jo_version st < 4 then Inr destination
      else if length rows > 128 then Inl ''BACKUP_ARCHIVE_COUNT_LIMIT''
      else if rows = [] then Inr destination
      else if destination \<noteq> None then Inl ''BACKUP_ARCHIVE_DESTINATION_EXISTS''
      else bind_check (copy_packs J ok backup_codes (jo_files st) 0 rows []) (\<lambda>files. Inr (Some files)))"

text \<open>The restored home holds the tables of the backup and the files the restore creates.\<close>

definition restore_archive_dependencies ::
    "archive_codec \<Rightarrow> (string \<Rightarrow> unit check) \<Rightarrow> (string \<times> string) list option \<Rightarrow> journal \<Rightarrow> journal check" where
  "restore_archive_dependencies J ok companion st =
     (let rows = archives_in_order st in
      if jo_version st < 4 then Inr st
      else if length rows > 128 then Inl ''RESTORE_ARCHIVE_COUNT_LIMIT''
      else if rows = [] then Inr st
      else bind_check (ok_or companion ''PATH_UNAVAILABLE'') (\<lambda>source.
        bind_check (copy_packs J ok restore_codes source 0 rows (jo_files st)) (\<lambda>files. Inr (st\<lparr>jo_files := files\<rparr>))))"

end
