(* ===== verification/Journal_History.thy ===== *)
theory Journal_History
  imports Journal_Archive
begin

text \<open>
  What archiving, backup and restore keep: the records of the journal as a reader sees them, whether a payload still stands in its
  row or a locator has replaced it (\<open>workstation-platform/src/journal_archive.rs\<close>).
\<close>

section \<open>Logical history\<close>

text \<open>The records of the journal: the payload of a plan, the receipt of a run and the payload of a step.\<close>

datatype journal_key = PlanText string | ReceiptText string | StepText string int

fun key_kind :: "journal_key \<Rightarrow> string" where
  "key_kind (PlanText _) = ''plan''"
| "key_kind (ReceiptText _) = ''receipt''"
| "key_kind (StepText _ _) = ''step''"

fun key_text :: "journal_key \<Rightarrow> string" where
  "key_text (PlanText i) = i"
| "key_text (ReceiptText i) = i"
| "key_text (StepText r q) = step_key r q"

fun stored_text :: "journal \<Rightarrow> journal_key \<Rightarrow> string option" where
  "stored_text st (PlanText i) = map_option jp_payload (find (\<lambda>p. jp_id p = i) (jo_plans st))"
| "stored_text st (ReceiptText i) = Option.bind (find (\<lambda>r. jr_id r = i) (jo_runs st)) jr_receipt"
| "stored_text st (StepText r q) = map_option js_payload (find (\<lambda>s. js_run s = r \<and> js_seq s = q) (jo_steps st))"

definition logical :: "archive_codec \<Rightarrow> (string \<Rightarrow> unit check) \<Rightarrow> journal \<Rightarrow> journal_key \<Rightarrow> string option" where
  "logical J ok st k = Option.bind (stored_text st k) (\<lambda>t.
     case hydrate_journal J ok st (key_kind k) (key_text k) t of Inr v \<Rightarrow> Some v | Inl _ \<Rightarrow> None)"

lemma logical_Some: "logical J ok st k = Some v \<longleftrightarrow>
    (\<exists>t. stored_text st k = Some t \<and> hydrate_journal J ok st (key_kind k) (key_text k) t = Inr v)"
  by (cases "stored_text st k") (auto simp: logical_def split: sum.splits)

text \<open>What only grows keeps every hydration.\<close>

definition extends_journal :: "journal \<Rightarrow> journal \<Rightarrow> bool" where
  "extends_journal st st' \<longleftrightarrow> jo_version st' = jo_version st \<and> prefix (jo_refs st) (jo_refs st')
     \<and> prefix (jo_archives st) (jo_archives st') \<and> prefix (jo_files st) (jo_files st')"

lemma read_bytes_append: "read_bytes ok files name = Inr b \<Longrightarrow> read_bytes ok (files @ extra) name = Inr b"
  by (auto simp: read_bytes_def bind_check_ok check_simps map_add_def split: option.splits if_splits)

lemma hydrate_plain:
  "ac_parse J t = Some j \<Longrightarrow> json_get j ''workstation_archive'' = None \<Longrightarrow> hydrate_journal J ok st kind key t = Inr v \<longleftrightarrow> v = t"
  by (auto simp: hydrate_journal_def)

lemma hydrate_marked:
  assumes "ac_parse J t = Some j" "json_get j ''workstation_archive'' = Some marker"
  shows "hydrate_journal J ok st kind key t = Inr v \<longleftrightarrow> jo_version st \<in> {4, 5} \<and> kind \<in> set [''plan'', ''receipt'', ''step'']
     \<and> (\<exists>r a. json_str_at marker ''id'' = Some (ja_id a) \<and> json_str_at marker ''sha256'' = Some (ar_digest r)
        \<and> archive_of st kind key = Some (r, a) \<and> 0 \<le> ja_bytes a \<and> hydrate_from J ok (jo_files st) a kind key (ar_digest r) = Inr v)"
proof -
  have c: "checks [require_v4 st, reject (kind \<notin> set [''plan'', ''receipt'', ''step'']) ''ARCHIVE_KIND_INVALID''] = Inr x
      \<longleftrightarrow> jo_version st \<in> {4, 5} \<and> kind \<in> set [''plan'', ''receipt'', ''step'']" for x
    by (cases x; cases "jo_version st \<in> {4, 5}"; cases "kind \<in> set [''plan'', ''receipt'', ''step'']") (simp_all only: require_v4_def reject_def checks.simps sum.case bind_check_simps if_True if_False not_True_eq_False not_False_eq_True simp_thms sum.distinct)
  have "(if ja_bytes a < 0 then Inl ''ARCHIVE_BYTE_COUNT_INVALID''
       else if ja_id a \<noteq> i \<or> ar_digest r \<noteq> digest then Inl ''ARCHIVE_REFERENCE_MISMATCH''
       else hydrate_from J ok (jo_files st) a kind key digest) = Inr v
      \<longleftrightarrow> 0 \<le> ja_bytes a \<and> i = ja_id a \<and> digest = ar_digest r \<and> hydrate_from J ok (jo_files st) a kind key digest = Inr v" for a r i digest
    by auto
  note d = this
  define K where "K \<longleftrightarrow> kind \<in> set [''plan'', ''receipt'', ''step'']"
  have "hydrate_journal J ok st kind key t = Inr v \<longleftrightarrow> (jo_version st \<in> {4, 5} \<and> K) \<and> (\<exists>i. json_str_at marker ''id'' = Some i
      \<and> (\<exists>digest. json_str_at marker ''sha256'' = Some digest \<and> (\<exists>r a. archive_of st kind key = Some (r, a) \<and> 0 \<le> ja_bytes a \<and> i = ja_id a
      \<and> digest = ar_digest r \<and> hydrate_from J ok (jo_files st) a kind key digest = Inr v)))"
    unfolding hydrate_journal_def assms ok_or_simps bind_check_simps option.case bind_check_ok c ok_or_ok split_paired_Ex prod.case d K_def by simp
  then show ?thesis unfolding K_def[symmetric] by auto
qed

lemma hydrate_parses: "hydrate_journal J ok st kind key t = Inr v \<Longrightarrow> \<exists>j. ac_parse J t = Some j"
  by (cases "ac_parse J t") (simp_all add: hydrate_journal_def)

lemma archive_of_extends:
  assumes "extends_journal st st'" "archive_of st kind key = Some x"
  shows "archive_of st' kind key = Some x"
  using assms by (auto simp: extends_journal_def archive_of_def prefix_def Option.bind_eq_Some_conv find_append)

lemma hydrate_extends:
  assumes "extends_journal st st'" "hydrate_journal J ok st kind key t = Inr v"
  shows "hydrate_journal J ok st' kind key t = Inr v"
proof -
  have h: "hydrate_from J ok (jo_files st') a kind key d = Inr v" if "hydrate_from J ok (jo_files st) a kind key d = Inr v" for a d
    using that assms(1) unfolding hydrate_from_def extends_journal_def prefix_def
    by (auto simp: bind_check_ok split: if_splits dest: read_bytes_append)
  have v: "jo_version st' = jo_version st" using assms(1) by (simp add: extends_journal_def)
  obtain j where j: "ac_parse J t = Some j" using hydrate_parses[OF assms(2)] by blast
  show ?thesis
  proof (cases "json_get j ''workstation_archive''")
    case None
    then show ?thesis using assms(2) hydrate_plain[OF j] by simp
  next
    case (Some marker)
    show ?thesis using assms(2) unfolding hydrate_marked[OF j Some] v using h archive_of_extends[OF assms(1)] by blast
  qed
qed

lemma replace_one_ok:
  "replace_one hit permitted f rows = Inr rows' \<longleftrightarrow> list_all (\<lambda>r. hit r \<longrightarrow> permitted r) rows
     \<and> length (filter hit rows) = 1 \<and> rows' = map (\<lambda>r. if hit r then f r else r) rows"
  by (auto simp: replace_one_def)

lemma show_int_chars: "\<forall>c \<in> set (show_int q). c \<noteq> CHR '':''"
proof -
  have n: "\<forall>c \<in> set (show_nat n). c \<noteq> CHR '':''" for n
    using show_nat_digits[of n] unfolding list_all_iff by (auto simp: is_ascii_digit_def)
  show ?thesis
  proof
    fix c assume "c \<in> set (show_int q)"
    then have "c = CHR ''-'' \<or> c \<in> set (show_nat (nat q)) \<or> c \<in> set (show_nat (nat (- q)))" by (auto simp: show_int_def split: if_splits)
    then show "c \<noteq> CHR '':''" using n by fastforce
  qed
qed

lemma rsplit_step_key: "rsplit_colon (step_key r q) = Some (r, show_int q)"
proof -
  have "\<forall>c \<in> set (rev (show_int q)). c \<noteq> CHR '':''" using show_int_chars by simp
  then have "takeWhile (\<lambda>c. c \<noteq> CHR '':'') (rev (show_int q) @ CHR '':'' # rev r) = rev (show_int q) @ []"
    "dropWhile (\<lambda>c. c \<noteq> CHR '':'') (rev (show_int q) @ CHR '':'' # rev r) = CHR '':'' # rev r"
    by (simp_all add: takeWhile_append2 dropWhile_append2 del: set_rev)
  then show ?thesis by (simp add: rsplit_colon_def step_key_def)
qed

lemma parse_show_int: "parse_i64 (show_int q) = Some x \<Longrightarrow> x = q"
proof (cases "q < 0")
  case True
  assume "parse_i64 (show_int q) = Some x"
  then show ?thesis using True by (simp add: parse_i64_def parse_signed_def show_int_def Let_def split: if_splits)
next
  case False
  assume a: "parse_i64 (show_int q) = Some x"
  obtain c t where c: "show_nat (nat q) = c # t" "is_ascii_digit c" using show_nat_digits[of "nat q"] by (cases "show_nat (nat q)") auto
  have s: "c \<noteq> CHR ''-''" "c \<noteq> CHR ''+''" using c(2) by (auto simp: is_ascii_digit_def)
  have p: "parse_digits (c # t) = Some (nat q)" using parse_digits_show_nat[of "nat q"] c(1) by simp
  show ?thesis using a False s unfolding parse_i64_def parse_signed_def show_int_def c(1)
    by (simp add: p Let_def c(1) split: if_splits)
qed

definition step_keyed :: "entry \<Rightarrow> bool" where
  "step_keyed e \<longleftrightarrow> (en_kind e = ''step'' \<longrightarrow> (\<exists>r q. en_key e = step_key r q))"

lemma replaced_row:
  assumes "\<And>x. P (u x) = P x"
  shows "find P (map (\<lambda>x. if hit x then u x else x) rows) = find P rows \<or> (\<exists>x. find P rows = Some x \<and> P x \<and> hit x
    \<and> find P (map (\<lambda>x. if hit x then u x else x) rows) = Some (u x))"
  using assms by (induction rows) auto

text \<open>A replaced payload belongs to the record the entry names, and held its value.\<close>

definition relocates :: "journal \<Rightarrow> journal \<Rightarrow> entry \<Rightarrow> string \<Rightarrow> journal_key \<Rightarrow> bool" where
  "relocates st st' e marker k \<longleftrightarrow> stored_text st' k = stored_text st k \<or> (key_kind k = en_kind e \<and> key_text k = en_key e
     \<and> stored_text st k = Some (en_value e) \<and> stored_text st' k = Some marker)"

lemma relocates_plan:
  "relocates st (st\<lparr>jo_plans := map (\<lambda>p. if jp_id p = en_key e \<and> jp_payload p = en_value e then p\<lparr>jp_payload := marker\<rparr> else p)
     (jo_plans st)\<rparr>) e marker k" if "en_kind e = ''plan''"
proof (cases k)
  case (PlanText i)
  show ?thesis
    using replaced_row[where P="\<lambda>p. jp_id p = i" and u="\<lambda>p. p\<lparr>jp_payload := marker\<rparr>"
        and hit="\<lambda>p. jp_id p = en_key e \<and> jp_payload p = en_value e" and rows="jo_plans st"] that
    by (auto simp: relocates_def PlanText)
qed (simp_all add: relocates_def)

lemma relocates_receipt:
  "relocates st (st\<lparr>jo_runs := map (\<lambda>r. if jr_id r = en_key e \<and> jr_receipt r = Some (en_value e) \<and> terminal_state (jr_state r)
     then r\<lparr>jr_receipt := Some marker\<rparr> else r) (jo_runs st)\<rparr>) e marker k" if "en_kind e = ''receipt''"
proof (cases k)
  case (ReceiptText i)
  show ?thesis
    using replaced_row[where P="\<lambda>r. jr_id r = i" and u="\<lambda>r. r\<lparr>jr_receipt := Some marker\<rparr>"
        and hit="\<lambda>r. jr_id r = en_key e \<and> jr_receipt r = Some (en_value e) \<and> terminal_state (jr_state r)" and rows="jo_runs st"] that
    by (auto simp: relocates_def ReceiptText)
qed (simp_all add: relocates_def)

lemma relocates_step:
  "relocates st (st\<lparr>jo_steps := map (\<lambda>s. if js_run s = r \<and> js_seq s = q \<and> js_payload s = en_value e
     then s\<lparr>js_payload := marker\<rparr> else s) (jo_steps st)\<rparr>) e marker k" if "en_kind e = ''step''" "en_key e = step_key r q"
proof (cases k)
  case (StepText r' q')
  show ?thesis
    using replaced_row[where P="\<lambda>s. js_run s = r' \<and> js_seq s = q'" and u="\<lambda>s. s\<lparr>js_payload := marker\<rparr>"
        and hit="\<lambda>s. js_run s = r \<and> js_seq s = q \<and> js_payload s = en_value e" and rows="jo_steps st"] that
    by (auto simp: relocates_def StepText)
qed (simp_all add: relocates_def)

lemma replace_payload_ok:
  assumes "replace_payload J marker e st = Inr st'" "step_keyed e"
  shows "jo_refs st' = jo_refs st" "jo_archives st' = jo_archives st" "jo_files st' = jo_files st" "jo_version st' = jo_version st"
    "relocates st st' e marker k"
proof -
  consider (plan) "en_kind e = ''plan''" | (receipt) "en_kind e = ''receipt''" | (step) "en_kind e = ''step''"
    using assms(1) by (auto simp: replace_payload_def split: if_splits)
  then have "jo_refs st' = jo_refs st \<and> jo_archives st' = jo_archives st \<and> jo_files st' = jo_files st
    \<and> jo_version st' = jo_version st \<and> relocates st st' e marker k"
  proof cases
    case plan
    then show ?thesis using assms(1) relocates_plan by (auto simp: replace_payload_def bind_check_ok replace_one_ok)
  next
    case receipt
    then show ?thesis using assms(1) relocates_receipt by (auto simp: replace_payload_def bind_check_ok replace_one_ok)
  next
    case step
    obtain r q where key: "en_key e = step_key r q" using assms(2) step by (auto simp: step_keyed_def)
    have "st' = st\<lparr>jo_steps := map (\<lambda>s. if js_run s = r \<and> js_seq s = q \<and> js_payload s = en_value e
        then s\<lparr>js_payload := marker\<rparr> else s) (jo_steps st)\<rparr>"
      using assms(1) step parse_show_int
      by (auto simp: replace_payload_def bind_check_ok replace_one_ok key rsplit_step_key ok_or_ok)
    then show ?thesis using relocates_step[OF step key] by simp
  qed
  then show "jo_refs st' = jo_refs st" "jo_archives st' = jo_archives st" "jo_files st' = jo_files st" "jo_version st' = jo_version st"
    "relocates st st' e marker k" by blast+
qed

definition ref_of :: "string \<Rightarrow> entry \<Rightarrow> archive_ref" where
  "ref_of i e = \<lparr>ar_kind = en_kind e, ar_key = en_key e, ar_archive = i, ar_digest = en_digest e\<rparr>"

abbreviation same_entry :: "archive_ref \<Rightarrow> entry \<Rightarrow> bool" where
  "same_entry r e \<equiv> ar_kind r = en_kind e \<and> ar_key r = en_key e"

text \<open>Committing the entries adds one reference for each, under fresh keys, and relocates only payloads that held the entry.\<close>

lemma commit_entries_ok:
  assumes "commit_entries J i es st = Inr st'" "\<forall>e \<in> set es. step_keyed e"
  shows "jo_archives st' = jo_archives st \<and> jo_files st' = jo_files st \<and> jo_version st' = jo_version st
    \<and> jo_refs st' = jo_refs st @ map (ref_of i) es \<and> distinct (map (\<lambda>e. (en_kind e, en_key e)) es)
    \<and> (\<forall>e \<in> set es. en_kind e \<in> set [''plan'', ''receipt'', ''step''] \<and> (\<forall>r \<in> set (jo_refs st). \<not> same_entry r e))
    \<and> (\<forall>k. stored_text st' k = stored_text st k
         \<or> (\<exists>e \<in> set es. relocates st st' e (ac_show J (archive_marker i (en_digest e))) k \<and> stored_text st' k \<noteq> stored_text st k))"
  using assms
proof (induction es arbitrary: st)
  case Nil
  then show ?case by simp
next
  case (Cons e es)
  let ?m = "\<lambda>e. ac_show J (archive_marker i (en_digest e))"
  obtain st1 st2 where ir: "insert_ref (ref_of i e) st = Inr st1" and rp: "replace_payload J (?m e) e st1 = Inr st2"
    and rest: "commit_entries J i es st2 = Inr st'"
    using Cons.prems(1) by (auto simp: bind_check_ok ref_of_def)
  have r1: "st1 = st\<lparr>jo_refs := jo_refs st @ [ref_of i e]\<rparr>" "en_kind e \<in> set [''plan'', ''receipt'', ''step'']"
      "\<forall>r \<in> set (jo_refs st). \<not> same_entry r e"
    using ir by (auto simp: insert_ref_def ref_of_def list_ex_iff split: if_splits)
  have keyed: "step_keyed e" "\<forall>e \<in> set es. step_keyed e" using Cons.prems(2) by auto
  note r2 = replace_payload_ok[OF rp keyed(1)]
  have s1: "stored_text st1 k = stored_text st k" for k by (cases k) (simp_all add: r1(1))
  note ih = Cons.IH[OF rest keyed(2)]
  have refs: "jo_refs st2 = jo_refs st @ [ref_of i e]" using r2(1) r1(1) by simp
  have fresh: "\<forall>e' \<in> set es. (en_kind e', en_key e') \<noteq> (en_kind e, en_key e)"
    using ih unfolding refs by (auto simp: ref_of_def)
  have k: "stored_text st' k = stored_text st k \<or> (\<exists>e \<in> set (e # es). relocates st st' e (?m e) k \<and> stored_text st' k \<noteq> stored_text st k)" for k
  proof (cases "stored_text st' k = stored_text st2 k")
    case True
    then show ?thesis using r2(5)[of k] s1[of k] by (auto simp: relocates_def)
  next
    case False
    then obtain e' where e': "e' \<in> set es" "relocates st2 st' e' (?m e') k" using ih by blast
    then have "stored_text st2 k = stored_text st1 k" using r2(5)[of k] fresh False by (auto simp: relocates_def)
    then show ?thesis using e' False s1[of k] by (auto simp: relocates_def)
  qed
  have i: "jo_archives st' = jo_archives st2" "jo_files st' = jo_files st2" "jo_version st' = jo_version st2"
      "jo_refs st' = (jo_refs st @ [ref_of i e]) @ map (ref_of i) es" "distinct (map (\<lambda>e. (en_kind e, en_key e)) es)"
      "\<forall>e \<in> set es. en_kind e \<in> set [''plan'', ''receipt'', ''step''] \<and> (\<forall>r \<in> set (jo_refs st). \<not> same_entry r e)"
    using ih unfolding refs set_append by blast+
  have u: "jo_archives st1 = jo_archives st" "jo_files st1 = jo_files st" "jo_version st1 = jo_version st"
    unfolding r1(1) by simp_all
  have d: "distinct (map (\<lambda>e. (en_kind e, en_key e)) (e # es))" using i(5) fresh by auto
  have f: "\<forall>e \<in> set (e # es). en_kind e \<in> set [''plan'', ''receipt'', ''step''] \<and> (\<forall>r \<in> set (jo_refs st). \<not> same_entry r e)"
    unfolding list.set(2)[of e es] ball_simps using i(6) r1(2,3) by blast
  have "jo_refs st' = jo_refs st @ map (ref_of i) (e # es)" using i(4) by simp
  then show ?case unfolding i(1-3) r2(2-4) u using d f k by blast
qed

definition selected :: "archive_codec \<Rightarrow> entry list \<Rightarrow> bool" where
  "selected J es \<longleftrightarrow> length es \<le> 10000 \<and> (\<forall>e \<in> set es. en_digest e = ac_sha J (en_value e) \<and> step_keyed e)"

lemma push_selected:
  assumes "push_bounded J acc (entry_of J kind key value) = Inr acc'" "selected J (fst acc)" "kind = ''step'' \<Longrightarrow> \<exists>r q. key = step_key r q"
  shows "selected J (fst acc')"
  using assms by (auto simp: push_bounded_def selected_def entry_of_def step_keyed_def Let_def split: if_splits prod.splits)

lemma push_runs_selected:
  "push_runs J rs acc = Inr acc' \<Longrightarrow> selected J (fst acc) \<Longrightarrow> selected J (fst acc')"
proof (induction J rs acc rule: push_runs.induct)
  case (2 J p r rest acc)
  then show ?case by (auto simp: bind_check_ok split: option.splits dest!: push_selected)
qed simp

lemma push_steps_selected:
  "push_steps J n ss acc = Inr acc' \<Longrightarrow> selected J (fst acc) \<Longrightarrow> selected J (fst acc')"
proof (induction J n ss acc rule: push_steps.induct)
  case (2 J n s rest acc)
  then show ?case by (auto simp: bind_check_ok split: if_splits dest!: push_selected)
qed simp

lemma push_all_steps_selected:
  "push_all_steps J st runs acc = Inr acc' \<Longrightarrow> selected J (fst acc) \<Longrightarrow> selected J (fst acc')"
  by (induction runs arbitrary: acc) (auto simp: bind_check_ok dest: push_steps_selected)

lemma terminal_records_selected:
  assumes "terminal_records J now st project before limit = Inr records"
  shows "selected J records" "jo_version st \<in> {4, 5}"
proof -
  show "selected J records"
    using assms push_runs_selected push_all_steps_selected unfolding terminal_records_def Let_def
    by (fastforce simp: bind_check_ok selected_def)
  show "jo_version st \<in> {4, 5}"
    using assms unfolding terminal_records_def bind_check_ok checks_Cons_ok require_v4_def reject_ok by blast
qed

text \<open>
  What archiving relies on: a pack and a locator are read back as they were written, and a file that has the digest of the
  bytes handed to the write holds those bytes.
\<close>

definition reads_back :: "archive_codec \<Rightarrow> (string \<Rightarrow> string \<times> bool) \<Rightarrow> string \<Rightarrow> pack \<Rightarrow> bool" where
  "reads_back J disk i p \<longleftrightarrow> ac_read_pack J (ac_pack_text J p) = Some p
     \<and> list_all (\<lambda>e. ac_parse J (ac_show J (archive_marker i (en_digest e))) = Some (archive_marker i (en_digest e))) (pk_entries p)
     \<and> (ac_sha J (fst (disk (ac_pack_text J p))) = ac_sha J (ac_pack_text J p) \<longrightarrow> fst (disk (ac_pack_text J p)) = ac_pack_text J p)"

lemma find_none: "(\<And>x. x \<in> set xs \<Longrightarrow> \<not> P x) \<Longrightarrow> find P xs = None"
  by (simp add: find_None_iff)

lemma find_map_eq: "find P (map f xs) = map_option f (find (P \<circ> f) xs)"
  by (induction xs) auto

lemma filter_distinct:
  assumes "distinct (map f xs)" "x \<in> set xs"
  shows "filter (\<lambda>y. f y = f x) xs = [x]"
  using assms by (induction xs) (auto simp: image_iff filter_empty_conv)

lemma entry_found:
  assumes "jo_refs st' = jo_refs st @ map (ref_of i) es" "distinct (map (\<lambda>e. (en_kind e, en_key e)) es)"
    and "\<forall>r \<in> set (jo_refs st). \<not> same_entry r e" "e \<in> set es"
    and "jo_archives st' = jo_archives st @ [a]" "\<forall>x \<in> set (jo_archives st). ja_id x \<noteq> i" "ja_id a = i"
  shows "archive_of st' (en_kind e) (en_key e) = Some (ref_of i e, a)"
proof -
  have n: "find (\<lambda>r. same_entry r e) (jo_refs st) = None" by (rule find_none) (use assms(3) in blast)
  have "find (\<lambda>r. same_entry r e) (map (ref_of i) es) = Some (ref_of i e)"
    using find_distinct[OF assms(2,4)] by (simp add: find_map_eq ref_of_def comp_def)
  then have f: "find (\<lambda>r. same_entry r e) (jo_refs st') = Some (ref_of i e)" by (simp add: assms(1) find_append n)
  have "find (\<lambda>x. ja_id x = i) (jo_archives st) = None" by (rule find_none) (use assms(6) in blast)
  then have "find (\<lambda>x. ja_id x = i) (jo_archives st') = Some a" by (simp add: assms(5,7) find_append)
  then show ?thesis by (simp add: archive_of_def f) (simp add: ref_of_def)
qed

lemma hydrate_entry:
  assumes J: "ac_read_pack J (ac_pack_text J p) = Some p" "ac_parse J (ac_show J (archive_marker i (en_digest e))) = Some (archive_marker i (en_digest e))"
    and p: "pk_schema p = 1" "selected J (pk_entries p)" "distinct (map (\<lambda>e. (en_kind e, en_key e)) (pk_entries p))" "e \<in> set (pk_entries p)"
    and st: "jo_version st \<in> {4, 5}" "en_kind e \<in> set [''plan'', ''receipt'', ''step'']"
      "archive_of st (en_kind e) (en_key e) = Some (ref_of i e, archive_row_of J i p now)"
    and f: "fixed_name (i @ ''.json'') = Inr ()" "read_bytes ok (jo_files st) (i @ ''.json'') = Inr (ac_pack_text J p)"
  shows "hydrate_journal J ok st (en_kind e) (en_key e) (ac_show J (archive_marker i (en_digest e))) = Inr (en_value e)"
proof -
  let ?a = "archive_row_of J i p now"
  have "pack_value J p (en_kind e) (en_key e) (en_digest e) = Inr (en_value e)"
    using filter_distinct[OF p(3,4)] p(2,4) by (simp add: pack_value_def selected_def)
  then have h: "hydrate_from J ok (jo_files st) ?a (en_kind e) (en_key e) (en_digest e) = Inr (en_value e)"
    using f J(1) p(1,2) by (simp add: hydrate_from_def archive_row_of_def Let_def selected_def)
  have m: "json_get (archive_marker i (en_digest e)) ''workstation_archive'' = Some (JObj [(''id'', JStr i), (''sha256'', JStr (en_digest e))])"
    by (simp add: archive_marker_def)
  show ?thesis unfolding hydrate_marked[OF J(2) m]
    using st h by (intro conjI exI[of _ "ref_of i e"] exI[of _ ?a]) (simp_all add: ref_of_def archive_row_of_def Let_def json_str_at_def)
qed

lemma effect_step_ok:
  assumes "effect_step t run name status payload st = Inr st'"
  shows "jo_refs st' = jo_refs st" "jo_archives st' = jo_archives st" "jo_files st' = jo_files st" "jo_version st' = jo_version st"
    "stored_text st k = Some x \<Longrightarrow> stored_text st' k = Some x"
proof -
  obtain s where s: "st' = st\<lparr>jo_steps := jo_steps st @ [s]\<rparr>"
    using assms by (auto simp: effect_step_def bind_check_ok split: if_splits)
  show "jo_refs st' = jo_refs st" "jo_archives st' = jo_archives st" "jo_files st' = jo_files st" "jo_version st' = jo_version st"
    by (simp_all add: s)
  show "stored_text st' k = Some x" if "stored_text st k = Some x" using that by (cases k) (auto simp: s find_append)
qed

lemma logical_extends:
  assumes "extends_journal st st'" "\<And>x. stored_text st k = Some x \<Longrightarrow> stored_text st' k = Some x" "logical J ok st k = Some v"
  shows "logical J ok st' k = Some v"
  using assms hydrate_extends[OF assms(1)] unfolding logical_Some by blast

lemma unreferenced_plain:
  assumes "hydrate_journal J ok st kind key t = Inr v" "\<forall>r \<in> set (jo_refs st). \<not> (ar_kind r = kind \<and> ar_key r = key)"
  shows "v = t"
proof -
  obtain j where j: "ac_parse J t = Some j" using hydrate_parses[OF assms(1)] by blast
  have "find (\<lambda>r. ar_kind r = kind \<and> ar_key r = key) (jo_refs st) = None" by (rule find_none) (use assms(2) in blast)
  then have n: "archive_of st kind key = None" by (simp add: archive_of_def)
  show ?thesis
  proof (cases "json_get j ''workstation_archive''")
    case None
    then show ?thesis using assms(1) hydrate_plain[OF j] by blast
  next
    case (Some m)
    then show ?thesis using assms(1) unfolding hydrate_marked[OF j Some] n by blast
  qed
qed

lemma commit_archive_logical:
  assumes c: "commit_archive J i p now st = Inr st'"
    and J: "ac_read_pack J (ac_pack_text J p) = Some p"
      "\<And>e. e \<in> set (pk_entries p) \<Longrightarrow> ac_parse J (ac_show J (archive_marker i (en_digest e))) = Some (archive_marker i (en_digest e))"
    and p: "pk_schema p = 1" "selected J (pk_entries p)" and v: "jo_version st \<in> {4, 5}"
    and f: "fixed_name (i @ ''.json'') = Inr ()" "read_bytes ok (jo_files st) (i @ ''.json'') = Inr (ac_pack_text J p)"
    and l: "logical J ok st k = Some x"
  shows "logical J ok st' k = Some x"
proof -
  let ?a = "archive_row_of J i p now"
  obtain st1 where s1: "st1 = st\<lparr>jo_archives := jo_archives st @ [?a]\<rparr>" "\<forall>y \<in> set (jo_archives st). ja_id y \<noteq> i"
    and ce: "commit_entries J i (pk_entries p) st1 = Inr st'"
    using c by (auto simp: commit_archive_def bind_check_ok insert_archive_def list_ex_iff archive_row_of_def Let_def split: if_splits)
  have keyed: "\<forall>e \<in> set (pk_entries p). step_keyed e" using p(2) by (simp add: selected_def)
  note r = commit_entries_ok[OF ce keyed]
  have u: "jo_archives st' = jo_archives st @ [?a]" "jo_files st' = jo_files st" "jo_version st' = jo_version st"
      "jo_refs st' = jo_refs st @ map (ref_of i) (pk_entries p)" "stored_text st1 k = stored_text st k"
    using r by (simp_all add: s1(1)) (cases k; simp)
  have fresh: "\<forall>e \<in> set (pk_entries p). en_kind e \<in> set [''plan'', ''receipt'', ''step''] \<and> (\<forall>r \<in> set (jo_refs st). \<not> same_entry r e)"
    using r s1(1) by simp
  have ext: "extends_journal st st'" by (simp add: extends_journal_def u)
  show ?thesis
  proof (cases "stored_text st' k = stored_text st k")
    case True
    then show ?thesis using logical_extends[OF ext _ l] by simp
  next
    case False
    then obtain e where e: "e \<in> set (pk_entries p)" "relocates st1 st' e (ac_show J (archive_marker i (en_digest e))) k"
      using r[THEN conjunct2, THEN conjunct2, THEN conjunct2, THEN conjunct2, THEN conjunct2, THEN conjunct2, rule_format, of k] u(5) by metis
    then have k: "key_kind k = en_kind e" "key_text k = en_key e" "stored_text st k = Some (en_value e)"
        "stored_text st' k = Some (ac_show J (archive_marker i (en_digest e)))"
      using False u(5) by (auto simp: relocates_def)
    have x: "x = en_value e" using l k(1-3) unreferenced_plain fresh e(1) unfolding logical_Some by (metis option.inject)
    have "archive_of st' (en_kind e) (en_key e) = Some (ref_of i e, ?a)"
      by (rule entry_found[OF u(4) _ _ e(1) u(1) s1(2)]) (use r fresh e(1) in \<open>auto simp: archive_row_of_def Let_def\<close>)
    then show ?thesis
      using hydrate_entry[OF J(1) J(2)[OF e(1)] p _ e(1), of st' now ok] r fresh e(1) f v u(2,3) k(1,2,4) x
      unfolding logical_Some by (metis (no_types, lifting))
  qed
qed

text \<open>The states in which the writing part can end.\<close>

lemma write_archive_cases:
  assumes "write_archive J ok disk now run i p st = (st', out)" "st' \<noteq> st"
  obtains (early) st1 files where
      "effect_step now run ''journal_archive_write'' ''intent'' (ac_show J (archive_intent J i p)) st = Inr st1"
      "st' = st1\<lparr>jo_files := jo_files st1 @ files\<rparr>"
  | (late) st1 st2 st3 rb where
      "effect_step now run ''journal_archive_write'' ''intent'' (ac_show J (archive_intent J i p)) st = Inr st1"
      "map_of (jo_files st1) (i @ ''.json'') = None"
      "st2 = st1\<lparr>jo_files := jo_files st1 @ [(i @ ''.json'', fst (disk (ac_pack_text J p)))]\<rparr>"
      "read_bytes ok (jo_files st2) (i @ ''.json'') = Inr rb" "ac_sha J rb = ac_sha J (ac_pack_text J p)"
      "commit_archive J i p now st2 = Inr st3"
      "st' = st3 \<or> effect_step now run ''journal_archive_commit'' ''completed'' (ac_show J (archive_report J i p)) st3 = Inr st'"
proof -
  obtain st1 where s1: "effect_step now run ''journal_archive_write'' ''intent'' (ac_show J (archive_intent J i p)) st = Inr st1"
    using assms by (cases "effect_step now run ''journal_archive_write'' ''intent'' (ac_show J (archive_intent J i p)) st")
      (simp_all add: write_archive_def Let_def)
  define st2 where "st2 = st1\<lparr>jo_files := jo_files st1 @ [(i @ ''.json'', fst (disk (ac_pack_text J p)))]\<rparr>"
  have "st' = st1 \<or> st' = st2 \<or> (map_of (jo_files st1) (i @ ''.json'') = None \<and> (\<exists>rb st3. read_bytes ok (jo_files st2) (i @ ''.json'') = Inr rb
      \<and> ac_sha J rb = ac_sha J (ac_pack_text J p) \<and> commit_archive J i p now st2 = Inr st3
      \<and> (st' = st3 \<or> effect_step now run ''journal_archive_commit'' ''completed'' (ac_show J (archive_report J i p)) st3 = Inr st')))"
    using assms(1) unfolding write_archive_def Let_def s1
    by (auto simp: st2_def split_def split: if_splits sum.splits)
  then show thesis
    using early[OF s1, of "[]"] early[OF s1] late[OF s1] unfolding st2_def by fastforce
qed

lemma write_archive_logical:
  assumes w: "write_archive J ok disk now run i p st = (st', out)"
    and J: "reads_back J disk i p" and p: "pk_schema p = 1" "selected J (pk_entries p)" and v: "jo_version st \<in> {4, 5}"
    and f: "fixed_name (i @ ''.json'') = Inr ()" and l: "logical J ok st k = Some x"
  shows "logical J ok st' k = Some x"
proof (cases "st' = st")
  case False
  have keep: "logical J ok s2 k = Some x" if "effect_step now run n u t s1 = Inr s2" "logical J ok s1 k = Some x" for n u t s1 s2
    using effect_step_ok[OF that(1)] by (intro logical_extends[OF _ _ that(2)]) (auto simp: extends_journal_def)
  have add: "logical J ok (s\<lparr>jo_files := jo_files s @ files\<rparr>) k = Some x" if "logical J ok s k = Some x" for s :: journal and files
  proof -
    have "stored_text (s\<lparr>jo_files := jo_files s @ files\<rparr>) k = stored_text s k" by (cases k) simp_all
    then show ?thesis by (intro logical_extends[OF _ _ that]) (simp_all add: extends_journal_def)
  qed
  show ?thesis
  proof (cases rule: write_archive_cases[OF w False])
    case (1 st1 files)
    then show ?thesis using keep[OF 1(1) l] add by simp
  next
    case (2 st1 st2 st3 rb)
    have l2: "logical J ok st2 k = Some x" using keep[OF 2(1) l] add 2(3) by simp
    have v2: "jo_version st2 \<in> {4, 5}" using v effect_step_ok(4)[OF 2(1)] by (simp add: 2(3))
    have "rb = fst (disk (ac_pack_text J p))"
      using 2(2,4) by (auto simp: 2(3) read_bytes_def bind_check_ok ok_or_ok map_add_def split: if_splits)
    then have "rb = ac_pack_text J p" using J 2(5) by (simp add: reads_back_def)
    then have "logical J ok st3 k = Some x"
      using 2(4) J by (intro commit_archive_logical[OF 2(6) _ _ p v2 f _ l2]) (auto simp: reads_back_def list_all_iff)
    then show ?thesis using 2(7) keep by blast
  qed
qed (use l in simp)

text \<open>
  C12: archiving changes no record of the journal. Whatever a call to archive the finished runs of a project does - refuse
  the selection, stop at a full directory, fail while writing the pack file, roll its transaction back or commit - every
  plan, receipt and step that could be read before reads the same afterwards, from its row or through the locator that
  replaced it. This needs the archive identifier to be a fixed name, a pack and a locator to be read back as written, and
  no second text with the digest of the pack.
\<close>

theorem archiving_preserves_logical_history:
  assumes "archive_terminal_journals J ok dir disk now i run project before limit expected st = (st', out)"
    and "fixed_name (i @ ''.json'') = Inr ()"
    and "\<forall>records. terminal_records J now st project before limit = Inr records
       \<longrightarrow> reads_back J disk i \<lparr>pk_schema = 1, pk_project = project, pk_created = now, pk_entries = records\<rparr>"
    and "logical J ok st k = Some x"
  shows "logical J ok st' k = Some x"
proof (cases "terminal_records J now st project before limit")
  case (Inl e)
  then show ?thesis using assms(1,4) by (simp add: archive_terminal_journals_def)
next
  case (Inr records)
  have "st' = st \<or> write_archive J ok disk now run i \<lparr>pk_schema = 1, pk_project = project, pk_created = now, pk_entries = records\<rparr> st = (st', out)"
    using assms(1) unfolding archive_terminal_journals_def Inr by (auto simp: Let_def split: if_splits sum.splits)
  then show ?thesis
    using write_archive_logical terminal_records_selected[OF Inr] assms(2,4) assms(3)[rule_format, OF Inr] by fastforce
qed

definition demo_digest :: string where
  "demo_digest = replicate 64 (CHR ''d'')"

lemma demo_digest_chars: "length (chars demo_digest) = 64"
  using chars_ascii[of demo_digest] by (simp add: demo_digest_def is_ascii_def list_all_iff)

definition demo_journal_pack :: pack where
  "demo_journal_pack = \<lparr>pk_schema = 1, pk_project = ''w'', pk_created = 9000,
     pk_entries = [\<lparr>en_kind = ''plan'', en_key = ''p'', en_digest = demo_digest, en_value = ''v''\<rparr>]\<rparr>"

definition demo_archive_codec :: archive_codec where
  "demo_archive_codec = \<lparr>ac_parse = (\<lambda>t. Some (if t = ''m'' then archive_marker ''a'' (demo_digest) else JObj [])),
     ac_show = (\<lambda>_. ''m''), ac_sha = (\<lambda>_. demo_digest), ac_entries_text = (\<lambda>_. ''e''), ac_entry_len = (\<lambda>_. 1),
     ac_pack_text = (\<lambda>_. ''pack''), ac_read_pack = (\<lambda>_. Some demo_journal_pack)\<rparr>"

definition demo_journal :: journal where
  "demo_journal = \<lparr>jo_version = 5, jo_projects = [''w''], jo_environments = [],
     jo_plans = [\<lparr>jp_id = ''p'', jp_project = ''w'', jp_environment = ''e'', jp_policy = ''o'', jp_digest = demo_digest,
       jp_created = 0, jp_expires = 1, jp_payload = ''v''\<rparr>],
     jo_runs = [\<lparr>jr_id = ''r'', jr_plan = ''p'', jr_state = ''succeeded'', jr_started = 0, jr_finished = Some 1, jr_error = None, jr_receipt = None\<rparr>,
       \<lparr>jr_id = ''x'', jr_plan = ''y'', jr_state = ''running'', jr_started = 0, jr_finished = None, jr_error = None, jr_receipt = None\<rparr>],
     jo_steps = [], jo_archives = [], jo_refs = [], jo_files = []\<rparr>"

lemma demo_journal_records:
  "terminal_records demo_archive_codec 9000 demo_journal ''w'' 5000 1 = Inr (pk_entries demo_journal_pack)"
  by (simp add: terminal_records_def demo_journal_def demo_archive_codec_def require_v4_def terminal_runs_def terminal_state_def
      push_bounded_def entry_of_def run_steps_def PACK_LIMIT_def demo_journal_pack_def Let_def)

definition demo_journal_intent :: journal where
  "demo_journal_intent = demo_journal\<lparr>jo_steps := [\<lparr>js_run = ''x'', js_seq = 1, js_name = ''journal_archive_write'',
     js_status = ''intent'', js_at = 9000, js_payload = ''m''\<rparr>]\<rparr>"

definition demo_journal_stored :: journal where
  "demo_journal_stored = demo_journal_intent\<lparr>jo_files := [(''a.json'', ''pack'')]\<rparr>"

lemma demo_journal_names:
  "control_text ''journal_archive_write'' 128 = Inr ()" "control_text ''journal_archive_commit'' 128 = Inr ()"
  by (simp_all add: text_eval ascii_class_defs)

lemma demo_journal_start:
  "effect_step 9000 ''x'' ''journal_archive_write'' ''intent'' ''m'' demo_journal = Inr demo_journal_intent"
  unfolding effect_step_def demo_journal_names
  by (simp add: demo_journal_def demo_journal_intent_def find_run_def max_seq_def)

definition demo_journal_committed :: journal where
  "demo_journal_committed = demo_journal_stored\<lparr>
     jo_archives := [\<lparr>ja_id = ''a'', ja_project = ''w'', ja_file = ''a.json'', ja_digest = demo_digest, ja_bytes = 4, ja_records = 1, ja_created = 9000\<rparr>],
     jo_refs := [\<lparr>ar_kind = ''plan'', ar_key = ''p'', ar_archive = ''a'', ar_digest = demo_digest\<rparr>],
     jo_plans := [\<lparr>jp_id = ''p'', jp_project = ''w'', jp_environment = ''e'', jp_policy = ''o'', jp_digest = demo_digest,
       jp_created = 0, jp_expires = 1, jp_payload = ''m''\<rparr>]\<rparr>"

lemma demo_journal_commit:
  "commit_archive demo_archive_codec ''a'' demo_journal_pack 9000 demo_journal_stored = Inr demo_journal_committed"
  by (simp add: commit_archive_def insert_archive_def archive_row_of_def demo_archive_codec_def demo_journal_pack_def demo_journal_stored_def
      demo_journal_intent_def demo_journal_def demo_journal_committed_def Let_def insert_ref_def replace_payload_def replace_one_def
      locates_def archive_marker_def json_str_at_def demo_digest_chars chars_ascii is_ascii_def)

lemma demo_journal_finish:
  "\<exists>st4. effect_step 9000 ''x'' ''journal_archive_commit'' ''completed'' ''m'' demo_journal_committed = Inr st4
     \<and> jo_plans st4 = jo_plans demo_journal_committed"
  unfolding effect_step_def demo_journal_names
  by (simp add: demo_journal_committed_def demo_journal_stored_def demo_journal_intent_def demo_journal_def find_run_def)

theorem archiving_preserves_logical_history_witness:
  "\<exists>st'. archive_terminal_journals demo_archive_codec (\<lambda>_. Inr ()) (Inr ()) (\<lambda>b. (b, True)) 9000 ''a'' ''x'' ''w'' 5000 1
       (demo_digest) demo_journal = (st', Inr (archive_report demo_archive_codec ''a'' demo_journal_pack))
     \<and> stored_text st' (PlanText ''p'') = Some ''m'' \<and> logical demo_archive_codec (\<lambda>_. Inr ()) st' (PlanText ''p'') = Some ''v''"
proof -
  let ?call = "archive_terminal_journals demo_archive_codec (\<lambda>_. Inr ()) (Inr ()) (\<lambda>b. (b, True)) 9000 ''a'' ''x'' ''w'' 5000 1
    (demo_digest) demo_journal"
  obtain st4 where s4: "effect_step 9000 ''x'' ''journal_archive_commit'' ''completed'' ''m'' demo_journal_committed = Inr st4"
      "jo_plans st4 = jo_plans demo_journal_committed"
    using demo_journal_finish by blast
  have c: "ac_show demo_archive_codec v = ''m''" "ac_pack_text demo_archive_codec q = ''pack''" "ac_sha demo_archive_codec t = demo_digest" for v q t
    by (simp_all add: demo_archive_codec_def)
  have f: "jo_files demo_journal = []" "jo_files demo_journal_intent = []" by (simp_all add: demo_journal_def demo_journal_intent_def)
  have "write_archive demo_archive_codec (\<lambda>_. Inr ()) (\<lambda>b. (b, True)) 9000 ''x'' ''a'' demo_journal_pack demo_journal
      = (st4, Inr (archive_report demo_archive_codec ''a'' demo_journal_pack))"
    unfolding write_archive_def c demo_journal_start Let_def
    using demo_journal_commit s4(1) by (simp add: f read_bytes_def PACK_LIMIT_def demo_journal_stored_def)
  then have "?call = (st4, Inr (archive_report demo_archive_codec ''a'' demo_journal_pack))"
    unfolding archive_terminal_journals_def demo_journal_records
    by (simp add: c f archive_budget_def check_all_def PACK_LIMIT_def ARCHIVE_LIMIT_def Let_def) (simp add: demo_journal_pack_def)
  then have "snd ?call = Inr (archive_report demo_archive_codec ''a'' demo_journal_pack) \<and> stored_text (fst ?call) (PlanText ''p'') = Some ''m''"
    by (simp add: s4(2) demo_journal_committed_def)
  moreover have "logical demo_archive_codec (\<lambda>_. Inr ()) (fst ?call) (PlanText ''p'') = Some ''v''"
  proof (rule archiving_preserves_logical_history)
    show "?call = (fst ?call, snd ?call)" by simp
    show "fixed_name (''a'' @ ''.json'') = Inr ()" by (simp add: fixed_name_def ascii_class_defs suffix_def)
    show "\<forall>records. terminal_records demo_archive_codec 9000 demo_journal ''w'' 5000 1 = Inr records
       \<longrightarrow> reads_back demo_archive_codec (\<lambda>b. (b, True)) ''a'' \<lparr>pk_schema = 1, pk_project = ''w'', pk_created = 9000, pk_entries = records\<rparr>"
      unfolding demo_journal_records by (simp add: reads_back_def demo_archive_codec_def demo_journal_pack_def)
    show "logical demo_archive_codec (\<lambda>_. Inr ()) demo_journal (PlanText ''p'') = Some ''v''"
      by (simp add: logical_def hydrate_journal_def demo_archive_codec_def demo_journal_def)
  qed
  ultimately show ?thesis by (metis prod.collapse)
qed

section \<open>Restoring a backup\<close>

lemma copy_packs_found:
  "copy_packs J ok codes src used rows tgt = Inr out \<Longrightarrow> (\<forall>n d. map_of tgt n = Some d \<longrightarrow> map_of out n = Some d)
     \<and> (\<forall>a \<in> set rows. \<exists>b. read_bytes ok src (ja_file a) = Inr b \<and> read_bytes ok out (ja_file a) = Inr b)"
proof (induction J ok codes src used rows tgt rule: copy_packs.induct)
  case (2 J ok codes src used a rest tgt)
  obtain b where b: "read_bytes ok src (ja_file a) = Inr b" "map_of tgt (ja_file a) = None"
    and rest: "copy_packs J ok codes src (used + nat (ja_bytes a)) rest (tgt @ [(ja_file a, b)]) = Inr out"
    and ih: "(\<forall>n d. map_of (tgt @ [(ja_file a, b)]) n = Some d \<longrightarrow> map_of out n = Some d)
     \<and> (\<forall>a \<in> set rest. \<exists>b. read_bytes ok src (ja_file a) = Inr b \<and> read_bytes ok out (ja_file a) = Inr b)"
    using 2 by (auto simp: bind_check_ok Let_def split: if_splits)
  have "map_of out (ja_file a) = Some b" using ih b(2) by (simp add: map_add_def)
  then have "read_bytes ok out (ja_file a) = Inr b" using b(1) by (auto simp: read_bytes_def bind_check_ok ok_or_ok split: if_splits)
  then show ?case using ih b by (auto simp: map_add_def)
qed simp

text \<open>Only the named files of the source are read.\<close>

lemma copy_packs_same:
  "copy_packs J ok codes src used rows tgt = Inr out \<Longrightarrow>
   \<forall>a \<in> set rows. read_bytes ok src' (ja_file a) = read_bytes ok src (ja_file a) \<Longrightarrow>
   copy_packs J ok codes' src' used rows tgt = Inr out"
proof (induction J ok codes src used rows tgt rule: copy_packs.induct)
  case (2 J ok codes src used a rest tgt)
  then show ?case by (auto simp: bind_check_ok Let_def split: if_splits)
qed simp

lemma hydrate_same_files:
  assumes "jo_files st' = files" "st' = st\<lparr>jo_files := files\<rparr>"
    and "\<forall>a \<in> set (jo_archives st). read_bytes ok files (ja_file a) = read_bytes ok (jo_files st) (ja_file a)"
    and "hydrate_journal J ok st kind key t = Inr v"
  shows "hydrate_journal J ok st' kind key t = Inr v"
proof -
  obtain j where j: "ac_parse J t = Some j" using hydrate_parses[OF assms(4)] by blast
  have o: "archive_of st' kind key = archive_of st kind key" "jo_version st' = jo_version st" by (simp_all add: assms(2) archive_of_def)
  have h: "hydrate_from J ok files a kind key d = hydrate_from J ok (jo_files st) a kind key d" if "archive_of st kind key = Some (r, a)" for r a d
  proof -
    have "a \<in> set (jo_archives st)" using that by (auto simp: archive_of_def Option.bind_eq_Some_conv find_Some_iff)
    then show ?thesis using assms(3) by (simp add: hydrate_from_def)
  qed
  show ?thesis
  proof (cases "json_get j ''workstation_archive''")
    case None
    then show ?thesis using assms(4) hydrate_plain[OF j] by blast
  next
    case (Some m)
    show ?thesis using assms(4) h unfolding hydrate_marked[OF j Some] o assms(1) by metis
  qed
qed

text \<open>
  A backup carries the archives it needs. When the companion directory of a backup could be written, restoring it
  into a home without archive files succeeds, and every journal text that could be hydrated before the backup hydrates to
  the same text in the restored home.
\<close>

theorem restored_backup_reads_alike:
  assumes "copy_archive_dependencies J ok st None = Inr companion" and "hydrate_journal J ok st kind key text = Inr v"
  shows "\<exists>st'. restore_archive_dependencies J ok companion (st\<lparr>jo_files := []\<rparr>) = Inr st' \<and> hydrate_journal J ok st' kind key text = Inr v"
proof -
  let ?rows = "archives_in_order st" and ?home = "st\<lparr>jo_files := []\<rparr>"
  have order: "archives_in_order ?home = ?rows" by (simp add: archives_in_order_def)
  obtain j where j: "ac_parse J text = Some j" using hydrate_parses[OF assms(2)] by blast
  show ?thesis
  proof (cases "jo_version st < 4 \<or> ?rows = []")
    case True
    have "archive_of st kind key = None" if "?rows = []" using that by (cases "jo_archives st") (auto simp: archives_in_order_def archive_of_def Option.bind_eq_None_conv)
    then have "json_get j ''workstation_archive'' = None"
      using assms(2) True by (cases "json_get j ''workstation_archive''") (auto simp: hydrate_marked[OF j])
    then have "hydrate_journal J ok ?home kind key text = Inr v" using assms(2) hydrate_plain[OF j] by blast
    then show ?thesis using True assms(1) by (auto simp: restore_archive_dependencies_def copy_archive_dependencies_def order Let_def split: if_splits)
  next
    case False
    then obtain files where c: "companion = Some files" "copy_packs J ok backup_codes (jo_files st) 0 ?rows [] = Inr files" "length ?rows \<le> 128"
      using assms(1) by (auto simp: copy_archive_dependencies_def Let_def bind_check_ok split: if_splits)
    have all: "set ?rows = set (jo_archives st)" using c(3) by (simp add: archives_in_order_def)
    have same: "\<forall>a \<in> set ?rows. read_bytes ok files (ja_file a) = read_bytes ok (jo_files st) (ja_file a)"
      using copy_packs_found[OF c(2)] by metis
    have "restore_archive_dependencies J ok companion ?home = Inr (?home\<lparr>jo_files := files\<rparr>)"
      using False c(1,3) copy_packs_same[OF c(2) same] by (simp add: restore_archive_dependencies_def order Let_def)
    then show ?thesis using hydrate_same_files[OF _ _ same[unfolded all] assms(2)] by simp
  qed
qed

theorem restored_backup_reads_alike_witness:
  "copy_archive_dependencies demo_archive_codec (\<lambda>_. Inr ()) demo_journal_committed None = Inr (Some [(''a.json'', ''pack'')])
   \<and> (\<exists>st'. restore_archive_dependencies demo_archive_codec (\<lambda>_. Inr ()) (Some [(''a.json'', ''pack'')])
       (demo_journal_committed\<lparr>jo_files := []\<rparr>) = Inr st' \<and> hydrate_journal demo_archive_codec (\<lambda>_. Inr ()) st' ''plan'' ''p'' ''m'' = Inr ''v'')"
proof -
  let ?ok = "\<lambda>_::string. Inr () :: unit check"
  have n: "fixed_name ''a.json'' = Inr ()" by (simp add: fixed_name_def ascii_class_defs suffix_def)
  have c: "copy_archive_dependencies demo_archive_codec ?ok demo_journal_committed None = Inr (Some [(''a.json'', ''pack'')])"
    by (simp add: copy_archive_dependencies_def archives_in_order_def demo_journal_committed_def demo_journal_stored_def n
        demo_journal_intent_def demo_journal_def demo_archive_codec_def read_bytes_def ARCHIVE_LIMIT_def PACK_LIMIT_def Let_def)
  have "archive_of demo_journal_committed ''plan'' ''p'' = Some (hd (jo_refs demo_journal_committed), hd (jo_archives demo_journal_committed))"
    by (simp add: archive_of_def demo_journal_committed_def)
  then have h: "hydrate_journal demo_archive_codec ?ok demo_journal_committed ''plan'' ''p'' ''m'' = Inr ''v''"
    by (simp add: hydrate_journal_def demo_archive_codec_def archive_marker_def json_str_at_def require_v4_def demo_journal_committed_def
        demo_journal_stored_def demo_journal_intent_def demo_journal_def hydrate_from_def n read_bytes_def PACK_LIMIT_def
        demo_journal_pack_def pack_value_def)
  show ?thesis using c restored_backup_reads_alike[OF c h] by blast
qed

end
