(* ===== verification/Continuation_Store.thy ===== *)
theory Continuation_Store
  imports Control_Work Health_Rules Integrations
begin

text \<open>
  Sessions outside the control commands: lifecycle imports, lease renewal and the continuation of a work item by an owned
  process (\<open>workstation-platform/src/integration_store.rs\<close>). A row of \<open>sessions\<close> keeps its columns beside its payload,
  because an import may let them differ. A transaction that fails leaves the tables as they were.
\<close>

section \<open>Tables\<close>

record session_row =
  sx_id :: string
  sx_project :: string
  sx_agent :: string
  sx_external :: string
  sx_workspace :: "string option"
  sx_last :: int
  sx_ended :: "int option"
  sx_payload :: session

record notice_row =
  lv_source :: string
  lv_project :: string
  lv_digest :: string
  lv_payload :: lifecycle_event
  lv_received :: int

record continuation_row =
  cn_run :: string
  cn_work :: string
  cn_checkpoint :: string
  cn_session :: string
  cn_state :: string
  cn_created :: int

record session_db =
  sd_version :: int
  sd_projects :: "string list"
  sd_workspaces :: "(string \<times> string) list"
  sd_work :: "work_item list"
  sd_assignments :: "assignment_row list"
  sd_sessions :: "session_row list"
  sd_events :: "notice_row list"
  sd_effect_runs :: "string list"
  sd_checkpoints :: "string list"
  sd_continuations :: "continuation_row list"
  sd_audit :: "audit_row list"

text \<open>Digests and lengths of the stored texts.\<close>

record session_codec =
  sc_event_sha :: "lifecycle_event \<Rightarrow> string"
  sc_event_len :: "lifecycle_event \<Rightarrow> nat"
  sc_key_sha :: "string \<Rightarrow> string"
  sc_session_len :: "session \<Rightarrow> nat"
  sc_audit_len :: "int json \<Rightarrow> nat"

definition session_rejected :: string where "session_rejected = ''INTEGRATION_DATABASE_REJECTED''"

definition sql_when :: "bool \<Rightarrow> 'a \<Rightarrow> 'a check" where
  "sql_when ok db = (if ok then Inr db else Inl session_rejected)"

lemma sql_when_ok: "sql_when ok db = Inr db' \<longleftrightarrow> ok \<and> db' = db"
  by (auto simp: sql_when_def)

definition session_v3 :: "session_db \<Rightarrow> unit check" where
  "session_v3 db = reject (sd_version db \<notin> {3, 4, 5}) ''INTEGRATION_UPGRADE_REQUIRED''"

definition session_audit :: "session_codec \<Rightarrow> string \<Rightarrow> string \<Rightarrow> string \<Rightarrow> int \<Rightarrow> string \<Rightarrow> int json \<Rightarrow> session_db \<Rightarrow> session_db check" where
  "session_audit J event project kind at_time source data db =
     (let nxt = (if sd_audit db = [] then 1 else au_seq (last (sd_audit db)) + 1) in sql_when
       (\<not> list_ex (\<lambda>x. au_event x = event) (sd_audit db) \<and> nxt < 2 ^ 63 \<and> project \<in> set (sd_projects db) \<and> sc_audit_len J data \<le> 16384)
       (db\<lparr>sd_audit := sd_audit db @ [\<lparr>au_seq = nxt, au_event = event, au_project = Some project, au_kind = kind,
          au_recorded = at_time, au_source = source, au_payload = data\<rparr>]\<rparr>))"

text \<open>The constraints on one row of \<open>sessions\<close>.\<close>

definition session_row_ok :: "session_codec \<Rightarrow> session_row \<Rightarrow> bool" where
  "session_row_ok J r \<longleftrightarrow> 1 \<le> length (chars (sx_external r)) \<and> length (chars (sx_external r)) \<le> 256 \<and> 0 \<le> sx_last r
     \<and> (case sx_ended r of None \<Rightarrow> True | Some t \<Rightarrow> sx_last r \<le> t) \<and> sc_session_len J (sx_payload r) \<le> 16384"

definition session_unique :: "session_db \<Rightarrow> session_row \<Rightarrow> bool" where
  "session_unique db r \<longleftrightarrow> \<not> list_ex (\<lambda>x. sx_id x \<noteq> sx_id r \<and> sx_project x = sx_project r \<and> sx_agent x = sx_agent r
     \<and> sx_external x = sx_external r) (sd_sessions db)"

definition session_row_of :: "session \<Rightarrow> session_row" where
  "session_row_of s = \<lparr>sx_id = ses_id s, sx_project = ses_project_id s, sx_agent = ses_agent s, sx_external = ses_external_id s,
     sx_workspace = ses_workspace_id s, sx_last = ses_last_observed s, sx_ended = ses_ended_at s, sx_payload = s\<rparr>"

definition insert_session :: "session_codec \<Rightarrow> session \<Rightarrow> session_db \<Rightarrow> session_db check" where
  "insert_session J s db = sql_when
     (session_row_ok J (session_row_of s) \<and> session_unique db (session_row_of s)
       \<and> \<not> list_ex (\<lambda>x. sx_id x = ses_id s) (sd_sessions db) \<and> ses_project_id s \<in> set (sd_projects db)
       \<and> (case ses_workspace_id s of None \<Rightarrow> True | Some w \<Rightarrow> (ses_project_id s, w) \<in> set (sd_workspaces db)))
     (db\<lparr>sd_sessions := sd_sessions db @ [session_row_of s]\<rparr>)"

text \<open>\<open>UPDATE\<close> of the row with an identifier; the changed row must satisfy the constraints.\<close>

definition update_session :: "session_codec \<Rightarrow> string \<Rightarrow> (session_row \<Rightarrow> session_row) \<Rightarrow> session_db \<Rightarrow> session_db check" where
  "update_session J i f db = sql_when
     (list_all (\<lambda>x. sx_id x = i \<longrightarrow> session_row_ok J (f x) \<and> session_unique db (f x)) (sd_sessions db))
     (db\<lparr>sd_sessions := map (\<lambda>x. if sx_id x = i then f x else x) (sd_sessions db)\<rparr>)"

text \<open>\<open>INSERT ... ON CONFLICT(id) DO UPDATE\<close> of the observation columns and the payload only.\<close>

definition observed_row :: "session \<Rightarrow> session_row \<Rightarrow> session_row" where
  "observed_row s x = x\<lparr>sx_last := ses_last_observed s, sx_ended := ses_ended_at s, sx_payload := s\<rparr>"

definition observe_session :: "session_codec \<Rightarrow> session \<Rightarrow> session_db \<Rightarrow> session_db check" where
  "observe_session J s db =
     (if \<not> session_row_ok J (session_row_of s) then Inl session_rejected
      else if list_ex (\<lambda>x. sx_id x = ses_id s) (sd_sessions db) then update_session J (ses_id s) (observed_row s) db
      else insert_session J s db)"

section \<open>Lifecycle imports\<close>

definition lifecycle_id :: "session_codec \<Rightarrow> lifecycle_event \<Rightarrow> string" where
  "lifecycle_id J e = ''lifecycle-'' @ take 32 (sc_key_sha J
     (le_project_id e @ '':'' @ le_agent e @ '':'' @ le_external_session_id e))"

definition new_session :: "session_codec \<Rightarrow> lifecycle_event \<Rightarrow> session" where
  "new_session J e = \<lparr>ses_id = lifecycle_id J e, ses_project_id = le_project_id e, ses_agent = le_agent e,
     ses_external_id = le_external_session_id e, ses_adapter_version = le_source_revision e, ses_role = ''worker'',
     ses_workspace_id = le_workspace_id e, ses_last_observed = le_observed_at e, ses_ended_at = None, ses_coverage = Partial\<rparr>"

definition event_session :: "session_db \<Rightarrow> lifecycle_event \<Rightarrow> session_row option" where
  "event_session db e = find (\<lambda>x. sx_project x = le_project_id e \<and> sx_agent x = le_agent e
     \<and> sx_external x = le_external_session_id e) (sd_sessions db)"

definition observe_event :: "lifecycle_event \<Rightarrow> session \<Rightarrow> session check" where
  "observe_event e s =
     (if le_workspace_id e \<noteq> None \<and> le_workspace_id e \<noteq> ses_workspace_id s
        then Inl ''LIFECYCLE_WORKSPACE_CHANGE_REQUIRES_EXPLICIT_REBIND''
      else if le_observed_at e < ses_last_observed s then Inr s
      else if ses_ended_at s \<noteq> None \<and> le_event e \<noteq> ''ended'' then Inl ''ENDED_SESSION_NOT_IMPLICITLY_REOPENED''
      else Inr (s\<lparr>ses_last_observed := le_observed_at e,
        ses_ended_at := if le_event e = ''ended'' then Some (le_observed_at e) else ses_ended_at s\<rparr>))"

definition insert_notice :: "session_codec \<Rightarrow> int \<Rightarrow> lifecycle_event \<Rightarrow> session_db \<Rightarrow> session_db check" where
  "insert_notice J at_time e db = sql_when
     (\<not> list_ex (\<lambda>x. lv_project x = le_project_id e \<and> lv_source x = le_source_id e) (sd_events db)
       \<and> le_project_id e \<in> set (sd_projects db) \<and> length (chars (sc_event_sha J e)) = 64 \<and> sc_event_len J e \<le> 8192)
     (db\<lparr>sd_events := sd_events db @ [\<lparr>lv_source = le_source_id e, lv_project = le_project_id e, lv_digest = sc_event_sha J e,
        lv_payload = e, lv_received = at_time\<rparr>]\<rparr>)"

text \<open>\<open>max(received_at)\<close> over the events of the session; no row gives \<open>None\<close>.\<close>

definition last_received :: "session_db \<Rightarrow> lifecycle_event \<Rightarrow> int option" where
  "last_received db e = (case map lv_received (filter (\<lambda>x. lv_project x = le_project_id e
       \<and> le_external_session_id (lv_payload x) = le_external_session_id e \<and> le_agent (lv_payload x) = le_agent e) (sd_events db)) of
     [] \<Rightarrow> None | t # ts \<Rightarrow> Some (fold max ts t))"

definition import_event :: "session_codec \<Rightarrow> int \<Rightarrow> string \<Rightarrow> lifecycle_event \<Rightarrow> session_db \<Rightarrow> (session_db \<times> int json) check" where
  "import_event J at_time event e db =
     bind_check (observe_event e (case event_session db e of Some x \<Rightarrow> sx_payload x | None \<Rightarrow> new_session J e)) (\<lambda>s.
     bind_check (insert_notice J at_time e db) (\<lambda>db1.
     bind_check (observe_session J s db1) (\<lambda>db2.
     bind_check (session_audit J event (le_project_id e) ''lifecycle_import'' at_time ''agent_reported''
       (JObj [(''event'', JStr (le_event e)), (''session_id'', JStr (ses_id s)), (''source_id'', JStr (le_source_id e)),
          (''transcript_read'', JBool False)]) db2) (\<lambda>db3.
     Inr (db3, JObj [(''assignment_changed'', JBool False), (''authority'', JStr ''agent_reported''), (''recorded'', JBool True),
       (''session_id'', JStr (ses_id s))])))))"

definition ingest_lifecycle :: "session_codec \<Rightarrow> int \<Rightarrow> string \<Rightarrow> lifecycle_event \<Rightarrow> session_db \<Rightarrow> (session_db \<times> int json) check" where
  "ingest_lifecycle J at_time event e db =
     bind_check (checks [session_v3 db,
       reject (le_observed_at e > at_time + 60 \<or> le_observed_at e < 0) ''LIFECYCLE_TIME_INVALID'',
       check_opt (\<lambda>w. reject ((le_project_id e, w) \<notin> set (sd_workspaces db)) ''CONTROL_DATABASE_REJECTED'') (le_workspace_id e)]) (\<lambda>_.
     if le_event e = ''activity'' \<and> (case last_received db e of None \<Rightarrow> False | Some t \<Rightarrow> t \<le> at_time \<and> at_time - t < 10)
       then Inr (db, JObj [(''authority'', JStr ''agent_reported''), (''reason'', JStr ''activity_sampling_budget''), (''recorded'', JBool False)])
     else case find (\<lambda>x. lv_project x = le_project_id e \<and> lv_source x = le_source_id e) (sd_events db) of
       Some old \<Rightarrow> if lv_digest old = sc_event_sha J e then Inr (db, JObj [(''changed'', JBool False), (''duplicate'', JBool True)])
         else Inl ''LIFECYCLE_ID_REUSE_WITH_DIFFERENT_CONTENT''
     | None \<Rightarrow> import_event J at_time event e db)"

section \<open>Leases and continuations\<close>

definition renew_lease :: "int \<Rightarrow> string \<Rightarrow> string \<Rightarrow> nat \<Rightarrow> session_db \<Rightarrow> (session_db \<times> int json) check" where
  "renew_lease at_time assignment session seconds db =
     bind_check (checks [session_v3 db, reject (\<not> (30 \<le> seconds \<and> seconds \<le> 3600)) ''LEASE_RANGE'']) (\<lambda>_.
     let lease = at_time + int seconds;
         hit = (\<lambda>a. as_id a = assignment \<and> as_session a = session \<and> live_assignment a
           \<and> list_ex (\<lambda>x. sx_id x = session \<and> sx_ended x = None) (sd_sessions db)) in
     if list_ex (\<lambda>a. hit a \<and> lease < as_created a) (sd_assignments db) then Inl session_rejected
     else if length (filter hit (sd_assignments db)) \<noteq> 1 then Inl ''LEASE_OWNER_OR_STATE_CHANGED''
     else Inr (db\<lparr>sd_assignments := map (\<lambda>a. if hit a then a\<lparr>as_lease_until := lease\<rparr> else a) (sd_assignments db)\<rparr>,
       JObj [(''exclusive_lock'', JBool False), (''lease_until'', JNum lease)]))"

definition add_assignment :: "assignment_row \<Rightarrow> session_db \<Rightarrow> session_db check" where
  "add_assignment a db = sql_when
     (\<not> list_ex (\<lambda>r. as_id r = as_id a) (sd_assignments db)
       \<and> list_ex (\<lambda>w. wi_id w = as_work a \<and> wi_project_id w = as_project a) (sd_work db)
       \<and> list_ex (\<lambda>x. sx_id x = as_session a \<and> sx_project x = as_project a) (sd_sessions db)
       \<and> \<not> list_ex (\<lambda>r. live_assignment r \<and> as_role r = ''primary'' \<and> as_role a = ''primary'' \<and> as_work r = as_work a) (sd_assignments db)
       \<and> \<not> list_ex (\<lambda>r. live_assignment r \<and> as_work r = as_work a \<and> as_session r = as_session a \<and> as_role r = as_role a) (sd_assignments db)
       \<and> as_created a \<le> as_lease_until a)
     (db\<lparr>sd_assignments := sd_assignments db @ [a]\<rparr>)"

definition add_continuation :: "continuation_row \<Rightarrow> session_db \<Rightarrow> session_db check" where
  "add_continuation c db = sql_when
     (\<not> list_ex (\<lambda>x. cn_run x = cn_run c) (sd_continuations db) \<and> cn_run c \<in> set (sd_effect_runs db)
       \<and> list_ex (\<lambda>w. wi_id w = cn_work c) (sd_work db) \<and> cn_checkpoint c \<in> set (sd_checkpoints db)
       \<and> list_ex (\<lambda>x. sx_id x = cn_session c) (sd_sessions db))
     (db\<lparr>sd_continuations := sd_continuations db @ [c]\<rparr>)"

definition run_session :: "int \<Rightarrow> string \<Rightarrow> checkpoint \<Rightarrow> integration \<Rightarrow> session" where
  "run_session at_time run cp i = \<lparr>ses_id = ''run-'' @ run, ses_project_id = wi_project_id (cp_work cp),
     ses_agent = adapter_id (int_adapter i), ses_external_id = ''pending-'' @ run, ses_adapter_version = int_version_text i,
     ses_role = ''worker'', ses_workspace_id = Some (st_workspace_id (cp_workspace cp)), ses_last_observed = at_time,
     ses_ended_at = None, ses_coverage = Partial\<rparr>"

text \<open>The session of the continuation: a new one, or the ended session that is resumed.\<close>

definition open_session :: "session_codec \<Rightarrow> session \<Rightarrow> string option \<Rightarrow> session_db \<Rightarrow> (session_db \<times> session) check" where
  "open_session J s resume db = (case resume of
     None \<Rightarrow> bind_check (insert_session J s db) (\<lambda>db'. Inr (db', s))
   | Some external \<Rightarrow> bind_check (ok_or (find (\<lambda>x. sx_project x = ses_project_id s \<and> sx_agent x = ses_agent s
         \<and> sx_external x = external) (sd_sessions db)) ''RESUME_SESSION_MUST_BE_REGISTERED'') (\<lambda>x.
       let old = sx_payload x in
       if ses_workspace_id old \<noteq> ses_workspace_id s \<or> ses_ended_at old = None then Inl ''RESUME_SESSION_SCOPE_OR_ACTIVITY''
       else let s' = s\<lparr>ses_id := ses_id old, ses_external_id := external\<rparr> in
         bind_check (update_session J (ses_id s') (\<lambda>y. y\<lparr>sx_last := ses_last_observed s', sx_ended := None, sx_payload := s'\<rparr>) db)
           (\<lambda>db'. Inr (db', s'))))"

definition workspace_taken :: "session_db \<Rightarrow> string \<Rightarrow> string \<Rightarrow> bool" where
  "workspace_taken db project ws = list_ex (\<lambda>a. as_project a = project \<and> as_role a = ''primary'' \<and> live_assignment a
     \<and> list_ex (\<lambda>x. sx_id x = as_session a \<and> sx_workspace x = Some ws \<and> sx_ended x = None) (sd_sessions db)) (sd_assignments db)"

definition reserve_continuation ::
    "session_codec \<Rightarrow> int \<Rightarrow> string \<Rightarrow> string \<Rightarrow> checkpoint \<Rightarrow> integration \<Rightarrow> string option \<Rightarrow> nat \<Rightarrow> session_db
     \<Rightarrow> (session_db \<times> string) check" where
  "reserve_continuation J at_time event run cp i resume timeout db =
     bind_check (session_v3 db) (\<lambda>_.
     bind_check (ok_or (find (\<lambda>w. wi_id w = wi_id (cp_work cp) \<and> wi_project_id w = wi_project_id (cp_work cp)) (sd_work db)) session_rejected) (\<lambda>w.
     if wi_version w \<noteq> wi_version (cp_work cp) \<or> wi_state w \<in> {Done, Cancelled} then Inl ''CONTINUATION_WORK_CHANGED_OR_TERMINAL''
     else if list_ex (primary_of (wi_id (cp_work cp))) (sd_assignments db) then Inl ''PRIMARY_MUST_BE_EXPLICITLY_RELEASED_BEFORE_CONTINUATION''
     else if workspace_taken db (wi_project_id (cp_work cp)) (st_workspace_id (cp_workspace cp)) then Inl ''OTHER_PRIMARY_WORKER_IN_WORKSPACE''
     else bind_check (open_session J (run_session at_time run cp i) resume db) (\<lambda>(db1, s).
       bind_check (add_assignment \<lparr>as_id = ''assignment-'' @ run, as_work = wi_id (cp_work cp), as_project = wi_project_id (cp_work cp),
         as_session = ses_id s, as_role = ''primary'', as_lease_until = at_time + int timeout + 60, as_created = at_time,
         as_released = None\<rparr> db1) (\<lambda>db2.
       bind_check (add_continuation \<lparr>cn_run = run, cn_work = wi_id (cp_work cp), cn_checkpoint = cp_id cp, cn_session = ses_id s,
         cn_state = ''starting'', cn_created = at_time\<rparr> db2) (\<lambda>db3.
       bind_check (session_audit J event (wi_project_id (cp_work cp)) ''continuation_reserved'' at_time ''observed''
         (JObj [(''effect_run_id'', JStr run), (''scope'', JStr ''bounded_owned_execution_not_exclusive_os_lock''),
            (''session_id'', JStr (ses_id s)), (''work_id'', JStr (wi_id (cp_work cp)))]) db3) (\<lambda>db4.
       Inr (db4, ses_id s)))))))"

text \<open>The session of a continuation.\<close>

definition continuation_of :: "session_db \<Rightarrow> string \<Rightarrow> (continuation_row \<times> session_row) option" where
  "continuation_of db run = Option.bind (find (\<lambda>c. cn_run c = run) (sd_continuations db)) (\<lambda>c.
     map_option (Pair c) (find (\<lambda>x. sx_id x = cn_session c) (sd_sessions db)))"

definition set_continuation :: "string \<Rightarrow> string \<Rightarrow> session_db \<Rightarrow> session_db" where
  "set_continuation run state db = db\<lparr>sd_continuations := map (\<lambda>c. if cn_run c = run then c\<lparr>cn_state := state\<rparr> else c) (sd_continuations db)\<rparr>"

definition bind_continuation_session :: "session_codec \<Rightarrow> int \<Rightarrow> string \<Rightarrow> string \<Rightarrow> session_db \<Rightarrow> session_db check" where
  "bind_continuation_session J at_time run external db =
     bind_check (control_text external 256) (\<lambda>_.
     case continuation_of db run of
       None \<Rightarrow> Inl session_rejected
     | Some (c, x) \<Rightarrow> if cn_state c \<noteq> ''starting'' then Inl session_rejected
         else let s = (sx_payload x)\<lparr>ses_external_id := external, ses_last_observed := at_time\<rparr> in
           bind_check (update_session J (sx_id x) (\<lambda>y. y\<lparr>sx_external := external, sx_last := at_time, sx_payload := s\<rparr>) db) (\<lambda>db1.
           Inr (set_continuation run ''running'' db1)))"

definition finish_continuation :: "session_codec \<Rightarrow> int \<Rightarrow> string \<Rightarrow> string \<Rightarrow> bool \<Rightarrow> session_db \<Rightarrow> session_db check" where
  "finish_continuation J at_time event run clean db =
     (case continuation_of db run of
        None \<Rightarrow> Inr db
      | Some (_, x) \<Rightarrow>
          let s = (if clean then (sx_payload x)\<lparr>ses_last_observed := at_time, ses_ended_at := Some at_time\<rparr> else sx_payload x) in
          bind_check (if clean then update_session J (sx_id x) (\<lambda>y. y\<lparr>sx_last := at_time, sx_ended := Some at_time, sx_payload := s\<rparr>) db
            else Inr db) (\<lambda>db1.
          session_audit J event (ses_project_id s) ''continuation_transport_ended'' at_time ''observed''
            (JObj [(''clean_transport_end'', JBool clean), (''effect_run_id'', JStr run), (''ownership_retained'', JBool True),
               (''primary_assignment_released'', JBool False), (''work_marked_done'', JBool False)])
            (set_continuation run (if clean then ''completed'' else ''uncertain'') db1)))"

section \<open>Ownership\<close>

inductive owner_step :: "session_codec \<Rightarrow> session_db \<Rightarrow> session_db \<Rightarrow> bool" for J where
  imported: "ingest_lifecycle J t event e db = Inr (db', out) \<Longrightarrow> owner_step J db db'"
| renewed: "renew_lease t assignment session seconds db = Inr (db', out) \<Longrightarrow> owner_step J db db'"
| reserved: "reserve_continuation J t event run cp i resume timeout db = Inr (db', sid) \<Longrightarrow> owner_step J db db'"
| bound: "bind_continuation_session J t run external db = Inr db' \<Longrightarrow> owner_step J db db'"
| finished: "finish_continuation J t event run clean db = Inr db' \<Longrightarrow> owner_step J db db'"

definition owner_view :: "session_db \<Rightarrow> assignment_row list \<times> work_item list" where
  "owner_view db = (sd_assignments db, sd_work db)"

lemma session_statements_frame:
  "session_audit J event p kind t src data db = Inr db' \<Longrightarrow> owner_view db' = owner_view db \<and> sd_sessions db' = sd_sessions db \<and> sd_events db' = sd_events db"
  "insert_session J s db = Inr db' \<Longrightarrow> owner_view db' = owner_view db \<and> sd_events db' = sd_events db"
  "update_session J k f db = Inr db' \<Longrightarrow> owner_view db' = owner_view db \<and> sd_events db' = sd_events db"
  "observe_session J s db = Inr db' \<Longrightarrow> owner_view db' = owner_view db \<and> sd_events db' = sd_events db"
  "insert_notice J t e db = Inr db' \<Longrightarrow> owner_view db' = owner_view db \<and> sd_sessions db' = sd_sessions db"
  "add_continuation c db = Inr db' \<Longrightarrow> owner_view db' = owner_view db"
  "owner_view (set_continuation run state db) = owner_view db"
  "open_session J s resume db = Inr (db', s') \<Longrightarrow> owner_view db' = owner_view db"
  by (auto simp: session_audit_def insert_session_def update_session_def observe_session_def insert_notice_def add_continuation_def
      set_continuation_def open_session_def sql_when_ok Let_def owner_view_def bind_check_ok split: if_splits option.splits)

lemma import_frame: "import_event J t event e db = Inr (db', out) \<Longrightarrow> owner_view db' = owner_view db"
  by (auto simp: import_event_def bind_check_ok dest!: session_statements_frame(1,4,5))

lemma ingest_frame: "ingest_lifecycle J t event e db = Inr (db', out) \<Longrightarrow> owner_view db' = owner_view db"
  by (auto simp: ingest_lifecycle_def bind_check_ok split: if_splits option.splits dest: import_frame)

lemma bind_frame: "bind_continuation_session J t run external db = Inr db' \<Longrightarrow> owner_view db' = owner_view db"
  by (auto simp: bind_continuation_session_def bind_check_ok Let_def session_statements_frame(7) split: if_splits option.splits
      dest!: session_statements_frame(3))

lemma finish_frame: "finish_continuation J t event run clean db = Inr db' \<Longrightarrow> owner_view db' = owner_view db"
  by (auto simp: finish_continuation_def bind_check_ok Let_def session_statements_frame(7) split: if_splits option.splits
      dest!: session_statements_frame(1,3))

lemma reserve_ok:
  assumes "reserve_continuation J t event run cp i resume timeout db = Inr (db', sid)"
  obtains a where "sd_assignments db' = sd_assignments db @ [a]" "sd_work db' = sd_work db" "primary_of (wi_id (cp_work cp)) a"
    "as_id a = ''assignment-'' @ run" "as_session a = sid" "\<not> list_ex (primary_of (wi_id (cp_work cp))) (sd_assignments db)"
proof -
  obtain db1 s db2 db3 where n: "\<not> list_ex (primary_of (wi_id (cp_work cp))) (sd_assignments db)"
    and o1: "open_session J (run_session t run cp i) resume db = Inr (db1, s)"
    and o2: "add_assignment \<lparr>as_id = ''assignment-'' @ run, as_work = wi_id (cp_work cp), as_project = wi_project_id (cp_work cp),
         as_session = ses_id s, as_role = ''primary'', as_lease_until = t + int timeout + 60, as_created = t, as_released = None\<rparr> db1 = Inr db2"
    and o3: "add_continuation \<lparr>cn_run = run, cn_work = wi_id (cp_work cp), cn_checkpoint = cp_id cp, cn_session = ses_id s,
         cn_state = ''starting'', cn_created = t\<rparr> db2 = Inr db3"
    and o4: "session_audit J event (wi_project_id (cp_work cp)) ''continuation_reserved'' t ''observed''
         (JObj [(''effect_run_id'', JStr run), (''scope'', JStr ''bounded_owned_execution_not_exclusive_os_lock''),
            (''session_id'', JStr (ses_id s)), (''work_id'', JStr (wi_id (cp_work cp)))]) db3 = Inr db'" and sid: "sid = ses_id s"
    using assms by (auto simp: reserve_continuation_def bind_check_ok split: if_splits)
  show thesis
    using session_statements_frame(8)[OF o1] session_statements_frame(6)[OF o3] session_statements_frame(1)[OF o4] o2 n sid
    by (intro that) (auto simp: owner_view_def add_assignment_def sql_when_ok primary_of_def live_assignment_def)
qed

text \<open>The run's session is the one primary worker of the work item.\<close>

definition owns :: "string \<Rightarrow> string \<Rightarrow> string \<Rightarrow> session_db \<Rightarrow> bool" where
  "owns run work session db \<longleftrightarrow> (\<exists>a. filter (primary_of work) (sd_assignments db) = [a]
     \<and> as_id a = ''assignment-'' @ run \<and> as_session a = session)"

lemma owner_view_keeps:
  "owner_view db' = owner_view db \<Longrightarrow> sd_work db' = sd_work db \<and> (owns run work sid db \<longrightarrow> owns run work sid db')"
  by (simp add: owner_view_def owns_def)

lemma renew_keeps:
  assumes "renew_lease t assignment session seconds db = Inr (db', out)"
  shows "sd_work db' = sd_work db" "owns run work sid db \<Longrightarrow> owns run work sid db'"
proof -
  obtain hit l where d: "db' = db\<lparr>sd_assignments := map (\<lambda>a. if hit a then a\<lparr>as_lease_until := l\<rparr> else a) (sd_assignments db)\<rparr>"
    using assms by (auto simp: renew_lease_def bind_check_ok Let_def split: if_splits)
  let ?f = "\<lambda>a :: assignment_row. if hit a then a\<lparr>as_lease_until := l\<rparr> else a"
  show "sd_work db' = sd_work db" by (simp add: d)
  have "filter (primary_of work) (map ?f xs) = map ?f (filter (primary_of work) xs)" for xs
    by (induction xs) (auto simp: primary_of_def live_assignment_def)
  then show "owns run work sid db'" if "owns run work sid db" using that by (auto simp: owns_def d)
qed

lemma owner_step_keeps:
  assumes "owner_step J db db'"
  shows "sd_work db' = sd_work db" "owns run work sid db \<Longrightarrow> owns run work sid db'"
proof -
  have "sd_work db' = sd_work db \<and> (owns run work sid db \<longrightarrow> owns run work sid db')"
    using assms
  proof cases
    case (reserved t event run' cp i resume timeout sid')
    obtain a where a: "sd_assignments db' = sd_assignments db @ [a]" "sd_work db' = sd_work db" "primary_of (wi_id (cp_work cp)) a"
        "\<not> list_ex (primary_of (wi_id (cp_work cp))) (sd_assignments db)"
      by (rule reserve_ok[OF reserved])
    have "\<not> primary_of work a" if "owns run work sid db"
    proof
      assume p: "primary_of work a"
      then have "wi_id (cp_work cp) = work" using a(3) by (simp add: primary_of_def)
      then have "filter (primary_of work) (sd_assignments db) = []" using a(4) by (simp add: list_ex_iff filter_empty_conv)
      then show False using that by (simp add: owns_def)
    qed
    then show ?thesis using a(1,2) by (auto simp: owns_def)
  next
    case (imported t event e out)
    then show ?thesis using owner_view_keeps[OF ingest_frame[OF imported]] by simp
  next
    case (renewed t assignment session seconds out)
    then show ?thesis using renew_keeps[OF renewed] by simp
  next
    case (bound t run' external)
    then show ?thesis using owner_view_keeps[OF bind_frame[OF bound]] by simp
  next
    case (finished t event run' clean)
    then show ?thesis using owner_view_keeps[OF finish_frame[OF finished]] by simp
  qed
  then show "sd_work db' = sd_work db" "owns run work sid db \<Longrightarrow> owns run work sid db'" by blast+
qed

text \<open>
  C15: a continuation takes the work item and only an explicit release gives it up. A reservation leaves the run's own
  session as the one unreleased primary worker, and that stays so through every later lifecycle import, lease renewal,
  binding, clean or unclean end and competing reservation, none of which changes a work item.
\<close>

theorem continuation_keeps_ownership:
  assumes "reserve_continuation J t event run cp i resume timeout db = Inr (db1, sid)" and "(owner_step J)\<^sup>*\<^sup>* db1 db2"
  shows "filter (primary_of (wi_id (cp_work cp))) (sd_assignments db) = [] \<and> sd_work db2 = sd_work db
    \<and> (\<exists>a. filter (primary_of (wi_id (cp_work cp))) (sd_assignments db2) = [a] \<and> as_id a = ''assignment-'' @ run \<and> as_session a = sid)"
proof -
  obtain a where a: "sd_assignments db1 = sd_assignments db @ [a]" "sd_work db1 = sd_work db" "primary_of (wi_id (cp_work cp)) a"
      "as_id a = ''assignment-'' @ run" "as_session a = sid" "\<not> list_ex (primary_of (wi_id (cp_work cp))) (sd_assignments db)"
    by (rule reserve_ok[OF assms(1)])
  have n: "filter (primary_of (wi_id (cp_work cp))) (sd_assignments db) = []" using a(6) by (simp add: list_ex_iff filter_empty_conv)
  have "owns run (wi_id (cp_work cp)) sid db1" using a n by (simp add: owns_def)
  with assms(2) have "sd_work db2 = sd_work db1 \<and> owns run (wi_id (cp_work cp)) sid db2"
    by (induction rule: rtranclp_induct) (auto dest: owner_step_keeps)
  then show ?thesis using n a(2) by (simp add: owns_def)
qed

section \<open>Imported sessions\<close>

text \<open>The notifications that arrive, each with its time and audit identifier; a refused one changes nothing.\<close>

fun ingest_all :: "session_codec \<Rightarrow> (int \<times> string \<times> lifecycle_event) list \<Rightarrow> session_db \<Rightarrow> session_db" where
  "ingest_all J [] db = db"
| "ingest_all J ((t, event, e) # rest) db =
     ingest_all J rest (case ingest_lifecycle J t event e db of Inl _ \<Rightarrow> db | Inr (db', _) \<Rightarrow> db')"

definition event_key :: "lifecycle_event \<Rightarrow> string \<times> string \<times> string" where
  "event_key e = (le_project_id e, le_agent e, le_external_session_id e)"

definition row_key :: "session_row \<Rightarrow> string \<times> string \<times> string" where
  "row_key x = (sx_project x, sx_agent x, sx_external x)"

text \<open>Rows that agree with their payloads.\<close>

definition rows_agree :: "session_db \<Rightarrow> bool" where
  "rows_agree db \<longleftrightarrow> distinct (map sx_id (sd_sessions db)) \<and> (\<forall>x \<in> set (sd_sessions db). x = session_row_of (sx_payload x))"

text \<open>The derived identifier of an event belongs to no other session.\<close>

definition ids_apart :: "session_codec \<Rightarrow> lifecycle_event set \<Rightarrow> session_db \<Rightarrow> bool" where
  "ids_apart J E db \<longleftrightarrow> (\<forall>e \<in> E. (\<forall>x \<in> set (sd_sessions db). sx_id x = lifecycle_id J e \<longrightarrow> row_key x = event_key e)
     \<and> (\<forall>e' \<in> E. lifecycle_id J e' = lifecycle_id J e \<longrightarrow> event_key e' = event_key e))"

definition row_advances :: "session_row \<Rightarrow> session_row \<Rightarrow> bool" where
  "row_advances x y \<longleftrightarrow> sx_id y = sx_id x \<and> row_key y = row_key x \<and> sx_workspace y = sx_workspace x \<and> sx_last x \<le> sx_last y
     \<and> (sx_ended x \<noteq> None \<longrightarrow> sx_ended y \<noteq> None)"

lemma observe_ok:
  assumes "observe_event e s = Inr s'"
  shows "ses_id s' = ses_id s" "ses_project_id s' = ses_project_id s" "ses_agent s' = ses_agent s" "ses_external_id s' = ses_external_id s"
    "ses_workspace_id s' = ses_workspace_id s" "ses_last_observed s \<le> ses_last_observed s'"
    "ses_ended_at s \<noteq> None \<Longrightarrow> ses_ended_at s' \<noteq> None"
  using assms by (auto simp: observe_event_def split: if_splits)

lemma observe_session_row:
  assumes "observe_session J s db = Inr db'" "rows_agree db"
    and "\<And>x. x \<in> set (sd_sessions db) \<Longrightarrow> sx_id x = ses_id s \<Longrightarrow> row_advances x (session_row_of s)"
  shows "rows_agree db' \<and> (\<forall>x \<in> set (sd_sessions db). \<exists>y \<in> set (sd_sessions db'). row_advances x y)
    \<and> (\<forall>y \<in> set (sd_sessions db'). y = session_row_of s \<or> y \<in> set (sd_sessions db))"
proof (cases "list_ex (\<lambda>x. sx_id x = ses_id s) (sd_sessions db)")
  case True
  let ?f = "\<lambda>x. if sx_id x = ses_id s then observed_row s x else x"
  have d: "db' = db\<lparr>sd_sessions := map ?f (sd_sessions db)\<rparr>"
    using assms(1) True by (auto simp: observe_session_def update_session_def sql_when_ok split: if_splits)
  have o: "observed_row s x = session_row_of s" if "x \<in> set (sd_sessions db)" "sx_id x = ses_id s" for x
    using assms(3)[OF that] that(2) by (simp add: observed_row_def session_row_of_def row_advances_def row_key_def)
  have m: "map sx_id (map ?f (sd_sessions db)) = map sx_id (sd_sessions db)" by (auto simp: observed_row_def)
  have p: "sx_payload (session_row_of s) = s" by (simp add: session_row_of_def)
  have g: "?f x = session_row_of s \<or> ?f x \<in> set (sd_sessions db)" if "x \<in> set (sd_sessions db)" for x using o[OF that] that by auto
  have ds: "sd_sessions db' = map ?f (sd_sessions db)" by (simp add: d)
  have a: "\<forall>x \<in> set (sd_sessions db). x = session_row_of (sx_payload x)" "distinct (map sx_id (sd_sessions db))"
    using assms(2) unfolding rows_agree_def by blast+
  have "y = session_row_of (sx_payload y)" if y: "y \<in> set (sd_sessions db')" for y
  proof -
    obtain x where "x \<in> set (sd_sessions db)" "y = ?f x" using y unfolding ds set_map by blast
    then have "y = session_row_of s \<or> y \<in> set (sd_sessions db)" using g by metis
    then show ?thesis using a(1) p by metis
  qed
  then have "rows_agree db'" unfolding rows_agree_def using a(2) m by (simp only: ds) blast
  moreover have "row_advances x (?f x)" if "x \<in> set (sd_sessions db)" for x
    using assms(3)[OF that] o[OF that] by (simp add: row_advances_def)
  ultimately show ?thesis using g by (simp only: ds set_map) blast
next
  case False
  then have "db' = db\<lparr>sd_sessions := sd_sessions db @ [session_row_of s]\<rparr>" "\<forall>x \<in> set (sd_sessions db). sx_id x \<noteq> ses_id s"
    using assms(1) by (auto simp: observe_session_def insert_session_def sql_when_ok list_ex_iff split: if_splits)
  then show ?thesis using assms(2) by (auto simp: rows_agree_def session_row_of_def row_advances_def)
qed

lemma observed_advances:
  assumes "observe_event e s = Inr s'"
  shows "row_advances (session_row_of s) (session_row_of s')"
  using observe_ok[OF assms] by (simp add: row_advances_def session_row_of_def row_key_def)

text \<open>The session an import starts from: the row of the event's key, or a new one where there is none.\<close>

abbreviation source_session :: "session_codec \<Rightarrow> session_db \<Rightarrow> lifecycle_event \<Rightarrow> session" where
  "source_session J db e \<equiv> (case event_session db e of Some x \<Rightarrow> sx_payload x | None \<Rightarrow> new_session J e)"

lemma source_cases:
  assumes "rows_agree db"
  obtains (known) x where "x \<in> set (sd_sessions db)" "row_key x = event_key e" "session_row_of (source_session J db e) = x"
  | (new) "\<forall>x \<in> set (sd_sessions db). row_key x \<noteq> event_key e" "sx_id (session_row_of (source_session J db e)) = lifecycle_id J e"
      "row_key (session_row_of (source_session J db e)) = event_key e"
proof (cases "event_session db e")
  case (Some x)
  then have x: "x \<in> set (sd_sessions db)" "row_key x = event_key e"
    by (auto simp: event_session_def find_Some_iff row_key_def event_key_def)
  moreover have "session_row_of (source_session J db e) = x"
    using assms x(1) unfolding Some option.case rows_agree_def by metis
  ultimately show thesis by (rule known)
next
  case None
  have "\<forall>x \<in> set (sd_sessions db). row_key x \<noteq> event_key e"
    using None by (auto simp: event_session_def find_None_iff row_key_def event_key_def)
  then show thesis
    by (rule new) (simp_all add: None row_key_def event_key_def new_session_def session_row_of_def)
qed

lemma import_advances:
  assumes o: "observe_event e (source_session J db e) = Inr s" and a: "rows_agree db" and i: "ids_apart J E db" "e \<in> E"
    and x: "x \<in> set (sd_sessions db)" "sx_id x = ses_id s"
  shows "row_advances x (session_row_of s)"
proof -
  note adv = observed_advances[OF o]
  have id: "sx_id (session_row_of (source_session J db e)) = sx_id x"
    using adv x(2) unfolding row_advances_def by (simp add: session_row_of_def)
  show ?thesis
  proof (cases rule: source_cases[OF a, of e J])
    case (1 y)
    have "distinct (map sx_id (sd_sessions db))" using a unfolding rows_agree_def by blast
    then have "y = x" using 1(1,3) x(1) id by (metis distinct_map inj_on_def)
    then show ?thesis using adv 1(3) by metis
  next
    case 2
    then have "row_key x = event_key e" using i x(1) id unfolding ids_apart_def by metis
    then show ?thesis using 2(1) x(1) by blast
  qed
qed

lemma import_ids:
  assumes o: "observe_event e (source_session J db e) = Inr s" and a: "rows_agree db" and i: "ids_apart J E db" "e \<in> E"
    and e': "e' \<in> E" "ses_id s = lifecycle_id J e'"
  shows "row_key (session_row_of s) = event_key e'"
proof -
  have adv: "sx_id (session_row_of s) = sx_id (session_row_of (source_session J db e))"
      "row_key (session_row_of s) = row_key (session_row_of (source_session J db e))"
    using observed_advances[OF o] unfolding row_advances_def by blast+
  have id: "sx_id (session_row_of s) = lifecycle_id J e'" using e'(2) by (simp add: session_row_of_def)
  show ?thesis
  proof (cases rule: source_cases[OF a, of e J])
    case (1 y)
    then show ?thesis using i(1) e'(1) adv id unfolding ids_apart_def by metis
  next
    case 2
    then show ?thesis using i e'(1) adv id unfolding ids_apart_def by metis
  qed
qed

lemma import_step:
  assumes "import_event J t event e db = Inr (db', out)" "rows_agree db" "ids_apart J E db" "e \<in> E"
  shows "rows_agree db' \<and> ids_apart J E db' \<and> (\<forall>x \<in> set (sd_sessions db). \<exists>y \<in> set (sd_sessions db'). row_advances x y)"
proof -
  obtain s db1 db2 where o: "observe_event e (source_session J db e) = Inr s" and o1: "insert_notice J t e db = Inr db1"
    and o2: "observe_session J s db1 = Inr db2" and db': "sd_sessions db' = sd_sessions db2"
    using assms(1) by (auto simp: import_event_def bind_check_ok dest!: session_statements_frame(1))
  have d1: "sd_sessions db1 = sd_sessions db" using session_statements_frame(5)[OF o1] by simp
  have "rows_agree db1" using assms(2) unfolding rows_agree_def d1 .
  note r = observe_session_row[OF o2 this, unfolded d1, OF import_advances[OF o assms(2-4)]]
  have "row_key y = event_key e'" if e': "e' \<in> E" and y: "y \<in> set (sd_sessions db')" "sx_id y = lifecycle_id J e'" for y e'
  proof (cases "y = session_row_of s")
    case True
    then show ?thesis using import_ids[OF o assms(2-4) e'] y(2) by (simp add: session_row_of_def)
  next
    case False
    then have "y \<in> set (sd_sessions db)" using r y(1) db' by metis
    then show ?thesis using assms(3) e' y(2) unfolding ids_apart_def by blast
  qed
  then have "ids_apart J E db'" using assms(3) unfolding ids_apart_def by blast
  then show ?thesis using r unfolding rows_agree_def db' by blast
qed

lemma ingest_step:
  assumes "ingest_lifecycle J t event e db = Inr (db', out)" "rows_agree db" "ids_apart J E db" "e \<in> E"
  shows "rows_agree db' \<and> ids_apart J E db' \<and> (\<forall>x \<in> set (sd_sessions db). \<exists>y \<in> set (sd_sessions db'). row_advances x y)"
proof -
  have "db' = db \<or> import_event J t event e db = Inr (db', out)"
    using assms(1) by (auto simp: ingest_lifecycle_def bind_check_ok split: if_splits option.splits)
  moreover have "row_advances x x" for x by (simp add: row_advances_def)
  ultimately show ?thesis using assms(2-4) import_step by blast
qed

lemma row_advances_trans: "row_advances x y \<Longrightarrow> row_advances y z \<Longrightarrow> row_advances x z"
  by (auto simp: row_advances_def)

text \<open>
  C16: lifecycle notifications only observe. Whatever list of them arrives - late, repeated, refused - no work item and no
  assignment changes, in any database. In a database whose session rows agree with their payloads
  and in which no session was rebound to another key (an identifier derived from one of the notifications belongs to no
  session of another project, agent or external identifier), every session also keeps its identity and workspace, its last
  observation never moves back and an ended session stays ended. The second condition is needed: the lemma
  rebound_session_is_reopened below exhibits a rebound session that a late notification reopens.
\<close>

theorem lifecycle_imports_only_observe:
  shows "owner_view (ingest_all J notices db) = owner_view db
    \<and> (rows_agree db \<and> ids_apart J ((snd \<circ> snd) ` set notices) db \<longrightarrow>
        (\<forall>x \<in> set (sd_sessions db). \<exists>y \<in> set (sd_sessions (ingest_all J notices db)). row_advances x y))"
proof -
  have "owner_view (ingest_all J ns db) = owner_view db
      \<and> (\<forall>x \<in> set (sd_sessions db). \<exists>y \<in> set (sd_sessions (ingest_all J ns db)). row_advances x y)"
    if "rows_agree db" "ids_apart J E db" "(snd \<circ> snd) ` set ns \<subseteq> E" for ns E db
    using that
  proof (induction J ns db rule: ingest_all.induct)
    case (1 J db)
    have "row_advances x x" for x by (simp add: row_advances_def)
    then show ?case by auto
  next
    case (2 J t event e rest db)
    then have e: "e \<in> E" and sub: "(snd \<circ> snd) ` set rest \<subseteq> E" by auto
    show ?case
    proof (cases "ingest_lifecycle J t event e db")
      case (Inl c)
      then show ?thesis using 2 sub by simp
    next
      case (Inr r)
      obtain db' out where r: "r = (db', out)" by (cases r)
      note st = ingest_step[OF Inr[unfolded r] 2(2,3) e]
      have "ingest_all J ((t, event, e) # rest) db = ingest_all J rest db'" using Inr r by simp
      moreover have "owner_view db' = owner_view db" using ingest_frame Inr r by metis
      moreover have "owner_view (ingest_all J rest db') = owner_view db'
          \<and> (\<forall>x \<in> set (sd_sessions db'). \<exists>y \<in> set (sd_sessions (ingest_all J rest db')). row_advances x y)"
        using 2(1) st sub Inr r by simp
      ultimately show ?thesis using st row_advances_trans by metis
    qed
  qed
  moreover have "owner_view (ingest_all J notices db) = owner_view db"
  proof (induction J notices db rule: ingest_all.induct)
    case (2 J t event e rest db)
    have "owner_view (case ingest_lifecycle J t event e db of Inl _ \<Rightarrow> db | Inr (db', _) \<Rightarrow> db') = owner_view db"
      using ingest_frame[of J t event e db] by (auto split: sum.split prod.split)
    with 2 show ?case by simp
  qed simp
  ultimately show ?thesis by blast
qed

section \<open>Examples\<close>

definition demo_session_codec :: session_codec where
  "demo_session_codec = \<lparr>sc_event_sha = (\<lambda>_. replicate 64 (CHR ''d'')), sc_event_len = (\<lambda>_. 100), sc_key_sha = (\<lambda>s. s),
     sc_session_len = (\<lambda>_. 200), sc_audit_len = (\<lambda>_. 50)\<rparr>"

definition demo_notice :: "string \<Rightarrow> int \<Rightarrow> lifecycle_event" where
  "demo_notice kind t = \<lparr>le_source_id = kind, le_project_id = ''p'', le_workspace_id = None, le_agent = ''claude'',
     le_external_session_id = ''x'', le_event = kind, le_observed_at = t, le_source_revision = ''1'', le_evidence = ''agent_reported''\<rparr>"

definition demo_ended :: session where
  "demo_ended = (new_session demo_session_codec (demo_notice ''started'' 5))\<lparr>ses_ended_at := Some 5\<rparr>"

definition demo_sessions :: "session_row \<Rightarrow> session_db" where
  "demo_sessions x = \<lparr>sd_version = 5, sd_projects = [''p''], sd_workspaces = [(''p'', ''w'')],
     sd_work = [demo_item],
     sd_assignments = [], sd_sessions = [x], sd_events = [], sd_effect_runs = [''r''], sd_checkpoints = [''c''],
     sd_continuations = [], sd_audit = []\<rparr>"

text \<open>A session whose external identifier was rebound after it was imported is reopened by a late notification.\<close>

lemma rebound_session_is_reopened:
  assumes "x = (session_row_of demo_ended)\<lparr>sx_external := ''y'', sx_payload := demo_ended\<lparr>ses_external_id := ''y''\<rparr>\<rparr>"
  shows "\<exists>db' out y. ingest_lifecycle demo_session_codec 20 ''e'' (demo_notice ''activity'' 10) (demo_sessions x) = Inr (db', out)
    \<and> sx_ended x = Some 5 \<and> sd_sessions db' = [y] \<and> sx_id y = sx_id x \<and> sx_ended y = None
    \<and> sx_external y = ''y'' \<and> ses_external_id (sx_payload y) = ''x''"
proof -
  have c: "chars (replicate 64 (CHR ''d'')) = map byte (replicate 64 (CHR ''d''))" "chars ''x'' = map byte ''x''" "chars ''y'' = map byte ''y''"
    by (rule chars_ascii, simp add: is_ascii_def list_all_iff)+
  show ?thesis
    by (simp add: assms ingest_lifecycle_def session_v3_def demo_sessions_def demo_notice_def demo_ended_def new_session_def lifecycle_id_def
        demo_session_codec_def last_received_def import_event_def event_session_def session_row_of_def observe_event_def insert_notice_def
        sql_when_def c observe_session_def session_row_ok_def update_session_def session_unique_def observed_row_def session_audit_def)
qed

definition demo_checkpoint :: checkpoint where
  "demo_checkpoint = \<lparr>cp_id = ''c'', cp_work = demo_item, cp_session_id = None, cp_workspace = \<lparr>st_project_id = ''p'', st_workspace_id = ''w'',
     st_path = ''/w'', st_directory_identity = ''i'', st_head = ''h'', st_branch = None, st_status_digest = ''s'', st_dirty = None,
     st_untracked = None, st_ignored = None, st_local_only_commits = None, st_blockers = [], st_observed_at = 0, st_coverage = Partial\<rparr>, cp_completed = [], cp_remaining = [],
     cp_blockers = [], cp_tests = [], cp_decision_ids = [], cp_resource_ids = [], cp_recorded_at = 0, cp_source = wi_evidence demo_item\<rparr>"

definition demo_integration :: integration where
  "demo_integration = \<lparr>int_id = ''i'', int_project_id = ''p'', int_environment = ''e'', int_adapter = Claude, int_executable = ''/x'',
     int_executable_sha256 = ''d'', int_version_text = ''1'', int_inherit_env = [], int_configuration = [], int_authentication = [],
     int_protocol_revision = None, int_auth_method = None, int_observed_at = 0\<rparr>"

lemma demo_reserved:
  "\<exists>db1 x. reserve_continuation demo_session_codec 20 ''e'' ''r'' demo_checkpoint demo_integration None 60 (demo_sessions (session_row_of demo_ended))
     = Inr (db1, ''run-r'') \<and> sd_sessions db1 = [session_row_of demo_ended, x] \<and> sx_id x = ''run-r'' \<and> ses_project_id (sx_payload x) = ''p''
     \<and> (\<exists>c. sd_continuations db1 = [c] \<and> cn_run c = ''r'' \<and> cn_session c = ''run-r'') \<and> sd_projects db1 = [''p'']
     \<and> (\<exists>a. sd_audit db1 = [a] \<and> au_seq a = 1 \<and> au_event a = ''e'')"
proof -
  have c: "length (chars (''pending-'' @ ''r'')) = 9" using chars_ascii[of "''pending-r''"] by (simp add: is_ascii_def list_all_iff)
  show ?thesis
    using c by (simp add: reserve_continuation_def session_v3_def demo_sessions_def demo_checkpoint_def demo_item_def demo_integration_def
        open_session_def run_session_def insert_session_def session_row_ok_def session_row_of_def session_unique_def sql_when_def
        adapter_id_def demo_session_codec_def demo_ended_def new_session_def lifecycle_id_def demo_notice_def workspace_taken_def
        add_assignment_def add_continuation_def session_audit_def)
qed

theorem continuation_keeps_ownership_witness:
  "\<exists>db1 db2. reserve_continuation demo_session_codec 20 ''e'' ''r'' demo_checkpoint demo_integration None 60 (demo_sessions (session_row_of demo_ended))
       = Inr (db1, ''run-r'') \<and> finish_continuation demo_session_codec 30 ''f'' ''r'' False db1 = Inr db2
     \<and> (\<exists>a. filter (primary_of ''w'') (sd_assignments db2) = [a] \<and> as_session a = ''run-r'')"
proof -
  obtain db1 x where r: "reserve_continuation demo_session_codec 20 ''e'' ''r'' demo_checkpoint demo_integration None 60
      (demo_sessions (session_row_of demo_ended)) = Inr (db1, ''run-r'')"
    and x: "sd_sessions db1 = [session_row_of demo_ended, x]" "sx_id x = ''run-r''" "ses_project_id (sx_payload x) = ''p''"
    and c: "\<exists>c. sd_continuations db1 = [c] \<and> cn_run c = ''r'' \<and> cn_session c = ''run-r''" and p: "sd_projects db1 = [''p'']"
    and a: "\<exists>a. sd_audit db1 = [a] \<and> au_seq a = 1 \<and> au_event a = ''e''"
    using demo_reserved by blast
  have "sx_id (session_row_of demo_ended) \<noteq> ''run-r''"
    by (simp add: session_row_of_def demo_ended_def new_session_def lifecycle_id_def)
  then obtain db2 where f: "finish_continuation demo_session_codec 30 ''f'' ''r'' False db1 = Inr db2"
    using x c p a by (auto simp: finish_continuation_def continuation_of_def session_audit_def set_continuation_def sql_when_def demo_session_codec_def)
  then have "(owner_step demo_session_codec)\<^sup>*\<^sup>* db1 db2" using finished by blast
  from continuation_keeps_ownership[OF r this] show ?thesis using r f by (auto simp: demo_checkpoint_def demo_item_def)
qed

theorem lifecycle_imports_only_observe_witness:
  "rows_agree (demo_sessions (session_row_of demo_ended))
   \<and> (\<exists>y \<in> set (sd_sessions (ingest_all demo_session_codec [(20, ''e'', demo_notice ''activity'' 10)] (demo_sessions (session_row_of demo_ended)))).
        sx_ended y \<noteq> None)"
proof -
  let ?db = "demo_sessions (session_row_of demo_ended)"
  have a: "rows_agree ?db" by (simp add: rows_agree_def demo_sessions_def session_row_of_def)
  have i: "ids_apart demo_session_codec ((snd \<circ> snd) ` set [(20, ''e'', demo_notice ''activity'' 10)]) ?db"
    by (simp add: ids_apart_def demo_sessions_def session_row_of_def demo_ended_def new_session_def lifecycle_id_def demo_notice_def
        row_key_def event_key_def)
  have e: "session_row_of demo_ended \<in> set (sd_sessions ?db)" "sx_ended (session_row_of demo_ended) \<noteq> None"
    by (simp_all add: demo_sessions_def session_row_of_def demo_ended_def)
  then obtain y where "y \<in> set (sd_sessions (ingest_all demo_session_codec [(20, ''e'', demo_notice ''activity'' 10)] ?db))"
      "row_advances (session_row_of demo_ended) y"
    using lifecycle_imports_only_observe[of demo_session_codec "[(20, ''e'', demo_notice ''activity'' 10)]" ?db] a i by blast
  then show ?thesis using a e(2) unfolding row_advances_def by blast
qed

end
