(* ===== verification/Secret_Store.thy ===== *)
theory Secret_Store
  imports Control_Store Journal_Archive Integrations
begin

text \<open>
  Local secrets: ciphertext files and their metadata (\<open>workstation-platform/src/vault.rs\<close>, \<open>secret_lifecycle.rs\<close>, and the
  secret tables of \<open>operations_store.rs\<close>). DPAPI, the JSON of a binding, the digest, the console and the outcome of a file
  write are arguments. An operation that fails after a write keeps what it wrote.
\<close>

section \<open>State\<close>

record cipher_binding =
  cb_schema :: nat
  cb_project :: string
  cb_environment :: string
  cb_id :: string
  cb_secret :: string

record binding_v2 =
  b2_schema :: nat
  b2_project :: string
  b2_environment :: string
  b2_resource :: string
  b2_version :: string
  b2_secret :: string

record secret_version =
  sv_resource :: string
  sv_version :: string
  sv_file :: string
  sv_digest :: string
  sv_predecessor :: "string option"
  sv_created :: int
  sv_run :: string

record secret_head_row =
  sh_resource :: string
  sh_version :: string
  sh_state :: string
  sh_generation :: int
  sh_changed :: int

record secret_transition =
  tr_id :: string
  tr_resource :: string
  tr_version :: string
  tr_action :: string
  tr_at :: int
  tr_run :: string

record vault =
  va_control :: control_db
  va_journal :: journal
  va_versions :: "secret_version list"
  va_heads :: "secret_head_row list"
  va_transitions :: "secret_transition list"
  va_files :: "(string \<times> string) list"

record secret_codec =
  sk_windows :: bool
  sk_control :: control_codec
  sk_archive :: archive_codec
  sk_sha :: "string \<Rightarrow> string"
  sk_encode1 :: "cipher_binding \<Rightarrow> string"
  sk_decode1 :: "string \<Rightarrow> cipher_binding option"
  sk_encode2 :: "binding_v2 \<Rightarrow> string"
  sk_decode2 :: "string \<Rightarrow> binding_v2 option"
  sk_protect :: "string \<Rightarrow> string check"
  sk_unprotect :: "string \<Rightarrow> string check"
  sk_file_name :: "string \<Rightarrow> string option"

definition SECRET_BYTES_LIMIT :: nat where "SECRET_BYTES_LIMIT = 16 * 1024"

definition CIPHER_BYTES_LIMIT :: nat where "CIPHER_BYTES_LIMIT = 128 * 1024"

definition operations_rejected :: string where "operations_rejected = ''OPERATIONS_DATABASE_REJECTED''"

definition vault_v4 :: "vault \<Rightarrow> unit check" where
  "vault_v4 st = reject (cd_version (va_control st) \<notin> {4, 5}) ''OPERATIONS_UPGRADE_REQUIRED''"

definition require_environment :: "control_db \<Rightarrow> string \<Rightarrow> string \<Rightarrow> unit check" where
  "require_environment db project environment = checks
     [reject (cd_version db \<notin> {3, 4, 5}) ''INTEGRATION_UPGRADE_REQUIRED'', control_id project, control_id environment,
      reject (\<not> environment_exists db project environment) ''EXPLICIT_ENVIRONMENT_REQUIRED_NO_FALLBACK'']"

section \<open>The tables of secret versions\<close>

definition head_row :: "vault \<Rightarrow> string \<Rightarrow> secret_head_row option" where
  "head_row st i = find (\<lambda>h. sh_resource h = i) (va_heads st)"

definition secret_head :: "vault \<Rightarrow> string \<Rightarrow> (string \<times> string \<times> int) option check" where
  "secret_head st i = bind_check (vault_v4 st) (\<lambda>_. case head_row st i of
     None \<Rightarrow> Inr None
   | Some h \<Rightarrow> if sh_generation h < 0 then Inl ''SECRET_GENERATION_INVALID''
       else Inr (Some (sh_version h, sh_state h, sh_generation h)))"

definition operations_when :: "bool \<Rightarrow> 'a \<Rightarrow> 'a check" where
  "operations_when ok st = (if ok then Inr st else Inl operations_rejected)"

lemma operations_when_ok: "operations_when ok st = Inr st' \<longleftrightarrow> ok \<and> st' = st"
  by (auto simp: operations_when_def)

definition resource_known :: "vault \<Rightarrow> string \<Rightarrow> bool" where
  "resource_known st i = list_ex (\<lambda>r. res_id (rr_resource r) = i) (cd_resources (va_control st))"

definition run_known :: "vault \<Rightarrow> string \<Rightarrow> bool" where
  "run_known st run \<longleftrightarrow> list_ex (\<lambda>r. jr_id r = run) (jo_runs (va_journal st))"

definition insert_version :: "secret_version \<Rightarrow> vault \<Rightarrow> vault check" where
  "insert_version v st = operations_when
     (resource_known st (sv_resource v) \<and> run_known st (sv_run v) \<and> length (chars (sv_digest v)) = 64
       \<and> \<not> list_ex (\<lambda>x. (sv_resource x = sv_resource v \<and> sv_version x = sv_version v) \<or> sv_file x = sv_file v) (va_versions st)
       \<and> (case sv_predecessor v of None \<Rightarrow> True
          | Some p \<Rightarrow> p = sv_version v \<or> list_ex (\<lambda>x. sv_resource x = sv_resource v \<and> sv_version x = p) (va_versions st)))
     (st\<lparr>va_versions := va_versions st @ [v]\<rparr>)"

definition insert_transition :: "secret_transition \<Rightarrow> vault \<Rightarrow> vault check" where
  "insert_transition t st = operations_when
     (\<not> list_ex (\<lambda>x. tr_id x = tr_id t) (va_transitions st) \<and> resource_known st (tr_resource t) \<and> run_known st (tr_run t))
     (st\<lparr>va_transitions := va_transitions st @ [t]\<rparr>)"

definition store_head :: "secret_head_row \<Rightarrow> vault \<Rightarrow> vault check" where
  "store_head h st = operations_when
     (resource_known st (sh_resource h) \<and> 0 < sh_generation h
       \<and> list_ex (\<lambda>x. sv_resource x = sh_resource h \<and> sv_version x = sh_version h) (va_versions st))
     (st\<lparr>va_heads := (if list_ex (\<lambda>x. sh_resource x = sh_resource h) (va_heads st)
        then map (\<lambda>x. if sh_resource x = sh_resource h then h else x) (va_heads st) else va_heads st @ [h])\<rparr>)"

definition record_secret_rotation ::
    "int \<Rightarrow> (nat \<Rightarrow> string) \<Rightarrow> string \<Rightarrow> string \<Rightarrow> string \<Rightarrow> string \<Rightarrow> string \<Rightarrow> string option \<Rightarrow> vault \<Rightarrow> vault check" where
  "record_secret_rotation at_time ids run i version file dig previous st =
     bind_check (vault_v4 st) (\<lambda>_.
     let old = head_row st i in
     if (case old of None \<Rightarrow> False | Some h \<Rightarrow> sh_generation h < 0) then Inl ''SECRET_GENERATION_INVALID''
     else let nxt = (case old of None \<Rightarrow> 1 | Some h \<Rightarrow> sh_generation h + 1) in
       if nxt \<ge> 2 ^ 63 then Inl ''SECRET_GENERATION_OVERFLOW''
       else if map_option sh_version old \<noteq> previous then Inl ''SECRET_HEAD_CHANGED''
       else bind_check (insert_version \<lparr>sv_resource = i, sv_version = version, sv_file = file, sv_digest = dig,
           sv_predecessor = previous, sv_created = at_time, sv_run = run\<rparr> st) (\<lambda>st1.
         bind_check (case old of None \<Rightarrow> Inr st1
           | Some h \<Rightarrow> insert_transition \<lparr>tr_id = ids 0, tr_resource = i, tr_version = sh_version h, tr_action = ''superseded'',
               tr_at = at_time, tr_run = run\<rparr> st1) (\<lambda>st2.
         bind_check (store_head \<lparr>sh_resource = i, sh_version = version, sh_state = ''active'', sh_generation = nxt, sh_changed = at_time\<rparr> st2) (\<lambda>st3.
         insert_transition \<lparr>tr_id = ids 1, tr_resource = i, tr_version = version, tr_action = ''activated'', tr_at = at_time, tr_run = run\<rparr> st3))))"

definition revoke_secret_version :: "int \<Rightarrow> (nat \<Rightarrow> string) \<Rightarrow> string \<Rightarrow> string \<Rightarrow> string \<Rightarrow> vault \<Rightarrow> (vault \<times> int json) check" where
  "revoke_secret_version at_time ids run i expected st =
     bind_check (vault_v4 st) (\<lambda>_.
     let hit = (\<lambda>h. sh_resource h = i \<and> sh_version h = expected \<and> sh_state h = ''active'') in
     if list_ex (\<lambda>h. hit h \<and> sh_generation h + 1 \<ge> 2 ^ 63) (va_heads st) then Inl operations_rejected
     else if length (filter hit (va_heads st)) \<noteq> 1 then Inl ''SECRET_HEAD_CHANGED_OR_REVOKED''
     else bind_check (insert_transition \<lparr>tr_id = ids 0, tr_resource = i, tr_version = expected, tr_action = ''revoked'', tr_at = at_time, tr_run = run\<rparr>
         (st\<lparr>va_heads := map (\<lambda>h. if hit h then h\<lparr>sh_state := ''revoked'', sh_generation := sh_generation h + 1, sh_changed := at_time\<rparr> else h)
            (va_heads st)\<rparr>)) (\<lambda>st'.
       Inr (st', JObj [(''ciphertext_retained'', JBool True), (''local_access'', JStr ''revoked''),
         (''remote_provider_credential_revoked'', JBool False), (''resource_id'', JStr i), (''secure_erase_claimed'', JBool False)])))"

text \<open>The readers.\<close>

definition secret_history :: "vault \<Rightarrow> string \<Rightarrow> string \<Rightarrow> string \<Rightarrow> ((string \<times> string \<times> int) option \<times> secret_version list) check" where
  "secret_history st project environment i =
     bind_check (require_environment (va_control st) project environment) (\<lambda>_.
     bind_check (resources (va_control st) project environment) (\<lambda>rs.
     bind_check (ok_or (find (\<lambda>r. res_id r = i) rs) ''SECRET_SCOPE_MISMATCH'') (\<lambda>r.
     if res_kind r \<noteq> SecretReference then Inl ''SECRET_REFERENCE_REQUIRED''
     else bind_check (secret_head st i) (\<lambda>head.
       let rows = take 129 (sort_key (\<lambda>v. (sv_created v, sv_version v)) (filter (\<lambda>v. sv_resource v = i) (va_versions st))) in
       if length rows > 128 then Inl ''SECRET_HISTORY_LIMIT'' else Inr (head, rows)))))"

definition secret_generation_digest :: "((string \<times> string \<times> string \<times> int) list \<Rightarrow> string) \<Rightarrow> vault \<Rightarrow> string \<Rightarrow> string \<Rightarrow> string check" where
  "secret_generation_digest digest_of st project environment =
     bind_check (vault_v4 st) (\<lambda>_.
     let rows = take 1025 (sort_key fst (map (\<lambda>h. (sh_resource h, sh_version h, sh_state h, sh_generation h))
       (filter (\<lambda>h. list_ex (\<lambda>r. res_id (rr_resource r) = sh_resource h \<and> res_project_id (rr_resource r) = project
         \<and> res_environment (rr_resource r) = environment) (cd_resources (va_control st))) (va_heads st)))) in
     if length rows > 1024 then Inl ''SECRET_GENERATION_LIMIT''
     else if list_ex (\<lambda>(_, _, _, g). g < 0) rows then Inl ''SECRET_GENERATION_INVALID'' else Inr (digest_of rows))"

definition recovery_status :: "resource \<Rightarrow> (string \<times> string \<times> int) option \<Rightarrow> string" where
  "recovery_status r head =
     (if \<not> prefix ''local://'' (res_locator r) then ''provider_reauthentication_may_be_required''
      else if (case head of Some (_, s, _) \<Rightarrow> s = ''revoked'' | None \<Rightarrow> False) then ''revoked''
      else ''decryptability_not_tested_reentry_may_be_required'')"

definition recovery_inventory :: "vault \<Rightarrow> string \<Rightarrow> string \<Rightarrow> (string \<times> string \<times> (string \<times> string \<times> int) option) list check" where
  "recovery_inventory st project environment =
     bind_check (vault_v4 st) (\<lambda>_. bind_check (resources (va_control st) project environment) (\<lambda>rs.
       each (\<lambda>r. bind_check (secret_head st (res_id r)) (\<lambda>head. Inr (res_id r, recovery_status r head, head)))
         (filter (\<lambda>r. res_kind r = SecretReference) rs)))"

section \<open>Ciphertext files\<close>

definition create_file :: "(string \<Rightarrow> string \<times> bool) \<Rightarrow> string \<Rightarrow> string \<Rightarrow> string \<Rightarrow> string \<Rightarrow> vault \<Rightarrow> vault \<times> unit check" where
  "create_file disk name bytes taken partial st =
     (if map_of (va_files st) name \<noteq> None then (st, Inl taken)
      else let (stored, complete) = disk bytes in
        (st\<lparr>va_files := va_files st @ [(name, stored)]\<rparr>, if complete then Inr () else Inl partial))"

definition local_locator :: "string \<Rightarrow> string \<Rightarrow> string \<Rightarrow> string" where
  "local_locator project environment i = ''local://'' @ project @ ''/'' @ environment @ ''/'' @ i"

definition legacy_name :: "secret_codec \<Rightarrow> string \<Rightarrow> string \<Rightarrow> string \<Rightarrow> string" where
  "legacy_name K project environment i = sk_sha K (local_locator project environment i) @ ''.dpapi''"

definition version_name :: "secret_codec \<Rightarrow> string \<Rightarrow> string \<Rightarrow> string \<Rightarrow> string \<Rightarrow> string" where
  "version_name K project environment i version =
     sk_sha K (''local-v2:'' @ project @ '':'' @ environment @ '':'' @ i @ '':'' @ version) @ ''.dpapi''"

text \<open>A command of the control store whose approval is the digest of the command itself.\<close>

definition control_record :: "secret_codec \<Rightarrow> call \<Rightarrow> record_command \<Rightarrow> vault \<Rightarrow> vault check" where
  "control_record K c cmd st = bind_check (store_record (sk_control K) c cmd (va_control st)) (\<lambda>(db, _). Inr (st\<lparr>va_control := db\<rparr>))"

text \<open>Encrypting a binding.\<close>

definition encrypt :: "secret_codec \<Rightarrow> string \<Rightarrow> string check" where
  "encrypt K text = bind_check (sk_protect K text) (\<lambda>cipher. if length cipher > CIPHER_BYTES_LIMIT then Inl ''VAULT_CIPHER_LIMIT'' else Inr cipher)"

definition put_secret ::
    "secret_codec \<Rightarrow> unit check \<Rightarrow> (string \<Rightarrow> string \<times> bool) \<Rightarrow> call \<Rightarrow> call \<Rightarrow> string \<Rightarrow> string \<Rightarrow> string \<Rightarrow> string \<Rightarrow> vault
     \<Rightarrow> vault \<times> resource check" where
  "put_secret K dir disk c1 c2 project environment i secret st =
     (case checks [require_control (va_control st), control_id project, control_id environment, control_id i,
         reject (secret = [] \<or> length secret > SECRET_BYTES_LIMIT) ''SECRET_SIZE_LIMIT'',
         reject (\<not> environment_exists (va_control st) project environment) ''EXPLICIT_ENVIRONMENT_REQUIRED'',
         reject (\<not> sk_windows K) ''DPAPI_WINDOWS_REQUIRED'', dir,
         reject (length (va_files st) \<ge> 256) ''VAULT_COUNT_LIMIT''] of
        Inl e \<Rightarrow> (st, Inl e)
      | Inr _ \<Rightarrow> (case encrypt K (sk_encode1 K \<lparr>cb_schema = 1, cb_project = project, cb_environment = environment, cb_id = i, cb_secret = secret\<rparr>) of
          Inl e \<Rightarrow> (st, Inl e)
        | Inr cipher \<Rightarrow> (case create_file disk (legacy_name K project environment i) cipher ''VAULT_EXISTS_OR_CREATE_FAILED'' ''VAULT_WRITE_FAILED'' st of
            (st1, Inl e) \<Rightarrow> (st1, Inl e)
          | (st1, Inr _) \<Rightarrow> (case control_record K c1 (ResourceAdd i project environment SecretReference i (local_locator project environment i)
                (Some ''local_dpapi'') (86400 * 30)) st1 of
              Inl e \<Rightarrow> (st1, Inl e)
            | Inr st2 \<Rightarrow> (case control_record K c2 (ResourceConfirm i) st2 of
                Inl e \<Rightarrow> (st2, Inl e)
              | Inr st3 \<Rightarrow> (st3, Inr \<lparr>res_id = i, res_project_id = project, res_environment = environment, res_kind = SecretReference,
                  res_name = i, res_locator = local_locator project environment i, res_provider = Some ''local_dpapi'',
                  res_evidence = \<lparr>ev_kind = UserApproved, ev_source = ''local_interactive_vault_entry'', ev_at = cl_at c1, ev_coverage = Complete\<rparr>,
                  res_fresh_for_secs = 86400 * 30\<rparr>))))))"

text \<open>The check of a decrypted secret's size.\<close>

definition secret_sized :: "string \<Rightarrow> unit check" where
  "secret_sized s = reject (s = [] \<or> length s > SECRET_BYTES_LIMIT) ''VAULT_SECRET_SIZE_LIMIT''"

definition resolve_bound :: "secret_codec \<Rightarrow> (string \<Rightarrow> unit check) \<Rightarrow> vault \<Rightarrow> string \<Rightarrow> string \<Rightarrow> string \<Rightarrow> string check" where
  "resolve_bound K ok st project environment i =
     bind_check (checks [control_id project, control_id environment, control_id i, reject (\<not> sk_windows K) ''DPAPI_WINDOWS_REQUIRED'',
       ok (legacy_name K project environment i)]) (\<lambda>_.
     bind_check (ok_or (map_of (va_files st) (legacy_name K project environment i)) ''PATH_UNAVAILABLE'') (\<lambda>bytes.
     if length bytes > CIPHER_BYTES_LIMIT then Inl ''VAULT_CIPHER_LIMIT''
     else bind_check (sk_unprotect K bytes) (\<lambda>plain.
       bind_check (ok_or (sk_decode1 K plain) ''VAULT_BINDING_INVALID'') (\<lambda>b.
       bind_check (secret_sized (cb_secret b)) (\<lambda>_.
       if cb_schema b \<noteq> 1 \<or> cb_project b \<noteq> project \<or> cb_environment b \<noteq> environment \<or> cb_id b \<noteq> i
         then Inl ''VAULT_ENVIRONMENT_BINDING_MISMATCH'' else Inr (cb_secret b))))))"

section \<open>Rotation and resolution\<close>

definition local_resource :: "control_db \<Rightarrow> string \<Rightarrow> string \<Rightarrow> string \<Rightarrow> unit check" where
  "local_resource db project environment i =
     bind_check (require_environment db project environment) (\<lambda>_.
     bind_check (resources db project environment) (\<lambda>rs.
     bind_check (ok_or (find (\<lambda>r. res_id r = i) rs) ''LOCAL_SECRET_SCOPE_MISMATCH'') (\<lambda>r.
     reject (res_locator r \<noteq> local_locator project environment i \<or> res_kind r \<noteq> SecretReference) ''LOCAL_DPAPI_REFERENCE_REQUIRED'')))"

text \<open>The part of a rotation after the secret was entered: \<open>version\<close> is the fresh identifier, \<open>ids\<close> those of the transitions.\<close>

definition write_version ::
    "secret_codec \<Rightarrow> (string \<Rightarrow> string \<times> bool) \<Rightarrow> int \<Rightarrow> (nat \<Rightarrow> string) \<Rightarrow> call \<Rightarrow> string \<Rightarrow> string \<Rightarrow> string \<Rightarrow> string \<Rightarrow> string option \<Rightarrow> string
     \<Rightarrow> string \<Rightarrow> vault \<Rightarrow> vault \<times> string check" where
  "write_version K disk at_time ids c run project environment i expected version secret st =
     (case encrypt K (sk_encode2 K \<lparr>b2_schema = 2, b2_project = project, b2_environment = environment, b2_resource = i, b2_version = version,
         b2_secret = secret\<rparr>) of
        Inl e \<Rightarrow> (st, Inl e)
      | Inr cipher \<Rightarrow> (case create_file disk (version_name K project environment i version) cipher ''VERSION_FILE_EXISTS_OR_CREATE_FAILED''
            ''VAULT_WRITE_INCOMPLETE_PRESERVED'' st of
          (st1, Inl e) \<Rightarrow> (st1, Inl e)
        | (st1, Inr _) \<Rightarrow> (case effect_step at_time run ''ciphertext_version_written'' ''completed'' (ac_show (sk_archive K)
              (JObj [(''ciphertext_sha256'', JStr (sk_sha K cipher)), (''resource_id'', JStr i), (''version_id'', JStr version)])) (va_journal st1) of
            Inl e \<Rightarrow> (st1, Inl e)
          | Inr j \<Rightarrow> (case record_secret_rotation at_time ids run i version (version_name K project environment i version) (sk_sha K cipher) expected
                (st1\<lparr>va_journal := j\<rparr>) of
              Inl e \<Rightarrow> (st1\<lparr>va_journal := j\<rparr>, Inl e)
            | Inr st2 \<Rightarrow> (case control_record K c (ResourceConfirm i) st2 of
                Inl e \<Rightarrow> (st2, Inl e)
              | Inr st3 \<Rightarrow> (st3, Inr version))))))"

definition rotate_secret ::
    "secret_codec \<Rightarrow> unit check \<Rightarrow> (string \<Rightarrow> string \<times> bool) \<Rightarrow> int \<Rightarrow> (nat \<Rightarrow> string) \<Rightarrow> call \<Rightarrow> string check \<Rightarrow> string \<Rightarrow> string \<Rightarrow> string \<Rightarrow> string
     \<Rightarrow> string \<Rightarrow> string option \<Rightarrow> vault \<Rightarrow> vault \<times> string check" where
  "rotate_secret K dir disk at_time ids c hidden version run project environment i expected st =
     (case bind_check (local_resource (va_control st) project environment i) (\<lambda>_. bind_check (secret_head st i) (\<lambda>head.
         bind_check (reject (map_option fst head \<noteq> expected) ''SECRET_CHANGED_SINCE_PLAN'') (\<lambda>_.
         bind_check (reject (\<not> sk_windows K) ''DPAPI_WINDOWS_REQUIRED'') (\<lambda>_.
         bind_check hidden (\<lambda>secret.
         bind_check (checks [reject (secret = [] \<or> length secret > SECRET_BYTES_LIMIT) ''SECRET_SIZE_LIMIT'', dir,
           reject (length (va_files st) \<ge> 1024) ''VAULT_RETENTION_REVIEW_REQUIRED'']) (\<lambda>_. Inr secret)))))) of
        Inl e \<Rightarrow> (st, Inl e)
      | Inr secret \<Rightarrow> write_version K disk at_time ids c run project environment i expected version secret st)"

definition resolve_version :: "secret_codec \<Rightarrow> (string \<Rightarrow> unit check) \<Rightarrow> vault \<Rightarrow> string \<Rightarrow> string \<Rightarrow> string \<Rightarrow> string \<Rightarrow> string check" where
  "resolve_version K ok st project environment i version =
     bind_check (ok_or (find (\<lambda>v. sv_resource v = i \<and> sv_version v = version) (va_versions st)) ''VAULT_VERSION_METADATA'') (\<lambda>v.
     if sk_file_name K (sv_file v) \<noteq> Some (sv_file v) \<or> \<not> suffix ''.dpapi'' (sv_file v) then Inl ''VAULT_VERSION_PATH_INVALID''
     else bind_check (ok (sv_file v)) (\<lambda>_.
       bind_check (ok_or (map_of (va_files st) (sv_file v)) ''PATH_UNAVAILABLE'') (\<lambda>cipher.
       if length cipher > CIPHER_BYTES_LIMIT \<or> sk_sha K cipher \<noteq> sv_digest v then Inl ''VAULT_VERSION_INTEGRITY''
       else bind_check (sk_unprotect K cipher) (\<lambda>plain.
         bind_check (ok_or (sk_decode2 K plain) ''VAULT_VERSION_BINDING'') (\<lambda>b.
         bind_check (secret_sized (b2_secret b)) (\<lambda>_.
         if b2_schema b \<noteq> 2 \<or> b2_project b \<noteq> project \<or> b2_environment b \<noteq> environment \<or> b2_resource b \<noteq> i \<or> b2_version b \<noteq> version
           then Inl ''VAULT_VERSION_SCOPE_MISMATCH'' else Inr (b2_secret b)))))))"

definition resolve_secret :: "secret_codec \<Rightarrow> (string \<Rightarrow> unit check) \<Rightarrow> vault \<Rightarrow> string \<Rightarrow> string \<Rightarrow> string \<Rightarrow> string check" where
  "resolve_secret K ok st project environment i =
     bind_check (local_resource (va_control st) project environment i) (\<lambda>_.
     if cd_version (va_control st) < 4 then resolve_bound K ok st project environment i
     else bind_check (secret_head st i) (\<lambda>head. case head of
       None \<Rightarrow> resolve_bound K ok st project environment i
     | Some (version, state, _) \<Rightarrow>
         if state \<noteq> ''active'' then Inl ''LOCAL_SECRET_REVOKED_NO_LEGACY_FALLBACK''
         else if \<not> sk_windows K then Inl ''DPAPI_WINDOWS_REQUIRED''
         else resolve_version K ok st project environment i version))"

end
