(* ===== verification/Secret_History.thy ===== *)
theory Secret_History
  imports Secret_Store
begin

text \<open>
  What the vault of local secrets keeps through rotations, revocations and everything around them: one chain of versions,
  closed revoked versions, and the entered bytes (\<open>workstation-platform/src/secret_lifecycle.rs\<close>).
\<close>

section \<open>Steps\<close>

inductive secret_step :: "secret_codec \<Rightarrow> vault \<Rightarrow> vault \<Rightarrow> bool" for K where
  put: "put_secret K dir disk c1 c2 project environment i secret st = (st', out) \<Longrightarrow> secret_step K st st'"
| rotated: "rotate_secret K dir disk t ids c hidden version run project environment i expected st = (st', out') \<Longrightarrow> secret_step K st st'"
| revoked: "revoke_secret_version t ids run i expected st = Inr (st', r) \<Longrightarrow> secret_step K st st'"
| journaled: "effect_step t run name status payload (va_journal st) = Inr j \<Longrightarrow> secret_step K st (st\<lparr>va_journal := j\<rparr>)"
| controlled: "control_step (sk_control K) (va_control st) db \<Longrightarrow> secret_step K st (st\<lparr>va_control := db\<rparr>)"

definition secret_view :: "vault \<Rightarrow> secret_version list \<times> secret_head_row list \<times> secret_transition list" where
  "secret_view st = (va_versions st, va_heads st, va_transitions st)"

text \<open>The two statements that change the tables of versions.\<close>

inductive version_step :: "vault \<Rightarrow> vault \<Rightarrow> bool" where
  rotation: "record_secret_rotation t ids run i version file dig previous st = Inr st' \<Longrightarrow> version_step st st'"
| revocation: "revoke_secret_version t ids run i expected st = Inr (st', r) \<Longrightarrow> version_step st st'"

lemma control_record_frame:
  "control_record K c cmd st = Inr st' \<Longrightarrow> secret_view st' = secret_view st \<and> va_files st' = va_files st"
  by (auto simp: control_record_def bind_check_ok secret_view_def)

lemma create_file_frame:
  "create_file disk name bytes taken partial st = (st', r) \<Longrightarrow> secret_view st' = secret_view st \<and> prefix (va_files st) (va_files st')
     \<and> va_journal st' = va_journal st \<and> va_control st' = va_control st"
  by (auto simp: create_file_def secret_view_def split: if_splits prod.splits)

lemma put_frame:
  assumes "put_secret K dir disk c1 c2 project environment i secret st = (st', out)"
  shows "secret_view st' = secret_view st \<and> prefix (va_files st) (va_files st')"
  using assms unfolding put_secret_def
  by (auto split: sum.splits prod.splits dest!: create_file_frame control_record_frame)

lemma version_step_files: "version_step st st' \<Longrightarrow> va_files st' = va_files st"
  by (auto simp: record_secret_rotation_def revoke_secret_version_def insert_version_def insert_transition_def store_head_def
      bind_check_ok operations_when_ok Let_def elim!: version_step.cases split: option.splits if_splits)

text \<open>Where a rotation can end: before the file, after it, after the journal entry, or with the version recorded.\<close>

lemma write_version_cases:
  assumes "write_version K disk t ids c run project environment i expected version secret st = (st', out)"
  obtains (early) "st' = st" "\<exists>e. out = Inl e"
  | (partial) cipher st1 r where "create_file disk (version_name K project environment i version) cipher ''VERSION_FILE_EXISTS_OR_CREATE_FAILED''
      ''VAULT_WRITE_INCOMPLETE_PRESERVED'' st = (st1, r)" "\<exists>j. st' = st1\<lparr>va_journal := j\<rparr>" "\<exists>e. out = Inl e"
  | (full) cipher st1 st2 j where
      "encrypt K (sk_encode2 K \<lparr>b2_schema = 2, b2_project = project, b2_environment = environment, b2_resource = i, b2_version = version,
         b2_secret = secret\<rparr>) = Inr cipher"
      "create_file disk (version_name K project environment i version) cipher ''VERSION_FILE_EXISTS_OR_CREATE_FAILED''
        ''VAULT_WRITE_INCOMPLETE_PRESERVED'' st = (st1, Inr ())"
      "record_secret_rotation t ids run i version (version_name K project environment i version) (sk_sha K cipher) expected (st1\<lparr>va_journal := j\<rparr>) = Inr st2"
      "st' = st2 \<or> control_record K c (ResourceConfirm i) st2 = Inr st'"
proof (cases "encrypt K (sk_encode2 K \<lparr>b2_schema = 2, b2_project = project, b2_environment = environment, b2_resource = i,
    b2_version = version, b2_secret = secret\<rparr>)")
  case (Inl e)
  then have "st' = st" "out = Inl e" using assms by (simp_all add: write_version_def)
  then show thesis by (intro early) blast+
next
  case e: (Inr cipher)
  obtain st1 r where c: "create_file disk (version_name K project environment i version) cipher ''VERSION_FILE_EXISTS_OR_CREATE_FAILED''
      ''VAULT_WRITE_INCOMPLETE_PRESERVED'' st = (st1, r)" by fastforce
  let ?step = "effect_step t run ''ciphertext_version_written'' ''completed'' (ac_show (sk_archive K)
    (JObj [(''ciphertext_sha256'', JStr (sk_sha K cipher)), (''resource_id'', JStr i), (''version_id'', JStr version)])) (va_journal st1)"
  have same: "st1 = st1\<lparr>va_journal := va_journal st1\<rparr>" by simp
  show thesis
  proof (cases r)
    case (Inl x)
    then have "st' = st1" "out = Inl x" using assms e c by (simp_all add: write_version_def)
    then show thesis using same by (intro partial[OF c]) blast+
  next
    case r: (Inr u)
    show thesis
    proof (cases ?step)
      case (Inl x)
      then have "st' = st1" "out = Inl x" using assms e c r by (simp_all add: write_version_def)
      then show thesis using same by (intro partial[OF c]) blast+
    next
      case j: (Inr j)
      show thesis
      proof (cases "record_secret_rotation t ids run i version (version_name K project environment i version) (sk_sha K cipher) expected (st1\<lparr>va_journal := j\<rparr>)")
        case (Inl x)
        then have "st' = st1\<lparr>va_journal := j\<rparr>" "out = Inl x" using assms e c r j by (simp_all add: write_version_def)
        then show thesis by (intro partial[OF c]) blast+
      next
        case v: (Inr st2)
        have "st' = st2 \<or> control_record K c (ResourceConfirm i) st2 = Inr st'"
          using assms e c r j v by (cases "control_record K c (ResourceConfirm i) st2") (simp_all add: write_version_def)
        moreover have "create_file disk (version_name K project environment i version) cipher ''VERSION_FILE_EXISTS_OR_CREATE_FAILED''
      ''VAULT_WRITE_INCOMPLETE_PRESERVED'' st = (st1, Inr ())" using c r by simp
        ultimately show thesis using full[OF e _ v] by blast
      qed
    qed
  qed
qed

lemma rotate_frame:
  assumes "rotate_secret K dir disk t ids c hidden version run project environment i expected st = (st', out)"
  shows "prefix (va_files st) (va_files st')
    \<and> (secret_view st' = secret_view st \<or> (\<exists>s s'. secret_view s = secret_view st \<and> version_step s s' \<and> secret_view st' = secret_view s'))"
proof (cases "st' = st")
  case False
  then obtain secret where w: "write_version K disk t ids c run project environment i expected version secret st = (st', out)"
    using assms by (auto simp: rotate_secret_def split: sum.splits)
  have s: "secret_view (s\<lparr>va_journal := j\<rparr>) = secret_view s \<and> va_files (s\<lparr>va_journal := j\<rparr>) = va_files s" for s j
    by (simp add: secret_view_def)
  show ?thesis
  proof (cases rule: write_version_cases[OF w])
    case 1
    then show ?thesis using False by blast
  next
    case (2 cipher st1 r)
    then show ?thesis using create_file_frame[OF 2(1)] s by auto
  next
    case (3 cipher st1 st2 j)
    note v = rotation[OF 3(3)]
    have "secret_view st' = secret_view st2 \<and> va_files st' = va_files st2" using 3(4) control_record_frame by auto
    then show ?thesis using create_file_frame[OF 3(2)] s[of j st1] v version_step_files[OF v] by metis
  qed
qed simp

lemma secret_step_view:
  assumes "secret_step K st st'"
  shows "prefix (va_files st) (va_files st')
    \<and> (secret_view st' = secret_view st \<or> (\<exists>s s'. secret_view s = secret_view st \<and> version_step s s' \<and> secret_view st' = secret_view s'))"
  using assms
proof cases
  case (put dir disk c1 c2 project environment i secret out)
  then show ?thesis using put_frame by blast
next
  case (rotated dir disk t ids c hidden version run project environment i expected out')
  then show ?thesis using rotate_frame by blast
next
  case (revoked t ids run i expected r)
  then have "version_step st st'" by (rule revocation)
  then show ?thesis using version_step_files by (metis prefix_order.refl)
qed (simp_all add: secret_view_def)

section \<open>The history of a secret\<close>

definition versions_of :: "vault \<Rightarrow> string \<Rightarrow> secret_version list" where
  "versions_of st i = filter (\<lambda>v. sv_resource v = i) (va_versions st)"

text \<open>The activations and revocations of a secret.\<close>

definition changes_of :: "vault \<Rightarrow> string \<Rightarrow> secret_transition list" where
  "changes_of st i = filter (\<lambda>t. tr_resource t = i \<and> tr_action t \<noteq> ''superseded'') (va_transitions st)"

definition chained :: "secret_version list \<Rightarrow> bool" where
  "chained vs \<longleftrightarrow> map sv_predecessor vs = butlast (None # map (Some \<circ> sv_version) vs)"

lemma chained_snoc:
  "chained (vs @ [v]) \<longleftrightarrow> chained vs \<and> sv_predecessor v = (if vs = [] then None else Some (sv_version (last vs)))"
proof -
  define b where "b = butlast (None # map (Some \<circ> sv_version) vs)"
  define l where "l = (if vs = [] then None else Some (sv_version (last vs)))"
  have e: "None # map (Some \<circ> sv_version) vs = b @ [l]" unfolding b_def l_def by (cases vs rule: rev_cases) simp_all
  have f: "butlast (None # map (Some \<circ> sv_version) (vs @ [v])) = None # map (Some \<circ> sv_version) vs" by (simp add: butlast_append)
  show ?thesis unfolding chained_def f b_def[symmetric] l_def[symmetric] unfolding e by simp
qed

lemma chained_start: "chained [v] \<longleftrightarrow> sv_predecessor v = None"
  by (simp add: chained_def)

definition secret_ok :: "vault \<Rightarrow> string \<Rightarrow> bool" where
  "secret_ok st i \<longleftrightarrow> chained (versions_of st i) \<and> distinct (map sv_version (versions_of st i))
     \<and> (case head_row st i of None \<Rightarrow> versions_of st i = [] \<and> changes_of st i = []
        | Some h \<Rightarrow> versions_of st i \<noteq> [] \<and> sh_version h = sv_version (last (versions_of st i)) \<and> changes_of st i \<noteq> []
            \<and> sh_generation h = int (length (changes_of st i))
            \<and> sh_state h = (if tr_action (last (changes_of st i)) = ''activated'' then ''active'' else ''revoked'')
            \<and> tr_version (last (changes_of st i)) = sh_version h)"

definition secrets_ok :: "vault \<Rightarrow> bool" where
  "secrets_ok st \<longleftrightarrow> distinct (map sh_resource (va_heads st)) \<and> (\<forall>i. secret_ok st i)"

lemma secret_ok_view: "secret_view st' = secret_view st \<Longrightarrow> secrets_ok st' = secrets_ok st"
proof -
  assume "secret_view st' = secret_view st"
  then have v: "va_versions st' = va_versions st" "va_heads st' = va_heads st" "va_transitions st' = va_transitions st"
    by (simp_all add: secret_view_def)
  then have "versions_of st' = versions_of st" "changes_of st' = changes_of st" "head_row st' = head_row st"
    by (simp_all add: fun_eq_iff versions_of_def changes_of_def head_row_def)
  then show ?thesis by (simp only: secrets_ok_def secret_ok_def v)
qed

lemma find_replaced:
  "find (\<lambda>x. key x = j) (map (\<lambda>x. if key x = key h then h else x) xs)
     = (if j = key h \<and> list_ex (\<lambda>x. key x = key h) xs then Some h else find (\<lambda>x. key x = j) xs)"
  by (induction xs) (auto dest: find_absent)

lemma find_upsert:
  "find (\<lambda>x. key x = j) (if list_ex (\<lambda>x. key x = key h) xs then map (\<lambda>x. if key x = key h then h else x) xs else xs @ [h])
     = (if j = key h then Some h else find (\<lambda>x. key x = j) xs)"
  by (auto simp: find_replaced find_append find_absent split: option.splits)

lemma store_head_ok:
  assumes "store_head h st = Inr st'"
  shows "head_row st' = (head_row st)(sh_resource h := Some h)" "va_versions st' = va_versions st" "va_transitions st' = va_transitions st"
    "distinct (map sh_resource (va_heads st)) \<Longrightarrow> distinct (map sh_resource (va_heads st'))"
proof -
  let ?hs = "va_heads st" and ?f = "\<lambda>x. if sh_resource x = sh_resource h then h else x"
  have d: "st' = st\<lparr>va_heads := (if list_ex (\<lambda>x. sh_resource x = sh_resource h) ?hs then map ?f ?hs else ?hs @ [h])\<rparr>"
    using assms by (simp add: store_head_def operations_when_ok)
  show "va_versions st' = va_versions st" "va_transitions st' = va_transitions st" by (simp_all add: d)
  have m: "map sh_resource (map ?f ?hs) = map sh_resource ?hs" by auto
  show "distinct (map sh_resource (va_heads st'))" if "distinct (map sh_resource ?hs)"
    using that m by (auto simp: d list_ex_iff simp del: map_map)
  show "head_row st' = (head_row st)(sh_resource h := Some h)"
    unfolding d head_row_def fun_eq_iff using find_upsert[where key=sh_resource and h=h and xs="?hs"] by simp
qed

lemma rotation_ok:
  assumes "record_secret_rotation t ids run i version file dig previous st = Inr st'"
  obtains v trs tr where "va_versions st' = va_versions st @ [v]" "sv_resource v = i" "sv_version v = version" "sv_file v = file"
    "sv_digest v = dig" "sv_predecessor v = map_option sh_version (head_row st i)"
    "\<forall>x \<in> set (va_versions st). \<not> (sv_resource x = i \<and> sv_version x = version)"
    "va_transitions st' = va_transitions st @ trs" "filter (\<lambda>t. tr_action t \<noteq> ''superseded'') trs = [tr]"
    "tr_resource tr = i" "tr_version tr = version" "tr_action tr = ''activated''"
    "head_row st' = (head_row st)(i := Some \<lparr>sh_resource = i, sh_version = version, sh_state = ''active'',
       sh_generation = (case head_row st i of None \<Rightarrow> 1 | Some h \<Rightarrow> sh_generation h + 1), sh_changed = t\<rparr>)"
    "distinct (map sh_resource (va_heads st)) \<Longrightarrow> distinct (map sh_resource (va_heads st'))"
proof -
  let ?v = "\<lparr>sv_resource = i, sv_version = version, sv_file = file, sv_digest = dig, sv_predecessor = previous, sv_created = t, sv_run = run\<rparr>"
  let ?g = "case head_row st i of None \<Rightarrow> 1 | Some h \<Rightarrow> sh_generation h + 1"
  let ?h = "\<lparr>sh_resource = i, sh_version = version, sh_state = ''active'', sh_generation = ?g, sh_changed = t\<rparr>"
  let ?old = "\<lambda>h. \<lparr>tr_id = ids 0, tr_resource = i, tr_version = sh_version h, tr_action = ''superseded'', tr_at = t, tr_run = run\<rparr>"
  let ?new = "\<lparr>tr_id = ids 1, tr_resource = i, tr_version = version, tr_action = ''activated'', tr_at = t, tr_run = run\<rparr>"
  obtain st1 st2 st3 where p: "previous = map_option sh_version (head_row st i)" and o1: "insert_version ?v st = Inr st1"
    and o2: "(case head_row st i of None \<Rightarrow> Inr st1 | Some h \<Rightarrow> insert_transition (?old h) st1) = Inr st2"
    and o3: "store_head ?h st2 = Inr st3" and o4: "insert_transition ?new st3 = Inr st'"
    using assms unfolding record_secret_rotation_def Let_def by (auto simp: bind_check_ok split: if_splits)
  have v: "st1 = st\<lparr>va_versions := va_versions st @ [?v]\<rparr>" "\<forall>x \<in> set (va_versions st). \<not> (sv_resource x = i \<and> sv_version x = version)"
    using o1 by (auto simp: insert_version_def operations_when_ok list_ex_iff)
  obtain trs where t: "st2 = st1\<lparr>va_transitions := va_transitions st1 @ trs\<rparr>" "filter (\<lambda>t. tr_action t \<noteq> ''superseded'') trs = []"
    using o2 by (cases "head_row st i") (auto simp: insert_transition_def operations_when_ok intro: that[of "[]"])
  have n: "st' = st3\<lparr>va_transitions := va_transitions st3 @ [?new]\<rparr>" using o4 by (simp add: insert_transition_def operations_when_ok)
  have h: "head_row st2 = head_row st" "va_heads st2 = va_heads st" by (simp_all add: t(1) v(1) head_row_def fun_eq_iff)
  note s = store_head_ok[OF o3]
  show thesis
  proof (rule that[of ?v "trs @ [?new]" ?new])
    show "head_row st' = (head_row st)(i := Some ?h)" using s(1) h(1) by (simp add: n head_row_def fun_eq_iff)
    show "distinct (map sh_resource (va_heads st))  \<Longrightarrow> distinct (map sh_resource (va_heads st'))" using s(4) h(2) by (simp add: n)
  qed (use p v t s(2,3) in \<open>simp_all add: n\<close>)
qed

lemma revoke_ok:
  assumes "revoke_secret_version t ids run i expected st = Inr (st', r)" "distinct (map sh_resource (va_heads st))"
  obtains h tr where "head_row st i = Some h" "sh_version h = expected" "sh_state h = ''active''" "va_versions st' = va_versions st"
    "va_transitions st' = va_transitions st @ [tr]" "tr_resource tr = i" "tr_version tr = expected" "tr_action tr = ''revoked''"
    "head_row st' = (head_row st)(i := Some (h\<lparr>sh_state := ''revoked'', sh_generation := sh_generation h + 1, sh_changed := t\<rparr>))"
    "map sh_resource (va_heads st') = map sh_resource (va_heads st)"
proof -
  let ?hit = "\<lambda>h :: secret_head_row. sh_resource h = i \<and> sh_version h = expected \<and> sh_state h = ''active''"
  let ?u = "\<lambda>h :: secret_head_row. h\<lparr>sh_state := ''revoked'', sh_generation := sh_generation h + 1, sh_changed := t\<rparr>"
  let ?tr = "\<lparr>tr_id = ids 0, tr_resource = i, tr_version = expected, tr_action = ''revoked'', tr_at = t, tr_run = run\<rparr>"
  have len: "length (filter ?hit (va_heads st)) = 1"
    and d: "st' = st\<lparr>va_heads := map (\<lambda>h. if ?hit h then ?u h else h) (va_heads st), va_transitions := va_transitions st @ [?tr]\<rparr>"
    using assms(1) by (auto simp: revoke_secret_version_def Let_def bind_check_ok insert_transition_def operations_when_ok split: if_splits)
  have "filter ?hit (va_heads st) \<noteq> []" using len by auto
  then obtain h where hh: "h \<in> set (va_heads st)" "?hit h" unfolding filter_empty_conv by blast
  then have f: "head_row st i = Some h" using find_distinct[OF assms(2) hh(1)] by (simp add: head_row_def)
  have m: "find (\<lambda>x. sh_resource x = j) (map (\<lambda>h. if ?hit h then ?u h else h) xs)
      = map_option (\<lambda>h. if ?hit h then ?u h else h) (find (\<lambda>x. sh_resource x = j) xs)" for j xs by (induction xs) auto
  have "va_heads st' = map (\<lambda>h. if ?hit h then ?u h else h) (va_heads st)" by (simp add: d)
  then have "head_row st' = (\<lambda>j. map_option (\<lambda>h. if ?hit h then ?u h else h) (head_row st j))"
    unfolding head_row_def fun_eq_iff using m by simp
  moreover have "map_option (\<lambda>h. if ?hit h then ?u h else h) (head_row st j) = head_row st j" if "j \<noteq> i" for j
    using that by (cases "head_row st j") (auto simp: head_row_def dest: find_holds)
  ultimately have "head_row st' = (head_row st)(i := Some (?u h))" using f hh(2) by (simp add: fun_eq_iff)
  then show thesis using f hh(2) by (intro that[of h ?tr]) (auto simp: d)
qed

lemma secret_ok_cong:
  "versions_of st' j = versions_of st j \<Longrightarrow> changes_of st' j = changes_of st j \<Longrightarrow> head_row st' j = head_row st j
     \<Longrightarrow> secret_ok st' j = secret_ok st j"
  by (simp only: secret_ok_def)

lemma secret_ok_rotated:
  assumes "secret_ok st i" "versions_of st' i = versions_of st i @ [v]" "changes_of st' i = changes_of st i @ [t]"
    and "sv_predecessor v = map_option sh_version (head_row st i)" "sv_version v \<notin> set (map sv_version (versions_of st i))"
    and "tr_version t = sv_version v" "tr_action t = ''activated''" "head_row st' i = Some h" "sh_version h = sv_version v" "sh_state h = ''active''"
    and "sh_generation h = (case head_row st i of None \<Rightarrow> 1 | Some h \<Rightarrow> sh_generation h + 1)"
  shows "secret_ok st' i"
proof (cases "head_row st i")
  case None
  then show ?thesis using assms by (simp add: secret_ok_def chained_start)
next
  case (Some old)
  then show ?thesis using assms by (simp add: secret_ok_def chained_snoc)
qed

lemma secret_ok_revoked:
  assumes "secret_ok st i" "versions_of st' i = versions_of st i" "changes_of st' i = changes_of st i @ [t]"
    and "head_row st i = Some old" "tr_version t = sh_version old" "tr_action t = ''revoked''" "head_row st' i = Some h"
    and "sh_version h = sh_version old" "sh_state h = ''revoked''" "sh_generation h = sh_generation old + 1"
  shows "secret_ok st' i"
  using assms by (simp add: secret_ok_def)

lemma version_step_ok:
  assumes "version_step st st'" "secrets_ok st"
  shows "secrets_ok st'"
  using assms(1)
proof cases
  case (rotation t ids run i version name dig previous)
  have ok: "secret_ok st j" for j using assms(2) by (simp add: secrets_ok_def)
  show ?thesis
  proof (rule rotation_ok[OF rotation])
    fix v trs tr
    assume r: "va_versions st' = va_versions st @ [v]" "sv_resource v = i" "sv_version v = version"
        "sv_predecessor v = map_option sh_version (head_row st i)" "\<forall>x \<in> set (va_versions st). \<not> (sv_resource x = i \<and> sv_version x = version)"
        "va_transitions st' = va_transitions st @ trs" "filter (\<lambda>t. tr_action t \<noteq> ''superseded'') trs = [tr]"
        "tr_resource tr = i" "tr_version tr = version" "tr_action tr = ''activated''"
        "head_row st' = (head_row st)(i := Some \<lparr>sh_resource = i, sh_version = version, sh_state = ''active'',
           sh_generation = (case head_row st i of None \<Rightarrow> 1 | Some h \<Rightarrow> sh_generation h + 1), sh_changed = t\<rparr>)"
        "distinct (map sh_resource (va_heads st)) \<Longrightarrow> distinct (map sh_resource (va_heads st'))"
    have vs: "versions_of st' j = versions_of st j @ (if j = i then [v] else [])" for j using r(1,2) by (simp add: versions_of_def)
    have "filter (\<lambda>t. tr_resource t = j \<and> tr_action t \<noteq> ''superseded'') trs
        = filter (\<lambda>t. tr_resource t = j) (filter (\<lambda>t. tr_action t \<noteq> ''superseded'') trs)" for j by (simp add: conj_commute)
    then have cs: "changes_of st' j = changes_of st j @ (if j = i then [tr] else [])" for j using r(6-8) by (simp add: changes_of_def)
    have "secret_ok st' j" for j
    proof (cases "j = i")
      case False
      then have "versions_of st' j = versions_of st j" "changes_of st' j = changes_of st j" "head_row st' j = head_row st j"
        by (simp_all add: vs cs r(11))
      then show ?thesis using ok[of j] secret_ok_cong by blast
    next
      case True
      have "version \<notin> set (map sv_version (versions_of st i))" using r(5) by (auto simp: versions_of_def)
      moreover have "secret_ok st' i"
        by (rule secret_ok_rotated[OF ok[of i], of _ v tr "the (head_row st' i)", OF _ _ r(4)]) (use calculation r(3,9-11) in \<open>simp_all add: vs cs\<close>)
      ultimately show ?thesis using True by simp
    qed
    then show ?thesis using assms(2) r(12) by (simp add: secrets_ok_def)
  qed
next
  case (revocation t ids run i expected r)
  have ok: "secret_ok st j" for j using assms(2) by (simp add: secrets_ok_def)
  have d: "distinct (map sh_resource (va_heads st))" using assms(2) by (simp add: secrets_ok_def)
  show ?thesis
  proof (rule revoke_ok[OF revocation d])
    fix h tr
    assume r: "head_row st i = Some h" "sh_version h = expected" "va_versions st' = va_versions st"
      "va_transitions st' = va_transitions st @ [tr]" "tr_resource tr = i" "tr_version tr = expected" "tr_action tr = ''revoked''"
      "head_row st' = (head_row st)(i := Some (h\<lparr>sh_state := ''revoked'', sh_generation := sh_generation h + 1, sh_changed := t\<rparr>))"
      "map sh_resource (va_heads st') = map sh_resource (va_heads st)"
    have vs: "versions_of st' = versions_of st" by (simp add: versions_of_def fun_eq_iff r(3))
    have cs: "changes_of st' j = changes_of st j @ (if j = i then [tr] else [])" for j using r(4-7) by (simp add: changes_of_def)
    have "secret_ok st' j" for j
    proof (cases "j = i")
      case False
      then have "versions_of st' j = versions_of st j" "changes_of st' j = changes_of st j" "head_row st' j = head_row st j"
        by (simp_all add: vs cs r(8))
      then show ?thesis using ok[of j] secret_ok_cong by blast
    next
      case True
      have "secret_ok st' i"
        by (rule secret_ok_revoked[OF ok[of i], of _ tr _ "the (head_row st' i)", OF _ _ r(1)]) (use r(2,6-8) in \<open>simp_all add: vs cs\<close>)
      then show ?thesis using True by simp
    qed
    then show ?thesis using d r(9) by (simp add: secrets_ok_def)
  qed
qed

lemma secret_steps_ok:
  assumes "(secret_step K)\<^sup>*\<^sup>* st st'" "secrets_ok st"
  shows "secrets_ok st'"
  using assms
proof (induction rule: rtranclp_induct)
  case (step st1 st2)
  then show ?case using secret_step_view[OF step(2)] version_step_ok secret_ok_view by metis
qed

definition fresh_vault :: "vault \<Rightarrow> bool" where
  "fresh_vault st \<longleftrightarrow> va_versions st = [] \<and> va_heads st = [] \<and> va_transitions st = []"

lemma fresh_secrets_ok: "fresh_vault st \<Longrightarrow> secrets_ok st"
  by (simp add: fresh_vault_def secrets_ok_def secret_ok_def versions_of_def changes_of_def head_row_def chained_def)

text \<open>
  C40: the history of a secret is one chain. In every vault reached from one without versions, each version names the one
  before it as its predecessor, no version occurs twice, the head is the newest version, and its generation is the number
  of activations and revocations so far, the last of which says whether the secret is active.
\<close>

theorem secret_history_is_a_chain:
  assumes "fresh_vault st0" "(secret_step K)\<^sup>*\<^sup>* st0 st"
  shows "map sv_predecessor (versions_of st i) = butlast (None # map (Some \<circ> sv_version) (versions_of st i))
    \<and> distinct (map sv_version (versions_of st i)) \<and> (head_row st i = None \<longleftrightarrow> versions_of st i = [])
    \<and> (\<forall>h. head_row st i = Some h \<longrightarrow> sh_version h = sv_version (last (versions_of st i))
         \<and> sh_generation h = int (length (changes_of st i))
         \<and> (sh_state h = ''active'' \<longleftrightarrow> tr_action (last (changes_of st i)) = ''activated''))"
proof -
  have ok: "secret_ok st i" using secret_steps_ok[OF assms(2) fresh_secrets_ok[OF assms(1)]] by (simp add: secrets_ok_def)
  show ?thesis
  proof (cases "head_row st i")
    case None
    then show ?thesis using ok by (simp add: secret_ok_def chained_def)
  next
    case (Some h)
    then show ?thesis using ok by (simp add: secret_ok_def chained_def)
  qed
qed

section \<open>Revocation\<close>

definition closed_version :: "vault \<Rightarrow> string \<Rightarrow> string \<Rightarrow> bool" where
  "closed_version st i v \<longleftrightarrow> (\<exists>x \<in> set (va_versions st). sv_resource x = i \<and> sv_version x = v)
     \<and> (\<forall>h. head_row st i = Some h \<longrightarrow> sh_version h = v \<longrightarrow> sh_state h \<noteq> ''active'')"

lemma closed_view: "secret_view st' = secret_view st \<Longrightarrow> closed_version st' i v = closed_version st i v"
  by (simp add: secret_view_def closed_version_def head_row_def)

lemma closed_step:
  assumes "version_step st st'" "secrets_ok st" "closed_version st i v"
  shows "closed_version st' i v"
  using assms(1)
proof cases
  case (rotation t ids run k version name dig previous)
  show ?thesis
  proof (rule rotation_ok[OF rotation])
    fix w trs tr assume "va_versions st' = va_versions st @ [w]" "\<forall>x \<in> set (va_versions st). \<not> (sv_resource x = k \<and> sv_version x = version)"
      "head_row st' = (head_row st)(k := Some \<lparr>sh_resource = k, sh_version = version, sh_state = ''active'',
         sh_generation = (case head_row st k of None \<Rightarrow> 1 | Some h \<Rightarrow> sh_generation h + 1), sh_changed = t\<rparr>)"
    then show ?thesis using assms(3) by (auto simp: closed_version_def)
  qed
next
  case (revocation t ids run k expected r)
  show ?thesis
  proof (rule revoke_ok[OF revocation])
    show "distinct (map sh_resource (va_heads st))" using assms(2) by (simp add: secrets_ok_def)
    fix h tr assume "va_versions st' = va_versions st"
      "head_row st' = (head_row st)(k := Some (h\<lparr>sh_state := ''revoked'', sh_generation := sh_generation h + 1, sh_changed := t\<rparr>))"
    then show ?thesis using assms(3) by (auto simp: closed_version_def)
  qed
qed

lemma closed_steps:
  assumes "(secret_step K)\<^sup>*\<^sup>* st st'" "secrets_ok st" "closed_version st i v"
  shows "closed_version st' i v"
  using assms
proof (induction rule: rtranclp_induct)
  case (step st1 st2)
  have ok: "secrets_ok st1" using secret_steps_ok[OF step(1) step(4)] .
  then show ?case using secret_step_view[OF step(2)] step.IH step.prems closed_step closed_view secret_ok_view by metis
qed

text \<open>
  C14: a revoked version stays closed. After the revocation of a version, in every later state of the vault the head never
  offers that version as active again, and while it is still the head the secret cannot be resolved: not from the revoked
  ciphertext and not from a legacy file.
\<close>

theorem revoked_version_stays_closed:
  assumes "fresh_vault st0" "(secret_step K)\<^sup>*\<^sup>* st0 st" "revoke_secret_version t ids run i v st = Inr (st1, r)"
    and "(secret_step K)\<^sup>*\<^sup>* st1 st2"
  shows "secret_head st2 i \<noteq> Inr (Some (v, ''active'', g))
    \<and> (secret_head st2 i = Inr (Some (v, s, g)) \<longrightarrow> (\<exists>e. resolve_secret K ok st2 project environment i = Inl e))"
proof -
  have o: "secrets_ok st" using secret_steps_ok[OF assms(2) fresh_secrets_ok[OF assms(1)]] .
  have d: "distinct (map sh_resource (va_heads st))" and k: "secret_ok st i" using o by (simp_all add: secrets_ok_def)
  have "closed_version st1 i v"
  proof (rule revoke_ok[OF assms(3) d])
    fix h tr assume r: "head_row st i = Some h" "sh_version h = v" "va_versions st1 = va_versions st"
      "head_row st1 = (head_row st)(i := Some (h\<lparr>sh_state := ''revoked'', sh_generation := sh_generation h + 1, sh_changed := t\<rparr>))"
    then have "versions_of st i \<noteq> []" "v = sv_version (last (versions_of st i))" using k by (simp_all add: secret_ok_def)
    then have "\<exists>x \<in> set (va_versions st). sv_resource x = i \<and> sv_version x = v"
      using last_in_set[of "versions_of st i"] by (auto simp: versions_of_def)
    then show ?thesis using r(3,4) by (simp add: closed_version_def)
  qed
  moreover have "secrets_ok st1" using version_step_ok[OF revocation[OF assms(3)] o] .
  ultimately have c: "closed_version st2 i v" using closed_steps[OF assms(4)] by blast
  have n: "secret_head st2 i = Inr (Some (v, s', g')) \<Longrightarrow> s' \<noteq> ''active''" for s' g'
    using c by (auto simp: secret_head_def closed_version_def bind_check_ok split: option.splits if_splits)
  have "\<exists>e. resolve_secret K ok st2 project environment i = Inl e" if h: "secret_head st2 i = Inr (Some (v, s, g))"
  proof -
    have "vault_v4 st2 = Inr ()" using h by (auto simp: secret_head_def bind_check_ok)
    then have v4: "\<not> cd_version (va_control st2) < 4" by (auto simp: vault_v4_def reject_def split: if_splits)
    show ?thesis
      using n[OF h] h v4 by (cases "local_resource (va_control st2) project environment i") (simp_all add: resolve_secret_def)
  qed
  then show ?thesis using n by blast
qed

section \<open>Resolution\<close>

lemma version_step_grows: "version_step st st' \<Longrightarrow> prefix (va_versions st) (va_versions st')"
proof (induction rule: version_step.induct)
  case (rotation t ids run i version name dig previous st st')
  then show ?case by (rule rotation_ok) simp
next
  case (revocation t ids run i expected st st' r)
  then show ?case
    by (auto simp: revoke_secret_version_def Let_def bind_check_ok insert_transition_def operations_when_ok split: if_splits)
qed

lemma secret_steps_grow:
  assumes "(secret_step K)\<^sup>*\<^sup>* st st'"
  shows "prefix (va_versions st) (va_versions st') \<and> prefix (va_files st) (va_files st')"
  using assms
proof (induction rule: rtranclp_induct)
  case (step st1 st2)
  have "prefix (va_versions st1) (va_versions st2)"
    using secret_step_view[OF step(2)] version_step_grows unfolding secret_view_def prod.inject by (metis prefix_order.refl)
  then show ?case using secret_step_view[OF step(2)] step.IH by (meson prefix_order.trans)
qed simp

lemma map_of_prefix: "prefix xs ys \<Longrightarrow> map_of xs n = Some b \<Longrightarrow> map_of ys n = Some b"
  by (auto simp: prefix_def map_add_def)

lemma find_prefix: "prefix xs ys \<Longrightarrow> find P xs = Some x \<Longrightarrow> find P ys = Some x"
  by (auto simp: prefix_def find_append)

text \<open>What a completed rotation leaves: the row of the version and its file.\<close>

lemma rotated_version:
  assumes "write_version K disk t ids c run project environment i expected version secret st = (st1, Inr w)"
  obtains cipher v where "encrypt K (sk_encode2 K \<lparr>b2_schema = 2, b2_project = project, b2_environment = environment, b2_resource = i,
      b2_version = version, b2_secret = secret\<rparr>) = Inr cipher"
    "map_of (va_files st1) (version_name K project environment i version) = Some (fst (disk cipher))"
    "find (\<lambda>v. sv_resource v = i \<and> sv_version v = version) (va_versions st1) = Some v"
    "sv_file v = version_name K project environment i version" "sv_digest v = sk_sha K cipher"
proof (cases rule: write_version_cases[OF assms])
  case (3 cipher s1 s2 j)
  let ?name = "version_name K project environment i version"
  have view: "secret_view st1 = secret_view s2 \<and> va_files st1 = va_files s2" using 3(4) control_record_frame by auto
  have f: "va_files s2 = va_files s1" using version_step_files[OF rotation[OF 3(3)]] by simp
  have "map_of (va_files s1) ?name = Some (fst (disk cipher))"
    using 3(2) by (auto simp: create_file_def map_add_def split: if_splits prod.splits)
  then have fl: "map_of (va_files st1) ?name = Some (fst (disk cipher))" using view f by simp
  show thesis
  proof (rule rotation_ok[OF 3(3)])
    fix v trs tr assume v: "va_versions s2 = va_versions (s1\<lparr>va_journal := j\<rparr>) @ [v]" "sv_resource v = i" "sv_version v = version" "sv_file v = ?name"
      "sv_digest v = sk_sha K cipher"
      "\<forall>x \<in> set (va_versions (s1\<lparr>va_journal := j\<rparr>)). \<not> (sv_resource x = i \<and> sv_version x = version)"
    have "find (\<lambda>v. sv_resource v = i \<and> sv_version v = version) (va_versions s2) = Some v"
      using v(1-3,6) find_absent[of "\<lambda>v. sv_resource v = i \<and> sv_version v = version" "va_versions s1"]
      by (simp add: find_append list_ex_iff)
    then show thesis using that 3(1) fl v(4,5) view by (simp add: secret_view_def)
  qed
qed auto

lemma rotate_starts:
  assumes "rotate_secret K dir disk t ids c (Inr secret) version run project environment i expected st = (st1, Inr w)"
  shows "write_version K disk t ids c run project environment i expected version secret st = (st1, Inr w) \<and> sk_windows K
    \<and> secret \<noteq> [] \<and> length secret \<le> SECRET_BYTES_LIMIT"
proof -
  obtain head where l: "local_resource (va_control st) project environment i = Inr ()" "secret_head st i = Inr head"
    using assms by (cases "local_resource (va_control st) project environment i"; cases "secret_head st i") (simp_all add: rotate_secret_def)
  have g: "map_option fst head = expected" "sk_windows K"
    using assms l by (auto simp: rotate_secret_def reject_def split: if_splits)
  have z: "checks [reject (secret = [] \<or> length secret > SECRET_BYTES_LIMIT) ''SECRET_SIZE_LIMIT'', dir,
      reject (length (va_files st) \<ge> 1024) ''VAULT_RETENTION_REVIEW_REQUIRED''] = Inr ()"
    using assms l g by (cases "checks [reject (secret = [] \<or> length secret > SECRET_BYTES_LIMIT) ''SECRET_SIZE_LIMIT'', dir,
      reject (length (va_files st) \<ge> 1024) ''VAULT_RETENTION_REVIEW_REQUIRED'']") (simp_all add: rotate_secret_def)
  then have "secret \<noteq> [] \<and> length secret \<le> SECRET_BYTES_LIMIT" by (auto simp: check_simps)
  then show ?thesis using assms l g z by (simp add: rotate_secret_def)
qed

text \<open>
  C13: what was entered is what resolves. After a completed rotation, as long as the new version is the active head, the
  secret of its scope resolves to exactly the bytes that were entered, whatever happened to the vault in between. This
  needs DPAPI and the encoding of a binding to be inverted by their counterparts, a reported write to have stored its
  bytes, and the resource to be still the local reference of that scope.
\<close>

theorem entered_secret_resolves:
  assumes "rotate_secret K dir disk t ids c (Inr secret) version run project environment i expected st = (st1, Inr w)"
    and "(secret_step K)\<^sup>*\<^sup>* st1 st2"
    and "secret_head st2 i = Inr (Some (version, ''active'', g))" "local_resource (va_control st2) project environment i = Inr ()"
    and "text = sk_encode2 K \<lparr>b2_schema = 2, b2_project = project, b2_environment = environment, b2_resource = i, b2_version = version, b2_secret = secret\<rparr>"
    and "sk_decode2 K text = Some \<lparr>b2_schema = 2, b2_project = project, b2_environment = environment, b2_resource = i, b2_version = version, b2_secret = secret\<rparr>"
    and "\<forall>cipher. sk_protect K text = Inr cipher \<longrightarrow> sk_unprotect K cipher = Inr text \<and> fst (disk cipher) = cipher"
    and "name = version_name K project environment i version" "sk_file_name K name = Some name" "ok name = Inr ()"
  shows "resolve_secret K ok st2 project environment i = Inr secret"
proof -
  have w: "write_version K disk t ids c run project environment i expected version secret st = (st1, Inr w)"
    and win: "sk_windows K" and size: "secret \<noteq> []" "length secret \<le> SECRET_BYTES_LIMIT"
    using rotate_starts[OF assms(1)] by blast+
  have v4: "\<not> cd_version (va_control st2) < 4"
    using assms(3) by (auto simp: secret_head_def bind_check_ok vault_v4_def reject_def split: if_splits)
  show ?thesis
  proof (rule rotated_version[OF w])
    fix cipher v
    assume c: "encrypt K (sk_encode2 K \<lparr>b2_schema = 2, b2_project = project, b2_environment = environment, b2_resource = i,
        b2_version = version, b2_secret = secret\<rparr>) = Inr cipher"
      and f: "map_of (va_files st1) (version_name K project environment i version) = Some (fst (disk cipher))"
      and v: "find (\<lambda>v. sv_resource v = i \<and> sv_version v = version) (va_versions st1) = Some v"
        "sv_file v = version_name K project environment i version" "sv_digest v = sk_sha K cipher"
    have p: "sk_protect K text = Inr cipher" "length cipher \<le> CIPHER_BYTES_LIMIT"
      using c assms(5) by (auto simp: encrypt_def bind_check_ok split: if_splits)
    have g: "map_of (va_files st2) name = Some cipher"
    proof -
      have "map_of (va_files st2) (version_name K project environment i version) = Some (fst (disk cipher))"
        using map_of_prefix[OF _ f] secret_steps_grow[OF assms(2)] by blast
      moreover have "fst (disk cipher) = cipher" using assms(7) p(1) by blast
      ultimately show ?thesis by (simp only: assms(8))
    qed
    have fv: "find (\<lambda>v. sv_resource v = i \<and> sv_version v = version) (va_versions st2) = Some v"
      using find_prefix[OF _ v(1)] secret_steps_grow[OF assms(2)] by blast
    have "suffix ''.dpapi'' name" by (simp add: assms(8) version_name_def suffix_def)
    then have "resolve_version K ok st2 project environment i version = Inr secret"
    proof -
      have "sv_file v = name" using v(2) assms(8) by simp
      moreover have "sk_unprotect K cipher = Inr text" using assms(7) p(1) by blast
      ultimately show ?thesis unfolding resolve_version_def fv
        using g p(2) assms(6,9,10) v(3) size \<open>suffix ''.dpapi'' name\<close> by (simp add: secret_sized_def)
    qed
    then show ?thesis using assms(3,4) v4 win by (simp add: resolve_secret_def)
  qed
qed

section \<open>An example\<close>

definition demo_secret_codec :: secret_codec where
  "demo_secret_codec = \<lparr>sk_windows = True, sk_control = demo_codec,
     sk_archive = \<lparr>ac_parse = (\<lambda>_. None), ac_show = (\<lambda>_. ''{}''), ac_sha = (\<lambda>_. []), ac_entries_text = (\<lambda>_. []), ac_entry_len = (\<lambda>_. 0),
       ac_pack_text = (\<lambda>_. []), ac_read_pack = (\<lambda>_. None)\<rparr>,
     sk_sha = (\<lambda>_. replicate 64 (CHR ''d'')), sk_encode1 = (\<lambda>_. []), sk_decode1 = (\<lambda>_. None), sk_encode2 = b2_secret,
     sk_decode2 = (\<lambda>t. Some \<lparr>b2_schema = 2, b2_project = ''p'', b2_environment = ''e'', b2_resource = ''s'', b2_version = ''v1'', b2_secret = t\<rparr>),
     sk_protect = Inr, sk_unprotect = Inr, sk_file_name = Some\<rparr>"

definition demo_resource :: resource where
  "demo_resource = \<lparr>res_id = ''s'', res_project_id = ''p'', res_environment = ''e'', res_kind = SecretReference, res_name = ''s'',
     res_locator = ''local://p/e/s'', res_provider = Some ''local_dpapi'', res_evidence = report_evidence ''local-record:a'' 10, res_fresh_for_secs = 60\<rparr>"

definition demo_vault :: vault where
  "demo_vault = \<lparr>va_control = demo_start\<lparr>cd_version := 5, cd_environments := [(''p'', ''e'')], cd_resources := [\<lparr>rr_resource = demo_resource, rr_recorded = 1\<rparr>]\<rparr>,
     va_journal = \<lparr>jo_version = 5, jo_projects = [''p''], jo_environments = [], jo_plans = [], jo_runs = [\<lparr>jr_id = ''x'', jr_plan = ''y'',
       jr_state = ''running'', jr_started = 0, jr_finished = None, jr_error = None, jr_receipt = None\<rparr>], jo_steps = [], jo_archives = [],
       jo_refs = [], jo_files = []\<rparr>,
     va_versions = [], va_heads = [], va_transitions = [], va_files = []\<rparr>"

definition demo_rotation :: "vault \<times> string check" where
  "demo_rotation = rotate_secret demo_secret_codec (Inr ()) (\<lambda>b. (b, True)) 10 (\<lambda>n. replicate n (CHR ''t'')) (demo_call ''q'') (Inr ''pw'') ''v1'' ''x''
     ''p'' ''e'' ''s'' None demo_vault"

lemma demo_vault_resource:
  assumes "cd_version db = 5" "cd_projects db = [demo_project]" "cd_environments db = [(''p'', ''e'')]"
    "cd_resources db = [\<lparr>rr_resource = demo_resource, rr_recorded = 1\<rparr>]"
  shows "local_resource db ''p'' ''e'' ''s'' = Inr ()"
  using assms by (simp add: local_resource_def require_environment_def id_eval resources_def scoped_def require_control_def require_project_def
      project_exists_def demo_project_def environment_exists_def bounded_def demo_resource_def local_locator_def)

lemma demo_digest_64: "length (chars (replicate 64 (CHR ''d''))) = 64"
  using chars_ascii[of "replicate 64 (CHR ''d'')"] by (simp add: is_ascii_def list_all_iff)

text \<open>The vault as the rotation of the example leaves it.\<close>

definition demo_journaled :: journal where
  "demo_journaled = (va_journal demo_vault)\<lparr>jo_steps := [\<lparr>js_run = ''x'', js_seq = 1, js_name = ''ciphertext_version_written'',
     js_status = ''completed'', js_at = 10, js_payload = ''{}''\<rparr>]\<rparr>"

definition demo_rotated :: vault where
  "demo_rotated = demo_vault\<lparr>va_journal := demo_journaled,
     va_versions := [\<lparr>sv_resource = ''s'', sv_version = ''v1'', sv_file = replicate 64 (CHR ''d'') @ ''.dpapi'', sv_digest = replicate 64 (CHR ''d''),
       sv_predecessor = None, sv_created = 10, sv_run = ''x''\<rparr>],
     va_heads := [\<lparr>sh_resource = ''s'', sh_version = ''v1'', sh_state = ''active'', sh_generation = 1, sh_changed = 10\<rparr>],
     va_transitions := [\<lparr>tr_id = ''t'', tr_resource = ''s'', tr_version = ''v1'', tr_action = ''activated'', tr_at = 10, tr_run = ''x''\<rparr>],
     va_files := [(replicate 64 (CHR ''d'') @ ''.dpapi'', ''pw'')]\<rparr>"

lemma demo_step: "effect_step 10 ''x'' ''ciphertext_version_written'' ''completed'' ''{}'' (va_journal demo_vault) = Inr demo_journaled"
proof -
  have "control_text ''ciphertext_version_written'' 128 = Inr ()" by (simp add: text_eval ascii_class_defs)
  then show ?thesis by (simp add: effect_step_def demo_vault_def demo_journaled_def find_run_def max_seq_def)
qed

lemma demo_recorded:
  "record_secret_rotation 10 (\<lambda>n. replicate n (CHR ''t'')) ''x'' ''s'' ''v1'' (replicate 64 (CHR ''d'') @ ''.dpapi'') (replicate 64 (CHR ''d'')) None
     (demo_vault\<lparr>va_files := [(replicate 64 (CHR ''d'') @ ''.dpapi'', ''pw'')], va_journal := demo_journaled\<rparr>) = Inr demo_rotated"
  using demo_digest_64
  by (simp add: record_secret_rotation_def vault_v4_def demo_vault_def head_row_def insert_version_def operations_when_def resource_known_def
      demo_resource_def run_known_def demo_journaled_def store_head_def insert_transition_def demo_rotated_def)

lemma demo_confirmed:
  "\<exists>db. control_record demo_secret_codec (demo_call ''q'') (ResourceConfirm ''s'') demo_rotated = Inr (demo_rotated\<lparr>va_control := db\<rparr>)
     \<and> cd_version db = 5 \<and> cd_projects db = [demo_project] \<and> cd_environments db = [(''p'', ''e'')]
     \<and> cd_resources db = [\<lparr>rr_resource = demo_resource, rr_recorded = 1\<rparr>]"
proof -
  have a: "list_all is_ascii_hexdigit (replicate 64 (CHR ''a''))" by (simp add: list_all_iff ascii_class_defs)
  show ?thesis
    using a by (simp add: control_record_def store_record_def require_control_def demo_call_def demo_rotated_def demo_vault_def demo_secret_codec_def
        resource_confirm_def demo_resource_def insert_verification_def execute_when_def demo_codec_def demo_start_def migrate_control_def
        empty_control_def audit_def next_seq_def project_exists_def demo_project_def)
qed

lemma demo_rotation_done:
  obtains st1 where "demo_rotation = (st1, Inr ''v1'')" "secret_view st1 = secret_view demo_rotated" "cd_version (va_control st1) = 5"
    "local_resource (va_control st1) ''p'' ''e'' ''s'' = Inr ()" "va_journal st1 = demo_journaled"
    "cd_resources (va_control st1) = [\<lparr>rr_resource = demo_resource, rr_recorded = 1\<rparr>]"
proof -
  obtain db where db: "control_record demo_secret_codec (demo_call ''q'') (ResourceConfirm ''s'') demo_rotated = Inr (demo_rotated\<lparr>va_control := db\<rparr>)"
      "cd_version db = 5" "cd_projects db = [demo_project]" "cd_environments db = [(''p'', ''e'')]"
      "cd_resources db = [\<lparr>rr_resource = demo_resource, rr_recorded = 1\<rparr>]"
    using demo_confirmed by blast
  have l: "local_resource (va_control demo_vault) ''p'' ''e'' ''s'' = Inr ()"
    by (rule demo_vault_resource) (simp_all add: demo_vault_def demo_start_def migrate_control_def empty_control_def)
  have h: "secret_head demo_vault ''s'' = Inr None" by (simp add: secret_head_def vault_v4_def demo_vault_def head_row_def)
  have c: "sk_windows demo_secret_codec" "sk_sha demo_secret_codec x = replicate 64 (CHR ''d'')" "ac_show (sk_archive demo_secret_codec) v = ''{}''" for x v
    by (simp_all add: demo_secret_codec_def)
  have e: "encrypt demo_secret_codec (sk_encode2 demo_secret_codec \<lparr>b2_schema = 2, b2_project = ''p'', b2_environment = ''e'', b2_resource = ''s'',
      b2_version = ''v1'', b2_secret = ''pw''\<rparr>) = Inr ''pw''" by (simp add: encrypt_def demo_secret_codec_def CIPHER_BYTES_LIMIT_def)
  have f: "create_file (\<lambda>b. (b, True)) (version_name demo_secret_codec ''p'' ''e'' ''s'' ''v1'') ''pw'' ''VERSION_FILE_EXISTS_OR_CREATE_FAILED''
      ''VAULT_WRITE_INCOMPLETE_PRESERVED'' demo_vault = (demo_vault\<lparr>va_files := [(replicate 64 (CHR ''d'') @ ''.dpapi'', ''pw'')]\<rparr>, Inr ())"
    by (simp add: create_file_def version_name_def c demo_vault_def)
  have n: "version_name demo_secret_codec ''p'' ''e'' ''s'' ''v1'' = replicate 64 (CHR ''d'') @ ''.dpapi''" by (simp add: version_name_def c)
  have "write_version demo_secret_codec (\<lambda>b. (b, True)) 10 (\<lambda>n. replicate n (CHR ''t'')) (demo_call ''q'') ''x'' ''p'' ''e'' ''s'' None ''v1'' ''pw'' demo_vault
      = (demo_rotated\<lparr>va_control := db\<rparr>, Inr ''v1'')"
    unfolding write_version_def e sum.case f prod.case c n
    using demo_step demo_recorded db(1) by (simp add: f[unfolded n])
  then have "demo_rotation = (demo_rotated\<lparr>va_control := db\<rparr>, Inr ''v1'')"
    unfolding demo_rotation_def rotate_secret_def l h
    by (simp add: c reject_def SECRET_BYTES_LIMIT_def demo_vault_def)
  then show thesis
  proof (rule that)
    show "va_journal (demo_rotated\<lparr>va_control := db\<rparr>) = demo_journaled" by (simp add: demo_rotated_def)
  qed (use db(2,5) demo_vault_resource[OF db(2-5)] in \<open>simp_all add: secret_view_def\<close>)
qed

lemma demo_fresh: "fresh_vault demo_vault"
  by (simp add: fresh_vault_def demo_vault_def)

lemma demo_reached:
  assumes "demo_rotation = (st1, out)"
  shows "(secret_step demo_secret_codec)\<^sup>*\<^sup>* demo_vault st1"
  using assms rotated unfolding demo_rotation_def by blast

lemma demo_head:
  assumes "secret_view st1 = secret_view demo_rotated" "cd_version (va_control st1) = 5"
  shows "secret_head st1 ''s'' = Inr (Some (''v1'', ''active'', 1))"
  using assms by (simp add: secret_view_def secret_head_def vault_v4_def head_row_def demo_rotated_def)

theorem entered_secret_resolves_witness:
  "\<exists>st1. demo_rotation = (st1, Inr ''v1'') \<and> resolve_secret demo_secret_codec (\<lambda>_. Inr ()) st1 ''p'' ''e'' ''s'' = Inr ''pw''"
proof (rule demo_rotation_done)
  fix st1 assume r: "demo_rotation = (st1, Inr ''v1'')" "secret_view st1 = secret_view demo_rotated" "cd_version (va_control st1) = 5"
    "local_resource (va_control st1) ''p'' ''e'' ''s'' = Inr ()"
  have "resolve_secret demo_secret_codec (\<lambda>_. Inr ()) st1 ''p'' ''e'' ''s'' = Inr ''pw''"
    by (rule entered_secret_resolves[OF r(1)[unfolded demo_rotation_def] rtranclp.rtrancl_refl demo_head[OF r(2,3)] r(4) refl])
      (simp_all add: demo_secret_codec_def version_name_def)
  then show ?thesis using r(1) by blast
qed

lemma demo_revoked:
  assumes "secret_view st1 = secret_view demo_rotated" "cd_version (va_control st1) = 5" "va_journal st1 = demo_journaled"
    "cd_resources (va_control st1) = [\<lparr>rr_resource = demo_resource, rr_recorded = 1\<rparr>]"
  shows "\<exists>st2 r. revoke_secret_version 20 (\<lambda>_. ''u'') ''x'' ''s'' ''v1'' st1 = Inr (st2, r) \<and> secret_head st2 ''s'' = Inr (Some (''v1'', ''revoked'', 2))"
  using assms by (simp add: secret_view_def revoke_secret_version_def vault_v4_def demo_rotated_def insert_transition_def operations_when_def
      resource_known_def demo_resource_def run_known_def demo_journaled_def demo_vault_def secret_head_def head_row_def)

theorem revoked_version_stays_closed_witness:
  "\<exists>st1 st2 r e. revoke_secret_version 20 (\<lambda>_. ''u'') ''x'' ''s'' ''v1'' st1 = Inr (st2, r)
     \<and> resolve_secret demo_secret_codec (\<lambda>_. Inr ()) st2 ''p'' ''e'' ''s'' = Inl e"
proof (rule demo_rotation_done)
  fix st1 assume r: "demo_rotation = (st1, Inr ''v1'')" "secret_view st1 = secret_view demo_rotated" "cd_version (va_control st1) = 5"
    "va_journal st1 = demo_journaled" "cd_resources (va_control st1) = [\<lparr>rr_resource = demo_resource, rr_recorded = 1\<rparr>]"
  obtain st2 q where v: "revoke_secret_version 20 (\<lambda>_. ''u'') ''x'' ''s'' ''v1'' st1 = Inr (st2, q)"
      "secret_head st2 ''s'' = Inr (Some (''v1'', ''revoked'', 2))"
    using demo_revoked[OF r(2-5)] by blast
  from revoked_version_stays_closed[OF demo_fresh demo_reached[OF r(1)] v(1) rtranclp.rtrancl_refl] v
  show ?thesis by blast
qed

theorem secret_history_is_a_chain_witness:
  "\<exists>st h. (secret_step demo_secret_codec)\<^sup>*\<^sup>* demo_vault st \<and> head_row st ''s'' = Some h
     \<and> sh_generation h = int (length (changes_of st ''s'')) \<and> sh_version h = ''v1''"
proof (rule demo_rotation_done)
  fix st1 assume r: "demo_rotation = (st1, Inr ''v1'')" "secret_view st1 = secret_view demo_rotated"
  have h: "head_row st1 ''s'' = Some (hd (va_heads demo_rotated))" using r(2) by (simp add: secret_view_def head_row_def demo_rotated_def)
  from secret_history_is_a_chain[OF demo_fresh demo_reached[OF r(1)], of "''s''"] h demo_reached[OF r(1)]
  show ?thesis by (auto simp: demo_rotated_def)
qed

end
