(* ===== verification/Filesystem.thy ===== *)
theory Filesystem
  imports Prelude Integrations Model_Policy "HOL-Library.Word"
begin

text \<open>
  Local paths and the bounded metadata scan: \<open>workstation-platform/src/paths.rs\<close> (lexical
  admission of a Windows path, the walk over its existing components) and \<open>filesystem.rs\<close>
  (\<open>scan\<close>, a worklist traversal that reads metadata only). What the operating system answers is
  a record of functions of the tick, one tick per directory and one per directory entry, so the
  tree may change while it is read and a directory may have no last entry: the loops end because
  of the budgets of the code alone. Elapsed time is in nanoseconds.
\<close>

section \<open>What the operating system reports\<close>

datatype file_type = PlainFile | PlainDir | Symlink | SpecialFile

record metadata =
  md_type :: file_type
  md_attributes :: "32 word"
  md_len :: nat

text \<open>
  \<open>at_entry k dir i\<close> is the \<open>i\<close>-th item of the iterator over \<open>dir\<close>: no further item, an item
  that could not be read, or a name. The volume of a path is its drive type and file system name.
\<close>

record os =
  at_elapsed :: "nat \<Rightarrow> nat"
  at_metadata :: "nat \<Rightarrow> path_buf \<Rightarrow> metadata option"
  at_opens :: "nat \<Rightarrow> path_buf \<Rightarrow> bool"
  at_entry :: "nat \<Rightarrow> path_buf \<Rightarrow> nat \<Rightarrow> string option option"
  at_volume :: "string \<Rightarrow> string option"
  at_drive_type :: "string \<Rightarrow> nat"
  at_file_system :: "string \<Rightarrow> string option"

section \<open>Admission of a path\<close>

definition is_ascii_alphabetic :: "char \<Rightarrow> bool" where
  "is_ascii_alphabetic c \<longleftrightarrow> is_ascii_uppercase c \<or> is_ascii_lowercase c"

definition drive_rooted :: "string \<Rightarrow> bool" where
  "drive_rooted t \<longleftrightarrow> has_drive t \<and> is_ascii_alphabetic (hd t)"

definition backslash :: char where
  "backslash = CHR 0x5C"

definition is_verbatim :: "string \<Rightarrow> bool" where
  "is_verbatim t \<longleftrightarrow> prefix [backslash, backslash, CHR ''?'', backslash] t"

text \<open>The two names of a \<open>//server/share\<close> prefix (a device path is one whose server is a dot).\<close>

definition share_names :: "string \<Rightarrow> string list" where
  "share_names t = (case t of a # b # r \<Rightarrow>
     if is_path_sep a \<and> is_path_sep b then take 2 (split_on is_path_sep r) else [] | _ \<Rightarrow> [])"

definition is_device :: "string \<Rightarrow> bool" where
  "is_device t \<longleftrightarrow> length (share_names t) = 2 \<and> hd (share_names t) = ''.''"

definition is_unc :: "string \<Rightarrow> bool" where
  "is_unc t \<longleftrightarrow> length (share_names t) = 2 \<and> list_all (\<lambda>n. n \<noteq> []) (share_names t)"

text \<open>\<open>Path::is_absolute\<close> on Windows: a prefix, and a root that follows or is implied by it.\<close>

definition is_absolute :: "string \<Rightarrow> bool" where
  "is_absolute t \<longleftrightarrow> drive_rooted t \<or> is_verbatim t \<or> is_device t \<or> is_unc t"

text \<open>
  \<open>Path::components\<close> of an absolute path, after the prefix and the root: empty pieces and single
  dots are dropped; a verbatim path is split at backslashes alone and knows no parent component.
\<close>

definition component_names :: "string \<Rightarrow> string list" where
  "component_names t =
     (if is_verbatim t then filter (\<lambda>n. n \<noteq> []) (tl (split_char backslash (drop 4 t)))
      else filter (\<lambda>n. n \<noteq> [] \<and> n \<noteq> ''.'')
        (if drive_rooted t then split_on is_path_sep (drop 3 t)
         else drop 2 (split_on is_path_sep (drop 2 t))))"

definition validate_lexical :: "string option \<Rightarrow> unit check" where
  "validate_lexical p = (case p of None \<Rightarrow> Inl ''PATH_ENCODING_UNSUPPORTED''
     | Some t \<Rightarrow> checks
        [reject (length t > 16384 \<or> list_ex is_control (chars t) \<or> \<not> is_absolute t)
           ''ABSOLUTE_LOCAL_PATH_REQUIRED'',
         reject (\<not> is_verbatim t \<and> ''..'' \<in> set (component_names t)) ''PATH_TRAVERSAL_REJECTED'',
         reject (\<not> drive_rooted t \<or> CHR '':'' \<in> set (drop 2 t)) ''LOCAL_DRIVE_PATH_REQUIRED'',
         reject (list_ex (\<lambda>n. last n = CHR ''.'' \<or> last n = CHR '' '') (component_names t))
           ''AMBIGUOUS_WINDOWS_PATH''])"

text \<open>REPARSE_POINT, OFFLINE, RECALL_ON_OPEN and RECALL_ON_DATA_ACCESS.\<close>

definition is_redirect_or_placeholder :: "metadata \<Rightarrow> bool" where
  "is_redirect_or_placeholder m \<longleftrightarrow> md_type m = Symlink
     \<or> and (md_attributes m) (or (or 0x400 0x1000) (or 0x40000 0x400000)) \<noteq> 0"

definition path_components :: "string \<Rightarrow> path_buf" where
  "path_components t = take 2 t # [backslash] # component_names t"

fun walk_components :: "(path_buf \<Rightarrow> metadata option) \<Rightarrow> path_buf \<Rightarrow> path_buf \<Rightarrow> unit check" where
  "walk_components md cur [] = Inr ()"
| "walk_components md cur (c # cs) = (case md (cur @ [c]) of
     None \<Rightarrow> Inl ''PATH_UNAVAILABLE''
   | Some m \<Rightarrow> if is_redirect_or_placeholder m then Inl ''PATH_REDIRECTION_BLOCKED''
       else walk_components md (cur @ [c]) cs)"

definition validate_local_ntfs :: "os \<Rightarrow> string \<Rightarrow> unit check" where
  "validate_local_ntfs W t = bind_check (ok_or (at_volume W t) ''VOLUME_UNAVAILABLE'') (\<lambda>v. checks
     [reject (at_drive_type W v \<noteq> 3) ''FIXED_LOCAL_DISK_REQUIRED'',
      reject (at_file_system W v \<noteq> Some ''NTFS'') ''NTFS_REQUIRED_FOR_R0''])"

definition local_existing :: "os \<Rightarrow> string option \<Rightarrow> unit check" where
  "local_existing W p = bind_check (validate_lexical p) (\<lambda>_. case p of None \<Rightarrow> Inl []
     | Some t \<Rightarrow> bind_check (walk_components (at_metadata W 0) [take 2 t] (tl (path_components t)))
         (\<lambda>_. validate_local_ntfs W t))"

definition directory :: "os \<Rightarrow> string option \<Rightarrow> unit check" where
  "directory W p = bind_check (local_existing W p) (\<lambda>_.
     case at_metadata W 0 (path_components (the p)) of None \<Rightarrow> Inl ''PATH_UNAVAILABLE''
     | Some m \<Rightarrow> reject (md_type m \<noteq> PlainDir) ''DIRECTORY_REQUIRED'')"

definition regular_file :: "os \<Rightarrow> string option \<Rightarrow> unit check" where
  "regular_file W p = bind_check (local_existing W p) (\<lambda>_.
     case at_metadata W 0 (path_components (the p)) of None \<Rightarrow> Inl ''FILE_METADATA_UNAVAILABLE''
     | Some m \<Rightarrow> reject (md_type m \<noteq> PlainFile) ''REGULAR_FILE_REQUIRED'')"

section \<open>The scan\<close>

definition unavailable :: "root \<Rightarrow> string \<Rightarrow> coverage \<Rightarrow> string \<Rightarrow> storage_observation" where
  "unavailable r now c code = \<lparr>so_root = r, so_observed_at = now, so_coverage = c,
     so_logical_entry_bytes = None, so_allocated_bytes = None, so_files = 0, so_directories = 0,
     so_visited_entries = 0, so_skipped_links_or_placeholders = 0, so_io_errors = 0,
     so_notes = [code], so_delta_since_previous_complete_bytes = None\<rparr>"

definition note_coverage :: "coverage \<Rightarrow> string \<Rightarrow> storage_observation \<Rightarrow> storage_observation" where
  "note_coverage c n s = s\<lparr>so_coverage := c, so_notes := so_notes s @ [n]\<rparr>"

definition skip_entry :: "storage_observation \<Rightarrow> storage_observation" where
  "skip_entry s = s\<lparr>so_coverage := Partial,
     so_skipped_links_or_placeholders := so_skipped_links_or_placeholders s + 1\<rparr>"

definition io_failure :: "storage_observation \<Rightarrow> storage_observation" where
  "io_failure s = s\<lparr>so_coverage := Partial, so_io_errors := so_io_errors s + 1\<rparr>"

text \<open>The stack of directories still to read, the next one first; \<open>Halt\<close> is \<open>break 'walk\<close>.\<close>

type_synonym pending = "(path_buf \<times> nat) list"

datatype flow = Halt storage_observation nat | Proceed storage_observation pending nat

definition overdue :: "os \<Rightarrow> scan_budget \<Rightarrow> nat \<Rightarrow> bool" where
  "overdue W b k \<longleftrightarrow> at_elapsed W k \<ge> deadline_ms b * 1000000"

definition visit_known ::
  "scan_budget \<Rightarrow> path_buf \<Rightarrow> nat \<Rightarrow> metadata \<Rightarrow> nat \<Rightarrow> storage_observation \<Rightarrow> pending \<Rightarrow> flow" where
  "visit_known b path depth m k s pend =
     (if is_redirect_or_placeholder m then Proceed (skip_entry s) pend (Suc k)
      else case md_type m of
        PlainFile \<Rightarrow> (case so_logical_entry_bytes s of
            Some v \<Rightarrow> if v + md_len m < 2 ^ 64
              then Proceed (s\<lparr>so_logical_entry_bytes := Some (v + md_len m), so_files := so_files s + 1\<rparr>)
                     pend (Suc k)
              else Halt (note_coverage Partial ''BYTE_OVERFLOW'' (s\<lparr>so_logical_entry_bytes := None\<rparr>)) (Suc k)
          | None \<Rightarrow> Halt (note_coverage Partial ''BYTE_OVERFLOW'' (s\<lparr>so_logical_entry_bytes := None\<rparr>)) (Suc k))
      | PlainDir \<Rightarrow>
          if depth \<ge> max_depth b then Proceed (note_coverage Partial ''DEPTH_BUDGET'' s) pend (Suc k)
          else if length pend \<ge> 2048
            then Proceed (note_coverage Partial ''PENDING_DIRECTORY_BUDGET'' s) pend (Suc k)
          else Proceed s ((path, depth + 1) # pend) (Suc k)
      | _ \<Rightarrow> Proceed (skip_entry s) pend (Suc k))"

definition visit_entry ::
  "os \<Rightarrow> scan_budget \<Rightarrow> path_buf \<Rightarrow> nat \<Rightarrow> string option \<Rightarrow> nat \<Rightarrow> storage_observation \<Rightarrow> pending \<Rightarrow> flow"
where
  "visit_entry W b dir depth e k s pend =
     (if overdue W b k then Halt (note_coverage TimedOut ''TIME_BUDGET'' s) (Suc k)
      else if so_visited_entries s \<ge> max_entries b then Halt (note_coverage Partial ''ENTRY_BUDGET'' s) (Suc k)
      else let s = s\<lparr>so_visited_entries := so_visited_entries s + 1\<rparr>
        in case e of None \<Rightarrow> Proceed (io_failure s) pend (Suc k)
         | Some name \<Rightarrow> (case at_metadata W k (dir @ [name]) of
             None \<Rightarrow> Proceed (io_failure s) pend (Suc k)
           | Some m \<Rightarrow> visit_known b (dir @ [name]) depth m k s pend))"

lemma visit_known_moves:
  "visit_known b path depth m k s pend = Proceed s' pend' k' \<Longrightarrow>
   so_visited_entries s' = so_visited_entries s \<and> length pend' \<le> Suc (length pend) \<and> k' = Suc k"
  by (auto simp: visit_known_def skip_entry_def note_coverage_def
      split: if_splits file_type.splits option.splits)

lemma visit_entry_moves:
  assumes "visit_entry W b dir depth e k s pend = Proceed s' pend' k'"
  shows "so_visited_entries s < max_entries b \<and> so_visited_entries s' = Suc (so_visited_entries s)
     \<and> length pend' \<le> Suc (length pend) \<and> k' = Suc k"
  using assms visit_known_moves[of b _ depth _ k _ pend s' pend' k']
  by (auto simp: visit_entry_def Let_def io_failure_def split: if_splits option.splits)

text \<open>The loop over the items of one directory.\<close>

function scan_entries ::
  "os \<Rightarrow> scan_budget \<Rightarrow> path_buf \<Rightarrow> nat \<Rightarrow> nat \<Rightarrow> nat \<Rightarrow> nat \<Rightarrow> storage_observation \<Rightarrow> pending \<Rightarrow> flow"
where
  "scan_entries W b dir depth h i k s pend =
     (case at_entry W h dir i of None \<Rightarrow> Proceed s pend k
      | Some e \<Rightarrow> (case visit_entry W b dir depth e k s pend of
          Halt s' k' \<Rightarrow> Halt s' k'
        | Proceed s' pend' k' \<Rightarrow> scan_entries W b dir depth h (Suc i) k' s' pend'))"
  by pat_completeness auto
termination
  by (relation "measure (\<lambda>(W, b, dir, depth, h, i, k, s, pend). max_entries b - so_visited_entries s)")
     (auto dest!: visit_entry_moves)

declare scan_entries.simps [simp del]

text \<open>The loop over the pending directories: what a popped directory does, then the loop.\<close>

definition visit_directory ::
  "os \<Rightarrow> scan_budget \<Rightarrow> path_buf \<Rightarrow> nat \<Rightarrow> nat \<Rightarrow> storage_observation \<Rightarrow> pending \<Rightarrow> flow" where
  "visit_directory W b dir depth k s pend =
     (if overdue W b k then Halt (note_coverage TimedOut ''TIME_BUDGET'' s) (Suc k)
      else case at_metadata W k dir of None \<Rightarrow> Proceed (skip_entry s) pend (Suc k)
       | Some m \<Rightarrow>
           if is_redirect_or_placeholder m \<or> md_type m \<noteq> PlainDir then Proceed (skip_entry s) pend (Suc k)
           else if \<not> at_opens W k dir then Proceed (io_failure s) pend (Suc k)
           else scan_entries W b dir depth k 0 (Suc k) (s\<lparr>so_directories := so_directories s + 1\<rparr>) pend)"

lemma scan_entries_moves:
  "scan_entries W b dir depth h i k s pend = Proceed s' pend' k' \<Longrightarrow>
   so_visited_entries s \<le> so_visited_entries s'
   \<and> max_entries b - so_visited_entries s' + length pend' \<le> max_entries b - so_visited_entries s + length pend
   \<and> k' + so_visited_entries s = k + so_visited_entries s'"
proof (induction W b dir depth h i k s pend rule: scan_entries.induct)
  case (1 W b dir depth h i k s pend)
  show ?case
  proof (cases "at_entry W h dir i")
    case None
    then show ?thesis using 1 by (simp add: scan_entries.simps)
  next
    case (Some e)
    show ?thesis
    proof (cases "visit_entry W b dir depth e k s pend")
      case (Halt s1 k1)
      then show ?thesis using 1 Some by (simp add: scan_entries.simps)
    next
      case (Proceed s1 pend1 k1)
      then show ?thesis
        using 1(1)[OF Some Proceed] 1(2) Some visit_entry_moves[OF Proceed]
        by (auto simp: scan_entries.simps[of W b dir depth h i k s pend])
    qed
  qed
qed

lemma visit_directory_moves:
  assumes "visit_directory W b dir depth k s pend = Proceed s' pend' k'"
  shows "so_visited_entries s \<le> so_visited_entries s'
    \<and> max_entries b - so_visited_entries s' + length pend' \<le> max_entries b - so_visited_entries s + length pend
    \<and> k' + so_visited_entries s = Suc k + so_visited_entries s'"
  using assms scan_entries_moves[of W b dir depth k 0 "Suc k"
      "s\<lparr>so_directories := so_directories s + 1\<rparr>" pend s' pend' k']
  by (auto simp: visit_directory_def skip_entry_def io_failure_def split: if_splits option.splits)

function scan_loop ::
  "os \<Rightarrow> scan_budget \<Rightarrow> nat \<Rightarrow> storage_observation \<Rightarrow> pending \<Rightarrow> storage_observation \<times> nat" where
  "scan_loop W b k s [] = (s, k)"
| "scan_loop W b k s ((dir, depth) # pend) = (case visit_directory W b dir depth k s pend of
     Halt s' k' \<Rightarrow> (s', k')
   | Proceed s' pend' k' \<Rightarrow> scan_loop W b k' s' pend')"
  by pat_completeness auto
termination
  by (relation "measure (\<lambda>(W, b, k, s, pend). max_entries b - so_visited_entries s + length pend)")
     (auto dest!: visit_directory_moves)

definition effective_budget :: "scan_budget \<Rightarrow> scan_budget" where
  "effective_budget b = \<lparr>deadline_ms = min (deadline_ms b) 120000, max_entries = min (max_entries b) 100000,
     max_depth = min (max_depth b) 64\<rparr>"

definition tidy_notes :: "storage_observation \<Rightarrow> storage_observation" where
  "tidy_notes s = s\<lparr>so_notes := remdups_adj (sort (so_notes s))\<rparr>"

definition scan_start :: "root \<Rightarrow> string \<Rightarrow> storage_observation" where
  "scan_start r now = (unavailable r now Complete ''ENTRY_LOGICAL_BYTES_NOT_ALLOCATION'')
     \<lparr>so_logical_entry_bytes := Some 0\<rparr>"

text \<open>\<open>t\<close> is the text the root's path was given as; the ticks spent are returned beside the result.\<close>

definition scan :: "os \<Rightarrow> string \<Rightarrow> string option \<Rightarrow> root \<Rightarrow> scan_budget \<Rightarrow> storage_observation \<times> nat" where
  "scan W now t r b = (case directory W t of
     Inl e \<Rightarrow> (unavailable r now Denied ''ROOT_UNAVAILABLE_OR_REDIRECTED'', 0)
   | Inr _ \<Rightarrow> (case scan_loop W (effective_budget b) 0 (scan_start r now) [(root_path r, 0)] of
       (s, k) \<Rightarrow> (tidy_notes s, k)))"


section \<open>The scan ends within its budget\<close>

text \<open>Counters of an observation that a step of the scan moves.\<close>

definition within :: "nat \<Rightarrow> storage_observation \<Rightarrow> storage_observation \<Rightarrow> bool" where
  "within n s s' \<longleftrightarrow> so_visited_entries s \<le> so_visited_entries s'
     \<and> so_visited_entries s' \<le> max n (so_visited_entries s)
     \<and> so_files s' + so_visited_entries s \<le> so_files s + so_visited_entries s'"

lemma within_refl [simp]: "within n s s"
  by (simp add: within_def)

lemma within_trans: "within n s s' \<Longrightarrow> within n s' s'' \<Longrightarrow> within n s s''"
  by (auto simp: within_def)

fun flow_result :: "flow \<Rightarrow> storage_observation" where
  "flow_result (Halt s k) = s"
| "flow_result (Proceed s pend k) = s"

fun flow_tick :: "flow \<Rightarrow> nat" where
  "flow_tick (Halt s k) = k"
| "flow_tick (Proceed s pend k) = k"

lemma visit_known_within:
  "so_visited_entries (flow_result (visit_known b path depth m k s pend)) = so_visited_entries s
   \<and> so_files (flow_result (visit_known b path depth m k s pend)) \<le> Suc (so_files s)
   \<and> flow_tick (visit_known b path depth m k s pend) = Suc k"
  by (auto simp: visit_known_def skip_entry_def note_coverage_def split: file_type.split option.split)

lemma visit_entry_within:
  "within (max_entries b) s (flow_result (visit_entry W b dir depth e k s pend))
   \<and> flow_tick (visit_entry W b dir depth e k s pend) = Suc k"
  using visit_known_within[of b _ depth _ k "s\<lparr>so_visited_entries := so_visited_entries s + 1\<rparr>" pend]
  by (auto simp: visit_entry_def Let_def io_failure_def note_coverage_def within_def split: option.split)

lemma scan_entries_within:
  "within (max_entries b) s (flow_result (scan_entries W b dir depth h i k s pend))
   \<and> flow_tick (scan_entries W b dir depth h i k s pend) + so_visited_entries s
       \<le> Suc k + so_visited_entries (flow_result (scan_entries W b dir depth h i k s pend))"
proof (induction W b dir depth h i k s pend rule: scan_entries.induct)
  case (1 W b dir depth h i k s pend)
  show ?case
  proof (cases "at_entry W h dir i")
    case None
    then show ?thesis by (simp add: scan_entries.simps)
  next
    case (Some e)
    show ?thesis
    proof (cases "visit_entry W b dir depth e k s pend")
      case (Halt s1 k1)
      then show ?thesis
        using Some visit_entry_within[of b s W dir depth e k pend]
        by (auto simp: scan_entries.simps within_def)
    next
      case (Proceed s1 pend1 k1)
      have w: "within (max_entries b) s s1" "so_visited_entries s1 = Suc (so_visited_entries s)" "k1 = Suc k"
        using visit_entry_within[of b s W dir depth e k pend] visit_entry_moves[OF Proceed] Proceed by auto
      have eq: "scan_entries W b dir depth h i k s pend = scan_entries W b dir depth h (Suc i) k1 s1 pend1"
        using Some Proceed by (simp add: scan_entries.simps[of W b dir depth h i k s pend])
      show ?thesis
        using 1[OF Some Proceed] w within_trans[OF w(1)] by (simp add: eq)
    qed
  qed
qed

lemma visit_directory_within:
  "within (max_entries b) s (flow_result (visit_directory W b dir depth k s pend))
   \<and> flow_tick (visit_directory W b dir depth k s pend) + so_visited_entries s
       \<le> Suc (Suc k) + so_visited_entries (flow_result (visit_directory W b dir depth k s pend))"
  using scan_entries_within[of b "s\<lparr>so_directories := so_directories s + 1\<rparr>" W dir depth k 0 "Suc k" pend]
  by (auto simp: visit_directory_def skip_entry_def io_failure_def note_coverage_def within_def
      split: option.split)

lemma scan_loop_within:
  "scan_loop W b k s pend = (s', k') \<Longrightarrow> within (max_entries b) s s'
     \<and> k' \<le> Suc k + length pend + 2 * (max_entries b - so_visited_entries s)"
proof (induction W b k s pend rule: scan_loop.induct)
  case (2 W b k s dir depth pend)
  show ?case
  proof (cases "visit_directory W b dir depth k s pend")
    case (Halt s1 k1)
    then show ?thesis
      using 2(2) visit_directory_within[of b s W dir depth k pend] by (auto simp: within_def)
  next
    case (Proceed s1 pend1 k1)
    have w: "within (max_entries b) s s1"
      using visit_directory_within[of b s W dir depth k pend] Proceed by auto
    have "within (max_entries b) s1 s' \<and> k' \<le> Suc k1 + length pend1 + 2 * (max_entries b - so_visited_entries s1)"
      using 2(1)[OF Proceed] 2(2) Proceed by simp
    moreover have "so_visited_entries s \<le> so_visited_entries s1"
        "so_visited_entries s1 \<le> max (max_entries b) (so_visited_entries s)"
      using w by (simp_all add: within_def)
    ultimately show ?thesis
      using within_trans[OF w, of s'] visit_directory_moves[OF Proceed]
      by (cases "so_visited_entries s \<le> max_entries b")
         (simp_all add: max_def diff_mult_distrib2, linarith?)
  qed
qed simp

text \<open>
  C8: The metadata scan returns for every behaviour of the file system - trees that change or grow
  while they are read, directories with endlessly many entries, cycles - after at most two steps
  per entry of the effective budget, which is capped at 100,000 entries whatever was asked for. It
  never counts more entries than that budget nor more files than entries.
\<close>

theorem scan_ends_within_budget:
  "snd (scan W now t r b) \<le> 2 * min (max_entries b) 100000 + 2
   \<and> so_visited_entries (fst (scan W now t r b)) \<le> min (max_entries b) 100000
   \<and> so_files (fst (scan W now t r b)) \<le> so_visited_entries (fst (scan W now t r b))"
proof (cases "directory W t")
  case (Inl e)
  then show ?thesis by (simp add: scan_def unavailable_def)
next
  case (Inr u)
  obtain s k where l: "scan_loop W (effective_budget b) 0 (scan_start r now) [(root_path r, 0)] = (s, k)"
    by fastforce
  show ?thesis
    using scan_loop_within[OF l] Inr l
    by (auto simp: scan_def tidy_notes_def within_def scan_start_def unavailable_def effective_budget_def)
qed


section \<open>What the scan reports of a tree that stands still\<close>

text \<open>
  A directory tree: plain files with their lengths, directories that can be listed, redirections
  and placeholders, special files, entries whose metadata cannot be read, and directories that
  cannot be opened. The names of a directory are distinct.
\<close>

datatype node = File nat | Dir "(string \<times> node) list" | Redirect | Special | NoMetadata | Sealed

fun node_at :: "node \<Rightarrow> path_buf \<Rightarrow> node option" where
  "node_at n [] = Some n"
| "node_at n (x # p) = (case n of Dir es \<Rightarrow>
     (case map_of es x of None \<Rightarrow> None | Some c \<Rightarrow> node_at c p) | _ \<Rightarrow> None)"

fun well_named :: "node \<Rightarrow> bool" where
  "well_named (Dir es) \<longleftrightarrow> distinct (map fst es) \<and> list_all (\<lambda>e. well_named (snd e)) es"
| "well_named _ \<longleftrightarrow> True"

text \<open>A sum over the nodes of a tree, and the quantities the observation reports.\<close>

fun weigh :: "(node \<Rightarrow> nat) \<Rightarrow> node \<Rightarrow> nat" where
  "weigh f (Dir es) = f (Dir es) + sum_list (map (\<lambda>e. weigh f (snd e)) es)"
| "weigh f n = f n"

fun bytes_of :: "node \<Rightarrow> nat" where "bytes_of (File n) = n" | "bytes_of _ = 0"
fun file_of :: "node \<Rightarrow> nat" where "file_of (File _) = 1" | "file_of _ = 0"
fun dir_of :: "node \<Rightarrow> nat" where "dir_of (Dir _) = 1" | "dir_of _ = 0"
fun odd_of :: "node \<Rightarrow> nat" where "odd_of (File _) = 0" | "odd_of (Dir _) = 0" | "odd_of _ = 1"

fun node_metadata :: "node \<Rightarrow> metadata option" where
  "node_metadata (File n) = Some \<lparr>md_type = PlainFile, md_attributes = 32, md_len = n\<rparr>"
| "node_metadata (Dir _) = Some \<lparr>md_type = PlainDir, md_attributes = 16, md_len = 0\<rparr>"
| "node_metadata Redirect = Some \<lparr>md_type = PlainDir, md_attributes = 0x410, md_len = 0\<rparr>"
| "node_metadata Special = Some \<lparr>md_type = SpecialFile, md_attributes = 0, md_len = 0\<rparr>"
| "node_metadata NoMetadata = None"
| "node_metadata Sealed = Some \<lparr>md_type = PlainDir, md_attributes = 16, md_len = 0\<rparr>"

text \<open>The operating system serves the tree below \<open>base\<close>, unchanged, at every tick.\<close>

definition serves :: "os \<Rightarrow> path_buf \<Rightarrow> node \<Rightarrow> bool" where
  "serves W base t \<longleftrightarrow> (\<forall>k p n. node_at t p = Some n \<longrightarrow>
     at_metadata W k (base @ p) = node_metadata n
     \<and> at_opens W k (base @ p) = (\<exists>es. n = Dir es)
     \<and> (\<forall>es i. n = Dir es \<longrightarrow>
          at_entry W k (base @ p) i = (if i < length es then Some (Some (fst (es ! i))) else None)))"

lemma servesD:
  assumes "serves W base t" "node_at t p = Some n"
  shows "at_metadata W k (base @ p) = node_metadata n" "at_opens W k (base @ p) = (\<exists>es. n = Dir es)"
    "n = Dir es \<Longrightarrow> at_entry W k (base @ p) i = (if i < length es then Some (Some (fst (es ! i))) else None)"
  using assms unfolding serves_def by blast+

lemma redirect_attributes:
  "is_redirect_or_placeholder \<lparr>md_type = PlainFile, md_attributes = 32, md_len = n\<rparr> = False"
  "is_redirect_or_placeholder \<lparr>md_type = PlainDir, md_attributes = 16, md_len = n\<rparr> = False"
  "is_redirect_or_placeholder \<lparr>md_type = PlainDir, md_attributes = 0x410, md_len = n\<rparr> = True"
  "is_redirect_or_placeholder \<lparr>md_type = SpecialFile, md_attributes = 0, md_len = n\<rparr> = False"
  by (simp_all add: is_redirect_or_placeholder_def)

lemma node_at_append:
  "node_at t p = Some n \<Longrightarrow> node_at t (p @ q) = node_at n q"
proof (induction p arbitrary: t)
  case (Cons x p)
  then show ?case by (cases t) (auto split: option.splits)
qed simp

lemma well_named_at: "well_named t \<Longrightarrow> node_at t p = Some n \<Longrightarrow> well_named n"
proof (induction p arbitrary: t)
  case (Cons x p)
  then show ?case
    by (cases t) (auto split: option.splits simp: list_all_iff dest!: map_of_SomeD)
qed simp

lemma node_at_child:
  assumes "node_at t p = Some (Dir es)" "well_named (Dir es)" "i < length es"
  shows "node_at t (p @ [fst (es ! i)]) = Some (snd (es ! i))"
proof -
  have "map_of es (fst (es ! i)) = Some (snd (es ! i))"
    using assms by (simp add: map_of_eq_Some_iff)
  then show ?thesis using node_at_append[OF assms(1)] by simp
qed

text \<open>
  A counter of the observation against a quantity of the tree. It never exceeds the quantity by
  what is still ahead, and while the coverage is complete it accounts for it exactly.
\<close>

definition balanced :: "(storage_observation \<Rightarrow> nat) \<Rightarrow> nat \<Rightarrow> storage_observation \<Rightarrow> nat \<Rightarrow> bool" where
  "balanced count T s ahead \<longleftrightarrow> (so_logical_entry_bytes s = None \<longrightarrow> so_coverage s \<noteq> Complete)
     \<and> (so_logical_entry_bytes s \<noteq> None \<longrightarrow> count s + ahead \<le> T)
     \<and> (so_coverage s = Complete \<longrightarrow> count s + ahead = T)"

lemma balanced_less:
  assumes "balanced count T s r" "so_coverage s' \<noteq> Complete" "count s' \<le> count s" "r' \<le> r"
    "so_logical_entry_bytes s' = None \<or> so_logical_entry_bytes s' = so_logical_entry_bytes s"
  shows "balanced count T s' r'"
  using assms by (auto simp: balanced_def)

definition ahead :: "(node \<Rightarrow> nat) \<Rightarrow> path_buf \<Rightarrow> node \<Rightarrow> pending \<Rightarrow> nat" where
  "ahead f base t pend = sum_list (map (\<lambda>(p, d). weigh f (the (node_at t (drop (length base) p)))) pend)"

definition pending_ok :: "path_buf \<Rightarrow> node \<Rightarrow> pending \<Rightarrow> bool" where
  "pending_ok base t pend \<longleftrightarrow> (\<forall>(p, d) \<in> set pend. \<exists>q n. p = base @ q \<and> node_at t q = Some n)"

lemma ahead_simps [simp]:
  "ahead f base t [] = 0"
  "node_at t q = Some n \<Longrightarrow> ahead f base t ((base @ q, d) # pend) = weigh f n + ahead f base t pend"
  by (simp_all add: ahead_def)

lemma pending_ok_simps [simp]:
  "pending_ok base t []"
  "pending_ok base t ((p, d) # pend) \<longleftrightarrow> (\<exists>q n. p = base @ q \<and> node_at t q = Some n) \<and> pending_ok base t pend"
  by (auto simp: pending_ok_def)

text \<open>What a flow leaves behind: a balance, with the directories still pending ahead of it.\<close>

fun flow_balanced ::
  "(node \<Rightarrow> nat) \<Rightarrow> (storage_observation \<Rightarrow> nat) \<Rightarrow> path_buf \<Rightarrow> node \<Rightarrow> nat \<Rightarrow> flow \<Rightarrow> bool" where
  "flow_balanced f count base t r (Halt s k) \<longleftrightarrow> balanced count (weigh f t) s 0"
| "flow_balanced f count base t r (Proceed s pend k) \<longleftrightarrow>
     pending_ok base t pend \<and> balanced count (weigh f t) s (r + ahead f base t pend)"

text \<open>The laws of a counter: which steps of the scan move it, and by what.\<close>

locale scan_counter =
  fixes weight :: "node \<Rightarrow> nat" and count :: "storage_observation \<Rightarrow> nat"
  assumes note_keeps: "count (note_coverage c m s) = count s"
    and overflow_keeps: "count (note_coverage c m (s\<lparr>so_logical_entry_bytes := None\<rparr>)) \<le> count s"
    and skip_keeps: "count (skip_entry s) = count s"
    and failure_keeps: "count (io_failure s) = count s"
    and visit_keeps: "count (s\<lparr>so_visited_entries := v\<rparr>) = count s"
    and file_counts: "so_logical_entry_bytes s = Some v \<Longrightarrow>
       count (s\<lparr>so_logical_entry_bytes := Some (v + n), so_files := so_files s + 1\<rparr>) = count s + weight (File n)"
    and dir_counts: "count (s\<lparr>so_directories := so_directories s + 1\<rparr>) = count s + weight (Dir es)"
begin

lemma skipping:
  assumes "balanced count T s r" "r' \<le> r"
  shows "balanced count T (skip_entry s) r'" "balanced count T (io_failure s) r'"
    "c \<noteq> Complete \<Longrightarrow> balanced count T (note_coverage c m s) r'"
    "balanced count T (note_coverage Partial m (s\<lparr>so_logical_entry_bytes := None\<rparr>)) r'"
  using assms(2) note_keeps[of c m s] overflow_keeps[of Partial m s] skip_keeps[of s] failure_keeps[of s]
  by (auto intro!: balanced_less[OF assms(1)] simp: skip_entry_def io_failure_def note_coverage_def)

lemma visit_known_balanced:
  assumes "node_at t (q @ [x]) = Some n" "node_metadata n = Some m"
    and "balanced count (weigh weight t) s (weigh weight n + r + ahead weight base t pend)" "pending_ok base t pend"
  shows "flow_balanced weight count base t r (visit_known b (base @ q @ [x]) depth m k s pend)"
proof -
  note sk = skipping[OF assms(3)]
  have plain_dir: ?thesis if m: "m = \<lparr>md_type = PlainDir, md_attributes = 16, md_len = 0\<rparr>"
  proof -
    have "balanced count (weigh weight t) s
        (r + ahead weight base t ((base @ q @ [x], depth + 1) # pend))"
      using assms(1,3) by (simp add: ac_simps)
    then show ?thesis
      using assms(1,4) sk(3)[of "r + ahead weight base t pend" Partial]
      by (simp add: m visit_known_def redirect_attributes)
  qed
  show ?thesis
  proof (cases n)
    case (File len)
    have step: "balanced count (weigh weight t)
        (s\<lparr>so_logical_entry_bytes := Some (v + len), so_files := so_files s + 1\<rparr>) (r + ahead weight base t pend)"
      if "so_logical_entry_bytes s = Some v" for v
      using assms(3) file_counts[OF that, of len] that File by (auto simp: balanced_def)
    have m: "m = \<lparr>md_type = PlainFile, md_attributes = 32, md_len = len\<rparr>"
      using assms(2) File by simp
    show ?thesis
    proof (cases "so_logical_entry_bytes s")
      case None
      then show ?thesis using sk(4)[of 0] by (simp add: m visit_known_def redirect_attributes)
    next
      case (Some v)
      then show ?thesis
        using sk(4)[of 0] step[OF Some] assms(4) by (simp add: m visit_known_def redirect_attributes)
    qed
  next
    case (Dir es)
    then have m: "m = \<lparr>md_type = PlainDir, md_attributes = 16, md_len = 0\<rparr>"
      using assms(2) by simp
    show ?thesis by (rule plain_dir[OF m])
  next
    case Sealed
    then have m: "m = \<lparr>md_type = PlainDir, md_attributes = 16, md_len = 0\<rparr>"
      using assms(2) by simp
    show ?thesis by (rule plain_dir[OF m])
  next
    case Redirect
    then show ?thesis using assms(2,4) sk(1)
      by (auto simp: visit_known_def redirect_attributes)
  next
    case Special
    then show ?thesis using assms(2,4) sk(1)
      by (auto simp: visit_known_def redirect_attributes)
  next
    case NoMetadata
    then show ?thesis using assms(2) by simp
  qed
qed

lemma visit_entry_balanced:
  assumes "serves W base t" "node_at t (q @ [x]) = Some n"
    and "balanced count (weigh weight t) s (weigh weight n + r + ahead weight base t pend)" "pending_ok base t pend"
  shows "flow_balanced weight count base t r (visit_entry W b (base @ q) depth (Some x) k s pend)"
proof -
  have v: "balanced count (weigh weight t) (s\<lparr>so_visited_entries := v\<rparr>)
      (weigh weight n + r + ahead weight base t pend)" for v
    using assms(3) visit_keeps by (simp add: balanced_def)
  show ?thesis
  proof (cases "node_metadata n")
    case None
    then show ?thesis
      using assms(4) servesD(1)[OF assms(1,2), of k] skipping(3)[OF assms(3), of 0]
        skipping(2)[OF v, of "r + ahead weight base t pend"]
      by (simp add: visit_entry_def Let_def)
  next
    case (Some m)
    then show ?thesis
      using servesD(1)[OF assms(1,2), of k] skipping(3)[OF assms(3), of 0]
        visit_known_balanced[OF assms(2) Some v assms(4)]
      by (simp add: visit_entry_def Let_def)
  qed
qed

lemma scan_entries_balanced:
  assumes "serves W base t" "node_at t q = Some (Dir es)" "well_named (Dir es)"
    and "balanced count (weigh weight t) s
      (sum_list (map (\<lambda>e. weigh weight (snd e)) (drop i es)) + ahead weight base t pend)" "pending_ok base t pend"
  shows "flow_balanced weight count base t 0 (scan_entries W b (base @ q) depth h i k s pend)"
  using assms
proof (induction W b "base @ q" depth h i k s pend rule: scan_entries.induct)
  case (1 W b depth h i k s pend)
  let ?run = "scan_entries W b (base @ q) depth h"
  show ?case
  proof (cases "i < length es")
    case False
    then have "?run i k s pend = Proceed s pend k"
      using servesD(3)[OF 1(2,3) refl, of h i] by (simp add: scan_entries.simps)
    then show ?thesis using 1(5,6) False by simp
  next
    case True
    define e where "e = fst (es ! i)"
    define r where "r = sum_list (map (\<lambda>e. weigh weight (snd e)) (drop (Suc i) es))"
    have e: "at_entry W h (base @ q) i = Some (Some e)"
      using servesD(3)[OF 1(2,3) refl, of h i] True by (simp add: e_def)
    have f: "flow_balanced weight count base t r (visit_entry W b (base @ q) depth (Some e) k s pend)"
      by (rule visit_entry_balanced[OF 1(2) node_at_child[OF 1(3,4) True, folded e_def] _ 1(6)])
         (use 1(5) True in \<open>simp add: r_def Cons_nth_drop_Suc[symmetric] ac_simps\<close>)
    show ?thesis
    proof (cases "visit_entry W b (base @ q) depth (Some e) k s pend")
      case (Halt s' k')
      then show ?thesis using e f by (simp add: scan_entries.simps)
    next
      case (Proceed s' pend' k')
      then have eq: "?run i k s pend = ?run (Suc i) k' s' pend'"
        using e by (simp add: scan_entries.simps[of W b "base @ q" depth h i])
      show ?thesis
        unfolding eq using 1(1)[OF e Proceed 1(2-4)] f Proceed by (simp add: r_def)
    qed
  qed
qed

lemma visit_directory_balanced:
  assumes "serves W base t" "well_named t" "node_at t q = Some n"
    and "balanced count (weigh weight t) s (weigh weight n + ahead weight base t pend)" "pending_ok base t pend"
  shows "flow_balanced weight count base t 0 (visit_directory W b (base @ q) depth k s pend)"
proof -
  note sk = skipping[OF assms(4)]
  have stop: "balanced count (weigh weight t) (note_coverage TimedOut ''TIME_BUDGET'' s) 0"
    by (rule sk(3)) simp_all
  note md = servesD(1,2)[OF assms(1,3), of k]
  show ?thesis
  proof (cases "\<exists>es. n = Dir es")
    case False
    then show ?thesis
      using stop md sk(1,2)[of "ahead weight base t pend"] assms(5)
      by (cases n) (auto simp: visit_directory_def redirect_attributes)
  next
    case True
    then obtain es where es: "n = Dir es" by blast
    have "balanced count (weigh weight t) (s\<lparr>so_directories := so_directories s + 1\<rparr>)
        (sum_list (map (\<lambda>e. weigh weight (snd e)) (drop 0 es)) + ahead weight base t pend)"
      using assms(4) dir_counts[of s es] es by (auto simp: balanced_def)
    from scan_entries_balanced[OF assms(1) assms(3)[unfolded es] _ this assms(5)]
    show ?thesis
      using stop md well_named_at[OF assms(2,3)] es
      by (auto simp: visit_directory_def redirect_attributes)
  qed
qed

lemma scan_loop_balanced:
  assumes "serves W base t" "well_named t"
    and "balanced count (weigh weight t) s (ahead weight base t pend)" "pending_ok base t pend"
    and "scan_loop W b k s pend = (s', k')"
  shows "balanced count (weigh weight t) s' 0"
  using assms
proof (induction W b k s pend rule: scan_loop.induct)
  case (2 W b k s dir depth pend)
  obtain q n where q: "dir = base @ q" "node_at t q = Some n" and ok: "pending_ok base t pend"
    using 2(5) by auto
  have f: "flow_balanced weight count base t 0 (visit_directory W b dir depth k s pend)"
    unfolding q(1) using 2(4) q by (intro visit_directory_balanced[OF 2(2,3) q(2) _ ok]) simp
  show ?case
  proof (cases "visit_directory W b dir depth k s pend")
    case (Halt s1 k1)
    then show ?thesis using f 2(6) by simp
  next
    case (Proceed s1 pend1 k1)
    then show ?thesis using f 2(6) by (intro 2(1)[OF Proceed 2(2,3)]) simp_all
  qed
qed simp

lemma scan_balanced:
  assumes "serves W (root_path r) t" "well_named t" "directory W p = Inr ()"
    and "count (scan_start r now) = 0" "\<And>s. count (tidy_notes s) = count s"
  shows "balanced count (weigh weight t) (fst (scan W now p r b)) 0"
proof -
  obtain s k where l: "scan_loop W (effective_budget b) 0 (scan_start r now) [(root_path r, 0)] = (s, k)"
    by fastforce
  have "balanced count (weigh weight t) (scan_start r now) (ahead weight (root_path r) t [(root_path r, 0)])"
    using assms(4) by (simp add: balanced_def scan_start_def unavailable_def ahead_def)
  then have "balanced count (weigh weight t) s 0"
    by (rule scan_loop_balanced[OF assms(1,2) _ _ l]) simp
  then show ?thesis
    using assms(3,5) l by (simp add: scan_def balanced_def tidy_notes_def)
qed

end

section \<open>The four counters of an observation\<close>

definition bytes_counted :: "storage_observation \<Rightarrow> nat" where
  "bytes_counted s = (case so_logical_entry_bytes s of None \<Rightarrow> 0 | Some v \<Rightarrow> v)"

lemmas counter_simps = note_coverage_def skip_entry_def io_failure_def bytes_counted_def

interpretation bytes: scan_counter bytes_of bytes_counted
  by unfold_locales (auto simp: counter_simps split: option.split)

interpretation files: scan_counter file_of so_files
  by unfold_locales (simp_all add: counter_simps)

interpretation dirs: scan_counter dir_of so_directories
  by unfold_locales (simp_all add: counter_simps)

interpretation odd: scan_counter odd_of "\<lambda>s. 0"
  by unfold_locales (simp_all add: counter_simps)

text \<open>
  C7: On a directory tree that stands still, a byte total is never more than the tree holds, however
  the scan ended; and a complete coverage certifies the report: bytes, files and directories are
  exactly those of the tree, in which then nothing was redirected, special, unreadable or sealed.
\<close>

theorem complete_scan_is_exact:
  assumes "serves W (root_path r) t" "well_named t" "directory W p = Inr ()"
  shows "(\<forall>v. so_logical_entry_bytes (fst (scan W now p r b)) = Some v \<longrightarrow> v \<le> weigh bytes_of t)
    \<and> (so_coverage (fst (scan W now p r b)) = Complete \<longrightarrow>
         so_logical_entry_bytes (fst (scan W now p r b)) = Some (weigh bytes_of t)
         \<and> so_files (fst (scan W now p r b)) = weigh file_of t
         \<and> so_directories (fst (scan W now p r b)) = weigh dir_of t \<and> weigh odd_of t = 0)"
proof -
  note start = scan_start_def unavailable_def tidy_notes_def bytes_counted_def
  have "balanced bytes_counted (weigh bytes_of t) (fst (scan W now p r b)) 0"
    by (rule bytes.scan_balanced[OF assms]) (simp_all add: start)
  moreover have "balanced so_files (weigh file_of t) (fst (scan W now p r b)) 0"
    by (rule files.scan_balanced[OF assms]) (simp_all add: start)
  moreover have "balanced so_directories (weigh dir_of t) (fst (scan W now p r b)) 0"
    by (rule dirs.scan_balanced[OF assms]) (simp_all add: start)
  moreover have "balanced (\<lambda>s. 0) (weigh odd_of t) (fst (scan W now p r b)) 0"
    by (rule odd.scan_balanced[OF assms]) (simp_all add: start)
  ultimately show ?thesis by (auto simp: balanced_def bytes_counted_def)
qed

text \<open>A fixed disk that serves a tree below \<open>base\<close>; what is above it are plain directories.\<close>

definition still_os :: "path_buf \<Rightarrow> node \<Rightarrow> os" where
  "still_os base t =
     (let at = (\<lambda>p. if prefix base p then node_at t (drop (length base) p) else Some (Dir [])) in
      \<lparr>at_elapsed = \<lambda>k. k,
       at_metadata = \<lambda>k p. Option.bind (at p) node_metadata,
       at_opens = \<lambda>k p. (case at p of Some (Dir es) \<Rightarrow> True | _ \<Rightarrow> False),
       at_entry = \<lambda>k p i. (case at p of Some (Dir es) \<Rightarrow>
          if i < length es then Some (Some (fst (es ! i))) else None | _ \<Rightarrow> None),
       at_volume = \<lambda>p. Some (take 3 p), at_drive_type = \<lambda>v. 3, at_file_system = \<lambda>v. Some ''NTFS''\<rparr>)"

lemma still_os_serves: "serves (still_os base t) base t"
  unfolding serves_def
proof (intro allI impI)
  fix k p n
  assume "node_at t p = Some n"
  then show "at_metadata (still_os base t) k (base @ p) = node_metadata n
     \<and> at_opens (still_os base t) k (base @ p) = (\<exists>es. n = Dir es)
     \<and> (\<forall>es i. n = Dir es \<longrightarrow> at_entry (still_os base t) k (base @ p) i =
          (if i < length es then Some (Some (fst (es ! i))) else None))"
    by (cases n) (simp_all add: still_os_def)
qed

definition sample_tree :: node where
  "sample_tree = Dir [(''a'', File 13), (''b'', Dir [(''c'', File 4)])]"

definition sample_root :: root where
  "sample_root = \<lparr>root_id = ''r'', root_path = path_components (''C:'' @ [backslash] @ ''data''),
     root_kind = RootOther\<rparr>"

definition sample_os :: os where
  "sample_os = still_os (root_path sample_root) sample_tree"

lemma sample_root_path: "root_path sample_root = [''C:'', [backslash], ''data'']"
  by (simp add: sample_root_def path_components_def component_names_def drive_rooted_def has_drive_def
      is_path_sep_def backslash_def is_ascii_alphabetic_def ascii_class_defs is_verbatim_def)

lemma sample_lexical: "validate_lexical (Some (''C:'' @ [backslash] @ ''data'')) = Inr ()"
  by (simp add: validate_lexical_def chars_ascii is_ascii_def backslash_def is_absolute_def drive_rooted_def
      has_drive_def is_path_sep_def is_ascii_alphabetic_def ascii_class_defs is_control_def
      component_names_def is_verbatim_def check_simps)

lemma sample_directory: "directory sample_os (Some (''C:'' @ [backslash] @ ''data'')) = Inr ()"
  using sample_lexical sample_root_path
  by (simp add: directory_def local_existing_def sample_os_def still_os_def sample_root_def
      sample_tree_def validate_local_ntfs_def redirect_attributes check_simps)

lemma sample_scan:
  "so_coverage (fst (scan sample_os [] (Some (''C:'' @ [backslash] @ ''data'')) sample_root scan_budget_normal)) = Complete"
proof -
  define b where "b = effective_budget scan_budget_normal"
  have b: "deadline_ms b = 700" "max_entries b = 20000" "max_depth b = 32"
    by (simp_all add: b_def effective_budget_def scan_budget_normal_def)
  have os: "at_elapsed sample_os = (\<lambda>k. k)"
    "at_metadata sample_os k (root_path sample_root @ p) = Option.bind (node_at sample_tree p) node_metadata"
    "at_opens sample_os k (root_path sample_root @ p) = (case node_at sample_tree p of Some (Dir es) \<Rightarrow> True | _ \<Rightarrow> False)"
    "at_entry sample_os k (root_path sample_root @ p) i = (case node_at sample_tree p of
       Some (Dir es) \<Rightarrow> if i < length es then Some (Some (fst (es ! i))) else None | _ \<Rightarrow> None)" for k p i
    by (simp_all add: sample_os_def still_os_def)
  note osr = os(2)[of _ "[]", simplified] os(3)[of _ "[]", simplified] os(4)[of _ "[]", simplified]
  have "so_coverage (fst (scan_loop sample_os b 0 (scan_start sample_root []) [(root_path sample_root, 0)])) = Complete"
    by (simp add: visit_directory_def visit_entry_def visit_known_def overdue_def scan_entries.simps
        os osr b sample_tree_def redirect_attributes scan_start_def unavailable_def)
  then show ?thesis
    using sample_directory
    by (simp add: scan_def b_def tidy_notes_def case_prod_beta)
qed

theorem complete_scan_is_exact_witness:
  "so_logical_entry_bytes
     (fst (scan sample_os [] (Some (''C:'' @ [backslash] @ ''data'')) sample_root scan_budget_normal)) = Some 17"
proof -
  have "serves sample_os (root_path sample_root) sample_tree" "well_named sample_tree"
    by (simp_all add: sample_os_def still_os_serves) (simp add: sample_tree_def)
  from complete_scan_is_exact[OF this sample_directory, of "[]" scan_budget_normal] sample_scan
  show ?thesis by (simp add: sample_tree_def)
qed

end
