(* ===== verification/Repairs.thy ===== *)
theory Repairs
  imports Filesystem Effects Durable_Runtime Journal_Archive
begin

text \<open>
  Offline quarantine and its undoing: \<open>workstation-platform/src/repairs.rs\<close>, with the file identity of
  \<open>external.rs\<close>. One runtime entry is renamed beside itself, never copied or deleted, each rename is
  announced in the effect journal first, and it can be renamed back. The machine is what the operating
  system holds: its items by path, the environment, the processes. Digest, JSON texts and the lower-casing
  of a lossily decoded text are arguments, as is whether the system performs a rename.
\<close>

section \<open>The machine\<close>

text \<open>
  One entry of a directory enumeration; the name is absent when it is not UTF-16. An item has the
  metadata, the volume and file index behind \<open>path_identity\<close>, the modification time, the readable bytes,
  and, for a directory, the enumeration with whether it ended regularly.
\<close>

record find_row =
  fd_name :: "string option"
  fd_attributes :: "32 word"
  fd_tag :: "32 word"
  fd_bytes :: nat
  fd_modified :: nat

record item =
  it_meta :: metadata
  it_identity :: "string option"
  it_modified :: "int option"
  it_bytes :: "string option"
  it_rows :: "(find_row list \<times> bool) option"

record machine =
  mc_items :: "path_buf \<Rightarrow> item option"
  mc_hidden :: "path_buf \<Rightarrow> bool"
  mc_env :: "string \<Rightarrow> string option"
  mc_processes :: "(string list \<times> bool) option"
  mc_volume :: "string \<Rightarrow> string option"
  mc_drive_type :: "string \<Rightarrow> nat"
  mc_file_system :: "string \<Rightarrow> string option"

record socket_entry =
  se_name :: string
  se_attributes :: "32 word"
  se_reparse_tag :: "32 word"
  se_bytes :: nat
  se_modified :: nat

record repair_codec =
  rp_journal :: archive_codec
  rp_lossy_lower :: "string \<Rightarrow> string"
  rp_rows_text :: "socket_entry list \<Rightarrow> string"

definition machine_os :: "machine \<Rightarrow> os" where
  "machine_os m = \<lparr>at_elapsed = \<lambda>k. 0,
     at_metadata = \<lambda>k p. if mc_hidden m p then None else map_option it_meta (mc_items m p),
     at_opens = \<lambda>k p. False, at_entry = \<lambda>k p i. None, at_volume = mc_volume m,
     at_drive_type = mc_drive_type m, at_file_system = mc_file_system m\<rparr>"

definition item_at :: "machine \<Rightarrow> string \<Rightarrow> item option" where
  "item_at m t = mc_items m (path_components t)"

text \<open>Only "not found" proves absence: an entry whose metadata is refused may exist.\<close>

definition entry_exists :: "machine \<Rightarrow> string \<Rightarrow> bool check" where
  "entry_exists m t = (if mc_hidden m (path_components t) then Inl ''PATH_EXISTENCE_UNKNOWN''
     else Inr (item_at m t \<noteq> None))"

text \<open>
  A rename moves an entry with everything below it, keeping its identity, within one volume. Windows
  lets it replace an existing file.
\<close>

definition rename_items :: "path_buf \<Rightarrow> path_buf \<Rightarrow> (path_buf \<Rightarrow> item option) \<Rightarrow> path_buf \<Rightarrow> item option" where
  "rename_items p q d x =
     (if prefix q x then d (p @ drop (length q) x) else if prefix p x then None else d x)"

definition rename_entry :: "bool \<Rightarrow> string \<Rightarrow> string \<Rightarrow> machine \<Rightarrow> machine option" where
  "rename_entry performed a b m =
     (if performed \<and> item_at m a \<noteq> None
      then Some (m\<lparr>mc_items := rename_items (path_components a) (path_components b) (mc_items m)\<rparr>) else None)"

section \<open>Paths as text\<close>

definition join_path :: "string \<Rightarrow> string \<Rightarrow> string" where
  "join_path a b = (if a \<noteq> [] \<and> is_path_sep (last a) then a @ b else a @ [backslash] @ b)"

text \<open>The reverse of a path without trailing separators and dot components.\<close>

fun trim_back :: "string \<Rightarrow> string" where
  "trim_back (a # b # r) = (if is_path_sep a then trim_back (b # r)
     else if a = CHR ''.'' \<and> is_path_sep b then trim_back r else a # b # r)"
| "trim_back [a] = (if is_path_sep a then [] else [a])"
| "trim_back [] = []"

definition parent_path :: "string \<Rightarrow> string" where
  "parent_path t = (let r = rev (trim_back (dropWhile (\<lambda>c. \<not> is_path_sep c) (trim_back (rev t))))
     in if length r \<le> 2 then take 3 t else r)"

definition file_name :: "string \<Rightarrow> string option" where
  "file_name t = (case rev (component_names t) of n # _ \<Rightarrow> if n = ''..'' then None else Some n | [] \<Rightarrow> None)"

definition with_file_name :: "string \<Rightarrow> string \<Rightarrow> string" where
  "with_file_name t n = join_path (parent_path t) n"

text \<open>\<open>Path\<close> equality compares components, the letter of a drive without its case.\<close>

definition path_id :: "string \<Rightarrow> string list option" where
  "path_id t = (if drive_rooted t then Some ([ascii_lower (hd t)] # component_names t) else None)"

definition same_path :: "string \<Rightarrow> string \<Rightarrow> bool" where
  "same_path a b \<longleftrightarrow> path_id a \<noteq> None \<and> path_id a = path_id b"

definition same_parent :: "string \<Rightarrow> string \<Rightarrow> bool" where
  "same_parent a b \<longleftrightarrow> (case (path_id a, path_id b) of
     (Some (x # xs), Some (y # ys)) \<Rightarrow> (xs = []) = (ys = []) \<and> (xs = [] \<or> x = y \<and> butlast xs = butlast ys)
   | _ \<Rightarrow> False)"

section \<open>Evidence\<close>

definition MIB :: nat where "MIB = 1024 * 1024"

definition error_fingerprint :: "repair_kind \<Rightarrow> string \<Rightarrow> bool" where
  "error_fingerprint kind t = (case kind of
     CodexAttachmentRegistry \<Rightarrow> str_contains t ''pasted-text'' \<and> (str_contains t ''json'' \<or> str_contains t ''attach'')
   | _ \<Rightarrow> str_contains t ''.sock''
       \<and> (str_contains t ''cannot be accessed'' \<or> str_contains t ''error_cant_access_file''))"

definition observed_error :: "repair_codec \<Rightarrow> int \<Rightarrow> machine \<Rightarrow> string \<Rightarrow> repair_kind \<Rightarrow> (string \<times> int) check" where
  "observed_error J now m path kind =
     bind_check (local_existing (machine_os m) (Some path)) (\<lambda>_.
     bind_check (ok_or (item_at m path) ''ERROR_FILE_UNREADABLE'') (\<lambda>i.
     if md_type (it_meta i) \<noteq> PlainFile \<or> md_len (it_meta i) > MIB then Inl ''ERROR_FILE_LIMIT''
     else case it_modified i of None \<Rightarrow> Inl ''ERROR_FILE_TIME''
      | Some at \<Rightarrow> if at < 0 then Inl ''ERROR_FILE_TIME''
          else if now + 5 < at \<or> now - at > 300 then Inl ''STALE_ERROR_FILE''
          else case it_bytes i of None \<Rightarrow> Inl ''ERROR_FILE_UNREADABLE''
           | Some b \<Rightarrow> if length b > MIB then Inl ''ERROR_FILE_LIMIT''
               else if \<not> error_fingerprint kind (rp_lossy_lower J b) then Inl ''CURRENT_FAILURE_FINGERPRINT_NOT_MATCHED''
               else Inr (ac_sha (rp_journal J) b, at)))"

text \<open>The names of all processes in lower case, and whether the enumeration ended regularly.\<close>

definition blocks_repair :: "repair_kind \<Rightarrow> string \<Rightarrow> bool" where
  "blocks_repair kind name = (case kind of
     CodexAttachmentRegistry \<Rightarrow> str_contains name ''codex'' \<or> name = ''chatgpt.exe'' \<or> name = ''node_repl.exe''
   | _ \<Rightarrow> str_contains name ''docker'')"

definition stopped :: "machine \<Rightarrow> repair_kind \<Rightarrow> unit check" where
  "stopped m kind = (case mc_processes m of None \<Rightarrow> Inl ''APPLICATION_STOP_COVERAGE_INCOMPLETE''
     | Some (names, ended) \<Rightarrow> checks
        [reject (length names > 50000 \<or> \<not> ended) ''APPLICATION_STOP_COVERAGE_INCOMPLETE'',
         reject (list_ex (blocks_repair kind) names) ''STOP_APPLICATION_AND_RELATED_SERVICE_MANUALLY''])"

definition repair_target :: "machine \<Rightarrow> string \<Rightarrow> repair_kind \<Rightarrow> string check" where
  "repair_target m root kind = bind_check (directory (machine_os m) (Some root)) (\<lambda>_. case kind of
     CodexAttachmentRegistry \<Rightarrow>
       bind_check (ok_or (case mc_env m ''CODEX_HOME'' of Some h \<Rightarrow> Some h
          | None \<Rightarrow> map_option (\<lambda>p. join_path p ''.codex'') (mc_env m ''USERPROFILE'')) ''CODEX_HOME_UNAVAILABLE'') (\<lambda>expected.
       if \<not> same_path root expected then Inl ''CODEX_HOME_NOT_EFFECTIVE_ENVIRONMENT''
       else Inr (join_path (join_path root ''attachments'') ''pasted-text-attachments.json''))
   | DockerRuntime \<Rightarrow> bind_check (ok_or (mc_env m ''LOCALAPPDATA'') ''LOCALAPPDATA_MISSING'') (\<lambda>local.
       if \<not> same_path root (join_path local ''Docker'') then Inl ''DOCKER_RUNTIME_ROOT_NOT_DEFAULT_LOCAL_PROFILE''
       else Inr (join_path root ''run''))
   | DockerSecretsRuntime \<Rightarrow> bind_check (ok_or (mc_env m ''LOCALAPPDATA'') ''LOCALAPPDATA_MISSING'') (\<lambda>local.
       if \<not> same_path root local then Inl ''DOCKER_SECRETS_ROOT_NOT_LOCAL_PROFILE''
       else Inr (join_path root ''docker-secrets-engine'')))"

fun socket_rows :: "find_row list \<Rightarrow> socket_entry list \<Rightarrow> socket_entry list check" where
  "socket_rows [] acc = Inr acc"
| "socket_rows (r # rs) acc = (case fd_name r of None \<Rightarrow> Inl ''SOCKET_NAME_ENCODING''
     | Some n \<Rightarrow>
       if n = ''.'' \<or> n = ''..'' then socket_rows rs acc
       else if length acc \<ge> 64 \<or> fd_bytes r \<noteq> 0 \<or> and (fd_attributes r) 0x10 \<noteq> 0
         \<or> \<not> suffix ''.sock'' n \<and> \<not> suffix ''.sock.stale'' n \<or> list_ex is_path_sep n
       then Inl ''RUNTIME_CONTAINS_NONSOCKET_DATA''
       else if and (fd_attributes r) 0x400 \<noteq> 0 \<and> fd_tag r \<noteq> 0x80000023 then Inl ''RUNTIME_REPARSE_TAG_NOT_AF_UNIX''
       else socket_rows rs (acc @ [\<lparr>se_name = n, se_attributes = fd_attributes r, se_reparse_tag = fd_tag r,
              se_bytes = fd_bytes r, se_modified = fd_modified r\<rparr>]))"

definition socket_entries :: "machine \<Rightarrow> string \<Rightarrow> socket_entry list check" where
  "socket_entries m path = (case Option.bind (item_at m path) it_rows of
     None \<Rightarrow> Inl ''SOCKET_CONTAINER_ENUMERATION_FAILED''
   | Some (rows, ended) \<Rightarrow> bind_check (socket_rows rows []) (\<lambda>out.
       if \<not> ended then Inl ''SOCKET_ENUMERATION_INCOMPLETE''
       else if out = [] then Inl ''NO_RUNTIME_SOCKET_TO_QUARANTINE'' else Inr (sort_key se_name out)))"

definition target_digest :: "repair_codec \<Rightarrow> machine \<Rightarrow> string \<Rightarrow> repair_kind \<Rightarrow> string check" where
  "target_digest J m path kind =
     (if kind = CodexAttachmentRegistry then
        bind_check (local_existing (machine_os m) (Some path)) (\<lambda>_.
        bind_check (ok_or (item_at m path) ''REGISTRY_UNAVAILABLE'') (\<lambda>i.
        if md_type (it_meta i) \<noteq> PlainFile \<or> md_len (it_meta i) > MIB then Inl ''REGISTRY_SIZE_NOT_ELIGIBLE''
        else case it_bytes i of None \<Rightarrow> Inl ''REGISTRY_READ''
         | Some b \<Rightarrow> if length b > MIB then Inl ''REGISTRY_SIZE_NOT_ELIGIBLE''
             else if ac_parse (rp_journal J) b \<noteq> None then Inl ''VALID_REGISTRY_NOT_AUTOMATICALLY_DISPOSABLE''
             else Inr (ac_sha (rp_journal J) b)))
      else bind_check (directory (machine_os m) (Some path)) (\<lambda>_.
           bind_check (socket_entries m path) (\<lambda>rows. Inr (ac_sha (rp_journal J) (rp_rows_text J rows)))))"

definition path_identity :: "machine \<Rightarrow> string \<Rightarrow> string check" where
  "path_identity m path = bind_check (local_existing (machine_os m) (Some path)) (\<lambda>_.
     case item_at m path of None \<Rightarrow> Inl ''FILE_ID_FAILED''
     | Some i \<Rightarrow> (case it_identity i of None \<Rightarrow> Inl ''FILE_ID_OR_REDIRECTION''
        | Some d \<Rightarrow> if and (md_attributes (it_meta i)) 0x400 \<noteq> 0 then Inl ''FILE_ID_OR_REDIRECTION'' else Inr d))"

definition inspect ::
    "repair_codec \<Rightarrow> int \<Rightarrow> machine \<Rightarrow> string \<Rightarrow> repair_kind \<Rightarrow> string \<Rightarrow> string \<Rightarrow> quarantine_target check" where
  "inspect J now m root kind error version =
     bind_check (stopped m kind) (\<lambda>_.
     bind_check (repair_target m root kind) (\<lambda>t.
     bind_check (observed_error J now m error kind) (\<lambda>(dig, at).
     bind_check (target_digest J m t kind) (\<lambda>content.
     bind_check (path_identity m t) (\<lambda>identity.
     Inr \<lparr>qt_kind = kind, qt_root = root, qt_target = t, qt_identity = identity, qt_content_digest = content,
       qt_source_version = version, qt_source_error_path = error, qt_source_error_sha256 = dig,
       qt_error_observed_at = at, qt_original_exists = True\<rparr>)))))"

section \<open>Quarantine and restore\<close>

type_synonym repair_state = "machine \<times> journal"

definition journal_effect_step ::
    "repair_codec \<Rightarrow> int \<Rightarrow> string \<Rightarrow> string \<Rightarrow> string \<Rightarrow> int json \<Rightarrow> (repair_state, unit) handler" where
  "journal_effect_step J now run name status v = (\<lambda>(m, j).
     case effect_step now run name status (ac_show (rp_journal J) v) j of
       Inl e \<Rightarrow> (Inl e, (m, j)) | Inr j' \<Rightarrow> (Inr (), (m, j')))"

definition move_entry :: "bool \<Rightarrow> string \<Rightarrow> string \<Rightarrow> string \<Rightarrow> (repair_state, unit) handler" where
  "move_entry performed a b code = (\<lambda>(m, j).
     case rename_entry performed a b m of None \<Rightarrow> (Inl code, (m, j)) | Some m' \<Rightarrow> (Inr (), (m', j)))"

definition observe_machine :: "(machine \<Rightarrow> 'a check) \<Rightarrow> (repair_state, 'a) handler" where
  "observe_machine f = liftc (\<lambda>(m, j). f m)"

definition repair_kind_str :: "repair_kind \<Rightarrow> string" where
  "repair_kind_str k = (case k of CodexAttachmentRegistry \<Rightarrow> ''codex_attachment_registry''
     | DockerRuntime \<Rightarrow> ''docker_runtime'' | DockerSecretsRuntime \<Rightarrow> ''docker_secrets_runtime'')"

definition repair_kind_of :: "string \<Rightarrow> repair_kind option" where
  "repair_kind_of s = (if s = ''codex_attachment_registry'' then Some CodexAttachmentRegistry
     else if s = ''docker_runtime'' then Some DockerRuntime
     else if s = ''docker_secrets_runtime'' then Some DockerSecretsRuntime else None)"

text \<open>Reading an enumeration back: its name, or an object with the name and no content.\<close>

fun repair_kind_json :: "int json \<Rightarrow> repair_kind option" where
  "repair_kind_json (JStr s) = repair_kind_of s"
| "repair_kind_json (JObj [(s, JNull)]) = repair_kind_of s"
| "repair_kind_json _ = None"

definition quarantine_path :: "string \<Rightarrow> string \<Rightarrow> string \<Rightarrow> string" where
  "quarantine_path original name run = with_file_name original (name @ ''.workstation-quarantine-'' @ run)"

definition quarantine_output :: "quarantine_target \<Rightarrow> string \<Rightarrow> int json" where
  "quarantine_output t backup = JObj [(''application_started'', JBool False), (''content_digest'', JStr (qt_content_digest t)),
     (''original'', JStr (qt_target t)), (''postcondition'', JStr ''entry_isolated_not_application_recovery_certified''),
     (''quarantine'', JStr backup), (''quarantine_identity'', JStr (qt_identity t)),
     (''registry_or_runtime_only'', JBool True), (''restorable'', JBool True), (''root_cause_fixed'', JBool False),
     (''source_kind'', JStr (repair_kind_str (qt_kind t)))]"

definition quarantine_intent :: "quarantine_target \<Rightarrow> string \<Rightarrow> int json" where
  "quarantine_intent t backup = JObj [(''digest'', JStr (qt_content_digest t)), (''identity'', JStr (qt_identity t)),
     (''original'', JStr (qt_target t)), (''payloads'', JStr ''not_touched''), (''quarantine'', JStr backup)]"

text \<open>Intent, rename, postcondition, completion.\<close>

definition isolated :: "machine \<Rightarrow> quarantine_target \<Rightarrow> string \<Rightarrow> bool check" where
  "isolated m t backup = bind_check (entry_exists m (qt_target t)) (\<lambda>still. if still then Inr False
     else bind_check (path_identity m backup) (\<lambda>d. Inr (d = qt_identity t)))"

definition quarantine_move ::
    "repair_codec \<Rightarrow> bool \<Rightarrow> int \<Rightarrow> string \<Rightarrow> quarantine_target \<Rightarrow> string \<Rightarrow> (repair_state, int json) handler" where
  "quarantine_move J performed now run t backup =
     andthen (journal_effect_step J now run ''quarantine_exact_runtime_entry'' ''intent'' (quarantine_intent t backup)) (\<lambda>_.
     andthen (move_entry performed (qt_target t) backup ''QUARANTINE_RENAME_FAILED'') (\<lambda>_.
     andthen (observe_machine (\<lambda>m. isolated m t backup)) (\<lambda>ok.
     if \<not> ok then fail ''QUARANTINE_POSTCONDITION_UNCERTAIN''
     else andthen (journal_effect_step J now run ''quarantine_exact_runtime_entry'' ''completed'' (quarantine_output t backup)) (\<lambda>_.
          pass (quarantine_output t backup)))))"

definition quarantine ::
    "repair_codec \<Rightarrow> bool \<Rightarrow> int \<Rightarrow> string \<Rightarrow> quarantine_target \<Rightarrow> (repair_state, int json) handler" where
  "quarantine J performed now run t =
     andthen (observe_machine (\<lambda>m. inspect J now m (qt_root t) (qt_kind t) (qt_source_error_path t) (qt_source_version t))) (\<lambda>fresh.
     if fresh \<noteq> t then fail ''REPAIR_TARGET_CHANGED''
     else case file_name (qt_target t) of None \<Rightarrow> fail ''TARGET_NAME''
      | Some name \<Rightarrow>
        andthen (observe_machine (\<lambda>m. entry_exists m (quarantine_path (qt_target t) name run))) (\<lambda>there.
        if there then fail ''QUARANTINE_ALREADY_EXISTS''
        else quarantine_move J performed now run t (quarantine_path (qt_target t) name run)))"

definition restore_checks :: "repair_codec \<Rightarrow> machine \<Rightarrow> int json \<Rightarrow> (string \<times> string \<times> repair_kind \<times> string \<times> string) check" where
  "restore_checks J m prior =
     bind_check (ok_or (json_str_at prior ''original'') ''RESTORE_RECEIPT_INVALID'') (\<lambda>original.
     bind_check (ok_or (json_str_at prior ''quarantine'') ''RESTORE_RECEIPT_INVALID'') (\<lambda>backup.
     bind_check (ok_or (Option.bind (json_get prior ''source_kind'') repair_kind_json) ''RESTORE_KIND'') (\<lambda>kind.
     bind_check (stopped m kind) (\<lambda>_.
     bind_check (local_existing (machine_os m) (Some backup)) (\<lambda>_.
     if \<not> same_parent original backup
       \<or> \<not> (\<exists>n. file_name backup = Some n \<and> str_contains n ''.workstation-quarantine-'') then Inl ''RESTORE_PATH_BOUNDARY''
     else bind_check (validate_lexical (Some original)) (\<lambda>_.
     bind_check (entry_exists m original) (\<lambda>there.
     if there then Inl ''RESTORE_WOULD_OVERWRITE_NEW_STATE''
     else bind_check (path_identity m backup) (\<lambda>identity.
     bind_check (ok_or (json_str_at prior ''quarantine_identity'') ''RESTORE_IDENTITY'') (\<lambda>expected.
     if identity \<noteq> expected then Inl ''RESTORE_BACKUP_CHANGED''
     else bind_check (target_digest J m backup kind) (\<lambda>dig.
     if json_str_at prior ''content_digest'' \<noteq> Some dig then Inl ''RESTORE_CONTENT_CHANGED''
     else Inr (original, backup, kind, identity, dig)))))))))))"

definition restore_output :: "int json" where
  "restore_output = JObj [(''application_repaired'', JBool False), (''overwritten'', JBool False), (''restored'', JBool True)]"

definition restored :: "repair_codec \<Rightarrow> machine \<Rightarrow> string \<Rightarrow> string \<Rightarrow> repair_kind \<Rightarrow> string \<Rightarrow> string \<Rightarrow> bool check" where
  "restored J m original backup kind expected dig = bind_check (entry_exists m backup) (\<lambda>still. if still then Inr False
     else bind_check (path_identity m original) (\<lambda>d. if d \<noteq> expected then Inr False
     else bind_check (target_digest J m original kind) (\<lambda>d'. Inr (d' = dig))))"

definition restore_intent :: "string \<Rightarrow> string \<Rightarrow> int json" where
  "restore_intent original backup = JObj [(''original'', JStr original), (''quarantine'', JStr backup)]"

definition restore :: "repair_codec \<Rightarrow> bool \<Rightarrow> int \<Rightarrow> string \<Rightarrow> int json \<Rightarrow> (repair_state, int json) handler" where
  "restore J performed now run prior =
     andthen (observe_machine (\<lambda>m. restore_checks J m prior)) (\<lambda>(original, backup, kind, expected, dig).
     andthen (journal_effect_step J now run ''restore_quarantine'' ''intent'' (restore_intent original backup)) (\<lambda>_.
     andthen (move_entry performed backup original ''RESTORE_RENAME_FAILED'') (\<lambda>_.
     andthen (observe_machine (\<lambda>m. restored J m original backup kind expected dig)) (\<lambda>ok.
     if \<not> ok then fail ''RESTORE_POSTCONDITION_UNCERTAIN''
     else andthen (journal_effect_step J now run ''restore_quarantine'' ''completed'' restore_output) (\<lambda>_.
          pass restore_output)))))"

section \<open>The desktop beside a bundled command line\<close>

text \<open>\<open>hash_file\<close> reads in blocks and counts what it read; the digest is that of the whole.\<close>

definition PIN_FILE_LIMIT_BYTES :: nat where
  "PIN_FILE_LIMIT_BYTES = 1024 * 1024 * 1024"

definition hash_file :: "repair_codec \<Rightarrow> machine \<Rightarrow> string \<Rightarrow> string check" where
  "hash_file J m path =
     bind_check (local_existing (machine_os m) (Some path)) (\<lambda>_.
     bind_check (ok_or (item_at m path) ''FILE_UNAVAILABLE'') (\<lambda>i.
     if md_type (it_meta i) \<noteq> PlainFile \<or> md_len (it_meta i) > PIN_FILE_LIMIT_BYTES then Inl ''PIN_FILE_LIMIT''
     else bind_check (ok_or (it_bytes i) ''PIN_OPEN_FAILED'') (\<lambda>b.
     if length b > PIN_FILE_LIMIT_BYTES then Inl ''PIN_FILE_LIMIT'' else Inr (ac_sha (rp_journal J) b))))"

definition desktop_identity :: "repair_codec \<Rightarrow> machine \<Rightarrow> integration \<Rightarrow> (string \<times> string) check" where
  "desktop_identity J m i =
     (let cli = int_executable i; bin = parent_path cli; resources = parent_path bin
      in if int_adapter i \<noteq> Docker then Inl ''DOCKER_ADAPTER_REQUIRED''
         else if file_name cli \<noteq> Some ''docker.exe'' \<or> file_name bin \<noteq> Some ''bin''
           \<or> file_name resources \<noteq> Some ''resources'' then Inl ''BUNDLED_DOCKER_CLI_REQUIRED''
         else let desktop = join_path (parent_path resources) ''Docker Desktop.exe''
           in bind_check (hash_file J m desktop) (\<lambda>h. Inr (desktop, h)))"

end
