(* ===== verification/Quarantine.thy ===== *)
theory Quarantine
  imports Repairs Journal_History
begin

text \<open>
  What a quarantine and its undoing do to the machine: lemmas on the text of paths (the file beside a
  file), on renames, and the properties of \<open>Repairs\<close>.
\<close>

section \<open>The name beside a name\<close>

definition all_names :: "string \<Rightarrow> string list" where
  "all_names t = filter (\<lambda>n. n \<noteq> [] \<and> n \<noteq> ''.'') (split_on is_path_sep t)"

lemma split_on_sep_end: "is_path_sep c \<Longrightarrow> split_on is_path_sep (s @ [c]) = split_on is_path_sep s @ [[]]"
  using split_on_append_sep[of is_path_sep c s "[]"] by simp

lemma all_names_sep_end: "is_path_sep c \<Longrightarrow> all_names (s @ [c]) = all_names s"
  by (simp add: all_names_def split_on_sep_end)

lemma all_names_add:
  assumes "is_path_sep c" "list_all (\<lambda>x. \<not> is_path_sep x) n"
  shows "all_names (s @ c # n) = all_names s @ (if n = [] \<or> n = ''.'' then [] else [n])"
  using assms split_on_append_sep[of is_path_sep c s n] split_on_no_sep[of n is_path_sep]
  by (auto simp: all_names_def list_all_iff)

lemma all_names_trim: "all_names (rev (trim_back r)) = all_names (rev r)"
proof (induction r rule: trim_back.induct)
  case (1 a b r)
  then show ?case
    using all_names_sep_end[of a "rev (b # r)"] all_names_add[of b "[CHR ''.'']" "rev r"]
    by (auto simp: is_path_sep_def)
next
  case (2 a)
  then show ?case by (simp add: all_names_def)
qed simp

lemma trim_back_suffix: "suffix (trim_back r) r"
proof (induction r rule: trim_back.induct)
  case (1 a b r)
  then show ?case by (auto intro: suffix_ConsI)
qed auto

lemma trim_back_head: "trim_back r = c # r' \<Longrightarrow> \<not> is_path_sep c"
  by (induction r rule: trim_back.induct) (auto split: if_splits)

lemma trim_back_dot: "trim_back r = CHR ''.'' # c # r' \<Longrightarrow> \<not> is_path_sep c"
  by (induction r rule: trim_back.induct) (auto split: if_splits)

lemma all_names_parent:
  assumes "trim_back r = u" "\<exists>c \<in> set u. is_path_sep c"
  shows "all_names (rev (dropWhile (\<lambda>c. \<not> is_path_sep c) u)) = butlast (all_names (rev u))"
proof -
  define n where "n = takeWhile (\<lambda>c. \<not> is_path_sep c) u"
  obtain c v where dw: "dropWhile (\<lambda>c. \<not> is_path_sep c) u = c # v"
    using assms(2) by (metis dropWhile_eq_Nil_conv neq_Nil_conv)
  have c: "is_path_sep c" using dw by (metis hd_dropWhile list.distinct(1) list.sel(1))
  have u: "u = n @ c # v" using dw by (metis n_def takeWhile_dropWhile_id)
  have n: "list_all (\<lambda>x. \<not> is_path_sep x) (rev n)"
    by (auto simp: n_def list_all_iff dest: set_takeWhileD)
  have "n \<noteq> []" using trim_back_head[of r c v] assms(1) u c by auto
  moreover have "n \<noteq> ''.''" using trim_back_dot[of r c v] assms(1) u c by auto
  ultimately have "rev n \<noteq> []" "rev n \<noteq> ''.''" by (auto simp: rev_eq_Cons_iff)
  then show ?thesis
    using all_names_add[OF c n, of "rev v"] all_names_sep_end[OF c, of "rev v"] dw by (simp add: u)
qed

lemma drive_rootedD:
  assumes "drive_rooted t"
  obtains d c r where "t = d # CHR '':'' # c # r" "is_path_sep c" "is_ascii_alphabetic d" "\<not> is_path_sep d"
proof -
  from assms obtain d c r where "t = d # CHR '':'' # c # r" "is_path_sep c" "is_ascii_alphabetic d"
    by (auto simp: drive_rooted_def has_drive_def split: list.splits)
  moreover have "\<not> is_path_sep d" using calculation(3)
    by (auto simp: is_path_sep_def is_ascii_alphabetic_def ascii_class_defs)
  ultimately show ?thesis by (rule that)
qed

lemma all_names_rooted:
  assumes "drive_rooted t"
  shows "all_names t = take 2 t # component_names t"
proof -
  obtain d c r where t: "t = d # CHR '':'' # c # r" "is_path_sep c" "\<not> is_path_sep d"
    using drive_rootedD[OF assms] by metis
  then have "split_on is_path_sep t = [d, CHR '':''] # split_on is_path_sep r"
    using split_on_append_sep[of is_path_sep c "[d, CHR '':'']" r] by (simp add: is_path_sep_def)
  moreover have "\<not> is_verbatim t" using t by (auto simp: is_verbatim_def backslash_def is_path_sep_def)
  ultimately show ?thesis using assms t(1) by (simp add: all_names_def component_names_def)
qed

lemma names_length: "sum_list (map length (all_names t)) \<le> length t"
proof -
  have "sum_list (map length (filter P xs)) \<le> sum_list (map length xs)" for P and xs :: "string list"
    by (induction xs) auto
  moreover have "sum_list (map length (split_on is_path_sep t)) \<le> length t"
  proof (induction t)
    case (Cons a t)
    then show ?case by (cases "split_on is_path_sep t") auto
  qed simp
  ultimately show ?thesis unfolding all_names_def by (meson order_trans)
qed

lemma rooted_has_sep: "drive_rooted t \<Longrightarrow> component_names t \<noteq> [] \<Longrightarrow> \<exists>c \<in> set (trim_back (rev t)). is_path_sep c"
proof -
  assume t: "drive_rooted t" "component_names t \<noteq> []"
  define u where "u = trim_back (rev t)"
  have a: "all_names (rev u) = take 2 t # component_names t"
    using all_names_trim[of "rev t"] all_names_rooted[OF t(1)] by (simp add: u_def)
  have "\<exists>c \<in> set u. is_path_sep c"
  proof (rule ccontr)
    assume "\<not> (\<exists>c \<in> set u. is_path_sep c)"
    then have "length (all_names (rev u)) \<le> 1"
      using split_on_no_sep[of "rev u" is_path_sep] by (simp add: all_names_def)
    then show False using a t(2) by simp
  qed
  then show ?thesis by (simp add: u_def)
qed

lemma parent_path_facts:
  assumes "drive_rooted t" "component_names t \<noteq> []"
  shows "all_names (parent_path t) = take 2 t # butlast (component_names t)"
    "take 3 (join_path (parent_path t) n) = take 3 t"
proof -
  obtain d c v where t: "t = d # CHR '':'' # c # v" "is_path_sep c" "\<not> is_path_sep d"
    using drive_rootedD[OF assms(1)] by metis
  define u where "u = trim_back (rev t)"
  define r where "r = rev (trim_back (dropWhile (\<lambda>c. \<not> is_path_sep c) u))"
  have a: "all_names r = take 2 t # butlast (component_names t)"
    using all_names_parent[OF u_def[symmetric]] rooted_has_sep[OF assms] all_names_trim[of "rev t"]
      all_names_rooted[OF assms(1)] assms(2) all_names_trim[of "dropWhile (\<lambda>c. \<not> is_path_sep c) u"]
    by (simp add: r_def u_def)
  have "suffix (trim_back (dropWhile (\<lambda>c. \<not> is_path_sep c) u)) (rev t)"
    unfolding u_def by (meson suffix_dropWhile suffix_order.trans trim_back_suffix)
  then have pr: "prefix r t" by (simp add: r_def suffix_to_prefix)
  have p: "parent_path t = (if length r \<le> 2 then take 3 t else r)"
    by (simp add: parent_path_def r_def u_def Let_def)
  show "all_names (parent_path t) = take 2 t # butlast (component_names t)"
  proof (cases "length r \<le> 2")
    case True
    have "length t \<ge> 3" by (simp add: t(1))
    then have "sum_list (map length (butlast (component_names t))) = 0"
      using names_length[of r] a True by (simp del: sum_list_eq_0_iff)
    then have "\<forall>n \<in> set (butlast (component_names t)). n = []" by simp
    moreover have "\<forall>n \<in> set (all_names r). n \<noteq> []" by (simp add: all_names_def)
    ultimately have z: "butlast (component_names t) = []"
      unfolding a by (cases "butlast (component_names t)") auto
    have "all_names (take 3 t) = [take 2 t]"
      using t all_names_sep_end[OF t(2), of "[d, CHR '':'']"]
      by (simp add: all_names_def is_path_sep_def)
    then show ?thesis using p True z by simp
  qed (use a p in simp)
  show "take 3 (join_path (parent_path t) n) = take 3 t"
  proof (cases "length r \<le> 2")
    case True
    then show ?thesis using t p by (simp add: join_path_def)
  next
    case False
    moreover obtain z where z: "t = r @ z" using pr by (auto simp: prefix_def)
    ultimately have "take 3 t = take 3 r" by simp
    then show ?thesis using p False by (simp add: join_path_def)
  qed
qed

lemma all_names_join:
  assumes "list_all (\<lambda>x. \<not> is_path_sep x) n" "n \<noteq> []" "n \<noteq> ''.''" "a \<noteq> []"
  shows "all_names (join_path a n) = all_names a @ [n]"
proof (cases "is_path_sep (last a)")
  case True
  have "all_names (butlast a @ last a # n) = all_names (butlast a) @ [n]"
    using all_names_add[OF True assms(1)] assms(2,3) by simp
  moreover have "all_names a = all_names (butlast a)"
    using all_names_sep_end[OF True, of "butlast a"] assms(4) by simp
  moreover have "butlast a @ last a # n = a @ n" 
    using append_butlast_last_id[OF assms(4)] by (metis append.assoc append_Cons append_Nil)
  ultimately show ?thesis using True assms(4) by (simp add: join_path_def)
next
  case False
  then show ?thesis
    using all_names_add[of backslash n a] assms by (simp add: join_path_def is_path_sep_def backslash_def)
qed

lemma drive_rooted_take: "take 3 s = take 3 t \<Longrightarrow> drive_rooted s \<longleftrightarrow> drive_rooted t"
proof -
  assume a: "take 3 s = take 3 t"
  have f: "drive_rooted s \<longleftrightarrow> length (take 3 s) = 3 \<and> is_ascii_alphabetic (take 3 s ! 0)
      \<and> take 3 s ! 1 = CHR '':'' \<and> is_path_sep (take 3 s ! 2)" for s
    by (auto simp: drive_rooted_def has_drive_def split: list.splits)
  show ?thesis by (simp only: f a)
qed

text \<open>The quarantine name stands beside the original: the same components but for the last.\<close>

lemma quarantine_path_names:
  assumes "drive_rooted t" "component_names t \<noteq> []" "file_name t = Some name"
    and "list_all (\<lambda>x. \<not> is_path_sep x) run"
  defines "b \<equiv> quarantine_path t name run"
  shows "drive_rooted b" "take 3 b = take 3 t" "last (component_names t) = name"
    "component_names b = butlast (component_names t) @ [name @ ''.workstation-quarantine-'' @ run]"
proof -
  obtain d c v where t: "t = d # CHR '':'' # c # v" using drive_rootedD[OF assms(1)] by metis
  obtain ns where ns: "rev (component_names t) = name # ns"
    using assms(3) by (auto simp: file_name_def split: list.splits if_splits)
  then have cn: "component_names t = rev ns @ [name]" by (simp add: rev_eq_Cons_iff)
  have "name \<in> set (all_names t)" using all_names_rooted[OF assms(1)] cn by simp
  then have "name \<in> set (split_on is_path_sep t)" by (simp add: all_names_def)
  then have sep: "list_all (\<lambda>x. \<not> is_path_sep x) (name @ ''.workstation-quarantine-'' @ run)"
    using assms(4) split_on_pieces[of name is_path_sep t] by (auto simp: list_all_iff is_path_sep_def)
  show "last (component_names t) = name" by (simp add: cn)
  show tk: "take 3 b = take 3 t"
    unfolding b_def quarantine_path_def with_file_name_def by (rule parent_path_facts(2)[OF assms(1,2)])
  show dr: "drive_rooted b" using drive_rooted_take[OF tk] assms(1) by simp
  have ne: "parent_path t \<noteq> []" using parent_path_facts(1)[OF assms(1,2)] by (auto simp: all_names_def)
  have dot: "name @ ''.workstation-quarantine-'' @ run \<noteq> ''.''" by (cases name) auto
  have "all_names b = take 2 t # butlast (component_names t) @ [name @ ''.workstation-quarantine-'' @ run]"
    unfolding b_def quarantine_path_def with_file_name_def
    using all_names_join[OF sep _ dot ne] parent_path_facts(1)[OF assms(1,2)] by simp
  then show "component_names b = butlast (component_names t) @ [name @ ''.workstation-quarantine-'' @ run]"
    using all_names_rooted[OF dr] by simp
qed

section \<open>Renames\<close>

text \<open>Whatever exists has a parent that exists.\<close>

definition grounded :: "machine \<Rightarrow> bool" where
  "grounded m \<longleftrightarrow> (\<forall>p x. mc_items m (p @ [x]) \<noteq> None \<longrightarrow> mc_items m p \<noteq> None)"

lemma grounded_below: "grounded m \<Longrightarrow> mc_items m q = None \<Longrightarrow> mc_items m (q @ z) = None"
proof (induction z rule: rev_induct)
  case (snoc x z)
  then have "mc_items m (q @ z) = None" by simp
  then show ?case using snoc.prems(1) unfolding grounded_def by (metis append.assoc)
qed simp

lemma rename_source: "\<not> prefix q p \<Longrightarrow> rename_items p q d p = None"
  by (simp add: rename_items_def)

lemma rename_target: "rename_items p q d (q @ z) = d (p @ z)"
  by (simp add: rename_items_def)

lemma rename_inverse:
  assumes "\<not> prefix p q" "\<not> prefix q p" "\<And>z. d (q @ z) = None"
  shows "rename_items q p (rename_items p q d) = d"
proof
  fix x
  consider z where "x = p @ z" | z where "x = q @ z" "\<not> prefix p x" | "\<not> prefix p x" "\<not> prefix q x"
    by (auto simp: prefix_def)
  then show "rename_items q p (rename_items p q d) x = d x"
  proof cases
    case 2
    then show ?thesis using assms(3) by (simp add: rename_items_def)
  qed (simp_all add: rename_items_def)
qed

lemma rename_loses_nothing:
  assumes "\<And>z. d (q @ z) = None" "d x = Some i"
  shows "\<exists>y. rename_items p q d y = Some i"
proof (cases "prefix p x")
  case True
  then obtain z where "x = p @ z" by (auto simp: prefix_def)
  then show ?thesis using rename_target[of p q d z] assms(2) by auto
next
  case False
  moreover have "\<not> prefix q x" using assms by (auto simp: prefix_def)
  ultimately show ?thesis using assms(2) by (intro exI[of _ x]) (simp add: rename_items_def)
qed

section \<open>The steps of a quarantine\<close>

lemma andthen_result:
  "andthen h f s = (r, s') \<longleftrightarrow> (\<exists>e. h s = (Inl e, s') \<and> r = Inl e)
     \<or> (\<exists>x s1. h s = (Inr x, s1) \<and> f x s1 = (r, s'))"
  by (auto simp: andthen_def split: prod.splits sum.splits)

lemma andthenE:
  assumes "andthen h f s = (r, s')"
  obtains (stops) e where "h s = (Inl e, s')" "r = Inl e" | (goes) x s1 where "h s = (Inr x, s1)" "f x s1 = (r, s')"
  using assms by (auto simp: andthen_result)

lemma observe_result [simp]: "observe_machine f (m, j) = (f m, (m, j))"
  by (simp add: observe_machine_def)

definition announced :: "repair_codec \<Rightarrow> string \<Rightarrow> string \<Rightarrow> int json \<Rightarrow> journal \<Rightarrow> bool" where
  "announced J run name v j \<longleftrightarrow> list_ex (\<lambda>s. js_run s = run \<and> js_name s = name \<and> js_status s = ''intent''
     \<and> js_payload s = ac_show (rp_journal J) v) (jo_steps j)"

lemma journal_step_iff:
  "journal_effect_step J now run name status v (m, j) = (r, s') \<longleftrightarrow>
     (\<exists>e. effect_step now run name status (ac_show (rp_journal J) v) j = Inl e \<and> r = Inl e \<and> s' = (m, j))
     \<or> (\<exists>j'. effect_step now run name status (ac_show (rp_journal J) v) j = Inr j' \<and> r = Inr () \<and> s' = (m, j'))"
  by (auto simp: journal_effect_step_def split: sum.splits)

lemma move_iff:
  "move_entry performed a b code (m, j) = (r, s') \<longleftrightarrow>
     (rename_entry performed a b m = None \<and> r = Inl code \<and> s' = (m, j))
     \<or> (\<exists>m'. rename_entry performed a b m = Some m' \<and> r = Inr () \<and> s' = (m', j))"
  by (auto simp: move_entry_def split: option.splits)

lemma effect_step_adds:
  "effect_step now run name status payload j = Inr j' \<Longrightarrow> \<exists>q. jo_steps j' = jo_steps j @
     [\<lparr>js_run = run, js_seq = q, js_name = name, js_status = status, js_at = now, js_payload = payload\<rparr>]"
  by (auto simp: effect_step_def bind_check_ok split: if_splits)

lemma announced_now:
  "effect_step now run name ''intent'' (ac_show (rp_journal J) v) j = Inr j' \<Longrightarrow> announced J run name v j'"
  using effect_step_adds[of now run name "''intent''" "ac_show (rp_journal J) v" j j'] by (auto simp: announced_def)

lemma announced_stays:
  "effect_step now run name status payload j = Inr j' \<Longrightarrow> announced J run' name' v j \<Longrightarrow> announced J run' name' v j'"
  using effect_step_adds[of now run name status payload j j'] by (auto simp: announced_def)

lemma quarantine_move_outcome:
  assumes "quarantine_move J performed now run t b (m, j) = (res, (m', j'))"
  shows "m' = m \<and> (\<exists>e. res = Inl e)
    \<or> (rename_entry performed (qt_target t) b m = Some m'
       \<and> announced J run ''quarantine_exact_runtime_entry'' (quarantine_intent t b) j'
       \<and> (\<forall>out. res = Inr out \<longrightarrow> out = quarantine_output t b \<and> isolated m' t b = Inr True))"
  using assms
  by (auto simp: quarantine_move_def andthen_result journal_step_iff move_iff split: if_splits
      dest!: announced_now intro: announced_stays)

lemma quarantine_outcome:
  assumes "quarantine J performed now run t (m, j) = (res, (m', j'))"
  shows "m' = m \<and> (\<exists>e. res = Inl e)
    \<or> (\<exists>name b. file_name (qt_target t) = Some name \<and> b = quarantine_path (qt_target t) name run
         \<and> inspect J now m (qt_root t) (qt_kind t) (qt_source_error_path t) (qt_source_version t) = Inr t
         \<and> entry_exists m b = Inr False \<and> rename_entry performed (qt_target t) b m = Some m'
         \<and> announced J run ''quarantine_exact_runtime_entry'' (quarantine_intent t b) j'
         \<and> (\<forall>out. res = Inr out \<longrightarrow> out = quarantine_output t b \<and> isolated m' t b = Inr True))"
  using assms
  by (auto simp: quarantine_def andthen_result split: if_splits option.splits dest!: quarantine_move_outcome)

lemma restore_outcome:
  assumes "restore J performed now run prior (m, j) = (res, (m', j'))"
  shows "m' = m \<and> (\<exists>e. res = Inl e)
    \<or> (\<exists>original b kind expected dig. restore_checks J m prior = Inr (original, b, kind, expected, dig)
         \<and> rename_entry performed b original m = Some m'
         \<and> announced J run ''restore_quarantine'' (restore_intent original b) j'
         \<and> (\<forall>out. res = Inr out \<longrightarrow> out = restore_output \<and> restored J m' original b kind expected dig = Inr True))"
  using assms
  by (auto simp: restore_def andthen_result journal_step_iff move_iff split: if_splits prod.splits
      dest!: announced_now intro: announced_stays)

section \<open>Where the entry goes\<close>

lemma lexical_rooted: "validate_lexical (Some t) = Inr u \<Longrightarrow> drive_rooted t"
  by (auto simp: validate_lexical_def check_simps)

lemma local_existing_rooted: "local_existing W (Some t) = Inr u \<Longrightarrow> drive_rooted t"
  by (auto simp: local_existing_def check_simps dest: lexical_rooted)

lemma path_identity_ok:
  "path_identity m t = Inr d \<longleftrightarrow> local_existing (machine_os m) (Some t) = Inr ()
     \<and> (\<exists>i. item_at m t = Some i \<and> it_identity i = Some d \<and> and (md_attributes (it_meta i)) 0x400 = 0)"
  by (auto simp: path_identity_def check_simps split: option.splits if_splits)

lemma inspect_facts:
  assumes "inspect J now m root kind error version = Inr t"
  shows "stopped m kind = Inr ()" "repair_target m root kind = Inr (qt_target t)" "qt_kind t = kind"
    "target_digest J m (qt_target t) kind = Inr (qt_content_digest t)"
    "path_identity m (qt_target t) = Inr (qt_identity t)"
    "observed_error J now m error kind = Inr (qt_source_error_sha256 t, qt_error_observed_at t)"
  using assms by (auto simp: inspect_def check_simps)

lemma file_name_nonempty: "file_name t = Some n \<Longrightarrow> component_names t \<noteq> []"
  by (auto simp: file_name_def)

lemma path_components_beside:
  assumes "drive_rooted t" "file_name t = Some name" "list_all (\<lambda>x. \<not> is_path_sep x) run"
  obtains base where "path_components t = base @ [name]"
    "path_components (quarantine_path t name run) = base @ [name @ ''.workstation-quarantine-'' @ run]"
proof -
  note q = quarantine_path_names[OF assms(1) file_name_nonempty[OF assms(2)] assms(2,3)]
  have "take 2 (quarantine_path t name run) = take 2 t"
    using arg_cong[OF q(2), of "take 2"] by simp
  moreover have "component_names t = butlast (component_names t) @ [name]"
    using q(3) file_name_nonempty[OF assms(2)] by (metis append_butlast_last_id)
  ultimately show ?thesis
    using q(4) by (intro that[of "take 2 t # [backslash] # butlast (component_names t)"])
      (simp_all add: path_components_def)
qed

lemma beside_apart:
  "\<not> prefix (base @ [a]) (base @ [a @ c # d])" "\<not> prefix (base @ [a @ c # d]) (base @ [a])"
  by simp_all

text \<open>The machine after the rename of a quarantine, and after it is renamed back.\<close>

lemma quarantine_geometry:
  assumes "inspect J now m root kind error version = Inr t" "file_name (qt_target t) = Some name"
    and "list_all (\<lambda>x. \<not> is_path_sep x) run" "grounded m"
    and "b = quarantine_path (qt_target t) name run" "entry_exists m b = Inr False"
    and "rename_entry performed (qt_target t) b m = Some m'"
  shows "m' = m\<lparr>mc_items := mc_items m'\<rparr>" "item_at m' (qt_target t) = None" "item_at m' b = item_at m (qt_target t)"
    "item_at m b = None" "\<And>x i. mc_items m x = Some i \<Longrightarrow> \<exists>y. mc_items m' y = Some i"
    "\<And>x. \<not> prefix (path_components (qt_target t)) x \<Longrightarrow> \<not> prefix (path_components b) x \<Longrightarrow> mc_items m' x = mc_items m x"
    "rename_items (path_components b) (path_components (qt_target t)) (mc_items m') = mc_items m"
proof -
  have "drive_rooted (qt_target t)"
    using inspect_facts(5)[OF assms(1)] by (auto simp: path_identity_ok dest: local_existing_rooted)
  from path_components_beside[OF this assms(2,3)] obtain base where
    p: "path_components (qt_target t) = base @ [name]"
    and q: "path_components b = base @ [name @ ''.workstation-quarantine-'' @ run]"
    unfolding assms(5) by metis
  have b: "mc_items m (path_components b) = None"
    using assms(6) by (simp add: entry_exists_def item_at_def split: if_splits)
  have below: "mc_items m (path_components b @ z) = None" for z by (rule grounded_below[OF assms(4) b])
  have m': "m' = m\<lparr>mc_items := rename_items (path_components (qt_target t)) (path_components b) (mc_items m)\<rparr>"
    using assms(7) by (simp add: rename_entry_def split: if_splits)
  show "m' = m\<lparr>mc_items := mc_items m'\<rparr>" by (simp add: m')
  show "item_at m' (qt_target t) = None" by (simp add: m' item_at_def p q rename_source)
  show "item_at m' b = item_at m (qt_target t)"
    using rename_target[of _ "path_components b" _ "[]"] by (simp add: m' item_at_def)
  show "item_at m b = None" using b by (simp add: item_at_def)
  show "\<exists>y. mc_items m' y = Some i" if "mc_items m x = Some i" for x i
    using rename_loses_nothing[OF below that] by (simp add: m')
  show "mc_items m' x = mc_items m x"
    if "\<not> prefix (path_components (qt_target t)) x" "\<not> prefix (path_components b) x" for x
    using that by (simp add: m' rename_items_def)
  show "rename_items (path_components b) (path_components (qt_target t)) (mc_items m') = mc_items m"
    using rename_inverse[of "path_components (qt_target t)" "path_components b" "mc_items m"] below
    by (simp add: m' p q)
qed

text \<open>
  C6: A repair that changes the machine has announced the rename in the effect journal, found no
  process of the application and an error file whose text matches and is at most five minutes old; it
  changes nothing but the target and its quarantine name, and no item is lost, also when a later step
  fails. When it reports success the target is gone and stands, the same item, under the quarantine name.
\<close>

theorem quarantine_is_announced_and_lossless:
  assumes "quarantine J performed now run t (m, j) = (res, (m', j'))" "m' \<noteq> m"
    and "grounded m" "list_all (\<lambda>x. \<not> is_path_sep x) run"
  shows "\<exists>name. file_name (qt_target t) = Some name
    \<and> announced J run ''quarantine_exact_runtime_entry''
        (quarantine_intent t (quarantine_path (qt_target t) name run)) j'
    \<and> stopped m (qt_kind t) = Inr ()
    \<and> (\<exists>e text. item_at m (qt_source_error_path t) = Some e \<and> it_bytes e = Some text
         \<and> error_fingerprint (qt_kind t) (rp_lossy_lower J text) \<and> now - qt_error_observed_at t \<le> 300)
    \<and> (\<forall>x i. mc_items m x = Some i \<longrightarrow> (\<exists>y. mc_items m' y = Some i))
    \<and> (\<forall>x. mc_items m' x = mc_items m x \<or> prefix (path_components (qt_target t)) x
         \<or> prefix (path_components (quarantine_path (qt_target t) name run)) x)
    \<and> (\<forall>out. res = Inr out \<longrightarrow> item_at m' (qt_target t) = None
         \<and> item_at m' (quarantine_path (qt_target t) name run) = item_at m (qt_target t))"
proof -
  from quarantine_outcome[OF assms(1)] assms(2) obtain name b where
    q: "file_name (qt_target t) = Some name" "b = quarantine_path (qt_target t) name run"
      "inspect J now m (qt_root t) (qt_kind t) (qt_source_error_path t) (qt_source_version t) = Inr t"
      "entry_exists m b = Inr False" "rename_entry performed (qt_target t) b m = Some m'"
      "announced J run ''quarantine_exact_runtime_entry'' (quarantine_intent t b) j'"
    by blast
  note g = quarantine_geometry[OF q(3,1) assms(4,3) q(2,4,5)]
  have "\<exists>e text. item_at m (qt_source_error_path t) = Some e \<and> it_bytes e = Some text
         \<and> error_fingerprint (qt_kind t) (rp_lossy_lower J text) \<and> now - qt_error_observed_at t \<le> 300"
    using inspect_facts(6)[OF q(3)]
    by (auto simp: observed_error_def check_simps split: if_splits option.splits)
  then show ?thesis
    using q(1,2,6) inspect_facts(1)[OF q(3)] g(2,3,5,6) by blast
qed

section \<open>Undoing\<close>

lemma same_parent_beside:
  assumes "drive_rooted t" "file_name t = Some name" "list_all (\<lambda>x. \<not> is_path_sep x) run"
  shows "same_parent t (quarantine_path t name run)"
    "file_name (quarantine_path t name run) = Some (name @ ''.workstation-quarantine-'' @ run)"
proof -
  note q = quarantine_path_names[OF assms(1) file_name_nonempty[OF assms(2)] assms(2,3)]
  have "hd (quarantine_path t name run) = hd t"
    using arg_cong[OF q(2), of hd] by (cases t; cases "quarantine_path t name run") simp_all
  then show "same_parent t (quarantine_path t name run)"
    using q(1,4) assms(1) file_name_nonempty[OF assms(2)] by (simp add: same_parent_def path_id_def)
  have "name @ ''.workstation-quarantine-'' @ run \<noteq> ''..''" by (cases name) auto
  then show "file_name (quarantine_path t name run) = Some (name @ ''.workstation-quarantine-'' @ run)"
    using q(4) by (simp add: file_name_def)
qed

lemma str_contains_mid: "str_contains (a @ s @ b) s"
  by (auto simp: str_contains_sublist)

lemma target_digest_moved:
  assumes "target_digest J m t kind = Inr d" "item_at m' b = item_at m t"
    "local_existing (machine_os m') (Some b) = Inr ()" "\<not> mc_hidden m' (path_components b)"
  shows "target_digest J m' b kind = Inr d"
proof (cases "kind = CodexAttachmentRegistry")
  case True
  then show ?thesis using assms by (simp add: target_digest_def check_simps)
next
  case False
  have md: "\<exists>i. item_at m t = Some i \<and> md_type (it_meta i) = PlainDir"
    using assms(1) False
    by (auto simp: target_digest_def directory_def machine_os_def item_at_def check_simps
        split: if_splits option.splits)
  have "directory (machine_os m') (Some b) = Inr ()"
    using md assms(2-4) by (auto simp: directory_def machine_os_def item_at_def check_simps)
  moreover have "socket_entries m' b = socket_entries m t" using assms(2) by (simp add: socket_entries_def)
  ultimately show ?thesis using assms(1) False by (simp add: target_digest_def check_simps)
qed

lemma entry_exists_false: "entry_exists m t = Inr False \<longleftrightarrow> \<not> mc_hidden m (path_components t) \<and> item_at m t = None"
  by (simp add: entry_exists_def)

lemma local_existing_visible:
  assumes "path_identity m t = Inr d"
  shows "\<not> mc_hidden m (path_components t)"
proof -
  have r: "local_existing (machine_os m) (Some t) = Inr ()" using assms by (simp add: path_identity_ok)
  have walk: "walk_components md cur cs = Inr u \<Longrightarrow> cs \<noteq> [] \<Longrightarrow> md (cur @ cs) \<noteq> None" for md cur cs u
  proof (induction md cur cs rule: walk_components.induct)
    case (2 md cur c cs)
    then show ?case by (cases cs) (auto split: option.splits if_splits)
  qed simp
  have "walk_components (at_metadata (machine_os m) 0) [take 2 t] (tl (path_components t)) = Inr ()"
    using r by (auto simp: local_existing_def check_simps)
  then have "at_metadata (machine_os m) 0 ([take 2 t] @ tl (path_components t)) \<noteq> None"
    by (rule walk) (simp add: path_components_def)
  then show ?thesis by (simp add: machine_os_def path_components_def split: if_splits)
qed

lemma restore_checks_pass:
  assumes "inspect J now m root kind error version = Inr t" "file_name (qt_target t) = Some name"
    and "list_all (\<lambda>x. \<not> is_path_sep x) run" "b = quarantine_path (qt_target t) name run"
    and "\<not> mc_hidden m (path_components b)" "m' = m\<lparr>mc_items := d, mc_env := env, mc_processes := ps\<rparr>"
    and "item_at m' (qt_target t) = None" "item_at m' b = item_at m (qt_target t)"
    and "path_identity m' b = Inr (qt_identity t)" "stopped m' kind = Inr ()"
  shows "restore_checks J m' (quarantine_output t b) = Inr (qt_target t, b, kind, qt_identity t, qt_content_digest t)"
proof -
  note f = inspect_facts[OF assms(1)]
  have le: "local_existing (machine_os m) (Some (qt_target t)) = Inr ()" using f(5) by (simp add: path_identity_ok)
  have lx: "validate_lexical (Some (qt_target t)) = Inr ()" using le by (auto simp: local_existing_def check_simps)
  have leb: "local_existing (machine_os m') (Some b) = Inr ()" using assms(9) by (simp add: path_identity_ok)
  note beside = same_parent_beside[OF lexical_rooted[OF lx] assms(2,3), folded assms(4)]
  have hid: "\<not> mc_hidden m' (path_components b)" using assms(5,6) by simp
  note td = target_digest_moved[OF f(4) assms(8) leb hid]
  have ex: "entry_exists m' (qt_target t) = Inr False"
    using local_existing_visible[OF f(5)] assms(6,7) by (simp add: entry_exists_false)
  have k: "repair_kind_of (repair_kind_str (qt_kind t)) = Some kind"
    using f(3) by (cases kind) (simp_all add: repair_kind_str_def repair_kind_of_def)
  show ?thesis
    using lx leb beside td ex assms(9,10) k str_contains_mid[of name "''.workstation-quarantine-''" run]
    by (simp add: restore_checks_def quarantine_output_def json_str_at_def)
qed

lemma step_goes:
  assumes "find_run j run = Some r" "jr_state r = ''running''" "control_text name 128 = Inr ()"
    and "length (ac_show (rp_journal J) v) \<le> 32768" "status \<in> set [''intent'', ''completed'']"
  shows "\<exists>j'. effect_step now run name status (ac_show (rp_journal J) v) j = Inr j' \<and> find_run j' run = Some r"
  using assms by (auto simp: effect_step_def find_run_def check_simps)

text \<open>
  C5: A completed quarantine can be undone: while nothing else moved the two names and the application
  is stopped, restoring from its receipt, in any other execution that is running, succeeds and leaves every
  item where it was before the quarantine. The two journal entries of the restore, its intent with the two paths
  and its fixed output, must print within the 32768 bytes of an entry.
\<close>

theorem quarantine_then_restore_is_identity:
  assumes "quarantine J True now run t (m, j) = (Inr out, (m', j'))" "grounded m"
    and "list_all (\<lambda>x. \<not> is_path_sep x) run"
    and "m2 = m'\<lparr>mc_env := env, mc_processes := ps\<rparr>" "stopped m2 (qt_kind t) = Inr ()"
    and "find_run j2 run2 = Some r" "jr_state r = ''running''"
    and "\<forall>b. json_str_at out ''quarantine'' = Some b
      \<longrightarrow> length (ac_show (rp_journal J) (restore_intent (qt_target t) b)) \<le> 32768"
    and "length (ac_show (rp_journal J) restore_output) \<le> 32768"
  shows "\<exists>m3 j3. restore J True now2 run2 out (m2, j2) = (Inr restore_output, (m3, j3))
    \<and> mc_items m3 = mc_items m"
proof -
  from quarantine_outcome[OF assms(1)] obtain name b where
    q: "file_name (qt_target t) = Some name" "b = quarantine_path (qt_target t) name run"
      "inspect J now m (qt_root t) (qt_kind t) (qt_source_error_path t) (qt_source_version t) = Inr t"
      "entry_exists m b = Inr False" "rename_entry True (qt_target t) b m = Some m'"
      "out = quarantine_output t b" "isolated m' t b = Inr True"
    by blast
  have fits: "length (ac_show (rp_journal J) (restore_intent (qt_target t) b)) \<le> 32768"
    using assms(8) by (simp add: q(6) quarantine_output_def json_str_at_def)
  note g = quarantine_geometry[OF q(3,1) assms(3,2) q(2,4,5)]
  have visible: "\<not> mc_hidden m (path_components b)" using q(4) by (simp add: entry_exists_false)
  have m2: "m2 = m\<lparr>mc_items := mc_items m', mc_env := env, mc_processes := ps\<rparr>"
    unfolding assms(4) by (subst g(1)) simp
  have os: "machine_os m2 = machine_os m'" "item_at m2 = item_at m'"
    by (simp_all add: machine_os_def item_at_def[abs_def] assms(4) cong: if_cong)
  have "path_identity m' b = Inr (qt_identity t)"
    using q(7) by (auto simp: isolated_def check_simps split: if_splits)
  then have b2: "path_identity m2 b = Inr (qt_identity t)"
    unfolding path_identity_def os .
  have chk: "restore_checks J m2 out = Inr (qt_target t, b, qt_kind t, qt_identity t, qt_content_digest t)"
    unfolding q(6)
    by (rule restore_checks_pass[OF q(3,1) assms(3) q(2) visible m2 _ _ b2 assms(5)]) (simp_all add: os g(2,3))
  define m3 where "m3 = m2\<lparr>mc_items := mc_items m\<rparr>"
  have moved: "rename_entry True b (qt_target t) m2 = Some m3"
  proof -
    have "item_at m2 b \<noteq> None" using g(3) inspect_facts(5)[OF q(3)] by (auto simp: os path_identity_ok)
    moreover have "mc_items m2 = mc_items m'" by (simp add: m2)
    ultimately show ?thesis using g(7) by (simp add: rename_entry_def m3_def)
  qed
  have m3: "machine_os m3 = machine_os m" "item_at m3 = item_at m" "mc_hidden m3 = mc_hidden m"
    by (simp_all add: m3_def m2 machine_os_def item_at_def[abs_def] cong: if_cong)
  have id3: "path_identity m3 (qt_target t) = Inr (qt_identity t)"
    using inspect_facts(5)[OF q(3)] unfolding path_identity_def m3 .
  have "restored J m3 (qt_target t) b (qt_kind t) (qt_identity t) (qt_content_digest t) = Inr True"
  proof -
    have "target_digest J m3 (qt_target t) (qt_kind t) = Inr (qt_content_digest t)"
      using target_digest_moved[OF inspect_facts(4)[OF q(3)], of m3 "qt_target t"] id3
        local_existing_visible[OF id3] by (simp add: m3(2) path_identity_ok)
    then show ?thesis
      using id3 visible g(4) by (simp add: restored_def entry_exists_def m3)
  qed
  moreover obtain ja where ja: "effect_step now2 run2 ''restore_quarantine'' ''intent''
      (ac_show (rp_journal J) (restore_intent (qt_target t) b)) j2 = Inr ja" "find_run ja run2 = Some r"
    using step_goes[OF assms(6,7) _ fits, of "''restore_quarantine''" "''intent''" now2]
    by (auto simp: text_eval)
  moreover obtain jb where "effect_step now2 run2 ''restore_quarantine'' ''completed''
      (ac_show (rp_journal J) restore_output) ja = Inr jb"
    using step_goes[OF ja(2) assms(7) _ assms(9), of "''restore_quarantine''" "''completed''" now2]
    by (auto simp: text_eval)
  ultimately have "restore J True now2 run2 out (m2, j2) = (Inr restore_output, (m3, jb))"
    using chk moved by (simp add: restore_def andthen_def journal_effect_step_def move_entry_def pass_def)
  then show ?thesis by (auto simp: m3_def)
qed

text \<open>What a restore does to the machine, whatever receipt it is given.\<close>

lemma restore_never_overwrites:
  assumes "restore J performed now run prior (m, j) = (res, (m', j'))" "m' \<noteq> m" "grounded m"
  shows "\<exists>original b kind identity dig. json_str_at prior ''original'' = Some original
    \<and> json_str_at prior ''quarantine'' = Some b \<and> same_parent original b \<and> item_at m original = None
    \<and> path_identity m b = Inr identity \<and> json_str_at prior ''quarantine_identity'' = Some identity
    \<and> target_digest J m b kind = Inr dig \<and> json_str_at prior ''content_digest'' = Some dig
    \<and> announced J run ''restore_quarantine'' (restore_intent original b) j'
    \<and> (\<forall>x i. mc_items m x = Some i \<longrightarrow> (\<exists>y. mc_items m' y = Some i))"
proof -
  from restore_outcome[OF assms(1)] assms(2) obtain original b kind expected dig where
    q: "restore_checks J m prior = Inr (original, b, kind, expected, dig)"
      "rename_entry performed b original m = Some m'"
      "announced J run ''restore_quarantine'' (restore_intent original b) j'"
    by blast
  have c: "json_str_at prior ''original'' = Some original" "json_str_at prior ''quarantine'' = Some b"
    "same_parent original b" "item_at m original = None" "path_identity m b = Inr expected"
    "json_str_at prior ''quarantine_identity'' = Some expected" "target_digest J m b kind = Inr dig"
    "json_str_at prior ''content_digest'' = Some dig"
    using q(1) by (auto simp: restore_checks_def check_simps entry_exists_def split: if_splits)
  have "mc_items m (path_components original @ z) = None" for z
    using grounded_below[OF assms(3)] c(4) by (simp add: item_at_def)
  moreover have "mc_items m' = rename_items (path_components b) (path_components original) (mc_items m)"
    using q(2) by (auto simp: rename_entry_def split: if_splits)
  ultimately have "\<exists>y. mc_items m' y = Some i" if "mc_items m x = Some i" for x i
    using rename_loses_nothing[of "mc_items m" "path_components original" x i "path_components b"] that by simp
  then show ?thesis using c q(3) by blast
qed

section \<open>A machine with a broken registry\<close>

definition sample_path :: "string list \<Rightarrow> string" where
  "sample_path ns = ''C:'' @ concat (map (\<lambda>n. backslash # n) ns)"

definition plain_item :: "file_type \<Rightarrow> string \<Rightarrow> string \<Rightarrow> item" where
  "plain_item ty i b = \<lparr>it_meta = \<lparr>md_type = ty, md_attributes = 32, md_len = length b\<rparr>, it_identity = Some i,
     it_modified = Some 1000, it_bytes = Some b, it_rows = None\<rparr>"

definition sample_items :: "(path_buf \<times> item) list" where
  "sample_items =
     [([], plain_item PlainDir ''0'' []),
      ([''C:''], plain_item PlainDir ''1'' []),
      ([''C:'', [backslash]], plain_item PlainDir ''2'' []),
      ([''C:'', [backslash], ''u''], plain_item PlainDir ''3'' []),
      ([''C:'', [backslash], ''u'', ''attachments''], plain_item PlainDir ''4'' []),
      ([''C:'', [backslash], ''u'', ''attachments'', ''pasted-text-attachments.json''], plain_item PlainFile ''5'' ''{''),
      ([''C:'', [backslash], ''u'', ''e''], plain_item PlainFile ''6'' ''pasted-text json'')]"

definition sample_machine :: machine where
  "sample_machine = \<lparr>mc_items = map_of sample_items, mc_hidden = \<lambda>p. False,
     mc_env = (\<lambda>k. if k = ''CODEX_HOME'' then Some (sample_path [''u'']) else None),
     mc_processes = Some ([''explorer.exe''], True), mc_volume = \<lambda>t. Some (take 3 t),
     mc_drive_type = \<lambda>v. 3, mc_file_system = \<lambda>v. Some ''NTFS''\<rparr>"

text \<open>A printer of JSON texts without control characters.\<close>

definition print_string :: "string \<Rightarrow> string" where
  "print_string s = [(CHR 0x22)] @ concat (map (\<lambda>c. if c = (CHR 0x22) \<or> c = backslash then [backslash, c] else [c]) s) @ [(CHR 0x22)]"

fun join_comma :: "string list \<Rightarrow> string" where
  "join_comma [] = []"
| "join_comma [x] = x"
| "join_comma (x # y # xs) = x @ '','' @ join_comma (y # xs)"

fun print_json :: "('n \<Rightarrow> string) \<Rightarrow> 'n json \<Rightarrow> string" where
  "print_json f JNull = ''null''"
| "print_json f (JBool b) = (if b then ''true'' else ''false'')"
| "print_json f (JNum n) = f n"
| "print_json f (JStr s) = print_string s"
| "print_json f (JArr vs) = ''['' @ join_comma (map (print_json f) vs) @ '']''"
| "print_json f (JObj kvs) = ''{'' @ join_comma (map (\<lambda>(k, v). print_string k @ '':'' @ print_json f v) kvs) @ ''}''"

text \<open>An upper bound of what it prints.\<close>

fun print_bound :: "('n \<Rightarrow> string) \<Rightarrow> 'n json \<Rightarrow> nat" where
  "print_bound f (JNum n) = length (f n)"
| "print_bound f (JStr s) = 2 * length s + 2"
| "print_bound f (JArr vs) = sum_list (map (\<lambda>v. print_bound f v + 1) vs) + 2"
| "print_bound f (JObj kvs) = sum_list (map (\<lambda>(k, v). 2 * length k + 4 + print_bound f v) kvs) + 2"
| "print_bound _ _ = 5"

lemma print_string_bound: "length (print_string s) \<le> 2 * length s + 2"
  by (induction s) (auto simp: print_string_def)

lemma join_comma_bound: "length (join_comma xs) \<le> sum_list (map (\<lambda>x. length x + 1) xs)"
  by (induction xs rule: join_comma.induct) simp_all

lemma print_json_bound: "length (print_json f v) \<le> print_bound f v"
proof (induction f v rule: print_bound.induct)
  case (3 f vs)
  have "sum_list (map (\<lambda>v. length (print_json f v) + 1) vs) \<le> sum_list (map (\<lambda>v. print_bound f v + 1) vs)"
    by (rule sum_list_mono) (use 3 in simp)
  then show ?case using join_comma_bound[of "map (print_json f) vs"] by (simp add: comp_def)
next
  case (4 f kvs)
  have "length (print_string k @ '':'' @ print_json f v) + 1 \<le> 2 * length k + 4 + print_bound f v" if "(k, v) \<in> set kvs" for k v
    using 4[OF that refl] print_string_bound[of k] by simp
  then have "sum_list (map (\<lambda>(k, v). length (print_string k @ '':'' @ print_json f v) + 1) kvs)
      \<le> sum_list (map (\<lambda>(k, v). 2 * length k + 4 + print_bound f v) kvs)"
    by (intro sum_list_mono) auto
  then show ?case using join_comma_bound[of "map (\<lambda>(k, v). print_string k @ '':'' @ print_json f v) kvs"]
    by (simp add: comp_def case_prod_unfold)
qed (use print_string_bound in auto)

definition sample_codec2 :: repair_codec where
  "sample_codec2 = \<lparr>rp_journal = \<lparr>ac_parse = \<lambda>t. None, ac_show = print_json show_int, ac_sha = \<lambda>t. ''d'', ac_entries_text = \<lambda>e. [],
       ac_entry_len = \<lambda>e. 0, ac_pack_text = \<lambda>p. [], ac_read_pack = \<lambda>t. None\<rparr>,
     rp_lossy_lower = to_ascii_lowercase, rp_rows_text = \<lambda>rs. []\<rparr>"

definition sample_quarantine :: quarantine_target where
  "sample_quarantine = \<lparr>qt_kind = CodexAttachmentRegistry, qt_root = sample_path [''u''],
     qt_target = sample_path [''u'', ''attachments'', ''pasted-text-attachments.json''], qt_identity = ''5'',
     qt_content_digest = ''d'', qt_source_version = ''v'', qt_source_error_path = sample_path [''u'', ''e''],
     qt_source_error_sha256 = ''d'', qt_error_observed_at = 1000, qt_original_exists = True\<rparr>"

definition sample_journal :: "string \<Rightarrow> journal" where
  "sample_journal run = \<lparr>jo_version = 5, jo_projects = [], jo_environments = [], jo_plans = [],
     jo_runs = [\<lparr>jr_id = run, jr_plan = [], jr_state = ''running'', jr_started = 0, jr_finished = None,
       jr_error = None, jr_receipt = None\<rparr>], jo_steps = [], jo_archives = [], jo_refs = [], jo_files = []\<rparr>"

lemma grounded_list:
  assumes "mc_items m = map_of L" "list_all (\<lambda>k. k = [] \<or> butlast k \<in> set (map fst L)) (map fst L)"
  shows "grounded m"
  unfolding grounded_def
proof (intro allI impI)
  fix p x
  assume "mc_items m (p @ [x]) \<noteq> None"
  then have "p @ [x] \<in> set (map fst L)" using assms(1) by (simp add: map_of_eq_None_iff)
  then have "p @ [x] = [] \<or> butlast (p @ [x]) \<in> set (map fst L)"
    using assms(2) unfolding list_all_iff by blast
  then show "mc_items m p \<noteq> None" using assms(1) by (simp add: map_of_eq_None_iff)
qed

lemma sample_grounded: "grounded sample_machine"
proof (rule grounded_list)
  show "mc_items sample_machine = map_of sample_items" by (simp add: sample_machine_def)
qed (simp add: sample_items_def)

lemma sample_path_admitted:
  assumes "ns \<noteq> []" "list_all (\<lambda>n. n \<noteq> [] \<and> n \<noteq> ''.'' \<and> n \<noteq> ''..'' \<and> last n \<noteq> CHR ''.'' \<and> last n \<noteq> CHR '' ''
      \<and> list_all (\<lambda>c. is_ascii c \<and> \<not> is_path_sep c \<and> c \<noteq> CHR '':'' \<and> 32 \<le> byte c \<and> byte c < 127) n) ns"
    and "length (sample_path ns) \<le> 16384"
  shows "drive_rooted (sample_path ns)" "component_names (sample_path ns) = ns"
    "validate_lexical (Some (sample_path ns)) = Inr ()" "path_components (sample_path ns) = ''C:'' # [backslash] # ns"
proof -
  show dr: "drive_rooted (sample_path ns)"
    using assms(1) by (cases ns) (simp_all add: sample_path_def drive_rooted_def has_drive_def is_path_sep_def
      backslash_def is_ascii_alphabetic_def ascii_class_defs)
  have names: "all_names (s @ concat (map (\<lambda>n. backslash # n) ns)) = all_names s @ ns" for s
    using assms(2)
  proof (induction ns arbitrary: s)
    case (Cons n ns)
    have "all_names (s @ backslash # n) = all_names s @ [n]"
      using all_names_add[of backslash n s] Cons.prems by (simp add: is_path_sep_def backslash_def list_all_iff)
    then show ?case using Cons.IH[of "s @ backslash # n"] Cons.prems by simp
  qed simp
  have "all_names (sample_path ns) = ''C:'' # ns"
    using names[of "''C:''"] by (simp add: sample_path_def all_names_def is_path_sep_def)
  then show cn: "component_names (sample_path ns) = ns" using all_names_rooted[OF dr] by simp
  show "path_components (sample_path ns) = ''C:'' # [backslash] # ns"
    by (simp add: path_components_def cn) (simp add: sample_path_def)
  have pc: "is_ascii c \<and> c \<noteq> CHR '':'' \<and> 32 \<le> byte c \<and> byte c < 127" if "n \<in> set ns" "c \<in> set n" for n c
    using assms(2) that unfolding list_all_iff by blast
  have cs: "c = CHR ''C'' \<or> c = CHR '':'' \<or> c = backslash \<or> (\<exists>n \<in> set ns. c \<in> set n)"
    if "c \<in> set (sample_path ns)" for c
    using that by (auto simp: sample_path_def split: if_splits)
  have "is_ascii c \<and> 32 \<le> byte c \<and> byte c < 127" if "c \<in> set (sample_path ns)" for c
    using cs[OF that] pc by (elim disjE bexE) (simp_all add: backslash_def is_ascii_def)
  then have ok: "\<forall>c \<in> set (sample_path ns). is_ascii c \<and> \<not> byte c < 32 \<and> \<not> 127 \<le> byte c"
    by (meson leD leI)
  then have "chars (sample_path ns) = map byte (sample_path ns)" by (simp add: chars_ascii list_all_iff)
  then have "\<not> list_ex is_control (chars (sample_path ns))"
    using ok by (auto simp: list_ex_iff is_control_def)
  moreover have "CHR '':'' \<notin> set (drop 2 (sample_path ns))"
  proof
    assume "CHR '':'' \<in> set (drop 2 (sample_path ns))"
    then have "CHR '':'' = backslash \<or> (\<exists>n \<in> set ns. CHR '':'' \<in> set n)"
      by (auto simp: sample_path_def split: if_splits)
    then show False using pc by (auto simp: backslash_def)
  qed
  moreover have "''..'' \<notin> set ns" "\<not> list_ex (\<lambda>n. last n = CHR ''.'' \<or> last n = CHR '' '') ns"
    using assms(2) by (auto simp: list_all_iff list_ex_iff)
  ultimately show "validate_lexical (Some (sample_path ns)) = Inr ()"
    using dr cn assms(3) by (simp add: validate_lexical_def is_absolute_def check_simps)
qed

lemma sample_paths:
  defines "ns \<equiv> [''u'', ''attachments'', ''pasted-text-attachments.json'']"
  shows "validate_lexical (Some (sample_path ns)) = Inr ()" "path_components (sample_path ns) = ''C:'' # [backslash] # ns"
    "component_names (sample_path ns) = ns" "drive_rooted (sample_path ns)"
    "validate_lexical (Some (sample_path [''u''])) = Inr ()" "path_components (sample_path [''u'']) = [''C:'', [backslash], ''u'']"
    "component_names (sample_path [''u'']) = [''u'']" "drive_rooted (sample_path [''u''])"
    "validate_lexical (Some (sample_path [''u'', ''e''])) = Inr ()"
    "path_components (sample_path [''u'', ''e'']) = [''C:'', [backslash], ''u'', ''e'']"
    "validate_lexical (Some (sample_path [''u'', ''attachments'', ''pasted-text-attachments.json.workstation-quarantine-r''])) = Inr ()"
    "path_components (sample_path [''u'', ''attachments'', ''pasted-text-attachments.json.workstation-quarantine-r''])
       = [''C:'', [backslash], ''u'', ''attachments'', ''pasted-text-attachments.json.workstation-quarantine-r'']"
  unfolding ns_def
  by (rule sample_path_admitted; simp add: is_ascii_def is_path_sep_def sample_path_def)+

lemma sample_items_at:
  "map_of sample_items [''C:''] = Some (plain_item PlainDir ''1'' [])"
  "map_of sample_items [''C:'', [backslash]] = Some (plain_item PlainDir ''2'' [])"
  "map_of sample_items [''C:'', [backslash], ''u''] = Some (plain_item PlainDir ''3'' [])"
  "map_of sample_items [''C:'', [backslash], ''u'', ''attachments''] = Some (plain_item PlainDir ''4'' [])"
  "map_of sample_items [''C:'', [backslash], ''u'', ''attachments'', ''pasted-text-attachments.json''] = Some (plain_item PlainFile ''5'' ''{'')"
  "map_of sample_items [''C:'', [backslash], ''u'', ''e''] = Some (plain_item PlainFile ''6'' ''pasted-text json'')"
  "map_of sample_items [''C:'', [backslash], ''u'', ''attachments'', ''pasted-text-attachments.json.workstation-quarantine-r''] = None"
  by (simp_all add: sample_items_def)

lemma plain_item_meta [simp]:
  "md_type (it_meta (plain_item ty i b)) = ty" "md_len (it_meta (plain_item ty i b)) = length b"
  "it_identity (plain_item ty i b) = Some i" "it_bytes (plain_item ty i b) = Some b"
  "it_modified (plain_item ty i b) = Some 1000" "md_attributes (it_meta (plain_item ty i b)) = 32"
  "is_redirect_or_placeholder (it_meta (plain_item ty i b)) = (ty = Symlink)"
  by (simp_all add: plain_item_def is_redirect_or_placeholder_def)

lemma sample_os_simps:
  "at_metadata (machine_os sample_machine) k p = map_option it_meta (map_of sample_items p)"
  "validate_local_ntfs (machine_os sample_machine) t = Inr ()"
  "item_at sample_machine t = map_of sample_items (path_components t)"
  by (simp_all add: machine_os_def sample_machine_def validate_local_ntfs_def item_at_def check_simps)

lemma sample_take: "take 2 (sample_path ns) = ''C:''"
  by (simp add: sample_path_def)

lemma sample_existing:
  "local_existing (machine_os sample_machine) (Some (sample_path [''u''])) = Inr ()"
  "local_existing (machine_os sample_machine) (Some (sample_path [''u'', ''e''])) = Inr ()"
  "local_existing (machine_os sample_machine) (Some (sample_path [''u'', ''attachments'', ''pasted-text-attachments.json''])) = Inr ()"
  by (simp_all add: local_existing_def sample_paths sample_os_simps sample_items_at sample_take)

lemma sample_inspect:
  "inspect sample_codec2 1100 sample_machine (sample_path [''u'']) CodexAttachmentRegistry (sample_path [''u'', ''e'']) ''v''
     = Inr sample_quarantine"
proof -
  have st: "stopped sample_machine CodexAttachmentRegistry = Inr ()"
    by (simp add: stopped_def sample_machine_def blocks_repair_def check_simps)
  have join: "join_path (join_path (sample_path [''u'']) ''attachments'') ''pasted-text-attachments.json''
      = sample_path [''u'', ''attachments'', ''pasted-text-attachments.json'']"
    by (simp add: join_path_def sample_path_def is_path_sep_def backslash_def)
  have tg: "repair_target sample_machine (sample_path [''u'']) CodexAttachmentRegistry
      = Inr (sample_path [''u'', ''attachments'', ''pasted-text-attachments.json''])"
    using sample_paths(6-8) sample_existing(1) sample_items_at(3) join
    by (simp add: repair_target_def directory_def sample_os_simps same_path_def path_id_def)
       (simp add: sample_machine_def same_path_def path_id_def)
  have ob: "observed_error sample_codec2 1100 sample_machine (sample_path [''u'', ''e'']) CodexAttachmentRegistry = Inr (''d'', 1000)"
    using sample_existing(2) sample_items_at(6) sample_paths(10)
    by (simp add: observed_error_def sample_os_simps MIB_def sample_codec2_def error_fingerprint_def text_eval ascii_class_defs)
  have td: "target_digest sample_codec2 sample_machine (sample_path [''u'', ''attachments'', ''pasted-text-attachments.json''])
      CodexAttachmentRegistry = Inr ''d''"
    using sample_existing(3) sample_items_at(5) sample_paths(2)
    by (simp add: target_digest_def sample_os_simps MIB_def sample_codec2_def)
  have pi: "path_identity sample_machine (sample_path [''u'', ''attachments'', ''pasted-text-attachments.json'']) = Inr ''5''"
    using sample_existing(3) sample_items_at(5) sample_paths(2)
    by (simp add: path_identity_def sample_os_simps)
  show ?thesis by (simp add: inspect_def st tg ob td pi sample_quarantine_def)
qed

section \<open>A quarantine of that machine\<close>

definition sample_from :: string where
  "sample_from = sample_path [''u'', ''attachments'', ''pasted-text-attachments.json'']"

definition sample_to :: string where
  "sample_to = sample_path [''u'', ''attachments'', ''pasted-text-attachments.json.workstation-quarantine-r'']"

lemma sample_names:
  "qt_target sample_quarantine = sample_from" "file_name sample_from = Some ''pasted-text-attachments.json''"
  "quarantine_path sample_from ''pasted-text-attachments.json'' ''r'' = sample_to"
  "path_components sample_from = [''C:'', [backslash], ''u'', ''attachments'', ''pasted-text-attachments.json'']"
  "path_components sample_to = [''C:'', [backslash], ''u'', ''attachments'', ''pasted-text-attachments.json.workstation-quarantine-r'']"
  using sample_paths(2,3,12)
  by (simp_all add: sample_quarantine_def sample_from_def sample_to_def file_name_def)
     (simp add: quarantine_path_def with_file_name_def parent_path_def join_path_def sample_path_def
        is_path_sep_def backslash_def Let_def)

lemma sample_before:
  "item_at sample_machine sample_from = Some (plain_item PlainFile ''5'' ''{'')"
  "entry_exists sample_machine sample_to = Inr False"
proof -
  show "item_at sample_machine sample_from = Some (plain_item PlainFile ''5'' ''{'')"
    using sample_items_at(5) by (simp only: sample_os_simps(3) sample_names)
  have "item_at sample_machine sample_to = None"
    using sample_items_at(7) by (simp only: sample_os_simps(3) sample_names)
  then show "entry_exists sample_machine sample_to = Inr False"
    by (simp add: entry_exists_def) (simp add: sample_machine_def)
qed

definition sample_moved :: machine where
  "sample_moved = the (rename_entry True sample_from sample_to sample_machine)"

lemma sample_rename: "rename_entry True sample_from sample_to sample_machine = Some sample_moved"
  using sample_before(1) by (simp add: rename_entry_def sample_moved_def)

lemma sample_run_plain: "list_all (\<lambda>x. \<not> is_path_sep x) ''r''"
  by (simp add: is_path_sep_def)

lemmas sample_geometry = quarantine_geometry[OF sample_inspect _ sample_run_plain sample_grounded, unfolded sample_names(1),
  OF sample_names(2) sample_names(3)[symmetric] sample_before(2) sample_rename]

lemma sample_moved_os:
  "at_metadata (machine_os sample_moved) 0 p = map_option it_meta (mc_items sample_moved p)"
  "validate_local_ntfs (machine_os sample_moved) t = Inr ()" "mc_hidden sample_moved p = False"
  "mc_processes sample_moved = mc_processes sample_machine" "mc_env sample_moved = mc_env sample_machine"
  by (subst sample_geometry(1), simp add: machine_os_def sample_machine_def validate_local_ntfs_def check_simps)+

lemma sample_moved_items:
  "length x < 5 \<Longrightarrow> mc_items sample_moved x = map_of sample_items x"
  "item_at sample_moved sample_to = Some (plain_item PlainFile ''5'' ''{'')"
proof -
  assume x: "length x < 5"
  then have "\<not> prefix (path_components sample_from) x" "\<not> prefix (path_components sample_to) x"
    using prefix_length_le[of _ x] by (fastforce simp: sample_names)+
  then show "mc_items sample_moved x = map_of sample_items x"
    using sample_geometry(6)[of x] by (simp add: sample_machine_def)
qed (use sample_geometry(3) sample_before in simp)

lemma sample_isolated: "isolated sample_moved sample_quarantine sample_to = Inr True"
proof -
  have "validate_lexical (Some sample_to) = Inr ()" "take 2 sample_to = ''C:''"
    using sample_paths(11) by (simp_all add: sample_to_def sample_take)
  then have "local_existing (machine_os sample_moved) (Some sample_to) = Inr ()"
    using sample_moved_items(2)
    by (simp add: local_existing_def sample_moved_os sample_names item_at_def sample_moved_items(1) sample_items_at)
  moreover have "entry_exists sample_moved sample_from = Inr False"
    using sample_geometry(2) sample_moved_os(3) by (simp add: entry_exists_def)
  ultimately show ?thesis
    using sample_moved_items(2) by (simp add: isolated_def sample_names path_identity_def) (simp add: sample_quarantine_def)
qed

lemma sample_journal_run:
  "find_run (sample_journal run) run = Some (hd (jo_runs (sample_journal run)))"
  "jr_state (hd (jo_runs (sample_journal run))) = ''running''"
  by (simp_all add: find_run_def sample_journal_def)

lemma sample_prints:
  "length (ac_show (rp_journal sample_codec2) (quarantine_intent sample_quarantine sample_to)) \<le> 32768"
  "length (ac_show (rp_journal sample_codec2) (quarantine_output sample_quarantine sample_to)) \<le> 32768"
  "length (ac_show (rp_journal sample_codec2) (restore_intent sample_from sample_to)) \<le> 32768"
  "length (ac_show (rp_journal sample_codec2) restore_output) \<le> 32768"
  using print_json_bound[of show_int "quarantine_intent sample_quarantine sample_to"] print_json_bound[of show_int "quarantine_output sample_quarantine sample_to"]
    print_json_bound[of show_int "restore_intent sample_from sample_to"] print_json_bound[of show_int restore_output]
  by (simp_all add: sample_codec2_def quarantine_intent_def quarantine_output_def restore_intent_def restore_output_def
      sample_quarantine_def sample_from_def sample_to_def sample_path_def repair_kind_str_def)

lemma sample_quarantine_run:
  "\<exists>j'. quarantine sample_codec2 True 1100 ''r'' sample_quarantine (sample_machine, sample_journal ''r'')
    = (Inr (quarantine_output sample_quarantine sample_to), (sample_moved, j'))"
proof -
  have tx: "control_text ''quarantine_exact_runtime_entry'' 128 = Inr ()" by (simp add: text_eval)
  obtain j1 where j1: "effect_step 1100 ''r'' ''quarantine_exact_runtime_entry'' ''intent''
      (ac_show (rp_journal sample_codec2) (quarantine_intent sample_quarantine sample_to)) (sample_journal ''r'') = Inr j1"
      "find_run j1 ''r'' = Some (hd (jo_runs (sample_journal ''r'')))"
    using step_goes[where status = "''intent''" and now = 1100, OF sample_journal_run(1,2) tx sample_prints(1)]
    by auto
  obtain j2 where j2: "effect_step 1100 ''r'' ''quarantine_exact_runtime_entry'' ''completed''
      (ac_show (rp_journal sample_codec2) (quarantine_output sample_quarantine sample_to)) j1 = Inr j2"
    using step_goes[where status = "''completed''" and now = 1100, OF j1(2) sample_journal_run(2) tx sample_prints(2)]
    by auto
  have mv: "quarantine_move sample_codec2 True 1100 ''r'' sample_quarantine sample_to (sample_machine, sample_journal ''r'')
      = (Inr (quarantine_output sample_quarantine sample_to), (sample_moved, j2))"
    by (simp add: quarantine_move_def andthen_def journal_effect_step_def move_entry_def pass_def j1(1) j2 sample_names
        sample_rename sample_isolated)
  have sel: "qt_root sample_quarantine = sample_path [''u'']" "qt_kind sample_quarantine = CodexAttachmentRegistry"
    "qt_source_error_path sample_quarantine = sample_path [''u'', ''e'']" "qt_source_version sample_quarantine = ''v''"
    by (simp_all add: sample_quarantine_def)
  have "quarantine sample_codec2 True 1100 ''r'' sample_quarantine (sample_machine, sample_journal ''r'')
      = (Inr (quarantine_output sample_quarantine sample_to), (sample_moved, j2))"
    by (simp add: quarantine_def andthen_def sel sample_inspect sample_names sample_before mv)
  then show ?thesis by blast
qed

theorem quarantine_is_announced_and_lossless_witness:
  "\<exists>j'. announced sample_codec2 ''r'' ''quarantine_exact_runtime_entry'' (quarantine_intent sample_quarantine sample_to) j'
    \<and> item_at sample_moved sample_from = None \<and> item_at sample_moved sample_to = item_at sample_machine sample_from"
proof -
  obtain j' where j': "quarantine sample_codec2 True 1100 ''r'' sample_quarantine (sample_machine, sample_journal ''r'')
      = (Inr (quarantine_output sample_quarantine sample_to), (sample_moved, j'))"
    using sample_quarantine_run by blast
  have "sample_moved \<noteq> sample_machine" using sample_geometry(2) sample_before(1) by auto
  from quarantine_is_announced_and_lossless[OF j' this sample_grounded sample_run_plain]
  show ?thesis by (auto simp: sample_names)
qed

theorem quarantine_then_restore_is_identity_witness:
  "\<exists>m3 j3. restore sample_codec2 True 2000 ''s'' (quarantine_output sample_quarantine sample_to) (sample_moved, sample_journal ''s'')
     = (Inr restore_output, (m3, j3)) \<and> mc_items m3 = mc_items sample_machine"
proof -
  obtain j' where j': "quarantine sample_codec2 True 1100 ''r'' sample_quarantine (sample_machine, sample_journal ''r'')
      = (Inr (quarantine_output sample_quarantine sample_to), (sample_moved, j'))"
    using sample_quarantine_run by blast
  have st: "stopped sample_moved (qt_kind sample_quarantine) = Inr ()"
    unfolding stopped_def sample_moved_os(4)
    by (simp add: sample_machine_def sample_quarantine_def blocks_repair_def check_simps)
  have fits: "\<forall>b. json_str_at (quarantine_output sample_quarantine sample_to) ''quarantine'' = Some b
      \<longrightarrow> length (ac_show (rp_journal sample_codec2) (restore_intent (qt_target sample_quarantine) b)) \<le> 32768"
    using sample_prints(3) by (simp add: json_str_at_def quarantine_output_def sample_names(1))
  show ?thesis
    by (rule quarantine_then_restore_is_identity[OF j' sample_grounded sample_run_plain _ st
          sample_journal_run(1,2) fits sample_prints(4), of "mc_processes sample_moved" "mc_env sample_moved"]) simp
qed

end
