(* ===== verification/Git_Porcelain.thy ===== *)
theory Git_Porcelain
  imports Model_Policy Workspace_Policy Filesystem
begin

text \<open>
  Git's machine-readable output: the worktree list (\<open>workstation-platform/src/git.rs\<close>,
  \<open>parse_worktrees\<close>), the status and the index tags (\<open>control_workspace.rs\<close>, \<open>status_paths\<close>,
  \<open>index_visibility_blockers\<close>) and the second reading of the status in \<open>workspace_lifecycle.rs\<close>. The
  input is bytes; \<open>std::str::from_utf8\<close> is written out.
\<close>

section \<open>UTF-8\<close>

definition utf8_tail :: "nat \<Rightarrow> bool" where
  "utf8_tail b \<longleftrightarrow> 0x80 \<le> b \<and> b \<le> 0xBF"

fun utf8_bytes :: "nat list \<Rightarrow> bool" where
  "utf8_bytes [] \<longleftrightarrow> True"
| "utf8_bytes (a # s) \<longleftrightarrow>
     (if a < 0x80 then utf8_bytes s
      else if 0xC2 \<le> a \<and> a \<le> 0xDF then (case s of b # t \<Rightarrow> utf8_tail b \<and> utf8_bytes t | _ \<Rightarrow> False)
      else if 0xE0 \<le> a \<and> a \<le> 0xEF then (case s of b # c # t \<Rightarrow>
          (if a = 0xE0 then 0xA0 \<le> b \<and> b \<le> 0xBF else if a = 0xED then 0x80 \<le> b \<and> b \<le> 0x9F else utf8_tail b)
            \<and> utf8_tail c \<and> utf8_bytes t | _ \<Rightarrow> False)
      else if 0xF0 \<le> a \<and> a \<le> 0xF4 then (case s of b # c # d # t \<Rightarrow>
          (if a = 0xF0 then 0x90 \<le> b \<and> b \<le> 0xBF else if a = 0xF4 then 0x80 \<le> b \<and> b \<le> 0x8F else utf8_tail b)
            \<and> utf8_tail c \<and> utf8_tail d \<and> utf8_bytes t | _ \<Rightarrow> False)
      else False)"

definition utf8 :: "string \<Rightarrow> bool" where
  "utf8 s \<longleftrightarrow> utf8_bytes (map of_char s)"

lemma utf8_Nil [simp]: "utf8 []"
  by (simp add: utf8_def)

lemma utf8_ascii_Cons [simp]: "byte c < 128 \<Longrightarrow> utf8 (c # s) \<longleftrightarrow> utf8 s"
  by (simp add: utf8_def)

section \<open>The worktree list\<close>

definition NUL :: char where
  "NUL = CHR 0x00"

definition after_prefix :: "string \<Rightarrow> string \<Rightarrow> string option" where
  "after_prefix p s = (if prefix p s then Some (drop (length p) s) else None)"

definition fresh_worktree :: "string \<Rightarrow> worktree" where
  "fresh_worktree path = \<lparr>wt_path = path, wt_head = None, wt_branch = None, wt_detached = False, wt_bare = False,
     wt_locked = False, wt_prunable = False, wt_disposition = ''protected'', wt_content_coverage = Unsupported\<rparr>"

definition git_head :: "string \<Rightarrow> bool" where
  "git_head h \<longleftrightarrow> (length h = 40 \<or> length h = 64) \<and> list_all is_ascii_hexdigit h"

definition worktree_line :: "worktree \<Rightarrow> string \<Rightarrow> worktree check" where
  "worktree_line w line = (case after_prefix ''HEAD '' line of
       Some h \<Rightarrow> if git_head h then Inr (w\<lparr>wt_head := Some h\<rparr>) else Inl ''GIT_HEAD_INVALID''
     | None \<Rightarrow> (case after_prefix ''branch '' line of
         Some b \<Rightarrow> Inr (w\<lparr>wt_branch := Some b\<rparr>)
       | None \<Rightarrow>
           if line = ''detached'' then Inr (w\<lparr>wt_detached := True\<rparr>)
           else if line = ''bare'' then Inr (w\<lparr>wt_bare := True\<rparr>)
           else if line = ''locked'' \<or> prefix ''locked '' line then Inr (w\<lparr>wt_locked := True\<rparr>)
           else if line = ''prunable'' \<or> prefix ''prunable '' line then Inr (w\<lparr>wt_prunable := True\<rparr>)
           else Inl ''GIT_SCHEMA_UNSUPPORTED''))"

fun worktree_fields :: "string list \<Rightarrow> worktree option \<Rightarrow> worktree list \<Rightarrow> worktree list check" where
  "worktree_fields [] cur acc = (if cur \<noteq> None then Inl ''GIT_RECORD_INCOMPLETE'' else Inr acc)"
| "worktree_fields (raw # rest) cur acc =
     (if raw = [] then
        (let acc' = (case cur of None \<Rightarrow> acc | Some w \<Rightarrow> acc @ [w]) in
         if length acc' > 200 then Inl ''WORKTREE_COUNT_LIMIT'' else worktree_fields rest None acc')
      else if \<not> utf8 raw then Inl ''GIT_PATH_ENCODING_UNSUPPORTED''
      else (case after_prefix ''worktree '' raw of
          Some path \<Rightarrow> if cur \<noteq> None then Inl ''GIT_RECORD_BOUNDARY_INVALID''
            else worktree_fields rest (Some (fresh_worktree path)) acc
        | None \<Rightarrow> (case cur of None \<Rightarrow> Inl ''GIT_RECORD_ORDER_INVALID''
            | Some w \<Rightarrow> bind_check (worktree_line w raw) (\<lambda>w'. worktree_fields rest (Some w') acc))))"

definition parse_worktrees :: "string \<Rightarrow> worktree list check" where
  "parse_worktrees b =
     (if length b > 1024 * 1024 \<or> b \<noteq> [] \<and> last b \<noteq> NUL then Inl ''GIT_OUTPUT_INVALID''
      else worktree_fields (split_char NUL b) None [])"

section \<open>The status\<close>

definition validate_relative :: "string \<Rightarrow> unit check" where
  "validate_relative s = reject (s = [] \<or> is_absolute s \<or> backslash \<in> set s \<or> CHR '':'' \<in> set s
     \<or> list_ex (\<lambda>x. x = ''..'' \<or> x = ''.'') (split_char (CHR ''/'') s)) ''STATUS_PATH_UNSAFE''"

definition checked_path :: "string \<Rightarrow> unit check" where
  "checked_path p = checks [reject (\<not> utf8 p) ''GIT_PATH_ENCODING_UNSUPPORTED'', validate_relative p]"

definition has_previous :: "string \<Rightarrow> bool" where
  "has_previous code \<longleftrightarrow> CHR ''R'' \<in> set code \<or> CHR ''C'' \<in> set code"

type_synonym status_tally = "bool \<times> nat \<times> nat \<times> string list"

definition tally_record :: "string \<Rightarrow> string \<Rightarrow> status_tally \<Rightarrow> status_tally" where
  "tally_record code p t = (case t of (dirty, untracked, ignored, paths) \<Rightarrow>
     (if code = ''!!'' then (dirty, untracked, ignored + 1, paths @ [p])
      else (True, if code = ''??'' then untracked + 1 else untracked, ignored, paths @ [p])))"

definition tally_path :: "string \<Rightarrow> status_tally \<Rightarrow> status_tally" where
  "tally_path p t = (case t of (dirty, untracked, ignored, paths) \<Rightarrow> (dirty, untracked, ignored, paths @ [p]))"

definition tally_paths :: "status_tally \<Rightarrow> string list" where
  "tally_paths t = snd (snd (snd t))"

definition known_code :: "string \<Rightarrow> bool" where
  "known_code code \<longleftrightarrow> list_all (\<lambda>c. c \<in> set '' MADRCU?!T'') code"

fun status_records :: "string list \<Rightarrow> status_tally \<Rightarrow> status_tally check" where
  "status_records [] t = Inr t"
| "status_records (r # rest) t =
     (if length r < 4 \<or> r ! 2 \<noteq> CHR '' '' \<or> \<not> known_code (take 2 r)
      then Inl ''STATUS_SCHEMA_UNSUPPORTED''
      else bind_check (checked_path (drop 3 r)) (\<lambda>_.
        let t1 = tally_record (take 2 r) (drop 3 r) t in
        if has_previous (take 2 r) then
          (case rest of [] \<Rightarrow> Inl ''STATUS_RENAME_TRUNCATED''
           | old # rest' \<Rightarrow> bind_check (checked_path old) (\<lambda>_.
               let t2 = tally_path old t1 in
               if length (tally_paths t2) > 10000 then Inl ''STATUS_PATH_LIMIT'' else status_records rest' t2))
        else if length (tally_paths t1) > 10000 then Inl ''STATUS_PATH_LIMIT'' else status_records rest t1))"

definition status_paths :: "string \<Rightarrow> status_tally check" where
  "status_paths b =
     (if b \<noteq> [] \<and> last b \<noteq> NUL then Inl ''STATUS_TRUNCATED''
      else status_records (filter (\<lambda>x. x \<noteq> []) (split_char NUL b)) (False, 0, 0, []))"

section \<open>The index\<close>

definition index_tag_blockers :: "char \<Rightarrow> string list" where
  "index_tag_blockers c = (if is_ascii_lowercase c then [''git_assume_unchanged_content_hidden''] else [])
     @ (if ascii_lower c = CHR ''s'' then [''git_skip_worktree_content_hidden''] else [])"

fun index_records :: "string list \<Rightarrow> string list check" where
  "index_records [] = Inr []"
| "index_records (r # rest) =
     (if length r < 3 \<or> r ! 1 \<noteq> CHR '' '' \<or> r ! 0 \<notin> set ''HSMRCK?hsmrck'' then Inl ''INDEX_FLAGS_UNSUPPORTED''
      else bind_check (index_records rest) (\<lambda>bs. Inr (index_tag_blockers (r ! 0) @ bs)))"

definition index_visibility_blockers :: "string \<Rightarrow> string list check" where
  "index_visibility_blockers b =
     (if b \<noteq> [] \<and> last b \<noteq> NUL then Inl ''INDEX_FLAGS_TRUNCATED''
      else bind_check (index_records (filter (\<lambda>x. x \<noteq> []) (split_char NUL b))) (\<lambda>bs. Inr (btree_set bs)))"

section \<open>The second reading of the status\<close>

definition without_slash :: "string \<Rightarrow> string" where
  "without_slash p = (if p \<noteq> [] \<and> last p = CHR ''/'' then butlast p else p)"

definition detail_path :: "string \<Rightarrow> unit check" where
  "detail_path p = bind_check (reject (\<not> utf8 p) ''GIT_PATH_ENCODING'') (\<lambda>_.
     bind_check (relative_path (without_slash p)) (\<lambda>_. Inr ()))"

fun detail_fields :: "string list \<Rightarrow> string list \<Rightarrow> string list \<Rightarrow> (string list \<times> string list) check" where
  "detail_fields [] changed ignored = Inr (changed, ignored)"
| "detail_fields (f # rest) changed ignored =
     (if f = [] then detail_fields rest changed ignored
      else if length f < 4 \<or> f ! 2 \<noteq> CHR '' '' then Inl ''STATUS_FORMAT''
      else bind_check (detail_path (drop 3 f)) (\<lambda>_.
        let p = without_slash (drop 3 f);
            ignored' = (if take 2 f = ''!!'' then ignored @ [p] else ignored);
            changed' = (if take 2 f = ''!!'' then changed else changed @ [p]) in
        if has_previous (take 2 f) then
          (case rest of [] \<Rightarrow> Inl ''STATUS_RENAME_TRUNCATED''
           | old # rest' \<Rightarrow> bind_check (reject (\<not> utf8 old) ''GIT_PATH_ENCODING'') (\<lambda>_.
               bind_check (relative_path old) (\<lambda>_.
               if length changed' + 1 + length ignored' > 512 then Inl ''WORKSPACE_PATH_BUDGET''
               else detail_fields rest' (changed' @ [old]) ignored')))
        else if length changed' + length ignored' > 512 then Inl ''WORKSPACE_PATH_BUDGET''
        else detail_fields rest changed' ignored'))"

definition detail_paths :: "string \<Rightarrow> (string list \<times> string list) check" where
  "detail_paths b = detail_fields (split_char NUL b) [] []"

section \<open>Splitting at NUL\<close>

definition nul_lines :: "string list \<Rightarrow> string" where
  "nul_lines ls = concat (map (\<lambda>l. l @ [NUL]) ls)"

lemma split_nul_lines:
  "list_all (\<lambda>l. NUL \<notin> set l) ls \<Longrightarrow> split_char NUL (nul_lines ls) = ls @ [[]]"
proof (induction ls)
  case (Cons l ls)
  have "split_char NUL (l @ NUL # nul_lines ls) = split_char NUL l @ split_char NUL (nul_lines ls)"
    unfolding split_char_def by (rule split_on_append_sep) simp
  moreover have "split_char NUL l = [l]" unfolding split_char_def by (rule split_on_no_sep) (use Cons.prems in auto)
  ultimately show ?case using Cons by (simp add: nul_lines_def)
qed (simp add: nul_lines_def split_char_def)

lemma last_nul_lines: "nul_lines ls = [] \<or> last (nul_lines ls) = NUL"
  by (induction ls) (auto simp: nul_lines_def)

lemma split_nul_free: "l \<in> set (split_char NUL b) \<Longrightarrow> NUL \<notin> set l"
  unfolding split_char_def using split_on_pieces[of l "\<lambda>x. x = NUL" b NUL] by auto

section \<open>The worktree list read back\<close>

text \<open>What git prints for a worktree, with the reasons it may give for a lock or a prunable entry.\<close>

definition reasoned :: "string \<Rightarrow> string \<Rightarrow> string" where
  "reasoned key reason = (if reason = [] then key else key @ '' '' @ reason)"

definition keyed :: "string \<Rightarrow> string \<Rightarrow> string" where
  "keyed key s = key @ s"

definition worktree_lines :: "worktree \<times> string \<times> string \<Rightarrow> string list" where
  "worktree_lines x = (case x of (w, lock, prune) \<Rightarrow> [keyed ''worktree '' (wt_path w)]
     @ (case wt_head w of None \<Rightarrow> [] | Some h \<Rightarrow> [keyed ''HEAD '' h])
     @ (if wt_bare w then [''bare''] else []) @ (if wt_detached w then [''detached''] else [])
     @ (case wt_branch w of None \<Rightarrow> [] | Some b \<Rightarrow> [keyed ''branch '' b])
     @ (if wt_locked w then [reasoned ''locked'' lock] else [])
     @ (if wt_prunable w then [reasoned ''prunable'' prune] else []))"

definition worktree_porcelain :: "(worktree \<times> string \<times> string) list \<Rightarrow> string" where
  "worktree_porcelain xs = nul_lines (concat (map (\<lambda>x. worktree_lines x @ [[]]) xs))"

definition git_text :: "string \<Rightarrow> bool" where
  "git_text s \<longleftrightarrow> utf8 s \<and> NUL \<notin> set s"

definition worktree_wf :: "worktree \<Rightarrow> bool" where
  "worktree_wf w \<longleftrightarrow> git_text (wt_path w) \<and> (\<forall>h. wt_head w = Some h \<longrightarrow> git_head h)
     \<and> (\<forall>b. wt_branch w = Some b \<longrightarrow> git_text b) \<and> wt_disposition w = ''protected'' \<and> wt_content_coverage w = Unsupported"

definition listed_wf :: "worktree \<times> string \<times> string \<Rightarrow> bool" where
  "listed_wf x = (case x of (w, lock, prune) \<Rightarrow> worktree_wf w \<and> git_text lock \<and> git_text prune)"

lemma hex_ascii: "is_ascii_hexdigit c \<Longrightarrow> byte c < 128 \<and> c \<noteq> NUL"
  by (auto simp: ascii_class_defs NUL_def)

lemma git_head_text: "git_head h \<Longrightarrow> git_text h"
proof -
  have "list_all is_ascii_hexdigit h \<Longrightarrow> utf8 h \<and> NUL \<notin> set h"
    by (induction h) (auto dest: hex_ascii)
  then show "git_head h \<Longrightarrow> git_text h" by (simp add: git_head_def git_text_def)
qed

lemma git_text_literals [simp]:
  "git_text (keyed ''worktree '' s) \<longleftrightarrow> git_text s" "git_text (keyed ''HEAD '' s) \<longleftrightarrow> git_text s"
  "git_text (keyed ''branch '' s) \<longleftrightarrow> git_text s" "git_text ''bare''" "git_text ''detached''"
  "git_text (reasoned ''locked'' s) \<longleftrightarrow> git_text s" "git_text (reasoned ''prunable'' s) \<longleftrightarrow> git_text s"
  by (simp_all add: git_text_def NUL_def reasoned_def keyed_def)

lemma worktree_lines_text: "listed_wf x \<Longrightarrow> list_all git_text (worktree_lines x)"
  by (auto simp: listed_wf_def worktree_wf_def worktree_lines_def git_head_text split: option.split)

lemma after_prefix_literals [simp]:
  "after_prefix ''worktree '' (keyed ''worktree '' s) = Some s" "after_prefix ''worktree '' (keyed ''HEAD '' s) = None"
  "after_prefix ''worktree '' (keyed ''branch '' s) = None" "after_prefix ''worktree '' ''bare'' = None"
  "after_prefix ''worktree '' ''detached'' = None" "after_prefix ''worktree '' (reasoned ''locked'' s) = None"
  "after_prefix ''worktree '' (reasoned ''prunable'' s) = None"
  by (simp_all add: after_prefix_def reasoned_def keyed_def)

lemma worktree_line_literals [simp]:
  "git_head h \<Longrightarrow> worktree_line w (keyed ''HEAD '' h) = Inr (w\<lparr>wt_head := Some h\<rparr>)"
  "worktree_line w (keyed ''branch '' b) = Inr (w\<lparr>wt_branch := Some b\<rparr>)"
  "worktree_line w ''bare'' = Inr (w\<lparr>wt_bare := True\<rparr>)"
  "worktree_line w ''detached'' = Inr (w\<lparr>wt_detached := True\<rparr>)"
  "worktree_line w (reasoned ''locked'' s) = Inr (w\<lparr>wt_locked := True\<rparr>)"
  "worktree_line w (reasoned ''prunable'' s) = Inr (w\<lparr>wt_prunable := True\<rparr>)"
  by (simp_all add: worktree_line_def after_prefix_def reasoned_def keyed_def)

lemma git_text_line: "git_text l \<Longrightarrow> utf8 l"
  by (simp add: git_text_def)

text \<open>One attribute line, when the record is open.\<close>

lemma worktree_fields_line:
  assumes "git_text l" "l \<noteq> []" "after_prefix ''worktree '' l = None" "worktree_line w l = Inr w'"
  shows "worktree_fields (l # rest) (Some w) acc = worktree_fields rest (Some w') acc"
  using assms by (simp add: git_text_def)

lemma lines_nonempty [simp]: "reasoned ''locked'' s \<noteq> []" "reasoned ''prunable'' s \<noteq> []"
  "keyed ''HEAD '' s \<noteq> []" "keyed ''branch '' s \<noteq> []" "keyed ''worktree '' s \<noteq> []"
  by (simp_all add: reasoned_def keyed_def)

lemma worktree_fields_record:
  assumes "listed_wf x"
  shows "worktree_fields (worktree_lines x @ [] # rest) None acc
    = (if length acc \<ge> 200 then Inl ''WORKTREE_COUNT_LIMIT'' else worktree_fields rest None (acc @ [fst x]))"
proof -
  obtain w lock prune where x: "x = (w, lock, prune)" by (cases x)
  have wf: "git_text (wt_path w)" "\<And>h. wt_head w = Some h \<Longrightarrow> git_head h" "\<And>b. wt_branch w = Some b \<Longrightarrow> git_text b"
    "git_text lock" "git_text prune" "wt_disposition w = ''protected''" "wt_content_coverage w = Unsupported"
    using assms by (simp_all add: x listed_wf_def worktree_wf_def)
  let ?w1 = "(fresh_worktree (wt_path w))\<lparr>wt_head := wt_head w\<rparr>"
  let ?w2 = "?w1\<lparr>wt_bare := wt_bare w\<rparr>"
  let ?w3 = "?w2\<lparr>wt_detached := wt_detached w\<rparr>"
  let ?w4 = "?w3\<lparr>wt_branch := wt_branch w\<rparr>"
  let ?w5 = "?w4\<lparr>wt_locked := wt_locked w\<rparr>"
  have head: "worktree_fields ((case wt_head w of None \<Rightarrow> [] | Some h \<Rightarrow> [keyed ''HEAD '' h]) @ r) (Some (fresh_worktree (wt_path w))) acc
      = worktree_fields r (Some ?w1) acc" for r
    using wf(2) git_head_text by (cases "wt_head w") (simp_all add: worktree_fields_line fresh_worktree_def del: worktree_fields.simps(2))
  have bare: "worktree_fields ((if wt_bare w then [''bare''] else []) @ r) (Some ?w1) acc = worktree_fields r (Some ?w2) acc" for r
    by (simp add: worktree_fields_line fresh_worktree_def del: worktree_fields.simps(2))
  have detached: "worktree_fields ((if wt_detached w then [''detached''] else []) @ r) (Some ?w2) acc = worktree_fields r (Some ?w3) acc" for r
    by (simp add: worktree_fields_line fresh_worktree_def del: worktree_fields.simps(2))
  have branch: "worktree_fields ((case wt_branch w of None \<Rightarrow> [] | Some b \<Rightarrow> [keyed ''branch '' b]) @ r) (Some ?w3) acc
      = worktree_fields r (Some ?w4) acc" for r
    using wf(3) by (cases "wt_branch w") (simp_all add: worktree_fields_line fresh_worktree_def del: worktree_fields.simps(2))
  have locked: "worktree_fields ((if wt_locked w then [reasoned ''locked'' lock] else []) @ r) (Some ?w4) acc = worktree_fields r (Some ?w5) acc" for r
    using wf(4) by (simp add: worktree_fields_line fresh_worktree_def del: worktree_fields.simps(2))
  have prunable: "worktree_fields ((if wt_prunable w then [reasoned ''prunable'' prune] else []) @ r) (Some ?w5) acc
      = worktree_fields r (Some w) acc" for r
  proof -
    have "?w5\<lparr>wt_prunable := wt_prunable w\<rparr> = w" using wf(6,7) by (simp add: fresh_worktree_def)
    moreover have "?w5\<lparr>wt_prunable := False\<rparr> = ?w5" by (simp add: fresh_worktree_def)
    ultimately show ?thesis using wf(5)
      by (cases "wt_prunable w") (simp_all add: worktree_fields_line del: worktree_fields.simps(2))
  qed
  have "worktree_fields (worktree_lines x @ [] # rest) None acc = worktree_fields ([] # rest) (Some w) acc"
    using wf(1) by (simp add: x worktree_lines_def git_text_line head bare detached branch locked prunable)
  then show ?thesis by (auto simp: x)
qed

lemma worktree_fields_list:
  "list_all listed_wf xs \<Longrightarrow> length acc + length xs \<le> 200 \<Longrightarrow>
    worktree_fields (concat (map (\<lambda>x. worktree_lines x @ [[]]) xs) @ rest) None acc = worktree_fields rest None (acc @ map fst xs)"
proof (induction xs arbitrary: acc)
  case (Cons x xs)
  then show ?case using worktree_fields_record[of x "concat (map (\<lambda>x. worktree_lines x @ [[]]) xs) @ rest" acc] by simp
qed simp

lemma parse_printed_worktrees:
  assumes "list_all listed_wf xs" "length xs \<le> 200" "length (worktree_porcelain xs) \<le> 1024 * 1024"
  shows "parse_worktrees (worktree_porcelain xs) = Inr (map fst xs)"
proof -
  let ?ls = "concat (map (\<lambda>x. worktree_lines x @ [[]]) xs)"
  have "list_all (\<lambda>l. NUL \<notin> set l) ?ls"
    using assms(1) worktree_lines_text by (fastforce simp: list_all_iff git_text_def)
  then have "split_char NUL (worktree_porcelain xs) = ?ls @ [[]]"
    unfolding worktree_porcelain_def by (rule split_nul_lines)
  moreover have "worktree_fields (?ls @ [[]]) None [] = Inr (map fst xs)"
    using worktree_fields_list[OF assms(1), of "[]" "[[]]"] assms(2) by simp
  moreover have "worktree_porcelain xs = [] \<or> last (worktree_porcelain xs) = NUL"
    unfolding worktree_porcelain_def by (rule last_nul_lines)
  ultimately show ?thesis using assms(3) by (auto simp: parse_worktrees_def)
qed

text \<open>
  C10: Reading git's worktree list loses nothing: any list of at most 200 worktrees, printed as git prints it
  (attribute lines ended by NUL, a record ended by an empty line, with or without reasons for a lock or a
  prunable entry), is read back exactly, unless it exceeds one mebibyte, which is rejected.
\<close>
theorem worktree_list_round_trip:
  assumes "list_all listed_wf xs" "length xs \<le> 200"
  shows "parse_worktrees (worktree_porcelain xs) =
    (if length (worktree_porcelain xs) > 1024 * 1024 then Inl ''GIT_OUTPUT_INVALID'' else Inr (map fst xs))"
  using parse_printed_worktrees[OF assms] by (simp add: parse_worktrees_def)

definition sample_worktree :: worktree where
  "sample_worktree = (fresh_worktree ''/w'')\<lparr>wt_head := Some (replicate 40 (CHR ''a'')), wt_branch := Some ''refs/heads/m'', wt_locked := True\<rparr>"

theorem worktree_list_round_trip_witness:
  "parse_worktrees (worktree_porcelain [(sample_worktree, ''busy'', [])]) = Inr [sample_worktree]"
proof -
  have "listed_wf (sample_worktree, ''busy'', [])"
    by (simp add: listed_wf_def worktree_wf_def sample_worktree_def fresh_worktree_def git_head_def git_text_def NUL_def ascii_class_defs list_all_iff)
  moreover have "length (worktree_porcelain [(sample_worktree, ''busy'', [])]) \<le> 1024"
    by (simp add: worktree_porcelain_def nul_lines_def worktree_lines_def keyed_def reasoned_def sample_worktree_def fresh_worktree_def)
  ultimately show ?thesis using worktree_list_round_trip[of "[(sample_worktree, ''busy'', [])]"] by simp
qed

section \<open>What an accepted list holds\<close>

lemma worktree_line_wf:
  assumes "worktree_line w l = Inr w'" "worktree_wf w" "git_text l"
  shows "worktree_wf w'"
proof (cases "after_prefix ''HEAD '' l")
  case (Some h)
  then have "w' = w\<lparr>wt_head := Some h\<rparr>" "git_head h" using assms(1) by (simp_all add: worktree_line_def split: if_splits)
  then show ?thesis using assms(2) by (simp add: worktree_wf_def)
next
  case h: None
  show ?thesis
  proof (cases "after_prefix ''branch '' l")
    case (Some b)
    then have "git_text b" using assms(3) by (auto simp: after_prefix_def git_text_def prefix_def split: if_splits)
    moreover have "w' = w\<lparr>wt_branch := Some b\<rparr>" using assms(1) h Some by (simp add: worktree_line_def)
    ultimately show ?thesis using assms(2) by (simp add: worktree_wf_def)
  next
    case None
    then have "w' \<in> {w\<lparr>wt_detached := True\<rparr>, w\<lparr>wt_bare := True\<rparr>, w\<lparr>wt_locked := True\<rparr>, w\<lparr>wt_prunable := True\<rparr>}"
      using assms(1) h by (simp add: worktree_line_def split: if_splits)
    then show ?thesis using assms(2) by (auto simp: worktree_wf_def)
  qed
qed

lemma worktree_fields_wf:
  "worktree_fields ls cur acc = Inr ws \<Longrightarrow> list_all (\<lambda>l. NUL \<notin> set l) ls \<Longrightarrow> (\<forall>w. cur = Some w \<longrightarrow> worktree_wf w)
    \<Longrightarrow> list_all worktree_wf acc \<and> length acc \<le> 200 \<Longrightarrow> list_all worktree_wf ws \<and> length ws \<le> 200"
proof (induction ls cur acc rule: worktree_fields.induct)
  case (1 cur acc)
  then show ?case by (simp split: if_splits)
next
  case (2 raw rest cur acc)
  show ?case
  proof (cases "raw = []")
    case True
    then show ?thesis
      using 2(2-) by (intro 2(1)[OF True refl]) (auto simp: Let_def split: if_splits option.splits)
  next
    case raw: False
    then have u: "utf8 raw" using 2(4) by (auto split: if_splits)
    then have t: "git_text raw" using 2(5) by (simp add: git_text_def)
    show ?thesis
    proof (cases "after_prefix ''worktree '' raw")
      case (Some path)
      have "git_text path" using Some t by (auto simp: after_prefix_def git_text_def prefix_def split: if_splits)
      then have "worktree_wf (fresh_worktree path)" by (simp add: worktree_wf_def fresh_worktree_def)
      moreover have "cur = None" using 2(4) raw u Some by (auto split: if_splits)
      ultimately show ?thesis using 2(4-) raw u Some by (intro 2(3)[OF raw _ Some]) simp_all
    next
      case None
      then obtain w w' where w: "cur = Some w" "worktree_line w raw = Inr w'" "worktree_fields rest (Some w') acc = Inr ws"
        using 2(4) raw u by (auto simp: bind_check_ok split: option.splits)
      have "worktree_wf w'" using worktree_line_wf[OF w(2)] 2(6) w(1) t by blast
      then show ?thesis using 2(5-) by (intro 2(2)[OF raw _ None w(1,3)]) (simp_all add: u)
    qed
  qed
qed

text \<open>
  Every worktree of an accepted list is well formed, whatever the bytes were: valid UTF-8 path and branch
  without NUL, an object id of 40 or 64 hexadecimal digits where there is a head, and the disposition
  protected with unsupported content coverage, so that no output of git can mark a worktree as disposable.
  There are at most 200.
\<close>
theorem accepted_worktrees_are_well_formed:
  assumes "parse_worktrees b = Inr ws"
  shows "list_all worktree_wf ws \<and> length ws \<le> 200"
proof (rule worktree_fields_wf)
  show "worktree_fields (split_char NUL b) None [] = Inr ws" using assms by (simp add: parse_worktrees_def split: if_splits)
  show "list_all (\<lambda>l. NUL \<notin> set l) (split_char NUL b)" by (simp add: list_all_iff split_nul_free)
qed simp_all

theorem accepted_worktrees_are_well_formed_witness:
  "list_all worktree_wf [fresh_worktree ''/w''] \<and> length [fresh_worktree ''/w''] \<le> 200"
proof -
  have "parse_worktrees (''worktree /w'' @ [NUL, NUL]) = Inr [fresh_worktree ''/w'']"
    by (simp add: parse_worktrees_def split_char_def NUL_def after_prefix_def)
  then show ?thesis by (rule accepted_worktrees_are_well_formed)
qed

section \<open>The status read exactly\<close>

text \<open>An entry: its two-letter code, its path, and the previous path of a rename or copy.\<close>

type_synonym status_entry = "string \<times> string \<times> string option"

definition entry_fields :: "status_entry \<Rightarrow> string list" where
  "entry_fields e = (case e of (code, p, old) \<Rightarrow> (code @ CHR '' '' # p) # (case old of None \<Rightarrow> [] | Some q \<Rightarrow> [q]))"

lemma entry_fields_simps [simp]:
  "entry_fields (code, p, None) = [code @ CHR '' '' # p]" "entry_fields (code, p, Some q) = [code @ CHR '' '' # p, q]"
  by (simp_all add: entry_fields_def)

definition entry_paths :: "status_entry \<Rightarrow> string list" where
  "entry_paths e = (case e of (code, p, old) \<Rightarrow> p # (case old of None \<Rightarrow> [] | Some q \<Rightarrow> [q]))"

lemma entry_paths_simps [simp]: "entry_paths (code, p, None) = [p]" "entry_paths (code, p, Some q) = [p, q]"
  by (simp_all add: entry_paths_def)

definition entry_wf :: "status_entry \<Rightarrow> bool" where
  "entry_wf e = (case e of (code, p, old) \<Rightarrow> length code = 2 \<and> known_code code
     \<and> checked_path p = Inr () \<and> (old \<noteq> None \<longleftrightarrow> has_previous code) \<and> (\<forall>q. old = Some q \<longrightarrow> checked_path q = Inr ()))"

lemma entry_wf_simps [simp]:
  "entry_wf (code, p, None) \<longleftrightarrow> length code = 2 \<and> known_code code \<and> checked_path p = Inr () \<and> \<not> has_previous code"
  "entry_wf (code, p, Some q) \<longleftrightarrow> length code = 2 \<and> known_code code \<and> checked_path p = Inr () \<and> has_previous code
     \<and> checked_path q = Inr ()"
  by (auto simp: entry_wf_def)

definition tally_entry :: "status_entry \<Rightarrow> status_tally \<Rightarrow> status_tally" where
  "tally_entry e t = (case e of (code, p, old) \<Rightarrow>
     (case old of None \<Rightarrow> tally_record code p t | Some q \<Rightarrow> tally_path q (tally_record code p t)))"

lemma tally_paths_simps [simp]:
  "tally_paths (tally_record code p t) = tally_paths t @ [p]" "tally_paths (tally_path p t) = tally_paths t @ [p]"
  by (cases t; simp add: tally_paths_def tally_record_def tally_path_def)+

lemma tally_entry_paths: "tally_paths (tally_entry e t) = tally_paths t @ entry_paths e"
  by (auto simp: tally_entry_def entry_paths_def split: prod.splits option.splits)

lemma fold_tally_paths: "tally_paths (fold tally_entry es t) = tally_paths t @ concat (map entry_paths es)"
  by (induction es arbitrary: t) (simp_all add: tally_entry_paths)

lemma checked_nonempty: "checked_path p = Inr () \<Longrightarrow> p \<noteq> []"
  by (auto simp: checked_path_def validate_relative_def checks_Cons_ok)

lemma code_split:
  assumes "length r \<ge> 4 \<and> r ! 2 = c"
  obtains code p where "r = code @ c # p" "length code = 2" "p \<noteq> []"
proof -
  have "r = take 2 r @ c # drop 3 r" using assms id_take_nth_drop[of 2 r] by (simp add: numeral_3_eq_3 numeral_2_eq_2)
  moreover have "length (take 2 r) = 2" "drop 3 r \<noteq> []" using assms by simp_all
  ultimately show thesis using that by blast
qed

lemma code_join: "length code = 2 \<Longrightarrow> p \<noteq> [] \<Longrightarrow> length (code @ c # p) \<ge> 4 \<and> (code @ c # p) ! 2 = c"
  by (cases p) (auto simp: nth_append)

lemma status_record_general:
  assumes "\<not> length r < 4" "r ! 2 = CHR '' ''" "take 2 r = code" "drop 3 r = p"
  shows "status_records (r # rest) t =
    (if \<not> known_code code then Inl ''STATUS_SCHEMA_UNSUPPORTED''
     else bind_check (checked_path p) (\<lambda>_.
       if has_previous code then
         (case rest of [] \<Rightarrow> Inl ''STATUS_RENAME_TRUNCATED''
          | old # rest' \<Rightarrow> bind_check (checked_path old) (\<lambda>_.
              if length (tally_paths t) + 2 > 10000 then Inl ''STATUS_PATH_LIMIT''
              else status_records rest' (tally_entry (code, p, Some old) t)))
       else if length (tally_paths t) + 1 > 10000 then Inl ''STATUS_PATH_LIMIT''
       else status_records rest (tally_entry (code, p, None) t)))"
  by (subst status_records.simps(2), simp only: assms)
    (simp add: Let_def tally_entry_def numeral_2_eq_2 del: status_records.simps cong: if_cong list.case_cong)

lemma status_record_step:
  assumes "length code = 2" "p \<noteq> []"
  shows "status_records ((code @ CHR '' '' # p) # rest) t =
    (if \<not> known_code code then Inl ''STATUS_SCHEMA_UNSUPPORTED''
     else bind_check (checked_path p) (\<lambda>_.
       if has_previous code then
         (case rest of [] \<Rightarrow> Inl ''STATUS_RENAME_TRUNCATED''
          | old # rest' \<Rightarrow> bind_check (checked_path old) (\<lambda>_.
              if length (tally_paths t) + 2 > 10000 then Inl ''STATUS_PATH_LIMIT''
              else status_records rest' (tally_entry (code, p, Some old) t)))
       else if length (tally_paths t) + 1 > 10000 then Inl ''STATUS_PATH_LIMIT''
       else status_records rest (tally_entry (code, p, None) t)))"
proof (rule status_record_general)
  note a = code_join[OF assms, of "CHR '' ''"]
  from a show "\<not> length (code @ CHR '' '' # p) < 4" "(code @ CHR '' '' # p) ! 2 = CHR '' ''" unfolding not_less by blast+
  show "take 2 (code @ CHR '' '' # p) = code" using assms(1) by simp
  show "drop 3 (code @ CHR '' '' # p) = p" using assms(1) by simp
qed

lemma status_record_shape:
  "status_records (r # rest) t = Inr t' \<Longrightarrow> length r \<ge> 4 \<and> r ! 2 = CHR '' ''"
proof (rule ccontr)
  assume a: "status_records (r # rest) t = Inr t'" "\<not> (length r \<ge> 4 \<and> r ! 2 = CHR '' '')"
  then have "length r < 4 \<or> r ! 2 \<noteq> CHR '' '' \<or> \<not> known_code (take 2 r)" unfolding not_less[symmetric] by blast
  then have "status_records (r # rest) t = Inl ''STATUS_SCHEMA_UNSUPPORTED''" unfolding status_records.simps(2) by (rule if_P)
  then show False using a(1) by simp
qed

lemma status_records_entries:
  "status_records (concat (map entry_fields es)) t = Inr (fold tally_entry es t)"
  if "list_all entry_wf es" "length (tally_paths (fold tally_entry es t)) \<le> 10000"
  using that
proof (induction es arbitrary: t)
  case (Cons e es)
  obtain code p old where e: "e = (code, p, old)" by (cases e)
  have wf: "length code = 2" "known_code code" "checked_path p = Inr ()" "p \<noteq> []"
    "old \<noteq> None \<longleftrightarrow> has_previous code" "\<And>q. old = Some q \<Longrightarrow> checked_path q = Inr ()"
    using Cons.prems(1) checked_nonempty by (auto simp: e entry_wf_def)
  have len: "length (tally_paths t) + length (entry_paths e) \<le> 10000"
    using Cons.prems(2) by (simp add: fold_tally_paths tally_entry_paths)
  have ih: "status_records (concat (map entry_fields es)) (tally_entry e t) = Inr (fold tally_entry es (tally_entry e t))"
    using Cons by simp
  show ?case
  proof (cases old)
    case None
    then show ?thesis using wf len ih
      by (simp add: e status_record_step[OF wf(1,4)] del: status_records.simps)
  next
    case (Some q)
    then show ?thesis using wf len ih
      by (simp add: e status_record_step[OF wf(1,4)] del: status_records.simps)
  qed
qed simp

lemma status_records_inverse:
  "status_records rs t = Inr t' \<Longrightarrow> length (tally_paths t) \<le> 10000 \<Longrightarrow>
    \<exists>es. rs = concat (map entry_fields es) \<and> list_all entry_wf es \<and> t' = fold tally_entry es t
      \<and> length (tally_paths t') \<le> 10000"
proof (induction rs arbitrary: t rule: length_induct)
  case (1 rs)
  show ?case
  proof (cases rs)
    case Nil
    then show ?thesis using 1(2,3) by (intro exI[of _ "[]"]) simp
  next
    case (Cons r rest)
    have "length r \<ge> 4 \<and> r ! 2 = CHR '' ''" using 1(2) Cons status_record_shape by blast
    then obtain code p where r: "r = code @ CHR '' '' # p" "length code = 2" "p \<noteq> []" by (rule code_split)
    have step: "status_records ((code @ CHR '' '' # p) # rest) t = Inr t'" using 1(2) unfolding Cons r(1) .
    note step = step[unfolded status_record_step[OF r(2,3)]]
    have ok: "known_code code" "checked_path p = Inr ()"
      using step by (auto simp: bind_check_ok split: if_splits)
    show ?thesis
    proof (cases "has_previous code")
      case True
      then obtain q rest' where q: "rest = q # rest'" "checked_path q = Inr ()" "length (tally_paths t) + 2 \<le> 10000"
        "status_records rest' (tally_entry (code, p, Some q) t) = Inr t'"
        using step ok by (auto simp: bind_check_ok split: if_splits list.splits)
      obtain es where es: "rest' = concat (map entry_fields es)" "list_all entry_wf es"
        "t' = fold tally_entry es (tally_entry (code, p, Some q) t)" "length (tally_paths t') \<le> 10000"
        using 1(1)[rule_format, OF _ q(4)] q(1,3) Cons by (auto simp: tally_entry_paths)
      show ?thesis by (rule exI[of _ "(code, p, Some q) # es"])
          (use es q Cons r ok True in \<open>simp\<close>)
    next
      case False
      then have s: "length (tally_paths t) + 1 \<le> 10000" "status_records rest (tally_entry (code, p, None) t) = Inr t'"
        using step ok by (auto split: if_splits)
      obtain es where es: "rest = concat (map entry_fields es)" "list_all entry_wf es"
        "t' = fold tally_entry es (tally_entry (code, p, None) t)" "length (tally_paths t') \<le> 10000"
        using 1(1)[rule_format, OF _ s(2)] s(1) Cons by (auto simp: tally_entry_paths)
      show ?thesis by (rule exI[of _ "(code, p, None) # es"])
          (use es s Cons r ok False in \<open>simp\<close>)
    qed
  qed
qed

lemma fold_tally:
  "fold tally_entry es (d, u, i, ps) = (d \<or> list_ex (\<lambda>(c, _). c \<noteq> ''!!'') es,
     u + length (filter (\<lambda>(c, _). c = ''??'') es), i + length (filter (\<lambda>(c, _). c = ''!!'') es), ps @ concat (map entry_paths es))"
  by (induction es arbitrary: d u i ps)
    (auto simp: tally_entry_def tally_record_def tally_path_def entry_paths_def split: option.splits)

lemma clean_status_lists_nothing:
  assumes "status_paths b = Inr (False, u, 0, files)"
  shows "files = []"
proof -
  have z: "length (tally_paths (False, 0, 0, [])) \<le> 10000" by (simp add: tally_paths_def)
  have "status_records (filter (\<lambda>x. x \<noteq> []) (split_char NUL b)) (False, 0, 0, []) = Inr (False, u, 0, files)"
    using assms by (simp add: status_paths_def split: if_splits)
  from status_records_inverse[OF this z] obtain es where "(False, u, 0, files) = fold tally_entry es (False, 0, 0, [])" by blast
  then have "\<not> list_ex (\<lambda>(c, _). c \<noteq> ''!!'') es" "filter (\<lambda>(c, _). c = ''!!'') es = []" "files = concat (map entry_paths es)"
    by (simp_all add: fold_tally)
  then have "es = []" by (cases es) (auto split: if_splits)
  then show ?thesis using \<open>files = concat (map entry_paths es)\<close> by simp
qed

text \<open>
  C11: The status is accepted exactly when it is empty or ended by NUL and its non-empty fields are a list of
  well-formed entries (a known two-letter code, a safe relative UTF-8 path, and for a rename or copy a second
  such path) with at most 10000 paths in all; then the worktree is dirty exactly when some entry is not an
  ignored one, the untracked and ignored entries are counted exactly, and every path is listed in order.
\<close>
theorem status_is_read_exactly:
  "status_paths b = Inr (dirty, untracked, ignored, paths) \<longleftrightarrow> b \<in> {[]} \<union> {x. last x = NUL} \<and>
     (\<exists>es. filter (\<lambda>x. x \<noteq> []) (split_char NUL b) = concat (map entry_fields es) \<and> list_all entry_wf es
       \<and> paths = concat (map entry_paths es) \<and> length paths \<le> 10000
       \<and> dirty = list_ex (\<lambda>(c, _). c \<noteq> ''!!'') es \<and> untracked = length (filter (\<lambda>(c, _). c = ''??'') es)
       \<and> ignored = length (filter (\<lambda>(c, _). c = ''!!'') es))"
proof (cases "b \<noteq> [] \<and> last b \<noteq> NUL")
  case True
  then show ?thesis by (simp add: status_paths_def)
next
  case False
  have z: "length (tally_paths (False, 0, 0, [])) \<le> 10000" by (simp add: tally_paths_def)
  let ?rs = "filter (\<lambda>x. x \<noteq> []) (split_char NUL b)"
  have "status_paths b = Inr (dirty, untracked, ignored, paths) \<longleftrightarrow> status_records ?rs (False, 0, 0, []) = Inr (dirty, untracked, ignored, paths)"
    using False by (auto simp: status_paths_def)
  also have "\<dots> \<longleftrightarrow> (\<exists>es. ?rs = concat (map entry_fields es) \<and> list_all entry_wf es
      \<and> (dirty, untracked, ignored, paths) = fold tally_entry es (False, 0, 0, []) \<and> length paths \<le> 10000)" (is "?L \<longleftrightarrow> ?R")
  proof
    assume ?L
    then show ?R using status_records_inverse[OF _ z] by (fastforce simp: tally_paths_def)
  next
    assume ?R
    then obtain es where es: "?rs = concat (map entry_fields es)" "list_all entry_wf es"
      "(dirty, untracked, ignored, paths) = fold tally_entry es (False, 0, 0, [])" "length paths \<le> 10000" by blast
    moreover have "length (tally_paths (fold tally_entry es (False, 0, 0, []))) \<le> 10000"
      unfolding es(3)[symmetric] using es(4) by (simp add: tally_paths_def)
    ultimately show ?L using status_records_entries by simp
  qed
  finally show ?thesis using False by (auto simp: fold_tally)
qed

end
