(* ===== verification/Workspace_Capture.thy ===== *)
theory Workspace_Capture
  imports Git_Porcelain Quarantine Control_Db
begin

text \<open>
  Observing a worktree without touching it: \<open>workstation-platform/src/control_workspace.rs\<close> (\<open>command\<close>,
  \<open>capture\<close>), \<open>git.rs\<close> (\<open>collect\<close>) and the reading part of \<open>workspace_lifecycle.rs\<close> (\<open>inspect\<close>). The
  world answers every question at its own moment, so anything may change between two of them; every process
  that is started is recorded. The running code is the Windows one.
\<close>

section \<open>The world\<close>

record launch =
  la_executable :: string
  la_directory :: string
  la_environment :: "(string \<times> string) list"
  la_arguments :: "string list"

text \<open>\<open>Ran out code\<close>: what was read of the output, up to one byte above the limit, and how the wait ended.\<close>

datatype process_end = NotStarted | NoPipe | Ran "string option" "int option option"

record world =
  ww_machine :: "nat \<Rightarrow> machine"
  ww_clock :: "nat \<Rightarrow> int"
  ww_run :: "nat \<Rightarrow> launch \<Rightarrow> process_end"
  ww_nanos :: "nat \<Rightarrow> string \<Rightarrow> nat option"
  ww_sha :: "string \<Rightarrow> string"

record observer =
  ob_moment :: nat
  ob_launches :: "launch list"

type_synonym 'a observing = "(observer, 'a) handler"

definition at_moment :: "(nat \<Rightarrow> 'a check) \<Rightarrow> 'a observing" where
  "at_moment f s = (f (ob_moment s), s\<lparr>ob_moment := ob_moment s + 1\<rparr>)"

definition on_machine :: "world \<Rightarrow> (machine \<Rightarrow> 'a check) \<Rightarrow> 'a observing" where
  "on_machine W f = at_moment (\<lambda>k. f (ww_machine W k))"

text \<open>A handler that cannot fail, kept apart from the errors of the code.\<close>

definition attempt :: "('s, 'a) handler \<Rightarrow> ('s, 'a check) handler" where
  "attempt h s = (case h s of (r, s') \<Rightarrow> (Inr r, s'))"

definition directory_identity :: "machine \<Rightarrow> string \<Rightarrow> string check" where
  "directory_identity m path = bind_check (directory (machine_os m) (Some path)) (\<lambda>_.
     case Option.bind (item_at m path) (\<lambda>i. map_option (Pair i) (it_identity i)) of
       None \<Rightarrow> Inl ''DIRECTORY_ID_FAILED''
     | Some (i, d) \<Rightarrow> if and (md_attributes (it_meta i)) 0x400 \<noteq> 0 then Inl ''DIRECTORY_REDIRECTED'' else Inr d)"

text \<open>\<open>symlink_metadata\<close>: refused, not found, or the metadata.\<close>

definition entry_metadata :: "machine \<Rightarrow> string \<Rightarrow> metadata option check" where
  "entry_metadata m t = (if mc_hidden m (path_components t) then Inl ''UNREADABLE'' else Inr (map_option it_meta (item_at m t)))"

section \<open>Queries to git\<close>

definition CAP :: nat where
  "CAP = 1024 * 1024"

definition inherited :: "machine \<Rightarrow> string list \<Rightarrow> (string \<times> string) list" where
  "inherited m keys = List.map_filter (\<lambda>k. map_option (Pair k) (mc_env m k)) keys"

definition query_environment :: "(string \<times> string) list" where
  "query_environment = [(''GIT_CONFIG_NOSYSTEM'', ''1''), (''GIT_CONFIG_GLOBAL'', ''NUL''), (''GIT_OPTIONAL_LOCKS'', ''0''),
     (''GIT_TERMINAL_PROMPT'', ''0''), (''GIT_NO_LAZY_FETCH'', ''1''), (''GIT_PROTOCOL_FROM_USER'', ''0'')]"

definition query_options :: "string list" where
  "query_options = [''--no-pager'', ''--no-optional-locks'', ''-c'', ''core.fsmonitor=false'', ''-c'', ''core.hooksPath='',
     ''-c'', ''core.untrackedCache=false'', ''-c'', ''core.preloadIndex=false'', ''-c'', ''protocol.allow=never'',
     ''-c'', ''diff.external='', ''-c'', ''submodule.recurse=false'']"

definition git_query :: "world \<Rightarrow> nat \<Rightarrow> project_row \<Rightarrow> string \<Rightarrow> string list \<Rightarrow> launch" where
  "git_query W k p path args = \<lparr>la_executable = pr_git p, la_directory = path,
     la_environment = inherited (ww_machine W k) [''SystemRoot'', ''WINDIR''] @ query_environment,
     la_arguments = query_options @ args\<rparr>"

definition query_result :: "bool \<Rightarrow> process_end \<Rightarrow> string check" where
  "query_result allow_one e = (case e of
       NotStarted \<Rightarrow> Inl ''GIT_START_FAILED''
     | NoPipe \<Rightarrow> Inl ''GIT_PIPE_MISSING''
     | Ran None c \<Rightarrow> Inl ''GIT_OUTPUT_LIMIT''
     | Ran (Some out) c \<Rightarrow> if length out > CAP then Inl ''GIT_OUTPUT_LIMIT''
         else (case c of None \<Rightarrow> Inl ''GIT_WAIT_FAILED''
           | Some code \<Rightarrow> if code \<noteq> Some 0 \<and> \<not> (allow_one \<and> code = Some 1) then Inl ''GIT_QUERY_FAILED'' else Inr out))"

definition run_process :: "world \<Rightarrow> (nat \<Rightarrow> launch) \<Rightarrow> process_end observing" where
  "run_process W l s = (Inr (ww_run W (ob_moment s) (l (ob_moment s))),
     s\<lparr>ob_moment := ob_moment s + 1, ob_launches := ob_launches s @ [l (ob_moment s)]\<rparr>)"

definition native_git :: "string \<Rightarrow> bool" where
  "native_git t \<longleftrightarrow> (case file_name t of None \<Rightarrow> False | Some n \<Rightarrow> eq_ignore_ascii_case n ''git.exe'')"

definition command :: "world \<Rightarrow> project_row \<Rightarrow> string \<Rightarrow> string list \<Rightarrow> bool \<Rightarrow> string observing" where
  "command W p path args allow_one =
     andthen (on_machine W (\<lambda>m. directory (machine_os m) (Some path))) (\<lambda>_.
     andthen (on_machine W (\<lambda>m. local_existing (machine_os m) (Some (pr_git p)))) (\<lambda>_.
     andthen (liftc (\<lambda>_. reject (\<not> native_git (pr_git p)) ''NATIVE_GIT_EXE_REQUIRED'')) (\<lambda>_.
     andthen (run_process W (\<lambda>k. git_query W k p path args)) (\<lambda>e.
     liftc (\<lambda>_. query_result allow_one e)))))"

section \<open>The registered worktrees\<close>

definition collect_environment :: "(string \<times> string) list" where
  "collect_environment = [(''GIT_CONFIG_NOSYSTEM'', ''1''), (''GIT_CONFIG_GLOBAL'', ''NUL''), (''GIT_OPTIONAL_LOCKS'', ''0''),
     (''GIT_TERMINAL_PROMPT'', ''0''), (''GIT_NO_LAZY_FETCH'', ''1''), (''GIT_PAGER'', ''''), (''GIT_PROTOCOL_FROM_USER'', ''0'')]"

definition collect_launch :: "world \<Rightarrow> nat \<Rightarrow> project_row \<Rightarrow> launch" where
  "collect_launch W k p = \<lparr>la_executable = pr_git p, la_directory = pr_path p,
     la_environment = inherited (ww_machine W k) [''SystemRoot'', ''WINDIR''] @ collect_environment,
     la_arguments = [''--no-pager'', ''--no-optional-locks'', ''-c'', ''core.fsmonitor=false'', ''-c'', ''core.hooksPath='',
       ''-c'', ''protocol.allow=never'', ''worktree'', ''list'', ''--porcelain'', ''-z'']\<rparr>"

definition collect_note :: "workspace_observation \<Rightarrow> coverage \<Rightarrow> string \<Rightarrow> workspace_observation" where
  "collect_note o1 c n = o1\<lparr>wo_coverage := c, wo_notes := wo_notes o1 @ [n]\<rparr>"

definition collect_outcome :: "workspace_observation \<Rightarrow> process_end \<Rightarrow> workspace_observation" where
  "collect_outcome o1 e = (case e of
       NotStarted \<Rightarrow> collect_note o1 Denied ''GIT_START_FAILED''
     | NoPipe \<Rightarrow> collect_note o1 Partial ''GIT_READ_OR_OUTPUT_LIMIT''
     | Ran None c \<Rightarrow> collect_note o1 Partial ''GIT_READ_OR_OUTPUT_LIMIT''
     | Ran (Some out) c \<Rightarrow> if length out > 1024 * 1024 then collect_note o1 Partial ''GIT_READ_OR_OUTPUT_LIMIT''
         else if c \<noteq> Some (Some 0) then collect_note o1 Denied ''GIT_OPERATION_FAILED''
         else (case parse_worktrees out of
             Inr trees \<Rightarrow> o1\<lparr>wo_worktrees := trees, wo_coverage := Complete\<rparr>
           | Inl e \<Rightarrow> collect_note o1 Unsupported e))"

definition collect :: "world \<Rightarrow> string \<Rightarrow> project_row \<Rightarrow> workspace_observation observing" where
  "collect W now p =
     (let o1 = \<lparr>wo_project_id = pr_id p, wo_observed_at = now, wo_coverage = Denied, wo_worktrees = [],
          wo_notes = [''REGISTRATION_ONLY_CONTENT_AND_SESSION_OWNERSHIP_UNKNOWN'']\<rparr> in
      andthen (attempt (andthen (on_machine W (\<lambda>m. directory (machine_os m) (Some (pr_path p)))) (\<lambda>_.
        on_machine W (\<lambda>m. local_existing (machine_os m) (Some (pr_git p)))))) (\<lambda>available.
      if available \<noteq> Inr () then pass (collect_note o1 Denied ''GIT_OR_REPOSITORY_UNAVAILABLE'')
      else if \<not> native_git (pr_git p) then pass (collect_note o1 Denied ''NATIVE_GIT_EXE_REQUIRED'')
      else andthen (run_process W (\<lambda>k. collect_launch W k p)) (\<lambda>e. pass (collect_outcome o1 e))))"

section \<open>Capture\<close>

definition normalized :: "string \<Rightarrow> string" where
  "normalized t = to_ascii_lowercase (map (\<lambda>c. if c = backslash then CHR ''/'' else c) t)"

text \<open>A registered worktree is the selected one by its path or by the identity of its directory.\<close>

fun select_worktree :: "world \<Rightarrow> string \<Rightarrow> string \<Rightarrow> worktree list \<Rightarrow> worktree observing" where
  "select_worktree W path initial [] = fail ''WORKSPACE_NOT_REGISTERED_WITH_GIT''"
| "select_worktree W path initial (w # ws) =
     (if normalized (wt_path w) = normalized path then pass w
      else andthen (attempt (on_machine W (\<lambda>m. directory_identity m (wt_path w)))) (\<lambda>i.
        if i = Inr initial then pass w else select_worktree W path initial ws))"

definition utf8_text :: "string \<Rightarrow> string check" where
  "utf8_text b = (if utf8 b then Inr b else Inl ''GIT_PATH_ENCODING_UNSUPPORTED'')"

definition block :: "string \<Rightarrow> workspace_stamp \<Rightarrow> workspace_stamp" where
  "block b s = s\<lparr>st_blockers := st_blockers s @ [b]\<rparr>"

definition blocked_if :: "bool \<Rightarrow> string \<Rightarrow> workspace_stamp \<Rightarrow> workspace_stamp" where
  "blocked_if c b s = (if c then block b s else s)"

text \<open>The worktree is a registered, usable one with a known head.\<close>

definition capture_registered ::
    "world \<Rightarrow> string \<Rightarrow> project_row \<Rightarrow> string \<Rightarrow> string \<Rightarrow> (string \<times> worktree \<times> string) observing" where
  "capture_registered W now p workspace_id path =
     andthen (liftc (\<lambda>_. control_id workspace_id)) (\<lambda>_.
     andthen (on_machine W (\<lambda>m. directory (machine_os m) (Some path))) (\<lambda>_.
     andthen (on_machine W (\<lambda>m. directory_identity m path)) (\<lambda>initial.
     andthen (collect W now p) (\<lambda>registered.
     andthen (liftc (\<lambda>_. reject (wo_coverage registered \<noteq> Complete) ''GIT_MEMBERSHIP_UNKNOWN'')) (\<lambda>_.
     andthen (select_worktree W path initial (wo_worktrees registered)) (\<lambda>w.
     andthen (liftc (\<lambda>_. reject (wt_bare w \<or> wt_prunable w) ''WORKSPACE_UNUSABLE'')) (\<lambda>_.
     andthen (liftc (\<lambda>_. ok_or (wt_head w) ''WORKSPACE_HEAD_UNKNOWN'')) (\<lambda>head.
     pass (initial, w, head)))))))))"

definition fresh_stamp :: "project_row \<Rightarrow> string \<Rightarrow> string \<Rightarrow> string \<Rightarrow> worktree \<Rightarrow> string \<Rightarrow> int \<Rightarrow> workspace_stamp" where
  "fresh_stamp p workspace_id path initial w head at_time = \<lparr>st_project_id = pr_id p, st_workspace_id = workspace_id, st_path = path,
     st_directory_identity = initial, st_head = head, st_branch = wt_branch w, st_status_digest = [], st_dirty = None,
     st_untracked = None, st_ignored = None, st_local_only_commits = None, st_blockers = [], st_observed_at = at_time,
     st_coverage = Partial\<rparr>"

definition ls_files_args :: "string list" where
  "ls_files_args = [''ls-files'', ''-v'', ''-z'']"

definition status_args :: "string list" where
  "status_args = [''status'', ''--porcelain=v1'', ''-z'', ''--untracked-files=all'', ''--ignored=matching'', ''--ignore-submodules=all'']"

definition sparse_check :: "world \<Rightarrow> project_row \<Rightarrow> string \<Rightarrow> string \<Rightarrow> workspace_stamp \<Rightarrow> workspace_stamp observing" where
  "sparse_check W p path key s =
     andthen (command W p path [''config'', ''--bool'', ''--get'', key] True) (\<lambda>value.
     andthen (liftc (\<lambda>_. utf8_text value)) (\<lambda>v.
     pass (blocked_if (trim v = ''true'') ''sparse_checkout_not_certified'' s)))"

text \<open>Locks, submodules, hidden index entries and sparse checkouts; the answer about the index comes back too.\<close>

definition capture_marks ::
    "world \<Rightarrow> project_row \<Rightarrow> string \<Rightarrow> worktree \<Rightarrow> workspace_stamp \<Rightarrow> (string \<times> workspace_stamp) observing" where
  "capture_marks W p path w s0 =
     (let s1 = blocked_if (wt_locked w) ''git_worktree_locked'' s0 in
      andthen (attempt (on_machine W (\<lambda>m. entry_metadata m (join_path path ''.gitmodules'')))) (\<lambda>g.
      let s2 = (case g of Inr (Some _) \<Rightarrow> block ''submodule_state_not_certified'' s1 | Inr None \<Rightarrow> s1
                | Inl _ \<Rightarrow> block ''submodule_marker_unreadable'' s1) in
      andthen (command W p path ls_files_args False) (\<lambda>flags.
      andthen (liftc (\<lambda>_. index_visibility_blockers flags)) (\<lambda>hidden.
      andthen (sparse_check W p path ''core.sparseCheckout'' (s2\<lparr>st_blockers := st_blockers s2 @ hidden\<rparr>)) (\<lambda>s3.
      andthen (sparse_check W p path ''index.sparse'' s3) (\<lambda>s4.
      pass (flags, s4)))))))"

fun le_bytes :: "nat \<Rightarrow> nat \<Rightarrow> string" where
  "le_bytes 0 n = []"
| "le_bytes (Suc k) n = char_of (n mod 256) # le_bytes k (n div 256)"

text \<open>The metadata fingerprint of one changed path: eight bytes of length, sixteen of time.\<close>

definition fingerprint_path :: "world \<Rightarrow> string \<Rightarrow> string \<Rightarrow> string \<times> workspace_stamp \<Rightarrow> (string \<times> workspace_stamp) observing" where
  "fingerprint_path W path rel x = (case x of (bytes, s) \<Rightarrow>
     let full = join_path path rel; bytes1 = bytes @ rel in
     andthen (attempt (on_machine W (\<lambda>m. entry_metadata m full))) (\<lambda>e. case e of
       Inl _ \<Rightarrow> pass (bytes1, block ''changed_path_metadata_unreadable'' s)
     | Inr None \<Rightarrow> pass (bytes1 @ ''missing'', s)
     | Inr (Some m) \<Rightarrow>
         if is_redirect_or_placeholder m then pass (bytes1, block ''redirected_changed_path'' s)
         else andthen (attempt (on_machine W (\<lambda>m. directory (machine_os m) (Some (parent_path full))))) (\<lambda>d.
           if d \<noteq> Inr () then pass (bytes1, block ''changed_path_ancestor_unverified'' s)
           else andthen (at_moment (\<lambda>k. Inr (ww_nanos W k full))) (\<lambda>t.
             pass (bytes1 @ le_bytes 8 (md_len m) @ (case t of None \<Rightarrow> [] | Some n \<Rightarrow> le_bytes 16 n),
               blocked_if (md_type m = PlainDir) ''untracked_or_ignored_directory_not_fully_fingerprinted''
                 (blocked_if (t = None) ''changed_path_time_unavailable'' s))))))"

fun fingerprint_paths :: "world \<Rightarrow> string \<Rightarrow> string list \<Rightarrow> string \<times> workspace_stamp \<Rightarrow> (string \<times> workspace_stamp) observing" where
  "fingerprint_paths W path [] x = pass x"
| "fingerprint_paths W path (r # rs) x = andthen (fingerprint_path W path r x) (fingerprint_paths W path rs)"

definition clean_filter_args :: "string list" where
  "clean_filter_args = [''config'', ''--name-only'', ''--get-regexp'',
     ''^filter'' @ [backslash] @ ''..*'' @ [backslash] @ ''.(clean|process)$'']"

text \<open>The status itself, unless a clean filter could run: whether it was read, its bytes, the digest input and the stamp.\<close>

definition capture_status ::
    "world \<Rightarrow> project_row \<Rightarrow> string \<Rightarrow> workspace_stamp \<Rightarrow> (bool \<times> string \<times> string \<times> workspace_stamp) observing" where
  "capture_status W p path s =
     andthen (command W p path clean_filter_args True) (\<lambda>filters.
     if filters \<noteq> [] then pass (False, [], [], block ''external_git_filter_status_skipped'' s)
     else andthen (command W p path status_args False) (\<lambda>status.
       andthen (liftc (\<lambda>_. status_paths status)) (\<lambda>(dirty, untracked, ignored, files).
       andthen (fingerprint_paths W path files (status,
         s\<lparr>st_dirty := Some dirty, st_untracked := Some untracked, st_ignored := Some ignored\<rparr>)) (\<lambda>(bytes, s').
       pass (True, status, bytes, s')))))"

fun digits_value :: "nat \<Rightarrow> string \<Rightarrow> nat option" where
  "digits_value n [] = Some n"
| "digits_value n (c # s) = (if is_ascii_digit c \<and> n * 10 + (byte c - 48) < 2 ^ 64 then digits_value (n * 10 + (byte c - 48)) s else None)"

definition parse_u64 :: "string \<Rightarrow> nat option" where
  "parse_u64 s = (let d = (case s of c # r \<Rightarrow> if c = CHR ''+'' then r else s | [] \<Rightarrow> []) in if d = [] then None else digits_value 0 d)"

definition operation_names :: "string list" where
  "operation_names = [''MERGE_HEAD'', ''CHERRY_PICK_HEAD'', ''REVERT_HEAD'', ''rebase-merge'', ''rebase-apply'', ''BISECT_LOG'']"

fun operation_checks :: "world \<Rightarrow> project_row \<Rightarrow> string \<Rightarrow> string list \<Rightarrow> workspace_stamp \<Rightarrow> workspace_stamp observing" where
  "operation_checks W p path [] s = pass s"
| "operation_checks W p path (name # names) s =
     andthen (command W p path [''rev-parse'', ''--path-format=absolute'', ''--git-path'', name] False) (\<lambda>out.
     andthen (liftc (\<lambda>_. utf8_text out)) (\<lambda>q.
     andthen (attempt (on_machine W (\<lambda>m. entry_metadata m (trim q)))) (\<lambda>e.
     operation_checks W p path names (case e of Inr (Some _) \<Rightarrow> block (''git_operation_'' @ name) s | Inr None \<Rightarrow> s
       | Inl _ \<Rightarrow> block (''git_operation_'' @ name @ ''_unreadable'') s))))"

definition capture_local :: "world \<Rightarrow> project_row \<Rightarrow> string \<Rightarrow> workspace_stamp \<Rightarrow> workspace_stamp observing" where
  "capture_local W p path s =
     andthen (command W p path [''rev-list'', ''--count'', ''HEAD'', ''--not'', ''--remotes''] False) (\<lambda>out.
     andthen (liftc (\<lambda>_. utf8_text out)) (\<lambda>t.
     let n = parse_u64 (trim t) in
     operation_checks W p path operation_names
       (blocked_if (n = None) ''local_commit_count_unknown'' (s\<lparr>st_local_only_commits := n\<rparr>))))"

text \<open>Nothing moved meanwhile: head, directory, status and index are asked for again.\<close>

definition head_args :: "string list" where
  "head_args = [''rev-parse'', ''--verify'', ''HEAD'']"

definition capture_unchanged ::
    "world \<Rightarrow> project_row \<Rightarrow> string \<Rightarrow> string \<Rightarrow> string \<Rightarrow> string \<Rightarrow> bool \<Rightarrow> string \<Rightarrow> unit observing" where
  "capture_unchanged W p path initial head flags read status =
     andthen (command W p path head_args False) (\<lambda>out.
     andthen (liftc (\<lambda>_. utf8_text out)) (\<lambda>h.
     andthen (if trim h \<noteq> head then fail ''WORKSPACE_CHANGED_DURING_OBSERVATION''
       else andthen (on_machine W (\<lambda>m. directory_identity m path)) (\<lambda>i.
         liftc (\<lambda>_. reject (i \<noteq> initial) ''WORKSPACE_CHANGED_DURING_OBSERVATION''))) (\<lambda>_.
     andthen (if read then andthen (command W p path status_args False) (\<lambda>again.
         liftc (\<lambda>_. reject (again \<noteq> status) ''STATUS_CHANGED_DURING_OBSERVATION'')) else pass ()) (\<lambda>_.
     andthen (command W p path ls_files_args False) (\<lambda>again.
     liftc (\<lambda>_. reject (again \<noteq> flags) ''INDEX_FLAGS_CHANGED_DURING_OBSERVATION''))))))"

definition seal_stamp :: "(string \<Rightarrow> string) \<Rightarrow> string \<Rightarrow> workspace_stamp \<Rightarrow> workspace_stamp" where
  "seal_stamp sha bytes s = s\<lparr>st_status_digest := sha bytes, st_blockers := btree_set (st_blockers s),
     st_coverage := (if st_blockers s = [] then Complete else Partial)\<rparr>"

definition capture :: "world \<Rightarrow> string \<Rightarrow> project_row \<Rightarrow> string \<Rightarrow> string \<Rightarrow> workspace_stamp observing" where
  "capture W now p workspace_id path =
     andthen (capture_registered W now p workspace_id path) (\<lambda>(initial, w, head).
     andthen (at_moment (\<lambda>k. Inr (ww_clock W k))) (\<lambda>at_time.
     andthen (capture_marks W p path w (fresh_stamp p workspace_id path initial w head at_time)) (\<lambda>(flags, s1).
     andthen (capture_status W p path s1) (\<lambda>(read, status, bytes, s2).
     andthen (capture_local W p path s2) (\<lambda>s3.
     andthen (capture_unchanged W p path initial head flags read status) (\<lambda>_.
     pass (seal_stamp (ww_sha W) (bytes @ flags) s3)))))))"

section \<open>Inspect\<close>

definition inspect_worktree :: "world \<Rightarrow> string \<Rightarrow> project_row \<Rightarrow> string \<Rightarrow> string \<Rightarrow> workspace_detail observing" where
  "inspect_worktree W now p workspace_id path =
     andthen (capture W now p workspace_id path) (\<lambda>stamp.
     andthen (command W p path [''rev-parse'', ''--path-format=absolute'', ''--git-common-dir''] False) (\<lambda>raw.
     andthen (liftc (\<lambda>_. reject (\<not> utf8 raw) ''GIT_PATH_ENCODING'')) (\<lambda>_.
     let common = trim raw in
     andthen (on_machine W (\<lambda>m. directory (machine_os m) (Some common))) (\<lambda>_.
     andthen (on_machine W (\<lambda>m. directory_identity m common)) (\<lambda>repository.
     andthen (command W p path [''worktree'', ''list'', ''--porcelain'', ''-z''] False) (\<lambda>out.
     andthen (liftc (\<lambda>_. parse_worktrees out)) (\<lambda>items.
     andthen (liftc (\<lambda>_. ok_or (find (\<lambda>w. normalized (wt_path w) = normalized path) items) ''WORKTREE_REGISTRATION_MISSING'')) (\<lambda>item.
     andthen (if st_coverage stamp \<noteq> Complete then pass ([], [], Partial)
       else andthen (command W p path status_args False) (\<lambda>bytes.
         andthen (liftc (\<lambda>_. detail_paths bytes)) (\<lambda>(changed, ignored). pass (changed, ignored, Complete)))) (\<lambda>(changed, ignored, coverage).
     andthen (command W p path [''config'', ''--name-only'', ''--get-regexp'', ''^filter'' @ [backslash] @ ''.''] True) (\<lambda>filters.
     pass \<lparr>wd_stamp = stamp, wd_repository_identity = repository,
       wd_main_worktree = (case items of [] \<Rightarrow> False | w # _ \<Rightarrow> normalized (wt_path w) = normalized path),
       wd_bare = wt_bare item, wd_locked = wt_locked item, wd_changed_paths = changed, wd_ignored_paths = ignored,
       wd_path_coverage = coverage, wd_branch_exists = Some (wt_branch item \<noteq> None),
       wd_checkout_filters_present = Some (filters \<noteq> [])\<rparr>))))))))))"

section \<open>Everything is a read\<close>

named_theorems orderly_intros \<open>observations that only move forward and only start queries\<close>

text \<open>The subcommands and forms that read, with the options that keep git from running or changing anything else.\<close>

definition reading_query :: "string list \<Rightarrow> bool" where
  "reading_query q \<longleftrightarrow> take 2 q = [''worktree'', ''list''] \<or> hd q \<in> set [''ls-files'', ''status'', ''rev-list'', ''rev-parse'']
     \<or> hd q = ''config'' \<and> (''--get'' \<in> set q \<or> ''--get-regexp'' \<in> set q)"

definition reading_launch :: "project_row \<Rightarrow> string \<Rightarrow> launch \<Rightarrow> bool" where
  "reading_launch p path l \<longleftrightarrow> la_executable l = pr_git p \<and> native_git (pr_git p)
     \<and> (la_directory l = path \<or> la_directory l = pr_path p)
     \<and> set [(''GIT_CONFIG_NOSYSTEM'', ''1''), (''GIT_CONFIG_GLOBAL'', ''NUL''), (''GIT_OPTIONAL_LOCKS'', ''0''), (''GIT_TERMINAL_PROMPT'', ''0''),
          (''GIT_NO_LAZY_FETCH'', ''1'')] \<subseteq> set (la_environment l)
     \<and> (\<exists>options q. la_arguments l = options @ q \<and> reading_query q
         \<and> set [''--no-optional-locks'', ''core.fsmonitor=false'', ''core.hooksPath='', ''protocol.allow=never''] \<subseteq> set options
         \<and> (take 2 q \<noteq> [''worktree'', ''list''] \<longrightarrow> set [''diff.external='', ''submodule.recurse=false''] \<subseteq> set options))"

definition orderly :: "(launch \<Rightarrow> bool) \<Rightarrow> 'a observing \<Rightarrow> bool" where
  "orderly Q h \<longleftrightarrow> (\<forall>s r s'. h s = (r, s') \<longrightarrow> ob_moment s \<le> ob_moment s'
     \<and> (\<exists>ls. ob_launches s' = ob_launches s @ ls \<and> list_all Q ls))"

lemma orderlyD: "orderly Q h \<Longrightarrow> h s = (r, s') \<Longrightarrow> ob_moment s \<le> ob_moment s'
    \<and> (\<exists>ls. ob_launches s' = ob_launches s @ ls \<and> list_all Q ls)"
  unfolding orderly_def by blast

lemma andthen_iff:
  "andthen h f s = (r, s') \<longleftrightarrow> (\<exists>e. h s = (Inl e, s') \<and> r = Inl e) \<or> (\<exists>x s1. h s = (Inr x, s1) \<and> f x s1 = (r, s'))"
  by (auto simp: andthen_def split: prod.splits sum.splits)

lemma andthen_success: "andthen h f s = (Inr y, s') \<longleftrightarrow> (\<exists>x s1. h s = (Inr x, s1) \<and> f x s1 = (Inr y, s'))"
  by (auto simp: andthen_iff)

lemma orderly_pass [orderly_intros]: "orderly Q (pass x)"
  by (simp add: orderly_def pass_def)

lemma orderly_fail [orderly_intros]: "orderly Q (fail e)"
  by (simp add: orderly_def fail_def)

lemma orderly_liftc [orderly_intros]: "orderly Q (liftc f)"
  by (simp add: orderly_def liftc_def)

lemma orderly_at_moment [orderly_intros]: "orderly Q (at_moment f)" "orderly Q (on_machine W g)"
  by (simp_all add: orderly_def at_moment_def on_machine_def)

lemma orderly_attempt [orderly_intros]: "orderly Q h \<Longrightarrow> orderly Q (attempt h)"
  by (fastforce simp: orderly_def attempt_def split: prod.splits)

lemma orderly_if [orderly_intros]: "(c \<Longrightarrow> orderly Q h) \<Longrightarrow> (\<not> c \<Longrightarrow> orderly Q g) \<Longrightarrow> orderly Q (if c then h else g)"
  by simp

lemma orderly_sum [orderly_intros]:
  "(\<And>e. orderly Q (f e)) \<Longrightarrow> (\<And>x. orderly Q (g x)) \<Longrightarrow> orderly Q (case z of Inl e \<Rightarrow> f e | Inr x \<Rightarrow> g x)"
  by (cases z) simp_all

lemma orderly_option [orderly_intros]:
  "orderly Q f \<Longrightarrow> (\<And>x. orderly Q (g x)) \<Longrightarrow> orderly Q (case z of None \<Rightarrow> f | Some x \<Rightarrow> g x)"
  by (cases z) simp_all

lemma orderly_prod [orderly_intros]: "(\<And>x y. orderly Q (f x y)) \<Longrightarrow> orderly Q (case z of (x, y) \<Rightarrow> f x y)"
  by (cases z) simp

lemma orderly_andthen:
  assumes "orderly Q h" "\<And>x s s1. h s = (Inr x, s1) \<Longrightarrow> orderly Q (f x)"
  shows "orderly Q (andthen h f)"
  unfolding orderly_def
proof (intro allI impI)
  fix s r s' assume "andthen h f s = (r, s')"
  then consider e where "h s = (Inl e, s')" | x s1 where "h s = (Inr x, s1)" "f x s1 = (r, s')"
    by (auto simp: andthen_iff)
  then show "ob_moment s \<le> ob_moment s' \<and> (\<exists>ls. ob_launches s' = ob_launches s @ ls \<and> list_all Q ls)"
  proof cases
    case 1
    then show ?thesis using orderlyD[OF assms(1)] by blast
  next
    case 2
    obtain a where a: "ob_moment s \<le> ob_moment s1" "ob_launches s1 = ob_launches s @ a" "list_all Q a"
      using orderlyD[OF assms(1) 2(1)] by blast
    obtain b where b: "ob_moment s1 \<le> ob_moment s'" "ob_launches s' = ob_launches s1 @ b" "list_all Q b"
      using orderlyD[OF assms(2)[OF 2(1)] 2(2)] by blast
    have "ob_launches s' = ob_launches s @ (a @ b) \<and> list_all Q (a @ b)" using a b by simp
    then show ?thesis using a(1) b(1) le_trans by blast
  qed
qed

lemma orderly_seq [orderly_intros]: "orderly Q h \<Longrightarrow> (\<And>x. orderly Q (f x)) \<Longrightarrow> orderly Q (andthen h f)"
  by (rule orderly_andthen)

lemma orderly_run: "(\<And>k. Q (l k)) \<Longrightarrow> orderly Q (run_process W l)"
  by (simp add: orderly_def run_process_def)

lemma query_reads: "native_git (pr_git p) \<Longrightarrow> reading_query args \<Longrightarrow> reading_launch p path (git_query W k p path args)"
  unfolding reading_launch_def git_query_def
  by (intro conjI exI[of _ query_options] exI[of _ args]) (simp_all add: query_environment_def query_options_def)

lemma collect_reads: "native_git (pr_git p) \<Longrightarrow> reading_launch p path (collect_launch W k p)"
  unfolding reading_launch_def collect_launch_def
  by (intro conjI exI[of _ "[''--no-pager'', ''--no-optional-locks'', ''-c'', ''core.fsmonitor=false'', ''-c'', ''core.hooksPath='',
       ''-c'', ''protocol.allow=never'']"] exI[of _ "[''worktree'', ''list'', ''--porcelain'', ''-z'']"])
    (simp_all add: collect_environment_def reading_query_def)

lemma orderly_command [orderly_intros]: "reading_query args \<Longrightarrow> orderly (reading_launch p path) (command W p path args b)"
  unfolding command_def
proof (intro orderly_andthen orderly_intros)
  fix x :: unit and s s1 :: observer
  assume "reading_query args" "liftc (\<lambda>_. reject (\<not> native_git (pr_git p)) ''NATIVE_GIT_EXE_REQUIRED'') s = (Inr x, s1)"
  then show "orderly (reading_launch p path) (run_process W (\<lambda>k. git_query W k p path args))"
    by (intro orderly_run query_reads) (simp_all add: liftc_def)
qed

lemma orderly_collect [orderly_intros]: "orderly (reading_launch p path) (collect W now p)"
  unfolding collect_def Let_def by (intro orderly_intros orderly_run collect_reads) simp

lemma orderly_select [orderly_intros]: "orderly Q (select_worktree W path initial ws)"
  by (induction ws; unfold select_worktree.simps; intro orderly_intros; assumption?)

lemma orderly_fingerprints [orderly_intros]: "orderly Q (fingerprint_paths W path files x)"
  by (induction files arbitrary: x) (auto simp: fingerprint_path_def Let_def intro!: orderly_intros split: prod.split)

lemma reading_queries [simp]:
  "reading_query ls_files_args" "reading_query status_args" "reading_query clean_filter_args" "reading_query head_args" "reading_query (''rev-parse'' # q)" "reading_query (''rev-list'' # q)"
  "reading_query [''config'', ''--bool'', ''--get'', k]" "reading_query [''config'', ''--name-only'', ''--get-regexp'', k]"
  "reading_query [''worktree'', ''list'', ''--porcelain'', ''-z'']"
  by (simp_all add: reading_query_def ls_files_args_def status_args_def clean_filter_args_def head_args_def)

lemma orderly_sparse [orderly_intros]: "orderly (reading_launch p path) (sparse_check W p path key s)"
  unfolding sparse_check_def by (intro orderly_intros) simp

lemma orderly_operations [orderly_intros]: "orderly (reading_launch p path) (operation_checks W p path names s)"
  by (induction names arbitrary: s) (auto intro!: orderly_intros)

lemma orderly_marks [orderly_intros]: "orderly (reading_launch p path) (capture_marks W p path w s)"
  unfolding capture_marks_def Let_def by (intro orderly_intros) simp_all

lemma orderly_status [orderly_intros]: "orderly (reading_launch p path) (capture_status W p path s)"
  unfolding capture_status_def by (intro orderly_intros) simp_all

lemma orderly_local [orderly_intros]: "orderly (reading_launch p path) (capture_local W p path s)"
  unfolding capture_local_def Let_def by (intro orderly_intros) simp_all

lemma orderly_unchanged [orderly_intros]:
  "orderly (reading_launch p path) (capture_unchanged W p path initial head flags read status)"
  unfolding capture_unchanged_def by (intro orderly_intros) simp_all

lemma orderly_capture [orderly_intros]: "orderly (reading_launch p path) (capture W now p workspace_id path)"
  unfolding capture_def capture_registered_def by (intro orderly_intros)

text \<open>
  C9: Observing a worktree starts nothing but reading queries: whatever git and the file system answer, and also
  when the observation fails, every process started by the inspection of a worktree is the project's own
  git.exe, in the worktree or the registered checkout, with hooks, the file system monitor, optional
  locks, network protocols, prompts and lazy fetching switched off, and its command is one of the listing and
  reading forms; every command other than the listing of the worktrees also has external diff programs and the
  recursion into submodules switched off.
\<close>
theorem inspection_starts_only_reading_queries:
  assumes "inspect_worktree W now p workspace_id path s = (r, s')"
  shows "\<exists>ls. ob_launches s' = ob_launches s @ ls \<and> list_all (reading_launch p path) ls"
proof -
  have "orderly (reading_launch p path) (inspect_worktree W now p workspace_id path)"
    unfolding inspect_worktree_def Let_def by (intro orderly_intros) simp_all
  then show ?thesis using orderlyD assms by blast
qed

section \<open>What a complete stamp is evidence of\<close>

text \<open>Between two moments git answered a query in the worktree with these bytes.\<close>

definition replied :: "world \<Rightarrow> observer \<Rightarrow> observer \<Rightarrow> project_row \<Rightarrow> string \<Rightarrow> string list \<Rightarrow> string \<Rightarrow> bool" where
  "replied W s s' p path args out \<longleftrightarrow> (\<exists>k. ob_moment s \<le> k \<and> k < ob_moment s'
     \<and> query_result True (ww_run W k (git_query W k p path args)) = Inr out)"

lemma query_result_weaken: "query_result b e = Inr out \<Longrightarrow> query_result True e = Inr out"
  by (auto simp: query_result_def split: process_end.splits option.splits if_splits)

lemma on_machine_Inr: "on_machine W f s = (Inr x, s') \<longleftrightarrow> f (ww_machine W (ob_moment s)) = Inr x \<and> s' = s\<lparr>ob_moment := ob_moment s + 1\<rparr>"
  by (auto simp: on_machine_def at_moment_def)

lemma at_moment_Inr: "at_moment f s = (Inr x, s') \<longleftrightarrow> f (ob_moment s) = Inr x \<and> s' = s\<lparr>ob_moment := ob_moment s + 1\<rparr>"
  by (auto simp: at_moment_def)

lemma liftc_Inr: "liftc f s = (Inr x, s') \<longleftrightarrow> f s = Inr x \<and> s' = s"
  by (auto simp: liftc_def)

lemma attempt_Inr: "attempt h s = (Inr x, s') \<longleftrightarrow> h s = (x, s')"
  by (auto simp: attempt_def split: prod.splits)

lemma pass_Inr: "pass x s = (Inr y, s') \<longleftrightarrow> y = x \<and> s' = s"
  by (auto simp: pass_def)

lemma fail_Inr: "fail e s = (Inr y, s') \<longleftrightarrow> False"
  by (simp add: fail_def)

lemma run_Inr: "run_process W l s = (Inr e, s') \<longleftrightarrow> e = ww_run W (ob_moment s) (l (ob_moment s))
    \<and> s' = s\<lparr>ob_moment := ob_moment s + 1, ob_launches := ob_launches s @ [l (ob_moment s)]\<rparr>"
  by (auto simp: run_process_def)

lemmas success = andthen_success on_machine_Inr at_moment_Inr liftc_Inr attempt_Inr pass_Inr fail_Inr run_Inr

lemma command_replied:
  assumes "command W p path args b s = (Inr out, s')"
  shows "replied W s s' p path args out"
proof -
  have "query_result b (ww_run W (ob_moment s + 2) (git_query W (ob_moment s + 2) p path args)) = Inr out
    \<and> ob_moment s' = ob_moment s + 3"
    using assms by (auto simp: command_def success)
  then show ?thesis unfolding replied_def using query_result_weaken by (intro exI[of _ "ob_moment s + 2"]) auto
qed

lemma moves_forward: "orderly Q h \<Longrightarrow> h s = (r, s') \<Longrightarrow> ob_moment s \<le> ob_moment s'"
  using orderlyD by blast

lemma moves_machine: "on_machine W f s = (r, s') \<Longrightarrow> ob_moment s \<le> ob_moment s'"
  by (auto simp: on_machine_def at_moment_def)

lemma moves_command: "command W p path args b s = (r, s') \<Longrightarrow> ob_moment s \<le> ob_moment s'"
  by (auto simp: command_def andthen_iff on_machine_def at_moment_def liftc_def run_process_def)

lemma moves_sparse: "sparse_check W p path key x s = (r, s') \<Longrightarrow> ob_moment s \<le> ob_moment s'"
  by (rule moves_forward[OF orderly_sparse])

lemma replied_widen:
  "replied W s1 s2 p path args out \<Longrightarrow> ob_moment s \<le> ob_moment s1 \<Longrightarrow> ob_moment s2 \<le> ob_moment s' \<Longrightarrow> replied W s s' p path args out"
  unfolding replied_def by (meson le_trans less_le_trans)

text \<open>A stamp to which only blockers were added; what a handler yields when it succeeds.\<close>

definition more_blocked :: "workspace_stamp \<Rightarrow> workspace_stamp \<Rightarrow> bool" where
  "more_blocked s s' \<longleftrightarrow> (\<exists>bs. s' = s\<lparr>st_blockers := st_blockers s @ bs\<rparr>)"

definition yields :: "('a \<Rightarrow> bool) \<Rightarrow> 'a observing \<Rightarrow> bool" where
  "yields Q h \<longleftrightarrow> (\<forall>s y s'. h s = (Inr y, s') \<longrightarrow> Q y)"

named_theorems yields_intros \<open>what handlers yield\<close>

lemma yieldsD: "yields Q h \<Longrightarrow> h s = (Inr y, s') \<Longrightarrow> Q y"
  unfolding yields_def by blast

lemma yields_andthen [yields_intros]: "(\<And>x. yields Q (f x)) \<Longrightarrow> yields Q (andthen h f)"
  unfolding yields_def andthen_success by blast

lemma yields_pass [yields_intros]: "Q x \<Longrightarrow> yields Q (pass x)"
  by (simp add: yields_def pass_Inr)

lemma yields_if [yields_intros]: "(c \<Longrightarrow> yields Q h) \<Longrightarrow> (\<not> c \<Longrightarrow> yields Q g) \<Longrightarrow> yields Q (if c then h else g)"
  by simp

lemma yields_sum [yields_intros]:
  "(\<And>e. yields Q (f e)) \<Longrightarrow> (\<And>x. yields Q (g x)) \<Longrightarrow> yields Q (case z of Inl e \<Rightarrow> f e | Inr x \<Rightarrow> g x)"
  by (cases z) simp_all

lemma yields_option [yields_intros]:
  "yields Q f \<Longrightarrow> (\<And>x. yields Q (g x)) \<Longrightarrow> yields Q (case z of None \<Rightarrow> f | Some x \<Rightarrow> g x)"
  by (cases z) simp_all

lemma more_blocked_refl [yields_intros, simp]: "more_blocked s s"
  unfolding more_blocked_def by (rule exI[of _ "[]"]) simp

lemma more_blocked_trans: "more_blocked a b \<Longrightarrow> more_blocked b c \<Longrightarrow> more_blocked a c"
  by (auto simp: more_blocked_def)

lemma more_blocked_block [yields_intros]: "more_blocked s t \<Longrightarrow> more_blocked s (block b t)"
  by (auto simp: more_blocked_def block_def)

lemma more_blocked_if [yields_intros]: "more_blocked s t \<Longrightarrow> more_blocked s (blocked_if c b t)"
  by (simp add: blocked_if_def more_blocked_block)

lemma more_blocked_list [yields_intros]: "more_blocked s t \<Longrightarrow> more_blocked s (t\<lparr>st_blockers := st_blockers t @ bs\<rparr>)"
  by (auto simp: more_blocked_def)

text \<open>If no blocker is left at the end, none was ever added.\<close>

lemma more_blocked_clear: "more_blocked s s' \<Longrightarrow> st_blockers s' = [] \<Longrightarrow> s' = s"
  by (auto simp: more_blocked_def)

lemma fingerprint_path_yields: "yields (\<lambda>y. more_blocked (snd x) (snd y)) (fingerprint_path W path r x)"
  unfolding fingerprint_path_def Let_def
  by (cases x; simp only: prod.case snd_conv; intro yields_intros; simp only: snd_conv; intro yields_intros)

lemma fingerprint_paths_yields: "yields (\<lambda>y. more_blocked (snd x) (snd y)) (fingerprint_paths W path files x)"
proof (induction files arbitrary: x)
  case (Cons r rs)
  show ?case unfolding yields_def
  proof (intro allI impI)
    fix s y s' assume "fingerprint_paths W path (r # rs) x s = (Inr y, s')"
    then obtain z s1 where z: "fingerprint_path W path r x s = (Inr z, s1)" "fingerprint_paths W path rs z s1 = (Inr y, s')"
      by (auto simp: andthen_success)
    show "more_blocked (snd x) (snd y)"
      using more_blocked_trans[OF yieldsD[OF fingerprint_path_yields z(1)] yieldsD[OF Cons.IH z(2)]] .
  qed
qed (simp add: yields_pass)

lemma sparse_yields: "yields (more_blocked s) (sparse_check W p path key s)"
  unfolding sparse_check_def by (intro yields_intros)

lemma operation_checks_yields: "more_blocked s0 s \<Longrightarrow> yields (more_blocked s0) (operation_checks W p path names s)"
proof (induction names arbitrary: s)
  case (Cons name names)
  show ?case unfolding operation_checks.simps
    by (intro yields_andthen Cons.IH) (auto split: sum.splits option.splits intro: yields_intros Cons.prems)
qed (simp add: yields_pass)

lemma marks_evidence:
  assumes "capture_marks W p path w s0 t = (Inr (flags, s'), t')" "st_blockers s' = []"
  shows "s' = s0 \<and> \<not> wt_locked w \<and> index_visibility_blockers flags = Inr [] \<and> replied W t t' p path ls_files_args flags"
proof -
  let ?s1 = "blocked_if (wt_locked w) ''git_worktree_locked'' s0"
  let ?s2 = "\<lambda>g. case g of Inr (Some _) \<Rightarrow> block ''submodule_state_not_certified'' ?s1 | Inr None \<Rightarrow> ?s1
                | Inl _ \<Rightarrow> block ''submodule_marker_unreadable'' ?s1"
  obtain g hidden s3 t1 t2 t3 where
    g: "on_machine W (\<lambda>m. entry_metadata m (join_path path ''.gitmodules'')) t = (g, t1)"
    "command W p path ls_files_args False t1 = (Inr flags, t2)" "index_visibility_blockers flags = Inr hidden"
    "sparse_check W p path ''core.sparseCheckout'' ((?s2 g)\<lparr>st_blockers := st_blockers (?s2 g) @ hidden\<rparr>) t2 = (Inr s3, t3)"
    "sparse_check W p path ''index.sparse'' s3 t3 = (Inr s', t')"
    using assms(1) unfolding capture_marks_def Let_def success by (elim exE conjE) (simp add: success)
  have s3: "s' = s3" using more_blocked_clear[OF yieldsD[OF sparse_yields g(5)] assms(2)] .
  have "s3 = (?s2 g)\<lparr>st_blockers := st_blockers (?s2 g) @ hidden\<rparr>"
    using more_blocked_clear[OF yieldsD[OF sparse_yields g(4)]] assms(2) s3 by simp
  then have h: "st_blockers (?s2 g) = []" "hidden = []" "s' = (?s2 g)\<lparr>st_blockers := []\<rparr>" using s3 assms(2) by simp_all
  have "more_blocked s0 (?s2 g)" by (auto split: sum.splits option.splits intro: yields_intros)
  then have "?s2 g = s0" using h(1) by (rule more_blocked_clear)
  moreover have "\<not> wt_locked w" using h(1) by (auto simp: blocked_if_def block_def split: sum.splits option.splits if_splits)
  moreover have "replied W t t' p path ls_files_args flags"
  proof (rule replied_widen[OF command_replied[OF g(2)]])
    show "ob_moment t \<le> ob_moment t1" using g(1) by (rule moves_machine)
    have "ob_moment t2 \<le> ob_moment t3" using g(4) by (rule moves_sparse)
    also have "ob_moment t3 \<le> ob_moment t'" using g(5) by (rule moves_sparse)
    finally show "ob_moment t2 \<le> ob_moment t'" .
  qed
  ultimately show ?thesis using h g(3) by simp
qed

lemma status_evidence:
  assumes "capture_status W p path s t = (Inr (read, status, bytes, s'), t')" "st_blockers s' = []"
  shows "read \<and> replied W t t' p path clean_filter_args [] \<and> replied W t t' p path status_args status
    \<and> (\<exists>d u i files. status_paths status = Inr (d, u, i, files)
        \<and> s' = s\<lparr>st_dirty := Some d, st_untracked := Some u, st_ignored := Some i\<rparr>)"
proof -
  obtain filters t1 where f: "command W p path clean_filter_args True t = (Inr filters, t1)"
    and r: "(if filters \<noteq> [] then pass (False, [], [], block ''external_git_filter_status_skipped'' s)
     else andthen (command W p path status_args False) (\<lambda>status.
       andthen (liftc (\<lambda>_. status_paths status)) (\<lambda>(dirty, untracked, ignored, files).
       andthen (fingerprint_paths W path files (status,
         s\<lparr>st_dirty := Some dirty, st_untracked := Some untracked, st_ignored := Some ignored\<rparr>)) (\<lambda>(bytes, s').
       pass (True, status, bytes, s'))))) t1 = (Inr (read, status, bytes, s'), t')"
    using assms(1) unfolding capture_status_def by (auto simp: andthen_success)
  have none: "filters = []" using r assms(2) by (auto simp: pass_Inr block_def split: if_splits)
  obtain d u i files x t2 where q: "command W p path status_args False t1 = (Inr status, t2)"
    "status_paths status = Inr (d, u, i, files)"
    "fingerprint_paths W path files (status, s\<lparr>st_dirty := Some d, st_untracked := Some u, st_ignored := Some i\<rparr>) t2 = (Inr x, t')"
    "x = (bytes, s')" "read"
    using r unfolding none by (auto simp: success split: prod.splits)
  have "s' = s\<lparr>st_dirty := Some d, st_untracked := Some u, st_ignored := Some i\<rparr>"
    using more_blocked_clear[OF yieldsD[OF fingerprint_paths_yields q(3)]] q(4) assms(2) by simp
  moreover have m: "ob_moment t2 \<le> ob_moment t'" by (rule moves_forward[OF orderly_fingerprints q(3)])
  moreover have "ob_moment t \<le> ob_moment t1" "ob_moment t1 \<le> ob_moment t2" using f q(1) moves_command by blast+
  ultimately show ?thesis
    using q(2,5) replied_widen[OF command_replied[OF q(1)]] replied_widen[OF command_replied[OF f]] none by fastforce
qed

lemma local_evidence:
  assumes "capture_local W p path s t = (Inr s', t')" "st_blockers s' = []"
  shows "\<exists>n. s' = s\<lparr>st_local_only_commits := Some n\<rparr>"
proof -
  obtain n t1 where o: "operation_checks W p path operation_names
      (blocked_if (n = None) ''local_commit_count_unknown'' (s\<lparr>st_local_only_commits := n\<rparr>)) t1 = (Inr s', t')"
    using assms(1) unfolding capture_local_def Let_def by (auto simp: success)
  have "more_blocked (s\<lparr>st_local_only_commits := n\<rparr>) s'"
    by (rule yieldsD[OF operation_checks_yields o]) (intro yields_intros)
  moreover have "n \<noteq> None" using yieldsD[OF operation_checks_yields[OF more_blocked_refl] o] assms(2)
    by (auto simp: more_blocked_def blocked_if_def block_def split: if_splits)
  ultimately show ?thesis using assms(2) more_blocked_clear by blast
qed

lemma unchanged_evidence:
  assumes "capture_unchanged W p path initial head flags True status t = (Inr u, t')"
  shows "replied W t t' p path ls_files_args flags \<and> replied W t t' p path status_args status
    \<and> (\<exists>h. replied W t t' p path head_args h \<and> trim h = head)
    \<and> (\<exists>k < ob_moment t'. ob_moment t \<le> k \<and> directory_identity (ww_machine W k) path = Inr initial)"
proof -
  obtain h t1 t2 t3 where h: "command W p path head_args False t = (Inr h, t1)" "trim h = head"
    "directory_identity (ww_machine W (ob_moment t1)) path = Inr initial" "t2 = t1\<lparr>ob_moment := ob_moment t1 + 1\<rparr>"
    "command W p path status_args False t2 = (Inr status, t3)" "command W p path ls_files_args False t3 = (Inr flags, t')"
    using assms unfolding capture_unchanged_def
    by (auto simp: success utf8_text_def split: if_splits)
  have m: "ob_moment t \<le> ob_moment t1" "ob_moment t1 < ob_moment t2" "ob_moment t2 \<le> ob_moment t3" "ob_moment t3 \<le> ob_moment t'"
    using moves_command[OF h(1)] moves_command[OF h(5)] moves_command[OF h(6)] h(4) by simp_all
  have "replied W t t' p path head_args h" by (rule replied_widen[OF command_replied[OF h(1)]]) (use m in simp_all)
  moreover have "replied W t t' p path status_args status" by (rule replied_widen[OF command_replied[OF h(5)]]) (use m in simp_all)
  moreover have "replied W t t' p path ls_files_args flags" by (rule replied_widen[OF command_replied[OF h(6)]]) (use m in simp_all)
  moreover have "ob_moment t1 < ob_moment t'" using m by simp
  ultimately show ?thesis using h(2,3) m(1) by blast
qed

text \<open>Between two moments git ended well with this listing of the worktrees.\<close>

definition listed :: "world \<Rightarrow> observer \<Rightarrow> observer \<Rightarrow> project_row \<Rightarrow> string \<Rightarrow> bool" where
  "listed W s s' p out \<longleftrightarrow> (\<exists>k. ob_moment s \<le> k \<and> k < ob_moment s'
     \<and> ww_run W k (collect_launch W k p) = Ran (Some out) (Some (Some 0)) \<and> length out \<le> 1024 * 1024)"

text \<open>The worktree carries the path, or its own path is the same directory.\<close>

definition registered_at :: "world \<Rightarrow> observer \<Rightarrow> observer \<Rightarrow> string \<Rightarrow> string \<Rightarrow> worktree \<Rightarrow> bool" where
  "registered_at W s s' path identity w \<longleftrightarrow> normalized (wt_path w) = normalized path
     \<or> (\<exists>k. ob_moment s \<le> k \<and> k < ob_moment s' \<and> directory_identity (ww_machine W k) (wt_path w) = Inr identity)"

lemma listed_widen:
  "listed W s1 s2 p out \<Longrightarrow> ob_moment s \<le> ob_moment s1 \<Longrightarrow> ob_moment s2 \<le> ob_moment s' \<Longrightarrow> listed W s s' p out"
  unfolding listed_def by (meson le_trans less_le_trans)

lemma registered_widen:
  "registered_at W s1 s2 path i w \<Longrightarrow> ob_moment s \<le> ob_moment s1 \<Longrightarrow> ob_moment s2 \<le> ob_moment s' \<Longrightarrow> registered_at W s s' path i w"
  unfolding registered_at_def by (meson le_trans less_le_trans)

lemma collect_listed:
  assumes "collect W now p s = (Inr r, s')" "wo_coverage r = Complete"
  shows "\<exists>out. listed W s s' p out \<and> parse_worktrees out = Inr (wo_worktrees r)"
proof -
  obtain o1 k where e: "r = collect_outcome o1 (ww_run W k (collect_launch W k p))" and o1: "wo_coverage o1 = Denied"
    and k: "ob_moment s \<le> k" "k < ob_moment s'"
  proof (rule that[of _ "ob_moment s + 2"])
    let ?o = "\<lparr>wo_project_id = pr_id p, wo_observed_at = now, wo_coverage = Denied, wo_worktrees = [],
      wo_notes = [''REGISTRATION_ONLY_CONTENT_AND_SESSION_OWNERSHIP_UNKNOWN'']\<rparr>"
    show "r = collect_outcome ?o (ww_run W (ob_moment s + 2) (collect_launch W (ob_moment s + 2) p))" "ob_moment s + 2 < ob_moment s'"
      using assms unfolding collect_def Let_def
      by (auto simp: andthen_success attempt_Inr pass_Inr run_Inr collect_note_def andthen_iff on_machine_def at_moment_def split: if_splits)
  qed simp_all
  obtain out where "ww_run W k (collect_launch W k p) = Ran (Some out) (Some (Some 0))"
      "length out \<le> 1024 * 1024" "parse_worktrees out = Inr (wo_worktrees r)"
    using assms(2) unfolding e
    by (auto simp: collect_outcome_def collect_note_def split: process_end.splits option.splits if_splits sum.splits)
  then show ?thesis using k unfolding listed_def by blast
qed

lemma select_registered:
  assumes "select_worktree W path initial ws s = (Inr w, s')"
  shows "w \<in> set ws \<and> registered_at W s s' path initial w"
  using assms
proof (induction ws arbitrary: s)
  case Nil
  then show ?case by (simp add: fail_Inr)
next
  case (Cons v vs)
  show ?case
  proof (cases "normalized (wt_path v) = normalized path")
    case True
    with Cons.prems show ?thesis by (auto simp: pass_Inr registered_at_def)
  next
    case False
    let ?s = "s\<lparr>ob_moment := ob_moment s + 1\<rparr>"
    show ?thesis
    proof (cases "directory_identity (ww_machine W (ob_moment s)) (wt_path v) = Inr initial")
      case True
      with False Cons.prems have "w = v" "s' = ?s"
        by (auto simp: andthen_success attempt_Inr pass_Inr on_machine_def at_moment_def split: if_splits)
      with True show ?thesis by (auto simp: registered_at_def intro!: exI[of _ "ob_moment s"])
    next
      case no: False
      with False Cons.prems have "select_worktree W path initial vs ?s = (Inr w, s')"
        by (auto simp: andthen_success attempt_Inr pass_Inr on_machine_def at_moment_def split: if_splits)
      from Cons.IH[OF this] show ?thesis using registered_widen[of W ?s s' path initial w s s'] by auto
    qed
  qed
qed

lemma registered_evidence:
  assumes "capture_registered W now p workspace_id path t = (Inr (initial, w, head), t')"
  shows "\<not> wt_bare w \<and> \<not> wt_prunable w \<and> wt_head w = Some head \<and> ob_moment t \<le> ob_moment t'
    \<and> (\<exists>k. ob_moment t \<le> k \<and> k < ob_moment t' \<and> directory_identity (ww_machine W k) path = Inr initial)
    \<and> (\<exists>out ws. listed W t t' p out \<and> parse_worktrees out = Inr ws \<and> w \<in> set ws \<and> registered_at W t t' path initial w)"
proof -
  have "orderly (reading_launch p path) (capture_registered W now p workspace_id path)"
    unfolding capture_registered_def by (intro orderly_intros)
  then have "ob_moment t \<le> ob_moment t'" using assms unfolding orderly_def by blast
  moreover obtain registered t1 t2 where c: "collect W now p t1 = (Inr registered, t2)" "wo_coverage registered = Complete"
      "select_worktree W path initial (wo_worktrees registered) t2 = (Inr w, t')" "ob_moment t1 = ob_moment t + 2"
      "\<not> wt_bare w \<and> \<not> wt_prunable w \<and> wt_head w = Some head"
      "directory_identity (ww_machine W (ob_moment t + 1)) path = Inr initial"
    using assms unfolding capture_registered_def by (auto simp: success ok_or_ok)
  moreover have "ob_moment t1 \<le> ob_moment t2" "ob_moment t2 \<le> ob_moment t'"
    using moves_forward[OF orderly_collect c(1)] moves_forward[OF orderly_select c(3)] by auto
  moreover obtain out where "listed W t1 t2 p out" "parse_worktrees out = Inr (wo_worktrees registered)"
    using collect_listed[OF c(1,2)] by blast
  moreover have "w \<in> set (wo_worktrees registered)" "registered_at W t2 t' path initial w"
    using select_registered[OF c(3)] by auto
  ultimately show ?thesis
    using listed_widen[of W t1 t2 p out t t'] registered_widen[of W t2 t' path initial w t t']
    by (intro conjI exI[of _ "ob_moment t + 1"] exI[of _ out] exI[of _ "wo_worktrees registered"]) auto
qed

text \<open>
  C4: A complete stamp is evidence of what it says. If a capture ends with complete coverage, it carries no
  blocker; the worktree is an entry of the listing git gave at the start, which ended well and was read whole, an
  entry for this path or for the very directory the path named at the start; that entry is neither locked, bare nor
  prunable, its head and branch are those of the stamp, and git still reported that head, in the same directory, at
  the end; git listed no hidden index entry (assume-unchanged, skip-worktree), twice with the same bytes; no
  clean filter was configured, so the status could be read, and it was the same at the end; its counts are
  those of that status, which lists no path at all when the stamp says clean and nothing ignored; and the local
  commits were counted.
\<close>
theorem complete_stamp_is_evidence:
  assumes "capture W now p workspace_id path s = (Inr stamp, s')" "st_coverage stamp = Complete"
  shows "st_blockers stamp = [] \<and> (\<exists>s1 s2 out ws (w :: worktree) flags status d u i files h n k0 k.
      ob_moment s \<le> ob_moment s1 \<and> ob_moment s1 \<le> ob_moment s2 \<and> ob_moment s2 \<le> ob_moment s'
    \<and> listed W s s1 p out \<and> parse_worktrees out = Inr ws \<and> w \<in> set ws
    \<and> registered_at W s s1 path (st_directory_identity stamp) w
    \<and> ob_moment s \<le> k0 \<and> k0 < ob_moment s1 \<and> directory_identity (ww_machine W k0) path = Inr (st_directory_identity stamp)
    \<and> replied W s1 s2 p path ls_files_args flags \<and> replied W s2 s' p path ls_files_args flags
    \<and> index_visibility_blockers flags = Inr []
    \<and> replied W s1 s2 p path clean_filter_args []
    \<and> replied W s1 s2 p path status_args status \<and> replied W s2 s' p path status_args status
    \<and> status_paths status = Inr (d, u, i, files) \<and> st_dirty stamp = Some d \<and> st_untracked stamp = Some u \<and> st_ignored stamp = Some i
    \<and> (d \<or> i \<noteq> 0 \<or> files = [])
    \<and> \<not> wt_locked w \<and> \<not> wt_bare w \<and> \<not> wt_prunable w \<and> wt_head w = Some (st_head stamp) \<and> wt_branch w = st_branch stamp
    \<and> replied W s2 s' p path head_args h \<and> trim h = st_head stamp
    \<and> ob_moment s2 \<le> k \<and> k < ob_moment s' \<and> directory_identity (ww_machine W k) path = Inr (st_directory_identity stamp)
    \<and> st_local_only_commits stamp = Some n)"
proof -
  obtain initial w head at_time flags read status bytes a b c e x y z s2 where
    r: "capture_registered W now p workspace_id path s = (Inr (initial, w, head), a)"
    and b: "at_moment (\<lambda>k. Inr (ww_clock W k)) a = (Inr at_time, b)"
    and m: "capture_marks W p path w (fresh_stamp p workspace_id path initial w head at_time) b = (Inr (flags, x), c)"
    and t: "capture_status W p path x c = (Inr (read, status, bytes, y), e)"
    and l: "capture_local W p path y e = (Inr z, s2)"
    and u: "capture_unchanged W p path initial head flags read status s2 = (Inr (), s')"
    and stamp: "stamp = seal_stamp (ww_sha W) (bytes @ flags) z"
    using assms(1) unfolding capture_def by (auto simp: andthen_success pass_Inr)
  have z: "st_blockers z = []" using assms(2) by (auto simp: stamp seal_stamp_def split: if_splits)
  obtain n where n: "z = y\<lparr>st_local_only_commits := Some n\<rparr>" using local_evidence[OF l z] by blast
  then have y: "st_blockers y = []" using z by simp
  note T = status_evidence[OF t y]
  then obtain d v i files where q: "status_paths status = Inr (d, v, i, files)"
    "y = x\<lparr>st_dirty := Some d, st_untracked := Some v, st_ignored := Some i\<rparr>" by blast
  then have x: "st_blockers x = []" using y by simp
  note M = marks_evidence[OF m x]
  note R = registered_evidence[OF r]
  have u': "capture_unchanged W p path initial head flags True status s2 = (Inr (), s')" using u T by simp
  note U = unchanged_evidence[OF u']
  have f: "st_head stamp = head" "st_branch stamp = wt_branch w" "st_directory_identity stamp = initial"
    "st_dirty stamp = Some d" "st_untracked stamp = Some v" "st_ignored stamp = Some i" "st_local_only_commits stamp = Some n"
    using M q(2) n by (simp_all add: stamp seal_stamp_def fresh_stamp_def)
  have moments: "ob_moment s \<le> ob_moment b" "ob_moment b \<le> ob_moment c" "ob_moment c \<le> ob_moment e"
    "ob_moment e \<le> ob_moment s2" "ob_moment s2 \<le> ob_moment s'"
    using R b moves_forward[OF orderly_marks m] moves_forward[OF orderly_status t] moves_forward[OF orderly_local l]
      moves_forward[OF orderly_unchanged u] by (simp_all add: at_moment_Inr)
  have "replied W b s2 p path ls_files_args flags"
    by (rule replied_widen[of W b c]) (use M moments in simp_all)
  moreover have "replied W b s2 p path clean_filter_args []" "replied W b s2 p path status_args status"
    by (rule replied_widen[of W c e]; use T moments in simp)+
  moreover have "d \<or> i \<noteq> 0 \<or> files = []" using q(1) clean_status_lists_nothing by (cases d; cases "i = 0") auto
  moreover have "st_blockers stamp = []" using z by (simp add: stamp seal_stamp_def btree_set_def)
  moreover obtain h k where "replied W s2 s' p path head_args h" "trim h = head" "ob_moment s2 \<le> k" "k < ob_moment s'"
    "directory_identity (ww_machine W k) path = Inr initial" using U by blast
  moreover obtain out ws where "listed W s a p out" and o: "parse_worktrees out = Inr ws" "w \<in> set ws"
      and "registered_at W s a path initial w" using R by blast
  then have "listed W s b p out" "registered_at W s b path initial w"
    using listed_widen[of W s a p out s b] registered_widen[of W s a path initial w s b] b by (simp_all add: at_moment_Inr)
  moreover obtain k0 where "ob_moment s \<le> k0" "k0 < ob_moment b" "directory_identity (ww_machine W k0) path = Inr initial"
    using R b by (auto simp: at_moment_Inr)
  ultimately show ?thesis using f M R U q(1) moments o
    by - (rule conjI, simp, rule exI[of _ b], rule exI[of _ s2], rule exI[of _ out], rule exI[of _ ws], rule exI[of _ w], rule exI[of _ flags], rule exI[of _ status],
      rule exI[of _ d], rule exI[of _ v], rule exI[of _ i], rule exI[of _ files], rule exI[of _ h], rule exI[of _ n],
      rule exI[of _ k0], rule exI[of _ k], simp)
qed

section \<open>An example\<close>

lemma trim_plain: "list_all (\<lambda>c. is_ascii c \<and> \<not> is_whitespace (byte c)) s \<Longrightarrow> trim s = s"
proof -
  assume a: "list_all (\<lambda>c. is_ascii c \<and> \<not> is_whitespace (byte c)) s"
  have d: "dropWhile (\<lambda>k. is_whitespace (scalar k)) (map (\<lambda>c. [c]) t) = map (\<lambda>c. [c]) t" if "set t \<subseteq> set s" for t
    using that a by (cases t) (auto simp: list_all_iff)
  have "utf8_split s = map (\<lambda>c. [c]) s" using a by (intro utf8_split_ascii) (simp add: list_all_iff)
  then show ?thesis
    using d[of s] d[of "rev s"] by (simp add: trim_def rev_map[symmetric] comp_def)
qed

definition git_items :: "(path_buf \<times> item) list" where
  "git_items = sample_items @ [([''C:'', [backslash], ''u'', ''git.exe''], plain_item PlainFile ''9'' [])]"

definition git_machine :: machine where
  "git_machine = sample_machine\<lparr>mc_items := map_of git_items\<rparr>"

definition git_project :: project_row where
  "git_project = \<lparr>pr_id = ''p'', pr_path = sample_path [''u''], pr_git = sample_path [''u'', ''git.exe'']\<rparr>"

definition git_object :: string where
  "git_object = replicate 40 (CHR ''a'')"

definition git_registered :: worktree where
  "git_registered = (fresh_worktree (sample_path [''u'']))\<lparr>wt_head := Some git_object, wt_branch := Some ''refs/heads/m''\<rparr>"

definition git_main :: worktree where
  "git_main = (fresh_worktree (sample_path [''m'']))\<lparr>wt_head := Some git_object, wt_branch := Some ''refs/heads/main''\<rparr>"

definition git_listing :: string where
  "git_listing = worktree_porcelain [(git_main, [], []), (git_registered, [], [])]"

definition git_reply :: "string list \<Rightarrow> string" where
  "git_reply args = (if ''worktree'' \<in> set args then git_listing
     else if ''rev-list'' \<in> set args then ''0'' else if ''HEAD'' \<in> set args then git_object
     else if ''--git-path'' \<in> set args then sample_path [''u'', ''absent''] else if ''--git-common-dir'' \<in> set args then sample_path [''u'']
     else [])"

definition git_world :: world where
  "git_world = \<lparr>ww_machine = \<lambda>k. git_machine, ww_clock = \<lambda>k. 100, ww_run = \<lambda>k l. Ran (Some (git_reply (la_arguments l))) (Some (Some 0)),
     ww_nanos = \<lambda>k t. None, ww_sha = \<lambda>t. sample_digest\<rparr>"

lemma git_paths:
  "validate_lexical (Some (sample_path [''u'', ''git.exe''])) = Inr ()"
  "path_components (sample_path [''u'', ''git.exe'']) = [''C:'', [backslash], ''u'', ''git.exe'']"
  "component_names (sample_path [''u'', ''git.exe'']) = [''u'', ''git.exe'']"
  "path_components (sample_path [''u'', ''.gitmodules'']) = [''C:'', [backslash], ''u'', ''.gitmodules'']"
  "path_components (sample_path [''u'', ''absent'']) = [''C:'', [backslash], ''u'', ''absent'']"
  by (rule sample_path_admitted; simp add: is_ascii_def is_path_sep_def sample_path_def)+

lemma git_os:
  "at_metadata (machine_os git_machine) k p = map_option it_meta (map_of git_items p)"
  "validate_local_ntfs (machine_os git_machine) t = Inr ()"
  "item_at git_machine t = map_of git_items (path_components t)" "mc_hidden git_machine p = False"
  by (simp_all add: machine_os_def git_machine_def sample_machine_def validate_local_ntfs_def item_at_def check_simps)

lemma git_items_at:
  "map_of git_items [''C:''] = Some (plain_item PlainDir ''1'' [])"
  "map_of git_items [''C:'', [backslash]] = Some (plain_item PlainDir ''2'' [])"
  "map_of git_items [''C:'', [backslash], ''u''] = Some (plain_item PlainDir ''3'' [])"
  "map_of git_items [''C:'', [backslash], ''u'', ''git.exe''] = Some (plain_item PlainFile ''9'' [])"
  "map_of git_items [''C:'', [backslash], ''u'', ''.gitmodules''] = None"
  "map_of git_items [''C:'', [backslash], ''u'', ''absent''] = None"
  by (simp_all add: git_items_def sample_items_def)

lemma git_admitted:
  "directory (machine_os git_machine) (Some (sample_path [''u''])) = Inr ()"
  "local_existing (machine_os git_machine) (Some (sample_path [''u'', ''git.exe''])) = Inr ()"
  "directory_identity git_machine (sample_path [''u'']) = Inr ''3''" "native_git (sample_path [''u'', ''git.exe''])"
  "entry_metadata git_machine (sample_path [''u'', ''.gitmodules'']) = Inr None"
  "entry_metadata git_machine (sample_path [''u'', ''absent'']) = Inr None"
proof -
  have d: "validate_lexical (Some (sample_path [''u''])) = Inr ()" "path_components (sample_path [''u'']) = [''C:'', [backslash], ''u'']"
    using sample_paths by blast+
  then show dir: "directory (machine_os git_machine) (Some (sample_path [''u''])) = Inr ()"
    by (simp add: directory_def local_existing_def git_os git_items_at sample_take)
  show "local_existing (machine_os git_machine) (Some (sample_path [''u'', ''git.exe''])) = Inr ()"
    by (simp add: local_existing_def git_os git_paths git_items_at sample_take)
  show "directory_identity git_machine (sample_path [''u'']) = Inr ''3''"
    by (simp add: directory_identity_def dir git_os d git_items_at)
  show "native_git (sample_path [''u'', ''git.exe''])" by (simp add: native_git_def file_name_def git_paths)
  show "entry_metadata git_machine (sample_path [''u'', ''.gitmodules'']) = Inr None"
    "entry_metadata git_machine (sample_path [''u'', ''absent'']) = Inr None"
    by (simp_all add: entry_metadata_def git_os git_paths git_items_at)
qed

lemma git_reply_options: "git_reply (query_options @ args) = git_reply args"
  by (simp add: git_reply_def query_options_def)

lemma git_printed: "length git_listing \<le> 1024"
  by (simp add: git_listing_def git_main_def worktree_porcelain_def nul_lines_def worktree_lines_def keyed_def reasoned_def git_registered_def fresh_worktree_def
      git_object_def sample_path_def)

lemma git_reply_length: "length (git_reply args) \<le> CAP"
  using git_printed by (simp add: git_reply_def git_object_def sample_path_def CAP_def)

abbreviation git_u :: string where
  "git_u \<equiv> sample_path [''u'']"

definition after_query :: "string list \<Rightarrow> observer \<Rightarrow> observer" where
  "after_query args s = s\<lparr>ob_moment := ob_moment s + 3,
     ob_launches := ob_launches s @ [git_query git_world (ob_moment s + 2) git_project git_u args]\<rparr>"

definition one_later :: "observer \<Rightarrow> observer" where
  "one_later s = s\<lparr>ob_moment := ob_moment s + 1\<rparr>"

lemma git_command: "command git_world git_project git_u args b s = (Inr (git_reply args), after_query args s)"
  using git_reply_length[of args] git_admitted
  by (simp add: command_def andthen_def on_machine_def at_moment_def liftc_def run_process_def git_world_def git_project_def
      query_result_def git_query_def git_reply_options after_query_def)

lemma git_project_fields [simp]: "pr_id git_project = ''p''" "pr_path git_project = git_u" "pr_git git_project = sample_path [''u'', ''git.exe'']"
  by (simp_all add: git_project_def)

lemma git_run: "run_process git_world l s = (Inr (Ran (Some (git_reply (la_arguments (l (ob_moment s))))) (Some (Some 0))),
    s\<lparr>ob_moment := ob_moment s + 1, ob_launches := ob_launches s @ [l (ob_moment s)]\<rparr>)"
  by (simp add: run_process_def git_world_def)

lemma andthen_goes: "h s = (Inr x, s1) \<Longrightarrow> andthen h f s = f x s1"
  by (simp add: andthen_def)

lemma git_registered_fields [simp]: "wt_path git_registered = git_u" "wt_head git_registered = Some git_object"
  "wt_branch git_registered = Some ''refs/heads/m''" "\<not> wt_bare git_registered" "\<not> wt_prunable git_registered" "\<not> wt_locked git_registered"
  by (simp_all add: git_registered_def fresh_worktree_def)

lemma git_on_machine: "on_machine git_world f s = (f git_machine, one_later s)"
  by (simp add: on_machine_def at_moment_def git_world_def one_later_def)

lemma git_listed: "parse_worktrees git_listing = Inr [git_main, git_registered]"
proof -
  have "utf8 git_u" "NUL \<notin> set git_u" "utf8 (sample_path [''m''])" "NUL \<notin> set (sample_path [''m''])"
    by (simp_all add: sample_path_def backslash_def NUL_def)
  moreover have "git_head git_object" by (simp add: git_head_def git_object_def list_all_iff ascii_class_defs)
  ultimately have "listed_wf (git_registered, [], [])" "listed_wf (git_main, [], [])"
    by (simp_all add: listed_wf_def worktree_wf_def git_registered_def git_main_def fresh_worktree_def git_text_def NUL_def)
  then show ?thesis
    using parse_printed_worktrees[of "[(git_main, [], []), (git_registered, [], [])]"] git_printed by (simp add: git_listing_def)
qed

lemma git_collect: "\<exists>s'. collect git_world now git_project s = (Inr \<lparr>wo_project_id = ''p'', wo_observed_at = now, wo_coverage = Complete,
     wo_worktrees = [git_main, git_registered], wo_notes = [''REGISTRATION_ONLY_CONTENT_AND_SESSION_OWNERSHIP_UNKNOWN'']\<rparr>, s')"
proof -
  have r: "git_reply (la_arguments (collect_launch git_world k git_project)) = git_listing" for k
    by (simp add: git_reply_def collect_launch_def)
  show ?thesis
    using git_admitted git_listed git_printed
    by (simp add: collect_def Let_def andthen_def attempt_def git_on_machine pass_def git_run r collect_outcome_def)
qed

definition git_stamp :: workspace_stamp where
  "git_stamp = \<lparr>st_project_id = ''p'', st_workspace_id = ''w'', st_path = git_u, st_directory_identity = ''3'', st_head = git_object,
     st_branch = Some ''refs/heads/m'', st_status_digest = sample_digest, st_dirty = Some False, st_untracked = Some 0,
     st_ignored = Some 0, st_local_only_commits = Some 0, st_blockers = [], st_observed_at = 100, st_coverage = Complete\<rparr>"

lemma git_trims: "trim git_object = git_object" "trim ''0'' = ''0''" "trim (sample_path [''u'', ''absent'']) = sample_path [''u'', ''absent'']"
  "trim git_u = git_u"
  by (rule trim_plain; simp add: git_object_def sample_path_def backslash_def is_ascii_def is_whitespace_def list_all_iff)+

lemma git_utf8: "utf8 git_object" "utf8 (sample_path [''u'', ''absent''])" "utf8 git_u"
  by (simp_all add: git_object_def sample_path_def backslash_def numeral_eq_Suc)

lemma git_elsewhere: "normalized (wt_path git_main) \<noteq> normalized git_u" "\<exists>e. directory_identity git_machine (wt_path git_main) = Inl e"
proof -
  have m: "wt_path git_main = sample_path [''m'']" by (simp add: git_main_def fresh_worktree_def)
  show "normalized (wt_path git_main) \<noteq> normalized git_u"
    by (simp add: m normalized_def to_ascii_lowercase_def ascii_lower_def ascii_class_defs sample_path_def backslash_def)
  have "path_components (sample_path [''m'']) = [''C:'', [backslash], ''m'']"
    by (rule sample_path_admitted; simp add: is_ascii_def is_path_sep_def sample_path_def)
  then have "\<exists>e. directory (machine_os git_machine) (Some (sample_path [''m''])) = Inl e"
    by (auto simp: directory_def local_existing_def git_os sample_take git_items_at bind_check_def git_items_def sample_items_def split: sum.splits)
  then show "\<exists>e. directory_identity git_machine (wt_path git_main) = Inl e"
    by (auto simp: directory_identity_def m bind_check_def)
qed

lemma git_capture: "\<exists>s'. capture git_world now git_project ''w'' git_u s = (Inr git_stamp, s')"
proof -
  obtain s1 where c: "collect git_world now git_project (one_later (one_later s)) = (Inr \<lparr>wo_project_id = ''p'', wo_observed_at = now,
     wo_coverage = Complete, wo_worktrees = [git_main, git_registered],
     wo_notes = [''REGISTRATION_ONLY_CONTENT_AND_SESSION_OWNERSHIP_UNKNOWN'']\<rparr>, s1)" using git_collect by blast
  have r: "capture_registered git_world now git_project ''w'' git_u s = (Inr (''3'', git_registered, git_object), one_later s1)"
    using c git_admitted git_elsewhere by (auto simp: capture_registered_def andthen_def liftc_def attempt_def git_on_machine id_eval pass_def)
  let ?f = "fresh_stamp git_project ''w'' git_u ''3'' git_registered git_object 100"
  have g: "join_path git_u ''.gitmodules'' = sample_path [''u'', ''.gitmodules'']"
    by (simp add: join_path_def sample_path_def is_path_sep_def backslash_def)
  have none: "git_reply [''config'', ''--bool'', ''--get'', k] = []" if "k \<in> {''core.sparseCheckout'', ''index.sparse''}" for k
    using that by (auto simp: git_reply_def)
  have sparse: "sparse_check git_world git_project git_u k x t = (Inr x, after_query [''config'', ''--bool'', ''--get'', k] t)"
    if "k \<in> {''core.sparseCheckout'', ''index.sparse''}" for k x t
    by (simp add: sparse_check_def andthen_def git_command none[OF that] liftc_def utf8_text_def pass_def blocked_if_def)
  have flags: "git_reply ls_files_args = []" by (simp add: git_reply_def ls_files_args_def)
  have "index_visibility_blockers [] = Inr []" by (simp add: index_visibility_blockers_def split_char_def btree_set_def)
  then have m: "capture_marks git_world git_project git_u git_registered ?f t = (Inr ([], ?f),
      after_query [''config'', ''--bool'', ''--get'', ''index.sparse''] (after_query [''config'', ''--bool'', ''--get'', ''core.sparseCheckout'']
        (after_query ls_files_args (one_later t))))" for t
    by (simp add: capture_marks_def Let_def andthen_def attempt_def git_on_machine g git_admitted git_command liftc_def flags sparse
        pass_def blocked_if_def)
  have filters: "git_reply clean_filter_args = []" "git_reply status_args = []" "git_reply head_args = git_object"
    by (simp_all add: git_reply_def clean_filter_args_def status_args_def head_args_def)
  have empty: "status_paths [] = Inr (False, 0, 0, [])" by (simp add: status_paths_def split_char_def)
  let ?g = "?f\<lparr>st_dirty := Some False, st_untracked := Some 0, st_ignored := Some 0\<rparr>"
  have t: "capture_status git_world git_project git_u ?f t = (Inr (True, [], [], ?g), after_query status_args (after_query clean_filter_args t))" for t
    by (simp add: capture_status_def andthen_def git_command filters liftc_def empty pass_def)
  have op: "git_reply [''rev-parse'', ''--path-format=absolute'', ''--git-path'', name] = sample_path [''u'', ''absent'']"
    if "name \<in> set operation_names" for name
    using that by (auto simp: git_reply_def operation_names_def)
  have ops: "\<exists>t'. operation_checks git_world git_project git_u names x t = (Inr x, t')" if "set names \<subseteq> set operation_names" for names x t
    using that
  proof (induction names arbitrary: t)
    case (Cons name names)
    then show ?case
      by (simp add: andthen_def git_command op liftc_def utf8_text_def git_utf8 attempt_def git_on_machine git_trims git_admitted)
  qed (simp add: pass_def)
  have zero: "git_reply [''rev-list'', ''--count'', ''HEAD'', ''--not'', ''--remotes''] = ''0''" by (simp add: git_reply_def)
  have one: "parse_u64 ''0'' = Some 0" by (simp add: parse_u64_def ascii_class_defs)
  let ?h = "?g\<lparr>st_local_only_commits := Some 0\<rparr>"
  have l: "\<exists>t'. capture_local git_world git_project git_u ?g t = (Inr ?h, t')" for t
    by (simp add: capture_local_def Let_def andthen_def git_command zero liftc_def utf8_text_def git_trims one blocked_if_def ops)
  have u: "\<exists>t'. capture_unchanged git_world git_project git_u ''3'' git_object [] True [] t = (Inr (), t')" for t
    by (simp add: capture_unchanged_def andthen_def git_command filters flags liftc_def utf8_text_def git_utf8 git_trims git_on_machine
        git_admitted)
  have clock: "at_moment (\<lambda>k. Inr (ww_clock git_world k)) (one_later s1) = (Inr 100, one_later (one_later s1))"
    by (simp add: at_moment_def git_world_def one_later_def)
  obtain t1 t2 where l': "capture_local git_world git_project git_u ?g (after_query status_args (after_query clean_filter_args
      (after_query [''config'', ''--bool'', ''--get'', ''index.sparse''] (after_query [''config'', ''--bool'', ''--get'', ''core.sparseCheckout'']
        (after_query ls_files_args (one_later (one_later (one_later s1)))))))) = (Inr ?h, t1)"
    and u': "capture_unchanged git_world git_project git_u ''3'' git_object [] True [] t1 = (Inr (), t2)" using l u by metis
  have "seal_stamp (ww_sha git_world) [] ?h = git_stamp"
    by (simp add: seal_stamp_def fresh_stamp_def git_world_def git_stamp_def btree_set_def)
  then show ?thesis
    by (simp add: capture_def andthen_def r clock m t l' u' pass_def)
qed

definition git_detail :: workspace_detail where
  "git_detail = \<lparr>wd_stamp = git_stamp, wd_repository_identity = ''3'', wd_main_worktree = False, wd_bare = False, wd_locked = False,
     wd_changed_paths = [], wd_ignored_paths = [], wd_path_coverage = Complete, wd_branch_exists = Some True,
     wd_checkout_filters_present = Some False\<rparr>"

lemma git_inspect: "\<exists>s'. inspect_worktree git_world now git_project ''w'' git_u s = (Inr git_detail, s')"
proof -
  obtain s1 where stamp: "capture git_world now git_project ''w'' git_u s = (Inr git_stamp, s1)" using git_capture by blast
  have replies: "git_reply [''rev-parse'', ''--path-format=absolute'', ''--git-common-dir''] = git_u" "git_reply status_args = []"
    "git_reply [''worktree'', ''list'', ''--porcelain'', ''-z''] = git_listing"
    "git_reply [''config'', ''--name-only'', ''--get-regexp'', [CHR ''^'', CHR ''f'', CHR ''i'', CHR ''l'', CHR ''t'', CHR ''e'', CHR ''r'', backslash, CHR ''.'']] = []"
    by (simp_all add: git_reply_def status_args_def backslash_def)
  have "detail_paths [] = Inr ([], [])" by (simp add: detail_paths_def split_char_def)
  moreover have "st_coverage git_stamp = Complete" by (simp add: git_stamp_def)
  ultimately show ?thesis
    using git_elsewhere(1)
    by (simp add: inspect_worktree_def andthen_def stamp git_command replies liftc_def git_utf8 git_trims git_on_machine git_admitted git_listed
        pass_def git_detail_def Let_def)
qed

theorem complete_stamp_is_evidence_witness:
  "\<exists>k. directory_identity (ww_machine git_world k) git_u = Inr (st_directory_identity git_stamp) \<and> st_blockers git_stamp = []"
proof -
  obtain s' where "capture git_world now git_project ''w'' git_u \<lparr>ob_moment = 0, ob_launches = []\<rparr> = (Inr git_stamp, s')"
    using git_capture by blast
  moreover have "st_coverage git_stamp = Complete" by (simp add: git_stamp_def)
  ultimately show ?thesis using complete_stamp_is_evidence by blast
qed

theorem inspection_starts_only_reading_queries_witness:
  "\<exists>ls r s'. inspect_worktree git_world ''now'' git_project ''w'' git_u \<lparr>ob_moment = 0, ob_launches = []\<rparr> = (r, s')
     \<and> ob_launches s' = ls \<and> list_all (reading_launch git_project git_u) ls"
proof -
  obtain r s' where "inspect_worktree git_world ''now'' git_project ''w'' git_u \<lparr>ob_moment = 0, ob_launches = []\<rparr> = (r, s')" by fastforce
  from inspection_starts_only_reading_queries[OF this] this show ?thesis by fastforce
qed

end
