(* ===== verification/Effect_Store.thy ===== *)
theory Effect_Store
  imports Secret_Store Control_Ops Workspace_Capture
begin

text \<open>
  The registry and the effect journal as the effect engine uses them: registered integrations and
  approved tasks with their pinned files, effect plans, executions, receipts and caches
  (\<open>workstation-platform/src/integration_store.rs\<close>, \<open>tasks.rs\<close>, \<open>durable_compat.rs\<close>). A payload column
  holds the text, whose writers and readers are arguments; an operation's single clock reading is \<open>now\<close>.
\<close>

section \<open>The station\<close>

record registered_profile =
  pf_id :: string
  pf_project :: string
  pf_environment :: string
  pf_adapter :: string
  pf_digest :: string
  pf_payload :: string
  pf_created :: int

record registered_task =
  tk_id :: string
  tk_project :: string
  tk_environment :: string
  tk_digest :: string
  tk_payload :: string
  tk_created :: int

record cache_row =
  ca_project :: string
  ca_category :: string
  ca_at :: int
  ca_payload :: string

record execution_receipt =
  xr_execution :: string
  xr_plan :: string
  xr_state :: execution_state
  xr_started :: int
  xr_finished :: "int option"
  xr_error :: "string option"
  xr_output :: "int json"
  xr_root_cause_fixed :: bool

text \<open>The tables about worktrees and processes (\<open>schema/004_lifecycle_completion.sql\<close>).\<close>

record host_epoch_row =
  he_epoch :: string
  he_uptime :: int
  he_observed :: int

record managed_binding =
  mb_session :: string
  mb_host :: string
  mb_boot :: string
  mb_pid :: nat
  mb_creation :: string
  mb_executable :: string
  mb_run :: string
  mb_bound :: int

record hook_binding =
  hb_session :: string
  hb_host :: string
  hb_boot :: string
  hb_pid :: nat
  hb_creation :: string
  hb_bound :: int
  hb_expires :: int

record protection_row =
  pn_id :: string
  pn_project :: string
  pn_workspace :: string
  pn_reason :: string
  pn_created :: int
  pn_released :: "int option"

record retirement_row =
  rt_project :: string
  rt_workspace :: string
  rt_run :: string
  rt_head_ref :: string
  rt_recorded :: int
  rt_receipt :: string

record host_tables =
  ht_epoch :: "host_epoch_row option"
  ht_managed :: "managed_binding list"
  ht_hooks :: "hook_binding list"
  ht_protections :: "protection_row list"
  ht_retirements :: "retirement_row list"

text \<open>
  \<open>sa_launched\<close> is the record of the processes started for approved effects, in order;
  \<open>sa_observations\<close> counts the worktrees observed by a worker.
\<close>

record station =
  sa_vault :: vault
  sa_machine :: machine
  sa_home :: string
  sa_host :: host_tables
  sa_launched :: "launch list"
  sa_observations :: nat
  sa_profiles :: "registered_profile list"
  sa_tasks :: "registered_task list"
  sa_caches :: "cache_row list"

record engine_codec =
  ek_repair :: repair_codec
  ek_secret :: secret_codec
  ek_plan_text :: "effect_plan \<Rightarrow> string"
  ek_read_plan :: "string \<Rightarrow> effect_plan option"
  ek_profile_text :: "integration \<Rightarrow> string"
  ek_read_profile :: "string \<Rightarrow> integration option"
  ek_task_text :: "approved_task \<Rightarrow> string"
  ek_read_task :: "string \<Rightarrow> approved_task option"
  ek_receipt_text :: "execution_receipt \<Rightarrow> string"
  ek_read_receipt :: "string \<Rightarrow> execution_receipt option"
  ek_read_details :: "int json \<Rightarrow> workspace_detail list option"
  ek_archive_ok :: "string \<Rightarrow> unit check"
  ek_heads_sha :: "(string \<times> string \<times> string \<times> int) list \<Rightarrow> string"

abbreviation ek_archive :: "engine_codec \<Rightarrow> archive_codec" where
  "ek_archive K \<equiv> rp_journal (ek_repair K)"

definition ek_sha :: "engine_codec \<Rightarrow> string \<Rightarrow> string" where
  "ek_sha K = ac_sha (ek_archive K)"

definition station_journal :: "station \<Rightarrow> journal" where
  "station_journal st = va_journal (sa_vault st)"

definition put_journal :: "journal \<Rightarrow> station \<Rightarrow> station" where
  "put_journal j st = st\<lparr>sa_vault := (sa_vault st)\<lparr>va_journal := j\<rparr>\<rparr>"

definition station_environment :: "station \<Rightarrow> string \<Rightarrow> string \<Rightarrow> unit check" where
  "station_environment st project environment = require_environment (va_control (sa_vault st)) project environment"

section \<open>Integrations\<close>

definition register_integration ::
    "engine_codec \<Rightarrow> int \<Rightarrow> integration \<Rightarrow> string \<Rightarrow> station \<Rightarrow> (station \<times> string) check" where
  "register_integration K now i approved st =
     bind_check (integration_validate i) (\<lambda>_.
     bind_check (station_environment st (int_project_id i) (int_environment i)) (\<lambda>_.
     let payload = ek_profile_text K i; dig = ek_sha K payload in
     if dig \<noteq> approved then Inl ''INTEGRATION_APPROVAL_MISMATCH''
     else bind_check (local_existing (machine_os (sa_machine st)) (Some (int_executable i))) (\<lambda>_.
     bind_check (hash_file (ek_repair K) (sa_machine st) (int_executable i)) (\<lambda>h.
     if h \<noteq> int_executable_sha256 i then Inl ''EXECUTABLE_CHANGED''
     else if length payload > 32768 then Inl ''PROFILE_LIMIT''
     else if list_ex (\<lambda>r. pf_id r = int_id i) (sa_profiles st) \<or> length (chars dig) \<noteq> 64 then Inl journal_rejected
     else Inr (st\<lparr>sa_profiles := sa_profiles st @ [\<lparr>pf_id = int_id i, pf_project = int_project_id i,
            pf_environment = int_environment i, pf_adapter = adapter_id (int_adapter i), pf_digest = dig,
            pf_payload = payload, pf_created = now\<rparr>]\<rparr>, dig)))))"

definition read_profile :: "engine_codec \<Rightarrow> registered_profile \<Rightarrow> integration check" where
  "read_profile K r =
     (if ek_sha K (pf_payload r) \<noteq> pf_digest r then Inl ''PROFILE_DIGEST_MISMATCH''
      else bind_check (ok_or (ek_read_profile K (pf_payload r)) ''STORED_INTEGRATION_INVALID'') (\<lambda>i.
           bind_check (integration_validate i) (\<lambda>_. Inr i)))"

definition integration_of :: "engine_codec \<Rightarrow> station \<Rightarrow> string \<Rightarrow> integration check" where
  "integration_of K st i =
     bind_check (require_v3 (station_journal st)) (\<lambda>_.
     bind_check (ok_or (find (\<lambda>r. pf_id r = i) (sa_profiles st)) journal_rejected) (read_profile K))"

definition integrations_of :: "engine_codec \<Rightarrow> station \<Rightarrow> string \<Rightarrow> integration list check" where
  "integrations_of K st project =
     bind_check (require_v3 (station_journal st)) (\<lambda>_.
     bind_check (each (read_profile K) (take 129 (sort_key pf_id (filter (\<lambda>r. pf_project r = project) (sa_profiles st))))) (\<lambda>out.
     if length out > 128 then Inl ''INTEGRATION_QUERY_LIMIT'' else Inr out))"

section \<open>Approved tasks and their files\<close>

definition task_files :: "engine_codec \<Rightarrow> machine \<Rightarrow> approved_task \<Rightarrow> unit check" where
  "task_files K m t =
     bind_check (approved_task_validate t) (\<lambda>_.
     bind_check (directory (machine_os m) (Some (task_cwd t))) (\<lambda>_.
     bind_check (directory_identity m (task_cwd t)) (\<lambda>d.
     if d \<noteq> task_directory_identity t then Inl ''TASK_DIRECTORY_CHANGED''
     else bind_check (hash_file (ek_repair K) m (task_executable t)) (\<lambda>h.
     if h \<noteq> task_executable_sha256 t then Inl ''TASK_EXECUTABLE_CHANGED''
     else bind_check (check_all (\<lambda>p. bind_check (hash_file (ek_repair K) m (fp_path p)) (\<lambda>h.
            reject (h \<noteq> fp_sha256 p) ''TASK_SCRIPT_CHANGED'')) (task_script_pins t)) (\<lambda>_.
     reject (to_ascii_lowercase (last (split_on is_path_sep (task_executable t)))
          \<in> set [''node.exe'', ''node'', ''python.exe'', ''python'', ''python3'']
        \<and> \<not> list_ex (\<lambda>p. fp_path p \<in> set (task_args t)) (task_script_pins t))
       ''TASK_SCRIPT_ARGUMENT_NOT_PINNED'')))))"

definition register_task ::
    "engine_codec \<Rightarrow> int \<Rightarrow> approved_task \<Rightarrow> string \<Rightarrow> station \<Rightarrow> (station \<times> string) check" where
  "register_task K now t approved st =
     bind_check (approved_task_validate t) (\<lambda>_.
     bind_check (station_environment st (task_project_id t) (task_environment t)) (\<lambda>_.
     let payload = ek_task_text K t; dig = ek_sha K payload in
     if approved \<noteq> dig then Inl ''TASK_APPROVAL_MISMATCH''
     else bind_check (task_files K (sa_machine st) t) (\<lambda>_.
     if list_ex (\<lambda>r. tk_id r = task_id t) (sa_tasks st) \<or> length (chars dig) \<noteq> 64 \<or> length (chars payload) > 65536
     then Inl journal_rejected
     else Inr (st\<lparr>sa_tasks := sa_tasks st @ [\<lparr>tk_id = task_id t, tk_project = task_project_id t,
            tk_environment = task_environment t, tk_digest = dig, tk_payload = payload, tk_created = now\<rparr>]\<rparr>, dig))))"

definition task_of :: "engine_codec \<Rightarrow> station \<Rightarrow> string \<Rightarrow> approved_task check" where
  "task_of K st i =
     bind_check (require_v3 (station_journal st)) (\<lambda>_.
     bind_check (ok_or (find (\<lambda>r. tk_id r = i) (sa_tasks st)) journal_rejected) (\<lambda>r.
     if ek_sha K (tk_payload r) \<noteq> tk_digest r then Inl ''TASK_DIGEST_MISMATCH''
     else bind_check (ok_or (ek_read_task K (tk_payload r)) ''STORED_INTEGRATION_INVALID'') (\<lambda>t.
          bind_check (approved_task_validate t) (\<lambda>_. Inr t))))"

section \<open>Plans, executions and receipts\<close>

definition save_effect_plan :: "engine_codec \<Rightarrow> effect_plan \<Rightarrow> station \<Rightarrow> (station \<times> string) check" where
  "save_effect_plan K p st =
     bind_check (effect_plan_validate p) (\<lambda>_.
     bind_check (station_environment st (ep_project_id p) (ep_environment p)) (\<lambda>_.
     let payload = ek_plan_text K p; dig = ek_sha K payload; j = station_journal st in
     if list_ex (\<lambda>r. jp_id r = ep_id p) (jo_plans j) \<or> length (chars dig) \<noteq> 64 \<or> length (chars payload) > 131072
       \<or> \<not> (ep_created_at p < ep_expires_at p \<and> ep_expires_at p - ep_created_at p \<le> 900)
     then Inl journal_rejected
     else Inr (put_journal (j\<lparr>jo_plans := jo_plans j @ [\<lparr>jp_id = ep_id p, jp_project = ep_project_id p,
            jp_environment = ep_environment p, jp_policy = ep_policy p, jp_digest = dig,
            jp_created = ep_created_at p, jp_expires = ep_expires_at p, jp_payload = payload\<rparr>]\<rparr>) st, dig)))"

definition effect_plan_of :: "engine_codec \<Rightarrow> station \<Rightarrow> string \<Rightarrow> (effect_plan \<times> string) check" where
  "effect_plan_of K st i =
     bind_check (require_v3 (station_journal st)) (\<lambda>_.
     bind_check (ok_or (find (\<lambda>p. jp_id p = i) (jo_plans (station_journal st))) journal_rejected) (\<lambda>row.
     bind_check (hydrate_journal (ek_archive K) (ek_archive_ok K) (station_journal st) ''plan'' i (jp_payload row)) (\<lambda>payload.
     if ek_sha K payload \<noteq> jp_digest row then Inl ''PLAN_CORRUPTION''
     else bind_check (ok_or (ek_read_plan K payload) ''STORED_INTEGRATION_INVALID'') (\<lambda>p. Inr (p, jp_digest row)))))"

text \<open>The unique plan of an execution is what makes a plan run at most once.\<close>

definition begin_run :: "int \<Rightarrow> string \<Rightarrow> effect_plan \<Rightarrow> string \<Rightarrow> string \<Rightarrow> journal \<Rightarrow> journal check" where
  "begin_run now run p dig approval j =
     bind_check (approve p dig approval now) (\<lambda>_.
     if list_ex (\<lambda>r. jr_id r = run \<or> jr_plan r = ep_id p) (jo_runs j)
       \<or> \<not> list_ex (\<lambda>r. jp_id r = ep_id p) (jo_plans j) then Inl journal_rejected
     else Inr (j\<lparr>jo_runs := jo_runs j @ [\<lparr>jr_id = run, jr_plan = ep_id p, jr_state = ''running'', jr_started = now,
            jr_finished = None, jr_error = None, jr_receipt = None\<rparr>]\<rparr>))"

definition finish_run :: "engine_codec \<Rightarrow> execution_receipt \<Rightarrow> journal \<Rightarrow> journal check" where
  "finish_run K r j =
     (let hit = (\<lambda>x. jr_id x = xr_execution r \<and> jr_plan x = xr_plan r \<and> jr_state x = ''running'');
          s = execution_state_str (xr_state r); t = ek_receipt_text K r
      in if \<not> list_ex hit (jo_runs j) then Inl ''EXECUTION_STATE_CONFLICT''
         else if s \<notin> set [''running'', ''succeeded'', ''failed'', ''indeterminate'', ''cancelled'']
           \<or> length (chars t) > 262144 then Inl journal_rejected
         else if length (filter hit (jo_runs j)) \<noteq> 1 then Inl ''EXECUTION_STATE_CONFLICT''
         else Inr (j\<lparr>jo_runs := map (\<lambda>x. if hit x then x\<lparr>jr_state := s, jr_finished := xr_finished r,
                jr_error := xr_error r, jr_receipt := Some t\<rparr> else x) (jo_runs j)\<rparr>))"

definition runs_of_project :: "journal \<Rightarrow> string \<Rightarrow> journal_run list" where
  "runs_of_project j project =
     filter (\<lambda>r. list_ex (\<lambda>p. jp_id p = jr_plan r \<and> jp_project p = project) (jo_plans j)) (jo_runs j)"

definition effect_history :: "engine_codec \<Rightarrow> station \<Rightarrow> string \<Rightarrow> (journal_run \<times> int json option) list check" where
  "effect_history K st project =
     bind_check (require_v3 (station_journal st)) (\<lambda>_.
     each (\<lambda>r. case jr_receipt r of None \<Rightarrow> Inr (r, None)
       | Some t \<Rightarrow> bind_check (hydrate_journal (ek_archive K) (ek_archive_ok K) (station_journal st) ''receipt'' (jr_id r) t) (\<lambda>s.
           bind_check (ok_or (ac_parse (ek_archive K) s) ''STORED_INTEGRATION_INVALID'') (\<lambda>v. Inr (r, Some v))))
       (take 100 (sort_key (\<lambda>r. - jr_started r) (runs_of_project (station_journal st) project))))"

definition completed_receipt :: "engine_codec \<Rightarrow> station \<Rightarrow> string \<Rightarrow> string \<Rightarrow> execution_receipt check" where
  "completed_receipt K st run project =
     bind_check (ok_or (Option.bind (find (\<lambda>r. jr_id r = run \<and> jr_state r = ''succeeded'')
         (runs_of_project (station_journal st) project)) jr_receipt) journal_rejected) (\<lambda>payload.
     bind_check (hydrate_journal (ek_archive K) (ek_archive_ok K) (station_journal st) ''receipt'' run payload) (\<lambda>t.
     ok_or (ek_read_receipt K t) ''STORED_INTEGRATION_INVALID''))"

definition effect_steps_read :: "engine_codec \<Rightarrow> station \<Rightarrow> string \<Rightarrow> (journal_step \<times> int json) list check" where
  "effect_steps_read K st run =
     bind_check (each (\<lambda>s. bind_check (hydrate_journal (ek_archive K) (ek_archive_ok K) (station_journal st) ''step''
           (step_key run (js_seq s)) (js_payload s)) (\<lambda>t.
         bind_check (ok_or (ac_parse (ek_archive K) t) ''STORED_INTEGRATION_INVALID'') (\<lambda>v. Inr (s, v))))
       (take 101 (sort_key js_seq (filter (\<lambda>s. js_run s = run) (jo_steps (station_journal st)))))) (\<lambda>out.
     if length out > 100 then Inl ''STEP_LIMIT'' else Inr out)"

section \<open>Caches\<close>

definition cache_observation :: "engine_codec \<Rightarrow> int \<Rightarrow> string \<Rightarrow> string \<Rightarrow> int json \<Rightarrow> station \<Rightarrow> station check" where
  "cache_observation K now project category v st =
     bind_check (require_v3 (station_journal st)) (\<lambda>_.
     bind_check (control_id category) (\<lambda>_.
     let payload = ac_show (ek_archive K) v; hit = (\<lambda>c. ca_project c = project \<and> ca_category c = category) in
     if length payload > 262144 then Inl ''CACHE_LIMIT''
     else if project \<notin> set (jo_projects (station_journal st)) then Inl journal_rejected
     else Inr (st\<lparr>sa_caches := (if list_ex hit (sa_caches st)
            then map (\<lambda>c. if hit c then c\<lparr>ca_at := now, ca_payload := payload\<rparr> else c) (sa_caches st)
            else sa_caches st @ [\<lparr>ca_project = project, ca_category = category, ca_at = now, ca_payload = payload\<rparr>])\<rparr>)))"

definition cached_observation :: "engine_codec \<Rightarrow> int \<Rightarrow> string \<Rightarrow> string \<Rightarrow> station \<Rightarrow> int json check" where
  "cached_observation K now project category st =
     bind_check (require_v3 (station_journal st)) (\<lambda>_.
     case find (\<lambda>c. ca_project c = project \<and> ca_category c = category) (sa_caches st) of
       Some c \<Rightarrow> bind_check (ok_or (ac_parse (ek_archive K) (ca_payload c)) ''STORED_INTEGRATION_INVALID'') (\<lambda>v.
         Inr (JObj [(''data'', v), (''fresh'', JBool (ca_at c \<le> now \<and> now - ca_at c \<le> 300)), (''observed_at'', JNum (ca_at c))]))
     | None \<Rightarrow> Inr (JObj [(''coverage'', JStr ''unknown''), (''data'', JNull)]))"

end
