(* ===== verification/Workspace_Store.thy ===== *)
theory Workspace_Store
  imports Effect_Store Ownership
begin

text \<open>
  Worktree protection, process provenance and retirement in the store
  (\<open>workstation-platform/src/operations_store.rs\<close>): the conservative host epoch, bindings of processes to
  sessions, explicit protections, the evidence collected for a cleanup, the actors of a project and the record
  of a retired worktree. The clock, the uptime and fresh identifiers are arguments.
\<close>

section \<open>The host epoch and process bindings\<close>

definition store_v4 :: "station \<Rightarrow> unit check" where
  "store_v4 st = vault_v4 (sa_vault st)"

definition put_host :: "host_tables \<Rightarrow> station \<Rightarrow> station" where
  "put_host h st = st\<lparr>sa_host := h\<rparr>"

text \<open>The old epoch survives only an observation that continues the last one.\<close>

definition epoch_continues :: "host_epoch_row \<Rightarrow> int \<Rightarrow> int \<Rightarrow> bool" where
  "epoch_continues e ticks now \<longleftrightarrow> he_uptime e \<le> ticks \<and> he_observed e \<le> now
     \<and> \<bar>sub_i64 (sub_i64 ticks (he_uptime e) div 1000) (sub_i64 now (he_observed e))\<bar> < 5 \<and> sub_i64 now (he_observed e) \<le> 86400"

definition host_epoch :: "int \<Rightarrow> nat \<Rightarrow> string \<Rightarrow> station \<Rightarrow> (station \<times> string) check" where
  "host_epoch now uptime new_id st =
     bind_check (store_v4 st) (\<lambda>_.
     if uptime \<ge> 2 ^ 63 then Inl ''UPTIME_OVERFLOW''
     else let ticks = int uptime; h = sa_host st;
              i = (case ht_epoch h of Some e \<Rightarrow> if epoch_continues e ticks now then he_epoch e else new_id | None \<Rightarrow> new_id)
       in Inr (put_host (h\<lparr>ht_epoch := Some \<lparr>he_epoch = i, he_uptime = ticks, he_observed = now\<rparr>\<rparr>) st, i))"

text \<open>\<open>INSERT OR IGNORE\<close>; the epoch is committed first, and the session is the one of the running continuation.\<close>

definition bind_owned_process ::
    "int \<Rightarrow> nat \<Rightarrow> string \<Rightarrow> string \<Rightarrow> (string \<Rightarrow> string option) \<Rightarrow> string \<Rightarrow> nat \<Rightarrow> nat \<Rightarrow> string \<Rightarrow> station \<Rightarrow> unit check \<times> station" where
  "bind_owned_process now uptime new_id installation running run pid creation executable st =
     (case bind_check (store_v4 st) (\<lambda>_. checks [reject (creation = 0 \<or> pid = 0) ''PROCESS_IDENTITY_REQUIRED'', digest executable]) of
        Inl e \<Rightarrow> (Inl e, st)
      | Inr _ \<Rightarrow> (case host_epoch now uptime new_id st of
          Inl e \<Rightarrow> (Inl e, st)
        | Inr (st1, boot) \<Rightarrow> (case running run of
            None \<Rightarrow> (Inl operations_rejected, st1)
          | Some session \<Rightarrow>
              let b = \<lparr>mb_session = session, mb_host = installation, mb_boot = boot, mb_pid = pid, mb_creation = show_nat creation,
                    mb_executable = executable, mb_run = run, mb_bound = now\<rparr>; h = sa_host st1
              in if list_ex (\<lambda>x. mb_session x = session \<and> mb_host x = installation \<and> mb_boot x = boot \<and> mb_pid x = pid
                   \<and> mb_creation x = mb_creation b) (ht_managed h) then (Inr (), st1)
                 else if \<not> list_ex (\<lambda>s. ses_id s = session) (cd_sessions (va_control (sa_vault st1)))
                   \<or> \<not> run_known (sa_vault st1) run then (Inl operations_rejected, st1)
                 else (Inr (), put_host (h\<lparr>ht_managed := ht_managed h @ [b]\<rparr>) st1))))"

definition session_in :: "station \<Rightarrow> string \<Rightarrow> string \<Rightarrow> bool" where
  "session_in st project session \<longleftrightarrow>
     list_ex (\<lambda>s. ses_id s = session \<and> ses_project_id s = project) (cd_sessions (va_control (sa_vault st)))"

definition managed_as_binding :: "managed_binding \<Rightarrow> binding check" where
  "managed_as_binding b = bind_check (ok_or (parse_u64 (mb_creation b)) ''PROCESS_CREATION_INVALID'') (\<lambda>created.
     Inr \<lparr>bd_process = ProcessKey (mb_host b) (mb_boot b) (mb_pid b) created, bd_session_id = mb_session b,
       bd_source = ''observed_owned_child_and_protocol_session'', bd_shared = False, bd_seen_at = mb_bound b,
       bd_expires_at = min (mb_bound b + 86400) (2 ^ 63 - 1)\<rparr>)"

definition hook_as_binding :: "hook_binding \<Rightarrow> binding check" where
  "hook_as_binding b = bind_check (ok_or (parse_u64 (hb_creation b)) ''PROCESS_CREATION_INVALID'') (\<lambda>created.
     Inr \<lparr>bd_process = ProcessKey (hb_host b) (hb_boot b) (hb_pid b) created, bd_session_id = hb_session b,
       bd_source = ''observed_configured_hook_ancestry_not_exclusive'', bd_shared = True, bd_seen_at = hb_bound b,
       bd_expires_at = hb_expires b\<rparr>)"

definition process_bindings :: "int \<Rightarrow> station \<Rightarrow> string \<Rightarrow> binding list check" where
  "process_bindings now st project =
     bind_check (store_v4 st) (\<lambda>_.
     bind_check (each managed_as_binding (take 4097 (sort_key (\<lambda>b. - mb_bound b)
         (filter (\<lambda>b. session_in st project (mb_session b)) (ht_managed (sa_host st)))))) (\<lambda>owned.
     bind_check (each hook_as_binding (take 4097 (sort_key (\<lambda>b. - hb_bound b)
         (filter (\<lambda>b. session_in st project (hb_session b) \<and> hb_expires b \<ge> now) (ht_hooks (sa_host st)))))) (\<lambda>hooks.
     if length (owned @ hooks) > 8192 then Inl ''BINDING_BUDGET'' else Inr (owned @ hooks))))"

section \<open>Protections\<close>

definition protection ::
    "int \<Rightarrow> string \<Rightarrow> string \<Rightarrow> string \<Rightarrow> string \<Rightarrow> string option \<Rightarrow> station \<Rightarrow> (station \<times> int json) check" where
  "protection now new_id project workspace_id reason freed st =
     bind_check (store_v4 st) (\<lambda>_.
     bind_check (workspace_path (va_control (sa_vault st)) project workspace_id) (\<lambda>_.
     bind_check (control_text reason 512) (\<lambda>_.
     let h = sa_host st in
     case freed of
       Some i \<Rightarrow>
         let hit = (\<lambda>p. pn_id p = i \<and> pn_project p = project \<and> pn_workspace p = workspace_id \<and> pn_released p = None) in
         if length (filter hit (ht_protections h)) \<noteq> 1 then Inl ''PROTECTION_NOT_CURRENT''
         else Inr (put_host (h\<lparr>ht_protections := map (\<lambda>p. if hit p then p\<lparr>pn_released := Some now\<rparr> else p) (ht_protections h)\<rparr>) st,
           JObj [(''other_protection_still_applies'', JBool True), (''released'', JStr i)])
     | None \<Rightarrow>
         if list_ex (\<lambda>p. pn_id p = new_id) (ht_protections h) then Inl operations_rejected
         else Inr (put_host (h\<lparr>ht_protections := ht_protections h @ [\<lparr>pn_id = new_id, pn_project = project, pn_workspace = workspace_id,
             pn_reason = reason, pn_created = now, pn_released = None\<rparr>]\<rparr>) st,
           JObj [(''active'', JBool True), (''protection_id'', JStr new_id)]))))"

definition active_protections :: "station \<Rightarrow> string \<Rightarrow> string \<Rightarrow> string list" where
  "active_protections st project workspace_id = map pn_reason (filter (\<lambda>p. pn_project p = project \<and> pn_workspace p = workspace_id
     \<and> pn_released p = None) (ht_protections (sa_host st)))"

section \<open>The evidence for a cleanup\<close>

text \<open>The sessions the cached ownership observation names, row by row.\<close>

definition observed_sessions :: "int json \<Rightarrow> string list" where
  "observed_sessions cache = (case Option.bind (json_pointer cache [''data'', ''rows'']) json_as_array of None \<Rightarrow> []
     | Some rows \<Rightarrow> concat (map (\<lambda>row. case Option.bind (json_get row ''sessions'') json_as_array of None \<Rightarrow> []
         | Some xs \<Rightarrow> List.map_filter json_as_str xs) rows))"

definition ownership_complete :: "int json \<Rightarrow> bool" where
  "ownership_complete cache \<longleftrightarrow> Option.bind (json_get cache ''fresh'') json_as_bool = Some True
     \<and> json_str_ptr cache [''data'', ''coverage''] = Some ''complete''"

definition sessions_of :: "roster_entry list \<Rightarrow> string \<Rightarrow> string list" where
  "sessions_of entries workspace_id = map (\<lambda>r. ses_id (re_session r)) (filter (\<lambda>r. ses_workspace_id (re_session r) = Some workspace_id) entries)"

definition unresolved_sessions :: "roster_entry list \<Rightarrow> string \<Rightarrow> int json \<Rightarrow> string list" where
  "unresolved_sessions entries workspace_id cache = btree_set
     (map (\<lambda>r. ses_id (re_session r)) (filter (\<lambda>r. ses_workspace_id (re_session r) = Some workspace_id
        \<and> (ses_ended_at (re_session r) = None \<or> re_work_id r \<noteq> None)) entries)
      @ map (\<lambda>i. ''live-process-session:'' @ i) (filter (\<lambda>i. i \<in> set (sessions_of entries workspace_id)) (observed_sessions cache)))"

definition cleanup_evidence :: "engine_codec \<Rightarrow> int \<Rightarrow> workspace_detail \<Rightarrow> bool \<Rightarrow> station \<Rightarrow> cleanup_context check" where
  "cleanup_evidence K now detail ack st =
     bind_check (store_v4 st) (\<lambda>_.
     let p = st_project_id (wd_stamp detail); w = st_workspace_id (wd_stamp detail); db = va_control (sa_vault st);
         reasons = take 101 (active_protections st p w) in
     if length reasons > 100 then Inl ''PROTECTION_QUERY_LIMIT''
     else bind_check (work_items db p) (\<lambda>work.
     bind_check (roster db p) (\<lambda>entries.
     bind_check (process_bindings now st p) (\<lambda>bindings.
     bind_check (cached_observation K now p ''ownership'' st) (\<lambda>cache.
     let live = list_ex (\<lambda>b. bd_session_id b \<in> set (sessions_of entries w)) bindings in
     Inr \<lparr>cc_detail = detail,
       cc_work_states = map (\<lambda>x. (wi_id x, wi_state x)) (filter (\<lambda>x. wi_workspace_id x = Some w) work),
       cc_unresolved_sessions = unresolved_sessions entries w cache, cc_protection_reasons = reasons,
       cc_observations_complete = (length entries < 100 \<and> (live \<longrightarrow> ownership_complete cache)),
       cc_quiescence_acknowledged = ack, cc_preserve_head_ref = True\<rparr>)))))"

section \<open>Actors and retirements\<close>

definition actor_of :: "int \<Rightarrow> string \<Rightarrow> workspace_detail list \<Rightarrow> roster_entry \<Rightarrow> workspace_actor" where
  "actor_of now project details e =
     (let d = find (\<lambda>d. Some (st_workspace_id (wd_stamp d)) = ses_workspace_id (re_session e)) details in
      \<lparr>ac_session_id = ses_id (re_session e), ac_work_id = re_work_id e, ac_project_id = project,
       ac_workspace_id = ses_workspace_id (re_session e), ac_repository_identity = map_option wd_repository_identity d,
       ac_branch = Option.bind d (\<lambda>x. st_branch (wd_stamp x)), ac_paths = (case d of None \<Rightarrow> [] | Some x \<Rightarrow> wd_changed_paths x),
       ac_paths_complete = (case d of None \<Rightarrow> False | Some x \<Rightarrow> wd_path_coverage x = Complete
         \<and> st_observed_at (wd_stamp x) \<le> now \<and> sub_i64 now (st_observed_at (wd_stamp x)) \<le> 60),
       ac_role = re_role e, ac_ended = (ses_ended_at (re_session e) \<noteq> None), ac_lease_until = re_lease_until e,
       ac_last_observed = ses_last_observed (re_session e)\<rparr>)"

definition workspace_actors :: "engine_codec \<Rightarrow> int \<Rightarrow> station \<Rightarrow> string \<Rightarrow> workspace_actor list check" where
  "workspace_actors K now st project =
     bind_check (cached_observation K now project ''workspace-details'' st) (\<lambda>cache.
     bind_check (if Option.bind (json_get cache ''fresh'') json_as_bool = Some True then
         (case json_pointer cache [''data'', ''details''] of None \<Rightarrow> Inr []
          | Some v \<Rightarrow> ok_or (ek_read_details K v) ''WORKSPACE_DETAIL_CACHE_INVALID'') else Inr []) (\<lambda>details.
     bind_check (roster (va_control (sa_vault st)) project) (\<lambda>entries.
     Inr (map (actor_of now project details) entries))))"

definition record_retired ::
    "engine_codec \<Rightarrow> int \<Rightarrow> string \<Rightarrow> cleanup_target \<Rightarrow> int json \<Rightarrow> station \<Rightarrow> station check" where
  "record_retired K now run t receipt st =
     (let h = sa_host st in
      if list_ex (\<lambda>r. rt_project r = ct_project_id t \<and> rt_workspace r = ct_workspace_id t) (ht_retirements h)
        \<or> \<not> run_known (sa_vault st) run
        \<or> \<not> list_ex (\<lambda>w. wr_project w = ct_project_id t \<and> wr_id w = ct_workspace_id t) (cd_workspaces (va_control (sa_vault st)))
      then Inl operations_rejected
      else Inr (put_host (h\<lparr>ht_retirements := ht_retirements h @ [\<lparr>rt_project = ct_project_id t, rt_workspace = ct_workspace_id t,
        rt_run = run, rt_head_ref = ct_preservation_ref t, rt_recorded = now, rt_receipt = ac_show (ek_archive K) receipt\<rparr>]\<rparr>) st))"

definition graph_conflicts :: "engine_codec \<Rightarrow> int \<Rightarrow> station \<Rightarrow> string \<Rightarrow> (workspace_actor list \<times> workspace_conflict list \<times> int json) option check" where
  "graph_conflicts K now st project =
     (if cd_version (va_control (sa_vault st)) < 4 then Inr None
      else bind_check (workspace_actors K now st project) (\<lambda>actors.
        bind_check (conflicts actors now) (\<lambda>collisions.
        bind_check (cached_observation K now project ''ownership'' st) (\<lambda>cache. Inr (Some (actors, collisions, cache))))))"

definition assert_resume_scope :: "station \<Rightarrow> string \<Rightarrow> string \<Rightarrow> string \<Rightarrow> string \<Rightarrow> unit check" where
  "assert_resume_scope st project adapter external cwd =
     (let db = va_control (sa_vault st);
          paths = take 3 (concat (map (\<lambda>s. map wr_path (filter (\<lambda>w. wr_project w = ses_project_id s \<and> Some (wr_id w) = ses_workspace_id s)
            (cd_workspaces db))) (filter (\<lambda>s. ses_project_id s = project \<and> ses_agent s = adapter \<and> ses_external_id s = external)
              (cd_sessions db)))) in
      if paths = [] then Inl ''RESUME_REQUIRES_RECORDED_SAME_PROJECT_WORKSPACE_SESSION''
      else bind_check (directory_identity (sa_machine st) cwd) (\<lambda>i.
        check_all (\<lambda>p. bind_check (directory_identity (sa_machine st) p) (\<lambda>j. reject (j \<noteq> i) ''RESUME_WORKSPACE_CONFLICT'')) paths))"

end
