(* ===== verification/Engine_Base.thy ===== *)
theory Engine_Base
  imports Workspace_Store Control_Store Continuity
begin

text \<open>
  What the executors of approved effects share: the handlers over a station, the ports to processes, to
  other programs and to the network, and the bounded transport of \<open>workstation-platform/src/external.rs\<close>
  with its scoped environment. Every process that is started is recorded, and may change the machine.
\<close>

section \<open>Addresses and requests\<close>

datatype ip = V4 "8 word" "8 word" "8 word" "8 word" | V6 "16 word list"

record http_request =
  hq_method :: string
  hq_url :: string
  hq_query :: "(string \<times> string) list"
  hq_headers :: "(string \<times> string) list"
  hq_pinned :: "ip list"

record parsed_url =
  ur_scheme :: string
  ur_username :: string
  ur_password :: "string option"
  ur_query :: "string option"
  ur_fragment :: "string option"
  ur_port :: "nat option"
  ur_host :: "string option"

text \<open>The status and what could be read of the body, up to one byte above its limit.\<close>

datatype http_answer = NoAnswer | Answered nat "string option"

datatype new_file = Written | Taken | NotCreated | NotWritten | NotSynced

section \<open>Ports and circumstances\<close>

record ambient =
  am_now :: int
  am_time_text :: string
  am_run :: string
  am_rename :: bool
  am_ids :: "nat \<Rightarrow> string"
  am_call :: call
  am_hidden :: "string check"
  am_version :: string
  am_vault_dir :: "unit check"
  am_vault_disk :: "string \<Rightarrow> string \<times> bool"
  am_archive_dir :: "unit check"
  am_archive_disk :: "string \<Rightarrow> string \<times> bool"
  am_archive_id :: string
  am_lock :: "unit check"

type_synonym 'a engine = "(station, 'a) handler"

text \<open>
  The operating system: what the \<open>n\<close>-th started process answers (or how its transport failed) and what
  it does to the machine, what \<open>Path::exists\<close>, \<open>create_dir\<close> and \<open>create_new\<close> do; the world of the
  \<open>n\<close>-th observation and the failure of its worker; the network, its URL parser and the JSON of its bodies,
  where a number is its literal; and the drivers of other agents.
\<close>

record ports =
  pt_process :: "nat \<Rightarrow> launch \<Rightarrow> (string \<times> int) check"
  pt_after :: "nat \<Rightarrow> launch \<Rightarrow> machine \<Rightarrow> machine"
  pt_spawn :: "nat \<Rightarrow> launch \<Rightarrow> nat option"
  pt_waited :: "nat \<Rightarrow> nat"
  pt_exists :: "machine \<Rightarrow> string \<Rightarrow> bool"
  pt_mkdir :: "machine \<Rightarrow> string \<Rightarrow> machine option"
  pt_new_file :: "machine \<Rightarrow> string \<Rightarrow> string \<Rightarrow> machine \<times> new_file"
  pt_world :: "nat \<Rightarrow> world"
  pt_worker :: "nat \<Rightarrow> string option"
  pt_http :: "nat \<Rightarrow> http_request \<Rightarrow> http_answer"
  pt_billing_late :: "nat \<Rightarrow> bool"
  pt_rfc3339 :: "int \<Rightarrow> string option"
  pt_read_rfc3339 :: "string \<Rightarrow> int option"
  pt_header_value :: "string \<Rightarrow> bool"
  pt_body :: "string \<Rightarrow> string json option"
  pt_i64 :: "string \<Rightarrow> int option"
  pt_show_number :: "string json \<Rightarrow> string"
  pt_url :: "string \<Rightarrow> parsed_url option"
  pt_lookup :: "string \<Rightarrow> ip list check"
  pt_vendor :: "station \<Rightarrow> integration \<Rightarrow> query_kind \<Rightarrow> int json check"
  pt_samples :: "int json \<Rightarrow> quota_sample list option"
  pt_resource_sha :: "resource \<Rightarrow> string"
  pt_checkpoint_sha :: "checkpoint \<Rightarrow> string"
  pt_authority :: "station \<Rightarrow> string \<Rightarrow> string \<Rightarrow> string check"
  pt_packet_bytes :: "handoff_packet \<Rightarrow> nat"
  pt_payload :: "station \<Rightarrow> string \<Rightarrow> string \<Rightarrow> handoff_packet \<Rightarrow> string check"
  pt_reserve :: "string \<Rightarrow> checkpoint \<Rightarrow> integration \<Rightarrow> string option \<Rightarrow> nat \<Rightarrow> unit engine"
  pt_drive :: "string \<Rightarrow> integration \<Rightarrow> string \<Rightarrow> string \<Rightarrow> string option \<Rightarrow> string \<Rightarrow> nat \<Rightarrow> int json engine"
  pt_durable_prepare :: "effect_plan \<Rightarrow> unit engine"
  pt_durable_begin :: "effect_plan \<Rightarrow> string \<Rightarrow> string \<Rightarrow> string engine"
  pt_install :: "effect_plan \<Rightarrow> unit engine"
  pt_durable_finish :: "effect_plan \<Rightarrow> int json check \<Rightarrow> unit engine"
  pt_finish_continuation :: "string \<Rightarrow> bool \<Rightarrow> unit engine"

section \<open>Handlers over a station\<close>

definition on_repair :: "(repair_state, 'a) handler \<Rightarrow> 'a engine" where
  "on_repair h st = (case h (sa_machine st, station_journal st) of
     (r, (m, j)) \<Rightarrow> (r, put_journal j (st\<lparr>sa_machine := m\<rparr>)))"

definition on_vault :: "(vault \<Rightarrow> vault \<times> 'a check) \<Rightarrow> 'a engine" where
  "on_vault f st = (case f (sa_vault st) of (v, r) \<Rightarrow> (r, st\<lparr>sa_vault := v\<rparr>))"

definition on_journal :: "(journal \<Rightarrow> journal \<times> 'a check) \<Rightarrow> 'a engine" where
  "on_journal f = on_vault (\<lambda>v. case f (va_journal v) of (j, r) \<Rightarrow> (v\<lparr>va_journal := j\<rparr>, r))"

text \<open>One transaction on the station; one of the machine; and the same with a result.\<close>

definition commit :: "(station \<Rightarrow> station check) \<Rightarrow> unit engine" where
  "commit f st = (case f st of Inl e \<Rightarrow> (Inl e, st) | Inr st' \<Rightarrow> (Inr (), st'))"

definition ask :: "(machine \<Rightarrow> 'a check) \<Rightarrow> 'a engine" where
  "ask f = liftc (\<lambda>st. f (sa_machine st))"

definition keep_on_error :: "('s \<Rightarrow> 's check) \<Rightarrow> 's \<Rightarrow> 's \<times> unit check" where
  "keep_on_error f s = (case f s of Inl e \<Rightarrow> (s, Inl e) | Inr s' \<Rightarrow> (s', Inr ()))"

definition run_step :: "engine_codec \<Rightarrow> ambient \<Rightarrow> string \<Rightarrow> string \<Rightarrow> string \<Rightarrow> int json \<Rightarrow> unit engine" where
  "run_step K A run name status v =
     on_journal (keep_on_error (effect_step (am_now A) run name status (ac_show (ek_archive K) v)))"

definition MAX_PROJECTS :: nat where
  "MAX_PROJECTS = 20"

definition project_of :: "string \<Rightarrow> project_row engine" where
  "project_of i = liftc (\<lambda>st. let ps = cd_projects (va_control (sa_vault st)) in
     if length ps > MAX_PROJECTS then Inl ''PROJECT_LIMIT''
     else ok_or (find (\<lambda>p. pr_id p = i) (sort_key pr_id ps)) ''PROJECT_MISSING'')"

section \<open>The scoped environment\<close>

fun tree_put :: "(string \<times> 'v) list \<Rightarrow> string \<Rightarrow> 'v \<Rightarrow> (string \<times> 'v) list" where
  "tree_put [] k v = [(k, v)]"
| "tree_put ((x, w) # m) k v = (if x = k then (k, v) # m else if k < x then (k, v) # (x, w) # m
     else (x, w) # tree_put m k v)"

fun json_put :: "string \<Rightarrow> 'n json \<Rightarrow> 'n json \<Rightarrow> 'n json" where
  "json_put k v (JObj m) = JObj (tree_put m k v)"
| "json_put k v w = w"

definition as_u64 :: "int json \<Rightarrow> int option" where
  "as_u64 v = (case v of JNum n \<Rightarrow> if 0 \<le> n \<and> n < 2 ^ 64 then Some n else None | _ \<Rightarrow> None)"

definition tree_puts :: "(string \<times> 'v) list \<Rightarrow> (string \<times> 'v) list \<Rightarrow> (string \<times> 'v) list" where
  "tree_puts kvs m = fold (\<lambda>(k, v) m. tree_put m k v) kvs m"

definition system_keys :: "string list" where
  "system_keys = [''SystemRoot'', ''WINDIR'', ''ComSpec'', ''SYSTEMDRIVE'']"

definition inherit_into :: "machine \<Rightarrow> string list \<Rightarrow> (string \<times> string) list \<Rightarrow> (string \<times> string) list" where
  "inherit_into m ks e = tree_puts (inherited m ks) e"

text \<open>A directory of the home, made when it does not exist.\<close>

definition ensure_directory :: "ports \<Rightarrow> string \<Rightarrow> string \<Rightarrow> unit engine" where
  "ensure_directory P e t =
     andthen (\<lambda>st. if pt_exists P (sa_machine st) t then (Inr (), st)
       else (case pt_mkdir P (sa_machine st) t of None \<Rightarrow> (Inl e, st) | Some m \<Rightarrow> (Inr (), st\<lparr>sa_machine := m\<rparr>))) (\<lambda>_.
     ask (\<lambda>m. directory (machine_os m) (Some t)))"

definition home_entry :: "string \<Rightarrow> string engine" where
  "home_entry name = liftc (\<lambda>st. Inr (join_path (sa_home st) name))"

fun configured_into :: "machine \<Rightarrow> (string \<times> string) list \<Rightarrow> (string \<times> string) list \<Rightarrow> (string \<times> string) list check" where
  "configured_into m [] e = Inr e"
| "configured_into m ((k, v) # kvs) e =
     bind_check (directory (machine_os m) (Some v)) (\<lambda>_. configured_into m kvs (tree_put e k v))"

definition scoped_environment :: "ports \<Rightarrow> string list \<Rightarrow> (string \<times> string) list \<Rightarrow> (string \<times> string) list engine" where
  "scoped_environment P inherit configured =
     andthen (home_entry ''scratch'') (\<lambda>temp.
     andthen (ensure_directory P ''SCRATCH_CREATE_FAILED'' temp) (\<lambda>_.
     ask (\<lambda>m. configured_into m configured
       (inherit_into m inherit (tree_puts [(''TEMP'', temp), (''TMP'', temp)] (inherit_into m system_keys []))))))"

section \<open>One process\<close>

definition start_process :: "ports \<Rightarrow> nat \<Rightarrow> launch \<Rightarrow> (string \<times> int) engine" where
  "start_process P limit l st =
     (let n = length (sa_launched st);
          st' = st\<lparr>sa_launched := sa_launched st @ [l], sa_machine := pt_after P n l (sa_machine st)\<rparr>
      in case pt_process P n l of
           Inl e \<Rightarrow> (Inl e, st')
         | Inr (out, code) \<Rightarrow> if length out > limit then (Inl ''EXTERNAL_OUTPUT_LIMIT'', st') else (Inr (out, code), st'))"

definition admit_launch :: "engine_codec \<Rightarrow> string \<Rightarrow> launch \<Rightarrow> nat \<Rightarrow> nat \<Rightarrow> machine \<Rightarrow> unit check" where
  "admit_launch K sha l timeout limit m =
     bind_check (directory (machine_os m) (Some (la_directory l))) (\<lambda>_.
     bind_check (local_existing (machine_os m) (Some (la_executable l))) (\<lambda>_.
     bind_check (hash_file (ek_repair K) m (la_executable l)) (\<lambda>h. checks
       [reject (h \<noteq> sha) ''EXECUTABLE_CHANGED'',
        reject (timeout = 0 \<or> timeout > 3600 \<or> limit > 4 * 1024 * 1024) ''TRANSPORT_BUDGET_INVALID''])))"

definition one_shot :: "engine_codec \<Rightarrow> ports \<Rightarrow> string \<Rightarrow> launch \<Rightarrow> nat \<Rightarrow> nat \<Rightarrow> (string \<times> int) engine" where
  "one_shot K P sha l timeout limit =
     andthen (ask (admit_launch K sha l timeout limit)) (\<lambda>_. start_process P limit l)"

text \<open>The same, for a program that must end with code zero.\<close>

definition one_success :: "engine_codec \<Rightarrow> ports \<Rightarrow> string \<Rightarrow> launch \<Rightarrow> nat \<Rightarrow> nat \<Rightarrow> string \<Rightarrow> string engine" where
  "one_success K P sha l timeout limit e =
     andthen (one_shot K P sha l timeout limit) (\<lambda>(out, code). if code \<noteq> 0 then fail e else pass out)"

end
