(* ===== verification/Home_Store.thy ===== *)
theory Home_Store
  imports Engine_Base Control_Store
begin

text \<open>
  The home of an installation and its database file: \<open>workstation-platform/src/storage.rs\<close> with
  \<open>paths::prospective_home\<close>. Initialisation, opening, the metadata tables of roots and scans, backup and
  restore. The disk is a machine with the database each database file holds; creating an entry, writing and
  synchronising a new file, SQLite opening a file and stepping a copy are answers of the system.
\<close>

section \<open>State\<close>

record config =
  cf_schema_version :: string
  cf_home :: string
  cf_installation :: string
  cf_created :: string

record root_row =
  rw_id :: string
  rw_path :: string
  rw_kind :: root_kind

record scan_row =
  sn_run :: string
  sn_at :: string
  sn_json :: string

text \<open>
  A database file: its header, what the integrity and the foreign key check say of it, its tables. The files
  of the archive directory beside it are those of the journal.
\<close>

record database =
  db_application :: int
  db_integrity :: string
  db_orphans :: bool
  db_wal :: bool
  db_roots :: "root_row list"
  db_scans :: "scan_row list"
  db_control :: control_db
  db_journal :: journal

record disk =
  dk_machine :: machine
  dk_databases :: "path_buf \<Rightarrow> database option"
  dk_companions :: "string \<Rightarrow> (string \<times> string) list option"

datatype copy_answer = CopyDone | CopyMore | CopyWaits | CopyOther | CopyFails

record home_ports =
  hp_sqlite :: int
  hp_sqlite_text :: string
  hp_sqlite_source :: string
  hp_lower :: "string \<Rightarrow> string"
  hp_acl :: "machine \<Rightarrow> string \<Rightarrow> unit check"
  hp_new_dir :: "machine \<Rightarrow> string \<Rightarrow> item option"
  hp_new_file :: "machine \<Rightarrow> string \<Rightarrow> string \<Rightarrow> new_file \<times> item"
  hp_new_database :: "machine \<Rightarrow> string \<Rightarrow> (string \<times> item) list option"
  hp_opens :: "machine \<Rightarrow> string \<Rightarrow> bool"
  hp_removes :: "machine \<Rightarrow> string \<Rightarrow> bool"
  hp_entries :: "machine \<Rightarrow> string \<Rightarrow> nat option"
  hp_copy :: "nat \<Rightarrow> nat \<times> copy_answer"
  hp_torn :: database
  hp_database_sha :: "database \<Rightarrow> string option"
  hp_archive_file :: "string \<Rightarrow> unit check"
  hp_sha :: "string \<Rightarrow> string"
  hp_new_id :: string
  hp_now :: string
  hp_show_config :: "config \<Rightarrow> string"
  hp_read_config :: "string \<Rightarrow> config option"
  hp_show_snapshot :: "snapshot \<Rightarrow> string"
  hp_read_snapshot :: "string \<Rightarrow> snapshot option"
  hp_show_receipt :: "int json \<Rightarrow> string"
  hp_archive :: archive_codec

type_synonym 'a on_disk = "(disk, 'a) handler"

definition APPLICATION_ID :: int where "APPLICATION_ID = 1465078832"
definition DATABASE_LIMIT :: nat where "DATABASE_LIMIT = 32 * 1024 * 1024"
definition MAX_SAVED_SCANS :: nat where "MAX_SAVED_SCANS = 20"
definition MAX_ROOTS :: nat where "MAX_ROOTS = 24"
definition MAX_WIRE_BYTES :: nat where "MAX_WIRE_BYTES = 2 * 1024 * 1024"
definition SCHEMA_VERSION :: string where "SCHEMA_VERSION = ''workstation.r0.v1''"

definition database_failed :: string where
  "database_failed = ''DATABASE_OPERATION_FAILED''"

definition sqlite_runtime_allowed :: "int \<Rightarrow> bool" where
  "sqlite_runtime_allowed v \<longleftrightarrow> v \<ge> 3051003 \<and> v \<noteq> 3052000"

definition verify_runtime :: "home_ports \<Rightarrow> unit check" where
  "verify_runtime H = reject (\<not> sqlite_runtime_allowed (hp_sqlite H)) ''UNPATCHED_SQLITE_REJECTED''"

definition file_stem :: "string \<Rightarrow> string" where
  "file_stem n = (let r = dropWhile (\<lambda>c. c \<noteq> CHR ''.'') (rev n) in if r = [] \<or> tl r = [] then n else rev (tl r))"

definition with_extension :: "string \<Rightarrow> string \<Rightarrow> string" where
  "with_extension t e = (case file_name t of None \<Rightarrow> t | Some n \<Rightarrow> with_file_name t (file_stem n @ ''.'' @ e))"

section \<open>New entries\<close>

definition put_item :: "string \<Rightarrow> item option \<Rightarrow> disk \<Rightarrow> disk" where
  "put_item t it d = d\<lparr>dk_machine := (dk_machine d)\<lparr>mc_items := (mc_items (dk_machine d))(path_components t := it)\<rparr>\<rparr>"

definition on_system :: "(machine \<Rightarrow> 'a check) \<Rightarrow> 'a on_disk" where
  "on_system f = liftc (\<lambda>d. f (dk_machine d))"

text \<open>Neither call replaces an entry that exists.\<close>

definition create_dir :: "home_ports \<Rightarrow> string \<Rightarrow> string \<Rightarrow> unit on_disk" where
  "create_dir H e t d =
     (case (if item_at (dk_machine d) t \<noteq> None then None else hp_new_dir H (dk_machine d) t) of
        None \<Rightarrow> (Inl e, d) | Some it \<Rightarrow> (Inr (), put_item t (Some it) d))"

definition create_new :: "home_ports \<Rightarrow> string \<Rightarrow> string \<Rightarrow> new_file on_disk" where
  "create_new H t b d =
     (if item_at (dk_machine d) t \<noteq> None then (Inr Taken, d)
      else case hp_new_file H (dk_machine d) t b of (r, it) \<Rightarrow>
        (Inr r, if r = Taken \<or> r = NotCreated then d else put_item t (Some it) d))"

definition write_new :: "home_ports \<Rightarrow> string \<Rightarrow> string \<Rightarrow> string \<Rightarrow> string \<Rightarrow> unit on_disk" where
  "write_new H not_created not_written t b = andthen (create_new H t b) (\<lambda>r. case r of
     Written \<Rightarrow> pass () | Taken \<Rightarrow> fail not_created | NotCreated \<Rightarrow> fail not_created
   | NotWritten \<Rightarrow> fail not_written | NotSynced \<Rightarrow> fail not_written)"

definition put_database :: "string \<Rightarrow> database \<Rightarrow> unit on_disk" where
  "put_database t b d = (Inr (), d\<lparr>dk_databases := (dk_databases d)(path_components t := Some b)\<rparr>)"

section \<open>A prospective home\<close>

definition there :: "machine \<Rightarrow> path_buf \<Rightarrow> bool check" where
  "there m p = (if mc_hidden m p then Inl ''PATH_EXISTENCE_UNKNOWN'' else Inr (mc_items m p \<noteq> None))"

text \<open>The ancestors of a path, itself first, down to the root of its drive.\<close>

definition ancestors :: "path_buf \<Rightarrow> path_buf list" where
  "ancestors p = rev (filter (\<lambda>q. length q \<ge> 2) (prefixes p))"

definition cloud_name :: "string \<Rightarrow> bool" where
  "cloud_name t = (let n = to_ascii_lowercase t in prefix ''onedrive'' n
     \<or> n \<in> {''dropbox'', ''google drive'', ''googledrive'', ''icloud drive''})"

definition private_ancestor :: "machine \<Rightarrow> path_buf \<Rightarrow> unit check" where
  "private_ancestor m p = bind_check (there m (p @ [''.git''])) (\<lambda>repository. checks
     [reject repository ''HOME_INSIDE_REPOSITORY'',
      reject (length p > 2 \<and> last p \<noteq> ''..'' \<and> cloud_name (last p)) ''CLOUD_SYNC_HOME_BLOCKED''])"

definition cloud_keys :: "string list" where
  "cloud_keys = [''OneDrive'', ''OneDriveCommercial'', ''OneDriveConsumer'', ''DROPBOX_ROOT'']"

definition prospective_home :: "home_ports \<Rightarrow> string \<Rightarrow> machine \<Rightarrow> unit check" where
  "prospective_home H t m = checks
     [validate_lexical (Some t),
      reject (file_name t = None) ''DRIVE_ROOT_NOT_ALLOWED'',
      directory (machine_os m) (Some (parent_path t)),
      check_all (private_ancestor m) (ancestors (path_components (parent_path t))),
      check_all (\<lambda>k. check_opt (\<lambda>c. reject (paths_overlap (hp_lower H) t c) ''CLOUD_SYNC_HOME_BLOCKED'') (mc_env m k)) cloud_keys,
      bind_check (entry_exists m t) (\<lambda>x. reject x ''HOME_ALREADY_EXISTS'')]"

section \<open>Opening a home\<close>

definition in_home :: "string \<Rightarrow> string \<Rightarrow> string" where
  "in_home home name = join_path home name"

definition pending_marker :: "string \<Rightarrow> string" where "pending_marker home = in_home home ''restore.pending''"
definition database_path :: "string \<Rightarrow> string" where "database_path home = in_home home ''workstation.db''"

definition home_config :: "home_ports \<Rightarrow> string \<Rightarrow> machine \<Rightarrow> config check" where
  "home_config H home m =
     bind_check (bind_check (entry_exists m (pending_marker home)) (\<lambda>x. reject x ''RESTORE_INCOMPLETE_HOME_PROTECTED'')) (\<lambda>_.
     let p = in_home home ''config.json'' in
     bind_check (regular_file (machine_os m) (Some p)) (\<lambda>_.
     bind_check (ok_or (Option.bind (item_at m p) it_bytes) ''CONFIG_UNREADABLE'') (\<lambda>b.
     if length b > 65536 then Inl ''CONFIG_TOO_LARGE''
     else bind_check (ok_or (hp_read_config H b) ''CONFIG_INVALID'') (\<lambda>c.
       if cf_schema_version c \<noteq> SCHEMA_VERSION \<or> path_id (cf_home c) \<noteq> path_id home then Inl ''HOME_CONFIG_MISMATCH''
       else Inr c))))"

definition side_file :: "string \<Rightarrow> machine \<Rightarrow> string \<Rightarrow> unit check" where
  "side_file home m name = bind_check (entry_exists m (in_home home name)) (\<lambda>x.
     if x then local_existing (machine_os m) (Some (in_home home name)) else Inr ())"

definition small_file :: "string \<Rightarrow> string \<Rightarrow> machine \<Rightarrow> string \<Rightarrow> unit check" where
  "small_file unreadable too_large m t = bind_check (ok_or (at_metadata (machine_os m) 0 (path_components t)) unreadable) (\<lambda>md.
     reject (md_len md > DATABASE_LIMIT) too_large)"

definition database_at :: "home_ports \<Rightarrow> disk \<Rightarrow> string \<Rightarrow> database check" where
  "database_at H d t = (if hp_opens H (dk_machine d) t then ok_or (dk_databases d (path_components t)) database_failed
     else Inl database_failed)"

definition open_with :: "int list \<Rightarrow> string \<Rightarrow> home_ports \<Rightarrow> string \<Rightarrow> disk \<Rightarrow> (config \<times> database) check" where
  "open_with versions unsupported H home d =
     (let m = dk_machine d in
      bind_check (checks [verify_runtime H, directory (machine_os m) (Some home)]) (\<lambda>_.
      bind_check (home_config H home m) (\<lambda>c.
      bind_check (checks [regular_file (machine_os m) (Some (database_path home)),
        check_all (side_file home m) [''workstation.db-wal'', ''workstation.db-shm''],
        small_file ''DATABASE_UNREADABLE'' ''DATABASE_SIZE_LIMIT'' m (database_path home)]) (\<lambda>_.
      bind_check (database_at H d (database_path home)) (\<lambda>b.
      if db_application b \<noteq> APPLICATION_ID \<or> cd_version (db_control b) \<notin> set versions then Inl unsupported
      else Inr (c, b))))))"

definition open_store :: "home_ports \<Rightarrow> string \<Rightarrow> disk \<Rightarrow> (config \<times> database) check" where
  "open_store = open_with [1, 2, 3, 4, 5] ''DATABASE_SCHEMA_UNSUPPORTED''"

definition open_readonly :: "home_ports \<Rightarrow> string \<Rightarrow> disk \<Rightarrow> (config \<times> database) check" where
  "open_readonly = open_with [2, 3, 4, 5] ''CONTROL_SCHEMA_UPGRADE_REQUIRED''"

definition verify_foreign_keys :: "database \<Rightarrow> unit check" where
  "verify_foreign_keys b = reject (db_orphans b) ''DATABASE_FOREIGN_KEY_INTEGRITY_FAILED''"

definition store_health :: "home_ports \<Rightarrow> database \<Rightarrow> int json check" where
  "store_health H b = bind_check (checks
     [reject (db_integrity b \<noteq> ''ok'') ''DATABASE_INTEGRITY_FAILED'', verify_foreign_keys b,
      reject (\<not> db_wal b) ''DATABASE_JOURNAL_UNEXPECTED'']) (\<lambda>_.
     Inr (JObj [(''integrity'', JStr ''ok''), (''journal_mode'', JStr ''wal''), (''saved_scan_limit'', JNum (int MAX_SAVED_SCANS)),
       (''sqlite_source_id'', JStr (hp_sqlite_source H)), (''sqlite_version'', JStr (hp_sqlite_text H))]))"

section \<open>Initialisation\<close>

definition fresh_journal :: journal where
  "fresh_journal = \<lparr>jo_version = 1, jo_projects = [], jo_environments = [], jo_plans = [], jo_runs = [], jo_steps = [],
     jo_archives = [], jo_refs = [], jo_files = []\<rparr>"

definition fresh_database :: database where
  "fresh_database = \<lparr>db_application = APPLICATION_ID, db_integrity = ''ok'', db_orphans = False, db_wal = True,
     db_roots = [], db_scans = [], db_control = empty_control, db_journal = fresh_journal\<rparr>"

text \<open>SQLite creates the file with its side files; a database of another home never lies there.\<close>

definition create_database :: "home_ports \<Rightarrow> string \<Rightarrow> unit on_disk" where
  "create_database H t d = (case hp_new_database H (dk_machine d) t of
       None \<Rightarrow> (Inl database_failed, d)
     | Some its \<Rightarrow> put_database t fresh_database (fold (\<lambda>(p, it). put_item p (Some it)) its d))"

definition init_home :: "home_ports \<Rightarrow> string \<Rightarrow> (config \<times> database) on_disk" where
  "init_home H home =
     andthen (liftc (\<lambda>_. verify_runtime H)) (\<lambda>_.
     andthen (on_system (prospective_home H home)) (\<lambda>_.
     andthen (create_dir H ''HOME_CREATE_FAILED'' home) (\<lambda>_.
     andthen (on_system (\<lambda>m. hp_acl H m home)) (\<lambda>_.
     andthen (create_dir H ''HOME_CREATE_FAILED'' (in_home home ''reports'')) (\<lambda>_.
     andthen (create_dir H ''HOME_CREATE_FAILED'' (in_home home ''backups'')) (\<lambda>_.
     andthen (create_database H (database_path home)) (\<lambda>_.
     let c = \<lparr>cf_schema_version = SCHEMA_VERSION, cf_home = home, cf_installation = hp_new_id H, cf_created = hp_now H\<rparr> in
     andthen (write_new H ''CONFIG_CREATE_FAILED'' ''CONFIG_WRITE_FAILED'' (in_home home ''config.json'') (hp_show_config H c)) (\<lambda>_.
     pass (c, fresh_database)))))))))"

section \<open>Roots and scans\<close>

definition registered_roots :: "database \<Rightarrow> root_row list check" where
  "registered_roots b = (if length (db_roots b) > MAX_ROOTS then Inl ''ROOT_LIMIT'' else Inr (sort_key rw_id (db_roots b)))"

definition register_root :: "home_ports \<Rightarrow> machine \<Rightarrow> string \<Rightarrow> root_row \<Rightarrow> database \<Rightarrow> database check" where
  "register_root H m home r b = bind_check (checks
     [reject (\<not> valid_id (rw_id r)) ''INVALID_ID'', directory (machine_os m) (Some (rw_path r)),
      reject (paths_overlap (hp_lower H) home (rw_path r)) ''OWN_HOME_NOT_A_SCAN_ROOT'',
      reject (length (db_roots b) \<ge> MAX_ROOTS) ''ROOT_LIMIT'',
      reject (list_ex (\<lambda>x. paths_overlap (hp_lower H) (rw_path x) (rw_path r)) (db_roots b)) ''OVERLAPPING_ROOT'',
      reject (list_ex (\<lambda>x. rw_id x = rw_id r \<or> rw_path x = rw_path r) (db_roots b)) database_failed]) (\<lambda>_.
     Inr (b\<lparr>db_roots := db_roots b @ [r]\<rparr>))"

definition register_home_project :: "home_ports \<Rightarrow> machine \<Rightarrow> string \<Rightarrow> project_row \<Rightarrow> database \<Rightarrow> database check" where
  "register_home_project H m home p b =
     bind_check (register_project (hp_lower H) (\<lambda>t. directory (machine_os m) (Some t)) (\<lambda>t. local_existing (machine_os m) (Some t))
       home p (db_control b)) (\<lambda>c. Inr (b\<lparr>db_control := c\<rparr>))"

text \<open>The newest first, by observation time and then by run.\<close>

definition newest_scans :: "scan_row list \<Rightarrow> scan_row list" where
  "newest_scans ss = rev (sort_key (\<lambda>s. (sn_at s, sn_run s)) ss)"

definition latest_scan :: "home_ports \<Rightarrow> database \<Rightarrow> snapshot option check" where
  "latest_scan H b = (case newest_scans (db_scans b) of [] \<Rightarrow> Inr None
     | s # _ \<Rightarrow> bind_check (ok_or (hp_read_snapshot H (sn_json s)) ''SNAPSHOT_INVALID'') (\<lambda>x. Inr (Some x)))"

definition save_scan :: "home_ports \<Rightarrow> snapshot \<Rightarrow> database \<Rightarrow> database check" where
  "save_scan H s b =
     (let t = hp_show_snapshot H s in
      if length t > MAX_WIRE_BYTES then Inl ''SNAPSHOT_SIZE_LIMIT''
      else if list_ex (\<lambda>x. sn_run x = snap_run_id s) (db_scans b) then Inl database_failed
      else let ss = db_scans b @ [\<lparr>sn_run = snap_run_id s, sn_at = snap_observed_at s, sn_json = t\<rparr>];
               kept = map sn_run (take MAX_SAVED_SCANS (newest_scans ss))
           in Inr (b\<lparr>db_scans := filter (\<lambda>x. sn_run x \<in> set kept) ss\<rparr>))"

section \<open>Copies\<close>

text \<open>Each answer but the last sleeps ten milliseconds, so the copy ends within its five seconds.\<close>

function copy_loop :: "home_ports \<Rightarrow> string \<Rightarrow> string \<Rightarrow> nat \<Rightarrow> unit check" where
  "copy_loop H late unsupported k =
     (if max (10 * k) (fst (hp_copy H k)) > 5000 then Inl late
      else case snd (hp_copy H k) of
        CopyDone \<Rightarrow> Inr () | CopyFails \<Rightarrow> Inl database_failed | CopyOther \<Rightarrow> Inl unsupported
      | _ \<Rightarrow> copy_loop H late unsupported (k + 1))"
  by pat_completeness auto
termination
  by (relation "measure (\<lambda>(H, late, u, k). 501 - k)") auto

declare copy_loop.simps [simp del]

text \<open>The tables come with a copy, the archive files do not.\<close>

definition copied :: "database \<Rightarrow> database" where
  "copied b = b\<lparr>db_journal := (db_journal b)\<lparr>jo_files := []\<rparr>\<rparr>"

definition copy_database :: "home_ports \<Rightarrow> string \<Rightarrow> string \<Rightarrow> database \<Rightarrow> string \<Rightarrow> unit on_disk" where
  "copy_database H late unsupported from t = (case copy_loop H late unsupported 0 of
       Inl e \<Rightarrow> andthen (put_database t (hp_torn H)) (\<lambda>_. fail e)
     | Inr _ \<Rightarrow> put_database t (copied from))"

definition hex_digest :: "string \<Rightarrow> bool" where
  "hex_digest s \<longleftrightarrow> length s = 64 \<and> list_all is_ascii_hexdigit s"

definition sole_file :: "string \<Rightarrow> machine \<Rightarrow> string \<Rightarrow> unit check" where
  "sole_file source m ending = bind_check (entry_exists m (source @ ending)) (\<lambda>x. reject x ''RESTORE_REQUIRES_ISOLATED_BACKUP'')"

definition admit_backup :: "home_ports \<Rightarrow> string \<Rightarrow> string \<Rightarrow> string \<Rightarrow> disk \<Rightarrow> database check" where
  "admit_backup H home source expected d =
     (let m = dk_machine d in
      bind_check (checks [verify_runtime H, local_existing (machine_os m) (Some source), prospective_home H home m,
        reject (\<not> hex_digest expected) ''BACKUP_DIGEST_REQUIRED'']) (\<lambda>_.
      bind_check (ok_or (at_metadata (machine_os m) 0 (path_components source)) ''BACKUP_UNAVAILABLE'') (\<lambda>md.
      bind_check (checks [reject (md_type md \<noteq> PlainFile \<or> md_len md > DATABASE_LIMIT) ''BACKUP_SIZE_OR_TYPE'',
        check_all (sole_file source m) [''-wal'', ''-shm'']]) (\<lambda>_.
      bind_check (ok_or (Option.bind (item_at m source) it_bytes) ''BACKUP_UNREADABLE'') (\<lambda>bytes.
      bind_check (checks [reject (length bytes > DATABASE_LIMIT) ''BACKUP_SIZE_OR_TYPE'',
        reject (hp_sha H bytes \<noteq> expected) ''BACKUP_DIGEST_MISMATCH'']) (\<lambda>_.
      bind_check (database_at H d source) (\<lambda>b.
      bind_check (checks [reject (db_application b \<noteq> APPLICATION_ID \<or> cd_version (db_control b) \<notin> {1, 2, 3, 4, 5}
          \<or> db_integrity b \<noteq> ''ok'') ''BACKUP_IDENTITY_OR_INTEGRITY'', verify_foreign_keys b]) (\<lambda>_. Inr b))))))))"

definition pending_text :: string where
  "pending_text = ''Restore in progress. Do not open or use this home before review of a failed restore.'' @ [CHR 0x0A]"

definition restore_archives :: "home_ports \<Rightarrow> string \<Rightarrow> string \<Rightarrow> unit on_disk" where
  "restore_archives H home source d = (case dk_databases d (path_components (database_path home)) of
       None \<Rightarrow> (Inl database_failed, d)
     | Some b \<Rightarrow> (case restore_archive_dependencies (hp_archive H) (hp_archive_file H) (dk_companions d (with_extension source ''archives'')) (db_journal b) of
         Inl e \<Rightarrow> (Inl e, d) | Inr j \<Rightarrow> put_database (database_path home) (b\<lparr>db_journal := j\<rparr>) d))"

definition remove_marker :: "home_ports \<Rightarrow> string \<Rightarrow> unit on_disk" where
  "remove_marker H home d =
     (if hp_removes H (dk_machine d) (pending_marker home) then (Inr (), put_item (pending_marker home) None d)
      else (Inl ''RESTORE_MARKER_CLEAR_FAILED'', d))"

text \<open>What happens while the marker stands.\<close>

definition fill_home :: "home_ports \<Rightarrow> string \<Rightarrow> string \<Rightarrow> database \<Rightarrow> unit on_disk" where
  "fill_home H home source from =
     andthen (copy_database H ''RESTORE_INCOMPLETE_NEW_HOME_PRESERVED'' ''RESTORE_STATUS_UNSUPPORTED'' from (database_path home)) (\<lambda>_.
     andthen (restore_archives H home source) (\<lambda>_.
     andthen (liftc (\<lambda>d. bind_check (ok_or (dk_databases d (path_components (database_path home))) database_failed) (store_health H))) (\<lambda>_.
     on_system (\<lambda>m. local_existing (machine_os m) (Some (pending_marker home))))))"

definition restore_into :: "home_ports \<Rightarrow> string \<Rightarrow> string \<Rightarrow> string \<Rightarrow> (config \<times> database) on_disk" where
  "restore_into H home source expected =
     andthen (liftc (admit_backup H home source expected)) (\<lambda>from.
     andthen (init_home H home) (\<lambda>_.
     andthen (write_new H ''RESTORE_MARKER_CREATE_FAILED'' ''RESTORE_MARKER_WRITE_FAILED'' (pending_marker home) pending_text) (\<lambda>_.
     andthen (fill_home H home source from) (\<lambda>_.
     andthen (remove_marker H home) (\<lambda>_.
     liftc (open_store H home))))))"

definition backup_receipt :: "home_ports \<Rightarrow> string \<Rightarrow> int json list \<Rightarrow> int json" where
  "backup_receipt H sha files = JObj [(''archive_dependencies'', JArr files),
     (''contains'', JStr ''private metadata and referenced journal archive companions; vault ciphertext and vendor state are excluded''),
     (''created_at'', JStr (hp_now H)), (''integrity'', JStr ''ok''), (''schema'', JNum 1), (''sha256'', JStr sha),
     (''sqlite_version'', JStr (hp_sqlite_text H))]"

definition archive_summary :: "archive_row \<Rightarrow> int json" where
  "archive_summary r = JObj [(''bytes'', JNum (ja_bytes r)), (''file'', JStr (ja_file r)), (''sha256'', JStr (ja_digest r))]"

definition backup_archives :: "home_ports \<Rightarrow> journal \<Rightarrow> string \<Rightarrow> int json list on_disk" where
  "backup_archives H j t d = (case copy_archive_dependencies (hp_archive H) (hp_archive_file H) j (dk_companions d (with_extension t ''archives'')) of
       Inl e \<Rightarrow> (Inl e, d)
     | Inr files \<Rightarrow> (Inr (if jo_version j < 4 then [] else map archive_summary (archives_in_order j)),
         d\<lparr>dk_companions := (dk_companions d)(with_extension t ''archives'' := files)\<rparr>))"

text \<open>The files to copy are those of the home, the rows those of the copy.\<close>

definition verify_copy :: "string \<Rightarrow> disk \<Rightarrow> unit check" where
  "verify_copy t d = bind_check (ok_or (dk_databases d (path_components t)) database_failed) (\<lambda>b. checks
     [reject (db_integrity b \<noteq> ''ok'') ''BACKUP_INTEGRITY_FAILED'', verify_foreign_keys b])"

definition copy_digest :: "home_ports \<Rightarrow> string \<Rightarrow> disk \<Rightarrow> string check" where
  "copy_digest H t d = ok_or (Option.bind (dk_databases d (path_components t)) (hp_database_sha H)) ''BACKUP_READ_FAILED''"

definition backup_home :: "home_ports \<Rightarrow> string \<Rightarrow> database \<Rightarrow> string on_disk" where
  "backup_home H home b =
     (let folder = in_home home ''backups''; t = join_path folder (hp_new_id H @ ''.sqlite'') in
     andthen (on_system (\<lambda>m. directory (machine_os m) (Some folder))) (\<lambda>_.
     andthen (on_system (\<lambda>m. bind_check (ok_or (hp_entries H m folder) ''BACKUP_DIRECTORY_UNAVAILABLE'') (\<lambda>n.
       reject (n \<ge> 10) ''BACKUP_BUDGET_REVIEW_REQUIRED''))) (\<lambda>_.
     andthen (write_new H ''BACKUP_CREATE_FAILED'' ''BACKUP_CREATE_FAILED'' t []) (\<lambda>_.
     andthen (on_system (\<lambda>m. reject (\<not> hp_opens H m t) database_failed)) (\<lambda>_.
     andthen (copy_database H ''BACKUP_TIMEOUT_REVIEW_PARTIAL'' ''BACKUP_STATUS_UNSUPPORTED'' b t) (\<lambda>_.
     andthen (liftc (verify_copy t)) (\<lambda>_.
     andthen (backup_archives H (db_journal b) t) (\<lambda>files.
     andthen (liftc (copy_digest H t)) (\<lambda>sha.
     andthen (write_new H ''BACKUP_RECEIPT_FAILED'' ''BACKUP_RECEIPT_FAILED'' (with_extension t ''receipt.json'')
       (hp_show_receipt H (backup_receipt H sha files))) (\<lambda>_.
     pass t))))))))))"

end
