(* ===== verification/Home_History.thy ===== *)
theory Home_History
  imports Home_Store
begin

text \<open>
  What a home holds: a restored home is never torn, the registered roots stay apart, the newest scans are kept.
\<close>

section \<open>Restoring\<close>


definition database_of :: "string \<Rightarrow> disk \<Rightarrow> database option" where
  "database_of home d = dk_databases d (path_components (database_path home))"





lemma put_item_database: "database_of home (put_item t it d) = database_of home d"
  by (simp add: put_item_def database_of_def)

lemma put_items_database: "database_of home (fold (\<lambda>(p, it). put_item p (Some it)) its d) = database_of home d"
  by (induction its arbitrary: d) (auto simp: put_item_database)














section \<open>The tables of a home\<close>

definition roots_apart :: "home_ports \<Rightarrow> string \<Rightarrow> database \<Rightarrow> bool" where
  "roots_apart H home b \<longleftrightarrow> length (db_roots b) \<le> MAX_ROOTS \<and> distinct (map rw_id (db_roots b))
     \<and> (\<forall>r \<in> set (db_roots b). valid_id (rw_id r) \<and> \<not> paths_overlap (hp_lower H) home (rw_path r))
     \<and> sorted_wrt (\<lambda>x y. \<not> paths_overlap (hp_lower H) (rw_path x) (rw_path y)) (db_roots b)"

definition scans_kept :: "database \<Rightarrow> bool" where
  "scans_kept b \<longleftrightarrow> length (db_scans b) \<le> MAX_SAVED_SCANS \<and> distinct (map sn_run (db_scans b))"

inductive home_step :: "home_ports \<Rightarrow> string \<Rightarrow> database \<Rightarrow> database \<Rightarrow> bool" for H home where
  add_root: "register_root H m home r b = Inr b' \<Longrightarrow> home_step H home b b'"
| add_project: "register_home_project H m home p b = Inr b' \<Longrightarrow> home_step H home b b'"
| add_scan: "save_scan H s b = Inr b' \<Longrightarrow> home_step H home b b'"

lemma register_root_ok:
  "register_root H m home r b = Inr b' \<longleftrightarrow> valid_id (rw_id r) \<and> directory (machine_os m) (Some (rw_path r)) = Inr ()
     \<and> \<not> paths_overlap (hp_lower H) home (rw_path r) \<and> length (db_roots b) < MAX_ROOTS
     \<and> (\<forall>x \<in> set (db_roots b). \<not> paths_overlap (hp_lower H) (rw_path x) (rw_path r) \<and> rw_id x \<noteq> rw_id r \<and> rw_path x \<noteq> rw_path r)
     \<and> b' = b\<lparr>db_roots := db_roots b @ [r]\<rparr>"
  by (auto simp: register_root_def bind_check_ok checks_Cons_ok list_ex_iff)

lemma roots_apart_step: "home_step H home b b' \<Longrightarrow> roots_apart H home b \<Longrightarrow> roots_apart H home b'"
  by (induction rule: home_step.induct)
    (auto simp: register_root_ok roots_apart_def sorted_wrt_append register_home_project_def save_scan_def bind_check_ok Let_def
      split: if_splits)

lemma filter_runs: "distinct (map sn_run ss) \<Longrightarrow> set ys \<subseteq> set ss \<Longrightarrow> distinct ys
    \<Longrightarrow> set (filter (\<lambda>x. sn_run x \<in> sn_run ` set ys) ss) = set ys"
  by (auto simp: distinct_map inj_on_def)

lemma newest_scans_set: "set (newest_scans ss) = set ss" "distinct (newest_scans ss) = distinct ss"
  by (simp_all add: newest_scans_def)

definition scan_of :: "home_ports \<Rightarrow> snapshot \<Rightarrow> scan_row" where
  "scan_of H s = \<lparr>sn_run = snap_run_id s, sn_at = snap_observed_at s, sn_json = hp_show_snapshot H s\<rparr>"

lemma save_scan_ok:
  assumes "save_scan H s b = Inr b'" "distinct (map sn_run (db_scans b))"
  defines "ss \<equiv> db_scans b @ [scan_of H s]"
  shows "set (db_scans b') = set (take MAX_SAVED_SCANS (newest_scans ss))" "distinct (map sn_run (db_scans b'))"
    "distinct (map sn_run ss)" "length (db_scans b') = min MAX_SAVED_SCANS (length ss)"
proof -
  let ?ys = "take MAX_SAVED_SCANS (newest_scans ss)"
  show d: "distinct (map sn_run ss)"
    using assms(1,2) by (auto simp: save_scan_def ss_def scan_of_def Let_def list_ex_iff split: if_splits)
  have b': "db_scans b' = filter (\<lambda>x. sn_run x \<in> sn_run ` set ?ys) ss"
    using assms(1) by (auto simp: save_scan_def ss_def scan_of_def Let_def split: if_splits)
  have ys: "set ?ys \<subseteq> set ss" "distinct ?ys"
    using d set_take_subset[of MAX_SAVED_SCANS "newest_scans ss"] by (auto simp: newest_scans_set distinct_map)
  show s: "set (db_scans b') = set ?ys" unfolding b' using filter_runs[OF d ys] .
  show e: "distinct (map sn_run (db_scans b'))" unfolding b' using d by (auto simp: distinct_map inj_on_def)
  then have "length (db_scans b') = card (set (db_scans b'))" by (simp add: distinct_map distinct_card)
  also have "\<dots> = length ?ys" unfolding s using ys(2) by (rule distinct_card)
  finally show "length (db_scans b') = min MAX_SAVED_SCANS (length ss)" by (simp add: newest_scans_def)
qed

lemma scans_kept_step: "home_step H home b b' \<Longrightarrow> scans_kept b \<Longrightarrow> scans_kept b'"
proof (induction rule: home_step.induct)
  case (add_scan s b b')
  then show ?case using save_scan_ok(2,4)[OF add_scan(1)] by (simp add: scans_kept_def)
qed (auto simp: register_root_ok register_home_project_def bind_check_ok scans_kept_def)

lemma dropped_are_older:
  assumes "x \<in> set (take n (newest_scans ss))" "y \<in> set ss" "y \<notin> set (take n (newest_scans ss))" "distinct (map sn_run ss)"
  shows "(sn_at y, sn_run y) < (sn_at x, sn_run x)"
proof -
  let ?key = "\<lambda>s. (sn_at s, sn_run s)"
  have "sorted_wrt (\<lambda>a b. ?key b \<le> ?key a) (newest_scans ss)"
    using sorted_sort_key[of ?key ss] by (simp add: newest_scans_def sorted_wrt_rev sorted_map del: sorted_sort_key)
  then have "sorted_wrt (\<lambda>a b. ?key b \<le> ?key a) (take n (newest_scans ss) @ drop n (newest_scans ss))" by simp
  moreover have "y \<in> set (drop n (newest_scans ss))"
    using assms(2,3) newest_scans_set(1)[of ss] append_take_drop_id[of n "newest_scans ss"] by (metis UnE set_append)
  ultimately have le: "?key y \<le> ?key x" using assms(1) by (auto simp: sorted_wrt_append simp del: append_take_drop_id)
  have "x \<in> set ss" using in_set_takeD[OF assms(1)] newest_scans_set(1)[of ss] by blast
  then have "sn_run y \<noteq> sn_run x" using assms by (auto simp: distinct_map inj_on_def)
  then show ?thesis using le by (auto simp: less_le)
qed

text \<open>
  Saving a scan keeps the newest: of the saved rows and the new one at most 20 remain, one per run, and every row
  that is dropped is older, by its time of observation and then by its run, than every row that remains.
\<close>

theorem saving_keeps_the_newest_scans:
  assumes "save_scan H s b = Inr b'" "distinct (map sn_run (db_scans b))"
  defines "ss \<equiv> db_scans b @ [scan_of H s]"
  shows "set (db_scans b') \<subseteq> set ss \<and> length (db_scans b') = min 20 (length ss) \<and> distinct (map sn_run (db_scans b'))
    \<and> (\<forall>x \<in> set (db_scans b'). \<forall>y \<in> set ss - set (db_scans b'). (sn_at y, sn_run y) < (sn_at x, sn_run x))"
proof -
  note saved = save_scan_ok[OF assms(1,2), folded ss_def]
  have "set (db_scans b') \<subseteq> set ss"
    unfolding saved(1) using set_take_subset[of MAX_SAVED_SCANS "newest_scans ss"] by (simp add: newest_scans_set)
  then show ?thesis using saved dropped_are_older[OF _ _ _ saved(3), of _ MAX_SAVED_SCANS] by (auto simp: MAX_SAVED_SCANS_def)
qed

text \<open>
  In every database that grows from an initialised home by registrations and saved scans, the roots are at
  most 24, with valid distinct identifiers, none overlaps another or the home of the installation, and at most
  20 scans are kept, one per run.
\<close>

theorem home_tables_stay_bounded:
  assumes "(home_step H home)\<^sup>*\<^sup>* fresh_database b"
  shows "length (db_roots b) \<le> 24 \<and> distinct (map rw_id (db_roots b)) \<and> length (db_scans b) \<le> 20 \<and> distinct (map sn_run (db_scans b))
    \<and> (\<forall>i j. i < j \<longrightarrow> j < length (db_roots b) \<longrightarrow> \<not> paths_overlap (hp_lower H) (rw_path (db_roots b ! i)) (rw_path (db_roots b ! j)))
    \<and> (\<forall>r \<in> set (db_roots b). valid_id (rw_id r) \<and> \<not> paths_overlap (hp_lower H) home (rw_path r))"
proof -
  have "roots_apart H home b \<and> scans_kept b"
    using assms
  proof (induction rule: rtranclp_induct)
    case base
    show ?case by (simp add: roots_apart_def scans_kept_def fresh_database_def MAX_ROOTS_def MAX_SAVED_SCANS_def)
  qed (use roots_apart_step scans_kept_step in blast)
  then show ?thesis by (auto simp: roots_apart_def scans_kept_def MAX_ROOTS_def MAX_SAVED_SCANS_def sorted_wrt_iff_nth_less)
qed

section \<open>An example\<close>

definition sample_home_ports :: home_ports where
  "sample_home_ports = \<lparr>hp_sqlite = 3053002, hp_sqlite_text = ''3.53.2'', hp_sqlite_source = ''s'', hp_lower = id, hp_acl = \<lambda>m t. Inr (),
     hp_new_dir = \<lambda>m t. None, hp_new_file = \<lambda>m t b. (NotCreated, plain_item PlainFile [] []), hp_new_database = \<lambda>m t. None,
     hp_opens = \<lambda>m t. True, hp_removes = \<lambda>m t. True, hp_entries = \<lambda>m t. Some 0, hp_copy = \<lambda>k. (10 * k, CopyMore),
     hp_torn = fresh_database, hp_database_sha = \<lambda>b. None, hp_archive_file = \<lambda>t. Inr (), hp_sha = \<lambda>t. [], hp_new_id = ''i'',
     hp_now = ''n'', hp_show_config = \<lambda>c. [], hp_read_config = \<lambda>t. None, hp_show_snapshot = \<lambda>s. ''{}'', hp_read_snapshot = \<lambda>t. None,
     hp_show_receipt = \<lambda>v. [], hp_archive = \<lparr>ac_parse = \<lambda>t. None, ac_show = \<lambda>v. [], ac_sha = \<lambda>t. [], ac_entries_text = \<lambda>e. [],
       ac_entry_len = \<lambda>e. 0, ac_pack_text = \<lambda>p. [], ac_read_pack = \<lambda>t. None\<rparr>\<rparr>"

definition sample_disk :: disk where
  "sample_disk = \<lparr>dk_machine = sample_machine, dk_databases = \<lambda>p. None, dk_companions = \<lambda>t. None\<rparr>"

definition sample_scan :: snapshot where
  "sample_scan = \<lparr>snap_schema_version = SCHEMA_VERSION, snap_run_id = ''r'', snap_observed_at = ''t'', snap_installation_id = ''i'',
     snap_platform = ''windows'', snap_coverage = Partial, snap_storage = [], snap_disks = [],
     snap_processes = \<lparr>ps_observed_at = ''t'', ps_coverage = Partial, ps_enumerated_count = 0, ps_selected = [], ps_notes = []\<rparr>, snap_workspaces = [], snap_findings = [], snap_not_inspected = [], snap_saved = False\<rparr>"

lemma sample_saved: "save_scan sample_home_ports sample_scan fresh_database = Inr (fresh_database\<lparr>db_scans := [scan_of sample_home_ports sample_scan]\<rparr>)"
  by (simp add: save_scan_def sample_home_ports_def sample_scan_def fresh_database_def scan_of_def newest_scans_def MAX_WIRE_BYTES_def
      MAX_SAVED_SCANS_def Let_def)



























theorem saving_keeps_the_newest_scans_witness:
  "\<exists>b. save_scan sample_home_ports sample_scan fresh_database = Inr b \<and> length (db_scans b) = 1 \<and> distinct (map sn_run (db_scans b))"
  using saving_keeps_the_newest_scans[OF sample_saved] sample_saved by (simp add: fresh_database_def)

theorem home_tables_stay_bounded_witness:
  "\<exists>b. (home_step sample_home_ports ''home'')\<^sup>*\<^sup>* fresh_database b \<and> length (db_scans b) = 1 \<and> length (db_roots b) \<le> 24"
proof -
  have step: "(home_step sample_home_ports ''home'')\<^sup>*\<^sup>* fresh_database (fresh_database\<lparr>db_scans := [scan_of sample_home_ports sample_scan]\<rparr>)"
    using add_scan[OF sample_saved, of "''home''"] by blast
  have "length (db_roots (fresh_database\<lparr>db_scans := [scan_of sample_home_ports sample_scan]\<rparr>)) \<le> 24"
    using home_tables_stay_bounded[OF step] by blast
  with step show ?thesis by (intro exI[of _ "fresh_database\<lparr>db_scans := [scan_of sample_home_ports sample_scan]\<rparr>"]) simp
qed

end
