(* ===== verification/Approved_Tasks.thy ===== *)
theory Approved_Tasks
  imports Engine_Base
begin

text \<open>
  Credentialed execution (\<open>workstation-platform/src/tasks.rs\<close>): resources as last confirmed, local secrets,
  the authenticated environment of an adapter, secrets of the two provider programs, and an approved task.
\<close>

section \<open>Resources and local secrets\<close>

definition task_resource :: "int \<Rightarrow> station \<Rightarrow> string \<Rightarrow> string \<Rightarrow> string \<Rightarrow> resource check" where
  "task_resource now st project environment i =
     bind_check (station_environment st project environment) (\<lambda>_.
     bind_check (resources (va_control (sa_vault st)) project environment) (\<lambda>rs.
     bind_check (ok_or (find (\<lambda>r. res_id r = i) rs) ''RESOURCE_NOT_IN_EXACT_ENVIRONMENT'') (\<lambda>r.
     case rev (sort_key (\<lambda>v. (vr_observed_at v, vr_id v)) (filter (\<lambda>v. vr_resource_id v = i \<and> vr_claim v = ''user_confirmed'')
         (cd_verifications (va_control (sa_vault st))))) of
       [] \<Rightarrow> Inr r
     | v # _ \<Rightarrow>
         if vr_resource_id v \<noteq> res_id r \<or> ev_kind (vr_source v) \<noteq> UserApproved then Inl ''RESOURCE_CONFIRMATION_MISMATCH''
         else if vr_observed_at v > now \<or> now - vr_observed_at v > int (res_fresh_for_secs r)
         then Inl ''RESOURCE_CONFIRMATION_STALE_REVIEW_REQUIRED''
         else Inr (r\<lparr>res_evidence := vr_source v\<rparr>))))"

definition approved_reference :: "resource \<Rightarrow> unit check" where
  "approved_reference r = reject (ev_kind (res_evidence r) \<notin> {UserApproved, ProviderVerified}) ''SECRET_REFERENCE_NOT_APPROVED''"

definition local_secret :: "engine_codec \<Rightarrow> station \<Rightarrow> resource \<Rightarrow> string check" where
  "local_secret K st r =
     bind_check (reject (res_kind r \<noteq> SecretReference) ''RESOURCE_NOT_A_SECRET_REFERENCE'') (\<lambda>_.
     bind_check (approved_reference r) (\<lambda>_.
     if res_locator r \<noteq> local_locator (res_project_id r) (res_environment r) (res_id r) then Inl ''LOCAL_SECRET_SCOPE_MISMATCH''
     else resolve_secret (ek_secret K) (ek_archive_ok K) (sa_vault st) (res_project_id r) (res_environment r) (res_id r)))"

definition text_secret :: "string \<Rightarrow> string \<Rightarrow> string \<Rightarrow> unit check" where
  "text_secret encoding nul s = checks [reject (\<not> utf8 s) encoding, reject (NUL \<in> set s) nul]"

section \<open>The environment of an adapter\<close>

fun authenticate :: "engine_codec \<Rightarrow> int \<Rightarrow> station \<Rightarrow> string \<Rightarrow> string \<Rightarrow> (string \<times> string) list \<Rightarrow> (string \<times> string) list
    \<Rightarrow> (string \<times> string) list check" where
  "authenticate K now st project environment [] e = Inr e"
| "authenticate K now st project environment ((k, i) # ks) e =
     bind_check (task_resource now st project environment i) (\<lambda>r.
     bind_check (local_secret K st r) (\<lambda>s.
     bind_check (text_secret ''AUTH_SECRET_ENCODING'' ''AUTH_SECRET_NUL'' s) (\<lambda>_.
     authenticate K now st project environment ks (tree_put e k s))))"

definition adapter_environment :: "engine_codec \<Rightarrow> ports \<Rightarrow> ambient \<Rightarrow> integration \<Rightarrow> (string \<times> string) list engine" where
  "adapter_environment K P A i =
     andthen (liftc (\<lambda>st. bind_check (integration_validate i) (\<lambda>_. station_environment st (int_project_id i) (int_environment i)))) (\<lambda>_.
     andthen (scoped_environment P (int_inherit_env i) (int_configuration i)) (\<lambda>e.
     liftc (\<lambda>st. authenticate K (am_now A) st (int_project_id i) (int_environment i) (int_authentication i) e)))"

section \<open>Secrets of a provider\<close>

definition provider_profile :: "engine_codec \<Rightarrow> station \<Rightarrow> string \<Rightarrow> string \<Rightarrow> adapter \<Rightarrow> integration check" where
  "provider_profile K st project environment a =
     bind_check (integrations_of K st project) (\<lambda>is.
     case filter (\<lambda>i. int_environment i = environment \<and> int_adapter i = a) is of
       [i] \<Rightarrow> Inr i | _ \<Rightarrow> Inl ''SECRET_PROVIDER_PROFILE_MISSING_OR_AMBIGUOUS'')"

definition doppler_name :: "string \<Rightarrow> bool" where
  "doppler_name s \<longleftrightarrow> s \<noteq> [] \<and> \<not> prefix ''-'' s \<and> list_all (\<lambda>c. is_ascii_alphanumeric c \<or> c \<in> set ''_-'') s"

definition provider_query :: "string \<Rightarrow> (adapter \<times> string list) check" where
  "provider_query locator =
     (case after_prefix ''doppler://'' locator of
        Some rest \<Rightarrow> (case split_char (CHR ''/'') rest of
            [project, config, name] \<Rightarrow> if list_all doppler_name [project, config, name]
              then Inr (Doppler, [''secrets'', ''get'', name, ''--plain'', ''--project'', project, ''--config'', config])
              else Inl ''DOPPLER_REFERENCE_FORMAT''
          | _ \<Rightarrow> Inl ''DOPPLER_REFERENCE_FORMAT'')
      | None \<Rightarrow> (case after_prefix ''op://'' locator of
            Some rest \<Rightarrow> if length (split_char (CHR ''/'') rest) \<noteq> 3 then Inl ''OP_REFERENCE_FORMAT''
              else Inr (OnePassword, [''read'', locator, ''--no-newline''])
          | None \<Rightarrow> Inl ''SECRET_PROVIDER_REFERENCE_ONLY''))"

definition provider_secret :: "engine_codec \<Rightarrow> ports \<Rightarrow> ambient \<Rightarrow> string \<Rightarrow> string \<Rightarrow> string \<Rightarrow> string engine" where
  "provider_secret K P A project environment locator =
     andthen (liftc (\<lambda>_. provider_query locator)) (\<lambda>(a, args).
     andthen (liftc (\<lambda>st. provider_profile K st project environment a)) (\<lambda>i.
     andthen (liftc (\<lambda>st. Inr (sa_home st))) (\<lambda>home.
     andthen (adapter_environment K P A i) (\<lambda>e.
     andthen (one_success K P (int_executable_sha256 i)
       \<lparr>la_executable = int_executable i, la_directory = home, la_environment = e, la_arguments = args\<rparr>
       15 (16 * 1024) ''SECRET_PROVIDER_FAILED_OUTPUT_SUPPRESSED'') (\<lambda>out.
     if out = [] \<or> NUL \<in> set out then fail ''SECRET_PROVIDER_EMPTY_OR_NUL'' else pass out)))))"

definition task_secret :: "engine_codec \<Rightarrow> ports \<Rightarrow> ambient \<Rightarrow> string \<Rightarrow> string \<Rightarrow> string \<Rightarrow> string engine" where
  "task_secret K P A project environment i =
     andthen (liftc (\<lambda>st. task_resource (am_now A) st project environment i)) (\<lambda>r.
     andthen (liftc (\<lambda>_. bind_check (reject (res_kind r \<noteq> SecretReference) ''SECRET_REFERENCE_REQUIRED'') (\<lambda>_. approved_reference r))) (\<lambda>_.
     if prefix ''local://'' (res_locator r) then liftc (\<lambda>st. local_secret K st r)
     else provider_secret K P A project environment (res_locator r)))"

section \<open>An approved task\<close>

fun bind_secrets :: "engine_codec \<Rightarrow> ports \<Rightarrow> ambient \<Rightarrow> string \<Rightarrow> string \<Rightarrow> (string \<times> string) list \<Rightarrow> (string \<times> string) list
    \<Rightarrow> (string \<times> string) list engine" where
  "bind_secrets K P A project environment [] e = pass e"
| "bind_secrets K P A project environment ((k, i) # ks) e =
     andthen (liftc (\<lambda>_. safe_secret_env k)) (\<lambda>_.
     andthen (task_secret K P A project environment i) (\<lambda>s.
     andthen (liftc (\<lambda>_. text_secret ''TASK_SECRET_ENCODING'' ''TASK_SECRET_NUL'' s)) (\<lambda>_.
     bind_secrets K P A project environment ks (tree_put e k s))))"

definition task_launch :: "approved_task \<Rightarrow> (string \<times> string) list \<Rightarrow> launch" where
  "task_launch t e = \<lparr>la_executable = task_executable t, la_directory = task_cwd t, la_environment = e, la_arguments = task_args t\<rparr>"

definition task_report :: "approved_task \<Rightarrow> int json" where
  "task_report t = JObj [(''data_effects'', JStr ''authorized_child_may_have_changed_external_state''), (''exit_code'', JNum 0),
     (''secret_bindings'', JNum (int (length (task_secret_bindings t)))), (''stderr'', JStr ''discarded''),
     (''stdout'', JStr ''discarded''), (''task_id'', JStr (task_id t))]"

definition task_execute :: "engine_codec \<Rightarrow> ports \<Rightarrow> ambient \<Rightarrow> approved_task \<Rightarrow> int json engine" where
  "task_execute K P A t =
     andthen (ask (\<lambda>m. task_files K m t)) (\<lambda>_.
     andthen (liftc (\<lambda>st. station_environment st (task_project_id t) (task_environment t))) (\<lambda>_.
     andthen (scoped_environment P [] []) (\<lambda>e0.
     andthen (bind_secrets K P A (task_project_id t) (task_environment t) (task_secret_bindings t) e0) (\<lambda>e.
     andthen (ask (\<lambda>m. task_files K m t)) (\<lambda>_.
     andthen (one_success K P (task_executable_sha256 t) (task_launch t e) (task_timeout_seconds t) (1024 * 1024)
       ''TASK_NONZERO_OUTPUT_SUPPRESSED'') (\<lambda>_.
     pass (task_report t)))))))"

end
