(* ===== verification/Workspace_Lifecycle.thy ===== *)
theory Workspace_Lifecycle
  imports Approved_Tasks
begin

text \<open>
  The approved changes of worktrees: \<open>workstation-platform/src/workspace_lifecycle.rs\<close> (\<open>collect\<close>,
  \<open>git_effect\<close>, \<open>prepare_cleanup\<close>, \<open>remove\<close>, \<open>create\<close>), with the arms of \<open>operation_runtime.rs\<close> that call them,
  the worker's error codes of \<open>runner.rs\<close> and the owned configuration of \<open>specialists.rs\<close>.
\<close>

section \<open>The observation by a worker\<close>

definition worker_codes :: "string list" where
  "worker_codes = [''DIRECTORY_ID_FAILED'', ''DIRECTORY_REDIRECTED'', ''GIT_MEMBERSHIP_UNKNOWN'', ''GIT_OUTPUT_LIMIT'',
     ''GIT_PATH_ENCODING_UNSUPPORTED'', ''GIT_PIPE_MISSING'', ''GIT_QUERY_FAILED'', ''GIT_START_FAILED'', ''GIT_WAIT_FAILED'',
     ''INDEX_FLAGS_CHANGED_DURING_OBSERVATION'', ''INDEX_FLAGS_TRUNCATED'', ''INDEX_FLAGS_UNSUPPORTED'', ''NATIVE_GIT_EXE_REQUIRED'',
     ''PATH_ENCODING_UNSUPPORTED'', ''PATH_REDIRECTION_BLOCKED'', ''PATH_UNAVAILABLE'', ''STATUS_CHANGED_DURING_OBSERVATION'',
     ''STATUS_PATH_LIMIT'', ''STATUS_PATH_UNSAFE'', ''STATUS_RENAME_TRUNCATED'', ''STATUS_SCHEMA_UNSUPPORTED'', ''STATUS_TRUNCATED'',
     ''WORKSPACE_CHANGED_DURING_OBSERVATION'', ''WORKSPACE_HEAD_UNKNOWN'', ''WORKSPACE_NOT_REGISTERED_WITH_GIT'', ''WORKSPACE_UNUSABLE'']"

definition reported_worker_error :: "string \<Rightarrow> string" where
  "reported_worker_error e = (if e \<in> set worker_codes then e else ''WORKER_FAILED'')"

definition first_moment :: observer where
  "first_moment = \<lparr>ob_moment = 0, ob_launches = []\<rparr>"

text \<open>What the worker of the \<open>n\<close>-th observation answers.\<close>

definition worker_answer :: "ports \<Rightarrow> nat \<Rightarrow> (world \<Rightarrow> 'a observing) \<Rightarrow> 'a check" where
  "worker_answer P n h = (case pt_worker P n of
     Some e \<Rightarrow> Inl e
   | None \<Rightarrow> (case fst (h (pt_world P n) first_moment) of Inl e \<Rightarrow> Inl (reported_worker_error e) | Inr x \<Rightarrow> Inr x))"

definition by_worker :: "ports \<Rightarrow> (world \<Rightarrow> 'a observing) \<Rightarrow> 'a engine" where
  "by_worker P h st = (worker_answer P (sa_observations st) h, st\<lparr>sa_observations := sa_observations st + 1\<rparr>)"

definition observe_detail :: "ports \<Rightarrow> ambient \<Rightarrow> project_row \<Rightarrow> string \<Rightarrow> string \<Rightarrow> workspace_detail engine" where
  "observe_detail P A p workspace_id path = by_worker P (\<lambda>W. inspect_worktree W (am_time_text A) p workspace_id path)"

definition registered_path :: "string \<Rightarrow> string \<Rightarrow> string engine" where
  "registered_path project workspace_id = liftc (\<lambda>st. workspace_path (va_control (sa_vault st)) project workspace_id)"

definition collect_detail :: "ports \<Rightarrow> ambient \<Rightarrow> string \<Rightarrow> string \<Rightarrow> workspace_detail engine" where
  "collect_detail P A project workspace_id =
     andthen (project_of project) (\<lambda>p.
     andthen (registered_path project workspace_id) (\<lambda>path.
     observe_detail P A p workspace_id path))"

definition collect_stamp :: "ports \<Rightarrow> ambient \<Rightarrow> string \<Rightarrow> string \<Rightarrow> workspace_stamp engine" where
  "collect_stamp P A project workspace_id =
     andthen (project_of project) (\<lambda>p.
     andthen (registered_path project workspace_id) (\<lambda>path.
     by_worker P (\<lambda>W. capture W (am_time_text A) p workspace_id path)))"

section \<open>Git that changes something\<close>

definition effect_environment :: "(string \<times> string) list" where
  "effect_environment = [(''GIT_CONFIG_NOSYSTEM'', ''1''), (''GIT_CONFIG_GLOBAL'', ''NUL''), (''GIT_CONFIG_SYSTEM'', ''NUL''),
     (''GIT_TERMINAL_PROMPT'', ''0''), (''GIT_OPTIONAL_LOCKS'', ''0''), (''GIT_NO_LAZY_FETCH'', ''1''), (''GIT_LFS_SKIP_SMUDGE'', ''1'')]"

definition effect_options :: "string list" where
  "effect_options = [''--no-pager'', ''--no-optional-locks'', ''-c'', ''core.hooksPath='', ''-c'', ''core.fsmonitor=false'', ''-c'', ''gc.auto=0'',
     ''-c'', ''maintenance.auto=false'', ''-c'', ''protocol.allow=never'', ''-C'']"

definition git_launch :: "project_row \<Rightarrow> (string \<times> string) list \<Rightarrow> string list \<Rightarrow> launch" where
  "git_launch p e args = \<lparr>la_executable = pr_git p, la_directory = pr_path p, la_environment = tree_puts effect_environment e,
     la_arguments = effect_options @ [pr_path p] @ args\<rparr>"

definition git_effect :: "engine_codec \<Rightarrow> ports \<Rightarrow> project_row \<Rightarrow> string \<Rightarrow> string list \<Rightarrow> int json engine" where
  "git_effect K P p pin args =
     andthen (scoped_environment P [] []) (\<lambda>e.
     andthen (home_entry ''git-empty'') (\<lambda>empty.
     andthen (ensure_directory P ''GIT_EMPTY_CREATE'' empty) (\<lambda>_.
     andthen (one_success K P pin (git_launch p e args) 30 262144 ''GIT_LIFECYCLE_NONZERO_REVIEW_NO_RETRY'') (\<lambda>_.
     pass (JObj [(''exit_code'', JNum 0), (''stderr'', JStr ''discarded''), (''stdout'', JStr ''discarded'')])))))"

section \<open>Removing a worktree\<close>

definition ELIGIBLE :: string where
  "ELIGIBLE = ''eligible_for_exact_reviewed_plan''"

definition state_digest :: "engine_codec \<Rightarrow> workspace_detail \<Rightarrow> string" where
  "state_digest K d = ek_sha K (ac_show (ek_archive K) (state_projection d))"

definition require_eligible :: "engine_codec \<Rightarrow> ambient \<Rightarrow> workspace_detail \<Rightarrow> bool \<Rightarrow> string \<Rightarrow> unit engine" where
  "require_eligible K A d ack e =
     liftc (\<lambda>st. bind_check (cleanup_evidence K (am_now A) d ack st) (\<lambda>c.
       bind_check (cleanup_eligibility c (am_now A)) (\<lambda>v. reject (ce_disposition v \<noteq> ELIGIBLE) e)))"

text \<open>Only not found is an unused entry.\<close>

definition require_missing_entry :: "string \<Rightarrow> machine \<Rightarrow> unit check" where
  "require_missing_entry t m = (if mc_hidden m (path_components t) then Inl ''DESTINATION_ENTRY_UNREADABLE''
     else reject (item_at m t \<noteq> None) ''DESTINATION_ENTRY_ALREADY_EXISTS'')"

definition prepare_cleanup ::
    "engine_codec \<Rightarrow> ports \<Rightarrow> ambient \<Rightarrow> string \<Rightarrow> string \<Rightarrow> bool \<Rightarrow> string \<Rightarrow> cleanup_target engine" where
  "prepare_cleanup K P A project workspace_id ack ref_id =
     andthen (collect_detail P A project workspace_id) (\<lambda>d.
     andthen (require_eligible K A d ack ''WORKSPACE_PROTECTED_SEE_ELIGIBILITY'') (\<lambda>_.
     andthen (project_of project) (\<lambda>p.
     andthen (ask (\<lambda>m. hash_file (ek_repair K) m (pr_git p))) (\<lambda>pin.
     let t = \<lparr>ct_project_id = project, ct_workspace_id = workspace_id, ct_path = st_path (wd_stamp d),
         ct_directory_identity = st_directory_identity (wd_stamp d), ct_git_sha256 = pin, ct_head = st_head (wd_stamp d),
         ct_branch = st_branch (wd_stamp d), ct_repository_identity = wd_repository_identity d, ct_state_digest = state_digest K d,
         ct_preservation_ref = ''refs/workstation/retired/'' @ ref_id, ct_quiescence_acknowledged = ack\<rparr>
     in andthen (liftc (\<lambda>_. cleanup_target_validate t)) (\<lambda>_. pass t)))))"

definition preserve_args :: "cleanup_target \<Rightarrow> string list" where
  "preserve_args t = [''update-ref'', ct_preservation_ref t, ct_head t, replicate (length (ct_head t)) (CHR ''0'')]"

definition removal_args :: "cleanup_target \<Rightarrow> string list" where
  "removal_args t = [''worktree'', ''remove'', ''--'', ct_path t]"

definition still_reviewed :: "cleanup_target \<Rightarrow> string \<Rightarrow> workspace_detail \<Rightarrow> bool" where
  "still_reviewed t status d \<longleftrightarrow> st_head (wd_stamp d) = ct_head t \<and> st_directory_identity (wd_stamp d) = ct_directory_identity t
     \<and> st_branch (wd_stamp d) = ct_branch t \<and> wd_repository_identity d = ct_repository_identity t
     \<and> st_path (wd_stamp d) = ct_path t \<and> st_status_digest (wd_stamp d) = status"

definition removal_receipt :: "cleanup_target \<Rightarrow> int json" where
  "removal_receipt t = JObj [(''branch_deleted'', JBool False), (''data_recovery'', JStr ''HEAD_ref_only_no_uncommitted_data_allowed''),
     (''head_preserved_at'', JStr (ct_preservation_ref t)),
     (''race_boundary'', JStr ''external_writers_must_remain_quiescent_not_an_OS_exclusive_lock''),
     (''removed_path'', JStr (ct_path t)), (''workspace_id'', JStr (ct_workspace_id t))]"

text \<open>The first half keeps the head, the second removes the worktree.\<close>

definition preserve_head :: "engine_codec \<Rightarrow> ports \<Rightarrow> ambient \<Rightarrow> string \<Rightarrow> cleanup_target \<Rightarrow> (string \<times> project_row) engine" where
  "preserve_head K P A run t =
     andthen (collect_detail P A (ct_project_id t) (ct_workspace_id t)) (\<lambda>d.
     andthen (liftc (\<lambda>_. reject (state_digest K d \<noteq> ct_state_digest t) ''WORKSPACE_CHANGED_SINCE_PREVIEW'')) (\<lambda>_.
     andthen (require_eligible K A d True ''WORKSPACE_NEW_PROTECTION'') (\<lambda>_.
     andthen (project_of (ct_project_id t)) (\<lambda>p.
     andthen (run_step K A run ''preserve_head'' ''intent'' (JObj [(''head'', JStr (ct_head t)), (''ref'', JStr (ct_preservation_ref t))])) (\<lambda>_.
     andthen (git_effect K P p (ct_git_sha256 t) (preserve_args t)) (\<lambda>_.
     andthen (run_step K A run ''preserve_head'' ''completed'' (JObj [(''ref'', JStr (ct_preservation_ref t))])) (\<lambda>_.
     pass (st_status_digest (wd_stamp d), p))))))))"

definition remove_preserved :: "engine_codec \<Rightarrow> ports \<Rightarrow> ambient \<Rightarrow> string \<Rightarrow> cleanup_target \<Rightarrow> string \<times> project_row \<Rightarrow> int json engine" where
  "remove_preserved K P A run t x = (case x of (status, p) \<Rightarrow>
     andthen (collect_detail P A (ct_project_id t) (ct_workspace_id t)) (\<lambda>d.
     andthen (liftc (\<lambda>_. reject (\<not> still_reviewed t status d) ''WORKSPACE_CHANGED_BEFORE_REMOVE'')) (\<lambda>_.
     andthen (require_eligible K A d True ''WORKSPACE_PROTECTED_BEFORE_REMOVE'') (\<lambda>_.
     andthen (run_step K A run ''git_worktree_remove_exact'' ''intent'' (JObj [(''no_force'', JBool True), (''path'', JStr (ct_path t)),
       (''quiescence'', JStr ''explicit_user_declaration_not_os_lock'')])) (\<lambda>_.
     andthen (git_effect K P p (ct_git_sha256 t) (removal_args t)) (\<lambda>_.
     andthen (ask (\<lambda>m. reject (require_missing_entry (ct_path t) m \<noteq> Inr ()) ''WORKTREE_PATH_REMAINS_OR_UNREADABLE_REVIEW'')) (\<lambda>_.
     andthen (commit (record_retired K (am_now A) run t (removal_receipt t))) (\<lambda>_.
     andthen (run_step K A run ''git_worktree_remove_exact'' ''completed'' (removal_receipt t)) (\<lambda>_.
     pass (removal_receipt t))))))))))"

definition remove_worktree :: "engine_codec \<Rightarrow> ports \<Rightarrow> ambient \<Rightarrow> string \<Rightarrow> cleanup_target \<Rightarrow> int json engine" where
  "remove_worktree K P A run t =
     andthen (liftc (\<lambda>_. cleanup_target_validate t)) (\<lambda>_.
     andthen (preserve_head K P A run t) (remove_preserved K P A run t))"

section \<open>Creating a worktree\<close>

definition worktrunk_config_bytes :: string where
  "worktrunk_config_bytes = ''# Workstation-owned no hooks'' @ [CHR 0x0A]"

definition new_file_error :: "new_file \<Rightarrow> unit check" where
  "new_file_error r = (case r of Written \<Rightarrow> Inr () | Taken \<Rightarrow> Inr () | NotCreated \<Rightarrow> Inl ''WORKTRUNK_CONFIG_CREATE''
     | NotWritten \<Rightarrow> Inl ''WORKTRUNK_CONFIG_WRITE'' | NotSynced \<Rightarrow> Inl ''WORKTRUNK_CONFIG_SYNC'')"

definition empty_worktrunk_config :: "ports \<Rightarrow> string engine" where
  "empty_worktrunk_config P =
     andthen (home_entry ''worktrunk-empty.toml'') (\<lambda>t.
     andthen (\<lambda>st. case pt_new_file P (sa_machine st) t worktrunk_config_bytes of (m, r) \<Rightarrow> (new_file_error r, st\<lparr>sa_machine := m\<rparr>)) (\<lambda>_.
     andthen (ask (\<lambda>m. regular_file (machine_os m) (Some t))) (\<lambda>_.
     andthen (ask (\<lambda>m. ok_or (Option.bind (item_at m t) it_bytes) ''WORKTRUNK_CONFIG_READ'')) (\<lambda>b.
     if take (length worktrunk_config_bytes + 1) b \<noteq> worktrunk_config_bytes then fail ''WORKTRUNK_CONFIG_CHANGED'' else pass t))))"

definition worktrunk_git_environment :: "(string \<times> string) list" where
  "worktrunk_git_environment = [(''GIT_CONFIG_NOSYSTEM'', ''1''), (''GIT_CONFIG_GLOBAL'', ''NUL''), (''GIT_CONFIG_SYSTEM'', ''NUL''),
     (''GIT_CONFIG_COUNT'', ''3''), (''GIT_CONFIG_KEY_0'', ''core.hooksPath''), (''GIT_CONFIG_VALUE_0'', []),
     (''GIT_CONFIG_KEY_1'', ''protocol.allow''), (''GIT_CONFIG_VALUE_1'', ''never''),
     (''GIT_CONFIG_KEY_2'', ''core.fsmonitor''), (''GIT_CONFIG_VALUE_2'', ''false'')]"

definition forward_slashes :: "string \<Rightarrow> string" where
  "forward_slashes t = map (\<lambda>c. if c = backslash then CHR ''/'' else c) t"

definition worktrunk_create ::
    "engine_codec \<Rightarrow> ports \<Rightarrow> ambient \<Rightarrow> integration \<Rightarrow> project_row \<Rightarrow> string \<Rightarrow> string \<Rightarrow> string \<Rightarrow> unit engine" where
  "worktrunk_create K P A i p destination branch base =
     andthen (liftc (\<lambda>_. reject (int_adapter i \<noteq> Worktrunk) ''WORKTRUNK_PROFILE_REQUIRED'')) (\<lambda>_.
     andthen (empty_worktrunk_config P) (\<lambda>cfg.
     let template = forward_slashes destination in
     andthen (liftc (\<lambda>_. reject (list_ex (\<lambda>c. c \<in> {CHR 0x27, CHR 0x22, CHR 0x7B, CHR 0x7D, CHR 0x0A, CHR 0x0D}) template)
       ''WORKTRUNK_TEMPLATE_UNSAFE'')) (\<lambda>_.
     andthen (adapter_environment K P A i) (\<lambda>e.
     let e' = tree_puts ([(''PATH'', parent_path (pr_git p)), (''WORKTRUNK_WORKTREE_PATH'', template), (''GIT_NO_LAZY_FETCH'', ''1''),
         (''GIT_TERMINAL_PROMPT'', ''0'')] @ worktrunk_git_environment) e
     in andthen (one_success K P (int_executable_sha256 i)
       \<lparr>la_executable = int_executable i, la_directory = pr_path p, la_environment = e',
        la_arguments = [''--config'', cfg, ''--config-set'', ''worktree-path = '' @ [CHR 0x27] @ template @ [CHR 0x27],
          ''switch'', ''--create'', branch, ''--base'', base, ''--no-hooks'', ''--no-cd'', ''--format=json'']\<rparr>
       30 262144 ''WORKTRUNK_CREATE_FAILED_REVIEW_PARTIAL'') (\<lambda>_. pass ())))))"

definition create_checks ::
    "engine_codec \<Rightarrow> ports \<Rightarrow> int \<Rightarrow> string \<Rightarrow> string \<Rightarrow> project_row \<Rightarrow> string \<Rightarrow> workspace_detail \<Rightarrow> machine \<Rightarrow> unit check" where
  "create_checks K P now home destination primary pin d m =
     (let source = st_path (wd_stamp d); lower = rp_lossy_lower (ek_repair K) in
      bind_check (checks [reject (paths_overlap lower home destination \<or> paths_overlap lower source destination
          \<or> paths_overlap lower (pr_path primary) destination) ''WORKTREE_DESTINATION_OVERLAP'']) (\<lambda>_.
      bind_check (hash_file (ek_repair K) m (pr_git primary)) (\<lambda>h. checks
        [reject (h \<noteq> pin) ''GIT_EXECUTABLE_CHANGED'',
         reject (wd_checkout_filters_present d \<noteq> Some False \<or> st_coverage (wd_stamp d) \<noteq> Complete
           \<or> sub_i64 now (st_observed_at (wd_stamp d)) > 30 \<or> st_observed_at (wd_stamp d) > now)
           ''WORKTREE_CREATE_FRESH_FILTER_PREFLIGHT_REQUIRED'',
         reject (pt_exists P m (join_path source ''.gitmodules'')) ''WORKTREE_CREATE_SUBMODULE_POLICY_REQUIRED''])))"

definition created_as_asked :: "workspace_detail \<Rightarrow> string \<Rightarrow> string \<Rightarrow> workspace_detail \<Rightarrow> bool" where
  "created_as_asked d branch base v \<longleftrightarrow> st_head (wd_stamp v) = base \<and> st_branch (wd_stamp v) = Some (''refs/heads/'' @ branch)
     \<and> wd_repository_identity v = wd_repository_identity d \<and> \<not> wd_main_worktree v \<and> st_coverage (wd_stamp v) = Complete"

definition parent_unchanged :: "string \<Rightarrow> string \<Rightarrow> machine \<Rightarrow> unit check" where
  "parent_unchanged destination identity m =
     bind_check (directory_identity m (parent_path destination)) (\<lambda>d. reject (d \<noteq> identity) ''DESTINATION_PARENT_CHANGED'')"

definition has_parent :: "string \<Rightarrow> unit check" where
  "has_parent t = reject (tl (path_components t) = [] \<or> tl (tl (path_components t)) = []) ''DESTINATION_PARENT_REQUIRED''"

definition create_worktree ::
    "engine_codec \<Rightarrow> ports \<Rightarrow> ambient \<Rightarrow> string \<Rightarrow> integration option \<Rightarrow> string \<Rightarrow> string \<Rightarrow> string \<Rightarrow> string \<Rightarrow> workspace_detail \<Rightarrow> string
      \<Rightarrow> int json engine" where
  "create_worktree K P A project i destination branch base pin d identity =
     andthen (liftc (\<lambda>_. branch_name branch)) (\<lambda>_.
     andthen (ask (require_missing_entry destination)) (\<lambda>_.
     andthen (liftc (\<lambda>_. has_parent destination)) (\<lambda>_.
     andthen (ask (\<lambda>m. directory (machine_os m) (Some (parent_path destination)))) (\<lambda>_.
     andthen (ask (parent_unchanged destination identity)) (\<lambda>_.
     andthen (project_of project) (\<lambda>primary.
     andthen (liftc (\<lambda>st. create_checks K P (am_now A) (sa_home st) destination primary pin d (sa_machine st))) (\<lambda>_.
     let p = primary\<lparr>pr_path := st_path (wd_stamp d)\<rparr> in
     andthen (case i of Some x \<Rightarrow> worktrunk_create K P A x p destination branch base
       | None \<Rightarrow> andthen (git_effect K P p pin [''worktree'', ''add'', ''-b'', branch, ''--'', destination, base]) (\<lambda>_. pass ())) (\<lambda>_.
     andthen (ask (\<lambda>m. directory (machine_os m) (Some destination))) (\<lambda>_.
     andthen (observe_detail P A primary ''created-unregistered'' destination) (\<lambda>v.
     if \<not> created_as_asked d branch base v then fail ''CREATED_WORKTREE_POSTCONDITION_MISMATCH''
     else pass (JObj [(''base_commit'', JStr base), (''branch'', JStr branch),
       (''directory_identity'', JStr (st_directory_identity (wd_stamp v))), (''implementation'', JStr ''not_native_certified''),
       (''next'', JStr ''explicitly_register_new_workspace''), (''path'', JStr destination),
       (''registered_in_workstation'', JBool False)])))))))))))"

definition worktree_profile :: "engine_codec \<Rightarrow> station \<Rightarrow> effect_plan \<Rightarrow> worktree_create \<Rightarrow> integration option check" where
  "worktree_profile K st p w = (case wt_integration_id w of None \<Rightarrow> Inr None
     | Some x \<Rightarrow> bind_check (integration_of K st x) (\<lambda>i.
         if int_project_id i \<noteq> ep_project_id p \<or> int_environment i \<noteq> ep_environment p
           \<or> Some (ek_sha K (ek_profile_text K i)) \<noteq> wt_integration_digest w then Inl ''WORKTRUNK_PROFILE_CHANGED''
         else Inr (Some i)))"

definition execute_create :: "engine_codec \<Rightarrow> ports \<Rightarrow> ambient \<Rightarrow> string \<Rightarrow> effect_plan \<Rightarrow> worktree_create \<Rightarrow> int json engine" where
  "execute_create K P A run p w =
     andthen (liftc (\<lambda>_. has_parent (wt_destination w))) (\<lambda>_.
     andthen (ask (parent_unchanged (wt_destination w) (wt_destination_parent_identity w))) (\<lambda>_.
     andthen (collect_detail P A (ep_project_id p) (wt_source_workspace_id w)) (\<lambda>d.
     andthen (liftc (\<lambda>_. reject (wd_repository_identity d \<noteq> wt_repository_identity w \<or> st_head (wd_stamp d) \<noteq> wt_base_commit w)
       ''WORKTREE_BASE_CHANGED'')) (\<lambda>_.
     andthen (project_of (ep_project_id p)) (\<lambda>project.
     andthen (ask (\<lambda>m. bind_check (hash_file (ek_repair K) m (pr_git project)) (\<lambda>h. reject (h \<noteq> wt_git_sha256 w) ''GIT_EXECUTABLE_CHANGED''))) (\<lambda>_.
     andthen (liftc (\<lambda>st. worktree_profile K st p w)) (\<lambda>i.
     andthen (run_step K A run ''worktree_create_exact'' ''intent'' (JObj [(''base'', JStr (wt_base_commit w)),
       (''branch'', JStr (wt_branch_name w)), (''destination'', JStr (wt_destination w))])) (\<lambda>_.
     andthen (create_worktree K P A (ep_project_id p) i (wt_destination w) (wt_branch_name w) (wt_base_commit w) (wt_git_sha256 w) d
       (wt_destination_parent_identity w)) (\<lambda>out.
     andthen (run_step K A run ''worktree_create_exact'' ''completed'' out) (\<lambda>_. pass out))))))))))"

end
