(* ===== verification/Providers.thy ===== *)
theory Providers
  imports Workspace_Lifecycle Usage
begin

text \<open>
  Queries to other programs and to the network: the probes of \<open>workstation-platform/src/adapters.rs\<close>, the
  worktree inventory of \<open>specialists.rs\<close>, and the two documented HTTPS reads of \<open>http_provider.rs\<close> with
  the admission of public addresses. The drivers of the agent protocols are
  in \<open>Agent_Drivers\<close>; here their answer is a port.
\<close>

section \<open>Probes of a registered program\<close>

definition adapter_wire :: "adapter \<Rightarrow> string" where
  "adapter_wire a = (case a of OpenCode \<Rightarrow> ''open_code'' | OnePassword \<Rightarrow> ''one_password'' | _ \<Rightarrow> adapter_id a)"

definition adapter_launch ::
    "engine_codec \<Rightarrow> ports \<Rightarrow> ambient \<Rightarrow> integration \<Rightarrow> string \<Rightarrow> string list \<Rightarrow> nat \<Rightarrow> launch engine" where
  "adapter_launch K P A i cwd args timeout =
     andthen (liftc (\<lambda>_. bind_check (integration_validate i) (\<lambda>_. reject (timeout = 0 \<or> timeout > 3600) ''ADAPTER_TIMEOUT_RANGE''))) (\<lambda>_.
     andthen (adapter_environment K P A i) (\<lambda>e.
     pass \<lparr>la_executable = int_executable i, la_directory = cwd, la_environment = e, la_arguments = args\<rparr>))"

definition adapter_shot ::
    "engine_codec \<Rightarrow> ports \<Rightarrow> ambient \<Rightarrow> integration \<Rightarrow> string list \<Rightarrow> nat \<Rightarrow> string \<Rightarrow> string engine" where
  "adapter_shot K P A i args timeout e =
     andthen (liftc (\<lambda>st. Inr (sa_home st))) (\<lambda>home.
     andthen (adapter_launch K P A i home args timeout) (\<lambda>l.
     one_success K P (int_executable_sha256 i) l timeout (4 * 1024 * 1024) e))"

definition version_args :: "adapter \<Rightarrow> string list" where
  "version_args a = (if a = GrokAcp then [''--no-auto-update'', ''--version''] else [''--version''])"

definition version_query :: "engine_codec \<Rightarrow> ports \<Rightarrow> ambient \<Rightarrow> integration \<Rightarrow> int json engine" where
  "version_query K P A i =
     andthen (adapter_shot K P A i (version_args (int_adapter i)) 5 ''VERSION_PROBE_FAILED'') (\<lambda>out.
     andthen (liftc (\<lambda>_. reject (\<not> utf8 out) ''VERSION_ENCODING'')) (\<lambda>_.
     let v = trim out in
     andthen (liftc (\<lambda>_. control_text v 512)) (\<lambda>_.
     pass (JObj [(''adapter'', JStr (adapter_wire (int_adapter i))), (''certification'', JStr ''not_run''),
       (''declared_version'', JStr (int_version_text i)), (''executable_sha256'', JStr (int_executable_sha256 i)),
       (''matches_registration'', JBool (v = int_version_text i)), (''observed_version'', JStr v)]))))"

definition docker_endpoint :: string where
  "docker_endpoint = ''npipe:////./pipe/dockerDesktopLinuxEngine''"

definition docker_args :: "string list" where
  "docker_args = [''--host'', docker_endpoint, ''version'', ''--format'', ''{{json .Server}}'']"

definition docker_local :: "engine_codec \<Rightarrow> ports \<Rightarrow> ambient \<Rightarrow> integration \<Rightarrow> int json engine" where
  "docker_local K P A i =
     andthen (adapter_shot K P A i docker_args 5 ''LOCAL_DOCKER_NOT_READY'') (\<lambda>out.
     andthen (liftc (\<lambda>_. bind_check (ok_or (ac_parse (ek_archive K) out) ''DOCKER_SERVER_SHAPE'') (\<lambda>v.
       bind_check (ok_or (json_str_at v ''Version'') ''DOCKER_SERVER_VERSION_MISSING'') (\<lambda>s.
       bind_check (control_text s 128) (\<lambda>_. Inr s))))) (\<lambda>version.
     pass (JObj [(''api_ready'', JBool True), (''local_endpoint'', JStr docker_endpoint), (''root_cause_fixed'', JBool False),
       (''server_version'', JStr version), (''source'', JStr ''live_local_endpoint'')])))"

section \<open>The inventory of Worktrunk\<close>

definition worktrunk_row :: "int json \<Rightarrow> int json \<Rightarrow> int json check" where
  "worktrunk_row item w =
     bind_check (ok_or (json_str_at w ''path'') ''WORKTRUNK_PATH_MISSING'') (\<lambda>path.
     bind_check (absolute_path path) (\<lambda>_.
     let branch = json_str_at item ''branch''; head = json_str_ptr item [''head'', ''sha''] in
     bind_check (case branch of None \<Rightarrow> Inr () | Some b \<Rightarrow> control_text b 1024) (\<lambda>_.
     if (case head of None \<Rightarrow> False | Some h \<Rightarrow> \<not> git_head h) then Inl ''WORKTRUNK_HEAD_INVALID''
     else Inr (JObj [(''branch'', Operations.json_opt JStr branch), (''cleanup'', JStr ''protected''), (''head'', Operations.json_opt JStr head),
       (''locked'', JBool (json_get w ''locked'' \<noteq> None)), (''main'', Operations.json_opt JBool (Option.bind (json_get w ''main'') json_as_bool)),
       (''path'', JStr path), (''prunable'', JBool (json_get w ''prunable'' \<noteq> None)),
       (''source'', JStr ''worktrunk_schema2_not_authority'')]))))"

fun worktrunk_rows :: "int json list \<Rightarrow> int json list check" where
  "worktrunk_rows [] = Inr []"
| "worktrunk_rows (item # items) = (case json_get item ''worktree'' of
     None \<Rightarrow> worktrunk_rows items
   | Some w \<Rightarrow> bind_check (worktrunk_row item w) (\<lambda>r. bind_check (worktrunk_rows items) (\<lambda>rs. Inr (r # rs))))"

definition project_inventory :: "int json \<Rightarrow> int json check" where
  "project_inventory v =
     bind_check (checks [reject (Option.bind (json_get v ''schema'') as_u64 \<noteq> Some 2) ''WORKTRUNK_SCHEMA_UNSUPPORTED'',
       reject (Option.bind (json_pointer v [''collected'', ''ci'']) json_as_bool \<noteq> Some False
         \<or> Option.bind (json_pointer v [''collected'', ''summary'']) json_as_bool \<noteq> Some False) ''WORKTRUNK_UNEXPECTED_REMOTE_COLLECTION'']) (\<lambda>_.
     bind_check (ok_or (Option.bind (json_get v ''items'') json_as_array) ''WORKTRUNK_ITEMS_MISSING'') (\<lambda>items.
     if length items > 256 then Inl ''WORKTRUNK_ROW_LIMIT''
     else bind_check (worktrunk_rows items) (\<lambda>rows.
       Inr (JObj [(''backend'', JStr ''worktrunk''), (''cleanup_authorized'', JBool False), (''coverage'', JStr ''partial''),
         (''remote_requested'', JBool False), (''worktrees'', JArr rows)]))))"

definition inventory_args :: "string \<Rightarrow> string list" where
  "inventory_args cfg = [''--config'', cfg, ''--config-set'', ''list.full = false'', ''--config-set'', ''list.json-schema = 2'',
     ''list'', ''--format=json'', ''--no-progressive'']"

definition inventory_environment :: "project_row \<Rightarrow> (string \<times> string) list" where
  "inventory_environment p = [(''PATH'', parent_path (pr_git p))] @ worktrunk_git_environment
     @ [(''GIT_OPTIONAL_LOCKS'', ''0''), (''GIT_TERMINAL_PROMPT'', ''0''), (''GIT_NO_LAZY_FETCH'', ''1'')]"

definition no_project_config :: "project_row \<Rightarrow> machine \<Rightarrow> unit check" where
  "no_project_config p m = check_all (\<lambda>name. bind_check (entry_exists m (join_path (pr_path p) name)) (\<lambda>there.
     reject there ''WORKTRUNK_PROJECT_CONFIG_REQUIRES_SEPARATE_REVIEW'')) [''.config/wt.toml'', ''.worktrunk.toml'', ''wt.toml'']"

definition worktrunk_list :: "engine_codec \<Rightarrow> ports \<Rightarrow> integration \<Rightarrow> int json engine" where
  "worktrunk_list K P i =
     andthen (liftc (\<lambda>_. reject (int_adapter i \<noteq> Worktrunk) ''WORKTRUNK_PROFILE_REQUIRED'')) (\<lambda>_.
     andthen (project_of (int_project_id i)) (\<lambda>p.
     andthen (ask (no_project_config p)) (\<lambda>_.
     andthen (empty_worktrunk_config P) (\<lambda>cfg.
     andthen (scoped_environment P [] []) (\<lambda>e.
     andthen (one_success K P (int_executable_sha256 i)
       \<lparr>la_executable = int_executable i, la_directory = pr_path p, la_environment = tree_puts (inventory_environment p) e,
        la_arguments = inventory_args cfg\<rparr> 10 (1024 * 1024) ''WORKTRUNK_LIST_NONZERO'') (\<lambda>out.
     liftc (\<lambda>_. bind_check (ok_or (ac_parse (ek_archive K) out) ''WORKTRUNK_JSON'') project_inventory)))))))"

definition vendor_protocol :: "adapter \<Rightarrow> query_kind \<Rightarrow> bool" where
  "vendor_protocol a q \<longleftrightarrow> a \<in> {Copilot, CursorAcp, GrokAcp, GeminiAcp, OpenCode, Cline}
     \<or> a = Codex \<and> q \<in> {CodexQuota, CodexThreads, VendorSessions, ProtocolHealth}"

definition adapter_query :: "engine_codec \<Rightarrow> ports \<Rightarrow> ambient \<Rightarrow> integration \<Rightarrow> query_kind \<Rightarrow> int json engine" where
  "adapter_query K P A i q =
     (if q = Version then version_query K P A i
      else if vendor_protocol (int_adapter i) q then liftc (\<lambda>st. pt_vendor P st i q)
      else if int_adapter i = Worktrunk \<and> q = WorktrunkList then worktrunk_list K P i
      else if int_adapter i = Docker \<and> q = DockerLocalEngine then docker_local K P A i
      else fail ''OPERATION_NOT_SUPPORTED_BY_ADAPTER'')"

section \<open>Cost reports\<close>

definition response_json :: "ports \<Rightarrow> http_answer \<Rightarrow> string json check" where
  "response_json P a = (case a of
     NoAnswer \<Rightarrow> Inl ''PROVIDER_TRANSPORT_FAILED''
   | Answered code body \<Rightarrow>
       if code = 401 \<or> code = 403 then Inl ''PROVIDER_AUTH_REJECTED''
       else if code = 429 then Inl ''PROVIDER_RATE_LIMITED_NO_AUTORETRY''
       else if code < 200 \<or> code \<ge> 300 then Inl ''PROVIDER_HTTP_ERROR_BODY_SUPPRESSED''
       else (case body of None \<Rightarrow> Inl ''PROVIDER_READ_FAILED''
         | Some b \<Rightarrow> if length b > 1024 * 1024 then Inl ''PROVIDER_BODY_LIMIT'' else ok_or (pt_body P b) ''PROVIDER_JSON_SHAPE''))"

definition auth_headers :: "ports \<Rightarrow> billing_provider \<Rightarrow> string \<Rightarrow> (string \<times> string) list check" where
  "auth_headers P pr key =
     (if \<not> utf8 key then Inl ''AUTH_ENCODING''
      else let v = (if pr = OpenAiCosts then ''Bearer '' @ key else key) in
        if \<not> pt_header_value P v then Inl ''AUTH_HEADER_INVALID''
        else Inr (if pr = OpenAiCosts then [(''authorization'', v)] else [(''x-api-key'', v), (''anthropic-version'', ''2023-06-01'')]))"

definition billing_label :: "billing_provider \<Rightarrow> string" where
  "billing_label pr = (if pr = OpenAiCosts then ''openai'' else ''anthropic'')"

definition billing_url :: "billing_provider \<Rightarrow> string" where
  "billing_url pr = (if pr = OpenAiCosts then ''https://api.openai.com/v1/organization/costs''
     else ''https://api.anthropic.com/v1/organizations/cost_report'')"

definition billing_base :: "ports \<Rightarrow> billing_provider \<Rightarrow> int \<Rightarrow> int \<Rightarrow> (string \<times> string) list check" where
  "billing_base P pr t0 t1 =
     (if pr = OpenAiCosts
      then Inr [(''start_time'', show_int t0), (''end_time'', show_int t1), (''bucket_width'', ''1d''), (''limit'', ''31'')]
      else bind_check (ok_or (pt_rfc3339 P t0) ''TIMESTAMP_RANGE'') (\<lambda>a.
           bind_check (ok_or (pt_rfc3339 P t1) ''TIMESTAMP_RANGE'') (\<lambda>b.
           Inr [(''starting_at'', a), (''ending_at'', b), (''limit'', ''31'')])))"

definition page_token :: "string json \<Rightarrow> string option" where
  "page_token body = (case json_str_at body ''next_page'' of None \<Rightarrow> None
     | Some s \<Rightarrow> if s \<noteq> [] \<and> length s \<le> 2048 \<and> \<not> list_ex is_control (chars s) then Some s else None)"

definition with_page :: "(string \<times> string) list \<Rightarrow> string \<Rightarrow> (string \<times> string) list" where
  "with_page q t = filter (\<lambda>(k, _). k \<noteq> ''page'') q @ [(''page'', t)]"

definition page_rows :: "ports \<Rightarrow> billing_provider \<Rightarrow> int \<Rightarrow> int \<Rightarrow> string json \<Rightarrow> cost_bucket list check" where
  "page_rows P pr t0 t1 body =
     bind_check (cost_page (pt_i64 P) (pt_read_rfc3339 P) (pt_show_number P) (billing_label pr) body) (\<lambda>rows.
     if list_ex (\<lambda>r. cb_start r < t0 - 86400 \<or> cb_end r > t1 + 86400) rows then Inl ''COST_BUCKET_OUTSIDE_REQUEST'' else Inr rows)"

text \<open>At most four pages; the argument counts those already read.\<close>

function billing_pages ::
    "ports \<Rightarrow> billing_provider \<Rightarrow> (string \<times> string) list \<Rightarrow> int \<Rightarrow> int \<Rightarrow> nat \<Rightarrow> (string \<times> string) list \<Rightarrow> string list
      \<Rightarrow> cost_bucket list \<Rightarrow> cost_bucket list check" where
  "billing_pages P pr headers t0 t1 n q cursors rows =
     (if n \<ge> 4 \<or> pt_billing_late P n then Inl ''BILLING_PAGINATION_BUDGET''
      else case response_json P (pt_http P n \<lparr>hq_method = ''GET'', hq_url = billing_url pr, hq_query = q, hq_headers = headers, hq_pinned = []\<rparr>) of
        Inl e \<Rightarrow> Inl e
      | Inr body \<Rightarrow> (case page_rows P pr t0 t1 body of
          Inl e \<Rightarrow> Inl e
        | Inr batch \<Rightarrow> (case Option.bind (json_get body ''has_more'') json_as_bool of
            None \<Rightarrow> Inl ''PAGINATION_SHAPE''
          | Some False \<Rightarrow> Inr (rows @ batch)
          | Some True \<Rightarrow> (case page_token body of
              None \<Rightarrow> Inl ''PAGINATION_TOKEN_INVALID''
            | Some t \<Rightarrow> if t \<in> set cursors then Inl ''PAGINATION_CYCLE''
                else billing_pages P pr headers t0 t1 (n + 1) (with_page q t) (t # cursors) (rows @ batch)))))"
  by pat_completeness auto
termination
  by (relation "measure (\<lambda>(P, pr, headers, t0, t1, n, q, cursors, rows). 4 - n)") auto

declare billing_pages.simps [simp del]

definition billing_report :: "int \<Rightarrow> billing_provider \<Rightarrow> string \<Rightarrow> int json \<Rightarrow> int json" where
  "billing_report now pr account summary =
     (let s = fold (\<lambda>(k, v). json_put k v)
        [(''provider'', JStr (billing_label pr)), (''account_alias'', JStr account), (''observed_at'', JNum now),
         (''source'', JStr ''documented_organization_admin_api''), (''coverage'', JStr ''partial''),
         (''scope_notice'', JStr ''Organization-wide costs selected by this credential; not attributed to the Workstation project. Subscription quotas are separate.'')]
        summary
      in if pr = AnthropicCosts then json_put ''exclusions'' (JArr [JStr ''Provider documents Priority Tier costs are not included.'']) s else s)"

definition billing ::
    "engine_codec \<Rightarrow> ports \<Rightarrow> ambient \<Rightarrow> string \<Rightarrow> string \<Rightarrow> billing_provider \<Rightarrow> string \<Rightarrow> string \<Rightarrow> int \<Rightarrow> int \<Rightarrow> int json engine" where
  "billing K P A project environment pr secret_id account t0 t1 =
     andthen (liftc (\<lambda>_. reject (t0 < 0 \<or> t1 \<le> t0 \<or> t1 - t0 > 32 * 86400 \<or> t1 > am_now A + 60) ''BILLING_DATE_RANGE'')) (\<lambda>_.
     andthen (task_secret K P A project environment secret_id) (\<lambda>key.
     andthen (liftc (\<lambda>_. auth_headers P pr key)) (\<lambda>headers.
     andthen (liftc (\<lambda>_. billing_base P pr t0 t1)) (\<lambda>q.
     andthen (liftc (\<lambda>_. billing_pages P pr headers t0 t1 0 q [] [])) (\<lambda>rows.
     andthen (liftc (\<lambda>_. cost_summary rows)) (\<lambda>s.
     pass (billing_report (am_now A) pr account s)))))))"

section \<open>Public endpoints\<close>

definition public_v4 :: "8 word \<Rightarrow> 8 word \<Rightarrow> 8 word \<Rightarrow> 8 word \<Rightarrow> bool" where
  "public_v4 a b c d \<longleftrightarrow>
     \<not> (a = 10 \<or> a = 172 \<and> 16 \<le> b \<and> b \<le> 31 \<or> a = 192 \<and> b = 168)
     \<and> a \<noteq> 127 \<and> \<not> (a = 169 \<and> b = 254) \<and> \<not> (a = 0 \<and> b = 0 \<and> c = 0 \<and> d = 0) \<and> \<not> (224 \<le> a \<and> a \<le> 239)
     \<and> a \<noteq> 0 \<and> a < 224 \<and> \<not> (a = 100 \<and> 64 \<le> b \<and> b < 128) \<and> \<not> (a = 192 \<and> b = 0)
     \<and> \<not> (a = 198 \<and> (b = 18 \<or> b = 19)) \<and> \<not> (a = 198 \<and> b = 51 \<and> c = 100) \<and> \<not> (a = 203 \<and> b = 0 \<and> c = 113)"

definition mapped_v4 :: "16 word list \<Rightarrow> (8 word \<times> 8 word \<times> 8 word \<times> 8 word) option" where
  "mapped_v4 s = (case s of [s0, s1, s2, s3, s4, s5, s6, s7] \<Rightarrow>
       if s0 = 0 \<and> s1 = 0 \<and> s2 = 0 \<and> s3 = 0 \<and> s4 = 0 \<and> s5 = 0xFFFF
       then Some (ucast (drop_bit 8 s6), ucast s6, ucast (drop_bit 8 s7), ucast s7) else None
     | _ \<Rightarrow> None)"

definition public_v6 :: "16 word list \<Rightarrow> bool" where
  "public_v6 s \<longleftrightarrow> (case s of s0 # s1 # _ \<Rightarrow> and s0 0xE000 = 0x2000 \<and> s0 \<noteq> 0x2002 \<and> \<not> (s0 = 0x2001 \<and> (s1 \<le> 0x1FF \<or> s1 = 0xDB8))
     | _ \<Rightarrow> False)"

fun public_ip :: "ip \<Rightarrow> bool" where
  "public_ip (V4 a b c d) = public_v4 a b c d"
| "public_ip (V6 s) = (case mapped_v4 s of Some (a, b, c, d) \<Rightarrow> public_v4 a b c d | None \<Rightarrow> public_v6 s)"

definition https_host :: "parsed_url \<Rightarrow> string check" where
  "https_host u =
     (if ur_scheme u \<noteq> ''https'' \<or> ur_username u \<noteq> [] \<or> ur_password u \<noteq> None \<or> ur_query u \<noteq> None \<or> ur_fragment u \<noteq> None
        \<or> ur_port u \<notin> {None, Some 443} then Inl ''PUBLIC_HTTPS_ENDPOINT_REQUIRED''
      else ok_or (ur_host u) ''ENDPOINT_HOST_MISSING'')"

definition endpoint_addresses :: "ports \<Rightarrow> string \<Rightarrow> ip list check" where
  "endpoint_addresses P host = bind_check (pt_lookup P host) (\<lambda>ips.
     let ips = take 17 ips in
     if ips = [] \<or> length ips > 16 \<or> list_ex (\<lambda>i. \<not> public_ip i) ips then Inl ''NONPUBLIC_ENDPOINT_ADDRESS_REJECTED'' else Inr ips)"

definition endpoint_request :: "resource \<Rightarrow> ip list \<Rightarrow> http_request" where
  "endpoint_request r ips = \<lparr>hq_method = ''HEAD'', hq_url = res_locator r, hq_query = [], hq_headers = [], hq_pinned = ips\<rparr>"

definition endpoint_admitted :: "ports \<Rightarrow> resource \<Rightarrow> http_request check" where
  "endpoint_admitted P r =
     bind_check (reject (res_kind r \<noteq> Endpoint \<or> ev_kind (res_evidence r) \<notin> {UserApproved, ProviderVerified}) ''APPROVED_ENDPOINT_REQUIRED'') (\<lambda>_.
     bind_check (ok_or (pt_url P (res_locator r)) ''ENDPOINT_URL_INVALID'') (\<lambda>u.
     bind_check (https_host u) (\<lambda>host.
     bind_check (endpoint_addresses P host) (\<lambda>ips. Inr (endpoint_request r ips)))))"

definition endpoint :: "ports \<Rightarrow> int \<Rightarrow> resource \<Rightarrow> int json check" where
  "endpoint P now r = bind_check (endpoint_admitted P r) (\<lambda>q. case pt_http P 0 q of
     NoAnswer \<Rightarrow> Inl ''ENDPOINT_TRANSPORT_FAILED''
   | Answered code body \<Rightarrow> Inr (JObj [(''body_read'', JBool False), (''dns_resolved_public'', JBool True), (''environment'', JStr (res_environment r)),
       (''http_responded'', JBool True), (''observed_at'', JNum now), (''production_authority_verified'', JBool False),
       (''project_id'', JStr (res_project_id r)), (''provider_identity_verified'', JBool False), (''redirect_followed'', JBool False),
       (''resource_id'', JStr (res_id r)), (''status_code'', JNum (int code))]))"

end
