(* ===== verification/Effect_Engine.thy ===== *)
theory Effect_Engine
  imports Providers Continuity
begin

text \<open>
  The effect engine (\<open>workstation-platform/src/engine.rs\<close>): a typed plan is prepared from live evidence,
  claimed, announced, dispatched to its executor and closed with a receipt; with the operations of
  \<open>operation_runtime.rs\<close>, the compatibility metadata of \<open>durable_compat.rs\<close> and the start of Docker
  Desktop of \<open>repairs.rs\<close>. The session of another agent, its reservation and the durable run are ports.
\<close>

section \<open>Compatibility metadata\<close>

definition compat_key :: "engine_codec \<Rightarrow> integration \<Rightarrow> string" where
  "compat_key K i = ''compat-'' @ take 16 (ek_sha K (int_id i))"

definition protocol_projection :: "int json \<Rightarrow> int json" where
  "protocol_projection value =
     (let keep = (\<lambda>v. case v of JBool _ \<Rightarrow> True | JNum n \<Rightarrow> 0 \<le> n \<and> n < 2 ^ 64 | _ \<Rightarrow> False);
          picked = fold (\<lambda>k w. case json_get value k of Some v \<Rightarrow> if keep v then json_put k v w else w | None \<Rightarrow> w)
            [''connected'', ''load_session'', ''list_sessions'', ''resume_without_replay'', ''protocol_version''] (JObj []);
          methods = (case Option.bind (json_get value ''auth_method_ids'') json_as_array of None \<Rightarrow> [] | Some xs \<Rightarrow>
            take 16 (filter (\<lambda>s. length s \<le> 128 \<and> \<not> list_ex is_control (chars s)) (List.map_filter json_as_str xs)))
      in json_put ''auth_method_ids'' (JArr (map JStr methods)) picked)"

definition compat_data :: "int \<Rightarrow> integration \<Rightarrow> query_kind \<Rightarrow> int json \<Rightarrow> int json \<Rightarrow> int json" where
  "compat_data now i q value old =
     (let base = (if json_str_ptr old [''data'', ''executable_sha256''] = Some (int_executable_sha256 i)
                  then (case json_get old ''data'' of Some d \<Rightarrow> d | None \<Rightarrow> JObj []) else JObj []);
          d = fold (\<lambda>(k, v). json_put k v)
            [(''executable_sha256'', JStr (int_executable_sha256 i)), (''declared_version'', JStr (int_version_text i)),
             (''adapter'', JStr (adapter_id (int_adapter i))), (''integration_id'', JStr (int_id i)),
             (''environment'', JStr (int_environment i)), (''observed_at'', JNum now)] base
      in if q = Version
         then json_put ''version_matches'' (case Option.bind (json_get value ''matches_registration'') json_as_bool of
                None \<Rightarrow> JNull | Some b \<Rightarrow> JBool b) d
         else json_put ''protocol'' (protocol_projection value) d)"

definition compat_save :: "engine_codec \<Rightarrow> int \<Rightarrow> integration \<Rightarrow> query_kind \<Rightarrow> int json \<Rightarrow> station \<Rightarrow> station check" where
  "compat_save K now i q value st =
     (if q \<notin> {Version, ProtocolHealth} then Inr st
      else bind_check (cached_observation K now (int_project_id i) (compat_key K i) st) (\<lambda>old.
           cache_observation K now (int_project_id i) (compat_key K i) (compat_data now i q value old) st))"

definition compat_applies :: "integration \<Rightarrow> int json \<Rightarrow> bool" where
  "compat_applies i cache \<longleftrightarrow> Option.bind (json_get cache ''fresh'') json_as_bool = Some True
     \<and> json_str_ptr cache [''data'', ''executable_sha256''] = Some (int_executable_sha256 i)
     \<and> json_str_ptr cache [''data'', ''declared_version''] = Some (int_version_text i)
     \<and> json_str_ptr cache [''data'', ''environment''] = Some (int_environment i)"

definition preflight ::
    "engine_codec \<Rightarrow> int \<Rightarrow> station \<Rightarrow> integration \<Rightarrow> string option \<Rightarrow> string \<Rightarrow> unit check" where
  "preflight K now st i resume permission =
     bind_check (integration_validate i) (\<lambda>_.
     if int_adapter i = GeminiAcp \<and> permission = ''read_only'' then Inl ''GEMINI_READ_ONLY_MODE_UNSUPPORTED''
     else bind_check (hash_file (ek_repair K) (sa_machine st) (int_executable i)) (\<lambda>h.
     if h \<noteq> int_executable_sha256 i then Inl ''EXECUTABLE_CHANGED''
     else bind_check (integration_of K st (int_id i)) (\<lambda>own.
     bind_check (cached_observation K now (int_project_id own) (compat_key K own) st) (\<lambda>cache.
     if \<not> compat_applies own cache then Inr ()
     else checks
       [reject (Option.bind (json_pointer cache [''data'', ''version_matches'']) json_as_bool = Some False)
          ''ADAPTER_VERSION_MISMATCH'',
        (case (int_protocol_revision i, Option.bind (json_pointer cache [''data'', ''protocol'', ''protocol_version'']) as_u64) of
           (Some expected, Some actual) \<Rightarrow> reject (int expected \<noteq> actual) ''ADAPTER_PROTOCOL_REVISION_MISMATCH''
         | _ \<Rightarrow> Inr ()),
        (case (int_auth_method i, Option.bind (json_pointer cache [''data'', ''protocol'', ''auth_method_ids'']) json_as_array) of
           (Some method, Some ids) \<Rightarrow> reject (\<not> list_ex (\<lambda>x. json_as_str x = Some method) ids) ''ACP_AUTH_METHOD_NOT_ADVERTISED''
         | _ \<Rightarrow> Inr ()),
        reject (resume \<noteq> None \<and> Option.bind (json_pointer cache [''data'', ''protocol'', ''load_session'']) json_as_bool = Some False)
          ''ADAPTER_RESUME_NOT_ADVERTISED'']))))"

section \<open>Operations\<close>

definition local_secret_reference :: "station \<Rightarrow> string \<Rightarrow> string \<Rightarrow> string \<Rightarrow> unit check" where
  "local_secret_reference st project environment i =
     bind_check (resources (va_control (sa_vault st)) project environment) (\<lambda>rs.
     bind_check (ok_or (find (\<lambda>r. res_id r = i) rs) ''RESOURCE_SCOPE_MISMATCH'') (\<lambda>r.
     reject (res_locator r \<noteq> local_locator project environment i \<or> res_kind r \<noteq> SecretReference)
       ''LOCAL_SECRET_REFERENCE_REQUIRED''))"

definition rotation_output :: "string \<Rightarrow> string option \<Rightarrow> string \<Rightarrow> int json" where
  "rotation_output i expected version = JObj
     [(''note'', JStr ''Entered value changed locally. Rotate the real provider token separately through its authorized administration interface.''),
      (''old_ciphertext_preserved'', JBool True), (''previous'', case expected of None \<Rightarrow> JNull | Some p \<Rightarrow> JStr p),
      (''provider_token_rotated'', JBool False), (''resource_id'', JStr i), (''state'', JStr ''active''),
      (''version_id'', JStr version)]"

definition perform_operation ::
    "engine_codec \<Rightarrow> ports \<Rightarrow> ambient \<Rightarrow> string \<Rightarrow> effect_plan \<Rightarrow> operation \<Rightarrow> int json engine" where
  "perform_operation K P A run p op =
     andthen (liftc (\<lambda>st. bind_check (vault_v4 (sa_vault st)) (\<lambda>_. operation_validate op))) (\<lambda>_. case op of
       WorkspaceCleanup t \<Rightarrow> if ct_project_id t \<noteq> ep_project_id p then fail ''CLEANUP_PROJECT_MISMATCH''
         else remove_worktree K P A run t
     | WorktreeCreate w \<Rightarrow> execute_create K P A run p w
     | SecretRotate i previous \<Rightarrow>
         andthen (on_vault (rotate_secret (ek_secret K) (am_vault_dir A) (am_vault_disk A) (am_now A) (am_ids A) (am_call A)
           (am_hidden A) (am_version A) run (ep_project_id p) (ep_environment p) i previous)) (\<lambda>version.
         pass (rotation_output i previous version))
     | SecretRevoke i expected \<Rightarrow>
         andthen (liftc (\<lambda>st. local_secret_reference st (ep_project_id p) (ep_environment p) i)) (\<lambda>_.
         on_vault (\<lambda>v. case revoke_secret_version (am_now A) (am_ids A) run i expected v of
           Inl e \<Rightarrow> (v, Inl e) | Inr (v', out) \<Rightarrow> (v', Inr out)))
     | JournalArchive before limit selection \<Rightarrow>
         on_journal (archive_terminal_journals (ek_archive K) (ek_archive_ok K) (am_archive_dir A) (am_archive_disk A)
           (am_now A) (am_archive_id A) run (ep_project_id p) before limit selection))"

text \<open>What an operation pins when it is prepared.\<close>

datatype operation_request =
    RequestCleanup string bool
  | RequestCreate string string string "string option"
  | RequestRotate string
  | RequestRevoke string
  | RequestArchive int nat

definition prepare_create ::
    "engine_codec \<Rightarrow> ports \<Rightarrow> ambient \<Rightarrow> string \<Rightarrow> string \<Rightarrow> string \<Rightarrow> string \<Rightarrow> string \<Rightarrow> string option \<Rightarrow> operation engine" where
  "prepare_create K P A project environment source destination branch i =
     andthen (liftc (\<lambda>_. bind_check (absolute_path destination) (\<lambda>_. branch_name branch))) (\<lambda>_.
     andthen (ask (require_missing_entry destination)) (\<lambda>_.
     andthen (liftc (\<lambda>_. has_parent destination)) (\<lambda>_.
     andthen (ask (\<lambda>m. directory (machine_os m) (Some (parent_path destination)))) (\<lambda>_.
     andthen (ask (\<lambda>m. directory_identity m (parent_path destination))) (\<lambda>parent.
     andthen (collect_detail P A project source) (\<lambda>d.
     andthen (liftc (\<lambda>_. reject (st_coverage (wd_stamp d) \<noteq> Complete \<or> wd_checkout_filters_present d \<noteq> Some False)
       ''SOURCE_WORKSPACE_FILTER_OR_INSPECTION_BLOCKER'')) (\<lambda>_.
     andthen (project_of project) (\<lambda>p.
     andthen (case i of None \<Rightarrow> pass None
       | Some x \<Rightarrow> liftc (\<lambda>st. bind_check (integration_of K st x) (\<lambda>n.
           if int_project_id n \<noteq> project \<or> int_environment n \<noteq> environment \<or> int_adapter n \<noteq> Worktrunk then Inl ''WORKTRUNK_SCOPE_MISMATCH''
           else Inr (Some (ek_sha K (ek_profile_text K n)))))) (\<lambda>dig.
     andthen (ask (\<lambda>m. hash_file (ek_repair K) m (pr_git p))) (\<lambda>pin.
     pass (WorktreeCreate \<lparr>wt_integration_id = i, wt_integration_digest = dig, wt_destination = destination, wt_branch_name = branch,
       wt_base_commit = st_head (wd_stamp d), wt_repository_identity = wd_repository_identity d, wt_source_workspace_id = source,
       wt_git_sha256 = pin, wt_destination_parent_identity = parent\<rparr>)))))))))))"

definition prepare_secret :: "station \<Rightarrow> string \<Rightarrow> string \<Rightarrow> bool \<Rightarrow> string \<Rightarrow> operation check" where
  "prepare_secret st project environment rotating i =
     bind_check (local_secret_reference st project environment i) (\<lambda>_.
     bind_check (secret_head (sa_vault st) i) (\<lambda>head.
     if rotating then Inr (SecretRotate i (map_option fst head))
     else (case head of None \<Rightarrow> Inl ''LEGACY_SECRET_REQUIRES_VERSION_ADOPTION_FIRST''
       | Some (v, state, _) \<Rightarrow> if state \<noteq> ''active'' then Inl ''SECRET_NOT_ACTIVE'' else Inr (SecretRevoke i v))))"

definition prepare_operation ::
    "engine_codec \<Rightarrow> ports \<Rightarrow> ambient \<Rightarrow> string \<Rightarrow> string \<Rightarrow> string \<Rightarrow> operation_request \<Rightarrow> operation engine" where
  "prepare_operation K P A ref_id project environment r =
     andthen (liftc (\<lambda>st. bind_check (vault_v4 (sa_vault st)) (\<lambda>_. station_environment st project environment))) (\<lambda>_.
     andthen (case r of
         RequestCleanup w ack \<Rightarrow> andthen (prepare_cleanup K P A project w ack ref_id) (\<lambda>t. pass (WorkspaceCleanup t))
       | RequestCreate source destination branch i \<Rightarrow> prepare_create K P A project environment source destination branch i
       | RequestRotate i \<Rightarrow> liftc (\<lambda>st. prepare_secret st project environment True i)
       | RequestRevoke i \<Rightarrow> liftc (\<lambda>st. prepare_secret st project environment False i)
       | RequestArchive before limit \<Rightarrow> liftc (\<lambda>st.
           if before > am_now A - 3600 then Inl ''ARCHIVE_REQUIRES_OLD_TERMINAL_RECORDS''
           else bind_check (journal_selection_digest (ek_archive K) (am_now A) (station_journal st) project before limit) (\<lambda>s.
             Inr (JournalArchive before limit s)))) (\<lambda>op.
     andthen (liftc (\<lambda>_. operation_validate op)) (\<lambda>_. pass op)))"

section \<open>The start of Docker Desktop\<close>

definition desktop_launch :: "string \<Rightarrow> (string \<times> string) list \<Rightarrow> launch" where
  "desktop_launch desktop e = \<lparr>la_executable = desktop, la_directory = parent_path desktop, la_environment = e, la_arguments = []\<rparr>"

definition spawn_desktop :: "ports \<Rightarrow> launch \<Rightarrow> nat engine" where
  "spawn_desktop P l st = (let n = length (sa_launched st) in case pt_spawn P n l of
       None \<Rightarrow> (Inl ''DESKTOP_START_FAILED'', st)
     | Some pid \<Rightarrow> (Inr pid, st\<lparr>sa_launched := sa_launched st @ [l], sa_machine := pt_after P n l (sa_machine st)\<rparr>))"

text \<open>Each poll sleeps two seconds, so at most forty-six polls fit into the ninety seconds.\<close>

function poll_docker :: "engine_codec \<Rightarrow> ports \<Rightarrow> ambient \<Rightarrow> integration \<Rightarrow> nat \<Rightarrow> nat \<Rightarrow> int json engine" where
  "poll_docker K P A i pid k =
     andthen (attempt (docker_local K P A i)) (\<lambda>r. case r of
       Inr v \<Rightarrow> pass (JObj [(''certified'', JBool False), (''engine'', v), (''launched_pid'', JNum (int pid)), (''root_cause_fixed'', JBool False)])
     | Inl _ \<Rightarrow> if max (2 * k) (pt_waited P k) \<ge> 90 then fail ''DOCKER_API_NOT_READY_INSPECT_LAUNCH_RECEIPT''
         else poll_docker K P A i pid (k + 1))"
  by pat_completeness auto
termination
  by (relation "measure (\<lambda>(K, P, A, i, pid, k). 45 - k)") auto

declare poll_docker.simps [simp del]

definition start_docker :: "engine_codec \<Rightarrow> ports \<Rightarrow> ambient \<Rightarrow> string \<Rightarrow> integration \<Rightarrow> string \<Rightarrow> string \<Rightarrow> int json engine" where
  "start_docker K P A run i desktop dig =
     andthen (ask (\<lambda>m. desktop_identity (ek_repair K) m i)) (\<lambda>found.
     andthen (liftc (\<lambda>_. reject (found \<noteq> (desktop, dig)) ''DESKTOP_BINARY_CHANGED'')) (\<lambda>_.
     andthen (attempt (docker_local K P A i)) (\<lambda>r. case r of
       Inr v \<Rightarrow> pass (JObj [(''already_healthy'', JBool True), (''engine'', v), (''new_process'', JBool False)])
     | Inl _ \<Rightarrow>
         andthen (ask (\<lambda>m. stopped m DockerRuntime)) (\<lambda>_.
         andthen (run_step K A run ''start_exact_docker_desktop'' ''intent'' (JObj [(''executable'', JStr desktop),
           (''persistent_application'', JBool True), (''restarts'', JNum 0), (''sha256'', JStr dig)])) (\<lambda>_.
         andthen (adapter_environment K P A i) (\<lambda>e.
         andthen (spawn_desktop P (desktop_launch desktop e)) (\<lambda>pid.
         andthen (run_step K A run ''start_exact_docker_desktop'' ''completed'' (JObj [(''application_intentionally_persistent'', JBool True),
           (''pid'', JNum (int pid)), (''pid_alone_never_stop_authority'', JBool True)])) (\<lambda>_.
         poll_docker K P A i pid 0))))))))"

section \<open>Dispatch\<close>

definition engine_profile :: "engine_codec \<Rightarrow> station \<Rightarrow> string \<Rightarrow> string \<Rightarrow> string \<Rightarrow> integration check" where
  "engine_profile K st i project environment =
     bind_check (integration_of K st i) (\<lambda>x.
     if int_project_id x \<noteq> project \<or> int_environment x \<noteq> environment then Inl ''INTEGRATION_SCOPE_MISMATCH''
     else bind_check (integration_validate x) (\<lambda>_. Inr x))"

definition verify_profile :: "engine_codec \<Rightarrow> station \<Rightarrow> string \<Rightarrow> string \<Rightarrow> effect_plan \<Rightarrow> integration check" where
  "verify_profile K st i dig p =
     bind_check (engine_profile K st i (ep_project_id p) (ep_environment p)) (\<lambda>x.
     if ek_sha K (ek_profile_text K x) \<noteq> dig then Inl ''INTEGRATION_CHANGED'' else Inr x)"

section \<open>Continuing a checkpoint\<close>

definition stamp_digest :: "engine_codec \<Rightarrow> workspace_stamp \<Rightarrow> string" where
  "stamp_digest K s = ek_sha K (ac_show (ek_archive K) (JObj
     [(''blockers'', JArr (map JStr (st_blockers s))), (''branch'', Operations.json_opt JStr (st_branch s)), (''coverage'', coverage_json (st_coverage s)),
      (''head'', JStr (st_head s)), (''identity'', JStr (st_directory_identity s)), (''path'', JStr (st_path s)),
      (''project'', JStr (st_project_id s)), (''status'', JStr (st_status_digest s)), (''workspace'', JStr (st_workspace_id s))]))"

definition continuation_timeout :: "continuation \<Rightarrow> nat" where
  "continuation_timeout c = (case co_deadlines c of Some d \<Rightarrow> absolute_seconds d | None \<Rightarrow> co_timeout_seconds c)"

definition checkpoint_current :: "ports \<Rightarrow> station \<Rightarrow> string \<Rightarrow> continuation \<Rightarrow> checkpoint check" where
  "checkpoint_current P st project c =
     bind_check (checkpoint_get (va_control (sa_vault st)) (co_checkpoint_id c)) (\<lambda>cp.
     if wi_project_id (cp_work cp) \<noteq> project \<or> wi_id (cp_work cp) \<noteq> co_work_id c then Inl ''CONTINUATION_STATE_CHANGED''
     else bind_check (work_get (va_control (sa_vault st)) (co_work_id c)) (\<lambda>w.
       if wi_version w \<noteq> co_work_version c \<or> pt_checkpoint_sha P cp \<noteq> co_packet_digest c then Inl ''CONTINUATION_STATE_CHANGED''
       else Inr cp))"

definition turn_completed :: "int json \<Rightarrow> unit check" where
  "turn_completed v = reject ((case json_str_at v ''turn_status'' of None \<Rightarrow> False | Some s \<Rightarrow> s \<noteq> ''completed'')
     \<or> Option.bind (json_get v ''completed'') json_as_bool = Some False) ''AGENT_TURN_NOT_COMPLETED''"

definition continuation_packet :: "handoff_packet \<Rightarrow> continuation \<Rightarrow> handoff_packet" where
  "continuation_packet h c = h\<lparr>hp_mode := (if co_resume_external_id c \<noteq> None then ''native_resume'' else ''cross_agent_new_session''),
     hp_authority := ''exact_expiring_continuation_plan_only''\<rparr>"

definition continue_effect :: "engine_codec \<Rightarrow> ports \<Rightarrow> ambient \<Rightarrow> string \<Rightarrow> effect_plan \<Rightarrow> continuation \<Rightarrow> int json engine" where
  "continue_effect K P A run p c =
     andthen (liftc (\<lambda>st. verify_profile K st (co_integration_id c) (co_integration_digest c) p)) (\<lambda>i.
     andthen (liftc (\<lambda>st. preflight K (am_now A) st i (co_resume_external_id c) (co_permission_mode c))) (\<lambda>_.
     andthen (liftc (\<lambda>st. bind_check (pt_authority P st (ep_project_id p) (ep_environment p)) (\<lambda>d.
       reject (d \<noteq> co_authority_digest c) ''AUTHORITATIVE_CONTEXT_CHANGED''))) (\<lambda>_.
     andthen (liftc (\<lambda>st. checkpoint_current P st (ep_project_id p) c)) (\<lambda>cp.
     andthen (collect_stamp P A (ep_project_id p) (st_workspace_id (cp_workspace cp))) (\<lambda>live.
     andthen (liftc (\<lambda>_. bind_check (revalidate_checkpoint cp live (am_now A)) (\<lambda>_.
       reject (stamp_digest K live \<noteq> co_workspace_digest c) ''WORKSPACE_CHANGED_SINCE_PREVIEW''))) (\<lambda>_.
     andthen (liftc (\<lambda>st. roster (va_control (sa_vault st)) (ep_project_id p))) (\<lambda>entries.
     andthen (liftc (\<lambda>_. handoff (pt_packet_bytes P) cp live (adapter_id (int_adapter i)) entries (am_now A))) (\<lambda>h.
     andthen (liftc (\<lambda>st. pt_payload P st (ep_project_id p) (ep_environment p) (continuation_packet h c))) (\<lambda>text.
     andthen (liftc (\<lambda>_. reject (length text > 65536) ''CONTINUATION_PACKET_LIMIT'')) (\<lambda>_.
     andthen (pt_reserve P run cp i (co_resume_external_id c) (continuation_timeout c)) (\<lambda>_.
     andthen (pt_drive P run i (st_path live) text (co_resume_external_id c) (co_permission_mode c) (continuation_timeout c)) (\<lambda>out.
     andthen (liftc (\<lambda>_. turn_completed out)) (\<lambda>_.
     pass (JObj [(''context_content_revalidated_by_model'', JStr ''not_assumed''), (''continuation'', out),
       (''native_certification'', JStr ''not_claimed''), (''work_item_marked_done'', JBool False)]))))))))))))))"

definition query_category :: "query_kind \<Rightarrow> string" where
  "query_category q = (case q of CodexQuota \<Rightarrow> ''quota'' | CopilotQuota \<Rightarrow> ''quota''
     | CodexThreads \<Rightarrow> ''sessions'' | VendorSessions \<Rightarrow> ''sessions'' | CopilotModels \<Rightarrow> ''models''
     | ProtocolHealth \<Rightarrow> ''protocol-health'' | WorktrunkList \<Rightarrow> ''worktrunk'' | DockerLocalEngine \<Rightarrow> ''docker-local''
     | Version \<Rightarrow> ''version'')"

definition received_evidence :: "int \<Rightarrow> evidence" where
  "received_evidence now = \<lparr>ev_kind = Observed, ev_source = ''received_owned_protocol_response_not_account_identity_verified'',
     ev_at = now, ev_coverage = Partial\<rparr>"

definition relabel_sample :: "string \<Rightarrow> adapter \<Rightarrow> nat \<Rightarrow> quota_sample \<Rightarrow> quota_sample" where
  "relabel_sample run a n s = s\<lparr>qs_id := ''sample-'' @ run @ ''-'' @ show_nat n, qs_evidence := (qs_evidence s)
     \<lparr>ev_kind := Observed, ev_source := ''received_owned_'' @ adapter_id a @ ''_protocol_not_account_identity_verification''\<rparr>\<rparr>"

fun receive_samples :: "control_codec \<Rightarrow> int \<Rightarrow> string \<Rightarrow> string \<Rightarrow> nat \<Rightarrow> quota_sample list \<Rightarrow> control_db \<Rightarrow> control_db check" where
  "receive_samples C now project run n [] db = Inr db"
| "receive_samples C now project run n (s # ss) db =
     (let t = s\<lparr>qs_id := ''quota-'' @ run @ ''-'' @ show_nat n\<rparr> in
      bind_check (quota_validate t) (\<lambda>_.
      bind_check (insert_quota C db project (t\<lparr>qs_evidence := received_evidence now\<rparr>))
        (receive_samples C now project run (n + 1) ss)))"

definition save_received_quota :: "engine_codec \<Rightarrow> int \<Rightarrow> string \<Rightarrow> string \<Rightarrow> quota_sample list \<Rightarrow> station \<Rightarrow> station check" where
  "save_received_quota K now project run rows st =
     bind_check (require_v3 (station_journal st)) (\<lambda>_.
     if rows = [] \<or> length rows > 256 then Inl ''QUOTA_BATCH_LIMIT''
     else bind_check (receive_samples (sk_control (ek_secret K)) now project run 0 rows (va_control (sa_vault st))) (\<lambda>db.
       Inr (st\<lparr>sa_vault := (sa_vault st)\<lparr>va_control := db\<lparr>cd_quota :=
         prune fst (\<lambda>(_, s). (qs_observed_at s, qs_id s)) 10000 project (cd_quota db)\<rparr>\<rparr>\<rparr>)))"

definition query_effect :: "engine_codec \<Rightarrow> ports \<Rightarrow> ambient \<Rightarrow> string \<Rightarrow> effect_plan \<Rightarrow> string \<Rightarrow> string \<Rightarrow> query_kind \<Rightarrow> int json engine" where
  "query_effect K P A run p i dig q =
     andthen (liftc (\<lambda>st. verify_profile K st i dig p)) (\<lambda>x.
     andthen (adapter_query K P A x q) (\<lambda>value.
     andthen (if q \<in> {CodexQuota, CopilotQuota} then (case json_get value ''samples'' of None \<Rightarrow> pass ()
         | Some v \<Rightarrow> (case pt_samples P v of None \<Rightarrow> fail ''QUOTA_NORMALIZATION''
             | Some rows \<Rightarrow> commit (save_received_quota K (am_now A) (ep_project_id p) run
                 (map (\<lambda>(n, s). relabel_sample run (int_adapter x) n s) (List.enumerate 0 rows)))))
       else pass ()) (\<lambda>_.
     andthen (commit (cache_observation K (am_now A) (ep_project_id p)
         (query_category q @ ''-'' @ take 16 (ek_sha K (int_id x))) value)) (\<lambda>_.
     andthen (commit (compat_save K (am_now A) x q value)) (\<lambda>_. pass value)))))"

definition dispatch :: "engine_codec \<Rightarrow> ports \<Rightarrow> ambient \<Rightarrow> string \<Rightarrow> effect_plan \<Rightarrow> int json engine" where
  "dispatch K P A run p = (case ep_effect p of
       EOperation op \<Rightarrow> perform_operation K P A run p op
     | IntegrationQuery i dig q \<Rightarrow> query_effect K P A run p i dig q
     | CredentialedTask t \<Rightarrow> task_execute K P A t
     | Continue c \<Rightarrow> continue_effect K P A run p c
     | BillingRead pr credential account t0 t1 \<Rightarrow>
         andthen (billing K P A (ep_project_id p) (ep_environment p) pr credential account t0 t1) (\<lambda>v.
         andthen (commit (cache_observation K (am_now A) (ep_project_id p)
           ((if pr = OpenAiCosts then ''openai-costs'' else ''anthropic-costs'') @ ''-'' @ take 16 (ek_sha K account)) v)) (\<lambda>_.
         pass v))
     | EndpointCheck i dig \<Rightarrow>
         andthen (liftc (\<lambda>st. task_resource (am_now A) st (ep_project_id p) (ep_environment p) i)) (\<lambda>r.
         if pt_resource_sha P r \<noteq> dig then fail ''RESOURCE_CHANGED''
         else andthen (liftc (\<lambda>_. endpoint P (am_now A) r)) (\<lambda>v.
         andthen (commit (cache_observation K (am_now A) (ep_project_id p) (''endpoint-'' @ take 16 (ek_sha K i)) v)) (\<lambda>_.
         pass v)))
     | Repair t \<Rightarrow> on_repair (quarantine (ek_repair K) (am_rename A) (am_now A) run t)
     | RepairUndo execution dig \<Rightarrow>
         andthen (liftc (\<lambda>st. completed_receipt K st execution (ep_project_id p))) (\<lambda>r.
         if ek_sha K (ek_receipt_text K r) \<noteq> dig then fail ''RESTORE_RECEIPT_CHANGED''
         else on_repair (restore (ek_repair K) (am_rename A) (am_now A) run (xr_output r)))
     | DockerStart i dig desktop sha \<Rightarrow>
         andthen (liftc (\<lambda>st. verify_profile K st i dig p)) (\<lambda>x. start_docker K P A run x desktop sha))"

section \<open>Applying a plan\<close>

definition inherited_keys :: "string list" where
  "inherited_keys = [''PATH'', ''USERPROFILE'', ''HOME'', ''APPDATA'', ''LOCALAPPDATA'', ''CODEX_HOME'', ''CLAUDE_CONFIG_DIR'',
     ''DOCKER_CONFIG'', ''OP_CONFIG_DIR'', ''DOPPLER_CONFIG_DIR'', ''COPILOT_HOME'', ''GEMINI_CLI_HOME'', ''XDG_DATA_HOME'',
     ''XDG_CONFIG_HOME'']"

definition inherited_paths_digest :: "engine_codec \<Rightarrow> machine \<Rightarrow> string" where
  "inherited_paths_digest K m = ek_sha K (concat (map (\<lambda>k. k @ [CHR 0x00]
     @ (case mc_env m k of None \<Rightarrow> [] | Some v \<Rightarrow> v) @ [CHR 0x00]) inherited_keys))"

definition is_continue :: "effect_plan \<Rightarrow> bool" where
  "is_continue p = (case ep_effect p of Continue _ \<Rightarrow> True | _ \<Rightarrow> False)"

text \<open>The checks before an execution exists.\<close>

definition admit_plan :: "engine_codec \<Rightarrow> ambient \<Rightarrow> string \<Rightarrow> bool \<Rightarrow> station \<Rightarrow> (effect_plan \<times> string) check" where
  "admit_plan K A i ack st =
     bind_check (reject (\<not> ack) ''UNVERIFIED_RELEASE_EXPLICIT_ACK_REQUIRED'') (\<lambda>_.
     bind_check (am_lock A) (\<lambda>_.
     bind_check (effect_plan_of K st i) (\<lambda>(p, dig).
     bind_check (secret_generation_digest (ek_heads_sha K) (sa_vault st) (ep_project_id p) (ep_environment p)) (\<lambda>g.
     bind_check (checks [reject (ep_secret_generation_digest p \<noteq> g) ''SECRET_GENERATION_CHANGED_SINCE_APPROVAL'',
       reject (ep_inherited_paths_digest p \<noteq> inherited_paths_digest K (sa_machine st)) ''INHERITED_PATH_ENVIRONMENT_CHANGED'']) (\<lambda>_.
     Inr (p, dig))))))"

definition receipt_of :: "int \<Rightarrow> string \<Rightarrow> effect_plan \<Rightarrow> int json check \<Rightarrow> execution_receipt" where
  "receipt_of now run p result = (case result of
     Inr v \<Rightarrow> \<lparr>xr_execution = run, xr_plan = ep_id p, xr_state = XSucceeded, xr_started = now, xr_finished = Some now,
       xr_error = None, xr_output = v, xr_root_cause_fixed = False\<rparr>
   | Inl e \<Rightarrow> \<lparr>xr_execution = run, xr_plan = ep_id p, xr_state = XIndeterminate, xr_started = now, xr_finished = Some now,
       xr_error = Some e, xr_output = JObj [(''partial_external_effects_possible'', JBool True),
         (''retry_automatically'', JBool False), (''review_required'', JBool True)], xr_root_cause_fixed = False\<rparr>)"

definition close_run :: "engine_codec \<Rightarrow> ports \<Rightarrow> ambient \<Rightarrow> string \<Rightarrow> effect_plan \<Rightarrow> int json check \<Rightarrow> execution_receipt engine" where
  "close_run K P A run p result =
     andthen (if is_continue p then pt_durable_finish P p result else pass ()) (\<lambda>_.
     let r = receipt_of (am_now A) run p result in
     andthen (if is_continue p then pt_finish_continuation P run (xr_state r = XSucceeded) else pass ()) (\<lambda>_.
     andthen (on_journal (keep_on_error (finish_run K r))) (\<lambda>_. pass r)))"

definition execute_run :: "engine_codec \<Rightarrow> ports \<Rightarrow> ambient \<Rightarrow> string \<Rightarrow> effect_plan \<Rightarrow> string \<Rightarrow> execution_receipt engine" where
  "execute_run K P A run p dig =
     andthen (run_step K A run ''execute_typed_plan'' ''intent'' (JObj [(''approval_digest'', JStr dig),
        (''plan_id'', JStr (ep_id p)), (''policy'', JStr (ep_policy p))])) (\<lambda>_.
     andthen (if is_continue p then pt_install P p else pass ()) (\<lambda>_.
     (\<lambda>st. case dispatch K P A run p st of (result, st') \<Rightarrow> close_run K P A run p result st')))"

definition apply_effect :: "engine_codec \<Rightarrow> ports \<Rightarrow> ambient \<Rightarrow> string \<Rightarrow> string \<Rightarrow> bool \<Rightarrow> execution_receipt engine" where
  "apply_effect K P A i approval ack =
     andthen (liftc (admit_plan K A i ack)) (\<lambda>(p, dig).
     andthen (if is_continue p then pt_durable_begin P p dig approval
              else andthen (on_journal (keep_on_error (begin_run (am_now A) (am_run A) p dig approval))) (\<lambda>_. pass (am_run A))) (\<lambda>run.
     execute_run K P A run p dig))"

section \<open>Preparing a plan\<close>

datatype plan_request =
    AskOperation operation_request
  | AskQuery string query_kind
  | AskTask string
  | AskContinue string string "string option" string nat "deadline_policy option"
  | AskBilling billing_provider string string int int
  | AskEndpoint string
  | AskRepair repair_kind string string string
  | AskUndo string
  | AskDocker string

definition continuing_adapter :: "adapter \<Rightarrow> bool" where
  "continuing_adapter a \<longleftrightarrow> a \<in> {Codex, Claude, CursorAcp, GrokAcp, GeminiAcp, OpenCode, Cline, Copilot}"

definition vault_v5 :: "vault \<Rightarrow> unit check" where
  "vault_v5 v = reject (cd_version (va_control v) \<noteq> 5) ''DURABLE_UPGRADE_REQUIRED''"

definition profile_digest :: "engine_codec \<Rightarrow> integration \<Rightarrow> string" where
  "profile_digest K i = ek_sha K (ek_profile_text K i)"

definition prepare_continue ::
    "engine_codec \<Rightarrow> ports \<Rightarrow> ambient \<Rightarrow> string \<Rightarrow> string \<Rightarrow> string \<Rightarrow> string \<Rightarrow> string option \<Rightarrow> string \<Rightarrow> nat
      \<Rightarrow> deadline_policy option \<Rightarrow> effect engine" where
  "prepare_continue K P A project environment i checkpoint resume permission timeout deadlines =
     andthen (liftc (\<lambda>st. bind_check (vault_v5 (sa_vault st)) (\<lambda>_. engine_profile K st i project environment))) (\<lambda>x.
     andthen (liftc (\<lambda>st. preflight K (am_now A) st x resume permission)) (\<lambda>_.
     andthen (liftc (\<lambda>_. reject (\<not> continuing_adapter (int_adapter x)) ''CONTINUATION_ADAPTER_NOT_IMPLEMENTED'')) (\<lambda>_.
     andthen (liftc (\<lambda>st. bind_check (checkpoint_get (va_control (sa_vault st)) checkpoint) (\<lambda>cp.
       if wi_project_id (cp_work cp) \<noteq> project then Inl ''CHECKPOINT_SCOPE''
       else bind_check (work_get (va_control (sa_vault st)) (wi_id (cp_work cp))) (\<lambda>w.
         if wi_version w \<noteq> wi_version (cp_work cp) then Inl ''CHECKPOINT_WORK_VERSION_STALE'' else Inr (cp, w))))) (\<lambda>(cp, w).
     andthen (collect_stamp P A project (st_workspace_id (cp_workspace cp))) (\<lambda>live.
     andthen (liftc (\<lambda>_. revalidate_checkpoint cp live (am_now A))) (\<lambda>_.
     andthen (liftc (\<lambda>st. pt_authority P st project environment)) (\<lambda>authority.
     pass (Continue \<lparr>co_integration_id = i, co_integration_digest = profile_digest K x, co_checkpoint_id = checkpoint,
       co_workspace_digest = stamp_digest K live, co_work_id = wi_id w, co_work_version = wi_version w,
       co_resume_external_id = resume, co_permission_mode = permission, co_timeout_seconds = timeout, co_deadlines = deadlines,
       co_packet_digest = pt_checkpoint_sha P cp, co_authority_digest = authority\<rparr>))))))))"

definition prepare_effect :: "engine_codec \<Rightarrow> ports \<Rightarrow> ambient \<Rightarrow> string \<Rightarrow> string \<Rightarrow> string \<Rightarrow> plan_request \<Rightarrow> effect engine" where
  "prepare_effect K P A ref_id project environment r = (case r of
       AskOperation o' \<Rightarrow> andthen (prepare_operation K P A ref_id project environment o') (\<lambda>op. pass (EOperation op))
     | AskQuery i q \<Rightarrow> liftc (\<lambda>st. bind_check (engine_profile K st i project environment) (\<lambda>x.
         Inr (IntegrationQuery i (profile_digest K x) q)))
     | AskTask t \<Rightarrow> liftc (\<lambda>st. bind_check (task_of K st t) (\<lambda>x.
         bind_check (task_files K (sa_machine st) x) (\<lambda>_. Inr (CredentialedTask x))))
     | AskContinue i c resume permission timeout deadlines \<Rightarrow> prepare_continue K P A project environment i c resume permission timeout deadlines
     | AskBilling pr credential account t0 t1 \<Rightarrow> liftc (\<lambda>st. bind_check (task_resource (am_now A) st project environment credential) (\<lambda>_.
         Inr (BillingRead pr credential account t0 t1)))
     | AskEndpoint i \<Rightarrow> liftc (\<lambda>st. bind_check (task_resource (am_now A) st project environment i) (\<lambda>x.
         Inr (EndpointCheck i (pt_resource_sha P x))))
     | AskRepair kind folder error_file version \<Rightarrow> ask (\<lambda>m. bind_check (inspect (ek_repair K) (am_now A) m folder kind error_file version) (\<lambda>t. Inr (Repair t)))
     | AskUndo execution \<Rightarrow> liftc (\<lambda>st. bind_check (completed_receipt K st execution project) (\<lambda>x.
         Inr (RepairUndo execution (ek_sha K (ek_receipt_text K x)))))
     | AskDocker i \<Rightarrow> liftc (\<lambda>st. bind_check (engine_profile K st i project environment) (\<lambda>x.
         if int_adapter x \<noteq> Docker then Inl ''DOCKER_ADAPTER_REQUIRED''
         else bind_check (desktop_identity (ek_repair K) (sa_machine st) x) (\<lambda>(desktop, sha).
           Inr (DockerStart i (profile_digest K x) desktop sha)))))"

definition plan_warnings :: "string list" where
  "plan_warnings = [''Source implementation is unverified; native certification is deferred.'',
     ''External processes may execute user configuration/hooks. Pinning executable/script identity is not a sandbox.'',
     ''Review exact project/environment, destinations, inherited paths, credentials and intended effects locally.'',
     ''ACP allow_once acknowledges only explicitly located in-worktree read/edit/search; execute, fetch, delete, unknown locations and sensitive configuration remain denied.'',
     ''Approval is a same-user CLI acknowledgement, not an authentication boundary against same-user software.'']"

definition prepare_plan ::
    "engine_codec \<Rightarrow> ports \<Rightarrow> ambient \<Rightarrow> string \<Rightarrow> string \<Rightarrow> string \<Rightarrow> string \<Rightarrow> plan_request \<Rightarrow> (effect_plan \<times> string) engine" where
  "prepare_plan K P A ref_id plan_id project environment r =
     andthen (liftc (\<lambda>st. station_environment st project environment)) (\<lambda>_.
     andthen (prepare_effect K P A ref_id project environment r) (\<lambda>e.
     andthen (liftc (\<lambda>st. secret_generation_digest (ek_heads_sha K) (sa_vault st) project environment)) (\<lambda>g.
     andthen (ask (\<lambda>m. Inr (inherited_paths_digest K m))) (\<lambda>inherit.
     let p = \<lparr>ep_id = plan_id, ep_project_id = project, ep_environment = environment, ep_policy = EFFECT_POLICY,
         ep_created_at = am_now A, ep_expires_at = am_now A + 600, ep_effect = e, ep_secret_generation_digest = g,
         ep_inherited_paths_digest = inherit, ep_warnings = plan_warnings\<rparr>
     in andthen (\<lambda>st. case save_effect_plan K p st of Inl x \<Rightarrow> (Inl x, st) | Inr (st', d) \<Rightarrow> (Inr d, st')) (\<lambda>d.
        andthen (if is_continue p then pt_durable_prepare P p else pass ()) (\<lambda>_. pass (p, d)))))))"

end
