(* ===== verification/Engine_Frames.thy ===== *)
theory Engine_Frames
  imports Effect_Engine
begin

text \<open>
  What the executors leave alone: a relation between the station before and after is kept by whole
  executors once the elementary updates keep it. It is used for the table of executions, for the evidence
  a cleanup reads and for the processes that were started.
\<close>

section \<open>Frames\<close>

definition framed :: "(station \<Rightarrow> station \<Rightarrow> bool) \<Rightarrow> 'a engine \<Rightarrow> bool" where
  "framed R h \<longleftrightarrow> (\<forall>st r st'. h st = (r, st') \<longrightarrow> R st st')"

lemma framedD: "framed R h \<Longrightarrow> h st = (r, st') \<Longrightarrow> R st st'"
  by (simp add: framed_def)

lemma on_journal_keep:
  "on_journal (keep_on_error f) st = (case f (station_journal st) of
     Inl e \<Rightarrow> (Inl e, st) | Inr j \<Rightarrow> (Inr (), put_journal j st))"
  by (auto simp: on_journal_def on_vault_def keep_on_error_def station_journal_def put_journal_def split: sum.splits)

text \<open>Updates that start no process.\<close>

locale quiet_frame =
  fixes R :: "station \<Rightarrow> station \<Rightarrow> bool"
  assumes unmoved: "R st st"
    and onward: "R a b \<Longrightarrow> R b c \<Longrightarrow> R a c"
    and remade: "R st (st\<lparr>sa_machine := m\<rparr>)"
    and observed: "R st (st\<lparr>sa_observations := Suc (sa_observations st)\<rparr>)"
    and stepped: "effect_step now run name status payload (station_journal st) = Inr j \<Longrightarrow> R st (put_journal j st)"
begin

lemma pass: "framed R (pass x)"
  by (simp add: framed_def pass_def unmoved)

lemma fail: "framed R (fail e)"
  by (simp add: framed_def fail_def unmoved)

lemma liftc: "framed R (liftc f)"
  by (simp add: framed_def liftc_def unmoved)

lemma ask: "framed R (ask f)"
  by (simp add: ask_def liftc)

lemma andthen: "framed R h \<Longrightarrow> (\<And>x. framed R (f x)) \<Longrightarrow> framed R (andthen h f)"
  by (auto simp: framed_def andthen_result intro: onward; meson onward)

lemma if_else: "framed R h \<Longrightarrow> framed R g \<Longrightarrow> framed R (if b then h else g)"
  by simp

lemma option_case: "framed R h \<Longrightarrow> (\<And>x. framed R (f x)) \<Longrightarrow> framed R (case z of None \<Rightarrow> h | Some x \<Rightarrow> f x)"
  by (cases z) simp_all

lemma sum_case: "(\<And>e. framed R (h e)) \<Longrightarrow> (\<And>x. framed R (f x)) \<Longrightarrow> framed R (case z of Inl e \<Rightarrow> h e | Inr x \<Rightarrow> f x)"
  by (cases z) simp_all

lemma pair_case: "(\<And>x y. framed R (f x y)) \<Longrightarrow> framed R (case z of (x, y) \<Rightarrow> f x y)"
  by (cases z) simp

lemma attempt: "framed R h \<Longrightarrow> framed R (attempt h)"
  by (auto simp: framed_def attempt_def split: prod.splits)

lemma run_step: "framed R (run_step K A run name status v)"
  by (auto simp: framed_def run_step_def on_journal_keep unmoved stepped split: sum.splits)

lemmas combinators = pass fail liftc ask andthen if_else option_case sum_case pair_case attempt run_step

lemma project_of: "framed R (project_of i)"
  by (simp add: project_of_def liftc)

lemma home_entry: "framed R (home_entry name)"
  by (simp add: home_entry_def liftc)

lemma ensure_directory: "framed R (ensure_directory P e t)"
proof -
  have "framed R (\<lambda>st. if pt_exists P (sa_machine st) t then (Inr (), st)
       else (case pt_mkdir P (sa_machine st) t of None \<Rightarrow> (Inl e, st) | Some m \<Rightarrow> (Inr (), st\<lparr>sa_machine := m\<rparr>)))"
    by (auto simp: framed_def unmoved remade split: if_splits option.splits)
  then show ?thesis unfolding ensure_directory_def by (intro combinators)
qed

lemma scoped_environment: "framed R (scoped_environment P inherit configured)"
  unfolding scoped_environment_def by (intro combinators home_entry ensure_directory)

lemma adapter_environment: "framed R (adapter_environment K P A i)"
  unfolding adapter_environment_def by (intro combinators scoped_environment)

lemma by_worker: "framed R (by_worker P h)"
  by (auto simp: framed_def by_worker_def observed)

lemma collect_detail: "framed R (collect_detail P A project workspace_id)"
  unfolding collect_detail_def observe_detail_def registered_path_def by (intro combinators project_of by_worker)

lemma require_eligible: "framed R (require_eligible K A d ack e)"
  by (simp add: require_eligible_def liftc)

lemma empty_worktrunk_config: "framed R (empty_worktrunk_config P)"
proof -
  have "framed R (\<lambda>st. case pt_new_file P (sa_machine st) t b of (m, r) \<Rightarrow> (new_file_error r, st\<lparr>sa_machine := m\<rparr>))" for t b
    by (auto simp: framed_def remade split: prod.splits)
  then show ?thesis unfolding empty_worktrunk_config_def by (intro combinators home_entry)
qed

lemmas quiet = project_of home_entry ensure_directory scoped_environment adapter_environment by_worker collect_detail
  require_eligible empty_worktrunk_config

end

text \<open>Executors that start processes and change neither plans nor the host tables.\<close>

locale effect_frame = quiet_frame +
  assumes started: "R st (st\<lparr>sa_launched := ls, sa_machine := m\<rparr>)"
begin

lemma start_process: "framed R (start_process P limit l)"
  by (auto simp: framed_def start_process_def Let_def started split: sum.splits prod.splits if_splits)

lemma one_success: "framed R (one_success K P sha l timeout limit e)"
  unfolding one_success_def one_shot_def by (intro combinators start_process)

lemma git_effect: "framed R (git_effect K P p pin args)"
  unfolding git_effect_def by (intro combinators quiet one_success)

lemma preserve_head: "framed R (preserve_head K P A run t)"
  unfolding preserve_head_def by (intro combinators quiet git_effect)

lemma worktrunk_create: "framed R (worktrunk_create K P A i p destination branch base)"
  unfolding worktrunk_create_def Let_def by (intro combinators quiet one_success)

lemma create_worktree: "framed R (create_worktree K P A project i destination branch base pin d identity)"
  unfolding create_worktree_def Let_def observe_detail_def
  by (intro combinators quiet one_success worktrunk_create git_effect)

lemma execute_create: "framed R (execute_create K P A run p w)"
  unfolding execute_create_def by (intro combinators quiet create_worktree)

lemma task_secret: "framed R (task_secret K P A project environment i)"
  unfolding task_secret_def provider_secret_def by (intro combinators quiet one_success)

lemma bind_secrets: "framed R (bind_secrets K P A project environment ks e)"
  by (induction ks arbitrary: e) (auto intro!: combinators task_secret)

lemma task_execute: "framed R (task_execute K P A t)"
  unfolding task_execute_def by (intro combinators quiet bind_secrets one_success)

lemma adapter_shot: "framed R (adapter_shot K P A i args timeout e)"
  unfolding adapter_shot_def adapter_launch_def by (intro combinators quiet one_success)

lemma docker_local: "framed R (docker_local K P A i)"
  unfolding docker_local_def by (intro combinators adapter_shot)

lemma adapter_query: "framed R (adapter_query K P A i q)"
  unfolding adapter_query_def version_query_def worktrunk_list_def Let_def
  by (intro combinators quiet adapter_shot docker_local one_success)

lemma billing: "framed R (billing K P A project environment pr i account t0 t1)"
  unfolding billing_def by (intro combinators task_secret)

lemma poll_docker: "framed R (poll_docker K P A i pid k)"
proof (induction "45 - k" arbitrary: k rule: less_induct)
  case less
  have again: "framed R (if max (2 * k) (pt_waited P k) \<ge> 90 then fail e else poll_docker K P A i pid (k + 1))" for e
    using less[of "k + 1"] by (auto intro: fail)
  show ?case by (subst poll_docker.simps) (intro andthen attempt sum_case pass docker_local again)
qed

lemma start_docker: "framed R (start_docker K P A run i desktop dig)"
proof -
  have "framed R (spawn_desktop P l)" for l
    by (auto simp: framed_def spawn_desktop_def Let_def started unmoved split: option.splits)
  then show ?thesis unfolding start_docker_def by (intro combinators quiet docker_local poll_docker)
qed

end

end
