(* ===== verification/Effect_Execution.thy ===== *)
theory Effect_Execution
  imports Engine_Frames Quarantine
begin

text \<open>
  What applying a plan guarantees: frames of the executors over the table of executions, the single
  execution of a plan, and the receipt that closes it.
\<close>

section \<open>Executions are left alone by executors\<close>

definition same_runs :: "journal \<Rightarrow> journal \<Rightarrow> bool" where
  "same_runs j j' \<longleftrightarrow> map (\<lambda>r. (jr_id r, jr_plan r, jr_state r)) (jo_runs j') = map (\<lambda>r. (jr_id r, jr_plan r, jr_state r)) (jo_runs j)
     \<and> map jp_id (jo_plans j') = map jp_id (jo_plans j)"

lemma same_runs_refl [simp]: "same_runs j j"
  by (simp add: same_runs_def)

lemma same_runs_trans: "same_runs a b \<Longrightarrow> same_runs b c \<Longrightarrow> same_runs a c"
  by (simp add: same_runs_def)

lemma step_same_runs: "effect_step now run name status payload j = Inr j' \<Longrightarrow> same_runs j j'"
  by (auto simp: effect_step_def bind_check_ok same_runs_def split: if_splits)

lemma replace_one_map:
  assumes "replace_one hit permitted f rows = Inr rows'" "\<And>r. g (f r) = g r"
  shows "map g rows' = map g rows"
  using assms by (auto simp: replace_one_def split: if_splits)

lemma replace_payload_same_runs:
  assumes "replace_payload J marker e j = Inr j'"
  shows "same_runs j j'"
proof -
  consider (plans) rows where "j' = j\<lparr>jo_plans := rows\<rparr>" "map jp_id rows = map jp_id (jo_plans j)"
    | (runs) rows where "j' = j\<lparr>jo_runs := rows\<rparr>"
        "map (\<lambda>r. (jr_id r, jr_plan r, jr_state r)) rows = map (\<lambda>r. (jr_id r, jr_plan r, jr_state r)) (jo_runs j)"
    | (steps) rows where "j' = j\<lparr>jo_steps := rows\<rparr>"
    using assms
    by (auto simp: replace_payload_def bind_check_ok split: if_splits prod.splits
        dest: replace_one_map[where g = jp_id] replace_one_map[where g = "\<lambda>r. (jr_id r, jr_plan r, jr_state r)"])
  then show ?thesis by cases (simp_all add: same_runs_def)
qed

lemma commit_entries_same_runs: "commit_entries J i es j = Inr j' \<Longrightarrow> same_runs j j'"
proof (induction es arbitrary: j)
  case (Cons e es)
  then obtain j1 j2 where "insert_ref \<lparr>ar_kind = en_kind e, ar_key = en_key e, ar_archive = i, ar_digest = en_digest e\<rparr> j = Inr j1"
    "replace_payload J (ac_show J (archive_marker i (en_digest e))) e j1 = Inr j2" "commit_entries J i es j2 = Inr j'"
    by (auto simp: bind_check_ok)
  moreover have "same_runs j j1" using calculation(1) by (auto simp: insert_ref_def same_runs_def split: if_splits)
  ultimately show ?case using replace_payload_same_runs Cons.IH same_runs_trans by blast
qed simp

lemma commit_archive_same_runs: "commit_archive J i p now j = Inr j' \<Longrightarrow> same_runs j j'"
proof -
  assume "commit_archive J i p now j = Inr j'"
  then obtain j1 where "insert_archive (archive_row_of J i p now) j = Inr j1" "commit_entries J i (pk_entries p) j1 = Inr j'"
    by (auto simp: commit_archive_def bind_check_ok)
  moreover have "same_runs j j1" using calculation(1) by (auto simp: insert_archive_def same_runs_def split: if_splits)
  ultimately show ?thesis using commit_entries_same_runs same_runs_trans by blast
qed

lemma files_same_runs: "same_runs j (j'\<lparr>jo_files := fs\<rparr>) = same_runs j j'"
  by (simp add: same_runs_def)

lemma write_archive_same_runs:
  assumes "write_archive J ok disk now run i p j = (j', r)"
  shows "same_runs j j'"
proof (cases "effect_step now run ''journal_archive_write'' ''intent'' (ac_show J (archive_intent J i p)) j")
  case (Inl e)
  then show ?thesis using assms by (simp add: write_archive_def Let_def)
next
  case (Inr j1)
  obtain stored complete where d: "disk (ac_pack_text J p) = (stored, complete)" by fastforce
  define j2 where "j2 = j1\<lparr>jo_files := jo_files j1 @ [(i @ ''.json'', stored)]\<rparr>"
  have s1: "same_runs j j1" by (rule step_same_runs[OF Inr])
  then have s2: "same_runs j j2" by (simp add: j2_def files_same_runs)
  have "j' = j1 \<or> j' = j2 \<or> (\<exists>j3. commit_archive J i p now j2 = Inr j3 \<and> (j' = j3
      \<or> effect_step now run ''journal_archive_commit'' ''completed'' (ac_show J (archive_report J i p)) j3 = Inr j'))"
    using assms Inr d by (auto simp: write_archive_def Let_def j2_def split: sum.splits if_splits)
  then consider "j' = j1" | "j' = j2" | j3 where "commit_archive J i p now j2 = Inr j3" "j' = j3"
    | j3 where "commit_archive J i p now j2 = Inr j3"
        "effect_step now run ''journal_archive_commit'' ''completed'' (ac_show J (archive_report J i p)) j3 = Inr j'"
    by blast
  then show ?thesis
  proof cases
    case 3
    then show ?thesis using same_runs_trans[OF s2 commit_archive_same_runs] by simp
  next
    case 4
    then show ?thesis using same_runs_trans[OF same_runs_trans[OF s2 commit_archive_same_runs] step_same_runs] by blast
  qed (use s1 s2 in simp_all)
qed

lemma archive_same_runs:
  assumes "archive_terminal_journals J ok dir disk now i run project before limit expected j = (j', r)"
  shows "same_runs j j'"
  using assms write_archive_same_runs
  by (auto simp: archive_terminal_journals_def Let_def split: sum.splits if_splits)

lemma quarantine_same_runs:
  assumes "quarantine J performed now run t (m, j) = (r, (m', j'))"
  shows "same_runs j j'"
  using assms
  by (auto simp: quarantine_def quarantine_move_def andthen_result journal_step_iff move_iff
      split: if_splits option.splits intro: same_runs_trans dest: step_same_runs)

lemma restore_same_runs:
  assumes "restore J performed now run prior (m, j) = (r, (m', j'))"
  shows "same_runs j j'"
  using assms
  by (auto simp: restore_def andthen_result journal_step_iff move_iff
      split: if_splits prod.splits intro: same_runs_trans dest: step_same_runs)

lemma control_record_journal: "control_record K c cmd v = Inr v' \<Longrightarrow> va_journal v' = va_journal v"
  by (auto simp: control_record_def bind_check_ok)

lemma create_file_journal: "create_file disk name bytes taken partial v = (v', r) \<Longrightarrow> va_journal v' = va_journal v"
  by (auto simp: create_file_def split: if_splits prod.splits)

lemma rotation_journal: "record_secret_rotation t ids run i version f dig previous v = Inr v' \<Longrightarrow> va_journal v' = va_journal v"
  by (auto simp: record_secret_rotation_def insert_version_def insert_transition_def store_head_def
      bind_check_ok operations_when_ok Let_def split: option.splits if_splits)

lemma revocation_journal: "revoke_secret_version t ids run i expected v = Inr (v', r) \<Longrightarrow> va_journal v' = va_journal v"
  by (auto simp: revoke_secret_version_def insert_transition_def bind_check_ok operations_when_ok Let_def split: if_splits)

lemma write_version_same_runs:
  assumes "write_version K disk t ids c run project environment i expected version secret v = (v', r)"
  shows "same_runs (va_journal v) (va_journal v')"
  using assms by (auto simp: write_version_def split: sum.splits prod.splits
      dest!: create_file_journal rotation_journal control_record_journal step_same_runs)

lemma rotate_same_runs:
  assumes "rotate_secret K dir disk t ids c hidden version run project environment i expected v = (v', r)"
  shows "same_runs (va_journal v) (va_journal v')"
  using assms by (auto simp: rotate_secret_def split: sum.splits dest: write_version_same_runs)

section \<open>Executors as engine steps\<close>

definition keeps_executions :: "station \<Rightarrow> station \<Rightarrow> bool" where
  "keeps_executions st st' \<longleftrightarrow> same_runs (station_journal st) (station_journal st')"

lemma station_put_journal [simp]: "station_journal (put_journal j st) = j"
  by (simp add: station_journal_def put_journal_def)

interpretation runs: effect_frame keeps_executions
proof unfold_locales
  show "keeps_executions st (put_journal j st)"
    if "effect_step now run name status payload (station_journal st) = Inr j" for now run name status payload st j
    using step_same_runs[OF that] by (simp add: keeps_executions_def)
qed (auto simp: keeps_executions_def station_journal_def intro: same_runs_trans)

abbreviation keeps_runs :: "'a engine \<Rightarrow> bool" where
  "keeps_runs \<equiv> framed keeps_executions"

lemma keeps_runsD: "keeps_runs h \<Longrightarrow> h st = (r, st') \<Longrightarrow> same_runs (station_journal st) (station_journal st')"
  using framedD by (fastforce simp: keeps_executions_def)

lemma keeps_commit:
  "(\<And>st st'. f st = Inr st' \<Longrightarrow> station_journal st' = station_journal st) \<Longrightarrow> keeps_runs (commit f)"
  by (auto simp: framed_def keeps_executions_def commit_def split: sum.splits)

lemma keeps_on_journal:
  assumes "\<And>j j' r. f j = (j', r) \<Longrightarrow> same_runs j j'"
  shows "keeps_runs (on_journal f)"
  using assms by (auto simp: framed_def keeps_executions_def on_journal_def on_vault_def station_journal_def split: prod.splits)

lemma keeps_on_vault:
  assumes "\<And>v v' r. f v = (v', r) \<Longrightarrow> same_runs (va_journal v) (va_journal v')"
  shows "keeps_runs (on_vault f)"
  using assms by (auto simp: framed_def keeps_executions_def on_vault_def station_journal_def split: prod.splits)

lemma keeps_on_repair:
  assumes "\<And>m j m' j' r. h (m, j) = (r, (m', j')) \<Longrightarrow> same_runs j j'"
  shows "keeps_runs (on_repair h)"
  using assms by (auto simp: framed_def keeps_executions_def on_repair_def split: prod.splits)

lemma cache_journal: "cache_observation K now project category v st = Inr st' \<Longrightarrow> station_journal st' = station_journal st"
  by (auto simp: cache_observation_def bind_check_ok Let_def station_journal_def split: if_splits)

lemma compat_journal: "compat_save K now i q v st = Inr st' \<Longrightarrow> station_journal st' = station_journal st"
  by (auto simp: compat_save_def bind_check_ok split: if_splits dest: cache_journal)

lemma quota_journal: "save_received_quota K now project run rows st = Inr st' \<Longrightarrow> station_journal st' = station_journal st"
  by (auto simp: save_received_quota_def bind_check_ok station_journal_def split: if_splits)

lemma retired_journal: "record_retired K now run t receipt st = Inr st' \<Longrightarrow> station_journal st' = station_journal st"
  by (auto simp: record_retired_def put_host_def Let_def station_journal_def split: if_splits)

lemmas commit_journal = cache_journal compat_journal quota_journal retired_journal

lemma keeps_removal: "keeps_runs (remove_worktree K P A run t)"
  unfolding remove_worktree_def remove_preserved_def
  by (intro runs.combinators runs.quiet runs.preserve_head runs.git_effect keeps_commit) (auto dest: commit_journal)

lemma keeps_operation: "keeps_runs (perform_operation K P A run p op)"
proof -
  have rotate: "keeps_runs (on_vault (rotate_secret (ek_secret K) d disk now ids c hidden version run project environment i previous))"
    for d disk now ids c hidden version project environment i previous
    by (rule keeps_on_vault) (rule rotate_same_runs)
  have revoke: "keeps_runs (on_vault (\<lambda>v. case revoke_secret_version now ids run i expected v of
      Inl e \<Rightarrow> (v, Inl e) | Inr (v', out) \<Rightarrow> (v', Inr out)))" for now ids i expected
    by (rule keeps_on_vault) (auto split: sum.splits dest: revocation_journal)
  have archive: "keeps_runs (on_journal (archive_terminal_journals J ok dir disk now i run project before limit selection))"
    for J ok dir disk now i project before limit selection
    by (rule keeps_on_journal) (rule archive_same_runs)
  show ?thesis
    unfolding perform_operation_def
    by (cases op; simp only: operation.case)
      (intro runs.combinators rotate revoke archive keeps_removal runs.execute_create)+
qed

lemma keeps_query: "keeps_runs (query_effect K P A run p i dig q)"
  unfolding query_effect_def
  by (intro runs.combinators runs.adapter_query keeps_commit) (auto dest: commit_journal)

lemma keeps_dispatch:
  assumes "\<not> is_continue p"
  shows "keeps_runs (dispatch K P A run p)"
proof -
  have q: "keeps_runs (on_repair (quarantine J b now run t))" for J b now t
    by (rule keeps_on_repair) (rule quarantine_same_runs)
  have r: "keeps_runs (on_repair (restore J b now run t))" for J b now t
    by (rule keeps_on_repair) (rule restore_same_runs)
  show ?thesis
    using assms unfolding dispatch_def is_continue_def
    by (cases "ep_effect p"; simp only: effect.case)
      (auto intro!: runs.combinators q r keeps_query keeps_operation keeps_commit runs.task_execute runs.billing runs.start_docker
        dest: commit_journal)
qed

section \<open>One execution per plan\<close>

definition plan_runs :: "station \<Rightarrow> string \<Rightarrow> journal_run list" where
  "plan_runs st i = filter (\<lambda>r. jr_plan r = i) (jo_runs (station_journal st))"

definition run_key :: "journal_run \<Rightarrow> string \<times> string \<times> string" where
  "run_key r = (jr_id r, jr_plan r, jr_state r)"

lemma same_runs_plan:
  assumes "same_runs (station_journal st) (station_journal st')"
  shows "map run_key (plan_runs st' i) = map run_key (plan_runs st i)"
proof -
  have f: "map run_key (plan_runs s i) = filter (\<lambda>(_, p, _). p = i) (map run_key (jo_runs (station_journal s)))" for s
    by (simp add: plan_runs_def filter_map comp_def run_key_def)
  show ?thesis using assms unfolding f same_runs_def run_key_def by (simp only:)
qed

lemma same_runs_hit:
  assumes "same_runs j j'"
  shows "map run_key (filter (\<lambda>x. jr_id x = i \<and> jr_plan x = p \<and> jr_state x = s) (jo_runs j'))
    = map run_key (filter (\<lambda>x. jr_id x = i \<and> jr_plan x = p \<and> jr_state x = s) (jo_runs j))"
proof -
  have f: "map run_key (filter (\<lambda>x. jr_id x = i \<and> jr_plan x = p \<and> jr_state x = s) (jo_runs k))
    = filter (\<lambda>k. k = (i, p, s)) (map run_key (jo_runs k))" for k
    by (simp add: filter_map comp_def run_key_def)
  show ?thesis using assms unfolding f same_runs_def run_key_def by (simp only:)
qed

lemma begin_run_ok:
  "begin_run now run p dig approval j = Inr j' \<longleftrightarrow> approve p dig approval now = Inr ()
     \<and> list_all (\<lambda>r. jr_id r \<noteq> run \<and> jr_plan r \<noteq> ep_id p) (jo_runs j) \<and> list_ex (\<lambda>r. jp_id r = ep_id p) (jo_plans j)
     \<and> j' = j\<lparr>jo_runs := jo_runs j @ [\<lparr>jr_id = run, jr_plan = ep_id p, jr_state = ''running'', jr_started = now,
            jr_finished = None, jr_error = None, jr_receipt = None\<rparr>]\<rparr>"
  by (auto simp: begin_run_def bind_check_ok list_ex_iff list_all_iff)

lemma put_same_journal [simp]: "put_journal (station_journal st) st = st"
  by (simp add: put_journal_def station_journal_def)

lemma apply_cases:
  assumes "apply_effect K P A i approval ack st = (res, st')"
    "\<And>p dig. effect_plan_of K st i = Inr (p, dig) \<Longrightarrow> \<not> is_continue p"
  obtains (refused) e where "res = Inl e" "st' = st"
  | (began) p dig j where "admit_plan K A i ack st = Inr (p, dig)" "effect_plan_of K st i = Inr (p, dig)"
      "begin_run (am_now A) (am_run A) p dig approval (station_journal st) = Inr j"
      "execute_run K P A (am_run A) p dig (put_journal j st) = (res, st')"
proof (cases "admit_plan K A i ack st")
  case (Inl e)
  then show thesis using assms(1) by (intro refused) (auto simp: apply_effect_def andthen_def liftc_def)
next
  case (Inr x)
  obtain p dig where x: "x = (p, dig)" by fastforce
  have plan: "effect_plan_of K st i = Inr (p, dig)" using Inr x by (auto simp: admit_plan_def bind_check_ok)
  note run = assms(1)[unfolded apply_effect_def andthen_def liftc_def] assms(2)[OF plan]
  show thesis
  proof (cases "begin_run (am_now A) (am_run A) p dig approval (station_journal st)")
    case Inl': (Inl e)
    then show thesis using run Inr x by (intro refused) (auto simp: on_journal_keep andthen_def)
  next
    case (Inr j)
    then show thesis using run x \<open>admit_plan K A i ack st = Inr x\<close> plan
      by (intro began) (auto simp: on_journal_keep andthen_def pass_def)
  qed
qed

lemma apply_begins:
  assumes "apply_effect K P A i approval ack st = (res, st')" "st' \<noteq> st"
    "effect_plan_of K st i = Inr (p, dig)" "\<not> is_continue p"
  obtains j where "admit_plan K A i ack st = Inr (p, dig)"
    "begin_run (am_now A) (am_run A) p dig approval (station_journal st) = Inr j"
    "execute_run K P A (am_run A) p dig (put_journal j st) = (res, st')"
proof -
  have c: "\<not> is_continue q" if "effect_plan_of K st i = Inr (q, d)" for q d using that assms(3,4) by simp
  show thesis by (rule apply_cases[OF assms(1) c]) (use assms(2,3) that in auto)
qed

text \<open>Where an execution that began can end.\<close>

lemma execute_cases:
  assumes "execute_run K P A run p dig st = (res, st')" "\<not> is_continue p"
  obtains (unannounced) e where "res = Inl e" "st' = st"
  | (unfinished) e st1 result where "run_step K A run ''execute_typed_plan'' ''intent'' (JObj [(''approval_digest'', JStr dig),
        (''plan_id'', JStr (ep_id p)), (''policy'', JStr (ep_policy p))]) st = (Inr (), st1)"
      "dispatch K P A run p st1 = (result, st')" "finish_run K (receipt_of (am_now A) run p result) (station_journal st') = Inl e"
      "res = Inl e"
  | (finished) st1 result st2 j where "run_step K A run ''execute_typed_plan'' ''intent'' (JObj [(''approval_digest'', JStr dig),
        (''plan_id'', JStr (ep_id p)), (''policy'', JStr (ep_policy p))]) st = (Inr (), st1)"
      "dispatch K P A run p st1 = (result, st2)"
      "finish_run K (receipt_of (am_now A) run p result) (station_journal st2) = Inr j"
      "res = Inr (receipt_of (am_now A) run p result)" "st' = put_journal j st2"
proof -
  let ?intent = "JObj [(''approval_digest'', JStr dig), (''plan_id'', JStr (ep_id p)), (''policy'', JStr (ep_policy p))]"
  obtain r1 st1 where s: "run_step K A run ''execute_typed_plan'' ''intent'' ?intent st = (r1, st1)" by fastforce
  show thesis
  proof (cases r1)
    case (Inl e)
    moreover have "st1 = st" using s Inl by (auto simp: run_step_def on_journal_keep split: sum.splits)
    ultimately show thesis using assms(1) s by (intro unannounced) (auto simp: execute_run_def andthen_def)
  next
    case (Inr u)
    obtain result st2 where d: "dispatch K P A run p st1 = (result, st2)" by fastforce
    have "close_run K P A run p result st2 = (res, st')"
      using assms s Inr d by (simp add: execute_run_def andthen_def pass_def)
    note close = this
    show thesis
    proof (cases "finish_run K (receipt_of (am_now A) run p result) (station_journal st2)")
      case (Inl e)
      then have "res = Inl e \<and> st' = st2" using close assms(2) by (simp add: close_run_def andthen_def pass_def on_journal_keep Let_def)
      then show thesis using unfinished[of st1 result e] s d Inl \<open>r1 = Inr u\<close> by simp
    next
      case (Inr j)
      then have "res = Inr (receipt_of (am_now A) run p result) \<and> st' = put_journal j st2"
        using close assms(2) by (simp add: close_run_def andthen_def pass_def on_journal_keep Let_def)
      then show thesis using finished[of st1 result st2 j] s d Inr \<open>r1 = Inr u\<close> by simp
    qed
  qed
qed

lemma finish_run_frame:
  "finish_run K r j = Inr j' \<Longrightarrow> map (\<lambda>x. (jr_id x, jr_plan x)) (jo_runs j') = map (\<lambda>x. (jr_id x, jr_plan x)) (jo_runs j)"
  by (auto simp: finish_run_def Let_def split: if_splits)

lemma dispatched_same_runs:
  assumes "run_step K A run name status v st = (x, st1)" "dispatch K P A run p st1 = (result, st2)"
    "\<not> is_continue p"
  shows "same_runs (station_journal st) (station_journal st2)"
  using same_runs_trans[OF keeps_runsD[OF runs.run_step assms(1)] keeps_runsD[OF keeps_dispatch[OF assms(3)] assms(2)]] .

lemma plan_runs_put [simp]: "plan_runs (put_journal j st) i = filter (\<lambda>r. jr_plan r = i) (jo_runs j)"
  by (simp add: plan_runs_def)

lemma begun_runs:
  assumes "begin_run now run p dig approval (station_journal st) = Inr j"
  shows "plan_runs st (ep_id p) = []" "map run_key (plan_runs (put_journal j st) (ep_id p)) = [(run, ep_id p, ''running'')]"
  using assms by (auto simp: begin_run_ok plan_runs_def filter_empty_conv list_all_iff run_key_def)

lemma executed_runs:
  assumes "begin_run now run p dig approval (station_journal st) = Inr j"
    "execute_run K P A run p dig (put_journal j st) = (res, st')" "\<not> is_continue p"
  shows "map jr_id (plan_runs st' (ep_id p)) = [run]"
proof -
  let ?ids = "\<lambda>s. map (\<lambda>x. (jr_id x, jr_plan x)) (jo_runs (station_journal s))"
  have ids: "map jr_id (plan_runs s i) = map fst (filter (\<lambda>(_, q). q = i) (?ids s))" for s i
    by (simp add: plan_runs_def filter_map comp_def)
  have same: "?ids a = ?ids b" if "same_runs (station_journal b) (station_journal a)" for a b
  proof -
    have "map (\<lambda>(x, y, z). (x, y)) (map (\<lambda>r. (jr_id r, jr_plan r, jr_state r)) (jo_runs (station_journal a)))
      = map (\<lambda>(x, y, z). (x, y)) (map (\<lambda>r. (jr_id r, jr_plan r, jr_state r)) (jo_runs (station_journal b)))"
      using that unfolding same_runs_def by (simp only:)
    then show ?thesis by (simp add: comp_def)
  qed
  have "?ids st' = ?ids (put_journal j st)"
  proof (cases rule: execute_cases[OF assms(2,3)])
    case (2 e st1 result)
    then show ?thesis using same dispatched_same_runs assms(3) by blast
  next
    case finished: (3 st1 result st2 j2)
    then have "?ids st2 = ?ids (put_journal j st)" using same dispatched_same_runs assms(3) by blast
    then show ?thesis using finish_run_frame[OF finished(3)] finished(5) by simp
  qed simp
  moreover have "map jr_id (plan_runs (put_journal j st) (ep_id p)) = [run]"
    using arg_cong[OF begun_runs(2)[OF assms(1)], of "map fst"] by (simp add: comp_def run_key_def del: plan_runs_put)
  ultimately show ?thesis by (simp only: ids)
qed

lemma claimed_plan_is_refused:
  assumes "plan_runs st (ep_id p) \<noteq> []" "effect_plan_of K st i = Inr (p, dig)" "\<not> is_continue p"
  shows "\<exists>e. apply_effect K P A i approval ack st = (Inl e, st)"
proof -
  obtain res st' where a: "apply_effect K P A i approval ack st = (res, st')" by fastforce
  have c: "\<not> is_continue q" if "effect_plan_of K st i = Inr (q, d)" for q d using that assms by simp
  show ?thesis
  proof (cases rule: apply_cases[OF a c])
    case (3 q dig' j)
    then show ?thesis using begun_runs(1)[OF 3(3)] assms by simp
  qed (simp_all add: a)
qed

text \<open>
  C1: A stored plan of any effect other than an agent continuation is executed at most once and only as approved.
  (The execution of a continuation is created by the durable store, not here; that it starts at most once is
  effect_starts_at_most_once of Durable_Store.) If applying such a plan changes anything, the
  acknowledgement was given, the approval is the digest of the stored plan inside its window, and no
  execution of the plan existed before; exactly one exists afterwards. On every station that holds an
  execution of the plan, applying the plan again, with any approval and at any time, is an error that
  changes nothing.
\<close>
theorem plan_is_executed_at_most_once:
  assumes "apply_effect K P A i approval ack st = (res, st')" "st' \<noteq> st"
    "effect_plan_of K st i = Inr (p, dig)" "\<not> is_continue p"
  shows "ack \<and> approval = dig \<and> approve p dig approval (am_now A) = Inr ()
    \<and> plan_runs st (ep_id p) = [] \<and> map jr_id (plan_runs st' (ep_id p)) = [am_run A]
    \<and> (\<forall>later P' A' i' dig' approval' ack'. plan_runs later (ep_id p) \<noteq> [] \<longrightarrow> effect_plan_of K later i' = Inr (p, dig')
        \<longrightarrow> (\<exists>e. apply_effect K P' A' i' approval' ack' later = (Inl e, later)))"
proof -
  obtain j where b: "admit_plan K A i ack st = Inr (p, dig)"
    "begin_run (am_now A) (am_run A) p dig approval (station_journal st) = Inr j"
    "execute_run K P A (am_run A) p dig (put_journal j st) = (res, st')"
    by (rule apply_begins[OF assms(1-4)])
  have "ack" using b(1) by (auto simp: admit_plan_def bind_check_ok)
  moreover have a: "approve p dig approval (am_now A) = Inr ()" using b(2) by (simp add: begin_run_ok)
  moreover have "approval = dig" using a by (simp add: approve_def checks_Cons_ok)
  ultimately show ?thesis
    using begun_runs(1)[OF b(2)] executed_runs[OF b(2,3) assms(4)] assms(4) claimed_plan_is_refused[of _ p] by blast
qed

section \<open>The receipt\<close>

lemma finish_run_fails:
  assumes "map run_key (filter (\<lambda>x. jr_id x = run \<and> jr_plan x = ep_id p \<and> jr_state x = ''running'') (jo_runs j)) = [k]"
    "finish_run K (receipt_of now run p result) j = Inl e"
  shows "length (chars (ek_receipt_text K (receipt_of now run p result))) > 262144"
proof -
  let ?hit = "\<lambda>x. jr_id x = run \<and> jr_plan x = ep_id p \<and> jr_state x = ''running''"
  have one: "length (filter ?hit (jo_runs j)) = 1" using arg_cong[OF assms(1), of length] by simp
  then have "filter ?hit (jo_runs j) \<noteq> []" by auto
  then have "list_ex ?hit (jo_runs j)" by (auto simp: filter_empty_conv list_ex_iff)
  then show ?thesis
    using assms(2) one by (cases result) (auto simp: finish_run_def receipt_of_def execution_state_str_def Let_def split: if_splits)
qed

definition announced_run :: "string \<Rightarrow> station \<Rightarrow> bool" where
  "announced_run run st \<longleftrightarrow> list_ex (\<lambda>s. js_run s = run \<and> js_name s = ''execute_typed_plan'' \<and> js_status s = ''intent'')
     (jo_steps (station_journal st))"

lemma run_step_announces:
  "run_step K A run ''execute_typed_plan'' ''intent'' v st = (Inr (), st1) \<Longrightarrow> announced_run run st1"
  by (auto simp: run_step_def on_journal_keep effect_step_def bind_check_ok announced_run_def split: sum.splits if_splits)

text \<open>The row of a closed execution.\<close>

definition closed_with :: "engine_codec \<Rightarrow> execution_receipt \<Rightarrow> journal_run \<Rightarrow> bool" where
  "closed_with K r x \<longleftrightarrow> jr_id x = xr_execution r \<and> jr_plan x = xr_plan r \<and> jr_state x = execution_state_str (xr_state r)
     \<and> jr_finished x = xr_finished r \<and> jr_error x = xr_error r \<and> jr_receipt x = Some (ek_receipt_text K r)"

lemma finish_run_row:
  assumes "finish_run K r (station_journal st) = Inr j"
    "map run_key (plan_runs st (xr_plan r)) = [(xr_execution r, xr_plan r, ''running'')]"
  shows "\<exists>x. plan_runs (put_journal j st) (xr_plan r) = [x] \<and> closed_with K r x"
proof -
  obtain y where y: "plan_runs st (xr_plan r) = [y]" "run_key y = (xr_execution r, xr_plan r, ''running'')"
    using assms(2) by auto
  let ?hit = "\<lambda>x. jr_id x = xr_execution r \<and> jr_plan x = xr_plan r \<and> jr_state x = ''running''"
  let ?up = "\<lambda>x. if ?hit x then x\<lparr>jr_state := execution_state_str (xr_state r), jr_finished := xr_finished r,
      jr_error := xr_error r, jr_receipt := Some (ek_receipt_text K r)\<rparr> else x"
  have j: "jo_runs j = map ?up (jo_runs (station_journal st))"
    using assms(1) by (auto simp: finish_run_def Let_def split: if_splits)
  have "filter (\<lambda>x. jr_plan x = xr_plan r) (map ?up xs) = map ?up (filter (\<lambda>x. jr_plan x = xr_plan r) xs)" for xs
    by (induction xs) auto
  then have "plan_runs (put_journal j st) (xr_plan r) = map ?up (plan_runs st (xr_plan r))"
    by (simp only: plan_runs_put j) (simp add: plan_runs_def)
  then show ?thesis using y by (simp add: run_key_def closed_with_def del: plan_runs_put)
qed

lemma receipt_of_ids [simp]: "xr_execution (receipt_of now run p result) = run" "xr_plan (receipt_of now run p result) = ep_id p"
  by (simp_all add: receipt_of_def split: sum.splits)

text \<open>
  C3: Every execution that begins, of a plan whose effect is not an agent continuation, is accounted for. (The
  executions of continuations are closed by the durable store as well, see Durable_Runtime.) Either it stays running: its intent could not be
  journaled and no executor ran, or the receipt was too long to store; both are reported as an error.
  Or the executor ran after its intent was journaled, and the one row of the plan is closed with the
  receipt that is returned: succeeded with the output exactly when the executor succeeded; any error of
  the executor is indeterminate with its code, demands a review and forbids an automatic retry. No
  receipt claims that a root cause was fixed.
\<close>
theorem execution_is_closed_by_its_receipt:
  assumes "apply_effect K P A i approval ack st = (res, st')" "st' \<noteq> st"
    "effect_plan_of K st i = Inr (p, dig)" "\<not> is_continue p"
  shows "(\<exists>e. res = Inl e \<and> map run_key (plan_runs st' (ep_id p)) = [(am_run A, ep_id p, ''running'')]
      \<and> (\<exists>j. begin_run (am_now A) (am_run A) p dig approval (station_journal st) = Inr j \<and> (st' = put_journal j st
        \<or> (\<exists>st1 result. announced_run (am_run A) st1 \<and> dispatch K P A (am_run A) p st1 = (result, st')
          \<and> length (chars (ek_receipt_text K (receipt_of (am_now A) (am_run A) p result))) > 262144))))
    \<or> (\<exists>st1 st2 result r x. announced_run (am_run A) st1 \<and> dispatch K P A (am_run A) p st1 = (result, st2) \<and> res = Inr r
      \<and> plan_runs st' (ep_id p) = [x] \<and> closed_with K r x \<and> jr_id x = am_run A \<and> \<not> xr_root_cause_fixed r
      \<and> (case result of Inr v \<Rightarrow> jr_state x = ''succeeded'' \<and> jr_error x = None \<and> xr_output r = v
         | Inl e \<Rightarrow> jr_state x = ''indeterminate'' \<and> jr_error x = Some e
             \<and> json_get (xr_output r) ''retry_automatically'' = Some (JBool False)
             \<and> json_get (xr_output r) ''review_required'' = Some (JBool True)))"
proof -
  obtain j where j: "begin_run (am_now A) (am_run A) p dig approval (station_journal st) = Inr j" and
    run: "execute_run K P A (am_run A) p dig (put_journal j st) = (res, st')"
    by (rule apply_begins[OF assms(1-4)])
  note begun = begun_runs(2)[OF j]
  let ?run = "am_run A"
  have key: "map run_key (plan_runs st2 (ep_id p)) = [(?run, ep_id p, ''running'')]"
    if "run_step K A ?run name status v (put_journal j st) = (x, st1)" "dispatch K P A ?run p st1 = (result, st2)"
    for name status v x st1 result st2
    using same_runs_plan[OF dispatched_same_runs[OF that assms(4)]] begun by simp
  show ?thesis
  proof (cases rule: execute_cases[OF run assms(4)])
    case (1 e)
    then show ?thesis using begun j by (auto simp del: plan_runs_put)
  next
    case (2 e st1 result)
    let ?hit = "\<lambda>x. jr_id x = ?run \<and> jr_plan x = ep_id p \<and> jr_state x = ''running''"
    note k = key[OF 2(1,2)]
    have "map run_key (filter ?hit (jo_runs (station_journal st'))) = map run_key (filter ?hit (plan_runs st' (ep_id p)))"
      by (simp add: plan_runs_def conj_ac)
    also have "\<dots> = [(?run, ep_id p, ''running'')]" using k by (auto simp: run_key_def)
    finally have "length (chars (ek_receipt_text K (receipt_of (am_now A) ?run p result))) > 262144"
      by (rule finish_run_fails) (rule 2(3))
    then have "\<exists>st1 result. announced_run ?run st1 \<and> dispatch K P A ?run p st1 = (result, st')
          \<and> length (chars (ek_receipt_text K (receipt_of (am_now A) ?run p result))) > 262144"
      using 2(2) run_step_announces[OF 2(1)] by blast
    then have "map run_key (plan_runs st' (ep_id p)) = [(?run, ep_id p, ''running'')]
      \<and> (\<exists>j. begin_run (am_now A) (am_run A) p dig approval (station_journal st) = Inr j \<and> (st' = put_journal j st
        \<or> (\<exists>st1 result. announced_run ?run st1 \<and> dispatch K P A ?run p st1 = (result, st')
          \<and> length (chars (ek_receipt_text K (receipt_of (am_now A) ?run p result))) > 262144)))"
      using k j by blast
    then show ?thesis by (intro disjI1) (rule exI[of _ e], simp only: 2(4) simp_thms)
  next
    case (3 st1 result st2 j2)
    obtain x where x: "plan_runs st' (ep_id p) = [x]" "closed_with K (receipt_of (am_now A) ?run p result) x"
      using finish_run_row[OF 3(3)] key[OF 3(1,2)] 3(5) by (auto simp del: plan_runs_put)
    have "case result of Inr v \<Rightarrow> jr_state x = ''succeeded'' \<and> jr_error x = None \<and> xr_output (receipt_of (am_now A) ?run p result) = v
         | Inl e \<Rightarrow> jr_state x = ''indeterminate'' \<and> jr_error x = Some e
             \<and> json_get (xr_output (receipt_of (am_now A) ?run p result)) ''retry_automatically'' = Some (JBool False)
             \<and> json_get (xr_output (receipt_of (am_now A) ?run p result)) ''review_required'' = Some (JBool True)"
      using x(2) by (cases result) (simp_all add: closed_with_def receipt_of_def execution_state_str_def)
    moreover have "\<not> xr_root_cause_fixed (receipt_of (am_now A) ?run p result)"
      by (cases result) (simp_all add: receipt_of_def)
    moreover have "jr_id x = ?run" using x(2) by (simp add: closed_with_def)
    ultimately show ?thesis using x 3(2,4) run_step_announces[OF 3(1)] by blast
  qed
qed


section \<open>An example\<close>

definition endpoint_plan :: effect_plan where
  "endpoint_plan = sample_plan (EndpointCheck ''r'' sample_digest)"

definition engine_archive :: archive_codec where
  "engine_archive = \<lparr>ac_parse = \<lambda>t. Some JNull, ac_show = \<lambda>v. ''{}'', ac_sha = \<lambda>t. sample_digest, ac_entries_text = \<lambda>e. [],
     ac_entry_len = \<lambda>e. 0, ac_pack_text = \<lambda>p. [], ac_read_pack = \<lambda>t. None\<rparr>"

definition engine_sample :: engine_codec where
  "engine_sample = \<lparr>ek_repair = \<lparr>rp_journal = engine_archive, rp_lossy_lower = id, rp_rows_text = \<lambda>r. []\<rparr>,
     ek_secret = \<lparr>sk_windows = True, sk_control = demo_codec, sk_archive = engine_archive, sk_sha = \<lambda>t. sample_digest,
       sk_encode1 = \<lambda>b. [], sk_decode1 = \<lambda>t. None, sk_encode2 = \<lambda>b. [], sk_decode2 = \<lambda>t. None, sk_protect = Inr,
       sk_unprotect = Inr, sk_file_name = Some\<rparr>,
     ek_plan_text = \<lambda>p. ''plan'', ek_read_plan = \<lambda>t. Some endpoint_plan, ek_profile_text = \<lambda>i. [], ek_read_profile = \<lambda>t. None,
     ek_task_text = \<lambda>t. [], ek_read_task = \<lambda>t. None, ek_receipt_text = \<lambda>r. ''receipt'', ek_read_receipt = \<lambda>t. None,
     ek_read_details = \<lambda>v. None, ek_archive_ok = \<lambda>t. Inr (), ek_heads_sha = \<lambda>r. sample_digest\<rparr>"

definition engine_world :: world where
  "engine_world = \<lparr>ww_machine = \<lambda>k. sample_machine, ww_clock = \<lambda>k. 1000, ww_run = \<lambda>k l. NotStarted, ww_nanos = \<lambda>k t. None,
     ww_sha = \<lambda>t. sample_digest\<rparr>"

definition engine_ports :: ports where
  "engine_ports = \<lparr>pt_process = \<lambda>n l. Inr ([], 0), pt_after = \<lambda>n l m. m, pt_spawn = \<lambda>n l. None, pt_waited = \<lambda>k. 2 * k,
     pt_exists = \<lambda>m t. item_at m t \<noteq> None, pt_mkdir = \<lambda>m t. None, pt_new_file = \<lambda>m t b. (m, Taken), pt_world = \<lambda>n. engine_world,
     pt_worker = \<lambda>n. None, pt_http = \<lambda>n q. NoAnswer, pt_billing_late = \<lambda>n. False, pt_rfc3339 = \<lambda>t. None,
     pt_read_rfc3339 = \<lambda>t. None, pt_header_value = \<lambda>v. True, pt_body = \<lambda>b. None, pt_i64 = \<lambda>t. None, pt_show_number = \<lambda>v. [],
     pt_url = \<lambda>t. None, pt_lookup = \<lambda>h. Inr [], pt_vendor = \<lambda>st i q. Inl ''ADAPTER_QUERY_UNSUPPORTED'', pt_samples = \<lambda>v. None,
     pt_resource_sha = \<lambda>r. sample_digest, pt_checkpoint_sha = \<lambda>c. sample_digest, pt_authority = \<lambda>st p e. Inr sample_digest,
     pt_packet_bytes = \<lambda>h. 0, pt_payload = \<lambda>st p e h. Inr [], pt_reserve = \<lambda>run c i r t. fail ''RUN'',
     pt_drive = \<lambda>run i d t r m n. fail ''RUN'', pt_durable_prepare = \<lambda>p. pass (), pt_durable_begin = \<lambda>p d a. fail ''RUN'',
     pt_install = \<lambda>p. pass (), pt_durable_finish = \<lambda>p r. pass (), pt_finish_continuation = \<lambda>run b. pass ()\<rparr>"

definition engine_ambient :: ambient where
  "engine_ambient = \<lparr>am_now = 1000, am_time_text = [], am_run = ''x'', am_rename = True, am_ids = \<lambda>n. replicate n (CHR ''t''), am_call = demo_call ''q'',
     am_hidden = Inr ''pw'', am_version = ''v1'', am_vault_dir = Inr (), am_vault_disk = \<lambda>b. (b, True), am_archive_dir = Inr (),
     am_archive_disk = \<lambda>b. (b, True), am_archive_id = ''a'', am_lock = Inr ()\<rparr>"

definition engine_station :: station where
  "engine_station = \<lparr>sa_vault = \<lparr>va_control = demo_start\<lparr>cd_version := 5\<rparr>,
       va_journal = \<lparr>jo_version = 5, jo_projects = [''p''], jo_environments = [], jo_plans = [\<lparr>jp_id = ''e'', jp_project = ''p'',
         jp_environment = ''dev'', jp_policy = EFFECT_POLICY, jp_digest = sample_digest, jp_created = 1000, jp_expires = 1900,
         jp_payload = ''plan''\<rparr>], jo_runs = [], jo_steps = [], jo_archives = [], jo_refs = [], jo_files = []\<rparr>,
       va_versions = [], va_heads = [], va_transitions = [], va_files = []\<rparr>,
     sa_machine = sample_machine, sa_home = sample_path [''u''],
     sa_host = \<lparr>ht_epoch = None, ht_managed = [], ht_hooks = [], ht_protections = [], ht_retirements = []\<rparr>,
     sa_launched = [], sa_observations = 0, sa_profiles = [], sa_tasks = [], sa_caches = []\<rparr>"

lemma engine_ambient_simps [simp]: "am_now engine_ambient = 1000" "am_run engine_ambient = ''x''" "am_lock engine_ambient = Inr ()"
  by (simp_all add: engine_ambient_def)

lemma endpoint_plain: "\<not> is_continue endpoint_plan"
  by (simp add: is_continue_def endpoint_plan_def sample_plan_def)

lemma endpoint_id [simp]: "ep_id endpoint_plan = ''e''" "ep_project_id endpoint_plan = ''p''"
    "ep_environment endpoint_plan = ''dev''" "ep_effect endpoint_plan = EndpointCheck ''r'' sample_digest"
    "ep_policy endpoint_plan = EFFECT_POLICY" "ep_secret_generation_digest endpoint_plan = sample_digest"
    "ep_inherited_paths_digest endpoint_plan = sample_digest"
  by (simp_all add: endpoint_plan_def sample_plan_def)

lemma endpoint_approved: "approve endpoint_plan sample_digest sample_digest 1000 = Inr ()"
  unfolding approve_def endpoint_plan_def sample_plan_ok by (simp add: id_eval sample_digest_ok sample_plan_def)

lemma engine_sha [simp]: "ek_sha engine_sample t = sample_digest"
  by (simp add: ek_sha_def engine_sample_def engine_archive_def)

lemma engine_plan: "effect_plan_of engine_sample engine_station ''e'' = Inr (endpoint_plan, sample_digest)"
  by (simp add: effect_plan_of_def require_v3_def station_journal_def engine_station_def hydrate_journal_def)
    (simp add: engine_sample_def engine_archive_def)

lemma engine_admits: "admit_plan engine_sample engine_ambient ''e'' True engine_station = Inr (endpoint_plan, sample_digest)"
proof -
  have "secret_generation_digest (ek_heads_sha engine_sample) (sa_vault engine_station) p e = Inr sample_digest" for p e
    by (simp add: secret_generation_digest_def vault_v4_def engine_station_def engine_sample_def)
  then show ?thesis by (simp add: admit_plan_def engine_plan inherited_paths_digest_def)
qed

definition engine_begun :: journal where
  "engine_begun = (station_journal engine_station)\<lparr>jo_runs := [\<lparr>jr_id = ''x'', jr_plan = ''e'', jr_state = ''running'',
     jr_started = 1000, jr_finished = None, jr_error = None, jr_receipt = None\<rparr>]\<rparr>"

lemma engine_begins: "begin_run 1000 ''x'' endpoint_plan sample_digest sample_digest (station_journal engine_station) = Inr engine_begun"
  by (simp add: begin_run_ok endpoint_approved engine_begun_def) (simp add: engine_station_def station_journal_def)

lemma engine_applies:
  "apply_effect engine_sample engine_ports engine_ambient ''e'' sample_digest True engine_station
     = execute_run engine_sample engine_ports engine_ambient ''x'' endpoint_plan sample_digest (put_journal engine_begun engine_station)"
  using endpoint_plain engine_begins
  by (simp add: apply_effect_def andthen_def liftc_def engine_admits pass_def on_journal_keep)

lemma engine_changes:
  assumes "apply_effect engine_sample engine_ports engine_ambient ''e'' sample_digest True engine_station = (res, st')"
  shows "st' \<noteq> engine_station"
proof -
  have "map jr_id (plan_runs st' ''e'') = [''x'']"
    using executed_runs[of 1000 "''x''" endpoint_plan] engine_begins assms[unfolded engine_applies] endpoint_plain by simp
  then show ?thesis by (auto simp: plan_runs_def engine_station_def station_journal_def)
qed

theorem plan_is_executed_at_most_once_witness:
  "\<exists>res st'. apply_effect engine_sample engine_ports engine_ambient ''e'' sample_digest True engine_station = (res, st')
     \<and> plan_runs engine_station ''e'' = [] \<and> map jr_id (plan_runs st' ''e'') = [''x'']"
proof -
  obtain res st' where a: "apply_effect engine_sample engine_ports engine_ambient ''e'' sample_digest True engine_station = (res, st')"
    by fastforce
  from plan_is_executed_at_most_once[OF a engine_changes[OF a] engine_plan endpoint_plain] a
  show ?thesis by auto
qed

text \<open>The environment of the plan is not registered, so the executor fails.\<close>

definition engine_stepped :: journal where
  "engine_stepped = engine_begun\<lparr>jo_steps := [\<lparr>js_run = ''x'', js_seq = 1, js_name = ''execute_typed_plan'', js_status = ''intent'',
     js_at = 1000, js_payload = ''{}''\<rparr>]\<rparr>"

lemma engine_announces:
  "run_step engine_sample engine_ambient ''x'' ''execute_typed_plan'' ''intent'' v (put_journal engine_begun engine_station)
     = (Inr (), put_journal engine_stepped engine_station)"
proof -
  have "control_text ''execute_typed_plan'' 128 = Inr ()" by (simp add: text_eval ascii_class_defs)
  then show ?thesis
    by (simp add: run_step_def on_journal_keep effect_step_def find_run_def engine_begun_def engine_stepped_def max_seq_def
        engine_sample_def engine_archive_def) (simp add: put_journal_def engine_station_def station_journal_def)
qed

lemma engine_dispatches:
  "dispatch engine_sample engine_ports engine_ambient ''x'' endpoint_plan (put_journal engine_stepped engine_station)
     = (Inl ''EXPLICIT_ENVIRONMENT_REQUIRED_NO_FALLBACK'', put_journal engine_stepped engine_station)"
proof -
  have "station_environment (put_journal j engine_station) ''p'' ''dev'' = Inl ''EXPLICIT_ENVIRONMENT_REQUIRED_NO_FALLBACK''" for j
    by (simp add: station_environment_def put_journal_def require_environment_def engine_station_def environment_exists_def
        demo_start_def migrate_control_def empty_control_def id_eval)
  then show ?thesis by (simp add: dispatch_def andthen_def liftc_def task_resource_def)
qed

lemma engine_closes:
  "close_run engine_sample engine_ports engine_ambient ''x'' endpoint_plan (Inl e) (put_journal engine_stepped engine_station)
     = (Inr (receipt_of 1000 ''x'' endpoint_plan (Inl e)),
        put_journal (engine_stepped\<lparr>jo_runs := [\<lparr>jr_id = ''x'', jr_plan = ''e'', jr_state = ''indeterminate'', jr_started = 1000,
          jr_finished = Some 1000, jr_error = Some e, jr_receipt = Some ''receipt''\<rparr>]\<rparr>) engine_station)"
proof -
  have "length (chars ''receipt'') \<le> 262144" using chars_ascii[of "''receipt''"] by (simp add: is_ascii_def)
  then show ?thesis using endpoint_plain
    by (simp add: close_run_def andthen_def pass_def on_journal_keep finish_run_def receipt_of_def execution_state_str_def
        engine_stepped_def engine_begun_def engine_sample_def Let_def) (simp add: put_journal_def)
qed

theorem execution_is_closed_by_its_receipt_witness:
  "\<exists>r st'. apply_effect engine_sample engine_ports engine_ambient ''e'' sample_digest True engine_station = (Inr r, st')
     \<and> xr_state r = XIndeterminate \<and> (\<exists>x. plan_runs st' ''e'' = [x] \<and> jr_state x = ''indeterminate''
       \<and> jr_error x = Some ''EXPLICIT_ENVIRONMENT_REQUIRED_NO_FALLBACK'') \<and> \<not> xr_root_cause_fixed r"
proof -
  obtain r st' where a: "apply_effect engine_sample engine_ports engine_ambient ''e'' sample_digest True engine_station = (Inr r, st')"
    and r: "xr_state r = XIndeterminate" "map jr_error (plan_runs st' ''e'') = [Some ''EXPLICIT_ENVIRONMENT_REQUIRED_NO_FALLBACK'']"
    using endpoint_plain
    by (simp add: engine_applies execute_run_def andthen_def engine_announces pass_def engine_dispatches engine_closes receipt_of_def)
  from execution_is_closed_by_its_receipt[OF a engine_changes[OF a] engine_plan endpoint_plain]
  obtain x where "plan_runs st' ''e'' = [x]" "closed_with engine_sample r x" "\<not> xr_root_cause_fixed r"
    by auto
  then show ?thesis using a r by (auto simp: closed_with_def execution_state_str_def)
qed
end
