(* ===== verification/Workspace_Removal.thy ===== *)
theory Workspace_Removal
  imports Effect_Execution
begin

text \<open>
  What an approved cleanup does: it starts at most the two git commands of the reviewed target, each after
  an observation of a spotless and unclaimed worktree, and records a retirement only for a path that is gone.
\<close>

section \<open>Evidence, observations and launches\<close>

definition evidence_of :: "station \<Rightarrow> control_db \<times> host_tables \<times> cache_row list \<times> int" where
  "evidence_of st = (va_control (sa_vault st), sa_host st, sa_caches st, jo_version (station_journal st))"

lemma evidence_put_journal: "jo_version j = jo_version (station_journal st) \<Longrightarrow> evidence_of (put_journal j st) = evidence_of st"
  by (simp add: evidence_of_def put_journal_def station_journal_def)

definition steady :: "station \<Rightarrow> station \<Rightarrow> bool" where
  "steady a b \<longleftrightarrow> evidence_of a = evidence_of b \<and> sa_observations a \<le> sa_observations b"


lemma effect_step_version: "effect_step now run name status payload s = Inr j \<Longrightarrow> jo_version j = jo_version s"
  by (auto simp: effect_step_def bind_check_ok split: if_splits)

lemma step_steady: "effect_step now run name status payload (station_journal st) = Inr j \<Longrightarrow> steady st (put_journal j st)"
  by (simp add: steady_def effect_step_version evidence_put_journal) (simp add: put_journal_def)

interpretation steady: effect_frame steady
proof unfold_locales
  show "steady st (put_journal j st)"
    if "effect_step now run name status payload (station_journal st) = Inr j" for now run name status payload st j
    using that by (rule step_steady)
qed (simp_all add: steady_def evidence_of_def station_journal_def)



section \<open>What a removal has seen\<close>










section \<open>One git command\<close>







section \<open>The two halves of a removal\<close>








section \<open>The removal\<close>



end
