(* ===== verification/Agent_Link.thy ===== *)
theory Agent_Link
  imports Approved_Tasks Wire
begin

text \<open>
  The transport to a running agent and the request-correlated line protocol over it: \<open>Running\<close> of
  \<open>workstation-platform/src/external.rs\<close> and \<open>rpc.rs\<close>. A step may not return at all, when the agent neither
  answers nor ends and no deadline passes, so a step is a partial function of the agent's state. What the pipes
  deliver, the clocks and the parser of a frame are answers of the peer.
\<close>

section \<open>State\<close>

datatype wire_number = Whole int | Fraction string

type_synonym wire = "wire_number json"

definition wire_u64 :: "wire \<Rightarrow> int option" where
  "wire_u64 v = json_as_num (\<lambda>n. case n of Whole i \<Rightarrow> if 0 \<le> i \<and> i < 2 ^ 64 then Some i else None | Fraction _ \<Rightarrow> None) v"

definition wire_i64 :: "wire \<Rightarrow> int option" where
  "wire_i64 v = json_as_num (\<lambda>n. case n of Whole i \<Rightarrow> if - (2 ^ 63) \<le> i \<and> i < 2 ^ 63 then Some i else None | Fraction _ \<Rightarrow> None) v"

fun wire_is_number :: "wire \<Rightarrow> bool" where
  "wire_is_number (JNum n) = True"
| "wire_is_number _ = False"

definition whole :: "nat \<Rightarrow> wire" where
  "whole n = JNum (Whole (int n))"

definition opt_wire :: "('a \<Rightarrow> wire) \<Rightarrow> 'a option \<Rightarrow> wire" where
  "opt_wire f x = (case x of None \<Rightarrow> JNull | Some y \<Rightarrow> f y)"

definition default_to :: "'a \<Rightarrow> 'a option \<Rightarrow> 'a" where
  "default_to x y = (case y of None \<Rightarrow> x | Some z \<Rightarrow> z)"

text \<open>One answer of the channel within 25 milliseconds.\<close>

datatype chunk = Out string | Stderr nat | OutEof | StderrEof | Fault | Silence | Disconnected

datatype sent = SentLine wire | SentFrame wire | SentBytes string

record agent =
  ag_station :: station
  ag_monitor :: "(durable_db \<times> monitor) option"
  ag_polls :: nat
  ag_sent :: "sent list"
  ag_open :: bool
  ag_buffer :: string
  ag_eof :: bool
  ag_received :: nat
  ag_stderr :: nat
  ag_limit :: nat
  ag_timeout :: nat
  ag_seq :: nat
  ag_frames :: nat
  ag_turns :: "wire list"
  ag_usage :: "wire option"
  ag_notifications :: nat
  ag_denied :: nat
  ag_allow_once :: bool
  ag_session :: "string option"
  ag_workspace :: "string option"
  ag_events :: "wire list"
  ag_armed :: bool

record peer =
  pe_chunk :: "nat \<Rightarrow> chunk"
  pe_elapsed :: "nat \<Rightarrow> nat"
  pe_at :: "nat \<Rightarrow> int"
  pe_backpressure :: "nat \<Rightarrow> bool"
  pe_accepts :: "nat \<Rightarrow> bool"
  pe_exit :: "nat \<Rightarrow> int option check"
  pe_starts :: "launch \<Rightarrow> unit check"
  pe_resumes :: "unit check"
  pe_identity :: "(nat \<times> nat) check"
  pe_process :: "process_identity check"
  pe_parse :: "string \<Rightarrow> wire option"
  pe_print :: "wire \<Rightarrow> string"
  pe_canonical :: "machine \<Rightarrow> string \<Rightarrow> string list option"
  pe_rates :: "wire \<Rightarrow> string \<Rightarrow> string \<Rightarrow> int \<Rightarrow> wire list check"
  pe_quota :: "wire \<Rightarrow> string \<Rightarrow> int \<Rightarrow> string \<Rightarrow> wire list check"
  pe_price :: "wire_number \<Rightarrow> wire_number option"
  pe_version :: string
  pe_new_id :: string
  pe_durable :: codec

section \<open>Steps\<close>

type_synonym 'a step = "agent \<Rightarrow> ('a check \<times> agent) option"

definition ret :: "'a \<Rightarrow> 'a step" where
  "ret x s = Some (Inr x, s)"

definition stop :: "string \<Rightarrow> 'a step" where
  "stop e s = Some (Inl e, s)"

definition seq :: "'a step \<Rightarrow> ('a \<Rightarrow> 'b step) \<Rightarrow> 'b step" where
  "seq h f s = Option.bind (h s) (\<lambda>r. case r of (Inl e, s') \<Rightarrow> Some (Inl e, s') | (Inr x, s') \<Rightarrow> f x s')"

definition lookup :: "(agent \<Rightarrow> 'a check) \<Rightarrow> 'a step" where
  "lookup f s = Some (f s, s)"

definition change :: "(agent \<Rightarrow> agent) \<Rightarrow> unit step" where
  "change f s = Some (Inr (), f s)"

definition guard :: "bool \<Rightarrow> string \<Rightarrow> unit step" where
  "guard b e = (if b then stop e else ret ())"

definition require :: "'a option \<Rightarrow> string \<Rightarrow> 'a step" where
  "require x e = (case x of None \<Rightarrow> stop e | Some y \<Rightarrow> ret y)"

definition on_station :: "'a engine \<Rightarrow> 'a step" where
  "on_station h s = (case h (ag_station s) of (r, st) \<Rightarrow> Some (r, s\<lparr>ag_station := st\<rparr>))"

text \<open>Without a durable run the hooks of the monitor do nothing.\<close>

definition monitored :: "'a \<Rightarrow> 'a monitored \<Rightarrow> 'a step" where
  "monitored x h s = (case ag_monitor s of None \<Rightarrow> Some (Inr x, s)
     | Some m \<Rightarrow> (case h m of (r, m') \<Rightarrow> Some (r, s\<lparr>ag_monitor := Some m'\<rparr>)))"

lemma seq_mono [partial_function_mono]:
  assumes "mono_option (\<lambda>f. B f s)" "\<And>x s. mono_option (\<lambda>f. C x f s)"
  shows "mono_option (\<lambda>f. seq (B f) (\<lambda>x. C x f) s)"
proof -
  have "mono_option (\<lambda>f. case r of (Inl e, s') \<Rightarrow> Some (Inl e, s') | (Inr x, s') \<Rightarrow> C x f s')" for r
    using assms(2) by (cases r; cases "fst r") (auto intro: option.const_mono)
  then show ?thesis unfolding seq_def by (intro bind_mono assms(1))
qed

section \<open>The transport\<close>

definition send :: "peer \<Rightarrow> sent \<Rightarrow> nat \<Rightarrow> unit step" where
  "send X m n s =
     (if n > 256 * 1024 + 4096 then Some (Inl ''TRANSPORT_INPUT_LIMIT'', s)
      else if \<not> ag_open s then Some (Inl ''TRANSPORT_INPUT_CLOSED'', s)
      else if \<not> pe_accepts X (length (ag_sent s)) then Some (Inl ''TRANSPORT_INPUT_BUSY_OR_CLOSED'', s)
      else Some (Inr (), s\<lparr>ag_sent := ag_sent s @ [m]\<rparr>))"

definition send_json :: "peer \<Rightarrow> wire \<Rightarrow> unit step" where
  "send_json X v = send X (SentLine v) (length (pe_print X v) + 1)"

definition send_framed :: "peer \<Rightarrow> wire \<Rightarrow> unit step" where
  "send_framed X v = seq (lookup (\<lambda>_. encode (\<lambda>v. Some (pe_print X v)) v)) (\<lambda>b. send X (SentFrame v) (length b))"

definition send_bytes :: "peer \<Rightarrow> string \<Rightarrow> unit step" where
  "send_bytes X b = send X (SentBytes b) (length b)"

definition close_input :: "unit step" where
  "close_input = change (\<lambda>s. s\<lparr>ag_open := False\<rparr>)"

definition agent_tick :: "peer \<Rightarrow> wire option step" where
  "agent_tick X s = monitored None (tick (pe_durable X) (pe_at X (ag_polls s)) (pe_elapsed X (ag_polls s))) s"

definition receive :: "peer \<Rightarrow> unit step" where
  "receive X s =
     (let k = ag_polls s; s' = s\<lparr>ag_polls := k + 1\<rparr> in
      case pe_chunk X k of
        Out b \<Rightarrow> let s'' = s'\<lparr>ag_received := ag_received s + length b\<rparr> in
          if ag_received s'' > ag_limit s then Some (Inl ''EXTERNAL_OUTPUT_LIMIT'', s'')
          else Some (Inr (), s''\<lparr>ag_buffer := ag_buffer s @ b\<rparr>)
      | Stderr n \<Rightarrow> let s'' = s'\<lparr>ag_stderr := ag_stderr s + n\<rparr> in
          if ag_stderr s'' > 256 * 1024 then Some (Inl ''EXTERNAL_STDERR_LIMIT'', s'') else Some (Inr (), s'')
      | OutEof \<Rightarrow> Some (Inr (), s'\<lparr>ag_eof := True\<rparr>)
      | Fault \<Rightarrow> Some (Inl ''EXTERNAL_PIPE_READ_FAILED'', s')
      | StderrEof \<Rightarrow> Some (Inr (), s')
      | Silence \<Rightarrow> Some (Inr (), s')
      | Disconnected \<Rightarrow> Some (Inr (), s'\<lparr>ag_eof := True\<rparr>))"

definition pump :: "peer \<Rightarrow> unit step" where
  "pump X = seq (agent_tick X) (\<lambda>cancel.
     seq (case cancel of None \<Rightarrow> ret () | Some v \<Rightarrow> send_json X v) (\<lambda>_.
     seq (lookup (\<lambda>s. checks
       [reject (ag_monitor s = None \<and> pe_elapsed X (ag_polls s) > 1000 * ag_timeout s) ''EXTERNAL_TIMEOUT'',
        reject (pe_backpressure X (ag_polls s)) ''EXTERNAL_PIPE_BACKPRESSURE''])) (\<lambda>_.
     receive X)))"

definition is_ascii_whitespace :: "char \<Rightarrow> bool" where
  "is_ascii_whitespace c \<longleftrightarrow> c \<in> {CHR '' '', CHR 0x09, CHR 0x0A, CHR 0x0C, CHR 0x0D}"

definition newline :: char where "newline = CHR 0x0A"

text \<open>The first line of the buffer, with its end, and the rest.\<close>

definition first_line :: "string \<Rightarrow> (string \<times> string) option" where
  "first_line b = (if newline \<in> set b
     then let n = length (takeWhile (\<lambda>c. c \<noteq> newline) b) in Some (take (n + 1) b, drop (n + 1) b) else None)"

partial_function (option) next_json :: "peer \<Rightarrow> wire step" where
  "next_json X s = (case first_line (ag_buffer s) of
       Some (l, rest) \<Rightarrow>
         if length l > 256 * 1024 + 1 then Some (Inl ''RPC_FRAME_LIMIT'', s)
         else if list_all is_ascii_whitespace l then next_json X (s\<lparr>ag_buffer := rest\<rparr>)
         else Some (ok_or (pe_parse X l) ''RPC_FRAME_INVALID'', s\<lparr>ag_buffer := rest\<rparr>)
     | None \<Rightarrow>
         if length (ag_buffer s) > 256 * 1024 then Some (Inl ''RPC_FRAME_LIMIT'', s)
         else if ag_eof s then Some (Inl ''RPC_EOF_BEFORE_RESPONSE'', s)
         else seq (pump X) (\<lambda>_. next_json X) s)"

partial_function (option) next_framed :: "peer \<Rightarrow> wire step" where
  "next_framed X s = (case decode (pe_parse X) (ag_buffer s) of
       Inl e \<Rightarrow> Some (Inl e, s)
     | Inr (Some (n, v)) \<Rightarrow> Some (Inr v, s\<lparr>ag_buffer := drop n (ag_buffer s)\<rparr>)
     | Inr None \<Rightarrow>
         if ag_eof s then Some (Inl ''RPC_EOF_BEFORE_RESPONSE'', s)
         else seq (pump X) (\<lambda>_. next_framed X) s)"

text \<open>The output and the exit code of a program that has ended.\<close>

partial_function (option) wait_end :: "peer \<Rightarrow> (string \<times> int) step" where
  "wait_end X s = seq (pump X) (\<lambda>_ s'.
     if ag_eof s' then (case pe_exit X (ag_polls s') of
         Inl e \<Rightarrow> Some (Inl e, s')
       | Inr (Some c) \<Rightarrow> Some (Inr (ag_buffer s', c), s'\<lparr>ag_buffer := []\<rparr>)
       | Inr None \<Rightarrow> wait_end X s')
     else wait_end X s') s"

definition finish_program :: "peer \<Rightarrow> (string \<times> int) step" where
  "finish_program X = seq close_input (\<lambda>_. wait_end X)"

text \<open>
  The agent is created suspended, recorded by the durable run and only then resumed. A started agent begins with an empty
  transport; a refused start leaves it as it was.
\<close>

definition start_agent :: "engine_codec \<Rightarrow> peer \<Rightarrow> string \<Rightarrow> nat \<Rightarrow> launch \<Rightarrow> unit step" where
  "start_agent K X sha timeout l =
     seq (on_station (ask (admit_launch K sha l timeout (4 * 1024 * 1024)))) (\<lambda>_.
     seq (lookup (\<lambda>_. pe_starts X l)) (\<lambda>_.
     seq (\<lambda>s. monitored () (child_started (pe_durable X) (pe_at X (ag_polls s)) (pe_process X)) s) (\<lambda>_.
     seq (lookup (\<lambda>_. pe_resumes X)) (\<lambda>_.
     change (\<lambda>s. s\<lparr>ag_station := (ag_station s)\<lparr>sa_launched := sa_launched (ag_station s) @ [l]\<rparr>, ag_open := True, ag_buffer := [],
       ag_eof := False, ag_received := 0, ag_stderr := 0, ag_limit := 4 * 1024 * 1024, ag_timeout := timeout\<rparr>)))))"

section \<open>The request-correlated protocol\<close>

definition opaque_id :: "wire \<Rightarrow> string \<Rightarrow> string check" where
  "opaque_id v field = bind_check (ok_or (json_str_at v field) ''EXTERNAL_ID_MISSING'') (\<lambda>i.
     bind_check (control_text i 256) (\<lambda>_. if trim i = [] \<or> prefix ''-'' i then Inl ''EXTERNAL_ID_INVALID'' else Inr i))"

definition turn_ends :: "string list" where
  "turn_ends = [''completed'', ''interrupted'', ''failed'']"

definition terminal_turn :: "wire \<Rightarrow> wire option check" where
  "terminal_turn v =
     (if json_str_at v ''method'' \<noteq> Some ''turn/completed'' then Inr None
      else bind_check (ok_or (json_get v ''params'') ''TURN_STATUS_MISSING'') (\<lambda>params.
        bind_check (opaque_id params ''threadId'') (\<lambda>thread.
        bind_check (ok_or (json_get params ''turn'') ''TURN_STATUS_MISSING'') (\<lambda>turn.
        bind_check (opaque_id turn ''id'') (\<lambda>i.
        bind_check (ok_or (json_str_at turn ''status'') ''TURN_STATUS_MISSING'') (\<lambda>status.
        if status \<notin> set turn_ends then Inl ''TURN_STATUS_UNKNOWN''
        else Inr (Some (JObj [(''method'', JStr ''turn/completed''),
          (''params'', JObj [(''threadId'', JStr thread), (''turn'', JObj [(''id'', JStr i), (''status'', JStr status)])])]))))))))"

text \<open>A policy check before an answer, not an isolation of the file system.\<close>

definition private_names :: "string list" where
  "private_names = [''.ssh'', ''.aws'', ''.codex'', ''.claude'', ''.cursor'', ''.workstation'', ''.vscode'', ''.npmrc'', ''agents.md'', ''claude.md'']"

definition private_component :: "string \<Rightarrow> bool" where
  "private_component c = (let n = to_ascii_lowercase c in n = ''.git'' \<or> prefix ''.env'' n \<or> n \<in> set private_names
     \<or> suffix ''.pem'' n \<or> suffix ''.key'' n)"

definition scoped_target :: "machine \<Rightarrow> string \<Rightarrow> string option" where
  "scoped_target m p =
     (if mc_hidden m (path_components p) then None
      else case item_at m p of
        Some it \<Rightarrow> if is_redirect_or_placeholder (it_meta it) then None else Some p
      | None \<Rightarrow> if component_names p = [] then None else Some (parent_path p))"

definition scoped_file_path :: "peer \<Rightarrow> machine \<Rightarrow> string \<Rightarrow> string \<Rightarrow> bool" where
  "scoped_file_path X m p folder \<longleftrightarrow>
     absolute_path p = Inr () \<and> validate_lexical (Some p) = Inr () \<and> \<not> list_ex private_component (path_components p)
     \<and> (case scoped_target m p of None \<Rightarrow> False
        | Some t \<Rightarrow> directory (machine_os m) (Some folder) = Inr () \<and> local_existing (machine_os m) (Some t) = Inr ()
            \<and> (case (pe_canonical X m folder, pe_canonical X m t) of (Some a, Some b) \<Rightarrow> prefix a b | _ \<Rightarrow> False))"

definition permission_locations_safe :: "peer \<Rightarrow> machine \<Rightarrow> wire \<Rightarrow> string \<Rightarrow> bool" where
  "permission_locations_safe X m v folder =
     (case (json_str_ptr v [''params'', ''toolCall'', ''kind''], Option.bind (json_pointer v [''params'', ''toolCall'', ''locations'']) json_as_array) of
        (Some k, Some ls) \<Rightarrow> k \<in> {''read'', ''edit'', ''search''} \<and> ls \<noteq> [] \<and> length ls \<le> 64
          \<and> directory (machine_os m) (Some folder) = Inr ()
          \<and> list_all (\<lambda>l. case json_str_at l ''path'' of None \<Rightarrow> False | Some p \<Rightarrow> scoped_file_path X m p folder) ls
      | _ \<Rightarrow> False)"

definition in_session :: "agent \<Rightarrow> wire \<Rightarrow> bool" where
  "in_session s v \<longleftrightarrow> ag_session s \<noteq> None \<and> json_str_ptr v [''params'', ''sessionId''] = ag_session s"

definition once_option :: "wire \<Rightarrow> string option" where
  "once_option v = Option.bind (Option.bind (json_pointer v [''params'', ''options'']) json_as_array) (\<lambda>os.
     Option.bind (find (\<lambda>x. json_str_at x ''kind'' = Some ''allow_once'') os) (\<lambda>x.
     Option.bind (json_str_at x ''optionId'') (\<lambda>i. if length i \<le> 128 then Some i else None)))"

definition granted_option :: "peer \<Rightarrow> agent \<Rightarrow> wire \<Rightarrow> string option" where
  "granted_option X s v =
     (if ag_allow_once s \<and> in_session s v
        \<and> (case ag_workspace s of None \<Rightarrow> False | Some folder \<Rightarrow> permission_locations_safe X (sa_machine (ag_station s)) v folder)
      then once_option v else None)"

definition outcome_reply :: "wire \<Rightarrow> wire \<Rightarrow> wire" where
  "outcome_reply i v = JObj [(''id'', i), (''jsonrpc'', JStr ''2.0''), (''result'', JObj [(''outcome'', v)])]"

definition selected_option :: "string \<Rightarrow> wire" where
  "selected_option x = JObj [(''optionId'', JStr x), (''outcome'', JStr ''selected'')]"

definition denial :: "wire \<Rightarrow> string \<Rightarrow> wire" where
  "denial i text = JObj [(''error'', JObj [(''code'', JNum (Whole (- 32601))), (''message'', JStr text)]), (''id'', i), (''jsonrpc'', JStr ''2.0'')]"

definition usage_update :: "wire \<Rightarrow> wire" where
  "usage_update u = JObj [(''account_verified'', JBool False), (''size'', opt_wire (\<lambda>n. JNum (Whole n)) (Option.bind (json_get u ''size'') wire_u64)),
     (''source'', JStr ''reported_acp_usage_update''), (''subscription_quota'', JNull), (''unit'', JStr ''context_tokens_where_reported''),
     (''used'', opt_wire (\<lambda>n. JNum (Whole n)) (Option.bind (json_get u ''used'') wire_u64))]"

definition take_notification :: "string \<Rightarrow> wire \<Rightarrow> unit step" where
  "take_notification meth v = seq (change (\<lambda>s. s\<lparr>ag_notifications := ag_notifications s + 1\<rparr>)) (\<lambda>_ s.
     if meth = ''session/update'' \<and> in_session s v \<and> json_str_ptr v [''params'', ''update'', ''sessionUpdate''] = Some ''usage_update''
     then seq (require (json_pointer v [''params'', ''update'']) ''ACP_USAGE_SHAPE'') (\<lambda>u.
       change (\<lambda>s. s\<lparr>ag_usage := Some (usage_update u)\<rparr>)) s
     else ret () s)"

definition deny :: "unit step" where
  "deny = change (\<lambda>s. s\<lparr>ag_denied := ag_denied s + 1\<rparr>)"

definition respond_to_server :: "peer \<Rightarrow> wire \<Rightarrow> unit step" where
  "respond_to_server X v =
     seq (require (json_str_at v ''method'') ''RPC_METHOD_INVALID'') (\<lambda>meth. case json_get v ''id'' of
       None \<Rightarrow> take_notification meth v
     | Some i \<Rightarrow>
         seq (guard (\<not> (wire_is_number i \<or> (case json_as_str i of None \<Rightarrow> False | Some t \<Rightarrow> length t \<le> 128))) ''RPC_ID_INVALID'') (\<lambda>_ s.
         if meth = ''session/request_permission'' then (case granted_option X s v of
             Some x \<Rightarrow> send_json X (outcome_reply i (selected_option x)) s
           | None \<Rightarrow> seq deny (\<lambda>_. send_json X (outcome_reply i (JObj [(''outcome'', JStr ''cancelled'')]))) s)
         else seq deny (\<lambda>_. send_json X (denial i ''Client capability not granted'')) s))"

text \<open>The reply to our own cancellation is skipped.\<close>

partial_function (option) line_frames :: "peer \<Rightarrow> wire step" where
  "line_frames X s = seq (agent_tick X) (\<lambda>cancel.
     seq (case cancel of None \<Rightarrow> ret () | Some v \<Rightarrow> send_json X v) (\<lambda>_.
     seq (next_json X) (\<lambda>v s'.
     if json_str_at v ''id'' = Some ''workstation-cancel'' then line_frames X s'
     else seq (\<lambda>s. monitored () (observe (pe_durable X) (pe_at X (ag_polls s)) (pe_elapsed X (ag_polls s)) v) s) (\<lambda>_. ret v) s'))) s"

definition line_frame :: "peer \<Rightarrow> wire step" where
  "line_frame X = seq (change (\<lambda>s. s\<lparr>ag_frames := ag_frames s + 1\<rparr>)) (\<lambda>_.
     seq (lookup (\<lambda>s. reject (ag_frames s > 10000) ''RPC_FRAME_COUNT_LIMIT'')) (\<lambda>_. line_frames X))"

definition keep_turn :: "wire \<Rightarrow> unit step" where
  "keep_turn v = (if json_get v ''id'' \<noteq> None then ret ()
     else seq (lookup (\<lambda>_. terminal_turn v)) (\<lambda>t. case t of None \<Rightarrow> ret ()
       | Some x \<Rightarrow> seq (lookup (\<lambda>s. reject (length (ag_turns s) \<ge> 32) ''RPC_TERMINAL_QUEUE_LIMIT'')) (\<lambda>_.
           change (\<lambda>s. s\<lparr>ag_turns := ag_turns s @ [x]\<rparr>))))"

partial_function (option) await_reply :: "peer \<Rightarrow> nat \<Rightarrow> wire step" where
  "await_reply X i s = seq (line_frame X) (\<lambda>v s'.
     if json_get v ''method'' \<noteq> None then seq (keep_turn v) (\<lambda>_. seq (respond_to_server X v) (\<lambda>_. await_reply X i)) s'
     else if Option.bind (json_get v ''id'') wire_u64 \<noteq> Some (int i) then Some (Inl ''RPC_UNCORRELATED_RESPONSE'', s')
     else if json_get v ''error'' \<noteq> None then Some (Inl ''RPC_REMOTE_REJECTED_DETAILS_SUPPRESSED'', s')
     else Some (ok_or (json_get v ''result'') ''RPC_RESULT_MISSING'', s')) s"

definition call_message :: "nat \<Rightarrow> string \<Rightarrow> wire \<Rightarrow> wire" where
  "call_message i meth params = JObj [(''id'', whole i), (''jsonrpc'', JStr ''2.0''), (''method'', JStr meth), (''params'', params)]"

definition request :: "peer \<Rightarrow> string \<Rightarrow> wire \<Rightarrow> wire step" where
  "request X meth params =
     seq (\<lambda>s. monitored () (request_started (pe_elapsed X (ag_polls s)) meth) s) (\<lambda>_.
     seq (change (\<lambda>s. s\<lparr>ag_seq := ag_seq s + 1\<rparr>)) (\<lambda>_.
     seq (\<lambda>s. send_json X (call_message (ag_seq s) meth params) s) (\<lambda>_.
     seq (\<lambda>s. await_reply X (ag_seq s) s) (\<lambda>v.
     seq (\<lambda>s. monitored () (response_received (pe_durable X) (pe_at X (ag_polls s)) (pe_elapsed X (ag_polls s)) meth v) s) (\<lambda>_.
     ret v)))))"

definition notify :: "peer \<Rightarrow> string \<Rightarrow> wire \<Rightarrow> unit step" where
  "notify X meth params = send_json X (JObj [(''jsonrpc'', JStr ''2.0''), (''method'', JStr meth), (''params'', params)])"

definition next_turn :: "peer \<Rightarrow> wire step" where
  "next_turn X s = (case ag_turns s of [] \<Rightarrow> line_frame X s | v # vs \<Rightarrow> Some (Inr v, s\<lparr>ag_turns := vs\<rparr>))"

partial_function (option) wait_codex_turn :: "peer \<Rightarrow> string \<Rightarrow> string \<Rightarrow> wire step" where
  "wait_codex_turn X thread turn s = seq (next_turn X) (\<lambda>v s'.
     if json_str_at v ''method'' = Some ''turn/completed''
     then (if json_str_ptr v [''params'', ''threadId''] \<noteq> Some thread \<or> json_str_ptr v [''params'', ''turn'', ''id''] \<noteq> Some turn
       then wait_codex_turn X thread turn s'
       else case json_str_ptr v [''params'', ''turn'', ''status''] of
         None \<Rightarrow> Some (Inl ''TURN_STATUS_MISSING'', s')
       | Some status \<Rightarrow> if status \<notin> set turn_ends then Some (Inl ''TURN_STATUS_UNKNOWN'', s')
           else Some (Inr (JObj [(''assistant_text'', JStr ''not_retained''), (''notifications_discarded'', whole (ag_notifications s')),
             (''permissions_denied'', whole (ag_denied s')), (''thread_id'', JStr thread), (''turn_id'', JStr turn),
             (''turn_status'', JStr status)]), s'))
     else seq (respond_to_server X v) (\<lambda>_. wait_codex_turn X thread turn) s') s"

end
