(* ===== verification/Agent_Samples.thy ===== *)
theory Agent_Samples
  imports Agent_Drivers Effect_Execution
begin

text \<open>
  A dialogue that runs to its end: an agent that speaks the agent client protocol is started in a workspace, asks once
  for a permission to edit a file of the workspace, gets it and ends its turn.
\<close>

section \<open>The station\<close>

definition dialog_items :: "(path_buf \<times> item) list" where
  "dialog_items = git_items @ [([''C:'', [backslash], ''u'', ''scratch''], plain_item PlainDir ''10'' []),
     ([''C:'', [backslash], ''u'', ''notes.txt''], plain_item PlainFile ''11'' [])]"

definition dialog_machine :: machine where
  "dialog_machine = sample_machine\<lparr>mc_items := map_of dialog_items\<rparr>"

definition dialog_station :: station where
  "dialog_station = engine_station\<lparr>sa_machine := dialog_machine,
     sa_vault := (sa_vault engine_station)\<lparr>va_control := demo_start\<lparr>cd_version := 5, cd_environments := [(''p'', ''dev'')]\<rparr>\<rparr>\<rparr>"

definition dialog_integration :: integration where
  "dialog_integration = sample_integration\<lparr>int_adapter := OpenCode, int_executable := sample_path [''u'', ''git.exe'']\<rparr>"

abbreviation dialog_cwd :: string where
  "dialog_cwd \<equiv> sample_path [''u'']"

abbreviation dialog_file :: string where
  "dialog_file \<equiv> sample_path [''u'', ''notes.txt'']"

lemma dialog_paths:
  "validate_lexical (Some (sample_path [''u'', ''notes.txt''])) = Inr ()"
  "path_components (sample_path [''u'', ''notes.txt'']) = [''C:'', [backslash], ''u'', ''notes.txt'']"
  "validate_lexical (Some (sample_path [''u'', ''scratch''])) = Inr ()"
  "path_components (sample_path [''u'', ''scratch'']) = [''C:'', [backslash], ''u'', ''scratch'']"
  by (rule sample_path_admitted; simp add: is_ascii_def is_path_sep_def sample_path_def)+

lemma dialog_os:
  "at_metadata (machine_os dialog_machine) k p = map_option it_meta (map_of dialog_items p)"
  "validate_local_ntfs (machine_os dialog_machine) t = Inr ()"
  "item_at dialog_machine t = map_of dialog_items (path_components t)" "mc_hidden dialog_machine p = False"
  by (simp_all add: machine_os_def dialog_machine_def sample_machine_def validate_local_ntfs_def item_at_def check_simps)

lemma dialog_items_at:
  "map_of dialog_items [''C:''] = Some (plain_item PlainDir ''1'' [])"
  "map_of dialog_items [''C:'', [backslash]] = Some (plain_item PlainDir ''2'' [])"
  "map_of dialog_items [''C:'', [backslash], ''u''] = Some (plain_item PlainDir ''3'' [])"
  "map_of dialog_items [''C:'', [backslash], ''u'', ''git.exe''] = Some (plain_item PlainFile ''9'' [])"
  "map_of dialog_items [''C:'', [backslash], ''u'', ''scratch''] = Some (plain_item PlainDir ''10'' [])"
  "map_of dialog_items [''C:'', [backslash], ''u'', ''notes.txt''] = Some (plain_item PlainFile ''11'' [])"
  by (simp_all add: dialog_items_def git_items_def sample_items_def)

lemma dialog_admitted:
  "directory (machine_os dialog_machine) (Some dialog_cwd) = Inr ()"
  "directory (machine_os dialog_machine) (Some (sample_path [''u'', ''scratch''])) = Inr ()"
  "local_existing (machine_os dialog_machine) (Some (sample_path [''u'', ''git.exe''])) = Inr ()"
  "local_existing (machine_os dialog_machine) (Some dialog_file) = Inr ()"
proof -
  have d: "validate_lexical (Some (sample_path [''u''])) = Inr ()" "path_components (sample_path [''u'']) = [''C:'', [backslash], ''u'']"
    using sample_paths by blast+
  show "directory (machine_os dialog_machine) (Some dialog_cwd) = Inr ()"
    by (simp add: directory_def local_existing_def d dialog_os dialog_items_at sample_take)
  show "directory (machine_os dialog_machine) (Some (sample_path [''u'', ''scratch''])) = Inr ()"
    by (simp add: directory_def local_existing_def dialog_paths dialog_os dialog_items_at sample_take)
  show "local_existing (machine_os dialog_machine) (Some (sample_path [''u'', ''git.exe''])) = Inr ()"
    by (simp add: local_existing_def git_paths dialog_os dialog_items_at sample_take)
  show "local_existing (machine_os dialog_machine) (Some dialog_file) = Inr ()"
    by (simp add: local_existing_def dialog_paths dialog_os dialog_items_at sample_take)
qed

lemma sample_path_absolute:
  "absolute_path (sample_path [''u'', ''git.exe'']) = Inr ()" "absolute_path dialog_file = Inr ()"
  by (simp_all add: absolute_path_def sample_path_def text_eval has_drive_def ascii_class_defs is_path_sep_def backslash_def check_simps)

lemma dialog_valid: "integration_validate dialog_integration = Inr ()"
  using sample_path_absolute(1) sample_digest_ok
  by (simp add: integration_validate_def dialog_integration_def sample_integration_def id_eval text_eval control_timestamp_def check_simps)

lemma dialog_scratch: "join_path dialog_cwd ''scratch'' = sample_path [''u'', ''scratch'']"
  by (simp add: join_path_def sample_path_def is_path_sep_def backslash_def)

lemma dialog_launch:
  "\<exists>l. adapter_launch engine_sample engine_ports engine_ambient dialog_integration dialog_cwd args 60 dialog_station = (Inr l, dialog_station)
     \<and> la_directory l = dialog_cwd \<and> la_executable l = sample_path [''u'', ''git.exe'']"
proof -
  have "station_environment dialog_station ''p'' ''dev'' = Inr ()"
    by (simp add: station_environment_def require_environment_def dialog_station_def environment_exists_def id_eval check_simps)
  moreover have "sa_home dialog_station = dialog_cwd" "sa_machine dialog_station = dialog_machine"
    by (simp_all add: dialog_station_def engine_station_def)
  moreover have "int_project_id dialog_integration = ''p''" "int_environment dialog_integration = ''dev''"
    "int_inherit_env dialog_integration = []" "int_configuration dialog_integration = []" "int_authentication dialog_integration = []"
    "int_executable dialog_integration = sample_path [''u'', ''git.exe'']"
    by (simp_all add: dialog_integration_def sample_integration_def)
  moreover have "pt_exists engine_ports dialog_machine (sample_path [''u'', ''scratch''])"
    by (simp add: engine_ports_def dialog_os dialog_paths dialog_items_at)
  ultimately show ?thesis
    using dialog_valid dialog_scratch dialog_admitted(2)
    by (simp add: adapter_launch_def adapter_environment_def scoped_environment_def home_entry_def ensure_directory_def andthen_def
        liftc_def ask_def pass_def inherit_into_def)
qed

lemma dialog_admits: "la_directory l = dialog_cwd \<Longrightarrow> la_executable l = sample_path [''u'', ''git.exe'']
    \<Longrightarrow> admit_launch engine_sample sample_digest l 60 (4 * 1024 * 1024) dialog_machine = Inr ()"
  by (simp add: admit_launch_def dialog_admitted hash_file_def dialog_os git_paths dialog_items_at PIN_FILE_LIMIT_BYTES_def)
    (simp add: engine_sample_def engine_archive_def)

section \<open>The dialogue\<close>

definition dialog_ask :: wire where
  "dialog_ask = JObj [(''id'', JNum (Whole 7)), (''method'', JStr ''session/request_permission''), (''params'', JObj [
     (''options'', JArr [JObj [(''kind'', JStr ''allow_once''), (''optionId'', JStr ''once'')]]), (''sessionId'', JStr ''s''),
     (''toolCall'', JObj [(''kind'', JStr ''edit''), (''locations'', JArr [JObj [(''path'', JStr dialog_file)]])])])]"

definition dialog_reply :: "nat \<Rightarrow> wire \<Rightarrow> wire" where
  "dialog_reply i v = JObj [(''id'', whole i), (''result'', v)]"

definition dialog_message :: "nat \<Rightarrow> wire" where
  "dialog_message k = (if k = 0 then dialog_reply 1 (JObj [(''protocolVersion'', whole 1)])
     else if k = 1 then dialog_reply 2 (JObj [(''sessionId'', JStr ''s'')])
     else if k = 2 then dialog_ask
     else dialog_reply 3 (JObj [(''stopReason'', JStr ''end_turn'')]))"

definition dialog_line :: "nat \<Rightarrow> string" where
  "dialog_line k = [if k = 0 then CHR ''0'' else if k = 1 then CHR ''1'' else if k = 2 then CHR ''2'' else CHR ''3'', newline]"

definition print_wire :: "wire \<Rightarrow> string" where
  "print_wire = print_json (\<lambda>n. case n of Whole i \<Rightarrow> show_int i | Fraction t \<Rightarrow> t)"

definition dialog_peer :: peer where
  "dialog_peer = \<lparr>pe_chunk = \<lambda>k. Out (dialog_line k), pe_elapsed = \<lambda>k. k, pe_at = \<lambda>k. 1000 + int k, pe_backpressure = \<lambda>k. False,
     pe_accepts = \<lambda>k. True, pe_exit = \<lambda>k. Inr (Some 0), pe_starts = \<lambda>l. Inr (), pe_resumes = Inr (), pe_identity = Inr (7, 9), pe_process = Inl ''NONE'',
     pe_parse = \<lambda>l. map_option dialog_message (find (\<lambda>k. dialog_line k = l) [0, 1, 2, 3]), pe_print = print_wire,
     pe_canonical = \<lambda>m t. Some (path_components t), pe_rates = \<lambda>v a b n. Inr [], pe_quota = \<lambda>v a n b. Inr [], pe_price = \<lambda>n. None,
     pe_version = ''1.0.0'', pe_new_id = ''n'', pe_durable = sample_codec\<rparr>"

definition talk :: "station \<Rightarrow> nat \<Rightarrow> nat \<Rightarrow> sent list \<Rightarrow> string option \<Rightarrow> string option \<Rightarrow> agent" where
  "talk st k q ms session folder = \<lparr>ag_station = st, ag_monitor = None, ag_polls = k, ag_sent = ms, ag_open = True, ag_buffer = [],
     ag_eof = False, ag_received = 2 * k, ag_stderr = 0, ag_limit = 4 * 1024 * 1024, ag_timeout = 60, ag_seq = q, ag_frames = k,
     ag_turns = [], ag_usage = None, ag_notifications = 0, ag_denied = 0, ag_allow_once = True, ag_session = session,
     ag_workspace = folder, ag_events = [], ag_armed = False\<rparr>"

lemma dialog_line_read:
  assumes "k < 4"
  shows "first_line (dialog_line k) = Some (dialog_line k, [])" "\<not> list_all is_ascii_whitespace (dialog_line k)"
    "pe_parse dialog_peer (dialog_line k) = Some (dialog_message k)"
proof -
  have k: "k = 0 \<or> k = 1 \<or> k = 2 \<or> k = 3" using assms by arith
  then show "first_line (dialog_line k) = Some (dialog_line k, [])" "\<not> list_all is_ascii_whitespace (dialog_line k)"
    by (auto simp: first_line_def dialog_line_def newline_def is_ascii_whitespace_def)
  show "pe_parse dialog_peer (dialog_line k) = Some (dialog_message k)"
    using k by (auto simp: dialog_peer_def dialog_line_def)
qed

lemma dialog_peer_simps [simp]:
  "pe_chunk dialog_peer k = Out (dialog_line k)" "pe_elapsed dialog_peer k = k" "\<not> pe_backpressure dialog_peer k"
  "pe_accepts dialog_peer k" "pe_starts dialog_peer l = Inr ()" "pe_resumes dialog_peer = Inr ()" "pe_identity dialog_peer = Inr (7, 9)" "pe_print dialog_peer = print_wire"
  "pe_canonical dialog_peer m t = Some (path_components t)"
  by (simp_all add: dialog_peer_def)

lemma talk_simps [simp]:
  "ag_station (talk st k q ms se f) = st" "ag_monitor (talk st k q ms se f) = None" "ag_polls (talk st k q ms se f) = k"
  "ag_sent (talk st k q ms se f) = ms" "ag_seq (talk st k q ms se f) = q" "ag_frames (talk st k q ms se f) = k"
  "ag_allow_once (talk st k q ms se f) = True" "ag_session (talk st k q ms se f) = se" "ag_workspace (talk st k q ms se f) = f"
  by (simp_all add: talk_def)

lemma dialog_frame:
  assumes "k < 4"
  shows "line_frame dialog_peer (talk st k q ms se f) = Some (Inr (dialog_message k), talk st (Suc k) q ms se f)"
proof -
  note L = dialog_line_read[OF assms]
  have id: "json_str_at (dialog_message k) ''id'' \<noteq> Some ''workstation-cancel''"
    by (simp add: dialog_message_def dialog_ask_def dialog_reply_def whole_def json_str_at_def)
  let ?s = "(talk st k q ms se f)\<lparr>ag_frames := Suc k\<rparr>"
  let ?t = "?s\<lparr>ag_polls := Suc k, ag_received := 2 * k + 2, ag_buffer := dialog_line k\<rparr>"
  have tick: "agent_tick dialog_peer s = Some (Inr None, s)" if "ag_monitor s = None" for s
    using that by (simp add: agent_tick_def monitored_def)
  have pump: "pump dialog_peer ?s = Some (Inr (), ?t)"
    using assms by (simp add: pump_def seq_def tick ret_def lookup_def reject_def receive_def)
      (simp add: talk_def dialog_line_def)
  have next1: "next_json dialog_peer ?s = Some (Inr (dialog_message k), talk st (Suc k) q ms se f)"
  proof -
    have "next_json dialog_peer ?s = next_json dialog_peer ?t"
      by (subst next_json.simps) (simp add: talk_def first_line_def seq_def pump[unfolded talk_def, simplified])
    also have "\<dots> = Some (Inr (dialog_message k), talk st (Suc k) q ms se f)"
      using L by (subst next_json.simps) (simp add: ok_or_def, simp add: talk_def dialog_line_def)
    finally show ?thesis .
  qed
  have "line_frames dialog_peer ?s = Some (Inr (dialog_message k), talk st (Suc k) q ms se f)"
    by (subst line_frames.simps) (simp add: seq_def tick ret_def next1 id monitored_def)
  then show ?thesis using assms by (simp add: line_frame_def seq_def change_def lookup_def reject_def)
qed

lemma print_wire_bound: "length (print_wire v) \<le> print_bound (\<lambda>n. case n of Whole i \<Rightarrow> show_int i | Fraction t \<Rightarrow> t) v"
  unfolding print_wire_def by (rule print_json_bound)

lemma one_digit: "0 \<le> n \<Longrightarrow> n < 10 \<Longrightarrow> length (show_int n) = 1"
  by (simp add: show_int_def show_nat.simps)

lemma dialog_send:
  assumes "print_bound (\<lambda>n. case n of Whole i \<Rightarrow> show_int i | Fraction t \<Rightarrow> t) v \<le> 200000"
  shows "send_json dialog_peer v (talk st k q ms se f) = Some (Inr (), talk st k q (ms @ [SentLine v]) se f)"
  using print_wire_bound[of v] assms by (simp add: send_json_def send_def) (simp add: talk_def)

lemma dialog_await:
  assumes "k < 4" "dialog_message k = dialog_reply i v" "i < 10"
  shows "await_reply dialog_peer i (talk st k q ms se f) = Some (Inr v, talk st (Suc k) q ms se f)"
  by (subst await_reply.simps) (use assms(3) in \<open>simp add: seq_def dialog_frame[OF assms(1)] assms(2) dialog_reply_def whole_def wire_u64_def ok_or_def\<close>)

lemma dialog_request:
  assumes "await_reply dialog_peer (Suc q) (talk st k (Suc q) (ms @ [SentLine (call_message (Suc q) meth params)]) se f) = Some (Inr v, s')"
    "ag_monitor s' = None"
    and "print_bound (\<lambda>n. case n of Whole i \<Rightarrow> show_int i | Fraction t \<Rightarrow> t) (call_message (Suc q) meth params) \<le> 200000"
  shows "request dialog_peer meth params (talk st k q ms se f) = Some (Inr v, s')"
proof -
  have n: "(talk st k q ms se f)\<lparr>ag_seq := Suc q\<rparr> = talk st k (Suc q) ms se f" by (simp add: talk_def)
  show ?thesis by (simp add: request_def seq_def monitored_def change_def n dialog_send[OF assms(3)] assms(1,2) ret_def)
qed

lemma dialog_private: "\<not> private_component ''C:''" "\<not> private_component [backslash]" "\<not> private_component ''u''"
    "\<not> private_component ''notes.txt''"
  by (simp_all add: private_component_def private_names_def to_ascii_lowercase_def ascii_lower_def ascii_class_defs backslash_def Let_def suffix_def)

lemma dialog_scoped: "scoped_file_path dialog_peer dialog_machine dialog_file dialog_cwd"
proof -
  have "scoped_target dialog_machine dialog_file = Some dialog_file"
    by (simp add: scoped_target_def dialog_os dialog_paths dialog_items_at)
  then show ?thesis
    using sample_paths(6) dialog_private
    by (simp add: scoped_file_path_def sample_path_absolute dialog_paths dialog_admitted)
qed

lemma dialog_granted:
  assumes "sa_machine st = dialog_machine"
  shows "granted_option dialog_peer (talk st k q ms (Some ''s'') (Some dialog_cwd)) dialog_ask = Some ''once''"
proof -
  have "permission_locations_safe dialog_peer dialog_machine dialog_ask dialog_cwd"
    by (simp add: permission_locations_safe_def dialog_ask_def json_str_ptr_def json_str_at_def dialog_scoped dialog_admitted)
  then show ?thesis using assms
    by (simp add: granted_option_def in_session_def once_option_def) (simp add: dialog_ask_def json_str_ptr_def json_str_at_def)
qed

lemma dialog_respond:
  assumes "sa_machine st = dialog_machine"
  shows "respond_to_server dialog_peer dialog_ask (talk st k q ms (Some ''s'') (Some dialog_cwd))
    = Some (Inr (), talk st k q (ms @ [SentLine (outcome_reply (JNum (Whole 7)) (selected_option ''once''))]) (Some ''s'') (Some dialog_cwd))"
proof -
  have m: "json_str_at dialog_ask ''method'' = Some ''session/request_permission''" "json_get dialog_ask ''id'' = Some (JNum (Whole 7))"
    by (simp_all add: dialog_ask_def json_str_at_def)
  have p: "print_bound (\<lambda>n. case n of Whole i \<Rightarrow> show_int i | Fraction t \<Rightarrow> t) (outcome_reply (JNum (Whole 7)) (selected_option ''once'')) \<le> 200000"
    by (simp add: outcome_reply_def selected_option_def one_digit)
  show ?thesis
    by (simp add: respond_to_server_def seq_def require_def m ret_def guard_def dialog_granted[OF assms] dialog_send[OF p])
qed

lemma dialog_prompted:
  assumes "sa_machine st = dialog_machine"
  shows "await_reply dialog_peer 3 (talk st 2 3 ms (Some ''s'') (Some dialog_cwd))
    = Some (Inr (JObj [(''stopReason'', JStr ''end_turn'')]),
        talk st 4 3 (ms @ [SentLine (outcome_reply (JNum (Whole 7)) (selected_option ''once''))]) (Some ''s'') (Some dialog_cwd))"
proof -
  let ?s = "talk st 3 3 ms (Some ''s'') (Some dialog_cwd)"
  let ?ms = "ms @ [SentLine (outcome_reply (JNum (Whole 7)) (selected_option ''once''))]"
  have frame: "line_frame dialog_peer (talk st 2 3 ms (Some ''s'') (Some dialog_cwd)) = Some (Inr dialog_ask, ?s)"
    using dialog_frame[of 2 st 3 ms "Some ''s''" "Some dialog_cwd"] by (simp add: dialog_message_def)
  have keep: "keep_turn dialog_ask s = Some (Inr (), s)" for s by (simp add: keep_turn_def dialog_ask_def ret_def)
  have m: "json_get dialog_ask ''method'' = Some (JStr ''session/request_permission'')" by (simp add: dialog_ask_def)
  have last: "await_reply dialog_peer 3 (talk st 3 3 ?ms (Some ''s'') (Some dialog_cwd))
      = Some (Inr (JObj [(''stopReason'', JStr ''end_turn'')]), talk st 4 3 ?ms (Some ''s'') (Some dialog_cwd))"
    using dialog_await[of 3 3 "JObj [(''stopReason'', JStr ''end_turn'')]"] by (simp add: dialog_message_def)
  show ?thesis
    by (subst await_reply.simps) (simp add: seq_def frame m keep dialog_respond[OF assms] last)
qed

section \<open>The whole continuation\<close>

definition dialog_start :: agent where
  "dialog_start = (talk dialog_station 0 0 [] None None)\<lparr>ag_open := False\<rparr>"

definition dialog_packet :: wire where
  "dialog_packet = JObj [(''handoff'', JStr ''w'')]"

abbreviation dialog_bound :: on_session where
  "dialog_bound \<equiv> \<lambda>x y. ret ()"

lemma dialog_connect:
  "\<exists>l. connect_agent engine_sample engine_ports engine_ambient dialog_peer dialog_integration dialog_cwd args 60 True dialog_start
     = Some (Inr (), talk (dialog_station\<lparr>sa_launched := [l]\<rparr>) 0 0 [] None None)"
proof -
  obtain l where l: "adapter_launch engine_sample engine_ports engine_ambient dialog_integration dialog_cwd args 60 dialog_station
      = (Inr l, dialog_station)" "la_directory l = dialog_cwd" "la_executable l = sample_path [''u'', ''git.exe'']"
    using dialog_launch by blast
  have st: "sa_machine dialog_station = dialog_machine" "sa_launched dialog_station = []"
    by (simp_all add: dialog_station_def engine_station_def)
  have sha: "int_executable_sha256 dialog_integration = sample_digest" by (simp add: dialog_integration_def sample_integration_def)
  have same: "s\<lparr>ag_station := ag_station s\<rparr> = s" for s :: agent by simp
  have "start_agent engine_sample dialog_peer sample_digest 60 l dialog_start
      = Some (Inr (), (talk (dialog_station\<lparr>sa_launched := [l]\<rparr>) 0 0 [] None None))"
    using dialog_admits[OF l(2,3)]
    by (simp add: start_agent_def seq_def on_station_def ask_def liftc_def lookup_def monitored_def change_def dialog_start_def st)
      (simp add: talk_def st)
  then show ?thesis
    using l(1) by (intro exI[of _ l]) (simp add: connect_agent_def seq_def on_station_def sha change_def dialog_start_def fresh_dialogue_def talk_def)
qed

lemma dialog_sent_fits:
  "print_bound (\<lambda>n. case n of Whole i \<Rightarrow> show_int i | Fraction t \<Rightarrow> t) (call_message 1 ''initialize''
     (JObj [(''clientCapabilities'', JObj [(''fs'', JObj [(''readTextFile'', JBool False), (''writeTextFile'', JBool False)]),
         (''terminal'', JBool False)]), (''clientInfo'', client_info dialog_peer), (''protocolVersion'', whole 1)])) \<le> 200000"
  "print_bound (\<lambda>n. case n of Whole i \<Rightarrow> show_int i | Fraction t \<Rightarrow> t) (call_message 2 ''session/new''
     (JObj [(''cwd'', JStr dialog_cwd), (''mcpServers'', JArr [])])) \<le> 200000"
  by (simp_all add: call_message_def client_info_def whole_def one_digit sample_path_def) (simp add: dialog_peer_def)

lemma dialog_exchange:
  assumes "k < 4" "dialog_message k = dialog_reply (Suc q) v" "Suc q < 10"
    "print_bound (\<lambda>n. case n of Whole i \<Rightarrow> show_int i | Fraction t \<Rightarrow> t) (call_message (Suc q) meth params) \<le> 200000"
  shows "request dialog_peer meth params (talk st k q ms se f)
    = Some (Inr v, talk st (Suc k) (Suc q) (ms @ [SentLine (call_message (Suc q) meth params)]) se f)"
  by (rule dialog_request[OF dialog_await[OF assms(1-3)] _ assms(4)]) simp

abbreviation dialog_hello :: wire where
  "dialog_hello \<equiv> JObj [(''protocolVersion'', whole 1)]"

definition dialog_capabilities :: wire where
  "dialog_capabilities = JObj [(''clientCapabilities'', JObj [(''fs'', JObj [(''readTextFile'', JBool False), (''writeTextFile'', JBool False)]),
     (''terminal'', JBool False)]), (''clientInfo'', client_info dialog_peer), (''protocolVersion'', whole 1)]"

lemma dialog_initialized:
  "\<exists>ms'. request dialog_peer ''initialize'' dialog_capabilities (talk st 0 0 ms None None) = Some (Inr dialog_hello, talk st 1 1 ms' None None)"
proof -
  have "request dialog_peer ''initialize'' dialog_capabilities (talk st 0 0 ms None None)
     = Some (Inr dialog_hello, talk st (Suc 0) (Suc 0) (ms @ [SentLine (call_message (Suc 0) ''initialize'' dialog_capabilities)]) None None)"
    by (rule dialog_exchange) (use dialog_sent_fits(1) in \<open>simp_all add: dialog_message_def dialog_capabilities_def\<close>)
  then show ?thesis unfolding One_nat_def by blast
qed

lemma dialog_acp:
  "\<exists>l ms. acp_connect engine_sample engine_ports engine_ambient dialog_peer dialog_integration dialog_cwd 60 True dialog_start
     = Some (Inr dialog_hello, talk (dialog_station\<lparr>sa_launched := [l]\<rparr>) 1 1 ms None None)"
proof -
  obtain l where l: "connect_agent engine_sample engine_ports engine_ambient dialog_peer dialog_integration dialog_cwd [''acp''] 60 True dialog_start
     = Some (Inr (), talk (dialog_station\<lparr>sa_launched := [l]\<rparr>) 0 0 [] None None)" using dialog_connect by blast
  obtain ms where hello: "request dialog_peer ''initialize'' dialog_capabilities (talk (dialog_station\<lparr>sa_launched := [l]\<rparr>) 0 0 [] None None)
     = Some (Inr dialog_hello, talk (dialog_station\<lparr>sa_launched := [l]\<rparr>) 1 1 ms None None)" using dialog_initialized by blast
  have i: "int_protocol_revision dialog_integration = None" "int_adapter dialog_integration = OpenCode"
    by (simp_all add: dialog_integration_def sample_integration_def)
  have v: "Option.bind (json_get dialog_hello ''protocolVersion'') wire_u64 = Some 1"
    by (simp add: wire_u64_def whole_def)
  show ?thesis
    by (rule exI[of _ l], rule exI[of _ ms])
      (simp add: acp_connect_def seq_def i guard_def ret_def lookup_def acp_arguments_def l hello v
        flip: dialog_capabilities_def del: One_nat_def json_get.simps)
qed

definition dialog_folder :: wire where
  "dialog_folder = JObj [(''cwd'', JStr dialog_cwd), (''mcpServers'', JArr [])]"

lemma dialog_opened:
  "\<exists>ms'. acp_session dialog_peer dialog_hello dialog_integration dialog_cwd None (talk st 1 1 ms None None)
     = Some (Inr (''s'', JObj [(''sessionId'', JStr ''s'')], ''session/new''), talk st 2 2 ms' None None)"
proof -
  have "request dialog_peer ''session/new'' dialog_folder (talk st 1 1 ms None None)
     = Some (Inr (JObj [(''sessionId'', JStr ''s'')]), talk st (Suc 1) (Suc 1) (ms @ [SentLine (call_message (Suc 1) ''session/new'' dialog_folder)]) None None)"
    by (rule dialog_exchange) (use dialog_sent_fits(2) in \<open>simp_all add: dialog_message_def dialog_folder_def numeral_2_eq_2\<close>)
  then have new: "\<exists>ms'. request dialog_peer ''session/new'' dialog_folder (talk st 1 1 ms None None)
     = Some (Inr (JObj [(''sessionId'', JStr ''s'')]), talk st 2 2 ms' None None)"
    unfolding Suc_1 by blast
  have p: "JObj (acp_params dialog_hello dialog_cwd) = dialog_folder"
    by (simp add: acp_params_def is_object_at_def dialog_folder_def)
  have x: "opaque_id (JObj [(''sessionId'', JStr ''s'')]) ''sessionId'' = Inr ''s''"
    by (simp add: opaque_id_def json_str_at_def text_eval)
  from new show ?thesis
    by (elim exE, intro exI) (simp add: acp_session_def seq_def p lookup_def x ret_def del: One_nat_def)
qed

lemma dialog_prompt_fits:
  "print_bound (\<lambda>n. case n of Whole i \<Rightarrow> show_int i | Fraction t \<Rightarrow> t) (call_message 3 ''session/prompt''
     (JObj [(''prompt'', prompt_input (prompt_preamble @ print_wire dialog_packet)), (''sessionId'', JStr ''s'')])) \<le> 200000"
  by (simp add: call_message_def prompt_input_def whole_def one_digit prompt_preamble_def print_wire_def dialog_packet_def print_string_def backslash_def)

lemma dialog_turn:
  assumes "sa_machine st = dialog_machine"
  shows "\<exists>ms'. request dialog_peer ''session/prompt'' (JObj [(''prompt'', prompt_input (prompt_preamble @ print_wire dialog_packet)), (''sessionId'', JStr ''s'')])
      (talk st 2 2 ms (Some ''s'') (Some dialog_cwd))
    = Some (Inr (JObj [(''stopReason'', JStr ''end_turn'')]),
        talk st 4 3 (ms' @ [SentLine (outcome_reply (JNum (Whole 7)) (selected_option ''once''))]) (Some ''s'') (Some dialog_cwd))"
proof (rule exI, rule dialog_request)
  show "await_reply dialog_peer (Suc 2) (talk st 2 (Suc 2) (ms @ [SentLine (call_message (Suc 2) ''session/prompt''
      (JObj [(''prompt'', prompt_input (prompt_preamble @ print_wire dialog_packet)), (''sessionId'', JStr ''s'')]))]) (Some ''s'') (Some dialog_cwd))
    = Some (Inr (JObj [(''stopReason'', JStr ''end_turn'')]),
        talk st 4 3 ((ms @ [SentLine (call_message (Suc 2) ''session/prompt''
      (JObj [(''prompt'', prompt_input (prompt_preamble @ print_wire dialog_packet)), (''sessionId'', JStr ''s'')]))])
        @ [SentLine (outcome_reply (JNum (Whole 7)) (selected_option ''once''))]) (Some ''s'') (Some dialog_cwd))"
    using dialog_prompted[OF assms] by simp
  show "print_bound (\<lambda>n. case n of Whole i \<Rightarrow> show_int i | Fraction t \<Rightarrow> t) (call_message (Suc 2) ''session/prompt''
     (JObj [(''prompt'', prompt_input (prompt_preamble @ print_wire dialog_packet)), (''sessionId'', JStr ''s'')])) \<le> 200000"
    using dialog_prompt_fits by simp
qed simp

lemma dialog_continues:
  "\<exists>r l ms. continue_once engine_sample engine_ports engine_ambient dialog_peer dialog_integration dialog_cwd dialog_packet None
      ''allow_once'' 60 dialog_bound dialog_start
    = Some (Inr r, talk (dialog_station\<lparr>sa_launched := [l]\<rparr>) 4 3 (ms @ [SentLine (outcome_reply (JNum (Whole 7)) (selected_option ''once''))])
        (Some ''s'') (Some dialog_cwd))"
proof -
  obtain l ms0 where hello: "acp_connect engine_sample engine_ports engine_ambient dialog_peer dialog_integration dialog_cwd 60 True dialog_start
     = Some (Inr dialog_hello, talk (dialog_station\<lparr>sa_launched := [l]\<rparr>) 1 1 ms0 None None)" using dialog_acp by blast
  let ?st = "dialog_station\<lparr>sa_launched := [l]\<rparr>"
  obtain ms1 where opened: "acp_session dialog_peer dialog_hello dialog_integration dialog_cwd None (talk ?st 1 1 ms0 None None)
     = Some (Inr (''s'', JObj [(''sessionId'', JStr ''s'')], ''session/new''), talk ?st 2 2 ms1 None None)" using dialog_opened by blast
  have bind: "(talk ?st 2 2 ms1 None None)\<lparr>ag_session := Some ''s'', ag_workspace := Some dialog_cwd\<rparr>
     = talk ?st 2 2 ms1 (Some ''s'') (Some dialog_cwd)" by (simp add: talk_def)
  have "sa_machine ?st = dialog_machine" by (simp add: dialog_station_def)
  from dialog_turn[OF this] obtain ms2 where turn: "request dialog_peer ''session/prompt''
      (JObj [(''prompt'', prompt_input (prompt_preamble @ print_wire dialog_packet)), (''sessionId'', JStr ''s'')])
      (talk ?st 2 2 ms1 (Some ''s'') (Some dialog_cwd))
    = Some (Inr (JObj [(''stopReason'', JStr ''end_turn'')]),
        talk ?st 4 3 (ms2 @ [SentLine (outcome_reply (JNum (Whole 7)) (selected_option ''once''))]) (Some ''s'') (Some dialog_cwd))" by blast
  have i: "int_adapter dialog_integration = OpenCode" "int_auth_method dialog_integration = None"
    by (simp_all add: dialog_integration_def sample_integration_def)
  have closes: "\<not> is_object_at dialog_hello [''agentCapabilities'', ''sessionCapabilities'', ''close'']" by (simp add: is_object_at_def)
  have packet: "length (print_wire dialog_packet) \<le> 65536"
    by (simp add: print_wire_def dialog_packet_def print_string_def backslash_def)
  have reason: "json_str_at (JObj [(''stopReason'', JStr ''end_turn'')]) ''stopReason'' = Some ''end_turn''" "''end_turn'' \<in> set stop_reasons"
    by (simp_all add: json_str_at_def stop_reasons_def)
  have "acp_continue engine_sample engine_ports engine_ambient dialog_peer dialog_integration dialog_cwd
      (prompt_preamble @ print_wire dialog_packet) None ''allow_once'' 60 dialog_bound dialog_start
    = Some (Inr (acp_report ''s'' ''session/new'' ''end_turn'' (talk ?st 4 3 (ms2 @ [SentLine (outcome_reply (JNum (Whole 7)) (selected_option ''once''))])
        (Some ''s'') (Some dialog_cwd))),
        talk ?st 4 3 (ms2 @ [SentLine (outcome_reply (JNum (Whole 7)) (selected_option ''once''))]) (Some ''s'') (Some dialog_cwd))"
    by (simp add: acp_continue_def seq_def guard_def ret_def i hello acp_authenticate_def opened change_def bind turn require_def
        reason closes lookup_def del: One_nat_def)
  then show ?thesis
    using packet by (intro exI) (simp add: continue_once_def seq_def guard_def ret_def i acp_adapter_def Let_def)
qed

end
