(* ===== verification/Agent_Scope.thy ===== *)
theory Agent_Scope
  imports Agent_Samples
begin

text \<open>
  What a dialogue may say: a permission is granted only to a request of the bound session, for a path in the scope of
  the workspace, and for one use. The frame of a step is a preorder on the agent's states.
\<close>

section \<open>Frames of steps\<close>









section \<open>Grants\<close>

definition line_grant :: "wire \<Rightarrow> bool" where
  "line_grant v \<longleftrightarrow> json_str_ptr v [''result'', ''outcome'', ''outcome''] = Some ''selected''"

definition frame_grant :: "wire \<Rightarrow> bool" where
  "frame_grant v \<longleftrightarrow> json_str_ptr v [''params'', ''result'', ''kind''] = Some ''approve-once''"

definition same_scope :: "agent \<Rightarrow> agent \<Rightarrow> bool" where
  "same_scope s s' \<longleftrightarrow> ag_allow_once s' = ag_allow_once s \<and> ag_session s' = ag_session s \<and> ag_workspace s' = ag_workspace s
     \<and> sa_machine (ag_station s') = sa_machine (ag_station s)"

lemma call_no_line_grant [simp]: "\<not> line_grant (call_message i meth params)"
  by (simp add: line_grant_def call_message_def json_str_ptr_def)

lemma with_method_no_line_grant: "line_grant v \<Longrightarrow> \<exists>w. json_get v ''result'' = Some w"
  by (auto simp: line_grant_def json_str_ptr_def Option.bind_eq_Some_conv)


lemma denial_no_grant [simp]: "\<not> line_grant (denial i t)" "\<not> frame_grant (denial i t)"
  by (simp_all add: line_grant_def frame_grant_def denial_def json_str_ptr_def)

lemma cancelled_no_line_grant [simp]: "\<not> line_grant (outcome_reply i (JObj [(''outcome'', JStr ''cancelled'')]))"
  by (simp add: line_grant_def outcome_reply_def json_str_ptr_def)

lemma notice_no_line_grant [simp]: "\<not> line_grant (JObj [(''jsonrpc'', a), (''method'', b), (''params'', c)])"
  by (simp add: line_grant_def json_str_ptr_def)

lemma call_frame_grant [simp]:
  "frame_grant (call_message i meth params) \<longleftrightarrow> json_str_ptr params [''result'', ''kind''] = Some ''approve-once''"
  by (simp add: frame_grant_def call_message_def json_str_ptr_def)


section \<open>Dialogues\<close>

definition still :: "agent \<Rightarrow> agent \<Rightarrow> bool" where
  "still s s' \<longleftrightarrow> ag_sent s' = ag_sent s \<and> same_scope s s'"


lemma still_simps [simp]:
  "still s s" "still s (s\<lparr>ag_polls := n\<rparr>)" "still s (s\<lparr>ag_monitor := mo\<rparr>)"
  "still s (s\<lparr>ag_buffer := b\<rparr>)" "still s (s\<lparr>ag_open := u\<rparr>)" "still s (s\<lparr>ag_seq := n\<rparr>)" "still s (s\<lparr>ag_frames := n\<rparr>)"
  "still s (s\<lparr>ag_turns := vs\<rparr>)" "still s (s\<lparr>ag_events := vs\<rparr>)" "still s (s\<lparr>ag_usage := w\<rparr>)" "still s (s\<lparr>ag_denied := n\<rparr>)"
  "still s (s\<lparr>ag_notifications := n\<rparr>)" "still s (s\<lparr>ag_armed := u\<rparr>)"
  by (simp_all add: still_def same_scope_def)













section \<open>What is granted\<close>











section \<open>The drivers\<close>






































section \<open>Permissions\<close>



end
