(* ===== verification/Agent_Ending.thy ===== *)
theory Agent_Ending
  imports Agent_Samples
begin

text \<open>
  Every dialogue ends. The reads of the transport end because the clock passes the deadline of the process, or of the
  durable run and its grace; the loops over messages end because the frames of a dialogue are counted.
\<close>

section \<open>Total steps\<close>

definition achieves :: "(agent \<Rightarrow> bool) \<Rightarrow> 'a step \<Rightarrow> ('a \<Rightarrow> agent \<Rightarrow> bool) \<Rightarrow> bool" where
  "achieves P h R \<longleftrightarrow> (\<forall>s. P s \<longrightarrow> (\<exists>r s'. h s = Some (r, s') \<and> (\<forall>x. r = Inr x \<longrightarrow> R x s')))"

lemma achievesI: "(\<And>s. P s \<Longrightarrow> \<exists>r s'. h s = Some (r, s') \<and> (\<forall>x. r = Inr x \<longrightarrow> R x s')) \<Longrightarrow> achieves P h R"
  by (simp add: achieves_def)

lemma achievesE:
  assumes "achieves P h R" "P s"
  obtains (failed) e s' where "h s = Some (Inl e, s')" | (ended) x s' where "h s = Some (Inr x, s')" "R x s'"
proof -
  obtain r s' where "h s = Some (r, s')" "\<forall>x. r = Inr x \<longrightarrow> R x s'" using assms by (auto simp: achieves_def)
  then show thesis by (cases r) (auto intro: that)
qed

lemma achieves_seq:
  assumes h: "achieves P h R" and f: "\<And>x. achieves (R x) (f x) T"
  shows "achieves P (seq h f) T"
proof (rule achievesI)
  fix s assume "P s"
  with h show "\<exists>r s'. seq h f s = Some (r, s') \<and> (\<forall>x. r = Inr x \<longrightarrow> T x s')"
  proof (cases rule: achievesE)
    case (failed e s')
    then show ?thesis by (simp add: seq_def)
  next
    case (ended x s1)
    from f ended(2) show ?thesis by (cases rule: achievesE) (auto simp: seq_def ended(1))
  qed
qed


section \<open>Deadlines\<close>


text \<open>The time at which the transport gives up, as known in a state, and the poll at which it has passed for good.\<close>

definition due :: "agent \<Rightarrow> nat" where
  "due s = (case ag_monitor s of None \<Rightarrow> 1000 * ag_timeout s
     | Some (db, mo) \<Rightarrow> (case mo_cancel_at mo of None \<Rightarrow> mo_start mo + secs (absolute_seconds (mo_policy mo))
         | Some x \<Rightarrow> x + secs (cancellation_grace_seconds (mo_policy mo))))"

definition last_poll :: "peer \<Rightarrow> agent \<Rightarrow> nat" where
  "last_poll X s = (LEAST k. \<forall>j\<ge>k. due s < pe_elapsed X j)"

definition uncancelled :: "agent \<Rightarrow> nat" where
  "uncancelled s = (case ag_monitor s of None \<Rightarrow> 0 | Some (db, mo) \<Rightarrow> if mo_cancel_at mo = None then 1 else 0)"

definition patience :: "peer \<Rightarrow> agent \<Rightarrow> nat \<times> nat \<times> nat" where
  "patience X s = (uncancelled s, last_poll X s - ag_polls s, length (ag_buffer s))"

definition sooner :: "((nat \<times> nat \<times> nat) \<times> (nat \<times> nat \<times> nat)) set" where
  "sooner = less_than <*lex*> less_than <*lex*> less_than"






section \<open>Reading ends\<close>

text \<open>The counters of a dialogue, which only its own loops move.\<close>

definition counted :: "nat \<Rightarrow> agent \<Rightarrow> bool" where
  "counted n s \<longleftrightarrow> 2 * (10001 - ag_frames s) + length (ag_turns s) + length (ag_events s) \<le> n"

definition uncounted :: "agent \<Rightarrow> agent \<Rightarrow> bool" where
  "uncounted s s' \<longleftrightarrow> ag_frames s' = ag_frames s \<and> ag_turns s' = ag_turns s \<and> ag_events s' = ag_events s"

lemma uncounted_refl [simp]: "uncounted s s"
  by (simp add: uncounted_def)


lemma counted_uncounted: "uncounted s s' \<Longrightarrow> counted n s \<Longrightarrow> counted n s'"
  by (simp add: uncounted_def counted_def)




section \<open>Messages end\<close>

definition ends :: "nat \<Rightarrow> 'a step \<Rightarrow> bool" where
  "ends n h \<longleftrightarrow> achieves (counted n) h (\<lambda>_. counted n)"







lemma ends_monitored: "ends n (monitored x h)" "ends n (\<lambda>s. monitored x (g s) s)"
  by (auto simp: ends_def achieves_def monitored_def counted_def split: option.splits prod.splits)

lemma ends_agent_tick: "ends n (agent_tick X)"
  unfolding agent_tick_def by (rule ends_monitored)




text \<open>A message read leaves less patience.\<close>

definition shrinks :: "peer \<Rightarrow> agent \<Rightarrow> agent \<Rightarrow> bool" where
  "shrinks X s s' \<longleftrightarrow> uncounted s s' \<and> (patience X s', patience X s) \<in> sooner"



lemma shrinks_counted: "shrinks X s s' \<Longrightarrow> counted n s \<Longrightarrow> counted n s'"
  unfolding shrinks_def using counted_uncounted by blast







section \<open>Loops over messages end\<close>



lemma ends_then: "achieves (counted n) h (\<lambda>_. counted m) \<Longrightarrow> (\<And>x. achieves (counted m) (f x) R) \<Longrightarrow> achieves (counted n) (seq h f) R"
  by (rule achieves_seq)

























section \<open>Drivers end\<close>

definition returns :: "'a step \<Rightarrow> bool" where
  "returns h \<longleftrightarrow> (\<forall>s. \<exists>r s'. h s = Some (r, s'))"


lemma ends_anywhere: "(\<And>n. ends n h) \<Longrightarrow> achieves (\<lambda>_. True) h (\<lambda>_ _. True)"
  unfolding ends_def achieves_def counted_def by blast

lemma returns_alt: "returns h \<longleftrightarrow> achieves (\<lambda>_. True) h (\<lambda>_ _. True)"
  by (simp add: returns_def achieves_def)


lemma returns_last: "(\<And>n. ends n h) \<Longrightarrow> returns h"
  unfolding returns_alt by (rule ends_anywhere)































section \<open>The deadline\<close>



end
