(* ===== verification/Spec2Isabelle.thy ===== *)
theory Spec2Isabelle
  imports Prelude Json Model_Policy Control Durable Integrations Workspace_Policy Operations Effects Durable_Store Ownership Continuity Durable_Runtime Health_Rules Protocol Wire Discovery F64 Economics Control_Db Control_Record Control_Ops Control_Store Control_Decisions Control_Work Control_Context Usage Report Journal_Archive Journal_History Continuation_Store Secret_Store Secret_History Filesystem Repairs Quarantine Effect_Store Workspace_Store Home_Store Home_History Engine_Base Approved_Tasks Workspace_Lifecycle Providers Effect_Engine Engine_Frames Effect_Execution Workspace_Removal Git_Porcelain Workspace_Capture Agent_Link Agent_Drivers Agent_Samples Agent_Scope Agent_Ending
begin

text \<open>
  Verification development of Workstation, a local control plane for coding agents on Windows (a Rust workspace
  under \<open>src/crates\<close>). It keeps metadata of projects, work items, decisions, agent sessions and secrets in one SQLite
  home, prepares typed effects for review, executes an approved effect once, and records what is known of its outcome.

  The parts and how they interact. \<open>workstation-core\<close> holds the records, their validators and the pure decision
  rules. \<open>workstation-platform\<close> holds the stores, the observation of the machine and the executors: the engine
  (\<open>engine.rs\<close>) prepares and applies plans, calling the executors of worktrees, secrets, tasks, quarantine and
  providers, or the agent drivers for a continuation; the durable runtime watches a continuation from inside its
  transport and journals its run. \<open>workstation-cli\<close> parses arguments, calls these operations and prints.

  Conventions.
  A Rust string is the list of its UTF-8 bytes. \<open>Result\<close> is a sum with the error code on the left (\<open>check\<close>); a
  sequence of \<open>?\<close> statements is \<open>checks\<close> or \<open>bind_check\<close>. A handler that may fail after it has changed something
  returns its result with the state (\<open>engine\<close>, \<open>on_disk\<close>, \<open>monitored\<close>). A step of a dialogue with an agent may not
  return at all, so it is a partial function into \<open>option\<close> (\<open>step\<close>). 64-bit counters are words, or integers whose
  wrap-around is written out; \<open>f64\<close> is modelled in \<open>F64\<close> as binary64 with rounding to nearest. A table is the list of its rows in
  insertion order with its keys, CHECKs, foreign keys and triggers as checks of the statements; a column of JSON text
  holds the record it encodes where only the code writes it, and the text where the code compares or measures it.
  Transactions are atomic and serial. One handler reads each clock once.
  Arguments of the definitions (named \<open>..._codec\<close>, \<open>ports\<close>, \<open>peer\<close>, \<open>world\<close>, \<open>home_ports\<close>) stand for what is
  not in the sources: JSON printing and parsing, digests, DPAPI, the clock and fresh identifiers, and what the operating system,
  git, a process, a pipe, name lookup or HTTP answers. An observation asks its world at successive moments and may get
  a different answer at each; every process that is started is logged (\<open>sa_launched\<close>).

  Theories, in the order of the program.

  Shared: \<open>Prelude\<close> (errors as values, texts and characters, checks, the lemma collections), \<open>Json\<close>
  (\<open>serde_json::Value\<close>), \<open>F64\<close>.

  Core records and rules: \<open>Model_Policy\<close> (\<open>model.rs\<close>, \<open>policy.rs\<close>), \<open>Control\<close> (\<open>control.rs\<close>), \<open>Durable\<close> (\<open>durable.rs\<close>: the run
  record and \<open>apply_event\<close>), \<open>Integrations\<close>, \<open>Workspace_Policy\<close>, \<open>Operations\<close>, \<open>Effects\<close> (\<open>effects.rs\<close>, \<open>plans.rs\<close>), \<open>Ownership\<close>
  (\<open>ownership.rs\<close>, \<open>host_graph.rs\<close>), \<open>Continuity\<close>, \<open>Health_Rules\<close> (\<open>health_rules.rs\<close>, \<open>diagnostics.rs\<close>, \<open>lifecycle.rs\<close>), \<open>Protocol\<close>
  (the read-only MCP server), \<open>Wire\<close> (Content-Length framing), \<open>Discovery\<close>, \<open>Economics\<close>, \<open>Usage\<close> (\<open>usage_import.rs\<close>, \<open>telemetry.rs\<close>),
  \<open>Report\<close> (\<open>render.rs\<close>). Each theory has the functions of its file and their lemmas: validators accept only
  bounded clean values, the optimised overlap test equals the pairwise one, a journal replay keeps the
  run invariant and its write-once facts, frames round-trip, reports are inert.

  Stores: \<open>Control_Db\<close>, \<open>Control_Record\<close>, \<open>Control_Ops\<close> (\<open>control_store.rs\<close> with the schema files: tables, record commands, other
  operations) and, over every sequence of operations, \<open>Control_Store\<close>, \<open>Control_Decisions\<close> (the SQL of current decisions
  refines the selection of the core), \<open>Control_Work\<close> (versions, transitions, audit), \<open>Control_Context\<close> (bounds).
  \<open>Durable_Store\<close> (\<open>durable_store.rs\<close>: every stored run is the replay of its journal, an effect starts once, a
  cancellation wins). \<open>Journal_Archive\<close>, \<open>Journal_History\<close> (\<open>journal_archive.rs\<close>: archiving keeps the logical
  history). \<open>Continuation_Store\<close> (lifecycle imports, leases and continuations of \<open>integration_store.rs\<close>).
  \<open>Secret_Store\<close>, \<open>Secret_History\<close> (\<open>vault.rs\<close>, \<open>secret_lifecycle.rs\<close> and their tables: one chain of versions, an entered
  secret resolves, a revoked one never). \<open>Effect_Store\<close> (profiles, tasks, plans, executions, steps, caches of
  \<open>integration_store.rs\<close>), \<open>Workspace_Store\<close> (\<open>operations_store.rs\<close>). \<open>Home_Store\<close>, \<open>Home_History\<close> (\<open>storage.rs\<close>: the home,
  its roots and scans, backup and restore; a restored home is never torn, the tables stay bounded).

  Observation: \<open>Filesystem\<close> (\<open>paths.rs\<close>, \<open>filesystem.rs\<close>: the scan is exact when it says complete and ends within its
  budget), \<open>Git_Porcelain\<close> (the parsers of git's output), \<open>Workspace_Capture\<close> (the observation of a worktree: it starts
  only reading queries, and a complete stamp is evidence).

  Effects: \<open>Repairs\<close>, \<open>Quarantine\<close> (\<open>repairs.rs\<close>: announced, lossless, undone exactly), \<open>Engine_Base\<close> (the
  transport of one-shot programs, \<open>external.rs\<close>), \<open>Approved_Tasks\<close> (\<open>tasks.rs\<close>), \<open>Workspace_Lifecycle\<close>, \<open>Workspace_Removal\<close>
  (\<open>workspace_lifecycle.rs\<close>: a removal starts at most two reviewed commands), \<open>Providers\<close> (\<open>adapters.rs\<close>, \<open>specialists.rs\<close>,
  \<open>http_provider.rs\<close>), \<open>Effect_Engine\<close> (\<open>engine.rs\<close>, \<open>operation_runtime.rs\<close>, \<open>durable_compat.rs\<close>), \<open>Engine_Frames\<close> and \<open>Effect_Execution\<close>
  (a plan is executed at most once and its execution is closed by its receipt).

  Agents: \<open>Durable_Runtime\<close> (\<open>durable_runtime.rs\<close>: the monitor with its deadlines, completion, recovery), \<open>Agent_Link\<close>
  (\<open>Running\<close> of \<open>external.rs\<close>, \<open>rpc.rs\<close>), \<open>Agent_Drivers\<close> (\<open>adapters.rs\<close>, \<open>acp_driver.rs\<close>, \<open>copilot.rs\<close>), \<open>Agent_Scope\<close> (what a dialogue may grant),
  \<open>Agent_Ending\<close> (every dialogue returns), \<open>Agent_Samples\<close> (one dialogue run to its end, for the witnesses).

  Interfaces. \<open>journal\<close> (a record replayed from events; the runs), \<open>succession\<close> (a chain of accepted rows; decisions),
  \<open>ordered_index\<close> (a range query over a sorted set; changed paths), \<open>timed_plan\<close> (a plan valid within a window; effects and
  repairs), \<open>scan_counter\<close> (a counter bounded by the budget; bytes, files, directories, odd entries), \<open>quiet_frame\<close> and
  \<open>effect_frame\<close> (a relation kept by the updates of an executor is kept by the whole executor; the table of executions,
  the evidence of a cleanup, the started processes), \<open>step_frame\<close>, \<open>dialogue_frame\<close> and \<open>copilot_dialogue\<close> (a
  preorder kept by the reads and sends of a dialogue is kept by the drivers; the scope, the messages sent). Each is
  interpreted on the model's definitions in the theory that provides them.

  Bounds and fuel. No definition carries an artificial bound. The loops end for the reasons the code has: the scan by its
  budget, the pages of a provider by their limit of four, the copy of a database by its five seconds (each answer but
  the last sleeps ten milliseconds, so at most 501 steps). The reads of a dialogue end because the clock passes the
  deadline (\<open>clock_runs\<close>: the elapsed time passes every bound for good), the loops over messages because at most
  10000 frames are read; \<open>Agent_Ending\<close> proves that every one of them returns.

  Conditions worth knowing. A property of imported lifecycle events about sessions holds where rows agree with their
  payloads and no session was rebound; \<open>rebound_session_is_reopened\<close> shows the other case. The properties of one
  execution speak of every effect but the continuation of an agent, whose execution is begun and closed by the durable
  store (\<open>Durable_Store\<close>, \<open>Durable_Runtime\<close>). A complete stamp says what git and the file system answered at its start and its
  end, not in between.

  Not modelled: the process groups, pipes and reader threads of a child beyond the chunks they deliver, and the
  destructor that ends a child; the Windows calls that list processes and set access rules (\<open>windows.rs\<close>,
  \<open>process_graph.rs\<close>); the file walk and the two handlers of \<open>durable_verify.rs\<close>; the collection of health
  signals (\<open>health_scan.rs\<close>, \<open>profile_health.rs\<close>); manifest import and history queries of \<open>project_tools.rs\<close>, the
  queries of \<open>telemetry_store.rs\<close> and \<open>capability_context.rs\<close>; the schema upgrades; the command line. Overwriting
  secrets in memory has no counterpart in the model. Crashes between two statements are not steps of their own.
\<close>

end
